(* ===== verification/Prelude.thy ===== *)
theory Prelude
  imports Main "HOL-Library.Word" "HOL-Library.Multiset"
begin

section \<open>Prelude: containers, integers and contracts shared by the components\<close>

text \<open>
  The C++ containers the components keep their state in, with the laws their proofs use:
  \<^item> \<open>std::map\<close> is an association list ordered by key (\<open>om_put\<close>, \<open>om_del\<close>, \<open>om_upd\<close>,
    looked up with \<open>map_of\<close>), because the code iterates its maps in key order;
  \<^item> \<open>std::multimap\<close> is an association list ordered by key in which an insertion goes behind the
    entries with an equal key (\<open>mm_insert\<close>);
  \<^item> \<open>std::set\<close> is an ordered list without repetition, built with \<open>insort_insert\<close>
    (\<open>set_ok\<close>).
  Two locales state the contracts the components share: \<open>keyed_store\<close> (what a lookup returns
  after an insertion or an erasure) and \<open>guarded_run\<close> (an operation that keeps an invariant keeps
  it over every sequence of operations).
\<close>

unbundle bit_operations_syntax

type_synonym u8 = "8 word"
type_synonym u16 = "16 word"
type_synonym u32 = "32 word"
type_synonym u64 = "64 word"

named_theorems std_simps

named_theorems std_intros

subsection \<open>Failing computations\<close>

text \<open>A computation that can throw, assert or run into undefined behaviour returns \<open>Inl\<close> of its error;
  \<open>and_then\<close> runs the next one on a result.\<close>

fun and_then :: "'e + 'a \<Rightarrow> ('a \<Rightarrow> 'e + 'b) \<Rightarrow> 'e + 'b" where
  "and_then (Inl e) f = Inl e"
| "and_then (Inr x) f = f x"

lemma and_then_Inr [std_simps]: "and_then m f = Inr y \<longleftrightarrow> (\<exists>x. m = Inr x \<and> f x = Inr y)"
  by (cases m) auto

lemma and_then_assoc: "and_then (and_then m f) g = and_then m (\<lambda>x. and_then (f x) g)"
  by (cases m) auto

fun ok_and :: "('a \<Rightarrow> bool) \<Rightarrow> 'e + 'a \<Rightarrow> bool" where
  "ok_and P (Inl e) = False"
| "ok_and P (Inr x) = P x"

lemma ok_and_iff: "ok_and P m \<longleftrightarrow> (\<exists>x. m = Inr x \<and> P x)"
  by (cases m) auto

lemma ok_and_then: "ok_and (\<lambda>x. ok_and P (f x)) m \<Longrightarrow> ok_and P (and_then m f)"
  by (cases m) auto

lemma ok_and_mono: "ok_and P m \<Longrightarrow> (\<And>x. P x \<Longrightarrow> Q x) \<Longrightarrow> ok_and Q m"
  by (cases m) auto

subsection \<open>Machine integers\<close>

lemma take_bit_small [std_simps]: "uint w < 2 ^ n \<Longrightarrow> take_bit n w = (w :: 'a::len word)"
  by (simp add: word_uint_eq_iff unsigned_take_bit_eq take_bit_int_eq_self)

lemma uint_ucast_up [std_simps]:
  "LENGTH('a) \<le> LENGTH('b) \<Longrightarrow> uint (ucast (w :: 'a::len word) :: 'b::len word) = uint w"
proof -
  assume "LENGTH('a) \<le> LENGTH('b)"
  then have "(2 :: int) ^ LENGTH('a) \<le> 2 ^ LENGTH('b)" by simp
  moreover have "uint w < 2 ^ LENGTH('a)" by (rule unsigned_less)
  ultimately have "uint w < 2 ^ LENGTH('b)" by linarith
  then show ?thesis by (simp add: unsigned_ucast_eq take_bit_int_eq_self)
qed

lemma ucast_inj_up [std_simps]:
  "LENGTH('a) \<le> LENGTH('b) \<Longrightarrow>
     (ucast (w :: 'a::len word) :: 'b::len word) = ucast v \<longleftrightarrow> w = v"
  by (metis uint_ucast_up word_uint_eq_iff)

lemma word_less_Suc: "w \<noteq> - 1 \<Longrightarrow> w < w + (1 :: 'a::len word)"
proof -
  assume "w \<noteq> - 1"
  then have "1 + w \<noteq> 0" by (metis add.commute eq_neg_iff_add_eq_0)
  then have "unat (1 + w) = Suc (unat w)" by (rule unatSuc)
  then show ?thesis by (simp add: word_less_nat_alt add.commute)
qed

subsection \<open>std::map\<close>

fun om_put :: "'k::linorder \<Rightarrow> 'v \<Rightarrow> ('k \<times> 'v) list \<Rightarrow> ('k \<times> 'v) list" where
  "om_put k v [] = [(k, v)]"
| "om_put k v ((a, b) # m) =
     (if k < a then (k, v) # (a, b) # m
      else if k = a then (k, v) # m
      else (a, b) # om_put k v m)"

definition om_del :: "'k \<Rightarrow> ('k \<times> 'v) list \<Rightarrow> ('k \<times> 'v) list" where
  "om_del k m = filter (\<lambda>(a, b). a \<noteq> k) m"

definition om_upd :: "'k \<Rightarrow> ('v \<Rightarrow> 'v) \<Rightarrow> ('k \<times> 'v) list \<Rightarrow> ('k \<times> 'v) list" where
  "om_upd k f m = map (\<lambda>(a, b). (a, if a = k then f b else b)) m"

definition om_ok :: "('k::linorder \<times> 'v) list \<Rightarrow> bool" where
  "om_ok m = sorted_wrt (<) (map fst m)"

lemma om_ok_Nil [simp]: "om_ok []"
  by (simp add: om_ok_def)

lemma om_ok_Cons: "om_ok ((a, b) # m) \<longleftrightarrow> (\<forall>k \<in> fst ` set m. a < k) \<and> om_ok m"
  by (auto simp: om_ok_def)

lemma om_ok_distinct: "om_ok m \<Longrightarrow> distinct (map fst m)"
  by (simp add: om_ok_def strict_sorted_iff)

lemma map_of_om_put [simp, std_simps]: "map_of (om_put k v m) = (map_of m)(k \<mapsto> v)"
  by (induction k v m rule: om_put.induct) (auto simp: fun_eq_iff)

lemma map_of_om_del [simp, std_simps]: "map_of (om_del k m) = (map_of m)(k := None)"
  by (induction m) (auto simp: om_del_def fun_eq_iff)

lemma map_of_om_upd [simp, std_simps]:
  "map_of (om_upd k f m) = (map_of m)(k := map_option f (map_of m k))"
  by (induction m) (auto simp: om_upd_def fun_eq_iff)

lemma om_put_not_Nil [simp]: "om_put k v m \<noteq> []"
  by (induction k v m rule: om_put.induct) auto

lemma keys_om_put [simp, std_simps]: "fst ` set (om_put k v m) = insert k (fst ` set m)"
  by (induction k v m rule: om_put.induct) auto

lemma set_om_put: "om_ok m \<Longrightarrow>
    set (om_put k v m) = insert (k, v) {p \<in> set m. fst p \<noteq> k}"
proof (induction k v m rule: om_put.induct)
  case (2 k v a b m)
  then have f: "k \<le> a \<Longrightarrow> (k, y) \<notin> set m" for y
    using leD by (fastforce simp: om_ok_Cons)
  show ?case
  proof (cases "k \<le> a")
    case True
    with f have "(k, y) \<notin> set m" for y by blast
    with True show ?thesis by (cases "k = a") auto
  next
    case False
    with 2 have "set (om_put k v m) = insert (k, v) {p \<in> set m. fst p \<noteq> k}"
      by (simp add: om_ok_Cons)
    with False show ?thesis by auto
  qed
qed simp

lemma set_om_del [simp, std_simps]: "set (om_del k m) = {p \<in> set m. fst p \<noteq> k}"
  by (auto simp: om_del_def)

lemma set_om_upd: "set (om_upd k f m) = (\<lambda>(a, b). (a, if a = k then f b else b)) ` set m"
  by (simp add: om_upd_def)

lemma keys_om_upd [simp, std_simps]: "map fst (om_upd k f m) = map fst m"
  by (induction m) (auto simp: om_upd_def)

lemma om_put_ok [simp, std_intros]: "om_ok m \<Longrightarrow> om_ok (om_put k v m)"
proof (induction k v m rule: om_put.induct)
  case (2 k v a b m)
  then show ?case
    using keys_om_put [of k v m] by (auto simp: om_ok_Cons)
qed (simp add: om_ok_def)

lemma om_del_ok [simp, std_intros]: "om_ok m \<Longrightarrow> om_ok (om_del k m)"
  by (induction m) (auto simp: om_ok_Cons om_del_def)

lemma om_upd_ok [simp, std_intros]: "om_ok m \<Longrightarrow> om_ok (om_upd k f m)"
  by (simp add: om_ok_def)

lemma om_get_iff: "om_ok m \<Longrightarrow> map_of m k = Some v \<longleftrightarrow> (k, v) \<in> set m"
  by (rule map_of_eq_Some_iff [OF om_ok_distinct])

lemma om_put_same_key: "om_ok m \<Longrightarrow> map_of m k \<noteq> None \<Longrightarrow> map fst (om_put k v m) = map fst m"
proof (induction k v m rule: om_put.induct)
  case (2 k v a b m)
  show ?case
  proof (cases "k = a")
    case False
    with "2.prems" have "map_of m k \<noteq> None" by simp
    then have "k \<in> fst ` set m" by (force dest: map_of_SomeD)
    with "2.prems"(1) have "a < k" by (auto simp: om_ok_Cons)
    with False "2.prems" "2.IH" show ?thesis by (auto simp: om_ok_Cons)
  qed simp
qed simp

lemma om_del_put_fresh:
  "om_ok m \<Longrightarrow> map_of m k = None \<Longrightarrow> om_del k (om_put k v m) = m"
proof (induction k v m rule: om_put.induct)
  case (2 k v a b m)
  then have "k \<notin> fst ` set m" by (auto simp: map_of_eq_None_iff split: if_splits)
  then have "om_del k m = m"
    by (induction m) (auto simp: om_del_def)
  with 2 show ?case by (auto simp: om_ok_Cons om_del_def)
qed (simp add: om_del_def)

lemma om_put_get_same: "om_ok m \<Longrightarrow> map_of m k = Some v \<Longrightarrow> om_put k v m = m"
proof (induction k v m rule: om_put.induct)
  case (2 k v a b m)
  show ?case
  proof (cases "k = a")
    case False
    with "2.prems" have "k \<in> fst ` set m" by (force dest: map_of_SomeD)
    with "2.prems"(1) have "a < k" by (auto simp: om_ok_Cons)
    with False "2.prems" "2.IH" show ?thesis by (auto simp: om_ok_Cons)
  qed (use "2.prems" in simp)
qed simp

text \<open>An ordered map is determined by what its keys are bound to.\<close>

lemma om_as_keys: "om_ok m \<Longrightarrow> m = map (\<lambda>k. (k, the (map_of m k))) (map fst m)"
proof -
  assume "om_ok m"
  then have "map_of m (fst x) = Some (snd x)" if "x \<in> set m" for x
    using that by (simp add: om_get_iff)
  then have "map (\<lambda>x. (fst x, the (map_of m (fst x)))) m = m" by (intro map_idI) simp
  then show ?thesis by (simp add: comp_def)
qed

lemma om_eqI:
  assumes "om_ok m" "om_ok n" "map_of m = map_of n"
  shows "m = n"
proof -
  have "set (map fst m) = set (map fst n)"
    using assms(3) by (metis dom_map_of_conv_image_fst list.set_map)
  with assms(1,2) have "map fst m = map fst n"
    by (intro sorted_distinct_set_unique) (simp_all add: om_ok_def strict_sorted_iff)
  with om_as_keys [OF assms(1)] om_as_keys [OF assms(2)] assms(3) show ?thesis by metis
qed

text \<open>Sums over a map, for counters the code keeps beside its containers.\<close>

definition om_sum :: "('k \<Rightarrow> 'v \<Rightarrow> int) \<Rightarrow> ('k \<times> 'v) list \<Rightarrow> int" where
  "om_sum g m = sum_list (map (\<lambda>(k, v). g k v) m)"

definition om_at :: "('k \<Rightarrow> 'v \<Rightarrow> int) \<Rightarrow> ('k \<times> 'v) list \<Rightarrow> 'k \<Rightarrow> int" where
  "om_at g m k = (case map_of m k of None \<Rightarrow> 0 | Some v \<Rightarrow> g k v)"

lemma om_sum_simps [simp]: "om_sum g [] = 0" "om_sum g ((k, v) # m) = g k v + om_sum g m"
  by (simp_all add: om_sum_def)

lemma om_sum_put: "om_ok m \<Longrightarrow> om_sum g (om_put k v m) = om_sum g m - om_at g m k + g k v"
proof (induction k v m rule: om_put.induct)
  case (2 k v a b m)
  have ok: "om_ok m" and lt: "\<forall>j \<in> fst ` set m. a < j"
    using "2.prems" by (simp_all add: om_ok_Cons)
  from lt have "map_of m k = None" if "k \<le> a"
    using that leD by (fastforce simp: map_of_eq_None_iff)
  then show ?case
    using "2.IH" [OF _ _ ok] by (cases "k < a"; cases "k = a") (simp_all add: om_at_def)
qed (simp add: om_at_def)

lemma om_sum_upd:
  "om_ok m \<Longrightarrow> om_sum g (om_upd k f m) =
     om_sum g m - om_at g m k + (case map_of m k of None \<Rightarrow> 0 | Some v \<Rightarrow> g k (f v))"
proof (induction m)
  case (Cons x m)
  obtain a b where x: "x = (a, b)" by force
  with Cons.prems have "om_ok m" "map_of m a = None"
    by (auto simp: om_ok_Cons map_of_eq_None_iff)
  moreover have "om_upd k f (x # m) = (a, if a = k then f b else b) # om_upd k f m"
    by (simp add: om_upd_def x)
  ultimately show ?case using Cons.IH by (auto simp: x om_at_def)
qed (simp add: om_upd_def om_at_def)

lemma om_sum_del: "om_ok m \<Longrightarrow> om_sum g (om_del k m) = om_sum g m - om_at g m k"
proof (induction m)
  case (Cons x m)
  obtain a b where x: "x = (a, b)" by force
  with Cons.prems have "om_ok m" "map_of m a = None"
    by (auto simp: om_ok_Cons map_of_eq_None_iff)
  moreover have "om_del k (x # m) = (if a \<noteq> k then (a, b) # om_del k m else om_del k m)"
    by (simp add: om_del_def x)
  ultimately show ?case using Cons.IH by (auto simp: x om_at_def)
qed (simp add: om_del_def om_at_def)

lemma om_sum_nonneg: "\<forall>(k, v) \<in> set m. 0 \<le> g k v \<Longrightarrow> 0 \<le> om_sum g m"
  by (induction m) auto

lemma om_sum_zero_iff:
  "\<forall>(k, v) \<in> set m. 0 \<le> g k v \<Longrightarrow> om_sum g m = 0 \<longleftrightarrow> (\<forall>(k, v) \<in> set m. g k v = 0)"
proof (induction m)
  case (Cons x m)
  then have "0 \<le> om_sum g m" by (intro om_sum_nonneg) simp
  with Cons show ?case by (cases x) auto
qed simp

subsection \<open>std::multimap\<close>

fun mm_insert :: "'k::linorder \<Rightarrow> 'v \<Rightarrow> ('k \<times> 'v) list \<Rightarrow> ('k \<times> 'v) list" where
  "mm_insert k v [] = [(k, v)]"
| "mm_insert k v ((a, b) # m) = (if k < a then (k, v) # (a, b) # m else (a, b) # mm_insert k v m)"

definition mm_ok :: "('k::linorder \<times> 'v) list \<Rightarrow> bool" where
  "mm_ok m = sorted (map fst m)"

lemma mm_ok_Nil [simp]: "mm_ok []"
  by (simp add: mm_ok_def)

lemma mm_ok_Cons [simp]: "mm_ok ((a, b) # m) \<longleftrightarrow> (\<forall>p \<in> set m. a \<le> fst p) \<and> mm_ok m"
  by (auto simp: mm_ok_def)

lemma mset_mm_insert [simp, std_simps]: "mset (mm_insert k v m) = add_mset (k, v) (mset m)"
  by (induction k v m rule: mm_insert.induct) auto

lemma set_mm_insert [simp, std_simps]: "set (mm_insert k v m) = insert (k, v) (set m)"
  by (induction k v m rule: mm_insert.induct) auto

lemma length_mm_insert [simp, std_simps]: "length (mm_insert k v m) = Suc (length m)"
  by (induction k v m rule: mm_insert.induct) auto

lemma mm_insert_ok [simp, std_intros]: "mm_ok m \<Longrightarrow> mm_ok (mm_insert k v m)"
  by (induction k v m rule: mm_insert.induct) auto

lemma mm_filter_ok [simp, std_intros]: "mm_ok m \<Longrightarrow> mm_ok (filter P m)"
  by (induction m) auto

lemma mm_fold_insert_ok [std_intros]:
  "mm_ok m \<Longrightarrow> mm_ok (fold (\<lambda>(k, v). mm_insert k v) xs m)"
  by (induction xs arbitrary: m) auto

lemma mset_mm_fold_insert [std_simps]:
  "mset (fold (\<lambda>(k, v). mm_insert k v) xs m) = mset xs + mset m"
  by (induction xs arbitrary: m) auto

lemma find_mm_insert:
  "\<forall>p \<in> set m. \<not> P p \<Longrightarrow> P (k, v) \<Longrightarrow> find P (mm_insert k v m) = Some (k, v)"
  by (induction k v m rule: mm_insert.induct) auto

lemma filter_mm_insert_not: "\<not> P (k, v) \<Longrightarrow> filter P (mm_insert k v m) = filter P m"
  by (induction k v m rule: mm_insert.induct) auto

lemma filter_mm_insert:
  "\<forall>p \<in> set m. \<not> P p \<Longrightarrow> P (k, v) \<Longrightarrow> filter P (mm_insert k v m) = [(k, v)]"
  by (induction k v m rule: mm_insert.induct) (auto simp: filter_empty_conv)

lemma set_mm_fold_insert [std_simps]:
  "set (fold (\<lambda>(k, v). mm_insert k v) xs m) = set xs \<union> set m"
  by (induction xs arbitrary: m) auto

lemma distinct_mm_insert [std_simps]:
  "distinct (map snd (mm_insert k v m)) \<longleftrightarrow> v \<notin> snd ` set m \<and> distinct (map snd m)"
  by (induction k v m rule: mm_insert.induct) auto

text \<open>An insertion never overtakes an entry with the same key: the entries of each key keep the
  order in which they came.\<close>

lemma mm_insert_stable:
  assumes "mm_ok m"
  shows "filter (\<lambda>p. fst p = j) (mm_insert k v m) =
    filter (\<lambda>p. fst p = j) m @ (if j = k then [(k, v)] else [])"
  using assms
proof (induction k v m rule: mm_insert.induct)
  case (2 k v a b m)
  show ?case
  proof (cases "k < a")
    case True
    with "2.prems" have "filter (\<lambda>p. fst p = k) ((a, b) # m) = []"
      by (auto simp: filter_empty_conv)
    with True show ?thesis by auto
  next
    case False
    with 2 show ?thesis by auto
  qed
qed simp

subsection \<open>std::set\<close>

definition set_ok :: "'a::linorder list \<Rightarrow> bool" where
  "set_ok xs = sorted_wrt (<) xs"

lemma set_ok_Nil [simp]: "set_ok []"
  by (simp add: set_ok_def)

lemma set_ok_Cons [simp]: "set_ok (x # xs) \<longleftrightarrow> (\<forall>y \<in> set xs. x < y) \<and> set_ok xs"
  by (simp add: set_ok_def)

lemma set_ok_iff: "set_ok xs \<longleftrightarrow> sorted xs \<and> distinct xs"
  by (simp add: set_ok_def strict_sorted_iff)

lemma set_ok_insert [simp, std_intros]: "set_ok xs \<Longrightarrow> set_ok (List.insort_insert x xs)"
  by (simp add: set_ok_iff sorted_insort_insert distinct_insort_insert)

lemma set_ok_filter [simp, std_intros]: "set_ok xs \<Longrightarrow> set_ok (filter P xs)"
  by (simp add: set_ok_def sorted_wrt_filter)

lemma set_ok_unique: "set_ok xs \<Longrightarrow> set_ok ys \<Longrightarrow> set xs = set ys \<Longrightarrow> xs = ys"
  by (simp add: set_ok_iff sorted_distinct_set_unique)

subsection \<open>Contracts\<close>

text \<open>What a client of a keyed container relies on, whatever the container is.\<close>

locale keyed_store =
  fixes lookup :: "'m \<Rightarrow> 'k \<Rightarrow> 'v option"
    and store :: "'k \<Rightarrow> 'v \<Rightarrow> 'm \<Rightarrow> 'm"
    and erase :: "'k \<Rightarrow> 'm \<Rightarrow> 'm"
    and wf :: "'m \<Rightarrow> bool"
  assumes lookup_store: "wf m \<Longrightarrow> lookup (store k v m) j = (if j = k then Some v else lookup m j)"
    and lookup_erase: "wf m \<Longrightarrow> lookup (erase k m) j = (if j = k then None else lookup m j)"
    and wf_store: "wf m \<Longrightarrow> wf (store k v m)"
    and wf_erase: "wf m \<Longrightarrow> wf (erase k m)"
begin

lemma store_get: "wf m \<Longrightarrow> lookup (store k v m) k = Some v"
  by (simp add: lookup_store)

lemma store_frame: "wf m \<Longrightarrow> j \<noteq> k \<Longrightarrow> lookup (store k v m) j = lookup m j"
  by (simp add: lookup_store)

lemma erase_get: "wf m \<Longrightarrow> lookup (erase k m) k = None"
  by (simp add: lookup_erase)

lemma store_erase: "wf m \<Longrightarrow> lookup (erase k (store k v m)) j = lookup (erase k m) j"
  by (simp add: lookup_store lookup_erase wf_store)

lemma wf_stores: "wf m \<Longrightarrow> wf (fold (\<lambda>(k, v). store k v) xs m)"
  by (induction xs arbitrary: m) (auto simp: wf_store)

lemma lookup_stores_frame:
  "wf m \<Longrightarrow> j \<notin> fst ` set xs \<Longrightarrow> lookup (fold (\<lambda>(k, v). store k v) xs m) j = lookup m j"
  by (induction xs arbitrary: m) (auto simp: wf_store lookup_store)

lemma lookup_stores:
  "wf m \<Longrightarrow> distinct (map fst xs) \<Longrightarrow> (k, v) \<in> set xs \<Longrightarrow>
    lookup (fold (\<lambda>(k, v). store k v) xs m) k = Some v"
proof (induction xs arbitrary: m)
  case (Cons x xs)
  obtain a b where x: "x = (a, b)" by force
  show ?case
  proof (cases "(k, v) \<in> set xs")
    case True
    with Cons x show ?thesis by (simp add: wf_store)
  next
    case False
    with Cons.prems x have "k = a" "v = b" "k \<notin> fst ` set xs" by auto
    with Cons.prems x show ?thesis
      by (simp add: lookup_stores_frame wf_store lookup_store)
  qed
qed simp

end

interpretation std_map: keyed_store map_of om_put om_del om_ok
  by unfold_locales auto

text \<open>An operation that keeps an invariant keeps it over every sequence of admitted operations.\<close>

locale guarded_run =
  fixes step :: "'op \<Rightarrow> 's \<Rightarrow> 's"
    and admitted :: "'op \<Rightarrow> bool"
    and inv :: "'s \<Rightarrow> bool"
  assumes step_inv: "inv s \<Longrightarrow> admitted x \<Longrightarrow> inv (step x s)"
begin

lemma run_inv: "inv s \<Longrightarrow> list_all admitted xs \<Longrightarrow> inv (fold step xs s)"
  by (induction xs arbitrary: s) (auto intro: step_inv)

lemma run_prefix_inv: "inv s \<Longrightarrow> list_all admitted (xs @ ys) \<Longrightarrow> inv (fold step xs s)"
  by (rule run_inv) auto

end

end
