(* ===== verification/Timer.thy ===== *)
theory Timer
  imports Prelude "HOL-Library.Signed_Division"
begin

section \<open>Timers (common/Utilities/Timer.h)\<close>

text \<open>
  The time differences and the four countdown structures the update loops run on. \<open>uint32\<close> and
  \<open>int32\<close> values are 32-bit words, read with \<open>sint\<close> where the code compares them signed, so that the
  wrap-around of the millisecond clock is part of the model. \<open>time_t\<close> is 64 bits of seconds or
  milliseconds and never wraps in a run of the server: it is an \<open>int\<close>. The modulus by a zero interval
  in \<open>IntervalTimer::Reset\<close> is undefined in C++; the model returns \<open>None\<close> there.
\<close>

definition getMSTimeDiff :: "u32 \<Rightarrow> u32 \<Rightarrow> u32" where
  "getMSTimeDiff oldMSTime newMSTime =
     (if oldMSTime > newMSTime then (0xFFFFFFFF - oldMSTime) + newMSTime
      else newMSTime - oldMSTime)"

text \<open>Without a wrap of the clock the difference is exact; across a wrap it is one short.\<close>

lemma getMSTimeDiff_exact: "old \<le> new \<Longrightarrow> getMSTimeDiff old new = new - old"
  by (simp add: getMSTimeDiff_def)

lemma getMSTimeDiff_wrapped: "new < old \<Longrightarrow> getMSTimeDiff old new = new - old - 1"
  by (simp add: getMSTimeDiff_def)

subsection \<open>IntervalTimer\<close>

record IntervalTimer =
  it_interval :: int
  it_current :: int

definition IntervalTimer_init :: IntervalTimer where
  "IntervalTimer_init = \<lparr>it_interval = 0, it_current = 0\<rparr>"

definition IntervalTimer_Update :: "int \<Rightarrow> IntervalTimer \<Rightarrow> IntervalTimer" where
  "IntervalTimer_Update diff t =
     (let c = it_current t + diff in t\<lparr>it_current := if c < 0 then 0 else c\<rparr>)"

definition IntervalTimer_Passed :: "IntervalTimer \<Rightarrow> bool" where
  "IntervalTimer_Passed t = (it_current t \<ge> it_interval t)"

definition IntervalTimer_Reset :: "IntervalTimer \<Rightarrow> IntervalTimer option" where
  "IntervalTimer_Reset t =
     (if it_current t \<ge> it_interval t
      then if it_interval t = 0 then None
           else Some (t\<lparr>it_current := it_current t smod it_interval t\<rparr>)
      else Some t)"

definition IntervalTimer_SetCurrent :: "int \<Rightarrow> IntervalTimer \<Rightarrow> IntervalTimer" where
  "IntervalTimer_SetCurrent c t = t\<lparr>it_current := c\<rparr>"

definition IntervalTimer_SetInterval :: "int \<Rightarrow> IntervalTimer \<Rightarrow> IntervalTimer" where
  "IntervalTimer_SetInterval i t = t\<lparr>it_interval := i\<rparr>"

text \<open>A configured timer counts from 0, and a reset keeps the time that ran over.\<close>

definition it_inv :: "IntervalTimer \<Rightarrow> bool" where
  "it_inv t \<longleftrightarrow> 0 < it_interval t \<and> 0 \<le> it_current t"

lemma IntervalTimer_Update_inv: "it_inv t \<Longrightarrow> it_inv (IntervalTimer_Update d t)"
  by (simp add: it_inv_def IntervalTimer_Update_def Let_def)

lemma IntervalTimer_Reset_ok:
  assumes "it_inv t"
  shows "IntervalTimer_Reset t = Some (t\<lparr>it_current := it_current t mod it_interval t\<rparr>)"
  using assms
  by (cases t) (auto simp: it_inv_def IntervalTimer_Reset_def smod_mod_positive)

lemma IntervalTimer_Reset_not_passed:
  assumes "it_inv t" "IntervalTimer_Reset t = Some t'"
  shows "\<not> IntervalTimer_Passed t' \<and> it_inv t'"
  using assms pos_mod_bound [of "it_interval t" "it_current t"]
  by (cases t) (auto simp: IntervalTimer_Reset_ok it_inv_def IntervalTimer_Passed_def not_le)

text \<open>The update loop of a map or of the world: one tick each, and a reset whenever the timer has
  passed. It returns how often the timer fired.\<close>

fun it_ticks :: "int list \<Rightarrow> IntervalTimer \<Rightarrow> (nat \<times> IntervalTimer) option" where
  "it_ticks [] t = Some (0, t)"
| "it_ticks (d # ds) t =
     (let t1 = IntervalTimer_Update d t in
      if IntervalTimer_Passed t1
      then (case IntervalTimer_Reset t1 of
              None \<Rightarrow> None
            | Some t2 \<Rightarrow> (case it_ticks ds t2 of None \<Rightarrow> None | Some (n, t3) \<Rightarrow> Some (Suc n, t3)))
      else it_ticks ds t1)"

lemma it_ticks_current:
  assumes "it_inv t" "list_all (\<lambda>d. 0 \<le> d) ds" "it_current t < it_interval t"
  shows "\<exists>n. it_ticks ds t =
    Some (n, t\<lparr>it_current := (it_current t + sum_list ds) mod it_interval t\<rparr>)"
  using assms
proof (induction ds arbitrary: t)
  case Nil
  then show ?case by (simp add: it_inv_def)
next
  case (Cons d ds)
  define t1 where "t1 = IntervalTimer_Update d t"
  from Cons.prems have t1: "t1 = t\<lparr>it_current := it_current t + d\<rparr>"
    by (auto simp: t1_def it_inv_def IntervalTimer_Update_def Let_def)
  with Cons.prems have inv1: "it_inv t1" by (simp add: it_inv_def)
  show ?case
  proof (cases "IntervalTimer_Passed t1")
    case True
    define t2 where "t2 = t1\<lparr>it_current := it_current t1 mod it_interval t1\<rparr>"
    have r: "IntervalTimer_Reset t1 = Some t2"
      by (simp add: IntervalTimer_Reset_ok [OF inv1] t2_def)
    from inv1 have "it_inv t2" "it_current t2 < it_interval t2"
      by (auto simp: t2_def it_inv_def)
    with Cons obtain n where "it_ticks ds t2 =
        Some (n, t2\<lparr>it_current := (it_current t2 + sum_list ds) mod it_interval t2\<rparr>)"
      by fastforce
    with True r show ?thesis
      by (simp add: Let_def t1_def [symmetric] t2_def t1 mod_add_left_eq add.assoc)
  next
    case False
    with inv1 have "it_current t1 < it_interval t1"
      by (simp add: IntervalTimer_Passed_def)
    with Cons inv1 False show ?thesis
      by (fastforce simp: Let_def t1_def [symmetric] t1 add.assoc)
  qed
qed

text \<open>With ticks no longer than the interval the timer fires once for every interval elapsed.\<close>

lemma it_ticks_count:
  assumes "it_inv t" "list_all (\<lambda>d. 0 \<le> d \<and> d \<le> it_interval t) ds"
    "it_current t < it_interval t" "it_ticks ds t = Some (n, t')"
  shows "int n = (it_current t + sum_list ds) div it_interval t"
  using assms
proof (induction ds arbitrary: t n)
  case Nil
  then show ?case by (simp add: it_inv_def)
next
  case (Cons d ds)
  define t1 where "t1 = IntervalTimer_Update d t"
  from Cons.prems have t1: "t1 = t\<lparr>it_current := it_current t + d\<rparr>"
    by (auto simp: t1_def it_inv_def IntervalTimer_Update_def Let_def)
  with Cons.prems have inv1: "it_inv t1" by (simp add: it_inv_def)
  show ?case
  proof (cases "IntervalTimer_Passed t1")
    case True
    define t2 where "t2 = t1\<lparr>it_current := it_current t1 mod it_interval t1\<rparr>"
    have r: "IntervalTimer_Reset t1 = Some t2"
      by (simp add: IntervalTimer_Reset_ok [OF inv1] t2_def)
    from inv1 have t2: "it_inv t2" "it_current t2 < it_interval t2"
      by (auto simp: t2_def it_inv_def)
    from Cons.prems(4) True r obtain m where m: "n = Suc m" "it_ticks ds t2 = Some (m, t')"
      by (auto simp: Let_def t1_def [symmetric] split: option.splits)
    have "int m = (it_current t2 + sum_list ds) div it_interval t"
      using Cons.IH [OF t2(1) _ t2(2) m(2)] Cons.prems(2) by (simp add: t2_def t1)
    moreover have "it_current t2 = it_current t + d - it_interval t"
    proof -
      from True Cons.prems have "0 \<le> it_current t + d - it_interval t"
          "it_current t + d - it_interval t < it_interval t"
        by (auto simp: IntervalTimer_Passed_def t1)
      then have "(it_current t + d - it_interval t) mod it_interval t =
          it_current t + d - it_interval t" by (rule mod_pos_pos_trivial)
      then have "(it_current t + d) mod it_interval t = it_current t + d - it_interval t"
        by (metis minus_mod_self2)
      then show ?thesis by (simp add: t2_def t1)
    qed
    ultimately have "int m = (it_current t + d - it_interval t + sum_list ds) div it_interval t"
      by (simp only:)
    then have "int m = (it_current t + d + sum_list ds - it_interval t) div it_interval t"
      by (simp add: algebra_simps)
    moreover define x where "x = it_current t + d + sum_list ds - it_interval t"
    moreover have "it_interval t \<noteq> 0" using Cons.prems(1) by (simp add: it_inv_def)
    then have "(x + it_interval t) div it_interval t = x div it_interval t + 1"
      by (rule div_add_self2)
    ultimately show ?thesis using m(1) by (simp add: add.assoc)
  next
    case False
    with inv1 have "it_current t1 < it_interval t1"
      by (simp add: IntervalTimer_Passed_def)
    with Cons.IH [OF inv1] Cons.prems False show ?thesis
      by (simp add: Let_def t1_def [symmetric] t1 add.assoc)
  qed
qed

subsection \<open>TimeTracker and TimeTrackerSmall\<close>

record TimeTracker =
  tt_expiry :: int

definition TimeTracker_Update :: "int \<Rightarrow> TimeTracker \<Rightarrow> TimeTracker" where
  "TimeTracker_Update diff t = t\<lparr>tt_expiry := tt_expiry t - diff\<rparr>"

definition TimeTracker_Passed :: "TimeTracker \<Rightarrow> bool" where
  "TimeTracker_Passed t = (tt_expiry t \<le> 0)"

definition TimeTracker_Reset :: "int \<Rightarrow> TimeTracker \<Rightarrow> TimeTracker" where
  "TimeTracker_Reset interval t = t\<lparr>tt_expiry := interval\<rparr>"

lemma TimeTracker_Updates:
  "tt_expiry (fold TimeTracker_Update ds t) = tt_expiry t - sum_list ds"
  by (induction ds arbitrary: t) (auto simp: TimeTracker_Update_def)

record TimeTrackerSmall =
  tts_expiry :: u32

definition TimeTrackerSmall_Update :: "u32 \<Rightarrow> TimeTrackerSmall \<Rightarrow> TimeTrackerSmall" where
  "TimeTrackerSmall_Update diff t = t\<lparr>tts_expiry := tts_expiry t - diff\<rparr>"

definition TimeTrackerSmall_Passed :: "TimeTrackerSmall \<Rightarrow> bool" where
  "TimeTrackerSmall_Passed t = (sint (tts_expiry t) \<le> 0)"

definition TimeTrackerSmall_Reset :: "u32 \<Rightarrow> TimeTrackerSmall \<Rightarrow> TimeTrackerSmall" where
  "TimeTrackerSmall_Reset interval t = t\<lparr>tts_expiry := interval\<rparr>"

lemma sint_minus_exact:
  fixes a b :: u32
  assumes "- (2 ^ 31) \<le> sint a - sint b" "sint a - sint b < 2 ^ 31"
  shows "sint (a - b) = sint a - sint b"
  using assms by (simp add: sint_word_ariths signed_take_bit_int_eq_self)

lemma sint_plus_exact:
  fixes a b :: u32
  assumes "- (2 ^ 31) \<le> sint a + sint b" "sint a + sint b < 2 ^ 31"
  shows "sint (a + b) = sint a + sint b"
  using assms by (simp add: sint_word_ariths signed_take_bit_int_eq_self)

text \<open>A tracker passes exactly when the elapsed time reaches the interval it was reset to, while both
  stay inside 31 bits.\<close>

lemma TimeTrackerSmall_passes:
  assumes "0 \<le> sint interval" "0 \<le> sint diff"
  shows "TimeTrackerSmall_Passed (TimeTrackerSmall_Update diff (TimeTrackerSmall_Reset interval t))
    \<longleftrightarrow> sint interval \<le> sint diff"
proof -
  have "sint interval < 2 ^ 31" "sint diff < 2 ^ 31"
    using sint_lt [of interval] sint_lt [of diff] by simp_all
  with assms have "sint (interval - diff) = sint interval - sint diff"
    by (intro sint_minus_exact) linarith+
  then show ?thesis
    by (simp add: TimeTrackerSmall_Passed_def TimeTrackerSmall_Update_def
        TimeTrackerSmall_Reset_def)
qed

subsection \<open>PeriodicTimer\<close>

record PeriodicTimer =
  pt_period :: u32
  pt_expireTime :: u32

definition PeriodicTimer_Update :: "u32 \<Rightarrow> PeriodicTimer \<Rightarrow> bool \<times> PeriodicTimer" where
  "PeriodicTimer_Update diff t =
     (let e = pt_expireTime t - diff in
      if sint e > 0 then (False, t\<lparr>pt_expireTime := e\<rparr>)
      else (True, t\<lparr>pt_expireTime := e + (if sint (pt_period t) > sint diff then pt_period t
                                       else diff)\<rparr>))"

definition PeriodicTimer_SetPeriodic :: "u32 \<Rightarrow> u32 \<Rightarrow> PeriodicTimer \<Rightarrow> PeriodicTimer" where
  "PeriodicTimer_SetPeriodic period start_time t =
     t\<lparr>pt_expireTime := start_time, pt_period := period\<rparr>"

definition PeriodicTimer_TUpdate :: "u32 \<Rightarrow> PeriodicTimer \<Rightarrow> PeriodicTimer" where
  "PeriodicTimer_TUpdate diff t = t\<lparr>pt_expireTime := pt_expireTime t - diff\<rparr>"

definition PeriodicTimer_TPassed :: "PeriodicTimer \<Rightarrow> bool" where
  "PeriodicTimer_TPassed t = (sint (pt_expireTime t) \<le> 0)"

definition PeriodicTimer_TReset :: "u32 \<Rightarrow> u32 \<Rightarrow> PeriodicTimer \<Rightarrow> PeriodicTimer" where
  "PeriodicTimer_TReset diff period t =
     t\<lparr>pt_expireTime := pt_expireTime t + (if sint period > sint diff then period else diff)\<rparr>"

text \<open>A running timer (its expiry in the future, at most one period away) stays running: an update
  fires exactly when the expiry is reached, and then re-arms without losing the overrun when the step is shorter
  than the period.\<close>

definition pt_inv :: "PeriodicTimer \<Rightarrow> bool" where
  "pt_inv t \<longleftrightarrow> 0 < sint (pt_expireTime t) \<and> sint (pt_expireTime t) \<le> sint (pt_period t)"

lemma PeriodicTimer_Update_exact:
  assumes inv: "pt_inv t" and d: "0 \<le> sint diff" "sint diff < sint (pt_period t)"
    and u: "PeriodicTimer_Update diff t = (fired, t')"
  shows "fired \<longleftrightarrow> sint (pt_expireTime t) \<le> sint diff"
    and "sint (pt_expireTime t') =
      sint (pt_expireTime t) - sint diff + (if fired then sint (pt_period t) else 0)"
    and "pt_inv t'"
proof -
  have b: "sint (pt_period t) < 2 ^ 31"
    using sint_lt [of "pt_period t"] by simp
  with inv d have e: "sint (pt_expireTime t - diff) = sint (pt_expireTime t) - sint diff"
    by (intro sint_minus_exact) (auto simp: pt_inv_def)
  with inv d b have p: "sint (pt_expireTime t) \<le> sint diff \<Longrightarrow>
      sint (pt_expireTime t - diff + pt_period t) =
      sint (pt_expireTime t) - sint diff + sint (pt_period t)"
    by (subst sint_plus_exact) (auto simp: pt_inv_def)
  show f: "fired \<longleftrightarrow> sint (pt_expireTime t) \<le> sint diff"
    using u e by (auto simp: PeriodicTimer_Update_def Let_def split: if_splits)
  show "sint (pt_expireTime t') =
      sint (pt_expireTime t) - sint diff + (if fired then sint (pt_period t) else 0)"
    using u d e p by (auto simp: PeriodicTimer_Update_def Let_def split: if_splits)
  with f inv d show "pt_inv t'"
    using u by (auto simp: pt_inv_def PeriodicTimer_Update_def Let_def split: if_splits)
qed

end
