(* ===== verification/EventMap.thy ===== *)
theory EventMap
  imports Prelude
begin

section \<open>EventMap (common/Utilities/EventMap.h, EventMap.cpp)\<close>

text \<open>
  The scheduler of the creature and instance scripts: a multimap from the time an event is due to
  the event, whose 64-bit value packs the phase mask (bits 48 to 63), the group mask (bits 32 to 47)
  and the id (bits 0 to 31). \<open>ScheduleEvent\<close> ors the two masks into a \<open>uint32\<close> parameter, so the
  conversion back to 32 bits is part of the definition. The overloads that draw the time from an
  interval take the value \<open>urand\<close> returned as an argument; the \<open>Milliseconds\<close> overloads convert
  with \<open>uint32\<close> and call the ones modelled.
\<close>

record EventMap =
  em_time :: u32
  em_phase :: u16
  em_eventMap :: "(u32 \<times> u64) list"
  em_lastEvent :: u64

definition EventMap_init :: EventMap where
  "EventMap_init = \<lparr>em_time = 0, em_phase = 0, em_eventMap = [], em_lastEvent = 0\<rparr>"

definition EventMap_Reset :: "EventMap \<Rightarrow> EventMap" where
  "EventMap_Reset m = m\<lparr>em_eventMap := [], em_time := 0, em_phase := 0\<rparr>"

definition EventMap_Update :: "u32 \<Rightarrow> EventMap \<Rightarrow> EventMap" where
  "EventMap_Update time m = m\<lparr>em_time := em_time m + time\<rparr>"

definition EventMap_GetPhaseMask :: "EventMap \<Rightarrow> u8" where
  "EventMap_GetPhaseMask m = ucast (em_phase m)"

definition EventMap_Empty :: "EventMap \<Rightarrow> bool" where
  "EventMap_Empty m = (em_eventMap m = [])"

definition EventMap_SetPhase :: "u16 \<Rightarrow> EventMap \<Rightarrow> EventMap" where
  "EventMap_SetPhase phase m =
     (if phase = 0 then m\<lparr>em_phase := 0\<rparr>
      else if phase \<le> 16 then m\<lparr>em_phase := push_bit (unat (phase - 1)) 1\<rparr>
      else m)"

definition EventMap_AddPhase :: "u16 \<Rightarrow> EventMap \<Rightarrow> EventMap" where
  "EventMap_AddPhase phase m =
     (if phase \<noteq> 0 \<and> phase \<le> 16
      then m\<lparr>em_phase := em_phase m OR push_bit (unat (phase - 1)) 1\<rparr> else m)"

definition EventMap_RemovePhase :: "u16 \<Rightarrow> EventMap \<Rightarrow> EventMap" where
  "EventMap_RemovePhase phase m =
     (if phase \<noteq> 0 \<and> phase \<le> 16
      then m\<lparr>em_phase := em_phase m AND NOT (push_bit (unat (phase - 1)) 1)\<rparr> else m)"

definition EventMap_IsInPhase :: "u16 \<Rightarrow> EventMap \<Rightarrow> bool" where
  "EventMap_IsInPhase phase m =
     (phase \<le> 16 \<and> (phase = 0 \<or> em_phase m AND push_bit (unat (phase - 1)) 1 \<noteq> 0))"

text \<open>\<open>eventId |= 1LL << n\<close> on a \<open>uint32 eventId\<close>: computed in 64 bits, stored in 32.\<close>

definition or_shifted :: "u32 \<Rightarrow> nat \<Rightarrow> u32" where
  "or_shifted eventId n = ucast ((ucast eventId :: u64) OR push_bit n 1)"

definition EventMap_ScheduleEvent :: "u32 \<Rightarrow> u32 \<Rightarrow> u16 \<Rightarrow> u16 \<Rightarrow> EventMap \<Rightarrow> EventMap" where
  "EventMap_ScheduleEvent eventId time grp phase m =
     (let e1 = (if grp \<noteq> 0 \<and> grp < 16 then or_shifted eventId (unat grp + 31) else eventId);
          e2 = (if phase \<noteq> 0 \<and> phase < 16 then or_shifted e1 (unat phase + 47) else e1)
      in m\<lparr>em_eventMap := mm_insert (em_time m + time) (ucast e2) (em_eventMap m)\<rparr>)"

definition EventMap_ScheduleNextEvent :: "u32 \<Rightarrow> EventMap \<Rightarrow> EventMap" where
  "EventMap_ScheduleNextEvent time m =
     m\<lparr>em_eventMap := mm_insert (em_time m + time) (em_lastEvent m + 1) (em_eventMap m)\<rparr>"

definition EventMap_Repeat :: "u32 \<Rightarrow> EventMap \<Rightarrow> EventMap" where
  "EventMap_Repeat time m =
     m\<lparr>em_eventMap := mm_insert (em_time m + time) (em_lastEvent m) (em_eventMap m)\<rparr>"

text \<open>The loop of \<open>ExecuteEvent\<close>: an event that is due but in none of the active phases is dropped,
  the first one that is due and in phase is returned.\<close>

definition em_blocked :: "u16 \<Rightarrow> u64 \<Rightarrow> bool" where
  "em_blocked ph v =
     (ph \<noteq> 0 \<and> v AND 0xFFFF000000000000 \<noteq> 0 \<and> \<not> drop_bit 48 v AND ucast ph \<noteq> 0)"

fun em_execute :: "u32 \<Rightarrow> u16 \<Rightarrow> (u32 \<times> u64) list \<Rightarrow> u64 option \<times> (u32 \<times> u64) list" where
  "em_execute t ph [] = (None, [])"
| "em_execute t ph ((k, v) # es) =
     (if k > t then (None, (k, v) # es)
      else if em_blocked ph v then em_execute t ph es
      else (Some v, es))"

definition EventMap_ExecuteEvent :: "EventMap \<Rightarrow> u32 \<times> EventMap" where
  "EventMap_ExecuteEvent m =
     (case em_execute (em_time m) (em_phase m) (em_eventMap m) of
        (None, es) \<Rightarrow> (0, m\<lparr>em_eventMap := es\<rparr>)
      | (Some v, es) \<Rightarrow> (ucast (v AND 0xFFFFFFFF), m\<lparr>em_lastEvent := v, em_eventMap := es\<rparr>))"

definition EventMap_DelayEvents_all :: "u32 \<Rightarrow> EventMap \<Rightarrow> EventMap" where
  "EventMap_DelayEvents_all delay m =
     m\<lparr>em_time := if delay < em_time m then em_time m - delay else 0\<rparr>"

definition em_in_group :: "u16 \<Rightarrow> u64 \<Rightarrow> bool" where
  "em_in_group grp v = (v AND push_bit (unat grp + 31) 1 \<noteq> 0)"

definition EventMap_DelayEvents :: "u32 \<Rightarrow> u16 \<Rightarrow> EventMap \<Rightarrow> EventMap" where
  "EventMap_DelayEvents delay grp m =
     (if grp = 0 \<or> grp > 16 \<or> EventMap_Empty m then m
      else let delayed = fold (\<lambda>(k, v). mm_insert (k + delay) v)
                           (filter (\<lambda>(k, v). em_in_group grp v) (em_eventMap m)) [];
               kept = filter (\<lambda>(k, v). \<not> em_in_group grp v) (em_eventMap m)
           in m\<lparr>em_eventMap := fold (\<lambda>(k, v). mm_insert k v) delayed kept\<rparr>)"

definition em_id_is :: "u32 \<Rightarrow> u64 \<Rightarrow> bool" where
  "em_id_is eventId v = (ucast eventId = v AND 0xFFFF)"

definition EventMap_CancelEvent :: "u32 \<Rightarrow> EventMap \<Rightarrow> EventMap" where
  "EventMap_CancelEvent eventId m =
     (if EventMap_Empty m then m
      else m\<lparr>em_eventMap := filter (\<lambda>(k, v). \<not> em_id_is eventId v) (em_eventMap m)\<rparr>)"

definition EventMap_RescheduleEvent :: "u32 \<Rightarrow> u32 \<Rightarrow> u16 \<Rightarrow> u16 \<Rightarrow> EventMap \<Rightarrow> EventMap" where
  "EventMap_RescheduleEvent eventId time grp phase m =
     EventMap_ScheduleEvent eventId time grp phase (EventMap_CancelEvent eventId m)"

definition EventMap_CancelEventGroup :: "u16 \<Rightarrow> EventMap \<Rightarrow> EventMap" where
  "EventMap_CancelEventGroup grp m =
     (if grp = 0 \<or> grp > 16 \<or> EventMap_Empty m then m
      else m\<lparr>em_eventMap := filter (\<lambda>(k, v). \<not> em_in_group grp v) (em_eventMap m)\<rparr>)"

definition EventMap_GetNextEventTime :: "u32 \<Rightarrow> EventMap \<Rightarrow> u32" where
  "EventMap_GetNextEventTime eventId m =
     (if EventMap_Empty m then 0
      else case find (\<lambda>(k, v). em_id_is eventId v) (em_eventMap m) of
             Some (k, v) \<Rightarrow> k | None \<Rightarrow> 0)"

definition EventMap_GetNextEventTime_any :: "EventMap \<Rightarrow> u32" where
  "EventMap_GetNextEventTime_any m = (case em_eventMap m of [] \<Rightarrow> 0 | (k, v) # es \<Rightarrow> k)"

definition EventMap_GetTimeUntilEvent :: "u32 \<Rightarrow> EventMap \<Rightarrow> u32" where
  "EventMap_GetTimeUntilEvent eventId m =
     (case find (\<lambda>(k, v). em_id_is eventId v) (em_eventMap m) of
        Some (k, v) \<Rightarrow> k - em_time m | None \<Rightarrow> - 1)"

subsection \<open>The execution order\<close>

lemma em_execute_dropWhile:
  "em_execute t ph es =
     (case dropWhile (\<lambda>(k, v). k \<le> t \<and> em_blocked ph v) es of
        [] \<Rightarrow> (None, [])
      | (k, v) # r \<Rightarrow> if k > t then (None, (k, v) # r) else (Some v, r))"
  by (induction t ph es rule: em_execute.induct) auto

lemma em_execute_None:
  assumes "mm_ok es" "em_execute t ph es = (None, rest)"
  shows "rest = filter (\<lambda>(k, v). k > t) es \<and> (\<forall>(k, v) \<in> set es. k \<le> t \<longrightarrow> em_blocked ph v)"
  using assms
proof (induction t ph es rule: em_execute.induct)
  case (2 t ph k v es)
  show ?case
  proof (cases "k > t")
    case True
    with "2.prems" have "k' > t" if "(k', v') \<in> set es" for k' v'
      using that by (auto intro: less_le_trans)
    then have "\<forall>(k', v') \<in> set ((k, v) # es). \<not> k' \<le> t"
      using True by (auto simp: not_le)
    with True "2.prems" show ?thesis by (auto simp: not_le [symmetric] intro!: filter_True [symmetric])
  next
    case False
    with 2 show ?thesis by (auto split: if_splits)
  qed
qed simp

lemma em_execute_Some:
  assumes "mm_ok es" "em_execute t ph es = (Some v, rest)"
  shows "\<exists>skipped k. es = skipped @ (k, v) # rest \<and> k \<le> t \<and> \<not> em_blocked ph v
    \<and> (\<forall>(k', v') \<in> set skipped. k' \<le> t \<and> em_blocked ph v')"
  using assms
proof (induction t ph es rule: em_execute.induct)
  case (2 t ph k w es)
  show ?case
  proof (cases "k \<le> t \<and> em_blocked ph w")
    case True
    with 2 obtain skipped k' where "es = skipped @ (k', v) # rest" "k' \<le> t" "\<not> em_blocked ph v"
      "\<forall>(k', v') \<in> set skipped. k' \<le> t \<and> em_blocked ph v'"
      by (auto simp: leD)
    with True show ?thesis by (intro exI [of _ "(k, w) # skipped"]) auto
  next
    case False
    with "2.prems" show ?thesis
      by (intro exI [of _ "[]"]) (auto split: if_splits)
  qed
qed simp

subsection \<open>Group and phase bits never reach the map\<close>

lemma or_shifted_high: "32 \<le> n \<Longrightarrow> or_shifted e n = e"
  by (rule bit_word_eqI)
     (auto simp: or_shifted_def bit_ucast_iff bit_or_iff bit_push_bit_iff bit_exp_iff
        dest: bit_imp_le_length)

lemma ScheduleEvent_simple:
  "EventMap_ScheduleEvent e t g p m =
     m\<lparr>em_eventMap := mm_insert (em_time m + t) (ucast e) (em_eventMap m)\<rparr>"
proof -
  have "g \<noteq> 0 \<Longrightarrow> or_shifted e (unat g + 31) = e"
    by (rule or_shifted_high) (simp add: Suc_leI unat_gt_0)
  then show ?thesis
    by (simp add: EventMap_ScheduleEvent_def Let_def or_shifted_high)
qed

lemma ucast_no_group:
  assumes "g \<noteq> 0"
  shows "\<not> em_in_group g (ucast (e :: u32))"
proof -
  from assms have "1 \<le> unat g" by (simp add: Suc_leI unat_gt_0)
  then have "bit (ucast e AND push_bit (unat g + 31) (1 :: u64)) n \<longleftrightarrow> bit (0 :: u64) n" for n
    by (auto simp: bit_and_iff bit_ucast_iff bit_push_bit_iff bit_exp_iff dest: bit_imp_le_length)
  then have "ucast e AND push_bit (unat g + 31) (1 :: u64) = 0"
    by (intro bit_word_eqI) blast
  then show ?thesis by (simp add: em_in_group_def)
qed

subsection \<open>The map of events stays ordered\<close>

datatype em_op =
    Em_Reset | Em_Update u32 | Em_SetPhase u16 | Em_AddPhase u16 | Em_RemovePhase u16
  | Em_Schedule u32 u32 u16 u16 | Em_Reschedule u32 u32 u16 u16 | Em_ScheduleNext u32
  | Em_Repeat u32 | Em_Execute | Em_DelayAll u32 | Em_Delay u32 u16 | Em_Cancel u32
  | Em_CancelGroup u16

fun em_step :: "em_op \<Rightarrow> EventMap \<Rightarrow> EventMap" where
  "em_step Em_Reset m = EventMap_Reset m"
| "em_step (Em_Update t) m = EventMap_Update t m"
| "em_step (Em_SetPhase p) m = EventMap_SetPhase p m"
| "em_step (Em_AddPhase p) m = EventMap_AddPhase p m"
| "em_step (Em_RemovePhase p) m = EventMap_RemovePhase p m"
| "em_step (Em_Schedule e t g p) m = EventMap_ScheduleEvent e t g p m"
| "em_step (Em_Reschedule e t g p) m = EventMap_RescheduleEvent e t g p m"
| "em_step (Em_ScheduleNext t) m = EventMap_ScheduleNextEvent t m"
| "em_step (Em_Repeat t) m = EventMap_Repeat t m"
| "em_step Em_Execute m = snd (EventMap_ExecuteEvent m)"
| "em_step (Em_DelayAll d) m = EventMap_DelayEvents_all d m"
| "em_step (Em_Delay d g) m = EventMap_DelayEvents d g m"
| "em_step (Em_Cancel e) m = EventMap_CancelEvent e m"
| "em_step (Em_CancelGroup g) m = EventMap_CancelEventGroup g m"

definition em_ok :: "EventMap \<Rightarrow> bool" where
  "em_ok m = mm_ok (em_eventMap m)"

lemma em_execute_sub: "\<exists>xs. es = xs @ snd (em_execute t ph es)"
proof (induction t ph es rule: em_execute.induct)
  case (2 t ph k v es)
  then show ?case
  proof (cases "k \<le> t \<and> em_blocked ph v")
    case True
    with 2 obtain xs where "es = xs @ snd (em_execute t ph es)" by (auto simp: not_less)
    with True show ?thesis by (intro exI [of _ "(k, v) # xs"]) auto
  next
    case False
    then show ?thesis
      by (cases "k \<le> t") (auto intro: exI [of _ "[]"] exI [of _ "[(k, v)]"])
  qed
qed simp

lemma em_execute_ok: "mm_ok es \<Longrightarrow> mm_ok (snd (em_execute t ph es))"
  by (induction t ph es rule: em_execute.induct) auto

lemma em_execute_subset: "set (snd (em_execute t ph es)) \<subseteq> set es"
  using em_execute_sub [of es t ph] by (metis set_append sup_ge2)

lemma ExecuteEvent_map:
  "em_eventMap (snd (EventMap_ExecuteEvent m)) =
     snd (em_execute (em_time m) (em_phase m) (em_eventMap m))"
  by (simp add: EventMap_ExecuteEvent_def split: prod.splits option.splits)

lemmas em_op_defs = EventMap_Reset_def EventMap_Update_def EventMap_SetPhase_def
  EventMap_AddPhase_def EventMap_RemovePhase_def EventMap_RescheduleEvent_def
  EventMap_ScheduleNextEvent_def EventMap_Repeat_def EventMap_DelayEvents_all_def
  EventMap_DelayEvents_def EventMap_CancelEvent_def EventMap_CancelEventGroup_def

lemma em_step_ok: "em_ok m \<Longrightarrow> em_ok (em_step x m)"
  by (cases x)
     (auto simp: em_ok_def ExecuteEvent_map em_execute_ok ScheduleEvent_simple em_op_defs Let_def
        intro!: mm_fold_insert_ok mm_filter_ok)

interpretation em_order: guarded_run em_step "\<lambda>_. True" em_ok
  by unfold_locales (rule em_step_ok)

text \<open>What the map holds while the ids stay below \<open>2 ^ 32\<close>: 32-bit values, without group or phase.\<close>

definition em_plain :: "EventMap \<Rightarrow> bool" where
  "em_plain m \<longleftrightarrow> (\<forall>(k, v) \<in> set (em_eventMap m). \<exists>e :: u32. v = ucast e)
     \<and> (\<exists>e :: u32. em_lastEvent m = ucast e)"

text \<open>\<open>ScheduleNextEvent\<close> is the only operation that makes an id of its own: one more than the last event.\<close>

fun em_id :: "em_op \<Rightarrow> nat" where
  "em_id (Em_Schedule e t g p) = unat e"
| "em_id (Em_Reschedule e t g p) = unat e"
| "em_id x = 0"

fun em_next :: "em_op \<Rightarrow> nat" where
  "em_next (Em_ScheduleNext t) = 1"
| "em_next x = 0"

definition em_below :: "nat \<Rightarrow> EventMap \<Rightarrow> bool" where
  "em_below b m \<longleftrightarrow> (\<forall>(k, v) \<in> set (em_eventMap m). unat v \<le> b) \<and> unat (em_lastEvent m) \<le> b"

lemma set_mm_fold_delay:
  "set (fold (\<lambda>(k, v). mm_insert (k + d) v) xs m) = (\<lambda>(k, v). (k + d, v)) ` set xs \<union> set m"
  by (induction xs arbitrary: m) (auto simp: image_iff)

lemma em_below_mono: "em_below b m \<Longrightarrow> b \<le> c \<Longrightarrow> em_below c m"
  by (fastforce simp: em_below_def)

lemma ExecuteEvent_below: "em_below b m \<Longrightarrow> em_below b (snd (EventMap_ExecuteEvent m))"
proof -
  assume p: "em_below b m"
  let ?r = "em_execute (em_time m) (em_phase m) (em_eventMap m)"
  have "(\<exists>k. (k, v) \<in> set es)" if "em_execute t ph es = (Some v, rest)" for t ph es v rest
    using that by (induction t ph es rule: em_execute.induct) (auto split: if_splits)
  with p have "fst ?r = Some v \<Longrightarrow> unat v \<le> b" for v
    by (cases ?r) (fastforce simp: em_below_def)
  moreover have "\<forall>(k, v) \<in> set (snd ?r). unat v \<le> b"
    using p em_execute_subset by (fastforce simp: em_below_def)
  ultimately show ?thesis
    using p by (auto simp: em_below_def EventMap_ExecuteEvent_def split: prod.splits option.splits)
qed

lemma unat_next: "unat (v + 1) \<le> Suc (unat (v :: u64))"
  by (metis Suc_eq_plus1 le_refl unat_1 unat_plus_if' word_le_plus_either add.commute le_trans linorder_le_cases unat_word_ariths(1) mod_less_eq_dividend)

lemma unat_up: "unat (ucast (e :: u32) :: u64) = unat e"
proof -
  have "unat e < 2 ^ 32" using unsigned_less [of e] by simp
  then show ?thesis by (simp add: unsigned_ucast_eq take_bit_nat_eq_self)
qed

lemma em_step_below:
  assumes b: "em_below b m" and x: "em_id x \<le> b" shows "em_below (b + em_next x) (em_step x m)"
proof (cases x)
  case Em_Execute
  with b show ?thesis by (simp add: ExecuteEvent_below)
next
  case (Em_ScheduleNext t)
  with b unat_next [of "em_lastEvent m"] show ?thesis
    by (fastforce simp: em_below_def EventMap_ScheduleNextEvent_def set_mm_insert intro: le_SucI)
qed (use b x in \<open>fastforce simp: em_below_def ScheduleEvent_simple em_op_defs Let_def set_mm_insert set_mm_fold_insert
        set_mm_fold_delay unat_up\<close>)+

interpretation em_ids: guarded_run "\<lambda>x (c, m). (c + em_next x, em_step x m)" "\<lambda>x. em_id x \<le> b" "\<lambda>(c, m). b \<le> c \<and> em_below c m" for b
  by unfold_locales (auto dest: em_step_below [OF _ order_trans])

lemma em_fold_pair:
  "fold (\<lambda>x (c, m). (c + em_next x, em_step x m)) ops (c, m) = (c + sum_list (map em_next ops), fold em_step ops m)"
  by (induction ops arbitrary: c m) simp_all

lemma em_below_plain: "em_below b m \<Longrightarrow> b < 2 ^ 32 \<Longrightarrow> em_plain m"
proof -
  assume b: "em_below b m" "b < 2 ^ 32"
  have "v = ucast (ucast v :: u32)" if "unat v \<le> b" for v :: u64
    using that b(2) by (intro word_unat_eq_iff [THEN iffD2]) (simp add: unsigned_ucast_eq unsigned_take_bit_eq take_bit_nat_eq_self)
  with b(1) show ?thesis unfolding em_plain_def em_below_def by blast
qed

lemma em_run_plain:
  assumes "list_all (\<lambda>x. em_id x + sum_list (map em_next ops) < 2 ^ 32) ops"
  shows "em_plain (fold em_step ops EventMap_init)"
proof (cases ops)
  case Nil
  then show ?thesis by (auto simp: em_plain_def EventMap_init_def intro: exI [of _ 0])
next
  case (Cons x xs)
  define n where "n = sum_list (map em_next ops)"
  have n: "n < 2 ^ 32" using assms by (simp add: Cons n_def)
  define b where "b = 2 ^ 32 - 1 - n"
  have adm: "list_all (\<lambda>x. em_id x \<le> b) ops" using assms by (auto simp: list_all_iff n_def [symmetric] b_def)
  have "em_below b EventMap_init" by (simp add: em_below_def EventMap_init_def)
  with em_ids.run_inv [of b "(b, EventMap_init)", OF _ adm]
  have "em_below (b + n) (fold em_step ops EventMap_init)" by (simp add: em_fold_pair n_def [symmetric])
  moreover have "b + n < 2 ^ 32" using n by (simp add: b_def)
  ultimately show ?thesis by (rule em_below_plain)
qed

lemma em_plain_no_group: "em_plain m \<Longrightarrow> (k, v) \<in> set (em_eventMap m) \<Longrightarrow> g \<noteq> 0 \<Longrightarrow>
    \<not> em_in_group g v"
  by (fastforce simp: em_plain_def dest: ucast_no_group)

lemma em_plain_not_blocked:
  assumes "em_plain m" "(k, v) \<in> set (em_eventMap m)"
  shows "\<not> em_blocked ph v"
proof -
  from assms obtain e :: u32 where v: "v = ucast e" by (fastforce simp: em_plain_def)
  have "bit (ucast e AND push_bit 48 (mask 16) :: u64) n \<longleftrightarrow> bit (0 :: u64) n" for n
    by (auto simp: bit_and_iff bit_ucast_iff bit_push_bit_iff bit_mask_iff dest: bit_imp_le_length)
  then have "ucast e AND push_bit 48 (mask 16) = (0 :: u64)"
    by (intro bit_word_eqI) blast
  moreover have "push_bit 48 (mask 16) = (0xFFFF000000000000 :: u64)"
    by (simp add: mask_eq_exp_minus_1)
  ultimately show ?thesis by (simp add: em_blocked_def v)
qed

text \<open>The id comparison looks at 16 bits of the 32-bit id.\<close>

lemma low16: "v AND 0xFFFF = take_bit 16 (v :: u64)"
  by (simp add: take_bit_eq_mask mask_eq_exp_minus_1)

lemma em_id_is_ucast: "e < 0x10000 \<Longrightarrow> em_id_is e (ucast e)"
  by (simp add: em_id_is_def low16 take_bit_small uint_ucast_up word_less_def)

lemma em_id_is_never: "0x10000 \<le> e \<Longrightarrow> \<not> em_id_is e v"
proof
  assume *: "0x10000 \<le> e" "em_id_is e v"
  have "uint (v AND 0xFFFF) < 2 ^ 16"
    using take_bit_int_less_exp [of 16 "uint v"] by (simp add: low16 unsigned_take_bit_eq)
  with * have "uint (ucast e :: u64) < 2 ^ 16" by (simp add: em_id_is_def)
  with * show False by (simp add: uint_ucast_up word_le_def)
qed

lemma CancelEvent_map: "em_eventMap (EventMap_CancelEvent e m) =
    filter (\<lambda>(k, v). \<not> em_id_is e v) (em_eventMap m)"
  by (simp add: EventMap_CancelEvent_def EventMap_Empty_def)

subsection \<open>Properties\<close>

text \<open>C26: an execution returns the earliest event that is due and in one of the active
  phases, remembers it for \<open>Repeat\<close>, and drops exactly the due events of other phases in front of
  it; when no event is due and in phase it returns 0 and drops every event that is due.\<close>

theorem ExecuteEvent_earliest:
  assumes "em_ok m" and "EventMap_ExecuteEvent m = (e, m')"
  shows "case filter (\<lambda>(k, v). k \<le> em_time m \<and> \<not> em_blocked (em_phase m) v) (em_eventMap m) of
      [] \<Rightarrow> e = 0 \<and> em_lastEvent m' = em_lastEvent m
            \<and> em_eventMap m' = filter (\<lambda>(k, v). k > em_time m) (em_eventMap m)
    | (k, v) # _ \<Rightarrow> e = ucast (v AND 0xFFFFFFFF) \<and> em_lastEvent m' = v
            \<and> (\<exists>skipped. em_eventMap m = skipped @ (k, v) # em_eventMap m'
                 \<and> list_all (\<lambda>(k', v'). k' \<le> em_time m \<and> em_blocked (em_phase m) v') skipped)"
proof (cases "em_execute (em_time m) (em_phase m) (em_eventMap m)")
  case (Pair r rest)
  have ok: "mm_ok (em_eventMap m)" using assms(1) by (simp add: em_ok_def)
  show ?thesis
  proof (cases r)
    case None
    with em_execute_None [OF ok] Pair
    have *: "rest = filter (\<lambda>(k, v). k > em_time m) (em_eventMap m)"
      "\<forall>(k, v) \<in> set (em_eventMap m). k \<le> em_time m \<longrightarrow> em_blocked (em_phase m) v" by auto
    then have "filter (\<lambda>(k, v). k \<le> em_time m \<and> \<not> em_blocked (em_phase m) v) (em_eventMap m) = []"
      by (auto simp: filter_empty_conv)
    with * None Pair assms(2) show ?thesis by (auto simp: EventMap_ExecuteEvent_def)
  next
    case (Some v)
    with em_execute_Some [OF ok] Pair obtain skipped k where
      *: "em_eventMap m = skipped @ (k, v) # rest" "k \<le> em_time m" "\<not> em_blocked (em_phase m) v"
      "\<forall>(k', v') \<in> set skipped. k' \<le> em_time m \<and> em_blocked (em_phase m) v'" by blast
    then have "filter (\<lambda>(k, v). k \<le> em_time m \<and> \<not> em_blocked (em_phase m) v) skipped = []"
      by (auto simp: filter_empty_conv)
    with * Some Pair assms(2) show ?thesis
      by (auto simp: EventMap_ExecuteEvent_def list_all_iff)
  qed
qed

theorem ExecuteEvent_earliest_witness:
  "let m = EventMap_Update 30 (EventMap_ScheduleEvent 7 20 0 0
             (EventMap_ScheduleEvent 5 10 0 0 EventMap_init))
   in em_lastEvent (snd (EventMap_ExecuteEvent m)) = 5"
proof -
  define m where "m = EventMap_Update 30 (EventMap_ScheduleEvent 7 20 0 0
             (EventMap_ScheduleEvent 5 10 0 0 EventMap_init))"
  have m: "m = \<lparr>em_time = 30, em_phase = 0, em_eventMap = [(10, 5), (20, 7)], em_lastEvent = 0\<rparr>"
    by (simp add: m_def EventMap_Update_def EventMap_ScheduleEvent_def EventMap_init_def)
  obtain e m' where e: "EventMap_ExecuteEvent m = (e, m')" by (cases "EventMap_ExecuteEvent m")
  have "em_lastEvent m' = 5"
    using ExecuteEvent_earliest [OF _ e] by (simp add: m em_ok_def em_blocked_def)
  then show ?thesis by (simp add: e m_def [symmetric])
qed

lemma em_plain_CancelEventGroup: "em_plain m \<Longrightarrow> EventMap_CancelEventGroup g m = m"
proof -
  assume "em_plain m"
  then have "g \<noteq> 0 \<Longrightarrow> filter (\<lambda>(k, v). \<not> em_in_group g v) (em_eventMap m) = em_eventMap m"
    by (auto simp: filter_id_conv dest: em_plain_no_group)
  then show ?thesis by (auto simp: EventMap_CancelEventGroup_def)
qed

lemma em_plain_DelayEvents:
  assumes "em_plain m" "em_ok m" shows "EventMap_DelayEvents d g m = m"
proof (cases "g = 0")
  case False
  with assms(1) have "filter (\<lambda>(k, v). em_in_group g v) (em_eventMap m) = []"
      "filter (\<lambda>(k, v). \<not> em_in_group g v) (em_eventMap m) = em_eventMap m"
    by (auto simp: filter_empty_conv filter_id_conv dest: em_plain_no_group)
  then show ?thesis by (simp add: EventMap_DelayEvents_def)
qed (simp add: EventMap_DelayEvents_def)

text \<open>C27: whatever is scheduled, repeated and executed, with whatever group and phase, no stored event carries a
  group or a phase as long as \<open>ScheduleNextEvent\<close> does not count an id up to \<open>2 ^ 32\<close>: \<open>CancelEventGroup\<close> and
  \<open>DelayEvents(delay, group)\<close> change nothing, and no phase of the map ever holds an event back.\<close>

theorem group_and_phase_inert:
  assumes "list_all (\<lambda>x. em_id x + sum_list (map em_next ops) < 2 ^ 32) ops"
  shows "let m = fold em_step ops EventMap_init in
    EventMap_CancelEventGroup g m = m \<and> EventMap_DelayEvents d g m = m
    \<and> list_all (\<lambda>(k, v). \<not> em_blocked ph v) (em_eventMap m)"
proof -
  have ok: "em_ok (fold em_step ops EventMap_init)"
    by (rule em_order.run_inv) (simp_all add: em_ok_def EventMap_init_def list_all_iff)
  with em_run_plain [OF assms] show ?thesis
    by (auto simp: Let_def em_plain_CancelEventGroup em_plain_DelayEvents list_all_iff
          dest: em_plain_not_blocked)
qed

theorem group_and_phase_inert_witness:
  "let m = fold em_step [Em_Schedule 5 10 3 2, Em_Schedule 6 20 0 0, Em_ScheduleNext 30] EventMap_init in
     EventMap_CancelEventGroup 3 m = m \<and> em_eventMap m = [(10, 5), (20, 6), (30, 1)]"
  using group_and_phase_inert [of "[Em_Schedule 5 10 3 2, Em_Schedule 6 20 0 0, Em_ScheduleNext 30]" 3 0 1]
  by (simp add: Let_def ScheduleEvent_simple EventMap_ScheduleNextEvent_def EventMap_init_def)

text \<open>The bound is needed: the event after the highest id is in group 1.\<close>

lemma next_of_highest_id:
  "fold em_step [Em_Schedule 0xFFFFFFFF 10 0 0, Em_Update 10, Em_Execute, Em_ScheduleNext 5] EventMap_init =
     EventMap_init\<lparr>em_time := 10, em_lastEvent := 0xFFFFFFFF, em_eventMap := [(15, 0x100000000)]\<rparr> \<and>
   em_in_group 1 0x100000000"
  by code_simp

text \<open>after a reschedule of an id below 2^16 the event is in the map exactly once, it is
  due after the given time, and every event with another id is as it was.\<close>

theorem RescheduleEvent_unique:
  assumes "e < 0x10000"
  shows "EventMap_GetTimeUntilEvent e (EventMap_RescheduleEvent e t g p m) = t
    \<and> filter (\<lambda>(k, v). em_id_is e v) (em_eventMap (EventMap_RescheduleEvent e t g p m))
        = [(em_time m + t, ucast e)]
    \<and> filter (\<lambda>(k, v). \<not> em_id_is e v) (em_eventMap (EventMap_RescheduleEvent e t g p m))
        = filter (\<lambda>(k, v). \<not> em_id_is e v) (em_eventMap m)"
proof -
  let ?rest = "filter (\<lambda>(k, v). \<not> em_id_is e v) (em_eventMap m)"
  have map: "em_eventMap (EventMap_RescheduleEvent e t g p m) =
      mm_insert (em_time m + t) (ucast e) ?rest"
    by (simp add: EventMap_RescheduleEvent_def ScheduleEvent_simple CancelEvent_map)
       (simp add: EventMap_CancelEvent_def)
  have time: "em_time (EventMap_RescheduleEvent e t g p m) = em_time m"
    by (simp add: EventMap_RescheduleEvent_def ScheduleEvent_simple EventMap_CancelEvent_def)
  have id: "em_id_is e (ucast e)" by (rule em_id_is_ucast [OF assms])
  have none: "\<forall>p \<in> set ?rest. \<not> (case p of (k, v) \<Rightarrow> em_id_is e v)" by auto
  have "filter (\<lambda>(k, v). \<not> em_id_is e v) (mm_insert (em_time m + t) (ucast e) ?rest) = ?rest"
    using id by (subst filter_mm_insert_not) auto
  then show ?thesis
    using find_mm_insert [OF none, of "em_time m + t" "ucast e"] id
      filter_mm_insert [OF none, of "em_time m + t" "ucast e"]
    by (simp add: map time EventMap_GetTimeUntilEvent_def)
qed

theorem RescheduleEvent_unique_witness:
  "EventMap_GetTimeUntilEvent 7 (EventMap_RescheduleEvent 7 100 0 0
     (EventMap_ScheduleEvent 7 20 0 0 EventMap_init)) = 100"
  using RescheduleEvent_unique [of 7 100 0 0 "EventMap_ScheduleEvent 7 20 0 0 EventMap_init"]
  by simp

end
