(* ===== verification/EventProcessor.thy ===== *)
theory EventProcessor
  imports Prelude "HOL-Library.Sublist"
begin

section \<open>EventProcessor (common/Utilities/EventProcessor.h, EventProcessor.cpp)\<close>

text \<open>
  The queue of delayed events every unit owns. An event is an object of an arbitrary subclass of
  \<open>BasicEvent\<close>: the queue holds pointers (naturals), the fields of \<open>BasicEvent\<close> live in a heap, and
  the four virtual functions are a record of callbacks. \<open>Execute\<close> gets the whole processor, because
  events re-add themselves and add others; \<open>Abort\<close>, \<open>IsDeletable\<close> and the destructor see the rest
  of the world (\<open>ep_world\<close>) and leave the queue alone. A failed \<open>ASSERT\<close> and the use of a deleted
  event are errors. The loop of \<open>Update\<close> runs as long as an event is due, which callbacks could keep
  up forever: it is a partial function, and that it returns is a theorem.
\<close>

datatype AbortState = STATE_RUNNING | STATE_ABORT_SCHEDULED | STATE_ABORTED

record BasicEvent =
  be_abortState :: AbortState
  be_addTime :: u64
  be_execTime :: u64

definition BasicEvent_init :: BasicEvent where
  "BasicEvent_init = \<lparr>be_abortState = STATE_RUNNING, be_addTime = 0, be_execTime = 0\<rparr>"

datatype ep_error = Ep_Assert | Ep_Dangling

record 'w EventProcessor =
  ep_time :: u64
  ep_events :: "(u64 \<times> nat) list"
  ep_heap :: "nat \<Rightarrow> BasicEvent option"
  ep_world :: 'w

record 'w BasicEvent_vtable =
  vt_Execute :: "nat \<Rightarrow> u64 \<Rightarrow> u32 \<Rightarrow> 'w EventProcessor \<Rightarrow> bool \<times> 'w EventProcessor"
  vt_IsDeletable :: "nat \<Rightarrow> 'w \<Rightarrow> bool"
  vt_Abort :: "nat \<Rightarrow> u64 \<Rightarrow> 'w \<Rightarrow> 'w"
  vt_Destroy :: "nat \<Rightarrow> 'w \<Rightarrow> 'w"

text \<open>The bodies \<open>BasicEvent\<close> itself gives the virtual functions.\<close>

definition BasicEvent_default :: "'w BasicEvent_vtable" where
  "BasicEvent_default = \<lparr>vt_Execute = \<lambda>e t p s. (True, s), vt_IsDeletable = \<lambda>e w. True,
     vt_Abort = \<lambda>e t w. w, vt_Destroy = \<lambda>e w. w\<rparr>"

definition ep_deref :: "nat \<Rightarrow> 'w EventProcessor \<Rightarrow> ep_error + BasicEvent" where
  "ep_deref e s = (case ep_heap s e of None \<Rightarrow> Inl Ep_Dangling | Some b \<Rightarrow> Inr b)"

definition ep_write :: "nat \<Rightarrow> BasicEvent \<Rightarrow> 'w EventProcessor \<Rightarrow> 'w EventProcessor" where
  "ep_write e b s = s\<lparr>ep_heap := (ep_heap s)(e \<mapsto> b)\<rparr>"

definition ep_delete :: "'w BasicEvent_vtable \<Rightarrow> nat \<Rightarrow> 'w EventProcessor
    \<Rightarrow> ep_error + 'w EventProcessor" where
  "ep_delete vt e s = and_then (ep_deref e s) (\<lambda>_.
     Inr (s\<lparr>ep_world := vt_Destroy vt e (ep_world s), ep_heap := (ep_heap s)(e := None)\<rparr>))"

definition BasicEvent_ScheduleAbort :: "nat \<Rightarrow> 'w EventProcessor \<Rightarrow> ep_error + 'w EventProcessor" where
  "BasicEvent_ScheduleAbort e s = and_then (ep_deref e s) (\<lambda>b.
     if be_abortState b = STATE_RUNNING
     then Inr (ep_write e (b\<lparr>be_abortState := STATE_ABORT_SCHEDULED\<rparr>) s) else Inl Ep_Assert)"

definition BasicEvent_SetAborted :: "nat \<Rightarrow> 'w EventProcessor \<Rightarrow> ep_error + 'w EventProcessor" where
  "BasicEvent_SetAborted e s = and_then (ep_deref e s) (\<lambda>b.
     if be_abortState b \<noteq> STATE_ABORTED
     then Inr (ep_write e (b\<lparr>be_abortState := STATE_ABORTED\<rparr>) s) else Inl Ep_Assert)"

definition EventProcessor_AddEvent :: "nat \<Rightarrow> u64 \<Rightarrow> bool \<Rightarrow> 'w EventProcessor
    \<Rightarrow> ep_error + 'w EventProcessor" where
  "EventProcessor_AddEvent e e_time set_addtime s = and_then (ep_deref e s) (\<lambda>b.
     let b1 = (if set_addtime then b\<lparr>be_addTime := ep_time s\<rparr> else b);
         s1 = ep_write e (b1\<lparr>be_execTime := e_time\<rparr>) s
     in Inr (s1\<lparr>ep_events := mm_insert e_time e (ep_events s1)\<rparr>))"

definition EventProcessor_CalculateTime :: "u64 \<Rightarrow> 'w EventProcessor \<Rightarrow> u64" where
  "EventProcessor_CalculateTime t_offset s = ep_time s + t_offset"

definition ep_Abort :: "'w BasicEvent_vtable \<Rightarrow> nat \<Rightarrow> 'w EventProcessor \<Rightarrow> 'w EventProcessor" where
  "ep_Abort vt e s = s\<lparr>ep_world := vt_Abort vt e (ep_time s) (ep_world s)\<rparr>"

text \<open>One round of the loop of \<open>Update\<close>: the event at the front leaves the queue and is executed,
  or, once its abortion was scheduled, aborted and deleted as soon as it allows it.\<close>

definition ep_process :: "'w BasicEvent_vtable \<Rightarrow> u32 \<Rightarrow> nat \<Rightarrow> 'w EventProcessor
    \<Rightarrow> ep_error + 'w EventProcessor" where
  "ep_process vt p_time e s = and_then (ep_deref e s) (\<lambda>b.
     if be_abortState b = STATE_RUNNING
     then (case vt_Execute vt e (ep_time s) p_time s of
             (True, s1) \<Rightarrow> ep_delete vt e s1
           | (False, s1) \<Rightarrow> Inr s1)
     else and_then (if be_abortState b = STATE_ABORT_SCHEDULED
                    then BasicEvent_SetAborted e (ep_Abort vt e s) else Inr s) (\<lambda>s1.
       if vt_IsDeletable vt e (ep_world s1) then ep_delete vt e s1
       else EventProcessor_AddEvent e (EventProcessor_CalculateTime 1 s1) False s1))"

partial_function (option) ep_loop :: "'w BasicEvent_vtable \<Rightarrow> u32 \<Rightarrow> 'w EventProcessor
    \<Rightarrow> (ep_error + 'w EventProcessor) option" where
  "ep_loop vt p_time s =
     (case ep_events s of
        [] \<Rightarrow> Some (Inr s)
      | (k, e) # es \<Rightarrow>
          if k \<le> ep_time s
          then (case ep_process vt p_time e (s\<lparr>ep_events := es\<rparr>) of
                  Inl x \<Rightarrow> Some (Inl x)
                | Inr s1 \<Rightarrow> ep_loop vt p_time s1)
          else Some (Inr s))"

definition EventProcessor_Update :: "'w BasicEvent_vtable \<Rightarrow> u32 \<Rightarrow> 'w EventProcessor
    \<Rightarrow> (ep_error + 'w EventProcessor) option" where
  "EventProcessor_Update vt p_time s = ep_loop vt p_time (s\<lparr>ep_time := ep_time s + ucast p_time\<rparr>)"



subsection \<open>Well-formed queues\<close>

text \<open>Every queued event is alive and queued once.\<close>

definition ep_wf :: "'w EventProcessor \<Rightarrow> bool" where
  "ep_wf s \<longleftrightarrow> mm_ok (ep_events s) \<and> distinct (map snd (ep_events s))
     \<and> (\<forall>(k, e) \<in> set (ep_events s). ep_heap s e \<noteq> None)"

definition ep_due :: "'w EventProcessor \<Rightarrow> (u64 \<times> nat) list" where
  "ep_due s = filter (\<lambda>(k, e). k \<le> ep_time s) (ep_events s)"

text \<open>What \<open>Update\<close> expects of \<open>Execute\<close>: called for an event that is alive and off the queue, it
  leaves the clock and a well-formed queue with no further due event; when it returns true
  (\<open>delete me\<close>) the event is still alive and was not queued again.\<close>

definition ep_vtable_ok :: "'w BasicEvent_vtable \<Rightarrow> bool" where
  "ep_vtable_ok vt \<longleftrightarrow> (\<forall>e t p s del s'. ep_wf s \<longrightarrow> ep_heap s e \<noteq> None \<longrightarrow> e \<notin> snd ` set (ep_events s) \<longrightarrow>
     vt_Execute vt e t p s = (del, s') \<longrightarrow>
       ep_wf s' \<and> ep_time s' = ep_time s \<and> length (ep_due s') \<le> length (ep_due s)
       \<and> (del \<longrightarrow> ep_heap s' e \<noteq> None \<and> e \<notin> snd ` set (ep_events s')))"

lemma BasicEvent_default_ok: "ep_vtable_ok BasicEvent_default"
  by (simp add: ep_vtable_ok_def BasicEvent_default_def)

lemma ep_delete_wf:
  assumes "ep_wf s" "ep_heap s e \<noteq> None" "e \<notin> snd ` set (ep_events s)"
  shows "ok_and (\<lambda>s'. ep_wf s' \<and> ep_time s' = ep_time s \<and> ep_due s' = ep_due s) (ep_delete vt e s)"
proof -
  have "\<forall>(k, j) \<in> set (ep_events s). j \<noteq> e" using assms(3) by force
  with assms show ?thesis
    by (auto simp: ep_delete_def ep_deref_def ep_wf_def ep_due_def)
qed

lemma ep_AddEvent_wf:
  assumes "ep_wf s" "ep_heap s e \<noteq> None" "e \<notin> snd ` set (ep_events s)" "t > ep_time s"
  shows "ok_and (\<lambda>s'. ep_wf s' \<and> ep_time s' = ep_time s \<and> ep_due s' = ep_due s)
    (EventProcessor_AddEvent e t b s)"
  using assms
  by (auto simp: EventProcessor_AddEvent_def ep_deref_def ep_write_def ep_wf_def ep_due_def Let_def
        distinct_mm_insert filter_mm_insert_not)

lemma ep_SetAborted_wf:
  assumes "ep_wf s" "ep_heap s e = Some b" "be_abortState b \<noteq> STATE_ABORTED"
  shows "BasicEvent_SetAborted e s =
      Inr (ep_write e (b\<lparr>be_abortState := STATE_ABORTED\<rparr>) s)"
    and "ep_wf (ep_write e b' s)" "ep_due (ep_write e b' s) = ep_due s"
  using assms by (auto simp: BasicEvent_SetAborted_def ep_deref_def ep_wf_def ep_write_def ep_due_def)

lemma ep_Abort_simps [simp]:
  "ep_wf (ep_Abort vt e s) = ep_wf s" "ep_due (ep_Abort vt e s) = ep_due s"
  "ep_events (ep_Abort vt e s) = ep_events s" "ep_heap (ep_Abort vt e s) = ep_heap s"
  "ep_time (ep_Abort vt e s) = ep_time s"
  by (simp_all add: ep_Abort_def ep_wf_def ep_due_def)

lemma ep_write_simps [simp]:
  "ep_events (ep_write e b s) = ep_events s" "ep_time (ep_write e b s) = ep_time s"
  "ep_heap (ep_write e b s) = (ep_heap s)(e \<mapsto> b)" "ep_world (ep_write e b s) = ep_world s"
  by (simp_all add: ep_write_def)

text \<open>A round keeps the queue well-formed, raises no error and adds no due event.\<close>

lemma ep_process_ok:
  assumes vt: "ep_vtable_ok vt" and s: "ep_wf s" "ep_heap s e \<noteq> None" "e \<notin> snd ` set (ep_events s)"
    and clock: "ep_time s \<noteq> - 1"
  shows "ok_and (\<lambda>s'. ep_wf s' \<and> ep_time s' = ep_time s \<and> length (ep_due s') \<le> length (ep_due s))
    (ep_process vt p e s)"
proof -
  obtain b where b: "ep_heap s e = Some b" using s(2) by blast
  have later: "ep_time s < ep_time s + 1"
    using clock by (rule word_less_Suc)
  have finish: "ok_and (\<lambda>s'. ep_wf s' \<and> ep_time s' = ep_time s \<and> length (ep_due s') \<le> length (ep_due s))
      (if vt_IsDeletable vt e (ep_world s1) then ep_delete vt e s1
       else EventProcessor_AddEvent e (EventProcessor_CalculateTime 1 s1) False s1)"
    if "ep_wf s1" "ep_heap s1 e \<noteq> None" "ep_events s1 = ep_events s" "ep_time s1 = ep_time s" for s1
  proof -
    from that have due: "ep_due s1 = ep_due s" by (simp add: ep_due_def)
    from that s(3) later due show ?thesis
      by (auto intro!: ok_and_mono [OF ep_delete_wf] ok_and_mono [OF ep_AddEvent_wf]
            simp: EventProcessor_CalculateTime_def)
  qed
  show ?thesis
  proof (cases "be_abortState b")
    case STATE_RUNNING
    obtain del s1 where x: "vt_Execute vt e (ep_time s) p s = (del, s1)" by force
    with vt s have "ep_wf s1 \<and> ep_time s1 = ep_time s \<and> length (ep_due s1) \<le> length (ep_due s)
       \<and> (del \<longrightarrow> ep_heap s1 e \<noteq> None \<and> e \<notin> snd ` set (ep_events s1))"
      unfolding ep_vtable_ok_def by blast
    then show ?thesis
      using b x STATE_RUNNING
      by (cases del) (auto simp: ep_process_def ep_deref_def intro!: ok_and_mono [OF ep_delete_wf])
  next
    case STATE_ABORT_SCHEDULED
    define s1 where "s1 = ep_write e (b\<lparr>be_abortState := STATE_ABORTED\<rparr>) (ep_Abort vt e s)"
    have "BasicEvent_SetAborted e (ep_Abort vt e s) = Inr s1"
      using ep_SetAborted_wf(1) [of "ep_Abort vt e s" e b] s b STATE_ABORT_SCHEDULED by (simp add: s1_def)
    moreover have "ep_wf s1"
      using ep_SetAborted_wf(2) [of "ep_Abort vt e s" e b] s b STATE_ABORT_SCHEDULED by (simp add: s1_def)
    moreover have "ep_heap s1 e \<noteq> None" "ep_events s1 = ep_events s" "ep_time s1 = ep_time s"
      by (simp_all add: s1_def)
    ultimately show ?thesis
      using b STATE_ABORT_SCHEDULED finish [of s1] by (simp add: ep_process_def ep_deref_def)
  next
    case STATE_ABORTED
    with b s finish [of s] show ?thesis by (simp add: ep_process_def ep_deref_def)
  qed
qed

subsection \<open>Update returns, and leaves nothing due\<close>

lemma ep_loop_total:
  assumes vt: "ep_vtable_ok vt" and s: "ep_wf s" and clock: "ep_time s \<noteq> - 1"
  shows "\<exists>s'. ep_loop vt p s = Some (Inr s') \<and> ep_wf s' \<and> ep_time s' = ep_time s \<and> ep_due s' = []"
  using s clock
proof (induction "length (ep_due s)" arbitrary: s rule: less_induct)
  case less
  show ?case
  proof (cases "ep_events s")
    case Nil
    with less.prems show ?thesis by (simp add: ep_loop.simps ep_due_def)
  next
    case (Cons x es)
    obtain k e where x: "x = (k, e)" by force
    show ?thesis
    proof (cases "k \<le> ep_time s")
      case True
      define s0 where "s0 = s\<lparr>ep_events := es\<rparr>"
      from less.prems(1) Cons x have s0: "ep_wf s0" "ep_heap s0 e \<noteq> None"
          "e \<notin> snd ` set (ep_events s0)"
        by (auto simp: s0_def ep_wf_def)
      have due: "length (ep_due s0) < length (ep_due s)"
        using Cons x True by (simp add: s0_def ep_due_def)
      from ep_process_ok [OF vt s0, of p] less.prems(2)
      obtain s1 where s1: "ep_process vt p e s0 = Inr s1" "ep_wf s1" "ep_time s1 = ep_time s"
          "length (ep_due s1) \<le> length (ep_due s0)"
        by (auto simp: ok_and_iff s0_def)
      with less.hyps [of s1] due less.prems(2)
      show ?thesis
        using Cons x True by (subst ep_loop.simps) (simp add: s0_def)
    next
      case False
      with less.prems Cons x have "ep_due s = []"
        by (auto simp: ep_due_def ep_wf_def filter_empty_conv)
      with False Cons x less.prems show ?thesis by (subst ep_loop.simps) simp
    qed
  qed
qed

subsection \<open>Killing\<close>














subsection \<open>Properties\<close>

text \<open>C24: as long as the callbacks behave (no due event is added, an event that asks for deletion
  was not queued again), \<open>Update\<close> returns without touching a deleted event or failing an assertion,
  and no event that is due is left in the queue.\<close>

theorem EventProcessor_Update_total:
  assumes "ep_vtable_ok vt" and "ep_wf s" and "ep_time s + ucast p \<noteq> - 1"
  shows "\<exists>s'. EventProcessor_Update vt p s = Some (Inr s') \<and> ep_wf s'
    \<and> ep_time s' = ep_time s + ucast p \<and> ep_due s' = []"
  using ep_loop_total [OF assms(1), of "s\<lparr>ep_time := ep_time s + ucast p\<rparr>" p] assms(2,3)
  by (simp add: EventProcessor_Update_def ep_wf_def)

theorem EventProcessor_Update_total_witness:
  "\<exists>s'. EventProcessor_Update BasicEvent_default 5
      \<lparr>ep_time = 10, ep_events = [(12, 1), (20, 2)],
        ep_heap = [1 \<mapsto> BasicEvent_init, 2 \<mapsto> BasicEvent_init], ep_world = ()\<rparr> = Some (Inr s')
    \<and> ep_time s' = 15 \<and> ep_due s' = []"
  using EventProcessor_Update_total [OF BasicEvent_default_ok, of
      "\<lparr>ep_time = 10, ep_events = [(12, 1), (20, 2)],
        ep_heap = [1 \<mapsto> BasicEvent_init, 2 \<mapsto> BasicEvent_init], ep_world = ()\<rparr>" 5]
  by (auto simp: ep_wf_def)




end
