(* ===== verification/MessageBuffer.thy ===== *)
theory MessageBuffer
  imports Prelude
begin

section \<open>MessageBuffer (common/Utilities/MessageBuffer.h)\<close>

text \<open>
  The receive buffer of a socket: a byte vector with a write and a read position. Positions are
  \<open>size_t\<close>, which no buffer fills, hence naturals. Copying past the end of the vector is undefined in
  C++ and returns \<open>None\<close>. The contract \<open>byte_queue\<close> says what the socket relies on: the unread
  bytes are a queue that writes extend, reads consume, and compaction and growth leave alone.
\<close>

record MessageBuffer =
  mb_wpos :: nat
  mb_rpos :: nat
  mb_storage :: "u8 list"

definition MessageBuffer_init :: "nat \<Rightarrow> MessageBuffer" where
  "MessageBuffer_init initialSize =
     \<lparr>mb_wpos = 0, mb_rpos = 0, mb_storage = replicate initialSize 0\<rparr>"

definition MessageBuffer_Reset :: "MessageBuffer \<Rightarrow> MessageBuffer" where
  "MessageBuffer_Reset b = b\<lparr>mb_wpos := 0, mb_rpos := 0\<rparr>"

definition vector_resize :: "nat \<Rightarrow> u8 list \<Rightarrow> u8 list" where
  "vector_resize n xs = take n xs @ replicate (n - length xs) 0"

definition MessageBuffer_Resize :: "nat \<Rightarrow> MessageBuffer \<Rightarrow> MessageBuffer" where
  "MessageBuffer_Resize bytes b = b\<lparr>mb_storage := vector_resize bytes (mb_storage b)\<rparr>"

definition MessageBuffer_ReadCompleted :: "nat \<Rightarrow> MessageBuffer \<Rightarrow> MessageBuffer" where
  "MessageBuffer_ReadCompleted bytes b = b\<lparr>mb_rpos := mb_rpos b + bytes\<rparr>"

definition MessageBuffer_WriteCompleted :: "nat \<Rightarrow> MessageBuffer \<Rightarrow> MessageBuffer" where
  "MessageBuffer_WriteCompleted bytes b = b\<lparr>mb_wpos := mb_wpos b + bytes\<rparr>"

definition MessageBuffer_GetActiveSize :: "MessageBuffer \<Rightarrow> nat" where
  "MessageBuffer_GetActiveSize b = mb_wpos b - mb_rpos b"

definition MessageBuffer_GetRemainingSpace :: "MessageBuffer \<Rightarrow> nat" where
  "MessageBuffer_GetRemainingSpace b = length (mb_storage b) - mb_wpos b"

definition memmove :: "nat \<Rightarrow> u8 list \<Rightarrow> u8 list \<Rightarrow> u8 list" where
  "memmove dst src xs = take dst xs @ src @ drop (dst + length src) xs"

definition MessageBuffer_Normalize :: "MessageBuffer \<Rightarrow> MessageBuffer" where
  "MessageBuffer_Normalize b =
     (if mb_rpos b \<noteq> 0
      then let st = (if mb_rpos b \<noteq> mb_wpos b
                     then memmove 0 (take (MessageBuffer_GetActiveSize b)
                                       (drop (mb_rpos b) (mb_storage b))) (mb_storage b)
                     else mb_storage b)
           in b\<lparr>mb_storage := st, mb_wpos := mb_wpos b - mb_rpos b, mb_rpos := 0\<rparr>
      else b)"

definition MessageBuffer_EnsureFreeSpace :: "MessageBuffer \<Rightarrow> MessageBuffer" where
  "MessageBuffer_EnsureFreeSpace b =
     (if MessageBuffer_GetRemainingSpace b = 0
      then b\<lparr>mb_storage := vector_resize (length (mb_storage b) * 3 div 2) (mb_storage b)\<rparr>
      else b)"

definition MessageBuffer_Write :: "u8 list \<Rightarrow> MessageBuffer \<Rightarrow> MessageBuffer option" where
  "MessageBuffer_Write data b =
     (if data = [] then Some b
      else if mb_wpos b + length data \<le> length (mb_storage b)
      then Some (MessageBuffer_WriteCompleted (length data)
                   (b\<lparr>mb_storage := memmove (mb_wpos b) data (mb_storage b)\<rparr>))
      else None)"

definition MessageBuffer_Move :: "MessageBuffer \<Rightarrow> u8 list \<times> MessageBuffer" where
  "MessageBuffer_Move b =
     (mb_storage b, \<lparr>mb_wpos = 0, mb_rpos = 0, mb_storage = []\<rparr>)"

subsection \<open>The unread bytes as a queue\<close>

definition mb_inv :: "MessageBuffer \<Rightarrow> bool" where
  "mb_inv b \<longleftrightarrow> mb_rpos b \<le> mb_wpos b \<and> mb_wpos b \<le> length (mb_storage b)"

definition mb_active :: "MessageBuffer \<Rightarrow> u8 list" where
  "mb_active b = take (mb_wpos b - mb_rpos b) (drop (mb_rpos b) (mb_storage b))"

lemma MessageBuffer_Normalize_active:
  "mb_inv b \<Longrightarrow> mb_inv (MessageBuffer_Normalize b) \<and>
     mb_active (MessageBuffer_Normalize b) = mb_active b"
  by (auto simp: MessageBuffer_Normalize_def mb_inv_def mb_active_def memmove_def
      MessageBuffer_GetActiveSize_def)

lemma vector_resize_grow: "length xs \<le> n \<Longrightarrow> vector_resize n xs = xs @ replicate (n - length xs) 0"
  by (simp add: vector_resize_def)

lemma MessageBuffer_EnsureFreeSpace_active:
  assumes "mb_inv b"
  shows "mb_inv (MessageBuffer_EnsureFreeSpace b) \<and>
    mb_active (MessageBuffer_EnsureFreeSpace b) = mb_active b"
proof -
  have "length (mb_storage b) \<le> length (mb_storage b) * 3 div 2" by simp
  with assms show ?thesis
    by (auto simp: MessageBuffer_EnsureFreeSpace_def mb_inv_def mb_active_def vector_resize_grow)
qed

lemma MessageBuffer_Write_active:
  assumes "mb_inv b" "length data \<le> MessageBuffer_GetRemainingSpace b"
  shows "\<exists>b'. MessageBuffer_Write data b = Some b' \<and> mb_inv b' \<and> mb_active b' = mb_active b @ data"
proof -
  have split: "take (w + n - r) (drop r (take w st @ data @ drop (w + n) st)) =
      take (w - r) (drop r st) @ data"
    if "r \<le> w" "w \<le> length st" "n = length data" for r w n and st :: "u8 list"
    using that by (simp add: drop_take)
  with assms show ?thesis
    by (auto simp: MessageBuffer_Write_def MessageBuffer_GetRemainingSpace_def mb_inv_def
        mb_active_def MessageBuffer_WriteCompleted_def memmove_def)
qed

lemma MessageBuffer_ReadCompleted_active:
  "mb_inv b \<Longrightarrow> n \<le> MessageBuffer_GetActiveSize b \<Longrightarrow>
     mb_inv (MessageBuffer_ReadCompleted n b) \<and>
     mb_active (MessageBuffer_ReadCompleted n b) = drop n (mb_active b)"
  by (auto simp: MessageBuffer_ReadCompleted_def mb_inv_def mb_active_def
      MessageBuffer_GetActiveSize_def drop_take add.commute)

text \<open>Growth makes room as soon as the buffer has two bytes; one of size 0 or 1 stays full.\<close>

lemma MessageBuffer_EnsureFreeSpace_room:
  "mb_inv b \<Longrightarrow> 2 \<le> length (mb_storage b) \<Longrightarrow>
     0 < MessageBuffer_GetRemainingSpace (MessageBuffer_EnsureFreeSpace b)"
  by (auto simp: MessageBuffer_EnsureFreeSpace_def MessageBuffer_GetRemainingSpace_def
      vector_resize_def mb_inv_def)

lemma MessageBuffer_EnsureFreeSpace_stuck:
  "length (mb_storage b) \<le> 1 \<Longrightarrow> MessageBuffer_GetRemainingSpace b = 0 \<Longrightarrow>
     MessageBuffer_GetRemainingSpace (MessageBuffer_EnsureFreeSpace b) = 0"
  by (cases "length (mb_storage b)")
     (auto simp: MessageBuffer_EnsureFreeSpace_def MessageBuffer_GetRemainingSpace_def
       vector_resize_def)

subsection \<open>The contract with the socket\<close>

text \<open>A run of the receive loop: before each chunk the buffer is prepared; what arrives is cut to the
  room there is, and the reader takes what it can use. The result is what the reader got, what was
  accepted, and the buffer.\<close>

fun bq_receive :: "('b \<Rightarrow> u8 list) \<Rightarrow> ('b \<Rightarrow> nat) \<Rightarrow> (u8 list \<Rightarrow> 'b \<Rightarrow> 'b option) \<Rightarrow> (nat \<Rightarrow> 'b \<Rightarrow> 'b)
    \<Rightarrow> ('b \<Rightarrow> 'b) \<Rightarrow> (u8 list \<times> nat) list \<Rightarrow> 'b \<Rightarrow> (u8 list \<times> u8 list \<times> 'b) option" where
  "bq_receive contents room push consume prepare [] b = Some ([], [], b)"
| "bq_receive contents room push consume prepare ((chunk, used) # cs) b =
     (let b1 = prepare b; piece = take (room b1) chunk in
      case push piece b1 of
        None \<Rightarrow> None
      | Some b2 \<Rightarrow>
          let n = min used (length (contents b2)) in
          case bq_receive contents room push consume prepare cs (consume n b2) of
            None \<Rightarrow> None
          | Some (got, acc, b3) \<Rightarrow> Some (take n (contents b2) @ got, piece @ acc, b3))"

locale byte_queue =
  fixes contents :: "'b \<Rightarrow> u8 list"
    and inv :: "'b \<Rightarrow> bool"
    and room :: "'b \<Rightarrow> nat"
    and push :: "u8 list \<Rightarrow> 'b \<Rightarrow> 'b option"
    and consume :: "nat \<Rightarrow> 'b \<Rightarrow> 'b"
    and prepare :: "'b \<Rightarrow> 'b"
  assumes push_contents: "inv b \<Longrightarrow> length xs \<le> room b \<Longrightarrow>
      \<exists>b'. push xs b = Some b' \<and> inv b' \<and> contents b' = contents b @ xs"
    and consume_contents: "inv b \<Longrightarrow> n \<le> length (contents b) \<Longrightarrow>
      inv (consume n b) \<and> contents (consume n b) = drop n (contents b)"
    and prepare_contents: "inv b \<Longrightarrow> inv (prepare b) \<and> contents (prepare b) = contents b"
begin

text \<open>Nothing is lost, duplicated or reordered: what the reader got, followed by what is still unread,
  is what was unread at the start followed by what was accepted.\<close>

lemma receive_fifo:
  "inv b \<Longrightarrow> \<exists>got acc b'. bq_receive contents room push consume prepare cs b = Some (got, acc, b')
     \<and> inv b' \<and> got @ contents b' = contents b @ acc"
proof (induction cs arbitrary: b)
  case (Cons c cs)
  obtain chunk used where c: "c = (chunk, used)" by force
  define b1 where "b1 = prepare b"
  define piece where "piece = take (room b1) chunk"
  have b1: "inv b1" "contents b1 = contents b"
    using prepare_contents [OF Cons.prems] by (simp_all add: b1_def)
  obtain b2 where b2: "push piece b1 = Some b2" "inv b2" "contents b2 = contents b @ piece"
    using push_contents [OF b1(1), of piece] b1(2) by (auto simp: piece_def)
  define n where "n = min used (length (contents b2))"
  have n: "inv (consume n b2)" "contents (consume n b2) = drop n (contents b2)"
    using consume_contents [OF b2(2), of n] by (simp_all add: n_def)
  obtain got acc b' where IH: "bq_receive contents room push consume prepare cs (consume n b2) =
        Some (got, acc, b')" "inv b'" "got @ contents b' = drop n (contents b2) @ acc"
    using Cons.IH [OF n(1)] n(2) by auto
  have r: "bq_receive contents room push consume prepare (c # cs) b =
      Some (take n (contents b2) @ got, piece @ acc, b')"
    using IH(1) b2(1) by (simp add: c Let_def b1_def [symmetric] piece_def [symmetric] n_def [symmetric])
  have "(take n (contents b2) @ got) @ contents b' = contents b2 @ acc"
    using IH(3) by (metis append.assoc append_take_drop_id)
  with IH(2) b2(3) r show ?case by auto
qed simp

end

definition mb_prepare :: "MessageBuffer \<Rightarrow> MessageBuffer" where
  "mb_prepare b = MessageBuffer_EnsureFreeSpace (MessageBuffer_Normalize b)"

lemma length_mb_active: "mb_inv b \<Longrightarrow> length (mb_active b) = MessageBuffer_GetActiveSize b"
  by (auto simp: mb_inv_def mb_active_def MessageBuffer_GetActiveSize_def)

interpretation recv: byte_queue mb_active mb_inv MessageBuffer_GetRemainingSpace MessageBuffer_Write
  MessageBuffer_ReadCompleted mb_prepare
proof unfold_locales
  show "mb_inv b \<Longrightarrow> length xs \<le> MessageBuffer_GetRemainingSpace b \<Longrightarrow>
      \<exists>b'. MessageBuffer_Write xs b = Some b' \<and> mb_inv b' \<and> mb_active b' = mb_active b @ xs" for b xs
    by (rule MessageBuffer_Write_active)
  show "mb_inv b \<Longrightarrow> n \<le> length (mb_active b) \<Longrightarrow> mb_inv (MessageBuffer_ReadCompleted n b) \<and>
      mb_active (MessageBuffer_ReadCompleted n b) = drop n (mb_active b)" for b n
    by (rule MessageBuffer_ReadCompleted_active) (simp_all add: length_mb_active)
  show "mb_inv b \<Longrightarrow> mb_inv (mb_prepare b) \<and> mb_active (mb_prepare b) = mb_active b" for b
    using MessageBuffer_Normalize_active [of b]
      MessageBuffer_EnsureFreeSpace_active [of "MessageBuffer_Normalize b"]
    by (simp add: mb_prepare_def)
qed

text \<open>A prepared buffer of at least two bytes can always take another byte.\<close>

lemma mb_prepare_room:
  assumes "mb_inv b" "2 \<le> length (mb_storage b)"
  shows "0 < MessageBuffer_GetRemainingSpace (mb_prepare b)"
proof -
  have "length (mb_storage (MessageBuffer_Normalize b)) = length (mb_storage b)"
    using assms(1) by (auto simp: MessageBuffer_Normalize_def memmove_def mb_inv_def
        MessageBuffer_GetActiveSize_def)
  with assms show ?thesis
    using MessageBuffer_Normalize_active [of b]
    by (simp add: mb_prepare_def MessageBuffer_EnsureFreeSpace_room)
qed

text \<open>C23: over every run of the receive loop of a socket no copy leaves the buffer, and no byte
  is lost, duplicated or reordered: what the reader got followed by what is still unread is exactly
  what was accepted, in order.\<close>

theorem MessageBuffer_receive_fifo:
  "case bq_receive mb_active MessageBuffer_GetRemainingSpace MessageBuffer_Write
      MessageBuffer_ReadCompleted mb_prepare cs (MessageBuffer_init n) of
     None \<Rightarrow> False | Some (got, accepted, b) \<Rightarrow> got @ mb_active b = accepted"
proof -
  have "mb_inv (MessageBuffer_init n)" "mb_active (MessageBuffer_init n) = []"
    by (simp_all add: MessageBuffer_init_def mb_inv_def mb_active_def)
  with recv.receive_fifo [of "MessageBuffer_init n" cs] show ?thesis by auto
qed

end
