(* ===== verification/ByteBuffer.thy ===== *)
theory ByteBuffer
  imports MessageBuffer
begin

section \<open>ByteBuffer (server/shared/Packets/ByteBuffer.h, ByteBuffer.cpp)\<close>

text \<open>
  The buffer every packet is written to and read from: bytes, a read and a write position, and a
  bit cursor (\<open>_bitpos\<close>, 8 when no bits are pending) over the byte \<open>_curbitval\<close>. Positions are naturals.
  A thrown \<open>ByteBufferPositionException\<close> or \<open>ByteBufferException\<close>, a failed \<open>ASSERT\<close> and an access
  beyond the vector (undefined in C++) are the constructors of \<open>bb_error\<close>. The host is little endian,
  so \<open>EndianConvert\<close> is the identity and a value is stored lowest byte first. A float or double is its
  bit pattern. \<open>localtime_r\<close> and \<open>mktime\<close> are parameters.

  The contract \<open>wire_type\<close> states what every pair of a stream operator \<open><<\<close> and its \<open>>>\<close> owes the
  packets: writing appends the wire image, reading consumes it and returns the value. The bit functions
  are refined to a stream of bits.
\<close>

datatype bb_error = ByteBufferPositionException nat nat nat | ByteBufferException | AssertFailed | OutOfRange | UndefinedShift

record ByteBuffer =
  bb_rpos :: nat
  bb_wpos :: nat
  bb_bitpos :: nat
  bb_curbitval :: u8
  bb_storage :: "u8 list"

definition ByteBuffer_init :: ByteBuffer where
  "ByteBuffer_init = \<lparr>bb_rpos = 0, bb_wpos = 0, bb_bitpos = 8, bb_curbitval = 0, bb_storage = []\<rparr>"

definition ByteBuffer_of_MessageBuffer :: "MessageBuffer \<Rightarrow> ByteBuffer" where
  "ByteBuffer_of_MessageBuffer m = ByteBuffer_init\<lparr>bb_storage := fst (MessageBuffer_Move m)\<rparr>"

definition ByteBuffer_clear :: "ByteBuffer \<Rightarrow> ByteBuffer" where
  "ByteBuffer_clear b = ByteBuffer_init"

definition ByteBuffer_size :: "ByteBuffer \<Rightarrow> nat" where
  "ByteBuffer_size b = length (bb_storage b)"

subsection \<open>Bytes of machine integers\<close>

definition le_bytes :: "'a::len word \<Rightarrow> u8 list" where
  "le_bytes w = map (\<lambda>i. ucast (drop_bit (8 * i) w)) [0..<LENGTH('a) div 8]"

fun le_word :: "u8 list \<Rightarrow> 'a::len word" where
  "le_word [] = 0"
| "le_word (x # xs) = ucast x OR push_bit 8 (le_word xs)"

subsection \<open>Writing bytes\<close>

definition bb_insert :: "u8 list \<Rightarrow> ByteBuffer \<Rightarrow> bb_error + ByteBuffer" where
  "bb_insert src b =
     (if bb_wpos b > ByteBuffer_size b then Inl OutOfRange
      else Inr (b\<lparr>bb_storage := take (bb_wpos b) (bb_storage b) @ src @ drop (bb_wpos b) (bb_storage b),
                  bb_wpos := bb_wpos b + length src\<rparr>))"

text \<open>\<open>FlushBits\<close> calls \<open>append\<close> for the pending byte, which finds no pending bits itself.\<close>

definition ByteBuffer_FlushBits :: "ByteBuffer \<Rightarrow> bb_error + ByteBuffer" where
  "ByteBuffer_FlushBits b =
     (if bb_bitpos b = 8 then Inr b
      else let b1 = b\<lparr>bb_bitpos := 8\<rparr> in
           if ByteBuffer_size b1 < 10000000
           then and_then (bb_insert [bb_curbitval b1] b1) (\<lambda>b2. Inr (b2\<lparr>bb_curbitval := 0\<rparr>))
           else Inl AssertFailed)"

definition ByteBuffer_append :: "u8 list \<Rightarrow> ByteBuffer \<Rightarrow> bb_error + ByteBuffer" where
  "ByteBuffer_append src b =
     (if src = [] then Inl AssertFailed
      else if ByteBuffer_size b < 10000000
      then and_then (ByteBuffer_FlushBits b) (bb_insert src)
      else Inl AssertFailed)"

definition ByteBuffer_append_value :: "'a::len word \<Rightarrow> ByteBuffer \<Rightarrow> bb_error + ByteBuffer" where
  "ByteBuffer_append_value value b = ByteBuffer_append (le_bytes value) b"

definition ByteBuffer_put :: "nat \<Rightarrow> u8 list \<Rightarrow> ByteBuffer \<Rightarrow> bb_error + ByteBuffer" where
  "ByteBuffer_put pos src b =
     (if pos + length src \<le> ByteBuffer_size b \<and> src \<noteq> []
      then Inr (b\<lparr>bb_storage := take pos (bb_storage b) @ src @ drop (pos + length src) (bb_storage b)\<rparr>)
      else Inl AssertFailed)"

definition ByteBuffer_put_value :: "nat \<Rightarrow> 'a::len word \<Rightarrow> ByteBuffer \<Rightarrow> bb_error + ByteBuffer" where
  "ByteBuffer_put_value pos value b = ByteBuffer_put pos (le_bytes value) b"

text \<open>\<open>std::string\<close> on the wire: the characters and a zero byte, or, with the length sent apart, the
  characters alone.\<close>

definition ByteBuffer_append_string :: "u8 list \<Rightarrow> ByteBuffer \<Rightarrow> bb_error + ByteBuffer" where
  "ByteBuffer_append_string value b =
     and_then (if value \<noteq> [] then ByteBuffer_append value b else Inr b)
       (ByteBuffer_append_value (0 :: u8))"

definition ByteBuffer_WriteString :: "u8 list \<Rightarrow> ByteBuffer \<Rightarrow> bb_error + ByteBuffer" where
  "ByteBuffer_WriteString str b = (if str \<noteq> [] then ByteBuffer_append str b else Inr b)"

definition ByteBuffer_append_buffer :: "ByteBuffer \<Rightarrow> ByteBuffer \<Rightarrow> bb_error + ByteBuffer" where
  "ByteBuffer_append_buffer buffer b =
     (if bb_storage buffer \<noteq> [] then ByteBuffer_append (bb_storage buffer) b else Inr b)"

definition ByteBuffer_WriteByteSeq :: "u8 \<Rightarrow> ByteBuffer \<Rightarrow> bb_error + ByteBuffer" where
  "ByteBuffer_WriteByteSeq x b = (if x \<noteq> 0 then ByteBuffer_append_value (x XOR 1) b else Inr b)"

definition ByteBuffer_resize :: "nat \<Rightarrow> ByteBuffer \<Rightarrow> ByteBuffer" where
  "ByteBuffer_resize newsize b =
     b\<lparr>bb_storage := vector_resize newsize (bb_storage b), bb_rpos := 0, bb_wpos := newsize\<rparr>"

subsection \<open>Reading bytes\<close>

definition ByteBuffer_ResetBitPos :: "ByteBuffer \<Rightarrow> ByteBuffer" where
  "ByteBuffer_ResetBitPos b =
     (if bb_bitpos b > 7 then b else b\<lparr>bb_bitpos := 8, bb_curbitval := 0\<rparr>)"

definition ByteBuffer_read_at :: "nat \<Rightarrow> ByteBuffer \<Rightarrow> bb_error + 'a::len word" where
  "ByteBuffer_read_at pos b =
     (if pos + LENGTH('a) div 8 > ByteBuffer_size b
      then Inl (ByteBufferPositionException pos (LENGTH('a) div 8) (ByteBuffer_size b))
      else Inr (le_word (take (LENGTH('a) div 8) (drop pos (bb_storage b)))))"

definition ByteBuffer_read :: "ByteBuffer \<Rightarrow> bb_error + ('a::len word \<times> ByteBuffer)" where
  "ByteBuffer_read b =
     (let b1 = ByteBuffer_ResetBitPos b in
      and_then (ByteBuffer_read_at (bb_rpos b1) b1) (\<lambda>r.
        Inr (r, b1\<lparr>bb_rpos := bb_rpos b1 + LENGTH('a) div 8\<rparr>)))"

definition ByteBuffer_read_bytes :: "nat \<Rightarrow> ByteBuffer \<Rightarrow> bb_error + (u8 list \<times> ByteBuffer)" where
  "ByteBuffer_read_bytes len b =
     (if bb_rpos b + len > ByteBuffer_size b
      then Inl (ByteBufferPositionException (bb_rpos b) len (ByteBuffer_size b))
      else let b1 = ByteBuffer_ResetBitPos b in
        Inr (take len (drop (bb_rpos b1) (bb_storage b1)), b1\<lparr>bb_rpos := bb_rpos b1 + len\<rparr>))"

definition ByteBuffer_read_skip :: "nat \<Rightarrow> ByteBuffer \<Rightarrow> bb_error + ByteBuffer" where
  "ByteBuffer_read_skip skip b =
     (if bb_rpos b + skip > ByteBuffer_size b
      then Inl (ByteBufferPositionException (bb_rpos b) skip (ByteBuffer_size b))
      else let b1 = ByteBuffer_ResetBitPos b in Inr (b1\<lparr>bb_rpos := bb_rpos b1 + skip\<rparr>))"

definition ByteBuffer_read_bool :: "ByteBuffer \<Rightarrow> bb_error + (bool \<times> ByteBuffer)" where
  "ByteBuffer_read_bool b = and_then (ByteBuffer_read b) (\<lambda>(v :: u8, b1). Inr (sint v > 0, b1))"

definition ByteBuffer_read_float :: "ByteBuffer \<Rightarrow> bb_error + (u32 \<times> ByteBuffer)" where
  "ByteBuffer_read_float b = and_then (ByteBuffer_read b) (\<lambda>(v :: u32, b1).
     if v AND 0x7F800000 = 0x7F800000 then Inl ByteBufferException else Inr (v, b1))"

definition ByteBuffer_read_double :: "ByteBuffer \<Rightarrow> bb_error + (u64 \<times> ByteBuffer)" where
  "ByteBuffer_read_double b = and_then (ByteBuffer_read b) (\<lambda>(v :: u64, b1).
     if v AND 0x7FF0000000000000 = 0x7FF0000000000000 then Inl ByteBufferException else Inr (v, b1))"

text \<open>\<open>operator>>(std::string&)\<close> stops at a zero byte or at the end of the packet.\<close>

function ByteBuffer_read_string :: "ByteBuffer \<Rightarrow> bb_error + (u8 list \<times> ByteBuffer)" where
  "ByteBuffer_read_string b =
     (if bb_rpos b < ByteBuffer_size b
      then case ByteBuffer_read b of
             Inl e \<Rightarrow> Inl e
           | Inr (c, b1) \<Rightarrow>
               if c = 0 then Inr ([], b1)
               else (case ByteBuffer_read_string b1 of
                       Inl e \<Rightarrow> Inl e
                     | Inr (s, b2) \<Rightarrow> Inr (c # s, b2))
      else Inr ([], b))"
  by pat_completeness auto
termination
  by (relation "measure (\<lambda>b. ByteBuffer_size b - bb_rpos b)")
     (auto simp: ByteBuffer_read_def ByteBuffer_read_at_def ByteBuffer_ResetBitPos_def
        ByteBuffer_size_def Let_def split: if_splits)

declare ByteBuffer_read_string.simps [simp del]

definition ByteBuffer_ReadString :: "nat \<Rightarrow> ByteBuffer \<Rightarrow> bb_error + (u8 list \<times> ByteBuffer)" where
  "ByteBuffer_ReadString len b =
     (if bb_rpos b + len > ByteBuffer_size b
      then Inl (ByteBufferPositionException (bb_rpos b) len (ByteBuffer_size b))
      else let b1 = ByteBuffer_ResetBitPos b in
        if len = 0 then Inr ([], b1)
        else Inr (take len (drop (bb_rpos b1) (bb_storage b1)), b1\<lparr>bb_rpos := bb_rpos b1 + len\<rparr>))"

definition ByteBuffer_ReadByteSeq :: "u8 \<Rightarrow> ByteBuffer \<Rightarrow> bb_error + (u8 \<times> ByteBuffer)" where
  "ByteBuffer_ReadByteSeq x b =
     (if x \<noteq> 0 then and_then (ByteBuffer_read b) (\<lambda>(v, b1). Inr (x XOR v, b1)) else Inr (x, b))"

subsection \<open>Bits\<close>

definition ByteBuffer_WriteBit :: "bool \<Rightarrow> ByteBuffer \<Rightarrow> bb_error + ByteBuffer" where
  "ByteBuffer_WriteBit v b =
     (if bb_bitpos b = 0 then Inl OutOfRange
      else let p = bb_bitpos b - 1;
               c = (if v then bb_curbitval b OR push_bit p 1 else bb_curbitval b);
               b1 = b\<lparr>bb_bitpos := p, bb_curbitval := c\<rparr>
           in if p = 0
              then and_then (ByteBuffer_append [c] (b1\<lparr>bb_bitpos := 8\<rparr>)) (\<lambda>b2.
                     Inr (b2\<lparr>bb_curbitval := 0\<rparr>))
              else Inr b1)"

definition ByteBuffer_ReadBit :: "ByteBuffer \<Rightarrow> bb_error + (bool \<times> ByteBuffer)" where
  "ByteBuffer_ReadBit b =
     (let b1 = b\<lparr>bb_bitpos := bb_bitpos b + 1\<rparr> in
      and_then (if bb_bitpos b1 > 7
                then and_then (ByteBuffer_read b1) (\<lambda>(c, b2).
                       Inr (b2\<lparr>bb_curbitval := c, bb_bitpos := 0\<rparr>))
                else Inr b1) (\<lambda>b3.
        Inr (bit (bb_curbitval b3) (7 - bb_bitpos b3), b3)))"

fun ByteBuffer_WriteBits :: "u64 \<Rightarrow> nat \<Rightarrow> ByteBuffer \<Rightarrow> bb_error + ByteBuffer" where
  "ByteBuffer_WriteBits v 0 b = Inr b"
| "ByteBuffer_WriteBits v (Suc i) b =
     (if i \<ge> 64 then Inl UndefinedShift
      else and_then (ByteBuffer_WriteBit (bit v i) b) (ByteBuffer_WriteBits v i))"

fun bb_ReadBits :: "nat \<Rightarrow> u32 \<Rightarrow> ByteBuffer \<Rightarrow> bb_error + (u32 \<times> ByteBuffer)" where
  "bb_ReadBits 0 v b = Inr (v, b)"
| "bb_ReadBits (Suc i) v b =
     and_then (ByteBuffer_ReadBit b) (\<lambda>(x, b1).
       if x \<and> i \<ge> 32 then Inl UndefinedShift
       else bb_ReadBits i (if x then v OR push_bit i 1 else v) b1)"

definition ByteBuffer_ReadBits :: "nat \<Rightarrow> ByteBuffer \<Rightarrow> bb_error + (u32 \<times> ByteBuffer)" where
  "ByteBuffer_ReadBits bits b = bb_ReadBits bits 0 b"

fun bb_PutBits :: "nat \<Rightarrow> u64 \<Rightarrow> nat \<Rightarrow> nat \<Rightarrow> u8 list \<Rightarrow> u8 list" where
  "bb_PutBits pos v 0 i st = st"
| "bb_PutBits pos v (Suc n) i st =
     (let wp = (pos + i) div 8; k = (pos + i) mod 8;
          x = (if bit v n then st ! wp OR push_bit (7 - k) 1
               else st ! wp AND NOT (push_bit (7 - k) 1))
      in bb_PutBits pos v n (i + 1) (st[wp := x]))"

definition ByteBuffer_PutBits :: "nat \<Rightarrow> u64 \<Rightarrow> nat \<Rightarrow> ByteBuffer \<Rightarrow> bb_error + ByteBuffer" where
  "ByteBuffer_PutBits pos v bitCount b =
     (if pos + bitCount \<le> ByteBuffer_size b * 8 \<and> bitCount \<noteq> 0
      then (if bitCount > 64 then Inl UndefinedShift
            else Inr (b\<lparr>bb_storage := bb_PutBits pos v bitCount 0 (bb_storage b)\<rparr>))
      else Inl AssertFailed)"

definition ByteBuffer_bitwpos :: "ByteBuffer \<Rightarrow> nat" where
  "ByteBuffer_bitwpos b = bb_wpos b * 8 + 8 - bb_bitpos b"

definition ByteBuffer_set_bitwpos :: "nat \<Rightarrow> ByteBuffer \<Rightarrow> ByteBuffer" where
  "ByteBuffer_set_bitwpos newPos b = b\<lparr>bb_wpos := newPos div 8, bb_bitpos := 8 - newPos mod 8\<rparr>"

subsection \<open>Packed 64-bit values and packed times\<close>

text \<open>\<open>PackUInt64\<close>: the non-zero bytes, lowest first, and the mask that says which ones they are. The
  loop ends when no set bit is left in the value.\<close>

lemma unat_drop_byte: "v \<noteq> 0 \<Longrightarrow> unat (drop_bit 8 v) < unat v"
proof -
  assume "v \<noteq> 0"
  then have "0 < unat v" by (simp add: unat_gt_0)
  then show ?thesis
    by (simp only: unat_drop_bit_eq) (simp add: drop_bit_eq_div)
qed

function bb_Pack :: "u8 \<Rightarrow> nat \<Rightarrow> u64 \<Rightarrow> u8 \<times> u8 list" where
  "bb_Pack msk i v =
     (if v = 0 then (msk, [])
      else if v AND 0xFF \<noteq> 0
      then (case bb_Pack (msk OR push_bit i 1) (i + 1) (drop_bit 8 v) of
              (m, xs) \<Rightarrow> (m, ucast (v AND 0xFF) # xs))
      else bb_Pack msk (i + 1) (drop_bit 8 v))"
  by pat_completeness auto
termination
  by (relation "measure (\<lambda>(m, i, v). unat v)") (auto intro: unat_drop_byte)

declare bb_Pack.simps [simp del]

definition ByteBuffer_PackUInt64 :: "u64 \<Rightarrow> u8 \<times> u8 list" where
  "ByteBuffer_PackUInt64 v = bb_Pack 0 0 v"

definition ByteBuffer_AppendPackedUInt64 :: "u64 \<Rightarrow> ByteBuffer \<Rightarrow> bb_error + ByteBuffer" where
  "ByteBuffer_AppendPackedUInt64 v b =
     (let pos = bb_wpos b in
      and_then (ByteBuffer_append_value (0 :: u8) b) (\<lambda>b1.
        case ByteBuffer_PackUInt64 v of (msk, packed) \<Rightarrow>
          and_then (if packed \<noteq> [] then ByteBuffer_append packed b1 else Inr b1)
            (ByteBuffer_put_value pos msk)))"

fun bb_ReadPacked :: "nat list \<Rightarrow> u8 \<Rightarrow> u64 \<Rightarrow> ByteBuffer \<Rightarrow> bb_error + (u64 \<times> ByteBuffer)" where
  "bb_ReadPacked [] msk v b = Inr (v, b)"
| "bb_ReadPacked (i # is) msk v b =
     (if bit msk i
      then and_then (ByteBuffer_read b) (\<lambda>(x :: u8, b1).
             bb_ReadPacked is msk (v OR push_bit (i * 8) (ucast x)) b1)
      else bb_ReadPacked is msk v b)"

definition ByteBuffer_ReadPackedUInt64_mask :: "u8 \<Rightarrow> u64 \<Rightarrow> ByteBuffer
    \<Rightarrow> bb_error + (u64 \<times> ByteBuffer)" where
  "ByteBuffer_ReadPackedUInt64_mask msk v b = bb_ReadPacked [0..<8] msk v b"

definition ByteBuffer_ReadPackedUInt64 :: "ByteBuffer \<Rightarrow> bb_error + (u64 \<times> ByteBuffer)" where
  "ByteBuffer_ReadPackedUInt64 b = and_then (ByteBuffer_read b) (\<lambda>(msk, b1).
     ByteBuffer_ReadPackedUInt64_mask msk 0 b1)"

record tm =
  tm_min :: u32
  tm_hour :: u32
  tm_mday :: u32
  tm_mon :: u32
  tm_year :: u32
  tm_wday :: u32

definition ByteBuffer_ReadPackedTime :: "(tm \<Rightarrow> u32) \<Rightarrow> ByteBuffer \<Rightarrow> bb_error + (u32 \<times> ByteBuffer)" where
  "ByteBuffer_ReadPackedTime mktime b = and_then (ByteBuffer_read b) (\<lambda>(d :: u32, b1).
     Inr (mktime \<lparr>tm_min = d AND 0x3F, tm_hour = drop_bit 6 d AND 0x1F,
                  tm_mday = (drop_bit 14 d AND 0x3F) + 1, tm_mon = drop_bit 20 d AND 0xF,
                  tm_year = (drop_bit 24 d AND 0x1F) + 100, tm_wday = 0\<rparr>, b1))"

definition ByteBuffer_AppendPackedTime :: "('t \<Rightarrow> tm) \<Rightarrow> 't \<Rightarrow> ByteBuffer \<Rightarrow> bb_error + ByteBuffer" where
  "ByteBuffer_AppendPackedTime localtime t b =
     (let lt = localtime t in
      ByteBuffer_append_value (push_bit 24 (tm_year lt - 100) OR push_bit 20 (tm_mon lt)
        OR push_bit 14 (tm_mday lt - 1) OR push_bit 11 (tm_wday lt) OR push_bit 6 (tm_hour lt)
        OR tm_min lt) b)"

subsection \<open>Laws of the byte functions\<close>

lemma bit_le_word: "bit (le_word bs :: 'a::len word) n \<longleftrightarrow>
    n < LENGTH('a) \<and> n div 8 < length bs \<and> bit (bs ! (n div 8)) (n mod 8)"
proof (induction bs arbitrary: n)
  case (Cons x xs)
  show ?case
  proof (cases "n < 8")
    case True
    then show ?thesis
      by (auto simp: bit_or_iff bit_ucast_iff bit_push_bit_iff dest: bit_imp_le_length)
  next
    case False
    then obtain k where k: "n = k + 8" by (metis add.commute le_Suc_ex not_less)
    have "\<not> bit x n" using False by (auto dest: bit_imp_le_length)
    moreover have "(k + 8) div 8 = Suc (k div 8)" by simp
    ultimately show ?thesis
      using Cons.IH [of k] by (auto simp: k bit_or_iff bit_ucast_iff bit_push_bit_iff)
  qed
qed simp

lemma length_le_bytes [simp]: "length (le_bytes (w :: 'a::len word)) = LENGTH('a) div 8"
  by (simp add: le_bytes_def)

lemma le_word_le_bytes:
  assumes "8 dvd LENGTH('a)"
  shows "le_word (le_bytes w) = (w :: 'a::len word)"
proof (rule bit_word_eqI)
  fix n assume n: "n < LENGTH('a)"
  with assms have d: "n div 8 < LENGTH('a) div 8"
    by (metis dvd_mult_div_cancel less_mult_imp_div_less mult.commute)
  then show "bit (le_word (le_bytes w) :: 'a word) n \<longleftrightarrow> bit w n"
    using n by (simp add: bit_le_word) (simp add: le_bytes_def bit_ucast_iff bit_drop_bit_eq)
qed

lemma le_bytes_le_word:
  assumes "8 dvd LENGTH('a)" "length bs = LENGTH('a) div 8"
  shows "le_bytes (le_word bs :: 'a::len word) = bs"
proof (rule nth_equalityI)
  fix i assume "i < length (le_bytes (le_word bs :: 'a word))"
  then have i: "i < LENGTH('a) div 8" by simp
  have "bit (ucast (drop_bit (8 * i) (le_word bs :: 'a word)) :: u8) n \<longleftrightarrow> bit (bs ! i) n"
    if "n < 8" for n
  proof -
    from assms(1) obtain m where "LENGTH('a) = 8 * m" by (rule dvdE)
    with i that have "8 * i + n < LENGTH('a)" by simp
    with that i assms(2) show ?thesis
      by (simp add: bit_ucast_iff bit_drop_bit_eq bit_le_word)
  qed
  then have "ucast (drop_bit (8 * i) (le_word bs :: 'a word)) = bs ! i"
    by (intro bit_word_eqI) simp
  with i show "le_bytes (le_word bs :: 'a word) ! i = bs ! i"
    by (simp add: le_bytes_def)
qed (use assms in simp)

text \<open>A buffer packets are written to: no bits pending, the cursor at the end, room for \<open>n\<close> bytes.\<close>

definition bb_room :: "nat \<Rightarrow> ByteBuffer \<Rightarrow> bool" where
  "bb_room n b \<longleftrightarrow> bb_bitpos b = 8 \<and> bb_wpos b = length (bb_storage b)
     \<and> length (bb_storage b) + n < 10000000"

definition bb_emit :: "u8 list \<Rightarrow> ByteBuffer \<Rightarrow> ByteBuffer" where
  "bb_emit bs b = b\<lparr>bb_storage := bb_storage b @ bs, bb_wpos := bb_wpos b + length bs\<rparr>"

definition bb_has :: "u8 list \<Rightarrow> ByteBuffer \<Rightarrow> bool" where
  "bb_has bs b \<longleftrightarrow> bb_bitpos b = 8 \<and> (\<exists>rest. drop (bb_rpos b) (bb_storage b) = bs @ rest)"

definition bb_skip :: "nat \<Rightarrow> ByteBuffer \<Rightarrow> ByteBuffer" where
  "bb_skip n b = b\<lparr>bb_rpos := bb_rpos b + n\<rparr>"

lemma bb_emit_Nil [simp]: "bb_emit [] b = b"
  by (simp add: bb_emit_def)

lemma bb_emit_append: "bb_emit ys (bb_emit xs b) = bb_emit (xs @ ys) b"
  by (simp add: bb_emit_def)

lemma bb_room_emit: "bb_room (length xs + n) b \<Longrightarrow> bb_room n (bb_emit xs b)"
  by (simp add: bb_room_def bb_emit_def)

lemma bb_room_less: "bb_room n b \<Longrightarrow> m \<le> n \<Longrightarrow> bb_room m b"
  by (simp add: bb_room_def)

lemma bb_has_append: "bb_has (xs @ ys) b \<Longrightarrow> bb_has xs b \<and> bb_has ys (bb_skip (length xs) b)"
proof -
  assume "bb_has (xs @ ys) b"
  then obtain rest where "bb_bitpos b = 8" "drop (bb_rpos b) (bb_storage b) = xs @ ys @ rest"
    by (auto simp: bb_has_def)
  moreover from this have "drop (bb_rpos b + length xs) (bb_storage b) = ys @ rest"
    by (metis add.commute append_eq_conv_conj drop_drop)
  ultimately show ?thesis by (auto simp: bb_has_def bb_skip_def)
qed

lemma bb_skip_skip [simp]: "bb_skip m (bb_skip n b) = bb_skip (n + m) b"
  by (simp add: bb_skip_def add.assoc)

lemma bb_skip_0 [simp]: "bb_skip 0 b = b"
  by (simp add: bb_skip_def)

lemma bb_has_length: "bb_has bs b \<Longrightarrow> bb_rpos b + length bs \<le> length (bb_storage b) \<or> bs = []"
  by (cases bs) (auto simp: bb_has_def dest!: arg_cong [of "drop _ _" _ length])

lemma bb_has_take: "bb_has bs b \<Longrightarrow> take (length bs) (drop (bb_rpos b) (bb_storage b)) = bs"
  by (auto simp: bb_has_def)

lemma bb_has_reset: "bb_has bs b \<Longrightarrow> ByteBuffer_ResetBitPos b = b"
  by (simp add: bb_has_def ByteBuffer_ResetBitPos_def)

lemma ByteBuffer_append_emit:
  "bb_room (length bs) b \<Longrightarrow> bs \<noteq> [] \<Longrightarrow> ByteBuffer_append bs b = Inr (bb_emit bs b)"
  by (simp add: ByteBuffer_append_def bb_room_def ByteBuffer_size_def ByteBuffer_FlushBits_def
      bb_insert_def bb_emit_def)

lemma ByteBuffer_read_has:
  assumes "bb_has (le_bytes w) b" "8 dvd LENGTH('a)"
  shows "ByteBuffer_read b = Inr (w :: 'a::len word, bb_skip (LENGTH('a) div 8) b)"
proof -
  have "8 \<le> LENGTH('a)" using assms(2) by (simp add: dvd_imp_le)
  then have "le_bytes w \<noteq> []" by (simp add: le_bytes_def)
  with bb_has_length [OF assms(1)] bb_has_take [OF assms(1)] bb_has_reset [OF assms(1)]
  show ?thesis
    by (simp add: ByteBuffer_read_def ByteBuffer_read_at_def ByteBuffer_size_def bb_skip_def
        le_word_le_bytes [OF assms(2)])
qed

subsection \<open>The contract of the stream operators\<close>

locale wire_type =
  fixes put :: "'v \<Rightarrow> ByteBuffer \<Rightarrow> bb_error + ByteBuffer"
    and get :: "ByteBuffer \<Rightarrow> bb_error + ('v \<times> ByteBuffer)"
    and image :: "'v \<Rightarrow> u8 list"
    and legal :: "'v \<Rightarrow> bool"
  assumes put_image: "legal x \<Longrightarrow> bb_room (length (image x)) b \<Longrightarrow> put x b = Inr (bb_emit (image x) b)"
    and get_image: "legal x \<Longrightarrow> bb_has (image x) b \<Longrightarrow> get b = Inr (x, bb_skip (length (image x)) b)"
    and image_nonempty: "legal x \<Longrightarrow> image x \<noteq> []"

fun put_all :: "('v \<Rightarrow> ByteBuffer \<Rightarrow> bb_error + ByteBuffer) \<Rightarrow> 'v list \<Rightarrow> ByteBuffer
    \<Rightarrow> bb_error + ByteBuffer" where
  "put_all put [] b = Inr b"
| "put_all put (x # xs) b = and_then (put x b) (put_all put xs)"

fun get_all :: "(ByteBuffer \<Rightarrow> bb_error + ('v \<times> ByteBuffer)) \<Rightarrow> nat \<Rightarrow> ByteBuffer
    \<Rightarrow> bb_error + ('v list \<times> ByteBuffer)" where
  "get_all get 0 b = Inr ([], b)"
| "get_all get (Suc n) b = and_then (get b) (\<lambda>(x, b1).
     and_then (get_all get n b1) (\<lambda>(xs, b2). Inr (x # xs, b2)))"

context wire_type
begin

lemma put_all_image:
  "list_all legal xs \<Longrightarrow> bb_room (length (concat (map image xs))) b \<Longrightarrow>
     put_all put xs b = Inr (bb_emit (concat (map image xs)) b)"
proof (induction xs arbitrary: b)
  case (Cons x xs)
  from Cons.prems have "put x b = Inr (bb_emit (image x) b)"
    by (intro put_image) (auto intro: bb_room_less)
  moreover from Cons.prems(2) have "bb_room (length (concat (map image xs))) (bb_emit (image x) b)"
    by (intro bb_room_emit) simp
  ultimately show ?case using Cons by (simp add: bb_emit_append)
qed simp

lemma get_all_image:
  "list_all legal xs \<Longrightarrow> bb_has (concat (map image xs)) b \<Longrightarrow>
     get_all get (length xs) b = Inr (xs, bb_skip (length (concat (map image xs))) b)"
proof (induction xs arbitrary: b)
  case (Cons x xs)
  from Cons.prems(2) have has: "bb_has (image x) b"
      "bb_has (concat (map image xs)) (bb_skip (length (image x)) b)"
    by (auto dest: bb_has_append)
  with Cons.prems(1) Cons.IH [OF _ has(2)] show ?case
    by (simp add: get_image [OF _ has(1)])
qed simp

text \<open>A packet of such values reads back as it was written.\<close>

lemma packet_roundtrip:
  assumes "list_all legal xs" "length (concat (map image xs)) < 10000000"
  shows "\<exists>b. put_all put xs ByteBuffer_init = Inr b \<and>
    ok_and (\<lambda>(ys, b'). ys = xs \<and> bb_rpos b' = ByteBuffer_size b) (get_all get (length xs) b)"
proof -
  let ?bs = "concat (map image xs)"
  have "put_all put xs ByteBuffer_init = Inr (bb_emit ?bs ByteBuffer_init)"
    using assms by (intro put_all_image) (auto simp: bb_room_def ByteBuffer_init_def)
  moreover have "bb_has ?bs (bb_emit ?bs ByteBuffer_init)"
    by (simp add: bb_has_def bb_emit_def ByteBuffer_init_def)
  then have "get_all get (length xs) (bb_emit ?bs ByteBuffer_init) =
      Inr (xs, bb_skip (length ?bs) (bb_emit ?bs ByteBuffer_init))"
    using assms(1) by (intro get_all_image)
  ultimately show ?thesis
    by (simp add: bb_skip_def bb_emit_def ByteBuffer_init_def ByteBuffer_size_def)
qed

end

lemma wire_value:
  assumes "8 dvd LENGTH('a)"
  shows "wire_type ByteBuffer_append_value ByteBuffer_read (le_bytes :: 'a::len word \<Rightarrow> _) (\<lambda>_. True)"
proof
  have "8 \<le> LENGTH('a)" using assms by (simp add: dvd_imp_le)
  then have n: "le_bytes w \<noteq> []" for w :: "'a word"
    by (simp add: le_bytes_def)
  then show "le_bytes w \<noteq> []" for w :: "'a word" .
  show "bb_room (length (le_bytes w)) b \<Longrightarrow> ByteBuffer_append_value w b = Inr (bb_emit (le_bytes w) b)"
    for w :: "'a word" and b
    by (simp only: ByteBuffer_append_value_def ByteBuffer_append_emit n not_False_eq_True)
  show "bb_has (le_bytes w) b \<Longrightarrow> ByteBuffer_read b = Inr (w, bb_skip (length (le_bytes w)) b)"
    for w :: "'a word" and b
    using ByteBuffer_read_has [OF _ assms, of w b] by simp
qed

interpretation wire_u8: wire_type ByteBuffer_append_value ByteBuffer_read "le_bytes :: u8 \<Rightarrow> _" "\<lambda>_. True"
  by (rule wire_value) simp

interpretation wire_u16: wire_type ByteBuffer_append_value ByteBuffer_read "le_bytes :: u16 \<Rightarrow> _" "\<lambda>_. True"
  by (rule wire_value) simp

interpretation wire_u32: wire_type ByteBuffer_append_value ByteBuffer_read "le_bytes :: u32 \<Rightarrow> _" "\<lambda>_. True"
  by (rule wire_value) simp

interpretation wire_u64: wire_type ByteBuffer_append_value ByteBuffer_read "le_bytes :: u64 \<Rightarrow> _" "\<lambda>_. True"
  by (rule wire_value) simp

lemma le_bytes_u8 [simp]: "le_bytes (x :: u8) = [x]"
  by (simp add: le_bytes_def)

subsection \<open>Strings\<close>

lemma ByteBuffer_append_string_image:
  "bb_room (length (s @ [0])) b \<Longrightarrow> ByteBuffer_append_string s b = Inr (bb_emit (s @ [0]) b)"
proof -
  assume room: "bb_room (length (s @ [0])) b"
  then have "(if s \<noteq> [] then ByteBuffer_append s b else Inr b) = Inr (bb_emit s b)"
    by (auto intro!: ByteBuffer_append_emit intro: bb_room_less)
  moreover have "bb_room 1 (bb_emit s b)" using room by (intro bb_room_emit) simp
  ultimately show ?thesis
    by (simp add: ByteBuffer_append_string_def ByteBuffer_append_value_def ByteBuffer_append_emit
        bb_emit_append)
qed

lemma ByteBuffer_read_string_image:
  "0 \<notin> set s \<Longrightarrow> bb_has (s @ [0]) b \<Longrightarrow>
     ByteBuffer_read_string b = Inr (s, bb_skip (length (s @ [0])) b)"
proof (induction s arbitrary: b)
  case Nil
  with bb_has_length [of "[0]" b] have "bb_rpos b < ByteBuffer_size b"
    by (simp add: ByteBuffer_size_def)
  with Nil show ?case
    using ByteBuffer_read_has [of "0 :: u8" b]
    by (subst ByteBuffer_read_string.simps) simp
next
  case (Cons c s)
  with bb_has_length [of "c # s @ [0]" b] have lt: "bb_rpos b < ByteBuffer_size b"
    by (simp add: ByteBuffer_size_def)
  from Cons.prems(2) have has: "bb_has [c] b" "bb_has (s @ [0]) (bb_skip 1 b)"
    using bb_has_append [of "[c]" "s @ [0]" b] by simp_all
  have "ByteBuffer_read b = Inr (c, bb_skip 1 b)"
    using ByteBuffer_read_has [of c b] has(1) by simp
  with lt Cons.IH [OF _ has(2)] Cons.prems(1) show ?case
    by (subst ByteBuffer_read_string.simps) simp
qed

interpretation wire_string: wire_type ByteBuffer_append_string ByteBuffer_read_string "\<lambda>s. s @ [0]"
  "\<lambda>s. 0 \<notin> set s"
  by unfold_locales (simp_all only: ByteBuffer_append_string_image ByteBuffer_read_string_image, simp)

text \<open>A string sent with its length apart may hold any bytes.\<close>

lemma ByteBuffer_WriteString_ReadString:
  assumes "bb_room (length s) b" "bb_rpos b = bb_wpos b"
  shows "\<exists>b1. ByteBuffer_WriteString s b = Inr b1 \<and>
    ByteBuffer_ReadString (length s) b1 = Inr (s, bb_skip (length s) b1)"
proof -
  have "ByteBuffer_WriteString s b = Inr (bb_emit s b)"
    using assms(1) by (simp add: ByteBuffer_WriteString_def ByteBuffer_append_emit)
  with assms show ?thesis
    by (cases b) (auto simp: ByteBuffer_ReadString_def bb_emit_def bb_room_def bb_skip_def
        ByteBuffer_size_def ByteBuffer_ResetBitPos_def Let_def)
qed

text \<open>A read inside the packet succeeds, one beyond its end throws and nothing else happens.\<close>

lemma ByteBuffer_ResetBitPos_simps [simp]:
  "bb_rpos (ByteBuffer_ResetBitPos b) = bb_rpos b"
  "bb_wpos (ByteBuffer_ResetBitPos b) = bb_wpos b"
  "bb_storage (ByteBuffer_ResetBitPos b) = bb_storage b"
  "ByteBuffer_size (ByteBuffer_ResetBitPos b) = ByteBuffer_size b"
  by (simp_all add: ByteBuffer_ResetBitPos_def ByteBuffer_size_def)

lemma ByteBuffer_size_rpos [simp]: "ByteBuffer_size (b\<lparr>bb_rpos := n\<rparr>) = ByteBuffer_size b"
  by (simp add: ByteBuffer_size_def)

lemma ByteBuffer_read_inside:
  "bb_rpos b + LENGTH('a::len) div 8 \<le> ByteBuffer_size b \<Longrightarrow>
     ok_and (\<lambda>(w :: 'a word, b'). bb_rpos b' = bb_rpos b + LENGTH('a) div 8
       \<and> ByteBuffer_size b' = ByteBuffer_size b) (ByteBuffer_read b)"
  by (simp add: ByteBuffer_read_def ByteBuffer_read_at_def Let_def)

lemma ByteBuffer_read_outside:
  "ByteBuffer_size b < bb_rpos b + LENGTH('a::len) div 8 \<Longrightarrow>
     (ByteBuffer_read b :: bb_error + ('a word \<times> ByteBuffer)) =
       Inl (ByteBufferPositionException (bb_rpos b) (LENGTH('a) div 8) (ByteBuffer_size b))"
  by (simp add: ByteBuffer_read_def ByteBuffer_read_at_def Let_def)

text \<open>Whatever a client sends, reading a string stays inside the packet and leaves the buffer at or before
  its end.\<close>

lemma ByteBuffer_read_string_safe:
  "bb_rpos b \<le> ByteBuffer_size b \<Longrightarrow> ok_and (\<lambda>(s, b'). bb_rpos b' \<le> ByteBuffer_size b'
     \<and> ByteBuffer_size b' = ByteBuffer_size b \<and> bb_rpos b + length s \<le> bb_rpos b' \<and> 0 \<notin> set s)
     (ByteBuffer_read_string b)"
proof (induction b rule: ByteBuffer_read_string.induct)
  case (1 b)
  show ?case
  proof (cases "bb_rpos b < ByteBuffer_size b")
    case True
    then obtain c :: u8 and b1 where r: "ByteBuffer_read b = Inr (c, b1)"
        "bb_rpos b1 = bb_rpos b + 1" "ByteBuffer_size b1 = ByteBuffer_size b"
      using ByteBuffer_read_inside [of b, where 'a = 8] by (auto simp: ok_and_iff)
    have "c \<noteq> 0 \<Longrightarrow> ok_and (\<lambda>(s, b'). bb_rpos b' \<le> ByteBuffer_size b'
        \<and> ByteBuffer_size b' = ByteBuffer_size b1 \<and> bb_rpos b1 + length s \<le> bb_rpos b' \<and> 0 \<notin> set s)
        (ByteBuffer_read_string b1)"
      using "1.IH" [OF True r(1) refl] True r by simp
    with True r show ?thesis
      by (subst ByteBuffer_read_string.simps) (auto simp: ok_and_iff)
  next
    case False
    with 1 show ?thesis by (subst ByteBuffer_read_string.simps) simp
  qed
qed

subsection \<open>Packed 64-bit values\<close>

lemma low8: "(v AND 0xFF) = take_bit 8 (v :: u64)"
  by (simp add: take_bit_eq_mask mask_eq_exp_minus_1)

lemma bb_ReadPacked_none:
  "\<forall>i \<in> set is. \<not> bit msk i \<Longrightarrow> bb_ReadPacked is msk acc b = Inr (acc, b)"
  by (induction "is") auto

lemma split_low_byte:
  "acc OR push_bit (i * 8) (take_bit 8 v) OR push_bit ((i + 1) * 8) (drop_bit 8 v) =
     acc OR push_bit (i * 8) (v :: u64)"
proof (rule bit_word_eqI)
  fix n assume "n < LENGTH(64)"
  show "bit (acc OR push_bit (i * 8) (take_bit 8 v) OR push_bit ((i + 1) * 8) (drop_bit 8 v)) n
      \<longleftrightarrow> bit (acc OR push_bit (i * 8) v) n"
  proof (cases "n < i * 8 + 8")
    case True
    then show ?thesis by (auto simp: bit_or_iff bit_push_bit_iff bit_take_bit_iff)
  next
    case False
    then have "8 + (n - (8 + i * 8)) = n - i * 8" by simp
    with False \<open>n < LENGTH(64)\<close> show ?thesis
      by (auto simp: bit_or_iff bit_push_bit_iff bit_take_bit_iff bit_drop_bit_eq algebra_simps)
  qed
qed

lemma bb_Pack_read:
  assumes "bb_Pack msk i v = (m, xs)" "\<And>n. bit v n \<Longrightarrow> n + 8 * i < 64" "\<And>j. i \<le> j \<Longrightarrow> \<not> bit msk j"
  shows "(\<forall>j < i. bit m j = bit msk j) \<and>
    (bb_has xs b \<longrightarrow> bb_ReadPacked [i..<8] m acc b =
       Inr (acc OR push_bit (i * 8) v, bb_skip (length xs) b))"
  using assms
proof (induction msk i v arbitrary: m xs b acc rule: bb_Pack.induct)
  case (1 msk i v)
  show ?case
  proof (cases "v = 0")
    case True
    with "1.prems" show ?thesis
      by (simp add: bb_Pack.simps [of msk i 0] bb_ReadPacked_none)
  next
    case False
    then obtain n where n: "bit v n" by (metis bit_eq_iff bit_0_eq bot_apply bot_bool_def)
    with "1.prems"(2) have i: "i < 8" by fastforce
    then have upt: "[i..<8] = i # [i + 1..<8]" by (simp add: upt_conv_Cons)
    have bound: "bit (drop_bit 8 v) k \<Longrightarrow> k + 8 * (i + 1) < 64" for k
      using "1.prems"(2) [of "k + 8"] by (simp add: bit_drop_bit_eq add.commute)
    show ?thesis
    proof (cases "v AND 0xFF = 0")
      case True
      with False "1.prems"(1) have p: "bb_Pack msk (i + 1) (drop_bit 8 v) = (m, xs)"
        by (simp add: bb_Pack.simps [of msk i v])
      from "1.IH"(2) [OF False _ p bound] True "1.prems"(3)
      have IH: "\<forall>j < i + 1. bit m j = bit msk j"
        "bb_has xs b \<longrightarrow> bb_ReadPacked [i + 1..<8] m acc b =
           Inr (acc OR push_bit ((i + 1) * 8) (drop_bit 8 v), bb_skip (length xs) b)" by simp_all
      have "push_bit ((i + 1) * 8) (drop_bit 8 v) = push_bit (i * 8) v"
        using split_low_byte [of 0 i v] True by (simp add: low8)
      with IH upt "1.prems"(3) show ?thesis by auto
    next
      case ne: False
      obtain ys where p: "bb_Pack (msk OR push_bit i 1) (i + 1) (drop_bit 8 v) = (m, ys)"
          "xs = ucast (v AND 0xFF) # ys"
        using False ne "1.prems"(1) by (auto simp: bb_Pack.simps [of msk i v] split: prod.splits)
      have hi: "i + 1 \<le> j \<Longrightarrow> \<not> bit (msk OR push_bit i 1) j" for j
        using "1.prems"(3) [of j] by (auto simp: bit_or_iff bit_exp_iff)
      let ?acc = "acc OR push_bit (i * 8) (ucast (ucast (v AND 0xFF) :: u8))"
      from "1.IH"(1) [OF False ne p(1) bound hi]
      have IH: "\<forall>j < i + 1. bit m j = bit (msk OR push_bit i 1) j"
        "bb_has ys b' \<longrightarrow> bb_ReadPacked [i + 1..<8] m acc' b' =
           Inr (acc' OR push_bit ((i + 1) * 8) (drop_bit 8 v), bb_skip (length ys) b')" for b' acc'
        by simp_all
      have mi: "bit m i" using IH(1) i by (simp add: bit_or_iff bit_exp_iff)
      have low: "\<forall>j < i. bit m j = bit msk j"
        using IH(1) by (auto simp: bit_or_iff bit_exp_iff)
      have "ucast (ucast (v AND 0xFF) :: u8) = take_bit 8 v"
        by (rule bit_word_eqI) (auto simp: low8 bit_ucast_iff bit_take_bit_iff)
      then have acc: "?acc OR push_bit ((i + 1) * 8) (drop_bit 8 v) = acc OR push_bit (i * 8) v"
        by (simp only: or.assoc split_low_byte)
      have "bb_ReadPacked [i..<8] m acc b = Inr (acc OR push_bit (i * 8) v, bb_skip (length xs) b)"
        if has: "bb_has xs b"
      proof -
        have h: "bb_has [ucast (v AND 0xFF)] b" "bb_has ys (bb_skip 1 b)"
          using bb_has_append [of "[ucast (v AND 0xFF)]" ys b] has p(2) by simp_all
        have "ByteBuffer_read b = Inr (ucast (v AND 0xFF) :: u8, bb_skip 1 b)"
          using ByteBuffer_read_has [of "ucast (v AND 0xFF) :: u8" b] h(1) by simp
        with IH(2) [of "bb_skip 1 b" ?acc] h(2) mi upt p(2) show ?thesis
          by (simp add: acc [simplified])
      qed
      with low show ?thesis by blast
    qed
  qed
qed

definition packed_image :: "u64 \<Rightarrow> u8 list" where
  "packed_image v = (case ByteBuffer_PackUInt64 v of (m, xs) \<Rightarrow> m # xs)"

lemma ByteBuffer_AppendPackedUInt64_image:
  assumes "bb_room (length (packed_image v)) b"
  shows "ByteBuffer_AppendPackedUInt64 v b = Inr (bb_emit (packed_image v) b)"
proof -
  obtain m xs where p: "ByteBuffer_PackUInt64 v = (m, xs)" by force
  with assms have room: "bb_room (Suc (length xs)) b" by (simp add: packed_image_def)
  then have "ByteBuffer_append_value (0 :: u8) b = Inr (bb_emit [0] b)"
    by (simp add: ByteBuffer_append_value_def ByteBuffer_append_emit bb_room_less)
  moreover have "(if xs \<noteq> [] then ByteBuffer_append xs (bb_emit [0] b) else Inr (bb_emit [0] b)) =
      Inr (bb_emit (0 # xs) b)"
    using bb_room_emit [of "[0]" "length xs" b] room
    by (simp add: ByteBuffer_append_emit bb_emit_append)
  moreover have "ByteBuffer_put_value (bb_wpos b) m (bb_emit (0 # xs) b) = Inr (bb_emit (m # xs) b)"
    using room by (simp add: ByteBuffer_put_value_def ByteBuffer_put_def bb_emit_def bb_room_def
        ByteBuffer_size_def)
  ultimately show ?thesis
    by (simp add: ByteBuffer_AppendPackedUInt64_def packed_image_def p)
qed

lemma ByteBuffer_ReadPackedUInt64_image:
  assumes "bb_has (packed_image v) b"
  shows "ByteBuffer_ReadPackedUInt64 b = Inr (v, bb_skip (length (packed_image v)) b)"
proof -
  obtain m xs where p: "ByteBuffer_PackUInt64 v = (m, xs)" by force
  with assms have h: "bb_has [m] b" "bb_has xs (bb_skip 1 b)"
    using bb_has_append [of "[m]" xs b] by (simp_all add: packed_image_def)
  from p have "bb_Pack 0 0 v = (m, xs)" by (simp add: ByteBuffer_PackUInt64_def)
  moreover have "bit v n \<Longrightarrow> n + 8 * 0 < 64" for n
    by (drule bit_imp_le_length) simp
  ultimately have "bb_ReadPacked [0..<8] m 0 (bb_skip 1 b) = Inr (v, bb_skip (length xs) (bb_skip 1 b))"
    using bb_Pack_read [of 0 0 v m xs "bb_skip 1 b" 0] h(2) by simp
  with ByteBuffer_read_has [of m b] h(1) show ?thesis
    by (simp add: ByteBuffer_ReadPackedUInt64_def ByteBuffer_ReadPackedUInt64_mask_def
        packed_image_def p)
qed

interpretation wire_packed: wire_type ByteBuffer_AppendPackedUInt64 ByteBuffer_ReadPackedUInt64
  packed_image "\<lambda>_. True"
  by unfold_locales
     (simp_all only: ByteBuffer_AppendPackedUInt64_image ByteBuffer_ReadPackedUInt64_image,
      simp add: packed_image_def split: prod.split)

subsection \<open>The bit stream\<close>

text \<open>A buffer being written stands for the bits of its bytes, each byte from its highest bit down,
  followed by the pending bits; one being read stands for the bits still to come.\<close>

definition byte_bits :: "u8 \<Rightarrow> bool list" where
  "byte_bits x = map (\<lambda>i. bit x (7 - i)) [0..<8]"

definition bits_of :: "u8 list \<Rightarrow> bool list" where
  "bits_of xs = concat (map byte_bits xs)"

definition written_bits :: "ByteBuffer \<Rightarrow> bool list" where
  "written_bits b = bits_of (bb_storage b) @ take (8 - bb_bitpos b) (byte_bits (bb_curbitval b))"

definition unread_bits :: "ByteBuffer \<Rightarrow> bool list" where
  "unread_bits b = drop (bb_bitpos b + 1) (byte_bits (bb_curbitval b)) @
     bits_of (drop (bb_rpos b) (bb_storage b))"

definition bb_writing :: "ByteBuffer \<Rightarrow> bool" where
  "bb_writing b \<longleftrightarrow> 0 < bb_bitpos b \<and> bb_bitpos b \<le> 8 \<and> bb_wpos b = length (bb_storage b)
     \<and> (\<forall>n < bb_bitpos b. \<not> bit (bb_curbitval b) n)"

lemma length_byte_bits [simp]: "length (byte_bits x) = 8"
  by (simp add: byte_bits_def)

lemma byte_bits_nth: "i < 8 \<Longrightarrow> byte_bits x ! i = bit x (7 - i)"
  by (simp add: byte_bits_def)

lemma bits_of_simps [simp]: "bits_of [] = []" "bits_of (x # xs) = byte_bits x @ bits_of xs"
  "bits_of (xs @ ys) = bits_of xs @ bits_of ys"
  by (simp_all add: bits_of_def)

lemma length_bits_of [simp]: "length (bits_of xs) = 8 * length xs"
  by (induction xs) simp_all

lemma byte_bits_set:
  assumes "p < 8" "\<And>n. n \<le> p \<Longrightarrow> \<not> bit c n"
  shows "take (8 - p) (byte_bits (if v then c OR push_bit p 1 else c)) =
    take (7 - p) (byte_bits c) @ [v]"
proof (rule nth_equalityI)
  fix i assume "i < length (take (8 - p) (byte_bits (if v then c OR push_bit p 1 else c)))"
  then have i: "i < 8 - p" by simp
  show "take (8 - p) (byte_bits (if v then c OR push_bit p 1 else c)) ! i =
      (take (7 - p) (byte_bits c) @ [v]) ! i"
  proof (cases "i = 7 - p")
    case True
    with assms show ?thesis
      by (auto simp: byte_bits_nth nth_append bit_or_iff bit_exp_iff)
  next
    case False
    with i assms(1) show ?thesis
      by (auto simp: byte_bits_nth nth_append bit_or_iff bit_exp_iff)
  qed
qed (use assms(1) in simp)

text \<open>Writing a bit appends it to the stream, and a full byte goes to the storage.\<close>

lemma ByteBuffer_WriteBit_stream:
  assumes w: "bb_writing b" and size: "length (bb_storage b) < 10000000"
  shows "ok_and (\<lambda>b'. bb_writing b' \<and> written_bits b' = written_bits b @ [v]
    \<and> length (bb_storage b') \<le> length (bb_storage b) + 1 \<and> bb_rpos b' = bb_rpos b)
    (ByteBuffer_WriteBit v b)"
proof -
  obtain p where p: "bb_bitpos b = Suc p" using w by (cases "bb_bitpos b") (auto simp: bb_writing_def)
  let ?c = "if v then bb_curbitval b OR push_bit p 1 else bb_curbitval b"
  from w p have low: "p < 8" "\<And>n. n \<le> p \<Longrightarrow> \<not> bit (bb_curbitval b) n"
    by (auto simp: bb_writing_def)
  note set = byte_bits_set [OF low, of v]
  have old: "written_bits b = bits_of (bb_storage b) @ take (7 - p) (byte_bits (bb_curbitval b))"
    by (simp add: written_bits_def p)
  show ?thesis
  proof (cases "p = 0")
    case True
    have "byte_bits (if v then bb_curbitval b OR push_bit 0 1 else bb_curbitval b) =
        take 7 (byte_bits (bb_curbitval b)) @ [v]"
      using set unfolding True by simp
    with True size w show ?thesis
      by (simp add: ByteBuffer_WriteBit_def p Let_def ByteBuffer_append_def ByteBuffer_FlushBits_def
          ByteBuffer_size_def bb_insert_def bb_writing_def written_bits_def split del: if_split)
  next
    case False
    have "\<not> bit ?c n" if "n < p" for n
      using low(2) [of n] that by (auto simp: bit_or_iff bit_exp_iff)
    with False w low(1) show ?thesis
      by (auto simp: ByteBuffer_WriteBit_def p Let_def bb_writing_def set old
          written_bits_def [of "b\<lparr>bb_bitpos := p, bb_curbitval := ?c\<rparr>"])
  qed
qed

lemma ByteBuffer_WriteBits_stream:
  "bb_writing b \<Longrightarrow> n \<le> 64 \<Longrightarrow> length (bb_storage b) + n < 10000000 \<Longrightarrow>
     ok_and (\<lambda>b'. bb_writing b' \<and> written_bits b' = written_bits b @ map (bit v) (rev [0..<n])
       \<and> length (bb_storage b') \<le> length (bb_storage b) + n \<and> bb_rpos b' = bb_rpos b)
       (ByteBuffer_WriteBits v n b)"
proof (induction n arbitrary: b)
  case (Suc n)
  from ByteBuffer_WriteBit_stream [OF Suc.prems(1), of "bit v n"] Suc.prems(3)
  obtain b1 where b1: "ByteBuffer_WriteBit (bit v n) b = Inr b1" "bb_writing b1"
      "written_bits b1 = written_bits b @ [bit v n]"
      "length (bb_storage b1) \<le> length (bb_storage b) + 1" "bb_rpos b1 = bb_rpos b"
    by (auto simp: ok_and_iff)
  with Suc.IH [of b1] Suc.prems(2,3) show ?case
    by (auto simp: ok_and_iff)
qed simp

text \<open>Reading a bit takes the first one of the stream.\<close>

lemma ByteBuffer_ReadBit_stream:
  assumes "bb_bitpos b \<le> 8" "unread_bits b = v # vs"
  shows "ok_and (\<lambda>(x, b'). x = v \<and> bb_bitpos b' \<le> 8 \<and> unread_bits b' = vs) (ByteBuffer_ReadBit b)"
proof (cases "bb_bitpos b < 7")
  case True
  let ?bs = "byte_bits (bb_curbitval b)"
  have "drop (bb_bitpos b + 1) ?bs = ?bs ! (bb_bitpos b + 1) # drop (bb_bitpos b + 2) ?bs"
    using True by (simp add: Cons_nth_drop_Suc flip: Suc_1)
  moreover have "?bs ! (bb_bitpos b + 1) = bit (bb_curbitval b) (7 - (bb_bitpos b + 1))"
    using True by (intro byte_bits_nth) simp
  ultimately show ?thesis
    using True assms(2)
    by (auto simp: ByteBuffer_ReadBit_def Let_def unread_bits_def)
next
  case False
  then have bits: "bits_of (drop (bb_rpos b) (bb_storage b)) = v # vs"
    using assms(2) by (simp add: unread_bits_def)
  then obtain x rest where st: "drop (bb_rpos b) (bb_storage b) = x # rest"
    by (cases "drop (bb_rpos b) (bb_storage b)") auto
  then have rest: "rest = drop (bb_rpos b + 1) (bb_storage b)"
    by (metis drop_Suc list.sel(3) tl_drop Suc_eq_plus1)
  let ?b1 = "b\<lparr>bb_bitpos := bb_bitpos b + 1\<rparr>"
  have "bb_rpos b < length (bb_storage b)" using st by (metis drop_all list.distinct(1) not_less)
  moreover have "le_word [x] = x" using le_word_le_bytes [of x] by simp
  ultimately have r: "ByteBuffer_read ?b1 = Inr (x, bb_skip 1 ?b1)"
    using False st by (simp add: ByteBuffer_read_def ByteBuffer_read_at_def ByteBuffer_size_def
        ByteBuffer_ResetBitPos_def bb_skip_def)
  have "byte_bits x = bit x 7 # drop 1 (byte_bits x)"
    by (simp add: byte_bits_def upt_rec)
  with bits st have "v = bit x 7" "vs = drop 1 (byte_bits x) @ bits_of rest"
    by (metis append_Cons bits_of_simps(2) list.inject)+
  with r False rest show ?thesis
    by (simp add: ByteBuffer_ReadBit_def Let_def unread_bits_def bb_skip_def)
qed

lemma bb_ReadBits_stream:
  assumes "bb_bitpos b \<le> 8" "unread_bits b = map (bit v) (rev [0..<n]) @ vs" "n \<le> 32"
  shows "ok_and (\<lambda>(x, b'). x = acc OR ucast (take_bit n v) \<and> bb_bitpos b' \<le> 8 \<and> unread_bits b' = vs)
    (bb_ReadBits n acc b)"
  using assms
proof (induction n arbitrary: acc b)
  case 0
  then show ?case by simp
next
  case (Suc n)
  from ByteBuffer_ReadBit_stream [OF Suc.prems(1), of "bit v n"] Suc.prems(2)
  obtain b1 where b1: "ByteBuffer_ReadBit b = Inr (bit v n, b1)" "bb_bitpos b1 \<le> 8"
      "unread_bits b1 = map (bit v) (rev [0..<n]) @ vs"
    by (auto simp: ok_and_iff)
  have "(if bit v n then acc OR push_bit n 1 else acc) OR ucast (take_bit n v) =
      acc OR ucast (take_bit (Suc n) v)"
    by (rule bit_word_eqI)
       (auto simp: bit_or_iff bit_ucast_iff bit_take_bit_iff bit_exp_iff less_Suc_eq)
  with Suc.IH [OF b1(2,3), of "if bit v n then acc OR push_bit n 1 else acc"] b1(1) Suc.prems(3)
  show ?case by simp
qed

lemma bits_of_drop: "bits_of (drop n xs) = drop (8 * n) (bits_of xs)"
proof (induction xs arbitrary: n)
  case (Cons x xs)
  then show ?case by (cases n) simp_all
qed simp

text \<open>Flushing completes the last byte.\<close>

lemma ByteBuffer_FlushBits_stream:
  assumes "bb_writing b" "length (bb_storage b) < 10000000"
  shows "ok_and (\<lambda>b'. bb_bitpos b' = 8 \<and> bb_wpos b' = length (bb_storage b') \<and> bb_rpos b' = bb_rpos b
    \<and> (\<exists>pad. bits_of (bb_storage b') = written_bits b @ pad)) (ByteBuffer_FlushBits b)"
proof (cases "bb_bitpos b = 8")
  case True
  with assms show ?thesis by (auto simp: ByteBuffer_FlushBits_def bb_writing_def written_bits_def)
next
  case False
  have "byte_bits (bb_curbitval b) = take (8 - bb_bitpos b) (byte_bits (bb_curbitval b)) @
      drop (8 - bb_bitpos b) (byte_bits (bb_curbitval b))" by simp
  with False assms show ?thesis
    by (auto simp: ByteBuffer_FlushBits_def bb_writing_def written_bits_def Let_def bb_insert_def
        ByteBuffer_size_def intro!: exI [of _ "drop (8 - bb_bitpos b) (byte_bits (bb_curbitval b))"])
qed

text \<open>The fields of a bit-packed packet: each a value and the number of bits it is sent with.\<close>

fun write_fields :: "(u64 \<times> nat) list \<Rightarrow> ByteBuffer \<Rightarrow> bb_error + ByteBuffer" where
  "write_fields [] b = ByteBuffer_FlushBits b"
| "write_fields ((v, n) # fs) b = and_then (ByteBuffer_WriteBits v n b) (write_fields fs)"

fun read_fields :: "nat list \<Rightarrow> ByteBuffer \<Rightarrow> bb_error + (u32 list \<times> ByteBuffer)" where
  "read_fields [] b = Inr ([], b)"
| "read_fields (n # ns) b = and_then (ByteBuffer_ReadBits n b) (\<lambda>(v, b1).
     and_then (read_fields ns b1) (\<lambda>(vs, b2). Inr (v # vs, b2)))"

definition field_bits :: "(u64 \<times> nat) list \<Rightarrow> bool list" where
  "field_bits fs = concat (map (\<lambda>(v, n). map (bit v) (rev [0..<n])) fs)"

lemma write_fields_stream:
  "bb_writing b \<Longrightarrow> list_all (\<lambda>(v, n). n \<le> 32) fs \<Longrightarrow> length (bb_storage b) + sum_list (map snd fs) < 10000000 \<Longrightarrow>
     ok_and (\<lambda>b'. bb_bitpos b' = 8 \<and> bb_rpos b' = bb_rpos b
       \<and> (\<exists>pad. bits_of (bb_storage b') = written_bits b @ field_bits fs @ pad)) (write_fields fs b)"
proof (induction fs arbitrary: b)
  case Nil
  then show ?case
    using ByteBuffer_FlushBits_stream [of b] by (auto simp: field_bits_def ok_and_iff)
next
  case (Cons f fs)
  obtain v n where f: "f = (v, n)" by force
  from ByteBuffer_WriteBits_stream [OF Cons.prems(1), of n v] Cons.prems(2,3) f
  obtain b1 where b1: "ByteBuffer_WriteBits v n b = Inr b1" "bb_writing b1"
      "written_bits b1 = written_bits b @ map (bit v) (rev [0..<n])"
      "length (bb_storage b1) \<le> length (bb_storage b) + n" "bb_rpos b1 = bb_rpos b"
    by (auto simp: ok_and_iff)
  with Cons.IH [OF b1(2)] Cons.prems(2,3) f show ?case
    by (auto simp: ok_and_iff field_bits_def)
qed

lemma read_fields_stream:
  "bb_bitpos b \<le> 8 \<Longrightarrow> unread_bits b = field_bits fs @ vs \<Longrightarrow> list_all (\<lambda>(v, n). n \<le> 32) fs \<Longrightarrow>
     ok_and (\<lambda>(xs, b'). xs = map (\<lambda>(v, n). ucast (take_bit n v)) fs) (read_fields (map snd fs) b)"
proof (induction fs arbitrary: b)
  case (Cons f fs)
  obtain v n where f: "f = (v, n)" by force
  from bb_ReadBits_stream [OF Cons.prems(1), of v n "field_bits fs @ vs" 0] Cons.prems(2,3) f
  obtain b1 where "ByteBuffer_ReadBits n b = Inr (ucast (take_bit n v), b1)" "bb_bitpos b1 \<le> 8"
      "unread_bits b1 = field_bits fs @ vs"
    by (auto simp: ok_and_iff ByteBuffer_ReadBits_def field_bits_def)
  with Cons.IH [of b1] Cons.prems(3) f show ?case by (auto simp: ok_and_iff)
qed simp

text \<open>\<open>PutBits\<close> overwrites exactly the bits it is given.\<close>

lemma bits_of_nth: "i < 8 * length xs \<Longrightarrow> bits_of xs ! i = bit (xs ! (i div 8)) (7 - i mod 8)"
proof (induction xs arbitrary: i)
  case (Cons x xs)
  show ?case
  proof (cases "i < 8")
    case True
    then show ?thesis by (simp add: nth_append byte_bits_nth)
  next
    case False
    then obtain j where "i = j + 8" by (metis add.commute le_Suc_ex not_less)
    moreover have "(j + 8) div 8 = Suc (j div 8)" by simp
    ultimately show ?thesis using Cons by (simp add: nth_append)
  qed
qed simp

lemma bit_assign:
  "m < 8 \<Longrightarrow> bit (if v then x OR push_bit k 1 else x AND NOT (push_bit k 1)) m =
     (if m = k then v else bit (x :: u8) m)"
  by (auto simp: bit_or_iff bit_and_iff bit_not_iff bit_exp_iff)

lemma bits_of_set_bit:
  assumes "i < 8 * length xs"
  shows "bits_of (xs[i div 8 := (if v then xs ! (i div 8) OR push_bit (7 - i mod 8) 1
      else xs ! (i div 8) AND NOT (push_bit (7 - i mod 8) 1))]) = (bits_of xs)[i := v]"
    (is "bits_of (xs[_ := ?x]) = _")
proof (rule nth_equalityI)
  fix j assume "j < length (bits_of (xs[i div 8 := ?x]))"
  then have j: "j < 8 * length xs" by simp
  have lt: "i div 8 < length xs" using assms by (simp add: less_mult_imp_div_less mult.commute)
  show "bits_of (xs[i div 8 := ?x]) ! j = (bits_of xs)[i := v] ! j"
  proof (cases "j div 8 = i div 8")
    case True
    have eq: "7 - j mod 8 = 7 - i mod 8 \<longleftrightarrow> j = i"
    proof
      assume "7 - j mod 8 = 7 - i mod 8"
      moreover have "j mod 8 < 8" "i mod 8 < 8" by simp_all
      ultimately have "j mod 8 = i mod 8" by linarith
      with True show "j = i" by (metis div_mult_mod_eq)
    qed simp
    have "bits_of (xs[i div 8 := ?x]) ! j = bit ?x (7 - j mod 8)"
      using j lt True by (simp add: bits_of_nth split del: if_split)
    also have "\<dots> = (if j = i then v else bit (xs ! (j div 8)) (7 - j mod 8))"
      by (subst bit_assign) (simp_all add: eq True)
    also have "\<dots> = (bits_of xs)[i := v] ! j"
      using j assms by (simp add: bits_of_nth nth_list_update)
    finally show ?thesis .
  next
    case False
    with j show ?thesis by (cases "j = i") (auto simp: bits_of_nth)
  qed
qed simp

lemma bb_PutBits_stream:
  "pos + i + n \<le> 8 * length st \<Longrightarrow>
     bits_of (bb_PutBits pos v n i st) =
       take (pos + i) (bits_of st) @ map (bit v) (rev [0..<n]) @ drop (pos + i + n) (bits_of st)
     \<and> length (bb_PutBits pos v n i st) = length st"
proof (induction pos v n i st rule: bb_PutBits.induct)
  case (2 pos v n i st)
  let ?k = "pos + i"
  let ?st = "st[?k div 8 := (if bit v n then st ! (?k div 8) OR push_bit (7 - ?k mod 8) 1
      else st ! (?k div 8) AND NOT (push_bit (7 - ?k mod 8) 1))]"
  have k: "?k < 8 * length st" using "2.prems" by simp
  have step: "bits_of ?st = (bits_of st)[?k := bit v n]"
    by (rule bits_of_set_bit [OF k])
  have "take (Suc ?k) ((bits_of st)[?k := bit v n]) = take ?k (bits_of st) @ [bit v n]"
    using k by (simp add: take_Suc_conv_app_nth)
  moreover have "drop (Suc (?k + n)) ((bits_of st)[?k := bit v n]) = drop (Suc (?k + n)) (bits_of st)"
    by simp
  ultimately show ?case
    using "2.IH" [OF refl refl refl] "2.prems" step by (simp add: Let_def add.assoc)
qed simp

subsection \<open>Properties\<close>

text \<open>C21: a packet of strings, a packet of packed 64-bit values and a packet of 32-bit values read
  back exactly as they were written, to the last byte.\<close>

theorem ByteBuffer_packet_roundtrip:
  assumes "list_all (\<lambda>s. 0 \<notin> set s) strs" "length (concat (map (\<lambda>s. s @ [0]) strs)) < 10000000"
    and "length (concat (map packed_image guids)) < 10000000"
    and "length (concat (map le_bytes (vals :: u32 list))) < 10000000"
  shows "(\<exists>b. put_all ByteBuffer_append_string strs ByteBuffer_init = Inr b \<and>
      ok_and (\<lambda>(ys, b'). ys = strs \<and> bb_rpos b' = ByteBuffer_size b)
        (get_all ByteBuffer_read_string (length strs) b))
    \<and> (\<exists>b. put_all ByteBuffer_AppendPackedUInt64 guids ByteBuffer_init = Inr b \<and>
      ok_and (\<lambda>(ys, b'). ys = guids \<and> bb_rpos b' = ByteBuffer_size b)
        (get_all ByteBuffer_ReadPackedUInt64 (length guids) b))
    \<and> (\<exists>b. put_all ByteBuffer_append_value vals ByteBuffer_init = Inr b \<and>
      ok_and (\<lambda>(ys, b'). ys = vals \<and> bb_rpos b' = ByteBuffer_size b)
        (get_all ByteBuffer_read (length vals) b))"
  using wire_string.packet_roundtrip [OF assms(1,2)]
    wire_packed.packet_roundtrip [OF _ assms(3)] wire_u32.packet_roundtrip [OF _ assms(4)]
  by (simp add: list_all_iff)

theorem ByteBuffer_packet_roundtrip_witness:
  "\<exists>b. put_all ByteBuffer_append_string [[72, 105], []] ByteBuffer_init = Inr b \<and>
      ok_and (\<lambda>(ys, b'). ys = [[72, 105], []] \<and> bb_rpos b' = ByteBuffer_size b)
        (get_all ByteBuffer_read_string (Suc (Suc 0)) b)"
  using conjunct1 [OF ByteBuffer_packet_roundtrip [of "[[72, 105], []]" "[]" "[]"]] by simp

text \<open>C22: any sequence of bit fields (ids, string lengths, flags) of at most 32 bits each, of less than 10000000
  bits altogether, written with \<open>WriteBits\<close> and flushed reads back with \<open>ReadBits\<close> as the low bits of each value.
  (A wider field would shift an \<open>int\<close> by 32 or more when it is read, which is undefined.)\<close>

theorem ByteBuffer_bits_roundtrip:
  assumes "list_all (\<lambda>(v, n). n \<le> 32) fs" "sum_list (map snd fs) < 10000000"
  shows "\<exists>b. write_fields fs ByteBuffer_init = Inr b \<and>
    ok_and (\<lambda>(vs, _). vs = map (\<lambda>(v, n). ucast (take_bit n v)) fs) (read_fields (map snd fs) b)"
proof -
  have "bb_writing ByteBuffer_init" "written_bits ByteBuffer_init = []"
    by (simp_all add: bb_writing_def ByteBuffer_init_def written_bits_def)
  with write_fields_stream [of ByteBuffer_init fs] assms obtain b pad where
    b: "write_fields fs ByteBuffer_init = Inr b" "bb_bitpos b = 8" "bb_rpos b = 0"
       "bits_of (bb_storage b) = field_bits fs @ pad"
    by (auto simp: ok_and_iff ByteBuffer_init_def)
  then have "unread_bits b = field_bits fs @ pad" by (simp add: unread_bits_def)
  with read_fields_stream [of b fs pad] b assms(1) show ?thesis by auto
qed

theorem ByteBuffer_bits_roundtrip_witness:
  "\<exists>b. write_fields [(5, 3), (1000, 9)] ByteBuffer_init = Inr b \<and>
    ok_and (\<lambda>(vs, _). vs = [5, 488]) (read_fields [3, 9] b)"
  using ByteBuffer_bits_roundtrip [of "[(5, 3), (1000, 9)]"]
  by (simp add: take_bit_eq_mod unsigned_ucast_eq)

end
