(* ===== verification/Util.thy ===== *)
theory Util
  imports Prelude
begin

section \<open>String utilities: the tokenizer and hexadecimal numbers\<close>

text \<open>
  \<open>Tokenizer\<close> (\<open>src/common/Utilities/Util.cpp\<close>) cuts a C string at a separator; the database loaders
  and the chat channels use it for their list columns. A \<open>std::string\<close> is a list of characters; the
  tokenizer reads a copy of it up to the first NUL
  (the separator of every caller is a printable character; with NUL as separator the loop of the
  code would run past the copy). The second half of the theory is the part of
  the standard library that prints and reads 16-digit hexadecimal numbers
  (\<open>std::hex\<close> with \<open>std::setw(16)\<close> and \<open>std::setfill\<close>, and \<open>strtoull\<close> in base 16).
\<close>

subsection \<open>Tokenizer\<close>

definition NUL :: char where
  "NUL = CHR 0x00"

text \<open>The loop of the constructor: \<open>pending\<close> is the text between \<open>posold\<close> and \<open>posnew\<close>, and the second
  argument the text from \<open>posnew\<close> on, whose end is the terminating NUL.\<close>

fun tokenizer_scan :: "char \<Rightarrow> bool \<Rightarrow> string \<Rightarrow> string \<Rightarrow> string list" where
  "tokenizer_scan sep keepEmptyStrings pending [] = (if pending \<noteq> [] then [pending] else [])"
| "tokenizer_scan sep keepEmptyStrings pending (c # cs) =
     (if c = sep
      then (if keepEmptyStrings \<or> pending \<noteq> [] then [pending] else []) @
           tokenizer_scan sep keepEmptyStrings [] cs
      else tokenizer_scan sep keepEmptyStrings (pending @ [c]) cs)"

definition Tokenizer :: "string \<Rightarrow> char \<Rightarrow> bool \<Rightarrow> string list" where
  "Tokenizer src sep keepEmptyStrings =
     tokenizer_scan sep keepEmptyStrings [] (takeWhile (\<lambda>c. c \<noteq> NUL) src)"

lemma tokenizer_scan_chunk:
  "sep \<notin> set xs \<Longrightarrow> tokenizer_scan sep keep pending (xs @ ys) = tokenizer_scan sep keep (pending @ xs) ys"
  by (induction xs arbitrary: pending) auto

lemma tokenizer_scan_terminated:
  assumes "\<forall>t \<in> set ts. sep \<notin> set t"
  shows "tokenizer_scan sep True [] (concat (map (\<lambda>t. t @ [sep]) ts)) = ts"
  using assms
proof (induction ts)
  case (Cons t ts)
  then have "tokenizer_scan sep True [] (t @ sep # concat (map (\<lambda>t. t @ [sep]) ts)) =
    t # tokenizer_scan sep True [] (concat (map (\<lambda>t. t @ [sep]) ts))"
    by (subst tokenizer_scan_chunk) auto
  with Cons show ?case by simp
qed simp

lemma takeWhile_NUL [simp]: "NUL \<notin> set s \<Longrightarrow> takeWhile (\<lambda>c. c \<noteq> NUL) s = s"
  by (induction s) auto

lemma Tokenizer_terminated:
  assumes "\<forall>t \<in> set ts. sep \<notin> set t \<and> NUL \<notin> set t" "sep \<noteq> NUL"
  shows "Tokenizer (concat (map (\<lambda>t. t @ [sep]) ts)) sep True = ts"
proof -
  have "NUL \<notin> set (concat (map (\<lambda>t. t @ [sep]) ts))" using assms by auto
  then show ?thesis using assms(1) by (simp add: Tokenizer_def tokenizer_scan_terminated)
qed

text \<open>Joining the tokens with the separator gives the text back; a separator at its very end is dropped,
  because an empty last token is not stored.\<close>

fun join_with :: "char \<Rightarrow> string list \<Rightarrow> string" where
  "join_with sep [] = []"
| "join_with sep [t] = t"
| "join_with sep (t # u # ts) = t @ sep # join_with sep (u # ts)"

lemma join_with_Cons: "ts \<noteq> [] \<Longrightarrow> join_with sep (t # ts) = t @ sep # join_with sep ts"
  by (cases ts) auto

lemma tokenizer_scan_empty [simp]:
  "tokenizer_scan sep True pending cs = [] \<longleftrightarrow> pending = [] \<and> cs = []"
  by (induction cs arbitrary: pending) auto

lemma tokenizer_scan_join:
  "join_with sep (tokenizer_scan sep True pending cs) @
     (if cs \<noteq> [] \<and> last cs = sep then [sep] else []) = pending @ cs"
proof (induction cs arbitrary: pending)
  case (Cons c cs)
  show ?case
  proof (cases "c = sep")
    case True
    then show ?thesis
      using Cons.IH [of "[]"] by (cases "cs = []") (simp_all add: join_with_Cons)
  next
    case False
    then show ?thesis
      using Cons.IH [of "pending @ [c]"] by (cases "cs = []") simp_all
  qed
qed simp

lemma tokenizer_scan_sep_free:
  "sep \<notin> set pending \<Longrightarrow> \<forall>t \<in> set (tokenizer_scan sep keep pending cs). sep \<notin> set t"
proof (induction cs arbitrary: pending)
  case (Cons a cs)
  have "\<forall>t \<in> set (tokenizer_scan sep keep [] cs). sep \<notin> set t" by (rule Cons.IH) simp
  moreover have "a \<noteq> sep \<Longrightarrow> \<forall>t \<in> set (tokenizer_scan sep keep (pending @ [a]) cs). sep \<notin> set t"
    using Cons.prems by (intro Cons.IH) simp
  ultimately show ?case using Cons.prems by auto
qed simp

lemma tokenizer_scan_drop_empty:
  "tokenizer_scan sep False pending cs = filter (\<lambda>t. t \<noteq> []) (tokenizer_scan sep True pending cs)"
  by (induction cs arbitrary: pending) auto

text \<open>the tokenizer loses no text: none of its tokens contains the separator, joining them
  with the separator gives back the text up to its first NUL (less one separator at its very end),
  and asking not to keep empty tokens only drops the empty ones.\<close>

theorem Tokenizer_join:
  "join_with sep (Tokenizer src sep True) @
     (let s = takeWhile (\<lambda>c. c \<noteq> NUL) src in if s \<noteq> [] \<and> last s = sep then [sep] else [])
     = takeWhile (\<lambda>c. c \<noteq> NUL) src
   \<and> list_all (\<lambda>t. sep \<notin> set t) (Tokenizer src sep keepEmptyStrings)
   \<and> Tokenizer src sep False = filter (\<lambda>t. t \<noteq> []) (Tokenizer src sep True)"
  using tokenizer_scan_sep_free [of sep "[]" keepEmptyStrings]
  by (simp add: Tokenizer_def Let_def tokenizer_scan_join [where pending = "[]", simplified]
      tokenizer_scan_drop_empty list_all_iff)

subsection \<open>Hexadecimal numbers\<close>

definition hex_char :: "nat \<Rightarrow> char" where
  "hex_char d = ''0123456789abcdef'' ! d"

fun hex_digits :: "nat \<Rightarrow> nat \<Rightarrow> string" where
  "hex_digits 0 v = []"
| "hex_digits (Suc n) v = hex_digits n (v div 16) @ [hex_char (v mod 16)]"

definition put_hex16 :: "u64 \<Rightarrow> string" where
  "put_hex16 w = hex_digits 16 (unat w)"

definition hex_value :: "char \<Rightarrow> nat option" where
  "hex_value c =
     (let n = of_char c :: nat in
      if 48 \<le> n \<and> n \<le> 57 then Some (n - 48)
      else if 97 \<le> n \<and> n \<le> 102 then Some (n - 87)
      else if 65 \<le> n \<and> n \<le> 70 then Some (n - 55)
      else None)"

fun hex_number :: "nat \<Rightarrow> string \<Rightarrow> nat" where
  "hex_number acc [] = acc"
| "hex_number acc (c # cs) =
     (case hex_value c of None \<Rightarrow> acc | Some d \<Rightarrow> hex_number (acc * 16 + d) cs)"

definition is_space :: "char \<Rightarrow> bool" where
  "is_space c = (let n = of_char c :: nat in n = 32 \<or> 9 \<le> n \<and> n \<le> 13)"

text \<open>\<open>strtoull (s, nullptr, 16)\<close>: white space, a sign, an optional \<open>0x\<close>, the digits; a number out of
  range is \<open>ULLONG_MAX\<close>, and a minus sign negates the result.\<close>

fun skip_0x :: "string \<Rightarrow> string" where
  "skip_0x (z # x # c # cs) =
     (if z = CHR ''0'' \<and> (x = CHR ''x'' \<or> x = CHR ''X'') \<and> hex_value c \<noteq> None
      then c # cs else z # x # c # cs)"
| "skip_0x cs = cs"

definition strtoull16 :: "string \<Rightarrow> u64" where
  "strtoull16 s =
     (let s1 = dropWhile is_space s;
          neg = (s1 \<noteq> [] \<and> hd s1 = CHR ''-'');
          s2 = (if s1 \<noteq> [] \<and> (hd s1 = CHR ''-'' \<or> hd s1 = CHR ''+'') then tl s1 else s1);
          v = hex_number 0 (skip_0x s2)
      in if 2 ^ 64 \<le> v then - 1 else if neg then - of_nat v else of_nat v)"

lemma hex_char_value:
  assumes "d < 16"
  shows "hex_value (hex_char d) = Some d"
proof -
  have "\<forall>d \<in> set [0..<16]. hex_value (hex_char d) = Some d" by code_simp
  with assms show ?thesis by simp
qed

lemma hex_char_plain:
  assumes "d < 16"
  shows "\<not> is_space (hex_char d) \<and> hex_char d \<notin> {CHR ''-'', CHR ''+'', CHR ''x'', CHR ''X'', CHR '' '', NUL}"
proof -
  have "\<forall>d \<in> set [0..<16]. \<not> is_space (hex_char d) \<and>
      hex_char d \<notin> set [CHR ''-'', CHR ''+'', CHR ''x'', CHR ''X'', CHR '' '', NUL]" by code_simp
  with assms show ?thesis by simp
qed

lemma length_hex_digits [simp]: "length (hex_digits n v) = n"
  by (induction n v rule: hex_digits.induct) auto

lemma hex_digits_chars: "c \<in> set (hex_digits n v) \<Longrightarrow> \<exists>d < 16. c = hex_char d"
proof (induction n v rule: hex_digits.induct)
  case (2 n v)
  then show ?case by (cases "c = hex_char (v mod 16)") (auto intro: exI [of _ "v mod 16"])
qed simp

lemma hex_number_app:
  "\<forall>c \<in> set xs. hex_value c \<noteq> None \<Longrightarrow> hex_number acc (xs @ ys) = hex_number (hex_number acc xs) ys"
  by (induction xs arbitrary: acc) (auto split: option.splits)

lemma hex_digits_values: "\<forall>c \<in> set (hex_digits n v). hex_value c \<noteq> None"
  using hex_digits_chars by (metis hex_char_value option.distinct(1))

lemma hex_number_digits: "v < 16 ^ n \<Longrightarrow> hex_number 0 (hex_digits n v) = v"
proof (induction n v rule: hex_digits.induct)
  case (2 n v)
  have "v div 16 < 16 ^ n" using 2 by (simp add: less_mult_imp_div_less mult.commute)
  then show ?case
    using 2 by (simp add: hex_number_app [OF hex_digits_values] hex_char_value)
qed simp

lemma skip_0x_hex: "CHR ''x'' \<notin> set s \<Longrightarrow> CHR ''X'' \<notin> set s \<Longrightarrow> skip_0x s = s"
  by (cases s rule: skip_0x.cases) auto

lemma length_put_hex16 [simp]: "length (put_hex16 w) = 16"
  by (simp add: put_hex16_def)

lemma put_hex16_chars:
  assumes "c \<in> set (put_hex16 w)"
  shows "\<not> is_space c" "c \<notin> {CHR ''-'', CHR ''+'', CHR ''x'', CHR ''X'', CHR '' '', NUL}"
  using assms hex_digits_chars hex_char_plain unfolding put_hex16_def by metis+

text \<open>What the stream prints, \<open>strtoull\<close> reads back.\<close>

lemma strtoull16_put_hex16 [simp]: "strtoull16 (put_hex16 w) = w"
proof -
  let ?s = "put_hex16 w"
  have ne: "?s \<noteq> []" using length_put_hex16 [of w] by force
  then have hd: "hd ?s \<in> set ?s" by simp
  have "dropWhile is_space ?s = ?s"
    using put_hex16_chars(1) [OF hd] ne by (cases ?s) auto
  moreover have "hd ?s \<noteq> CHR ''-''" "hd ?s \<noteq> CHR ''+''" using put_hex16_chars(2) [OF hd] by auto
  moreover have "skip_0x ?s = ?s"
    using put_hex16_chars(2) by (intro skip_0x_hex) blast+
  moreover have "unat w < 16 ^ 16" "unat w < 2 ^ 64"
    using unsigned_less [of w] by simp_all
  from this(1) have "hex_number 0 ?s = unat w" unfolding put_hex16_def by (rule hex_number_digits)
  ultimately show ?thesis using \<open>unat w < 2 ^ 64\<close> by (simp add: strtoull16_def)
qed

end
