(* ===== verification/ObjectGuid.thy ===== *)
theory ObjectGuid
  imports ByteBuffer Util
begin

section \<open>ObjectGuid (server/game/Entities/Object/ObjectGuid.h, ObjectGuid.cpp)\<close>

text \<open>
  The 128-bit identity of every object, player, group and guild: two 64-bit words that pack the kind,
  the realm, the map, the entry and the counter. The realm id (\<open>realm.Id.Realm\<close>) is a parameter.
  \<open>HighGuid\<close> has the 48 kinds of the source and one constructor for the codes 48 to 63, which
  \<open>GetHigh\<close> can return for a guid a client sent. Guids are ordered as \<open>operator<\<close> orders them, by high
  word, then low word.
\<close>

datatype HighGuid =
    HighGuid_Null | HighGuid_Uniq | HighGuid_Player | HighGuid_Item |
    HighGuid_WorldTransaction | HighGuid_StaticDoor | HighGuid_Transport |
    HighGuid_Conversation | HighGuid_Creature | HighGuid_Vehicle | HighGuid_Pet |
    HighGuid_GameObject | HighGuid_DynamicObject | HighGuid_AreaTrigger | HighGuid_Corpse |
    HighGuid_LootObject | HighGuid_SceneObject | HighGuid_Scenario | HighGuid_AIGroup |
    HighGuid_DynamicDoor | HighGuid_ClientActor | HighGuid_Vignette | HighGuid_CallForHelp |
    HighGuid_AIResource | HighGuid_AILock | HighGuid_AILockTicket | HighGuid_ChatChannel |
    HighGuid_Party | HighGuid_Guild | HighGuid_WowAccount | HighGuid_BNetAccount |
    HighGuid_GMTask | HighGuid_MobileSession | HighGuid_RaidGroup | HighGuid_Spell |
    HighGuid_Mail | HighGuid_WebObj | HighGuid_LFGObject | HighGuid_LFGList |
    HighGuid_UserRouter | HighGuid_PVPQueueGroup | HighGuid_UserClient | HighGuid_PetBattle |
    HighGuid_UniqUserClient | HighGuid_BattlePet | HighGuid_CommerceObj |
    HighGuid_ClientSession | HighGuid_Cast
  | HighGuid_Unnamed u64

definition HighGuids :: "HighGuid list" where
  "HighGuids =
    [HighGuid_Null, HighGuid_Uniq, HighGuid_Player, HighGuid_Item, HighGuid_WorldTransaction,
     HighGuid_StaticDoor, HighGuid_Transport, HighGuid_Conversation, HighGuid_Creature,
     HighGuid_Vehicle, HighGuid_Pet, HighGuid_GameObject, HighGuid_DynamicObject,
     HighGuid_AreaTrigger, HighGuid_Corpse, HighGuid_LootObject, HighGuid_SceneObject,
     HighGuid_Scenario, HighGuid_AIGroup, HighGuid_DynamicDoor, HighGuid_ClientActor,
     HighGuid_Vignette, HighGuid_CallForHelp, HighGuid_AIResource, HighGuid_AILock,
     HighGuid_AILockTicket, HighGuid_ChatChannel, HighGuid_Party, HighGuid_Guild,
     HighGuid_WowAccount, HighGuid_BNetAccount, HighGuid_GMTask, HighGuid_MobileSession,
     HighGuid_RaidGroup, HighGuid_Spell, HighGuid_Mail, HighGuid_WebObj, HighGuid_LFGObject,
     HighGuid_LFGList, HighGuid_UserRouter, HighGuid_PVPQueueGroup, HighGuid_UserClient,
     HighGuid_PetBattle, HighGuid_UniqUserClient, HighGuid_BattlePet, HighGuid_CommerceObj,
     HighGuid_ClientSession, HighGuid_Cast]"

primrec HighGuid_code :: "HighGuid \<Rightarrow> u64" where
    "HighGuid_code HighGuid_Null = 0"
  | "HighGuid_code HighGuid_Uniq = 1"
  | "HighGuid_code HighGuid_Player = 2"
  | "HighGuid_code HighGuid_Item = 3"
  | "HighGuid_code HighGuid_WorldTransaction = 4"
  | "HighGuid_code HighGuid_StaticDoor = 5"
  | "HighGuid_code HighGuid_Transport = 6"
  | "HighGuid_code HighGuid_Conversation = 7"
  | "HighGuid_code HighGuid_Creature = 8"
  | "HighGuid_code HighGuid_Vehicle = 9"
  | "HighGuid_code HighGuid_Pet = 10"
  | "HighGuid_code HighGuid_GameObject = 11"
  | "HighGuid_code HighGuid_DynamicObject = 12"
  | "HighGuid_code HighGuid_AreaTrigger = 13"
  | "HighGuid_code HighGuid_Corpse = 14"
  | "HighGuid_code HighGuid_LootObject = 15"
  | "HighGuid_code HighGuid_SceneObject = 16"
  | "HighGuid_code HighGuid_Scenario = 17"
  | "HighGuid_code HighGuid_AIGroup = 18"
  | "HighGuid_code HighGuid_DynamicDoor = 19"
  | "HighGuid_code HighGuid_ClientActor = 20"
  | "HighGuid_code HighGuid_Vignette = 21"
  | "HighGuid_code HighGuid_CallForHelp = 22"
  | "HighGuid_code HighGuid_AIResource = 23"
  | "HighGuid_code HighGuid_AILock = 24"
  | "HighGuid_code HighGuid_AILockTicket = 25"
  | "HighGuid_code HighGuid_ChatChannel = 26"
  | "HighGuid_code HighGuid_Party = 27"
  | "HighGuid_code HighGuid_Guild = 28"
  | "HighGuid_code HighGuid_WowAccount = 29"
  | "HighGuid_code HighGuid_BNetAccount = 30"
  | "HighGuid_code HighGuid_GMTask = 31"
  | "HighGuid_code HighGuid_MobileSession = 32"
  | "HighGuid_code HighGuid_RaidGroup = 33"
  | "HighGuid_code HighGuid_Spell = 34"
  | "HighGuid_code HighGuid_Mail = 35"
  | "HighGuid_code HighGuid_WebObj = 36"
  | "HighGuid_code HighGuid_LFGObject = 37"
  | "HighGuid_code HighGuid_LFGList = 38"
  | "HighGuid_code HighGuid_UserRouter = 39"
  | "HighGuid_code HighGuid_PVPQueueGroup = 40"
  | "HighGuid_code HighGuid_UserClient = 41"
  | "HighGuid_code HighGuid_PetBattle = 42"
  | "HighGuid_code HighGuid_UniqUserClient = 43"
  | "HighGuid_code HighGuid_BattlePet = 44"
  | "HighGuid_code HighGuid_CommerceObj = 45"
  | "HighGuid_code HighGuid_ClientSession = 46"
  | "HighGuid_code HighGuid_Cast = 47"
  | "HighGuid_code (HighGuid_Unnamed n) = n"

definition HighGuid_of_code :: "u64 \<Rightarrow> HighGuid" where
  "HighGuid_of_code n = (if n < 48 then HighGuids ! unat n else HighGuid_Unnamed n)"

definition GuidTypeNames :: "string list" where
  "GuidTypeNames =
    [''Null'', ''Uniq'', ''Player'', ''Item'', ''WorldTransaction'', ''StaticDoor'',
     ''Transport'', ''Conversation'', ''Creature'', ''Vehicle'', ''Pet'', ''GameObject'',
     ''DynamicObject'', ''AreaTrigger'', ''Corpse'', ''LootObject'', ''SceneObject'',
     ''Scenario'', ''AIGroup'', ''DynamicDoor'', ''ClientActor'', ''Vignette'',
     ''CallForHelp'', ''AIResource'', ''AILock'', ''AILockTicket'', ''ChatChannel'', ''Party'',
     ''Guild'', ''WowAccount'', ''BNetAccount'', ''GMTask'', ''MobileSession'', ''RaidGroup'',
     ''Spell'', ''Mail'', ''WebObj'', ''LFGObject'', ''LFGList'', ''UserRouter'',
     ''PVPQueueGroup'', ''UserClient'', ''PetBattle'', ''UniqUserClient'', ''BattlePet'',
     ''CommerceObj'', ''ClientSession'', ''Cast'']"

definition ObjectGuidTraits_Global :: "HighGuid \<Rightarrow> bool" where
  "ObjectGuidTraits_Global h = (h \<in> set
    [HighGuid_Uniq, HighGuid_Party, HighGuid_WowAccount, HighGuid_BNetAccount, HighGuid_GMTask,
     HighGuid_RaidGroup, HighGuid_Spell, HighGuid_Mail, HighGuid_UserRouter,
     HighGuid_PVPQueueGroup, HighGuid_UserClient, HighGuid_UniqUserClient, HighGuid_BattlePet,
     HighGuid_CommerceObj, HighGuid_ClientSession])"

definition ObjectGuidTraits_RealmSpecific :: "HighGuid \<Rightarrow> bool" where
  "ObjectGuidTraits_RealmSpecific h = (h \<in> set
    [HighGuid_Player, HighGuid_Item, HighGuid_Guild, HighGuid_Transport])"

definition ObjectGuidTraits_MapSpecific :: "HighGuid \<Rightarrow> bool" where
  "ObjectGuidTraits_MapSpecific h = (h \<in> set
    [HighGuid_WorldTransaction, HighGuid_Conversation, HighGuid_Creature, HighGuid_Vehicle,
     HighGuid_Pet, HighGuid_GameObject, HighGuid_DynamicObject, HighGuid_AreaTrigger,
     HighGuid_Corpse, HighGuid_LootObject, HighGuid_SceneObject, HighGuid_Scenario,
     HighGuid_AIGroup, HighGuid_DynamicDoor, HighGuid_Vignette, HighGuid_CallForHelp,
     HighGuid_AIResource, HighGuid_AILock, HighGuid_AILockTicket, HighGuid_Cast,
     HighGuid_Transport])"

datatype TypeID =
    TYPEID_OBJECT | TYPEID_ITEM | TYPEID_CONTAINER | TYPEID_UNIT | TYPEID_PLAYER | TYPEID_GAMEOBJECT
  | TYPEID_DYNAMICOBJECT | TYPEID_CORPSE | TYPEID_AREATRIGGER | TYPEID_SCENEOBJECT
  | TYPEID_CONVERSATION

datatype ObjectGuid = ObjectGuid (guid_low: u64) (guid_high: u64)

definition ObjectGuid_Empty :: ObjectGuid where
  "ObjectGuid_Empty = ObjectGuid 0 0"

instantiation ObjectGuid :: linorder
begin

definition less_ObjectGuid :: "ObjectGuid \<Rightarrow> ObjectGuid \<Rightarrow> bool" where
  "less_ObjectGuid a b =
     (if guid_high a < guid_high b then True
      else if guid_high a > guid_high b then False
      else guid_low a < guid_low b)"

definition less_eq_ObjectGuid :: "ObjectGuid \<Rightarrow> ObjectGuid \<Rightarrow> bool" where
  "less_eq_ObjectGuid a b = (a < b \<or> a = b)"

instance
proof (standard, goal_cases)
  case (5 x y)
  then show ?case
    using ObjectGuid.expand [of x y]
    by (auto simp: less_ObjectGuid_def less_eq_ObjectGuid_def not_less_iff_gr_or_eq)
qed (auto simp: less_ObjectGuid_def less_eq_ObjectGuid_def split: if_splits)

end

subsection \<open>Fields\<close>

definition ObjectGuid_GetHigh :: "ObjectGuid \<Rightarrow> HighGuid" where
  "ObjectGuid_GetHigh g = HighGuid_of_code (drop_bit 58 (guid_high g) AND 0x3F)"

definition ObjectGuid_GetRealmId :: "ObjectGuid \<Rightarrow> u32" where
  "ObjectGuid_GetRealmId g = ucast (drop_bit 42 (guid_high g) AND 0x1FFF)"

definition ObjectGuid_GetMapId :: "ObjectGuid \<Rightarrow> u32" where
  "ObjectGuid_GetMapId g = ucast (drop_bit 29 (guid_high g) AND 0x1FFF)"

definition ObjectGuid_GetEntry :: "ObjectGuid \<Rightarrow> u32" where
  "ObjectGuid_GetEntry g = ucast (drop_bit 6 (guid_high g) AND 0x7FFFFF)"

definition ObjectGuid_GetCounter :: "ObjectGuid \<Rightarrow> u64" where
  "ObjectGuid_GetCounter g = guid_low g AND 0x000000FFFFFFFFFF"

definition ObjectGuid_GetMaxCounter :: "HighGuid \<Rightarrow> u64" where
  "ObjectGuid_GetMaxCounter h = 0xFFFFFFFFFF"

definition ObjectGuid_IsEmpty :: "ObjectGuid \<Rightarrow> bool" where
  "ObjectGuid_IsEmpty g = (guid_low g = 0 \<and> guid_high g = 0)"

definition ObjectGuid_IsAnyTypeCreature :: "ObjectGuid \<Rightarrow> bool" where
  "ObjectGuid_IsAnyTypeCreature g = (ObjectGuid_GetHigh g \<in> {HighGuid_Creature, HighGuid_Pet, HighGuid_Vehicle})"

definition ObjectGuid_IsPlayer :: "ObjectGuid \<Rightarrow> bool" where
  "ObjectGuid_IsPlayer g = (\<not> ObjectGuid_IsEmpty g \<and> ObjectGuid_GetHigh g = HighGuid_Player)"

definition ObjectGuid_IsUnit :: "ObjectGuid \<Rightarrow> bool" where
  "ObjectGuid_IsUnit g = (ObjectGuid_IsAnyTypeCreature g \<or> ObjectGuid_IsPlayer g)"

definition ObjectGuid_IsAnyTypeGameObject :: "ObjectGuid \<Rightarrow> bool" where
  "ObjectGuid_IsAnyTypeGameObject g = (ObjectGuid_GetHigh g \<in> {HighGuid_GameObject, HighGuid_Transport})"

definition ObjectGuid_GetTypeId :: "HighGuid \<Rightarrow> TypeID" where
  "ObjectGuid_GetTypeId h = (case h of
     HighGuid_Item \<Rightarrow> TYPEID_ITEM
   | HighGuid_Creature \<Rightarrow> TYPEID_UNIT | HighGuid_Pet \<Rightarrow> TYPEID_UNIT | HighGuid_Vehicle \<Rightarrow> TYPEID_UNIT
   | HighGuid_Player \<Rightarrow> TYPEID_PLAYER
   | HighGuid_GameObject \<Rightarrow> TYPEID_GAMEOBJECT | HighGuid_Transport \<Rightarrow> TYPEID_GAMEOBJECT
   | HighGuid_DynamicObject \<Rightarrow> TYPEID_DYNAMICOBJECT
   | HighGuid_Corpse \<Rightarrow> TYPEID_CORPSE
   | HighGuid_AreaTrigger \<Rightarrow> TYPEID_AREATRIGGER
   | HighGuid_SceneObject \<Rightarrow> TYPEID_SCENEOBJECT
   | HighGuid_Conversation \<Rightarrow> TYPEID_CONVERSATION
   | _ \<Rightarrow> TYPEID_OBJECT)"

definition ObjectGuid_GetTypeName :: "HighGuid \<Rightarrow> string" where
  "ObjectGuid_GetTypeName h =
     (if HighGuid_code h \<ge> 48 then ''<unknown>'' else GuidTypeNames ! unat (HighGuid_code h))"

subsection \<open>Construction\<close>

definition ObjectGuid_Global :: "HighGuid \<Rightarrow> u64 \<Rightarrow> ObjectGuid" where
  "ObjectGuid_Global type counter = ObjectGuid counter (push_bit 58 (HighGuid_code type))"

definition ObjectGuid_RealmSpecific :: "u32 \<Rightarrow> HighGuid \<Rightarrow> u64 \<Rightarrow> ObjectGuid" where
  "ObjectGuid_RealmSpecific realm type counter =
     ObjectGuid counter (push_bit 58 (HighGuid_code type) OR push_bit 42 (ucast realm))"

definition ObjectGuid_MapSpecific :: "u32 \<Rightarrow> HighGuid \<Rightarrow> u8 \<Rightarrow> u16 \<Rightarrow> u32 \<Rightarrow> u32 \<Rightarrow> u64 \<Rightarrow> ObjectGuid" where
  "ObjectGuid_MapSpecific realm type subType mapId serverId entry counter =
     ObjectGuid (push_bit 40 (ucast (serverId AND 0xFFFFFF)) OR (counter AND 0xFFFFFFFFFF))
       (push_bit 58 (HighGuid_code type) OR push_bit 42 (ucast (realm AND 0x1FFF))
        OR push_bit 29 (ucast (mapId AND 0x1FFF)) OR push_bit 6 (ucast (entry AND 0x7FFFFF))
        OR (ucast subType AND 0x3F))"

text \<open>The overloads of \<open>Create\<close>; a call the traits exclude does not compile (\<open>None\<close>).\<close>

definition ObjectGuid_Create :: "u32 \<Rightarrow> HighGuid \<Rightarrow> u64 \<Rightarrow> ObjectGuid option" where
  "ObjectGuid_Create realm type counter =
     (if ObjectGuidTraits_Global type then Some (ObjectGuid_Global type counter)
      else if ObjectGuidTraits_RealmSpecific type then Some (ObjectGuid_RealmSpecific realm type counter)
      else None)"

definition ObjectGuid_Create_map :: "u32 \<Rightarrow> HighGuid \<Rightarrow> u16 \<Rightarrow> u32 \<Rightarrow> u64 \<Rightarrow> ObjectGuid option" where
  "ObjectGuid_Create_map realm type mapId entry counter =
     (if ObjectGuidTraits_MapSpecific type \<and> type \<noteq> HighGuid_Transport
      then Some (ObjectGuid_MapSpecific realm type 0 mapId 0 entry counter) else None)"

definition ObjectGuid_Create_sub :: "u32 \<Rightarrow> HighGuid \<Rightarrow> u8 \<Rightarrow> u16 \<Rightarrow> u32 \<Rightarrow> u64 \<Rightarrow> ObjectGuid option" where
  "ObjectGuid_Create_sub realm type subType mapId entry counter =
     (if ObjectGuidTraits_MapSpecific type
      then Some (ObjectGuid_MapSpecific realm type subType mapId 0 entry counter) else None)"

subsection \<open>Raw and packed form\<close>

definition ObjectGuid_GetRawValue :: "ObjectGuid \<Rightarrow> u8 list" where
  "ObjectGuid_GetRawValue g = le_bytes (guid_low g) @ le_bytes (guid_high g)"

definition ObjectGuid_SetRawValue :: "u8 list \<Rightarrow> bb_error + ObjectGuid" where
  "ObjectGuid_SetRawValue raw =
     (if length raw = 16 then Inr (ObjectGuid (le_word (take 8 raw)) (le_word (drop 8 raw)))
      else Inl AssertFailed)"

definition ObjectGuid_write :: "ObjectGuid \<Rightarrow> ByteBuffer \<Rightarrow> bb_error + ByteBuffer" where
  "ObjectGuid_write g b = and_then (ByteBuffer_FlushBits b) (\<lambda>b1.
     let pos = bb_wpos b1 in
     and_then (ByteBuffer_append_value (0 :: u8) b1) (\<lambda>b2.
     and_then (ByteBuffer_append_value (0 :: u8) b2) (\<lambda>b3.
     case ByteBuffer_PackUInt64 (guid_low g) of (lowMask, low) \<Rightarrow>
     and_then (if low \<noteq> [] then ByteBuffer_append low b3 else Inr b3) (\<lambda>b4.
     case ByteBuffer_PackUInt64 (guid_high g) of (highMask, high) \<Rightarrow>
     and_then (if high \<noteq> [] then ByteBuffer_append high b4 else Inr b4) (\<lambda>b5.
     and_then (ByteBuffer_put_value pos lowMask b5) (ByteBuffer_put_value (pos + 1) highMask))))))"

text \<open>\<open>operator>>\<close> reads into an existing guid: the bytes are ored into what it holds.\<close>

definition ObjectGuid_read_into :: "ObjectGuid \<Rightarrow> ByteBuffer \<Rightarrow> bb_error + (ObjectGuid \<times> ByteBuffer)" where
  "ObjectGuid_read_into g b = and_then (ByteBuffer_read b) (\<lambda>(lowMask, b1).
     and_then (ByteBuffer_read b1) (\<lambda>(highMask, b2).
     and_then (ByteBuffer_ReadPackedUInt64_mask lowMask (guid_low g) b2) (\<lambda>(low, b3).
     and_then (ByteBuffer_ReadPackedUInt64_mask highMask (guid_high g) b3) (\<lambda>(high, b4).
       Inr (ObjectGuid low high, b4)))))"

subsection \<open>Text\<close>

text \<open>What a stream prints of a guid: 32 hexadecimal digits.\<close>

definition ObjectGuid_print :: "ObjectGuid \<Rightarrow> string" where
  "ObjectGuid_print guid = put_hex16 (guid_high guid) @ put_hex16 (guid_low guid)"

lemma ObjectGuid_print_clean: "CHR '' '' \<notin> set (ObjectGuid_print g)" "NUL \<notin> set (ObjectGuid_print g)"
  using put_hex16_chars(2) [of "CHR '' ''"] put_hex16_chars(2) [of NUL]
  by (auto simp: ObjectGuid_print_def)

lemma length_ObjectGuid_print [simp]: "length (ObjectGuid_print g) = 32"
  by (simp add: ObjectGuid_print_def)

lemma ObjectGuid_print_inject [simp]: "ObjectGuid_print g = ObjectGuid_print h \<longleftrightarrow> g = h"
proof
  assume "ObjectGuid_print g = ObjectGuid_print h"
  then have "put_hex16 (guid_high g) = put_hex16 (guid_high h)" "put_hex16 (guid_low g) = put_hex16 (guid_low h)"
    by (simp_all add: ObjectGuid_print_def)
  then have "guid_high g = guid_high h" "guid_low g = guid_low h" by (metis strtoull16_put_hex16)+
  then show "g = h" by (simp add: ObjectGuid.expand)
qed simp

subsection \<open>Generators\<close>

text \<open>A generator hands out its counter and increments it; near the end of the counter range it stops
  the server first (the flag).\<close>

record ObjectGuidGenerator =
  gen_high :: HighGuid
  gen_nextGuid :: u64
  gen_stopped :: bool

definition ObjectGuidGenerator_init :: "HighGuid \<Rightarrow> u64 \<Rightarrow> ObjectGuidGenerator" where
  "ObjectGuidGenerator_init high start = \<lparr>gen_high = high, gen_nextGuid = start, gen_stopped = False\<rparr>"

definition ObjectGuidGenerator_Generate :: "ObjectGuidGenerator \<Rightarrow> u64 \<times> ObjectGuidGenerator" where
  "ObjectGuidGenerator_Generate g =
     (let g1 = (if gen_nextGuid g \<ge> ObjectGuid_GetMaxCounter (gen_high g) - 1
                then g\<lparr>gen_stopped := True\<rparr> else g)
      in (gen_nextGuid g1, g1\<lparr>gen_nextGuid := gen_nextGuid g1 + 1\<rparr>))"

subsection \<open>What the getters read is what the constructors packed\<close>

text \<open>The codes below 48 are the named kinds, one to one.\<close>

definition HighGuid_named :: "HighGuid \<Rightarrow> bool" where
  "HighGuid_named h = (case h of HighGuid_Unnamed n \<Rightarrow> False | _ \<Rightarrow> True)"

lemma HighGuid_of_code_code: "HighGuid_named h \<Longrightarrow> HighGuid_of_code (HighGuid_code h) = h"
  by (cases h) (simp_all add: HighGuid_of_code_def HighGuids_def HighGuid_named_def)

lemma HighGuid_code_less: "HighGuid_named h \<Longrightarrow> uint (HighGuid_code h) < 48"
  by (cases h) (simp_all add: HighGuid_named_def)

lemma traits_named:
  "ObjectGuidTraits_Global h \<Longrightarrow> HighGuid_named h"
  "ObjectGuidTraits_RealmSpecific h \<Longrightarrow> HighGuid_named h"
  "ObjectGuidTraits_MapSpecific h \<Longrightarrow> HighGuid_named h"
  by (auto simp: ObjectGuidTraits_Global_def ObjectGuidTraits_RealmSpecific_def
      ObjectGuidTraits_MapSpecific_def HighGuid_named_def)

text \<open>The masks of the source are the low bits of a word.\<close>

lemma guid_masks:
  "(w :: u64) AND 0x3F = take_bit 6 w" "(w :: u64) AND 0x1FFF = take_bit 13 w"
  "(w :: u64) AND 0x7FFFFF = take_bit 23 w" "(w :: u64) AND 0xFFFFFFFFFF = take_bit 40 w"
  "(v :: u32) AND 0x1FFF = take_bit 13 v" "(v :: u32) AND 0x7FFFFF = take_bit 23 v"
  "(v :: u32) AND 0xFFFFFF = take_bit 24 v" "(m :: u16) AND 0x1FFF = take_bit 13 m"
  by (simp_all add: take_bit_eq_mask mask_eq_exp_minus_1)

lemma code_bits: "HighGuid_named h \<Longrightarrow> bit (HighGuid_code h) n \<Longrightarrow> n < 6"
proof -
  assume h: "HighGuid_named h" "bit (HighGuid_code h) n"
  have "uint (HighGuid_code h) < 2 ^ 6" using HighGuid_code_less [OF h(1)] by simp
  then have "take_bit 6 (HighGuid_code h) = HighGuid_code h" by (rule take_bit_small)
  with h(2) show ?thesis by (metis bit_take_bit_iff)
qed

lemmas guid_bits = bit_or_iff bit_and_iff bit_push_bit_iff bit_drop_bit_eq bit_take_bit_iff
  bit_ucast_iff

lemma MapSpecific_fields:
  fixes realm t sub mapId server entry counter
  defines "g \<equiv> ObjectGuid_MapSpecific realm t sub mapId server entry counter"
  assumes "HighGuid_named t"
  shows "ObjectGuid_GetHigh g = t" "ObjectGuid_GetRealmId g = realm AND 0x1FFF"
    "ObjectGuid_GetMapId g = ucast (mapId AND 0x1FFF)" "ObjectGuid_GetEntry g = entry AND 0x7FFFFF"
    "ObjectGuid_GetCounter g = counter AND 0xFFFFFFFFFF"
proof -
  note t = code_bits [OF assms(2)]
  have "drop_bit 58 (guid_high g) AND 0x3F = HighGuid_code t"
    by (rule bit_word_eqI)
       (auto simp: g_def ObjectGuid_MapSpecific_def guid_masks guid_bits dest: bit_imp_le_length t)
  then show "ObjectGuid_GetHigh g = t"
    by (simp add: ObjectGuid_GetHigh_def HighGuid_of_code_code [OF assms(2)])
  show "ObjectGuid_GetRealmId g = realm AND 0x1FFF"
    by (rule bit_word_eqI)
       (auto simp: g_def ObjectGuid_GetRealmId_def ObjectGuid_MapSpecific_def guid_masks guid_bits
          dest: bit_imp_le_length t)
  show "ObjectGuid_GetMapId g = ucast (mapId AND 0x1FFF)"
    by (rule bit_word_eqI)
       (auto simp: g_def ObjectGuid_GetMapId_def ObjectGuid_MapSpecific_def guid_masks guid_bits
          dest: bit_imp_le_length t)
  show "ObjectGuid_GetEntry g = entry AND 0x7FFFFF"
    by (rule bit_word_eqI)
       (auto simp: g_def ObjectGuid_GetEntry_def ObjectGuid_MapSpecific_def guid_masks guid_bits
          dest: bit_imp_le_length t)
  show "ObjectGuid_GetCounter g = counter AND 0xFFFFFFFFFF"
    by (rule bit_word_eqI)
       (auto simp: g_def ObjectGuid_GetCounter_def ObjectGuid_MapSpecific_def guid_masks guid_bits)
qed

text \<open>A realm-specific guid keeps its kind and realm as long as the realm id fits the 13 bits the getters
  read; larger ids would reach into the unused bits and, from 2^16 on, into the kind.\<close>

lemma RealmSpecific_fields:
  fixes realm t counter
  defines "g \<equiv> ObjectGuid_RealmSpecific realm t counter"
  assumes "HighGuid_named t" "take_bit 13 realm = realm"
  shows "ObjectGuid_GetHigh g = t" "ObjectGuid_GetRealmId g = realm"
    "ObjectGuid_GetCounter g = counter AND 0xFFFFFFFFFF" "ObjectGuid_GetMapId g = 0"
    "ObjectGuid_GetEntry g = 0"
proof -
  note t = code_bits [OF assms(2)]
  have r: "bit realm n \<Longrightarrow> n < 13" for n using assms(3) by (metis bit_take_bit_iff)
  have "drop_bit 58 (guid_high g) AND 0x3F = HighGuid_code t"
    by (rule bit_word_eqI)
       (auto simp: g_def ObjectGuid_RealmSpecific_def guid_masks guid_bits dest: r bit_imp_le_length t)
  then show "ObjectGuid_GetHigh g = t"
    by (simp add: ObjectGuid_GetHigh_def HighGuid_of_code_code [OF assms(2)])
  show "ObjectGuid_GetRealmId g = realm"
    by (rule bit_word_eqI)
       (auto simp: g_def ObjectGuid_GetRealmId_def ObjectGuid_RealmSpecific_def guid_masks guid_bits
          dest: bit_imp_le_length t r)
  show "ObjectGuid_GetMapId g = 0"
    by (rule bit_word_eqI)
       (auto simp: g_def ObjectGuid_GetMapId_def ObjectGuid_RealmSpecific_def guid_masks guid_bits)
  show "ObjectGuid_GetEntry g = 0"
    by (rule bit_word_eqI)
       (auto simp: g_def ObjectGuid_GetEntry_def ObjectGuid_RealmSpecific_def guid_masks guid_bits)
  show "ObjectGuid_GetCounter g = counter AND 0xFFFFFFFFFF"
    by (simp add: g_def ObjectGuid_GetCounter_def ObjectGuid_RealmSpecific_def)
qed

lemma Global_fields:
  assumes "HighGuid_named t"
  shows "ObjectGuid_GetHigh (ObjectGuid_Global t counter) = t"
    "ObjectGuid_GetCounter (ObjectGuid_Global t counter) = counter AND 0xFFFFFFFFFF"
proof -
  note t = code_bits [OF assms]
  have "drop_bit 58 (guid_high (ObjectGuid_Global t counter)) AND 0x3F = HighGuid_code t"
    by (rule bit_word_eqI)
       (auto simp: ObjectGuid_Global_def guid_masks guid_bits dest: bit_imp_le_length t)
  then show "ObjectGuid_GetHigh (ObjectGuid_Global t counter) = t"
    by (simp add: ObjectGuid_GetHigh_def HighGuid_of_code_code [OF assms])
  show "ObjectGuid_GetCounter (ObjectGuid_Global t counter) = counter AND 0xFFFFFFFFFF"
    by (simp add: ObjectGuid_GetCounter_def ObjectGuid_Global_def)
qed

text \<open>The raw form is a bijection with the lists of 16 bytes.\<close>

lemma SetRawValue_GetRawValue: "ObjectGuid_SetRawValue (ObjectGuid_GetRawValue g) = Inr g"
  by (simp add: ObjectGuid_SetRawValue_def ObjectGuid_GetRawValue_def le_word_le_bytes)

lemma GetRawValue_SetRawValue:
  "length raw = 16 \<Longrightarrow> ok_and (\<lambda>g. ObjectGuid_GetRawValue g = raw) (ObjectGuid_SetRawValue raw)"
  by (simp add: ObjectGuid_SetRawValue_def ObjectGuid_GetRawValue_def le_bytes_le_word)

subsection \<open>Guids on the wire\<close>

definition guid_image :: "ObjectGuid \<Rightarrow> u8 list" where
  "guid_image g = (case ByteBuffer_PackUInt64 (guid_low g) of (lm, low) \<Rightarrow>
     case ByteBuffer_PackUInt64 (guid_high g) of (hm, high) \<Rightarrow> lm # hm # low @ high)"

lemma append_nonempty_emit:
  "bb_room (length xs) b \<Longrightarrow> (if xs \<noteq> [] then ByteBuffer_append xs b else Inr b) = Inr (bb_emit xs b)"
  by (simp add: ByteBuffer_append_emit)

lemma ObjectGuid_write_image:
  assumes "bb_room (length (guid_image g)) b"
  shows "ObjectGuid_write g b = Inr (bb_emit (guid_image g) b)"
proof -
  obtain lm low where l: "ByteBuffer_PackUInt64 (guid_low g) = (lm, low)" by force
  obtain hm high where h: "ByteBuffer_PackUInt64 (guid_high g) = (hm, high)" by force
  from assms l h have room: "bb_room (2 + length low + length high) b"
    by (simp add: guid_image_def)
  have flush: "ByteBuffer_FlushBits b = Inr b"
    using room by (simp add: ByteBuffer_FlushBits_def bb_room_def)
  have z1: "ByteBuffer_append_value (0 :: u8) b = Inr (bb_emit [0] b)"
    using room by (simp add: ByteBuffer_append_value_def ByteBuffer_append_emit bb_room_less)
  have z2: "ByteBuffer_append_value (0 :: u8) (bb_emit [0] b) = Inr (bb_emit [0, 0] b)"
    using bb_room_emit [of "[0]" 1 b] room
    by (simp add: ByteBuffer_append_value_def ByteBuffer_append_emit bb_room_less bb_emit_append)
  have a1: "(if low \<noteq> [] then ByteBuffer_append low (bb_emit [0, 0] b) else Inr (bb_emit [0, 0] b)) =
      Inr (bb_emit ([0, 0] @ low) b)"
    using bb_room_emit [of "[0, 0]" "length low" b] room
    by (subst append_nonempty_emit) (simp_all add: bb_room_less bb_emit_append)
  have a2: "(if high \<noteq> [] then ByteBuffer_append high (bb_emit ([0, 0] @ low) b)
      else Inr (bb_emit ([0, 0] @ low) b)) = Inr (bb_emit ([0, 0] @ low @ high) b)"
    using bb_room_emit [of "[0, 0] @ low" "length high" b] room
    by (subst append_nonempty_emit) (simp_all add: bb_emit_append)
  have pos: "bb_wpos b = length (bb_storage b)" using room by (simp add: bb_room_def)
  have p1: "ByteBuffer_put_value (bb_wpos b) lm (bb_emit ([0, 0] @ low @ high) b) =
      Inr (bb_emit ([lm, 0] @ low @ high) b)"
    by (simp add: ByteBuffer_put_value_def ByteBuffer_put_def bb_emit_def ByteBuffer_size_def pos)
  have p2: "ByteBuffer_put_value (bb_wpos b + 1) hm (bb_emit ([lm, 0] @ low @ high) b) =
      Inr (bb_emit ([lm, hm] @ low @ high) b)"
    by (simp add: ByteBuffer_put_value_def ByteBuffer_put_def bb_emit_def ByteBuffer_size_def pos)
  show ?thesis
    unfolding ObjectGuid_write_def flush and_then.simps Let_def z1 z2 l h prod.case a1 a2 p1 p2
    by (simp add: guid_image_def l h)
qed

lemma bb_read_u8: "bb_has [x] b \<Longrightarrow> ByteBuffer_read b = Inr (x :: u8, bb_skip (Suc 0) b)"
  using ByteBuffer_read_has [of x b] by simp

lemma ReadPacked_image:
  assumes "ByteBuffer_PackUInt64 v = (m, xs)" "bb_has xs b"
  shows "ByteBuffer_ReadPackedUInt64_mask m acc b = Inr (acc OR v, bb_skip (length xs) b)"
proof -
  have "bit v n \<Longrightarrow> n + 8 * 0 < 64" for n
    by (drule bit_imp_le_length) simp
  then show ?thesis
    using bb_Pack_read [of 0 0 v m xs b acc] assms
    by (simp add: ByteBuffer_PackUInt64_def ByteBuffer_ReadPackedUInt64_mask_def)
qed

lemma ObjectGuid_read_image:
  assumes "bb_has (guid_image g) b"
  shows "ObjectGuid_read_into g0 b =
    Inr (ObjectGuid (guid_low g0 OR guid_low g) (guid_high g0 OR guid_high g),
         bb_skip (length (guid_image g)) b)"
proof -
  obtain lm low where l: "ByteBuffer_PackUInt64 (guid_low g) = (lm, low)" by force
  obtain hm high where h: "ByteBuffer_PackUInt64 (guid_high g) = (hm, high)" by force
  have has: "bb_has ([lm] @ [hm] @ low @ high) b" using assms l h by (simp add: guid_image_def)
  note s1 = bb_has_append [OF has]
  note s2 = bb_has_append [OF conjunct2 [OF s1]]
  note s3 = bb_has_append [OF conjunct2 [OF s2]]
  have "ByteBuffer_read b = Inr (lm, bb_skip (Suc 0) b)"
    using bb_read_u8 [of lm b] s1 by simp
  moreover have "ByteBuffer_read (bb_skip (Suc 0) b) = Inr (hm, bb_skip (Suc (Suc 0)) b)"
    using bb_read_u8 [of hm "bb_skip (Suc 0) b"] s2 by simp
  moreover have "ByteBuffer_ReadPackedUInt64_mask lm (guid_low g0) (bb_skip (Suc (Suc 0)) b) =
      Inr (guid_low g0 OR guid_low g, bb_skip (Suc (Suc (length low))) b)"
    using ReadPacked_image [OF l, of "bb_skip (Suc (Suc 0)) b" "guid_low g0"] s3 by simp
  moreover have "ByteBuffer_ReadPackedUInt64_mask hm (guid_high g0) (bb_skip (Suc (Suc (length low))) b) =
      Inr (guid_high g0 OR guid_high g, bb_skip (Suc (Suc (length low + length high))) b)"
    using ReadPacked_image [OF h, of "bb_skip (Suc (Suc (length low))) b" "guid_high g0"] s3 by simp
  ultimately show ?thesis
    by (simp add: ObjectGuid_read_into_def guid_image_def l h)
qed

interpretation wire_guid: wire_type ObjectGuid_write "ObjectGuid_read_into ObjectGuid_Empty" guid_image
  "\<lambda>_. True"
proof unfold_locales
  show "ObjectGuid_write g b = Inr (bb_emit (guid_image g) b)" if "bb_room (length (guid_image g)) b"
    for g b using that by (rule ObjectGuid_write_image)
  show "ObjectGuid_read_into ObjectGuid_Empty b = Inr (g, bb_skip (length (guid_image g)) b)"
    if "bb_has (guid_image g) b" for g b
    using ObjectGuid_read_image [OF that, of ObjectGuid_Empty] by (simp add: ObjectGuid_Empty_def)
  show "guid_image g \<noteq> []" for g by (simp add: guid_image_def split: prod.split)
qed

subsection \<open>Generators never repeat a counter\<close>

lemma Generate_run:
  "n + unat (gen_nextGuid g) < 2 ^ 64 \<Longrightarrow>
     map fst (map (\<lambda>k. ObjectGuidGenerator_Generate
       (((\<lambda>g. snd (ObjectGuidGenerator_Generate g)) ^^ k) g)) [0..<n]) =
     map (\<lambda>k. gen_nextGuid g + of_nat k) [0..<n]"
proof (induction n)
  case (Suc n)
  have next': "gen_nextGuid (((\<lambda>g. snd (ObjectGuidGenerator_Generate g)) ^^ k) g) = gen_nextGuid g + of_nat k"
    for k by (induction k) (simp_all add: ObjectGuidGenerator_Generate_def Let_def)
  have "fst (ObjectGuidGenerator_Generate h) = gen_nextGuid h" for h
    by (simp add: ObjectGuidGenerator_Generate_def Let_def)
  with next' Suc show ?case by simp
qed simp

subsection \<open>Properties\<close>

text \<open>C28: a map-specific guid gives back its kind, realm, map, entry and counter, each cut to the
  bits it has in the layout; no field leaks into another.\<close>

theorem ObjectGuid_Create_fields:
  assumes "ObjectGuid_Create_sub realm t sub mapId entry counter = Some g"
  shows "ObjectGuid_GetHigh g = t \<and> ObjectGuid_GetRealmId g = realm AND 0x1FFF
    \<and> ObjectGuid_GetMapId g = ucast (mapId AND 0x1FFF) \<and> ObjectGuid_GetEntry g = entry AND 0x7FFFFF
    \<and> ObjectGuid_GetCounter g = counter AND 0xFFFFFFFFFF"
proof -
  from assms have "HighGuid_named t" "g = ObjectGuid_MapSpecific realm t sub mapId 0 entry counter"
    by (auto simp: ObjectGuid_Create_sub_def traits_named split: if_splits)
  then show ?thesis by (simp add: MapSpecific_fields)
qed

theorem ObjectGuid_Create_fields_witness:
  "ObjectGuid_GetEntry (ObjectGuid_MapSpecific 1 HighGuid_Creature 3 571 0 28860 77) = 28860
    \<and> ObjectGuid_GetHigh (ObjectGuid_MapSpecific 1 HighGuid_Creature 3 571 0 28860 77) = HighGuid_Creature"
  using ObjectGuid_Create_fields [of 1 HighGuid_Creature 3 571 28860 77
      "ObjectGuid_MapSpecific 1 HighGuid_Creature 3 571 0 28860 77"]
  by (simp add: ObjectGuid_Create_sub_def ObjectGuidTraits_MapSpecific_def)

text \<open>C29: any list of guids written to a packet reads back as it was, to the last byte.\<close>

theorem ObjectGuid_packet_roundtrip:
  assumes "length (concat (map guid_image gs)) < 10000000"
  shows "\<exists>b. put_all ObjectGuid_write gs ByteBuffer_init = Inr b \<and>
    ok_and (\<lambda>(hs, b'). hs = gs \<and> bb_rpos b' = ByteBuffer_size b)
      (get_all (ObjectGuid_read_into ObjectGuid_Empty) (length gs) b)"
  using wire_guid.packet_roundtrip [OF _ assms] by (simp add: list_all_iff)

theorem ObjectGuid_packet_roundtrip_witness:
  "\<exists>b. put_all ObjectGuid_write [ObjectGuid 5 0, ObjectGuid_Empty] ByteBuffer_init = Inr b \<and>
    ok_and (\<lambda>(hs, b'). hs = [ObjectGuid 5 0, ObjectGuid_Empty] \<and> bb_rpos b' = ByteBuffer_size b)
      (get_all (ObjectGuid_read_into ObjectGuid_Empty) (Suc (Suc 0)) b)"
proof -
  have pack: "ByteBuffer_PackUInt64 0 = (0, [])" "ByteBuffer_PackUInt64 5 = (1, [5])"
    by (simp_all add: ByteBuffer_PackUInt64_def bb_Pack.simps [of _ _ 0] bb_Pack.simps [of _ _ 5])
  show ?thesis
    using ObjectGuid_packet_roundtrip [of "[ObjectGuid 5 0, ObjectGuid_Empty]"]
    by (simp add: guid_image_def ObjectGuid_Empty_def pack)
qed

end
