(* ===== verification/RBAC.thy ===== *)
theory RBAC
  imports Prelude
begin

section \<open>Role based access control (server/game/Accounts/RBAC.h, RBAC.cpp, AccountMgr.cpp)\<close>

text \<open>
  The permission definitions the account manager holds (each with the permissions linked to it) and
  the permissions of one account: what was granted to it, what was denied, and the global set computed
  from the two. \<open>std::set\<close> is an ordered list without repetition. The statements sent to the login
  database are recorded in the state (\<open>rbac_sql\<close>); the rows a query returns are an argument. A
  definition row the links of which are read through a null pointer is an error of \<open>LoadRBAC\<close>.
\<close>

subsection \<open>Permission definitions: AccountMgr\<close>

record RBACPermission =
  perm_id :: u32
  perm_name :: string
  perm_perms :: "u32 list"

definition RBACPermission_AddLinkedPermission :: "u32 \<Rightarrow> RBACPermission \<Rightarrow> RBACPermission" where
  "RBACPermission_AddLinkedPermission i p = p\<lparr>perm_perms := List.insort_insert i (perm_perms p)\<rparr>"

definition RBACPermission_RemoveLinkedPermission :: "u32 \<Rightarrow> RBACPermission \<Rightarrow> RBACPermission" where
  "RBACPermission_RemoveLinkedPermission i p = p\<lparr>perm_perms := filter (\<lambda>x. x \<noteq> i) (perm_perms p)\<rparr>"

text \<open>The maps of \<open>AccountMgr\<close>; a null pointer in \<open>_permissions\<close> is \<open>None\<close>.\<close>

record AccountMgr =
  am_permissions :: "(u32 \<times> RBACPermission option) list"
  am_defaultPermissions :: "(u8 \<times> u32 list) list"

definition AccountMgr_ClearRBAC :: "AccountMgr \<Rightarrow> AccountMgr" where
  "AccountMgr_ClearRBAC am = am\<lparr>am_permissions := [], am_defaultPermissions := []\<rparr>"

definition GetRBACPermission :: "AccountMgr \<Rightarrow> u32 \<Rightarrow> RBACPermission option" where
  "GetRBACPermission am permissionId =
     (case map_of (am_permissions am) permissionId of Some p \<Rightarrow> p | None \<Rightarrow> None)"

definition GetRBACDefaultPermissions :: "AccountMgr \<Rightarrow> u8 \<Rightarrow> u32 list" where
  "GetRBACDefaultPermissions am secLevel =
     (case map_of (am_defaultPermissions am) secLevel of Some ps \<Rightarrow> ps | None \<Rightarrow> [])"

fun load_permissions :: "(u32 \<times> string) list \<Rightarrow> AccountMgr \<Rightarrow> AccountMgr" where
  "load_permissions [] am = am"
| "load_permissions ((i, name) # rows) am =
     load_permissions rows (am\<lparr>am_permissions := om_put i
       (Some \<lparr>perm_id = i, perm_name = name, perm_perms = []\<rparr>) (am_permissions am)\<rparr>)"

text \<open>The link loop keeps the definition of the last row's id in a pointer (\<open>cur\<close>, null at first);
  \<open>operator[]\<close> puts a null entry for an unknown id.\<close>

datatype rbac_error = Rbac_NullPermission

fun load_links :: "(u32 \<times> u32) list \<Rightarrow> u32 \<Rightarrow> bool \<Rightarrow> AccountMgr \<Rightarrow> rbac_error + AccountMgr" where
  "load_links [] permissionId have_ptr am = Inr am"
| "load_links ((newId, linkedId) # rows) permissionId have_ptr am =
     (let am1 = (if permissionId \<noteq> newId \<and> map_of (am_permissions am) newId = None
                 then am\<lparr>am_permissions := om_put newId None (am_permissions am)\<rparr> else am);
          ptr = (permissionId \<noteq> newId \<or> have_ptr)
      in if linkedId = newId then load_links rows newId ptr am1
         else case (if ptr then GetRBACPermission am1 newId else None) of
                None \<Rightarrow> Inl Rbac_NullPermission
              | Some p \<Rightarrow> load_links rows newId ptr
                  (am1\<lparr>am_permissions := om_put newId
                     (Some (RBACPermission_AddLinkedPermission linkedId p)) (am_permissions am1)\<rparr>))"

fun load_defaults :: "(u32 \<times> u32) list \<Rightarrow> AccountMgr \<Rightarrow> AccountMgr" where
  "load_defaults [] am = am"
| "load_defaults ((newId, permId) # rows) am =
     (let secId = ucast newId in
      load_defaults rows (am\<lparr>am_defaultPermissions := om_put secId
        (List.insort_insert permId (GetRBACDefaultPermissions am secId)) (am_defaultPermissions am)\<rparr>))"

definition AccountMgr_LoadRBAC :: "(u32 \<times> string) list \<Rightarrow> (u32 \<times> u32) list \<Rightarrow> (u32 \<times> u32) list
    \<Rightarrow> AccountMgr \<Rightarrow> rbac_error + AccountMgr" where
  "AccountMgr_LoadRBAC perms links defaults am =
     (let am0 = AccountMgr_ClearRBAC am in
      if perms = [] then Inr am0
      else let am1 = load_permissions perms am0 in
        if links = [] then Inr am1
        else and_then (load_links links 0 False am1) (\<lambda>am2. Inr (load_defaults defaults am2)))"

subsection \<open>Expansion\<close>

text \<open>One step of the worklist: the links of a definition that are not expanded yet are to be checked.\<close>

definition rbac_add_links :: "u32 list \<Rightarrow> u32 list \<Rightarrow> u32 list \<Rightarrow> u32 list" where
  "rbac_add_links linkedPerms permissions toCheck =
     fold (\<lambda>l tc. if l \<in> set permissions then tc else List.insort_insert l tc) linkedPerms toCheck"

lemma set_insort_insert [simp]: "set (List.insort_insert x xs) = insert x (set xs)"
  by (simp add: set_insort_insert)

lemma set_rbac_add_links [simp]:
  "set (rbac_add_links ls ps tc) = set tc \<union> (set ls - set ps)"
  unfolding rbac_add_links_def by (induction ls arbitrary: tc) auto

lemma filter_insort_not: "\<not> P x \<Longrightarrow> filter P (List.insort_insert x xs) = filter P xs"
  by (induction xs) (auto simp: insort_insert_key_def insort_key_def)

lemma filter_rbac_add_links:
  "filter (\<lambda>x. x \<in> set ps) (rbac_add_links ls ps tc) = filter (\<lambda>x. x \<in> set ps) tc"
  unfolding rbac_add_links_def by (induction ls arbitrary: tc) (auto simp: filter_insort_not)

lemma set_ok_rbac_add_links: "set_ok tc \<Longrightarrow> set_ok (rbac_add_links ls ps tc)"
  unfolding rbac_add_links_def by (induction ls arbitrary: tc) auto

function rbac_expand :: "AccountMgr \<Rightarrow> u32 list \<Rightarrow> u32 list \<Rightarrow> u32 list" where
  "rbac_expand am [] permissions = permissions"
| "rbac_expand am (permissionId # toCheck) permissions =
     (case GetRBACPermission am permissionId of
        None \<Rightarrow> rbac_expand am toCheck permissions
      | Some permission \<Rightarrow>
          let permissions1 = List.insort_insert permissionId permissions in
          rbac_expand am (rbac_add_links (perm_perms permission) permissions1 toCheck) permissions1)"
  by pat_completeness auto

text \<open>The loop ends because a round either expands a definition that was not expanded, or takes an
  expanded one off the worklist for good, or shortens the list.\<close>

definition rbac_ids :: "AccountMgr \<Rightarrow> u32 set" where
  "rbac_ids am = {i. GetRBACPermission am i \<noteq> None}"

lemma finite_rbac_ids [simp]: "finite (rbac_ids am)"
  by (rule finite_subset [OF _ finite_dom_map_of [of "am_permissions am"]])
     (auto simp: rbac_ids_def GetRBACPermission_def split: option.splits)

termination rbac_expand
proof (relation "measures [\<lambda>(am, tc, ps). card (rbac_ids am - set ps),
    \<lambda>(am, tc, ps). length (filter (\<lambda>x. x \<in> set ps) tc), \<lambda>(am, tc, ps). length tc]", goal_cases)
  case (3 am p tc ps q ps1)
  then have p: "p \<in> rbac_ids am" by (simp add: rbac_ids_def)
  show ?case
  proof (cases "p \<in> set ps")
    case True
    then have "set ps1 = set ps" using 3 by auto
    then show ?thesis
      using True filter_rbac_add_links [of ps "perm_perms q" tc]
      by (simp add: rbac_add_links_def)
  next
    case False
    with p have "card (rbac_ids am - set ps1) < card (rbac_ids am - set ps)"
      using 3 by (intro psubset_card_mono) auto
    then show ?thesis by simp
  qed
qed auto

definition RBACData_ExpandPermissions :: "AccountMgr \<Rightarrow> u32 list \<Rightarrow> u32 list" where
  "RBACData_ExpandPermissions am permissions = rbac_expand am permissions []"

text \<open>What the expansion of a set of ids should be: the defined ones among them and everything defined
  that the links of a member lead to.\<close>

inductive_set rbac_reach :: "AccountMgr \<Rightarrow> u32 set \<Rightarrow> u32 set" for am S where
  reach_base: "x \<in> S \<Longrightarrow> GetRBACPermission am x = Some p \<Longrightarrow> x \<in> rbac_reach am S"
| reach_link: "x \<in> rbac_reach am S \<Longrightarrow> GetRBACPermission am x = Some p \<Longrightarrow> y \<in> set (perm_perms p) \<Longrightarrow>
    GetRBACPermission am y = Some q \<Longrightarrow> y \<in> rbac_reach am S"

inductive_cases reach_cases: "x \<in> rbac_reach am S"

lemma reach_defined: "x \<in> rbac_reach am S \<Longrightarrow> \<exists>p. GetRBACPermission am x = Some p"
  by (auto elim: reach_cases)

lemma reach_mono: "x \<in> rbac_reach am S \<Longrightarrow> S \<subseteq> T \<Longrightarrow> x \<in> rbac_reach am T"
  by (induction rule: rbac_reach.induct) (auto intro: rbac_reach.intros)

lemma rbac_expand_keeps: "set ps \<subseteq> set (rbac_expand am tc ps)"
  by (induction am tc ps rule: rbac_expand.induct) (auto simp: Let_def split: option.splits)

lemma rbac_expand_sound:
  "set tc \<inter> rbac_ids am \<subseteq> rbac_reach am S \<Longrightarrow> set ps \<subseteq> rbac_reach am S \<Longrightarrow>
     set (rbac_expand am tc ps) \<subseteq> rbac_reach am S"
proof (induction am tc ps rule: rbac_expand.induct)
  case (2 am p tc ps)
  show ?case
  proof (cases "GetRBACPermission am p")
    case None
    with 2 show ?thesis by auto
  next
    case (Some q)
    with "2.prems"(1) have p: "p \<in> rbac_reach am S" by (auto simp: rbac_ids_def)
    then have "set (perm_perms q) \<inter> rbac_ids am \<subseteq> rbac_reach am S"
      using Some by (auto simp: rbac_ids_def intro: reach_link)
    with "2.prems" p have "set (rbac_expand am (rbac_add_links (perm_perms q)
        (List.insort_insert p ps) tc) (List.insort_insert p ps)) \<subseteq> rbac_reach am S"
      by (intro "2.IH"(2) [OF Some refl]) auto
    with Some show ?thesis by (simp add: Let_def)
  qed
qed simp

text \<open>All links of the members of \<open>ps\<close> lead into \<open>ps\<close> or to the worklist.\<close>

definition rbac_closed :: "AccountMgr \<Rightarrow> u32 set \<Rightarrow> u32 set \<Rightarrow> bool" where
  "rbac_closed am ps tc \<longleftrightarrow> (\<forall>x \<in> ps. \<forall>q. GetRBACPermission am x = Some q \<longrightarrow>
     set (perm_perms q) \<inter> rbac_ids am \<subseteq> ps \<union> tc)"

lemma rbac_expand_complete:
  assumes "rbac_closed am (set ps) (set tc)"
  shows "set tc \<inter> rbac_ids am \<subseteq> set (rbac_expand am tc ps) \<and>
    rbac_closed am (set (rbac_expand am tc ps)) {}"
  using assms
proof (induction am tc ps rule: rbac_expand.induct)
  case (2 am p tc ps)
  show ?case
  proof (cases "GetRBACPermission am p")
    case None
    then have "p \<notin> rbac_ids am" by (simp add: rbac_ids_def)
    with "2.prems" have "rbac_closed am (set ps) (set tc)"
      unfolding rbac_closed_def by fastforce
    from "2.IH"(1) [OF None this] None show ?thesis
      by (auto simp: rbac_ids_def)
  next
    case (Some q)
    let ?ps = "List.insort_insert p ps"
    let ?tc = "rbac_add_links (perm_perms q) ?ps tc"
    have "rbac_closed am (set ?ps) (set ?tc)"
      using "2.prems" Some by (auto simp: rbac_closed_def)
    from "2.IH"(2) [OF Some refl this]
    have IH: "set ?tc \<inter> rbac_ids am \<subseteq> set (rbac_expand am ?tc ?ps)"
      "rbac_closed am (set (rbac_expand am ?tc ?ps)) {}" by simp_all
    have "p \<in> set (rbac_expand am ?tc ?ps)"
      using rbac_expand_keeps [of ?ps am ?tc] by auto
    moreover have "set tc \<inter> rbac_ids am \<subseteq> set (rbac_expand am ?tc ?ps)"
      using IH(1) by auto
    ultimately show ?thesis using IH(2) Some by (auto simp: Let_def)
  qed
qed simp

lemma set_ok_rbac_expand: "set_ok tc \<Longrightarrow> set_ok ps \<Longrightarrow> set_ok (rbac_expand am tc ps)"
  by (induction am tc ps rule: rbac_expand.induct)
     (auto simp: Let_def set_ok_rbac_add_links split: option.splits)

lemma set_ExpandPermissions:
  "set (RBACData_ExpandPermissions am perms) = rbac_reach am (set perms)"
proof
  have "set perms \<inter> rbac_ids am \<subseteq> rbac_reach am (set perms)"
    by (auto simp: rbac_ids_def intro: reach_base)
  then show "set (RBACData_ExpandPermissions am perms) \<subseteq> rbac_reach am (set perms)"
    by (simp add: RBACData_ExpandPermissions_def rbac_expand_sound)
next
  from rbac_expand_complete [of am "[]" perms]
  have c: "set perms \<inter> rbac_ids am \<subseteq> set (RBACData_ExpandPermissions am perms)"
    "rbac_closed am (set (RBACData_ExpandPermissions am perms)) {}"
    by (simp_all add: RBACData_ExpandPermissions_def rbac_closed_def)
  have "x \<in> set (RBACData_ExpandPermissions am perms)" if "x \<in> rbac_reach am (set perms)" for x
    using that
  proof (induction rule: rbac_reach.induct)
    case (reach_base x p)
    with c(1) show ?case by (auto simp: rbac_ids_def)
  next
    case (reach_link x p y q)
    then have "y \<in> set (perm_perms p) \<inter> rbac_ids am" by (simp add: rbac_ids_def)
    with reach_link c(2) show ?case unfolding rbac_closed_def by blast
  qed
  then show "rbac_reach am (set perms) \<subseteq> set (RBACData_ExpandPermissions am perms)" by blast
qed

subsection \<open>The permissions of an account: RBACData\<close>

datatype RBACCommandResult =
    RBAC_OK | RBAC_CANT_ADD_ALREADY_ADDED | RBAC_CANT_REVOKE_NOT_IN_LIST | RBAC_IN_GRANTED_LIST
  | RBAC_IN_DENIED_LIST | RBAC_ID_DOES_NOT_EXISTS

datatype login_statement =
    LOGIN_INS_RBAC_ACCOUNT_PERMISSION u32 u32 bool int
  | LOGIN_DEL_RBAC_ACCOUNT_PERMISSION u32 u32 int
  | LOGIN_DEL_ACCOUNT_ACCESS u32
  | LOGIN_DEL_ACCOUNT_ACCESS_BY_REALM u32 int
  | LOGIN_INS_ACCOUNT_ACCESS u32 u8 int

record RBACData =
  rbac_id :: u32
  rbac_name :: string
  rbac_realmId :: int
  rbac_secLevel :: u8
  rbac_grantedPerms :: "u32 list"
  rbac_deniedPerms :: "u32 list"
  rbac_globalPerms :: "u32 list"
  rbac_sql :: "login_statement list"

definition RBACData_init :: "u32 \<Rightarrow> string \<Rightarrow> int \<Rightarrow> u8 \<Rightarrow> RBACData" where
  "RBACData_init i name realmId secLevel =
     \<lparr>rbac_id = i, rbac_name = name, rbac_realmId = realmId, rbac_secLevel = secLevel,
      rbac_grantedPerms = [], rbac_deniedPerms = [], rbac_globalPerms = [], rbac_sql = []\<rparr>"

definition RBACData_HasPermission :: "u32 \<Rightarrow> RBACData \<Rightarrow> bool" where
  "RBACData_HasPermission permission r = (permission \<in> set (rbac_globalPerms r))"

definition RBACData_HasGrantedPermission :: "u32 \<Rightarrow> RBACData \<Rightarrow> bool" where
  "RBACData_HasGrantedPermission permissionId r = (permissionId \<in> set (rbac_grantedPerms r))"

definition RBACData_HasDeniedPermission :: "u32 \<Rightarrow> RBACData \<Rightarrow> bool" where
  "RBACData_HasDeniedPermission permissionId r = (permissionId \<in> set (rbac_deniedPerms r))"

definition RBACData_AddGrantedPermission :: "u32 \<Rightarrow> RBACData \<Rightarrow> RBACData" where
  "RBACData_AddGrantedPermission permissionId r =
     r\<lparr>rbac_grantedPerms := List.insort_insert permissionId (rbac_grantedPerms r)\<rparr>"

definition RBACData_AddDeniedPermission :: "u32 \<Rightarrow> RBACData \<Rightarrow> RBACData" where
  "RBACData_AddDeniedPermission permissionId r =
     r\<lparr>rbac_deniedPerms := List.insort_insert permissionId (rbac_deniedPerms r)\<rparr>"

definition RBACData_RemovePermissions :: "u32 list \<Rightarrow> u32 list \<Rightarrow> u32 list" where
  "RBACData_RemovePermissions permsFrom permsToRemove =
     fold (\<lambda>p from. filter (\<lambda>x. x \<noteq> p) from) permsToRemove permsFrom"

definition RBACData_CalculateNewPermissions :: "AccountMgr \<Rightarrow> RBACData \<Rightarrow> RBACData" where
  "RBACData_CalculateNewPermissions am r =
     r\<lparr>rbac_globalPerms := RBACData_RemovePermissions
          (RBACData_ExpandPermissions am (rbac_grantedPerms r))
          (RBACData_ExpandPermissions am (rbac_deniedPerms r))\<rparr>"

definition RBACData_SavePermission :: "u32 \<Rightarrow> bool \<Rightarrow> int \<Rightarrow> RBACData \<Rightarrow> RBACData" where
  "RBACData_SavePermission permission granted realmId r =
     r\<lparr>rbac_sql := rbac_sql r @ [LOGIN_INS_RBAC_ACCOUNT_PERMISSION (rbac_id r) permission granted realmId]\<rparr>"

definition RBACData_GrantPermission :: "AccountMgr \<Rightarrow> u32 \<Rightarrow> int \<Rightarrow> RBACData
    \<Rightarrow> RBACCommandResult \<times> RBACData" where
  "RBACData_GrantPermission am permissionId realmId r =
     (if GetRBACPermission am permissionId = None then (RBAC_ID_DOES_NOT_EXISTS, r)
      else if RBACData_HasDeniedPermission permissionId r then (RBAC_IN_DENIED_LIST, r)
      else if RBACData_HasGrantedPermission permissionId r then (RBAC_CANT_ADD_ALREADY_ADDED, r)
      else let r1 = RBACData_AddGrantedPermission permissionId r in
        (RBAC_OK, if realmId \<noteq> 0
           then RBACData_CalculateNewPermissions am (RBACData_SavePermission permissionId True realmId r1)
           else r1))"

definition RBACData_DenyPermission :: "AccountMgr \<Rightarrow> u32 \<Rightarrow> int \<Rightarrow> RBACData
    \<Rightarrow> RBACCommandResult \<times> RBACData" where
  "RBACData_DenyPermission am permissionId realmId r =
     (if GetRBACPermission am permissionId = None then (RBAC_ID_DOES_NOT_EXISTS, r)
      else if RBACData_HasGrantedPermission permissionId r then (RBAC_IN_GRANTED_LIST, r)
      else if RBACData_HasDeniedPermission permissionId r then (RBAC_CANT_ADD_ALREADY_ADDED, r)
      else let r1 = RBACData_AddDeniedPermission permissionId r in
        (RBAC_OK, if realmId \<noteq> 0
           then RBACData_CalculateNewPermissions am (RBACData_SavePermission permissionId False realmId r1)
           else r1))"

definition RBACData_RevokePermission :: "AccountMgr \<Rightarrow> u32 \<Rightarrow> int \<Rightarrow> RBACData
    \<Rightarrow> RBACCommandResult \<times> RBACData" where
  "RBACData_RevokePermission am permissionId realmId r =
     (if \<not> RBACData_HasGrantedPermission permissionId r \<and> \<not> RBACData_HasDeniedPermission permissionId r
      then (RBAC_CANT_REVOKE_NOT_IN_LIST, r)
      else let r1 = r\<lparr>rbac_grantedPerms := filter (\<lambda>x. x \<noteq> permissionId) (rbac_grantedPerms r),
                      rbac_deniedPerms := filter (\<lambda>x. x \<noteq> permissionId) (rbac_deniedPerms r)\<rparr>
        in (RBAC_OK, if realmId \<noteq> 0
             then RBACData_CalculateNewPermissions am (r1\<lparr>rbac_sql := rbac_sql r1 @
                    [LOGIN_DEL_RBAC_ACCOUNT_PERMISSION (rbac_id r1) permissionId realmId]\<rparr>)
             else r1))"

definition RBACData_ClearData :: "RBACData \<Rightarrow> RBACData" where
  "RBACData_ClearData r = r\<lparr>rbac_grantedPerms := [], rbac_deniedPerms := [], rbac_globalPerms := []\<rparr>"

fun rbac_load_rows :: "AccountMgr \<Rightarrow> (u32 \<times> bool) list \<Rightarrow> RBACData \<Rightarrow> RBACData" where
  "rbac_load_rows am [] r = r"
| "rbac_load_rows am ((p, granted) # rows) r =
     rbac_load_rows am rows (snd (if granted then RBACData_GrantPermission am p 0 r
                                  else RBACData_DenyPermission am p 0 r))"

definition RBACData_LoadFromDBCallback :: "AccountMgr \<Rightarrow> (u32 \<times> bool) list \<Rightarrow> RBACData \<Rightarrow> RBACData" where
  "RBACData_LoadFromDBCallback am rows r =
     RBACData_CalculateNewPermissions am
       (fold (\<lambda>p s. snd (RBACData_GrantPermission am p 0 s))
          (GetRBACDefaultPermissions am (rbac_secLevel r)) (rbac_load_rows am rows r))"

definition RBACData_LoadFromDB :: "AccountMgr \<Rightarrow> (u32 \<Rightarrow> int \<Rightarrow> (u32 \<times> bool) list) \<Rightarrow> RBACData
    \<Rightarrow> RBACData" where
  "RBACData_LoadFromDB am query r =
     RBACData_LoadFromDBCallback am (query (rbac_id r) (rbac_realmId r)) (RBACData_ClearData r)"

definition RBACData_SetSecurityLevel :: "AccountMgr \<Rightarrow> (u32 \<Rightarrow> int \<Rightarrow> (u32 \<times> bool) list) \<Rightarrow> u8
    \<Rightarrow> RBACData \<Rightarrow> RBACData" where
  "RBACData_SetSecurityLevel am query i r = RBACData_LoadFromDB am query (r\<lparr>rbac_secLevel := i\<rparr>)"

definition AccountMgr_UpdateAccountAccess :: "AccountMgr \<Rightarrow> (u32 \<Rightarrow> int \<Rightarrow> (u32 \<times> bool) list)
    \<Rightarrow> RBACData option \<Rightarrow> u32 \<Rightarrow> u8 \<Rightarrow> int \<Rightarrow> login_statement list \<times> RBACData option" where
  "AccountMgr_UpdateAccountAccess am query rbac accountId securityLevel realmId =
     ((if realmId = - 1 then [LOGIN_DEL_ACCOUNT_ACCESS accountId]
       else [LOGIN_DEL_ACCOUNT_ACCESS_BY_REALM accountId realmId]) @
      (if securityLevel \<noteq> 0 then [LOGIN_INS_ACCOUNT_ACCESS accountId securityLevel realmId] else []),
      map_option (\<lambda>r. if securityLevel \<noteq> rbac_secLevel r
                      then RBACData_SetSecurityLevel am query securityLevel r else r) rbac)"

definition AccountMgr_HasPermission :: "AccountMgr \<Rightarrow> (u32 \<Rightarrow> int \<Rightarrow> (u32 \<times> bool) list) \<Rightarrow> (u32 \<Rightarrow> u8)
    \<Rightarrow> u32 \<Rightarrow> u32 \<Rightarrow> int \<Rightarrow> bool" where
  "AccountMgr_HasPermission am query security accountId permissionId realmId =
     (accountId \<noteq> 0 \<and> RBACData_HasPermission permissionId
        (RBACData_LoadFromDB am query (RBACData_init accountId [] realmId (security accountId))))"

text \<open>\<open>WorldSession\<close> loads the permissions of its account when they are first asked for, and drops them
  when they are invalidated.\<close>

definition WorldSession_HasPermission :: "AccountMgr \<Rightarrow> (u32 \<Rightarrow> int \<Rightarrow> (u32 \<times> bool) list) \<Rightarrow> RBACData
    \<Rightarrow> u32 \<Rightarrow> RBACData option \<Rightarrow> bool \<times> RBACData option" where
  "WorldSession_HasPermission am query fresh permission session =
     (let r = (case session of Some r \<Rightarrow> r | None \<Rightarrow> RBACData_LoadFromDB am query fresh)
      in (RBACData_HasPermission permission r, Some r))"

subsection \<open>Invariants\<close>

definition rbac_inv :: "AccountMgr \<Rightarrow> RBACData \<Rightarrow> bool" where
  "rbac_inv am r \<longleftrightarrow> set_ok (rbac_grantedPerms r) \<and> set_ok (rbac_deniedPerms r)
     \<and> set (rbac_grantedPerms r) \<inter> set (rbac_deniedPerms r) = {}
     \<and> set (rbac_grantedPerms r) \<union> set (rbac_deniedPerms r) \<subseteq> rbac_ids am"

text \<open>The global permissions are the ones computed from the two lists.\<close>

definition rbac_current :: "AccountMgr \<Rightarrow> RBACData \<Rightarrow> bool" where
  "rbac_current am r \<longleftrightarrow> set (rbac_globalPerms r) =
     rbac_reach am (set (rbac_grantedPerms r)) - rbac_reach am (set (rbac_deniedPerms r))"

lemma set_RemovePermissions: "set (RBACData_RemovePermissions ps qs) = set ps - set qs"
  unfolding RBACData_RemovePermissions_def by (induction qs arbitrary: ps) auto

lemma CalculateNewPermissions_current: "rbac_current am (RBACData_CalculateNewPermissions am r)"
  by (simp add: rbac_current_def RBACData_CalculateNewPermissions_def set_RemovePermissions
      set_ExpandPermissions)

lemmas rbac_simps = RBACData_GrantPermission_def RBACData_DenyPermission_def
  RBACData_RevokePermission_def RBACData_SavePermission_def RBACData_AddGrantedPermission_def
  RBACData_AddDeniedPermission_def RBACData_HasGrantedPermission_def
  RBACData_HasDeniedPermission_def Let_def

lemma CalculateNewPermissions_lists [simp]:
  "rbac_grantedPerms (RBACData_CalculateNewPermissions am r) = rbac_grantedPerms r"
  "rbac_deniedPerms (RBACData_CalculateNewPermissions am r) = rbac_deniedPerms r"
  "rbac_inv am (RBACData_CalculateNewPermissions am r) = rbac_inv am r"
  by (simp_all add: RBACData_CalculateNewPermissions_def rbac_inv_def)

lemma GrantPermission_inv: "rbac_inv am r \<Longrightarrow> rbac_inv am (snd (RBACData_GrantPermission am p realm r))"
  by (auto simp: rbac_simps rbac_inv_def rbac_ids_def)

lemma DenyPermission_inv: "rbac_inv am r \<Longrightarrow> rbac_inv am (snd (RBACData_DenyPermission am p realm r))"
  by (auto simp: rbac_simps rbac_inv_def rbac_ids_def)

lemma RevokePermission_inv: "rbac_inv am r \<Longrightarrow> rbac_inv am (snd (RBACData_RevokePermission am p realm r))"
  by (auto simp: rbac_simps rbac_inv_def)

lemma rbac_load_rows_inv: "rbac_inv am r \<Longrightarrow> rbac_inv am (rbac_load_rows am rows r)"
  by (induction am rows r rule: rbac_load_rows.induct)
     (auto simp: GrantPermission_inv DenyPermission_inv)

lemma fold_grant_inv:
  "rbac_inv am r \<Longrightarrow> rbac_inv am (fold (\<lambda>p s. snd (RBACData_GrantPermission am p 0 s)) ps r)"
  by (induction ps arbitrary: r) (auto simp: GrantPermission_inv)

lemma LoadFromDB_inv: "rbac_inv am (RBACData_LoadFromDB am query r)"
proof -
  have "rbac_inv am (RBACData_ClearData r)"
    by (simp add: rbac_inv_def RBACData_ClearData_def)
  then show ?thesis
    by (simp add: RBACData_LoadFromDB_def RBACData_LoadFromDBCallback_def fold_grant_inv
        rbac_load_rows_inv)
qed

text \<open>The operations the commands of the console and of the game call, and a reload.\<close>

datatype rbac_op = Rbac_Grant u32 int | Rbac_Deny u32 int | Rbac_Revoke u32 int
  | Rbac_Load "(u32 \<times> bool) list" | Rbac_SetLevel u8 "(u32 \<times> bool) list"

fun rbac_step :: "AccountMgr \<Rightarrow> rbac_op \<Rightarrow> RBACData \<Rightarrow> RBACData" where
  "rbac_step am (Rbac_Grant p realm) r = snd (RBACData_GrantPermission am p realm r)"
| "rbac_step am (Rbac_Deny p realm) r = snd (RBACData_DenyPermission am p realm r)"
| "rbac_step am (Rbac_Revoke p realm) r = snd (RBACData_RevokePermission am p realm r)"
| "rbac_step am (Rbac_Load rows) r = RBACData_LoadFromDB am (\<lambda>_ _. rows) r"
| "rbac_step am (Rbac_SetLevel l rows) r = RBACData_SetSecurityLevel am (\<lambda>_ _. rows) l r"

text \<open>Commands name a realm or all of them (-1); realm 0 is what the loader passes.\<close>

fun rbac_saved :: "rbac_op \<Rightarrow> bool" where
  "rbac_saved (Rbac_Grant p realm) = (realm \<noteq> 0)"
| "rbac_saved (Rbac_Deny p realm) = (realm \<noteq> 0)"
| "rbac_saved (Rbac_Revoke p realm) = (realm \<noteq> 0)"
| "rbac_saved (Rbac_Load rows) = True"
| "rbac_saved (Rbac_SetLevel l rows) = True"

interpretation rbac_disjoint: guarded_run "rbac_step am" "\<lambda>_. True" "rbac_inv am"
proof unfold_locales
  show "rbac_inv am r \<Longrightarrow> rbac_inv am (rbac_step am x r)" for r x
    by (cases x) (simp_all add: GrantPermission_inv DenyPermission_inv RevokePermission_inv
        LoadFromDB_inv RBACData_SetSecurityLevel_def)
qed

lemma LoadFromDB_current: "rbac_current am (RBACData_LoadFromDB am query r)"
  by (simp add: RBACData_LoadFromDB_def RBACData_LoadFromDBCallback_def
      CalculateNewPermissions_current)

interpretation rbac_fresh: guarded_run "rbac_step am" rbac_saved "rbac_current am"
proof unfold_locales
  show "rbac_current am r \<Longrightarrow> rbac_saved x \<Longrightarrow> rbac_current am (rbac_step am x r)" for r x
    by (cases x) (auto simp: rbac_simps CalculateNewPermissions_current LoadFromDB_current
        RBACData_SetSecurityLevel_def)
qed

text \<open>The loader: the first row of a permission decides, and the defaults never override a denial.\<close>

lemma rbac_load_rows_denied:
  "(p, True) \<notin> set rows \<Longrightarrow> (p, False) \<in> set rows \<Longrightarrow> p \<notin> set (rbac_grantedPerms r) \<Longrightarrow>
     GetRBACPermission am p \<noteq> None \<Longrightarrow>
     p \<in> set (rbac_deniedPerms (rbac_load_rows am rows r))"
proof (induction am rows r rule: rbac_load_rows.induct)
  case (2 am q granted rows r)
  have keep: "p \<in> set (rbac_deniedPerms s) \<Longrightarrow> p \<in> set (rbac_deniedPerms (rbac_load_rows am rows s))"
    for s
  proof (induction am rows s rule: rbac_load_rows.induct)
    case (2 am q granted rows s)
    have "p \<in> set (rbac_deniedPerms (snd (if granted then RBACData_GrantPermission am q 0 s
        else RBACData_DenyPermission am q 0 s)))"
      using "2.prems" by (auto simp: rbac_simps)
    with "2.IH" show ?case by simp
  qed simp
  show ?case
  proof (cases "q = p \<and> \<not> granted")
    case True
    with "2.prems" have "p \<in> set (rbac_deniedPerms (snd (RBACData_DenyPermission am p 0 r)))"
      by (auto simp: rbac_simps)
    with True keep show ?thesis by simp
  next
    case False
    with "2.prems" have "p \<notin> set (rbac_grantedPerms (snd (if granted then RBACData_GrantPermission am q 0 r
        else RBACData_DenyPermission am q 0 r)))"
      by (auto simp: rbac_simps)
    with "2.IH" "2.prems" False show ?thesis by auto
  qed
qed simp

lemma fold_grant_denied:
  "p \<in> set (rbac_deniedPerms r) \<Longrightarrow>
     p \<in> set (rbac_deniedPerms (fold (\<lambda>p s. snd (RBACData_GrantPermission am p 0 s)) ps r))"
  by (induction ps arbitrary: r) (auto simp: rbac_simps)

subsection \<open>Properties\<close>

text \<open>C8: expanding a set of permissions gives, as an ordered set, exactly the defined permissions
  that can be reached from it along links of defined permissions.\<close>

theorem ExpandPermissions_closure:
  assumes "set_ok perms"
  shows "set (RBACData_ExpandPermissions am perms) = rbac_reach am (set perms)
    \<and> set_ok (RBACData_ExpandPermissions am perms)"
proof (rule conjI)
  show "set (RBACData_ExpandPermissions am perms) = rbac_reach am (set perms)"
    by (rule set_ExpandPermissions)
  show "set_ok (RBACData_ExpandPermissions am perms)"
    using assms by (simp add: RBACData_ExpandPermissions_def set_ok_rbac_expand)
qed

theorem ExpandPermissions_closure_witness:
  "let am = \<lparr>am_permissions = [(1, Some \<lparr>perm_id = 1, perm_name = ''a'', perm_perms = [2]\<rparr>),
        (2, Some \<lparr>perm_id = 2, perm_name = ''b'', perm_perms = [1]\<rparr>)], am_defaultPermissions = []\<rparr>
   in 2 \<in> set (RBACData_ExpandPermissions am [1]) \<and> 3 \<notin> set (RBACData_ExpandPermissions am [1])"
proof -
  define am where "am = \<lparr>am_permissions = [(1 :: u32, Some \<lparr>perm_id = 1, perm_name = ''a'', perm_perms = [2 :: u32]\<rparr>),
        (2, Some \<lparr>perm_id = 2, perm_name = ''b'', perm_perms = [1]\<rparr>)], am_defaultPermissions = []\<rparr>"
  have g: "GetRBACPermission am 1 = Some \<lparr>perm_id = 1, perm_name = ''a'', perm_perms = [2]\<rparr>"
    "GetRBACPermission am 2 = Some \<lparr>perm_id = 2, perm_name = ''b'', perm_perms = [1]\<rparr>"
    "GetRBACPermission am 3 = None"
    by (simp_all add: am_def GetRBACPermission_def)
  have one: "1 \<in> rbac_reach am {1}" by (rule reach_base [OF _ g(1)]) simp
  have "2 \<in> rbac_reach am {1}" by (rule reach_link [OF one g(1) _ g(2)]) simp
  moreover have "3 \<notin> rbac_reach am {1}" using reach_defined [of 3 am "{1}"] g(3) by auto
  ultimately show ?thesis
    using ExpandPermissions_closure [of "[1]" am] by (simp add: am_def [symmetric])
qed

text \<open>C6: after any sequence of commands and reloads, an account has a permission exactly if it can be
  reached from the granted ones and cannot be reached from the denied ones; and no permission is both
  granted and denied.\<close>

theorem RBACData_HasPermission_iff:
  assumes "list_all rbac_saved ops"
  shows "let r = fold (rbac_step am) ops (RBACData_init i name realmId lvl) in
    (RBACData_HasPermission p r \<longleftrightarrow> p \<in> rbac_reach am (set (rbac_grantedPerms r))
       \<and> p \<notin> rbac_reach am (set (rbac_deniedPerms r)))
    \<and> set (rbac_grantedPerms r) \<inter> set (rbac_deniedPerms r) = {}"
proof -
  let ?r0 = "RBACData_init i name realmId lvl"
  have "rbac_inv am ?r0" by (simp add: rbac_inv_def RBACData_init_def)
  moreover have "rbac_reach am {} = {}"
    by (auto elim: rbac_reach.induct)
  then have "rbac_current am ?r0" by (simp add: rbac_current_def RBACData_init_def)
  ultimately have "rbac_inv am (fold (rbac_step am) ops ?r0)"
      "rbac_current am (fold (rbac_step am) ops ?r0)"
    using assms by (auto intro: rbac_disjoint.run_inv rbac_fresh.run_inv simp: list_all_iff)
  then show ?thesis
    by (auto simp: Let_def RBACData_HasPermission_def rbac_inv_def rbac_current_def)
qed

theorem RBACData_HasPermission_iff_witness:
  "\<not> RBACData_HasPermission 1 (fold (rbac_step \<lparr>am_permissions = [], am_defaultPermissions = []\<rparr>)
     [Rbac_Grant 1 (- 1), Rbac_Load [(1, True)]] (RBACData_init 5 ''x'' 1 0))"
proof -
  let ?am = "\<lparr>am_permissions = [], am_defaultPermissions = []\<rparr>"
  have "1 \<notin> rbac_reach ?am S" for S
    using reach_defined [of 1 ?am S] by (auto simp: GetRBACPermission_def)
  then show ?thesis
    using RBACData_HasPermission_iff [of "[Rbac_Grant 1 (- 1), Rbac_Load [(1, True)]]" ?am 5 "''x''" 1 0 1]
    by (simp add: Let_def)
qed

lemma LoadFromDB_lacks:
  assumes "(p, False) \<in> set (query (rbac_id r) (rbac_realmId r))"
    and "(p, True) \<notin> set (query (rbac_id r) (rbac_realmId r))"
  shows "\<not> RBACData_HasPermission p (RBACData_LoadFromDB am query r)"
proof (cases "GetRBACPermission am p")
  case None
  then have "p \<notin> rbac_reach am S" for S using reach_defined by fastforce
  with LoadFromDB_current [of am query r] show ?thesis
    by (simp add: rbac_current_def RBACData_HasPermission_def)
next
  case (Some q)
  have "p \<in> set (rbac_deniedPerms (RBACData_LoadFromDB am query r))"
    using assms Some
    by (simp add: RBACData_LoadFromDB_def RBACData_LoadFromDBCallback_def RBACData_ClearData_def
        fold_grant_denied rbac_load_rows_denied)
  with Some have "p \<in> rbac_reach am (set (rbac_deniedPerms (RBACData_LoadFromDB am query r)))"
    by (auto intro: reach_base)
  with LoadFromDB_current [of am query r] show ?thesis
    by (simp add: rbac_current_def RBACData_HasPermission_def)
qed

text \<open>C30: a permission the database denies to an account, and does not grant to it, is never had after
  a load, whatever the defaults of its security level and the other rows say.\<close>

theorem LoadFromDB_denied:
  assumes "(p, False) \<in> set (query (rbac_id r) (rbac_realmId r))"
    and "(p, True) \<notin> set (query (rbac_id r) (rbac_realmId r))"
  shows "\<not> RBACData_HasPermission p (RBACData_LoadFromDB am query r)"
  using assms by (rule LoadFromDB_lacks)

theorem LoadFromDB_denied_witness:
  "\<not> RBACData_HasPermission 7 (RBACData_LoadFromDB
     \<lparr>am_permissions = [(7, Some \<lparr>perm_id = 7, perm_name = ''c'', perm_perms = []\<rparr>)],
       am_defaultPermissions = [(0, [7])]\<rparr> (\<lambda>_ _. [(7, False)]) (RBACData_init 5 ''x'' 1 0))"
  by (rule LoadFromDB_denied) simp_all

end
