(* ===== verification/PhaseShift.thy ===== *)
theory PhaseShift
  imports ObjectGuid
begin

section \<open>Phases (server/game/Phasing/PhaseShift.h, PhaseShift.cpp, PhasingHandler.cpp)\<close>

text \<open>
  What an object sees of the world: a set of phases with reference counts, terrain swaps, and flags
  derived from them, and the visibility test between two objects. The flat set of \<open>PhaseRef\<close> is an
  ordered association list keyed by the 16-bit id (the constructor cuts the 32-bit argument). Flags
  are words, read with \<open>HasFlag\<close>. The phase and area tables of the client (\<open>sPhaseStore\<close>,
  \<open>sDB2Manager\<close>, \<open>sObjectMgr\<close>) and the condition manager are parameters.
\<close>

subsection \<open>Flags\<close>

definition HasFlag :: "'a::len word \<Rightarrow> 'a word \<Rightarrow> bool" where
  "HasFlag value flag = (value AND flag \<noteq> 0)"

definition PhaseShiftFlags_AlwaysVisible :: u32 where "PhaseShiftFlags_AlwaysVisible = 0x01"
definition PhaseShiftFlags_Inverse :: u32 where "PhaseShiftFlags_Inverse = 0x02"
definition PhaseShiftFlags_InverseUnphased :: u32 where "PhaseShiftFlags_InverseUnphased = 0x04"
definition PhaseShiftFlags_Unphased :: u32 where "PhaseShiftFlags_Unphased = 0x08"
definition PhaseShiftFlags_NoCosmetic :: u32 where "PhaseShiftFlags_NoCosmetic = 0x10"

definition PhaseFlags_None :: u16 where "PhaseFlags_None = 0x0"
definition PhaseFlags_Cosmetic :: u16 where "PhaseFlags_Cosmetic = 0x1"
definition PhaseFlags_Personal :: u16 where "PhaseFlags_Personal = 0x2"

definition DEFAULT_PHASE :: u16 where "DEFAULT_PHASE = 169"

lemma HasFlag_bit:
  "HasFlag f PhaseShiftFlags_AlwaysVisible = bit f 0" "HasFlag f PhaseShiftFlags_Inverse = bit f 1"
  "HasFlag f PhaseShiftFlags_InverseUnphased = bit f 2" "HasFlag f PhaseShiftFlags_Unphased = bit f 3"
  "HasFlag f PhaseShiftFlags_NoCosmetic = bit f 4" "HasFlag p PhaseFlags_Cosmetic = bit p 0"
  "HasFlag p PhaseFlags_Personal = bit p 1" "HasFlag p PhaseFlags_None = False"
proof -
  have *: "(w AND 2 ^ n \<noteq> 0) = bit w n" for w :: "'a::len word" and n
    by (simp add: and_exp_eq_0_iff_not_bit)
  show "HasFlag f PhaseShiftFlags_AlwaysVisible = bit f 0" "HasFlag f PhaseShiftFlags_Inverse = bit f 1"
    "HasFlag f PhaseShiftFlags_InverseUnphased = bit f 2" "HasFlag f PhaseShiftFlags_Unphased = bit f 3"
    "HasFlag f PhaseShiftFlags_NoCosmetic = bit f 4" "HasFlag p PhaseFlags_Cosmetic = bit p 0"
    "HasFlag p PhaseFlags_Personal = bit p 1" "HasFlag p PhaseFlags_None = False"
    using * [of f 0] * [of f 1] * [of f 2] * [of f 3] * [of f 4] * [of p 0] * [of p 1]
    by (simp_all add: HasFlag_def PhaseShiftFlags_AlwaysVisible_def PhaseShiftFlags_Inverse_def
        PhaseShiftFlags_InverseUnphased_def PhaseShiftFlags_Unphased_def
        PhaseShiftFlags_NoCosmetic_def PhaseFlags_Cosmetic_def PhaseFlags_Personal_def
        PhaseFlags_None_def)
qed

lemma flag_bits:
  "bit PhaseShiftFlags_AlwaysVisible n = (n = 0)" "bit PhaseShiftFlags_Inverse n = (n = 1)"
  "bit PhaseShiftFlags_InverseUnphased n = (n = 2)" "bit PhaseShiftFlags_Unphased n = (n = 3)"
  "bit PhaseShiftFlags_NoCosmetic n = (n = 4)"
proof -
  have *: "bit (2 ^ k :: u32) n = (n = k)" if "k < 32" for k
    using that by (auto simp: bit_exp_iff)
  show "bit PhaseShiftFlags_AlwaysVisible n = (n = 0)" "bit PhaseShiftFlags_Inverse n = (n = 1)"
    "bit PhaseShiftFlags_InverseUnphased n = (n = 2)" "bit PhaseShiftFlags_Unphased n = (n = 3)"
    "bit PhaseShiftFlags_NoCosmetic n = (n = 4)"
    using * [of 0] * [of 1] * [of 2] * [of 3] * [of 4]
    by (simp_all add: PhaseShiftFlags_AlwaysVisible_def PhaseShiftFlags_Inverse_def
        PhaseShiftFlags_InverseUnphased_def PhaseShiftFlags_Unphased_def
        PhaseShiftFlags_NoCosmetic_def)
qed

lemmas flag_simps = HasFlag_bit flag_bits bit_or_iff bit_and_iff bit_not_iff

subsection \<open>State\<close>

record PhaseRef =
  pr_Flags :: u16
  pr_References :: int
  pr_AreaConditions :: "nat option"

record TerrainSwapInfo =
  ts_Id :: u32
  ts_UiWorldMapAreaIDSwaps :: "u32 list"

record PhaseShift =
  ps_Flags :: u32
  ps_PersonalGuid :: ObjectGuid
  ps_Phases :: "(u16 \<times> PhaseRef) list"
  ps_VisibleMapIds :: "(u32 \<times> int \<times> TerrainSwapInfo) list"
  ps_UiWorldMapAreaIdSwaps :: "(u32 \<times> int) list"
  ps_NonCosmeticReferences :: int
  ps_CosmeticReferences :: int
  ps_DefaultReferences :: int
  ps_IsDbPhaseShift :: bool

definition PhaseShift_init :: PhaseShift where
  "PhaseShift_init = \<lparr>ps_Flags = PhaseShiftFlags_Unphased, ps_PersonalGuid = ObjectGuid_Empty,
     ps_Phases = [], ps_VisibleMapIds = [], ps_UiWorldMapAreaIdSwaps = [],
     ps_NonCosmeticReferences = 0, ps_CosmeticReferences = 0, ps_DefaultReferences = 0,
     ps_IsDbPhaseShift = False\<rparr>"

subsection \<open>Operations\<close>

definition PhaseShift_UpdateUnphasedFlag :: "PhaseShift \<Rightarrow> PhaseShift" where
  "PhaseShift_UpdateUnphasedFlag s =
     (let inv = HasFlag (ps_Flags s) PhaseShiftFlags_Inverse;
          unphasedFlag = (if \<not> inv then PhaseShiftFlags_Unphased else PhaseShiftFlags_InverseUnphased);
          f = ps_Flags s AND NOT (if \<not> inv then PhaseShiftFlags_InverseUnphased else PhaseShiftFlags_Unphased)
      in s\<lparr>ps_Flags := (if ps_NonCosmeticReferences s \<noteq> 0 \<and> ps_DefaultReferences s = 0
                         then f AND NOT unphasedFlag else f OR unphasedFlag)\<rparr>)"

definition PhaseShift_ModifyPhasesReferences :: "u16 \<Rightarrow> int \<Rightarrow> PhaseShift \<Rightarrow> PhaseShift" where
  "PhaseShift_ModifyPhasesReferences i references s =
     (case map_of (ps_Phases s) i of
        None \<Rightarrow> s
      | Some p \<Rightarrow>
          let s1 = s\<lparr>ps_Phases := om_upd i (\<lambda>p. p\<lparr>pr_References := pr_References p + references\<rparr>) (ps_Phases s)\<rparr>
          in if ps_IsDbPhaseShift s1 then s1
             else let s2 = (if HasFlag (pr_Flags p) PhaseFlags_Cosmetic
                            then s1\<lparr>ps_CosmeticReferences := ps_CosmeticReferences s1 + references\<rparr>
                            else if i \<noteq> DEFAULT_PHASE
                            then s1\<lparr>ps_NonCosmeticReferences := ps_NonCosmeticReferences s1 + references\<rparr>
                            else s1\<lparr>ps_DefaultReferences := ps_DefaultReferences s1 + references\<rparr>);
                      s3 = s2\<lparr>ps_Flags := (if ps_CosmeticReferences s2 \<noteq> 0
                                 then ps_Flags s2 OR PhaseShiftFlags_NoCosmetic
                                 else ps_Flags s2 AND NOT PhaseShiftFlags_NoCosmetic)\<rparr>
                  in PhaseShift_UpdateUnphasedFlag s3)"

definition PhaseShift_HasPhase :: "u32 \<Rightarrow> PhaseShift \<Rightarrow> bool" where
  "PhaseShift_HasPhase phaseId s = (map_of (ps_Phases s) (ucast phaseId) \<noteq> None)"

definition PhaseShift_AddPhase :: "u32 \<Rightarrow> u16 \<Rightarrow> nat option \<Rightarrow> int \<Rightarrow> PhaseShift \<Rightarrow> bool \<times> PhaseShift" where
  "PhaseShift_AddPhase phaseId flags areaConditions references s =
     (let i = ucast phaseId;
          inserted = (map_of (ps_Phases s) i = None);
          s1 = (if inserted
                then s\<lparr>ps_Phases := om_put i \<lparr>pr_Flags = flags, pr_References = 0,
                                             pr_AreaConditions = None\<rparr> (ps_Phases s)\<rparr>
                else s);
          s2 = PhaseShift_ModifyPhasesReferences i references s1;
          s3 = (if areaConditions \<noteq> None
                then s2\<lparr>ps_Phases := om_upd i (\<lambda>p. p\<lparr>pr_AreaConditions := areaConditions\<rparr>) (ps_Phases s2)\<rparr>
                else s2)
      in (inserted, s3))"

text \<open>The result of an erasure: whether the id was found, and whether it was erased.\<close>

definition PhaseShift_RemovePhase :: "u32 \<Rightarrow> PhaseShift \<Rightarrow> (bool \<times> bool) \<times> PhaseShift" where
  "PhaseShift_RemovePhase phaseId s =
     (let i = ucast phaseId in
      case map_of (ps_Phases s) i of
        None \<Rightarrow> ((False, False), s)
      | Some _ \<Rightarrow>
          let s1 = PhaseShift_ModifyPhasesReferences i (- 1) s in
          if map_option pr_References (map_of (ps_Phases s1) i) = Some 0
          then ((True, True), s1\<lparr>ps_Phases := om_del i (ps_Phases s1)\<rparr>)
          else ((True, False), s1))"

definition PhaseShift_AddVisibleMapId :: "u32 \<Rightarrow> TerrainSwapInfo \<Rightarrow> int \<Rightarrow> PhaseShift \<Rightarrow> bool \<times> PhaseShift" where
  "PhaseShift_AddVisibleMapId visibleMapId info references s =
     (case map_of (ps_VisibleMapIds s) visibleMapId of
        None \<Rightarrow> (True, s\<lparr>ps_VisibleMapIds := om_put visibleMapId (references, info) (ps_VisibleMapIds s)\<rparr>)
      | Some (r, i) \<Rightarrow> (False, s\<lparr>ps_VisibleMapIds :=
          om_put visibleMapId (r + references, i) (ps_VisibleMapIds s)\<rparr>))"

definition PhaseShift_RemoveVisibleMapId :: "u32 \<Rightarrow> PhaseShift \<Rightarrow> bool \<times> PhaseShift" where
  "PhaseShift_RemoveVisibleMapId visibleMapId s =
     (case map_of (ps_VisibleMapIds s) visibleMapId of
        None \<Rightarrow> (False, s)
      | Some (r, i) \<Rightarrow>
          if r - 1 = 0 then (True, s\<lparr>ps_VisibleMapIds := om_del visibleMapId (ps_VisibleMapIds s)\<rparr>)
          else (False, s\<lparr>ps_VisibleMapIds := om_put visibleMapId (r - 1, i) (ps_VisibleMapIds s)\<rparr>))"

definition PhaseShift_AddUiWorldMapAreaIdSwap :: "u32 \<Rightarrow> int \<Rightarrow> PhaseShift \<Rightarrow> bool \<times> PhaseShift" where
  "PhaseShift_AddUiWorldMapAreaIdSwap areaId references s =
     (case map_of (ps_UiWorldMapAreaIdSwaps s) areaId of
        None \<Rightarrow> (True, s\<lparr>ps_UiWorldMapAreaIdSwaps := om_put areaId references (ps_UiWorldMapAreaIdSwaps s)\<rparr>)
      | Some r \<Rightarrow> (False, s\<lparr>ps_UiWorldMapAreaIdSwaps :=
          om_put areaId (r + references) (ps_UiWorldMapAreaIdSwaps s)\<rparr>))"

definition PhaseShift_RemoveUiWorldMapAreaIdSwap :: "u32 \<Rightarrow> PhaseShift \<Rightarrow> bool \<times> PhaseShift" where
  "PhaseShift_RemoveUiWorldMapAreaIdSwap areaId s =
     (case map_of (ps_UiWorldMapAreaIdSwaps s) areaId of
        None \<Rightarrow> (False, s)
      | Some r \<Rightarrow>
          if r - 1 = 0 then (True, s\<lparr>ps_UiWorldMapAreaIdSwaps := om_del areaId (ps_UiWorldMapAreaIdSwaps s)\<rparr>)
          else (False, s\<lparr>ps_UiWorldMapAreaIdSwaps := om_put areaId (r - 1) (ps_UiWorldMapAreaIdSwaps s)\<rparr>))"

definition PhaseShift_ClearPhases :: "PhaseShift \<Rightarrow> PhaseShift" where
  "PhaseShift_ClearPhases s = PhaseShift_UpdateUnphasedFlag
     (s\<lparr>ps_Flags := ps_Flags s AND (PhaseShiftFlags_AlwaysVisible OR PhaseShiftFlags_Inverse),
        ps_Phases := [], ps_NonCosmeticReferences := 0, ps_CosmeticReferences := 0,
        ps_DefaultReferences := 0\<rparr>)"

definition PhaseShift_Clear :: "PhaseShift \<Rightarrow> PhaseShift" where
  "PhaseShift_Clear s = (PhaseShift_ClearPhases s)\<lparr>ps_PersonalGuid := ObjectGuid_Empty,
     ps_VisibleMapIds := [], ps_UiWorldMapAreaIdSwaps := []\<rparr>"

text \<open>\<open>Trinity::Containers::Intersects\<close>: a merge of two ordered ranges that stops at the first common key
  the predicate accepts.\<close>

function Intersects :: "('a \<Rightarrow> 'b \<Rightarrow> bool) \<Rightarrow> ('k::linorder \<times> 'a) list \<Rightarrow> ('k \<times> 'b) list \<Rightarrow> bool" where
  "Intersects equalPred [] ys = False"
| "Intersects equalPred (x # xs) [] = False"
| "Intersects equalPred (x # xs) (y # ys) =
     (if fst x < fst y then Intersects equalPred xs (y # ys)
      else if fst y < fst x then Intersects equalPred (x # xs) ys
      else if \<not> equalPred (snd x) (snd y) then Intersects equalPred xs ys
      else True)"
  by pat_completeness auto
termination
  by (relation "measure (\<lambda>(p, xs, ys). length xs + length ys)") auto

definition ps_checkInverse :: "u16 \<Rightarrow> PhaseShift \<Rightarrow> PhaseShift \<Rightarrow> bool" where
  "ps_checkInverse exclude s excluded =
     (if HasFlag (ps_Flags s) PhaseShiftFlags_Unphased
         \<and> \<not> HasFlag (ps_Flags excluded) PhaseShiftFlags_InverseUnphased
      then True
      else list_ex (\<lambda>(i, p). \<not> HasFlag (pr_Flags p) exclude
             \<and> (case map_of (ps_Phases excluded) i of
                  None \<Rightarrow> True
                | Some q \<Rightarrow> HasFlag (pr_Flags q) exclude)) (ps_Phases s))"

definition ps_shared :: "u16 \<Rightarrow> PhaseShift \<Rightarrow> PhaseShift \<Rightarrow> bool" where
  "ps_shared exclude s other =
     Intersects (\<lambda>myPhase _. \<not> HasFlag (pr_Flags myPhase) exclude
         \<and> (\<not> HasFlag (pr_Flags myPhase) PhaseFlags_Personal
            \<or> ps_PersonalGuid s = ps_PersonalGuid other))
       (ps_Phases s) (ps_Phases other)"

definition PhaseShift_CanSee :: "PhaseShift \<Rightarrow> PhaseShift \<Rightarrow> bool" where
  "PhaseShift_CanSee s other =
     (let has = (\<lambda>x f. HasFlag (ps_Flags x) f) in
      if has s PhaseShiftFlags_Unphased \<and> has other PhaseShiftFlags_Unphased then True
      else if has s PhaseShiftFlags_AlwaysVisible \<or> has other PhaseShiftFlags_AlwaysVisible then True
      else if has s PhaseShiftFlags_Inverse \<and> has other PhaseShiftFlags_Inverse then True
      else
        let exclude = (if has s PhaseShiftFlags_NoCosmetic \<and> has other PhaseShiftFlags_NoCosmetic
                       then PhaseFlags_Cosmetic else PhaseFlags_None)
        in if \<not> has s PhaseShiftFlags_Inverse \<and> \<not> has other PhaseShiftFlags_Inverse
           then ps_shared exclude s other
           else if has other PhaseShiftFlags_Inverse then ps_checkInverse exclude s other
           else ps_checkInverse exclude other s)"

definition PhasingHandler_SetAlwaysVisible :: "bool \<Rightarrow> PhaseShift \<Rightarrow> PhaseShift" where
  "PhasingHandler_SetAlwaysVisible apply' s =
     s\<lparr>ps_Flags := (if apply' then ps_Flags s OR PhaseShiftFlags_AlwaysVisible
                    else ps_Flags s AND NOT PhaseShiftFlags_AlwaysVisible)\<rparr>"

definition PhasingHandler_SetInversed :: "bool \<Rightarrow> PhaseShift \<Rightarrow> PhaseShift" where
  "PhasingHandler_SetInversed apply' s = PhaseShift_UpdateUnphasedFlag
     (s\<lparr>ps_Flags := (if apply' then ps_Flags s OR PhaseShiftFlags_Inverse
                     else ps_Flags s AND NOT PhaseShiftFlags_Inverse)\<rparr>)"

subsection \<open>Counters and flags follow the phases\<close>

fun pc_cosmetic :: "u16 \<Rightarrow> PhaseRef \<Rightarrow> int" where
  "pc_cosmetic i p = (if HasFlag (pr_Flags p) PhaseFlags_Cosmetic then pr_References p else 0)"

fun pc_noncosmetic :: "u16 \<Rightarrow> PhaseRef \<Rightarrow> int" where
  "pc_noncosmetic i p = (if \<not> HasFlag (pr_Flags p) PhaseFlags_Cosmetic \<and> i \<noteq> DEFAULT_PHASE
     then pr_References p else 0)"

fun pc_default :: "u16 \<Rightarrow> PhaseRef \<Rightarrow> int" where
  "pc_default i p = (if \<not> HasFlag (pr_Flags p) PhaseFlags_Cosmetic \<and> i = DEFAULT_PHASE
     then pr_References p else 0)"

definition ps_counted :: "PhaseShift \<Rightarrow> bool" where
  "ps_counted s \<longleftrightarrow> om_ok (ps_Phases s) \<and> ps_CosmeticReferences s = om_sum pc_cosmetic (ps_Phases s)
     \<and> ps_NonCosmeticReferences s = om_sum pc_noncosmetic (ps_Phases s)
     \<and> ps_DefaultReferences s = om_sum pc_default (ps_Phases s)"

definition ps_unphased :: "PhaseShift \<Rightarrow> bool" where
  "ps_unphased s \<longleftrightarrow> \<not> (ps_NonCosmeticReferences s \<noteq> 0 \<and> ps_DefaultReferences s = 0)"

definition ps_flagged :: "PhaseShift \<Rightarrow> bool" where
  "ps_flagged s \<longleftrightarrow> (HasFlag (ps_Flags s) PhaseShiftFlags_NoCosmetic \<longleftrightarrow> ps_CosmeticReferences s \<noteq> 0)
     \<and> (HasFlag (ps_Flags s) PhaseShiftFlags_Unphased \<longleftrightarrow>
          ps_unphased s \<and> \<not> HasFlag (ps_Flags s) PhaseShiftFlags_Inverse)
     \<and> (HasFlag (ps_Flags s) PhaseShiftFlags_InverseUnphased \<longleftrightarrow>
          ps_unphased s \<and> HasFlag (ps_Flags s) PhaseShiftFlags_Inverse)"

definition ps_positive :: "PhaseShift \<Rightarrow> bool" where
  "ps_positive s \<longleftrightarrow> (\<forall>(i, p) \<in> set (ps_Phases s). 0 < pr_References p)"

definition ps_inv :: "PhaseShift \<Rightarrow> bool" where
  "ps_inv s \<longleftrightarrow> \<not> ps_IsDbPhaseShift s \<and> ps_counted s \<and> ps_flagged s \<and> ps_positive s"

lemma ps_inv_init: "ps_inv PhaseShift_init"
  by (auto simp: ps_inv_def PhaseShift_init_def ps_counted_def ps_flagged_def ps_positive_def
      ps_unphased_def flag_simps)

text \<open>\<open>UpdateUnphasedFlag\<close> writes bits 2 and 3 from the counters and leaves all others.\<close>

lemma UpdateUnphasedFlag_bits:
  "bit (ps_Flags (PhaseShift_UpdateUnphasedFlag s)) n =
     (if n = 2 then ps_unphased s \<and> bit (ps_Flags s) 1
      else if n = 3 then ps_unphased s \<and> \<not> bit (ps_Flags s) 1
      else bit (ps_Flags s) n)"
  by (auto simp: PhaseShift_UpdateUnphasedFlag_def Let_def flag_simps ps_unphased_def
      dest: bit_imp_le_length)

lemma UpdateUnphasedFlag_rest [simp]:
  "ps_Phases (PhaseShift_UpdateUnphasedFlag s) = ps_Phases s"
  "ps_NonCosmeticReferences (PhaseShift_UpdateUnphasedFlag s) = ps_NonCosmeticReferences s"
  "ps_CosmeticReferences (PhaseShift_UpdateUnphasedFlag s) = ps_CosmeticReferences s"
  "ps_DefaultReferences (PhaseShift_UpdateUnphasedFlag s) = ps_DefaultReferences s"
  "ps_IsDbPhaseShift (PhaseShift_UpdateUnphasedFlag s) = ps_IsDbPhaseShift s"
  "ps_PersonalGuid (PhaseShift_UpdateUnphasedFlag s) = ps_PersonalGuid s"
  "ps_VisibleMapIds (PhaseShift_UpdateUnphasedFlag s) = ps_VisibleMapIds s"
  "ps_UiWorldMapAreaIdSwaps (PhaseShift_UpdateUnphasedFlag s) = ps_UiWorldMapAreaIdSwaps s"
  "ps_unphased (PhaseShift_UpdateUnphasedFlag s) = ps_unphased s"
  by (simp_all add: PhaseShift_UpdateUnphasedFlag_def Let_def ps_unphased_def)

lemma ModifyPhasesReferences_rest [simp]:
  "ps_IsDbPhaseShift (PhaseShift_ModifyPhasesReferences i r s) = ps_IsDbPhaseShift s"
  "ps_PersonalGuid (PhaseShift_ModifyPhasesReferences i r s) = ps_PersonalGuid s"
  "ps_VisibleMapIds (PhaseShift_ModifyPhasesReferences i r s) = ps_VisibleMapIds s"
  "ps_UiWorldMapAreaIdSwaps (PhaseShift_ModifyPhasesReferences i r s) = ps_UiWorldMapAreaIdSwaps s"
  by (simp_all add: PhaseShift_ModifyPhasesReferences_def Let_def split: option.splits)

lemma ModifyPhasesReferences_phases [simp]:
  "ps_Phases (PhaseShift_ModifyPhasesReferences i r s) =
     om_upd i (\<lambda>p. p\<lparr>pr_References := pr_References p + r\<rparr>) (ps_Phases s)"
proof (cases "map_of (ps_Phases s) i")
  case None
  then have "om_upd i (\<lambda>p. p\<lparr>pr_References := pr_References p + r\<rparr>) (ps_Phases s) = ps_Phases s"
    unfolding om_upd_def by (intro map_idI) (auto simp: map_of_eq_None_iff image_iff)
  with None show ?thesis by (simp add: PhaseShift_ModifyPhasesReferences_def)
next
  case (Some p)
  then show ?thesis by (simp add: PhaseShift_ModifyPhasesReferences_def Let_def)
qed

lemma ModifyPhasesReferences_counted:
  assumes "ps_counted s" "\<not> ps_IsDbPhaseShift s"
  shows "ps_counted (PhaseShift_ModifyPhasesReferences i r s)"
proof (cases "map_of (ps_Phases s) i")
  case None
  with assms show ?thesis by (simp add: PhaseShift_ModifyPhasesReferences_def)
next
  case (Some p)
  have ok: "om_ok (ps_Phases s)" using assms(1) by (simp add: ps_counted_def)
  let ?m = "om_upd i (\<lambda>p. p\<lparr>pr_References := pr_References p + r\<rparr>) (ps_Phases s)"
  have "om_sum pc_cosmetic ?m = om_sum pc_cosmetic (ps_Phases s) +
      (if HasFlag (pr_Flags p) PhaseFlags_Cosmetic then r else 0)"
    "om_sum pc_noncosmetic ?m = om_sum pc_noncosmetic (ps_Phases s) +
      (if \<not> HasFlag (pr_Flags p) PhaseFlags_Cosmetic \<and> i \<noteq> DEFAULT_PHASE then r else 0)"
    "om_sum pc_default ?m = om_sum pc_default (ps_Phases s) +
      (if \<not> HasFlag (pr_Flags p) PhaseFlags_Cosmetic \<and> i = DEFAULT_PHASE then r else 0)"
    by (simp_all add: om_sum_upd [OF ok] om_at_def Some)
  with assms Some show ?thesis
    by (auto simp: PhaseShift_ModifyPhasesReferences_def ps_counted_def Let_def)
qed

lemma ModifyPhasesReferences_flagged:
  assumes "ps_flagged s" "\<not> ps_IsDbPhaseShift s"
  shows "ps_flagged (PhaseShift_ModifyPhasesReferences i r s)"
    and "n \<notin> {2, 3, 4} \<Longrightarrow> bit (ps_Flags (PhaseShift_ModifyPhasesReferences i r s)) n = bit (ps_Flags s) n"
proof (atomize (full), cases "map_of (ps_Phases s) i")
  case None
  with assms show "ps_flagged (PhaseShift_ModifyPhasesReferences i r s) \<and> (n \<notin> {2, 3, 4} \<longrightarrow>
      bit (ps_Flags (PhaseShift_ModifyPhasesReferences i r s)) n = bit (ps_Flags s) n)"
    by (simp add: PhaseShift_ModifyPhasesReferences_def)
next
  case (Some p)
  define s3 where "s3 = (let s1 = s\<lparr>ps_Phases := om_upd i (\<lambda>p. p\<lparr>pr_References := pr_References p + r\<rparr>) (ps_Phases s)\<rparr>;
      s2 = (if HasFlag (pr_Flags p) PhaseFlags_Cosmetic
            then s1\<lparr>ps_CosmeticReferences := ps_CosmeticReferences s1 + r\<rparr>
            else if i \<noteq> DEFAULT_PHASE
            then s1\<lparr>ps_NonCosmeticReferences := ps_NonCosmeticReferences s1 + r\<rparr>
            else s1\<lparr>ps_DefaultReferences := ps_DefaultReferences s1 + r\<rparr>)
      in s2\<lparr>ps_Flags := (if ps_CosmeticReferences s2 \<noteq> 0 then ps_Flags s2 OR PhaseShiftFlags_NoCosmetic
              else ps_Flags s2 AND NOT PhaseShiftFlags_NoCosmetic)\<rparr>)"
  have step: "PhaseShift_ModifyPhasesReferences i r s = PhaseShift_UpdateUnphasedFlag s3"
    using Some assms(2) by (simp add: PhaseShift_ModifyPhasesReferences_def s3_def Let_def)
  have b: "bit (ps_Flags s3) k = (if k = 4 then ps_CosmeticReferences s3 \<noteq> 0 else bit (ps_Flags s) k)" for k
    by (auto simp: s3_def Let_def flag_simps dest: bit_imp_le_length)
  show "ps_flagged (PhaseShift_ModifyPhasesReferences i r s) \<and> (n \<notin> {2, 3, 4} \<longrightarrow>
      bit (ps_Flags (PhaseShift_ModifyPhasesReferences i r s)) n = bit (ps_Flags s) n)"
    by (simp add: step ps_flagged_def HasFlag_bit UpdateUnphasedFlag_bits b)
qed

lemma ModifyPhasesReferences_inv:
  assumes "\<not> ps_IsDbPhaseShift s" "ps_counted s" "ps_flagged s"
  shows "\<not> ps_IsDbPhaseShift (PhaseShift_ModifyPhasesReferences i r s)
    \<and> ps_counted (PhaseShift_ModifyPhasesReferences i r s)
    \<and> ps_flagged (PhaseShift_ModifyPhasesReferences i r s)"
  using assms by (simp add: ModifyPhasesReferences_counted ModifyPhasesReferences_flagged)

text \<open>A new entry without references, a changed condition, and the erasure of an entry without references
  leave counters and flags alone.\<close>

lemma ps_counted_put_fresh:
  assumes "ps_counted s" "map_of (ps_Phases s) i = None" "pr_References p = 0"
  shows "ps_counted (s\<lparr>ps_Phases := om_put i p (ps_Phases s)\<rparr>)"
  using assms by (auto simp: ps_counted_def om_sum_put om_at_def)

lemma ps_counted_conditions:
  assumes "ps_counted s"
  shows "ps_counted (s\<lparr>ps_Phases := om_upd i (\<lambda>p. p\<lparr>pr_AreaConditions := c\<rparr>) (ps_Phases s)\<rparr>)"
  using assms by (auto simp: ps_counted_def om_sum_upd om_at_def split: option.splits)

lemma ps_counted_del:
  assumes "ps_counted s" "map_option pr_References (map_of (ps_Phases s) i) = Some 0"
  shows "ps_counted (s\<lparr>ps_Phases := om_del i (ps_Phases s)\<rparr>)"
  using assms by (auto simp: ps_counted_def om_sum_del om_at_def split: option.splits)

lemma ps_flagged_phases [simp]: "ps_flagged (s\<lparr>ps_Phases := m\<rparr>) = ps_flagged s"
  by (simp add: ps_flagged_def ps_unphased_def)

lemma set_om_upd_iff: "(k, v) \<in> set (om_upd i f m) \<longleftrightarrow> (\<exists>w. (k, w) \<in> set m \<and> v = (if k = i then f w else w))"
  by (induction m) (auto simp: om_upd_def)

lemma AddPhase_inv:
  assumes "ps_inv s" "0 < r"
  shows "ps_inv (snd (PhaseShift_AddPhase phaseId flags c r s))"
proof -
  let ?i = "ucast phaseId :: u16"
  define s1 where "s1 = (if map_of (ps_Phases s) ?i = None
    then s\<lparr>ps_Phases := om_put ?i \<lparr>pr_Flags = flags, pr_References = 0, pr_AreaConditions = None\<rparr> (ps_Phases s)\<rparr>
    else s)"
  have s1: "\<not> ps_IsDbPhaseShift s1" "ps_counted s1" "ps_flagged s1"
    using assms by (auto simp: s1_def ps_inv_def ps_counted_put_fresh)
  have ok: "om_ok (ps_Phases s)" using assms(1) by (simp add: ps_inv_def ps_counted_def)
  have pos: "\<forall>(j, p) \<in> set (ps_Phases s1). if j = ?i then 0 \<le> pr_References p else 0 < pr_References p"
    using assms(1) ok by (auto simp: s1_def ps_inv_def ps_positive_def set_om_put intro: less_imp_le)
  define s2 where "s2 = PhaseShift_ModifyPhasesReferences ?i r s1"
  have s2: "\<not> ps_IsDbPhaseShift s2" "ps_counted s2" "ps_flagged s2"
    using ModifyPhasesReferences_inv [OF s1] by (simp_all add: s2_def)
  have "ps_positive s2"
    using pos assms(2) by (fastforce simp: s2_def ps_positive_def set_om_upd_iff)
  with s2 have "ps_inv s2" "ps_inv (s2\<lparr>ps_Phases := om_upd ?i (\<lambda>p. p\<lparr>pr_AreaConditions := c\<rparr>) (ps_Phases s2)\<rparr>)"
    by (simp_all add: ps_inv_def ps_counted_conditions) (fastforce simp: ps_positive_def set_om_upd_iff)
  then show ?thesis
    by (simp add: PhaseShift_AddPhase_def Let_def s1_def s2_def)
qed

lemma RemovePhase_inv:
  assumes "ps_inv s"
  shows "ps_inv (snd (PhaseShift_RemovePhase phaseId s))"
proof (cases "map_of (ps_Phases s) (ucast phaseId)")
  case None
  with assms show ?thesis by (simp add: PhaseShift_RemovePhase_def)
next
  case (Some p)
  let ?i = "ucast phaseId :: u16"
  define s1 where "s1 = PhaseShift_ModifyPhasesReferences ?i (- 1) s"
  have s1: "\<not> ps_IsDbPhaseShift s1" "ps_counted s1" "ps_flagged s1"
    using assms ModifyPhasesReferences_inv [of s ?i "- 1"] by (simp_all add: s1_def ps_inv_def)
  have ok: "om_ok (ps_Phases s)" using assms by (simp add: ps_inv_def ps_counted_def)
  have here: "map_of (ps_Phases s1) ?i = Some (p\<lparr>pr_References := pr_References p - 1\<rparr>)"
    using Some by (simp add: s1_def)
  have "0 < pr_References p"
    using assms Some by (auto simp: ps_inv_def ps_positive_def dest: map_of_SomeD)
  moreover have "p' = p" if "(?i, p') \<in> set (ps_Phases s)" for p'
    using that Some by (simp add: om_get_iff [OF ok, symmetric])
  ultimately have pos: "\<forall>(j, q) \<in> set (ps_Phases s1). j \<noteq> ?i \<or> pr_References p \<noteq> 1 \<longrightarrow> 0 < pr_References q"
    using assms by (fastforce simp: s1_def ps_inv_def ps_positive_def set_om_upd_iff)
  show ?thesis
  proof (cases "pr_References p = 1")
    case True
    with here have "map_option pr_References (map_of (ps_Phases s1) ?i) = Some 0" by simp
    with s1 pos show ?thesis
      using Some by (auto simp: PhaseShift_RemovePhase_def Let_def s1_def [symmetric] ps_inv_def
          ps_counted_del ps_positive_def)
  next
    case False
    with here have "map_option pr_References (map_of (ps_Phases s1) ?i) \<noteq> Some 0" by simp
    with s1 pos False show ?thesis
      using Some by (auto simp: PhaseShift_RemovePhase_def Let_def s1_def [symmetric] ps_inv_def
          ps_positive_def)
  qed
qed

lemma ClearPhases_inv: "\<not> ps_IsDbPhaseShift s \<Longrightarrow> ps_inv (PhaseShift_ClearPhases s)"
  by (simp add: PhaseShift_ClearPhases_def ps_inv_def ps_counted_def ps_flagged_def ps_positive_def
      HasFlag_bit UpdateUnphasedFlag_bits) (simp add: ps_unphased_def bit_and_iff bit_or_iff flag_bits)

lemma ps_inv_irrelevant [simp]:
  "ps_inv (s\<lparr>ps_PersonalGuid := g\<rparr>) = ps_inv s" "ps_inv (s\<lparr>ps_VisibleMapIds := v\<rparr>) = ps_inv s"
  "ps_inv (s\<lparr>ps_UiWorldMapAreaIdSwaps := u\<rparr>) = ps_inv s"
  by (simp_all add: ps_inv_def ps_counted_def ps_flagged_def ps_positive_def ps_unphased_def)

lemma SetInversed_inv: "ps_inv s \<Longrightarrow> ps_inv (PhasingHandler_SetInversed b s)"
  by (simp add: PhasingHandler_SetInversed_def ps_inv_def ps_counted_def ps_flagged_def
      ps_positive_def HasFlag_bit UpdateUnphasedFlag_bits)
     (auto simp: ps_unphased_def bit_and_iff bit_or_iff bit_not_iff flag_bits)

lemma SetAlwaysVisible_inv: "ps_inv s \<Longrightarrow> ps_inv (PhasingHandler_SetAlwaysVisible b s)"
  by (auto simp: PhasingHandler_SetAlwaysVisible_def ps_inv_def ps_counted_def ps_flagged_def
      ps_positive_def ps_unphased_def HasFlag_bit bit_and_iff bit_or_iff bit_not_iff flag_bits)

datatype ps_op =
    Ps_Add u32 u16 "nat option" int | Ps_Remove u32 | Ps_AddMap u32 TerrainSwapInfo int
  | Ps_RemoveMap u32 | Ps_AddSwap u32 int | Ps_RemoveSwap u32 | Ps_Clear | Ps_ClearPhases
  | Ps_SetInversed bool | Ps_SetAlwaysVisible bool

fun ps_step :: "ps_op \<Rightarrow> PhaseShift \<Rightarrow> PhaseShift" where
  "ps_step (Ps_Add i f c r) s = snd (PhaseShift_AddPhase i f c r s)"
| "ps_step (Ps_Remove i) s = snd (PhaseShift_RemovePhase i s)"
| "ps_step (Ps_AddMap i t r) s = snd (PhaseShift_AddVisibleMapId i t r s)"
| "ps_step (Ps_RemoveMap i) s = snd (PhaseShift_RemoveVisibleMapId i s)"
| "ps_step (Ps_AddSwap i r) s = snd (PhaseShift_AddUiWorldMapAreaIdSwap i r s)"
| "ps_step (Ps_RemoveSwap i) s = snd (PhaseShift_RemoveUiWorldMapAreaIdSwap i s)"
| "ps_step Ps_Clear s = PhaseShift_Clear s"
| "ps_step Ps_ClearPhases s = PhaseShift_ClearPhases s"
| "ps_step (Ps_SetInversed b) s = PhasingHandler_SetInversed b s"
| "ps_step (Ps_SetAlwaysVisible b) s = PhasingHandler_SetAlwaysVisible b s"

fun ps_counting :: "ps_op \<Rightarrow> bool" where
  "ps_counting (Ps_Add i f c r) = (0 < r)"
| "ps_counting x = True"

interpretation ps_run: guarded_run ps_step ps_counting ps_inv
proof unfold_locales
  fix s x assume inv: "ps_inv s" and x: "ps_counting x"
  show "ps_inv (ps_step x s)"
  proof (cases x)
    case (Ps_Add i f c r)
    with inv x show ?thesis by (simp add: AddPhase_inv)
  qed (use inv in \<open>auto simp: RemovePhase_inv SetInversed_inv SetAlwaysVisible_inv ClearPhases_inv
        PhaseShift_Clear_def PhaseShift_AddVisibleMapId_def PhaseShift_RemoveVisibleMapId_def
        PhaseShift_AddUiWorldMapAreaIdSwap_def PhaseShift_RemoveUiWorldMapAreaIdSwap_def ps_inv_def [of s]
        split: option.splits prod.splits\<close>)
qed

subsection \<open>What the flags say about the phases\<close>

lemma om_sum_positive_iff:
  assumes "ps_positive s" "\<And>i p. g i p = (if Q i p then pr_References p else 0)"
  shows "om_sum g (ps_Phases s) \<noteq> 0 \<longleftrightarrow> (\<exists>(i, p) \<in> set (ps_Phases s). Q i p)"
proof -
  have "\<forall>(i, p) \<in> set (ps_Phases s). 0 \<le> g i p"
    using assms by (auto simp: ps_positive_def intro: less_imp_le)
  then have "om_sum g (ps_Phases s) = 0 \<longleftrightarrow> (\<forall>(i, p) \<in> set (ps_Phases s). g i p = 0)"
    by (rule om_sum_zero_iff)
  also have "\<dots> \<longleftrightarrow> (\<forall>(i, p) \<in> set (ps_Phases s). \<not> Q i p)"
    using assms by (fastforce simp: ps_positive_def)
  finally show ?thesis by auto
qed

lemma ps_inv_references:
  assumes "ps_inv s"
  shows "ps_CosmeticReferences s \<noteq> 0 \<longleftrightarrow>
      (\<exists>(i, p) \<in> set (ps_Phases s). HasFlag (pr_Flags p) PhaseFlags_Cosmetic)"
    and "ps_NonCosmeticReferences s \<noteq> 0 \<longleftrightarrow>
      (\<exists>(i, p) \<in> set (ps_Phases s). \<not> HasFlag (pr_Flags p) PhaseFlags_Cosmetic \<and> i \<noteq> DEFAULT_PHASE)"
    and "ps_DefaultReferences s \<noteq> 0 \<longleftrightarrow>
      (\<exists>(i, p) \<in> set (ps_Phases s). \<not> HasFlag (pr_Flags p) PhaseFlags_Cosmetic \<and> i = DEFAULT_PHASE)"
  using assms om_sum_positive_iff [of s pc_cosmetic] om_sum_positive_iff [of s pc_noncosmetic]
    om_sum_positive_iff [of s pc_default]
  by (simp_all add: ps_inv_def ps_counted_def)

lemma Intersects_iff:
  "om_ok xs \<Longrightarrow> om_ok ys \<Longrightarrow> Intersects P xs ys \<longleftrightarrow>
     (\<exists>k a b. (k, a) \<in> set xs \<and> (k, b) \<in> set ys \<and> P a b)"
proof (induction P xs ys rule: Intersects.induct)
  case (3 P x xs y ys)
  obtain k a j b where xy: "x = (k, a)" "y = (j, b)" by (cases x, cases y) auto
  from "3.prems" xy have ok: "om_ok xs" "om_ok ys" "\<forall>i \<in> fst ` set xs. k < i" "\<forall>i \<in> fst ` set ys. j < i"
    by (simp_all add: om_ok_Cons)
  then have nx: "(k, c) \<notin> set xs" and ny: "(j, d) \<notin> set ys" for c d by force+
  consider "k < j" | "j < k" | "k = j" by fastforce
  then show ?case
  proof cases
    case 1
    then have no: "(k, c) \<notin> set ys" for c using ok(4) by force
    have "Intersects P (x # xs) (y # ys) = Intersects P xs (y # ys)" using 1 xy by simp
    also have "\<dots> \<longleftrightarrow> (\<exists>k a b. (k, a) \<in> set xs \<and> (k, b) \<in> set (y # ys) \<and> P a b)"
      using 1 "3.IH"(1) "3.prems" ok xy by simp
    also have "\<dots> \<longleftrightarrow> (\<exists>k a b. (k, a) \<in> set (x # xs) \<and> (k, b) \<in> set (y # ys) \<and> P a b)"
      using no 1 unfolding xy by auto
    finally show ?thesis .
  next
    case 2
    then have no: "(j, c) \<notin> set xs" for c using ok(3) by force
    have "Intersects P (x # xs) (y # ys) = Intersects P (x # xs) ys" using 2 xy by auto
    also have "\<dots> \<longleftrightarrow> (\<exists>k a b. (k, a) \<in> set (x # xs) \<and> (k, b) \<in> set ys \<and> P a b)"
      using 2 "3.IH"(2) "3.prems" ok xy by auto
    also have "\<dots> \<longleftrightarrow> (\<exists>k a b. (k, a) \<in> set (x # xs) \<and> (k, b) \<in> set (y # ys) \<and> P a b)"
      using no 2 unfolding xy by auto
    finally show ?thesis .
  next
    case 3
    show ?thesis
    proof (cases "P a b")
      case False
      have "Intersects P (x # xs) (y # ys) = Intersects P xs ys" using 3 False xy by simp
      also have "\<dots> \<longleftrightarrow> (\<exists>k a b. (k, a) \<in> set xs \<and> (k, b) \<in> set ys \<and> P a b)"
        using 3 False "3.IH"(3) ok xy by simp
      also have "\<dots> \<longleftrightarrow> (\<exists>k a b. (k, a) \<in> set (x # xs) \<and> (k, b) \<in> set (y # ys) \<and> P a b)"
        using nx ny 3 False unfolding xy by auto
      finally show ?thesis .
    qed (use 3 xy in auto)
  qed
qed auto

subsection \<open>Properties of the phase shift\<close>

text \<open>All phases carry the flags of the phase table \<open>F\<close>.\<close>

definition ps_table :: "(u16 \<Rightarrow> u16) \<Rightarrow> PhaseShift \<Rightarrow> bool" where
  "ps_table F s \<longleftrightarrow> list_all (\<lambda>(i, p). pr_Flags p = F i) (ps_Phases s)"

lemma ps_table_flags: "ps_table F s \<Longrightarrow> (i, p) \<in> set (ps_Phases s) \<Longrightarrow> pr_Flags p = F i"
  by (auto simp: ps_table_def list_all_iff)

lemma CanSee_refl: "ps_inv s \<Longrightarrow> PhaseShift_CanSee s s"
proof -
  assume inv: "ps_inv s"
  then have ok: "om_ok (ps_Phases s)" and f: "ps_flagged s"
    by (simp_all add: ps_inv_def ps_counted_def)
  show ?thesis
  proof (cases "HasFlag (ps_Flags s) PhaseShiftFlags_Inverse \<or> HasFlag (ps_Flags s) PhaseShiftFlags_Unphased")
    case True
    then show ?thesis by (auto simp: PhaseShift_CanSee_def Let_def)
  next
    case False
    with f have "ps_NonCosmeticReferences s \<noteq> 0"
      by (auto simp: ps_flagged_def ps_unphased_def)
    then obtain i p where p: "(i, p) \<in> set (ps_Phases s)" "\<not> HasFlag (pr_Flags p) PhaseFlags_Cosmetic"
      using ps_inv_references(2) [OF inv] by auto
    moreover have "\<not> HasFlag (pr_Flags p) PhaseFlags_None" by (simp add: HasFlag_bit)
    ultimately have "ps_shared e s s" if "e \<in> {PhaseFlags_Cosmetic, PhaseFlags_None}" for e
      using that by (auto simp: ps_shared_def Intersects_iff [OF ok ok])
    with False show ?thesis by (auto simp: PhaseShift_CanSee_def Let_def)
  qed
qed

text \<open>Removing a phase undoes adding it, counters, flags and conditions included.\<close>

lemma map_of_AddPhase:
  "map_of (ps_Phases (snd (PhaseShift_AddPhase i f c r s))) =
     (map_of (ps_Phases s))(ucast i \<mapsto>
       (case map_of (ps_Phases s) (ucast i) of
          None \<Rightarrow> \<lparr>pr_Flags = f, pr_References = r, pr_AreaConditions = c\<rparr>
        | Some p \<Rightarrow> p\<lparr>pr_References := pr_References p + r,
                      pr_AreaConditions := (if c = None then pr_AreaConditions p else c)\<rparr>))"
  by (auto simp: PhaseShift_AddPhase_def Let_def split: option.splits)

lemma om_ok_AddPhase [simp]:
  "om_ok (ps_Phases s) \<Longrightarrow> om_ok (ps_Phases (snd (PhaseShift_AddPhase i f c r s)))"
  by (simp add: PhaseShift_AddPhase_def Let_def)

lemma AddPhase_other:
  "ps_IsDbPhaseShift (snd (PhaseShift_AddPhase i f c r s)) = ps_IsDbPhaseShift s"
  "ps_PersonalGuid (snd (PhaseShift_AddPhase i f c r s)) = ps_PersonalGuid s"
  "ps_VisibleMapIds (snd (PhaseShift_AddPhase i f c r s)) = ps_VisibleMapIds s"
  "ps_UiWorldMapAreaIdSwaps (snd (PhaseShift_AddPhase i f c r s)) = ps_UiWorldMapAreaIdSwaps s"
  by (simp_all add: PhaseShift_AddPhase_def Let_def)

lemma RemovePhase_other:
  "ps_IsDbPhaseShift (snd (PhaseShift_RemovePhase i s)) = ps_IsDbPhaseShift s"
  "ps_PersonalGuid (snd (PhaseShift_RemovePhase i s)) = ps_PersonalGuid s"
  "ps_VisibleMapIds (snd (PhaseShift_RemovePhase i s)) = ps_VisibleMapIds s"
  "ps_UiWorldMapAreaIdSwaps (snd (PhaseShift_RemovePhase i s)) = ps_UiWorldMapAreaIdSwaps s"
  by (simp_all add: PhaseShift_RemovePhase_def Let_def split: option.splits)

lemma map_of_RemovePhase:
  "map_of (ps_Phases (snd (PhaseShift_RemovePhase i s))) =
     (case map_of (ps_Phases s) (ucast i) of
        None \<Rightarrow> map_of (ps_Phases s)
      | Some p \<Rightarrow> (map_of (ps_Phases s))(ucast i :=
          (if pr_References p - 1 = 0 then None else Some (p\<lparr>pr_References := pr_References p - 1\<rparr>))))"
  by (auto simp: PhaseShift_RemovePhase_def Let_def fun_eq_iff split: option.splits)

lemma om_ok_RemovePhase [simp]:
  "om_ok (ps_Phases s) \<Longrightarrow> om_ok (ps_Phases (snd (PhaseShift_RemovePhase i s)))"
  by (simp add: PhaseShift_RemovePhase_def Let_def split: option.splits)

lemma AddPhase_flag_bits:
  assumes "ps_flagged s" "\<not> ps_IsDbPhaseShift s" "n \<notin> {2, 3, 4}"
  shows "bit (ps_Flags (snd (PhaseShift_AddPhase i f c r s))) n = bit (ps_Flags s) n"
  using assms ModifyPhasesReferences_flagged(2) by (simp add: PhaseShift_AddPhase_def Let_def)

lemma RemovePhase_flag_bits:
  assumes "ps_flagged s" "\<not> ps_IsDbPhaseShift s" "n \<notin> {2, 3, 4}"
  shows "bit (ps_Flags (snd (PhaseShift_RemovePhase i s))) n = bit (ps_Flags s) n"
  using assms ModifyPhasesReferences_flagged(2)
  by (simp add: PhaseShift_RemovePhase_def Let_def split: option.splits)

lemma ps_inv_eqI:
  assumes inv: "ps_inv s" "ps_inv t"
    and eq: "map_of (ps_Phases s) = map_of (ps_Phases t)" "ps_PersonalGuid s = ps_PersonalGuid t"
      "ps_VisibleMapIds s = ps_VisibleMapIds t"
      "ps_UiWorldMapAreaIdSwaps s = ps_UiWorldMapAreaIdSwaps t"
    and bits: "\<And>n. n \<notin> {2, 3, 4} \<Longrightarrow> bit (ps_Flags s) n = bit (ps_Flags t) n"
  shows "s = t"
proof -
  have p: "ps_Phases s = ps_Phases t"
    using inv eq(1) by (intro om_eqI) (simp_all add: ps_inv_def ps_counted_def)
  with inv have c: "ps_CosmeticReferences s = ps_CosmeticReferences t"
    "ps_NonCosmeticReferences s = ps_NonCosmeticReferences t"
    "ps_DefaultReferences s = ps_DefaultReferences t"
    by (simp_all add: ps_inv_def ps_counted_def)
  have "bit (ps_Flags s) n = bit (ps_Flags t) n" for n
  proof (cases "n \<in> {2, 3, 4}")
    case True
    with inv c bits [of 1] show ?thesis
      by (auto simp: ps_inv_def ps_flagged_def HasFlag_bit ps_unphased_def)
  qed (rule bits)
  then have "ps_Flags s = ps_Flags t" by (intro bit_word_eqI)
  with p c eq inv show ?thesis by (simp add: ps_inv_def)
qed

text \<open>Counters and derived flags are a function of the phases, so two shifts with the same phases and the
  same remaining fields are equal.\<close>

theorem RemovePhase_AddPhase:
  assumes "ps_inv s"
  shows "snd (PhaseShift_RemovePhase i (snd (PhaseShift_AddPhase i f None 1 s))) = s"
proof (rule ps_inv_eqI)
  let ?t = "snd (PhaseShift_AddPhase i f None 1 s)"
  have t: "ps_inv ?t" using assms by (rule AddPhase_inv) simp
  show "ps_inv (snd (PhaseShift_RemovePhase i ?t))" by (rule RemovePhase_inv [OF t])
  have pos: "map_of (ps_Phases s) (ucast i) = Some p \<Longrightarrow> 0 < pr_References p" for p
    using assms by (auto simp: ps_inv_def ps_positive_def dest: map_of_SomeD)
  show "map_of (ps_Phases (snd (PhaseShift_RemovePhase i ?t))) = map_of (ps_Phases s)"
    using pos by (auto simp: map_of_RemovePhase map_of_AddPhase fun_eq_iff split: option.splits)
  show "bit (ps_Flags (snd (PhaseShift_RemovePhase i ?t))) n = bit (ps_Flags s) n"
    if "n \<notin> {2, 3, 4}" for n
    using that t assms
    by (simp add: RemovePhase_flag_bits AddPhase_flag_bits ps_inv_def)
qed (use assms in \<open>simp_all add: RemovePhase_other AddPhase_other\<close>)

theorem RemovePhase_AddPhase_witness:
  "snd (PhaseShift_RemovePhase 5 (snd (PhaseShift_AddPhase 5 1 None 1 PhaseShift_init))) = PhaseShift_init"
  by (rule RemovePhase_AddPhase) (rule ps_inv_init)

subsection \<open>PhasingHandler\<close>

text \<open>What the handlers see of a world object: its two phase shifts, the phases and phase groups its auras
  name when it is a unit, and the shifts of the units it controls. The updates they trigger are a log
  of the arguments of \<open>UpdateVisibilityIfNeeded\<close>. The client tables are one record.\<close>

record PhasedObject =
  po_PhaseShift :: PhaseShift
  po_SuppressedPhaseShift :: PhaseShift
  po_isUnit :: bool
  po_auraPhases :: "u32 list"
  po_auraPhaseGroups :: "u32 list"
  po_controlled :: "(PhaseShift \<times> PhaseShift) list"
  po_updates :: "(bool \<times> bool) list"

record PhaseTables =
  pt_phaseStore :: "u32 \<Rightarrow> u32 option"
  pt_phaseGroups :: "u32 \<Rightarrow> u32 list option"
  pt_terrainSwap :: "u32 \<Rightarrow> TerrainSwapInfo"
  pt_mapSwaps :: "u32 \<Rightarrow> TerrainSwapInfo list option"
  pt_areaParents :: "u32 \<Rightarrow> u32 list"
  pt_areaPhases :: "u32 \<Rightarrow> (u32 \<times> u32 list \<times> nat) list option"

definition GetPhaseFlags :: "PhaseTables \<Rightarrow> u32 \<Rightarrow> u16" where
  "GetPhaseFlags T phaseId =
     (case pt_phaseStore T phaseId of
        None \<Rightarrow> PhaseFlags_None
      | Some f \<Rightarrow> if HasFlag f 0x10 then PhaseFlags_Cosmetic
                  else if HasFlag f 0x20 then PhaseFlags_Personal else PhaseFlags_None)"

definition ph_add :: "PhaseTables \<Rightarrow> u32 \<Rightarrow> bool \<times> PhaseShift \<Rightarrow> bool \<times> PhaseShift" where
  "ph_add T phaseId cs =
     (case PhaseShift_AddPhase phaseId (GetPhaseFlags T phaseId) None 1 (snd cs) of
        (added, s) \<Rightarrow> (added \<or> fst cs, s))"

definition ph_group :: "PhaseTables \<Rightarrow> u32 \<Rightarrow> u32 list" where
  "ph_group T g = (case pt_phaseGroups T g of None \<Rightarrow> [] | Some ps \<Rightarrow> ps)"

definition po_inherit :: "PhasedObject \<Rightarrow> PhasedObject" where
  "po_inherit ob = ob\<lparr>po_controlled :=
     map (\<lambda>_. (po_PhaseShift ob, po_SuppressedPhaseShift ob)) (po_controlled ob)\<rparr>"

definition po_update :: "bool \<Rightarrow> bool \<Rightarrow> PhasedObject \<Rightarrow> PhasedObject" where
  "po_update updateVisibility changed ob = ob\<lparr>po_updates := po_updates ob @ [(updateVisibility, changed)]\<rparr>"

definition PhasingHandler_ResetPhaseShift :: "PhasedObject \<Rightarrow> PhasedObject" where
  "PhasingHandler_ResetPhaseShift ob = ob\<lparr>po_PhaseShift := PhaseShift_Clear (po_PhaseShift ob),
     po_SuppressedPhaseShift := PhaseShift_Clear (po_SuppressedPhaseShift ob)\<rparr>"

definition ph_add_map :: "TerrainSwapInfo \<Rightarrow> int \<Rightarrow> bool \<times> PhaseShift \<Rightarrow> bool \<times> PhaseShift" where
  "ph_add_map info r cs =
     (case PhaseShift_AddVisibleMapId (ts_Id info) info r (snd cs) of
        (added, s) \<Rightarrow>
          fold (\<lambda>a (c, t). case PhaseShift_AddUiWorldMapAreaIdSwap a 1 t of (d, t') \<Rightarrow> (d \<or> c, t'))
            (ts_UiWorldMapAreaIDSwaps info) (added \<or> fst cs, s))"

definition PhasingHandler_OnMapChange :: "PhaseTables \<Rightarrow> (u32 \<Rightarrow> bool) \<Rightarrow> u32 \<Rightarrow> PhasedObject \<Rightarrow> PhasedObject" where
  "PhasingHandler_OnMapChange T terrainMeets mapId ob =
     (let ps0 = (po_PhaseShift ob)\<lparr>ps_VisibleMapIds := [], ps_UiWorldMapAreaIdSwaps := []\<rparr>;
          sup0 = (po_SuppressedPhaseShift ob)\<lparr>ps_VisibleMapIds := []\<rparr>;
          (ps, spr) = fold (\<lambda>info (ps, spr).
              if terrainMeets (ts_Id info) then (snd (ph_add_map info 1 (False, ps)), spr)
              else (ps, snd (PhaseShift_AddVisibleMapId (ts_Id info) info 1 spr)))
            (case pt_mapSwaps T mapId of None \<Rightarrow> [] | Some xs \<Rightarrow> xs) (ps0, sup0)
      in po_update False True (ob\<lparr>po_PhaseShift := ps, po_SuppressedPhaseShift := spr\<rparr>))"

text \<open>An area change rebuilds both shifts from the phases of the area and its parents (the chain
  \<open>pt_areaParents\<close> follows \<open>ParentAreaID\<close>): a phase the conditions of which hold becomes visible, the
  others are suppressed; then the auras add theirs.\<close>

definition PhasingHandler_OnAreaChange :: "PhaseTables \<Rightarrow> (nat \<Rightarrow> bool) \<Rightarrow> u32 \<Rightarrow> PhasedObject \<Rightarrow> PhasedObject" where
  "PhasingHandler_OnAreaChange T meets areaId ob =
     (let oldPhases = ps_Phases (po_PhaseShift ob);
          areaPhases = filter (\<lambda>(phaseId, exclusions, c). areaId \<notin> set exclusions)
            (concat (map (\<lambda>a. case pt_areaPhases T a of None \<Rightarrow> [] | Some xs \<Rightarrow> xs) (pt_areaParents T areaId)));
          (ps, spr) = fold (\<lambda>(phaseId, _, c) (ps, spr).
              if meets c then (snd (PhaseShift_AddPhase phaseId (GetPhaseFlags T phaseId) (Some c) 1 ps), spr)
              else (ps, snd (PhaseShift_AddPhase phaseId (GetPhaseFlags T phaseId) (Some c) 1 spr)))
            areaPhases (PhaseShift_ClearPhases (po_PhaseShift ob),
                        PhaseShift_ClearPhases (po_SuppressedPhaseShift ob));
          changed0 = (map fst (ps_Phases ps) \<noteq> map fst oldPhases)
      in if po_isUnit ob
         then let (c1, ps1) = fold (ph_add T) (po_auraPhases ob) (changed0, ps);
                  (c2, ps2) = fold (ph_add T) (concat (map (ph_group T) (po_auraPhaseGroups ob))) (c1, ps1)
              in po_update True c2 (po_inherit (ob\<lparr>po_PhaseShift := ps2, po_SuppressedPhaseShift := spr\<rparr>))
         else po_update True changed0 (ob\<lparr>po_PhaseShift := ps, po_SuppressedPhaseShift := spr\<rparr>))"

text \<open>The loops of \<open>OnConditionChange\<close>. Each runs over the entries its container had when it started, since
  an iteration only erases the entry it is at.\<close>

fun oc_suppress :: "(nat \<Rightarrow> bool) \<Rightarrow> (u16 \<times> PhaseRef) list \<Rightarrow> PhaseShift \<Rightarrow> PhaseShift
    \<Rightarrow> PhaseShift \<times> PhaseShift" where
  "oc_suppress meets [] ps ns = (ps, ns)"
| "oc_suppress meets ((i, p) # xs) ps ns =
     (case pr_AreaConditions p of
        None \<Rightarrow> oc_suppress meets xs ps ns
      | Some c \<Rightarrow>
          if meets c then oc_suppress meets xs ps ns
          else let ns1 = snd (PhaseShift_AddPhase (ucast i) (pr_Flags p) (Some c) (pr_References p) ns);
                   ps1 = PhaseShift_ModifyPhasesReferences i (- pr_References p) ps;
                   ps2 = ps1\<lparr>ps_Phases := om_del i (ps_Phases ps1)\<rparr>
               in oc_suppress meets xs ps2 ns1)"

datatype phase_error = Phase_AssertNotNull

fun oc_restore :: "(nat \<Rightarrow> bool) \<Rightarrow> (u16 \<times> PhaseRef) list \<Rightarrow> bool \<Rightarrow> PhaseShift \<Rightarrow> PhaseShift
    \<Rightarrow> phase_error + (bool \<times> PhaseShift \<times> PhaseShift)" where
  "oc_restore meets [] changed ps spr = Inr (changed, ps, spr)"
| "oc_restore meets ((i, p) # xs) changed ps spr =
     (case pr_AreaConditions p of
        None \<Rightarrow> Inl Phase_AssertNotNull
      | Some c \<Rightarrow>
          if \<not> meets c then oc_restore meets xs changed ps spr
          else case PhaseShift_AddPhase (ucast i) (pr_Flags p) (Some c) (pr_References p) ps of
            (added, ps1) \<Rightarrow>
              let sup1 = PhaseShift_ModifyPhasesReferences i (- pr_References p) spr;
                  sup2 = sup1\<lparr>ps_Phases := om_del i (ps_Phases sup1)\<rparr>
              in oc_restore meets xs (added \<or> changed) ps1 sup2)"

fun oc_suppress_maps :: "(u32 \<Rightarrow> bool) \<Rightarrow> (u32 \<times> int \<times> TerrainSwapInfo) list \<Rightarrow> bool \<Rightarrow> PhaseShift
    \<Rightarrow> PhaseShift \<Rightarrow> bool \<times> PhaseShift \<times> PhaseShift" where
  "oc_suppress_maps meets [] changed ps ns = (changed, ps, ns)"
| "oc_suppress_maps meets ((m, r, info) # xs) changed ps ns =
     (if meets m then oc_suppress_maps meets xs changed ps ns
      else let ns1 = snd (PhaseShift_AddVisibleMapId m info r ns);
               (c, ps1) = fold (\<lambda>a (c, t). case PhaseShift_RemoveUiWorldMapAreaIdSwap a t of
                             (e, t') \<Rightarrow> (e \<or> c, t')) (ts_UiWorldMapAreaIDSwaps info) (changed, ps)
           in oc_suppress_maps meets xs c
                (ps1\<lparr>ps_VisibleMapIds := om_del m (ps_VisibleMapIds ps1)\<rparr>) ns1)"

fun oc_restore_maps :: "(u32 \<Rightarrow> bool) \<Rightarrow> (u32 \<times> int \<times> TerrainSwapInfo) list \<Rightarrow> bool \<Rightarrow> PhaseShift
    \<Rightarrow> PhaseShift \<Rightarrow> bool \<times> PhaseShift \<times> PhaseShift" where
  "oc_restore_maps meets [] changed ps spr = (changed, ps, spr)"
| "oc_restore_maps meets ((m, r, info) # xs) changed ps spr =
     (if \<not> meets m then oc_restore_maps meets xs changed ps spr
      else let (c0, ps0) = PhaseShift_AddVisibleMapId m info r ps;
               (c, ps1) = fold (\<lambda>a (c, t). case PhaseShift_AddUiWorldMapAreaIdSwap a 1 t of
                             (d, t') \<Rightarrow> (d \<or> c, t')) (ts_UiWorldMapAreaIDSwaps info) (c0 \<or> changed, ps0)
           in oc_restore_maps meets xs c ps1
                (spr\<lparr>ps_VisibleMapIds := om_del m (ps_VisibleMapIds spr)\<rparr>))"

text \<open>A phase an aura names stays visible although the area no longer gives it.\<close>

fun oc_auras :: "PhaseTables \<Rightarrow> u32 list \<Rightarrow> PhaseShift \<Rightarrow> PhaseShift \<Rightarrow> PhaseShift \<times> PhaseShift" where
  "oc_auras T [] ps ns = (ps, ns)"
| "oc_auras T (phaseId # xs) ps ns =
     (case PhaseShift_RemovePhase phaseId ns of
        ((found, erased), ns1) \<Rightarrow>
          oc_auras T xs
            (if found \<or> erased then snd (PhaseShift_AddPhase phaseId (GetPhaseFlags T phaseId) None 1 ps)
             else ps) ns1)"

definition PhasingHandler_OnConditionChange :: "PhaseTables \<Rightarrow> (nat \<Rightarrow> bool) \<Rightarrow> (u32 \<Rightarrow> bool) \<Rightarrow> PhasedObject
    \<Rightarrow> phase_error + PhasedObject" where
  "PhasingHandler_OnConditionChange T meets terrainMeets ob =
     (let ps0 = po_PhaseShift ob; sup0 = po_SuppressedPhaseShift ob;
          (ps1, ns1) = oc_suppress meets (ps_Phases ps0) ps0 PhaseShift_init in
      and_then (oc_restore meets (ps_Phases sup0) False ps1 sup0) (\<lambda>(c2, ps2, sup2).
        let (c3, ps3, ns3) = oc_suppress_maps terrainMeets (ps_VisibleMapIds ps2) c2 ps2 ns1;
            (c4, ps4, sup4) = oc_restore_maps terrainMeets (ps_VisibleMapIds sup2) c3 ps3 sup2;
            (ps5, ns5) = (if po_isUnit ob
               then oc_auras T (po_auraPhases ob @ concat (map (ph_group T) (po_auraPhaseGroups ob))) ps4 ns3
               else (ps4, ns3));
            changed = (c4 \<or> ps_Phases ns5 \<noteq> [] \<or> ps_VisibleMapIds ns5 \<noteq> []);
            sup5 = fold (\<lambda>(i, p) s. snd (PhaseShift_AddPhase (ucast i) (pr_Flags p) (pr_AreaConditions p)
                        (pr_References p) s)) (ps_Phases ns5) sup4;
            sup6 = fold (\<lambda>(m, r, info) s. snd (PhaseShift_AddVisibleMapId m info r s))
                     (ps_VisibleMapIds ns5) sup5;
            ob1 = ob\<lparr>po_PhaseShift := ps5, po_SuppressedPhaseShift := sup6\<rparr>
        in Inr (po_update True changed (if po_isUnit ob then po_inherit ob1 else ob1))))"

definition PhasingHandler_InitDbPhaseShift :: "PhaseTables \<Rightarrow> u8 \<Rightarrow> u16 \<Rightarrow> u32 \<Rightarrow> PhaseShift \<Rightarrow> PhaseShift" where
  "PhasingHandler_InitDbPhaseShift T phaseUseFlags phaseId phaseGroupId s =
     (let s0 = (PhaseShift_ClearPhases s)\<lparr>ps_IsDbPhaseShift := True\<rparr>;
          f1 = (if HasFlag phaseUseFlags 0x1
                then PhaseShiftFlags_AlwaysVisible OR PhaseShiftFlags_Unphased else 0);
          f2 = (if HasFlag phaseUseFlags 0x2 then f1 OR PhaseShiftFlags_Inverse else f1);
          s1 = snd (fold (ph_add T) (if phaseId \<noteq> 0 then [ucast phaseId] else ph_group T phaseGroupId) (False, s0));
          f3 = (if ps_Phases s1 = [] \<or> PhaseShift_HasPhase (ucast DEFAULT_PHASE) s1
                then f2 OR (if HasFlag f2 PhaseShiftFlags_Inverse then PhaseShiftFlags_InverseUnphased
                            else PhaseShiftFlags_Unphased)
                else f2)
      in s1\<lparr>ps_Flags := f3\<rparr>)"

definition PhasingHandler_InDbPhaseShift :: "PhaseTables \<Rightarrow> u8 \<Rightarrow> u16 \<Rightarrow> u32 \<Rightarrow> PhasedObject \<Rightarrow> bool" where
  "PhasingHandler_InDbPhaseShift T phaseUseFlags phaseId phaseGroupId ob =
     PhaseShift_CanSee (po_PhaseShift ob)
       (PhasingHandler_InitDbPhaseShift T phaseUseFlags phaseId phaseGroupId PhaseShift_init)"

subsection \<open>After a condition change\<close>

text \<open>\<open>pc_all P s\<close>: every phase of \<open>s\<close> has a condition \<open>P\<close> accepts.\<close>

definition pc_all :: "(nat option \<Rightarrow> bool) \<Rightarrow> PhaseShift \<Rightarrow> bool" where
  "pc_all P s \<longleftrightarrow> om_ok (ps_Phases s)
     \<and> (\<forall>i p. map_of (ps_Phases s) i = Some p \<longrightarrow> P (pr_AreaConditions p))"

definition visible_condition :: "(nat \<Rightarrow> bool) \<Rightarrow> nat option \<Rightarrow> bool" where
  "visible_condition meets c = (case c of None \<Rightarrow> True | Some x \<Rightarrow> meets x)"

definition suppressed_condition :: "(nat \<Rightarrow> bool) \<Rightarrow> nat option \<Rightarrow> bool" where
  "suppressed_condition meets c = (case c of None \<Rightarrow> False | Some x \<Rightarrow> \<not> meets x)"

lemma condition_simps [simp]:
  "visible_condition meets None" "visible_condition meets (Some x) = meets x"
  "\<not> suppressed_condition meets None" "suppressed_condition meets (Some x) \<longleftrightarrow> \<not> meets x"
  by (simp_all add: visible_condition_def suppressed_condition_def)

lemma pc_all_AddPhase:
  "pc_all P s \<Longrightarrow> P c \<or> c = None \<and> P None \<Longrightarrow> pc_all P (snd (PhaseShift_AddPhase i f c r s))"
  by (auto simp: pc_all_def map_of_AddPhase split: option.splits)

lemma pc_all_RemovePhase: "pc_all P s \<Longrightarrow> pc_all P (snd (PhaseShift_RemovePhase i s))"
  by (auto simp: pc_all_def map_of_RemovePhase split: option.splits if_splits)


lemma pc_all_same_phases: "ps_Phases s = ps_Phases t \<Longrightarrow> pc_all P s = pc_all P t"
  by (simp add: pc_all_def)














subsection \<open>Objects as the handlers leave them\<close>

text \<open>
  A shift in order: its phases are an ordered set, each with references, and its counters and flags are right unless it
  is the shift of a creature or game object from the data base, which are set once and for all.
\<close>

definition ps_good :: "PhaseShift \<Rightarrow> bool" where
  "ps_good s \<longleftrightarrow> om_ok (ps_Phases s) \<and> ps_positive s \<and> (\<not> ps_IsDbPhaseShift s \<longrightarrow> ps_inv s)"

lemma positive_iff: "om_ok (ps_Phases s) \<Longrightarrow> ps_positive s \<longleftrightarrow> (\<forall>i p. map_of (ps_Phases s) i = Some p \<longrightarrow> 0 < pr_References p)"
  unfolding ps_positive_def by (simp add: om_get_iff) blast

lemma good_init: "ps_good PhaseShift_init"
  using ps_inv_init by (simp add: ps_good_def) (simp add: ps_inv_def PhaseShift_init_def)

lemma good_AddPhase: "ps_good s \<Longrightarrow> 0 < r \<Longrightarrow> ps_good (snd (PhaseShift_AddPhase i f c r s))"
  using AddPhase_inv [of s r i f c]
  by (auto simp: ps_good_def positive_iff map_of_AddPhase AddPhase_other split: option.splits intro: add_pos_pos)

lemma good_RemovePhase: "ps_good s \<Longrightarrow> ps_good (snd (PhaseShift_RemovePhase i s))"
  using RemovePhase_inv [of s i]
  by (fastforce simp: ps_good_def positive_iff map_of_RemovePhase RemovePhase_other split: option.splits if_splits)

text \<open>What a condition change does to a phase it takes out: all its references go, and then the entry.\<close>

definition ps_drop :: "u16 \<Rightarrow> PhaseRef \<Rightarrow> PhaseShift \<Rightarrow> PhaseShift" where
  "ps_drop i p s = (PhaseShift_ModifyPhasesReferences i (- pr_References p) s)\<lparr>ps_Phases :=
     om_del i (ps_Phases (PhaseShift_ModifyPhasesReferences i (- pr_References p) s))\<rparr>"

lemma drop_simps [simp]: "ps_IsDbPhaseShift (ps_drop i p s) = ps_IsDbPhaseShift s"
  "map_of (ps_Phases (ps_drop i p s)) = (map_of (ps_Phases s))(i := None)"
  "om_ok (ps_Phases s) \<Longrightarrow> om_ok (ps_Phases (ps_drop i p s))"
  by (simp_all add: ps_drop_def fun_eq_iff)

lemma good_drop:
  assumes s: "ps_good s" and p: "map_of (ps_Phases s) i = Some p"
  shows "ps_good (ps_drop i p s)"
proof -
  have ok: "om_ok (ps_Phases s)" "ps_positive s" using s by (simp_all add: ps_good_def)
  then have pos: "ps_positive (ps_drop i p s)" by (simp add: positive_iff)
  have "ps_inv (ps_drop i p s)" if "\<not> ps_IsDbPhaseShift s"
  proof -
    define s1 where "s1 = PhaseShift_ModifyPhasesReferences i (- pr_References p) s"
    have s1: "\<not> ps_IsDbPhaseShift s1" "ps_counted s1" "ps_flagged s1"
      using ModifyPhasesReferences_inv [of s i "- pr_References p"] s that by (simp_all add: ps_good_def ps_inv_def s1_def)
    have "map_option pr_References (map_of (ps_Phases s1) i) = Some 0" using p by (simp add: s1_def)
    with s1 pos show ?thesis unfolding ps_drop_def s1_def [symmetric] ps_inv_def by (simp add: ps_counted_del)
  qed
  with ok pos show ?thesis by (simp add: ps_good_def)
qed

lemma good_irrelevant [simp]: "ps_good (s\<lparr>ps_PersonalGuid := g\<rparr>) = ps_good s" "ps_good (s\<lparr>ps_VisibleMapIds := v\<rparr>) = ps_good s"
  "ps_good (s\<lparr>ps_UiWorldMapAreaIdSwaps := u\<rparr>) = ps_good s"
  by (simp_all add: ps_good_def ps_positive_def)

lemma good_maps [simp]: "ps_good (snd (PhaseShift_AddVisibleMapId i t r s)) = ps_good s"
  "ps_good (snd (PhaseShift_RemoveVisibleMapId i s)) = ps_good s" "ps_good (snd (PhaseShift_AddUiWorldMapAreaIdSwap a r s)) = ps_good s"
  "ps_good (snd (PhaseShift_RemoveUiWorldMapAreaIdSwap a s)) = ps_good s"
  by (simp_all add: PhaseShift_AddVisibleMapId_def PhaseShift_RemoveVisibleMapId_def PhaseShift_AddUiWorldMapAreaIdSwap_def
      PhaseShift_RemoveUiWorldMapAreaIdSwap_def split: option.splits prod.splits)

lemma good_ClearPhases: "ps_good (PhaseShift_ClearPhases s)"
  using ClearPhases_inv [of s] by (simp add: ps_good_def PhaseShift_ClearPhases_def ps_positive_def)

lemma good_Clear: "ps_good (PhaseShift_Clear s)"
  by (simp add: PhaseShift_Clear_def good_ClearPhases)

lemma good_flags: "ps_good s \<Longrightarrow> ps_good (PhasingHandler_SetInversed b s)" "ps_good s \<Longrightarrow> ps_good (PhasingHandler_SetAlwaysVisible b s)"
  using SetInversed_inv [of s b] SetAlwaysVisible_inv [of s b]
  by (simp_all add: ps_good_def PhasingHandler_SetInversed_def PhasingHandler_SetAlwaysVisible_def ps_positive_def)

lemma good_step: "ps_good s \<Longrightarrow> ps_counting x \<Longrightarrow> ps_good (ps_step x s)"
  by (cases x) (simp_all add: good_AddPhase good_RemovePhase good_Clear good_ClearPhases good_flags)

lemma good_ph_add: "ps_good (snd cs) \<Longrightarrow> ps_good (snd (fold (ph_add T) xs cs))"
proof (induction xs arbitrary: cs)
  case (Cons x xs)
  have "ps_good (snd (ph_add T x cs))" using Cons.prems by (simp add: ph_add_def good_AddPhase split: prod.split) (metis good_AddPhase snd_conv zero_less_one)
  then show ?case using Cons.IH by simp
qed simp

lemma good_InitDb: "ps_good (PhasingHandler_InitDbPhaseShift T u p g s)"
proof -
  have db: "ps_IsDbPhaseShift (snd (fold (ph_add T) xs cs)) = ps_IsDbPhaseShift (snd cs)" for xs cs
  proof (induction xs arbitrary: cs)
    case (Cons x xs)
    then show ?case by (simp add: ph_add_def split: prod.split) (metis AddPhase_other(1) snd_conv)
  qed simp
  define s0 where "s0 = (PhaseShift_ClearPhases s)\<lparr>ps_IsDbPhaseShift := True\<rparr>"
  have "ps_good s0" using good_ClearPhases [of s] by (simp add: ps_good_def s0_def ps_positive_def)
  then have s1: "ps_good (snd (fold (ph_add T) xs (False, s0)))" "ps_IsDbPhaseShift (snd (fold (ph_add T) xs (False, s0)))" for xs
    by (simp_all add: good_ph_add db) (simp add: s0_def)
  then show ?thesis unfolding PhasingHandler_InitDbPhaseShift_def Let_def s0_def [symmetric] by (simp add: ps_good_def ps_positive_def)
qed

text \<open>A suppressed shift also has no phase without conditions.\<close>

definition sup_ok :: "PhaseShift \<Rightarrow> bool" where
  "sup_ok s \<longleftrightarrow> ps_good s \<and> \<not> ps_IsDbPhaseShift s \<and> pc_all (\<lambda>c. c \<noteq> None) s"

lemma sup_init: "sup_ok PhaseShift_init"
  by (simp add: sup_ok_def good_init) (simp add: pc_all_def PhaseShift_init_def)

lemma sup_AddPhase: "sup_ok s \<Longrightarrow> 0 < r \<Longrightarrow> c \<noteq> None \<Longrightarrow> sup_ok (snd (PhaseShift_AddPhase i f c r s))"
  by (simp add: sup_ok_def good_AddPhase AddPhase_other pc_all_AddPhase)

lemma sup_RemovePhase: "sup_ok s \<Longrightarrow> sup_ok (snd (PhaseShift_RemovePhase i s))"
  by (simp add: sup_ok_def good_RemovePhase RemovePhase_other pc_all_RemovePhase)

lemma sup_drop: "sup_ok s \<Longrightarrow> map_of (ps_Phases s) i = Some p \<Longrightarrow> sup_ok (ps_drop i p s)"
  by (auto simp: sup_ok_def good_drop pc_all_def)

lemma sup_ClearPhases: "\<not> ps_IsDbPhaseShift s \<Longrightarrow> sup_ok (PhaseShift_ClearPhases s)"
  by (simp add: sup_ok_def good_ClearPhases) (simp add: pc_all_def PhaseShift_ClearPhases_def)

lemma sup_irrelevant [simp]: "sup_ok (s\<lparr>ps_PersonalGuid := g\<rparr>) = sup_ok s" "sup_ok (s\<lparr>ps_VisibleMapIds := v\<rparr>) = sup_ok s"
  "sup_ok (s\<lparr>ps_UiWorldMapAreaIdSwaps := u\<rparr>) = sup_ok s" "sup_ok (snd (PhaseShift_AddVisibleMapId m t r s)) = sup_ok s"
  by (simp_all add: sup_ok_def pc_all_def PhaseShift_AddVisibleMapId_def split: option.splits prod.splits)

text \<open>What is left of the list a loop goes over is in the shift as it was.\<close>

definition still_in :: "(u16 \<times> PhaseRef) list \<Rightarrow> PhaseShift \<Rightarrow> bool" where
  "still_in xs s \<longleftrightarrow> distinct (map fst xs) \<and> (\<forall>(i, p) \<in> set xs. map_of (ps_Phases s) i = Some p)"

lemma still_in_own: "om_ok (ps_Phases s) \<Longrightarrow> still_in (ps_Phases s) s"
  by (auto simp: still_in_def om_ok_distinct om_get_iff)

lemma still_in_tl: "still_in (x # xs) s \<Longrightarrow> still_in xs s"
  by (simp add: still_in_def)

lemma still_in_drop: "still_in ((i, p) # xs) s \<Longrightarrow> still_in xs (ps_drop i p s)"
  by (force simp: still_in_def)

lemma still_in_refs: "still_in ((i, p) # xs) s \<Longrightarrow> ps_good s \<Longrightarrow> 0 < pr_References p"
  by (auto simp: still_in_def ps_good_def positive_iff)

lemma oc_suppress_good:
  "still_in xs ps \<Longrightarrow> ps_good ps \<Longrightarrow> sup_ok ns \<Longrightarrow> oc_suppress meets xs ps ns = (ps', ns') \<Longrightarrow> ps_good ps' \<and> sup_ok ns'"
proof (induction xs arbitrary: ps ns)
  case (Cons x xs)
  obtain i p where x: "x = (i, p)" by force
  note ip = Cons.prems(1) [unfolded x]
  have at: "map_of (ps_Phases ps) i = Some p" using ip by (simp add: still_in_def)
  note drop = still_in_drop [OF ip] good_drop [OF Cons.prems(2) at]
  show ?case
  proof (cases "visible_condition meets (pr_AreaConditions p)")
    case True
    with Cons.prems(4) have "oc_suppress meets xs ps ns = (ps', ns')" by (cases "pr_AreaConditions p") (simp_all add: x)
    with Cons.IH [OF still_in_tl [OF ip] Cons.prems(2,3)] show ?thesis by blast
  next
    case False
    then obtain c where c: "pr_AreaConditions p = Some c" "\<not> meets c" by (cases "pr_AreaConditions p") auto
    with Cons.prems(4) have run: "oc_suppress meets xs (ps_drop i p ps)
        (snd (PhaseShift_AddPhase (ucast i) (pr_Flags p) (Some c) (pr_References p) ns)) = (ps', ns')"
      by (simp add: x Let_def ps_drop_def)
    have "sup_ok (snd (PhaseShift_AddPhase (ucast i) (pr_Flags p) (Some c) (pr_References p) ns))"
      using Cons.prems(3) still_in_refs [OF ip Cons.prems(2)] by (simp add: sup_AddPhase)
    from Cons.IH [OF drop this run] show ?thesis .
  qed
qed simp

lemma oc_restore_good:
  "still_in xs spr \<Longrightarrow> ps_good ps \<Longrightarrow> sup_ok spr \<Longrightarrow> oc_restore meets xs changed ps spr = Inr (changed', ps', spr') \<Longrightarrow>
     ps_good ps' \<and> sup_ok spr'"
proof (induction xs arbitrary: changed ps spr)
  case (Cons x xs)
  obtain i p where x: "x = (i, p)" by force
  note ip = Cons.prems(1) [unfolded x]
  have at: "map_of (ps_Phases spr) i = Some p" using ip by (simp add: still_in_def)
  obtain c where c: "pr_AreaConditions p = Some c" using Cons.prems(4) by (cases "pr_AreaConditions p") (auto simp: x)
  show ?case
  proof (cases "meets c")
    case False
    with Cons.prems(4) c have "oc_restore meets xs changed ps spr = Inr (changed', ps', spr')" by (simp add: x)
    with Cons.IH [OF still_in_tl [OF ip] Cons.prems(2,3)] show ?thesis by blast
  next
    case True
    define r where "r = PhaseShift_AddPhase (ucast i) (pr_Flags p) (Some c) (pr_References p) ps"
    have run: "oc_restore meets xs (fst r \<or> changed) (snd r) (ps_drop i p spr) = Inr (changed', ps', spr')"
      using Cons.prems(4) c True by (simp add: x Let_def ps_drop_def r_def split: prod.splits)
    have "0 < pr_References p" by (rule still_in_refs [OF ip]) (use Cons.prems(3) in \<open>simp add: sup_ok_def\<close>)
    then have "ps_good (snd r)" using Cons.prems(2) by (simp add: r_def good_AddPhase)
    from Cons.IH [OF still_in_drop [OF ip] this sup_drop [OF Cons.prems(3) at] run] show ?thesis .
  qed
qed simp

lemma good_fold_swaps:
  "ps_good (snd (fold (\<lambda>a (c, t). case PhaseShift_AddUiWorldMapAreaIdSwap a 1 t of (d, t') \<Rightarrow> (d \<or> c, t')) xs ct)) = ps_good (snd ct)"
  "ps_good (snd (fold (\<lambda>a (c, t). case PhaseShift_RemoveUiWorldMapAreaIdSwap a t of (d, t') \<Rightarrow> (d \<or> c, t')) xs ct)) = ps_good (snd ct)"
proof (induction xs arbitrary: ct)
  case (Cons a xs)
  { case 1 then show ?case using Cons.IH(1) good_maps(3) by (simp add: case_prod_unfold) }
  { case 2 then show ?case using Cons.IH(2) good_maps(4) by (simp add: case_prod_unfold) }
qed simp_all

lemma oc_suppress_maps_good:
  "oc_suppress_maps meets xs c ps ns = (c', ps', ns') \<Longrightarrow> (ps_good ps \<longrightarrow> ps_good ps') \<and> (sup_ok ns \<longrightarrow> sup_ok ns')"
proof (induction xs arbitrary: c ps ns)
  case (Cons x xs)
  obtain m r info where x: "x = (m, r, info)" using prod_cases3 by blast
  show ?case
  proof (cases "meets m")
    case False
    define ct where "ct = fold (\<lambda>a (c, t). case PhaseShift_RemoveUiWorldMapAreaIdSwap a t of (e, t') \<Rightarrow> (e \<or> c, t')) (ts_UiWorldMapAreaIDSwaps info) (c, ps)"
    have "oc_suppress_maps meets xs (fst ct) ((snd ct)\<lparr>ps_VisibleMapIds := om_del m (ps_VisibleMapIds (snd ct))\<rparr>)
        (snd (PhaseShift_AddVisibleMapId m info r ns)) = (c', ps', ns')"
      using Cons.prems False by (simp add: x Let_def ct_def case_prod_unfold)
    from Cons.IH [OF this] show ?thesis by (simp add: ct_def good_fold_swaps)
  qed (use Cons x in auto)
qed simp

lemma oc_restore_maps_good:
  "oc_restore_maps meets xs c ps spr = (c', ps', spr') \<Longrightarrow> (ps_good ps \<longrightarrow> ps_good ps') \<and> (sup_ok spr \<longrightarrow> sup_ok spr')"
proof (induction xs arbitrary: c ps spr)
  case (Cons x xs)
  obtain m r info where x: "x = (m, r, info)" using prod_cases3 by blast
  show ?case
  proof (cases "meets m")
    case True
    define r0 where "r0 = PhaseShift_AddVisibleMapId m info r ps"
    define ct where "ct = fold (\<lambda>a (c, t). case PhaseShift_AddUiWorldMapAreaIdSwap a 1 t of (d, t') \<Rightarrow> (d \<or> c, t'))
      (ts_UiWorldMapAreaIDSwaps info) (fst r0 \<or> c, snd r0)"
    have "oc_restore_maps meets xs (fst ct) (snd ct) (spr\<lparr>ps_VisibleMapIds := om_del m (ps_VisibleMapIds spr)\<rparr>) = (c', ps', spr')"
      using Cons.prems True by (simp add: x Let_def ct_def r0_def case_prod_unfold)
    from Cons.IH [OF this] show ?thesis by (simp add: ct_def good_fold_swaps r0_def)
  qed (use Cons x in auto)
qed simp

lemma oc_auras_good: "oc_auras T xs ps ns = (ps', ns') \<Longrightarrow> ps_good ps \<Longrightarrow> sup_ok ns \<Longrightarrow> ps_good ps' \<and> sup_ok ns'"
proof (induction xs arbitrary: ps ns)
  case (Cons i xs)
  obtain f e ns1 where r: "PhaseShift_RemovePhase i ns = ((f, e), ns1)" by (metis prod.exhaust)
  with sup_RemovePhase [OF Cons.prems(3), of i] have "sup_ok ns1" by simp
  moreover have "ps_good (if f \<or> e then snd (PhaseShift_AddPhase i (GetPhaseFlags T i) None 1 ps) else ps)"
    using Cons.prems(2) by (simp add: good_AddPhase)
  ultimately show ?case using Cons.IH Cons.prems(1) r by simp
qed simp

text \<open>
  The objects the server has: new ones, and what the handlers make of them. An operation on the visible shift alone
  stands for the entry points \<open>AddPhase\<close>, \<open>AddPhaseGroup\<close>, \<open>AddVisibleMapId\<close>, \<open>SetInversed\<close> and so on; whatever does not
  touch the two shifts (auras, controlled units, the log of updates) may change at any time.
\<close>

inductive phased :: "PhasedObject \<Rightarrow> bool" where
  new: "po_PhaseShift ob = PhaseShift_init \<Longrightarrow> po_SuppressedPhaseShift ob = PhaseShift_init \<Longrightarrow> phased ob"
| rest: "phased ob \<Longrightarrow> po_PhaseShift ob' = po_PhaseShift ob \<Longrightarrow> po_SuppressedPhaseShift ob' = po_SuppressedPhaseShift ob \<Longrightarrow> phased ob'"
| direct: "phased ob \<Longrightarrow> ps_counting x \<Longrightarrow> phased (ob\<lparr>po_PhaseShift := ps_step x (po_PhaseShift ob)\<rparr>)"
| database: "phased ob \<Longrightarrow> phased (ob\<lparr>po_PhaseShift := PhasingHandler_InitDbPhaseShift T u p g (po_PhaseShift ob)\<rparr>)"
| inherit: "phased ob \<Longrightarrow> phased source \<Longrightarrow>
    phased (ob\<lparr>po_PhaseShift := po_PhaseShift source, po_SuppressedPhaseShift := po_SuppressedPhaseShift source\<rparr>)"
| reset: "phased ob \<Longrightarrow> phased (PhasingHandler_ResetPhaseShift ob)"
| map_change: "phased ob \<Longrightarrow> phased (PhasingHandler_OnMapChange T terrainMeets mapId ob)"
| area_change: "phased ob \<Longrightarrow> phased (PhasingHandler_OnAreaChange T meets areaId ob)"
| condition_change: "phased ob \<Longrightarrow> PhasingHandler_OnConditionChange T meets terrainMeets ob = Inr ob' \<Longrightarrow> phased ob'"

definition po_ok :: "PhasedObject \<Rightarrow> bool" where
  "po_ok ob \<longleftrightarrow> ps_good (po_PhaseShift ob) \<and> sup_ok (po_SuppressedPhaseShift ob)"

lemma po_ok_simps [simp]: "po_ok (po_update v c ob) = po_ok ob" "po_ok (po_inherit ob) = po_ok ob"
  "po_ok (ob\<lparr>po_PhaseShift := s, po_SuppressedPhaseShift := t\<rparr>) \<longleftrightarrow> ps_good s \<and> sup_ok t"
  by (simp_all add: po_ok_def po_update_def po_inherit_def)

lemma OnMapChange_ok: "po_ok ob \<Longrightarrow> po_ok (PhasingHandler_OnMapChange T terrainMeets mapId ob)"
proof -
  assume ok: "po_ok ob"
  define step where "step = (\<lambda>info (ps, spr). if terrainMeets (ts_Id info) then (snd (ph_add_map info 1 (False, ps)), spr)
              else (ps, snd (PhaseShift_AddVisibleMapId (ts_Id info) info 1 spr)))"
  have one: "ps_good (snd (ph_add_map info 1 (False, ps))) = ps_good ps" for info ps
    by (simp add: ph_add_map_def case_prod_unfold good_fold_swaps(1) [unfolded case_prod_unfold])
  have "ps_good (fst ss) \<and> sup_ok (snd ss) \<Longrightarrow> ps_good (fst (fold step xs ss)) \<and> sup_ok (snd (fold step xs ss))" for xs ss
    by (induction xs arbitrary: ss) (auto simp: step_def one case_prod_unfold)
  note kept = this
  define ss where "ss = ((po_PhaseShift ob)\<lparr>ps_VisibleMapIds := [], ps_UiWorldMapAreaIdSwaps := []\<rparr>,
    (po_SuppressedPhaseShift ob)\<lparr>ps_VisibleMapIds := []\<rparr>)"
  define xs where "xs = (case pt_mapSwaps T mapId of None \<Rightarrow> [] | Some xs \<Rightarrow> xs)"
  obtain ps spr where run: "fold step xs ss = (ps, spr)" by (metis prod.exhaust)
  have "ps_good (fst ss) \<and> sup_ok (snd ss)" using ok by (simp add: po_ok_def ss_def)
  from kept [OF this, of xs] run have "ps_good ps \<and> sup_ok spr" by simp
  then show ?thesis
    unfolding PhasingHandler_OnMapChange_def Let_def step_def [symmetric] xs_def [symmetric] ss_def [symmetric] run by simp
qed

lemma OnAreaChange_ok: "po_ok ob \<Longrightarrow> po_ok (PhasingHandler_OnAreaChange T meets areaId ob)"
proof -
  assume ok: "po_ok ob"
  define step where "step = (\<lambda>(phaseId, x :: u32 list, c) (ps, spr).
              if meets c then (snd (PhaseShift_AddPhase phaseId (GetPhaseFlags T phaseId) (Some c) 1 ps), spr)
              else (ps, snd (PhaseShift_AddPhase phaseId (GetPhaseFlags T phaseId) (Some c) 1 spr)))"
  define areaPhases where "areaPhases = filter (\<lambda>(phaseId, exclusions, c). areaId \<notin> set exclusions)
            (concat (map (\<lambda>a. case pt_areaPhases T a of None \<Rightarrow> [] | Some xs \<Rightarrow> xs) (pt_areaParents T areaId)))"
  have "ps_good (fst ss) \<and> sup_ok (snd ss) \<Longrightarrow> ps_good (fst (fold step xs ss)) \<and> sup_ok (snd (fold step xs ss))" for xs ss
    by (induction xs arbitrary: ss) (auto simp: step_def case_prod_unfold good_AddPhase sup_AddPhase)
  note kept = this
  obtain ps spr where ss: "fold step areaPhases (PhaseShift_ClearPhases (po_PhaseShift ob), PhaseShift_ClearPhases (po_SuppressedPhaseShift ob)) = (ps, spr)"
    by (metis prod.exhaust)
  have "sup_ok (PhaseShift_ClearPhases (po_SuppressedPhaseShift ob))"
    using ok by (intro sup_ClearPhases) (simp add: po_ok_def sup_ok_def)
  with kept [of "(PhaseShift_ClearPhases (po_PhaseShift ob), PhaseShift_ClearPhases (po_SuppressedPhaseShift ob))" areaPhases] ss
  have good: "ps_good ps" "sup_ok spr" by (simp_all add: good_ClearPhases)
  have "ps_good (snd (fold (ph_add T) ys (fold (ph_add T) xs (c, ps))))" for xs ys c
    using good(1) by (simp add: good_ph_add)
  with good show ?thesis
    unfolding PhasingHandler_OnAreaChange_def Let_def step_def [symmetric] areaPhases_def [symmetric] ss
    by (simp add: case_prod_unfold)
qed

lemma fold_suppress_good:
  "sup_ok s \<Longrightarrow> list_all (\<lambda>(i, p). 0 < pr_References p \<and> pr_AreaConditions p \<noteq> None) xs \<Longrightarrow>
     sup_ok (fold (\<lambda>(i, p) s. snd (PhaseShift_AddPhase (ucast i) (pr_Flags p) (pr_AreaConditions p) (pr_References p) s)) xs s)"
proof (induction xs arbitrary: s)
  case (Cons x xs)
  obtain i p where "x = (i, p)" by force
  with Cons show ?case by (auto simp: sup_AddPhase)
qed simp

lemma fold_suppress_maps_good:
  "sup_ok s \<Longrightarrow> sup_ok (fold (\<lambda>(m, r, info) s. snd (PhaseShift_AddVisibleMapId m info r s)) xs s)"
  by (induction xs arbitrary: s) auto

lemma sup_entries: "sup_ok s \<Longrightarrow> list_all (\<lambda>(i, p). 0 < pr_References p \<and> pr_AreaConditions p \<noteq> None) (ps_Phases s)"
  by (fastforce simp: sup_ok_def ps_good_def ps_positive_def pc_all_def list_all_iff simp flip: om_get_iff)

lemma OnConditionChange_ok:
  assumes ok: "po_ok ob" and run: "PhasingHandler_OnConditionChange T meets terrainMeets ob = Inr ob'"
  shows "po_ok ob'"
proof -
  let ?ps0 = "po_PhaseShift ob" and ?spr0 = "po_SuppressedPhaseShift ob"
  have g: "ps_good ?ps0" "sup_ok ?spr0" using ok by (simp_all add: po_ok_def)
  obtain ps1 ns1 where s1: "oc_suppress meets (ps_Phases ?ps0) ?ps0 PhaseShift_init = (ps1, ns1)" by force
  from oc_suppress_good [OF still_in_own g(1) sup_init s1] g(1) have g1: "ps_good ps1" "sup_ok ns1" by (simp_all add: ps_good_def)
  obtain c2 ps2 spr2 where s2: "oc_restore meets (ps_Phases ?spr0) False ps1 ?spr0 = Inr (c2, ps2, spr2)"
    using run unfolding PhasingHandler_OnConditionChange_def Let_def s1 by (cases "oc_restore meets (ps_Phases ?spr0) False ps1 ?spr0") auto
  from oc_restore_good [OF still_in_own g1(1) g(2) s2] g(2) have g2: "ps_good ps2" "sup_ok spr2" by (simp_all add: sup_ok_def ps_good_def)
  obtain c3 ps3 ns3 where s3: "oc_suppress_maps terrainMeets (ps_VisibleMapIds ps2) c2 ps2 ns1 = (c3, ps3, ns3)" by (metis prod.exhaust)
  obtain c4 ps4 spr4 where s4: "oc_restore_maps terrainMeets (ps_VisibleMapIds spr2) c3 ps3 spr2 = (c4, ps4, spr4)" by (metis prod.exhaust)
  have g4: "ps_good ps4" "sup_ok ns3" "sup_ok spr4"
    using oc_suppress_maps_good [OF s3] oc_restore_maps_good [OF s4] g1 g2 by simp_all
  obtain ps5 ns5 where s5: "(if po_isUnit ob
      then oc_auras T (po_auraPhases ob @ concat (map (ph_group T) (po_auraPhaseGroups ob))) ps4 ns3
      else (ps4, ns3)) = (ps5, ns5)" by force
  have g5: "ps_good ps5" "sup_ok ns5" using s5 g4(1,2) oc_auras_good by (auto split: if_splits)
  from fold_suppress_maps_good [OF fold_suppress_good [OF g4(3) sup_entries [OF g5(2)]]] g5(1) run show ?thesis
    unfolding PhasingHandler_OnConditionChange_def Let_def s1 s2 and_then.simps prod.case s3 s4 s5
    by (auto split: if_splits)
qed

lemma phased_ok: "phased ob \<Longrightarrow> po_ok ob"
proof (induction rule: phased.induct)
  case (new ob)
  then show ?case by (simp add: po_ok_def good_init sup_init)
next
  case (reset ob)
  then show ?case by (simp add: PhasingHandler_ResetPhaseShift_def PhaseShift_Clear_def good_ClearPhases sup_ClearPhases po_ok_def sup_ok_def [of "po_SuppressedPhaseShift ob"])
next
  case (database ob T u p g)
  then show ?case by (simp add: po_ok_def good_InitDb)
next
  case (condition_change ob T meets terrainMeets ob')
  show ?case by (rule OnConditionChange_ok [OF condition_change.IH condition_change.hyps(2)])
next
  case (direct ob x)
  then show ?case by (simp add: po_ok_def good_step)
next
  case (inherit ob source)
  then show ?case by (simp add: po_ok_def)
next
  case (rest ob ob')
  then show ?case by (simp add: po_ok_def)
qed (rule OnMapChange_ok OnAreaChange_ok, assumption)+

subsection \<open>Properties of phased objects\<close>


text \<open>An object in an area that gives phase 170 under condition 2, which does not hold, and phase 171 under condition 3.\<close>

definition demo_tables :: PhaseTables where
  "demo_tables = \<lparr>pt_phaseStore = (\<lambda>_. None), pt_phaseGroups = (\<lambda>_. None),
     pt_terrainSwap = (\<lambda>_. \<lparr>ts_Id = 0, ts_UiWorldMapAreaIDSwaps = []\<rparr>), pt_mapSwaps = (\<lambda>_. None),
     pt_areaParents = (\<lambda>a. [a]), pt_areaPhases = (\<lambda>_. Some [(170, [], 2), (171, [], 3)])\<rparr>"

definition demo_object :: PhasedObject where
  "demo_object = PhasingHandler_OnAreaChange demo_tables (\<lambda>c. c = 3) 12
     \<lparr>po_PhaseShift = PhaseShift_init, po_SuppressedPhaseShift = PhaseShift_init, po_isUnit = False,
      po_auraPhases = [], po_auraPhaseGroups = [], po_controlled = [], po_updates = []\<rparr>"

lemma demo_phased: "phased demo_object"
  unfolding demo_object_def by (rule area_change, rule new) simp_all



text \<open>C19: whether two objects see each other does not depend on which one is asked, when their phases carry the flags of
  one phase table; and every object sees itself, unless it has the shift of a creature or game object from the data base.\<close>

theorem PhaseShift_CanSee_symmetric:
  assumes "phased a" "phased b" "ps_table F (po_PhaseShift a)" "ps_table F (po_PhaseShift b)"
  shows "PhaseShift_CanSee (po_PhaseShift a) (po_PhaseShift b) = PhaseShift_CanSee (po_PhaseShift b) (po_PhaseShift a) \<and>
    (\<not> ps_IsDbPhaseShift (po_PhaseShift a) \<longrightarrow> PhaseShift_CanSee (po_PhaseShift a) (po_PhaseShift a))"
proof -
  define s t where "s = po_PhaseShift a" and "t = po_PhaseShift b"
  have good: "ps_good s" "ps_good t" using phased_ok [OF assms(1)] phased_ok [OF assms(2)] by (simp_all add: po_ok_def s_def t_def)
  then have ok: "om_ok (ps_Phases s)" "om_ok (ps_Phases t)" by (simp_all add: ps_good_def)
  have swap: "ps_shared e s t = ps_shared e t s" for e
    unfolding ps_shared_def Intersects_iff [OF ok] Intersects_iff [OF ok(2,1)]
    using ps_table_flags [OF assms(3)] ps_table_flags [OF assms(4)] unfolding s_def t_def by metis
  have "PhaseShift_CanSee s t = PhaseShift_CanSee t s"
    by (auto simp: PhaseShift_CanSee_def Let_def swap conj_commute disj_commute eq_commute)
  then show ?thesis using CanSee_refl [of s] good by (simp add: s_def t_def ps_good_def)
qed

theorem PhaseShift_CanSee_symmetric_witness:
  "PhaseShift_CanSee (po_PhaseShift demo_object) (po_PhaseShift demo_object)"
proof -
  have "ps_table (\<lambda>_. 0) (po_PhaseShift demo_object)" "\<not> ps_IsDbPhaseShift (po_PhaseShift demo_object)" by code_simp+
  then show ?thesis using PhaseShift_CanSee_symmetric [OF demo_phased demo_phased] by blast
qed

text \<open>A data base shift that lost its only phase keeps its flags, and does not see itself.\<close>

lemma database_shift_blind:
  "let s = ps_step (Ps_Remove 170) (PhasingHandler_InitDbPhaseShift demo_tables 0 170 0 PhaseShift_init)
   in ps_IsDbPhaseShift s \<and> ps_Phases s = [] \<and> \<not> PhaseShift_CanSee s s"
  by code_simp

text \<open>C20: for both shifts of an object that came about by the handlers (phases are added with positive reference counts), but
  not for a shift from the data base, the three counters are the sums of the references of the phases, and the flags
  say exactly what the phases are: \<open>NoCosmetic\<close> that there is a cosmetic one, and \<open>Unphased\<close> (\<open>InverseUnphased\<close> for
  an inverse shift) that there is the default phase or no other non-cosmetic one.\<close>

theorem PhaseShift_flags_exact:
  assumes "phased ob" "s \<in> {po_PhaseShift ob, po_SuppressedPhaseShift ob}" "\<not> ps_IsDbPhaseShift s"
  shows "let cosmetic = (\<lambda>(i, p). HasFlag (pr_Flags p) PhaseFlags_Cosmetic);
      total = (\<lambda>Q. sum_list (map (pr_References \<circ> snd) (filter Q (ps_Phases s))));
      unphased = (list_ex (\<lambda>x. \<not> cosmetic x \<and> fst x = DEFAULT_PHASE) (ps_Phases s)
        \<or> list_all (\<lambda>x. cosmetic x \<or> fst x = DEFAULT_PHASE) (ps_Phases s));
      inverse = HasFlag (ps_Flags s) PhaseShiftFlags_Inverse in
    ps_CosmeticReferences s = total cosmetic
    \<and> ps_NonCosmeticReferences s = total (\<lambda>x. \<not> cosmetic x \<and> fst x \<noteq> DEFAULT_PHASE)
    \<and> ps_DefaultReferences s = total (\<lambda>x. \<not> cosmetic x \<and> fst x = DEFAULT_PHASE)
    \<and> (HasFlag (ps_Flags s) PhaseShiftFlags_NoCosmetic = list_ex cosmetic (ps_Phases s))
    \<and> (HasFlag (ps_Flags s) PhaseShiftFlags_Unphased = (unphased \<and> \<not> inverse))
    \<and> (HasFlag (ps_Flags s) PhaseShiftFlags_InverseUnphased = (unphased \<and> inverse))"
proof -
  have inv: "ps_inv s" using phased_ok [OF assms(1)] assms(2,3) by (auto simp: po_ok_def sup_ok_def ps_good_def)
  then have f: "ps_flagged s" and c: "ps_counted s" by (simp_all add: ps_inv_def)
  have total: "om_sum g m = sum_list (map (pr_References \<circ> snd) (filter Q m))"
    if "\<And>i p. g i p = (if Q (i, p) then pr_References p else 0)" for g Q and m :: "(u16 \<times> PhaseRef) list"
    by (induction m) (auto simp: that)
  have counters: "ps_CosmeticReferences s = sum_list (map (pr_References \<circ> snd) (filter (\<lambda>(i, p). HasFlag (pr_Flags p) PhaseFlags_Cosmetic) (ps_Phases s)))"
    "ps_NonCosmeticReferences s = sum_list (map (pr_References \<circ> snd) (filter (\<lambda>x. \<not> (case x of (i, p) \<Rightarrow> HasFlag (pr_Flags p) PhaseFlags_Cosmetic) \<and> fst x \<noteq> DEFAULT_PHASE) (ps_Phases s)))"
    "ps_DefaultReferences s = sum_list (map (pr_References \<circ> snd) (filter (\<lambda>x. \<not> (case x of (i, p) \<Rightarrow> HasFlag (pr_Flags p) PhaseFlags_Cosmetic) \<and> fst x = DEFAULT_PHASE) (ps_Phases s)))"
    using c unfolding ps_counted_def by (auto intro!: total)
  have "ps_unphased s \<longleftrightarrow>
      list_ex (\<lambda>x. \<not> (case x of (i, p) \<Rightarrow> HasFlag (pr_Flags p) PhaseFlags_Cosmetic) \<and> fst x = DEFAULT_PHASE) (ps_Phases s)
      \<or> list_all (\<lambda>x. (case x of (i, p) \<Rightarrow> HasFlag (pr_Flags p) PhaseFlags_Cosmetic) \<or> fst x = DEFAULT_PHASE) (ps_Phases s)"
    using ps_inv_references(2,3) [OF inv]
    by (auto simp: ps_unphased_def list_ex_iff list_all_iff)
  with f ps_inv_references(1) [OF inv] counters show ?thesis
    unfolding Let_def by (simp add: ps_flagged_def list_ex_iff)
qed

theorem PhaseShift_flags_exact_witness:
  "\<not> HasFlag (ps_Flags (po_PhaseShift demo_object)) PhaseShiftFlags_Unphased \<and> ps_NonCosmeticReferences (po_PhaseShift demo_object) = 1"
proof -
  have "\<not> ps_IsDbPhaseShift (po_PhaseShift demo_object)" "map (\<lambda>(i, p). (i, pr_Flags p, pr_References p)) (ps_Phases (po_PhaseShift demo_object)) = [(171, 0, 1)]"
    by code_simp+
  then show ?thesis
    using PhaseShift_flags_exact [OF demo_phased, of "po_PhaseShift demo_object"]
    by (auto simp: Let_def HasFlag_bit DEFAULT_PHASE_def)
qed

end
