(* ===== verification/ChannelNotify.thy ===== *)
theory ChannelNotify
  imports ObjectGuid
begin

section \<open>Notifications of a chat channel\<close>

text \<open>
  The packets a channel sends (\<open>src/server/game/Server/Packets/ChannelPackets.h\<close>, \<open>.cpp\<close>), the notice
  types (\<open>ChatNotify\<close> in \<open>Channel.h\<close>) and the appenders that fill a \<open>ChannelNotify\<close> packet
  (\<open>ChannelAppenders.h\<close>): an appender is its \<open>NotificationType\<close> with its \<open>Append\<close> function.
  The name of a channel depends on the reader's locale, and looking it up can fail an assertion
  of the server, which is the value \<open>None\<close> here.
\<close>

datatype ChatNotify =
    CHAT_JOINED_NOTICE | CHAT_LEFT_NOTICE | CHAT_YOU_JOINED_NOTICE | CHAT_YOU_LEFT_NOTICE
  | CHAT_WRONG_PASSWORD_NOTICE | CHAT_NOT_MEMBER_NOTICE | CHAT_NOT_MODERATOR_NOTICE
  | CHAT_PASSWORD_CHANGED_NOTICE | CHAT_OWNER_CHANGED_NOTICE | CHAT_PLAYER_NOT_FOUND_NOTICE
  | CHAT_NOT_OWNER_NOTICE | CHAT_CHANNEL_OWNER_NOTICE | CHAT_MODE_CHANGE_NOTICE
  | CHAT_ANNOUNCEMENTS_ON_NOTICE | CHAT_ANNOUNCEMENTS_OFF_NOTICE | CHAT_MODERATION_ON_NOTICE
  | CHAT_MODERATION_OFF_NOTICE | CHAT_MUTED_NOTICE | CHAT_PLAYER_KICKED_NOTICE
  | CHAT_BANNED_NOTICE | CHAT_PLAYER_BANNED_NOTICE | CHAT_PLAYER_UNBANNED_NOTICE
  | CHAT_PLAYER_NOT_BANNED_NOTICE | CHAT_PLAYER_ALREADY_MEMBER_NOTICE | CHAT_INVITE_NOTICE
  | CHAT_INVITE_WRONG_FACTION_NOTICE | CHAT_WRONG_FACTION_NOTICE | CHAT_INVALID_NAME_NOTICE
  | CHAT_NOT_MODERATED_NOTICE | CHAT_PLAYER_INVITED_NOTICE | CHAT_PLAYER_INVITE_BANNED_NOTICE
  | CHAT_THROTTLED_NOTICE | CHAT_NOT_IN_AREA_NOTICE | CHAT_NOT_IN_LFG_NOTICE
  | CHAT_VOICE_ON_NOTICE | CHAT_VOICE_OFF_NOTICE | CHAT_TRIAL_RESTRICTED
  | CHAT_NOT_ALLOWED_IN_CHANNEL

fun ChatNotify_value :: "ChatNotify \<Rightarrow> u8" where
  "ChatNotify_value CHAT_JOINED_NOTICE = 0x00"
| "ChatNotify_value CHAT_LEFT_NOTICE = 0x01"
| "ChatNotify_value CHAT_YOU_JOINED_NOTICE = 0x02"
| "ChatNotify_value CHAT_YOU_LEFT_NOTICE = 0x03"
| "ChatNotify_value CHAT_WRONG_PASSWORD_NOTICE = 0x04"
| "ChatNotify_value CHAT_NOT_MEMBER_NOTICE = 0x05"
| "ChatNotify_value CHAT_NOT_MODERATOR_NOTICE = 0x06"
| "ChatNotify_value CHAT_PASSWORD_CHANGED_NOTICE = 0x07"
| "ChatNotify_value CHAT_OWNER_CHANGED_NOTICE = 0x08"
| "ChatNotify_value CHAT_PLAYER_NOT_FOUND_NOTICE = 0x09"
| "ChatNotify_value CHAT_NOT_OWNER_NOTICE = 0x0A"
| "ChatNotify_value CHAT_CHANNEL_OWNER_NOTICE = 0x0B"
| "ChatNotify_value CHAT_MODE_CHANGE_NOTICE = 0x0C"
| "ChatNotify_value CHAT_ANNOUNCEMENTS_ON_NOTICE = 0x0D"
| "ChatNotify_value CHAT_ANNOUNCEMENTS_OFF_NOTICE = 0x0E"
| "ChatNotify_value CHAT_MODERATION_ON_NOTICE = 0x0F"
| "ChatNotify_value CHAT_MODERATION_OFF_NOTICE = 0x10"
| "ChatNotify_value CHAT_MUTED_NOTICE = 0x11"
| "ChatNotify_value CHAT_PLAYER_KICKED_NOTICE = 0x12"
| "ChatNotify_value CHAT_BANNED_NOTICE = 0x13"
| "ChatNotify_value CHAT_PLAYER_BANNED_NOTICE = 0x14"
| "ChatNotify_value CHAT_PLAYER_UNBANNED_NOTICE = 0x15"
| "ChatNotify_value CHAT_PLAYER_NOT_BANNED_NOTICE = 0x16"
| "ChatNotify_value CHAT_PLAYER_ALREADY_MEMBER_NOTICE = 0x17"
| "ChatNotify_value CHAT_INVITE_NOTICE = 0x18"
| "ChatNotify_value CHAT_INVITE_WRONG_FACTION_NOTICE = 0x19"
| "ChatNotify_value CHAT_WRONG_FACTION_NOTICE = 0x1A"
| "ChatNotify_value CHAT_INVALID_NAME_NOTICE = 0x1B"
| "ChatNotify_value CHAT_NOT_MODERATED_NOTICE = 0x1C"
| "ChatNotify_value CHAT_PLAYER_INVITED_NOTICE = 0x1D"
| "ChatNotify_value CHAT_PLAYER_INVITE_BANNED_NOTICE = 0x1E"
| "ChatNotify_value CHAT_THROTTLED_NOTICE = 0x1F"
| "ChatNotify_value CHAT_NOT_IN_AREA_NOTICE = 0x20"
| "ChatNotify_value CHAT_NOT_IN_LFG_NOTICE = 0x21"
| "ChatNotify_value CHAT_VOICE_ON_NOTICE = 0x22"
| "ChatNotify_value CHAT_VOICE_OFF_NOTICE = 0x23"
| "ChatNotify_value CHAT_TRIAL_RESTRICTED = 0x24"
| "ChatNotify_value CHAT_NOT_ALLOWED_IN_CHANNEL = 0x25"

lemma ChatNotify_value_inj: "ChatNotify_value m = ChatNotify_value n \<longleftrightarrow> m = n"
  by (cases m; cases n) simp_all

record ChannelNotify =
  cn_Sender :: string
  cn_SenderGuid :: ObjectGuid
  cn_SenderAccountID :: ObjectGuid
  cn_Type :: u8
  cn_OldFlags :: u8
  cn_NewFlags :: u8
  cn_Channel :: string
  cn_SenderVirtualRealm :: u32
  cn_TargetGuid :: ObjectGuid
  cn_TargetVirtualRealm :: u32
  cn_ChatChannelID :: u32

definition ChannelNotify_init :: ChannelNotify where
  "ChannelNotify_init = \<lparr>cn_Sender = [], cn_SenderGuid = ObjectGuid_Empty,
     cn_SenderAccountID = ObjectGuid_Empty, cn_Type = 0, cn_OldFlags = 0, cn_NewFlags = 0,
     cn_Channel = [], cn_SenderVirtualRealm = 0, cn_TargetGuid = ObjectGuid_Empty,
     cn_TargetVirtualRealm = 0, cn_ChatChannelID = 0\<rparr>"

record ChannelNotifyJoined =
  cj_ChannelWelcomeMsg :: string
  cj_ChatChannelID :: u32
  cj_InstanceID :: u32
  cj_ChannelFlags :: u32
  cj_Channel :: string

record ChannelNotifyLeft =
  cl_Channel :: string
  cl_ChatChannelID :: u32
  cl_Suspended :: bool

record UserlistAdd =
  ua_AddedUserGUID :: ObjectGuid
  ua_ChannelFlags :: u32
  ua_UserFlags :: u8
  ua_ChannelID :: u32
  ua_ChannelName :: string

record UserlistRemove =
  ur_RemovedUserGUID :: ObjectGuid
  ur_ChannelFlags :: u32
  ur_ChannelID :: u32
  ur_ChannelName :: string

record UserlistUpdate =
  uu_UpdatedUserGUID :: ObjectGuid
  uu_ChannelFlags :: u32
  uu_UserFlags :: u8
  uu_ChannelID :: u32
  uu_ChannelName :: string

record ChannelPlayer =
  cp_Guid :: ObjectGuid
  cp_VirtualRealmAddress :: u32
  cp_Flags :: u8

record ChannelListResponse =
  lr_Members :: "ChannelPlayer list"
  lr_Channel :: string
  lr_ChannelFlags :: u32
  lr_Display :: bool

subsection \<open>Appenders\<close>

type_synonym appender = "u8 \<times> (ChannelNotify \<Rightarrow> ChannelNotify)"

definition JoinedAppend :: "ObjectGuid \<Rightarrow> appender" where
  "JoinedAppend guid =
     (ChatNotify_value CHAT_JOINED_NOTICE, \<lambda>d. d\<lparr>cn_SenderGuid := guid\<rparr>)"

definition LeftAppend :: "ObjectGuid \<Rightarrow> appender" where
  "LeftAppend guid =
     (ChatNotify_value CHAT_LEFT_NOTICE, \<lambda>d. d\<lparr>cn_SenderGuid := guid\<rparr>)"

definition YouJoinedAppend :: "u32 \<Rightarrow> appender" where
  "YouJoinedAppend channelId =
     (ChatNotify_value CHAT_YOU_JOINED_NOTICE, \<lambda>d. d\<lparr>cn_ChatChannelID := channelId\<rparr>)"

definition YouLeftAppend :: "u32 \<Rightarrow> appender" where
  "YouLeftAppend channelId =
     (ChatNotify_value CHAT_YOU_LEFT_NOTICE, \<lambda>d. d\<lparr>cn_ChatChannelID := channelId\<rparr>)"

definition WrongPasswordAppend :: appender where
  "WrongPasswordAppend = (ChatNotify_value CHAT_WRONG_PASSWORD_NOTICE, \<lambda>d. d)"

definition NotMemberAppend :: appender where
  "NotMemberAppend = (ChatNotify_value CHAT_NOT_MEMBER_NOTICE, \<lambda>d. d)"

definition NotModeratorAppend :: appender where
  "NotModeratorAppend = (ChatNotify_value CHAT_NOT_MODERATOR_NOTICE, \<lambda>d. d)"

definition PasswordChangedAppend :: "ObjectGuid \<Rightarrow> appender" where
  "PasswordChangedAppend guid =
     (ChatNotify_value CHAT_PASSWORD_CHANGED_NOTICE, \<lambda>d. d\<lparr>cn_SenderGuid := guid\<rparr>)"

definition OwnerChangedAppend :: "ObjectGuid \<Rightarrow> appender" where
  "OwnerChangedAppend guid =
     (ChatNotify_value CHAT_OWNER_CHANGED_NOTICE, \<lambda>d. d\<lparr>cn_SenderGuid := guid\<rparr>)"

definition PlayerNotFoundAppend :: "string \<Rightarrow> appender" where
  "PlayerNotFoundAppend playerName =
     (ChatNotify_value CHAT_PLAYER_NOT_FOUND_NOTICE, \<lambda>d. d\<lparr>cn_Sender := playerName\<rparr>)"

definition NotOwnerAppend :: appender where
  "NotOwnerAppend = (ChatNotify_value CHAT_NOT_OWNER_NOTICE, \<lambda>d. d)"

text \<open>\<open>characterName\<close> stands for \<open>sWorld->GetCharacterInfo\<close>, the cache of the characters of the realm.\<close>

definition ChannelOwnerAppend :: "(ObjectGuid \<Rightarrow> string option) \<Rightarrow> bool \<Rightarrow> ObjectGuid \<Rightarrow> appender" where
  "ChannelOwnerAppend characterName isConstant ownerGuid =
     (let ownerName = (case characterName ownerGuid of Some n \<Rightarrow> n | None \<Rightarrow> [])
      in (ChatNotify_value CHAT_CHANNEL_OWNER_NOTICE,
          \<lambda>d. d\<lparr>cn_Sender := (if isConstant \<or> ObjectGuid_IsEmpty ownerGuid then ''Nobody'' else ownerName)\<rparr>))"

definition ModeChangeAppend :: "ObjectGuid \<Rightarrow> u8 \<Rightarrow> u8 \<Rightarrow> appender" where
  "ModeChangeAppend guid oldFlags newFlags =
     (ChatNotify_value CHAT_MODE_CHANGE_NOTICE, \<lambda>d. d\<lparr>cn_SenderGuid := guid, cn_OldFlags := oldFlags, cn_NewFlags := newFlags\<rparr>)"

definition AnnouncementsOnAppend :: "ObjectGuid \<Rightarrow> appender" where
  "AnnouncementsOnAppend guid =
     (ChatNotify_value CHAT_ANNOUNCEMENTS_ON_NOTICE, \<lambda>d. d\<lparr>cn_SenderGuid := guid\<rparr>)"

definition AnnouncementsOffAppend :: "ObjectGuid \<Rightarrow> appender" where
  "AnnouncementsOffAppend guid =
     (ChatNotify_value CHAT_ANNOUNCEMENTS_OFF_NOTICE, \<lambda>d. d\<lparr>cn_SenderGuid := guid\<rparr>)"

definition MutedAppend :: appender where
  "MutedAppend = (ChatNotify_value CHAT_MUTED_NOTICE, \<lambda>d. d)"

definition PlayerKickedAppend :: "ObjectGuid \<Rightarrow> ObjectGuid \<Rightarrow> appender" where
  "PlayerKickedAppend kicker kickee =
     (ChatNotify_value CHAT_PLAYER_KICKED_NOTICE, \<lambda>d. d\<lparr>cn_SenderGuid := kicker, cn_TargetGuid := kickee\<rparr>)"

definition BannedAppend :: appender where
  "BannedAppend = (ChatNotify_value CHAT_BANNED_NOTICE, \<lambda>d. d)"

definition PlayerBannedAppend :: "ObjectGuid \<Rightarrow> ObjectGuid \<Rightarrow> appender" where
  "PlayerBannedAppend moderator banned =
     (ChatNotify_value CHAT_PLAYER_BANNED_NOTICE, \<lambda>d. d\<lparr>cn_SenderGuid := moderator, cn_TargetGuid := banned\<rparr>)"

definition PlayerUnbannedAppend :: "ObjectGuid \<Rightarrow> ObjectGuid \<Rightarrow> appender" where
  "PlayerUnbannedAppend moderator unbanned =
     (ChatNotify_value CHAT_PLAYER_UNBANNED_NOTICE, \<lambda>d. d\<lparr>cn_SenderGuid := moderator, cn_TargetGuid := unbanned\<rparr>)"

definition PlayerNotBannedAppend :: "string \<Rightarrow> appender" where
  "PlayerNotBannedAppend playerName =
     (ChatNotify_value CHAT_PLAYER_NOT_BANNED_NOTICE, \<lambda>d. d\<lparr>cn_Sender := playerName\<rparr>)"

definition PlayerAlreadyMemberAppend :: "ObjectGuid \<Rightarrow> appender" where
  "PlayerAlreadyMemberAppend guid =
     (ChatNotify_value CHAT_PLAYER_ALREADY_MEMBER_NOTICE, \<lambda>d. d\<lparr>cn_SenderGuid := guid\<rparr>)"

definition InviteAppend :: "ObjectGuid \<Rightarrow> appender" where
  "InviteAppend guid =
     (ChatNotify_value CHAT_INVITE_NOTICE, \<lambda>d. d\<lparr>cn_SenderGuid := guid\<rparr>)"

definition InviteWrongFactionAppend :: appender where
  "InviteWrongFactionAppend = (ChatNotify_value CHAT_INVITE_WRONG_FACTION_NOTICE, \<lambda>d. d)"

definition WrongFactionAppend :: appender where
  "WrongFactionAppend = (ChatNotify_value CHAT_WRONG_FACTION_NOTICE, \<lambda>d. d)"

definition InvalidNameAppend :: appender where
  "InvalidNameAppend = (ChatNotify_value CHAT_INVALID_NAME_NOTICE, \<lambda>d. d)"

definition NotModeratedAppend :: appender where
  "NotModeratedAppend = (ChatNotify_value CHAT_NOT_MODERATED_NOTICE, \<lambda>d. d)"

definition PlayerInvitedAppend :: "string \<Rightarrow> appender" where
  "PlayerInvitedAppend playerName =
     (ChatNotify_value CHAT_PLAYER_INVITED_NOTICE, \<lambda>d. d\<lparr>cn_Sender := playerName\<rparr>)"

definition PlayerInviteBannedAppend :: "string \<Rightarrow> appender" where
  "PlayerInviteBannedAppend playerName =
     (ChatNotify_value CHAT_PLAYER_INVITE_BANNED_NOTICE, \<lambda>d. d\<lparr>cn_Sender := playerName\<rparr>)"

definition ThrottledAppend :: appender where
  "ThrottledAppend = (ChatNotify_value CHAT_THROTTLED_NOTICE, \<lambda>d. d)"

definition NotInAreaAppend :: appender where
  "NotInAreaAppend = (ChatNotify_value CHAT_NOT_IN_AREA_NOTICE, \<lambda>d. d)"

definition NotInLFGAppend :: appender where
  "NotInLFGAppend = (ChatNotify_value CHAT_NOT_IN_LFG_NOTICE, \<lambda>d. d)"

definition VoiceOnAppend :: "ObjectGuid \<Rightarrow> appender" where
  "VoiceOnAppend guid =
     (ChatNotify_value CHAT_VOICE_ON_NOTICE, \<lambda>d. d\<lparr>cn_SenderGuid := guid\<rparr>)"

definition VoiceOffAppend :: "ObjectGuid \<Rightarrow> appender" where
  "VoiceOffAppend guid =
     (ChatNotify_value CHAT_VOICE_OFF_NOTICE, \<lambda>d. d\<lparr>cn_SenderGuid := guid\<rparr>)"

lemmas appender_defs = JoinedAppend_def LeftAppend_def YouJoinedAppend_def YouLeftAppend_def
  WrongPasswordAppend_def NotMemberAppend_def NotModeratorAppend_def PasswordChangedAppend_def
  OwnerChangedAppend_def PlayerNotFoundAppend_def NotOwnerAppend_def ChannelOwnerAppend_def
  ModeChangeAppend_def AnnouncementsOnAppend_def AnnouncementsOffAppend_def MutedAppend_def
  PlayerKickedAppend_def BannedAppend_def PlayerBannedAppend_def PlayerUnbannedAppend_def
  PlayerNotBannedAppend_def PlayerAlreadyMemberAppend_def InviteAppend_def
  InviteWrongFactionAppend_def WrongFactionAppend_def InvalidNameAppend_def
  NotModeratedAppend_def PlayerInvitedAppend_def PlayerInviteBannedAppend_def
  ThrottledAppend_def NotInAreaAppend_def NotInLFGAppend_def VoiceOnAppend_def
  VoiceOffAppend_def

text \<open>\<open>ChannelNameBuilder\<close>: the notice type, the channel name of the locale, then what the appender adds.\<close>

definition ChannelNameBuilder :: "('l \<Rightarrow> string option) \<Rightarrow> appender \<Rightarrow> 'l \<Rightarrow> ChannelNotify option" where
  "ChannelNameBuilder getName modifier localeIdx =
     map_option (\<lambda>name. snd modifier
       (ChannelNotify_init\<lparr>cn_Type := fst modifier, cn_Channel := name\<rparr>)) (getName localeIdx)"

end
