(* ===== verification/Channel.thy ===== *)
theory Channel
  imports ChannelNotify RBAC Util
begin

section \<open>Chat channels\<close>

text \<open>
  \<open>Channel\<close> of \<open>src/server/game/Chat/Channels/Channel.h\<close> and \<open>Channel.cpp\<close>: the members of a chat channel with
  their flags, its ban list, its owner, its password and announcement settings, and every
  operation a player can ask for. An operation takes the world it runs in (\<open>ChannelWorld\<close>: the
  connected players, the configuration and the client data bases) and the channel, and returns the
  channel with the list of what it did outside: packets delivered to players, statements for the
  data base, and the calls that register the channel with a player. \<open>ChAssertFailed\<close> in that list
  is a failed assertion (the server stops there). \<open>KickOrBan\<close> can use a reference into a map node
  it has just freed; it then returns an error.
\<close>

subsection \<open>The world a channel runs in\<close>

record ChatChannelsEntry =
  cce_Flags :: u32
  cce_Name :: "nat \<Rightarrow> string"

record AreaTableEntry =
  area_ID :: u32
  area_Name :: "nat \<Rightarrow> string"

record Player =
  pl_guid :: ObjectGuid
  pl_name :: string
  pl_team :: u32
  pl_security :: u8
  pl_rbac :: RBACData
  pl_groupGuid :: "ObjectGuid option"
  pl_isGMVisible :: bool
  pl_isVisible :: bool
  pl_ignored :: "ObjectGuid list"
  pl_filterAddonMessages :: bool
  pl_registeredAddonPrefixes :: "string list"
  pl_sessionDbLocale :: nat
  pl_sessionDbcLocale :: nat
  pl_accountGuid :: ObjectGuid
  pl_chatFlags :: u32
  pl_guildGuid :: ObjectGuid

record ChannelWorld =
  w_players :: "ObjectGuid \<Rightarrow> Player option"
  w_playerNames :: "string \<Rightarrow> Player option"
  w_normalizePlayerName :: "string \<Rightarrow> string option"
  w_restrictedLfgChannel :: bool
  w_preserveCustomChannels :: bool
  w_allowTwoSideChannel :: bool
  w_gmLevelInWhoList :: u32
  w_availableDbcLocale :: "nat \<Rightarrow> nat"
  w_chatChannels :: "u32 \<Rightarrow> ChatChannelsEntry option"
  w_stringFormat :: "string \<Rightarrow> string \<Rightarrow> string"
  w_cityString :: "nat \<Rightarrow> string"
  w_characterName :: "ObjectGuid \<Rightarrow> string option"
  w_virtualRealmAddress :: u32

definition FindConnectedPlayer :: "ChannelWorld \<Rightarrow> ObjectGuid \<Rightarrow> Player option" where
  "FindConnectedPlayer w guid = w_players w guid"

definition FindConnectedPlayerByName :: "ChannelWorld \<Rightarrow> string \<Rightarrow> Player option" where
  "FindConnectedPlayerByName w name =
     (case w_normalizePlayerName w name of None \<Rightarrow> None | Some charName \<Rightarrow> w_playerNames w charName)"

text \<open>The permissions the channel code asks a session for, with their numbers in \<open>RBAC.h\<close>.\<close>

definition RBAC_PERM_TWO_SIDE_INTERACTION_CHANNEL :: u32 where
  "RBAC_PERM_TWO_SIDE_INTERACTION_CHANNEL = 26"

definition RBAC_PERM_WHO_SEE_ALL_SEC_LEVELS :: u32 where
  "RBAC_PERM_WHO_SEE_ALL_SEC_LEVELS = 35"

definition RBAC_PERM_SILENTLY_JOIN_CHANNEL :: u32 where
  "RBAC_PERM_SILENTLY_JOIN_CHANNEL = 45"

definition RBAC_PERM_CHANGE_CHANNEL_NOT_MODERATOR :: u32 where
  "RBAC_PERM_CHANGE_CHANNEL_NOT_MODERATOR = 46"

definition Player_HasPermission :: "Player \<Rightarrow> u32 \<Rightarrow> bool" where
  "Player_HasPermission p permission = RBACData_HasPermission permission (pl_rbac p)"

definition AccountMgr_IsPlayerAccount :: "u8 \<Rightarrow> bool" where
  "AccountMgr_IsPlayerAccount gmlevel = (gmlevel = 0)"

definition PlayerSocial_HasIgnore :: "Player \<Rightarrow> ObjectGuid \<Rightarrow> bool" where
  "PlayerSocial_HasIgnore p guid = (guid \<in> set (pl_ignored p))"

definition IsAddonRegistered :: "Player \<Rightarrow> string \<Rightarrow> bool" where
  "IsAddonRegistered p prefix =
     (if \<not> pl_filterAddonMessages p then True
      else if pl_registeredAddonPrefixes p = [] then False
      else prefix \<in> set (pl_registeredAddonPrefixes p))"

definition Player_IsVisibleGloballyFor :: "Player \<Rightarrow> Player \<Rightarrow> bool" where
  "Player_IsVisibleGloballyFor p u =
     (if pl_guid u = pl_guid p then True
      else if pl_isVisible p then True
      else if \<not> AccountMgr_IsPlayerAccount (pl_security u) then pl_security p \<le> pl_security u
      else False)"

subsection \<open>The state of a channel\<close>

definition CHANNEL_FLAG_CUSTOM :: u8 where "CHANNEL_FLAG_CUSTOM = 0x01"
definition CHANNEL_FLAG_TRADE :: u8 where "CHANNEL_FLAG_TRADE = 0x04"
definition CHANNEL_FLAG_NOT_LFG :: u8 where "CHANNEL_FLAG_NOT_LFG = 0x08"
definition CHANNEL_FLAG_GENERAL :: u8 where "CHANNEL_FLAG_GENERAL = 0x10"
definition CHANNEL_FLAG_CITY :: u8 where "CHANNEL_FLAG_CITY = 0x20"
definition CHANNEL_FLAG_LFG :: u8 where "CHANNEL_FLAG_LFG = 0x40"

definition CHANNEL_DBC_FLAG_GLOBAL :: u32 where "CHANNEL_DBC_FLAG_GLOBAL = 0x00004"
definition CHANNEL_DBC_FLAG_TRADE :: u32 where "CHANNEL_DBC_FLAG_TRADE = 0x00008"
definition CHANNEL_DBC_FLAG_CITY_ONLY :: u32 where "CHANNEL_DBC_FLAG_CITY_ONLY = 0x00010"
definition CHANNEL_DBC_FLAG_CITY_ONLY2 :: u32 where "CHANNEL_DBC_FLAG_CITY_ONLY2 = 0x00020"
definition CHANNEL_DBC_FLAG_LFG :: u32 where "CHANNEL_DBC_FLAG_LFG = 0x40000"

definition MEMBER_FLAG_OWNER :: u8 where "MEMBER_FLAG_OWNER = 0x01"
definition MEMBER_FLAG_MODERATOR :: u8 where "MEMBER_FLAG_MODERATOR = 0x02"
definition MEMBER_FLAG_MUTED :: u8 where "MEMBER_FLAG_MUTED = 0x08"

record PlayerInfo =
  pi_flags :: u8
  pi_invisible :: bool

definition PlayerInfo_init :: PlayerInfo where
  "PlayerInfo_init = \<lparr>pi_flags = 0, pi_invisible = False\<rparr>"

definition PlayerInfo_HasFlag :: "u8 \<Rightarrow> PlayerInfo \<Rightarrow> bool" where
  "PlayerInfo_HasFlag flag i = (pi_flags i AND flag \<noteq> 0)"

definition PlayerInfo_SetFlag :: "u8 \<Rightarrow> PlayerInfo \<Rightarrow> PlayerInfo" where
  "PlayerInfo_SetFlag flag i = i\<lparr>pi_flags := pi_flags i OR flag\<rparr>"

definition PlayerInfo_RemoveFlag :: "u8 \<Rightarrow> PlayerInfo \<Rightarrow> PlayerInfo" where
  "PlayerInfo_RemoveFlag flag i = i\<lparr>pi_flags := pi_flags i AND NOT flag\<rparr>"

definition PlayerInfo_IsOwner :: "PlayerInfo \<Rightarrow> bool" where
  "PlayerInfo_IsOwner i = PlayerInfo_HasFlag MEMBER_FLAG_OWNER i"

definition PlayerInfo_SetOwner :: "bool \<Rightarrow> PlayerInfo \<Rightarrow> PlayerInfo" where
  "PlayerInfo_SetOwner state i =
     (if state then PlayerInfo_SetFlag MEMBER_FLAG_OWNER i else PlayerInfo_RemoveFlag MEMBER_FLAG_OWNER i)"

definition PlayerInfo_IsModerator :: "PlayerInfo \<Rightarrow> bool" where
  "PlayerInfo_IsModerator i = PlayerInfo_HasFlag MEMBER_FLAG_MODERATOR i"

definition PlayerInfo_SetModerator :: "bool \<Rightarrow> PlayerInfo \<Rightarrow> PlayerInfo" where
  "PlayerInfo_SetModerator state i =
     (if state then PlayerInfo_SetFlag MEMBER_FLAG_MODERATOR i
      else PlayerInfo_RemoveFlag MEMBER_FLAG_MODERATOR i)"

definition PlayerInfo_IsMuted :: "PlayerInfo \<Rightarrow> bool" where
  "PlayerInfo_IsMuted i = PlayerInfo_HasFlag MEMBER_FLAG_MUTED i"

definition PlayerInfo_SetMuted :: "bool \<Rightarrow> PlayerInfo \<Rightarrow> PlayerInfo" where
  "PlayerInfo_SetMuted state i =
     (if state then PlayerInfo_SetFlag MEMBER_FLAG_MUTED i else PlayerInfo_RemoveFlag MEMBER_FLAG_MUTED i)"

record Channel =
  ch_announceEnabled :: bool
  ch_ownershipEnabled :: bool
  ch_persistentChannel :: bool
  ch_isOwnerInvisible :: bool
  ch_channelFlags :: u8
  ch_channelId :: u32
  ch_channelTeam :: u32
  ch_ownerGuid :: ObjectGuid
  ch_channelName :: string
  ch_channelPassword :: string
  ch_playersStore :: "(ObjectGuid \<times> PlayerInfo) list"
  ch_bannedStore :: "ObjectGuid list"
  ch_zoneEntry :: "AreaTableEntry option"

record Chat =
  ct_SlashCmd :: u8
  ct_Language :: u32
  ct_SenderGUID :: ObjectGuid
  ct_SenderAccountGUID :: ObjectGuid
  ct_SenderGuildGUID :: ObjectGuid
  ct_PartyGUID :: ObjectGuid
  ct_TargetGUID :: ObjectGuid
  ct_SenderName :: string
  ct_ChatFlags :: u32
  ct_SenderVirtualAddress :: u32
  ct_TargetVirtualAddress :: u32
  ct_Channel :: string
  ct_Prefix :: string
  ct_ChatText :: string

datatype chan_packet =
    PktNotify ChannelNotify
  | PktNotifyJoined ChannelNotifyJoined
  | PktNotifyLeft ChannelNotifyLeft
  | PktUserlistAdd UserlistAdd
  | PktUserlistRemove UserlistRemove
  | PktUserlistUpdate UserlistUpdate
  | PktList ChannelListResponse
  | PktChat Chat

datatype chan_event =
    ChDeliver ObjectGuid chan_packet
  | ChPlayerJoined ObjectGuid
  | ChPlayerLeft ObjectGuid
  | ChDbInsert string u32
  | ChDbUpdate bool bool string string string u32
  | ChDbUsage string u32
  | ChAssertFailed

datatype chan_error = Chan_DanglingInfo | Chan_NoEntry | Chan_OutOfRange

definition Channel_IsConstant :: "Channel \<Rightarrow> bool" where
  "Channel_IsConstant c = (ch_channelId c \<noteq> 0)"

definition Channel_IsLFG :: "Channel \<Rightarrow> bool" where
  "Channel_IsLFG c = (ch_channelFlags c AND CHANNEL_FLAG_LFG \<noteq> 0)"

definition Channel_HasFlag :: "u8 \<Rightarrow> Channel \<Rightarrow> bool" where
  "Channel_HasFlag flag c = (ch_channelFlags c AND flag \<noteq> 0)"

definition Channel_GetNumPlayers :: "Channel \<Rightarrow> u32" where
  "Channel_GetNumPlayers c = of_nat (length (ch_playersStore c))"

definition Channel_IsOn :: "ObjectGuid \<Rightarrow> Channel \<Rightarrow> bool" where
  "Channel_IsOn who c = (map_of (ch_playersStore c) who \<noteq> None)"

definition Channel_IsBanned :: "ObjectGuid \<Rightarrow> Channel \<Rightarrow> bool" where
  "Channel_IsBanned guid c = (guid \<in> set (ch_bannedStore c))"

definition Channel_GetPlayerFlags :: "ObjectGuid \<Rightarrow> Channel \<Rightarrow> u8" where
  "Channel_GetPlayerFlags guid c =
     (case map_of (ch_playersStore c) guid of Some i \<Rightarrow> pi_flags i | None \<Rightarrow> 0)"

text \<open>\<open>_playersStore.at (guid)\<close>, on a guid that is on the channel; a member's record is changed in place.\<close>

definition Channel_info :: "ObjectGuid \<Rightarrow> Channel \<Rightarrow> PlayerInfo" where
  "Channel_info guid c =
     (case map_of (ch_playersStore c) guid of Some i \<Rightarrow> i | None \<Rightarrow> PlayerInfo_init)"

definition Channel_upd_info :: "ObjectGuid \<Rightarrow> (PlayerInfo \<Rightarrow> PlayerInfo) \<Rightarrow> Channel \<Rightarrow> Channel" where
  "Channel_upd_info guid f c = c\<lparr>ch_playersStore := om_upd guid f (ch_playersStore c)\<rparr>"

definition Channel_SetOwnership :: "bool \<Rightarrow> Channel \<Rightarrow> Channel" where
  "Channel_SetOwnership ownership c = c\<lparr>ch_ownershipEnabled := ownership\<rparr>"

definition Channel_SetAnnounce :: "bool \<Rightarrow> Channel \<Rightarrow> Channel" where
  "Channel_SetAnnounce nannounce c = c\<lparr>ch_announceEnabled := nannounce\<rparr>"

definition Channel_SetPassword :: "string \<Rightarrow> Channel \<Rightarrow> Channel" where
  "Channel_SetPassword npassword c = c\<lparr>ch_channelPassword := npassword\<rparr>"

subsection \<open>Construction, names and storage\<close>

definition Channel_builtin :: "ChannelWorld \<Rightarrow> u32 \<Rightarrow> u32 \<Rightarrow> AreaTableEntry option \<Rightarrow> chan_error + Channel" where
  "Channel_builtin w channelId team zoneEntry =
     (case w_chatChannels w channelId of
        None \<Rightarrow> Inl Chan_NoEntry
      | Some channelEntry \<Rightarrow>
          let f0 = CHANNEL_FLAG_GENERAL;
              f1 = (if cce_Flags channelEntry AND CHANNEL_DBC_FLAG_TRADE \<noteq> 0
                    then f0 OR CHANNEL_FLAG_TRADE else f0);
              f2 = (if cce_Flags channelEntry AND CHANNEL_DBC_FLAG_CITY_ONLY2 \<noteq> 0
                    then f1 OR CHANNEL_FLAG_CITY else f1);
              f3 = (if cce_Flags channelEntry AND CHANNEL_DBC_FLAG_LFG \<noteq> 0
                    then f2 OR CHANNEL_FLAG_LFG else f2 OR CHANNEL_FLAG_NOT_LFG)
          in Inr \<lparr>ch_announceEnabled = False, ch_ownershipEnabled = False,
               ch_persistentChannel = False, ch_isOwnerInvisible = False, ch_channelFlags = f3,
               ch_channelId = channelId, ch_channelTeam = team, ch_ownerGuid = ObjectGuid_Empty,
               ch_channelName = [], ch_channelPassword = [], ch_playersStore = [],
               ch_bannedStore = [], ch_zoneEntry = zoneEntry\<rparr>)"

text \<open>The ban list of a stored channel: guids in hexadecimal, high word first. \<open>std::string::substr\<close>
  throws when the token is shorter than 16 characters.\<close>

fun load_banned :: "string list \<Rightarrow> ObjectGuid list \<Rightarrow> chan_error + ObjectGuid list" where
  "load_banned [] banned = Inr banned"
| "load_banned (token # tokens) banned =
     (if length token < 16 then Inl Chan_OutOfRange
      else let bannedGuid = ObjectGuid (strtoull16 (drop 16 token)) (strtoull16 (take 16 token))
        in load_banned tokens
             (if ObjectGuid_IsEmpty bannedGuid then banned else List.insert bannedGuid banned))"

text \<open>The row \<open>CHAR_SEL_CHANNEL\<close> returns: name, announce, ownership, password and ban list.\<close>

type_synonym channel_row = "string \<times> bool \<times> bool \<times> string \<times> string"

definition Channel_custom :: "ChannelWorld \<Rightarrow> (string \<Rightarrow> u32 \<Rightarrow> channel_row option) \<Rightarrow> string \<Rightarrow> u32
    \<Rightarrow> chan_error + (Channel \<times> chan_event list)" where
  "Channel_custom w query name team =
     (let c = \<lparr>ch_announceEnabled = True, ch_ownershipEnabled = True,
               ch_persistentChannel = False, ch_isOwnerInvisible = False,
               ch_channelFlags = CHANNEL_FLAG_CUSTOM, ch_channelId = 0, ch_channelTeam = team,
               ch_ownerGuid = ObjectGuid_Empty, ch_channelName = name, ch_channelPassword = [],
               ch_playersStore = [], ch_bannedStore = [], ch_zoneEntry = None\<rparr>
      in if \<not> w_preserveCustomChannels w then Inr (c, [])
         else case query name team of
           Some (dbName, announce, ownership, password, bannedList) \<Rightarrow>
             and_then (if bannedList = [] then Inr []
                       else load_banned (Tokenizer bannedList CHR '' '' True) [])
               (\<lambda>banned. Inr (c\<lparr>ch_channelName := dbName, ch_announceEnabled := announce,
                  ch_ownershipEnabled := ownership, ch_channelPassword := password,
                  ch_bannedStore := banned, ch_persistentChannel := True\<rparr>, []))
         | None \<Rightarrow> Inr (c\<lparr>ch_persistentChannel := True\<rparr>, [ChDbInsert name team]))"

definition Channel_GetChannelName :: "ChannelWorld \<Rightarrow> string \<Rightarrow> u32 \<Rightarrow> nat \<Rightarrow> AreaTableEntry option
    \<Rightarrow> string option" where
  "Channel_GetChannelName w channelName channelId loc zoneEntry =
     (if channelId \<noteq> 0
      then case w_chatChannels w channelId of
             None \<Rightarrow> None
           | Some channelEntry \<Rightarrow>
               (if cce_Flags channelEntry AND CHANNEL_DBC_FLAG_GLOBAL = 0
                then if cce_Flags channelEntry AND CHANNEL_DBC_FLAG_CITY_ONLY \<noteq> 0
                     then Some (w_stringFormat w (cce_Name channelEntry loc) (w_cityString w loc))
                     else map_option
                       (\<lambda>z. w_stringFormat w (cce_Name channelEntry loc) (area_Name z loc)) zoneEntry
                else Some (cce_Name channelEntry loc))
      else Some channelName)"

definition Channel_GetName :: "ChannelWorld \<Rightarrow> Channel \<Rightarrow> nat \<Rightarrow> string option" where
  "Channel_GetName w c loc =
     Channel_GetChannelName w (ch_channelName c) (ch_channelId c) loc (ch_zoneEntry c)"

definition ascii_tolower :: "char \<Rightarrow> char" where
  "ascii_tolower ch = (let n = of_char ch :: nat in if 65 \<le> n \<and> n \<le> 90 then char_of (n + 32) else ch)"

definition Channel_GetLowerName :: "Channel \<Rightarrow> string" where
  "Channel_GetLowerName c = map ascii_tolower (ch_channelName c)"

definition Channel_IsWorld :: "Channel \<Rightarrow> bool" where
  "Channel_IsWorld c = (Channel_GetLowerName c \<in> {''world'', ''world_es'', ''world_fr''})"

definition Channel_banlist :: "Channel \<Rightarrow> string" where
  "Channel_banlist c = concat (map (\<lambda>guid. ObjectGuid_print guid @ '' '') (ch_bannedStore c))"

definition Channel_UpdateChannelInDB :: "Channel \<Rightarrow> chan_event list" where
  "Channel_UpdateChannelInDB c =
     (if ch_persistentChannel c
      then [ChDbUpdate (ch_announceEnabled c) (ch_ownershipEnabled c) (ch_channelPassword c)
              (Channel_banlist c) (ch_channelName c) (ch_channelTeam c)]
      else [])"

definition Channel_UpdateChannelUseageInDB :: "Channel \<Rightarrow> chan_event list" where
  "Channel_UpdateChannelUseageInDB c = [ChDbUsage (ch_channelName c) (ch_channelTeam c)]"

subsection \<open>Delivery\<close>

text \<open>A packet builder gives the packet for a locale. \<open>LocalizedPacketDo\<close> builds it once per locale and
  sends it to each player it is applied to.\<close>

type_synonym packet_builder = "nat \<Rightarrow> chan_packet option"

definition LocalizedPacketDo :: "packet_builder \<Rightarrow> Player \<Rightarrow> chan_event list" where
  "LocalizedPacketDo builder p =
     (case builder (pl_sessionDbLocale p) of
        None \<Rightarrow> [ChAssertFailed] | Some pkt \<Rightarrow> [ChDeliver (pl_guid p) pkt])"

definition Channel_SendToAll :: "ChannelWorld \<Rightarrow> packet_builder \<Rightarrow> ObjectGuid \<Rightarrow> Channel \<Rightarrow> chan_event list" where
  "Channel_SendToAll w builder guid c =
     concat (map (\<lambda>(g, _). case FindConnectedPlayer w g of
          None \<Rightarrow> []
        | Some p \<Rightarrow> (if ObjectGuid_IsEmpty guid \<or> \<not> PlayerSocial_HasIgnore p guid
                     then LocalizedPacketDo builder p else [])) (ch_playersStore c))"

definition Channel_SendToAllButOne :: "ChannelWorld \<Rightarrow> packet_builder \<Rightarrow> ObjectGuid \<Rightarrow> Channel \<Rightarrow> chan_event list" where
  "Channel_SendToAllButOne w builder who c =
     concat (map (\<lambda>(g, _). if g \<noteq> who
        then (case FindConnectedPlayer w g of None \<Rightarrow> [] | Some p \<Rightarrow> LocalizedPacketDo builder p)
        else []) (ch_playersStore c))"

definition Channel_SendToOne :: "ChannelWorld \<Rightarrow> packet_builder \<Rightarrow> ObjectGuid \<Rightarrow> chan_event list" where
  "Channel_SendToOne w builder who =
     (case FindConnectedPlayer w who of None \<Rightarrow> [] | Some p \<Rightarrow> LocalizedPacketDo builder p)"

definition Channel_SendToAllWithAddon :: "ChannelWorld \<Rightarrow> packet_builder \<Rightarrow> string \<Rightarrow> ObjectGuid \<Rightarrow> Channel
    \<Rightarrow> chan_event list" where
  "Channel_SendToAllWithAddon w builder addonPrefix guid c =
     concat (map (\<lambda>(g, _). case FindConnectedPlayer w g of
          None \<Rightarrow> []
        | Some p \<Rightarrow> (if IsAddonRegistered p addonPrefix \<and>
                        (ObjectGuid_IsEmpty guid \<or> \<not> PlayerSocial_HasIgnore p guid)
                     then LocalizedPacketDo builder p else [])) (ch_playersStore c))"

text \<open>A \<open>ChannelNameBuilder\<close> on an appender, as a packet builder.\<close>

definition chan_notice :: "ChannelWorld \<Rightarrow> Channel \<Rightarrow> appender \<Rightarrow> packet_builder" where
  "chan_notice w c appender loc =
     map_option PktNotify (ChannelNameBuilder (Channel_GetName w c) appender (w_availableDbcLocale w loc))"

definition notice_to :: "ChannelWorld \<Rightarrow> Channel \<Rightarrow> appender \<Rightarrow> ObjectGuid \<Rightarrow> chan_event list" where
  "notice_to w c appender guid = Channel_SendToOne w (chan_notice w c appender) guid"

definition notice_all :: "ChannelWorld \<Rightarrow> appender \<Rightarrow> Channel \<Rightarrow> chan_event list" where
  "notice_all w appender c = Channel_SendToAll w (chan_notice w c appender) ObjectGuid_Empty c"

text \<open>The two guards almost every operation starts with: the player is on the channel, and is a moderator
  or may act without being one.\<close>

definition if_member :: "ChannelWorld \<Rightarrow> ObjectGuid \<Rightarrow> Channel \<Rightarrow> Channel \<times> chan_event list
    \<Rightarrow> Channel \<times> chan_event list" where
  "if_member w guid c body =
     (if \<not> Channel_IsOn guid c then (c, notice_to w c NotMemberAppend guid) else body)"

definition if_moderator :: "ChannelWorld \<Rightarrow> Player \<Rightarrow> Channel \<Rightarrow> Channel \<times> chan_event list
    \<Rightarrow> Channel \<times> chan_event list" where
  "if_moderator w player c body =
     if_member w (pl_guid player) c
       (if \<not> PlayerInfo_IsModerator (Channel_info (pl_guid player) c)
           \<and> \<not> Player_HasPermission player RBAC_PERM_CHANGE_CHANNEL_NOT_MODERATOR
        then (c, notice_to w c NotModeratorAppend (pl_guid player)) else body)"

subsection \<open>Ownership, moderation and notifications\<close>

definition Channel_SetOwner_guid :: "ChannelWorld \<Rightarrow> ObjectGuid \<Rightarrow> bool \<Rightarrow> Channel \<Rightarrow> Channel \<times> chan_event list" where
  "Channel_SetOwner_guid w guid exclaim c =
     (let c1 = (if \<not> ObjectGuid_IsEmpty (ch_ownerGuid c)
                then Channel_upd_info (ch_ownerGuid c) (PlayerInfo_SetOwner False) c else c);
          c2 = c1\<lparr>ch_ownerGuid := guid\<rparr>
      in if ObjectGuid_IsEmpty guid \<or> \<not> Channel_IsOn guid c2 then (c2, [])
         else let c3 = Channel_upd_info guid (\<lambda>i. PlayerInfo_SetOwner True (PlayerInfo_SetModerator True i)) c2
           in (c3, notice_all w (ModeChangeAppend guid (Channel_GetPlayerFlags guid c2)
                                   (Channel_GetPlayerFlags guid c3)) c3 @
                   (if exclaim then notice_all w (OwnerChangedAppend guid) c3 else []) @
                   Channel_UpdateChannelInDB c3))"

definition Channel_SetModerator_guid :: "ChannelWorld \<Rightarrow> ObjectGuid \<Rightarrow> bool \<Rightarrow> Channel
    \<Rightarrow> Channel \<times> chan_event list" where
  "Channel_SetModerator_guid w guid on c =
     (if \<not> Channel_IsOn guid c then (c, [])
      else if PlayerInfo_IsModerator (Channel_info guid c) \<noteq> on
      then let c1 = Channel_upd_info guid (PlayerInfo_SetModerator on) c
        in (c1, notice_all w (ModeChangeAppend guid (Channel_GetPlayerFlags guid c)
                                (Channel_GetPlayerFlags guid c1)) c1)
      else (c, []))"

definition Channel_SetMute_guid :: "ChannelWorld \<Rightarrow> ObjectGuid \<Rightarrow> bool \<Rightarrow> Channel
    \<Rightarrow> Channel \<times> chan_event list" where
  "Channel_SetMute_guid w guid on c =
     (if \<not> Channel_IsOn guid c then (c, [])
      else if PlayerInfo_IsMuted (Channel_info guid c) \<noteq> on
      then let c1 = Channel_upd_info guid (PlayerInfo_SetMuted on) c
        in (c1, notice_all w (ModeChangeAppend guid (Channel_GetPlayerFlags guid c)
                                (Channel_GetPlayerFlags guid c1)) c1)
      else (c, []))"

definition Channel_JoinNotify :: "ChannelWorld \<Rightarrow> Player \<Rightarrow> Channel \<Rightarrow> chan_event list" where
  "Channel_JoinNotify w player c =
     (let guid = pl_guid player in
      if Channel_IsConstant c
      then Channel_SendToAllButOne w (\<lambda>loc. map_option (\<lambda>name. PktUserlistAdd
             \<lparr>ua_AddedUserGUID = guid, ua_ChannelFlags = ucast (ch_channelFlags c),
              ua_UserFlags = Channel_GetPlayerFlags guid c, ua_ChannelID = ch_channelId c,
              ua_ChannelName = name\<rparr>) (Channel_GetName w c (w_availableDbcLocale w loc))) guid c
      else Channel_SendToAll w (\<lambda>loc. map_option (\<lambda>name. PktUserlistUpdate
             \<lparr>uu_UpdatedUserGUID = guid, uu_ChannelFlags = ucast (ch_channelFlags c),
              uu_UserFlags = Channel_GetPlayerFlags guid c, uu_ChannelID = ch_channelId c,
              uu_ChannelName = name\<rparr>) (Channel_GetName w c (w_availableDbcLocale w loc)))
             ObjectGuid_Empty c)"

definition Channel_LeaveNotify :: "ChannelWorld \<Rightarrow> Player \<Rightarrow> Channel \<Rightarrow> chan_event list" where
  "Channel_LeaveNotify w player c =
     (let guid = pl_guid player;
          builder = (\<lambda>loc. map_option (\<lambda>name. PktUserlistRemove
             \<lparr>ur_RemovedUserGUID = guid, ur_ChannelFlags = ucast (ch_channelFlags c),
              ur_ChannelID = ch_channelId c, ur_ChannelName = name\<rparr>)
             (Channel_GetName w c (w_availableDbcLocale w loc)))
      in if Channel_IsConstant c then Channel_SendToAllButOne w builder guid c
         else Channel_SendToAll w builder ObjectGuid_Empty c)"

subsection \<open>Joining and leaving\<close>

text \<open>The part of \<open>JoinChannel\<close> behind its guards.\<close>

definition Channel_admit :: "ChannelWorld \<Rightarrow> Player \<Rightarrow> Channel \<Rightarrow> Channel \<times> chan_event list" where
  "Channel_admit w player c =
     (let guid = pl_guid player;
          joined = (if ch_announceEnabled c \<and> \<not> Player_HasPermission player RBAC_PERM_SILENTLY_JOIN_CHANNEL
                    then notice_all w (JoinedAppend guid) c else []);
          newChannel = (ch_playersStore c = []);
          invisible = (\<not> pl_isGMVisible player);
          c1 = c\<lparr>ch_playersStore := om_put guid (PlayerInfo_init\<lparr>pi_invisible := invisible\<rparr>)
                                       (ch_playersStore c)\<rparr>;
          you = Channel_SendToOne w (\<lambda>loc. map_option (\<lambda>name. PktNotifyJoined
                  \<lparr>cj_ChannelWelcomeMsg = [], cj_ChatChannelID = ch_channelId c1, cj_InstanceID = 0,
                   cj_ChannelFlags = ucast (ch_channelFlags c1), cj_Channel = name\<rparr>)
                  (Channel_GetName w c1 (w_availableDbcLocale w loc))) guid;
          evs = ChPlayerJoined guid # joined @ you @ Channel_JoinNotify w player c1
      in if Channel_IsConstant c1 then (c1, evs)
         else let evs1 = evs @ (if ch_playersStore c1 \<noteq> [] then Channel_UpdateChannelUseageInDB c1 else [])
           in if ch_ownershipEnabled c1 \<and> (newChannel \<or> \<not> invisible)
                 \<and> (ObjectGuid_IsEmpty (ch_ownerGuid c1) \<or> ch_isOwnerInvisible c1)
              then let (c2, evs2) = Channel_SetOwner_guid w guid (\<not> newChannel \<and> \<not> invisible)
                                      (c1\<lparr>ch_isOwnerInvisible := invisible\<rparr>)
                in (Channel_upd_info guid (PlayerInfo_SetModerator True) c2, evs1 @ evs2)
              else (c1, evs1))"

definition Channel_JoinChannel :: "ChannelWorld \<Rightarrow> Player \<Rightarrow> string \<Rightarrow> Channel \<Rightarrow> Channel \<times> chan_event list" where
  "Channel_JoinChannel w player pass c =
     (let guid = pl_guid player in
      if Channel_IsOn guid c
      then (c, if \<not> Channel_IsConstant c then notice_to w c (PlayerAlreadyMemberAppend guid) guid else [])
      else if Channel_IsBanned guid c then (c, notice_to w c BannedAppend guid)
      else if ch_channelPassword c \<noteq> [] \<and> pass \<noteq> ch_channelPassword c
      then (c, notice_to w c WrongPasswordAppend guid)
      else if Channel_HasFlag CHANNEL_FLAG_LFG c \<and> w_restrictedLfgChannel w
              \<and> AccountMgr_IsPlayerAccount (pl_security player) \<and> pl_groupGuid player \<noteq> None
      then (c, notice_to w c NotInLFGAppend guid)
      else Channel_admit w player c)"

text \<open>The new owner of a channel its owner has left: the first member that is not an invisible game
  master, else the first member.\<close>

definition Channel_next_owner :: "(ObjectGuid \<times> PlayerInfo) list \<Rightarrow> ObjectGuid \<times> PlayerInfo" where
  "Channel_next_owner m =
     (case find (\<lambda>(_, i). \<not> pi_invisible i) m of Some x \<Rightarrow> x | None \<Rightarrow> hd m)"

definition Channel_hand_over :: "ChannelWorld \<Rightarrow> Channel \<Rightarrow> Channel \<times> chan_event list" where
  "Channel_hand_over w c =
     (let (newowner, i) = Channel_next_owner (ch_playersStore c);
          c1 = Channel_upd_info newowner (PlayerInfo_SetModerator True) c;
          (c2, evs) = Channel_SetOwner_guid w newowner True c1
      in (if pi_invisible i then c2\<lparr>ch_isOwnerInvisible := True\<rparr> else c2, evs))"

definition Channel_LeaveChannel :: "ChannelWorld \<Rightarrow> Player \<Rightarrow> bool \<Rightarrow> bool \<Rightarrow> Channel
    \<Rightarrow> Channel \<times> chan_event list" where
  "Channel_LeaveChannel w player send suspend c =
     (let guid = pl_guid player in
      if \<not> Channel_IsOn guid c then (c, if send then notice_to w c NotMemberAppend guid else [])
      else let you = (if send then Channel_SendToOne w (\<lambda>loc. map_option (\<lambda>name. PktNotifyLeft
                        \<lparr>cl_Channel = name, cl_ChatChannelID = ch_channelId c, cl_Suspended = suspend\<rparr>)
                        (Channel_GetName w c (w_availableDbcLocale w loc))) guid else []);
               changeowner = PlayerInfo_IsOwner (Channel_info guid c);
               c1 = c\<lparr>ch_playersStore := om_del guid (ch_playersStore c)\<rparr>;
               evs = ChPlayerLeft guid # you @
                 (if ch_announceEnabled c1 \<and> \<not> Player_HasPermission player RBAC_PERM_SILENTLY_JOIN_CHANNEL
                  then notice_all w (LeftAppend guid) c1 else []) @
                 Channel_LeaveNotify w player c1
        in if Channel_IsConstant c1 then (c1, evs)
           else let evs1 = evs @ Channel_UpdateChannelUseageInDB c1
             in if changeowner \<and> ch_ownershipEnabled c1 \<and> ch_playersStore c1 \<noteq> []
                then let (c2, evs2) = Channel_hand_over w c1 in (c2, evs1 @ evs2)
                else (c1, evs1))"

subsection \<open>Commands of the members\<close>

definition Channel_KickOrBan :: "ChannelWorld \<Rightarrow> Player \<Rightarrow> string \<Rightarrow> bool \<Rightarrow> Channel
    \<Rightarrow> chan_error + (Channel \<times> chan_event list)" where
  "Channel_KickOrBan w player badname ban c =
     (let good = pl_guid player;
          moderates = Player_HasPermission player RBAC_PERM_CHANGE_CHANNEL_NOT_MODERATOR;
          silent = Player_HasPermission player RBAC_PERM_SILENTLY_JOIN_CHANNEL
      in if \<not> Channel_IsOn good c then Inr (c, notice_to w c NotMemberAppend good)
      else if \<not> PlayerInfo_IsModerator (Channel_info good c) \<and> \<not> moderates
      then Inr (c, notice_to w c NotModeratorAppend good)
      else let victim = (case FindConnectedPlayerByName w badname of
                           Some bad \<Rightarrow> pl_guid bad | None \<Rightarrow> ObjectGuid_Empty)
      in if ObjectGuid_IsEmpty victim \<or> \<not> Channel_IsOn victim c
      then Inr (c, notice_to w c (PlayerNotFoundAppend badname) good)
      else let changeowner = (ch_ownerGuid c = victim)
      in if \<not> moderates \<and> changeowner \<and> good \<noteq> ch_ownerGuid c
      then Inr (c, notice_to w c NotOwnerAppend good)
      else let (c1, evs1) =
             (if ban \<and> \<not> Channel_IsBanned victim c
              then let c1 = c\<lparr>ch_bannedStore := List.insert victim (ch_bannedStore c)\<rparr>
                in (c1, Channel_UpdateChannelInDB c1 @
                        (if \<not> silent then notice_all w (PlayerBannedAppend good victim) c1 else []))
              else (c, if \<not> silent then notice_all w (PlayerKickedAppend good victim) c else []));
             c2 = c1\<lparr>ch_playersStore := om_del victim (ch_playersStore c1)\<rparr>;
             evs2 = evs1 @ [ChPlayerLeft victim]
      in if changeowner \<and> ch_ownershipEnabled c2 \<and> ch_playersStore c2 \<noteq> []
         then if good = victim then Inl Chan_DanglingInfo
           else let c3 = Channel_upd_info good (PlayerInfo_SetModerator True) c2;
                    (c4, evs4) = Channel_SetOwner_guid w good True c3
             in Inr (c4, evs2 @ evs4)
         else Inr (c2, evs2))"

definition Channel_Kick :: "ChannelWorld \<Rightarrow> Player \<Rightarrow> string \<Rightarrow> Channel
    \<Rightarrow> chan_error + (Channel \<times> chan_event list)" where
  "Channel_Kick w player badname c = Channel_KickOrBan w player badname False c"

definition Channel_Ban :: "ChannelWorld \<Rightarrow> Player \<Rightarrow> string \<Rightarrow> Channel
    \<Rightarrow> chan_error + (Channel \<times> chan_event list)" where
  "Channel_Ban w player badname c = Channel_KickOrBan w player badname True c"

definition Channel_UnBan :: "ChannelWorld \<Rightarrow> Player \<Rightarrow> string \<Rightarrow> Channel \<Rightarrow> Channel \<times> chan_event list" where
  "Channel_UnBan w player badname c =
     if_moderator w player c
       (let good = pl_guid player;
            victim = (case FindConnectedPlayerByName w badname of
                        Some bad \<Rightarrow> pl_guid bad | None \<Rightarrow> ObjectGuid_Empty)
        in if ObjectGuid_IsEmpty victim \<or> \<not> Channel_IsBanned victim c
           then (c, notice_to w c (PlayerNotFoundAppend badname) good)
           else let c1 = c\<lparr>ch_bannedStore := filter (\<lambda>g. g \<noteq> victim) (ch_bannedStore c)\<rparr>
             in (c1, notice_all w (PlayerUnbannedAppend good victim) c1 @ Channel_UpdateChannelInDB c1))"

definition Channel_Password :: "ChannelWorld \<Rightarrow> Player \<Rightarrow> string \<Rightarrow> Channel \<Rightarrow> Channel \<times> chan_event list" where
  "Channel_Password w player pass c =
     if_moderator w player c
       (let c1 = c\<lparr>ch_channelPassword := pass\<rparr>
        in (c1, notice_all w (PasswordChangedAppend (pl_guid player)) c1 @ Channel_UpdateChannelInDB c1))"

text \<open>The members of the other faction can only be addressed by a session, and in a session, that may
  talk across the factions.\<close>

definition cross_faction_refused :: "Player \<Rightarrow> Player \<Rightarrow> bool" where
  "cross_faction_refused player newp \<longleftrightarrow> pl_team player \<noteq> pl_team newp
     \<and> (\<not> Player_HasPermission player RBAC_PERM_TWO_SIDE_INTERACTION_CHANNEL
        \<or> \<not> Player_HasPermission newp RBAC_PERM_TWO_SIDE_INTERACTION_CHANNEL)"

definition Channel_SetMode :: "ChannelWorld \<Rightarrow> Player \<Rightarrow> string \<Rightarrow> bool \<Rightarrow> bool \<Rightarrow> Channel
    \<Rightarrow> Channel \<times> chan_event list" where
  "Channel_SetMode w player p2n md on c =
     if_moderator w player c
       (let guid = pl_guid player in
        if guid = ch_ownerGuid c \<and> p2n = pl_name player \<and> md then (c, [])
        else case FindConnectedPlayerByName w p2n of
          None \<Rightarrow> (c, notice_to w c (PlayerNotFoundAppend p2n) guid)
        | Some newp \<Rightarrow>
            let victim = pl_guid newp in
            if ObjectGuid_IsEmpty victim \<or> \<not> Channel_IsOn victim c \<or> cross_faction_refused player newp
            then (c, notice_to w c (PlayerNotFoundAppend p2n) guid)
            else if ch_ownerGuid c = victim \<and> ch_ownerGuid c \<noteq> guid
            then (c, notice_to w c NotOwnerAppend guid)
            else if md then Channel_SetModerator_guid w victim on c
            else Channel_SetMute_guid w victim on c)"

definition Channel_SetInvisible :: "Player \<Rightarrow> bool \<Rightarrow> Channel \<Rightarrow> Channel" where
  "Channel_SetInvisible player on c =
     (if \<not> Channel_IsOn (pl_guid player) c then c
      else let c1 = Channel_upd_info (pl_guid player) (\<lambda>i. i\<lparr>pi_invisible := on\<rparr>) c
        in if ch_ownerGuid c1 = pl_guid player then c1\<lparr>ch_isOwnerInvisible := on\<rparr> else c1)"

definition Channel_SetOwner :: "ChannelWorld \<Rightarrow> Player \<Rightarrow> string \<Rightarrow> Channel \<Rightarrow> Channel \<times> chan_event list" where
  "Channel_SetOwner w player newname c =
     if_member w (pl_guid player) c
       (let guid = pl_guid player in
        if \<not> Player_HasPermission player RBAC_PERM_CHANGE_CHANNEL_NOT_MODERATOR \<and> guid \<noteq> ch_ownerGuid c
        then (c, notice_to w c NotOwnerAppend guid)
        else case FindConnectedPlayerByName w newname of
          None \<Rightarrow> (c, notice_to w c (PlayerNotFoundAppend newname) guid)
        | Some newp \<Rightarrow>
            let victim = pl_guid newp in
            if ObjectGuid_IsEmpty victim \<or> \<not> Channel_IsOn victim c \<or> cross_faction_refused player newp
            then (c, notice_to w c (PlayerNotFoundAppend newname) guid)
            else Channel_SetOwner_guid w victim True
                   (Channel_upd_info victim (PlayerInfo_SetModerator True) c))"

definition Channel_SendWhoOwner :: "ChannelWorld \<Rightarrow> Player \<Rightarrow> Channel \<Rightarrow> Channel \<times> chan_event list" where
  "Channel_SendWhoOwner w player c =
     (let guid = pl_guid player in
      if Channel_IsOn guid c
      then (c, notice_to w c
              (ChannelOwnerAppend (w_characterName w) (Channel_IsConstant c) (ch_ownerGuid c)) guid)
      else (c, notice_to w c NotMemberAppend guid))"

definition Channel_List :: "ChannelWorld \<Rightarrow> Player \<Rightarrow> Channel \<Rightarrow> Channel \<times> chan_event list" where
  "Channel_List w player c =
     if_member w (pl_guid player) c
       (case Channel_GetName w c (pl_sessionDbcLocale player) of
          None \<Rightarrow> (c, [ChAssertFailed])
        | Some channelName \<Rightarrow>
            (c, [ChDeliver (pl_guid player) (PktList
              \<lparr>lr_Members = concat (map (\<lambda>(g, i). case FindConnectedPlayer w g of
                   None \<Rightarrow> []
                 | Some member \<Rightarrow>
                     (if (Player_HasPermission player RBAC_PERM_WHO_SEE_ALL_SEC_LEVELS
                          \<or> ucast (pl_security member) \<le> w_gmLevelInWhoList w)
                         \<and> Player_IsVisibleGloballyFor member player
                      then [\<lparr>cp_Guid = g, cp_VirtualRealmAddress = w_virtualRealmAddress w,
                             cp_Flags = pi_flags i\<rparr>]
                      else [])) (ch_playersStore c)),
               lr_Channel = channelName, lr_ChannelFlags = ucast (ch_channelFlags c),
               lr_Display = True\<rparr>)]))"

definition Channel_Announce :: "ChannelWorld \<Rightarrow> Player \<Rightarrow> Channel \<Rightarrow> Channel \<times> chan_event list" where
  "Channel_Announce w player c =
     if_moderator w player c
       (let guid = pl_guid player;
            c1 = c\<lparr>ch_announceEnabled := \<not> ch_announceEnabled c\<rparr>
        in (c1, notice_all w (if ch_announceEnabled c1 then AnnouncementsOnAppend guid
                              else AnnouncementsOffAppend guid) c1 @ Channel_UpdateChannelInDB c1))"

definition Channel_Invite :: "ChannelWorld \<Rightarrow> Player \<Rightarrow> string \<Rightarrow> Channel \<Rightarrow> Channel \<times> chan_event list" where
  "Channel_Invite w player newname c =
     if_member w (pl_guid player) c
       (let guid = pl_guid player in
        case FindConnectedPlayerByName w newname of
          None \<Rightarrow> (c, notice_to w c (PlayerNotFoundAppend newname) guid)
        | Some newp \<Rightarrow>
            if \<not> pl_isGMVisible newp then (c, notice_to w c (PlayerNotFoundAppend newname) guid)
            else if Channel_IsBanned (pl_guid newp) c
            then (c, notice_to w c (PlayerInviteBannedAppend newname) guid)
            else if cross_faction_refused player newp
            then (c, notice_to w c InviteWrongFactionAppend guid)
            else if Channel_IsOn (pl_guid newp) c
            then (c, notice_to w c (PlayerAlreadyMemberAppend (pl_guid newp)) guid)
            else (c, (if \<not> PlayerSocial_HasIgnore newp guid
                      then notice_to w c (InviteAppend guid) (pl_guid newp) else []) @
                     notice_to w c (PlayerInvitedAppend (pl_name newp)) guid))"

definition Channel_SilenceAll :: "Player \<Rightarrow> string \<Rightarrow> Channel \<Rightarrow> Channel" where
  "Channel_SilenceAll player name c = c"

definition Channel_UnsilenceAll :: "Player \<Rightarrow> string \<Rightarrow> Channel \<Rightarrow> Channel" where
  "Channel_UnsilenceAll player name c = c"

definition Channel_DeclineInvite :: "Player \<Rightarrow> Channel \<Rightarrow> Channel" where
  "Channel_DeclineInvite player c = c"

subsection \<open>Chat\<close>

definition LANG_UNIVERSAL :: u32 where "LANG_UNIVERSAL = 0"
definition LANG_ADDON :: u32 where "LANG_ADDON = 0xFFFFFFFF"
definition CHAT_MSG_CHANNEL :: u8 where "CHAT_MSG_CHANNEL = 0x11"

text \<open>\<open>Chat::Initialize\<close> with a player, or nobody, as sender and receiver; no achievement.\<close>

definition Chat_SetSender :: "Player \<Rightarrow> Chat \<Rightarrow> Chat" where
  "Chat_SetSender p k = k\<lparr>ct_SenderGUID := pl_guid p, ct_SenderAccountGUID := pl_accountGuid p,
     ct_ChatFlags := pl_chatFlags p, ct_SenderGuildGUID := pl_guildGuid p,
     ct_PartyGUID := (case pl_groupGuid p of Some g \<Rightarrow> g | None \<Rightarrow> ct_PartyGUID k)\<rparr>"

definition Chat_Initialize :: "ChannelWorld \<Rightarrow> u8 \<Rightarrow> u32 \<Rightarrow> Player option \<Rightarrow> Player option \<Rightarrow> string \<Rightarrow> string
    \<Rightarrow> string \<Rightarrow> Chat" where
  "Chat_Initialize w chatType language sender receiver message channelName addonPrefix =
     (let k = \<lparr>ct_SlashCmd = chatType, ct_Language = language, ct_SenderGUID = ObjectGuid_Empty,
               ct_SenderAccountGUID = ObjectGuid_Empty, ct_SenderGuildGUID = ObjectGuid_Empty,
               ct_PartyGUID = ObjectGuid_Empty, ct_TargetGUID = ObjectGuid_Empty,
               ct_SenderName = [], ct_ChatFlags = 0, ct_SenderVirtualAddress = 0,
               ct_TargetVirtualAddress = 0, ct_Channel = [], ct_Prefix = [], ct_ChatText = []\<rparr>;
          k1 = (case sender of Some p \<Rightarrow> Chat_SetSender p k | None \<Rightarrow> k);
          k2 = (case receiver of Some p \<Rightarrow> k1\<lparr>ct_TargetGUID := pl_guid p\<rparr> | None \<Rightarrow> k1)
      in k2\<lparr>ct_SenderVirtualAddress := w_virtualRealmAddress w,
            ct_TargetVirtualAddress := w_virtualRealmAddress w,
            ct_Channel := channelName, ct_Prefix := addonPrefix, ct_ChatText := message\<rparr>)"

definition chan_chat :: "ChannelWorld \<Rightarrow> Channel \<Rightarrow> ObjectGuid \<Rightarrow> string \<Rightarrow> u32 \<Rightarrow> string \<Rightarrow> packet_builder" where
  "chan_chat w c guid what lang prefix loc =
     map_option (\<lambda>name. PktChat
        (case FindConnectedPlayer w guid of
           Some p \<Rightarrow> Chat_Initialize w CHAT_MSG_CHANNEL lang (Some p) (Some p) what name prefix
         | None \<Rightarrow> (Chat_Initialize w CHAT_MSG_CHANNEL lang None None what name prefix)
             \<lparr>ct_SenderGUID := guid, ct_TargetGUID := guid\<rparr>))
       (Channel_GetName w c (w_availableDbcLocale w loc))"

definition Channel_Say :: "ChannelWorld \<Rightarrow> ObjectGuid \<Rightarrow> string \<Rightarrow> u32 \<Rightarrow> Channel \<Rightarrow> chan_event list" where
  "Channel_Say w guid what lang c =
     (if what = [] then []
      else let lang1 = (if w_allowTwoSideChannel w then LANG_UNIVERSAL else lang)
      in if \<not> Channel_IsOn guid c then notice_to w c NotMemberAppend guid
      else if PlayerInfo_IsMuted (Channel_info guid c) then notice_to w c MutedAppend guid
      else Channel_SendToAll w (chan_chat w c guid what lang1 [])
             (if \<not> PlayerInfo_IsModerator (Channel_info guid c) then guid else ObjectGuid_Empty) c)"

definition Channel_AddonSay :: "ChannelWorld \<Rightarrow> ObjectGuid \<Rightarrow> string \<Rightarrow> string \<Rightarrow> Channel \<Rightarrow> chan_event list" where
  "Channel_AddonSay w guid prefix what c =
     (if what = [] then []
      else if \<not> Channel_IsOn guid c then notice_to w c NotMemberAppend guid
      else if PlayerInfo_IsMuted (Channel_info guid c) then notice_to w c MutedAppend guid
      else Channel_SendToAllWithAddon w (chan_chat w c guid what LANG_ADDON prefix) prefix
             (if \<not> PlayerInfo_IsModerator (Channel_info guid c) then guid else ObjectGuid_Empty) c)"

definition Channel_SendToAllInChannel :: "ChannelWorld \<Rightarrow> string \<Rightarrow> string \<Rightarrow> Channel \<Rightarrow> chan_event list" where
  "Channel_SendToAllInChannel w senderName message c =
     Channel_SendToAll w (\<lambda>loc. map_option (\<lambda>name. PktChat
        ((Chat_Initialize w CHAT_MSG_CHANNEL LANG_UNIVERSAL None None message name [])
           \<lparr>ct_SenderName := senderName\<rparr>)) (Channel_GetName w c 0)) ObjectGuid_Empty c"

subsection \<open>Runs of operations\<close>

datatype chan_op =
    OpJoin Player string | OpLeave Player bool bool | OpKick Player string | OpBan Player string
  | OpUnBan Player string | OpPassword Player string | OpSetMode Player string bool bool
  | OpSetInvisible Player bool | OpSetOwner Player string | OpWhoOwner Player | OpList Player
  | OpAnnounce Player | OpInvite Player string | OpSay ObjectGuid string u32
  | OpAddonSay ObjectGuid string string | OpSystemSay string string | OpSetOwnership bool

fun chan_step :: "ChannelWorld \<Rightarrow> chan_op \<Rightarrow> Channel \<Rightarrow> chan_error + (Channel \<times> chan_event list)" where
  "chan_step w (OpJoin p pass) c = Inr (Channel_JoinChannel w p pass c)"
| "chan_step w (OpLeave p send suspend) c = Inr (Channel_LeaveChannel w p send suspend c)"
| "chan_step w (OpKick p n) c = Channel_Kick w p n c"
| "chan_step w (OpBan p n) c = Channel_Ban w p n c"
| "chan_step w (OpUnBan p n) c = Inr (Channel_UnBan w p n c)"
| "chan_step w (OpPassword p pass) c = Inr (Channel_Password w p pass c)"
| "chan_step w (OpSetMode p n md on) c = Inr (Channel_SetMode w p n md on c)"
| "chan_step w (OpSetInvisible p on) c = Inr (Channel_SetInvisible p on c, [])"
| "chan_step w (OpSetOwner p n) c = Inr (Channel_SetOwner w p n c)"
| "chan_step w (OpWhoOwner p) c = Inr (Channel_SendWhoOwner w p c)"
| "chan_step w (OpList p) c = Inr (Channel_List w p c)"
| "chan_step w (OpAnnounce p) c = Inr (Channel_Announce w p c)"
| "chan_step w (OpInvite p n) c = Inr (Channel_Invite w p n c)"
| "chan_step w (OpSay g what lang) c = Inr (c, Channel_Say w g what lang c)"
| "chan_step w (OpAddonSay g prefix what) c = Inr (c, Channel_AddonSay w g prefix what c)"
| "chan_step w (OpSystemSay sender message) c = Inr (c, Channel_SendToAllInChannel w sender message c)"
| "chan_step w (OpSetOwnership ownership) c = Inr (Channel_SetOwnership ownership c, [])"

text \<open>The world changes between two operations: each comes with its own.\<close>

fun chan_run :: "(ChannelWorld \<times> chan_op) list \<Rightarrow> Channel \<Rightarrow> chan_error + (Channel \<times> chan_event list)" where
  "chan_run [] c = Inr (c, [])"
| "chan_run ((w, x) # xs) c =
     and_then (chan_step w x c) (\<lambda>(c1, evs). map_sum id (\<lambda>(c2, evs2). (c2, evs @ evs2)) (chan_run xs c1))"

definition chan_inv :: "Channel \<Rightarrow> bool" where
  "chan_inv c \<longleftrightarrow> om_ok (ch_playersStore c)
     \<and> (\<forall>g i. map_of (ch_playersStore c) g = Some i \<longrightarrow> PlayerInfo_IsOwner i
          \<longrightarrow> g = ch_ownerGuid c \<and> \<not> ObjectGuid_IsEmpty g)
     \<and> (\<forall>g \<in> set (ch_bannedStore c). map_of (ch_playersStore c) g = None)
     \<and> \<not> (\<exists>g \<in> set (ch_bannedStore c). ObjectGuid_IsEmpty g)"

subsection \<open>Member flags\<close>

lemmas info_defs = PlayerInfo_HasFlag_def PlayerInfo_SetFlag_def PlayerInfo_RemoveFlag_def
  PlayerInfo_IsOwner_def PlayerInfo_SetOwner_def PlayerInfo_IsModerator_def
  PlayerInfo_SetModerator_def PlayerInfo_IsMuted_def PlayerInfo_SetMuted_def
  MEMBER_FLAG_OWNER_def MEMBER_FLAG_MODERATOR_def MEMBER_FLAG_MUTED_def

lemma flag_tests:
  "(x AND 1 \<noteq> (0 :: u8)) = bit x 0" "(x AND 2 \<noteq> (0 :: u8)) = bit x 1" "(x AND 8 \<noteq> (0 :: u8)) = bit x 3"
  using and_exp_eq_0_iff_not_bit [of x 0] and_exp_eq_0_iff_not_bit [of x 1]
    and_exp_eq_0_iff_not_bit [of x 3] by simp_all

lemma info_flags [simp]:
  "PlayerInfo_IsOwner (PlayerInfo_SetOwner b i) = b"
  "PlayerInfo_IsModerator (PlayerInfo_SetModerator b i) = b"
  "PlayerInfo_IsMuted (PlayerInfo_SetMuted b i) = b"
  "PlayerInfo_IsOwner (PlayerInfo_SetModerator b i) = PlayerInfo_IsOwner i"
  "PlayerInfo_IsOwner (PlayerInfo_SetMuted b i) = PlayerInfo_IsOwner i"
  "PlayerInfo_IsModerator (PlayerInfo_SetOwner b i) = PlayerInfo_IsModerator i"
  "PlayerInfo_IsModerator (PlayerInfo_SetMuted b i) = PlayerInfo_IsModerator i"
  "PlayerInfo_IsMuted (PlayerInfo_SetModerator b i) = PlayerInfo_IsMuted i"
  "PlayerInfo_IsMuted (PlayerInfo_SetOwner b i) = PlayerInfo_IsMuted i"
  by (simp_all only: info_defs flag_tests) (simp_all add: bit_simps)

lemma info_visible [simp]:
  "pi_invisible (PlayerInfo_SetModerator b i) = pi_invisible i"
  "pi_invisible (PlayerInfo_SetOwner b i) = pi_invisible i"
  "PlayerInfo_IsOwner (i\<lparr>pi_invisible := v\<rparr>) = PlayerInfo_IsOwner i"
  "\<not> PlayerInfo_IsOwner PlayerInfo_init"
  by (simp_all add: info_defs PlayerInfo_init_def)

subsection \<open>The invariant of a channel\<close>

lemma chan_invI:
  assumes "om_ok (ch_playersStore c)"
    "\<And>g i. map_of (ch_playersStore c) g = Some i \<Longrightarrow> PlayerInfo_IsOwner i \<Longrightarrow>
       g = ch_ownerGuid c \<and> \<not> ObjectGuid_IsEmpty g"
    "\<And>g. g \<in> set (ch_bannedStore c) \<Longrightarrow>
       map_of (ch_playersStore c) g = None \<and> \<not> ObjectGuid_IsEmpty g"
  shows "chan_inv c"
  using assms unfolding chan_inv_def by blast

lemma chan_invD:
  assumes "chan_inv c"
  shows "om_ok (ch_playersStore c)"
    "map_of (ch_playersStore c) g = Some i \<Longrightarrow> PlayerInfo_IsOwner i \<Longrightarrow>
       g = ch_ownerGuid c \<and> \<not> ObjectGuid_IsEmpty g"
    "g \<in> set (ch_bannedStore c) \<Longrightarrow> map_of (ch_playersStore c) g = None \<and> \<not> ObjectGuid_IsEmpty g"
  using assms unfolding chan_inv_def by blast+

text \<open>Operations that only change settings, or member records without touching their owner flag.\<close>

lemma chan_inv_settings [simp]:
  "chan_inv (c\<lparr>ch_isOwnerInvisible := b\<rparr>) = chan_inv c"
  "chan_inv (c\<lparr>ch_announceEnabled := b\<rparr>) = chan_inv c"
  "chan_inv (c\<lparr>ch_ownershipEnabled := b\<rparr>) = chan_inv c"
  "chan_inv (c\<lparr>ch_channelPassword := pass\<rparr>) = chan_inv c"
  by (simp_all add: chan_inv_def)

lemma chan_inv_upd:
  assumes "chan_inv c" "\<And>i. PlayerInfo_IsOwner (f i) \<Longrightarrow> PlayerInfo_IsOwner i"
  shows "chan_inv (Channel_upd_info g f c)"
  using assms chan_invD [OF assms(1)] unfolding Channel_upd_info_def
  by (intro chan_invI) (auto split: if_splits)

lemma chan_inv_upds [simp]:
  assumes "chan_inv c"
  shows "chan_inv (Channel_upd_info g (PlayerInfo_SetModerator b) c)"
    "chan_inv (Channel_upd_info g (PlayerInfo_SetMuted b) c)"
    "chan_inv (Channel_upd_info g (\<lambda>i. i\<lparr>pi_invisible := b\<rparr>) c)"
    "chan_inv (Channel_upd_info g (PlayerInfo_SetOwner False) c)"
  by (intro chan_inv_upd assms; simp)+

lemma chan_inv_del:
  assumes "chan_inv c"
  shows "chan_inv (c\<lparr>ch_playersStore := om_del g (ch_playersStore c)\<rparr>)"
  using chan_invD [OF assms] by (intro chan_invI) (auto split: if_splits)

lemma chan_inv_ban:
  assumes "chan_inv c" "\<not> ObjectGuid_IsEmpty g"
  shows "chan_inv (c\<lparr>ch_bannedStore := List.insert g (ch_bannedStore c),
                     ch_playersStore := om_del g (ch_playersStore c)\<rparr>)"
  using chan_invD [OF assms(1)] assms(2) by (intro chan_invI) (auto split: if_splits)

lemma upd_info_simps [simp]:
  "ch_ownerGuid (Channel_upd_info g f c) = ch_ownerGuid c"
  "ch_bannedStore (Channel_upd_info g f c) = ch_bannedStore c"
  "ch_ownershipEnabled (Channel_upd_info g f c) = ch_ownershipEnabled c"
  "ch_channelId (Channel_upd_info g f c) = ch_channelId c"
  "map_of (ch_playersStore (Channel_upd_info g f c)) =
     (map_of (ch_playersStore c))(g := map_option f (map_of (ch_playersStore c) g))"
  "Channel_IsOn h (Channel_upd_info g f c) = Channel_IsOn h c"
  by (simp_all add: Channel_upd_info_def Channel_IsOn_def)

lemma SetOwner_guid_inv:
  assumes inv: "chan_inv c"
  shows "chan_inv (fst (Channel_SetOwner_guid w guid exclaim c))"
proof -
  define c1 where "c1 = (if \<not> ObjectGuid_IsEmpty (ch_ownerGuid c)
    then Channel_upd_info (ch_ownerGuid c) (PlayerInfo_SetOwner False) c else c)"
  have "chan_inv c1" unfolding c1_def using inv by (auto intro: chan_inv_upd)
  have owner: "ch_ownerGuid c1 = ch_ownerGuid c" by (simp add: c1_def)
  have no_owner: "\<not> PlayerInfo_IsOwner i" if "map_of (ch_playersStore c1) g = Some i" for g i
  proof
    assume "PlayerInfo_IsOwner i"
    with chan_invD(2) [OF \<open>chan_inv c1\<close> that] owner have "g = ch_ownerGuid c" "\<not> ObjectGuid_IsEmpty g"
      by auto
    with that \<open>PlayerInfo_IsOwner i\<close> show False by (auto simp: c1_def split: if_splits)
  qed
  have inv2: "chan_inv (c1\<lparr>ch_ownerGuid := guid\<rparr>)"
    using chan_invD [OF \<open>chan_inv c1\<close>] no_owner by (intro chan_invI) auto
  have "chan_inv (Channel_upd_info guid (\<lambda>i. PlayerInfo_SetOwner True (PlayerInfo_SetModerator True i))
      (c1\<lparr>ch_ownerGuid := guid\<rparr>))" if "\<not> ObjectGuid_IsEmpty guid"
    using chan_invD [OF inv2] no_owner that unfolding Channel_upd_info_def
    by (intro chan_invI) (auto split: if_splits)
  with inv2 show ?thesis
    unfolding Channel_SetOwner_guid_def c1_def [symmetric] by (simp add: Let_def)
qed

lemma SetModerator_guid_inv: "chan_inv c \<Longrightarrow> chan_inv (fst (Channel_SetModerator_guid w guid on c))"
  by (simp add: Channel_SetModerator_guid_def Let_def)

lemma SetMute_guid_inv: "chan_inv c \<Longrightarrow> chan_inv (fst (Channel_SetMute_guid w guid on c))"
  by (simp add: Channel_SetMute_guid_def Let_def)

lemma admit_inv:
  assumes "chan_inv c" "\<not> Channel_IsBanned (pl_guid p) c"
  shows "chan_inv (fst (Channel_admit w p c))"
proof -
  have "chan_inv (c\<lparr>ch_playersStore := om_put (pl_guid p)
      (PlayerInfo_init\<lparr>pi_invisible := \<not> pl_isGMVisible p\<rparr>) (ch_playersStore c)\<rparr>)"
    using chan_invD [OF assms(1)] assms(2)
    by (intro chan_invI) (auto simp: Channel_IsBanned_def split: if_splits)
  then show ?thesis
    unfolding Channel_admit_def
    by (auto simp: Let_def split_def intro!: chan_inv_upds SetOwner_guid_inv)
qed

lemma JoinChannel_inv: "chan_inv c \<Longrightarrow> chan_inv (fst (Channel_JoinChannel w p pass c))"
  by (simp add: Channel_JoinChannel_def Let_def admit_inv)

lemma hand_over_inv: "chan_inv c \<Longrightarrow> chan_inv (fst (Channel_hand_over w c))"
  by (simp add: Channel_hand_over_def Let_def split_def SetOwner_guid_inv)

lemma LeaveChannel_inv: "chan_inv c \<Longrightarrow> chan_inv (fst (Channel_LeaveChannel w p send suspend c))"
  by (simp add: Channel_LeaveChannel_def Let_def split_def hand_over_inv chan_inv_del)

lemma if_member_inv: "chan_inv c \<Longrightarrow> chan_inv (fst body) \<Longrightarrow> chan_inv (fst (if_member w g c body))"
  by (simp add: if_member_def)

lemma if_moderator_inv: "chan_inv c \<Longrightarrow> chan_inv (fst body) \<Longrightarrow> chan_inv (fst (if_moderator w p c body))"
  by (simp add: if_moderator_def if_member_inv)

lemma UnBan_inv: "chan_inv c \<Longrightarrow> chan_inv (fst (Channel_UnBan w p n c))"
  unfolding Channel_UnBan_def Let_def
  by (intro if_moderator_inv) (auto simp: chan_inv_def)

lemma Password_inv: "chan_inv c \<Longrightarrow> chan_inv (fst (Channel_Password w p pass c))"
  by (simp add: Channel_Password_def Let_def if_moderator_inv)

lemma Announce_inv: "chan_inv c \<Longrightarrow> chan_inv (fst (Channel_Announce w p c))"
  by (simp add: Channel_Announce_def Let_def if_moderator_inv)

lemma SetMode_inv: "chan_inv c \<Longrightarrow> chan_inv (fst (Channel_SetMode w p n md on c))"
  unfolding Channel_SetMode_def Let_def
  by (intro if_moderator_inv) (auto split: option.split intro: SetModerator_guid_inv SetMute_guid_inv)

lemma SetInvisible_inv: "chan_inv c \<Longrightarrow> chan_inv (Channel_SetInvisible p on c)"
  by (simp add: Channel_SetInvisible_def Let_def)

lemma SetOwner_inv: "chan_inv c \<Longrightarrow> chan_inv (fst (Channel_SetOwner w p n c))"
  unfolding Channel_SetOwner_def Let_def
  by (intro if_member_inv) (auto split: option.split intro!: SetOwner_guid_inv chan_inv_upds)

lemma reply_only [simp]:
  "fst (Channel_SendWhoOwner w p c) = c" "fst (Channel_List w p c) = c"
  "fst (Channel_Invite w p n c) = c"
  by (simp_all add: Channel_SendWhoOwner_def Channel_List_def Channel_Invite_def if_member_def Let_def
      split: option.split)

subsection \<open>Kicking and banning\<close>

lemma KickOrBan_inv:
  assumes "chan_inv c" "Channel_KickOrBan w p n ban c = Inr (c', evs)"
  shows "chan_inv c'"
proof -
  have inv: "chan_inv (c\<lparr>ch_playersStore := om_del g (ch_playersStore c)\<rparr>)"
    "\<not> ObjectGuid_IsEmpty g \<Longrightarrow> chan_inv (c\<lparr>ch_bannedStore := List.insert g (ch_bannedStore c),
       ch_playersStore := om_del g (ch_playersStore c)\<rparr>)" for g
    using assms(1) by (simp_all add: chan_inv_del chan_inv_ban)
  have owner: "chan_inv d \<Longrightarrow> chan_inv (fst (Channel_SetOwner_guid w g True
      (Channel_upd_info g (PlayerInfo_SetModerator True) d)))" for d g
    by (simp add: SetOwner_guid_inv)
  show ?thesis
    using assms unfolding Channel_KickOrBan_def Let_def split_def
    by (auto split: if_splits simp: inv intro!: owner inv)
qed

lemma chan_step_inv:
  assumes "chan_inv c" "chan_step w x c = Inr (c', evs)"
  shows "chan_inv c'"
proof (cases x)
  case (OpKick p n)
  with assms show ?thesis by (auto simp: Channel_Kick_def intro: KickOrBan_inv)
next
  case (OpBan p n)
  with assms show ?thesis by (auto simp: Channel_Ban_def intro: KickOrBan_inv)
next
  case (OpJoin p pass)
  with assms JoinChannel_inv [OF assms(1)] show ?thesis by (metis chan_step.simps(1) fst_conv sum.inject(2))
next
  case (OpLeave p send suspend)
  with assms LeaveChannel_inv [OF assms(1)] show ?thesis
    by (metis chan_step.simps(2) fst_conv sum.inject(2))
next
  case (OpUnBan p n)
  with assms UnBan_inv [OF assms(1)] show ?thesis by (metis chan_step.simps(5) fst_conv sum.inject(2))
next
  case (OpPassword p pass)
  with assms Password_inv [OF assms(1)] show ?thesis by (metis chan_step.simps(6) fst_conv sum.inject(2))
next
  case (OpSetMode p n md on)
  with assms SetMode_inv [OF assms(1)] show ?thesis by (metis chan_step.simps(7) fst_conv sum.inject(2))
next
  case (OpSetInvisible p on)
  with assms show ?thesis by (auto simp: SetInvisible_inv)
next
  case (OpSetOwner p n)
  with assms SetOwner_inv [OF assms(1)] show ?thesis by (metis chan_step.simps(9) fst_conv sum.inject(2))
next
  case (OpAnnounce p)
  with assms Announce_inv [OF assms(1)] show ?thesis by (metis chan_step.simps(12) fst_conv sum.inject(2))
qed (use assms in \<open>auto simp: Channel_SetOwnership_def prod_eq_iff\<close>)

text \<open>An invariant of the steps is an invariant of the runs.\<close>

lemma chan_run_induct:
  assumes "chan_run xs c = Inr (c', evs)" "P c"
    and "\<And>w x c c' evs. (w, x) \<in> set xs \<Longrightarrow> P c \<Longrightarrow> chan_step w x c = Inr (c', evs) \<Longrightarrow> P c'"
  shows "P c'"
  using assms
proof (induction xs arbitrary: c evs)
  case (Cons y xs)
  obtain w x where y: "y = (w, x)" by force
  from Cons.prems(1) obtain c1 evs1 evs2 where st: "chan_step w x c = Inr (c1, evs1)"
    and rn: "chan_run xs c1 = Inr (c', evs2)"
    unfolding y by (cases "chan_step w x c"; cases "chan_run xs (fst (projr (chan_step w x c)))") auto
  show ?case
    using Cons.IH [OF rn] Cons.prems(2,3) st y by (metis list.set_intros)
qed simp

lemma chan_run_inv: "chan_run xs c = Inr (c', evs) \<Longrightarrow> chan_inv c \<Longrightarrow> chan_inv c'"
  by (rule chan_run_induct [where P = chan_inv]) (auto intro: chan_step_inv)

lemma load_banned_nonempty:
  "load_banned tokens banned = Inr gs \<Longrightarrow> \<not> (\<exists>g \<in> set banned. ObjectGuid_IsEmpty g) \<Longrightarrow>
     \<not> (\<exists>g \<in> set gs. ObjectGuid_IsEmpty g)"
proof (induction tokens arbitrary: banned)
  case (Cons t ts)
  define g where "g = ObjectGuid (strtoull16 (drop 16 t)) (strtoull16 (take 16 t))"
  have "load_banned ts (if ObjectGuid_IsEmpty g then banned else List.insert g banned) = Inr gs"
    using Cons.prems(1) by (simp add: g_def Let_def split: if_splits)
  then show ?case using Cons.prems(2) by (elim Cons.IH) simp
qed simp

lemma IsEmpty_Empty [simp]: "ObjectGuid_IsEmpty ObjectGuid_Empty"
  by (simp add: ObjectGuid_IsEmpty_def ObjectGuid_Empty_def)

lemma chan_inv_fresh:
  "ch_playersStore c = [] \<Longrightarrow> \<not> (\<exists>g \<in> set (ch_bannedStore c). ObjectGuid_IsEmpty g) \<Longrightarrow> chan_inv c"
  by (simp add: chan_inv_def)

lemma Channel_custom_inv:
  assumes "Channel_custom w query name team = Inr (c, evs)"
  shows "chan_inv c \<and> ch_playersStore c = [] \<and> ch_channelId c = 0"
proof (cases "w_preserveCustomChannels w \<and> query name team \<noteq> None")
  case False
  then have "\<not> w_preserveCustomChannels w \<or> w_preserveCustomChannels w \<and> query name team = None"
    by blast
  with assms show ?thesis
    by (elim disjE conjE) (auto simp: Channel_custom_def Let_def chan_inv_def)
next
  case True
  then obtain dbName an ow pass bl where q: "query name team = Some (dbName, an, ow, pass, bl)"
    by force
  with True assms obtain banned where
    "(if bl = [] then Inr [] else load_banned (Tokenizer bl CHR '' '' True) []) = Inr banned"
    and c: "ch_bannedStore c = banned" "ch_playersStore c = []" "ch_channelId c = 0"
    unfolding Channel_custom_def Let_def by (auto simp: and_then_Inr simp del: if_split)
  then have "\<not> (\<exists>g \<in> set banned. ObjectGuid_IsEmpty g)"
    using load_banned_nonempty [of _ "[]"] by (fastforce split: if_splits)
  with c show ?thesis by (simp add: chan_inv_fresh)
qed

subsection \<open>Bans\<close>

text \<open>The operation is an \<open>UnBan\<close> that names the player \<open>g\<close>.\<close>

fun lifts_ban :: "ObjectGuid \<Rightarrow> ChannelWorld \<times> chan_op \<Rightarrow> bool" where
  "lifts_ban g (w, OpUnBan p n) =
     (case FindConnectedPlayerByName w n of Some bad \<Rightarrow> pl_guid bad = g | None \<Rightarrow> False)"
| "lifts_ban g _ = False"

lemma SetOwner_guid_simps [simp]:
  "ch_bannedStore (fst (Channel_SetOwner_guid w g e c)) = ch_bannedStore c"
  "Channel_IsOn h (fst (Channel_SetOwner_guid w g e c)) = Channel_IsOn h c"
  "ch_ownerGuid (fst (Channel_SetOwner_guid w g e c)) = g"
  by (auto simp: Channel_SetOwner_guid_def Let_def Channel_IsOn_def)

lemma admit_banned [simp]: "ch_bannedStore (fst (Channel_admit w p c)) = ch_bannedStore c"
  by (simp add: Channel_admit_def Let_def split_def)

lemma hand_over_banned [simp]: "ch_bannedStore (fst (Channel_hand_over w c)) = ch_bannedStore c"
  by (simp add: Channel_hand_over_def Let_def split_def)

lemma guards_banned:
  "ch_bannedStore (fst body) = ch_bannedStore c \<Longrightarrow> ch_bannedStore (fst (if_member w g c body)) = ch_bannedStore c"
  "ch_bannedStore (fst body) = ch_bannedStore c \<Longrightarrow> ch_bannedStore (fst (if_moderator w p c body)) = ch_bannedStore c"
  by (simp_all add: if_moderator_def if_member_def)

lemma JoinChannel_banned [simp]:
  "ch_bannedStore (fst (Channel_JoinChannel w p pass c)) = ch_bannedStore c"
  by (simp add: Channel_JoinChannel_def Let_def)

lemma LeaveChannel_banned [simp]:
  "ch_bannedStore (fst (Channel_LeaveChannel w p send suspend c)) = ch_bannedStore c"
  by (simp add: Channel_LeaveChannel_def Let_def split_def)

lemma modes_banned [simp]:
  "ch_bannedStore (fst (Channel_SetModerator_guid w g on c)) = ch_bannedStore c"
  "ch_bannedStore (fst (Channel_SetMute_guid w g on c)) = ch_bannedStore c"
  by (simp_all add: Channel_SetModerator_guid_def Channel_SetMute_guid_def Let_def)

lemma settings_banned [simp]:
  "ch_bannedStore (fst (Channel_Password w p pass c)) = ch_bannedStore c"
  "ch_bannedStore (fst (Channel_Announce w p c)) = ch_bannedStore c"
  "ch_bannedStore (fst (Channel_SetMode w p n md on c)) = ch_bannedStore c"
  "ch_bannedStore (Channel_SetInvisible p on c) = ch_bannedStore c"
  "ch_bannedStore (fst (Channel_SetOwner w p n c)) = ch_bannedStore c"
  "ch_bannedStore (Channel_SetOwnership own c) = ch_bannedStore c"
  unfolding Channel_Password_def Channel_Announce_def Channel_SetMode_def Channel_SetInvisible_def
    Channel_SetOwner_def Channel_SetOwnership_def Let_def
  by (auto intro!: guards_banned split: option.split)

lemma UnBan_keeps:
  "g \<in> set (ch_bannedStore c) \<Longrightarrow> \<not> lifts_ban g (w, OpUnBan p n) \<Longrightarrow>
    g \<in> set (ch_bannedStore (fst (Channel_UnBan w p n c)))"
  by (auto simp: Channel_UnBan_def if_moderator_def if_member_def Let_def split: option.splits)

lemma KickOrBan_keeps:
  "g \<in> set (ch_bannedStore c) \<Longrightarrow> Channel_KickOrBan w p n ban c = Inr (c', evs) \<Longrightarrow>
    g \<in> set (ch_bannedStore c')"
  unfolding Channel_KickOrBan_def Let_def split_def by (auto split: if_splits)

lemma chan_step_banned:
  assumes "g \<in> set (ch_bannedStore c)" "\<not> lifts_ban g (w, x)" "chan_step w x c = Inr (c', evs)"
  shows "g \<in> set (ch_bannedStore c')"
proof (cases x)
  case (OpUnBan p n)
  with assms UnBan_keeps [OF assms(1)] show ?thesis by (metis chan_step.simps(5) fst_conv sum.inject(2))
qed (use assms in \<open>auto simp: Channel_Kick_def Channel_Ban_def prod_eq_iff intro: KickOrBan_keeps\<close>)

subsection \<open>Who may do what\<close>

text \<open>The player of an operation that only moderators may ask for.\<close>

fun moderating :: "chan_op \<Rightarrow> Player option" where
  "moderating (OpKick p n) = Some p"
| "moderating (OpBan p n) = Some p"
| "moderating (OpUnBan p n) = Some p"
| "moderating (OpPassword p pass) = Some p"
| "moderating (OpSetMode p n md on) = Some p"
| "moderating (OpAnnounce p) = Some p"
| "moderating _ = None"

lemma moderation_refused:
  assumes "moderating x = Some p" "\<not> PlayerInfo_IsModerator (Channel_info (pl_guid p) c)"
    "\<not> Player_HasPermission p RBAC_PERM_CHANGE_CHANNEL_NOT_MODERATOR"
  shows "chan_step w x c = Inr (c, notice_to w c
    (if Channel_IsOn (pl_guid p) c then NotModeratorAppend else NotMemberAppend) (pl_guid p))"
  using assms
  by (cases x) (auto simp: Channel_Kick_def Channel_Ban_def Channel_KickOrBan_def Channel_UnBan_def
      Channel_Password_def Channel_SetMode_def Channel_Announce_def if_moderator_def if_member_def Let_def)

subsection \<open>Delivery\<close>

text \<open>The players an operation delivers to, in the order of the packets.\<close>

fun recipients :: "chan_event list \<Rightarrow> ObjectGuid list" where
  "recipients [] = []"
| "recipients (ChDeliver g pkt # evs) = g # recipients evs"
| "recipients (_ # evs) = recipients evs"

text \<open>A player is registered under its own guid.\<close>

definition world_ok :: "ChannelWorld \<Rightarrow> bool" where
  "world_ok w \<longleftrightarrow> (\<forall>g p. w_players w g = Some p \<longrightarrow> pl_guid p = g)
     \<and> (\<forall>n p. w_playerNames w n = Some p \<longrightarrow> w_players w (pl_guid p) = Some p)"

lemma recipients_append [simp]: "recipients (xs @ ys) = recipients xs @ recipients ys"
  by (induction xs rule: recipients.induct) auto

lemma SendToAll_recipients:
  assumes "world_ok w" "\<And>loc. builder loc \<noteq> None"
  shows "recipients (Channel_SendToAll w builder guid c) =
    filter (\<lambda>g. \<exists>q. w_players w g = Some q \<and> (ObjectGuid_IsEmpty guid \<or> guid \<notin> set (pl_ignored q)))
      (map fst (ch_playersStore c))"
proof -
  have "pl_guid q = g" if "w_players w g = Some q" for g q
    using assms(1) that by (simp add: world_ok_def)
  then have "recipients (concat (map (\<lambda>(g, _). case FindConnectedPlayer w g of None \<Rightarrow> []
      | Some p \<Rightarrow> (if ObjectGuid_IsEmpty guid \<or> \<not> PlayerSocial_HasIgnore p guid
                   then LocalizedPacketDo builder p else [])) m)) =
    filter (\<lambda>g. \<exists>q. w_players w g = Some q \<and> (ObjectGuid_IsEmpty guid \<or> guid \<notin> set (pl_ignored q)))
      (map fst m)" for m :: "(ObjectGuid \<times> PlayerInfo) list"
    using assms(2)
    by (induction m) (auto simp: FindConnectedPlayer_def PlayerSocial_HasIgnore_def LocalizedPacketDo_def
        split: option.split)
  then show ?thesis by (simp add: Channel_SendToAll_def)
qed

lemma SendToAll_events:
  "ev \<in> set (Channel_SendToAll w builder guid c) \<Longrightarrow>
     \<exists>p. ev \<in> set (LocalizedPacketDo builder p)"
  by (auto simp: Channel_SendToAll_def split: option.splits if_splits)

lemma custom_name [simp]: "ch_channelId c = 0 \<Longrightarrow> Channel_GetName w c loc = Some (ch_channelName c)"
  by (simp add: Channel_GetName_def Channel_GetChannelName_def)

subsection \<open>Owners\<close>

lemma next_owner_member:
  assumes "m \<noteq> []"
  shows "Channel_next_owner m \<in> set m"
    "pi_invisible (snd (Channel_next_owner m)) \<Longrightarrow> \<forall>x \<in> set m. pi_invisible (snd x)"
proof -
  have "find (\<lambda>(_, i). \<not> pi_invisible i) m = Some x \<Longrightarrow> x \<in> set m \<and> \<not> pi_invisible (snd x)" for x
    by (force simp: find_Some_iff in_set_conv_nth)
  moreover have "find (\<lambda>(_, i). \<not> pi_invisible i) m = None \<Longrightarrow> \<forall>x \<in> set m. pi_invisible (snd x)"
    by (auto simp: find_None_iff)
  ultimately show "Channel_next_owner m \<in> set m"
    "pi_invisible (snd (Channel_next_owner m)) \<Longrightarrow> \<forall>x \<in> set m. pi_invisible (snd x)"
    using assms unfolding Channel_next_owner_def
    by (auto split: option.split option.split_asm intro: hd_in_set)
qed

lemma SetOwner_guid_owner:
  assumes "Channel_IsOn g c" "\<not> ObjectGuid_IsEmpty g"
  shows "PlayerInfo_IsOwner (Channel_info g (fst (Channel_SetOwner_guid w g e c)))
    \<and> PlayerInfo_IsModerator (Channel_info g (fst (Channel_SetOwner_guid w g e c)))"
  using assms unfolding Channel_SetOwner_guid_def Channel_info_def
  by (auto simp: Let_def Channel_IsOn_def split: option.splits)

lemma SetOwner_guid_invisible:
  "map_option pi_invisible (map_of (ch_playersStore (fst (Channel_SetOwner_guid w g e c))) h) =
   map_option pi_invisible (map_of (ch_playersStore c) h)"
  unfolding Channel_SetOwner_guid_def by (auto simp: Let_def option.map_comp comp_def)

lemma Channel_info_map: "map_of (ch_playersStore c) g = Some i \<Longrightarrow> Channel_info g c = i"
  by (simp add: Channel_info_def)

lemma LeaveChannel_owner:
  assumes "chan_inv c" "ch_channelId c = 0" "ch_ownershipEnabled c" "Channel_IsOn (pl_guid p) c"
    "PlayerInfo_IsOwner (Channel_info (pl_guid p) c)" "om_del (pl_guid p) (ch_playersStore c) \<noteq> []"
  defines "c1 \<equiv> c\<lparr>ch_playersStore := om_del (pl_guid p) (ch_playersStore c)\<rparr>"
  shows "fst (Channel_LeaveChannel w p send suspend c) = fst (Channel_hand_over w c1)"
  using assms unfolding Channel_LeaveChannel_def
  by (simp add: Let_def split_def Channel_IsConstant_def)

lemma only_owner_flagged:
  assumes "chan_inv c" "Channel_IsOn p c" "PlayerInfo_IsOwner (Channel_info p c)"
    and "(g, j) \<in> set (ch_playersStore c)" "PlayerInfo_IsOwner j"
  shows "g = p"
proof -
  obtain i where "map_of (ch_playersStore c) p = Some i" "PlayerInfo_IsOwner i"
    using assms(2,3) by (auto simp: Channel_IsOn_def Channel_info_def)
  then have "p = ch_ownerGuid c" using chan_invD(2) [OF assms(1)] by blast
  moreover have "map_of (ch_playersStore c) g = Some j" using assms(4) chan_invD(1) [OF assms(1)] by (simp add: om_get_iff)
  then have "g = ch_ownerGuid c" using chan_invD(2) [OF assms(1)] assms(5) by blast
  ultimately show ?thesis by simp
qed

lemma hand_over_members [simp]: "Channel_IsOn h (fst (Channel_hand_over w c)) = Channel_IsOn h c"
proof -
  have "Channel_IsOn h (d\<lparr>ch_isOwnerInvisible := b\<rparr>) = Channel_IsOn h d" for d b
    by (simp add: Channel_IsOn_def)
  then show ?thesis by (simp add: Channel_hand_over_def Let_def split_def)
qed

lemma hand_over_owner:
  fixes w :: ChannelWorld
  assumes "chan_inv c" "ch_playersStore c \<noteq> []" "\<forall>(g, i) \<in> set (ch_playersStore c). \<not> ObjectGuid_IsEmpty g"
  defines "c' \<equiv> fst (Channel_hand_over w c)"
  shows "Channel_IsOn (ch_ownerGuid c') c' \<and> PlayerInfo_IsOwner (Channel_info (ch_ownerGuid c') c')
     \<and> PlayerInfo_IsModerator (Channel_info (ch_ownerGuid c') c')"
    "pi_invisible (Channel_info (ch_ownerGuid c') c') \<Longrightarrow>
       (\<forall>(g, i) \<in> set (ch_playersStore c). pi_invisible i) \<and> ch_isOwnerInvisible c'"
proof -
  obtain n i where n: "Channel_next_owner (ch_playersStore c) = (n, i)" by force
  then have mem: "(n, i) \<in> set (ch_playersStore c)"
    using next_owner_member(1) [OF assms(2)] by simp
  then have look: "map_of (ch_playersStore c) n = Some i"
    using chan_invD(1) [OF assms(1)] by (simp add: om_get_iff)
  have ne: "\<not> ObjectGuid_IsEmpty n" using assms(3) mem by auto
  define d where "d = fst (Channel_SetOwner_guid w n True (Channel_upd_info n (PlayerInfo_SetModerator True) c))"
  have c': "c' = (if pi_invisible i then d\<lparr>ch_isOwnerInvisible := True\<rparr> else d)"
    by (simp add: c'_def Channel_hand_over_def n Let_def split_def d_def)
  have own: "ch_ownerGuid c' = n" by (simp add: c' d_def)
  have on: "Channel_IsOn n c" using look by (simp add: Channel_IsOn_def)
  have info: "Channel_info n c' = Channel_info n d" "Channel_IsOn n c' = Channel_IsOn n d"
    by (simp_all add: c' Channel_info_def Channel_IsOn_def)
  show "Channel_IsOn (ch_ownerGuid c') c' \<and> PlayerInfo_IsOwner (Channel_info (ch_ownerGuid c') c')
     \<and> PlayerInfo_IsModerator (Channel_info (ch_ownerGuid c') c')"
    unfolding own info using on ne SetOwner_guid_owner by (simp add: d_def)
  have "map_option pi_invisible (map_of (ch_playersStore d) n) = Some (pi_invisible i)"
    by (simp add: d_def SetOwner_guid_invisible look)
  then have "pi_invisible (Channel_info n d) = pi_invisible i"
    by (auto simp: Channel_info_def)
  then show "pi_invisible (Channel_info (ch_ownerGuid c') c') \<Longrightarrow>
       (\<forall>(g, i) \<in> set (ch_playersStore c). pi_invisible i) \<and> ch_isOwnerInvisible c'"
    unfolding own info using next_owner_member(2) [OF assms(2)] n by (auto simp: c')
qed

subsection \<open>Storage\<close>

lemma Tokenizer_banlist: "Tokenizer (Channel_banlist c) CHR '' '' True = map ObjectGuid_print (ch_bannedStore c)"
proof -
  have "Channel_banlist c = concat (map (\<lambda>t. t @ [CHR '' '']) (map ObjectGuid_print (ch_bannedStore c)))"
    by (simp add: Channel_banlist_def comp_def)
  then show ?thesis
    using ObjectGuid_print_clean
    by (simp only:) (rule Tokenizer_terminated, auto simp: NUL_def)
qed

lemma load_banned_prints:
  "\<forall>g \<in> set gs. \<not> ObjectGuid_IsEmpty g \<Longrightarrow>
     load_banned (map ObjectGuid_print gs) banned = Inr (fold List.insert gs banned)"
proof (induction gs arbitrary: banned)
  case (Cons g gs)
  have "take 16 (ObjectGuid_print g) = put_hex16 (guid_high g)"
    "drop 16 (ObjectGuid_print g) = put_hex16 (guid_low g)"
    "length (ObjectGuid_print g) = 32"
    by (simp_all add: ObjectGuid_print_def)
  with Cons show ?case by (simp add: Let_def)
qed simp

lemma set_fold_insert [simp]: "set (fold List.insert xs ys) = set xs \<union> set ys"
  by (induction xs arbitrary: ys) auto

lemma banlist_empty: "Channel_banlist c = [] \<longleftrightarrow> ch_bannedStore c = []"
  by (auto simp: Channel_banlist_def)

subsection \<open>A world to evaluate the operations in\<close>

definition demo_player :: "u64 \<Rightarrow> string \<Rightarrow> u32 list \<Rightarrow> ObjectGuid list \<Rightarrow> Player" where
  "demo_player n name perms ignored =
     \<lparr>pl_guid = ObjectGuid n 0x0800000000000000, pl_name = name, pl_team = 469, pl_security = 0,
      pl_rbac = (RBACData_init 1 name 1 0)\<lparr>rbac_globalPerms := perms\<rparr>, pl_groupGuid = None,
      pl_isGMVisible = True, pl_isVisible = True, pl_ignored = ignored,
      pl_filterAddonMessages = True, pl_registeredAddonPrefixes = [], pl_sessionDbLocale = 0,
      pl_sessionDbcLocale = 0, pl_accountGuid = ObjectGuid_Empty, pl_chatFlags = 0,
      pl_guildGuid = ObjectGuid_Empty\<rparr>"

definition demo_alice :: Player where "demo_alice = demo_player 1 ''Alice'' [] []"
definition demo_bob :: Player where "demo_bob = demo_player 2 ''Bob'' [] []"
definition demo_carol :: Player where
  "demo_carol = demo_player 3 ''Carol'' [] [ObjectGuid 2 0x0800000000000000]"

definition demo_world :: ChannelWorld where
  "demo_world =
     \<lparr>w_players = (\<lambda>g. if g = pl_guid demo_alice then Some demo_alice
                    else if g = pl_guid demo_bob then Some demo_bob
                    else if g = pl_guid demo_carol then Some demo_carol else None),
      w_playerNames = (\<lambda>n. if n = ''Alice'' then Some demo_alice
                    else if n = ''Bob'' then Some demo_bob
                    else if n = ''Carol'' then Some demo_carol else None),
      w_normalizePlayerName = Some, w_restrictedLfgChannel = False,
      w_preserveCustomChannels = False, w_allowTwoSideChannel = False, w_gmLevelInWhoList = 3,
      w_availableDbcLocale = (\<lambda>l. l), w_chatChannels = (\<lambda>_. None), w_stringFormat = (\<lambda>f x. f),
      w_cityString = (\<lambda>_. []), w_characterName = (\<lambda>_. None), w_virtualRealmAddress = 1\<rparr>"

definition demo_channel :: Channel where
  "demo_channel = fst (projr (Channel_custom demo_world (\<lambda>_ _. None) ''lounge'' 469))"

definition demo_after :: "chan_op list \<Rightarrow> Channel" where
  "demo_after ops = fst (projr (chan_run (map (\<lambda>x. (demo_world, x)) ops) demo_channel))"

lemma demo_run:
  "\<not> isl (chan_run (map (\<lambda>x. (demo_world, x)) ops) demo_channel) \<Longrightarrow>
     \<exists>evs. chan_run (map (\<lambda>x. (demo_world, x)) ops) demo_channel = Inr (demo_after ops, evs)"
  by (cases "chan_run (map (\<lambda>x. (demo_world, x)) ops) demo_channel") (auto simp: demo_after_def)

lemma demo_custom:
  "Channel_custom demo_world (\<lambda>_ _. None) ''lounge'' 469 = Inr (demo_channel, [])"
  by (simp add: demo_channel_def Channel_custom_def Let_def demo_world_def)

lemma demo_channel_inv: "chan_inv demo_channel"
  using Channel_custom_inv [OF demo_custom] by simp

lemma demo_world_ok: "world_ok demo_world"
  by (simp add: world_ok_def demo_world_def demo_alice_def demo_bob_def demo_carol_def demo_player_def)

lemma demo_after_inv:
  "\<not> isl (chan_run (map (\<lambda>x. (demo_world, x)) ops) demo_channel) \<Longrightarrow> chan_inv (demo_after ops)"
  using demo_run chan_run_inv demo_channel_inv by blast

subsection \<open>Properties\<close>

text \<open>C2: whatever its players do, from the moment a custom channel is created (or loaded) and
  through every sequence of operations that does not hit the dangling reference, at most one
  member carries the owner flag, and that member is the recorded owner; and no member is on the
  ban list.\<close>

theorem Channel_run_invariant:
  assumes "Channel_custom w0 query name team = Inr (c0, evs0)" "chan_run ops c0 = Inr (c, evs)"
  shows "{g. \<exists>i. map_of (ch_playersStore c) g = Some i \<and> PlayerInfo_IsOwner i} \<subseteq> {ch_ownerGuid c}
     \<and> {g. Channel_IsOn g c} \<inter> {g. Channel_IsBanned g c} = {}"
proof -
  have "chan_inv c" using Channel_custom_inv [OF assms(1)] chan_run_inv [OF assms(2)] by blast
  from chan_invD [OF this] show ?thesis by (auto simp: Channel_IsOn_def Channel_IsBanned_def)
qed

theorem Channel_run_invariant_witness:
  "let ops = [OpJoin demo_alice [], OpJoin demo_bob [], OpBan demo_alice ''Bob'', OpJoin demo_bob []];
       c = demo_after ops
   in {g. \<exists>i. map_of (ch_playersStore c) g = Some i \<and> PlayerInfo_IsOwner i} \<subseteq> {ch_ownerGuid c}
     \<and> {g. Channel_IsOn g c} \<inter> {g. Channel_IsBanned g c} = {}"
proof -
  define ops where
    "ops = [OpJoin demo_alice [], OpJoin demo_bob [], OpBan demo_alice ''Bob'', OpJoin demo_bob []]"
  have "\<not> isl (chan_run (map (\<lambda>x. (demo_world, x)) ops) demo_channel)"
    unfolding ops_def by code_simp
  from demo_run [OF this] obtain evs where
    "chan_run (map (\<lambda>x. (demo_world, x)) ops) demo_channel = Inr (demo_after ops, evs)" by blast
  from Channel_run_invariant [OF demo_custom this] show ?thesis by (simp add: ops_def)
qed

text \<open>C17: once a player is on the ban list it stays there, and is not a member, through every
  sequence of operations in which nobody lifts its ban, whatever password it knows and whoever
  leaves or takes over the channel.\<close>

theorem Channel_ban_persists:
  assumes "chan_run ops c0 = Inr (c, evs)" "chan_inv c0" "Channel_IsBanned g c0"
    "list_all (\<lambda>x. \<not> lifts_ban g x) ops"
  shows "Channel_IsBanned g c \<and> \<not> Channel_IsOn g c"
proof -
  have "chan_inv c \<and> g \<in> set (ch_bannedStore c)"
    using assms unfolding Channel_IsBanned_def list_all_iff
    by (intro chan_run_induct [where P = "\<lambda>c. chan_inv c \<and> g \<in> set (ch_bannedStore c)", OF assms(1)])
      (auto intro: chan_step_inv chan_step_banned)
  with chan_invD(3) [of c g] show ?thesis by (auto simp: Channel_IsBanned_def Channel_IsOn_def)
qed

theorem Channel_ban_persists_witness:
  "let c0 = demo_after [OpJoin demo_alice [], OpJoin demo_bob [], OpBan demo_alice ''Bob''];
       c = fst (projr (chan_run [(demo_world, OpJoin demo_bob []), (demo_world, OpLeave demo_alice True False),
             (demo_world, OpJoin demo_bob [])] c0))
   in Channel_IsBanned (pl_guid demo_bob) c \<and> \<not> Channel_IsOn (pl_guid demo_bob) c"
proof -
  define c0 where "c0 = demo_after [OpJoin demo_alice [], OpJoin demo_bob [], OpBan demo_alice ''Bob'']"
  define ops where "ops = [(demo_world, OpJoin demo_bob []), (demo_world, OpLeave demo_alice True False),
             (demo_world, OpJoin demo_bob [])]"
  have inv: "chan_inv c0"
    unfolding c0_def by (rule demo_after_inv) code_simp
  have banned: "Channel_IsBanned (pl_guid demo_bob) c0"
    unfolding c0_def by code_simp
  obtain c evs where r: "chan_run ops c0 = Inr (c, evs)"
    unfolding ops_def by (simp add: split_def)
  have "list_all (\<lambda>x. \<not> lifts_ban (pl_guid demo_bob) x) ops" by (simp add: ops_def)
  from Channel_ban_persists [OF r inv banned this] r show ?thesis
    by (simp add: Let_def c0_def ops_def)
qed

text \<open>C31: an operation that only moderators may ask for (kick, ban, unban, password, moderator and
  mute modes, announcements), asked by a member that is not a moderator, or by somebody who is
  not on the channel, without the permission to act as one, changes nothing on the channel, and its only effect
  is the notice that says so.\<close>

theorem Channel_moderation_guarded:
  assumes "moderating x = Some p" "\<not> PlayerInfo_IsModerator (Channel_info (pl_guid p) c)"
    "\<not> Player_HasPermission p RBAC_PERM_CHANGE_CHANNEL_NOT_MODERATOR"
  shows "chan_step w x c = Inr (c, notice_to w c
    (if Channel_IsOn (pl_guid p) c then NotModeratorAppend else NotMemberAppend) (pl_guid p))"
  using assms by (rule moderation_refused)

theorem Channel_moderation_guarded_witness:
  "let c = demo_after [OpJoin demo_alice [], OpJoin demo_bob []]
   in chan_step demo_world (OpBan demo_bob ''Alice'') c = Inr (c, notice_to demo_world c
    (if Channel_IsOn (pl_guid demo_bob) c then NotModeratorAppend else NotMemberAppend) (pl_guid demo_bob))"
proof -
  have "\<not> PlayerInfo_IsModerator (Channel_info (pl_guid demo_bob)
      (demo_after [OpJoin demo_alice [], OpJoin demo_bob []]))" by code_simp
  moreover have "\<not> Player_HasPermission demo_bob RBAC_PERM_CHANGE_CHANNEL_NOT_MODERATOR" by code_simp
  ultimately show ?thesis
    unfolding Let_def by (intro Channel_moderation_guarded) simp_all
qed

text \<open>A channel has a name in every language: a custom channel has its own; a constant one has that of its row of the
  client's data, and of its zone if the row does not say that it is global or for all cities.\<close>

definition chan_has_name :: "ChannelWorld \<Rightarrow> Channel \<Rightarrow> bool" where
  "chan_has_name w c \<longleftrightarrow> ch_channelId c = 0 \<or>
     (case w_chatChannels w (ch_channelId c) of
        None \<Rightarrow> False
      | Some row \<Rightarrow> cce_Flags row AND (CHANNEL_DBC_FLAG_GLOBAL OR CHANNEL_DBC_FLAG_CITY_ONLY) \<noteq> 0 \<or> ch_zoneEntry c \<noteq> None)"

lemma chan_has_name: "chan_has_name w c \<Longrightarrow> Channel_GetName w c loc \<noteq> None"
  by (auto simp: chan_has_name_def Channel_GetName_def Channel_GetChannelName_def bit.conj_disj_distrib split: option.splits)

text \<open>C32: what a member that is not muted says on a channel, custom or constant, reaches exactly the connected
  members that do not ignore it, each once and in the order of the member list; a moderator also reaches
  those that do. The text is the one that was said, and its sender the player who said it. The text is not empty, and
  the name of the channel can be made in every language: a constant channel has its row in the client's data, and its
  zone if it is not for all zones.\<close>

theorem Channel_Say_recipients:
  assumes "world_ok w" "chan_has_name w c" "Channel_IsOn guid c" "\<not> ObjectGuid_IsEmpty guid"
    "\<not> PlayerInfo_IsMuted (Channel_info guid c)" "what \<noteq> []"
  shows "recipients (Channel_Say w guid what lang c) =
     filter (\<lambda>g. \<exists>q. w_players w g = Some q \<and>
        (PlayerInfo_IsModerator (Channel_info guid c) \<or> guid \<notin> set (pl_ignored q)))
       (map fst (ch_playersStore c))
   \<and> list_all (\<lambda>ev. \<exists>g k. ev = ChDeliver g (PktChat k) \<and> ct_ChatText k = what \<and> ct_SenderGUID k = guid)
       (Channel_Say w guid what lang c)"
proof -
  define lang1 where "lang1 = (if w_allowTwoSideChannel w then LANG_UNIVERSAL else lang)"
  define ign where "ign = (if \<not> PlayerInfo_IsModerator (Channel_info guid c) then guid else ObjectGuid_Empty)"
  have say: "Channel_Say w guid what lang c = Channel_SendToAll w (chan_chat w c guid what lang1 []) ign c"
    using assms by (simp add: Channel_Say_def Let_def lang1_def ign_def)
  have built: "chan_chat w c guid what lang1 [] loc \<noteq> None" for loc
    using chan_has_name [OF assms(2)] by (simp add: chan_chat_def)
  have content: "ct_ChatText k = what \<and> ct_SenderGUID k = guid"
    if "chan_chat w c guid what lang1 [] loc = Some pkt" "pkt = PktChat k" for loc pkt k
  proof -
    obtain name where "Channel_GetName w c (w_availableDbcLocale w loc) = Some name"
      using chan_has_name [OF assms(2)] by blast
    with that assms(1) show ?thesis unfolding chan_chat_def Chat_Initialize_def
      by (auto simp: Let_def FindConnectedPlayer_def Chat_SetSender_def world_ok_def split: option.splits)
  qed
  have "\<exists>g k. ev = ChDeliver g (PktChat k) \<and> ct_ChatText k = what \<and> ct_SenderGUID k = guid"
    if sent: "ev \<in> set (Channel_SendToAll w (chan_chat w c guid what lang1 []) ign c)" for ev
  proof -
    obtain p where "ev \<in> set (LocalizedPacketDo (chan_chat w c guid what lang1 []) p)"
      using SendToAll_events [OF sent] by blast
    moreover obtain pkt where pkt: "chan_chat w c guid what lang1 [] (pl_sessionDbLocale p) = Some pkt"
      using built by blast
    ultimately have "ev = ChDeliver (pl_guid p) pkt" by (simp add: LocalizedPacketDo_def)
    moreover obtain k where "pkt = PktChat k"
      using pkt by (auto simp: chan_chat_def)
    ultimately show ?thesis using content [OF pkt] by blast
  qed
  then show ?thesis
    unfolding say list_all_iff
    using SendToAll_recipients [OF assms(1) built, where guid = ign and c = c] assms(4)
    by (auto simp: ign_def)
qed

theorem Channel_Say_recipients_witness:
  "let c = demo_after [OpJoin demo_alice [], OpJoin demo_bob [], OpJoin demo_carol []]
   in recipients (Channel_Say demo_world (pl_guid demo_bob) ''hi'' 7 c) =
     filter (\<lambda>g. \<exists>q. w_players demo_world g = Some q \<and>
        (PlayerInfo_IsModerator (Channel_info (pl_guid demo_bob) c) \<or> pl_guid demo_bob \<notin> set (pl_ignored q)))
       (map fst (ch_playersStore c))"
proof -
  define c where "c = demo_after [OpJoin demo_alice [], OpJoin demo_bob [], OpJoin demo_carol []]"
  have "chan_has_name demo_world c \<and> Channel_IsOn (pl_guid demo_bob) c \<and> \<not> ObjectGuid_IsEmpty (pl_guid demo_bob)
      \<and> \<not> PlayerInfo_IsMuted (Channel_info (pl_guid demo_bob) c)"
    unfolding c_def by code_simp
  with Channel_Say_recipients [OF demo_world_ok, of c "pl_guid demo_bob" "''hi''" 7]
  show ?thesis by (simp add: c_def Let_def)
qed

text \<open>C33: when the owner of a custom channel leaves and others stay, the channel, unless its ownership is
  turned off, has an owner again at once: the recorded owner is one of the remaining members and carries the owner and moderator
  flags; it is an invisible game master only if all remaining members are, and the channel then
  remembers to hand the ownership on. With the ownership turned off (by a game master) only the member is gone, and
  the channel goes on without an owner.\<close>

theorem Channel_owner_leaves:
  assumes "chan_inv c" "ch_channelId c = 0" "Channel_IsOn (pl_guid p) c"
    "PlayerInfo_IsOwner (Channel_info (pl_guid p) c)" "om_del (pl_guid p) (ch_playersStore c) \<noteq> []"
    "list_all (\<lambda>(g, i). \<not> ObjectGuid_IsEmpty g) (ch_playersStore c)"
  shows "let c' = fst (Channel_LeaveChannel w p send suspend c); n = ch_ownerGuid c'; i = Channel_info n c'
    in if ch_ownershipEnabled c
       then n \<noteq> pl_guid p \<and> Channel_IsOn n c' \<and> PlayerInfo_IsOwner i \<and> PlayerInfo_IsModerator i
         \<and> (pi_invisible i \<longrightarrow> ch_isOwnerInvisible c'
              \<and> list_all (\<lambda>(g, j). g = pl_guid p \<or> pi_invisible j) (ch_playersStore c))
       else c' = c\<lparr>ch_playersStore := om_del (pl_guid p) (ch_playersStore c)\<rparr>
         \<and> list_all (\<lambda>(g, j). \<not> PlayerInfo_IsOwner j) (ch_playersStore c')"
proof (cases "ch_ownershipEnabled c")
  case False
  then have c': "fst (Channel_LeaveChannel w p send suspend c) = c\<lparr>ch_playersStore := om_del (pl_guid p) (ch_playersStore c)\<rparr>"
    using assms(3) by (simp add: Channel_LeaveChannel_def Let_def)
  have "\<not> PlayerInfo_IsOwner j" if "(g, j) \<in> set (om_del (pl_guid p) (ch_playersStore c))" for g j
    using only_owner_flagged [OF assms(1,3,4), of g j] that by (auto simp: om_del_def)
  with False c' show ?thesis by (auto simp: Let_def list_all_iff)
next
  case enabled: True
  define c1 where "c1 = c\<lparr>ch_playersStore := om_del (pl_guid p) (ch_playersStore c)\<rparr>"
  define c' where "c' = fst (Channel_LeaveChannel w p send suspend c)"
  have c': "c' = fst (Channel_hand_over w c1)"
    unfolding c'_def c1_def using assms enabled by (intro LeaveChannel_owner)
  have inv: "chan_inv c1" unfolding c1_def using assms(1) by (rule chan_inv_del)
  have rest: "ch_playersStore c1 \<noteq> []" "\<forall>(g, i) \<in> set (ch_playersStore c1). \<not> ObjectGuid_IsEmpty g"
    using assms(5,6) by (auto simp: c1_def list_all_iff)
  note owner = hand_over_owner [OF inv rest, of w, folded c']
  have "ch_ownerGuid c' \<noteq> pl_guid p"
  proof -
    have "Channel_IsOn (ch_ownerGuid c') c1" using owner(1) unfolding c' by simp
    then show ?thesis by (auto simp: c1_def Channel_IsOn_def)
  qed
  with owner show ?thesis
    unfolding c'_def [symmetric] by (auto simp: enabled Let_def list_all_iff c1_def)
qed

theorem Channel_owner_leaves_witness:
  "let c = demo_after [OpJoin demo_alice [], OpJoin demo_bob []];
       c' = fst (Channel_LeaveChannel demo_world demo_alice True False c); n = ch_ownerGuid c'
   in Channel_IsOn n c' \<and> PlayerInfo_IsOwner (Channel_info n c')"
proof -
  define c where "c = demo_after [OpJoin demo_alice [], OpJoin demo_bob []]"
  have "chan_inv c"
    unfolding c_def by (rule demo_after_inv) code_simp
  moreover have "ch_channelId c = 0 \<and> ch_ownershipEnabled c \<and> Channel_IsOn (pl_guid demo_alice) c
      \<and> PlayerInfo_IsOwner (Channel_info (pl_guid demo_alice) c)
      \<and> om_del (pl_guid demo_alice) (ch_playersStore c) \<noteq> []
      \<and> list_all (\<lambda>(g, i). \<not> ObjectGuid_IsEmpty g) (ch_playersStore c)"
    unfolding c_def by code_simp
  ultimately show ?thesis
    using Channel_owner_leaves [of c demo_alice demo_world True False] by (simp add: c_def Let_def)
qed

text \<open>C34: a stored channel survives a restart: loading the row its last update wrote gives back its
  name, settings and password and exactly its ban list, and never fails.\<close>

theorem Channel_reload:
  assumes "chan_inv c" "w_preserveCustomChannels w"
    "Channel_UpdateChannelInDB c = [ChDbUpdate announce ownership password banlist name team]"
    "query name team = Some (name, announce, ownership, password, banlist)"
  shows "\<exists>c'. Channel_custom w query name team = Inr (c', [])
     \<and> set (ch_bannedStore c') = set (ch_bannedStore c)
     \<and> ch_channelName c' = ch_channelName c \<and> ch_channelTeam c' = ch_channelTeam c
     \<and> ch_announceEnabled c' = ch_announceEnabled c \<and> ch_ownershipEnabled c' = ch_ownershipEnabled c
     \<and> ch_channelPassword c' = ch_channelPassword c \<and> ch_persistentChannel c' \<and> ch_playersStore c' = []"
proof -
  have row: "announce = ch_announceEnabled c" "ownership = ch_ownershipEnabled c"
    "password = ch_channelPassword c" "banlist = Channel_banlist c" "name = ch_channelName c"
    "team = ch_channelTeam c"
    using assms(3) by (auto simp: Channel_UpdateChannelInDB_def split: if_splits)
  have "load_banned (Tokenizer (Channel_banlist c) CHR '' '' True) [] = Inr (fold List.insert (ch_bannedStore c) [])"
    unfolding Tokenizer_banlist using chan_invD(3) [OF assms(1)] by (intro load_banned_prints) blast
  then show ?thesis
    using assms(2,4) by (simp add: Channel_custom_def Let_def row banlist_empty)
qed

theorem Channel_reload_witness:
  "let c = demo_channel\<lparr>ch_persistentChannel := True, ch_bannedStore := [pl_guid demo_bob]\<rparr>;
       w = demo_world\<lparr>w_preserveCustomChannels := True\<rparr>;
       row = (ch_channelName c, ch_announceEnabled c, ch_ownershipEnabled c, ch_channelPassword c, Channel_banlist c)
   in \<exists>c'. Channel_custom w (\<lambda>_ _. Some row) (ch_channelName c) (ch_channelTeam c) = Inr (c', [])
        \<and> set (ch_bannedStore c') = {pl_guid demo_bob}"
proof -
  define c where "c = demo_channel\<lparr>ch_persistentChannel := True, ch_bannedStore := [pl_guid demo_bob]\<rparr>"
  have "\<not> ObjectGuid_IsEmpty (pl_guid demo_bob)" by code_simp
  then have "chan_inv c"
    using Channel_custom_inv [OF demo_custom] by (simp add: c_def chan_inv_fresh)
  then show ?thesis
    using Channel_reload [of c "demo_world\<lparr>w_preserveCustomChannels := True\<rparr>"
        "ch_announceEnabled c" "ch_ownershipEnabled c" "ch_channelPassword c" "Channel_banlist c"
        "ch_channelName c" "ch_channelTeam c" "\<lambda>_ _. Some (ch_channelName c, ch_announceEnabled c,
          ch_ownershipEnabled c, ch_channelPassword c, Channel_banlist c)"]
    by (fastforce simp: Channel_UpdateChannelInDB_def Let_def c_def)
qed

text \<open>Who is on a channel after asking to join it: whoever was, and otherwise exactly a player
  that is not banned, knows the password if there is one, and is not kept out of a looking-for-group
  channel for being in a group.\<close>

theorem Channel_JoinChannel_admission:
  "Channel_IsOn (pl_guid p) (fst (Channel_JoinChannel w p pass c)) \<longleftrightarrow>
     Channel_IsOn (pl_guid p) c \<or>
     (Channel_IsBanned (pl_guid p) c, ch_channelPassword c \<in> {[], pass},
      Channel_HasFlag CHANNEL_FLAG_LFG c \<and> w_restrictedLfgChannel w
        \<and> AccountMgr_IsPlayerAccount (pl_security p) \<and> pl_groupGuid p \<noteq> None) = (False, True, False)"
proof -
  have "Channel_IsOn (pl_guid p) (fst (Channel_admit w p c))"
    by (simp add: Channel_admit_def Let_def split_def) (simp add: Channel_IsOn_def)
  then show ?thesis by (auto simp: Channel_JoinChannel_def Let_def)
qed

end
