(* ===== verification/ChannelMgr.thy ===== *)
theory ChannelMgr
  imports Channel
begin

section \<open>The registry of chat channels and the packets of the players\<close>

text \<open>
  \<open>ChannelMgr\<close> of \<open>src/server/game/Chat/Channels/ChannelMgr.h\<close> and \<open>ChannelMgr.cpp\<close>, the handlers of
  \<open>src/server/game/Handlers/ChannelHandler.cpp\<close>, and the part of \<open>Player\<close> that keeps the list of its channels. Channels
  are objects at addresses: a registry of each faction refers to them by name or by id and zone, and each player by its
  list. Using an address whose channel has been deleted is the error \<open>UseOfDeletedChannel\<close>; that it does not happen,
  and that lists and members agree, is shown for every sequence of packets. The conversion from UTF-8 is a library
  (\<open>cv_Utf8toWStr\<close>, which fails on bad input); what a custom channel finds in the data base is \<open>cv_query\<close>.
\<close>

subsection \<open>State\<close>

definition ALLIANCE_TEAM :: u32 where "ALLIANCE_TEAM = 469"
definition HORDE_TEAM :: u32 where "HORDE_TEAM = 67"
definition CHANNEL_DBC_FLAG_ZONE_DEP :: u32 where "CHANNEL_DBC_FLAG_ZONE_DEP = 0x00002"
definition CHANNEL_DBC_FLAG_GUILD_REQ :: u32 where "CHANNEL_DBC_FLAG_GUILD_REQ = 0x20000"
definition AREA_FLAG_SLAVE_CAPITAL :: u32 where "AREA_FLAG_SLAVE_CAPITAL = 0x00000008"
definition AREA_FLAG_ARENA_INSTANCE :: u32 where "AREA_FLAG_ARENA_INSTANCE = 0x00010000"
definition MAX_CHANNEL_NAME_STR :: nat where "MAX_CHANNEL_NAME_STR = 49"
definition MAX_CHANNEL_PASS_STR :: nat where "MAX_CHANNEL_PASS_STR = 31"

record ChannelView =
  cv_world :: ChannelWorld
  cv_Utf8toWStr :: "string \<Rightarrow> nat list option"
  cv_query :: "string \<Rightarrow> u32 \<Rightarrow> channel_row option"
  cv_area_flags :: "u32 \<Rightarrow> u32"
  cv_areas :: "u32 \<Rightarrow> AreaTableEntry option"
  cv_zone :: "ObjectGuid \<Rightarrow> u32"
  cv_guild :: "ObjectGuid \<Rightarrow> u64"
  cv_channel_rows :: nat

record ChannelMgr =
  cm_customChannels :: "nat list \<Rightarrow> nat option"
  cm_channels :: "u32 \<times> u32 \<Rightarrow> nat option"

record ChannelServer =
  cs_objects :: "nat \<Rightarrow> Channel option"
  cs_fresh :: nat
  cs_alliance :: ChannelMgr
  cs_horde :: ChannelMgr
  cs_joined :: "ObjectGuid \<Rightarrow> nat list"
  cs_sent :: "chan_event list"

datatype channel_error = ChannelFailed chan_error | UseOfDeletedChannel

definition ChannelServer_init :: ChannelServer where
  "ChannelServer_init = \<lparr>cs_objects = (\<lambda>a. None), cs_fresh = 0,
     cs_alliance = \<lparr>cm_customChannels = (\<lambda>n. None), cm_channels = (\<lambda>k. None)\<rparr>,
     cs_horde = \<lparr>cm_customChannels = (\<lambda>n. None), cm_channels = (\<lambda>k. None)\<rparr>,
     cs_joined = (\<lambda>p. []), cs_sent = []\<rparr>"

subsection \<open>Names\<close>

definition wcharToLower :: "nat \<Rightarrow> nat" where
  "wcharToLower wchar =
     (if 65 \<le> wchar \<and> wchar \<le> 90 then wchar + 0x20
      else if 0xC0 \<le> wchar \<and> wchar \<le> 0xD6 then wchar + 0x20
      else if 0xD8 \<le> wchar \<and> wchar \<le> 0xDE then wchar + 0x20
      else if 0x100 \<le> wchar \<and> wchar \<le> 0x12E \<and> wchar mod 2 = 0 then wchar + 1
      else if wchar = 0x1E9E then 0xDF
      else if wchar = 0x401 then 0x451
      else if 0x410 \<le> wchar \<and> wchar \<le> 0x42F then wchar + 0x20
      else wchar)"

definition wstrToLower :: "nat list \<Rightarrow> nat list" where
  "wstrToLower = map wcharToLower"

definition wide_lower :: "ChannelView \<Rightarrow> string \<Rightarrow> nat list option" where
  "wide_lower v name = map_option wstrToLower (cv_Utf8toWStr v name)"

definition isdigit :: "char \<Rightarrow> bool" where
  "isdigit ch \<longleftrightarrow> 48 \<le> (of_char ch :: nat) \<and> (of_char ch :: nat) \<le> 57"

subsection \<open>Calls on a channel\<close>

text \<open>A method of a channel registers it with its players (\<open>JoinedChannel\<close>) or takes it off their joined (\<open>LeftChannel\<close>).\<close>

definition Player_JoinedChannel :: "ObjectGuid \<Rightarrow> nat \<Rightarrow> (ObjectGuid \<Rightarrow> nat list) \<Rightarrow> ObjectGuid \<Rightarrow> nat list" where
  "Player_JoinedChannel p a joined = joined(p := joined p @ [a])"

definition Player_LeftChannel :: "ObjectGuid \<Rightarrow> nat \<Rightarrow> (ObjectGuid \<Rightarrow> nat list) \<Rightarrow> ObjectGuid \<Rightarrow> nat list" where
  "Player_LeftChannel p a joined = joined(p := removeAll a (joined p))"

definition chan_register :: "nat \<Rightarrow> chan_event \<Rightarrow> (ObjectGuid \<Rightarrow> nat list) \<Rightarrow> ObjectGuid \<Rightarrow> nat list" where
  "chan_register a ev = (case ev of ChPlayerJoined p \<Rightarrow> Player_JoinedChannel p a | ChPlayerLeft p \<Rightarrow> Player_LeftChannel p a | _ \<Rightarrow> id)"

definition cs_call :: "nat \<Rightarrow> (Channel \<Rightarrow> chan_error + (Channel \<times> chan_event list)) \<Rightarrow> ChannelServer \<Rightarrow> channel_error + ChannelServer" where
  "cs_call a f s =
     (case cs_objects s a of
        None \<Rightarrow> Inl UseOfDeletedChannel
      | Some c \<Rightarrow>
          (case f c of
             Inl e \<Rightarrow> Inl (ChannelFailed e)
           | Inr (c1, evs) \<Rightarrow> Inr (s\<lparr>cs_objects := (cs_objects s)(a := Some c1), cs_joined := fold (chan_register a) evs (cs_joined s),
                                 cs_sent := cs_sent s @ evs\<rparr>)))"

definition cs_read :: "nat \<Rightarrow> ChannelServer \<Rightarrow> channel_error + Channel" where
  "cs_read a s = (case cs_objects s a of None \<Rightarrow> Inl UseOfDeletedChannel | Some c \<Rightarrow> Inr c)"

subsection \<open>The registries\<close>

definition ChannelMgr_ForTeam :: "ChannelView \<Rightarrow> u32 \<Rightarrow> bool option" where
  "ChannelMgr_ForTeam v team =
     (if w_allowTwoSideChannel (cv_world v) then Some True
      else if team = ALLIANCE_TEAM then Some True
      else if team = HORDE_TEAM then Some False
      else None)"

definition cs_mgr :: "bool \<Rightarrow> ChannelServer \<Rightarrow> ChannelMgr" where
  "cs_mgr alliance s = (if alliance then cs_alliance s else cs_horde s)"

definition cs_upd_mgr :: "bool \<Rightarrow> (ChannelMgr \<Rightarrow> ChannelMgr) \<Rightarrow> ChannelServer \<Rightarrow> ChannelServer" where
  "cs_upd_mgr alliance f s = (if alliance then s\<lparr>cs_alliance := f (cs_alliance s)\<rparr> else s\<lparr>cs_horde := f (cs_horde s)\<rparr>)"

definition mgr_team :: "bool \<Rightarrow> u32" where
  "mgr_team alliance = (if alliance then ALLIANCE_TEAM else HORDE_TEAM)"

definition builtin_key :: "ChannelView \<Rightarrow> u32 \<Rightarrow> AreaTableEntry option \<Rightarrow> channel_error + (u32 \<times> u32)" where
  "builtin_key v channelId zone =
     (case w_chatChannels (cv_world v) channelId of
        None \<Rightarrow> Inl (ChannelFailed Chan_NoEntry)
      | Some entry \<Rightarrow>
          Inr (channelId, if cce_Flags entry AND (CHANNEL_DBC_FLAG_GLOBAL OR CHANNEL_DBC_FLAG_CITY_ONLY) \<noteq> 0 then 0
                          else (case zone of None \<Rightarrow> 0 | Some z \<Rightarrow> area_ID z)))"

text \<open>A new channel gets a fresh address.\<close>

definition cs_new :: "Channel \<Rightarrow> ChannelServer \<Rightarrow> ChannelServer" where
  "cs_new c s = s\<lparr>cs_objects := (cs_objects s)(cs_fresh s := Some c), cs_fresh := Suc (cs_fresh s)\<rparr>"

definition ChannelMgr_GetJoinChannel :: "ChannelView \<Rightarrow> bool \<Rightarrow> u32 \<Rightarrow> string \<Rightarrow> AreaTableEntry option \<Rightarrow> ChannelServer
    \<Rightarrow> channel_error + (nat option \<times> ChannelServer)" where
  "ChannelMgr_GetJoinChannel v mgr channelId name zone s =
     (if channelId \<noteq> 0
      then and_then (builtin_key v channelId zone) (\<lambda>key.
             case cm_channels (cs_mgr mgr s) key of
               Some a \<Rightarrow> Inr (Some a, s)
             | None \<Rightarrow> (case Channel_builtin (cv_world v) channelId (mgr_team mgr) zone of
                          Inl e \<Rightarrow> Inl (ChannelFailed e)
                        | Inr c \<Rightarrow> Inr (Some (cs_fresh s), cs_upd_mgr mgr (\<lambda>m. m\<lparr>cm_channels := (cm_channels m)(key := Some (cs_fresh s))\<rparr>) (cs_new c s))))
      else (case wide_lower v name of
              None \<Rightarrow> Inr (None, s)
            | Some key \<Rightarrow>
                (case cm_customChannels (cs_mgr mgr s) key of
                   Some a \<Rightarrow> Inr (Some a, s)
                 | None \<Rightarrow> (case Channel_custom (cv_world v) (cv_query v) name (mgr_team mgr) of
                              Inl e \<Rightarrow> Inl (ChannelFailed e)
                            | Inr (c, evs) \<Rightarrow> Inr (Some (cs_fresh s),
                                cs_upd_mgr mgr (\<lambda>m. m\<lparr>cm_customChannels := (cm_customChannels m)(key := Some (cs_fresh s))\<rparr>)
                                  ((cs_new c s)\<lparr>cs_sent := cs_sent s @ evs\<rparr>))))))"

definition ChannelMgr_SendNotOnChannelNotify :: "Player \<Rightarrow> string \<Rightarrow> ChannelServer \<Rightarrow> ChannelServer" where
  "ChannelMgr_SendNotOnChannelNotify p name s =
     s\<lparr>cs_sent := cs_sent s @ [ChDeliver (pl_guid p)
       (PktNotify (ChannelNotify_init\<lparr>cn_Type := ChatNotify_value CHAT_NOT_MEMBER_NOTICE, cn_Channel := name\<rparr>))]\<rparr>"

definition ChannelMgr_GetChannel :: "ChannelView \<Rightarrow> bool \<Rightarrow> u32 \<Rightarrow> string \<Rightarrow> Player option \<Rightarrow> AreaTableEntry option \<Rightarrow> ChannelServer
    \<Rightarrow> channel_error + (nat option \<times> ChannelServer)" where
  "ChannelMgr_GetChannel v mgr channelId name notify zone s =
     and_then (if channelId \<noteq> 0 then map_sum id (\<lambda>key. Some (cm_channels (cs_mgr mgr s) key)) (builtin_key v channelId zone)
               else Inr (map_option (cm_customChannels (cs_mgr mgr s)) (wide_lower v name)))
       (\<lambda>found. case found of
          None \<Rightarrow> Inr (None, s)
        | Some (Some a) \<Rightarrow> Inr (Some a, s)
        | Some None \<Rightarrow>
            (case notify of
               None \<Rightarrow> Inr (None, s)
             | Some p \<Rightarrow>
                 (case Channel_GetChannelName (cv_world v) name channelId (pl_sessionDbcLocale p) zone of
                    None \<Rightarrow> Inl (ChannelFailed Chan_NoEntry)
                  | Some shown \<Rightarrow> Inr (None, ChannelMgr_SendNotOnChannelNotify p shown s))))"

text \<open>A channel without members is taken from its registry and deleted.\<close>

definition ChannelMgr_LeftChannel_name :: "ChannelView \<Rightarrow> bool \<Rightarrow> string \<Rightarrow> ChannelServer \<Rightarrow> channel_error + ChannelServer" where
  "ChannelMgr_LeftChannel_name v mgr name s =
     (case wide_lower v name of
        None \<Rightarrow> Inr s
      | Some key \<Rightarrow>
          (case cm_customChannels (cs_mgr mgr s) key of
             None \<Rightarrow> Inr s
           | Some a \<Rightarrow> and_then (cs_read a s) (\<lambda>c.
               Inr (if Channel_GetNumPlayers c = 0
                    then cs_upd_mgr mgr (\<lambda>m. m\<lparr>cm_customChannels := (cm_customChannels m)(key := None)\<rparr>)
                           (s\<lparr>cs_objects := (cs_objects s)(a := None)\<rparr>)
                    else s))))"

definition ChannelMgr_LeftChannel_id :: "ChannelView \<Rightarrow> bool \<Rightarrow> u32 \<Rightarrow> AreaTableEntry option \<Rightarrow> ChannelServer \<Rightarrow> channel_error + ChannelServer" where
  "ChannelMgr_LeftChannel_id v mgr channelId zone s =
     and_then (builtin_key v channelId zone) (\<lambda>key.
       case cm_channels (cs_mgr mgr s) key of
         None \<Rightarrow> Inr s
       | Some a \<Rightarrow> and_then (cs_read a s) (\<lambda>c.
           Inr (if Channel_GetNumPlayers c = 0
                then cs_upd_mgr mgr (\<lambda>m. m\<lparr>cm_channels := (cm_channels m)(key := None)\<rparr>) (s\<lparr>cs_objects := (cs_objects s)(a := None)\<rparr>)
                else s)))"

definition ChannelMgr_SendToAllInChannel :: "ChannelView \<Rightarrow> bool \<Rightarrow> string \<Rightarrow> string \<Rightarrow> string \<Rightarrow> ChannelServer
    \<Rightarrow> channel_error + (bool \<times> ChannelServer)" where
  "ChannelMgr_SendToAllInChannel v mgr senderName channelName message s =
     and_then (ChannelMgr_GetChannel v mgr 0 channelName None None s) (\<lambda>(found, s1).
       case found of
         None \<Rightarrow> Inr (False, s1)
       | Some a \<Rightarrow> map_sum id (\<lambda>s2. (True, s2)) (cs_call a (\<lambda>c. Inr (c, Channel_SendToAllInChannel (cv_world v) senderName message c)) s1))"

fun channel_by_part :: "ChannelView \<Rightarrow> Player \<Rightarrow> nat list \<Rightarrow> ChannelServer \<Rightarrow> nat list \<Rightarrow> channel_error + nat option" where
  "channel_by_part v p part s [] = Inr None"
| "channel_by_part v p part s (a # as) =
     and_then (cs_read a s) (\<lambda>c.
       case Channel_GetName (cv_world v) c (pl_sessionDbcLocale p) of
         None \<Rightarrow> Inl (ChannelFailed Chan_NoEntry)
       | Some name \<Rightarrow>
           (case wide_lower v name of
              None \<Rightarrow> channel_by_part v p part s as
            | Some wide \<Rightarrow> if take (length part) wide = part then Inr (Some a) else channel_by_part v p part s as))"

definition ChannelMgr_GetChannelForPlayerByNamePart :: "ChannelView \<Rightarrow> string \<Rightarrow> Player \<Rightarrow> ChannelServer \<Rightarrow> channel_error + nat option" where
  "ChannelMgr_GetChannelForPlayerByNamePart v namePart p s =
     (case wide_lower v namePart of None \<Rightarrow> Inr None | Some part \<Rightarrow> channel_by_part v p part s (cs_joined s (pl_guid p)))"

subsection \<open>What the methods of a channel do to the lists\<close>

text \<open>The registrations among the effects of a method: who joined and who left, in order.\<close>

definition moves :: "chan_event list \<Rightarrow> (bool \<times> ObjectGuid) list" where
  "moves evs = concat (map (\<lambda>ev. case ev of ChPlayerJoined p \<Rightarrow> [(True, p)] | ChPlayerLeft p \<Rightarrow> [(False, p)] | _ \<Rightarrow> []) evs)"

text \<open>A method moves at most one player, in or out, and the members follow.\<close>

definition follows :: "Channel \<Rightarrow> Channel \<times> chan_event list \<Rightarrow> bool" where
  "follows c r \<longleftrightarrow>
     moves (snd r) = [] \<and> (\<forall>h. Channel_IsOn h (fst r) = Channel_IsOn h c) \<or>
     (\<exists>g. moves (snd r) = [(True, g)] \<and> \<not> Channel_IsOn g c \<and> (\<forall>h. Channel_IsOn h (fst r) = (h = g \<or> Channel_IsOn h c))) \<or>
     (\<exists>g. moves (snd r) = [(False, g)] \<and> (\<forall>h. Channel_IsOn h (fst r) = (h \<noteq> g \<and> Channel_IsOn h c)))"

lemma moves_simps [simp]: "moves [] = []" "moves (xs @ ys) = moves xs @ moves ys" "moves (ChPlayerJoined p # xs) = (True, p) # moves xs"
  "moves (ChPlayerLeft p # xs) = (False, p) # moves xs" "moves (ChDeliver p k # xs) = moves xs" "moves (ChDbInsert a b # xs) = moves xs"
  "moves (ChDbUpdate an ow pw bl nm tm # xs) = moves xs" "moves (ChDbUsage a b # xs) = moves xs" "moves (ChAssertFailed # xs) = moves xs"
  by (simp_all add: moves_def)

lemma moves_LocalizedPacketDo [simp]: "moves (LocalizedPacketDo b p) = []"
  by (simp add: LocalizedPacketDo_def split: option.split)

lemma moves_concat: "(\<And>x. x \<in> set xs \<Longrightarrow> moves (f x) = []) \<Longrightarrow> moves (concat (map f xs)) = []"
  by (induction xs) auto

lemma moves_sends [simp]: "moves (Channel_SendToAll w b g c) = []" "moves (Channel_SendToAllButOne w b g c) = []"
  "moves (Channel_SendToOne w b g) = []" "moves (Channel_SendToAllWithAddon w b pre g c) = []"
  "moves (notice_to w c a g) = []" "moves (notice_all w a c) = []"
  by (auto simp: Channel_SendToAll_def Channel_SendToAllButOne_def Channel_SendToOne_def Channel_SendToAllWithAddon_def
      notice_to_def notice_all_def intro!: moves_concat split: option.split)

lemma moves_small [simp]: "moves (Channel_UpdateChannelInDB c) = []" "moves (Channel_UpdateChannelUseageInDB c) = []"
  "moves (Channel_JoinNotify w p c) = []" "moves (Channel_LeaveNotify w p c) = []"
  "moves (snd (Channel_SetOwner_guid w g x c)) = []" "moves (snd (Channel_SetModerator_guid w g b c)) = []"
  "moves (snd (Channel_SetMute_guid w g b c)) = []" "moves (snd (Channel_hand_over w c)) = []"
  by (simp_all add: Channel_UpdateChannelInDB_def Channel_UpdateChannelUseageInDB_def Channel_JoinNotify_def Channel_LeaveNotify_def
      Channel_SetOwner_guid_def Channel_SetModerator_guid_def Channel_SetMute_guid_def Channel_hand_over_def Let_def split_def)

lemma IsOn_settings [simp]: "Channel_IsOn h (c\<lparr>ch_isOwnerInvisible := b\<rparr>) = Channel_IsOn h c"
  "Channel_IsOn h (c\<lparr>ch_announceEnabled := b\<rparr>) = Channel_IsOn h c" "Channel_IsOn h (c\<lparr>ch_channelPassword := pass\<rparr>) = Channel_IsOn h c"
  "Channel_IsOn h (c\<lparr>ch_bannedStore := gs\<rparr>) = Channel_IsOn h c" "Channel_IsOn h (c\<lparr>ch_ownershipEnabled := b\<rparr>) = Channel_IsOn h c"
  "Channel_IsOn h (c\<lparr>ch_playersStore := om_del g m\<rparr>) = (h \<noteq> g \<and> map_of m h \<noteq> None)"
  "Channel_IsOn h (c\<lparr>ch_playersStore := om_put g i m\<rparr>) = (h = g \<or> map_of m h \<noteq> None)"
  by (auto simp: Channel_IsOn_def)

lemma IsOn_owner [simp]: "Channel_IsOn h (c\<lparr>ch_ownerGuid := g\<rparr>) = Channel_IsOn h c"
  by (simp add: Channel_IsOn_def)

lemma IsOn_guid_ops [simp]: "Channel_IsOn h (fst (Channel_SetOwner_guid w g x c)) = Channel_IsOn h c"
  "Channel_IsOn h (fst (Channel_SetModerator_guid w g b c)) = Channel_IsOn h c"
  "Channel_IsOn h (fst (Channel_SetMute_guid w g b c)) = Channel_IsOn h c"
  by (simp_all add: Channel_SetOwner_guid_def Channel_SetModerator_guid_def Channel_SetMute_guid_def Let_def)

lemma followsI0: "moves (snd r) = [] \<Longrightarrow> (\<And>h. Channel_IsOn h (fst r) = Channel_IsOn h c) \<Longrightarrow> follows c r"
  by (simp add: follows_def)

lemma follows_quiet: "moves evs = [] \<Longrightarrow> follows c (c, evs)"
  by (rule followsI0) simp_all

lemma follows_guards: "follows c body \<Longrightarrow> follows c (if_member w g c body)" "follows c body \<Longrightarrow> follows c (if_moderator w p c body)"
  by (simp_all add: if_member_def if_moderator_def follows_quiet)

lemma admit_moves: "moves (snd (Channel_admit w p c)) = [(True, pl_guid p)] \<and>
    (\<forall>h. Channel_IsOn h (fst (Channel_admit w p c)) = (h = pl_guid p \<or> Channel_IsOn h c))"
  by (simp add: Channel_admit_def Let_def split_def) (simp add: Channel_IsOn_def)

lemma JoinChannel_follows: "follows c (Channel_JoinChannel w p pass c)"
proof (cases "Channel_IsOn (pl_guid p) c")
  case False
  then have "follows c (Channel_admit w p c)" using admit_moves [of w p c] by (auto simp: follows_def)
  with False show ?thesis by (simp add: Channel_JoinChannel_def Let_def follows_quiet)
qed (simp add: Channel_JoinChannel_def Let_def follows_quiet)

lemma LeaveChannel_moves:
  "if Channel_IsOn (pl_guid p) c
   then moves (snd (Channel_LeaveChannel w p send suspend c)) = [(False, pl_guid p)] \<and>
     (\<forall>h. Channel_IsOn h (fst (Channel_LeaveChannel w p send suspend c)) = (h \<noteq> pl_guid p \<and> Channel_IsOn h c))
   else Channel_LeaveChannel w p send suspend c = (c, if send then notice_to w c NotMemberAppend (pl_guid p) else [])"
  by (auto simp: Channel_LeaveChannel_def Let_def split_def) (auto simp: Channel_IsOn_def)

lemma LeaveChannel_follows: "follows c (Channel_LeaveChannel w p send suspend c)"
  using LeaveChannel_moves [of p c w send suspend] by (auto simp: follows_def split: if_splits)

lemma follows_left: "moves (snd r) = [(False, g)] \<Longrightarrow> (\<And>h. Channel_IsOn h (fst r) = (h \<noteq> g \<and> Channel_IsOn h c)) \<Longrightarrow> follows c r"
  by (auto simp: follows_def)

lemma KickOrBan_follows:
  assumes "Channel_KickOrBan w p n ban c = Inr r"
  shows "follows c r"
proof -
  define v where "v = (case FindConnectedPlayerByName w n of Some bad \<Rightarrow> pl_guid bad | None \<Rightarrow> ObjectGuid_Empty)"
  have "(\<exists>a. r = (c, notice_to w c a (pl_guid p))) \<or>
      moves (snd r) = [(False, v)] \<and> (\<forall>h. Channel_IsOn h (fst r) = (h \<noteq> v \<and> Channel_IsOn h c))"
    using assms unfolding Channel_KickOrBan_def Let_def split_def v_def [symmetric]
    by (simp only: if_True if_False split: if_splits)
      ((rule disjI1, (simp only: sum.inject)?, blast) | (rule disjI2, clarsimp simp: Channel_IsOn_def [of _ c]))+
  then show ?thesis
  proof (elim disjE exE conjE)
    fix a
    assume "r = (c, notice_to w c a (pl_guid p))"
    then show ?thesis by (simp add: follows_quiet)
  next
    assume "moves (snd r) = [(False, v)]" "\<forall>h. Channel_IsOn h (fst r) = (h \<noteq> v \<and> Channel_IsOn h c)"
    then show ?thesis by (intro follows_left) simp_all
  qed
qed

lemma mode_follows: "follows c (Channel_SetMode w p n md on c)"
  unfolding Channel_SetMode_def Let_def
  by (rule follows_guards) (auto split: option.split intro!: followsI0)

lemma setting_follows: "follows c (Channel_UnBan w p n c)" "follows c (Channel_Password w p pass c)" "follows c (Channel_Announce w p c)"
  unfolding Channel_UnBan_def Channel_Password_def Channel_Announce_def Let_def
  by (rule follows_guards; auto intro!: followsI0)+

lemma SetOwner_follows: "follows c (Channel_SetOwner w p n c)"
  unfolding Channel_SetOwner_def Let_def
  by (rule follows_guards) (auto split: option.split intro!: followsI0)

lemma reply_follows: "follows c (Channel_SendWhoOwner w p c)" "follows c (Channel_List w p c)" "follows c (Channel_Invite w p n c)"
  "follows c (c, Channel_SendToAllInChannel w a b c)"
  by (auto simp: Channel_SendWhoOwner_def Channel_List_def Channel_Invite_def Channel_SendToAllInChannel_def Let_def
      intro!: follows_guards follows_quiet split: option.split)

subsection \<open>A player's channels\<close>

definition Player_CanJoinConstantChannelInZone :: "ChannelView \<Rightarrow> Player \<Rightarrow> ChatChannelsEntry \<Rightarrow> AreaTableEntry \<Rightarrow> bool" where
  "Player_CanJoinConstantChannelInZone v p channel zone =
     (if cce_Flags channel AND CHANNEL_DBC_FLAG_ZONE_DEP \<noteq> 0 \<and> cv_area_flags v (area_ID zone) AND AREA_FLAG_ARENA_INSTANCE \<noteq> 0 then False
      else if cce_Flags channel AND CHANNEL_DBC_FLAG_CITY_ONLY \<noteq> 0 \<and> cv_area_flags v (area_ID zone) AND AREA_FLAG_SLAVE_CAPITAL = 0 then False
      else if cce_Flags channel AND CHANNEL_DBC_FLAG_GUILD_REQ \<noteq> 0 \<and> cv_guild v (pl_guid p) \<noteq> 0 then False
      else True)"

text \<open>One channel is left when a player logs out: it is off the player's list before it is told.\<close>

definition cleanup_one :: "ChannelView \<Rightarrow> Player \<Rightarrow> nat \<Rightarrow> ChannelServer \<Rightarrow> channel_error + ChannelServer" where
  "cleanup_one v p a s =
     (let s0 = s\<lparr>cs_joined := (cs_joined s)(pl_guid p := tl (cs_joined s (pl_guid p)))\<rparr> in
      and_then (cs_call a (\<lambda>c. Inr (Channel_LeaveChannel (cv_world v) p False False c)) s0) (\<lambda>s1.
        case ChannelMgr_ForTeam v (pl_team p) of
          None \<Rightarrow> Inr s1
        | Some mgr \<Rightarrow> and_then (cs_read a s1) (\<lambda>c.
            if Channel_IsConstant c then ChannelMgr_LeftChannel_id v mgr (ch_channelId c) (ch_zoneEntry c) s1
            else case Channel_GetName (cv_world v) c 0 of
                   None \<Rightarrow> Inl (ChannelFailed Chan_NoEntry)
                 | Some name \<Rightarrow> ChannelMgr_LeftChannel_name v mgr name s1)))"

text \<open>\<open>CleanupChannels\<close>: until the list is empty. That it ends rests on what leaving does to the list.\<close>

lemma register_moves: "fold (chan_register a) evs joined =
    fold (\<lambda>(into, p). if into then Player_JoinedChannel p a else Player_LeftChannel p a) (moves evs) joined"
proof (induction evs arbitrary: joined)
  case (Cons ev evs)
  then show ?case by (cases ev) (simp_all add: chan_register_def)
qed simp

lemma upd_mgr_simps [simp]: "cs_joined (cs_upd_mgr m f s) = cs_joined s" "cs_objects (cs_upd_mgr m f s) = cs_objects s"
  "cs_fresh (cs_upd_mgr m f s) = cs_fresh s" "cs_sent (cs_upd_mgr m f s) = cs_sent s"
  by (simp_all add: cs_upd_mgr_def)

lemma LeftChannel_joined: "ChannelMgr_LeftChannel_name v m name s = Inr s1 \<Longrightarrow> cs_joined s1 = cs_joined s"
  "ChannelMgr_LeftChannel_id v m i zone s = Inr s1 \<Longrightarrow> cs_joined s1 = cs_joined s"
  by (auto simp: ChannelMgr_LeftChannel_name_def ChannelMgr_LeftChannel_id_def and_then_Inr split: option.splits if_splits)

lemma cs_call_InrD: "cs_call a f s = Inr s1 \<Longrightarrow> \<exists>c r. cs_objects s a = Some c \<and> f c = Inr r \<and>
    s1 = s\<lparr>cs_objects := (cs_objects s)(a := Some (fst r)), cs_joined := fold (chan_register a) (snd r) (cs_joined s),
      cs_sent := cs_sent s @ snd r\<rparr>"
  by (auto simp: cs_call_def split: option.splits sum.splits prod.splits)

lemma leave_call_joined:
  assumes "cs_call a (\<lambda>c. Inr (Channel_LeaveChannel w p send suspend c)) s = Inr s1"
  shows "cs_joined s1 = cs_joined s \<or> cs_joined s1 = Player_LeftChannel (pl_guid p) a (cs_joined s)"
proof -
  obtain c where s1: "cs_joined s1 = fold (chan_register a) (snd (Channel_LeaveChannel w p send suspend c)) (cs_joined s)"
    using cs_call_InrD [OF assms] by auto
  show ?thesis
  proof (cases "Channel_IsOn (pl_guid p) c")
    case True
    then have "moves (snd (Channel_LeaveChannel w p send suspend c)) = [(False, pl_guid p)]"
      using LeaveChannel_moves [of p c w send suspend] by simp
    then show ?thesis by (simp add: s1 register_moves)
  next
    case False
    then have "Channel_LeaveChannel w p send suspend c = (c, if send then notice_to w c NotMemberAppend (pl_guid p) else [])"
      using LeaveChannel_moves [of p c w send suspend] by simp
    then have "moves (snd (Channel_LeaveChannel w p send suspend c)) = []" by simp
    then show ?thesis by (simp add: s1 register_moves)
  qed
qed

lemma length_removeAll_le: "length (removeAll a xs) \<le> length xs"
  by (simp add: removeAll_filter_not_eq)

lemma cleanup_one_shorter:
  assumes "cleanup_one v p a s = Inr s1" "cs_joined s (pl_guid p) \<noteq> []"
  shows "length (cs_joined s1 (pl_guid p)) < length (cs_joined s (pl_guid p))"
proof -
  let ?s0 = "s\<lparr>cs_joined := (cs_joined s)(pl_guid p := tl (cs_joined s (pl_guid p)))\<rparr>"
  obtain s2 where call: "cs_call a (\<lambda>c. Inr (Channel_LeaveChannel (cv_world v) p False False c)) ?s0 = Inr s2"
    and same: "cs_joined s1 = cs_joined s2"
    using assms(1) by (auto simp: cleanup_one_def Let_def and_then_Inr LeftChannel_joined split: option.splits if_splits)
  have "length (cs_joined s2 (pl_guid p)) \<le> length (tl (cs_joined s (pl_guid p)))"
    using leave_call_joined [OF call] length_removeAll_le [of a "tl (cs_joined s (pl_guid p))"]
    by (auto simp: Player_LeftChannel_def)
  with assms(2) same show ?thesis by (cases "cs_joined s (pl_guid p)") auto
qed

lemma and_then_cong [fundef_cong]: "m = m' \<Longrightarrow> (\<And>x. m' = Inr x \<Longrightarrow> f x = g x) \<Longrightarrow> and_then m f = and_then m' g"
  by (cases m') auto

function Player_CleanupChannels :: "ChannelView \<Rightarrow> Player \<Rightarrow> ChannelServer \<Rightarrow> channel_error + ChannelServer" where
  "Player_CleanupChannels v p s =
     (case cs_joined s (pl_guid p) of
        [] \<Rightarrow> Inr s
      | a # as \<Rightarrow> and_then (cleanup_one v p a s) (\<lambda>s1. Player_CleanupChannels v p s1))"
  by pat_completeness auto
termination Player_CleanupChannels
  by (relation "measure (\<lambda>(v, p, s). length (cs_joined s (pl_guid p)))") (auto dest: cleanup_one_shorter)

declare Player_CleanupChannels.simps [simp del]

text \<open>\<open>UpdateLocalChannels\<close>: when a player enters a zone, for each row of the table of channels.\<close>

fun used_channel :: "u32 \<Rightarrow> ChannelServer \<Rightarrow> nat list \<Rightarrow> channel_error + nat option" where
  "used_channel i s [] = Inr None"
| "used_channel i s (a # as) = and_then (cs_read a s) (\<lambda>c. if ch_channelId c = i then Inr (Some a) else used_channel i s as)"

definition swap_channels :: "ChannelView \<Rightarrow> Player \<Rightarrow> bool \<Rightarrow> nat option \<Rightarrow> nat option \<Rightarrow> bool \<Rightarrow> ChannelServer \<Rightarrow> channel_error + ChannelServer" where
  "swap_channels v p mgr joinChannel removeChannel sendRemove s =
     and_then (case joinChannel of None \<Rightarrow> Inr s | Some a \<Rightarrow> cs_call a (\<lambda>c. Inr (Channel_JoinChannel (cv_world v) p [] c)) s) (\<lambda>s1.
       case removeChannel of
         None \<Rightarrow> Inr s1
       | Some a \<Rightarrow>
           and_then (cs_call a (\<lambda>c. Inr (Channel_LeaveChannel (cv_world v) p sendRemove True c)) s1) (\<lambda>s2.
           and_then (cs_read a s2) (\<lambda>c.
             ChannelMgr_LeftChannel_id v mgr (ch_channelId c) (ch_zoneEntry c)
               (s2\<lparr>cs_joined := Player_LeftChannel (pl_guid p) a (cs_joined s2)\<rparr>))))"

definition update_one :: "ChannelView \<Rightarrow> Player \<Rightarrow> bool \<Rightarrow> AreaTableEntry \<Rightarrow> u32 \<Rightarrow> ChannelServer \<Rightarrow> channel_error + ChannelServer" where
  "update_one v p mgr zone i s =
     (case w_chatChannels (cv_world v) i of
        None \<Rightarrow> Inr s
      | Some entry \<Rightarrow>
          and_then (used_channel i s (cs_joined s (pl_guid p))) (\<lambda>used.
            if \<not> Player_CanJoinConstantChannelInZone v p entry zone then swap_channels v p mgr None used True s
            else if cce_Flags entry AND CHANNEL_DBC_FLAG_GLOBAL \<noteq> 0
            then and_then (ChannelMgr_GetJoinChannel v mgr i [] None s) (\<lambda>(a, s1). swap_channels v p mgr a None True s1)
            else if cce_Flags entry AND CHANNEL_DBC_FLAG_CITY_ONLY \<noteq> 0 \<and> used \<noteq> None then Inr s
            else and_then (ChannelMgr_GetJoinChannel v mgr i [] (Some zone) s) (\<lambda>(a, s1).
                   if used = None then swap_channels v p mgr a None True s1
                   else if a \<noteq> used then swap_channels v p mgr a used False s1
                   else Inr s1)))"

fun update_rows :: "ChannelView \<Rightarrow> Player \<Rightarrow> bool \<Rightarrow> AreaTableEntry \<Rightarrow> u32 list \<Rightarrow> ChannelServer \<Rightarrow> channel_error + ChannelServer" where
  "update_rows v p mgr zone [] s = Inr s"
| "update_rows v p mgr zone (i # is) s = and_then (update_one v p mgr zone i s) (update_rows v p mgr zone is)"

definition Player_UpdateLocalChannels :: "ChannelView \<Rightarrow> Player \<Rightarrow> bool \<Rightarrow> u32 \<Rightarrow> ChannelServer \<Rightarrow> channel_error + ChannelServer" where
  "Player_UpdateLocalChannels v p loading newZone s =
     (if loading then Inr s
      else case cv_areas v newZone of
        None \<Rightarrow> Inr s
      | Some zone \<Rightarrow>
          (case ChannelMgr_ForTeam v (pl_team p) of
             None \<Rightarrow> Inr s
           | Some mgr \<Rightarrow> update_rows v p mgr zone (map of_nat [0..<cv_channel_rows v]) s))"

fun lfg_channel :: "ChannelServer \<Rightarrow> nat list \<Rightarrow> channel_error + nat option" where
  "lfg_channel s [] = Inr None"
| "lfg_channel s (a # as) = and_then (cs_read a s) (\<lambda>c. if Channel_IsLFG c then Inr (Some a) else lfg_channel s as)"

definition Player_LeaveLFGChannel :: "ChannelView \<Rightarrow> Player \<Rightarrow> ChannelServer \<Rightarrow> channel_error + ChannelServer" where
  "Player_LeaveLFGChannel v p s =
     and_then (lfg_channel s (cs_joined s (pl_guid p))) (\<lambda>found.
       case found of None \<Rightarrow> Inr s | Some a \<Rightarrow> cs_call a (\<lambda>c. Inr (Channel_LeaveChannel (cv_world v) p True False c)) s)"

subsection \<open>Packets of the client (game/Handlers/ChannelHandler.cpp)\<close>

text \<open>A named channel of the client's data base must exist and be open to the player in its zone.\<close>

definition constant_channel_ok :: "ChannelView \<Rightarrow> Player \<Rightarrow> u32 \<Rightarrow> AreaTableEntry option \<Rightarrow> bool" where
  "constant_channel_ok v p channelId zone \<longleftrightarrow>
     (case w_chatChannels (cv_world v) channelId of
        None \<Rightarrow> False
      | Some channel \<Rightarrow> (case zone of None \<Rightarrow> False | Some z \<Rightarrow> Player_CanJoinConstantChannelInZone v p channel z))"

definition HandleJoinChannel :: "ChannelView \<Rightarrow> Player \<Rightarrow> u32 \<Rightarrow> string \<Rightarrow> string \<Rightarrow> ChannelServer \<Rightarrow> channel_error + ChannelServer" where
  "HandleJoinChannel v p chatChannelId channelName password s =
     (let zone = cv_areas v (cv_zone v (pl_guid p)) in
      if chatChannelId \<noteq> 0 \<and> \<not> constant_channel_ok v p chatChannelId zone then Inr s
      else if channelName = [] then Inr s
      else if isdigit (hd channelName) then Inr s
      else case ChannelMgr_ForTeam v (pl_team p) of
        None \<Rightarrow> Inr s
      | Some mgr \<Rightarrow>
          and_then (ChannelMgr_GetJoinChannel v mgr chatChannelId channelName zone s) (\<lambda>(found, s1).
            case found of None \<Rightarrow> Inr s1 | Some a \<Rightarrow> cs_call a (\<lambda>c. Inr (Channel_JoinChannel (cv_world v) p password c)) s1))"

definition HandleLeaveChannel :: "ChannelView \<Rightarrow> Player \<Rightarrow> u32 \<Rightarrow> string \<Rightarrow> ChannelServer \<Rightarrow> channel_error + ChannelServer" where
  "HandleLeaveChannel v p zoneChannelId channelName s =
     (if channelName = [] \<and> zoneChannelId = 0 then Inr s
      else let zone = cv_areas v (cv_zone v (pl_guid p)) in
      if zoneChannelId \<noteq> 0 \<and> \<not> constant_channel_ok v p zoneChannelId zone then Inr s
      else case ChannelMgr_ForTeam v (pl_team p) of
        None \<Rightarrow> Inr s
      | Some mgr \<Rightarrow>
          and_then (ChannelMgr_GetChannel v mgr zoneChannelId channelName (Some p) zone s) (\<lambda>(found, s1).
          and_then (case found of
                      None \<Rightarrow> Inr s1
                    | Some a \<Rightarrow> cs_call a (\<lambda>c. Inr (Channel_LeaveChannel (cv_world v) p True False c)) s1)
            (if zoneChannelId \<noteq> 0 then ChannelMgr_LeftChannel_id v mgr zoneChannelId zone
             else ChannelMgr_LeftChannel_name v mgr channelName)))"

datatype channel_command = CMSG_CHAT_CHANNEL_ANNOUNCEMENTS | CMSG_CHAT_CHANNEL_DECLINE_INVITE | CMSG_CHAT_CHANNEL_DISPLAY_LIST
  | CMSG_CHAT_CHANNEL_LIST | CMSG_CHAT_CHANNEL_OWNER

definition channel_command_run :: "ChannelWorld \<Rightarrow> channel_command \<Rightarrow> Player \<Rightarrow> Channel \<Rightarrow> Channel \<times> chan_event list" where
  "channel_command_run w opcode p c =
     (case opcode of
        CMSG_CHAT_CHANNEL_ANNOUNCEMENTS \<Rightarrow> Channel_Announce w p c
      | CMSG_CHAT_CHANNEL_DECLINE_INVITE \<Rightarrow> (Channel_DeclineInvite p c, [])
      | CMSG_CHAT_CHANNEL_DISPLAY_LIST \<Rightarrow> Channel_List w p c
      | CMSG_CHAT_CHANNEL_LIST \<Rightarrow> Channel_List w p c
      | CMSG_CHAT_CHANNEL_OWNER \<Rightarrow> Channel_SendWhoOwner w p c)"

definition on_named_channel :: "ChannelView \<Rightarrow> Player \<Rightarrow> string \<Rightarrow> (Channel \<Rightarrow> chan_error + (Channel \<times> chan_event list))
    \<Rightarrow> ChannelServer \<Rightarrow> channel_error + ChannelServer" where
  "on_named_channel v p channelName f s =
     and_then (ChannelMgr_GetChannelForPlayerByNamePart v channelName p s) (\<lambda>found.
       case found of None \<Rightarrow> Inr s | Some a \<Rightarrow> cs_call a f s)"

definition HandleChannelCommand :: "ChannelView \<Rightarrow> Player \<Rightarrow> channel_command \<Rightarrow> string \<Rightarrow> ChannelServer \<Rightarrow> channel_error + ChannelServer" where
  "HandleChannelCommand v p opcode channelName =
     on_named_channel v p channelName (\<lambda>c. Inr (channel_command_run (cv_world v) opcode p c))"

datatype player_command = CMSG_CHAT_CHANNEL_BAN | CMSG_CHAT_CHANNEL_INVITE | CMSG_CHAT_CHANNEL_KICK | CMSG_CHAT_CHANNEL_MODERATOR
  | CMSG_CHAT_CHANNEL_MUTE | CMSG_CHAT_CHANNEL_SET_OWNER | CMSG_CHAT_CHANNEL_SILENCE_ALL | CMSG_CHAT_CHANNEL_UNBAN
  | CMSG_CHAT_CHANNEL_UNMODERATOR | CMSG_CHAT_CHANNEL_UNMUTE | CMSG_CHAT_CHANNEL_UNSILENCE_ALL

definition player_command_run :: "ChannelWorld \<Rightarrow> player_command \<Rightarrow> Player \<Rightarrow> string \<Rightarrow> Channel \<Rightarrow> chan_error + (Channel \<times> chan_event list)" where
  "player_command_run w opcode p name c =
     (case opcode of
        CMSG_CHAT_CHANNEL_BAN \<Rightarrow> Channel_Ban w p name c
      | CMSG_CHAT_CHANNEL_INVITE \<Rightarrow> Inr (Channel_Invite w p name c)
      | CMSG_CHAT_CHANNEL_KICK \<Rightarrow> Channel_Kick w p name c
      | CMSG_CHAT_CHANNEL_MODERATOR \<Rightarrow> Inr (Channel_SetMode w p name True True c)
      | CMSG_CHAT_CHANNEL_MUTE \<Rightarrow> Inr (Channel_SetMode w p name False True c)
      | CMSG_CHAT_CHANNEL_SET_OWNER \<Rightarrow> Inr (Channel_SetOwner w p name c)
      | CMSG_CHAT_CHANNEL_SILENCE_ALL \<Rightarrow> Inr (Channel_SilenceAll p name c, [])
      | CMSG_CHAT_CHANNEL_UNBAN \<Rightarrow> Inr (Channel_UnBan w p name c)
      | CMSG_CHAT_CHANNEL_UNMODERATOR \<Rightarrow> Inr (Channel_SetMode w p name True False c)
      | CMSG_CHAT_CHANNEL_UNMUTE \<Rightarrow> Inr (Channel_SetMode w p name False False c)
      | CMSG_CHAT_CHANNEL_UNSILENCE_ALL \<Rightarrow> Inr (Channel_UnsilenceAll p name c, []))"

definition HandleChannelPlayerCommand :: "ChannelView \<Rightarrow> Player \<Rightarrow> player_command \<Rightarrow> string \<Rightarrow> string \<Rightarrow> ChannelServer
    \<Rightarrow> channel_error + ChannelServer" where
  "HandleChannelPlayerCommand v p opcode channelName name s =
     (if length name \<ge> MAX_CHANNEL_NAME_STR then Inr s
      else case w_normalizePlayerName (cv_world v) name of
        None \<Rightarrow> Inr s
      | Some normal \<Rightarrow> on_named_channel v p channelName (player_command_run (cv_world v) opcode p normal) s)"

definition HandleChannelPassword :: "ChannelView \<Rightarrow> Player \<Rightarrow> string \<Rightarrow> string \<Rightarrow> ChannelServer \<Rightarrow> channel_error + ChannelServer" where
  "HandleChannelPassword v p channelName password s =
     (if length password > MAX_CHANNEL_PASS_STR then Inr s
      else on_named_channel v p channelName (\<lambda>c. Inr (Channel_Password (cv_world v) p password c)) s)"

subsection \<open>Lists, members and registries agree\<close>

definition cs_lookup :: "ChannelServer \<Rightarrow> bool \<times> (nat list + u32 \<times> u32) \<Rightarrow> nat option" where
  "cs_lookup s = (\<lambda>(mgr, k). case k of Inl name \<Rightarrow> cm_customChannels (cs_mgr mgr s) name | Inr key \<Rightarrow> cm_channels (cs_mgr mgr s) key)"

text \<open>
  A server is in order: a channel is on the list of a player, and once, exactly if the player is a member of it; every
  channel keeps its own invariant, and its members are among given players; a registry refers to no deleted channel, two
  names never to the same one, and every channel is in a registry.
\<close>

definition lists_agree :: "(nat \<Rightarrow> Channel option) \<Rightarrow> (ObjectGuid \<Rightarrow> nat list) \<Rightarrow> bool" where
  "lists_agree objects joined \<longleftrightarrow> (\<forall>p. distinct (joined p)) \<and>
     (\<forall>p a. a \<in> set (joined p) \<longleftrightarrow> (\<exists>c. objects a = Some c \<and> Channel_IsOn p c))"

definition channels_ok :: "ObjectGuid set \<Rightarrow> (nat \<Rightarrow> Channel option) \<Rightarrow> bool" where
  "channels_ok P objects \<longleftrightarrow> (\<forall>a c. objects a = Some c \<longrightarrow> chan_inv c \<and> (\<forall>h. Channel_IsOn h c \<longrightarrow> h \<in> P))"

definition registries_ok :: "ChannelServer \<Rightarrow> bool" where
  "registries_ok s \<longleftrightarrow> (\<forall>a. cs_objects s a \<noteq> None \<longleftrightarrow> (\<exists>k. cs_lookup s k = Some a)) \<and>
     (\<forall>a k k'. cs_lookup s k = Some a \<longrightarrow> cs_lookup s k' = Some a \<longrightarrow> k = k') \<and>
     (\<forall>a. cs_objects s a \<noteq> None \<longrightarrow> a < cs_fresh s)"

definition chan_server_ok :: "ObjectGuid set \<Rightarrow> ChannelServer \<Rightarrow> bool" where
  "chan_server_ok P s \<longleftrightarrow> lists_agree (cs_objects s) (cs_joined s) \<and> channels_ok P (cs_objects s) \<and> registries_ok s"

text \<open>A result that never comes from a deleted channel, and is in order.\<close>

definition never_deleted :: "('a \<Rightarrow> bool) \<Rightarrow> channel_error + 'a \<Rightarrow> bool" where
  "never_deleted Q m = (case m of Inl e \<Rightarrow> e \<noteq> UseOfDeletedChannel | Inr x \<Rightarrow> Q x)"

lemma never_deleted_simps [simp]: "never_deleted Q (Inr x) = Q x" "never_deleted Q (Inl e) = (e \<noteq> UseOfDeletedChannel)"
  by (simp_all add: never_deleted_def)

lemma never_deleted_then: "never_deleted Q m \<Longrightarrow> (\<And>x. m = Inr x \<Longrightarrow> Q x \<Longrightarrow> never_deleted R (f x)) \<Longrightarrow> never_deleted R (and_then m f)"
  by (cases m) auto

lemma lookup_simps [simp]:
  "cs_lookup (s\<lparr>cs_objects := x\<rparr>) = cs_lookup s" "cs_lookup (s\<lparr>cs_joined := y\<rparr>) = cs_lookup s" "cs_lookup (s\<lparr>cs_sent := z\<rparr>) = cs_lookup s"
  "cs_lookup (s\<lparr>cs_fresh := n\<rparr>) = cs_lookup s"
  by (simp_all add: cs_lookup_def cs_mgr_def fun_eq_iff split: sum.split)

lemma lookup_upd [simp]:
  "cs_lookup (cs_upd_mgr m (\<lambda>x. x\<lparr>cm_customChannels := (cm_customChannels x)(n := r)\<rparr>) s) = (cs_lookup s)((m, Inl n) := r)"
  "cs_lookup (cs_upd_mgr m (\<lambda>x. x\<lparr>cm_channels := (cm_channels x)(key := r)\<rparr>) s) = (cs_lookup s)((m, Inr key) := r)"
  by (auto simp: cs_lookup_def cs_mgr_def cs_upd_mgr_def fun_eq_iff split: sum.split)

lemma lookup_mgr: "cm_customChannels (cs_mgr m s) n = cs_lookup s (m, Inl n)" "cm_channels (cs_mgr m s) key = cs_lookup s (m, Inr key)"
  by (simp_all add: cs_lookup_def)

subsection \<open>A call keeps the order\<close>

lemma lists_agreeD: "lists_agree objects joined \<Longrightarrow> a \<in> set (joined p) \<longleftrightarrow> (\<exists>c. objects a = Some c \<and> Channel_IsOn p c)"
  "lists_agree objects joined \<Longrightarrow> distinct (joined p)"
  by (auto simp: lists_agree_def)

lemma call_lists:
  assumes ok: "lists_agree objects joined" and c: "objects a = Some c" and r: "follows c r"
  shows "lists_agree (objects(a := Some (fst r))) (fold (chan_register a) (snd r) joined)"
proof -
  let ?m = "fold (\<lambda>(into, p). if into then Player_JoinedChannel p a else Player_LeftChannel p a) (moves (snd r)) joined"
  note D = lists_agreeD [OF ok]
  consider (quiet) "moves (snd r) = []" "\<forall>h. Channel_IsOn h (fst r) = Channel_IsOn h c"
    | (joins) g where "moves (snd r) = [(True, g)]" "\<not> Channel_IsOn g c" "\<forall>h. Channel_IsOn h (fst r) = (h = g \<or> Channel_IsOn h c)"
    | (leaves) g where "moves (snd r) = [(False, g)]" "\<forall>h. Channel_IsOn h (fst r) = (h \<noteq> g \<and> Channel_IsOn h c)"
    using r by (auto simp: follows_def)
  then have "lists_agree (objects(a := Some (fst r))) ?m"
  proof cases
    case quiet
    then show ?thesis using D c by (auto simp: lists_agree_def)
  next
    case (joins g)
    have "a \<notin> set (joined g)" using D(1) [of a g] c joins(2) by simp
    then show ?thesis using D c joins by (auto simp: lists_agree_def Player_JoinedChannel_def)
  next
    case (leaves g)
    then show ?thesis using D c by (auto simp: lists_agree_def Player_LeftChannel_def distinct_removeAll)
  qed
  then show ?thesis by (simp add: register_moves)
qed

lemma objects_registries: "registries_ok s \<Longrightarrow> cs_objects s a \<noteq> None \<Longrightarrow> registries_ok (s\<lparr>cs_objects := (cs_objects s)(a := Some c), cs_joined := j, cs_sent := t\<rparr>)"
  by (auto simp: registries_ok_def)

lemma cs_call_ok:
  assumes ok: "chan_server_ok P s" and a: "cs_objects s a = Some c"
    and f: "\<And>r. f c = Inr r \<Longrightarrow> follows c r \<and> chan_inv (fst r) \<and> (\<forall>g. (True, g) \<in> set (moves (snd r)) \<longrightarrow> g \<in> P)"
  shows "never_deleted (chan_server_ok P) (cs_call a f s)"
proof (cases "f c")
  case (Inl e)
  then show ?thesis by (simp add: cs_call_def a)
next
  case (Inr r)
  note r = f [OF Inr]
  have mem: "\<forall>h. Channel_IsOn h c \<longrightarrow> h \<in> P" using ok a by (auto simp: chan_server_ok_def channels_ok_def)
  have "\<forall>h. Channel_IsOn h (fst r) \<longrightarrow> h \<in> P"
    using r mem by (auto simp: follows_def)
  then have "channels_ok P ((cs_objects s)(a := Some (fst r)))"
    using ok r by (auto simp: chan_server_ok_def channels_ok_def)
  moreover have "lists_agree ((cs_objects s)(a := Some (fst r))) (fold (chan_register a) (snd r) (cs_joined s))"
    using ok a r by (intro call_lists) (auto simp: chan_server_ok_def)
  moreover have "registries_ok (s\<lparr>cs_objects := (cs_objects s)(a := Some (fst r)), cs_joined := fold (chan_register a) (snd r) (cs_joined s),
      cs_sent := cs_sent s @ snd r\<rparr>)"
    using ok a by (intro objects_registries) (auto simp: chan_server_ok_def)
  ultimately show ?thesis by (simp add: cs_call_def a Inr split_def chan_server_ok_def)
qed

lemma channels_inv: "chan_server_ok P s \<Longrightarrow> cs_objects s a = Some c \<Longrightarrow> chan_inv c"
  by (auto simp: chan_server_ok_def channels_ok_def)

lemma listed_exists: "chan_server_ok P s \<Longrightarrow> a \<in> set (cs_joined s p) \<Longrightarrow> \<exists>c. cs_objects s a = Some c \<and> Channel_IsOn p c"
  by (auto simp: chan_server_ok_def lists_agree_def)

lemma registered_exists: "chan_server_ok P s \<Longrightarrow> cs_lookup s k = Some a \<Longrightarrow> \<exists>c. cs_objects s a = Some c"
  unfolding chan_server_ok_def registries_ok_def not_None_eq by blast

lemma join_call_ok:
  assumes "chan_server_ok P s" "cs_objects s a = Some c" "pl_guid p \<in> P"
  shows "never_deleted (chan_server_ok P) (cs_call a (\<lambda>c. Inr (Channel_JoinChannel w p pass c)) s)"
proof (rule cs_call_ok [OF assms(1,2)])
  fix r
  assume "Inr (Channel_JoinChannel w p pass c) = (Inr r :: chan_error + _)"
  then have r: "r = Channel_JoinChannel w p pass c" by simp
  have "(True, g) \<in> set (moves (snd r)) \<Longrightarrow> g = pl_guid p" for g
    using admit_moves [of w p c] by (auto simp: r Channel_JoinChannel_def Let_def split: if_splits)
  then show "follows c r \<and> chan_inv (fst r) \<and> (\<forall>g. (True, g) \<in> set (moves (snd r)) \<longrightarrow> g \<in> P)"
    using JoinChannel_follows [of c w p pass] JoinChannel_inv [OF channels_inv [OF assms(1,2)], of w p pass] assms(3) by (auto simp: r)
qed

text \<open>All other methods let nobody in.\<close>

definition keeps_out :: "(Channel \<Rightarrow> chan_error + (Channel \<times> chan_event list)) \<Rightarrow> bool" where
  "keeps_out f \<longleftrightarrow> (\<forall>c r. f c = Inr r \<longrightarrow> chan_inv c \<longrightarrow> follows c r \<and> chan_inv (fst r) \<and> (\<forall>g. (True, g) \<notin> set (moves (snd r))))"

lemma keeps_out_call: "keeps_out f \<Longrightarrow> chan_server_ok P s \<Longrightarrow> cs_objects s a = Some c \<Longrightarrow> never_deleted (chan_server_ok P) (cs_call a f s)"
  using channels_inv [of P s a c] by (intro cs_call_ok) (auto simp: keeps_out_def)

subsection \<open>Every operation keeps the order\<close>

lemma keeps_out_quiet: "(\<And>c. follows c (f c)) \<Longrightarrow> (\<And>c. chan_inv c \<Longrightarrow> chan_inv (fst (f c))) \<Longrightarrow> (\<And>c g. (True, g) \<notin> set (moves (snd (f c))))
    \<Longrightarrow> keeps_out (\<lambda>c. Inr (f c))"
  by (simp add: keeps_out_def)

lemma guards_out: "(\<And>g. (True, g) \<notin> set (moves (snd body))) \<Longrightarrow> (True, g) \<notin> set (moves (snd (if_member w h c body)))"
  "(\<And>g. (True, g) \<notin> set (moves (snd body))) \<Longrightarrow> (True, g) \<notin> set (moves (snd (if_moderator w p c body)))"
  by (simp_all add: if_member_def if_moderator_def)

lemma leave_out: "keeps_out (\<lambda>c. Inr (Channel_LeaveChannel w p send suspend c))"
proof (rule keeps_out_quiet)
  fix c g
  show "(True, g) \<notin> set (moves (snd (Channel_LeaveChannel w p send suspend c)))"
    using LeaveChannel_moves [of p c w send suspend] by (cases "Channel_IsOn (pl_guid p) c") auto
qed (simp_all add: LeaveChannel_follows LeaveChannel_inv)

lemma kick_out: "keeps_out (Channel_KickOrBan w p n ban)"
proof -
  have "(True, g) \<notin> set (moves (snd r))" if "Channel_KickOrBan w p n ban c = Inr r" for c r g
    using that unfolding Channel_KickOrBan_def Let_def split_def
    by (simp only: if_True if_False split: if_splits) auto
  then show ?thesis using KickOrBan_follows KickOrBan_inv by (metis keeps_out_def prod.collapse)
qed

lemma commands_out: "keeps_out (\<lambda>c. Inr (channel_command_run w opcode p c))"
proof (rule keeps_out_quiet)
  fix c g
  show "follows c (channel_command_run w opcode p c)"
    by (cases opcode) (simp_all add: channel_command_run_def setting_follows reply_follows Channel_DeclineInvite_def follows_quiet)
  show "(True, g) \<notin> set (moves (snd (channel_command_run w opcode p c)))"
    by (cases opcode) (auto simp: channel_command_run_def Channel_Announce_def Channel_List_def Channel_SendWhoOwner_def Let_def
        intro!: guards_out split: option.split)
  show "chan_inv c \<Longrightarrow> chan_inv (fst (channel_command_run w opcode p c))"
    by (cases opcode) (simp_all add: channel_command_run_def Announce_inv Channel_DeclineInvite_def)
qed

lemma mode_out: "(True, g) \<notin> set (moves (snd (Channel_SetMode w p n md on c)))"
  unfolding Channel_SetMode_def Let_def by (rule guards_out) (auto split: option.split)

lemma settings_out: "(True, g) \<notin> set (moves (snd (Channel_UnBan w p n c)))" "(True, g) \<notin> set (moves (snd (Channel_Password w p pass c)))"
  "(True, g) \<notin> set (moves (snd (Channel_SetOwner w p n c)))" "(True, g) \<notin> set (moves (snd (Channel_Invite w p n c)))"
  unfolding Channel_UnBan_def Channel_Password_def Channel_SetOwner_def Channel_Invite_def Let_def
  by (rule guards_out; auto split: option.split)+

lemma player_commands_out: "keeps_out (player_command_run w opcode p n)"
  using kick_out [of w p n True] kick_out [of w p n False]
  by (cases opcode) (auto simp: keeps_out_def player_command_run_def Channel_Ban_def Channel_Kick_def reply_follows mode_follows
      setting_follows SetOwner_follows follows_quiet SetMode_inv SetOwner_inv UnBan_inv Channel_SilenceAll_def Channel_UnsilenceAll_def
      mode_out settings_out)

lemma password_out: "keeps_out (\<lambda>c. Inr (Channel_Password w p pass c))"
  by (rule keeps_out_quiet) (simp_all add: setting_follows Password_inv settings_out)

subsection \<open>The registries keep the order\<close>

lemma fresh_ok:
  assumes ok: "chan_server_ok P s" and c: "ch_playersStore c = []" "chan_inv c"
    and new: "cs_lookup s1 = (cs_lookup s)(k := Some (cs_fresh s))" "cs_lookup s k = None" "cs_objects s1 = (cs_objects s)(cs_fresh s := Some c)"
      "cs_fresh s1 = Suc (cs_fresh s)" "cs_joined s1 = cs_joined s"
  shows "chan_server_ok P s1"
proof -
  have free: "cs_objects s (cs_fresh s) = None"
    using ok by (force simp: chan_server_ok_def registries_ok_def)
  have nobody: "\<not> Channel_IsOn h c" for h using c(1) by (simp add: Channel_IsOn_def)
  have lists: "lists_agree (cs_objects s1) (cs_joined s1)"
    using ok free nobody by (auto simp: chan_server_ok_def lists_agree_def new)
  have chans: "channels_ok P (cs_objects s1)"
    using ok c(2) nobody by (auto simp: chan_server_ok_def channels_ok_def new)
  have R: "cs_objects s a \<noteq> None \<longleftrightarrow> (\<exists>k. cs_lookup s k = Some a)" "cs_lookup s k = Some a \<Longrightarrow> cs_lookup s k' = Some a \<Longrightarrow> k = k'"
    "cs_objects s a \<noteq> None \<Longrightarrow> a < cs_fresh s" for a k k'
    using ok unfolding chan_server_ok_def registries_ok_def by blast+
  have unused: "cs_lookup s j \<noteq> Some (cs_fresh s)" for j using R(1) [of "cs_fresh s"] free by blast
  have "registries_ok s1" unfolding registries_ok_def
  proof (intro conjI allI impI)
    fix a
    show "cs_objects s1 a \<noteq> None \<longleftrightarrow> (\<exists>k. cs_lookup s1 k = Some a)"
    proof (cases "a = cs_fresh s")
      case True
      moreover have "cs_lookup s1 k = Some (cs_fresh s)" by (simp add: new)
      ultimately show ?thesis unfolding new(3) by (metis fun_upd_same option.distinct(1))
    next
      case False
      then have "(cs_lookup s1 j = Some a) = (cs_lookup s j = Some a)" for j using new(2) by (simp add: new(1))
      then show ?thesis using False R(1) [of a] by (simp add: new)
    qed
  next
    fix a j j'
    assume "cs_lookup s1 j = Some a" "cs_lookup s1 j' = Some a"
    then show "j = j'" using unused R(2) [of j a j'] by (auto simp: new(1) split: if_splits)
  next
    fix a
    assume "cs_objects s1 a \<noteq> None"
    then show "a < cs_fresh s1" using R(3) [of a] by (auto simp: new less_Suc_eq split: if_splits)
  qed
  with lists chans show ?thesis by (simp add: chan_server_ok_def)
qed

definition found_ok :: "ObjectGuid set \<Rightarrow> nat option \<times> ChannelServer \<Rightarrow> bool" where
  "found_ok P r \<longleftrightarrow> chan_server_ok P (snd r) \<and> (\<forall>a. fst r = Some a \<longrightarrow> (\<exists>c. cs_objects (snd r) a = Some c))"

lemma sent_ok [simp]: "chan_server_ok P (s\<lparr>cs_sent := t\<rparr>) = chan_server_ok P s"
  by (simp add: chan_server_ok_def registries_ok_def)

lemma Channel_builtin_fresh: "Channel_builtin w i t z = Inr c \<Longrightarrow> ch_playersStore c = [] \<and> chan_inv c"
  by (auto simp: Channel_builtin_def Let_def split: option.splits intro!: chan_inv_fresh)

lemma Channel_custom_fresh: "Channel_custom w q n t = Inr (c, evs) \<Longrightarrow> ch_playersStore c = [] \<and> chan_inv c"
  using Channel_custom_inv [of w q n t c evs] by simp

lemma builtin_key_never: "never_deleted (\<lambda>x. True) (builtin_key v i z)"
  by (simp add: builtin_key_def split: option.split)

lemma GetJoinChannel_ok:
  assumes ok: "chan_server_ok P s"
  shows "never_deleted (found_ok P) (ChannelMgr_GetJoinChannel v mgr i name zone s)"
proof (cases "i = 0")
  case True
  show ?thesis
  proof (cases "wide_lower v name")
    case (Some key)
    show ?thesis
    proof (cases "cs_lookup s (mgr, Inl key)")
      case None
      show ?thesis
      proof (cases "Channel_custom (cv_world v) (cv_query v) name (mgr_team mgr)")
        case (Inr r)
        obtain c evs where r: "r = (c, evs)" by force
        let ?s = "cs_upd_mgr mgr (\<lambda>m. m\<lparr>cm_customChannels := (cm_customChannels m)(key := Some (cs_fresh s))\<rparr>)
            ((cs_new c s)\<lparr>cs_sent := cs_sent s @ evs\<rparr>)"
        have "chan_server_ok P ?s"
          using Channel_custom_fresh [OF Inr [unfolded r]] None
          by (intro fresh_ok [OF ok, where k = "(mgr, Inl key)" and c = c]) (simp_all add: cs_new_def)
        then show ?thesis using True Some None Inr
          by (simp add: ChannelMgr_GetJoinChannel_def lookup_mgr r found_ok_def cs_new_def)
      qed (use True Some None in \<open>simp add: ChannelMgr_GetJoinChannel_def lookup_mgr\<close>)
    next
      case (Some a)
      then show ?thesis using True \<open>wide_lower v name = _\<close> ok registered_exists [OF ok Some]
        by (simp add: ChannelMgr_GetJoinChannel_def lookup_mgr found_ok_def)
    qed
  qed (use True ok in \<open>simp add: ChannelMgr_GetJoinChannel_def found_ok_def\<close>)
next
  case False
  have "never_deleted (found_ok P) (case cs_lookup s (mgr, Inr key) of Some a \<Rightarrow> Inr (Some a, s)
      | None \<Rightarrow> (case Channel_builtin (cv_world v) i (mgr_team mgr) zone of Inl e \<Rightarrow> Inl (ChannelFailed e)
          | Inr c \<Rightarrow> Inr (Some (cs_fresh s), cs_upd_mgr mgr (\<lambda>m. m\<lparr>cm_channels := (cm_channels m)(key := Some (cs_fresh s))\<rparr>) (cs_new c s))))" for key
  proof (cases "cs_lookup s (mgr, Inr key)")
    case None
    show ?thesis
    proof (cases "Channel_builtin (cv_world v) i (mgr_team mgr) zone")
      case (Inr c)
      let ?s = "cs_upd_mgr mgr (\<lambda>m. m\<lparr>cm_channels := (cm_channels m)(key := Some (cs_fresh s))\<rparr>) (cs_new c s)"
      have "chan_server_ok P ?s"
        using Channel_builtin_fresh [OF Inr] None
        by (intro fresh_ok [OF ok, where k = "(mgr, Inr key)" and c = c]) (simp_all add: cs_new_def)
      then show ?thesis using None Inr by (simp add: found_ok_def cs_new_def)
    qed (simp add: None)
  next
    case (Some a)
    then show ?thesis using ok registered_exists [OF ok Some] by (simp add: found_ok_def)
  qed
  with False show ?thesis
    unfolding ChannelMgr_GetJoinChannel_def lookup_mgr by (auto intro: never_deleted_then [OF builtin_key_never])
qed

lemma GetChannel_ok:
  assumes ok: "chan_server_ok P s"
  shows "never_deleted (found_ok P) (ChannelMgr_GetChannel v mgr i name notify zone s)"
  unfolding ChannelMgr_GetChannel_def lookup_mgr
proof (rule never_deleted_then [where Q = "\<lambda>f. \<forall>a. f = Some (Some a) \<longrightarrow> (\<exists>c. cs_objects s a = Some c)"])
  show "never_deleted (\<lambda>f. \<forall>a. f = Some (Some a) \<longrightarrow> (\<exists>c. cs_objects s a = Some c))
      (if i \<noteq> 0 then map_sum id (\<lambda>key. Some (cs_lookup s (mgr, Inr key))) (builtin_key v i zone)
       else Inr (map_option (\<lambda>n. cs_lookup s (mgr, Inl n)) (wide_lower v name)))"
    using registered_exists [OF ok] by (auto simp: builtin_key_def split: option.split)
qed (use ok in \<open>auto simp: found_ok_def ChannelMgr_SendNotOnChannelNotify_def split: option.splits\<close>)

subsection \<open>Deleting an empty channel\<close>

text \<open>The number of members is 32 bits wide: with fewer players than that, 0 means that nobody is there.\<close>

lemma no_players:
  assumes ok: "chan_server_ok P s" and P: "finite P" "card P < 2 ^ 32" and c: "cs_objects s a = Some c" "Channel_GetNumPlayers c = 0"
  shows "\<not> Channel_IsOn h c"
proof -
  let ?keys = "map fst (ch_playersStore c)"
  have "chan_inv c" "\<forall>h. Channel_IsOn h c \<longrightarrow> h \<in> P" using ok c(1) by (auto simp: chan_server_ok_def channels_ok_def)
  then have "distinct ?keys" "set ?keys \<subseteq> P"
    using chan_invD(1) om_ok_distinct by (auto simp: Channel_IsOn_def map_of_eq_None_iff)
  then have "length ?keys \<le> card P" using card_mono [OF P(1)] by (metis distinct_card)
  then have "length (ch_playersStore c) < 2 ^ 32" using P(2) by simp
  then have "ch_playersStore c = []"
    using c(2) by (simp add: Channel_GetNumPlayers_def of_nat_eq_0_iff word_of_nat_eq_0_iff nat_dvd_not_less) (metis c(2) length_0_conv nat_dvd_not_less neq0_conv)
  then show ?thesis by (simp add: Channel_IsOn_def)
qed

lemma delete_ok:
  assumes ok: "chan_server_ok P s" and c: "cs_objects s a = Some c" "\<And>h. \<not> Channel_IsOn h c"
    and gone: "cs_lookup s k = Some a" "cs_lookup s1 = (cs_lookup s)(k := None)" "cs_objects s1 = (cs_objects s)(a := None)"
      "cs_fresh s1 = cs_fresh s" "cs_joined s1 = cs_joined s"
  shows "chan_server_ok P s1"
proof -
  have lists: "lists_agree (cs_objects s1) (cs_joined s1)"
    using ok c by (auto simp: chan_server_ok_def lists_agree_def gone)
  have chans: "channels_ok P (cs_objects s1)" using ok by (auto simp: chan_server_ok_def channels_ok_def gone)
  have R: "cs_objects s a \<noteq> None \<longleftrightarrow> (\<exists>k. cs_lookup s k = Some a)" "cs_lookup s k = Some a \<Longrightarrow> cs_lookup s k' = Some a \<Longrightarrow> k = k'"
    "cs_objects s a \<noteq> None \<Longrightarrow> a < cs_fresh s" for a k k'
    using ok unfolding chan_server_ok_def registries_ok_def by blast+
  have "registries_ok s1" unfolding registries_ok_def
  proof (intro conjI allI impI)
    fix b
    show "cs_objects s1 b \<noteq> None \<longleftrightarrow> (\<exists>k. cs_lookup s1 k = Some b)"
    proof (cases "b = a")
      case True
      then show ?thesis using R(2) [OF _ gone(1)] by (auto simp: gone)
    next
      case False
      then have "(cs_lookup s1 j = Some b) = (cs_lookup s j = Some b)" for j using gone(1) by (simp add: gone(2))
      then show ?thesis using False R(1) [of b] by (simp add: gone)
    qed
  next
    fix b j j'
    assume "cs_lookup s1 j = Some b" "cs_lookup s1 j' = Some b"
    then show "j = j'" using R(2) [of j b j'] by (auto simp: gone(2) split: if_splits)
  next
    fix b
    assume "cs_objects s1 b \<noteq> None"
    then show "b < cs_fresh s1" using R(3) [of b] by (auto simp: gone split: if_splits)
  qed
  with lists chans show ?thesis by (simp add: chan_server_ok_def)
qed

lemma LeftChannel_ok:
  assumes ok: "chan_server_ok P s" and P: "finite P" "card P < 2 ^ 32"
  shows "never_deleted (chan_server_ok P) (ChannelMgr_LeftChannel_name v mgr name s)"
    and "never_deleted (chan_server_ok P) (ChannelMgr_LeftChannel_id v mgr i zone s)"
proof -
  have drop: "never_deleted (chan_server_ok P) (and_then (cs_read a s) (\<lambda>c. Inr (if Channel_GetNumPlayers c = 0 then s1 else s)))"
    if k: "cs_lookup s k = Some a" and s1: "cs_lookup s1 = (cs_lookup s)(k := None)" "cs_objects s1 = (cs_objects s)(a := None)"
      "cs_fresh s1 = cs_fresh s" "cs_joined s1 = cs_joined s" for k a s1
  proof -
    obtain c where c: "cs_objects s a = Some c" using registered_exists [OF ok k] by auto
    show ?thesis
      using delete_ok [OF ok c _ k s1] no_players [OF ok P c] ok by (auto simp: cs_read_def c)
  qed
  show "never_deleted (chan_server_ok P) (ChannelMgr_LeftChannel_name v mgr name s)"
    unfolding ChannelMgr_LeftChannel_name_def lookup_mgr
    using ok by (auto split: option.split intro!: drop)
  have "never_deleted (chan_server_ok P) (case cs_lookup s (mgr, Inr key) of None \<Rightarrow> Inr s
       | Some a \<Rightarrow> and_then (cs_read a s) (\<lambda>c. Inr (if Channel_GetNumPlayers c = 0
            then cs_upd_mgr mgr (\<lambda>m. m\<lparr>cm_channels := (cm_channels m)(key := None)\<rparr>) (s\<lparr>cs_objects := (cs_objects s)(a := None)\<rparr>) else s)))" for key
    using ok by (auto split: option.split intro!: drop)
  then show "never_deleted (chan_server_ok P) (ChannelMgr_LeftChannel_id v mgr i zone s)"
    unfolding ChannelMgr_LeftChannel_id_def lookup_mgr by (rule never_deleted_then [OF builtin_key_never])
qed

subsection \<open>Log-outs, zones and packets keep the order\<close>

lemma never_deleted_mono: "never_deleted Q m \<Longrightarrow> (\<And>x. m = Inr x \<Longrightarrow> Q x \<Longrightarrow> R x) \<Longrightarrow> never_deleted R m"
  by (cases m) auto

lemma never_deleted_and: "never_deleted Q m \<Longrightarrow> (\<And>x. m = Inr x \<Longrightarrow> R x) \<Longrightarrow> never_deleted (\<lambda>x. Q x \<and> R x) m"
  by (cases m) auto

lemma leave_call_ok:
  assumes "chan_server_ok P s" "cs_objects s a \<noteq> None"
  shows "never_deleted (\<lambda>s1. chan_server_ok P s1 \<and> cs_objects s1 a \<noteq> None \<and> a \<notin> set (cs_joined s1 (pl_guid p)))
    (cs_call a (\<lambda>c. Inr (Channel_LeaveChannel w p send suspend c)) s)"
proof -
  obtain c where c: "cs_objects s a = Some c" using assms(2) by auto
  have "never_deleted (chan_server_ok P) (cs_call a (\<lambda>c. Inr (Channel_LeaveChannel w p send suspend c)) s)"
    by (rule keeps_out_call [OF leave_out assms(1) c])
  then show ?thesis
  proof (rule never_deleted_and)
    fix s1
    assume run: "cs_call a (\<lambda>c. Inr (Channel_LeaveChannel w p send suspend c)) s = Inr s1"
    with \<open>never_deleted _ _\<close> have ok1: "chan_server_ok P s1" by simp
    have c1: "cs_objects s1 a = Some (fst (Channel_LeaveChannel w p send suspend c))"
      using cs_call_InrD [OF run] by (auto simp: c)
    have "\<not> Channel_IsOn (pl_guid p) (fst (Channel_LeaveChannel w p send suspend c))"
      using LeaveChannel_moves [of p c w send suspend] by (cases "Channel_IsOn (pl_guid p) c") auto
    then show "cs_objects s1 a \<noteq> None \<and> a \<notin> set (cs_joined s1 (pl_guid p))"
      using ok1 c1 by (auto simp: chan_server_ok_def lists_agree_def)
  qed
qed

lemma cleanup_one_ok:
  assumes ok: "chan_server_ok P s" and P: "finite P" "card P < 2 ^ 32" and j: "cs_joined s (pl_guid p) = a # as"
  shows "never_deleted (chan_server_ok P) (cleanup_one v p a s)"
proof -
  let ?leave = "\<lambda>c. Inr (Channel_LeaveChannel (cv_world v) p False False c)"
  let ?s0 = "s\<lparr>cs_joined := (cs_joined s)(pl_guid p := tl (cs_joined s (pl_guid p)))\<rparr>"
  obtain c where c: "cs_objects s a = Some c" "Channel_IsOn (pl_guid p) c"
    using listed_exists [OF ok, of a "pl_guid p"] by (auto simp: j)
  have m: "moves (snd (Channel_LeaveChannel (cv_world v) p False False c)) = [(False, pl_guid p)]"
    using LeaveChannel_moves [of p c "cv_world v" False False] c(2) by simp
  have same: "cs_call a ?leave ?s0 = cs_call a ?leave s"
    by (simp add: cs_call_def c(1) split_def register_moves m Player_LeftChannel_def j)
  have a: "cs_objects s a \<noteq> None" by (simp add: c(1))
  show ?thesis
    unfolding cleanup_one_def Let_def same
  proof (rule never_deleted_then [OF leave_call_ok [OF ok a]])
    fix s1
    assume s1: "chan_server_ok P s1 \<and> cs_objects s1 a \<noteq> None \<and> a \<notin> set (cs_joined s1 (pl_guid p))"
    then show "never_deleted (chan_server_ok P) (case ChannelMgr_ForTeam v (pl_team p) of None \<Rightarrow> Inr s1
      | Some mgr \<Rightarrow> and_then (cs_read a s1) (\<lambda>c. if Channel_IsConstant c then ChannelMgr_LeftChannel_id v mgr (ch_channelId c) (ch_zoneEntry c) s1
          else (case Channel_GetName (cv_world v) c 0 of None \<Rightarrow> Inl (ChannelFailed Chan_NoEntry) | Some name \<Rightarrow> ChannelMgr_LeftChannel_name v mgr name s1)))"
      using LeftChannel_ok [OF _ P] by (auto simp: cs_read_def split: option.split)
  qed
qed

lemma CleanupChannels_ok:
  assumes P: "finite P" "card P < 2 ^ 32"
  shows "chan_server_ok P s \<Longrightarrow> never_deleted (\<lambda>s1. chan_server_ok P s1 \<and> cs_joined s1 (pl_guid p) = []) (Player_CleanupChannels v p s)"
proof (induction v p s rule: Player_CleanupChannels.induct)
  case (1 v p s)
  show ?case
  proof (cases "cs_joined s (pl_guid p)")
    case (Cons a as)
    have "never_deleted (chan_server_ok P) (cleanup_one v p a s)" by (rule cleanup_one_ok [OF 1(2) P Cons])
    then show ?thesis
      unfolding Player_CleanupChannels.simps [of v p s] Cons list.case
      by (rule never_deleted_then) (rule 1(1) [OF Cons])
  qed (simp add: Player_CleanupChannels.simps 1(2))
qed

definition listed :: "ChannelServer \<Rightarrow> nat list \<Rightarrow> bool" where
  "listed s as \<longleftrightarrow> list_all (\<lambda>a. cs_objects s a \<noteq> None) as"

lemma joined_listed: "chan_server_ok P s \<Longrightarrow> listed s (cs_joined s p)"
  using listed_exists by (fastforce simp: listed_def list_all_iff)

lemma searches_ok: "listed s as \<Longrightarrow> never_deleted (\<lambda>r. \<forall>a. r = Some a \<longrightarrow> cs_objects s a \<noteq> None) (used_channel i s as)"
  "listed s as \<Longrightarrow> never_deleted (\<lambda>r. \<forall>a. r = Some a \<longrightarrow> cs_objects s a \<noteq> None) (lfg_channel s as)"
  "listed s as \<Longrightarrow> never_deleted (\<lambda>r. \<forall>a. r = Some a \<longrightarrow> cs_objects s a \<noteq> None) (channel_by_part v p part s as)"
proof (induction as)
  case (Cons a as)
  {
    case 1
    with Cons(1) show ?case by (auto simp: listed_def cs_read_def)
  next
    case 2
    with Cons(2) show ?case by (auto simp: listed_def cs_read_def)
  next
    case 3
    with Cons(3) show ?case by (auto simp: listed_def cs_read_def split: option.split)
  }
qed simp_all

lemma call_domain: "cs_call a f s = Inr s1 \<Longrightarrow> cs_objects s b \<noteq> None \<Longrightarrow> cs_objects s1 b \<noteq> None"
  by (auto dest!: cs_call_InrD)

lemma swap_channels_ok:
  assumes ok: "chan_server_ok P s" and P: "finite P" "card P < 2 ^ 32" "pl_guid p \<in> P"
    and join: "\<forall>a. join = Some a \<longrightarrow> cs_objects s a \<noteq> None" and rem: "\<forall>a. remove = Some a \<longrightarrow> cs_objects s a \<noteq> None"
  shows "never_deleted (chan_server_ok P) (swap_channels v p mgr join remove send s)"
  unfolding swap_channels_def
proof (rule never_deleted_then [where Q = "\<lambda>s1. chan_server_ok P s1 \<and> (\<forall>a. remove = Some a \<longrightarrow> cs_objects s1 a \<noteq> None)"])
  show "never_deleted (\<lambda>s1. chan_server_ok P s1 \<and> (\<forall>a. remove = Some a \<longrightarrow> cs_objects s1 a \<noteq> None))
      (case join of None \<Rightarrow> Inr s | Some a \<Rightarrow> cs_call a (\<lambda>c. Inr (Channel_JoinChannel (cv_world v) p [] c)) s)"
    using ok join rem by (cases join) (auto intro!: never_deleted_and join_call_ok [OF ok _ P(3)] dest: call_domain)
next
  fix s1
  assume s1: "chan_server_ok P s1 \<and> (\<forall>a. remove = Some a \<longrightarrow> cs_objects s1 a \<noteq> None)"
  show "never_deleted (chan_server_ok P) (case remove of None \<Rightarrow> Inr s1 | Some a \<Rightarrow>
      and_then (cs_call a (\<lambda>c. Inr (Channel_LeaveChannel (cv_world v) p send True c)) s1) (\<lambda>s2. and_then (cs_read a s2) (\<lambda>c.
        ChannelMgr_LeftChannel_id v mgr (ch_channelId c) (ch_zoneEntry c) (s2\<lparr>cs_joined := Player_LeftChannel (pl_guid p) a (cs_joined s2)\<rparr>))))"
  proof (cases remove)
    case (Some a)
    have "never_deleted (chan_server_ok P) (and_then (cs_read a s2) (\<lambda>c.
        ChannelMgr_LeftChannel_id v mgr (ch_channelId c) (ch_zoneEntry c) (s2\<lparr>cs_joined := Player_LeftChannel (pl_guid p) a (cs_joined s2)\<rparr>)))"
      if "chan_server_ok P s2 \<and> cs_objects s2 a \<noteq> None \<and> a \<notin> set (cs_joined s2 (pl_guid p))" for s2
    proof -
      have "s2\<lparr>cs_joined := Player_LeftChannel (pl_guid p) a (cs_joined s2)\<rparr> = s2" using that by (simp add: Player_LeftChannel_def)
      then show ?thesis using that LeftChannel_ok(2) [OF _ P(1,2)] by (auto simp: cs_read_def)
    qed
    then show ?thesis using s1 Some leave_call_ok by (auto intro!: never_deleted_then [OF leave_call_ok])
  qed (simp add: s1)
qed

lemma GetJoinChannel_domain:
  "ChannelMgr_GetJoinChannel v mgr i name zone s = Inr (r, s1) \<Longrightarrow> cs_objects s b \<noteq> None \<Longrightarrow> cs_objects s1 b \<noteq> None"
  by (auto simp: ChannelMgr_GetJoinChannel_def and_then_Inr cs_new_def split: if_splits option.splits sum.splits prod.splits)

lemma update_one_ok:
  assumes ok: "chan_server_ok P s" and P: "finite P" "card P < 2 ^ 32" "pl_guid p \<in> P"
  shows "never_deleted (chan_server_ok P) (update_one v p mgr zone i s)"
proof (cases "w_chatChannels (cv_world v) i")
  case (Some entry)
  have "never_deleted (chan_server_ok P) (and_then (ChannelMgr_GetJoinChannel v mgr i [] z s) (\<lambda>(a, s1). f a s1))"
    if f: "\<And>a s1. chan_server_ok P s1 \<Longrightarrow> (\<forall>b. a = Some b \<longrightarrow> cs_objects s1 b \<noteq> None) \<Longrightarrow> (\<forall>b. cs_objects s b \<noteq> None \<longrightarrow> cs_objects s1 b \<noteq> None)
      \<Longrightarrow> never_deleted (chan_server_ok P) (f a s1)" for z f
    by (rule never_deleted_then [OF GetJoinChannel_ok [OF ok]])
      (auto simp: found_ok_def intro!: f dest: GetJoinChannel_domain)
  note join = this
  show ?thesis
    unfolding update_one_def Some option.case
    by (rule never_deleted_then [OF searches_ok(1) [OF joined_listed [OF ok]]])
      (auto intro!: join swap_channels_ok [OF _ P] ok)
qed (simp add: update_one_def ok)

lemma update_rows_ok:
  assumes P: "finite P" "card P < 2 ^ 32" "pl_guid p \<in> P"
  shows "chan_server_ok P s \<Longrightarrow> never_deleted (chan_server_ok P) (update_rows v p mgr zone is s)"
  by (induction "is" arbitrary: s) (auto intro!: never_deleted_then [OF update_one_ok [OF _ P]])

lemma named_channel_ok:
  assumes ok: "chan_server_ok P s" and f: "keeps_out f"
  shows "never_deleted (chan_server_ok P) (on_named_channel v p name f s)"
proof -
  have "never_deleted (\<lambda>r. \<forall>a. r = Some a \<longrightarrow> cs_objects s a \<noteq> None) (ChannelMgr_GetChannelForPlayerByNamePart v name p s)"
    using searches_ok(3) [OF joined_listed [OF ok]] by (auto simp: ChannelMgr_GetChannelForPlayerByNamePart_def split: option.split)
  then show ?thesis
    unfolding on_named_channel_def
    by (rule never_deleted_then) (auto simp: ok intro: keeps_out_call [OF f ok] split: option.split)
qed

subsection \<open>Sequences of packets\<close>

datatype channel_packet =
    JoinChannelPacket u32 string string
  | LeaveChannelPacket u32 string
  | ChannelCommandPacket channel_command string
  | ChannelPlayerCommandPacket player_command string string
  | ChannelPasswordPacket string string
  | LogsOut
  | EntersZone bool u32
  | LeavesDungeonFinder

definition channel_handle :: "ChannelView \<Rightarrow> Player \<Rightarrow> channel_packet \<Rightarrow> ChannelServer \<Rightarrow> channel_error + ChannelServer" where
  "channel_handle v p packet =
     (case packet of
        JoinChannelPacket i name password \<Rightarrow> HandleJoinChannel v p i name password
      | LeaveChannelPacket i name \<Rightarrow> HandleLeaveChannel v p i name
      | ChannelCommandPacket opcode name \<Rightarrow> HandleChannelCommand v p opcode name
      | ChannelPlayerCommandPacket opcode channel name \<Rightarrow> HandleChannelPlayerCommand v p opcode channel name
      | ChannelPasswordPacket channel password \<Rightarrow> HandleChannelPassword v p channel password
      | LogsOut \<Rightarrow> Player_CleanupChannels v p
      | EntersZone loading zone \<Rightarrow> Player_UpdateLocalChannels v p loading zone
      | LeavesDungeonFinder \<Rightarrow> Player_LeaveLFGChannel v p)"

text \<open>What the players look like, the configuration and the data bases may change between two packets.\<close>

fun channel_run :: "(ChannelView \<times> Player \<times> channel_packet) list \<Rightarrow> ChannelServer \<Rightarrow> channel_error + ChannelServer" where
  "channel_run [] s = Inr s"
| "channel_run ((v, p, packet) # packets) s = and_then (channel_handle v p packet s) (channel_run packets)"

lemma HandleJoinChannel_ok:
  assumes "chan_server_ok P s" "pl_guid p \<in> P"
  shows "never_deleted (chan_server_ok P) (HandleJoinChannel v p i name password s)"
proof -
  have "never_deleted (chan_server_ok P) (and_then (ChannelMgr_GetJoinChannel v mgr i name zone s) (\<lambda>(found, s1).
      case found of None \<Rightarrow> Inr s1 | Some a \<Rightarrow> cs_call a (\<lambda>c. Inr (Channel_JoinChannel (cv_world v) p password c)) s1))" for mgr zone
    by (rule never_deleted_then [OF GetJoinChannel_ok [OF assms(1)]])
      (clarsimp simp: found_ok_def split: option.split; rule join_call_ok; (assumption | rule assms(2)))
  with assms(1) show ?thesis unfolding HandleJoinChannel_def Let_def by (auto split: option.split)
qed

lemma HandleLeaveChannel_ok:
  assumes "chan_server_ok P s" "finite P" "card P < 2 ^ 32"
  shows "never_deleted (chan_server_ok P) (HandleLeaveChannel v p i name s)"
proof -
  have "never_deleted (chan_server_ok P) (and_then (ChannelMgr_GetChannel v mgr i name (Some p) zone s) (\<lambda>(found, s1).
      and_then (case found of None \<Rightarrow> Inr s1 | Some a \<Rightarrow> cs_call a (\<lambda>c. Inr (Channel_LeaveChannel (cv_world v) p True False c)) s1)
        (if i \<noteq> 0 then ChannelMgr_LeftChannel_id v mgr i zone else ChannelMgr_LeftChannel_name v mgr name)))" for mgr zone
  proof (rule never_deleted_then [OF GetChannel_ok [OF assms(1)]], clarify)
    fix found s1
    assume "found_ok P (found, s1)"
    then have "never_deleted (chan_server_ok P) (case found of None \<Rightarrow> Inr s1
        | Some a \<Rightarrow> cs_call a (\<lambda>c. Inr (Channel_LeaveChannel (cv_world v) p True False c)) s1)"
      by (auto simp: found_ok_def intro: keeps_out_call [OF leave_out] split: option.split)
    then show "never_deleted (chan_server_ok P) (and_then (case found of None \<Rightarrow> Inr s1
        | Some a \<Rightarrow> cs_call a (\<lambda>c. Inr (Channel_LeaveChannel (cv_world v) p True False c)) s1)
        (if i \<noteq> 0 then ChannelMgr_LeftChannel_id v mgr i zone else ChannelMgr_LeftChannel_name v mgr name))"
      by (rule never_deleted_then) (auto intro: LeftChannel_ok [OF _ assms(2,3)])
  qed
  with assms(1) show ?thesis unfolding HandleLeaveChannel_def Let_def by (auto split: option.split)
qed

lemma channel_handle_ok:
  assumes ok: "chan_server_ok P s" and P: "finite P" "card P < 2 ^ 32" "pl_guid p \<in> P"
  shows "never_deleted (chan_server_ok P) (channel_handle v p packet s)"
proof (cases packet)
  case LogsOut
  then show ?thesis
    using never_deleted_mono [OF CleanupChannels_ok [OF P(1,2) ok]] by (simp add: channel_handle_def)
next
  case (EntersZone loading zone)
  then show ?thesis
    using ok update_rows_ok [OF P] by (auto simp: channel_handle_def Player_UpdateLocalChannels_def split: option.split)
next
  case LeavesDungeonFinder
  have "never_deleted (chan_server_ok P) (Player_LeaveLFGChannel v p s)"
    unfolding Player_LeaveLFGChannel_def
    by (rule never_deleted_then [OF searches_ok(2) [OF joined_listed [OF ok]]])
      (auto simp: ok intro: keeps_out_call [OF leave_out ok] split: option.split)
  with LeavesDungeonFinder show ?thesis by (simp add: channel_handle_def)
qed (use ok P in \<open>auto simp: channel_handle_def HandleChannelCommand_def HandleChannelPlayerCommand_def HandleChannelPassword_def
      intro!: HandleJoinChannel_ok HandleLeaveChannel_ok named_channel_ok commands_out player_commands_out password_out split: option.split\<close>)

lemma channel_run_ok:
  assumes P: "finite P" "card P < 2 ^ 32"
  shows "chan_server_ok P s \<Longrightarrow> pl_guid ` fst ` snd ` set packets \<subseteq> P \<Longrightarrow> never_deleted (chan_server_ok P) (channel_run packets s)"
proof (induction packets arbitrary: s)
  case (Cons x packets)
  obtain v p packet where x: "x = (v, p, packet)" using prod_cases3 by blast
  have "never_deleted (chan_server_ok P) (channel_handle v p packet s)"
    using channel_handle_ok [OF Cons.prems(1) P] Cons.prems(2) by (simp add: x)
  then show ?case unfolding x channel_run.simps
    by (rule never_deleted_then) (use Cons in auto)
qed simp

lemma init_ok: "chan_server_ok P ChannelServer_init"
  by (auto simp: chan_server_ok_def lists_agree_def channels_ok_def registries_ok_def ChannelServer_init_def cs_lookup_def cs_mgr_def
      split: sum.split)

subsection \<open>Properties\<close>

definition demo_channels :: ChannelView where
  "demo_channels = \<lparr>cv_world = demo_world, cv_Utf8toWStr = (\<lambda>n. Some (map of_char n)), cv_query = (\<lambda>n t. None), cv_area_flags = (\<lambda>a. 0),
     cv_areas = (\<lambda>a. None), cv_zone = (\<lambda>p. 1), cv_guild = (\<lambda>p. 0), cv_channel_rows = 0\<rparr>"

definition demo_packets :: "(ChannelView \<times> Player \<times> channel_packet) list" where
  "demo_packets = [(demo_channels, demo_alice, JoinChannelPacket 0 ''Lounge'' []), (demo_channels, demo_alice, LogsOut)]"

text \<open>C3: Whatever packets about channels the players send, whenever they change zones and log out, no deleted channel is
  ever used. Unless an owner kicks itself, or a channel's row is missing from the client's data, the server is afterwards in
  order: a channel is on a player's list, and once, exactly if the player is a member; every channel keeps its invariant; the
  registries refer to the existing channels, each under one name.\<close>

theorem channel_packets_safe:
  assumes "length packets < 2 ^ 32"
  shows "never_deleted (chan_server_ok (set (map (\<lambda>(v, p, packet). pl_guid p) packets))) (channel_run packets ChannelServer_init)"
proof (rule channel_run_ok [OF _ _ init_ok])
  show "card (set (map (\<lambda>(v, p, packet). pl_guid p) packets)) < 2 ^ 32"
    using card_length [of "map (\<lambda>(v, p, packet). pl_guid p) packets"] assms by simp
qed (auto simp: image_iff split: prod.splits intro: rev_bexI)

lemma channel_packets_safe_witness:
  "never_deleted (chan_server_ok (set (map (\<lambda>(v, p, packet). pl_guid p) demo_packets))) (channel_run demo_packets ChannelServer_init) \<and>
   map_sum id (\<lambda>s. cs_joined s (pl_guid demo_alice)) (channel_run (butlast demo_packets) ChannelServer_init) = Inr [0]"
proof
  show "never_deleted (chan_server_ok (set (map (\<lambda>(v, p, packet). pl_guid p) demo_packets))) (channel_run demo_packets ChannelServer_init)"
    by (rule channel_packets_safe) (simp add: demo_packets_def)
  show "map_sum id (\<lambda>s. cs_joined s (pl_guid demo_alice)) (channel_run (butlast demo_packets) ChannelServer_init) = Inr [0]"
    by code_simp
qed

text \<open>A player who logs out (\<open>CleanupChannels\<close>) is on no channel any more and has none on its list.\<close>

theorem logout_leaves_all_channels:
  assumes "chan_server_ok (set online) s" "length online < 2 ^ 32" "Player_CleanupChannels v p s = Inr s1"
  shows "cs_joined s1 (pl_guid p) = [] \<and> (cs_objects s1 a = Some c \<longrightarrow> \<not> Channel_IsOn (pl_guid p) c)"
proof -
  have "card (set online) < 2 ^ 32" using card_length [of online] assms(2) by simp
  then have "never_deleted (\<lambda>s1. chan_server_ok (set online) s1 \<and> cs_joined s1 (pl_guid p) = []) (Player_CleanupChannels v p s)"
    by (intro CleanupChannels_ok [OF _ _ assms(1)]) simp_all
  then have ok: "chan_server_ok (set online) s1" "cs_joined s1 (pl_guid p) = []" by (simp_all add: assms(3))
  then have "a \<notin> set (cs_joined s1 (pl_guid p))" by simp
  with ok show ?thesis unfolding chan_server_ok_def lists_agree_def by blast
qed

lemma logout_leaves_all_channels_witness:
  "cs_joined (projr (Player_CleanupChannels demo_channels demo_alice ChannelServer_init)) (pl_guid demo_alice) = []"
proof -
  have "Player_CleanupChannels demo_channels demo_alice ChannelServer_init = Inr ChannelServer_init"
    by (simp add: Player_CleanupChannels.simps ChannelServer_init_def)
  then show ?thesis
    using logout_leaves_all_channels [of "[]" ChannelServer_init demo_channels demo_alice ChannelServer_init 0 demo_channel] init_ok by simp
qed

lemma nobody_empty: "(\<And>h. \<not> Channel_IsOn h c) \<Longrightarrow> ch_playersStore c = []"
  by (simp add: Channel_IsOn_def fun_eq_iff flip: map_of_eq_empty_iff)

lemma distinct_one: "distinct xs \<Longrightarrow> set xs = {x} \<Longrightarrow> xs = [x]"
  by (cases xs; cases "tl xs") auto

text \<open>C40: A player joins a custom channel of a name that is not in use, and leaves it: in between the channel has this
  one member and is on its list, afterwards the channel is gone from the server and the registry and the lists are as
  before. The channel is new, or, if channels are preserved, made from its row in the database when there is one; the
  row can be read, and its password and ban list let the player in. Only the row outlives the channel.\<close>

theorem custom_channel_join_leave:
  assumes ok: "chan_server_ok P s" and mgr: "ChannelMgr_ForTeam v (pl_team p) = Some mgr" and name: "name \<noteq> []" "\<not> isdigit (hd name)"
    and key: "wide_lower v name = Some key" "cm_customChannels (cs_mgr mgr s) key = None"
    and made: "Channel_custom (cv_world v) (cv_query v) name (mgr_team mgr) = Inr (c0, evs)"
    and lets_in: "ch_channelPassword c0 \<in> {[], password}" "pl_guid p \<notin> set (ch_bannedStore c0)"
  shows "\<exists>s1 c s2. HandleJoinChannel v p 0 name password s = Inr s1 \<and> cs_objects s1 (cs_fresh s) = Some c \<and>
    ch_channelName c = (if w_preserveCustomChannels (cv_world v)
      then (case cv_query v name (mgr_team mgr) of Some (stored, row) \<Rightarrow> stored | None \<Rightarrow> name) else name) \<and>
    map fst (ch_playersStore c) = [pl_guid p] \<and> cs_joined s1 (pl_guid p) = cs_joined s (pl_guid p) @ [cs_fresh s] \<and>
    HandleLeaveChannel v p 0 name s1 = Inr s2 \<and> cs_objects s2 = cs_objects s \<and> cs_joined s2 = cs_joined s \<and> cs_lookup s2 = cs_lookup s"
proof -
  let ?a = "cs_fresh s" and ?p = "pl_guid p" and ?k = "(mgr, Inl key)"
  note c0 = made
  have new: "ch_playersStore c0 = []" "ch_channelFlags c0 = CHANNEL_FLAG_CUSTOM"
    "ch_channelName c0 = (if w_preserveCustomChannels (cv_world v)
      then (case cv_query v name (mgr_team mgr) of Some (stored, row) \<Rightarrow> stored | None \<Rightarrow> name) else name)"
    using c0 by (auto simp: Channel_custom_def Let_def and_then_Inr split: if_splits option.splits prod.splits)
  define r1 where "r1 = Channel_JoinChannel (cv_world v) p password c0"
  have r1: "r1 = Channel_admit (cv_world v) p c0"
    using new lets_in by (auto simp: r1_def Channel_JoinChannel_def Let_def Channel_IsOn_def Channel_IsBanned_def Channel_HasFlag_def CHANNEL_FLAG_CUSTOM_def CHANNEL_FLAG_LFG_def)
  define r2 where "r2 = Channel_LeaveChannel (cv_world v) p True False (fst r1)"
  have free: "cs_objects s ?a = None" using ok by (force simp: chan_server_ok_def registries_ok_def)
  then have unlisted: "?a \<notin> set (cs_joined s ?p)" using ok by (auto simp: chan_server_ok_def lists_agree_def)
  have in1: "moves (snd r1) = [(True, ?p)]" "\<And>h. Channel_IsOn h (fst r1) = (h = ?p)"
    using admit_moves [of "cv_world v" p c0] new(1) by (simp_all add: r1 Channel_IsOn_def)
  have "chan_inv (fst r1)" unfolding r1_def using Channel_custom_fresh [OF c0] by (simp add: JoinChannel_inv)
  then have "distinct (map fst (ch_playersStore (fst r1)))" using chan_invD(1) om_ok_distinct by blast
  moreover have "set (map fst (ch_playersStore (fst r1))) = {?p}"
    using in1(2) by (auto simp: Channel_IsOn_def map_of_eq_None_iff)
  ultimately have one: "map fst (ch_playersStore (fst r1)) = [?p]" by (rule distinct_one)
  have in2: "moves (snd r2) = [(False, ?p)]" "\<And>h. \<not> Channel_IsOn h (fst r2)"
    using LeaveChannel_moves [of p "fst r1" "cv_world v" True False] in1(2) by (simp_all add: r2_def)
  have named: "ch_channelName (fst r1) = ch_channelName c0"
    by (simp add: r1 Channel_admit_def Let_def split_def Channel_SetOwner_guid_def Channel_upd_info_def)
  define m1 :: "ChannelMgr \<Rightarrow> ChannelMgr" where "m1 = (\<lambda>m. m\<lparr>cm_customChannels := (cm_customChannels m)(key := Some ?a)\<rparr>)"
  define s0 where "s0 = cs_upd_mgr mgr m1 ((cs_new c0 s)\<lparr>cs_sent := cs_sent s @ evs\<rparr>)"
  define s1 where "s1 = s0\<lparr>cs_objects := (cs_objects s0)(?a := Some (fst r1)), cs_joined := (cs_joined s)(?p := cs_joined s ?p @ [?a]),
      cs_sent := cs_sent s0 @ snd r1\<rparr>"
  have join: "HandleJoinChannel v p 0 name password s = Inr s1"
    using name key(2)
    by (simp add: HandleJoinChannel_def Let_def mgr ChannelMgr_GetJoinChannel_def key(1) c0 cs_call_def cs_new_def s1_def s0_def m1_def
        r1_def [symmetric] split_def register_moves in1 Player_JoinedChannel_def)
  have look1: "cs_lookup s1 = (cs_lookup s)(?k := Some ?a)" by (simp add: s1_def s0_def m1_def cs_new_def)
  have obj1: "cs_objects s1 = (cs_objects s)(?a := Some (fst r1))" by (simp add: s1_def s0_def cs_new_def)
  define s2 where "s2 = s1\<lparr>cs_objects := (cs_objects s1)(?a := Some (fst r2)), cs_joined := (cs_joined s1)(?p := removeAll ?a (cs_joined s1 ?p)),
      cs_sent := cs_sent s1 @ snd r2\<rparr>"
  define s3 where "s3 = cs_upd_mgr mgr (\<lambda>m. m\<lparr>cm_customChannels := (cm_customChannels m)(key := None)\<rparr>) (s2\<lparr>cs_objects := (cs_objects s2)(?a := None)\<rparr>)"
  have look2: "cs_lookup s2 = cs_lookup s1" by (simp add: s2_def)
  have "Channel_GetNumPlayers (fst r2) = 0" using nobody_empty [OF in2(2)] by (simp add: Channel_GetNumPlayers_def)
  then have leave: "HandleLeaveChannel v p 0 name s1 = Inr s3"
    using name
    by (simp add: HandleLeaveChannel_def Let_def mgr ChannelMgr_GetChannel_def key(1) lookup_mgr look1 cs_call_def obj1 r2_def [symmetric] split_def
        register_moves in2(1) Player_LeftChannel_def ChannelMgr_LeftChannel_name_def cs_read_def s3_def s2_def)
  have "cs_objects s3 = cs_objects s" using free by (auto simp: s3_def s2_def obj1)
  moreover have "cs_joined s3 = cs_joined s" using unlisted by (auto simp: s3_def s2_def s1_def fun_eq_iff)
  moreover have "cs_lookup s3 = cs_lookup s" using key(2) by (auto simp: s3_def look2 look1 lookup_mgr fun_eq_iff)
  ultimately show ?thesis using join leave named [unfolded new(3)] one obj1
    by (intro exI [of _ s1] exI [of _ "fst r1"] exI [of _ s3]) (simp add: s1_def)
qed

text \<open>A server that preserves channels, with a stored one that has a password.\<close>

definition demo_preserved :: ChannelView where
  "demo_preserved = demo_channels\<lparr>cv_world := (cv_world demo_channels)\<lparr>w_preserveCustomChannels := True\<rparr>,
     cv_query := (\<lambda>name team. Some (''Lounge'', True, True, ''pw'', []))\<rparr>"

lemma custom_channel_join_leave_witness:
  "\<exists>s1 s2. HandleJoinChannel demo_preserved demo_alice 0 ''Lounge'' ''pw'' ChannelServer_init = Inr s1 \<and>
     cs_joined s1 (pl_guid demo_alice) = [0] \<and> HandleLeaveChannel demo_preserved demo_alice 0 ''Lounge'' s1 = Inr s2 \<and> cs_objects s2 = (\<lambda>a. None)"
proof -
  let ?key = "wstrToLower (map of_char ''Lounge'')"
  let ?made = "Channel_custom (cv_world demo_preserved) (cv_query demo_preserved) ''Lounge'' (mgr_team True)"
  have team: "ChannelMgr_ForTeam demo_preserved (pl_team demo_alice) = Some True" by code_simp
  have name: "''Lounge'' \<noteq> []" "\<not> isdigit (hd ''Lounge'')" by code_simp+
  have key: "wide_lower demo_preserved ''Lounge'' = Some ?key" by (simp add: wide_lower_def demo_preserved_def demo_channels_def)
  have free: "cm_customChannels (cs_mgr True ChannelServer_init) ?key = None" by (simp add: ChannelServer_init_def cs_mgr_def)
  obtain c0 where made: "?made = Inr (c0, [])" and lets_in: "ch_channelPassword c0 \<in> {[], ''pw''}"
      "pl_guid demo_alice \<notin> set (ch_bannedStore c0)"
    by (simp add: Channel_custom_def Let_def demo_preserved_def demo_channels_def demo_world_def)
  show ?thesis
    using custom_channel_join_leave [OF init_ok [of "{}"] team name key free made lets_in] by (auto simp: ChannelServer_init_def)
qed

end
