(* ===== verification/Reputation.thy ===== *)
theory Reputation
  imports ByteBuffer
begin

section \<open>Reputation (game/Reputation/ReputationMgr.h, ReputationMgr.cpp)\<close>

text \<open>
  The standing of a player with every faction: one \<open>FactionState\<close> per faction with a reputation,
  keyed by the faction's index in the reputation list, and four 8-bit counters of how many factions
  are visible, honored, revered and exalted. A \<open>FactionState*\<close> is the key it is stored under.

  An \<open>int32\<close> is an integer of that range; a sum that can leave it is written with \<open>wrap32\<close>.
  Floats are a type parameter \<open>'f\<close> with the operations the code applies to them (\<open>FloatOps\<close>), so every
  lemma holds whatever the rounding of the host is. The DB2 stores, the data base rows, the script hook
  and the player are the record \<open>RepWorld\<close>; the packets sent, the criteria told to the player and the
  statements of a save are logged in \<open>rm_out\<close>, in order. An assertion on a missing faction and a write
  past the 300 entries of \<open>SMSG_INITIALIZE_FACTIONS\<close> are the constructors of \<open>rep_error\<close>.
\<close>

definition wrap32 :: "int \<Rightarrow> int" where
  "wrap32 x = signed_take_bit 31 x"

lemma wrap32_id: "- (2 ^ 31) \<le> x \<Longrightarrow> x < 2 ^ 31 \<Longrightarrow> wrap32 x = x"
  by (simp add: wrap32_def signed_take_bit_int_eq_self)

lemma wrap32_add_wrap: "wrap32 (a + wrap32 b) = wrap32 (a + b)"
  unfolding wrap32_def by (metis signed_take_bit_add signed_take_bit_signed_take_bit min.idem)

lemma wrap32_wrap_add: "wrap32 (wrap32 a + b) = wrap32 (a + b)"
  using wrap32_add_wrap [of b a] by (simp add: add.commute)

subsection \<open>Ranks\<close>

type_synonym ReputationRank = nat

definition REP_HATED :: ReputationRank where "REP_HATED = 0"
definition REP_HOSTILE :: ReputationRank where "REP_HOSTILE = 1"
definition REP_UNFRIENDLY :: ReputationRank where "REP_UNFRIENDLY = 2"
definition REP_NEUTRAL :: ReputationRank where "REP_NEUTRAL = 3"
definition REP_FRIENDLY :: ReputationRank where "REP_FRIENDLY = 4"
definition REP_HONORED :: ReputationRank where "REP_HONORED = 5"
definition REP_REVERED :: ReputationRank where "REP_REVERED = 6"
definition REP_EXALTED :: ReputationRank where "REP_EXALTED = 7"
definition MAX_REPUTATION_RANK :: nat where "MAX_REPUTATION_RANK = 8"
definition MAX_SPILLOVER_FACTIONS :: nat where "MAX_SPILLOVER_FACTIONS = 5"

lemmas rep_ranks = REP_HATED_def REP_HOSTILE_def REP_UNFRIENDLY_def REP_NEUTRAL_def REP_FRIENDLY_def
  REP_HONORED_def REP_REVERED_def REP_EXALTED_def

definition PointsInRank :: "int list" where
  "PointsInRank = [36000, 3000, 3000, 3000, 6000, 12000, 21000, 1000]"

definition Reputation_Cap :: int where "Reputation_Cap = 42999"
definition Reputation_Bottom :: int where "Reputation_Bottom = - 42000"

fun rep_rank_scan :: "int \<Rightarrow> nat list \<Rightarrow> int \<Rightarrow> ReputationRank" where
  "rep_rank_scan standing [] limit = REP_HATED"
| "rep_rank_scan standing (i # is) limit =
     (let limit1 = limit - PointsInRank ! i in
      if standing \<ge> limit1 then i else rep_rank_scan standing is limit1)"

definition ReputationToRank :: "int \<Rightarrow> ReputationRank" where
  "ReputationToRank standing = rep_rank_scan standing (rev [0..<MAX_REPUTATION_RANK]) (Reputation_Cap + 1)"

subsection \<open>Factions\<close>

definition FACTION_FLAG_NONE :: "'a::len word" where "FACTION_FLAG_NONE = 0x00"
definition FACTION_FLAG_VISIBLE :: "'a::len word" where "FACTION_FLAG_VISIBLE = 0x01"
definition FACTION_FLAG_AT_WAR :: "'a::len word" where "FACTION_FLAG_AT_WAR = 0x02"
definition FACTION_FLAG_HIDDEN :: "'a::len word" where "FACTION_FLAG_HIDDEN = 0x04"
definition FACTION_FLAG_INVISIBLE_FORCED :: "'a::len word" where "FACTION_FLAG_INVISIBLE_FORCED = 0x08"
definition FACTION_FLAG_PEACE_FORCED :: "'a::len word" where "FACTION_FLAG_PEACE_FORCED = 0x10"
definition FACTION_FLAG_INACTIVE :: "'a::len word" where "FACTION_FLAG_INACTIVE = 0x20"
definition FACTION_FLAG_RIVAL :: "'a::len word" where "FACTION_FLAG_RIVAL = 0x40"
definition FACTION_FLAG_SPECIAL :: "'a::len word" where "FACTION_FLAG_SPECIAL = 0x80"

definition faction_has :: "'a::len word \<Rightarrow> 'a word \<Rightarrow> bool" where
  "faction_has flags f \<longleftrightarrow> flags AND f \<noteq> 0"

record FactionState =
  fs_ID :: u32
  fs_ReputationListID :: u32
  fs_Standing :: int
  fs_Flags :: u8
  fs_needSend :: bool
  fs_needSave :: bool

record 'f FactionEntry =
  fe_ID :: u32
  fe_ReputationRaceMask :: "u64 list"
  fe_ReputationBase :: "32 word list"
  fe_ParentFactionMod :: "'f list"
  fe_ReputationIndex :: "16 word"
  fe_ReputationClassMask :: "16 word list"
  fe_ReputationFlags :: "u16 list"
  fe_ParentFactionID :: u16
  fe_ParentFactionCap :: "u8 list"

definition FactionEntry_CanHaveReputation :: "'f FactionEntry \<Rightarrow> bool" where
  "FactionEntry_CanHaveReputation e \<longleftrightarrow> sint (fe_ReputationIndex e) \<ge> 0"

text \<open>The index as the key of the state list: an \<open>int16\<close> converted to \<open>uint32\<close>.\<close>

definition fe_RepListID :: "'f FactionEntry \<Rightarrow> u32" where
  "fe_RepListID e = scast (fe_ReputationIndex e)"

record 'f RepSpilloverTemplate =
  rs_faction :: "u32 list"
  rs_faction_rate :: "'f list"
  rs_faction_rank :: "nat list"

record 'f FloatOps =
  fl_of_int32 :: "int \<Rightarrow> 'f"
  fl_mul :: "'f \<Rightarrow> 'f \<Rightarrow> 'f"
  fl_add :: "'f \<Rightarrow> 'f \<Rightarrow> 'f"
  fl_floor :: "'f \<Rightarrow> 'f"
  fl_to_int32 :: "'f \<Rightarrow> int"
  fl_half :: 'f
  fl_is_zero :: "'f \<Rightarrow> bool"

record 'f RepWorld =
  rw_store :: "(u32 \<times> 'f FactionEntry) list"
  rw_spillover :: "u32 \<Rightarrow> 'f RepSpilloverTemplate option"
  rw_teamList :: "u32 \<Rightarrow> u32 list option"
  rw_raceMask :: u64
  rw_classMask :: u32
  rw_gainRate :: 'f
  rw_float :: "'f FloatOps"
  rw_OnReputationChange :: "u32 \<Rightarrow> int \<Rightarrow> bool \<Rightarrow> int"
  rw_playerLoading :: bool
  rw_guidCounter :: u64

definition rw_LookupEntry :: "'f RepWorld \<Rightarrow> u32 \<Rightarrow> 'f FactionEntry option" where
  "rw_LookupEntry w i = map_of (rw_store w) i"

subsection \<open>Packets and what a call puts out\<close>

record SetFactionStanding =
  sfs_Faction :: "(int \<times> int) list"
  sfs_ShowVisual :: bool

definition FactionCount :: nat where "FactionCount = 300"

record InitializeFactions =
  if_FactionStandings :: "int list"
  if_FactionHasBonus :: "bool list"
  if_FactionFlags :: "u8 list"

definition InitializeFactions_init :: InitializeFactions where
  "InitializeFactions_init = \<lparr>if_FactionStandings = replicate FactionCount 0,
     if_FactionHasBonus = replicate FactionCount False, if_FactionFlags = replicate FactionCount 0\<rparr>"

datatype rep_packet =
    SMSG_SET_FACTION_VISIBLE u32
  | SMSG_SET_FACTION_NOT_VISIBLE u32
  | SMSG_SET_FACTION_STANDING SetFactionStanding
  | SMSG_INITIALIZE_FACTIONS InitializeFactions
  | SMSG_SET_FORCED_REACTIONS "(int \<times> int) list"

datatype rep_criteria = CRITERIA_TYPE_KNOWN_FACTIONS | CRITERIA_TYPE_GAIN_REPUTATION
  | CRITERIA_TYPE_GAIN_EXALTED_REPUTATION | CRITERIA_TYPE_GAIN_REVERED_REPUTATION
  | CRITERIA_TYPE_GAIN_HONORED_REPUTATION

datatype rep_event =
    RepSend rep_packet
  | Player_ReputationChanged u32
  | Player_UpdateCriteria rep_criteria u32
  | CHAR_DEL_CHAR_REPUTATION_BY_FACTION u64 u16
  | CHAR_INS_CHAR_REPUTATION_BY_FACTION u64 u16 int u16

datatype rep_error = Rep_AssertEntry u32 | Rep_ArrayOutOfBounds u32

record ReputationMgr =
  rm_factions :: "(u32 \<times> FactionState) list"
  rm_forcedReactions :: "(u32 \<times> ReputationRank) list"
  rm_visibleFactionCount :: u8
  rm_honoredFactionCount :: u8
  rm_reveredFactionCount :: u8
  rm_exaltedFactionCount :: u8
  rm_sendFactionIncreased :: bool
  rm_out :: "rep_event list"

definition ReputationMgr_init :: ReputationMgr where
  "ReputationMgr_init = \<lparr>rm_factions = [], rm_forcedReactions = [], rm_visibleFactionCount = 0,
     rm_honoredFactionCount = 0, rm_reveredFactionCount = 0, rm_exaltedFactionCount = 0,
     rm_sendFactionIncreased = False, rm_out = []\<rparr>"

definition rep_emit :: "rep_event list \<Rightarrow> ReputationMgr \<Rightarrow> ReputationMgr" where
  "rep_emit evs r = r\<lparr>rm_out := rm_out r @ evs\<rparr>"

definition rep_upd :: "u32 \<Rightarrow> (FactionState \<Rightarrow> FactionState) \<Rightarrow> ReputationMgr \<Rightarrow> ReputationMgr" where
  "rep_upd k f r = r\<lparr>rm_factions := om_upd k f (rm_factions r)\<rparr>"

text \<open>The packets on the wire.\<close>

definition int32_word :: "int \<Rightarrow> u32" where
  "int32_word i = word_of_int i"

fun rep_write_all :: "('a \<Rightarrow> ByteBuffer \<Rightarrow> bb_error + ByteBuffer) \<Rightarrow> 'a list \<Rightarrow> ByteBuffer
    \<Rightarrow> bb_error + ByteBuffer" where
  "rep_write_all f [] b = Inr b"
| "rep_write_all f (x # xs) b = and_then (f x b) (rep_write_all f xs)"

definition int32_pair_Write :: "int \<times> int \<Rightarrow> ByteBuffer \<Rightarrow> bb_error + ByteBuffer" where
  "int32_pair_Write p b =
     and_then (ByteBuffer_append_value (int32_word (fst p)) b) (ByteBuffer_append_value (int32_word (snd p)))"

definition SetForcedReactions_Write :: "(int \<times> int) list \<Rightarrow> ByteBuffer \<Rightarrow> bb_error + ByteBuffer" where
  "SetForcedReactions_Write Reactions b =
     and_then (ByteBuffer_append_value (of_nat (length Reactions) :: u32) b) (\<lambda>b1.
     and_then (rep_write_all int32_pair_Write Reactions b1) ByteBuffer_FlushBits)"

text \<open>The two floats of the packet are always \<open>0.0f\<close>, whose bits are zero.\<close>

definition SetFactionStanding_Write :: "SetFactionStanding \<Rightarrow> ByteBuffer \<Rightarrow> bb_error + ByteBuffer" where
  "SetFactionStanding_Write p b =
     and_then (ByteBuffer_append_value (0 :: u32) b) (\<lambda>b1.
     and_then (ByteBuffer_append_value (0 :: u32) b1) (\<lambda>b2.
     and_then (ByteBuffer_append_value (of_nat (length (sfs_Faction p)) :: u32) b2) (\<lambda>b3.
     and_then (rep_write_all int32_pair_Write (sfs_Faction p) b3) (\<lambda>b4.
     and_then (ByteBuffer_WriteBit (sfs_ShowVisual p) b4) ByteBuffer_FlushBits))))"

definition InitializeFactions_Write :: "InitializeFactions \<Rightarrow> ByteBuffer \<Rightarrow> bb_error + ByteBuffer" where
  "InitializeFactions_Write p b =
     and_then (rep_write_all (\<lambda>i b1. and_then (ByteBuffer_append_value (if_FactionFlags p ! i) b1)
         (ByteBuffer_append_value (int32_word (if_FactionStandings p ! i)))) [0..<FactionCount] b) (\<lambda>b2.
     and_then (rep_write_all (\<lambda>i. ByteBuffer_WriteBit (if_FactionHasBonus p ! i)) [0..<FactionCount] b2)
       ByteBuffer_FlushBits)"

definition SetFactionVisible_Write :: "u32 \<Rightarrow> ByteBuffer \<Rightarrow> bb_error + ByteBuffer" where
  "SetFactionVisible_Write FactionIndex b = ByteBuffer_append_value FactionIndex b"

subsection \<open>Accessors\<close>

definition ReputationMgr_GetState_id :: "u32 \<Rightarrow> ReputationMgr \<Rightarrow> FactionState option" where
  "ReputationMgr_GetState_id i r = map_of (rm_factions r) i"

definition ReputationMgr_GetState :: "'f FactionEntry \<Rightarrow> ReputationMgr \<Rightarrow> FactionState option" where
  "ReputationMgr_GetState e r =
     (if FactionEntry_CanHaveReputation e then ReputationMgr_GetState_id (fe_RepListID e) r else None)"

text \<open>The slot of the entry's four that applies to the player's race and class.\<close>

definition rep_slot_applies :: "'f RepWorld \<Rightarrow> 'f FactionEntry \<Rightarrow> nat \<Rightarrow> bool" where
  "rep_slot_applies w e i \<longleftrightarrow>
     (fe_ReputationRaceMask e ! i AND rw_raceMask w \<noteq> 0 \<or>
      fe_ReputationRaceMask e ! i = 0 \<and> fe_ReputationClassMask e ! i \<noteq> 0) \<and>
     ((scast (fe_ReputationClassMask e ! i) :: u32) AND rw_classMask w \<noteq> 0 \<or>
      fe_ReputationClassMask e ! i = 0)"

definition ReputationMgr_GetBaseReputation :: "'f RepWorld \<Rightarrow> 'f FactionEntry option \<Rightarrow> int" where
  "ReputationMgr_GetBaseReputation w eo =
     (case eo of None \<Rightarrow> 0
      | Some e \<Rightarrow> (case find (rep_slot_applies w e) [0..<4] of
          Some i \<Rightarrow> sint (fe_ReputationBase e ! i) | None \<Rightarrow> 0))"

definition ReputationMgr_GetDefaultStateFlags :: "'f RepWorld \<Rightarrow> 'f FactionEntry option \<Rightarrow> u32" where
  "ReputationMgr_GetDefaultStateFlags w eo =
     (case eo of None \<Rightarrow> 0
      | Some e \<Rightarrow> (case find (rep_slot_applies w e) [0..<4] of
          Some i \<Rightarrow> ucast (fe_ReputationFlags e ! i) | None \<Rightarrow> 0))"

definition ReputationMgr_GetReputation :: "'f RepWorld \<Rightarrow> 'f FactionEntry option \<Rightarrow> ReputationMgr \<Rightarrow> int" where
  "ReputationMgr_GetReputation w eo r =
     (case eo of None \<Rightarrow> 0
      | Some e \<Rightarrow> (case ReputationMgr_GetState e r of
          Some s \<Rightarrow> wrap32 (ReputationMgr_GetBaseReputation w eo + fs_Standing s) | None \<Rightarrow> 0))"

definition ReputationMgr_GetReputation_id :: "'f RepWorld \<Rightarrow> u32 \<Rightarrow> ReputationMgr \<Rightarrow> int" where
  "ReputationMgr_GetReputation_id w faction_id r =
     (case rw_LookupEntry w faction_id of
        None \<Rightarrow> 0 | Some e \<Rightarrow> ReputationMgr_GetReputation w (Some e) r)"

definition ReputationMgr_GetRank :: "'f RepWorld \<Rightarrow> 'f FactionEntry option \<Rightarrow> ReputationMgr \<Rightarrow> ReputationRank" where
  "ReputationMgr_GetRank w eo r = ReputationToRank (ReputationMgr_GetReputation w eo r)"

definition ReputationMgr_GetBaseRank :: "'f RepWorld \<Rightarrow> 'f FactionEntry option \<Rightarrow> ReputationRank" where
  "ReputationMgr_GetBaseRank w eo = ReputationToRank (ReputationMgr_GetBaseReputation w eo)"

definition Player_GetReputationRank :: "'f RepWorld \<Rightarrow> u32 \<Rightarrow> ReputationMgr \<Rightarrow> ReputationRank" where
  "Player_GetReputationRank w faction r = ReputationMgr_GetRank w (rw_LookupEntry w faction) r"

definition Player_GetReputation :: "'f RepWorld \<Rightarrow> u32 \<Rightarrow> ReputationMgr \<Rightarrow> int" where
  "Player_GetReputation w faction r = ReputationMgr_GetReputation w (rw_LookupEntry w faction) r"

definition ReputationMgr_IsAtWar :: "'f FactionEntry option \<Rightarrow> ReputationMgr \<Rightarrow> bool" where
  "ReputationMgr_IsAtWar eo r =
     (case eo of None \<Rightarrow> False
      | Some e \<Rightarrow> (case ReputationMgr_GetState e r of
          Some s \<Rightarrow> faction_has (fs_Flags s) FACTION_FLAG_AT_WAR | None \<Rightarrow> False))"

definition ReputationMgr_IsAtWar_id :: "'f RepWorld \<Rightarrow> u32 \<Rightarrow> ReputationMgr \<Rightarrow> bool" where
  "ReputationMgr_IsAtWar_id w faction_id r =
     (case rw_LookupEntry w faction_id of
        None \<Rightarrow> False | Some e \<Rightarrow> ReputationMgr_IsAtWar (Some e) r)"

definition ReputationMgr_GetForcedRankIfAny :: "u32 \<Rightarrow> ReputationMgr \<Rightarrow> ReputationRank option" where
  "ReputationMgr_GetForcedRankIfAny factionId r = map_of (rm_forcedReactions r) factionId"

definition ReputationMgr_ApplyForceReaction :: "u32 \<Rightarrow> ReputationRank \<Rightarrow> bool \<Rightarrow> ReputationMgr \<Rightarrow> ReputationMgr" where
  "ReputationMgr_ApplyForceReaction faction_id rank apply_it r =
     (if apply_it then r\<lparr>rm_forcedReactions := om_put faction_id rank (rm_forcedReactions r)\<rparr>
      else r\<lparr>rm_forcedReactions := om_del faction_id (rm_forcedReactions r)\<rparr>)"

subsection \<open>Sending\<close>

definition ReputationMgr_SendForceReactions :: "ReputationMgr \<Rightarrow> ReputationMgr" where
  "ReputationMgr_SendForceReactions r =
     rep_emit [RepSend (SMSG_SET_FORCED_REACTIONS
       (map (\<lambda>(faction, rank). (wrap32 (uint faction), int rank)) (rm_forcedReactions r)))] r"

definition fs_standing_data :: "FactionState \<Rightarrow> int \<times> int" where
  "fs_standing_data f = (wrap32 (uint (fs_ReputationListID f)), fs_Standing f)"

definition ReputationMgr_SendState :: "FactionState \<Rightarrow> ReputationMgr \<Rightarrow> ReputationMgr" where
  "ReputationMgr_SendState faction r =
     (let more = filter (\<lambda>f. fs_needSend f \<and> fs_ReputationListID f \<noteq> fs_ReputationListID faction)
                   (map snd (rm_factions r));
          r1 = r\<lparr>rm_factions := map (\<lambda>(k, f). (k, f\<lparr>fs_needSend := False\<rparr>)) (rm_factions r)\<rparr>;
          packet = \<lparr>sfs_Faction = fs_standing_data faction # map fs_standing_data more,
                    sfs_ShowVisual = rm_sendFactionIncreased r\<rparr>
      in (rep_emit [RepSend (SMSG_SET_FACTION_STANDING packet)] r1)\<lparr>rm_sendFactionIncreased := False\<rparr>)"

text \<open>\<open>std::array\<close> does not check the index it is written at.\<close>

fun rep_fill_initial :: "(u32 \<times> FactionState) list \<Rightarrow> InitializeFactions \<Rightarrow> rep_error + InitializeFactions" where
  "rep_fill_initial [] p = Inr p"
| "rep_fill_initial ((k, f) # m) p =
     (if unat k \<ge> FactionCount then Inl (Rep_ArrayOutOfBounds k)
      else rep_fill_initial m (p\<lparr>if_FactionFlags := (if_FactionFlags p)[unat k := fs_Flags f],
                                 if_FactionStandings := (if_FactionStandings p)[unat k := fs_Standing f]\<rparr>))"

definition ReputationMgr_SendInitialReputations :: "ReputationMgr \<Rightarrow> rep_error + ReputationMgr" where
  "ReputationMgr_SendInitialReputations r =
     and_then (rep_fill_initial (rm_factions r) InitializeFactions_init) (\<lambda>p.
       Inr (rep_emit [RepSend (SMSG_INITIALIZE_FACTIONS p)]
         (r\<lparr>rm_factions := map (\<lambda>(k, f). (k, f\<lparr>fs_needSend := False\<rparr>)) (rm_factions r)\<rparr>)))"

text \<open>The loop reads each state when it comes to it, after the packets before it cleared \<open>needSend\<close>.\<close>

definition ReputationMgr_SendStates :: "ReputationMgr \<Rightarrow> ReputationMgr" where
  "ReputationMgr_SendStates r =
     fold (\<lambda>k r. case map_of (rm_factions r) k of
                   None \<Rightarrow> r | Some f \<Rightarrow> ReputationMgr_SendState f r)
       (map fst (rm_factions r)) r"

definition ReputationMgr_SendVisible :: "'f RepWorld \<Rightarrow> FactionState \<Rightarrow> bool \<Rightarrow> ReputationMgr \<Rightarrow> ReputationMgr" where
  "ReputationMgr_SendVisible w faction visible r =
     (if rw_playerLoading w then r
      else rep_emit [RepSend (if visible then SMSG_SET_FACTION_VISIBLE (fs_ReputationListID faction)
                              else SMSG_SET_FACTION_NOT_VISIBLE (fs_ReputationListID faction))] r)"

subsection \<open>Changing a state\<close>

definition ReputationMgr_UpdateRankCounters :: "ReputationRank \<Rightarrow> ReputationRank \<Rightarrow> ReputationMgr \<Rightarrow> ReputationMgr" where
  "ReputationMgr_UpdateRankCounters old_rank new_rank r =
     (let r1 = (if old_rank \<ge> REP_EXALTED
                then r\<lparr>rm_exaltedFactionCount := rm_exaltedFactionCount r - 1\<rparr> else r);
          r2 = (if old_rank \<ge> REP_REVERED
                then r1\<lparr>rm_reveredFactionCount := rm_reveredFactionCount r1 - 1\<rparr> else r1);
          r3 = (if old_rank \<ge> REP_HONORED
                then r2\<lparr>rm_honoredFactionCount := rm_honoredFactionCount r2 - 1\<rparr> else r2);
          r4 = (if new_rank \<ge> REP_EXALTED
                then r3\<lparr>rm_exaltedFactionCount := rm_exaltedFactionCount r3 + 1\<rparr> else r3);
          r5 = (if new_rank \<ge> REP_REVERED
                then r4\<lparr>rm_reveredFactionCount := rm_reveredFactionCount r4 + 1\<rparr> else r4)
      in if new_rank \<ge> REP_HONORED
         then r5\<lparr>rm_honoredFactionCount := rm_honoredFactionCount r5 + 1\<rparr> else r5)"

definition FactionState_touch :: "FactionState \<Rightarrow> FactionState" where
  "FactionState_touch f = f\<lparr>fs_needSend := True, fs_needSave := True\<rparr>"

definition ReputationMgr_SetVisible_state :: "'f RepWorld \<Rightarrow> u32 \<Rightarrow> ReputationMgr \<Rightarrow> ReputationMgr" where
  "ReputationMgr_SetVisible_state w k r =
     (case map_of (rm_factions r) k of
        None \<Rightarrow> r
      | Some f \<Rightarrow>
          if faction_has (fs_Flags f) (FACTION_FLAG_INVISIBLE_FORCED OR FACTION_FLAG_HIDDEN)
             \<and> \<not> faction_has (fs_Flags f) FACTION_FLAG_SPECIAL then r
          else if faction_has (fs_Flags f) FACTION_FLAG_VISIBLE then r
          else let f1 = FactionState_touch (f\<lparr>fs_Flags := fs_Flags f OR FACTION_FLAG_VISIBLE\<rparr>);
                   r1 = rep_upd k (\<lambda>_. f1) r;
                   r2 = r1\<lparr>rm_visibleFactionCount := rm_visibleFactionCount r1 + 1\<rparr>
               in ReputationMgr_SendVisible w f1 True r2)"

definition FactionState_SetAtWar :: "bool \<Rightarrow> FactionState \<Rightarrow> FactionState" where
  "FactionState_SetAtWar atWar f =
     (if atWar \<and> faction_has (fs_Flags f) FACTION_FLAG_PEACE_FORCED then f
      else if faction_has (fs_Flags f) FACTION_FLAG_AT_WAR = atWar then f
      else FactionState_touch (f\<lparr>fs_Flags := (if atWar then fs_Flags f OR FACTION_FLAG_AT_WAR
                                              else fs_Flags f AND NOT FACTION_FLAG_AT_WAR)\<rparr>))"

definition FactionState_SetInactive :: "bool \<Rightarrow> FactionState \<Rightarrow> FactionState" where
  "FactionState_SetInactive inactive f =
     (if inactive \<and> (faction_has (fs_Flags f) (FACTION_FLAG_INVISIBLE_FORCED OR FACTION_FLAG_HIDDEN)
                     \<or> \<not> faction_has (fs_Flags f) FACTION_FLAG_VISIBLE) then f
      else if faction_has (fs_Flags f) FACTION_FLAG_INACTIVE = inactive then f
      else FactionState_touch (f\<lparr>fs_Flags := (if inactive then fs_Flags f OR FACTION_FLAG_INACTIVE
                                              else fs_Flags f AND NOT FACTION_FLAG_INACTIVE)\<rparr>))"

definition ReputationMgr_SetVisible :: "'f RepWorld \<Rightarrow> 'f FactionEntry \<Rightarrow> ReputationMgr \<Rightarrow> ReputationMgr" where
  "ReputationMgr_SetVisible w e r =
     (if \<not> FactionEntry_CanHaveReputation e then r
      else ReputationMgr_SetVisible_state w (fe_RepListID e) r)"

text \<open>The overload on a faction template, of which only the field \<open>Faction\<close> is used.\<close>

definition ReputationMgr_SetVisible_template :: "'f RepWorld \<Rightarrow> u16 \<Rightarrow> ReputationMgr \<Rightarrow> ReputationMgr" where
  "ReputationMgr_SetVisible_template w faction r =
     (if faction = 0 then r
      else case rw_LookupEntry w (ucast faction) of
        None \<Rightarrow> r
      | Some e \<Rightarrow>
          if fe_ReputationRaceMask e ! 1 AND rw_raceMask w \<noteq> 0 \<and> sint (fe_ReputationBase e ! 1) = Reputation_Bottom
          then r else ReputationMgr_SetVisible w e r)"

definition ReputationMgr_SetAtWar :: "u32 \<Rightarrow> bool \<Rightarrow> ReputationMgr \<Rightarrow> ReputationMgr" where
  "ReputationMgr_SetAtWar repListID on r =
     (case map_of (rm_factions r) repListID of
        None \<Rightarrow> r
      | Some f \<Rightarrow>
          if faction_has (fs_Flags f) (FACTION_FLAG_INVISIBLE_FORCED OR FACTION_FLAG_HIDDEN) then r
          else rep_upd repListID (FactionState_SetAtWar on) r)"

definition ReputationMgr_SetInactive :: "u32 \<Rightarrow> bool \<Rightarrow> ReputationMgr \<Rightarrow> ReputationMgr" where
  "ReputationMgr_SetInactive repListID on r = rep_upd repListID (FactionState_SetInactive on) r"

definition rep_clamp :: "int \<Rightarrow> int" where
  "rep_clamp standing =
     (if standing > Reputation_Cap then Reputation_Cap
      else if standing < Reputation_Bottom then Reputation_Bottom else standing)"

definition rep_gained :: "'f RepWorld \<Rightarrow> int \<Rightarrow> int" where
  "rep_gained w standing =
     (let fl = rw_float w in
      wrap32 (fl_to_int32 fl (fl_floor fl
        (fl_add fl (fl_mul fl (fl_of_int32 fl standing) (rw_gainRate w)) (fl_half fl)))))"

definition ReputationMgr_SetOneFactionReputation :: "'f RepWorld \<Rightarrow> 'f FactionEntry \<Rightarrow> int \<Rightarrow> bool
    \<Rightarrow> ReputationMgr \<Rightarrow> bool \<times> ReputationMgr" where
  "ReputationMgr_SetOneFactionReputation w e standing0 incremental r =
     (let k = fe_RepListID e in
      case map_of (rm_factions r) k of
        None \<Rightarrow> (False, r)
      | Some f \<Rightarrow>
          let BaseRep = ReputationMgr_GetBaseReputation w (Some e);
              standing1 = (if incremental
                           then wrap32 (rep_gained w standing0 + wrap32 (fs_Standing f + BaseRep))
                           else standing0);
              standing = rep_clamp standing1;
              old_rank = ReputationToRank (wrap32 (fs_Standing f + BaseRep));
              new_rank = ReputationToRank standing;
              r1 = rep_upd k (\<lambda>f. FactionState_touch (f\<lparr>fs_Standing := wrap32 (standing - BaseRep)\<rparr>)) r;
              r2 = ReputationMgr_SetVisible_state w k r1;
              r3 = (if new_rank \<le> REP_HOSTILE then rep_upd k (FactionState_SetAtWar True) r2 else r2);
              r4 = (if new_rank > old_rank then r3\<lparr>rm_sendFactionIncreased := True\<rparr> else r3);
              r5 = ReputationMgr_UpdateRankCounters old_rank new_rank r4
          in (True, rep_emit ([Player_ReputationChanged (fe_ID e),
                Player_UpdateCriteria CRITERIA_TYPE_KNOWN_FACTIONS (fe_ID e),
                Player_UpdateCriteria CRITERIA_TYPE_GAIN_REPUTATION (fe_ID e),
                Player_UpdateCriteria CRITERIA_TYPE_GAIN_EXALTED_REPUTATION (fe_ID e),
                Player_UpdateCriteria CRITERIA_TYPE_GAIN_REVERED_REPUTATION (fe_ID e),
                Player_UpdateCriteria CRITERIA_TYPE_GAIN_HONORED_REPUTATION (fe_ID e)]) r5))"

subsection \<open>Spillover\<close>

fun rep_spill_template :: "'f RepWorld \<Rightarrow> 'f RepSpilloverTemplate \<Rightarrow> int \<Rightarrow> bool \<Rightarrow> nat list
    \<Rightarrow> ReputationMgr \<Rightarrow> rep_error + ReputationMgr" where
  "rep_spill_template w t standing incremental [] r = Inr r"
| "rep_spill_template w t standing incremental (i # is) r =
     (if rs_faction t ! i \<noteq> 0 \<and> Player_GetReputationRank w (rs_faction t ! i) r \<le> rs_faction_rank t ! i
      then (case rw_LookupEntry w (rs_faction t ! i) of
              None \<Rightarrow> Inl (Rep_AssertEntry (rs_faction t ! i))
            | Some e \<Rightarrow>
                let fl = rw_float w;
                    spilloverRep = wrap32 (fl_to_int32 fl
                      (fl_mul fl (fl_of_int32 fl standing) (rs_faction_rate t ! i)))
                in rep_spill_template w t standing incremental is
                     (snd (ReputationMgr_SetOneFactionReputation w e spilloverRep incremental r)))
      else rep_spill_template w t standing incremental is r)"

fun rep_spill_list :: "'f RepWorld \<Rightarrow> 'f FactionEntry \<Rightarrow> 'f \<Rightarrow> bool \<Rightarrow> u32 list
    \<Rightarrow> bool \<times> ReputationMgr \<Rightarrow> bool \<times> ReputationMgr" where
  "rep_spill_list w e spillOverRepOut incremental [] (res, r) = (res, r)"
| "rep_spill_list w e spillOverRepOut incremental (i # is) (res, r) =
     (case rw_LookupEntry w i of
        None \<Rightarrow> rep_spill_list w e spillOverRepOut incremental is (res, r)
      | Some calc \<Rightarrow>
          if fe_ID calc = fe_ID e \<or> ReputationMgr_GetRank w (Some calc) r > unat (fe_ParentFactionCap calc ! 0)
          then rep_spill_list w e spillOverRepOut incremental is (res, r)
          else let fl = rw_float w;
                   spilloverRep = wrap32 (fl_to_int32 fl (fl_mul fl spillOverRepOut (fe_ParentFactionMod calc ! 0)))
               in rep_spill_list w e spillOverRepOut incremental is
                    (if spilloverRep \<noteq> 0 \<or> \<not> incremental
                     then ReputationMgr_SetOneFactionReputation w calc spilloverRep incremental r
                     else (res, r)))"

definition rep_spill_dbc :: "'f RepWorld \<Rightarrow> 'f FactionEntry \<Rightarrow> int \<Rightarrow> bool \<Rightarrow> ReputationMgr
    \<Rightarrow> bool \<times> ReputationMgr" where
  "rep_spill_dbc w e standing incremental r =
     (let fl = rw_float w;
          spillOverRepOut = fl_of_int32 fl standing;
          flist = rw_teamList w (fe_ID e);
          (spillOverRepOut1, flist1, r1) =
            (if flist = None \<and> fe_ParentFactionID e \<noteq> 0 \<and> \<not> fl_is_zero fl (fe_ParentFactionMod e ! 1)
             then let spill = fl_mul fl spillOverRepOut (fe_ParentFactionMod e ! 1)
               in (case rw_LookupEntry w (ucast (fe_ParentFactionID e)) of
                     None \<Rightarrow> (spill, flist, r)
                   | Some parent \<Rightarrow>
                       (case map_of (rm_factions r) (fe_RepListID parent) of
                          Some ps \<Rightarrow>
                            if faction_has (fs_Flags ps) FACTION_FLAG_SPECIAL
                            then (spill, flist, snd (ReputationMgr_SetOneFactionReputation w parent
                                    (wrap32 (fl_to_int32 fl spill)) incremental r))
                            else (spill, rw_teamList w (ucast (fe_ParentFactionID e)), r)
                        | None \<Rightarrow> (spill, rw_teamList w (ucast (fe_ParentFactionID e)), r)))
             else (spillOverRepOut, flist, r))
      in case flist1 of
           None \<Rightarrow> (False, r1)
         | Some l \<Rightarrow> rep_spill_list w e spillOverRepOut1 incremental l (False, r1))"

definition ReputationMgr_SetReputation :: "'f RepWorld \<Rightarrow> 'f FactionEntry \<Rightarrow> int \<Rightarrow> bool \<Rightarrow> bool
    \<Rightarrow> ReputationMgr \<Rightarrow> rep_error + (bool \<times> ReputationMgr)" where
  "ReputationMgr_SetReputation w e standing0 incremental noSpillover r =
     (let standing = rw_OnReputationChange w (fe_ID e) standing0 incremental in
      and_then (if noSpillover then Inr (False, r)
                else case rw_spillover w (fe_ID e) of
                  Some t \<Rightarrow> and_then (rep_spill_template w t standing incremental [0..<MAX_SPILLOVER_FACTIONS] r)
                              (\<lambda>r1. Inr (False, r1))
                | None \<Rightarrow> Inr (rep_spill_dbc w e standing incremental r)) (\<lambda>(res, r1).
      case map_of (rm_factions r1) (fe_RepListID e) of
        None \<Rightarrow> Inr (res, r1)
      | Some _ \<Rightarrow>
          let (res2, r2) = ReputationMgr_SetOneFactionReputation w e standing incremental r1 in
          (case map_of (rm_factions r2) (fe_RepListID e) of
             None \<Rightarrow> Inr (res2, r2)
           | Some f \<Rightarrow> Inr (res2, ReputationMgr_SendState f r2))))"

definition ReputationMgr_ModifyReputation :: "'f RepWorld \<Rightarrow> 'f FactionEntry \<Rightarrow> int \<Rightarrow> bool
    \<Rightarrow> ReputationMgr \<Rightarrow> rep_error + (bool \<times> ReputationMgr)" where
  "ReputationMgr_ModifyReputation w e standing noSpillover r =
     ReputationMgr_SetReputation w e standing True noSpillover r"

subsection \<open>Loading and saving\<close>

definition rep_initial_state :: "'f RepWorld \<Rightarrow> 'f FactionEntry \<Rightarrow> FactionState" where
  "rep_initial_state w e = \<lparr>fs_ID = fe_ID e, fs_ReputationListID = fe_RepListID e, fs_Standing = 0,
     fs_Flags = ucast (ReputationMgr_GetDefaultStateFlags w (Some e)), fs_needSend = True, fs_needSave = True\<rparr>"

definition rep_initialize_one :: "'f RepWorld \<Rightarrow> 'f FactionEntry \<Rightarrow> ReputationMgr \<Rightarrow> ReputationMgr" where
  "rep_initialize_one w e r =
     (if \<not> FactionEntry_CanHaveReputation e then r
      else let newFaction = rep_initial_state w e;
               r1 = (if faction_has (fs_Flags newFaction) FACTION_FLAG_VISIBLE
                     then r\<lparr>rm_visibleFactionCount := rm_visibleFactionCount r + 1\<rparr> else r);
               r2 = ReputationMgr_UpdateRankCounters REP_HOSTILE (ReputationMgr_GetBaseRank w (Some e)) r1
           in r2\<lparr>rm_factions := om_put (fs_ReputationListID newFaction) newFaction (rm_factions r2)\<rparr>)"

definition ReputationMgr_Initialize :: "'f RepWorld \<Rightarrow> ReputationMgr \<Rightarrow> ReputationMgr" where
  "ReputationMgr_Initialize w r =
     fold (rep_initialize_one w) (map snd (rw_store w))
       (r\<lparr>rm_factions := [], rm_visibleFactionCount := 0, rm_honoredFactionCount := 0,
          rm_reveredFactionCount := 0, rm_exaltedFactionCount := 0, rm_sendFactionIncreased := False\<rparr>)"

text \<open>\<open>std::map::operator[]\<close> puts a zeroed state where there is none.\<close>

definition FactionState_zero :: FactionState where
  "FactionState_zero = \<lparr>fs_ID = 0, fs_ReputationListID = 0, fs_Standing = 0, fs_Flags = 0,
     fs_needSend = False, fs_needSave = False\<rparr>"

definition rep_at :: "u32 \<Rightarrow> ReputationMgr \<Rightarrow> ReputationMgr" where
  "rep_at k r = (case map_of (rm_factions r) k of
     None \<Rightarrow> r\<lparr>rm_factions := om_put k FactionState_zero (rm_factions r)\<rparr> | Some _ \<Rightarrow> r)"

definition rep_flags_at :: "u32 \<Rightarrow> ReputationMgr \<Rightarrow> u8" where
  "rep_flags_at k r = (case map_of (rm_factions r) k of None \<Rightarrow> 0 | Some f \<Rightarrow> fs_Flags f)"

definition rep_load_row :: "'f RepWorld \<Rightarrow> u16 \<times> int \<times> u16 \<Rightarrow> ReputationMgr \<Rightarrow> ReputationMgr" where
  "rep_load_row w row r =
     (case row of (faction, standing, dbFactionFlags) \<Rightarrow>
      case rw_LookupEntry w (ucast faction) of
        None \<Rightarrow> r
      | Some e \<Rightarrow>
          if \<not> FactionEntry_CanHaveReputation e then r
          else
            let k = fe_RepListID e;
                r1 = rep_upd k (\<lambda>f. f\<lparr>fs_Standing := standing\<rparr>) (rep_at k r);
                BaseRep = ReputationMgr_GetBaseReputation w (Some e);
                r2 = ReputationMgr_UpdateRankCounters (ReputationToRank BaseRep)
                       (ReputationToRank (wrap32 (BaseRep + standing))) r1;
                r3 = (if faction_has dbFactionFlags FACTION_FLAG_VISIBLE
                      then ReputationMgr_SetVisible_state w k r2 else r2);
                r4 = (if faction_has dbFactionFlags FACTION_FLAG_INACTIVE
                      then rep_upd k (FactionState_SetInactive True) r3 else r3);
                r5 = (if faction_has dbFactionFlags FACTION_FLAG_AT_WAR
                      then rep_upd k (FactionState_SetAtWar True) r4
                      else if faction_has (rep_flags_at k r4) FACTION_FLAG_VISIBLE
                      then rep_upd k (FactionState_SetAtWar False) r4 else r4);
                r6 = (if ReputationMgr_GetRank w (Some e) r5 \<le> REP_HOSTILE
                      then rep_upd k (FactionState_SetAtWar True) r5 else r5)
            in if ucast (rep_flags_at k r6) = dbFactionFlags
               then rep_upd k (\<lambda>f. f\<lparr>fs_needSend := False, fs_needSave := False\<rparr>) r6 else r6)"

definition ReputationMgr_LoadFromDB :: "'f RepWorld \<Rightarrow> (u16 \<times> int \<times> u16) list \<Rightarrow> ReputationMgr \<Rightarrow> ReputationMgr" where
  "ReputationMgr_LoadFromDB w rows r = fold (rep_load_row w) rows (ReputationMgr_Initialize w r)"

definition rep_save_one :: "'f RepWorld \<Rightarrow> FactionState \<Rightarrow> rep_event list" where
  "rep_save_one w f =
     (if fs_needSave f
      then [CHAR_DEL_CHAR_REPUTATION_BY_FACTION (rw_guidCounter w) (ucast (fs_ID f)),
            CHAR_INS_CHAR_REPUTATION_BY_FACTION (rw_guidCounter w) (ucast (fs_ID f)) (fs_Standing f)
              (ucast (fs_Flags f))]
      else [])"

definition ReputationMgr_SaveToDB :: "'f RepWorld \<Rightarrow> ReputationMgr \<Rightarrow> ReputationMgr" where
  "ReputationMgr_SaveToDB w r =
     rep_emit (concat (map (\<lambda>(k, f). rep_save_one w f) (rm_factions r)))
       (r\<lparr>rm_factions := map (\<lambda>(k, f). (k, f\<lparr>fs_needSave := False\<rparr>)) (rm_factions r)\<rparr>)"

subsection \<open>Ranks as a table\<close>

lemma ReputationToRank_table:
  "ReputationToRank s =
     (if s < -6000 then REP_HATED else if s < -3000 then REP_HOSTILE
      else if s < 0 then REP_UNFRIENDLY else if s < 3000 then REP_NEUTRAL
      else if s < 9000 then REP_FRIENDLY else if s < 21000 then REP_HONORED
      else if s < 42000 then REP_REVERED else REP_EXALTED)"
proof -
  have ranks: "rev [0..<MAX_REPUTATION_RANK] = [7, 6, 5, 4, 3, 2, 1, 0]"
    by (simp add: MAX_REPUTATION_RANK_def upt_rec)
  show ?thesis
    by (simp add: ReputationToRank_def ranks Reputation_Cap_def PointsInRank_def rep_ranks)
qed

lemma ReputationToRank_mono: "s \<le> t \<Longrightarrow> ReputationToRank s \<le> ReputationToRank t"
  by (simp add: ReputationToRank_table rep_ranks)

subsection \<open>Flags as bits\<close>

lemma faction_has_exp: "faction_has x (2 ^ n) \<longleftrightarrow> bit x n"
  by (simp add: faction_has_def and_exp_eq_0_iff_not_bit)

lemma faction_has_or: "faction_has x (f OR g) \<longleftrightarrow> faction_has x f \<or> faction_has x g"
  by (simp add: faction_has_def bit.conj_disj_distrib or_eq_0_iff)

lemma faction_flag_exps:
  "FACTION_FLAG_VISIBLE = 2 ^ 0" "FACTION_FLAG_AT_WAR = 2 ^ 1" "FACTION_FLAG_HIDDEN = 2 ^ 2"
  "FACTION_FLAG_INVISIBLE_FORCED = 2 ^ 3" "FACTION_FLAG_PEACE_FORCED = 2 ^ 4" "FACTION_FLAG_INACTIVE = 2 ^ 5"
  "FACTION_FLAG_SPECIAL = 2 ^ 7"
  by (simp_all add: FACTION_FLAG_VISIBLE_def FACTION_FLAG_AT_WAR_def FACTION_FLAG_HIDDEN_def
      FACTION_FLAG_INVISIBLE_FORCED_def FACTION_FLAG_PEACE_FORCED_def FACTION_FLAG_INACTIVE_def
      FACTION_FLAG_SPECIAL_def)

lemma faction_visible_frame [simp]:
  "faction_has (x OR FACTION_FLAG_VISIBLE) (FACTION_FLAG_VISIBLE :: u8)"
  "faction_has (x OR FACTION_FLAG_AT_WAR) (FACTION_FLAG_VISIBLE :: u8) = faction_has x FACTION_FLAG_VISIBLE"
  "faction_has (x AND NOT FACTION_FLAG_AT_WAR) (FACTION_FLAG_VISIBLE :: u8) = faction_has x FACTION_FLAG_VISIBLE"
  "faction_has (x OR FACTION_FLAG_INACTIVE) (FACTION_FLAG_VISIBLE :: u8) = faction_has x FACTION_FLAG_VISIBLE"
  "faction_has (x AND NOT FACTION_FLAG_INACTIVE) (FACTION_FLAG_VISIBLE :: u8) = faction_has x FACTION_FLAG_VISIBLE"
  unfolding faction_flag_exps faction_has_exp
  by (simp_all add: bit_0 even_or_iff even_and_iff)

subsection \<open>What each operation does to the state list\<close>

lemma om_upd_comp: "om_upd k g (om_upd k f m) = om_upd k (\<lambda>x. g (f x)) m"
  by (simp add: om_upd_def case_prod_beta comp_def)

lemma om_upd_id: "om_upd k (\<lambda>x. x) m = m"
  by (simp add: om_upd_def case_prod_beta)

lemma om_upd_if: "(if P then om_upd k f m else om_upd k g m) = om_upd k (\<lambda>x. if P then f x else g x) m"
  by simp

lemma om_upd_same: "map_of m k = Some v \<Longrightarrow> om_ok m \<Longrightarrow> om_upd k f m = om_upd k (\<lambda>_. f v) m"
  by (auto simp: om_upd_def om_get_iff [symmetric])

lemma rep_upd_simps [simp]:
  "rm_factions (rep_upd k f r) = om_upd k f (rm_factions r)"
  "rm_visibleFactionCount (rep_upd k f r) = rm_visibleFactionCount r"
  "rm_honoredFactionCount (rep_upd k f r) = rm_honoredFactionCount r"
  "rm_reveredFactionCount (rep_upd k f r) = rm_reveredFactionCount r"
  "rm_exaltedFactionCount (rep_upd k f r) = rm_exaltedFactionCount r"
  "rm_out (rep_upd k f r) = rm_out r"
  by (simp_all add: rep_upd_def)

lemma rep_emit_simps [simp]:
  "rm_factions (rep_emit evs r) = rm_factions r"
  "rm_visibleFactionCount (rep_emit evs r) = rm_visibleFactionCount r"
  "rm_honoredFactionCount (rep_emit evs r) = rm_honoredFactionCount r"
  "rm_reveredFactionCount (rep_emit evs r) = rm_reveredFactionCount r"
  "rm_exaltedFactionCount (rep_emit evs r) = rm_exaltedFactionCount r"
  "rm_out (rep_emit evs r) = rm_out r @ evs"
  by (simp_all add: rep_emit_def)

lemma UpdateRankCounters_simps [simp]:
  "rm_factions (ReputationMgr_UpdateRankCounters a b r) = rm_factions r"
  "rm_visibleFactionCount (ReputationMgr_UpdateRankCounters a b r) = rm_visibleFactionCount r"
  "rm_honoredFactionCount (ReputationMgr_UpdateRankCounters a b r) =
     rm_honoredFactionCount r - of_bool (a \<ge> REP_HONORED) + of_bool (b \<ge> REP_HONORED)"
  "rm_reveredFactionCount (ReputationMgr_UpdateRankCounters a b r) =
     rm_reveredFactionCount r - of_bool (a \<ge> REP_REVERED) + of_bool (b \<ge> REP_REVERED)"
  "rm_exaltedFactionCount (ReputationMgr_UpdateRankCounters a b r) =
     rm_exaltedFactionCount r - of_bool (a \<ge> REP_EXALTED) + of_bool (b \<ge> REP_EXALTED)"
  "rm_out (ReputationMgr_UpdateRankCounters a b r) = rm_out r"
  by (simp_all add: ReputationMgr_UpdateRankCounters_def Let_def)

definition fs_can_show :: "FactionState \<Rightarrow> bool" where
  "fs_can_show f \<longleftrightarrow> \<not> (faction_has (fs_Flags f) (FACTION_FLAG_INVISIBLE_FORCED OR FACTION_FLAG_HIDDEN)
       \<and> \<not> faction_has (fs_Flags f) FACTION_FLAG_SPECIAL) \<and> \<not> faction_has (fs_Flags f) FACTION_FLAG_VISIBLE"

definition fs_show :: "FactionState \<Rightarrow> FactionState" where
  "fs_show f = (if fs_can_show f
                then FactionState_touch (f\<lparr>fs_Flags := fs_Flags f OR FACTION_FLAG_VISIBLE\<rparr>) else f)"

lemma SendVisible_simps [simp]:
  "rm_factions (ReputationMgr_SendVisible w f v r) = rm_factions r"
  "rm_visibleFactionCount (ReputationMgr_SendVisible w f v r) = rm_visibleFactionCount r"
  "rm_honoredFactionCount (ReputationMgr_SendVisible w f v r) = rm_honoredFactionCount r"
  "rm_reveredFactionCount (ReputationMgr_SendVisible w f v r) = rm_reveredFactionCount r"
  "rm_exaltedFactionCount (ReputationMgr_SendVisible w f v r) = rm_exaltedFactionCount r"
  by (simp_all add: ReputationMgr_SendVisible_def)

lemma SetVisible_state_simps [simp]:
  "rm_honoredFactionCount (ReputationMgr_SetVisible_state w k r) = rm_honoredFactionCount r"
  "rm_reveredFactionCount (ReputationMgr_SetVisible_state w k r) = rm_reveredFactionCount r"
  "rm_exaltedFactionCount (ReputationMgr_SetVisible_state w k r) = rm_exaltedFactionCount r"
  by (simp_all add: ReputationMgr_SetVisible_state_def Let_def split: option.split)

lemma SetVisible_state_factions:
  assumes "om_ok (rm_factions r)"
  shows "rm_factions (ReputationMgr_SetVisible_state w k r) = om_upd k fs_show (rm_factions r)"
proof (cases "map_of (rm_factions r) k")
  case None
  then have "k \<notin> fst ` set (rm_factions r)" by (simp add: map_of_eq_None_iff)
  then have "om_upd k fs_show (rm_factions r) = rm_factions r"
    by (auto simp: om_upd_def intro!: map_idI) force
  with None show ?thesis by (simp add: ReputationMgr_SetVisible_state_def)
next
  case (Some f)
  have keep: "om_upd k (\<lambda>_. f) (rm_factions r) = rm_factions r"
    using Some assms om_upd_same [of "rm_factions r" k f "\<lambda>x. x"] by (simp add: om_upd_id)
  show ?thesis
    unfolding om_upd_same [OF Some assms, of fs_show]
    using Some keep
    by (auto simp: ReputationMgr_SetVisible_state_def fs_show_def fs_can_show_def Let_def)
qed

lemma SetVisible_state_count:
  "rm_visibleFactionCount (ReputationMgr_SetVisible_state w k r) = rm_visibleFactionCount r +
     (case map_of (rm_factions r) k of None \<Rightarrow> 0 | Some f \<Rightarrow> of_bool (fs_can_show f))"
  by (auto simp: ReputationMgr_SetVisible_state_def fs_can_show_def Let_def split: option.split)

text \<open>No statement of a save is among what an operation puts out.\<close>

fun rep_is_sql :: "rep_event \<Rightarrow> bool" where
  "rep_is_sql (CHAR_DEL_CHAR_REPUTATION_BY_FACTION _ _) = True"
| "rep_is_sql (CHAR_INS_CHAR_REPUTATION_BY_FACTION _ _ _ _) = True"
| "rep_is_sql _ = False"

definition rep_sql :: "ReputationMgr \<Rightarrow> rep_event list" where
  "rep_sql r = filter rep_is_sql (rm_out r)"

lemma SetVisible_state_sql [simp]: "rep_sql (ReputationMgr_SetVisible_state w k r) = rep_sql r"
  by (auto simp: ReputationMgr_SetVisible_state_def ReputationMgr_SendVisible_def rep_sql_def Let_def
      split: option.split)

lemma rep_sql_simps [simp]:
  "rep_sql (rep_upd k f r) = rep_sql r"
  "rep_sql (ReputationMgr_UpdateRankCounters a b r) = rep_sql r"
  "rep_sql (rep_emit evs r) = rep_sql r @ filter rep_is_sql evs"
  "rep_sql (r\<lparr>rm_sendFactionIncreased := x\<rparr>) = rep_sql r"
  by (simp_all add: rep_sql_def)

definition fs_set_standing :: "int \<Rightarrow> ReputationRank \<Rightarrow> FactionState \<Rightarrow> FactionState" where
  "fs_set_standing standing rank f =
     (let f1 = fs_show (FactionState_touch (f\<lparr>fs_Standing := standing\<rparr>))
      in if rank \<le> REP_HOSTILE then FactionState_SetAtWar True f1 else f1)"

lemma fs_show_simps [simp]:
  "fs_ID (fs_show f) = fs_ID f" "fs_ReputationListID (fs_show f) = fs_ReputationListID f"
  "fs_Standing (fs_show f) = fs_Standing f"
  "faction_has (fs_Flags (fs_show f)) FACTION_FLAG_VISIBLE \<longleftrightarrow> faction_has (fs_Flags f) FACTION_FLAG_VISIBLE \<or> fs_can_show f"
  "fs_needSave (fs_show f) \<longleftrightarrow> fs_needSave f \<or> fs_can_show f"
  by (auto simp: fs_show_def FactionState_touch_def)

lemma FactionState_SetAtWar_simps [simp]:
  "fs_ID (FactionState_SetAtWar b f) = fs_ID f"
  "fs_ReputationListID (FactionState_SetAtWar b f) = fs_ReputationListID f"
  "fs_Standing (FactionState_SetAtWar b f) = fs_Standing f"
  "faction_has (fs_Flags (FactionState_SetAtWar b f)) FACTION_FLAG_VISIBLE = faction_has (fs_Flags f) FACTION_FLAG_VISIBLE"
  "fs_needSave f \<Longrightarrow> fs_needSave (FactionState_SetAtWar b f)"
  by (simp_all add: FactionState_SetAtWar_def FactionState_touch_def)

lemma FactionState_SetInactive_simps [simp]:
  "fs_ID (FactionState_SetInactive b f) = fs_ID f"
  "fs_ReputationListID (FactionState_SetInactive b f) = fs_ReputationListID f"
  "fs_Standing (FactionState_SetInactive b f) = fs_Standing f"
  "faction_has (fs_Flags (FactionState_SetInactive b f)) FACTION_FLAG_VISIBLE = faction_has (fs_Flags f) FACTION_FLAG_VISIBLE"
  "fs_needSave f \<Longrightarrow> fs_needSave (FactionState_SetInactive b f)"
  by (simp_all add: FactionState_SetInactive_def FactionState_touch_def)

lemma FactionState_touch_simps [simp]:
  "fs_ID (FactionState_touch f) = fs_ID f"
  "fs_ReputationListID (FactionState_touch f) = fs_ReputationListID f"
  "fs_Standing (FactionState_touch f) = fs_Standing f"
  "fs_Flags (FactionState_touch f) = fs_Flags f"
  "fs_needSave (FactionState_touch f)"
  by (simp_all add: FactionState_touch_def)

lemma fs_can_show_frame: "fs_Flags g = fs_Flags f \<Longrightarrow> fs_can_show g = fs_can_show f"
  by (simp add: fs_can_show_def)

lemma fs_set_standing_simps [simp]:
  "fs_ID (fs_set_standing s k f) = fs_ID f"
  "fs_ReputationListID (fs_set_standing s k f) = fs_ReputationListID f"
  "fs_Standing (fs_set_standing s k f) = s"
  "faction_has (fs_Flags (fs_set_standing s k f)) FACTION_FLAG_VISIBLE \<longleftrightarrow> faction_has (fs_Flags f) FACTION_FLAG_VISIBLE \<or> fs_can_show f"
  "fs_needSave (fs_set_standing s k f)"
  by (simp_all add: fs_set_standing_def Let_def fs_can_show_def)

subsection \<open>The invariant: the counters count, and what is not to be saved is saved\<close>

definition rep_world_ok :: "'f RepWorld \<Rightarrow> bool" where
  "rep_world_ok w \<longleftrightarrow> om_ok (rw_store w) \<and> (\<forall>(i, e) \<in> set (rw_store w). fe_ID e = i) \<and>
     distinct (map fe_RepListID (filter FactionEntry_CanHaveReputation (map snd (rw_store w))))"

definition rep_listed :: "'f RepWorld \<Rightarrow> 'f FactionEntry \<Rightarrow> bool" where
  "rep_listed w e \<longleftrightarrow> FactionEntry_CanHaveReputation e \<and> rw_LookupEntry w (fe_ID e) = Some e"

lemma rep_world_lookup: "rep_world_ok w \<Longrightarrow> rw_LookupEntry w i = Some e \<Longrightarrow> fe_ID e = i"
  by (auto simp: rep_world_ok_def rw_LookupEntry_def dest!: map_of_SomeD)

lemma rep_listed_lookup:
  "rep_world_ok w \<Longrightarrow> rw_LookupEntry w i = Some e \<Longrightarrow> FactionEntry_CanHaveReputation e \<Longrightarrow> rep_listed w e"
  using rep_world_lookup by (fastforce simp: rep_listed_def)

lemma rep_listed_inj:
  assumes "rep_world_ok w" "rep_listed w e" "rep_listed w e'" "fe_RepListID e = fe_RepListID e'"
  shows "e = e'"
proof -
  have "e \<in> set (filter FactionEntry_CanHaveReputation (map snd (rw_store w)))"
    "e' \<in> set (filter FactionEntry_CanHaveReputation (map snd (rw_store w)))"
    using assms(2,3) by (force simp: rep_listed_def rw_LookupEntry_def dest: map_of_SomeD)+
  with assms(1,4) show ?thesis by (simp add: rep_world_ok_def distinct_map inj_on_def)
qed

lemma fe_RepListID_nonneg:
  "FactionEntry_CanHaveReputation e \<Longrightarrow> \<not> FactionEntry_CanHaveReputation e' \<Longrightarrow> fe_RepListID e \<noteq> fe_RepListID e'"
proof
  assume c: "FactionEntry_CanHaveReputation e" "\<not> FactionEntry_CanHaveReputation e'"
    and "fe_RepListID e = fe_RepListID e'"
  then have "sint (fe_RepListID e) = sint (fe_RepListID e')" by simp
  then have "sint (fe_ReputationIndex e) = sint (fe_ReputationIndex e')"
    by (simp add: fe_RepListID_def sint_up_scast is_up)
  with c show False by (simp add: FactionEntry_CanHaveReputation_def)
qed

definition rep_rank_of :: "'f RepWorld \<Rightarrow> FactionState \<Rightarrow> ReputationRank" where
  "rep_rank_of w f = ReputationToRank
     (wrap32 (ReputationMgr_GetBaseReputation w (rw_LookupEntry w (fs_ID f)) + fs_Standing f))"

definition rep_count :: "(FactionState \<Rightarrow> bool) \<Rightarrow> ReputationMgr \<Rightarrow> u8" where
  "rep_count P r = of_int (om_sum (\<lambda>k f. of_bool (P f)) (rm_factions r))"

lemma rep_count_filter: "rep_count P r = of_nat (length (filter P (map snd (rm_factions r))))"
proof -
  have "om_sum (\<lambda>k f. of_bool (P f)) m = int (length (filter P (map snd m)))" for m :: "(u32 \<times> FactionState) list"
    by (induction m) auto
  then show ?thesis by (simp add: rep_count_def)
qed

definition rep_counts :: "'f RepWorld \<Rightarrow> ReputationMgr \<Rightarrow> bool" where
  "rep_counts w r \<longleftrightarrow>
     rm_visibleFactionCount r = rep_count (\<lambda>f. faction_has (fs_Flags f) FACTION_FLAG_VISIBLE) r \<and>
     rm_honoredFactionCount r = rep_count (\<lambda>f. rep_rank_of w f \<ge> REP_HONORED) r \<and>
     rm_reveredFactionCount r = rep_count (\<lambda>f. rep_rank_of w f \<ge> REP_REVERED) r \<and>
     rm_exaltedFactionCount r = rep_count (\<lambda>f. rep_rank_of w f \<ge> REP_EXALTED) r"

definition rep_state_ok :: "'f RepWorld \<Rightarrow> u32 \<times> FactionState \<Rightarrow> bool" where
  "rep_state_ok w p \<longleftrightarrow> fs_ReputationListID (snd p) = fst p \<and>
     (\<exists>e. rep_listed w e \<and> fs_ID (snd p) = fe_ID e \<and> fst p = fe_RepListID e)"

definition rep_inv :: "'f RepWorld \<Rightarrow> ReputationMgr \<Rightarrow> bool" where
  "rep_inv w r \<longleftrightarrow> om_ok (rm_factions r) \<and> list_all (rep_state_ok w) (rm_factions r) \<and>
     (\<forall>e. rep_listed w e \<longrightarrow> map_of (rm_factions r) (fe_RepListID e) \<noteq> None) \<and> rep_counts w r"

lemma rep_inv_D:
  assumes "rep_world_ok w" "rep_inv w r" "map_of (rm_factions r) (fe_RepListID e) = Some f"
    "rw_LookupEntry w (fe_ID e) = Some e"
  shows "rep_listed w e \<and> fs_ID f = fe_ID e \<and> fs_ReputationListID f = fe_RepListID e"
proof -
  from assms(2,3) have "rep_state_ok w (fe_RepListID e, f)"
    by (auto simp: rep_inv_def list_all_iff dest!: map_of_SomeD)
  then obtain e' where e': "rep_listed w e'" "fs_ID f = fe_ID e'" "fe_RepListID e = fe_RepListID e'"
    "fs_ReputationListID f = fe_RepListID e" by (auto simp: rep_state_ok_def)
  with fe_RepListID_nonneg [of e' e] have "FactionEntry_CanHaveReputation e"
    by (auto simp: rep_listed_def)
  with assms(4) have "rep_listed w e" by (simp add: rep_listed_def)
  with rep_listed_inj [OF assms(1) this e'(1)] e' show ?thesis by auto
qed

lemma rep_count_upd:
  assumes "om_ok (rm_factions r)" "map_of (rm_factions r) k = Some f"
    "rm_factions r' = om_upd k g (rm_factions r)"
  shows "rep_count P r' = rep_count P r - of_bool (P f) + of_bool (P (g f))"
  by (simp add: rep_count_def assms(3) om_sum_upd [OF assms(1)] assms(2) om_at_def)

lemma om_upd_absent: "map_of m k = None \<Longrightarrow> om_upd k g m = m"
  by (force simp: om_upd_def map_of_eq_None_iff intro!: map_idI)

text \<open>One state changes to one of the same faction, and the counters follow.\<close>

lemma rep_inv_upd:
  assumes inv: "rep_inv w r" and k: "map_of (rm_factions r) k = Some f"
    and m: "rm_factions r' = om_upd k g (rm_factions r)"
    and g: "fs_ID (g f) = fs_ID f" "fs_ReputationListID (g f) = fs_ReputationListID f"
    and c: "rm_visibleFactionCount r' = rm_visibleFactionCount r
        - of_bool (faction_has (fs_Flags f) FACTION_FLAG_VISIBLE)
        + of_bool (faction_has (fs_Flags (g f)) FACTION_FLAG_VISIBLE)"
      "rm_honoredFactionCount r' = rm_honoredFactionCount r
        - of_bool (rep_rank_of w f \<ge> REP_HONORED) + of_bool (rep_rank_of w (g f) \<ge> REP_HONORED)"
      "rm_reveredFactionCount r' = rm_reveredFactionCount r
        - of_bool (rep_rank_of w f \<ge> REP_REVERED) + of_bool (rep_rank_of w (g f) \<ge> REP_REVERED)"
      "rm_exaltedFactionCount r' = rm_exaltedFactionCount r
        - of_bool (rep_rank_of w f \<ge> REP_EXALTED) + of_bool (rep_rank_of w (g f) \<ge> REP_EXALTED)"
  shows "rep_inv w r'"
proof -
  have ok: "om_ok (rm_factions r)" using inv by (simp add: rep_inv_def)
  have "list_all (rep_state_ok w) (rm_factions r')"
  proof -
    have "rep_state_ok w (k, f)" using inv k by (auto simp: rep_inv_def list_all_iff dest!: map_of_SomeD)
    then have "rep_state_ok w (k, g f)" by (simp add: rep_state_ok_def g)
    with inv show ?thesis
      by (auto simp: m om_upd_same [OF k ok, of g] rep_inv_def list_all_iff set_om_upd)
  qed
  moreover have "rep_counts w r'"
    using inv by (simp add: rep_inv_def rep_counts_def c rep_count_upd [OF ok k m])
  moreover have "map_of (rm_factions r') j = None \<longleftrightarrow> map_of (rm_factions r) j = None" for j
    using k by (simp add: m)
  ultimately show ?thesis using inv by (simp add: rep_inv_def m)
qed

lemma rep_rank_of_frame: "fs_ID g = fs_ID f \<Longrightarrow> fs_Standing g = fs_Standing f \<Longrightarrow> rep_rank_of w g = rep_rank_of w f"
  by (simp add: rep_rank_of_def)

lemma rep_inv_flags:
  assumes inv: "rep_inv w r"
    and g: "\<And>f. fs_ID (g f) = fs_ID f" "\<And>f. fs_ReputationListID (g f) = fs_ReputationListID f"
      "\<And>f. fs_Standing (g f) = fs_Standing f"
      "\<And>f. faction_has (fs_Flags (g f)) FACTION_FLAG_VISIBLE = faction_has (fs_Flags f) FACTION_FLAG_VISIBLE"
  shows "rep_inv w (rep_upd k g r)"
proof (cases "map_of (rm_factions r) k")
  case None
  with om_upd_absent [OF None, of g] inv show ?thesis
    by (simp add: rep_upd_def)
next
  case (Some f)
  then show ?thesis
    by (rule rep_inv_upd [OF inv _ rep_upd_simps(1)])
      (simp_all add: g rep_rank_of_frame [of "g f" f])
qed

lemma rep_inv_map:
  assumes inv: "rep_inv w r" and m: "rm_factions r' = map (\<lambda>(k, f). (k, g f)) (rm_factions r)"
    and g: "\<And>f. fs_ID (g f) = fs_ID f" "\<And>f. fs_ReputationListID (g f) = fs_ReputationListID f"
      "\<And>f. fs_Standing (g f) = fs_Standing f" "\<And>f. fs_Flags (g f) = fs_Flags f"
    and c: "rm_visibleFactionCount r' = rm_visibleFactionCount r"
      "rm_honoredFactionCount r' = rm_honoredFactionCount r"
      "rm_reveredFactionCount r' = rm_reveredFactionCount r"
      "rm_exaltedFactionCount r' = rm_exaltedFactionCount r"
  shows "rep_inv w r'"
proof -
  have keys: "map fst (rm_factions r') = map fst (rm_factions r)" by (simp add: m case_prod_beta)
  have "map_of (rm_factions r') j = None \<longleftrightarrow> map_of (rm_factions r) j = None" for j
    by (metis keys map_of_eq_None_iff list.set_map)
  moreover have cnt: "rep_count P r' = rep_count P r" if "\<And>f. P (g f) = P f" for P
    using that by (simp add: rep_count_filter m case_prod_beta filter_map comp_def)
  have "rep_counts w r'"
    using inv by (simp add: rep_inv_def rep_counts_def c cnt g rep_rank_of_def)
  moreover have "om_ok (rm_factions r')"
    using inv keys unfolding om_ok_def rep_inv_def by metis
  moreover have "list_all (rep_state_ok w) (rm_factions r')"
    using inv by (force simp: rep_inv_def list_all_iff rep_state_ok_def m g)
  ultimately show ?thesis using inv by (simp add: rep_inv_def)
qed

lemma rep_inv_frame:
  "rep_inv w r \<Longrightarrow> rm_factions r' = rm_factions r \<Longrightarrow>
   rm_visibleFactionCount r' = rm_visibleFactionCount r \<Longrightarrow> rm_honoredFactionCount r' = rm_honoredFactionCount r \<Longrightarrow>
   rm_reveredFactionCount r' = rm_reveredFactionCount r \<Longrightarrow> rm_exaltedFactionCount r' = rm_exaltedFactionCount r \<Longrightarrow>
   rep_inv w r'"
  by (simp add: rep_inv_def rep_counts_def rep_count_def)

subsection \<open>The data base rows\<close>

text \<open>What the statements of a save do to the rows of the player in \<open>character_reputation\<close>.\<close>

fun rep_db_exec :: "rep_event \<Rightarrow> (u16 \<times> int \<times> u16) list \<Rightarrow> (u16 \<times> int \<times> u16) list" where
  "rep_db_exec (CHAR_DEL_CHAR_REPUTATION_BY_FACTION guid faction) rows = filter (\<lambda>row. fst row \<noteq> faction) rows"
| "rep_db_exec (CHAR_INS_CHAR_REPUTATION_BY_FACTION guid faction standing flags) rows =
     (faction, standing, flags) # rows"
| "rep_db_exec _ rows = rows"

definition rep_db :: "ReputationMgr \<Rightarrow> (u16 \<times> int \<times> u16) list \<Rightarrow> (u16 \<times> int \<times> u16) list" where
  "rep_db r rows = fold rep_db_exec (rm_out r) rows"

lemma rep_db_sql: "rep_db r rows = fold rep_db_exec (rep_sql r) rows"
proof -
  have "fold rep_db_exec evs rows = fold rep_db_exec (filter rep_is_sql evs) rows" for evs
    by (induction evs arbitrary: rows rule: rev_induct; simp; case_tac x; simp)
  then show ?thesis by (simp add: rep_db_def rep_sql_def)
qed

definition rep_synced :: "(u16 \<times> int \<times> u16) list \<Rightarrow> ReputationMgr \<Rightarrow> bool" where
  "rep_synced rows r \<longleftrightarrow> distinct (map fst (rep_db r rows)) \<and> (\<forall>(k, f) \<in> set (rm_factions r). \<not> fs_needSave f \<longrightarrow>
     map_option fst (map_of (rep_db r rows) (ucast (fs_ID f))) = Some (fs_Standing f))"

lemma rep_synced_upd:
  assumes "rep_synced rows r" "rm_factions r' = om_upd k g (rm_factions r)" "rep_sql r' = rep_sql r"
    "\<And>f. fs_ID (g f) = fs_ID f"
    "\<And>f. \<not> fs_needSave (g f) \<Longrightarrow> \<not> fs_needSave f \<and> fs_Standing (g f) = fs_Standing f"
  shows "rep_synced rows r'"
  using assms by (fastforce simp: rep_synced_def rep_db_sql set_om_upd split: if_splits)

lemma rep_synced_map:
  assumes "rep_synced rows r" "rm_factions r' = map (\<lambda>(k, f). (k, g f)) (rm_factions r)" "rep_sql r' = rep_sql r"
    "\<And>f. fs_ID (g f) = fs_ID f"
    "\<And>f. \<not> fs_needSave (g f) \<Longrightarrow> \<not> fs_needSave f \<and> fs_Standing (g f) = fs_Standing f"
  shows "rep_synced rows r'"
  using assms by (fastforce simp: rep_synced_def rep_db_sql)

lemma rep_synced_frame:
  "rep_synced rows r \<Longrightarrow> rm_factions r' = rm_factions r \<Longrightarrow> rep_sql r' = rep_sql r \<Longrightarrow> rep_synced rows r'"
  by (auto simp: rep_synced_def rep_db_sql)

definition rep_ok :: "'f RepWorld \<Rightarrow> (u16 \<times> int \<times> u16) list \<Rightarrow> ReputationMgr \<Rightarrow> bool" where
  "rep_ok w rows r \<longleftrightarrow> rep_inv w r \<and> rep_synced rows r"

lemma rep_ok_D: "rep_ok w rows r \<Longrightarrow> om_ok (rm_factions r)"
  by (simp add: rep_ok_def rep_inv_def)

subsection \<open>Setting the standing with one faction\<close>

definition rep_target :: "'f RepWorld \<Rightarrow> 'f FactionEntry \<Rightarrow> int \<Rightarrow> bool \<Rightarrow> FactionState \<Rightarrow> int" where
  "rep_target w e s incremental f = rep_clamp
     (if incremental then wrap32 (rep_gained w s + wrap32 (fs_Standing f + ReputationMgr_GetBaseReputation w (Some e)))
      else s)"

lemma rep_clamp_range: "Reputation_Bottom \<le> rep_clamp s \<and> rep_clamp s \<le> Reputation_Cap"
  by (simp add: rep_clamp_def Reputation_Cap_def Reputation_Bottom_def)

lemma wrap32_target: "wrap32 (b + wrap32 (rep_target w e s i f - b)) = rep_target w e s i f"
proof -
  have "Reputation_Bottom \<le> rep_target w e s i f \<and> rep_target w e s i f \<le> Reputation_Cap"
    by (simp only: rep_target_def rep_clamp_range)
  then have "wrap32 (rep_target w e s i f) = rep_target w e s i f"
    by (intro wrap32_id) (simp_all add: Reputation_Cap_def Reputation_Bottom_def)
  then show ?thesis by (simp add: wrap32_add_wrap)
qed

lemma fs_set_standing_eq:
  "fs_set_standing s k = (if k \<le> REP_HOSTILE
     then (\<lambda>f. FactionState_SetAtWar True (fs_show (FactionState_touch (f\<lparr>fs_Standing := s\<rparr>))))
     else (\<lambda>f. fs_show (FactionState_touch (f\<lparr>fs_Standing := s\<rparr>))))"
  by (simp add: fs_set_standing_def Let_def fun_eq_iff)

lemma SetOne_absent:
  "map_of (rm_factions r) (fe_RepListID e) = None \<Longrightarrow> ReputationMgr_SetOneFactionReputation w e s i r = (False, r)"
  by (simp add: ReputationMgr_SetOneFactionReputation_def)

lemma SetOne_present:
  fixes w :: "'f RepWorld" and e :: "'f FactionEntry" and s :: int and i :: bool and r :: ReputationMgr and f :: FactionState
  assumes ok: "om_ok (rm_factions r)" and f: "map_of (rm_factions r) (fe_RepListID e) = Some f"
  defines "b \<equiv> ReputationMgr_GetBaseReputation w (Some e)"
  defines "st \<equiv> rep_target w e s i f"
  defines "r' \<equiv> snd (ReputationMgr_SetOneFactionReputation w e s i r)"
  shows "fst (ReputationMgr_SetOneFactionReputation w e s i r)"
    and "rm_factions r' = om_upd (fe_RepListID e) (fs_set_standing (wrap32 (st - b)) (ReputationToRank st)) (rm_factions r)"
    and "rep_sql r' = rep_sql r"
    and "rm_visibleFactionCount r' = rm_visibleFactionCount r + of_bool (fs_can_show f)"
    and "rm_honoredFactionCount r' = rm_honoredFactionCount r
        - of_bool (ReputationToRank (wrap32 (fs_Standing f + b)) \<ge> REP_HONORED) + of_bool (ReputationToRank st \<ge> REP_HONORED)"
    and "rm_reveredFactionCount r' = rm_reveredFactionCount r
        - of_bool (ReputationToRank (wrap32 (fs_Standing f + b)) \<ge> REP_REVERED) + of_bool (ReputationToRank st \<ge> REP_REVERED)"
    and "rm_exaltedFactionCount r' = rm_exaltedFactionCount r
        - of_bool (ReputationToRank (wrap32 (fs_Standing f + b)) \<ge> REP_EXALTED) + of_bool (ReputationToRank st \<ge> REP_EXALTED)"
proof -
  have vis: "rm_factions (ReputationMgr_SetVisible_state w k (rep_upd k g r)) =
      om_upd k fs_show (om_upd k g (rm_factions r))" for k g
    by (subst SetVisible_state_factions) (simp_all add: ok)
  have cs: "fs_can_show (FactionState_touch (f\<lparr>fs_Standing := x\<rparr>)) = fs_can_show f" for x
    by (simp add: fs_can_show_def)
  have unfold: "ReputationMgr_SetOneFactionReputation w e s i r = (True, r')"
    unfolding r'_def by (simp add: ReputationMgr_SetOneFactionReputation_def f Let_def)
  show "fst (ReputationMgr_SetOneFactionReputation w e s i r)" by (simp add: unfold)
  note d = r'_def ReputationMgr_SetOneFactionReputation_def f Let_def st_def rep_target_def b_def
  show "rm_factions r' = om_upd (fe_RepListID e) (fs_set_standing (wrap32 (st - b)) (ReputationToRank st)) (rm_factions r)"
    by (simp add: d vis om_upd_comp fs_set_standing_eq)
  show "rep_sql r' = rep_sql r" by (simp add: d)
  show "rm_visibleFactionCount r' = rm_visibleFactionCount r + of_bool (fs_can_show f)"
    by (simp add: d SetVisible_state_count cs)
  show "rm_honoredFactionCount r' = rm_honoredFactionCount r
        - of_bool (ReputationToRank (wrap32 (fs_Standing f + b)) \<ge> REP_HONORED) + of_bool (ReputationToRank st \<ge> REP_HONORED)"
    by (simp add: d)
  show "rm_reveredFactionCount r' = rm_reveredFactionCount r
        - of_bool (ReputationToRank (wrap32 (fs_Standing f + b)) \<ge> REP_REVERED) + of_bool (ReputationToRank st \<ge> REP_REVERED)"
    by (simp add: d)
  show "rm_exaltedFactionCount r' = rm_exaltedFactionCount r
        - of_bool (ReputationToRank (wrap32 (fs_Standing f + b)) \<ge> REP_EXALTED) + of_bool (ReputationToRank st \<ge> REP_EXALTED)"
    by (simp add: d)
qed

lemma SetOne_ok:
  assumes w: "rep_world_ok w" and ok: "rep_ok w rows r" and e: "rw_LookupEntry w (fe_ID e) = Some e"
  shows "rep_ok w rows (snd (ReputationMgr_SetOneFactionReputation w e s i r))"
proof (cases "map_of (rm_factions r) (fe_RepListID e)")
  case None
  with ok show ?thesis by (simp add: SetOne_absent)
next
  case (Some f)
  have om: "om_ok (rm_factions r)" and inv: "rep_inv w r" and sy: "rep_synced rows r"
    using ok by (simp_all add: rep_ok_def rep_inv_def)
  have idf: "fs_ID f = fe_ID e" using rep_inv_D [OF w inv Some e] by simp
  note P = SetOne_present [OF om Some, of w s i]
  have old: "rep_rank_of w f = ReputationToRank (wrap32 (fs_Standing f + ReputationMgr_GetBaseReputation w (Some e)))"
    by (simp add: rep_rank_of_def idf e add.commute)
  have new: "rep_rank_of w (fs_set_standing (wrap32 (rep_target w e s i f - ReputationMgr_GetBaseReputation w (Some e)))
       (ReputationToRank (rep_target w e s i f)) f) = ReputationToRank (rep_target w e s i f)"
    by (simp add: rep_rank_of_def idf e wrap32_target)
  have "rep_inv w (snd (ReputationMgr_SetOneFactionReputation w e s i r))"
    by (rule rep_inv_upd [OF inv Some P(2)]) (simp_all add: P old new fs_can_show_def)
  moreover have "rep_synced rows (snd (ReputationMgr_SetOneFactionReputation w e s i r))"
    by (rule rep_synced_upd [OF sy P(2) P(3)]) simp_all
  ultimately show ?thesis by (simp add: rep_ok_def)
qed

lemma wrap32_sint: "wrap32 (sint (x :: 32 word)) = sint x"
  using sint_ge [of x] sint_less [of x] by (intro wrap32_id) simp_all

lemma wrap32_base: "wrap32 (ReputationMgr_GetBaseReputation w eo) = ReputationMgr_GetBaseReputation w eo"
  by (simp add: ReputationMgr_GetBaseReputation_def wrap32_sint wrap32_id split: option.split)

subsection \<open>Initial states\<close>

text \<open>The invariant of a list that holds only some of the factions yet.\<close>

definition rep_part :: "'f RepWorld \<Rightarrow> ReputationMgr \<Rightarrow> bool" where
  "rep_part w r \<longleftrightarrow> om_ok (rm_factions r) \<and> list_all (rep_state_ok w) (rm_factions r) \<and> rep_counts w r"

lemma rep_count_put:
  assumes "om_ok (rm_factions r)" "map_of (rm_factions r) k = None" "rm_factions r' = om_put k f (rm_factions r)"
  shows "rep_count P r' = rep_count P r + of_bool (P f)"
  by (simp add: rep_count_def assms(3) om_sum_put [OF assms(1)] assms(2) om_at_def)

lemma initial_rank:
  "rep_listed w e \<Longrightarrow> rep_rank_of w (rep_initial_state w e) = ReputationMgr_GetBaseRank w (Some e)"
  by (simp add: rep_rank_of_def rep_initial_state_def rep_listed_def wrap32_base ReputationMgr_GetBaseRank_def)

lemma initialize_one_part:
  assumes p: "rep_part w r" and e: "rep_listed w e" and k: "map_of (rm_factions r) (fe_RepListID e) = None"
  shows "rep_part w (rep_initialize_one w e r)"
    and "rm_factions (rep_initialize_one w e r) = om_put (fe_RepListID e) (rep_initial_state w e) (rm_factions r)"
    and "rep_sql (rep_initialize_one w e r) = rep_sql r"
proof -
  let ?r = "rep_initialize_one w e r"
  have can: "FactionEntry_CanHaveReputation e" using e by (simp add: rep_listed_def)
  have key: "fs_ReputationListID (rep_initial_state w e) = fe_RepListID e" "fs_ID (rep_initial_state w e) = fe_ID e"
    by (simp_all add: rep_initial_state_def)
  show m: "rm_factions ?r = om_put (fe_RepListID e) (rep_initial_state w e) (rm_factions r)"
    by (simp add: rep_initialize_one_def can Let_def key)
  show "rep_sql ?r = rep_sql r"
    by (simp add: rep_initialize_one_def can Let_def rep_sql_def)
  have low: "\<not> REP_HONORED \<le> REP_HOSTILE" "\<not> REP_REVERED \<le> REP_HOSTILE" "\<not> REP_EXALTED \<le> REP_HOSTILE"
    by (simp_all add: rep_ranks)
  have om: "om_ok (rm_factions r)" using p by (simp add: rep_part_def)
  have "rep_counts w ?r"
    using p unfolding rep_counts_def rep_count_put [OF om k m] initial_rank [OF e]
    by (auto simp: rep_part_def rep_counts_def rep_initialize_one_def can Let_def low)
  moreover have "list_all (rep_state_ok w) (rm_factions ?r)"
    using p e by (auto simp: m rep_part_def list_all_iff set_om_put [OF om] rep_state_ok_def key)
  ultimately show "rep_part w ?r" using om by (simp add: rep_part_def m)
qed

lemma initialize_fold:
  assumes "rep_part w r" "\<forall>e \<in> set es. rw_LookupEntry w (fe_ID e) = Some e"
    "distinct (map fe_RepListID (filter FactionEntry_CanHaveReputation es))"
    "\<forall>e \<in> set es. FactionEntry_CanHaveReputation e \<longrightarrow> map_of (rm_factions r) (fe_RepListID e) = None"
  shows "rep_part w (fold (rep_initialize_one w) es r) \<and>
    rep_sql (fold (rep_initialize_one w) es r) = rep_sql r \<and>
    map_of (rm_factions (fold (rep_initialize_one w) es r)) = map_of (rm_factions r) ++
      map_of (rev (map (\<lambda>e. (fe_RepListID e, rep_initial_state w e)) (filter FactionEntry_CanHaveReputation es)))"
  using assms
proof (induction es arbitrary: r)
  case (Cons e es)
  show ?case
  proof (cases "FactionEntry_CanHaveReputation e")
    case True
    with Cons.prems have e: "rep_listed w e" "map_of (rm_factions r) (fe_RepListID e) = None"
      by (simp_all add: rep_listed_def)
    note I = initialize_one_part [OF Cons.prems(1) this]
    have "\<forall>e' \<in> set es. FactionEntry_CanHaveReputation e' \<longrightarrow>
        map_of (rm_factions (rep_initialize_one w e r)) (fe_RepListID e') = None"
    proof (intro ballI impI)
      fix e' assume e': "e' \<in> set es" "FactionEntry_CanHaveReputation e'"
      then have "fe_RepListID e' \<in> fe_RepListID ` {x \<in> set es. FactionEntry_CanHaveReputation x}" by blast
      then have "fe_RepListID e' \<noteq> fe_RepListID e" using Cons.prems(3) True by auto
      with e' Cons.prems(4) show "map_of (rm_factions (rep_initialize_one w e r)) (fe_RepListID e') = None"
        by (simp add: I(2))
    qed
    with Cons.IH [OF I(1)] Cons.prems True show ?thesis
      by (simp add: I(2,3) map_add_assoc [symmetric] map_add_upd_left)
        (simp add: map_add_def fun_eq_iff split: option.split)
  next
    case False
    then have "rep_initialize_one w e r = r" by (simp add: rep_initialize_one_def)
    with Cons False show ?thesis by simp
  qed
qed (simp add: map_add_def)

lemma Initialize_ok:
  fixes w :: "'f RepWorld" and r :: ReputationMgr
  assumes w: "rep_world_ok w"
  shows "rep_inv w (ReputationMgr_Initialize w r)"
    and "rep_sql (ReputationMgr_Initialize w r) = rep_sql r"
    and "map_of (rm_factions (ReputationMgr_Initialize w r)) k = Some f \<Longrightarrow>
      \<exists>e. rep_listed w e \<and> f = rep_initial_state w e"
proof -
  define es where "es = map snd (rw_store w)"
  define r0 where "r0 = r\<lparr>rm_factions := [], rm_visibleFactionCount := 0, rm_honoredFactionCount := 0,
          rm_reveredFactionCount := 0, rm_exaltedFactionCount := 0, rm_sendFactionIncreased := False\<rparr>"
  have es: "e \<in> set es \<longleftrightarrow> rw_LookupEntry w (fe_ID e) = Some e" for e
    using w by (force simp: es_def rep_world_ok_def rw_LookupEntry_def om_get_iff)
  have r0: "rep_part w r0" "rm_factions r0 = []" "rep_sql r0 = rep_sql r"
    by (simp_all add: r0_def rep_part_def rep_counts_def rep_count_def rep_sql_def)
  have dist: "distinct (map fe_RepListID (filter FactionEntry_CanHaveReputation es))"
    using w by (simp add: rep_world_ok_def es_def)
  have I: "ReputationMgr_Initialize w r = fold (rep_initialize_one w) es r0"
    by (simp add: ReputationMgr_Initialize_def es_def r0_def)
  define M where "M = map (\<lambda>e. (fe_RepListID e, rep_initial_state w e)) (filter FactionEntry_CanHaveReputation es)"
  have F: "rep_part w (fold (rep_initialize_one w) es r0)" "rep_sql (fold (rep_initialize_one w) es r0) = rep_sql r"
    "map_of (rm_factions (fold (rep_initialize_one w) es r0)) = map_of (rev M)"
    using initialize_fold [OF r0(1) _ dist] es by (simp_all add: r0 M_def)
  have "distinct (map fst M)" using dist by (simp add: M_def comp_def)
  then have M: "map_of (rev M) j = Some g \<longleftrightarrow> (j, g) \<in> set M" for j g
    by (simp add: rev_map [symmetric])
  show "rep_sql (ReputationMgr_Initialize w r) = rep_sql r" by (simp add: I F)
  show "\<exists>e. rep_listed w e \<and> f = rep_initial_state w e"
    if "map_of (rm_factions (ReputationMgr_Initialize w r)) k = Some f"
    using that unfolding I F M by (auto simp: M_def es rep_listed_def)
  have "map_of (rev M) (fe_RepListID e) = Some (rep_initial_state w e)" if "rep_listed w e" for e
  proof -
    have "(fe_RepListID e, rep_initial_state w e) \<in> set M"
      using that by (simp add: M_def es rep_listed_def)
    then show ?thesis by (simp only: M)
  qed
  with F show "rep_inv w (ReputationMgr_Initialize w r)"
    by (simp add: rep_inv_def I rep_part_def)
qed

subsection \<open>Loading the rows\<close>

definition fs_load :: "'f RepWorld \<Rightarrow> 'f FactionEntry \<Rightarrow> int \<Rightarrow> u16 \<Rightarrow> FactionState \<Rightarrow> FactionState" where
  "fs_load w e standing fl f =
     (let f1 = f\<lparr>fs_Standing := standing\<rparr>;
          f3 = (if faction_has fl FACTION_FLAG_VISIBLE then fs_show f1 else f1);
          f4 = (if faction_has fl FACTION_FLAG_INACTIVE then FactionState_SetInactive True f3 else f3);
          f5 = (if faction_has fl FACTION_FLAG_AT_WAR then FactionState_SetAtWar True f4
                else if faction_has (fs_Flags f4) FACTION_FLAG_VISIBLE then FactionState_SetAtWar False f4 else f4);
          f6 = (if ReputationToRank (wrap32 (ReputationMgr_GetBaseReputation w (Some e) + standing)) \<le> REP_HOSTILE
                then FactionState_SetAtWar True f5 else f5)
      in if ucast (fs_Flags f6) = fl then f6\<lparr>fs_needSend := False, fs_needSave := False\<rparr> else f6)"

lemma fs_load_simps [simp]:
  "fs_ID (fs_load w e st fl f) = fs_ID f"
  "fs_ReputationListID (fs_load w e st fl f) = fs_ReputationListID f"
  "fs_Standing (fs_load w e st fl f) = st"
  "faction_has (fs_Flags (fs_load w e st fl f)) FACTION_FLAG_VISIBLE \<longleftrightarrow>
     faction_has (fs_Flags f) FACTION_FLAG_VISIBLE \<or> faction_has fl FACTION_FLAG_VISIBLE \<and> fs_can_show f"
  by (auto simp: fs_load_def Let_def fs_can_show_def)

lemma upd_const:
  "rm_factions r = om_upd k (\<lambda>_. x) m \<Longrightarrow> rm_factions (rep_upd k g r) = om_upd k (\<lambda>_. g x) m"
  by (simp add: om_upd_comp)

lemma load_row_present:
  fixes w :: "'f RepWorld" and e :: "'f FactionEntry" and st :: int and fl :: u16 and faction :: u16
    and r :: ReputationMgr and f :: FactionState
  assumes ok: "om_ok (rm_factions r)" and e: "rw_LookupEntry w (ucast faction) = Some e"
    "FactionEntry_CanHaveReputation e" and f: "map_of (rm_factions r) (fe_RepListID e) = Some f"
  defines "r' \<equiv> rep_load_row w (faction, st, fl) r"
  defines "b \<equiv> ReputationMgr_GetBaseReputation w (Some e)"
  shows "rm_factions r' = om_upd (fe_RepListID e) (fs_load w e st fl) (rm_factions r)"
    and "rep_sql r' = rep_sql r"
    and "rm_visibleFactionCount r' = rm_visibleFactionCount r
      + of_bool (faction_has fl FACTION_FLAG_VISIBLE \<and> fs_can_show f)"
    and "rm_honoredFactionCount r' = rm_honoredFactionCount r
        - of_bool (ReputationToRank b \<ge> REP_HONORED) + of_bool (ReputationToRank (wrap32 (b + st)) \<ge> REP_HONORED)"
    and "rm_reveredFactionCount r' = rm_reveredFactionCount r
        - of_bool (ReputationToRank b \<ge> REP_REVERED) + of_bool (ReputationToRank (wrap32 (b + st)) \<ge> REP_REVERED)"
    and "rm_exaltedFactionCount r' = rm_exaltedFactionCount r
        - of_bool (ReputationToRank b \<ge> REP_EXALTED) + of_bool (ReputationToRank (wrap32 (b + st)) \<ge> REP_EXALTED)"
proof -
  let ?k = "fe_RepListID e" and ?m = "rm_factions r"
  define r2 where "r2 = ReputationMgr_UpdateRankCounters (ReputationToRank b) (ReputationToRank (wrap32 (b + st)))
      (rep_upd ?k (\<lambda>f. f\<lparr>fs_Standing := st\<rparr>) (rep_at ?k r))"
  define r3 where "r3 = (if faction_has fl FACTION_FLAG_VISIBLE then ReputationMgr_SetVisible_state w ?k r2 else r2)"
  define r4 where "r4 = (if faction_has fl FACTION_FLAG_INACTIVE then rep_upd ?k (FactionState_SetInactive True) r3 else r3)"
  define r5 where "r5 = (if faction_has fl FACTION_FLAG_AT_WAR then rep_upd ?k (FactionState_SetAtWar True) r4
      else if faction_has (rep_flags_at ?k r4) FACTION_FLAG_VISIBLE
      then rep_upd ?k (FactionState_SetAtWar False) r4 else r4)"
  define r6 where "r6 = (if ReputationMgr_GetRank w (Some e) r5 \<le> REP_HOSTILE
      then rep_upd ?k (FactionState_SetAtWar True) r5 else r5)"
  have r': "r' = (if ucast (rep_flags_at ?k r6) = fl
      then rep_upd ?k (\<lambda>f. f\<lparr>fs_needSend := False, fs_needSave := False\<rparr>) r6 else r6)"
    by (simp add: r'_def rep_load_row_def e Let_def r2_def r3_def r4_def r5_def r6_def b_def)
  define f1 where "f1 = f\<lparr>fs_Standing := st\<rparr>"
  define f3 where "f3 = (if faction_has fl FACTION_FLAG_VISIBLE then fs_show f1 else f1)"
  define f4 where "f4 = (if faction_has fl FACTION_FLAG_INACTIVE then FactionState_SetInactive True f3 else f3)"
  define f5 where "f5 = (if faction_has fl FACTION_FLAG_AT_WAR then FactionState_SetAtWar True f4
      else if faction_has (fs_Flags f4) FACTION_FLAG_VISIBLE then FactionState_SetAtWar False f4 else f4)"
  define f6 where "f6 = (if ReputationToRank (wrap32 (b + st)) \<le> REP_HOSTILE then FactionState_SetAtWar True f5 else f5)"
  have at: "rep_at ?k r = r" by (simp add: rep_at_def f)
  have flags: "rep_flags_at ?k q = fs_Flags x" if "rm_factions q = om_upd ?k (\<lambda>_. x) ?m" for q x
    using that f by (simp add: rep_flags_at_def)
  have m2: "rm_factions r2 = om_upd ?k (\<lambda>_. f1) ?m"
    by (simp add: r2_def at f1_def om_upd_same [OF f ok, of "\<lambda>f. f\<lparr>fs_Standing := st\<rparr>"])
  have m3: "rm_factions r3 = om_upd ?k (\<lambda>_. f3) ?m"
    using ok by (simp add: r3_def f3_def SetVisible_state_factions m2 om_upd_comp)
  have m4: "rm_factions r4 = om_upd ?k (\<lambda>_. f4) ?m"
    by (simp add: r4_def f4_def upd_const [OF m3] m3 del: rep_upd_simps(1))
  have m5: "rm_factions r5 = om_upd ?k (\<lambda>_. f5) ?m"
    by (simp add: r5_def f5_def upd_const [OF m4] flags [OF m4] m4 del: rep_upd_simps(1))
  have "fs_Standing f5 = st" by (simp add: f5_def f4_def f3_def f1_def)
  then have rank: "ReputationMgr_GetRank w (Some e) r5 = ReputationToRank (wrap32 (b + st))"
    by (simp add: ReputationMgr_GetRank_def ReputationMgr_GetReputation_def ReputationMgr_GetState_def e
        ReputationMgr_GetState_id_def m5 f b_def)
  have m6: "rm_factions r6 = om_upd ?k (\<lambda>_. f6) ?m"
    by (simp add: r6_def f6_def rank upd_const [OF m5] m5 del: rep_upd_simps(1))
  have "fs_load w e st fl f = (if ucast (fs_Flags f6) = fl then f6\<lparr>fs_needSend := False, fs_needSave := False\<rparr> else f6)"
    by (simp only: fs_load_def Let_def f6_def f5_def f4_def f3_def f1_def b_def)
  then show "rm_factions r' = om_upd ?k (fs_load w e st fl) ?m"
    unfolding om_upd_same [OF f ok, of "fs_load w e st fl"]
    by (simp add: r' flags [OF m6] upd_const [OF m6] m6 del: rep_upd_simps(1))
  note d = r' r6_def r5_def r4_def r3_def
  show "rep_sql r' = rep_sql r" by (simp add: d r2_def at)
  have "fs_can_show f1 = fs_can_show f" by (simp add: fs_can_show_def f1_def)
  then show "rm_visibleFactionCount r' = rm_visibleFactionCount r
      + of_bool (faction_has fl FACTION_FLAG_VISIBLE \<and> fs_can_show f)"
    using f by (simp add: d SetVisible_state_count m2) (simp add: r2_def at)
  show "rm_honoredFactionCount r' = rm_honoredFactionCount r
        - of_bool (ReputationToRank b \<ge> REP_HONORED) + of_bool (ReputationToRank (wrap32 (b + st)) \<ge> REP_HONORED)"
    by (simp add: d) (simp add: r2_def at)
  show "rm_reveredFactionCount r' = rm_reveredFactionCount r
        - of_bool (ReputationToRank b \<ge> REP_REVERED) + of_bool (ReputationToRank (wrap32 (b + st)) \<ge> REP_REVERED)"
    by (simp add: d) (simp add: r2_def at)
  show "rm_exaltedFactionCount r' = rm_exaltedFactionCount r
        - of_bool (ReputationToRank b \<ge> REP_EXALTED) + of_bool (ReputationToRank (wrap32 (b + st)) \<ge> REP_EXALTED)"
    by (simp add: d) (simp add: r2_def at)
qed


text \<open>The rows of the table are keyed by faction, so a row meets a state nothing was loaded into.\<close>

definition rep_untouched :: "u16 set \<Rightarrow> ReputationMgr \<Rightarrow> bool" where
  "rep_untouched ids r \<longleftrightarrow> (\<forall>(k, f) \<in> set (rm_factions r). \<forall>i \<in> ids. fs_ID f = ucast i \<longrightarrow> fs_Standing f = 0)"

lemma load_row_ok:
  assumes w: "rep_world_ok w" and inv: "rep_inv w r" and sy: "rep_synced rows r"
    and sql: "rep_sql r = []" and row: "map_of rows i = Some (st, fl)" and un: "rep_untouched (insert i ids) r"
    and i: "i \<notin> ids"
  shows "rep_inv w (rep_load_row w (i, st, fl) r) \<and> rep_synced rows (rep_load_row w (i, st, fl) r) \<and>
    rep_sql (rep_load_row w (i, st, fl) r) = [] \<and> rep_untouched ids (rep_load_row w (i, st, fl) r)"
proof (cases "\<exists>e. rw_LookupEntry w (ucast i) = Some e \<and> FactionEntry_CanHaveReputation e")
  case False
  then have "rep_load_row w (i, st, fl) r = r"
    by (auto simp: rep_load_row_def split: option.split)
  with assms show ?thesis by (auto simp: rep_untouched_def)
next
  case True
  then obtain e where e: "rw_LookupEntry w (ucast i) = Some e" "FactionEntry_CanHaveReputation e" by blast
  with rep_world_lookup [OF w e(1)] have id: "fe_ID e = ucast i" and listed: "rep_listed w e"
    by (simp_all add: rep_listed_def)
  have om: "om_ok (rm_factions r)" using inv by (simp add: rep_inv_def)
  obtain f where f: "map_of (rm_factions r) (fe_RepListID e) = Some f"
    using inv listed by (auto simp: rep_inv_def)
  have idf: "fs_ID f = ucast i" using rep_inv_D [OF w inv f] listed id by (simp add: rep_listed_def)
  from f have inf: "(fe_RepListID e, f) \<in> set (rm_factions r)" by (rule map_of_SomeD)
  with un idf have "fs_Standing f = 0" by (force simp: rep_untouched_def)
  then have old: "rep_rank_of w f = ReputationToRank (ReputationMgr_GetBaseReputation w (Some e))"
    by (simp add: rep_rank_of_def idf e wrap32_base)
  note P = load_row_present [OF om e f, of st fl]
  have new: "rep_rank_of w (fs_load w e st fl f)
      = ReputationToRank (wrap32 (ReputationMgr_GetBaseReputation w (Some e) + st))"
    by (simp add: rep_rank_of_def idf e)
  have trip: "(ucast (ucast i :: u32) :: u16) = i"
    by (rule bit_word_eqI) (simp add: bit_unsigned_iff)
  have "rep_inv w (rep_load_row w (i, st, fl) r)"
    by (rule rep_inv_upd [OF inv f P(1)]) (auto simp: P old new fs_can_show_def)
  moreover have "rep_synced rows (rep_load_row w (i, st, fl) r)"
    using sy row idf unfolding rep_synced_def rep_db_sql P(1,2) om_upd_same [OF f om, of "fs_load w e st fl"]
    by (fastforce simp: set_om_upd sql trip)
  moreover have "fs_ID g \<noteq> ucast j" if "j \<in> ids" "fs_ID g = fs_ID f" for j g
    using that i idf by (auto simp: ucast_inj_up)
  then have "rep_untouched ids (rep_load_row w (i, st, fl) r)"
    using un unfolding rep_untouched_def P(1) om_upd_same [OF f om, of "fs_load w e st fl"]
    by (fastforce simp: set_om_upd)
  ultimately show ?thesis by (simp add: P(2) sql)
qed

lemma load_rows_ok:
  assumes "rep_world_ok w" "rep_inv w r" "rep_synced rows r" "rep_sql r = []"
    "rep_untouched (fst ` set xs) r" "distinct (map fst xs)" "\<forall>(i, v) \<in> set xs. map_of rows i = Some v"
  shows "rep_ok w rows (fold (rep_load_row w) xs r) \<and> rep_sql (fold (rep_load_row w) xs r) = []"
  using assms
proof (induction xs arbitrary: r)
  case (Cons x xs)
  obtain i st fl where x: "x = (i, st, fl)" by (cases x)
  with Cons.prems have "rep_untouched (insert i (fst ` set xs)) r" "i \<notin> fst ` set xs" "map_of rows i = Some (st, fl)"
    by simp_all
  from load_row_ok [OF Cons.prems(1-4) this(3,1,2)] Cons.IH [of "rep_load_row w (i, st, fl) r"] Cons.prems x
  show ?case by simp
qed (simp add: rep_ok_def)

lemma LoadFromDB_ok:
  assumes w: "rep_world_ok w" and d: "distinct (map fst rows)"
  shows "rep_ok w rows (ReputationMgr_LoadFromDB w rows ReputationMgr_init)"
proof -
  let ?r = "ReputationMgr_Initialize w ReputationMgr_init"
  have sql: "rep_sql ?r = []"
    by (simp add: Initialize_ok(2) [OF w]) (simp add: rep_sql_def ReputationMgr_init_def)
  have f: "fs_Standing f = 0 \<and> fs_needSave f" if "(k, f) \<in> set (rm_factions ?r)" for k f
    using that Initialize_ok(1,3) [OF w] by (force simp: rep_inv_def om_get_iff [symmetric] rep_initial_state_def)
  then have "rep_untouched ids ?r" for ids by (force simp: rep_untouched_def)
  moreover have "rep_synced rows ?r"
    using d f by (force simp: rep_synced_def rep_db_sql sql)
  moreover have "\<forall>(i, v) \<in> set rows. map_of rows i = Some v" using d by auto
  ultimately show ?thesis
    using load_rows_ok [OF w Initialize_ok(1) [OF w], where rows = rows and xs = rows] sql d
    by (simp add: ReputationMgr_LoadFromDB_def)
qed

subsection \<open>Whole operations\<close>

text \<open>Whatever every change of one faction keeps, the spillover keeps.\<close>

definition rep_stable :: "'f RepWorld \<Rightarrow> (ReputationMgr \<Rightarrow> bool) \<Rightarrow> bool" where
  "rep_stable w Q \<longleftrightarrow>
     (\<forall>r e s i. Q r \<longrightarrow> rw_LookupEntry w (fe_ID e) = Some e \<longrightarrow>
        Q (snd (ReputationMgr_SetOneFactionReputation w e s i r)))"

definition rep_spillover_ok :: "'f RepWorld \<Rightarrow> bool" where
  "rep_spillover_ok w \<longleftrightarrow> (\<forall>i t. rw_spillover w i = Some t \<longrightarrow>
     (\<forall>j < MAX_SPILLOVER_FACTIONS. rs_faction t ! j \<noteq> 0 \<longrightarrow> rw_LookupEntry w (rs_faction t ! j) \<noteq> None))"

lemma rep_stable_step:
  "rep_stable w Q \<Longrightarrow> rep_world_ok w \<Longrightarrow> rw_LookupEntry w i = Some e \<Longrightarrow> Q r \<Longrightarrow>
     Q (snd (ReputationMgr_SetOneFactionReputation w e s b r))"
  by (metis rep_stable_def rep_world_lookup)

lemma spill_template_stable:
  assumes "rep_stable w Q" "rep_world_ok w"
    "\<forall>j \<in> set js. rs_faction t ! j \<noteq> 0 \<longrightarrow> rw_LookupEntry w (rs_faction t ! j) \<noteq> None" "Q r"
  shows "ok_and Q (rep_spill_template w t s b js r)"
  using assms(3,4)
proof (induction js arbitrary: r)
  case (Cons j js)
  then show ?case
    by (auto simp: Let_def intro!: Cons.IH rep_stable_step [OF assms(1,2)] split: option.split)
qed simp

lemma spill_list_stable:
  assumes "rep_stable w Q" "rep_world_ok w" "Q (snd p)"
  shows "Q (snd (rep_spill_list w e out b is p))"
  using assms(3)
proof (induction "is" arbitrary: p b)
  case (Cons i "is")
  obtain res r where p: "p = (res, r)" by force
  with Cons.prems show ?case
    by (auto simp: Let_def intro!: Cons.IH intro: rep_stable_step [OF assms(1,2)] split: option.split)
next
  case Nil
  then show ?case by (cases p) simp
qed

lemma spill_dbc_stable:
  assumes "rep_stable w Q" "rep_world_ok w" "Q r"
  shows "Q (snd (rep_spill_dbc w e s b r))"
proof -
  note L = spill_list_stable [OF assms(1,2)] rep_stable_step [OF assms(1,2)]
  show ?thesis
    using assms(3) unfolding rep_spill_dbc_def Let_def
    by (auto intro!: L split: option.split)
qed

lemma SetReputation_stable:
  assumes Q: "rep_stable w Q" and w: "rep_world_ok w" and sp: "rep_spillover_ok w"
    and e: "rw_LookupEntry w (fe_ID e) = Some e" and r: "Q r"
    and send: "\<And>f r. Q r \<Longrightarrow> Q (ReputationMgr_SendState f r)"
  shows "ok_and (\<lambda>(res, r'). Q r') (ReputationMgr_SetReputation w e s incr noSpill r)"
proof -
  let ?s = "rw_OnReputationChange w (fe_ID e) s incr"
  have 1: "ok_and (\<lambda>(res, r1). Q r1) (if noSpill then Inr (False, r)
                else case rw_spillover w (fe_ID e) of
                  Some t \<Rightarrow> and_then (rep_spill_template w t ?s incr [0..<MAX_SPILLOVER_FACTIONS] r)
                              (\<lambda>r1. Inr (False, r1))
                | None \<Rightarrow> Inr (rep_spill_dbc w e ?s incr r))"
  proof (cases "rw_spillover w (fe_ID e)")
    case None
    then show ?thesis using r spill_dbc_stable [OF Q w r, of e ?s incr]
      by (auto simp: case_prod_beta)
  next
    case (Some t)
    with sp have "\<forall>j \<in> set [0..<MAX_SPILLOVER_FACTIONS]. rs_faction t ! j \<noteq> 0 \<longrightarrow> rw_LookupEntry w (rs_faction t ! j) \<noteq> None"
      by (auto simp: rep_spillover_ok_def)
    from spill_template_stable [OF Q w this r, of ?s incr] obtain r1
      where "rep_spill_template w t ?s incr [0..<MAX_SPILLOVER_FACTIONS] r = Inr r1" "Q r1"
      by (auto simp: ok_and_iff)
    with Some r show ?thesis by simp
  qed
  show ?thesis unfolding ReputationMgr_SetReputation_def Let_def
    using Q e by (intro ok_and_then ok_and_mono [OF 1])
      (auto simp: rep_stable_def case_prod_beta intro!: send split: option.split)
qed

lemma SendState_simps [simp]:
  "rm_factions (ReputationMgr_SendState f r) = map (\<lambda>(k, f). (k, f\<lparr>fs_needSend := False\<rparr>)) (rm_factions r)"
  "rm_visibleFactionCount (ReputationMgr_SendState f r) = rm_visibleFactionCount r"
  "rm_honoredFactionCount (ReputationMgr_SendState f r) = rm_honoredFactionCount r"
  "rm_reveredFactionCount (ReputationMgr_SendState f r) = rm_reveredFactionCount r"
  "rm_exaltedFactionCount (ReputationMgr_SendState f r) = rm_exaltedFactionCount r"
  "rep_sql (ReputationMgr_SendState f r) = rep_sql r"
  by (simp_all add: ReputationMgr_SendState_def Let_def rep_sql_def)

lemma SendState_ok: "rep_ok w rows r \<Longrightarrow> rep_ok w rows (ReputationMgr_SendState f r)"
  unfolding rep_ok_def
  by (auto intro!: rep_inv_map [OF _ SendState_simps(1)] rep_synced_map [OF _ SendState_simps(1)])

lemma rep_ok_stable: "rep_world_ok w \<Longrightarrow> rep_stable w (rep_ok w rows)"
  by (simp add: rep_stable_def SetOne_ok)

lemma rep_ok_flags:
  assumes "rep_ok w rows r" "\<And>f. fs_ID (g f) = fs_ID f" "\<And>f. fs_ReputationListID (g f) = fs_ReputationListID f"
    "\<And>f. fs_Standing (g f) = fs_Standing f" "\<And>f. fs_needSave f \<Longrightarrow> fs_needSave (g f)"
    "\<And>f. faction_has (fs_Flags (g f)) FACTION_FLAG_VISIBLE = faction_has (fs_Flags f) FACTION_FLAG_VISIBLE"
  shows "rep_ok w rows (rep_upd k g r)"
  using assms rep_inv_flags [of w r g k] rep_synced_upd [of rows r "rep_upd k g r" k g]
  by (auto simp: rep_ok_def)

lemma SetVisible_state_ok:
  assumes ok: "rep_ok w rows r"
  shows "rep_ok w rows (ReputationMgr_SetVisible_state w k r)"
proof (cases "map_of (rm_factions r) k")
  case None
  with ok show ?thesis by (simp add: ReputationMgr_SetVisible_state_def)
next
  case (Some f)
  note m = SetVisible_state_factions [OF rep_ok_D [OF ok], of w k]
  have "rep_inv w (ReputationMgr_SetVisible_state w k r)"
    by (rule rep_inv_upd [OF _ Some m])
      (use ok in \<open>auto simp: rep_ok_def SetVisible_state_count Some rep_rank_of_frame [of "fs_show f" f] fs_can_show_def\<close>)
  moreover have "rep_synced rows (ReputationMgr_SetVisible_state w k r)"
    by (rule rep_synced_upd [OF _ m]) (use ok in \<open>auto simp: rep_ok_def\<close>)
  ultimately show ?thesis by (simp add: rep_ok_def)
qed

lemma SendStates_ok:
  assumes "rep_ok w rows r"
  shows "rep_ok w rows (ReputationMgr_SendStates r)"
proof -
  have "rep_ok w rows (fold (\<lambda>k r. case map_of (rm_factions r) k of
      None \<Rightarrow> r | Some f \<Rightarrow> ReputationMgr_SendState f r) ks q)" if "rep_ok w rows q" for ks q
    using that by (induction ks arbitrary: q) (auto simp: SendState_ok split: option.split)
  with assms show ?thesis by (simp add: ReputationMgr_SendStates_def)
qed

lemma SaveToDB_simps:
  "rm_factions (ReputationMgr_SaveToDB w r) = map (\<lambda>(k, f). (k, f\<lparr>fs_needSave := False\<rparr>)) (rm_factions r)"
  "rep_db (ReputationMgr_SaveToDB w r) rows =
     fold rep_db_exec (concat (map (\<lambda>(k, f). rep_save_one w f) (rm_factions r))) (rep_db r rows)"
  by (simp_all add: ReputationMgr_SaveToDB_def rep_db_def)

definition rep_ids_ok :: "'f RepWorld \<Rightarrow> bool" where
  "rep_ids_ok w \<longleftrightarrow> (\<forall>(i, e) \<in> set (rw_store w). unat i < 2 ^ 16)"

lemma save_rows:
  fixes w :: "'f RepWorld"
  assumes "distinct (map (\<lambda>f. ucast (fs_ID f) :: u16) fs)"
  shows "map_option fst (map_of (fold rep_db_exec (concat (map (rep_save_one w) fs)) rows) i) =
    (case find (\<lambda>f. ucast (fs_ID f) = i \<and> fs_needSave f) fs of
       Some f \<Rightarrow> Some (fs_Standing f) | None \<Rightarrow> map_option fst (map_of rows i))"
  using assms
proof (induction fs arbitrary: rows)
  case (Cons f fs)
  have del: "map_of (filter (\<lambda>row. fst row \<noteq> j) rows) i = (if i = j then None else map_of rows i)" for j
    by (induction rows) auto
  have none: "find (\<lambda>g. ucast (fs_ID g) = i \<and> fs_needSave g) fs = None" if "i = ucast (fs_ID f)"
    using Cons.prems that by (auto simp: find_None_iff) (metis image_eqI)
  have step: "map_of (fold rep_db_exec (rep_save_one w f) rows) i =
      (if fs_needSave f \<and> i = ucast (fs_ID f) then Some (fs_Standing f, ucast (fs_Flags f)) else map_of rows i)"
    by (simp add: rep_save_one_def del)
  show ?case
    using Cons.IH [of "fold rep_db_exec (rep_save_one w f) rows"] Cons.prems none
    by (auto simp: step split: option.split)
qed simp

subsection \<open>Runs\<close>

datatype rep_op =
    Rep_SetReputation u32 int bool bool
  | Rep_SetVisible u32
  | Rep_SetVisible_template u16
  | Rep_SetAtWar u32 bool
  | Rep_SetInactive u32 bool
  | Rep_ApplyForceReaction u32 ReputationRank bool
  | Rep_SendForceReactions
  | Rep_SendInitialReputations
  | Rep_SendStates
  | Rep_SaveToDB

fun rep_step :: "'f RepWorld \<Rightarrow> rep_op \<Rightarrow> ReputationMgr \<Rightarrow> rep_error + ReputationMgr" where
  "rep_step w (Rep_SetReputation i s incr noSpill) r =
     (case rw_LookupEntry w i of None \<Rightarrow> Inr r
      | Some e \<Rightarrow> and_then (ReputationMgr_SetReputation w e s incr noSpill r) (\<lambda>(res, r1). Inr r1))"
| "rep_step w (Rep_SetVisible i) r =
     (case rw_LookupEntry w i of None \<Rightarrow> Inr r | Some e \<Rightarrow> Inr (ReputationMgr_SetVisible w e r))"
| "rep_step w (Rep_SetVisible_template i) r = Inr (ReputationMgr_SetVisible_template w i r)"
| "rep_step w (Rep_SetAtWar k b) r = Inr (ReputationMgr_SetAtWar k b r)"
| "rep_step w (Rep_SetInactive k b) r = Inr (ReputationMgr_SetInactive k b r)"
| "rep_step w (Rep_ApplyForceReaction i rank b) r = Inr (ReputationMgr_ApplyForceReaction i rank b r)"
| "rep_step w Rep_SendForceReactions r = Inr (ReputationMgr_SendForceReactions r)"
| "rep_step w Rep_SendInitialReputations r = ReputationMgr_SendInitialReputations r"
| "rep_step w Rep_SendStates r = Inr (ReputationMgr_SendStates r)"
| "rep_step w Rep_SaveToDB r = Inr (ReputationMgr_SaveToDB w r)"

fun rep_run :: "'f RepWorld \<Rightarrow> rep_op list \<Rightarrow> ReputationMgr \<Rightarrow> rep_error + ReputationMgr" where
  "rep_run w [] r = Inr r"
| "rep_run w (x # xs) r = and_then (rep_step w x r) (rep_run w xs)"

definition rep_index_ok :: "'f RepWorld \<Rightarrow> bool" where
  "rep_index_ok w \<longleftrightarrow> (\<forall>(i, e) \<in> set (rw_store w). FactionEntry_CanHaveReputation e \<longrightarrow>
     unat (fe_RepListID e) < FactionCount)"

lemma rep_inv_entry:
  "rep_inv w r \<Longrightarrow> x \<in> set (rm_factions r) \<Longrightarrow>
     \<exists>e. rep_listed w e \<and> fs_ID (snd x) = fe_ID e \<and> fst x = fe_RepListID e"
  by (auto simp: rep_inv_def list_all_iff rep_state_ok_def)

lemma rep_listed_small: "rep_ids_ok w \<Longrightarrow> rep_listed w e \<Longrightarrow> unat (fe_ID e) < 2 ^ 16"
  by (auto simp: rep_ids_ok_def rep_listed_def rw_LookupEntry_def dest!: map_of_SomeD)

lemma find_unique: "x \<in> set xs \<Longrightarrow> P x \<Longrightarrow> (\<And>y. y \<in> set xs \<Longrightarrow> P y \<Longrightarrow> y = x) \<Longrightarrow> find P xs = Some x"
  by (metis find_None_iff find_Some_iff nth_mem not_None_eq)

lemma distinct_saved_ids:
  assumes inv: "rep_inv w r" and ids: "rep_ids_ok w"
  shows "distinct (map (\<lambda>f. ucast (fs_ID f) :: u16) (map snd (rm_factions r)))"
proof -
  have "inj_on (\<lambda>p. ucast (fs_ID (snd p)) :: u16) (set (rm_factions r))"
  proof (rule inj_onI)
    fix p q assume pq: "p \<in> set (rm_factions r)" "q \<in> set (rm_factions r)"
      and eq: "(ucast (fs_ID (snd p)) :: u16) = ucast (fs_ID (snd q))"
    have st: "\<exists>e. rep_listed w e \<and> fs_ID (snd x) = fe_ID e \<and> fst x = fe_RepListID e \<and> unat (fe_ID e) < 2 ^ 16"
      if "x \<in> set (rm_factions r)" for x
      using rep_inv_entry [OF inv that] rep_listed_small [OF ids] by blast
    from st [OF pq(1)] st [OF pq(2)] obtain e e' where e: "rep_listed w e" "rep_listed w e'"
      "fs_ID (snd p) = fe_ID e" "fs_ID (snd q) = fe_ID e'" "fst p = fe_RepListID e" "fst q = fe_RepListID e'"
      "unat (fe_ID e) < 2 ^ 16" "unat (fe_ID e') < 2 ^ 16" by blast
    have "unat (ucast (fe_ID e) :: u16) = unat (ucast (fe_ID e') :: u16)" using eq e by simp
    with e(7,8) have "fe_ID e = fe_ID e'" by (simp add: unsigned_ucast_eq take_bit_nat_eq_self word_unat_eq_iff)
    with e have "e = e'" by (simp add: rep_listed_def)
    with e have "fst p = fst q" by simp
    with pq inv show "p = q"
      by (metis eq_key_imp_eq_value om_ok_distinct prod.collapse rep_inv_def)
  qed
  moreover have "distinct (rm_factions r)" using inv om_ok_distinct [of "rm_factions r"] by (simp add: rep_inv_def distinct_map)
  ultimately show ?thesis by (simp add: distinct_map comp_def)
qed

lemma saved_standing:
  assumes ok: "rep_ok w rows r" and ids: "rep_ids_ok w" and f: "(k, f) \<in> set (rm_factions r)"
  shows "map_option fst (map_of (rep_db (ReputationMgr_SaveToDB w r) rows) (ucast (fs_ID f))) = Some (fs_Standing f)"
proof -
  let ?fs = "map snd (rm_factions r)"
  have d: "distinct (map (\<lambda>f. ucast (fs_ID f) :: u16) ?fs)"
    by (rule distinct_saved_ids [OF _ ids]) (use ok in \<open>simp add: rep_ok_def\<close>)
  have same: "g = f" if "g \<in> set ?fs" "(ucast (fs_ID g) :: u16) = ucast (fs_ID f)" for g
    using d f that by (auto simp: distinct_map inj_on_def)
  have "concat (map (\<lambda>(k, f). rep_save_one w f) (rm_factions r)) = concat (map (rep_save_one w) ?fs)"
    by (simp add: case_prod_unfold comp_def)
  then have "map_option fst (map_of (rep_db (ReputationMgr_SaveToDB w r) rows) (ucast (fs_ID f))) =
    (case find (\<lambda>g. ucast (fs_ID g) = (ucast (fs_ID f) :: u16) \<and> fs_needSave g) ?fs of
       Some g \<Rightarrow> Some (fs_Standing g) | None \<Rightarrow> map_option fst (map_of (rep_db r rows) (ucast (fs_ID f))))"
    by (simp only: SaveToDB_simps save_rows [OF d])
  moreover have "find (\<lambda>g. ucast (fs_ID g) = (ucast (fs_ID f) :: u16) \<and> fs_needSave g) ?fs = (if fs_needSave f then Some f else None)"
    (is "find ?P ?fs = _")
  proof (cases "fs_needSave f")
    case True
    have "find ?P ?fs = Some f"
      by (rule find_unique) (use True f same in \<open>force+\<close>)
    with True show ?thesis by simp
  next
    case False
    with same have "\<forall>g \<in> set ?fs. \<not> ?P g" by blast
    with False show ?thesis by (auto simp: find_None_iff)
  qed
  moreover have "\<not> fs_needSave f \<Longrightarrow> map_option fst (map_of (rep_db r rows) (ucast (fs_ID f))) = Some (fs_Standing f)"
    using ok f by (auto simp: rep_ok_def rep_synced_def)
  ultimately show ?thesis by simp
qed

lemma save_rows_distinct:
  "distinct (map fst rows) \<Longrightarrow> distinct (map fst (fold rep_db_exec (concat (map (rep_save_one w) fs)) rows))"
proof (induction fs arbitrary: rows)
  case (Cons f fs)
  have "distinct (map fst (fold rep_db_exec (rep_save_one w f) rows))"
    using Cons.prems by (auto simp: rep_save_one_def distinct_map inj_on_def)
  from Cons.IH [OF this] show ?case by simp
qed simp

lemma SaveToDB_ok:
  assumes ok: "rep_ok w rows r" and ids: "rep_ids_ok w"
  shows "rep_ok w rows (ReputationMgr_SaveToDB w r)"
proof -
  have "distinct (map fst (rep_db (ReputationMgr_SaveToDB w r) rows))"
    using ok save_rows_distinct [of _ w "map snd (rm_factions r)"]
    by (simp add: SaveToDB_simps rep_ok_def rep_synced_def case_prod_unfold comp_def)
  moreover have "rep_inv w (ReputationMgr_SaveToDB w r)"
    by (rule rep_inv_map [OF _ SaveToDB_simps(1)]) (use ok in \<open>simp_all add: rep_ok_def ReputationMgr_SaveToDB_def\<close>)
  moreover have "rep_synced rows (ReputationMgr_SaveToDB w r)"
    unfolding rep_synced_def SaveToDB_simps(1) using saved_standing [OF ok ids] calculation by auto
  ultimately show ?thesis by (simp add: rep_ok_def)
qed

lemma SendInitialReputations_ok:
  assumes ok: "rep_ok w rows r" and ix: "rep_index_ok w"
  shows "ok_and (rep_ok w rows) (ReputationMgr_SendInitialReputations r)"
proof -
  have small: "\<forall>(k, f) \<in> set (rm_factions r). unat k < FactionCount"
    using ok ix by (fastforce simp: rep_ok_def rep_inv_def list_all_iff rep_state_ok_def rep_index_ok_def
        rep_listed_def rw_LookupEntry_def dest: map_of_SomeD)
  have "\<exists>p'. rep_fill_initial m p = Inr p'" if "\<forall>(k, f) \<in> set m. unat k < FactionCount" for m p
    using that by (induction m p rule: rep_fill_initial.induct) auto
  from this [OF small, of InitializeFactions_init] obtain p
    where p: "rep_fill_initial (rm_factions r) InitializeFactions_init = Inr p" by blast
  let ?r = "rep_emit [RepSend (SMSG_INITIALIZE_FACTIONS p)]
       (r\<lparr>rm_factions := map (\<lambda>(k, f). (k, f\<lparr>fs_needSend := False\<rparr>)) (rm_factions r)\<rparr>)"
  have m: "rm_factions ?r = map (\<lambda>(k, f). (k, f\<lparr>fs_needSend := False\<rparr>)) (rm_factions r)" by simp
  have sql: "rep_sql ?r = rep_sql r" by (simp add: rep_sql_def)
  have "rep_ok w rows ?r"
    using ok unfolding rep_ok_def
    by (auto intro!: rep_inv_map [OF _ m] rep_synced_map [OF _ m sql])
  then show ?thesis by (simp add: ReputationMgr_SendInitialReputations_def p)
qed

definition rep_config_ok :: "'f RepWorld \<Rightarrow> bool" where
  "rep_config_ok w \<longleftrightarrow> rep_world_ok w \<and> rep_spillover_ok w \<and> rep_index_ok w \<and> rep_ids_ok w"

lemma rep_step_ok:
  assumes w: "rep_config_ok w" and r: "rep_ok w rows r"
  shows "ok_and (rep_ok w rows) (rep_step w x r)"
proof (cases x)
  case (Rep_SetReputation i s incr noSpill)
  have "ok_and (\<lambda>(res, r'). rep_ok w rows r') (ReputationMgr_SetReputation w e s incr noSpill r)"
    if "rw_LookupEntry w i = Some e" for e
    by (rule SetReputation_stable)
      (use w r that rep_world_lookup [of w i e] in \<open>simp_all add: rep_config_ok_def rep_ok_stable SendState_ok\<close>)
  then show ?thesis using r
    by (fastforce simp: Rep_SetReputation ok_and_iff std_simps split: option.split)
next
  case (Rep_SetVisible i)
  with r show ?thesis
    by (auto simp: ReputationMgr_SetVisible_def SetVisible_state_ok split: option.split)
next
  case (Rep_SetVisible_template i)
  with r show ?thesis
    by (auto simp: ReputationMgr_SetVisible_template_def ReputationMgr_SetVisible_def SetVisible_state_ok
        split: option.split)
next
  case (Rep_SetAtWar k b)
  with r show ?thesis
    by (auto simp: ReputationMgr_SetAtWar_def intro!: rep_ok_flags split: option.split)
next
  case (Rep_SetInactive k b)
  with r show ?thesis
    by (auto simp: ReputationMgr_SetInactive_def intro!: rep_ok_flags)
next
  case (Rep_ApplyForceReaction i rank b)
  with r show ?thesis
    by (auto simp: ReputationMgr_ApplyForceReaction_def rep_ok_def rep_sql_def
        intro: rep_inv_frame [of w r] rep_synced_frame [of rows r])
next
  case Rep_SendForceReactions
  with r show ?thesis
    by (auto simp: ReputationMgr_SendForceReactions_def rep_ok_def rep_sql_def
        intro: rep_inv_frame [of w r] rep_synced_frame [of rows r])
next
  case Rep_SendInitialReputations
  with w r show ?thesis by (simp add: SendInitialReputations_ok rep_config_ok_def)
next
  case Rep_SendStates
  with r show ?thesis by (simp add: SendStates_ok)
next
  case Rep_SaveToDB
  with w r show ?thesis by (simp add: SaveToDB_ok rep_config_ok_def)
qed

lemma rep_run_ok: "rep_config_ok w \<Longrightarrow> rep_ok w rows r \<Longrightarrow> ok_and (rep_ok w rows) (rep_run w xs r)"
proof (induction xs arbitrary: r)
  case (Cons x xs)
  then show ?case by (auto intro!: ok_and_then intro: ok_and_mono [OF rep_step_ok])
qed simp

lemma rep_session_ok:
  assumes "rep_config_ok w" "distinct (map fst rows)"
  shows "ok_and (rep_ok w rows) (rep_run w xs (ReputationMgr_LoadFromDB w rows ReputationMgr_init))"
  using assms by (intro rep_run_ok LoadFromDB_ok) (simp_all add: rep_config_ok_def)

lemma rep_rank_of_GetRank:
  assumes w: "rep_world_ok w" and inv: "rep_inv w r" and f: "(k, f) \<in> set (rm_factions r)"
  shows "ReputationMgr_GetRank w (rw_LookupEntry w (fs_ID f)) r = rep_rank_of w f"
proof -
  from rep_inv_entry [OF inv f] obtain e where e: "rep_listed w e" "fs_ID f = fe_ID e" "k = fe_RepListID e" by auto
  have "map_of (rm_factions r) (fe_RepListID e) = Some f" using inv f e(3) by (simp add: rep_inv_def om_get_iff)
  with e show ?thesis
    by (simp add: rep_rank_of_def ReputationMgr_GetRank_def ReputationMgr_GetReputation_def
        ReputationMgr_GetState_def ReputationMgr_GetState_id_def rep_listed_def)
qed

lemma SendState_reputation [simp]:
  "ReputationMgr_GetReputation w eo (ReputationMgr_SendState f r) = ReputationMgr_GetReputation w eo r"
proof -
  have "map_of (map (\<lambda>(k, f). (k, f\<lparr>fs_needSend := False\<rparr>)) m) k = map_option (\<lambda>f. f\<lparr>fs_needSend := False\<rparr>) (map_of m k)"
    for m :: "(u32 \<times> FactionState) list" and k by (induction m) auto
  then show ?thesis
    by (simp add: ReputationMgr_GetReputation_def ReputationMgr_GetState_def ReputationMgr_GetState_id_def
        split: option.split)
qed

lemma SetOne_reputation:
  assumes w: "rep_world_ok w" and inv: "rep_inv w r" and e: "rep_listed w e"
  shows "fst (ReputationMgr_SetOneFactionReputation w e s i r) \<and>
    ReputationMgr_GetReputation w (Some e) (snd (ReputationMgr_SetOneFactionReputation w e s i r)) =
      rep_clamp (if i then wrap32 (rep_gained w s + ReputationMgr_GetReputation w (Some e) r) else s)"
proof -
  obtain f where f: "map_of (rm_factions r) (fe_RepListID e) = Some f"
    using inv e by (auto simp: rep_inv_def)
  have om: "om_ok (rm_factions r)" using inv by (simp add: rep_inv_def)
  have can: "FactionEntry_CanHaveReputation e" using e by (simp add: rep_listed_def)
  have m: "map_of (rm_factions (snd (ReputationMgr_SetOneFactionReputation w e s i r))) (fe_RepListID e) =
    Some (fs_set_standing (wrap32 (rep_target w e s i f - ReputationMgr_GetBaseReputation w (Some e)))
      (ReputationToRank (rep_target w e s i f)) f)"
    by (simp add: SetOne_present(2) [OF om f] f)
  show ?thesis
    using SetOne_present(1) [OF om f, of w s i] f can
    by (simp add: ReputationMgr_GetReputation_def ReputationMgr_GetState_def ReputationMgr_GetState_id_def m
        wrap32_target) (simp add: rep_target_def add.commute)
qed

lemma SetReputation_last:
  assumes w: "rep_config_ok w" and r: "rep_ok w rows r" and e: "rep_listed w e"
  shows "\<exists>r1 r'. ReputationMgr_SetReputation w e s incr noSpill r = Inr (True, r') \<and>
    (noSpill \<longrightarrow> r1 = r) \<and>
    ReputationMgr_GetReputation w (Some e) r' = rep_clamp
      (if incr then wrap32 (rep_gained w (rw_OnReputationChange w (fe_ID e) s incr) + ReputationMgr_GetReputation w (Some e) r1)
       else rw_OnReputationChange w (fe_ID e) s incr)"
proof -
  let ?s = "rw_OnReputationChange w (fe_ID e) s incr"
  let ?sp = "if noSpill then Inr (False, r)
                else case rw_spillover w (fe_ID e) of
                  Some t \<Rightarrow> and_then (rep_spill_template w t ?s incr [0..<MAX_SPILLOVER_FACTIONS] r)
                              (\<lambda>r1. Inr (False, r1))
                | None \<Rightarrow> Inr (rep_spill_dbc w e ?s incr r)"
  have W: "rep_world_ok w" "rep_spillover_ok w" "rep_stable w (rep_ok w rows)"
    using w by (simp_all add: rep_config_ok_def rep_ok_stable)
  obtain res r1 where r1: "?sp = Inr (res, r1)" "rep_ok w rows r1" "noSpill \<longrightarrow> r1 = r"
  proof (cases "noSpill \<or> rw_spillover w (fe_ID e) = None")
    case True
    with that r spill_dbc_stable [OF W(3,1) r, of e ?s incr] show thesis
      by (cases "rep_spill_dbc w e ?s incr r"; cases noSpill) auto
  next
    case False
    then obtain t where t: "rw_spillover w (fe_ID e) = Some t" by blast
    with W(2) have "\<forall>j \<in> set [0..<MAX_SPILLOVER_FACTIONS]. rs_faction t ! j \<noteq> 0 \<longrightarrow> rw_LookupEntry w (rs_faction t ! j) \<noteq> None"
      by (auto simp: rep_spillover_ok_def)
    from spill_template_stable [OF W(3,1) this r, of ?s incr] that t False show thesis
      by (auto simp: ok_and_iff)
  qed
  have inv: "rep_inv w r1" using r1(2) by (simp add: rep_ok_def)
  obtain f where f: "map_of (rm_factions r1) (fe_RepListID e) = Some f"
    using inv e by (auto simp: rep_inv_def)
  obtain r2 where r2: "ReputationMgr_SetOneFactionReputation w e ?s incr r1 = (True, r2)"
    using SetOne_reputation [OF W(1) inv e, of ?s incr] by (cases "ReputationMgr_SetOneFactionReputation w e ?s incr r1") auto
  have "map_of (rm_factions r2) (fe_RepListID e) \<noteq> None"
    using SetOne_present(2) [of r1 e f w ?s incr] f inv by (simp add: r2 rep_inv_def)
  then obtain g where "map_of (rm_factions r2) (fe_RepListID e) = Some g" by blast
  then have "ReputationMgr_SetReputation w e s incr noSpill r = Inr (True, ReputationMgr_SendState g r2)"
    unfolding ReputationMgr_SetReputation_def Let_def r1(1) by (simp add: f r2)
  moreover have "ReputationMgr_GetReputation w (Some e) r2 = rep_clamp
      (if incr then wrap32 (rep_gained w ?s + ReputationMgr_GetReputation w (Some e) r1) else ?s)"
    using SetOne_reputation [OF W(1) inv e, of ?s incr] by (simp add: r2)
  ultimately have "ReputationMgr_SetReputation w e s incr noSpill r = Inr (True, ReputationMgr_SendState g r2) \<and>
    (noSpill \<longrightarrow> r1 = r) \<and> ReputationMgr_GetReputation w (Some e) (ReputationMgr_SendState g r2) = rep_clamp
      (if incr then wrap32 (rep_gained w ?s + ReputationMgr_GetReputation w (Some e) r1) else ?s)"
    using r1(3) by simp
  then show ?thesis by blast
qed


lemma load_row_standing:
  assumes w: "rep_world_ok w" and om: "om_ok (rm_factions r)"
    and all: "\<forall>e. rep_listed w e \<longrightarrow> map_of (rm_factions r) (fe_RepListID e) \<noteq> None"
    and e: "rep_listed w e"
  shows "om_ok (rm_factions (rep_load_row w (i, st, fl) r))"
    and "\<forall>e. rep_listed w e \<longrightarrow> map_of (rm_factions (rep_load_row w (i, st, fl) r)) (fe_RepListID e) \<noteq> None"
    and "map_option fs_Standing (map_of (rm_factions (rep_load_row w (i, st, fl) r)) (fe_RepListID e)) =
      (if fe_ID e = ucast i then Some st else map_option fs_Standing (map_of (rm_factions r) (fe_RepListID e)))"
proof -
  let ?r = "rep_load_row w (i, st, fl) r"
  have "om_ok (rm_factions ?r) \<and>
    (\<forall>e. rep_listed w e \<longrightarrow> map_of (rm_factions ?r) (fe_RepListID e) \<noteq> None) \<and>
    map_option fs_Standing (map_of (rm_factions ?r) (fe_RepListID e)) =
      (if fe_ID e = ucast i then Some st else map_option fs_Standing (map_of (rm_factions r) (fe_RepListID e)))"
  proof (cases "\<exists>e'. rw_LookupEntry w (ucast i) = Some e' \<and> FactionEntry_CanHaveReputation e'")
    case False
    then have "?r = r" by (auto simp: rep_load_row_def split: option.split)
    moreover have "fe_ID e \<noteq> ucast i" using False e by (auto simp: rep_listed_def)
    ultimately show ?thesis using om all by simp
  next
    case True
    then obtain e' where e': "rw_LookupEntry w (ucast i) = Some e'" "FactionEntry_CanHaveReputation e'" by blast
    have l': "rep_listed w e'" by (rule rep_listed_lookup [OF w e'])
    have id': "fe_ID e' = ucast i" by (rule rep_world_lookup [OF w e'(1)])
    obtain f where f: "map_of (rm_factions r) (fe_RepListID e') = Some f" using all l' by blast
    note m = load_row_present(1) [OF om e' f, of st fl]
    have "fe_RepListID e = fe_RepListID e' \<longleftrightarrow> fe_ID e = ucast i"
      using rep_listed_inj [OF w e l'] e l' id' by (auto simp: rep_listed_def)
    with om all f show ?thesis by (auto simp: m)
  qed
  then show "om_ok (rm_factions ?r)"
    and "\<forall>e. rep_listed w e \<longrightarrow> map_of (rm_factions ?r) (fe_RepListID e) \<noteq> None"
    and "map_option fs_Standing (map_of (rm_factions ?r) (fe_RepListID e)) =
      (if fe_ID e = ucast i then Some st else map_option fs_Standing (map_of (rm_factions r) (fe_RepListID e)))"
    by blast+
qed

lemma load_rows_standing:
  assumes "rep_world_ok w" "om_ok (rm_factions r)"
    "\<forall>e. rep_listed w e \<longrightarrow> map_of (rm_factions r) (fe_RepListID e) \<noteq> None" "rep_listed w e"
    "unat (fe_ID e) < 2 ^ 16" "distinct (map fst xs)"
  shows "map_option fs_Standing (map_of (rm_factions (fold (rep_load_row w) xs r)) (fe_RepListID e)) =
    (case map_of xs (ucast (fe_ID e)) of
       Some v \<Rightarrow> Some (fst v) | None \<Rightarrow> map_option fs_Standing (map_of (rm_factions r) (fe_RepListID e)))"
  using assms
proof (induction xs arbitrary: r)
  case (Cons x xs)
  obtain i st fl where x: "x = (i, st, fl)" by (cases x)
  have "(ucast (ucast i :: u32) :: u16) = i"
    by (rule bit_word_eqI) (simp add: bit_unsigned_iff)
  moreover have "(ucast (ucast (fe_ID e) :: u16) :: u32) = fe_ID e"
    using Cons.prems(5) by (simp add: word_unat_eq_iff unsigned_take_bit_eq unsigned_ucast_eq take_bit_nat_eq_self)
  ultimately have "fe_ID e = ucast i \<longleftrightarrow> ucast (fe_ID e) = i" by metis
  note L = load_row_standing [OF Cons.prems(1-4), of i st fl]
  show ?case
    using Cons.IH [OF Cons.prems(1) L(1,2) Cons.prems(4,5)] Cons.prems(6) L(3) \<open>fe_ID e = ucast i \<longleftrightarrow> ucast (fe_ID e) = i\<close>
    by (auto simp: x map_of_eq_None_iff split: option.split dest: map_of_SomeD) (force dest: map_of_SomeD)+
qed simp

subsection \<open>Properties\<close>

text \<open>A world for the witnesses: three factions of a player of race mask 1 and class mask 1, the
  third hidden, with integers for the floats.\<close>

definition demo_floats :: "int FloatOps" where
  "demo_floats = \<lparr>fl_of_int32 = (\<lambda>x. x), fl_mul = (*), fl_add = (+), fl_floor = (\<lambda>x. x),
     fl_to_int32 = (\<lambda>x. x), fl_half = 0, fl_is_zero = (\<lambda>x. x = 0)\<rparr>"

definition demo_faction :: "u32 \<Rightarrow> 16 word \<Rightarrow> 32 word \<Rightarrow> u16 \<Rightarrow> int FactionEntry" where
  "demo_faction i ix b fl = \<lparr>fe_ID = i, fe_ReputationRaceMask = [1, 0, 0, 0], fe_ReputationBase = [b, 0, 0, 0],
     fe_ParentFactionMod = [1, 0], fe_ReputationIndex = ix, fe_ReputationClassMask = [0, 0, 0, 0],
     fe_ReputationFlags = [fl, 0, 0, 0], fe_ParentFactionID = 0, fe_ParentFactionCap = [7, 7]\<rparr>"

definition demo_rep :: "int RepWorld" where
  "demo_rep = \<lparr>rw_store = [(21, demo_faction 21 0 500 0), (69, demo_faction 69 1 3000 0x11),
       (92, demo_faction 92 2 0 4)],
     rw_spillover = (\<lambda>_. None), rw_teamList = (\<lambda>i. if i = 69 then Some [21, 69] else None),
     rw_raceMask = 1, rw_classMask = 1, rw_gainRate = 1, rw_float = demo_floats,
     rw_OnReputationChange = (\<lambda>_ s _. s), rw_playerLoading = False, rw_guidCounter = 7\<rparr>"

lemma demo_rep_ok: "rep_config_ok demo_rep"
  by (simp add: rep_config_ok_def rep_world_ok_def rep_spillover_ok_def rep_index_ok_def rep_ids_ok_def
      demo_rep_def demo_faction_def om_ok_def fe_RepListID_def FactionEntry_CanHaveReputation_def FactionCount_def)

text \<open>The rank of a standing is the one of the table of bounds: below -6000 hated, then hostile, unfriendly
  from -3000, neutral from 0, friendly from 3000, honored from 9000, revered from 21000, exalted from 42000.\<close>

theorem Reputation_rank_table:
  "ReputationToRank s =
     (if s < -6000 then REP_HATED else if s < -3000 then REP_HOSTILE
      else if s < 0 then REP_UNFRIENDLY else if s < 3000 then REP_NEUTRAL
      else if s < 9000 then REP_FRIENDLY else if s < 21000 then REP_HONORED
      else if s < 42000 then REP_REVERED else REP_EXALTED)"
  by (rule ReputationToRank_table)

text \<open>C14: a session that starts from the rows of the data base never fails on a consistent configuration, and
  after every sequence of operations, spillover included, the four counters say, modulo 256, how many
  factions are visible and how many have reached each rank.\<close>

theorem Reputation_counters:
  assumes "rep_config_ok w" "distinct (map fst rows)"
  shows "ok_and (\<lambda>r.
      rm_visibleFactionCount r =
        of_nat (length (filter (\<lambda>f. faction_has (fs_Flags f) FACTION_FLAG_VISIBLE) (map snd (rm_factions r)))) \<and>
      rm_honoredFactionCount r = of_nat (length (filter
        (\<lambda>f. ReputationMgr_GetRank w (rw_LookupEntry w (fs_ID f)) r \<ge> REP_HONORED) (map snd (rm_factions r)))) \<and>
      rm_reveredFactionCount r = of_nat (length (filter
        (\<lambda>f. ReputationMgr_GetRank w (rw_LookupEntry w (fs_ID f)) r \<ge> REP_REVERED) (map snd (rm_factions r)))) \<and>
      rm_exaltedFactionCount r = of_nat (length (filter
        (\<lambda>f. ReputationMgr_GetRank w (rw_LookupEntry w (fs_ID f)) r \<ge> REP_EXALTED) (map snd (rm_factions r)))))
    (rep_run w ops (ReputationMgr_LoadFromDB w rows ReputationMgr_init))"
proof (rule ok_and_mono [OF rep_session_ok [OF assms]])
  fix r assume "rep_ok w rows r"
  then have inv: "rep_inv w r" by (simp add: rep_ok_def)
  have w: "rep_world_ok w" using assms(1) by (simp add: rep_config_ok_def)
  have "filter (\<lambda>f. ReputationMgr_GetRank w (rw_LookupEntry w (fs_ID f)) r \<ge> n) (map snd (rm_factions r)) =
      filter (\<lambda>f. rep_rank_of w f \<ge> n) (map snd (rm_factions r))" for n
    using rep_rank_of_GetRank [OF w inv] by (intro filter_cong) auto
  with inv show "rm_visibleFactionCount r =
        of_nat (length (filter (\<lambda>f. faction_has (fs_Flags f) FACTION_FLAG_VISIBLE) (map snd (rm_factions r)))) \<and>
      rm_honoredFactionCount r = of_nat (length (filter
        (\<lambda>f. ReputationMgr_GetRank w (rw_LookupEntry w (fs_ID f)) r \<ge> REP_HONORED) (map snd (rm_factions r)))) \<and>
      rm_reveredFactionCount r = of_nat (length (filter
        (\<lambda>f. ReputationMgr_GetRank w (rw_LookupEntry w (fs_ID f)) r \<ge> REP_REVERED) (map snd (rm_factions r)))) \<and>
      rm_exaltedFactionCount r = of_nat (length (filter
        (\<lambda>f. ReputationMgr_GetRank w (rw_LookupEntry w (fs_ID f)) r \<ge> REP_EXALTED) (map snd (rm_factions r))))"
    by (simp add: rep_inv_def rep_counts_def rep_count_filter)
qed

theorem Reputation_counters_witness:
  "ok_and (\<lambda>r. rm_honoredFactionCount r = of_nat (length (filter
        (\<lambda>f. ReputationMgr_GetRank demo_rep (rw_LookupEntry demo_rep (fs_ID f)) r \<ge> REP_HONORED)
        (map snd (rm_factions r)))))
    (rep_run demo_rep [Rep_SetReputation 69 9000 False False, Rep_SaveToDB]
      (ReputationMgr_LoadFromDB demo_rep [(21, 100, 1)] ReputationMgr_init))"
  by (rule ok_and_mono [OF Reputation_counters [OF demo_rep_ok, of "[(21, 100, 1)]"
        "[Rep_SetReputation 69 9000 False False, Rep_SaveToDB]"]]) simp_all

text \<open>C13: setting the standing with a faction that has one never fails, whatever spills over to other factions
  on the way, and the standing is then exactly what the script hook made of the request, cut to the range from
  -42000 to 42999; a gain without spillover adds what the gain rate makes of it to the standing before.\<close>

theorem Reputation_SetReputation_exact:
  assumes "rep_config_ok w" "distinct (map fst rows)"
    "rep_run w ops (ReputationMgr_LoadFromDB w rows ReputationMgr_init) = Inr r"
    "rw_LookupEntry w i = Some e" "FactionEntry_CanHaveReputation e"
  shows "(\<exists>r'. ReputationMgr_SetReputation w e s False noSpill r = Inr (True, r') \<and>
      ReputationMgr_GetReputation w (Some e) r' = rep_clamp (rw_OnReputationChange w i s False)) \<and>
    (\<exists>r'. ReputationMgr_ModifyReputation w e s True r = Inr (True, r') \<and>
      ReputationMgr_GetReputation w (Some e) r' = rep_clamp (wrap32
        (rep_gained w (rw_OnReputationChange w i s True) + ReputationMgr_GetReputation w (Some e) r)))"
proof -
  have w: "rep_world_ok w" using assms(1) by (simp add: rep_config_ok_def)
  have e: "rep_listed w e" "fe_ID e = i"
    using rep_listed_lookup [OF w assms(4,5)] rep_world_lookup [OF w assms(4)] by simp_all
  have r: "rep_ok w rows r" using rep_session_ok [OF assms(1,2), of ops] assms(3) by simp
  show ?thesis
    using SetReputation_last [OF assms(1) r e(1), of s False noSpill]
      SetReputation_last [OF assms(1) r e(1), of s True True]
    unfolding e(2) ReputationMgr_ModifyReputation_def by auto
qed

theorem Reputation_SetReputation_exact_witness:
  "\<exists>r'. ReputationMgr_SetReputation demo_rep (demo_faction 69 1 3000 0x11) 50000 False False
      (ReputationMgr_LoadFromDB demo_rep [] ReputationMgr_init) = Inr (True, r') \<and>
    ReputationMgr_GetReputation demo_rep (Some (demo_faction 69 1 3000 0x11)) r' = 42999"
proof -
  have "rw_LookupEntry demo_rep 69 = Some (demo_faction 69 1 3000 0x11)"
    "FactionEntry_CanHaveReputation (demo_faction 69 1 3000 0x11)"
    by (simp_all add: rw_LookupEntry_def demo_rep_def FactionEntry_CanHaveReputation_def demo_faction_def)
  from Reputation_SetReputation_exact [OF demo_rep_ok, of "[]" "[]", OF _ _ this, of _ 50000 False] show ?thesis
    by (auto simp: demo_rep_def rep_clamp_def Reputation_Cap_def)
qed

text \<open>C15: what is saved is what is loaded: the rows that the saves of a session and a last one leave in the data
  base give back every standing and every rank when they are loaded.\<close>

theorem Reputation_save_load:
  assumes "rep_config_ok w" "distinct (map fst rows)"
    "rep_run w ops (ReputationMgr_LoadFromDB w rows ReputationMgr_init) = Inr r"
  shows "ReputationMgr_GetReputation_id w i
      (ReputationMgr_LoadFromDB w (rep_db (ReputationMgr_SaveToDB w r) rows) ReputationMgr_init) =
    ReputationMgr_GetReputation_id w i r"
proof (cases "\<exists>e. rw_LookupEntry w i = Some e \<and> FactionEntry_CanHaveReputation e")
  case False
  then show ?thesis
    by (auto simp: ReputationMgr_GetReputation_id_def ReputationMgr_GetReputation_def ReputationMgr_GetState_def
        split: option.split)
next
  case True
  then obtain e where e: "rw_LookupEntry w i = Some e" "FactionEntry_CanHaveReputation e" by blast
  have w: "rep_world_ok w" and ids: "rep_ids_ok w" using assms(1) by (simp_all add: rep_config_ok_def)
  have l: "rep_listed w e" by (rule rep_listed_lookup [OF w e])
  have r: "rep_ok w rows r" using rep_session_ok [OF assms(1,2), of ops] assms(3) by simp
  obtain f where f: "map_of (rm_factions r) (fe_RepListID e) = Some f" "fs_ID f = fe_ID e"
    using r l rep_inv_D [OF w _ _ ] by (fastforce simp: rep_ok_def rep_inv_def rep_listed_def)
  let ?rows = "rep_db (ReputationMgr_SaveToDB w r) rows" and ?I = "ReputationMgr_Initialize w ReputationMgr_init"
  have "distinct (map fst ?rows)"
    using SaveToDB_ok [OF r ids] by (simp add: rep_ok_def rep_synced_def)
  moreover have "map_option fst (map_of ?rows (ucast (fe_ID e))) = Some (fs_Standing f)"
    using saved_standing [OF r ids map_of_SomeD [OF f(1)]] f(2) by simp
  moreover have "om_ok (rm_factions ?I)" "\<forall>e. rep_listed w e \<longrightarrow> map_of (rm_factions ?I) (fe_RepListID e) \<noteq> None"
    using Initialize_ok(1) [OF w] by (simp_all add: rep_inv_def)
  ultimately have "map_option fs_Standing (map_of (rm_factions (ReputationMgr_LoadFromDB w ?rows ReputationMgr_init))
      (fe_RepListID e)) = Some (fs_Standing f)"
    using load_rows_standing [OF w _ _ l rep_listed_small [OF ids l], of ?I ?rows]
    by (auto simp: ReputationMgr_LoadFromDB_def)
  with e f show ?thesis
    by (auto simp: ReputationMgr_GetReputation_id_def ReputationMgr_GetReputation_def ReputationMgr_GetState_def
        ReputationMgr_GetState_id_def)
qed

theorem Reputation_save_load_witness:
  "ReputationMgr_GetReputation_id demo_rep 21
      (ReputationMgr_LoadFromDB demo_rep (rep_db (ReputationMgr_SaveToDB demo_rep
          (ReputationMgr_LoadFromDB demo_rep [(21, 100, 1)] ReputationMgr_init)) [(21, 100, 1)]) ReputationMgr_init) =
    ReputationMgr_GetReputation_id demo_rep 21 (ReputationMgr_LoadFromDB demo_rep [(21, 100, 1)] ReputationMgr_init)"
  by (rule Reputation_save_load [OF demo_rep_ok, where ops = "[]"]) simp_all

end
