(* ===== verification/LFGRoles.thy ===== *)
theory LFGRoles
  imports ObjectGuid
begin

section \<open>Dungeon finder: roles and the role check (game/DungeonFinding/LFG.h, LFGMgr.cpp)\<close>

text \<open>
  The roles a player queues with are flags of a byte. \<open>CheckGroupRoles\<close> decides whether everybody can be
  given one of the roles they chose, with at most one tank, one healer and three damage dealers, and writes
  the choice it found into the map. It works in place: it takes a role away from somebody with a choice,
  calls itself, and puts the role back when that failed. The recursion of the code is \<open>CheckGroupRoles_fuel\<close>,
  whose first argument bounds its depth; \<open>CheckGroupRoles\<close> gives it the sum of the role bytes, which every
  recursive call lowers, and \<open>CheckGroupRoles_total\<close> shows that this is always enough.
\<close>

definition LFG_TANKS_NEEDED :: nat where "LFG_TANKS_NEEDED = 1"
definition LFG_HEALERS_NEEDED :: nat where "LFG_HEALERS_NEEDED = 1"
definition LFG_DPS_NEEDED :: nat where "LFG_DPS_NEEDED = 3"

definition PLAYER_ROLE_NONE :: u8 where "PLAYER_ROLE_NONE = 0x00"
definition PLAYER_ROLE_LEADER :: u8 where "PLAYER_ROLE_LEADER = 0x01"
definition PLAYER_ROLE_TANK :: u8 where "PLAYER_ROLE_TANK = 0x02"
definition PLAYER_ROLE_HEALER :: u8 where "PLAYER_ROLE_HEALER = 0x04"
definition PLAYER_ROLE_DAMAGE :: u8 where "PLAYER_ROLE_DAMAGE = 0x08"

type_synonym LfgRolesMap = "(ObjectGuid \<times> u8) list"

text \<open>The body of the loop is \<open>cgr_loop\<close>: the state of the map, the entries still to visit and the
  three counters; \<open>rec\<close> is the recursive call. \<open>None\<close> means that the fuel of a recursive call ran out.\<close>

definition role_at :: "LfgRolesMap \<Rightarrow> nat \<Rightarrow> u8" where
  "role_at m i = snd (m ! i)"

definition set_role :: "nat \<Rightarrow> u8 \<Rightarrow> LfgRolesMap \<Rightarrow> LfgRolesMap" where
  "set_role i r m = m[i := (fst (m ! i), r)]"

text \<open>One of the three blocks of the loop: take the role away, try, put it back; or count it.\<close>

definition cgr_block :: "(LfgRolesMap \<Rightarrow> (bool \<times> LfgRolesMap) option) \<Rightarrow> u8 \<Rightarrow> nat \<Rightarrow> nat \<Rightarrow> u8
    \<Rightarrow> nat \<Rightarrow> LfgRolesMap \<Rightarrow> ((bool \<times> LfgRolesMap) + (nat \<times> LfgRolesMap)) option" where
  "cgr_block rec flag needed i role cnt m =
     (if role AND flag \<noteq> 0
      then if role \<noteq> flag
        then (case rec (set_role i (role_at m i - flag) m) of
                None \<Rightarrow> None
              | Some (True, m1) \<Rightarrow> Some (Inl (True, m1))
              | Some (False, m1) \<Rightarrow> Some (Inr (cnt, set_role i (role_at m1 i + flag) m1)))
        else if cnt = needed then Some (Inl (False, m))
        else Some (Inr (cnt + 1, m))
      else Some (Inr (cnt, m)))"

fun cgr_loop :: "(LfgRolesMap \<Rightarrow> (bool \<times> LfgRolesMap) option) \<Rightarrow> nat list \<Rightarrow> nat \<Rightarrow> nat \<Rightarrow> nat
    \<Rightarrow> LfgRolesMap \<Rightarrow> (bool \<times> LfgRolesMap) option" where
  "cgr_loop rec [] damage tank healer m = Some (tank + healer + damage = length m mod 256, m)"
| "cgr_loop rec (i # is) damage tank healer m =
     (let role = role_at m i AND NOT PLAYER_ROLE_LEADER in
      if role = PLAYER_ROLE_NONE then Some (False, m)
      else case cgr_block rec PLAYER_ROLE_DAMAGE LFG_DPS_NEEDED i role damage m of
        None \<Rightarrow> None
      | Some (Inl r) \<Rightarrow> Some r
      | Some (Inr (damage1, m1)) \<Rightarrow>
          (case cgr_block rec PLAYER_ROLE_HEALER LFG_HEALERS_NEEDED i role healer m1 of
             None \<Rightarrow> None
           | Some (Inl r) \<Rightarrow> Some r
           | Some (Inr (healer1, m2)) \<Rightarrow>
               (case cgr_block rec PLAYER_ROLE_TANK LFG_TANKS_NEEDED i role tank m2 of
                  None \<Rightarrow> None
                | Some (Inl r) \<Rightarrow> Some r
                | Some (Inr (tank1, m3)) \<Rightarrow> cgr_loop rec is damage1 tank1 healer1 m3)))"

fun CheckGroupRoles_fuel :: "nat \<Rightarrow> LfgRolesMap \<Rightarrow> (bool \<times> LfgRolesMap) option" where
  "CheckGroupRoles_fuel 0 m = None"
| "CheckGroupRoles_fuel (Suc n) m =
     (if m = [] then Some (False, m)
      else cgr_loop (CheckGroupRoles_fuel n) [0..<length m] 0 0 0 m)"

definition roles_weight :: "LfgRolesMap \<Rightarrow> nat" where
  "roles_weight m = sum_list (map (\<lambda>(g, r). unat r) m)"

definition CheckGroupRoles :: "LfgRolesMap \<Rightarrow> bool \<times> LfgRolesMap" where
  "CheckGroupRoles m =
     (case CheckGroupRoles_fuel (Suc (roles_weight m)) m of Some r \<Rightarrow> r | None \<Rightarrow> (False, m))"

subsection \<open>What the check decides\<close>

definition lfg_roles :: "u8 list" where
  "lfg_roles = [PLAYER_ROLE_TANK, PLAYER_ROLE_HEALER, PLAYER_ROLE_DAMAGE]"

text \<open>A byte narrowed to one of its roles; the flag of the leader stays.\<close>

definition role_narrowed :: "u8 \<Rightarrow> u8 \<Rightarrow> bool" where
  "role_narrowed r s \<longleftrightarrow> r AND 0xF0 = 0 \<and>
     (\<exists>x \<in> set lfg_roles. r AND x \<noteq> 0 \<and> s = (r AND PLAYER_ROLE_LEADER) OR x)"

definition role_count :: "u8 \<Rightarrow> LfgRolesMap \<Rightarrow> nat" where
  "role_count x m = length (filter (\<lambda>(g, s). s AND x \<noteq> 0) m)"

definition roles_assigned :: "LfgRolesMap \<Rightarrow> LfgRolesMap \<Rightarrow> bool" where
  "roles_assigned m m' \<longleftrightarrow> m \<noteq> [] \<and> list_all2 (\<lambda>(g, r) (g', s). g = g' \<and> role_narrowed r s) m m' \<and>
     role_count PLAYER_ROLE_TANK m' \<le> LFG_TANKS_NEEDED \<and> role_count PLAYER_ROLE_HEALER m' \<le> LFG_HEALERS_NEEDED \<and>
     role_count PLAYER_ROLE_DAMAGE m' \<le> LFG_DPS_NEEDED"

subsection \<open>Role bytes, bit by bit\<close>

lemma lfg_flags:
  "PLAYER_ROLE_LEADER = 2 ^ 0" "PLAYER_ROLE_TANK = 2 ^ 1" "PLAYER_ROLE_HEALER = 2 ^ 2" "PLAYER_ROLE_DAMAGE = 2 ^ 3"
  by (simp_all add: PLAYER_ROLE_LEADER_def PLAYER_ROLE_TANK_def PLAYER_ROLE_HEALER_def PLAYER_ROLE_DAMAGE_def)

lemma and_flag: "(r :: u8) AND 2 ^ k \<noteq> 0 \<longleftrightarrow> bit r k"
  by (simp add: and_exp_eq_0_iff_not_bit)

lemma byte_eq_bits: "(a :: u8) = b \<longleftrightarrow> (\<forall>n. bit a n = bit b n)"
  by (auto intro: bit_word_eqI)

lemma bit_flag: "bit (2 ^ k :: u8) n \<longleftrightarrow> n = k \<and> k < 8"
  by (auto simp: bit_exp_iff)

lemma bit_not_byte: "bit (NOT r :: u8) n \<longleftrightarrow> n < 8 \<and> \<not> bit r n"
  by (simp add: bit_not_iff)

lemma bit_byte: "bit (r :: u8) n \<Longrightarrow> n < 8"
  using bit_imp_le_length [of r n] by simp

lemma bit_drop_flag: "bit (r AND NOT (2 ^ k) :: u8) n \<longleftrightarrow> bit r n \<and> n \<noteq> k"
  using bit_byte [of r n] by (auto simp: bit_and_iff bit_not_byte bit_flag)

lemma minus_flag:
  assumes "bit (r :: u8) k"
  shows "r - 2 ^ k = r AND NOT (2 ^ k)" and "unat (r - 2 ^ k) < unat r"
proof -
  have split: "r = (r AND NOT (2 ^ k)) OR 2 ^ k"
    using assms bit_byte [OF assms] unfolding byte_eq_bits bit_or_iff bit_drop_flag bit_flag by blast
  have "(r AND NOT (2 ^ k)) AND 2 ^ k = 0"
    unfolding byte_eq_bits bit_and_iff bit_drop_flag [unfolded bit_and_iff] bit_flag by auto
  then have "(r AND NOT (2 ^ k)) OR 2 ^ k = (r AND NOT (2 ^ k)) + 2 ^ k"
    by (simp add: disjunctive_add_eq_or)
  with split show eq: "r - 2 ^ k = r AND NOT (2 ^ k)" by (metis add_diff_cancel_right')
  have "r AND NOT (2 ^ k) \<le> r" by (rule word_and_le2)
  moreover have "r AND NOT (2 ^ k) \<noteq> r"
    using assms unfolding byte_eq_bits bit_drop_flag by blast
  ultimately have "unat (r AND NOT (2 ^ k)) < unat r" by (simp add: word_less_nat_alt [symmetric])
  with eq show "unat (r - 2 ^ k) < unat r" by simp
qed

lemma role_minus_bits: "bit r k \<Longrightarrow> bit (r - 2 ^ k :: u8) n \<longleftrightarrow> bit r n \<and> n \<noteq> k"
  by (simp only: minus_flag(1) bit_drop_flag)

lemma role_body_bits: "bit (r AND NOT PLAYER_ROLE_LEADER) k \<longleftrightarrow> bit r k \<and> k \<noteq> 0"
  unfolding lfg_flags by (rule bit_drop_flag)

lemma high_bits: "(r :: u8) AND 0xF0 = 0 \<longleftrightarrow> (\<forall>n \<ge> 4. \<not> bit r n)"
proof -
  have "(0xF0 :: u8) = NOT (mask 4)" by (simp add: mask_eq_exp_minus_1)
  then have F0: "bit (0xF0 :: u8) n \<longleftrightarrow> 4 \<le> n \<and> n < 8" for n
    by (simp only: bit_not_byte bit_mask_iff) (auto simp: bit_mask_iff)
  show ?thesis
    unfolding byte_eq_bits bit_and_iff F0 by (auto dest: bit_byte)
qed

definition narrowed_to :: "nat \<Rightarrow> u8 \<Rightarrow> u8 \<Rightarrow> bool" where
  "narrowed_to k r s \<longleftrightarrow> bit r k \<and> (\<forall>n. bit s n \<longleftrightarrow> n = k \<or> n = 0 \<and> bit r 0)"

lemma narrowed_to_eq: "k < 8 \<Longrightarrow> r AND 2 ^ k \<noteq> 0 \<and> s = (r AND 2 ^ 0) OR 2 ^ k \<longleftrightarrow> narrowed_to k r s"
proof -
  assume k: "k < 8"
  have "(bit r n \<and> n = 0 \<and> (0::nat) < 8 \<or> n = k \<and> k < 8) = (n = k \<or> n = 0 \<and> bit r 0)" for n
    using k by auto
  then have "s = (r AND 2 ^ 0) OR 2 ^ k \<longleftrightarrow> (\<forall>n. bit s n \<longleftrightarrow> n = k \<or> n = 0 \<and> bit r 0)"
    unfolding byte_eq_bits bit_or_iff bit_and_iff bit_flag by (simp only:)
  then show ?thesis by (simp only: narrowed_to_def and_flag)
qed

lemma role_narrowed_bits:
  "role_narrowed r s \<longleftrightarrow> (\<forall>n \<ge> 4. \<not> bit r n) \<and> (\<exists>k \<in> {1, 2, 3}. narrowed_to k r s)"
  using narrowed_to_eq [of 1 r s] narrowed_to_eq [of 2 r s] narrowed_to_eq [of 3 r s]
  unfolding role_narrowed_def high_bits lfg_roles_def lfg_flags by auto

definition role_single :: "nat \<Rightarrow> u8 \<Rightarrow> bool" where
  "role_single k r \<longleftrightarrow> r AND NOT PLAYER_ROLE_LEADER = 2 ^ k"

lemma role_single_bits:
  "k \<in> {1, 2, 3} \<Longrightarrow> role_single k r \<longleftrightarrow> (\<forall>n. bit r n \<and> n \<noteq> 0 \<longleftrightarrow> n = k)"
proof -
  assume "k \<in> {1, 2, 3}"
  then have "n = k \<and> k < 8 \<longleftrightarrow> n = k" for n by auto
  then show ?thesis unfolding role_single_def byte_eq_bits role_body_bits bit_flag by (simp only:)
qed

lemma role_none_narrowed: "r AND NOT PLAYER_ROLE_LEADER = PLAYER_ROLE_NONE \<Longrightarrow> \<not> role_narrowed r s"
  unfolding byte_eq_bits role_body_bits role_narrowed_bits narrowed_to_def PLAYER_ROLE_NONE_def by auto

lemma role_narrowed_more:
  "bit r k \<Longrightarrow> k \<in> {1, 2, 3} \<Longrightarrow> role_narrowed (r - 2 ^ k) s \<Longrightarrow> role_narrowed r s"
  unfolding role_narrowed_bits narrowed_to_def role_minus_bits by fastforce

lemma role_narrowed_less:
  assumes "role_narrowed r s" "\<forall>k \<in> {1, 2, 3}. \<not> role_single k r"
  shows "\<exists>k \<in> {1, 2, 3}. bit r k \<and> role_narrowed (r - 2 ^ k) s"
proof -
  from assms(1) obtain k where k: "k \<in> {1, 2, 3}" "narrowed_to k r s"
    and hi: "\<forall>n \<ge> 4. \<not> bit r n" unfolding role_narrowed_bits by blast
  then have bk: "bit r k" by (simp add: narrowed_to_def)
  have "\<not> role_single k r" using assms(2) k(1) by blast
  then obtain n where n: "n \<noteq> 0" "bit r n" "n \<noteq> k"
    using k(1) bk unfolding role_single_bits [OF k(1)] by fastforce
  with hi have "n < 4" by (meson not_le)
  with n have n3: "n \<in> {1, 2, 3}" by auto
  have "narrowed_to k (r - 2 ^ n) s"
    using k n by (auto simp: narrowed_to_def role_minus_bits [OF n(2)])
  moreover have "\<forall>m \<ge> 4. \<not> bit (r - 2 ^ n) m" using hi by (simp add: role_minus_bits [OF n(2)])
  ultimately have "role_narrowed (r - 2 ^ n) s" using k(1) unfolding role_narrowed_bits by blast
  with n n3 show ?thesis by blast
qed

lemma role_single_narrowed:
  assumes "role_single k r" "k \<in> {1, 2, 3}"
  shows "role_narrowed r s \<longleftrightarrow> s = r"
proof -
  from assms have b: "\<And>n. bit r n \<and> n \<noteq> 0 \<longleftrightarrow> n = k" using role_single_bits [of k r] by auto
  have k0: "k \<noteq> 0" using assms(2) by auto
  have rk: "bit r k" using b [of k] by simp
  have pt: "n = k \<or> n = 0 \<and> bit r 0 \<longleftrightarrow> bit r n" for n
    using b [of n] k0 by (cases "n = 0") simp_all
  have eq: "narrowed_to k r s \<longleftrightarrow> s = r"
    unfolding narrowed_to_def byte_eq_bits pt using rk by simp
  have "j = k" if "j \<in> {1, 2, 3}" "narrowed_to j r s" for j
  proof -
    have "bit r j" using that(2) by (simp only: narrowed_to_def)
    moreover have "j \<noteq> 0" using that by auto
    ultimately show "j = k" using b [of j] by simp
  qed
  then have ex: "(\<exists>j \<in> {1, 2, 3}. narrowed_to j r s) \<longleftrightarrow> narrowed_to k r s"
    using assms(2) by metis
  have "\<not> bit r n" if "n \<ge> 4" for n using b [of n] assms(2) that by auto
  then show ?thesis unfolding role_narrowed_bits ex eq by simp
qed

subsection \<open>The check is total, sound and complete\<close>

definition formable :: "LfgRolesMap \<Rightarrow> bool" where
  "formable m \<longleftrightarrow> (\<exists>m'. roles_assigned m m')"

definition cgr_result_ok :: "LfgRolesMap \<Rightarrow> bool \<times> LfgRolesMap \<Rightarrow> bool" where
  "cgr_result_ok m p \<longleftrightarrow> (if fst p then roles_assigned m (snd p) else snd p = m \<and> \<not> formable m)"

lemma length_set_role [simp]: "length (set_role i r m) = length m"
  by (simp add: set_role_def)

lemma role_at_set_role: "i < length m \<Longrightarrow> role_at (set_role i r m) j = (if i = j then r else role_at m j)"
  by (simp add: role_at_def set_role_def)

lemma guid_set_role: "i < length m \<Longrightarrow> fst (set_role i r m ! j) = fst (m ! j)"
  by (simp add: set_role_def nth_list_update)

lemma set_role_back: "i < length m \<Longrightarrow> set_role i (role_at m i) (set_role i r m) = m"
  by (simp add: set_role_def role_at_def)

lemma roles_weight_set_role:
  assumes "i < length m" "unat r < unat (role_at m i)"
  shows "roles_weight (set_role i r m) < roles_weight m"
proof -
  let ?f = "\<lambda>(g, r). unat (r :: u8)"
  have "roles_weight (set_role i r m) = sum_list (map ?f m) + unat r - map ?f m ! i"
    using assms(1) by (simp add: roles_weight_def set_role_def map_update sum_list_update case_prod_beta)
  moreover have "map ?f m ! i \<le> sum_list (map ?f m)"
    using assms(1) by (intro elem_le_sum_list) simp
  moreover have "map ?f m ! i = unat (role_at m i)"
    using assms(1) by (simp add: role_at_def case_prod_beta)
  ultimately show ?thesis using assms(2) by (simp add: roles_weight_def)
qed

definition narrowing :: "LfgRolesMap \<Rightarrow> LfgRolesMap \<Rightarrow> bool" where
  "narrowing m m' \<longleftrightarrow> length m' = length m \<and>
     (\<forall>j < length m. fst (m' ! j) = fst (m ! j) \<and> role_narrowed (role_at m j) (role_at m' j))"

lemma roles_assigned_narrowing:
  "roles_assigned m m' \<longleftrightarrow> m \<noteq> [] \<and> narrowing m m' \<and>
     role_count PLAYER_ROLE_TANK m' \<le> LFG_TANKS_NEEDED \<and> role_count PLAYER_ROLE_HEALER m' \<le> LFG_HEALERS_NEEDED \<and>
     role_count PLAYER_ROLE_DAMAGE m' \<le> LFG_DPS_NEEDED"
proof -
  have "list_all2 (\<lambda>(g, r) (g', s). g = g' \<and> role_narrowed r s) m m' \<longleftrightarrow> narrowing m m'"
    by (auto simp: list_all2_conv_all_nth narrowing_def role_at_def case_prod_beta)
  then show ?thesis by (simp add: roles_assigned_def)
qed

text \<open>Taking a role away from somebody with a choice loses no assignment but those that use it.\<close>

lemma assigned_set_role:
  assumes "i < length m" "bit (role_at m i) k" "k \<in> {1, 2, 3}"
    "roles_assigned (set_role i (role_at m i - 2 ^ k) m) m'"
  shows "roles_assigned m m'"
proof -
  have n: "narrowing (set_role i (role_at m i - 2 ^ k) m) m'"
    using assms(4) by (simp only: roles_assigned_narrowing)
  have "fst (m' ! j) = fst (m ! j) \<and> role_narrowed (role_at m j) (role_at m' j)" if "j < length m" for j
  proof -
    have "fst (m' ! j) = fst (m ! j)" "role_narrowed (if i = j then role_at m i - 2 ^ k else role_at m j) (role_at m' j)"
      using n that by (auto simp: narrowing_def role_at_set_role [OF assms(1)] guid_set_role [OF assms(1)])
    then show ?thesis using role_narrowed_more [OF assms(2,3)] by (cases "i = j") simp_all
  qed
  then have "narrowing m m'" using n by (simp add: narrowing_def)
  moreover have "m \<noteq> []" using assms(1) by auto
  ultimately show ?thesis using assms(4) by (simp add: roles_assigned_narrowing)
qed

lemma formable_set_role:
  assumes "i < length m" "formable m" "\<forall>k \<in> {1, 2, 3}. \<not> role_single k (role_at m i)"
  shows "\<exists>k \<in> {1, 2, 3}. bit (role_at m i) k \<and> formable (set_role i (role_at m i - 2 ^ k) m)"
proof -
  obtain m' where m': "roles_assigned m m'" using assms(2) by (auto simp: formable_def)
  then have "role_narrowed (role_at m i) (role_at m' i)"
    using assms(1) by (simp add: roles_assigned_narrowing narrowing_def)
  from role_narrowed_less [OF this assms(3)] obtain k where k: "k \<in> {1, 2, 3}" "bit (role_at m i) k"
    "role_narrowed (role_at m i - 2 ^ k) (role_at m' i)" by blast
  have "narrowing (set_role i (role_at m i - 2 ^ k) m) m'"
    using m' k(3) unfolding roles_assigned_narrowing narrowing_def
    by (simp add: role_at_set_role [OF assms(1)] guid_set_role [OF assms(1)])
  then have "roles_assigned (set_role i (role_at m i - 2 ^ k) m) m'"
    using m' by (auto simp: roles_assigned_narrowing set_role_def)
  with k show ?thesis by (auto simp: formable_def)
qed

text \<open>Whoever has one role only keeps it in every assignment.\<close>

definition singles :: "nat \<Rightarrow> nat \<Rightarrow> LfgRolesMap \<Rightarrow> nat" where
  "singles k i m = length (filter (\<lambda>p. role_single k (snd p)) (take i m))"

lemma singles_Suc:
  "i < length m \<Longrightarrow> singles k (Suc i) m = singles k i m + (if role_single k (role_at m i) then 1 else 0)"
  by (simp add: singles_def take_Suc_conv_app_nth role_at_def)

lemma role_single_flag: "k \<in> {1, 2, 3} \<Longrightarrow> role_single k r \<Longrightarrow> j \<in> {1, 2, 3} \<Longrightarrow> bit r j \<longleftrightarrow> j = k"
  unfolding role_single_bits by (metis insertE singletonD zero_neq_numeral zero_neq_one)

lemma singles_assigned:
  assumes m': "narrowing m m'" and k: "k \<in> {1, 2, 3}"
  shows "singles k (length m) m \<le> role_count (2 ^ k) m'"
proof -
  have len: "length m' = length m" using m' by (simp add: narrowing_def)
  have "{j. j < length m \<and> role_single k (role_at m j)} \<subseteq> {j. j < length m' \<and> role_at m' j AND 2 ^ k \<noteq> 0}"
  proof safe
    fix j assume j: "j < length m" "role_single k (role_at m j)"
    then have "role_narrowed (role_at m j) (role_at m' j)" using m' by (simp add: narrowing_def)
    with role_single_narrowed [OF j(2) k] have e: "role_at m' j = role_at m j" by blast
    then have "bit (role_at m' j) k" using role_single_flag [OF k j(2) k] by simp
    then show "role_at m' j AND 2 ^ k = 0 \<Longrightarrow> False" using and_flag by blast
    show "j < length m'" using j len by simp
  qed
  then have "card {j. j < length m \<and> role_single k (role_at m j)} \<le> card {j. j < length m' \<and> role_at m' j AND 2 ^ k \<noteq> 0}"
    by (intro card_mono) simp_all
  then show ?thesis
    by (simp add: singles_def role_count_def length_filter_conv_card role_at_def case_prod_beta)
qed

lemma singles_mono: "i \<le> j \<Longrightarrow> singles k i m \<le> singles k j m"
proof -
  assume "i \<le> j"
  then have "take j m = take i m @ drop i (take j m)" by (metis append_take_drop_id min.absorb1 take_take)
  then show ?thesis by (metis filter_append le_add1 length_append singles_def)
qed

lemma not_formable_over:
  assumes "k \<in> {1, 2, 3}" "singles k i m > need" "i \<le> length m"
    "need = (if k = 3 then LFG_DPS_NEEDED else if k = 2 then LFG_HEALERS_NEEDED else LFG_TANKS_NEEDED)"
  shows "\<not> formable m"
proof
  assume "formable m"
  then obtain m' where m': "roles_assigned m m'" by (auto simp: formable_def)
  then have "need < role_count (2 ^ k) m'"
    using singles_assigned [of m m' k] singles_mono [OF assms(3), of k m] assms(1,2)
    by (simp add: roles_assigned_narrowing)
  with m' assms(1,4) show False
    by (auto simp: roles_assigned_narrowing lfg_flags split: if_splits)
qed

definition any_single :: "u8 \<Rightarrow> bool" where
  "any_single r \<longleftrightarrow> (\<exists>k \<in> {1, 2, 3}. role_single k r)"

lemma role_single_unique: "role_single k r \<Longrightarrow> role_single j r \<Longrightarrow> k \<in> {1, 2, 3} \<Longrightarrow> j \<in> {1, 2, 3} \<Longrightarrow> k = j"
  unfolding role_single_bits by metis

lemma one_single: "(if role_single 1 r then 1 else 0) + (if role_single 2 r then 1 else 0) +
    (if role_single 3 r then 1 else 0) = (if any_single r then 1 else (0 :: nat))"
proof -
  have "\<not> (role_single 1 r \<and> role_single 2 r)" "\<not> (role_single 1 r \<and> role_single 3 r)"
    "\<not> (role_single 2 r \<and> role_single 3 r)"
    using role_single_unique [of 1 r 2] role_single_unique [of 1 r 3] role_single_unique [of 2 r 3] by auto
  then show ?thesis by (simp add: any_single_def)
qed

lemma singles_total: "i \<le> length m \<Longrightarrow> singles 1 i m + singles 2 i m + singles 3 i m =
    card {j. j < i \<and> any_single (role_at m j)}"
proof (induction i)
  case (Suc i)
  have "{j. j < Suc i \<and> any_single (role_at m j)} =
      (if any_single (role_at m i) then insert i {j. j < i \<and> any_single (role_at m j)}
       else {j. j < i \<and> any_single (role_at m j)})" by (auto simp: less_Suc_eq)
  then have "card {j. j < Suc i \<and> any_single (role_at m j)} =
      card {j. j < i \<and> any_single (role_at m j)} + (if any_single (role_at m i) then 1 else 0)" by simp
  moreover have "singles 1 (Suc i) m + singles 2 (Suc i) m + singles 3 (Suc i) m =
      singles 1 i m + singles 2 i m + singles 3 i m + (if any_single (role_at m i) then 1 else 0)"
    using one_single [of "role_at m i"] Suc.prems by (simp add: singles_Suc)
  ultimately show ?case using Suc by simp
qed (simp add: singles_def)

lemma singles_all:
  assumes "i \<le> length m"
  shows "singles 1 i m + singles 2 i m + singles 3 i m \<le> i"
    and "singles 1 i m + singles 2 i m + singles 3 i m = i \<longleftrightarrow> (\<forall>j < i. any_single (role_at m j))"
proof -
  have sub: "{j. j < i \<and> any_single (role_at m j)} \<subseteq> {..<i}" by auto
  then have "card {j. j < i \<and> any_single (role_at m j)} \<le> card {..<i}" by (intro card_mono) simp_all
  then show "singles 1 i m + singles 2 i m + singles 3 i m \<le> i" unfolding singles_total [OF assms] by simp
  have "card {j. j < i \<and> any_single (role_at m j)} = i \<longleftrightarrow> {j. j < i \<and> any_single (role_at m j)} = {..<i}"
    using sub by (metis card_lessThan card_subset_eq finite_lessThan)
  then show "singles 1 i m + singles 2 i m + singles 3 i m = i \<longleftrightarrow> (\<forall>j < i. any_single (role_at m j))"
    unfolding singles_total [OF assms] by auto
qed

lemma all_single_assigned:
  assumes "m \<noteq> []" "\<forall>j < length m. any_single (role_at m j)"
    "singles 3 (length m) m \<le> LFG_DPS_NEEDED" "singles 2 (length m) m \<le> LFG_HEALERS_NEEDED"
    "singles 1 (length m) m \<le> LFG_TANKS_NEEDED"
  shows "roles_assigned m m"
proof -
  have single: "\<exists>k \<in> {1, 2, 3}. role_single k (role_at m j)" if "j < length m" for j
    using assms(2) that by (simp add: any_single_def)
  have "narrowing m m"
    using single role_single_narrowed unfolding narrowing_def by blast
  moreover have "role_count (2 ^ k) m = singles k (length m) m" if k: "k \<in> {1, 2, 3}" for k
  proof -
    have "snd p AND 2 ^ k \<noteq> 0 \<longleftrightarrow> role_single k (snd p)" if "p \<in> set m" for p
    proof -
      from that obtain j where j: "j < length m" "p = m ! j" by (metis in_set_conv_nth)
      from single [OF j(1)] obtain k' where k': "k' \<in> {1, 2, 3}" "role_single k' (snd p)"
        by (auto simp: j role_at_def)
      from role_single_flag [OF k' k] role_single_unique [OF k'(2) _ k'(1) k] k'(2) show ?thesis
        unfolding and_flag by blast
    qed
    then show ?thesis
      by (simp add: role_count_def singles_def case_prod_beta cong: filter_cong)
  qed
  note counts = this [of 1] this [of 2] this [of 3]
  ultimately show ?thesis
    using assms counts unfolding roles_assigned_narrowing lfg_flags by simp
qed

text \<open>One block of the loop.\<close>

lemma cgr_block_cases:
  fixes need cnt :: nat
  assumes i: "i < length m" and k: "k \<in> {1, 2, 3}"
    and recur: "\<And>m1. length m1 = length m \<Longrightarrow> roles_weight m1 < roles_weight m \<Longrightarrow>
        \<exists>p. rec m1 = Some p \<and> cgr_result_ok m1 p"
  defines "r \<equiv> role_at m i"
  defines "res \<equiv> cgr_block rec (2 ^ k) need i (r AND NOT PLAYER_ROLE_LEADER) cnt m"
  shows "(if \<not> bit r k then res = Some (Inr (cnt, m))
     else if role_single k r then res = (if cnt = need then Some (Inl (False, m)) else Some (Inr (cnt + 1, m)))
     else (\<exists>m1. res = Some (Inl (True, m1)) \<and> roles_assigned m m1) \<or>
       res = Some (Inr (cnt, m)) \<and> \<not> formable (set_role i (r - 2 ^ k) m))"
proof -
  have k0: "k \<noteq> 0" using k by auto
  have body: "(r AND NOT PLAYER_ROLE_LEADER) AND 2 ^ k \<noteq> 0 \<longleftrightarrow> bit r k"
    unfolding and_flag role_body_bits using k0 by simp
  show ?thesis
  proof (cases "bit r k \<and> \<not> role_single k r")
    case True
    let ?m = "set_role i (r - 2 ^ k) m"
    have "roles_weight ?m < roles_weight m"
      using roles_weight_set_role [OF i] minus_flag(2) True by (simp add: r_def)
    then obtain b m1 where rc: "rec ?m = Some (b, m1)" "cgr_result_ok ?m (b, m1)"
      using recur [of ?m] by auto
    show ?thesis
    proof (cases b)
      case True': True
      with rc have "roles_assigned m m1"
        using assigned_set_role [OF i _ k, of m1] True by (simp add: cgr_result_ok_def r_def)
      with True True' rc show ?thesis
        unfolding res_def cgr_block_def body by (simp add: role_single_def r_def)
    next
      case False
      with rc have m1: "m1 = ?m" "\<not> formable ?m" by (simp_all add: cgr_result_ok_def)
      have "set_role i (role_at ?m i + 2 ^ k) ?m = m"
        using set_role_back [OF i, of "r - 2 ^ k"] i by (simp add: role_at_set_role r_def)
      with True False rc m1 show ?thesis
        unfolding res_def cgr_block_def body by (simp add: role_single_def r_def)
    qed
  next
    case False
    then show ?thesis unfolding res_def cgr_block_def body by (auto simp: role_single_def)
  qed
qed



text \<open>One turn of the loop.\<close>

definition role_need :: "nat \<Rightarrow> nat" where
  "role_need k = (if k = 3 then LFG_DPS_NEEDED else if k = 2 then LFG_HEALERS_NEEDED else LFG_TANKS_NEEDED)"

lemma cgr_turn:
  assumes some: "role_at m i AND NOT PLAYER_ROLE_LEADER \<noteq> PLAYER_ROLE_NONE"
  defines "role \<equiv> role_at m i AND NOT PLAYER_ROLE_LEADER"
  shows "cgr_loop rec (i # is) damage tank healer m =
    (case cgr_block rec (2 ^ 3) LFG_DPS_NEEDED i role damage m of
        None \<Rightarrow> None
      | Some (Inl r) \<Rightarrow> Some r
      | Some (Inr (damage1, m1)) \<Rightarrow>
          (case cgr_block rec (2 ^ 2) LFG_HEALERS_NEEDED i role healer m1 of
             None \<Rightarrow> None
           | Some (Inl r) \<Rightarrow> Some r
           | Some (Inr (healer1, m2)) \<Rightarrow>
               (case cgr_block rec (2 ^ 1) LFG_TANKS_NEEDED i role tank m2 of
                  None \<Rightarrow> None
                | Some (Inl r) \<Rightarrow> Some r
                | Some (Inr (tank1, m3)) \<Rightarrow> cgr_loop rec is damage1 tank1 healer1 m3)))"
  unfolding cgr_loop.simps(2) Let_def lfg_flags(2-4) [symmetric] role_def using some by (simp only: if_False)

lemma cgr_turn_single:
  assumes i: "i < length m" and k: "k \<in> {1, 2, 3}" "role_single k (role_at m i)"
  shows "cgr_loop rec (i # is) damage tank healer m =
    (if (if k = 3 then damage else if k = 2 then healer else tank) = role_need k then Some (False, m)
     else cgr_loop rec is (if k = 3 then damage + 1 else damage) (if k = 1 then tank + 1 else tank)
       (if k = 2 then healer + 1 else healer) m)"
proof -
  define role where "role = role_at m i AND NOT PLAYER_ROLE_LEADER"
  have role: "role = 2 ^ k" using k(2) by (simp add: role_def role_single_def)
  have hit: "role AND 2 ^ j \<noteq> 0 \<longleftrightarrow> j = k" if "j \<in> {1, 2, 3}" for j
    unfolding role and_flag bit_flag using k(1) that by auto
  have some: "role \<noteq> PLAYER_ROLE_NONE" using hit [OF k(1)] by (auto simp: PLAYER_ROLE_NONE_def)
  have block: "cgr_block rec (2 ^ j) need i role c m = (if j = k
      then if c = need then Some (Inl (False, m)) else Some (Inr (c + 1, m)) else Some (Inr (c, m)))"
    if "j \<in> {1, 2, 3}" for j need c
    unfolding cgr_block_def hit [OF that] using role by simp
  note blocks = block [of 1, simplified] block [of 2, simplified] block [of 3, simplified]
  show ?thesis
    using k(1) unfolding cgr_turn [OF some [unfolded role_def], folded role_def]
    by (elim insertE emptyE) (simp_all add: blocks role_need_def)
qed

lemma cgr_turn_choice:
  assumes i: "i < length m" and r: "\<not> any_single (role_at m i)"
    and some: "role_at m i AND NOT PLAYER_ROLE_LEADER \<noteq> PLAYER_ROLE_NONE"
    and recur: "\<And>m1. length m1 = length m \<Longrightarrow> roles_weight m1 < roles_weight m \<Longrightarrow>
        \<exists>p. rec m1 = Some p \<and> cgr_result_ok m1 p"
  shows "(\<exists>m1. cgr_loop rec (i # is) damage tank healer m = Some (True, m1) \<and> roles_assigned m m1) \<or>
    cgr_loop rec (i # is) damage tank healer m = cgr_loop rec is damage tank healer m \<and> \<not> formable m"
proof -
  define role where "role = role_at m i AND NOT PLAYER_ROLE_LEADER"
  have nos: "\<not> role_single k (role_at m i)" if "k \<in> {1, 2, 3}" for k
    using r that by (auto simp: any_single_def)
  have block: "(\<exists>m1. cgr_block rec (2 ^ k) need i role c m = Some (Inl (True, m1)) \<and> roles_assigned m m1) \<or>
      cgr_block rec (2 ^ k) need i role c m = Some (Inr (c, m)) \<and>
      \<not> (bit (role_at m i) k \<and> formable (set_role i (role_at m i - 2 ^ k) m))" if k: "k \<in> {1, 2, 3}" for k need c
    using cgr_block_cases [OF i k recur, of need c] nos [OF k] unfolding role_def by (auto split: if_splits)
  have "formable m \<Longrightarrow> \<exists>k \<in> {1, 2, 3}. bit (role_at m i) k \<and> formable (set_role i (role_at m i - 2 ^ k) m)"
    using formable_set_role [OF i] nos by blast
  then have stuck: "\<not> formable m" if "\<forall>k \<in> {1, 2, 3}. \<not> (bit (role_at m i) k \<and> formable (set_role i (role_at m i - 2 ^ k) m))"
    using that by blast
  have k: "3 \<in> {1, 2, 3 :: nat}" "2 \<in> {1, 2, 3 :: nat}" "1 \<in> {1, 2, 3 :: nat}" by simp_all
  note cases = option.case sum.case prod.case
  note turn = cgr_turn [OF some, of rec "is" damage tank healer, folded role_def]
  from block [OF k(1), of LFG_DPS_NEEDED damage] show ?thesis
  proof (elim disjE exE conjE)
    assume 3: "cgr_block rec (2 ^ 3) LFG_DPS_NEEDED i role damage m = Some (Inr (damage, m))"
      "\<not> (bit (role_at m i) 3 \<and> formable (set_role i (role_at m i - 2 ^ 3) m))"
    from block [OF k(2), of LFG_HEALERS_NEEDED healer] show ?thesis
    proof (elim disjE exE conjE)
      assume 2: "cgr_block rec (2 ^ 2) LFG_HEALERS_NEEDED i role healer m = Some (Inr (healer, m))"
        "\<not> (bit (role_at m i) 2 \<and> formable (set_role i (role_at m i - 2 ^ 2) m))"
      from block [OF k(3), of LFG_TANKS_NEEDED tank] show ?thesis
      proof (elim disjE exE conjE)
        assume 1: "cgr_block rec (2 ^ 1) LFG_TANKS_NEEDED i role tank m = Some (Inr (tank, m))"
          "\<not> (bit (role_at m i) 1 \<and> formable (set_role i (role_at m i - 2 ^ 1) m))"
        have "\<not> formable m" using stuck 1(2) 2(2) 3(2) by blast
        then show ?thesis by (simp only: turn 1(1) 2(1) 3(1) cases) blast
      qed (simp only: turn 3(1) 2(1) cases; blast)
    qed (simp only: turn 3(1) cases; blast)
  qed (simp only: turn cases; blast)
qed

lemma cgr_loop_ok:
  assumes recur: "\<And>m1. length m1 = length m \<Longrightarrow> roles_weight m1 < roles_weight m \<Longrightarrow>
        \<exists>p. rec m1 = Some p \<and> cgr_result_ok m1 p"
    and len: "length m < 256" "m \<noteq> []"
  shows "i \<le> length m \<Longrightarrow> singles 3 i m \<le> LFG_DPS_NEEDED \<Longrightarrow> singles 2 i m \<le> LFG_HEALERS_NEEDED \<Longrightarrow>
      singles 1 i m \<le> LFG_TANKS_NEEDED \<Longrightarrow> \<forall>j < i. any_single (role_at m j) \<or> \<not> formable m \<Longrightarrow>
    \<exists>p. cgr_loop rec [i..<length m] (singles 3 i m) (singles 1 i m) (singles 2 i m) m = Some p \<and> cgr_result_ok m p"
proof (induction "length m - i" arbitrary: i)
  case 0
  then have i: "i = length m" by simp
  have sum: "singles 1 i m + singles 2 i m + singles 3 i m \<le> i"
    "singles 1 i m + singles 2 i m + singles 3 i m = i \<longleftrightarrow> (\<forall>j < i. any_single (role_at m j))"
    using singles_all [OF 0(2)] by simp_all
  then have "cgr_loop rec [i..<length m] (singles 3 i m) (singles 1 i m) (singles 2 i m) m =
      Some (\<forall>j < i. any_single (role_at m j), m)"
    using len(1) by (auto simp: i)
  moreover have "cgr_result_ok m (\<forall>j < i. any_single (role_at m j), m)"
    using all_single_assigned [OF len(2)] 0 by (auto simp: cgr_result_ok_def i)
  ultimately show ?case by blast
next
  case (Suc n)
  then have i: "i < length m" by simp
  have upt: "[i..<length m] = i # [Suc i..<length m]" using i by (simp add: upt_conv_Cons)
  show ?case
  proof (cases "role_at m i AND NOT PLAYER_ROLE_LEADER = PLAYER_ROLE_NONE")
    case True
    have "\<not> formable m"
      using role_none_narrowed [OF True] i by (auto simp: formable_def roles_assigned_narrowing narrowing_def)
    with True show ?thesis by (simp add: upt cgr_result_ok_def)
  next
    case some: False
    show ?thesis
    proof (cases "any_single (role_at m i)")
      case True
      then obtain k where k: "k \<in> {1, 2, 3}" "role_single k (role_at m i)" by (auto simp: any_single_def)
      have suc: "singles j (Suc i) m = (if j = k then singles j i m + 1 else singles j i m)" if "j \<in> {1, 2, 3}" for j
      proof (cases "j = k")
        case True
        with k(2) show ?thesis by (simp add: singles_Suc [OF i])
      next
        case False
        then have "\<not> role_single j (role_at m i)" using role_single_unique [OF k(2) _ k(1) that] by blast
        with False show ?thesis by (simp add: singles_Suc [OF i])
      qed
      have turn: "cgr_loop rec [i..<length m] (singles 3 i m) (singles 1 i m) (singles 2 i m) m =
        (if singles k i m = role_need k then Some (False, m)
         else cgr_loop rec [Suc i..<length m] (singles 3 (Suc i) m) (singles 1 (Suc i) m) (singles 2 (Suc i) m) m)"
        using k(1) by (elim insertE emptyE) (simp_all add: cgr_turn_single [OF i k] upt suc del: cgr_loop.simps)
      show ?thesis
      proof (cases "singles k i m = role_need k")
        case True
        then have "\<not> formable m"
          using not_formable_over [OF k(1), of "role_need k" "Suc i" m] i k(1) by (simp add: suc role_need_def)
        with True turn show ?thesis by (simp add: cgr_result_ok_def)
      next
        case False
        have below: "singles j (Suc i) m \<le> role_need j" if "j \<in> {1, 2, 3}" for j
          using False Suc.prems(2-4) that by (auto simp: suc role_need_def)
        have "\<exists>p. cgr_loop rec [Suc i..<length m] (singles 3 (Suc i) m) (singles 1 (Suc i) m) (singles 2 (Suc i) m) m
            = Some p \<and> cgr_result_ok m p"
          using Suc.hyps Suc.prems(5) i True below [of 1] below [of 2] below [of 3]
          by (intro Suc.hyps(1)) (auto simp: less_Suc_eq role_need_def)
        with False turn show ?thesis by simp
      qed
    next
      case False
      have suc: "singles j (Suc i) m = singles j i m" if "j \<in> {1, 2, 3}" for j
        using singles_Suc [OF i, of j] False that by (auto simp: any_single_def)
      have "(\<exists>m1. cgr_loop rec (i # [Suc i..<length m]) (singles 3 i m) (singles 1 i m) (singles 2 i m) m = Some (True, m1)
          \<and> roles_assigned m m1) \<or>
        cgr_loop rec (i # [Suc i..<length m]) (singles 3 i m) (singles 1 i m) (singles 2 i m) m =
          cgr_loop rec [Suc i..<length m] (singles 3 i m) (singles 1 i m) (singles 2 i m) m \<and> \<not> formable m"
        by (rule cgr_turn_choice [OF i False some]) (rule recur)
      then show ?thesis
      proof (elim disjE)
        assume "\<exists>m1. cgr_loop rec (i # [Suc i..<length m]) (singles 3 i m) (singles 1 i m) (singles 2 i m) m = Some (True, m1)
          \<and> roles_assigned m m1"
        then show ?thesis by (auto simp: upt cgr_result_ok_def)
      next
        assume a: "cgr_loop rec (i # [Suc i..<length m]) (singles 3 i m) (singles 1 i m) (singles 2 i m) m =
          cgr_loop rec [Suc i..<length m] (singles 3 i m) (singles 1 i m) (singles 2 i m) m \<and> \<not> formable m"
        have "\<exists>p. cgr_loop rec [Suc i..<length m] (singles 3 (Suc i) m) (singles 1 (Suc i) m) (singles 2 (Suc i) m) m
            = Some p \<and> cgr_result_ok m p"
          using Suc.hyps Suc.prems i a by (intro Suc.hyps(1)) (auto simp: suc)
        with a show ?thesis by (simp add: upt suc)
      qed
    qed
  qed
qed

lemma CheckGroupRoles_fuel_ok:
  "length m < 256 \<Longrightarrow> roles_weight m < n \<Longrightarrow> \<exists>p. CheckGroupRoles_fuel n m = Some p \<and> cgr_result_ok m p"
proof (induction n arbitrary: m)
  case (Suc n)
  show ?case
  proof (cases "m = []")
    case True
    then show ?thesis by (simp add: cgr_result_ok_def formable_def roles_assigned_def)
  next
    case False
    have "\<exists>p. cgr_loop (CheckGroupRoles_fuel n) [0..<length m] (singles 3 0 m) (singles 1 0 m) (singles 2 0 m) m = Some p
        \<and> cgr_result_ok m p"
      using Suc by (intro cgr_loop_ok [OF _ _ False]) (simp_all add: singles_def)
    with False show ?thesis by (simp add: singles_def)
  qed
qed simp

lemma CheckGroupRoles_ok: "length m < 256 \<Longrightarrow> cgr_result_ok m (CheckGroupRoles m)"
  using CheckGroupRoles_fuel_ok [of m "Suc (roles_weight m)"] by (auto simp: CheckGroupRoles_def)

subsection \<open>The contract of a role check\<close>

text \<open>What the queue and the role check of a group rely on, whatever the search is.\<close>

locale role_check =
  fixes check :: "LfgRolesMap \<Rightarrow> bool \<times> LfgRolesMap"
  assumes check_sound: "length m < 256 \<Longrightarrow> check m = (True, m') \<Longrightarrow> roles_assigned m m'"
    and check_complete: "length m < 256 \<Longrightarrow> roles_assigned m m' \<Longrightarrow> fst (check m)"
    and check_failed: "length m < 256 \<Longrightarrow> check m = (False, m') \<Longrightarrow> m' = m"
begin

lemma check_iff: "length m < 256 \<Longrightarrow> fst (check m) \<longleftrightarrow> (\<exists>m'. roles_assigned m m')"
  using check_sound check_complete by (metis (full_types) prod.collapse)

lemma check_guids: "length m < 256 \<Longrightarrow> map fst (snd (check m)) = map fst m"
proof -
  assume len: "length m < 256"
  show ?thesis
  proof (cases "check m")
    case (Pair b m')
    show ?thesis
    proof (cases b)
      case True
      then have "narrowing m m'" using check_sound [OF len] Pair by (simp add: roles_assigned_narrowing)
      with Pair show ?thesis by (auto simp: narrowing_def intro: nth_equalityI)
    next
      case False
      with check_failed [OF len] Pair show ?thesis by simp
    qed
  qed
qed

lemma check_counts:
  assumes "length m < 256" "check m = (True, m')"
  shows "length m' = length m"
    and "role_count PLAYER_ROLE_TANK m' + role_count PLAYER_ROLE_HEALER m' + role_count PLAYER_ROLE_DAMAGE m' = length m'"
proof -
  have a: "roles_assigned m m'" using check_sound [of m m'] assms by simp
  have one: "(if s AND 2 ^ 1 \<noteq> 0 then 1 else 0) + (if s AND 2 ^ 2 \<noteq> 0 then 1 else 0) +
      (if s AND 2 ^ 3 \<noteq> 0 then 1 else 0) = (1 :: nat)" if n: "role_narrowed r s" for r s
  proof -
    from n obtain k where k: "k \<in> {1, 2, 3}" "narrowed_to k r s" unfolding role_narrowed_bits by blast
    have "bit s j \<longleftrightarrow> j = k" if "j \<noteq> 0" for j using k(2) that by (simp add: narrowed_to_def)
    then have "bit s 1 \<longleftrightarrow> k = 1" "bit s 2 \<longleftrightarrow> k = 2" "bit s 3 \<longleftrightarrow> k = 3" by auto
    with k(1) show ?thesis unfolding and_flag by auto
  qed
  have "list_all (\<lambda>(g, s). \<exists>r. role_narrowed r s) m'"
  proof -
    have n: "narrowing m m'" using a by (simp add: roles_assigned_narrowing)
    have "\<exists>r. role_narrowed r (snd p)" if "p \<in> set m'" for p
    proof -
      from that obtain i where "i < length m'" "p = m' ! i" by (metis in_set_conv_nth)
      with n have "role_narrowed (role_at m i) (snd p)" by (simp add: narrowing_def role_at_def)
      then show ?thesis by (rule exI)
    qed
    then show ?thesis by (simp add: list_all_iff case_prod_beta)
  qed
  then show "role_count PLAYER_ROLE_TANK m' + role_count PLAYER_ROLE_HEALER m' + role_count PLAYER_ROLE_DAMAGE m' = length m'"
    unfolding lfg_flags
  proof (induction m')
    case (Cons p m')
    obtain g s where p: "p = (g, s)" by force
    have c: "role_count x (p # m') = (if s AND x \<noteq> 0 then 1 else 0) + role_count x m'" for x
      by (simp add: role_count_def p)
    obtain r where "role_narrowed r s" using Cons.prems by (auto simp: p)
    note one [OF this]
    moreover have "role_count (2 ^ 1) m' + role_count (2 ^ 2) m' + role_count (2 ^ 3) m' = length m'"
      using Cons by simp
    moreover note c [of "2 ^ 1"] c [of "2 ^ 2"] c [of "2 ^ 3"]
    ultimately show ?case unfolding list.size by linarith
  qed (simp add: role_count_def)
  show "length m' = length m" using a by (simp add: roles_assigned_narrowing narrowing_def)
qed

lemma check_full_group:
  assumes "length m = 5" "check m = (True, m')"
  shows "role_count PLAYER_ROLE_TANK m' = 1 \<and> role_count PLAYER_ROLE_HEALER m' = 1 \<and> role_count PLAYER_ROLE_DAMAGE m' = 3"
  using check_counts [of m m'] check_sound [of m m'] assms
  unfolding roles_assigned_def LFG_TANKS_NEEDED_def LFG_HEALERS_NEEDED_def LFG_DPS_NEEDED_def by linarith

lemma check_at_most_five:
  assumes "length m < 256" "check m = (True, m')"
  shows "length m \<le> 5"
  using check_counts [OF assms] check_sound [OF assms]
  unfolding roles_assigned_def LFG_TANKS_NEEDED_def LFG_HEALERS_NEEDED_def LFG_DPS_NEEDED_def by linarith

end

interpretation lfg_check: role_check CheckGroupRoles
proof unfold_locales
  fix m m' :: LfgRolesMap assume m: "length m < 256"
  from CheckGroupRoles_ok [OF m] show "CheckGroupRoles m = (True, m') \<Longrightarrow> roles_assigned m m'"
    by (simp add: cgr_result_ok_def)
  from CheckGroupRoles_ok [OF m] show "roles_assigned m m' \<Longrightarrow> fst (CheckGroupRoles m)"
    by (auto simp: cgr_result_ok_def formable_def split: if_splits)
  from CheckGroupRoles_ok [OF m] show "CheckGroupRoles m = (False, m') \<Longrightarrow> m' = m"
    by (simp add: cgr_result_ok_def)
qed

text \<open>C9: the search of \<open>CheckGroupRoles\<close> always ends; it succeeds exactly if everybody can be given one of the
  roles they chose with at most one tank, one healer and three damage dealers; it then leaves such a choice in
  the map, and otherwise the map as it was.\<close>

theorem CheckGroupRoles_correct:
  assumes "length m < 256"
  shows "CheckGroupRoles_fuel (Suc (roles_weight m)) m = Some (CheckGroupRoles m) \<and>
    (fst (CheckGroupRoles m) \<longleftrightarrow> (\<exists>m'. roles_assigned m m')) \<and>
    (fst (CheckGroupRoles m) \<longrightarrow> roles_assigned m (snd (CheckGroupRoles m))) \<and>
    (\<not> fst (CheckGroupRoles m) \<longrightarrow> snd (CheckGroupRoles m) = m)"
proof -
  obtain p where "CheckGroupRoles_fuel (Suc (roles_weight m)) m = Some p"
    using CheckGroupRoles_fuel_ok [OF assms, of "Suc (roles_weight m)"] by auto
  then show ?thesis
    using CheckGroupRoles_ok [OF assms] lfg_check.check_iff [OF assms]
    by (auto simp: CheckGroupRoles_def cgr_result_ok_def split: if_splits)
qed

definition demo_roles :: "u8 list \<Rightarrow> LfgRolesMap" where
  "demo_roles rs = map (\<lambda>(n, r). (ObjectGuid (of_nat n) 0, r)) (zip [1..<Suc (length rs)] rs)"

theorem CheckGroupRoles_correct_witness:
  "fst (CheckGroupRoles (demo_roles [0x0A, 0x06, 0x0D, 0x0A, 0x08])) \<and>
   roles_assigned (demo_roles [0x0A, 0x06, 0x0D, 0x0A, 0x08]) (snd (CheckGroupRoles (demo_roles [0x0A, 0x06, 0x0D, 0x0A, 0x08])))"
proof -
  have "roles_assigned (demo_roles [0x0A, 0x06, 0x0D, 0x0A, 0x08]) (demo_roles [0x08, 0x02, 0x05, 0x08, 0x08])"
    by (simp add: roles_assigned_def demo_roles_def role_narrowed_def lfg_roles_def role_count_def upt_rec
        PLAYER_ROLE_TANK_def PLAYER_ROLE_HEALER_def PLAYER_ROLE_DAMAGE_def PLAYER_ROLE_LEADER_def
        LFG_TANKS_NEEDED_def LFG_HEALERS_NEEDED_def LFG_DPS_NEEDED_def)
  with CheckGroupRoles_correct [of "demo_roles [0x0A, 0x06, 0x0D, 0x0A, 0x08]"] show ?thesis
    by (auto simp: demo_roles_def)
qed

end
