(* ===== verification/LFGData.thy ===== *)
theory LFGData
  imports Complex_Main LFGRoles "HOL-Library.List_Lexorder" "HOL-Library.Char_ord"
begin

section \<open>Dungeon finder: data (game/DungeonFinding/LFGGroupData, LFGPlayerData, LFGMgr.h, LFGQueue.h)\<close>

text \<open>
  What the dungeon finder knows: the state of every player and group, the queues, the role checks,
  proposals and kick votes under way. \<open>PlayersStore\<close> and \<open>GroupsStore\<close> are read with \<open>operator[]\<close>, which
  makes a default entry for a missing key; as nothing else tells a missing entry from a default one, they
  are total functions here, and erasing an entry makes it the default. The ordered maps are ordered
  association lists. Packets to players are events in the order they are sent; \<open>lm_draws\<close> numbers the random
  draws, whose results are part of the world.
\<close>

subsection \<open>Enumerations\<close>

datatype LfgState = LFG_STATE_NONE | LFG_STATE_ROLECHECK | LFG_STATE_QUEUED | LFG_STATE_PROPOSAL
  | LFG_STATE_DUNGEON | LFG_STATE_FINISHED_DUNGEON | LFG_STATE_RAIDBROWSER

datatype LfgUpdateType = LFG_UPDATETYPE_DEFAULT | LFG_UPDATETYPE_LEADER_UNK1 | LFG_UPDATETYPE_ROLECHECK_ABORTED
  | LFG_UPDATETYPE_JOIN_QUEUE | LFG_UPDATETYPE_ROLECHECK_FAILED | LFG_UPDATETYPE_REMOVED_FROM_QUEUE
  | LFG_UPDATETYPE_PROPOSAL_FAILED | LFG_UPDATETYPE_PROPOSAL_DECLINED | LFG_UPDATETYPE_GROUP_FOUND
  | LFG_UPDATETYPE_ADDED_TO_QUEUE | LFG_UPDATETYPE_SUSPENDED_QUEUE | LFG_UPDATETYPE_PROPOSAL_BEGIN
  | LFG_UPDATETYPE_UPDATE_STATUS | LFG_UPDATETYPE_GROUP_MEMBER_OFFLINE | LFG_UPDATETYPE_GROUP_DISBAND_UNK16
  | LFG_UPDATETYPE_JOIN_QUEUE_INITIAL | LFG_UPDATETYPE_DUNGEON_FINISHED | LFG_UPDATETYPE_PARTY_ROLE_NOT_AVAILABLE
  | LFG_UPDATETYPE_JOIN_LFG_OBJECT_FAILED | LFG_UPDATETYPE_REMOVED_LEVELUP | LFG_UPDATETYPE_REMOVED_XP_TOGGLE
  | LFG_UPDATETYPE_REMOVED_FACTION_CHANGE

datatype LfgAnswer = LFG_ANSWER_PENDING | LFG_ANSWER_DENY | LFG_ANSWER_AGREE

datatype LfgProposalState = LFG_PROPOSAL_INITIATING | LFG_PROPOSAL_FAILED | LFG_PROPOSAL_SUCCESS

datatype LfgRoleCheckState = LFG_ROLECHECK_DEFAULT | LFG_ROLECHECK_FINISHED | LFG_ROLECHECK_INITIALITING
  | LFG_ROLECHECK_MISSING_ROLE | LFG_ROLECHECK_WRONG_ROLES | LFG_ROLECHECK_ABORTED | LFG_ROLECHECK_NO_ROLE

datatype LfgJoinResult = LFG_JOIN_OK | LFG_JOIN_GROUP_FULL | LFG_JOIN_NO_LFG_OBJECT | LFG_JOIN_NO_SLOTS_PLAYER
  | LFG_JOIN_MISMATCHED_SLOTS | LFG_JOIN_PARTY_PLAYERS_FROM_DIFFERENT_REALMS | LFG_JOIN_MEMBERS_NOT_PRESENT
  | LFG_JOIN_GET_INFO_TIMEOUT | LFG_JOIN_INVALID_SLOT | LFG_JOIN_DESERTER_PLAYER | LFG_JOIN_DESERTER_PARTY
  | LFG_JOIN_RANDOM_COOLDOWN_PLAYER | LFG_JOIN_RANDOM_COOLDOWN_PARTY | LFG_JOIN_TOO_MANY_MEMBERS
  | LFG_JOIN_CANT_USE_DUNGEONS | LFG_JOIN_ROLE_CHECK_FAILED | LFG_JOIN_TOO_FEW_MEMBERS
  | LFG_JOIN_REASON_TOO_MANY_LFG | LFG_JOIN_MISMATCHED_SLOTS_LOCAL_XREALM | LFG_JOIN_ALREADY_USING_LFG_LIST
  | LFG_JOIN_NOT_LEADER | LFG_JOIN_DEAD | LFG_JOIN_PARTY_NOT_MEET_REQS

datatype LfgCompatibility = LFG_COMPATIBILITY_PENDING | LFG_INCOMPATIBLES_WRONG_GROUP_SIZE
  | LFG_INCOMPATIBLES_TOO_MUCH_PLAYERS | LFG_INCOMPATIBLES_MULTIPLE_LFG_GROUPS | LFG_INCOMPATIBLES_HAS_IGNORES
  | LFG_INCOMPATIBLES_NO_ROLES | LFG_INCOMPATIBLES_NO_DUNGEONS | LFG_COMPATIBLES_WITH_LESS_PLAYERS
  | LFG_COMPATIBLES_BAD_STATES | LFG_COMPATIBLES_MATCH

text \<open>The code compares the values of the enumeration: everything before
  \<open>LFG_COMPATIBLES_WITH_LESS_PLAYERS\<close> means not compatible.\<close>

fun LfgCompatibility_not_compatible :: "LfgCompatibility \<Rightarrow> bool" where
  "LfgCompatibility_not_compatible LFG_COMPATIBLES_WITH_LESS_PLAYERS = False"
| "LfgCompatibility_not_compatible LFG_COMPATIBLES_BAD_STATES = False"
| "LfgCompatibility_not_compatible LFG_COMPATIBLES_MATCH = False"
| "LfgCompatibility_not_compatible _ = True"

definition MAX_GROUP_SIZE :: nat where "MAX_GROUP_SIZE = 5"
definition LFG_TIME_ROLECHECK :: int where "LFG_TIME_ROLECHECK = 45"
definition LFG_TIME_BOOT :: int where "LFG_TIME_BOOT = 120"
definition LFG_TIME_PROPOSAL :: int where "LFG_TIME_PROPOSAL = 45"
definition LFG_QUEUEUPDATE_INTERVAL :: u32 where "LFG_QUEUEUPDATE_INTERVAL = 15 * 1000"
definition LFG_GROUP_KICK_VOTES_NEEDED :: nat where "LFG_GROUP_KICK_VOTES_NEEDED = 3"
definition LFG_GROUP_MAX_KICKS :: u8 where "LFG_GROUP_MAX_KICKS = 3"

type_synonym LfgDungeonSet = "u32 list"
type_synonym LfgAnswerContainer = "(ObjectGuid \<times> LfgAnswer) list"
type_synonym LfgGroupsMap = "(ObjectGuid \<times> ObjectGuid) list"

subsection \<open>Group data\<close>

record LfgGroupData =
  gd_State :: LfgState
  gd_OldState :: LfgState
  gd_Leader :: ObjectGuid
  gd_Players :: "ObjectGuid list"
  gd_Dungeon :: u32
  gd_KicksLeft :: u8
  gd_VoteKickActive :: bool

definition LfgGroupData_init :: LfgGroupData where
  "LfgGroupData_init = \<lparr>gd_State = LFG_STATE_NONE, gd_OldState = LFG_STATE_NONE, gd_Leader = ObjectGuid_Empty,
     gd_Players = [], gd_Dungeon = 0, gd_KicksLeft = LFG_GROUP_MAX_KICKS, gd_VoteKickActive = False\<rparr>"

definition LfgGroupData_IsLfgGroup :: "LfgGroupData \<Rightarrow> bool" where
  "LfgGroupData_IsLfgGroup d = (gd_OldState d \<noteq> LFG_STATE_NONE)"

definition LfgGroupData_SetState :: "LfgState \<Rightarrow> LfgGroupData \<Rightarrow> LfgGroupData" where
  "LfgGroupData_SetState state d =
     (let d1 = (if state = LFG_STATE_NONE then d\<lparr>gd_Dungeon := 0, gd_KicksLeft := LFG_GROUP_MAX_KICKS\<rparr> else d);
          d2 = (if state \<in> {LFG_STATE_NONE, LFG_STATE_FINISHED_DUNGEON, LFG_STATE_DUNGEON}
                then d1\<lparr>gd_OldState := state\<rparr> else d1)
      in d2\<lparr>gd_State := state\<rparr>)"

definition LfgGroupData_RestoreState :: "LfgGroupData \<Rightarrow> LfgGroupData" where
  "LfgGroupData_RestoreState d = d\<lparr>gd_State := gd_OldState d\<rparr>"

definition LfgGroupData_AddPlayer :: "ObjectGuid \<Rightarrow> LfgGroupData \<Rightarrow> LfgGroupData" where
  "LfgGroupData_AddPlayer guid d = d\<lparr>gd_Players := List.insort_insert guid (gd_Players d)\<rparr>"

definition LfgGroupData_RemovePlayer :: "ObjectGuid \<Rightarrow> LfgGroupData \<Rightarrow> u8 \<times> LfgGroupData" where
  "LfgGroupData_RemovePlayer guid d =
     (let d1 = d\<lparr>gd_Players := filter (\<lambda>g. g \<noteq> guid) (gd_Players d)\<rparr> in (of_nat (length (gd_Players d1)), d1))"

definition LfgGroupData_RemoveAllPlayers :: "LfgGroupData \<Rightarrow> LfgGroupData" where
  "LfgGroupData_RemoveAllPlayers d = d\<lparr>gd_Players := []\<rparr>"

definition LfgGroupData_SetLeader :: "ObjectGuid \<Rightarrow> LfgGroupData \<Rightarrow> LfgGroupData" where
  "LfgGroupData_SetLeader guid d = d\<lparr>gd_Leader := guid\<rparr>"

definition LfgGroupData_SetDungeon :: "u32 \<Rightarrow> LfgGroupData \<Rightarrow> LfgGroupData" where
  "LfgGroupData_SetDungeon dungeon d = d\<lparr>gd_Dungeon := dungeon\<rparr>"

definition LfgGroupData_DecreaseKicksLeft :: "LfgGroupData \<Rightarrow> LfgGroupData" where
  "LfgGroupData_DecreaseKicksLeft d =
     (if gd_KicksLeft d \<noteq> 0 then d\<lparr>gd_KicksLeft := gd_KicksLeft d - 1\<rparr> else d)"

definition LfgGroupData_GetPlayerCount :: "LfgGroupData \<Rightarrow> u8" where
  "LfgGroupData_GetPlayerCount d = of_nat (length (gd_Players d))"

definition LfgGroupData_GetDungeon :: "bool \<Rightarrow> LfgGroupData \<Rightarrow> u32" where
  "LfgGroupData_GetDungeon asId d = (if asId then gd_Dungeon d AND 0x00FFFFFF else gd_Dungeon d)"

definition LfgGroupData_SetVoteKick :: "bool \<Rightarrow> LfgGroupData \<Rightarrow> LfgGroupData" where
  "LfgGroupData_SetVoteKick active d = d\<lparr>gd_VoteKickActive := active\<rparr>"

subsection \<open>Player data\<close>

datatype RideType = RideType_None | RideType_Battlegrounds | RideType_Lfg

record RideTicket =
  rt_RequesterGuid :: ObjectGuid
  rt_Id :: u32
  rt_Type :: RideType
  rt_Time :: u32

definition RideTicket_init :: RideTicket where
  "RideTicket_init = \<lparr>rt_RequesterGuid = ObjectGuid_Empty, rt_Id = 0, rt_Type = RideType_None, rt_Time = 0\<rparr>"

record LfgPlayerData =
  pd_Ticket :: RideTicket
  pd_State :: LfgState
  pd_OldState :: LfgState
  pd_Team :: u8
  pd_Group :: ObjectGuid
  pd_Roles :: u8
  pd_SelectedDungeons :: LfgDungeonSet

definition LfgPlayerData_init :: LfgPlayerData where
  "LfgPlayerData_init = \<lparr>pd_Ticket = RideTicket_init, pd_State = LFG_STATE_NONE, pd_OldState = LFG_STATE_NONE,
     pd_Team = 0, pd_Group = ObjectGuid_Empty, pd_Roles = 0, pd_SelectedDungeons = []\<rparr>"

definition LfgPlayerData_SetState :: "LfgState \<Rightarrow> LfgPlayerData \<Rightarrow> LfgPlayerData" where
  "LfgPlayerData_SetState state d =
     (let d1 = (if state \<in> {LFG_STATE_NONE, LFG_STATE_FINISHED_DUNGEON}
                then d\<lparr>pd_Roles := 0, pd_SelectedDungeons := []\<rparr> else d);
          d2 = (if state \<in> {LFG_STATE_NONE, LFG_STATE_FINISHED_DUNGEON, LFG_STATE_DUNGEON}
                then d1\<lparr>pd_OldState := state\<rparr> else d1)
      in d2\<lparr>pd_State := state\<rparr>)"

definition LfgPlayerData_RestoreState :: "LfgPlayerData \<Rightarrow> LfgPlayerData" where
  "LfgPlayerData_RestoreState d =
     (let d1 = (if pd_OldState d = LFG_STATE_NONE then d\<lparr>pd_SelectedDungeons := [], pd_Roles := 0\<rparr> else d)
      in d1\<lparr>pd_State := pd_OldState d1\<rparr>)"

subsection \<open>Queues\<close>

record LfgCompatibilityData =
  cd_compatibility :: LfgCompatibility
  cd_roles :: LfgRolesMap

definition LfgCompatibilityData_init :: "LfgCompatibility \<Rightarrow> LfgCompatibilityData" where
  "LfgCompatibilityData_init c = \<lparr>cd_compatibility = c, cd_roles = []\<rparr>"

record LfgQueueData =
  qd_joinTime :: int
  qd_tanks :: u8
  qd_healers :: u8
  qd_dps :: u8
  qd_dungeons :: LfgDungeonSet
  qd_roles :: LfgRolesMap
  qd_bestCompatible :: string

definition LfgQueueData_init :: "int \<Rightarrow> LfgDungeonSet \<Rightarrow> LfgRolesMap \<Rightarrow> LfgQueueData" where
  "LfgQueueData_init joinTime dungeons roles =
     \<lparr>qd_joinTime = joinTime, qd_tanks = of_nat LFG_TANKS_NEEDED, qd_healers = of_nat LFG_HEALERS_NEEDED,
      qd_dps = of_nat LFG_DPS_NEEDED, qd_dungeons = dungeons, qd_roles = roles, qd_bestCompatible = []\<rparr>"

record LfgWaitTime =
  wt_time :: u32
  wt_number :: u32

definition LfgWaitTime_init :: LfgWaitTime where
  "LfgWaitTime_init = \<lparr>wt_time = - 1, wt_number = 0\<rparr>"

type_synonym LfgWaitTimesContainer = "u32 \<Rightarrow> LfgWaitTime"

record LFGQueue =
  lq_QueueDataStore :: "(ObjectGuid \<times> LfgQueueData) list"
  lq_CompatibleMapStore :: "(string \<times> LfgCompatibilityData) list"
  lq_waitTimesAvgStore :: LfgWaitTimesContainer
  lq_waitTimesTankStore :: LfgWaitTimesContainer
  lq_waitTimesHealerStore :: LfgWaitTimesContainer
  lq_waitTimesDpsStore :: LfgWaitTimesContainer
  lq_currentQueueStore :: "ObjectGuid list"
  lq_newToQueueStore :: "ObjectGuid list"

definition LFGQueue_init :: LFGQueue where
  "LFGQueue_init = \<lparr>lq_QueueDataStore = [], lq_CompatibleMapStore = [],
     lq_waitTimesAvgStore = (\<lambda>_. LfgWaitTime_init), lq_waitTimesTankStore = (\<lambda>_. LfgWaitTime_init),
     lq_waitTimesHealerStore = (\<lambda>_. LfgWaitTime_init), lq_waitTimesDpsStore = (\<lambda>_. LfgWaitTime_init),
     lq_currentQueueStore = [], lq_newToQueueStore = []\<rparr>"

subsection \<open>Role checks, proposals, kick votes and packets\<close>

record LfgQueueStatusData =
  qs_queueId :: u8
  qs_dungeonId :: u32
  qs_waitTime :: u32
  qs_waitTimeAvg :: u32
  qs_waitTimeTank :: u32
  qs_waitTimeHealer :: u32
  qs_waitTimeDps :: u32
  qs_queuedTime :: u32
  qs_tanks :: u8
  qs_healers :: u8
  qs_dps :: u8

record LfgUpdateData =
  ud_updateType :: LfgUpdateType
  ud_state :: LfgState
  ud_dungeons :: LfgDungeonSet

definition LfgUpdateData_init :: "LfgUpdateType \<Rightarrow> LfgDungeonSet \<Rightarrow> LfgUpdateData" where
  "LfgUpdateData_init t dungeons = \<lparr>ud_updateType = t, ud_state = LFG_STATE_NONE, ud_dungeons = dungeons\<rparr>"

record LfgLockInfoData =
  li_lockStatus :: u32
  li_requiredItemLevel :: u16
  li_currentItemLevel :: rat

type_synonym LfgLockMap = "(u32 \<times> LfgLockInfoData) list"
type_synonym LfgLockPartyMap = "(ObjectGuid \<times> LfgLockMap) list"

record LfgJoinResultData =
  jr_result :: LfgJoinResult
  jr_state :: LfgRoleCheckState
  jr_lockmap :: LfgLockPartyMap

definition LfgJoinResultData_init :: "LfgJoinResult \<Rightarrow> LfgRoleCheckState \<Rightarrow> LfgJoinResultData" where
  "LfgJoinResultData_init r st = \<lparr>jr_result = r, jr_state = st, jr_lockmap = []\<rparr>"

record LfgProposalPlayer =
  pp_role :: u8
  pp_accept :: LfgAnswer
  pp_group :: ObjectGuid

record LfgProposal =
  pr_id :: u32
  pr_dungeonId :: u32
  pr_state :: LfgProposalState
  pr_group :: ObjectGuid
  pr_leader :: ObjectGuid
  pr_cancelTime :: int
  pr_encounters :: u32
  pr_isNew :: bool
  pr_queues :: "ObjectGuid list"
  pr_showorder :: "ObjectGuid list"
  pr_players :: "(ObjectGuid \<times> LfgProposalPlayer) list"

definition LfgProposal_init :: "u32 \<Rightarrow> LfgProposal" where
  "LfgProposal_init dungeon = \<lparr>pr_id = 0, pr_dungeonId = dungeon, pr_state = LFG_PROPOSAL_INITIATING,
     pr_group = ObjectGuid_Empty, pr_leader = ObjectGuid_Empty, pr_cancelTime = 0, pr_encounters = 0,
     pr_isNew = True, pr_queues = [], pr_showorder = [], pr_players = []\<rparr>"

record LfgRoleCheck =
  rc_cancelTime :: int
  rc_roles :: LfgRolesMap
  rc_state :: LfgRoleCheckState
  rc_dungeons :: LfgDungeonSet
  rc_rDungeonId :: u32
  rc_leader :: ObjectGuid

record LfgPlayerBoot =
  bt_cancelTime :: int
  bt_inProgress :: bool
  bt_votes :: LfgAnswerContainer
  bt_victim :: ObjectGuid
  bt_reason :: string

datatype lfg_event =
    SendRoleChosen ObjectGuid ObjectGuid u8
  | SendRoleCheckUpdate ObjectGuid LfgRoleCheck
  | SendUpdateStatus ObjectGuid LfgUpdateData bool
  | SendJoinResult ObjectGuid LfgJoinResultData
  | SendBootProposalUpdate ObjectGuid LfgPlayerBoot
  | SendUpdateProposal ObjectGuid LfgProposal
  | SendQueueStatus ObjectGuid LfgQueueStatusData
  | KickFromGroup ObjectGuid ObjectGuid
  | MakeGroup LfgProposal
  | SendOfferContinue ObjectGuid u32
  | SendPlayerReward ObjectGuid u32 u32 bool u32
  | TeleportPlayer ObjectGuid bool
  | TeleportHome ObjectGuid
  | CastSpell ObjectGuid u32
  | RemoveAuras ObjectGuid u32
  | SendNameQuery ObjectGuid ObjectGuid
  | DisbandGroup ObjectGuid
  | UpdateCriteria ObjectGuid
  | RewardQuest ObjectGuid u32
  | SaveLfgData ObjectGuid u32 LfgState

subsection \<open>The manager and the world around it\<close>

text \<open>The world: the clock, the results of the random draws, who is connected and who is also in the world
  and in a dungeon, whose social list ignores whom, and which groups exist.\<close>

record LfgWorld =
  lw_time :: int
  lw_draw :: "nat \<Rightarrow> nat"
  lw_connected :: "ObjectGuid \<Rightarrow> bool"
  lw_ignores :: "ObjectGuid \<Rightarrow> ObjectGuid \<Rightarrow> bool"
  lw_in_world :: "ObjectGuid \<Rightarrow> bool"
  lw_in_dungeon :: "ObjectGuid \<Rightarrow> bool"
  lw_group_exists :: "ObjectGuid \<Rightarrow> bool"

record LFGMgr =
  lm_QueueTimer :: u32
  lm_lfgProposalId :: u32
  lm_options :: u32
  lm_QueuesStore :: "(u8 \<times> LFGQueue) list"
  lm_RoleChecksStore :: "(ObjectGuid \<times> LfgRoleCheck) list"
  lm_ProposalsStore :: "(u32 \<times> LfgProposal) list"
  lm_BootsStore :: "(ObjectGuid \<times> LfgPlayerBoot) list"
  lm_PlayersStore :: "ObjectGuid \<Rightarrow> LfgPlayerData"
  lm_GroupsStore :: "ObjectGuid \<Rightarrow> LfgGroupData"
  lm_draws :: nat
  lm_sent :: "lfg_event list"

definition LFGMgr_init :: "u32 \<Rightarrow> LFGMgr" where
  "LFGMgr_init options = \<lparr>lm_QueueTimer = 0, lm_lfgProposalId = 1, lm_options = options, lm_QueuesStore = [],
     lm_RoleChecksStore = [], lm_ProposalsStore = [], lm_BootsStore = [],
     lm_PlayersStore = (\<lambda>_. LfgPlayerData_init), lm_GroupsStore = (\<lambda>_. LfgGroupData_init),
     lm_draws = 0, lm_sent = []\<rparr>"

definition ObjectGuid_IsParty :: "ObjectGuid \<Rightarrow> bool" where
  "ObjectGuid_IsParty g = (ObjectGuid_GetHigh g = HighGuid_Party)"

subsection \<open>Reading and writing the state of players and groups\<close>

definition LFGMgr_player :: "ObjectGuid \<Rightarrow> (LfgPlayerData \<Rightarrow> LfgPlayerData) \<Rightarrow> LFGMgr \<Rightarrow> LFGMgr" where
  "LFGMgr_player guid f m = m\<lparr>lm_PlayersStore := (lm_PlayersStore m)(guid := f (lm_PlayersStore m guid))\<rparr>"

definition LFGMgr_group :: "ObjectGuid \<Rightarrow> (LfgGroupData \<Rightarrow> LfgGroupData) \<Rightarrow> LFGMgr \<Rightarrow> LFGMgr" where
  "LFGMgr_group guid f m = m\<lparr>lm_GroupsStore := (lm_GroupsStore m)(guid := f (lm_GroupsStore m guid))\<rparr>"

definition LFGMgr_GetState :: "ObjectGuid \<Rightarrow> LFGMgr \<Rightarrow> LfgState" where
  "LFGMgr_GetState guid m =
     (if ObjectGuid_IsParty guid then gd_State (lm_GroupsStore m guid) else pd_State (lm_PlayersStore m guid))"

definition LFGMgr_GetOldState :: "ObjectGuid \<Rightarrow> LFGMgr \<Rightarrow> LfgState" where
  "LFGMgr_GetOldState guid m =
     (if ObjectGuid_IsParty guid then gd_OldState (lm_GroupsStore m guid) else pd_OldState (lm_PlayersStore m guid))"

definition LFGMgr_SetState :: "ObjectGuid \<Rightarrow> LfgState \<Rightarrow> LFGMgr \<Rightarrow> LFGMgr" where
  "LFGMgr_SetState guid state m =
     (if ObjectGuid_IsParty guid then LFGMgr_group guid (LfgGroupData_SetState state) m
      else LFGMgr_player guid (LfgPlayerData_SetState state) m)"

definition LFGMgr_RestoreState :: "ObjectGuid \<Rightarrow> LFGMgr \<Rightarrow> LFGMgr" where
  "LFGMgr_RestoreState guid m =
     (if ObjectGuid_IsParty guid then LFGMgr_group guid LfgGroupData_RestoreState m
      else LFGMgr_player guid LfgPlayerData_RestoreState m)"

definition LFGMgr_IsVoteKickActive :: "ObjectGuid \<Rightarrow> LFGMgr \<Rightarrow> bool" where
  "LFGMgr_IsVoteKickActive gguid m = gd_VoteKickActive (lm_GroupsStore m gguid)"

definition LFGMgr_SetVoteKick :: "ObjectGuid \<Rightarrow> bool \<Rightarrow> LFGMgr \<Rightarrow> LFGMgr" where
  "LFGMgr_SetVoteKick gguid active = LFGMgr_group gguid (LfgGroupData_SetVoteKick active)"

definition LFGMgr_GetDungeon :: "ObjectGuid \<Rightarrow> bool \<Rightarrow> LFGMgr \<Rightarrow> u32" where
  "LFGMgr_GetDungeon guid asId m = LfgGroupData_GetDungeon asId (lm_GroupsStore m guid)"

definition LFGMgr_SetDungeon :: "ObjectGuid \<Rightarrow> u32 \<Rightarrow> LFGMgr \<Rightarrow> LFGMgr" where
  "LFGMgr_SetDungeon guid dungeon = LFGMgr_group guid (LfgGroupData_SetDungeon dungeon)"

definition LFGMgr_GetRoles :: "ObjectGuid \<Rightarrow> LFGMgr \<Rightarrow> u8" where
  "LFGMgr_GetRoles guid m = pd_Roles (lm_PlayersStore m guid)"

definition LFGMgr_SetRoles :: "ObjectGuid \<Rightarrow> u8 \<Rightarrow> LFGMgr \<Rightarrow> LFGMgr" where
  "LFGMgr_SetRoles guid roles = LFGMgr_player guid (\<lambda>d. d\<lparr>pd_Roles := roles\<rparr>)"

definition LFGMgr_GetSelectedDungeons :: "ObjectGuid \<Rightarrow> LFGMgr \<Rightarrow> LfgDungeonSet" where
  "LFGMgr_GetSelectedDungeons guid m = pd_SelectedDungeons (lm_PlayersStore m guid)"

definition LFGMgr_SetSelectedDungeons :: "ObjectGuid \<Rightarrow> LfgDungeonSet \<Rightarrow> LFGMgr \<Rightarrow> LFGMgr" where
  "LFGMgr_SetSelectedDungeons guid dungeons = LFGMgr_player guid (\<lambda>d. d\<lparr>pd_SelectedDungeons := dungeons\<rparr>)"

definition LFGMgr_SetTicket :: "ObjectGuid \<Rightarrow> RideTicket \<Rightarrow> LFGMgr \<Rightarrow> LFGMgr" where
  "LFGMgr_SetTicket guid ticket = LFGMgr_player guid (\<lambda>d. d\<lparr>pd_Ticket := ticket\<rparr>)"

definition LFGMgr_GetKicksLeft :: "ObjectGuid \<Rightarrow> LFGMgr \<Rightarrow> u8" where
  "LFGMgr_GetKicksLeft guid m = gd_KicksLeft (lm_GroupsStore m guid)"

definition LFGMgr_DecreaseKicksLeft :: "ObjectGuid \<Rightarrow> LFGMgr \<Rightarrow> LFGMgr" where
  "LFGMgr_DecreaseKicksLeft guid = LFGMgr_group guid LfgGroupData_DecreaseKicksLeft"

definition LFGMgr_GetTeam :: "ObjectGuid \<Rightarrow> LFGMgr \<Rightarrow> u8" where
  "LFGMgr_GetTeam guid m = pd_Team (lm_PlayersStore m guid)"

definition LFGMgr_SetTeam :: "bool \<Rightarrow> ObjectGuid \<Rightarrow> u8 \<Rightarrow> LFGMgr \<Rightarrow> LFGMgr" where
  "LFGMgr_SetTeam two_side guid team =
     LFGMgr_player guid (\<lambda>d. d\<lparr>pd_Team := (if two_side then 0 else team)\<rparr>)"

definition LFGMgr_GetGroup :: "ObjectGuid \<Rightarrow> LFGMgr \<Rightarrow> ObjectGuid" where
  "LFGMgr_GetGroup guid m = pd_Group (lm_PlayersStore m guid)"

definition LFGMgr_SetGroup :: "ObjectGuid \<Rightarrow> ObjectGuid \<Rightarrow> LFGMgr \<Rightarrow> LFGMgr" where
  "LFGMgr_SetGroup guid grp = LFGMgr_player guid (\<lambda>d. d\<lparr>pd_Group := grp\<rparr>)"

definition LFGMgr_GetPlayers :: "ObjectGuid \<Rightarrow> LFGMgr \<Rightarrow> ObjectGuid list" where
  "LFGMgr_GetPlayers guid m = gd_Players (lm_GroupsStore m guid)"

definition LFGMgr_GetPlayerCount :: "ObjectGuid \<Rightarrow> LFGMgr \<Rightarrow> u8" where
  "LFGMgr_GetPlayerCount guid m = LfgGroupData_GetPlayerCount (lm_GroupsStore m guid)"

definition LFGMgr_GetLeader :: "ObjectGuid \<Rightarrow> LFGMgr \<Rightarrow> ObjectGuid" where
  "LFGMgr_GetLeader guid m = gd_Leader (lm_GroupsStore m guid)"

definition LFGMgr_SetLeader :: "ObjectGuid \<Rightarrow> ObjectGuid \<Rightarrow> LFGMgr \<Rightarrow> LFGMgr" where
  "LFGMgr_SetLeader gguid leader = LFGMgr_group gguid (LfgGroupData_SetLeader leader)"

definition LFGMgr_AddPlayerToGroup :: "ObjectGuid \<Rightarrow> ObjectGuid \<Rightarrow> LFGMgr \<Rightarrow> LFGMgr" where
  "LFGMgr_AddPlayerToGroup gguid guid = LFGMgr_group gguid (LfgGroupData_AddPlayer guid)"

definition LFGMgr_RemovePlayerFromGroup :: "ObjectGuid \<Rightarrow> ObjectGuid \<Rightarrow> LFGMgr \<Rightarrow> u8 \<times> LFGMgr" where
  "LFGMgr_RemovePlayerFromGroup gguid guid m =
     (case LfgGroupData_RemovePlayer guid (lm_GroupsStore m gguid) of
        (n, d) \<Rightarrow> (n, LFGMgr_group gguid (\<lambda>_. d) m))"

definition LFGMgr_RemovePlayerData :: "ObjectGuid \<Rightarrow> LFGMgr \<Rightarrow> LFGMgr" where
  "LFGMgr_RemovePlayerData guid = LFGMgr_player guid (\<lambda>_. LfgPlayerData_init)"

definition LFGMgr_IsLfgGroup :: "ObjectGuid \<Rightarrow> LFGMgr \<Rightarrow> bool" where
  "LFGMgr_IsLfgGroup guid m =
     (\<not> ObjectGuid_IsEmpty guid \<and> ObjectGuid_IsParty guid \<and> LfgGroupData_IsLfgGroup (lm_GroupsStore m guid))"

definition LFGMgr_GetQueueId :: "ObjectGuid \<Rightarrow> LFGMgr \<Rightarrow> u8" where
  "LFGMgr_GetQueueId guid m =
     (let players = LFGMgr_GetPlayers guid m;
          pguid = (if players = [] then ObjectGuid_Empty else hd players)
      in if ObjectGuid_IsParty guid \<and> \<not> ObjectGuid_IsEmpty pguid then LFGMgr_GetTeam pguid m
         else LFGMgr_GetTeam guid m)"

fun LFGMgr_all_queued :: "ObjectGuid list \<Rightarrow> LFGMgr \<Rightarrow> bool" where
  "LFGMgr_all_queued [] m = True"
| "LFGMgr_all_queued (g # check) m = (LFGMgr_GetState g m = LFG_STATE_QUEUED \<and> LFGMgr_all_queued check m)"

definition LFGMgr_AllQueued :: "ObjectGuid list \<Rightarrow> LFGMgr \<Rightarrow> bool" where
  "LFGMgr_AllQueued check m = (check \<noteq> [] \<and> LFGMgr_all_queued check m)"

definition LFGMgr_HasIgnore :: "LfgWorld \<Rightarrow> ObjectGuid \<Rightarrow> ObjectGuid \<Rightarrow> bool" where
  "LFGMgr_HasIgnore w guid1 guid2 =
     (lw_connected w guid1 \<and> lw_connected w guid2 \<and> (lw_ignores w guid1 guid2 \<or> lw_ignores w guid2 guid1))"

definition LFGMgr_isOptionEnabled :: "u32 \<Rightarrow> LFGMgr \<Rightarrow> bool" where
  "LFGMgr_isOptionEnabled option m = (lm_options m AND option \<noteq> 0)"

definition LFGMgr_SetOptions :: "u32 \<Rightarrow> LFGMgr \<Rightarrow> LFGMgr" where
  "LFGMgr_SetOptions options m = m\<lparr>lm_options := options\<rparr>"

definition LFGMgr_Clean :: "LFGMgr \<Rightarrow> LFGMgr" where
  "LFGMgr_Clean m = m\<lparr>lm_QueuesStore := []\<rparr>"

definition LFGMgr_GetLfgStatus :: "ObjectGuid \<Rightarrow> LFGMgr \<Rightarrow> LfgUpdateData" where
  "LFGMgr_GetLfgStatus guid m =
     (let d = lm_PlayersStore m guid
      in \<lparr>ud_updateType = LFG_UPDATETYPE_UPDATE_STATUS, ud_state = pd_State d, ud_dungeons = pd_SelectedDungeons d\<rparr>)"

definition LFGMgr_SetupGroupMember :: "ObjectGuid \<Rightarrow> ObjectGuid \<Rightarrow> LFGMgr \<Rightarrow> LFGMgr" where
  "LFGMgr_SetupGroupMember guid gguid m =
     (let m1 = LFGMgr_SetSelectedDungeons guid [LFGMgr_GetDungeon gguid True m] m;
          m2 = LFGMgr_SetState guid (LFGMgr_GetState gguid m1) m1
      in LFGMgr_AddPlayerToGroup gguid guid (LFGMgr_SetGroup guid gguid m2))"

text \<open>A packet reaches a player only if it is connected.\<close>

definition LFGMgr_send :: "LfgWorld \<Rightarrow> ObjectGuid \<Rightarrow> lfg_event \<Rightarrow> LFGMgr \<Rightarrow> LFGMgr" where
  "LFGMgr_send w guid e m = (if lw_connected w guid then m\<lparr>lm_sent := lm_sent m @ [e]\<rparr> else m)"

definition SendLfgRoleChosen :: "LfgWorld \<Rightarrow> ObjectGuid \<Rightarrow> ObjectGuid \<Rightarrow> u8 \<Rightarrow> LFGMgr \<Rightarrow> LFGMgr" where
  "SendLfgRoleChosen w guid pguid roles = LFGMgr_send w guid (SendRoleChosen guid pguid roles)"

definition SendLfgRoleCheckUpdate :: "LfgWorld \<Rightarrow> ObjectGuid \<Rightarrow> LfgRoleCheck \<Rightarrow> LFGMgr \<Rightarrow> LFGMgr" where
  "SendLfgRoleCheckUpdate w guid roleCheck = LFGMgr_send w guid (SendRoleCheckUpdate guid roleCheck)"

definition SendLfgUpdateStatus :: "LfgWorld \<Rightarrow> ObjectGuid \<Rightarrow> LfgUpdateData \<Rightarrow> bool \<Rightarrow> LFGMgr \<Rightarrow> LFGMgr" where
  "SendLfgUpdateStatus w guid data party = LFGMgr_send w guid (SendUpdateStatus guid data party)"

definition SendLfgJoinResult :: "LfgWorld \<Rightarrow> ObjectGuid \<Rightarrow> LfgJoinResultData \<Rightarrow> LFGMgr \<Rightarrow> LFGMgr" where
  "SendLfgJoinResult w guid data = LFGMgr_send w guid (SendJoinResult guid data)"

definition SendLfgBootProposalUpdate :: "LfgWorld \<Rightarrow> ObjectGuid \<Rightarrow> LfgPlayerBoot \<Rightarrow> LFGMgr \<Rightarrow> LFGMgr" where
  "SendLfgBootProposalUpdate w guid boot = LFGMgr_send w guid (SendBootProposalUpdate guid boot)"

definition SendLfgUpdateProposal :: "LfgWorld \<Rightarrow> ObjectGuid \<Rightarrow> LfgProposal \<Rightarrow> LFGMgr \<Rightarrow> LFGMgr" where
  "SendLfgUpdateProposal w guid proposal = LFGMgr_send w guid (SendUpdateProposal guid proposal)"

definition SendLfgQueueStatus :: "LfgWorld \<Rightarrow> ObjectGuid \<Rightarrow> LfgQueueStatusData \<Rightarrow> LFGMgr \<Rightarrow> LFGMgr" where
  "SendLfgQueueStatus w guid data = LFGMgr_send w guid (SendQueueStatus guid data)"

definition LFGMgr_AddProposal :: "LfgProposal \<Rightarrow> LFGMgr \<Rightarrow> LFGMgr" where
  "LFGMgr_AddProposal proposal m =
     (let i = lm_lfgProposalId m + 1
      in m\<lparr>lm_lfgProposalId := i, lm_ProposalsStore := om_put i (proposal\<lparr>pr_id := i\<rparr>) (lm_ProposalsStore m)\<rparr>)"

text \<open>\<open>urand (lo, hi)\<close>: the next draw, brought into the range.\<close>

definition urand :: "LfgWorld \<Rightarrow> nat \<Rightarrow> nat \<Rightarrow> LFGMgr \<Rightarrow> nat \<times> LFGMgr" where
  "urand w lo hi m = (lo + lw_draw w (lm_draws m) mod (hi - lo + 1), m\<lparr>lm_draws := Suc (lm_draws m)\<rparr>)"

text \<open>The choice from an empty container is undefined here as it is in the code.\<close>

definition SelectRandomContainerElement :: "LfgWorld \<Rightarrow> 'a list \<Rightarrow> LFGMgr \<Rightarrow> 'a \<times> LFGMgr" where
  "SelectRandomContainerElement w xs m = (case urand w 0 (length xs - 1) m of (n, m1) \<Rightarrow> (xs ! n, m1))"

end
