(* ===== verification/LFGQueue.thy ===== *)
theory LFGQueue
  imports LFGData "HOL-Library.Sublist"
begin

section \<open>Dungeon finder: the queue (game/DungeonFinding/LFGQueue.cpp)\<close>

text \<open>
  A queue holds the data of everybody who queued (\<open>QueueDataStore\<close>), the guids not looked at yet and those
  looked at (\<open>newToQueueStore\<close>, \<open>currentQueueStore\<close>), and what it found out about combinations
  (\<open>CompatibleMapStore\<close>, keyed by the printed guids in order, separated by bars). \<open>FindGroups\<close> takes every
  new guid and tries to complete it to a full group with the queued ones; when \<open>CheckCompatibility\<close> finds a
  match it hands a proposal to the manager. The queue and the manager are separate arguments and results; the
  manager's own copy of the queues is not touched by these operations.
  Where the code changes an entry through an iterator, the operation here works on the data of the entry.
\<close>

subsection \<open>Keys\<close>

fun bar_join :: "ObjectGuid list \<Rightarrow> string" where
  "bar_join [] = []"
| "bar_join [g] = ObjectGuid_print g"
| "bar_join (g # h # gs) = ObjectGuid_print g @ CHR ''|'' # bar_join (h # gs)"

definition GuidSet_of :: "ObjectGuid list \<Rightarrow> ObjectGuid list" where
  "GuidSet_of check = fold List.insort_insert check []"

definition ConcatenateGuids :: "ObjectGuid list \<Rightarrow> string" where
  "ConcatenateGuids check = bar_join (GuidSet_of check)"

definition names_guid :: "ObjectGuid \<Rightarrow> string \<Rightarrow> bool" where
  "names_guid guid key = sublist (ObjectGuid_print guid) key"

subsection \<open>The lists of a queue\<close>

definition LFGQueue_AddToNewQueue :: "ObjectGuid \<Rightarrow> LFGQueue \<Rightarrow> LFGQueue" where
  "LFGQueue_AddToNewQueue guid q = q\<lparr>lq_newToQueueStore := lq_newToQueueStore q @ [guid]\<rparr>"

definition LFGQueue_RemoveFromNewQueue :: "ObjectGuid \<Rightarrow> LFGQueue \<Rightarrow> LFGQueue" where
  "LFGQueue_RemoveFromNewQueue guid q = q\<lparr>lq_newToQueueStore := removeAll guid (lq_newToQueueStore q)\<rparr>"

definition LFGQueue_AddToCurrentQueue :: "ObjectGuid \<Rightarrow> LFGQueue \<Rightarrow> LFGQueue" where
  "LFGQueue_AddToCurrentQueue guid q = q\<lparr>lq_currentQueueStore := lq_currentQueueStore q @ [guid]\<rparr>"

definition LFGQueue_AddToFrontCurrentQueue :: "ObjectGuid \<Rightarrow> LFGQueue \<Rightarrow> LFGQueue" where
  "LFGQueue_AddToFrontCurrentQueue guid q = q\<lparr>lq_currentQueueStore := guid # lq_currentQueueStore q\<rparr>"

definition LFGQueue_RemoveFromCurrentQueue :: "ObjectGuid \<Rightarrow> LFGQueue \<Rightarrow> LFGQueue" where
  "LFGQueue_RemoveFromCurrentQueue guid q = q\<lparr>lq_currentQueueStore := removeAll guid (lq_currentQueueStore q)\<rparr>"

definition LFGQueue_AddToQueue :: "ObjectGuid \<Rightarrow> bool \<Rightarrow> LFGQueue \<Rightarrow> LFGQueue" where
  "LFGQueue_AddToQueue guid reAdd q =
     (if map_of (lq_QueueDataStore q) guid = None then q
      else if reAdd then LFGQueue_AddToFrontCurrentQueue guid q
      else LFGQueue_AddToNewQueue guid q)"

definition LFGQueue_AddQueueData :: "ObjectGuid \<Rightarrow> int \<Rightarrow> LfgDungeonSet \<Rightarrow> LfgRolesMap \<Rightarrow> LFGQueue \<Rightarrow> LFGQueue" where
  "LFGQueue_AddQueueData guid joinTime dungeons rolesMap q =
     LFGQueue_AddToQueue guid False
       (q\<lparr>lq_QueueDataStore := om_put guid (LfgQueueData_init joinTime dungeons rolesMap) (lq_QueueDataStore q)\<rparr>)"

definition LFGQueue_RemoveQueueData :: "ObjectGuid \<Rightarrow> LFGQueue \<Rightarrow> LFGQueue" where
  "LFGQueue_RemoveQueueData guid q = q\<lparr>lq_QueueDataStore := om_del guid (lq_QueueDataStore q)\<rparr>"

definition LFGQueue_GetJoinTime :: "ObjectGuid \<Rightarrow> LFGQueue \<Rightarrow> int" where
  "LFGQueue_GetJoinTime guid q =
     (case map_of (lq_QueueDataStore q) guid of Some d \<Rightarrow> qd_joinTime d | None \<Rightarrow> 0)"

subsection \<open>Wait times\<close>

text \<open>The running average: the product and the sum are unsigned, as one factor is.\<close>

definition wait_time_add :: "u32 \<Rightarrow> LfgWaitTime \<Rightarrow> LfgWaitTime" where
  "wait_time_add waitTime wt =
     (let old_number = wt_number wt; number = old_number + 1
      in \<lparr>wt_time = (wt_time wt * old_number + waitTime) div number, wt_number = number\<rparr>)"

definition LFGQueue_UpdateWaitTimeAvg :: "u32 \<Rightarrow> u32 \<Rightarrow> LFGQueue \<Rightarrow> LFGQueue" where
  "LFGQueue_UpdateWaitTimeAvg waitTime dungeonId q =
     q\<lparr>lq_waitTimesAvgStore := (lq_waitTimesAvgStore q)(dungeonId := wait_time_add waitTime (lq_waitTimesAvgStore q dungeonId))\<rparr>"

definition LFGQueue_UpdateWaitTimeTank :: "u32 \<Rightarrow> u32 \<Rightarrow> LFGQueue \<Rightarrow> LFGQueue" where
  "LFGQueue_UpdateWaitTimeTank waitTime dungeonId q =
     q\<lparr>lq_waitTimesTankStore := (lq_waitTimesTankStore q)(dungeonId := wait_time_add waitTime (lq_waitTimesTankStore q dungeonId))\<rparr>"

definition LFGQueue_UpdateWaitTimeHealer :: "u32 \<Rightarrow> u32 \<Rightarrow> LFGQueue \<Rightarrow> LFGQueue" where
  "LFGQueue_UpdateWaitTimeHealer waitTime dungeonId q =
     q\<lparr>lq_waitTimesHealerStore := (lq_waitTimesHealerStore q)(dungeonId := wait_time_add waitTime (lq_waitTimesHealerStore q dungeonId))\<rparr>"

definition LFGQueue_UpdateWaitTimeDps :: "u32 \<Rightarrow> u32 \<Rightarrow> LFGQueue \<Rightarrow> LFGQueue" where
  "LFGQueue_UpdateWaitTimeDps waitTime dungeonId q =
     q\<lparr>lq_waitTimesDpsStore := (lq_waitTimesDpsStore q)(dungeonId := wait_time_add waitTime (lq_waitTimesDpsStore q dungeonId))\<rparr>"

subsection \<open>The cache of combinations\<close>

definition LFGQueue_RemoveFromCompatibles :: "ObjectGuid \<Rightarrow> LFGQueue \<Rightarrow> LFGQueue" where
  "LFGQueue_RemoveFromCompatibles guid q =
     q\<lparr>lq_CompatibleMapStore := filter (\<lambda>(key, data). \<not> names_guid guid key) (lq_CompatibleMapStore q)\<rparr>"

definition LFGQueue_SetCompatibles :: "string \<Rightarrow> LfgCompatibility \<Rightarrow> LFGQueue \<Rightarrow> LFGQueue" where
  "LFGQueue_SetCompatibles key compatibles q =
     (let data = (case map_of (lq_CompatibleMapStore q) key of
                    Some d \<Rightarrow> d | None \<Rightarrow> LfgCompatibilityData_init LFG_COMPATIBILITY_PENDING)
      in q\<lparr>lq_CompatibleMapStore := om_put key (data\<lparr>cd_compatibility := compatibles\<rparr>) (lq_CompatibleMapStore q)\<rparr>)"

definition LFGQueue_SetCompatibilityData :: "string \<Rightarrow> LfgCompatibilityData \<Rightarrow> LFGQueue \<Rightarrow> LFGQueue" where
  "LFGQueue_SetCompatibilityData key data q =
     q\<lparr>lq_CompatibleMapStore := om_put key data (lq_CompatibleMapStore q)\<rparr>"

definition LFGQueue_GetCompatibles :: "string \<Rightarrow> LFGQueue \<Rightarrow> LfgCompatibility" where
  "LFGQueue_GetCompatibles key q =
     (case map_of (lq_CompatibleMapStore q) key of
        Some d \<Rightarrow> cd_compatibility d | None \<Rightarrow> LFG_COMPATIBILITY_PENDING)"

definition LFGQueue_GetCompatibilityData :: "string \<Rightarrow> LFGQueue \<Rightarrow> LfgCompatibilityData option" where
  "LFGQueue_GetCompatibilityData key q = map_of (lq_CompatibleMapStore q) key"

subsection \<open>The best combination of an entry\<close>

definition key_size :: "string \<Rightarrow> u8" where
  "key_size key = of_nat (count_list key CHR ''|'' + 1)"

definition take_role :: "u8 \<Rightarrow> LfgQueueData \<Rightarrow> LfgQueueData" where
  "take_role role d =
     (if role AND PLAYER_ROLE_TANK \<noteq> 0 then d\<lparr>qd_tanks := qd_tanks d - 1\<rparr>
      else if role AND PLAYER_ROLE_HEALER \<noteq> 0 then d\<lparr>qd_healers := qd_healers d - 1\<rparr>
      else d\<lparr>qd_dps := qd_dps d - 1\<rparr>)"

definition LFGQueue_UpdateBestCompatibleInQueue :: "string \<Rightarrow> LfgRolesMap \<Rightarrow> LfgQueueData \<Rightarrow> LfgQueueData" where
  "LFGQueue_UpdateBestCompatibleInQueue key roles d =
     (let storedSize = (if qd_bestCompatible d = [] then 0 else key_size (qd_bestCompatible d))
      in if key_size key \<le> storedSize then d
         else fold (\<lambda>(g, role). take_role role) roles
                (d\<lparr>qd_bestCompatible := key, qd_tanks := of_nat LFG_TANKS_NEEDED,
                   qd_healers := of_nat LFG_HEALERS_NEEDED, qd_dps := of_nat LFG_DPS_NEEDED\<rparr>))"

definition LFGQueue_FindBestCompatibleInQueue
    :: "(string \<times> LfgCompatibilityData) list \<Rightarrow> ObjectGuid \<Rightarrow> LfgQueueData \<Rightarrow> LfgQueueData" where
  "LFGQueue_FindBestCompatibleInQueue compatibles guid d =
     fold (\<lambda>(key, data) d.
        if cd_compatibility data = LFG_COMPATIBLES_WITH_LESS_PLAYERS \<and> names_guid guid key
        then LFGQueue_UpdateBestCompatibleInQueue key (cd_roles data) d else d) compatibles d"

definition LFGQueue_RemoveFromQueue :: "ObjectGuid \<Rightarrow> LFGQueue \<Rightarrow> LFGQueue" where
  "LFGQueue_RemoveFromQueue guid q =
     (let q1 = LFGQueue_RemoveFromCompatibles guid (LFGQueue_RemoveFromCurrentQueue guid (LFGQueue_RemoveFromNewQueue guid q));
          store = map (\<lambda>(g, d).
            (g, if g \<noteq> guid \<and> names_guid guid (qd_bestCompatible d)
                then LFGQueue_FindBestCompatibleInQueue (lq_CompatibleMapStore q1) g (d\<lparr>qd_bestCompatible := []\<rparr>)
                else d)) (lq_QueueDataStore q1)
      in q1\<lparr>lq_QueueDataStore := om_del guid store\<rparr>)"

subsection \<open>Checking a combination\<close>

definition LFGQueue_entry :: "ObjectGuid \<Rightarrow> LFGQueue \<Rightarrow> LfgQueueData" where
  "LFGQueue_entry guid q =
     (case map_of (lq_QueueDataStore q) guid of Some d \<Rightarrow> d | None \<Rightarrow> LfgQueueData_init 0 [] [])"

definition LFGQueue_upd_entry :: "ObjectGuid \<Rightarrow> (LfgQueueData \<Rightarrow> LfgQueueData) \<Rightarrow> LFGQueue \<Rightarrow> LFGQueue" where
  "LFGQueue_upd_entry guid f q = q\<lparr>lq_QueueDataStore := om_upd guid f (lq_QueueDataStore q)\<rparr>"

text \<open>The loop that counts players and running groups: \<open>Inl\<close> of a guid without an entry.\<close>

fun cc_count :: "LFGQueue \<Rightarrow> LFGMgr \<Rightarrow> ObjectGuid list \<Rightarrow> u8 \<Rightarrow> u8 \<Rightarrow> LfgGroupsMap \<Rightarrow> ObjectGuid
    \<Rightarrow> ObjectGuid + (u8 \<times> u8 \<times> LfgGroupsMap \<times> ObjectGuid)" where
  "cc_count q m [] numPlayers numLfgGroups groups grp = Inr (numPlayers, numLfgGroups, groups, grp)"
| "cc_count q m (guid # check) numPlayers numLfgGroups groups grp =
     (if numLfgGroups < 2 \<and> numPlayers \<le> of_nat MAX_GROUP_SIZE
      then case map_of (lq_QueueDataStore q) guid of
          None \<Rightarrow> Inl guid
        | Some d \<Rightarrow>
            (let groups1 = fold (\<lambda>(p, r). om_put p (if ObjectGuid_IsParty guid then guid else ObjectGuid_Empty))
                             (qd_roles d) groups;
                 numPlayers1 = numPlayers + of_nat (length (qd_roles d))
             in if LFGMgr_IsLfgGroup guid m
                then cc_count q m check numPlayers1 (numLfgGroups + 1) groups1 (if numLfgGroups = 0 then guid else grp)
                else cc_count q m check numPlayers1 numLfgGroups groups1 grp)
      else Inr (numPlayers, numLfgGroups, groups, grp))"

text \<open>The roles of all entries put together; a player who ignores or is ignored by one already there is left
  out.\<close>

definition cc_add_role :: "LfgWorld \<Rightarrow> ObjectGuid \<times> u8 \<Rightarrow> LfgRolesMap \<Rightarrow> LfgRolesMap" where
  "cc_add_role w = (\<lambda>(guid, role) roles.
     if list_ex (\<lambda>(p, r). guid \<noteq> p \<and> LFGMgr_HasIgnore w guid p) roles then roles else om_put guid role roles)"

definition cc_merge_roles :: "LfgWorld \<Rightarrow> LFGQueue \<Rightarrow> ObjectGuid list \<Rightarrow> LfgRolesMap" where
  "cc_merge_roles w q check = fold (\<lambda>guid. fold (cc_add_role w) (qd_roles (LFGQueue_entry guid q))) check []"

fun cc_dungeons :: "LFGQueue \<Rightarrow> ObjectGuid list \<Rightarrow> LfgDungeonSet" where
  "cc_dungeons q [] = []"
| "cc_dungeons q (guid # check) =
     fold (\<lambda>g dungeons. filter (\<lambda>d. d \<in> set (qd_dungeons (LFGQueue_entry g q))) dungeons) check
       (qd_dungeons (LFGQueue_entry guid q))"

text \<open>The players of the proposal and its leader, who is drawn among those who want to lead, or among all.\<close>

definition cc_toss :: "LfgWorld \<Rightarrow> bool \<Rightarrow> LFGMgr \<Rightarrow> bool \<times> LFGMgr" where
  "cc_toss w sure m = (if sure then (True, m) else case urand w 0 1 m of (n, m1) \<Rightarrow> (n \<noteq> 0, m1))"

definition proposal_player :: "bool \<Rightarrow> ObjectGuid \<Rightarrow> LfgGroupsMap \<Rightarrow> ObjectGuid \<Rightarrow> u8 \<Rightarrow> LfgProposalPlayer" where
  "proposal_player isNew grp groups guid role =
     (let g = (case map_of groups guid of Some h \<Rightarrow> h | None \<Rightarrow> ObjectGuid_Empty)
      in \<lparr>pp_role = role,
          pp_accept = (if \<not> isNew \<and> \<not> ObjectGuid_IsEmpty g \<and> g = grp then LFG_ANSWER_AGREE else LFG_ANSWER_PENDING),
          pp_group = g\<rparr>)"

fun cc_players :: "LfgWorld \<Rightarrow> bool \<Rightarrow> ObjectGuid \<Rightarrow> LfgGroupsMap \<Rightarrow> LfgRolesMap \<Rightarrow> bool \<Rightarrow> ObjectGuid
    \<Rightarrow> (ObjectGuid \<times> LfgProposalPlayer) list \<Rightarrow> LFGMgr
    \<Rightarrow> ObjectGuid \<times> (ObjectGuid \<times> LfgProposalPlayer) list \<times> LFGMgr" where
  "cc_players w isNew grp groups [] leader lguid players m = (lguid, players, m)"
| "cc_players w isNew grp groups ((guid, role) # roles) leader lguid players m =
     (let wants = (role AND PLAYER_ROLE_LEADER \<noteq> 0);
          (takes, m1) = (if wants then cc_toss w (\<not> leader \<or> ObjectGuid_IsEmpty lguid) m
                         else if \<not> leader then cc_toss w (ObjectGuid_IsEmpty lguid) m
                         else (False, m))
      in cc_players w isNew grp groups roles (leader \<or> wants) (if takes then guid else lguid)
           (om_put guid (proposal_player isNew grp groups guid role) players) m1)"

text \<open>The last part of the check: too few players, somebody not free, or a proposal.\<close>

definition cc_finish :: "LfgWorld \<Rightarrow> ObjectGuid list \<Rightarrow> u8 \<Rightarrow> u8 \<Rightarrow> LfgGroupsMap \<Rightarrow> ObjectGuid \<Rightarrow> LfgRolesMap
    \<Rightarrow> LfgDungeonSet \<Rightarrow> LFGQueue \<Rightarrow> LFGMgr \<Rightarrow> LfgCompatibility \<times> LFGQueue \<times> LFGMgr" where
  "cc_finish w check numPlayers numLfgGroups groups grp roles dungeons q m =
     (let key = ConcatenateGuids check in
      if numPlayers \<noteq> of_nat MAX_GROUP_SIZE
      then (LFG_COMPATIBLES_WITH_LESS_PLAYERS,
            LFGQueue_SetCompatibilityData key \<lparr>cd_compatibility = LFG_COMPATIBLES_WITH_LESS_PLAYERS, cd_roles = roles\<rparr>
              (fold (\<lambda>guid. LFGQueue_upd_entry guid (LFGQueue_UpdateBestCompatibleInQueue key roles)) check q), m)
      else if \<not> LFGMgr_AllQueued check m
      then (LFG_COMPATIBLES_BAD_STATES, LFGQueue_SetCompatibles key LFG_COMPATIBLES_BAD_STATES q, m)
      else
        (let isNew = (numLfgGroups \<noteq> 1 \<or> LFGMgr_GetOldState (hd check) m \<noteq> LFG_STATE_DUNGEON);
             (dungeonId, m1) = SelectRandomContainerElement w dungeons m;
             (leader, players, m2) = cc_players w isNew grp groups roles False ObjectGuid_Empty [] m1;
             proposal = (LfgProposal_init 0)\<lparr>pr_dungeonId := dungeonId, pr_state := LFG_PROPOSAL_INITIATING,
               pr_group := grp, pr_leader := leader, pr_cancelTime := lw_time w + LFG_TIME_PROPOSAL,
               pr_isNew := isNew, pr_queues := check, pr_players := players\<rparr>;
             q1 = fold (\<lambda>guid q. LFGQueue_RemoveFromCurrentQueue guid (LFGQueue_RemoveFromNewQueue guid q)) check q
         in (LFG_COMPATIBLES_MATCH, LFGQueue_SetCompatibles key LFG_COMPATIBLES_MATCH q1,
             LFGMgr_AddProposal proposal m2)))"

definition cc_combination :: "LfgWorld \<Rightarrow> ObjectGuid list \<Rightarrow> LFGQueue \<Rightarrow> LFGMgr
    \<Rightarrow> LfgCompatibility \<times> LFGQueue \<times> LFGMgr" where
  "cc_combination w check q m =
     (let key = ConcatenateGuids check; cached = (\<lambda>c. (c, LFGQueue_SetCompatibles key c q, m)) in
      case cc_count q m check 0 0 [] ObjectGuid_Empty of
        Inl guid \<Rightarrow> (LFG_COMPATIBILITY_PENDING, LFGQueue_RemoveFromQueue guid q, m)
      | Inr (numPlayers, numLfgGroups, groups, grp) \<Rightarrow>
          if length check = 1 \<and> numPlayers \<noteq> of_nat MAX_GROUP_SIZE
          then (let roles = snd (CheckGroupRoles (qd_roles (LFGQueue_entry (hd check) q)))
                in (LFG_COMPATIBLES_WITH_LESS_PLAYERS,
                    LFGQueue_SetCompatibilityData key \<lparr>cd_compatibility = LFG_COMPATIBLES_WITH_LESS_PLAYERS, cd_roles = roles\<rparr>
                      (LFGQueue_upd_entry (hd check) (LFGQueue_UpdateBestCompatibleInQueue key roles) q), m))
          else if 1 < numLfgGroups then cached LFG_INCOMPATIBLES_MULTIPLE_LFG_GROUPS
          else if of_nat MAX_GROUP_SIZE < numPlayers then cached LFG_INCOMPATIBLES_TOO_MUCH_PLAYERS
          else if 1 < length check
          then (let roles = cc_merge_roles w q check; dungeons = cc_dungeons q check in
                if numPlayers - of_nat (length roles) \<noteq> 0 then cached LFG_INCOMPATIBLES_HAS_IGNORES
                else case CheckGroupRoles roles of (ok, roles1) \<Rightarrow>
                  if \<not> ok then cached LFG_INCOMPATIBLES_NO_ROLES
                  else if dungeons = [] then cached LFG_INCOMPATIBLES_NO_DUNGEONS
                  else cc_finish w check numPlayers numLfgGroups groups grp roles1 dungeons q m)
          else (let d = LFGQueue_entry (hd check) q
                in cc_finish w check numPlayers numLfgGroups groups grp (snd (CheckGroupRoles (qd_roles d)))
                     (qd_dungeons d) q m))"

text \<open>All but the first guid have to be compatible, whatever was found out about them before.\<close>

fun LFGQueue_CheckCompatibility :: "LfgWorld \<Rightarrow> ObjectGuid list \<Rightarrow> LFGQueue \<Rightarrow> LFGMgr
    \<Rightarrow> LfgCompatibility \<times> LFGQueue \<times> LFGMgr" where
  "LFGQueue_CheckCompatibility w [] q m = (LFG_INCOMPATIBLES_WRONG_GROUP_SIZE, q, m)"
| "LFGQueue_CheckCompatibility w (front # check) q m =
     (if MAX_GROUP_SIZE < length (front # check) then (LFG_INCOMPATIBLES_WRONG_GROUP_SIZE, q, m)
      else if 2 < length (front # check)
      then (case LFGQueue_CheckCompatibility w check q m of (child, q1, m1) \<Rightarrow>
              if LfgCompatibility_not_compatible child
              then (child, LFGQueue_SetCompatibles (ConcatenateGuids (front # check)) child q1, m1)
              else cc_combination w (front # check) q1 m1)
      else cc_combination w (front # check) q m)"

subsection \<open>The search\<close>

text \<open>The head of \<open>FindNewGroups\<close> is \<open>fng_head\<close>, its loop is \<open>fng_loop\<close>; what is left of the list of
  candidates, which the code shares between all levels of the recursion, is a result.\<close>

definition fng_head :: "LfgWorld \<Rightarrow> ObjectGuid list \<Rightarrow> LFGQueue \<Rightarrow> LFGMgr \<Rightarrow> LfgCompatibility \<times> LFGQueue \<times> LFGMgr" where
  "fng_head w check q m =
     (let key = ConcatenateGuids check;
          (compatibles, q1, m1) =
            (if LFGQueue_GetCompatibles key q = LFG_COMPATIBILITY_PENDING then LFGQueue_CheckCompatibility w check q m
             else (LFGQueue_GetCompatibles key q, q, m))
      in if compatibles = LFG_COMPATIBLES_BAD_STATES \<and> LFGMgr_AllQueued check m1
         then (LFG_COMPATIBLES_MATCH, LFGQueue_SetCompatibles key LFG_COMPATIBLES_MATCH q1, m1)
         else (compatibles, q1, m1))"

function LFGQueue_FindNewGroups :: "LfgWorld \<Rightarrow> ObjectGuid list \<Rightarrow> ObjectGuid list \<Rightarrow> LFGQueue \<Rightarrow> LFGMgr
    \<Rightarrow> LfgCompatibility \<times> ObjectGuid list \<times> LFGQueue \<times> LFGMgr"
  and fng_loop :: "LfgWorld \<Rightarrow> ObjectGuid list \<Rightarrow> ObjectGuid list \<Rightarrow> LFGQueue \<Rightarrow> LFGMgr
    \<Rightarrow> LfgCompatibility \<times> ObjectGuid list \<times> LFGQueue \<times> LFGMgr" where
  "LFGQueue_FindNewGroups w check cands q m =
     (case fng_head w check q m of (compatibles, q1, m1) \<Rightarrow>
        if compatibles \<noteq> LFG_COMPATIBLES_WITH_LESS_PLAYERS then (compatibles, cands, q1, m1)
        else fng_loop w check cands q1 m1)"
| "fng_loop w check [] q m = (LFG_COMPATIBLES_WITH_LESS_PLAYERS, [], q, m)"
| "fng_loop w check (c # cands) q m =
     (case LFGQueue_FindNewGroups w (check @ [c]) cands q m of (subcompatibility, cands1, q1, m1) \<Rightarrow>
        if subcompatibility = LFG_COMPATIBLES_MATCH then (LFG_COMPATIBLES_MATCH, cands1, q1, m1)
        else fng_loop w check cands1 q1 m1)"
  by pat_completeness auto

lemma fng_shrinks:
  "LFGQueue_FindNewGroups_fng_loop_dom (Inl (w, check, cands, q, m)) \<Longrightarrow>
     length (fst (snd (LFGQueue_FindNewGroups w check cands q m))) \<le> length cands"
  "LFGQueue_FindNewGroups_fng_loop_dom (Inr (w, check, cands, q, m)) \<Longrightarrow>
     length (fst (snd (fng_loop w check cands q m))) \<le> length cands"
proof (induction rule: LFGQueue_FindNewGroups_fng_loop.pinduct)
  case (1 w check cands q m)
  then show ?case by (auto simp: LFGQueue_FindNewGroups.psimps split: prod.splits)
next
  case (2 w check q m)
  then show ?case by (simp add: fng_loop.psimps)
next
  case (3 w check c cands q m)
  show ?case
  proof (cases "LFGQueue_FindNewGroups w (check @ [c]) cands q m")
    case (fields s cands1 q1 m1)
    with 3 have "length cands1 \<le> length cands" by simp
    moreover have "s \<noteq> LFG_COMPATIBLES_MATCH \<Longrightarrow> length (fst (snd (fng_loop w check cands1 q1 m1))) \<le> length cands1"
      using 3 fields by simp
    ultimately show ?thesis using 3(1) fields by (cases "s = LFG_COMPATIBLES_MATCH") (simp_all add: fng_loop.psimps)
  qed
qed

lemma fng_shrinks_eq:
  "LFGQueue_FindNewGroups_fng_loop_dom (Inl (w, check, cands, q, m)) \<Longrightarrow>
     (s, cands1, r) = LFGQueue_FindNewGroups w check cands q m \<Longrightarrow> length cands1 \<le> length cands"
  using fng_shrinks(1) [of w check cands q m] by (metis fst_conv snd_conv)

termination LFGQueue_FindNewGroups
  by (relation "measure (\<lambda>x. case x of Inl (w, check, cands, q, m) \<Rightarrow> 2 * length cands + 1
    | Inr (w, check, cands, q, m) \<Rightarrow> 2 * length cands)") (auto dest: fng_shrinks_eq)

subsection \<open>What holds of every search\<close>

text \<open>A relation between the state before and after that is reflexive and transitive and holds of the leaves
  of the search holds of every search.\<close>

locale queue_search =
  fixes R :: "LfgWorld \<Rightarrow> LFGQueue \<times> LFGMgr \<Rightarrow> LFGQueue \<times> LFGMgr \<Rightarrow> bool"
  assumes R_refl: "R w s s"
    and R_trans: "R w s t \<Longrightarrow> R w t u \<Longrightarrow> R w s u"
    and R_cached: "R w (q, m) (LFGQueue_SetCompatibles (ConcatenateGuids check) c q, m)"
    and R_combination: "check \<noteq> [] \<Longrightarrow> length check \<le> MAX_GROUP_SIZE \<Longrightarrow> R w (q, m) (snd (cc_combination w check q m))"
begin

lemma R_check: "R w (q, m) (snd (LFGQueue_CheckCompatibility w check q m))"
proof (induction w check q m rule: LFGQueue_CheckCompatibility.induct)
  case (1 w q m)
  show ?case by (simp add: R_refl)
next
  case (2 w front check q m)
  obtain c q1 m1 where child: "LFGQueue_CheckCompatibility w check q m = (c, q1, m1)" by (metis prod_cases3)
  have last: "\<not> MAX_GROUP_SIZE < length (front # check) \<Longrightarrow> R w (q', m') (snd (cc_combination w (front # check) q' m'))"
    for q' m' by (rule R_combination) simp_all
  show ?case
  proof (cases "MAX_GROUP_SIZE < length (front # check) \<or> length (front # check) \<le> 2")
    case True
    then show ?thesis using last by (auto simp: R_refl)
  next
    case False
    with 2 child have "R w (q, m) (q1, m1)" by simp
    then show ?thesis
      using False child last [of q1 m1] R_cached [of w q1 m1 "front # check" c]
      by (auto intro: R_trans)
  qed
qed

lemma R_head: "R w (q, m) (snd (fng_head w check q m))"
proof -
  obtain c q1 m1 where r: "(if LFGQueue_GetCompatibles (ConcatenateGuids check) q = LFG_COMPATIBILITY_PENDING
      then LFGQueue_CheckCompatibility w check q m
      else (LFGQueue_GetCompatibles (ConcatenateGuids check) q, q, m)) = (c, q1, m1)" by (metis prod_cases3)
  then have "R w (q, m) (q1, m1)"
    using R_check [of w q m check] by (auto simp: R_refl split: if_splits)
  then show ?thesis
    using R_cached [of w q1 m1 check LFG_COMPATIBLES_MATCH]
    by (simp add: fng_head_def Let_def r) (blast intro: R_trans)
qed

lemma R_find_new: "R w (q, m) (snd (snd (LFGQueue_FindNewGroups w check cands q m)))"
  and R_loop: "R w (q, m) (snd (snd (fng_loop w check cands q m)))"
proof (induction w check cands q m and w check cands q m rule: LFGQueue_FindNewGroups_fng_loop.induct)
  case (1 w check cands q m)
  then show ?case using R_head [of w q m check] by (auto split: prod.splits intro: R_trans)
next
  case (2 w check q m)
  show ?case by (simp add: R_refl)
next
  case (3 w check c cands q m)
  obtain s cands1 q1 m1 where sub: "LFGQueue_FindNewGroups w (check @ [c]) cands q m = (s, cands1, q1, m1)"
    by (metis prod_cases4)
  then have "R w (q, m) (q1, m1)" using "3.IH"(1) by simp
  then show ?case
    using "3.IH"(2) [OF sub [symmetric] refl refl] sub by (auto intro: R_trans)
qed

end

text \<open>Nothing here puts a guid into the list of new guids.\<close>

definition fewer_new :: "LfgWorld \<Rightarrow> LFGQueue \<times> LFGMgr \<Rightarrow> LFGQueue \<times> LFGMgr \<Rightarrow> bool" where
  "fewer_new w s t \<longleftrightarrow> length (lq_newToQueueStore (fst t)) \<le> length (lq_newToQueueStore (fst s))"

lemma new_SetCompatibles [simp]: "lq_newToQueueStore (LFGQueue_SetCompatibles key c q) = lq_newToQueueStore q"
  by (simp add: LFGQueue_SetCompatibles_def Let_def)

lemma new_upd_entries [simp]:
  "lq_newToQueueStore (LFGQueue_upd_entry g f q) = lq_newToQueueStore q"
  "lq_newToQueueStore (fold (\<lambda>g. LFGQueue_upd_entry g f) gs q) = lq_newToQueueStore q"
  by (induction gs arbitrary: q) (simp_all add: LFGQueue_upd_entry_def)

lemma new_unqueue:
  "length (lq_newToQueueStore (fold (\<lambda>g q. LFGQueue_RemoveFromCurrentQueue g (LFGQueue_RemoveFromNewQueue g q)) gs q))
     \<le> length (lq_newToQueueStore q)"
proof (induction gs arbitrary: q)
  case (Cons g gs)
  show ?case unfolding fold_simps by (rule order_trans [OF Cons.IH])
      (simp add: LFGQueue_RemoveFromCurrentQueue_def LFGQueue_RemoveFromNewQueue_def length_removeAll_less_eq)
qed simp

lemma new_finish:
  "length (lq_newToQueueStore (fst (snd (cc_finish w check np nl gs grp roles ds q m)))) \<le> length (lq_newToQueueStore q)"
  using new_unqueue [of check q]
  by (simp add: cc_finish_def Let_def LFGQueue_SetCompatibilityData_def split: prod.splits)

lemma new_RemoveFromQueue: "lq_newToQueueStore (LFGQueue_RemoveFromQueue g q) = removeAll g (lq_newToQueueStore q)"
  by (simp add: LFGQueue_RemoveFromQueue_def Let_def LFGQueue_RemoveFromCompatibles_def
      LFGQueue_RemoveFromCurrentQueue_def LFGQueue_RemoveFromNewQueue_def)

interpretation shrinking: queue_search fewer_new
proof unfold_locales
  fix w check q m
  show "fewer_new w (q, m) (snd (cc_combination w check q m))"
    using new_finish
    by (simp add: fewer_new_def cc_combination_def Let_def LFGQueue_SetCompatibilityData_def new_RemoveFromQueue
        length_removeAll_less_eq split: sum.splits prod.splits)
qed (auto simp: fewer_new_def)

text \<open>\<open>remove\<close> on the list of new guids removes every copy of the guid.\<close>

function LFGQueue_FindGroups_from :: "LfgWorld \<Rightarrow> u8 \<Rightarrow> LFGQueue \<Rightarrow> LFGMgr \<Rightarrow> u8 \<times> LFGQueue \<times> LFGMgr" where
  "LFGQueue_FindGroups_from w proposals q m =
     (case lq_newToQueueStore q of
        [] \<Rightarrow> (proposals, q, m)
      | frontguid # _ \<Rightarrow>
          (let q1 = LFGQueue_RemoveFromNewQueue frontguid q in
           case LFGQueue_FindNewGroups w [frontguid] (lq_currentQueueStore q1) q1 m of (compatibles, _, q2, m1) \<Rightarrow>
             if compatibles = LFG_COMPATIBLES_MATCH then LFGQueue_FindGroups_from w (proposals + 1) q2 m1
             else LFGQueue_FindGroups_from w proposals (LFGQueue_AddToCurrentQueue frontguid q2) m1))"
  by pat_completeness auto

lemma find_new_shrinks:
  assumes "lq_newToQueueStore q = g # gs"
    and "(c, r, q2, m1) = LFGQueue_FindNewGroups w [g] cands (LFGQueue_RemoveFromNewQueue g q) m"
  shows "length (lq_newToQueueStore q2) < Suc (length gs)"
proof -
  have "length (lq_newToQueueStore q2) \<le> length (removeAll g (g # gs))"
    using shrinking.R_find_new [of w "LFGQueue_RemoveFromNewQueue g q" m "[g]" cands] assms(2) [symmetric] assms(1)
    by (simp add: fewer_new_def LFGQueue_RemoveFromNewQueue_def)
  also have "\<dots> \<le> length gs" using length_removeAll_less_eq [of g gs] by simp
  finally show ?thesis by simp
qed

termination LFGQueue_FindGroups_from
  by (relation "measure (\<lambda>(w, n, q, m). length (lq_newToQueueStore q))")
    (auto dest: find_new_shrinks simp: LFGQueue_AddToCurrentQueue_def)

declare LFGQueue_FindGroups_from.simps [simp del] LFGQueue_FindNewGroups.simps [simp del]

lemma find_groups_done: "lq_newToQueueStore q = [] \<Longrightarrow> LFGQueue_FindGroups_from w n q m = (n, q, m)"
  by (simp add: LFGQueue_FindGroups_from.simps)

lemma find_groups_turn:
  assumes "lq_newToQueueStore q = g # gs"
    and "LFGQueue_FindNewGroups w [g] (lq_currentQueueStore q) (LFGQueue_RemoveFromNewQueue g q) m = (c, cs, q2, m1)"
  shows "LFGQueue_FindGroups_from w n q m =
    (if c = LFG_COMPATIBLES_MATCH then LFGQueue_FindGroups_from w (n + 1) q2 m1
     else LFGQueue_FindGroups_from w n (LFGQueue_AddToCurrentQueue g q2) m1)"
proof -
  have "lq_currentQueueStore (LFGQueue_RemoveFromNewQueue g q) = lq_currentQueueStore q"
    by (simp add: LFGQueue_RemoveFromNewQueue_def)
  with assms show ?thesis by (subst LFGQueue_FindGroups_from.simps) (simp add: Let_def)
qed

definition LFGQueue_FindGroups :: "LfgWorld \<Rightarrow> LFGQueue \<Rightarrow> LFGMgr \<Rightarrow> u8 \<times> LFGQueue \<times> LFGMgr" where
  "LFGQueue_FindGroups w q m = LFGQueue_FindGroups_from w 0 q m"

subsection \<open>Telling the players how long they wait\<close>

definition queue_roles :: "LfgRolesMap \<Rightarrow> u8" where
  "queue_roles roles = fold (\<lambda>(g, r) role. role OR r) roles PLAYER_ROLE_NONE AND NOT PLAYER_ROLE_LEADER"

definition queue_status :: "u8 \<Rightarrow> int \<Rightarrow> LFGQueue \<Rightarrow> LfgQueueData \<Rightarrow> LfgQueueStatusData" where
  "queue_status queueId currTime q d =
     (let dungeonId = hd (qd_dungeons d); role = queue_roles (qd_roles d);
          wtTank = wt_time (lq_waitTimesTankStore q dungeonId);
          wtHealer = wt_time (lq_waitTimesHealerStore q dungeonId);
          wtDps = wt_time (lq_waitTimesDpsStore q dungeonId);
          wtAvg = wt_time (lq_waitTimesAvgStore q dungeonId)
      in \<lparr>qs_queueId = queueId, qs_dungeonId = dungeonId,
          qs_waitTime = (if role = PLAYER_ROLE_NONE then - 1 else if role = PLAYER_ROLE_TANK then wtTank
            else if role = PLAYER_ROLE_HEALER then wtHealer else if role = PLAYER_ROLE_DAMAGE then wtDps else wtAvg),
          qs_waitTimeAvg = wtAvg, qs_waitTimeTank = wtTank, qs_waitTimeHealer = wtHealer, qs_waitTimeDps = wtDps,
          qs_queuedTime = word_of_int (currTime - qd_joinTime d),
          qs_tanks = qd_tanks d, qs_healers = qd_healers d, qs_dps = qd_dps d\<rparr>)"

definition queue_timer_entry :: "LFGQueue \<Rightarrow> ObjectGuid \<Rightarrow> LfgQueueData \<Rightarrow> LfgQueueData" where
  "queue_timer_entry q guid d =
     (if qd_bestCompatible d = [] then LFGQueue_FindBestCompatibleInQueue (lq_CompatibleMapStore q) guid d else d)"

definition LFGQueue_UpdateQueueTimers :: "LfgWorld \<Rightarrow> u8 \<Rightarrow> int \<Rightarrow> LFGQueue \<Rightarrow> LFGMgr \<Rightarrow> LFGQueue \<times> LFGMgr" where
  "LFGQueue_UpdateQueueTimers w queueId currTime q m =
     (let entries = map (\<lambda>(g, d). (g, queue_timer_entry q g d)) (lq_QueueDataStore q)
      in (q\<lparr>lq_QueueDataStore := entries\<rparr>,
          fold (\<lambda>(g, d). fold (\<lambda>(p, r). SendLfgQueueStatus w p (queue_status queueId currTime q d)) (qd_roles d))
            entries m))"

subsection \<open>Wait times stay between the waits measured\<close>

definition wait_unat :: "LfgWaitTime \<Rightarrow> nat" where "wait_unat wt = unat (wt_time wt)"

fun wait_times :: "u32 list \<Rightarrow> LfgWaitTime \<Rightarrow> LfgWaitTime" where
  "wait_times [] wt = wt"
| "wait_times (t # ts) wt = wait_times ts (wait_time_add t wt)"

lemma wait_time_add_step:
  assumes "unat (wt_number wt) = n" "n = 0 \<or> wt_time wt \<le> hi \<and> lo \<le> wt_time wt"
    and t: "lo \<le> t" "t \<le> hi" and b: "unat hi * Suc n < 2 ^ 32"
    and hi: "0 < hi"
  shows "wt_time (wait_time_add t wt) \<le> hi \<and> lo \<le> wt_time (wait_time_add t wt) \<and>
    unat (wt_number (wait_time_add t wt)) = Suc n"
proof -
  let ?v = "if n = 0 then 0 else unat (wt_time wt) * n"
  have "1 \<le> unat hi" using hi by (metis One_nat_def Suc_leI unat_gt_0 word_neq_0_conv)
  then have "Suc n \<le> unat hi * Suc n" using mult_le_mono1 [of 1 "unat hi" "Suc n"] by simp
  with b have n: "Suc n < 2 ^ 32" by linarith
  have num: "unat (wt_number wt + 1) = Suc n"
    using n assms(1) unat_add_lem [of "wt_number wt" 1] by simp
  have le: "?v \<le> unat hi * n" using assms(2) by (auto simp: word_le_nat_alt)
  have ge: "unat lo * n \<le> ?v" using assms(2) by (auto simp: word_le_nat_alt)
  have "?v + unat t \<le> unat hi * Suc n" using le t by (simp add: word_le_nat_alt)
  with b have small: "?v + unat t < 2 ^ 32" by linarith
  have prod: "unat (wt_time wt * wt_number wt) = ?v"
  proof (cases "n = 0")
    case True
    with assms(1) have "wt_number wt = 0" by (simp add: unat_eq_0)
    with True show ?thesis by simp
  next
    case False
    with small assms(1) show ?thesis by (simp add: unat_word_ariths)
  qed
  then have "unat (wt_time wt * wt_number wt + t) = ?v + unat t"
    using small by (simp add: unat_word_ariths)
  then have time: "unat (wt_time (wait_time_add t wt)) = (?v + unat t) div Suc n"
    by (simp add: wait_time_add_def Let_def unat_div num)
  have "(?v + unat t) div Suc n \<le> unat hi"
    using \<open>?v + unat t \<le> unat hi * Suc n\<close> by (metis div_le_mono nonzero_mult_div_cancel_right nat.distinct(1))
  moreover have "unat lo * Suc n \<le> ?v + unat t" using ge t by (simp add: word_le_nat_alt)
  then have "unat lo \<le> (?v + unat t) div Suc n"
    by (metis div_le_mono nonzero_mult_div_cancel_right nat.distinct(1))
  ultimately show ?thesis using time num by (simp add: word_le_nat_alt wait_time_add_def Let_def)
qed

lemma wait_times_bounds:
  assumes "unat (wt_number wt) = n" "n = 0 \<or> wt_time wt \<le> hi \<and> lo \<le> wt_time wt"
    and "\<forall>t \<in> set ts. lo \<le> t \<and> t \<le> hi" and "unat hi * (n + length ts) < 2 ^ 32" and "0 < hi" and "ts \<noteq> [] \<or> n \<noteq> 0"
  shows "lo \<le> wt_time (wait_times ts wt) \<and> wt_time (wait_times ts wt) \<le> hi \<and>
    unat (wt_number (wait_times ts wt)) = n + length ts"
  using assms
proof (induction ts arbitrary: wt n)
  case (Cons t ts)
  have "unat hi * Suc n \<le> unat hi * (n + length (t # ts))" by simp
  with Cons.prems(4) have b: "unat hi * Suc n < 2 ^ 32" by linarith
  have step: "wt_time (wait_time_add t wt) \<le> hi \<and> lo \<le> wt_time (wait_time_add t wt) \<and>
    unat (wt_number (wait_time_add t wt)) = Suc n"
    by (rule wait_time_add_step [OF Cons.prems(1,2) _ _ b Cons.prems(5)]) (use Cons.prems(3) in auto)
  show ?case
    using Cons.IH [of "wait_time_add t wt" "Suc n"] step Cons.prems by simp
qed auto

subsection \<open>What a queue keeps of its entries\<close>

text \<open>The roles, dungeons and join times of the entries, which no search changes. A group that queues as five has passed the
  role check.\<close>

definition queue_view :: "LFGQueue \<Rightarrow> (ObjectGuid \<times> LfgRolesMap \<times> LfgDungeonSet \<times> int) list" where
  "queue_view q = map (\<lambda>(g, d). (g, qd_roles d, qd_dungeons d, qd_joinTime d)) (lq_QueueDataStore q)"

definition entry_ok :: "LfgRolesMap \<Rightarrow> LfgDungeonSet \<Rightarrow> bool" where
  "entry_ok roles dungeons \<longleftrightarrow> om_ok roles \<and> roles \<noteq> [] \<and> length roles \<le> MAX_GROUP_SIZE \<and> dungeons \<noteq> [] \<and>
     (length roles = MAX_GROUP_SIZE \<longrightarrow> fst (CheckGroupRoles roles))"

definition queue_ok :: "LFGQueue \<Rightarrow> bool" where
  "queue_ok q \<longleftrightarrow> om_ok (lq_QueueDataStore q) \<and> list_all (\<lambda>(g, roles, dungeons, t). entry_ok roles dungeons) (queue_view q)"

abbreviation entry_roles :: "LFGQueue \<Rightarrow> ObjectGuid \<Rightarrow> LfgRolesMap" where
  "entry_roles q g \<equiv> qd_roles (LFGQueue_entry g q)"

abbreviation entry_dungeons :: "LFGQueue \<Rightarrow> ObjectGuid \<Rightarrow> LfgDungeonSet" where
  "entry_dungeons q g \<equiv> qd_dungeons (LFGQueue_entry g q)"

named_theorems view_simps

lemma map_of_queue_view: "map_of (queue_view q) g = map_option (\<lambda>d. (qd_roles d, qd_dungeons d, qd_joinTime d)) (map_of (lq_QueueDataStore q) g)"
  by (simp add: queue_view_def map_of_map)

lemma view_entry:
  assumes "queue_view q' = queue_view q"
  shows "entry_roles q' g = entry_roles q g" "entry_dungeons q' g = entry_dungeons q g"
    "map_of (lq_QueueDataStore q') g = None \<longleftrightarrow> map_of (lq_QueueDataStore q) g = None"
  using map_of_queue_view [of q g] map_of_queue_view [of q' g] assms
  by (auto simp: LFGQueue_entry_def LfgQueueData_init_def split: option.splits)

lemma view_keys: "map fst (queue_view q) = map fst (lq_QueueDataStore q)"
  by (simp add: queue_view_def comp_def case_prod_beta)

lemma view_queue_ok: "queue_view q' = queue_view q \<Longrightarrow> queue_ok q' \<longleftrightarrow> queue_ok q"
  using view_keys [of q] view_keys [of q'] by (simp add: queue_ok_def om_ok_def)

lemma queue_ok_entry: "queue_ok q \<Longrightarrow> map_of (lq_QueueDataStore q) g = Some d \<Longrightarrow> entry_ok (qd_roles d) (qd_dungeons d)"
  by (auto simp: queue_ok_def queue_view_def list_all_iff dest!: map_of_SomeD)

lemma view_lists [view_simps]:
  "queue_view (LFGQueue_SetCompatibles key c q) = queue_view q"
  "queue_view (LFGQueue_SetCompatibilityData key cd q) = queue_view q"
  "queue_view (LFGQueue_AddToCurrentQueue g q) = queue_view q"
  "queue_view (LFGQueue_AddToFrontCurrentQueue g q) = queue_view q"
  "queue_view (LFGQueue_AddToNewQueue g q) = queue_view q"
  "queue_view (LFGQueue_RemoveFromNewQueue g q) = queue_view q"
  "queue_view (LFGQueue_RemoveFromCurrentQueue g q) = queue_view q"
  "queue_view (LFGQueue_RemoveFromCompatibles g q) = queue_view q"
  by (simp_all add: queue_view_def LFGQueue_SetCompatibles_def Let_def LFGQueue_SetCompatibilityData_def
      LFGQueue_AddToCurrentQueue_def LFGQueue_AddToFrontCurrentQueue_def LFGQueue_AddToNewQueue_def
      LFGQueue_RemoveFromNewQueue_def LFGQueue_RemoveFromCurrentQueue_def LFGQueue_RemoveFromCompatibles_def)

lemma take_role_view: "qd_roles (fold (\<lambda>(g, r). take_role r) rs d) = qd_roles d"
  "qd_dungeons (fold (\<lambda>(g, r). take_role r) rs d) = qd_dungeons d"
  "qd_joinTime (fold (\<lambda>(g, r). take_role r) rs d) = qd_joinTime d"
  by (induction rs arbitrary: d) (auto simp: take_role_def)

lemma UpdateBest_view [view_simps]:
  "qd_roles (LFGQueue_UpdateBestCompatibleInQueue key roles d) = qd_roles d"
  "qd_dungeons (LFGQueue_UpdateBestCompatibleInQueue key roles d) = qd_dungeons d"
  "qd_joinTime (LFGQueue_UpdateBestCompatibleInQueue key roles d) = qd_joinTime d"
  by (simp_all add: LFGQueue_UpdateBestCompatibleInQueue_def Let_def take_role_view)

lemma FindBest_view [view_simps]:
  "qd_roles (LFGQueue_FindBestCompatibleInQueue cs g d) = qd_roles d"
  "qd_dungeons (LFGQueue_FindBestCompatibleInQueue cs g d) = qd_dungeons d"
  "qd_joinTime (LFGQueue_FindBestCompatibleInQueue cs g d) = qd_joinTime d"
  unfolding LFGQueue_FindBestCompatibleInQueue_def
  by (induction cs arbitrary: d) (auto simp: view_simps)

lemma view_upd_entry:
  assumes "\<And>d. qd_roles (f d) = qd_roles d" "\<And>d. qd_dungeons (f d) = qd_dungeons d" "\<And>d. qd_joinTime (f d) = qd_joinTime d"
  shows "queue_view (LFGQueue_upd_entry g f q) = queue_view q"
  using assms by (simp add: queue_view_def LFGQueue_upd_entry_def om_upd_def comp_def case_prod_beta)

lemma view_upd_entries [view_simps]:
  "queue_view (LFGQueue_upd_entry g (LFGQueue_UpdateBestCompatibleInQueue key roles) q) = queue_view q"
  "queue_view (fold (\<lambda>g. LFGQueue_upd_entry g (LFGQueue_UpdateBestCompatibleInQueue key roles)) gs q) = queue_view q"
  by (induction gs arbitrary: q) (simp_all add: view_upd_entry view_simps)

lemma view_unqueue [view_simps]:
  "queue_view (fold (\<lambda>g q. LFGQueue_RemoveFromCurrentQueue g (LFGQueue_RemoveFromNewQueue g q)) gs q) = queue_view q"
  by (induction gs arbitrary: q) (simp_all add: view_simps)

lemma view_RemoveFromQueue:
  "queue_view (LFGQueue_RemoveFromQueue g q) = om_del g (queue_view q)"
proof -
  define cs where "cs = lq_CompatibleMapStore (LFGQueue_RemoveFromCompatibles g
    (LFGQueue_RemoveFromCurrentQueue g (LFGQueue_RemoveFromNewQueue g q)))"
  have "lq_QueueDataStore (LFGQueue_RemoveFromCompatibles g
    (LFGQueue_RemoveFromCurrentQueue g (LFGQueue_RemoveFromNewQueue g q))) = lq_QueueDataStore q"
    by (simp add: LFGQueue_RemoveFromCompatibles_def LFGQueue_RemoveFromCurrentQueue_def LFGQueue_RemoveFromNewQueue_def)
  then show ?thesis
    unfolding LFGQueue_RemoveFromQueue_def Let_def cs_def [symmetric]
    by (simp add: queue_view_def om_del_def filter_map comp_def case_prod_beta view_simps)
qed

lemma om_del_absent: "map_of m k = None \<Longrightarrow> om_del k m = m"
  by (induction m) (auto simp: om_del_def split: if_splits)

lemma view_RemoveFromQueue_absent:
  "map_of (lq_QueueDataStore q) g = None \<Longrightarrow> queue_view (LFGQueue_RemoveFromQueue g q) = queue_view q"
  by (simp add: view_RemoveFromQueue om_del_absent map_of_queue_view)

subsection \<open>What a proposal promises\<close>

text \<open>A proposal names five different players with one role each, one to tank, one to heal and three to deal
  damage; they are the players of the entries it was made from, every role is one its player chose, the
  dungeon is one that everybody queued for, all entries were free, the leader is one of the players and one
  who wants to lead if any does, and players put together from several entries do not ignore each other.\<close>

definition proposal_roles :: "LfgProposal \<Rightarrow> LfgRolesMap" where
  "proposal_roles p = map (\<lambda>(g, d). (g, pp_role d)) (pr_players p)"

definition wants_lead :: "LfgRolesMap \<Rightarrow> ObjectGuid \<Rightarrow> bool" where
  "wants_lead roles g \<longleftrightarrow> (\<exists>r. (g, r) \<in> set roles \<and> r AND PLAYER_ROLE_LEADER \<noteq> 0)"

definition proposal_ok :: "LfgWorld \<Rightarrow> LFGQueue \<Rightarrow> LFGMgr \<Rightarrow> LfgProposal \<Rightarrow> bool" where
  "proposal_ok w q m p \<longleftrightarrow>
     length (pr_players p) = MAX_GROUP_SIZE \<and> distinct (map fst (pr_players p)) \<and>
     role_count PLAYER_ROLE_TANK (proposal_roles p) = LFG_TANKS_NEEDED \<and>
     role_count PLAYER_ROLE_HEALER (proposal_roles p) = LFG_HEALERS_NEEDED \<and>
     role_count PLAYER_ROLE_DAMAGE (proposal_roles p) = LFG_DPS_NEEDED \<and>
     set (map fst (pr_players p)) = (\<Union>h \<in> set (pr_queues p). set (map fst (entry_roles q h))) \<and>
     (\<forall>(g, r) \<in> set (proposal_roles p). \<exists>h \<in> set (pr_queues p). \<exists>r0. (g, r0) \<in> set (entry_roles q h) \<and> role_narrowed r0 r) \<and>
     (\<forall>h \<in> set (pr_queues p). pr_dungeonId p \<in> set (entry_dungeons q h) \<and> LFGMgr_GetState h m = LFG_STATE_QUEUED) \<and>
     pr_leader p \<in> set (map fst (pr_players p)) \<and>
     ((\<exists>g. wants_lead (proposal_roles p) g) \<longrightarrow> wants_lead (proposal_roles p) (pr_leader p)) \<and>
     (1 < length (pr_queues p) \<longrightarrow> (\<forall>g \<in> set (map fst (pr_players p)). \<forall>h \<in> set (map fst (pr_players p)).
        g \<noteq> h \<longrightarrow> \<not> LFGMgr_HasIgnore w g h))"

lemma proposal_ok_cong:
  assumes "queue_view q' = queue_view q" "\<And>g. LFGMgr_GetState g m' = LFGMgr_GetState g m"
  shows "proposal_ok w q' m' p = proposal_ok w q m p"
  unfolding proposal_ok_def view_entry [OF assms(1)] assms(2) ..

subsection \<open>The counting loop\<close>

lemma cc_count_ok:
  assumes "queue_ok q" "unat np \<le> 10"
    "cc_count q m check np nl gs grp = Inr (np', nl', gs', grp')" "nl' \<le> 1" "np' \<le> of_nat MAX_GROUP_SIZE"
  shows "unat np' = unat np + length (concat (map (entry_roles q) check)) \<and>
    (\<forall>h \<in> set check. map_of (lq_QueueDataStore q) h \<noteq> None)"
  using assms
proof (induction check arbitrary: np nl gs grp)
  case (Cons h check)
  have guard: "nl < 2 \<and> np \<le> of_nat MAX_GROUP_SIZE"
  proof (rule ccontr)
    assume a: "\<not> (nl < 2 \<and> np \<le> of_nat MAX_GROUP_SIZE)"
    with Cons.prems(3) have "np' = np" "nl' = nl" by (auto split: if_splits)
    with a Cons.prems(4,5) have "\<not> nl < 2" "nl \<le> 1" by simp_all
    then show False by (simp add: word_le_nat_alt word_less_nat_alt)
  qed
  with Cons.prems(3) obtain d where d: "map_of (lq_QueueDataStore q) h = Some d"
    by (auto split: option.splits)
  then have e: "entry_roles q h = qd_roles d" by (simp add: LFGQueue_entry_def)
  have len: "length (qd_roles d) \<le> 5"
    using queue_ok_entry [OF Cons.prems(1) d] by (simp add: entry_ok_def MAX_GROUP_SIZE_def)
  have np: "unat np \<le> 5" using guard by (simp add: word_le_nat_alt MAX_GROUP_SIZE_def)
  have np1: "unat (np + of_nat (length (qd_roles d))) = unat np + length (qd_roles d)"
    using len np by (simp add: unat_word_ariths unat_of_nat take_bit_nat_def)
  obtain nl1 gs1 grp1 where rec: "cc_count q m check (np + of_nat (length (qd_roles d))) nl1 gs1 grp1 = Inr (np', nl', gs', grp')"
    using Cons.prems(3) guard d by (auto simp: Let_def split: if_splits)
  show ?case
    using Cons.IH [OF Cons.prems(1) _ rec Cons.prems(4,5)] np1 len np d e by simp
qed simp

subsection \<open>Putting the roles together\<close>

lemma cc_merge_concat: "cc_merge_roles w q check = fold (cc_add_role w) (concat (map (entry_roles q) check)) []"
proof -
  have "fold (\<lambda>g. fold (cc_add_role w) (entry_roles q g)) check R = fold (cc_add_role w) (concat (map (entry_roles q) check)) R" for R
    by (induction check arbitrary: R) simp_all
  then show ?thesis by (simp add: cc_merge_roles_def)
qed

lemma length_om_put: "om_ok m \<Longrightarrow> length (om_put k v m) = (if k \<in> fst ` set m then length m else Suc (length m))"
proof (induction k v m rule: om_put.induct)
  case (2 k v a b m)
  have "k < a \<Longrightarrow> k \<notin> fst ` set m" using "2.prems" by (fastforce simp: om_ok_Cons)
  then show ?case using 2 by (auto simp: om_ok_Cons)
qed simp

definition not_ignoring :: "LfgWorld \<Rightarrow> LfgRolesMap \<Rightarrow> bool" where
  "not_ignoring w roles \<longleftrightarrow> (\<forall>g \<in> fst ` set roles. \<forall>h \<in> fst ` set roles. g \<noteq> h \<longrightarrow> \<not> LFGMgr_HasIgnore w g h)"

lemma HasIgnore_sym: "LFGMgr_HasIgnore w g h = LFGMgr_HasIgnore w h g"
  by (auto simp: LFGMgr_HasIgnore_def)

lemma add_role_ok:
  assumes "om_ok R" "not_ignoring w R"
  shows "om_ok (cc_add_role w x R)" "not_ignoring w (cc_add_role w x R)" "length (cc_add_role w x R) \<le> Suc (length R)"
    "length (cc_add_role w x R) = Suc (length R) \<Longrightarrow> fst x \<notin> fst ` set R \<and> cc_add_role w x R = om_put (fst x) (snd x) R"
proof -
  obtain g r where x: "x = (g, r)" by force
  show "om_ok (cc_add_role w x R)" "length (cc_add_role w x R) \<le> Suc (length R)"
    using assms(1) by (simp_all add: x cc_add_role_def length_om_put)
  show "length (cc_add_role w x R) = Suc (length R) \<Longrightarrow> fst x \<notin> fst ` set R \<and> cc_add_role w x R = om_put (fst x) (snd x) R"
    using assms(1) by (auto simp: x cc_add_role_def length_om_put split: if_splits)
  show "not_ignoring w (cc_add_role w x R)"
  proof (cases "list_ex (\<lambda>(p, r). g \<noteq> p \<and> LFGMgr_HasIgnore w g p) R")
    case False
    then have n: "\<forall>p \<in> fst ` set R. g \<noteq> p \<longrightarrow> \<not> LFGMgr_HasIgnore w g p" by (auto simp: list_ex_iff)
    have k: "fst ` set (cc_add_role w x R) = insert g (fst ` set R)" unfolding x cc_add_role_def using False by simp
    show ?thesis
      using n assms(2) HasIgnore_sym unfolding not_ignoring_def k by (metis insertE)
  qed (use assms(2) in \<open>simp add: x cc_add_role_def\<close>)
qed

lemma merge_ok:
  "om_ok R \<Longrightarrow> not_ignoring w R \<Longrightarrow>
     om_ok (fold (cc_add_role w) rs R) \<and> not_ignoring w (fold (cc_add_role w) rs R) \<and>
     length (fold (cc_add_role w) rs R) \<le> length R + length rs"
proof (induction rs arbitrary: R)
  case (Cons x rs)
  show ?case
    using Cons.IH [OF add_role_ok(1,2) [OF Cons.prems], of x] add_role_ok(3) [OF Cons.prems, of x] by simp
qed simp

lemma merge_full:
  "om_ok R \<Longrightarrow> not_ignoring w R \<Longrightarrow> length (fold (cc_add_role w) rs R) = length R + length rs \<Longrightarrow>
     set (fold (cc_add_role w) rs R) = set R \<union> set rs"
proof (induction rs arbitrary: R)
  case (Cons x rs)
  note a = add_role_ok [OF Cons.prems(1,2), of x]
  have "length (cc_add_role w x R) = Suc (length R)"
    using merge_ok [OF a(1,2), of rs] a(3) Cons.prems(3) by simp
  with a(4) have "fst x \<notin> fst ` set R" "cc_add_role w x R = om_put (fst x) (snd x) R" by simp_all
  then have "set (cc_add_role w x R) = insert x (set R)"
    using Cons.prems(1) by (auto simp: set_om_put image_iff)
  then show ?case
    using Cons.IH [OF a(1,2)] Cons.prems(3) \<open>length (cc_add_role w x R) = Suc (length R)\<close> by simp
qed simp

lemma cc_merge_roles_ok:
  "om_ok (cc_merge_roles w q check)" "not_ignoring w (cc_merge_roles w q check)"
  "length (cc_merge_roles w q check) \<le> length (concat (map (entry_roles q) check))"
  using merge_ok [of "[]" w "concat (map (entry_roles q) check)"] by (simp_all add: cc_merge_concat not_ignoring_def)

lemma cc_merge_roles_full:
  "length (cc_merge_roles w q check) = length (concat (map (entry_roles q) check)) \<Longrightarrow>
     set (cc_merge_roles w q check) = (\<Union>h \<in> set check. set (entry_roles q h))"
  using merge_full [of "[]" w "concat (map (entry_roles q) check)"]
  by (simp add: cc_merge_concat not_ignoring_def)

lemma cc_dungeons_all: "d \<in> set (cc_dungeons q check) \<Longrightarrow> h \<in> set check \<Longrightarrow> d \<in> set (entry_dungeons q h)"
proof (cases check)
  case (Cons g rest)
  have "set (fold (\<lambda>g ds. filter (\<lambda>d. d \<in> set (entry_dungeons q g)) ds) rest ds) =
      set ds \<inter> (\<Inter>g \<in> set rest. set (entry_dungeons q g))" for ds
    by (induction rest arbitrary: ds) auto
  moreover assume "d \<in> set (cc_dungeons q check)" "h \<in> set check"
  ultimately show ?thesis by (auto simp: Cons)
qed simp

subsection \<open>Players and leader of a proposal\<close>

definition only_draws :: "LFGMgr \<Rightarrow> LFGMgr \<Rightarrow> bool" where
  "only_draws m m' \<longleftrightarrow> (\<exists>n. m' = m\<lparr>lm_draws := n\<rparr>)"

lemma only_draws_refl: "only_draws m m"
  unfolding only_draws_def by (rule exI [of _ "lm_draws m"]) simp

lemma only_draws_trans: "only_draws m m1 \<Longrightarrow> only_draws m1 m2 \<Longrightarrow> only_draws m m2"
  by (auto simp: only_draws_def)

lemma cc_toss_ok: "cc_toss w sure m = (b, m') \<Longrightarrow> (sure \<longrightarrow> b) \<and> only_draws m m'"
  by (auto simp: cc_toss_def urand_def only_draws_refl split: if_splits) (auto simp: only_draws_def)

lemma om_put_last: "\<forall>j \<in> fst ` set m. j < k \<Longrightarrow> om_put k v m = m @ [(k, v)]"
  by (induction k v m rule: om_put.induct) auto

text \<open>One turn of the loop over the players: who leads then, and that only draws are used up.\<close>

lemma cc_players_turn:
  assumes "cc_players w isNew grp gs ((g, r) # roles) leader l P m = res"
  obtains takes d m1 where "cc_players w isNew grp gs roles (leader \<or> r AND PLAYER_ROLE_LEADER \<noteq> 0) (if takes then g else l)
      (om_put g d P) m1 = res" "pp_role d = r" "only_draws m m1"
    "\<not> leader \<Longrightarrow> ObjectGuid_IsEmpty l \<Longrightarrow> takes" "\<not> leader \<Longrightarrow> r AND PLAYER_ROLE_LEADER \<noteq> 0 \<Longrightarrow> takes"
    "leader \<Longrightarrow> r AND PLAYER_ROLE_LEADER = 0 \<Longrightarrow> \<not> takes"
proof -
  define wants where "wants = (r AND PLAYER_ROLE_LEADER \<noteq> 0)"
  obtain takes m1 where t: "(if wants then cc_toss w (\<not> leader \<or> ObjectGuid_IsEmpty l) m
      else if \<not> leader then cc_toss w (ObjectGuid_IsEmpty l) m else (False, m)) = (takes, m1)" by force
  have "only_draws m m1" "\<not> leader \<and> ObjectGuid_IsEmpty l \<longrightarrow> takes" "\<not> leader \<and> wants \<longrightarrow> takes" "leader \<and> \<not> wants \<longrightarrow> \<not> takes"
    using t by (auto dest!: cc_toss_ok simp: only_draws_refl split: if_splits)
  moreover have "cc_players w isNew grp gs roles (leader \<or> wants) (if takes then g else l)
      (om_put g (proposal_player isNew grp gs g r) P) m1 = res"
    using assms by (simp add: wants_def [symmetric] t)
  moreover have "pp_role (proposal_player isNew grp gs g r) = r" by (simp add: proposal_player_def Let_def)
  ultimately show thesis
    using that [of takes "proposal_player isNew grp gs g r" m1] by (simp add: wants_def)
qed

lemma cc_players_ok:
  "cc_players w isNew grp gs roles leader l P m = (l', P', m') \<Longrightarrow> om_ok roles \<Longrightarrow>
     \<forall>j \<in> fst ` set P. \<forall>k \<in> fst ` set roles. j < k \<Longrightarrow>
     map (\<lambda>(g, d). (g, pp_role d)) P' = map (\<lambda>(g, d). (g, pp_role d)) P @ roles \<and> only_draws m m'"
proof (induction roles arbitrary: leader l P m)
  case (Cons x roles)
  obtain g r where x: "x = (g, r)" by force
  from Cons.prems(1) [unfolded x] obtain takes d m1 where
    t: "cc_players w isNew grp gs roles (leader \<or> r AND PLAYER_ROLE_LEADER \<noteq> 0) (if takes then g else l) (om_put g d P) m1 = (l', P', m')"
    "pp_role d = r" "only_draws m m1" by (rule cc_players_turn) blast
  have ok: "om_ok roles" "\<forall>k \<in> fst ` set roles. g < k" using Cons.prems(2) by (simp_all add: x om_ok_Cons)
  have put: "om_put g d P = P @ [(g, d)]" using Cons.prems(3) by (intro om_put_last) (simp add: x)
  show ?case
    using Cons.IH [OF t(1) ok(1)] ok(2) Cons.prems(3) t(2,3) only_draws_trans by (auto simp: put x)
qed (simp add: only_draws_refl)

lemma cc_players_leader_in:
  "cc_players w isNew grp gs roles leader l P m = (l', P', m') \<Longrightarrow> l \<in> S \<Longrightarrow> fst ` set roles \<subseteq> S \<Longrightarrow> l' \<in> S"
proof (induction roles arbitrary: leader l P m)
  case (Cons x roles)
  obtain g r where x: "x = (g, r)" by force
  from Cons.prems(1) [unfolded x] obtain takes d m1 where
    t: "cc_players w isNew grp gs roles (leader \<or> r AND PLAYER_ROLE_LEADER \<noteq> 0) (if takes then g else l) (om_put g d P) m1 = (l', P', m')"
    by (rule cc_players_turn) blast
  show ?case using Cons.IH [OF t] Cons.prems(2,3) by (simp add: x)
qed simp

lemma cc_players_leader_first:
  assumes "cc_players w isNew grp gs roles False l P m = (l', P', m')" "ObjectGuid_IsEmpty l" "roles \<noteq> []"
  shows "l' \<in> fst ` set roles"
proof -
  obtain g r rest where roles: "roles = (g, r) # rest" using assms(3) by (metis list.exhaust surj_pair)
  from assms(1) [unfolded roles] obtain takes d m1 where
    t: "cc_players w isNew grp gs rest (False \<or> r AND PLAYER_ROLE_LEADER \<noteq> 0) (if takes then g else l) (om_put g d P) m1 = (l', P', m')"
    "takes" by (rule cc_players_turn) (use assms(2) in blast)
  then show ?thesis by (auto simp: roles dest: cc_players_leader_in [where S = "insert g (fst ` set rest)"])
qed

lemma cc_players_leader_wants:
  "cc_players w isNew grp gs roles leader l P m = (l', P', m') \<Longrightarrow> {g. wants_lead roles g} \<subseteq> S \<Longrightarrow>
     leader \<longrightarrow> l \<in> S \<Longrightarrow> leader \<or> (\<exists>g. wants_lead roles g) \<longrightarrow> l' \<in> S"
proof (induction roles arbitrary: leader l P m)
  case (Cons x roles)
  obtain g r where x: "x = (g, r)" by force
  have w: "wants_lead (x # roles) h \<longleftrightarrow> (h = g \<and> r AND PLAYER_ROLE_LEADER \<noteq> 0) \<or> wants_lead roles h" for h
    by (auto simp: wants_lead_def x)
  from Cons.prems(1) [unfolded x] obtain takes d m1 where
    t: "cc_players w isNew grp gs roles (leader \<or> r AND PLAYER_ROLE_LEADER \<noteq> 0) (if takes then g else l) (om_put g d P) m1 = (l', P', m')"
    "\<not> leader \<Longrightarrow> r AND PLAYER_ROLE_LEADER \<noteq> 0 \<Longrightarrow> takes"
    "leader \<Longrightarrow> r AND PLAYER_ROLE_LEADER = 0 \<Longrightarrow> \<not> takes" by (rule cc_players_turn) blast
  have "leader \<or> r AND PLAYER_ROLE_LEADER \<noteq> 0 \<longrightarrow> (if takes then g else l) \<in> S"
    using t(2,3) Cons.prems(2,3) w by auto
  moreover have "{g. wants_lead roles g} \<subseteq> S" using Cons.prems(2) w by auto
  ultimately show ?case using Cons.IH [OF t(1)] w by blast
qed (auto simp: wants_lead_def)

subsection \<open>Every proposal is a good one\<close>

definition same_states :: "LFGMgr \<Rightarrow> LFGMgr \<Rightarrow> bool" where
  "same_states m m' \<longleftrightarrow> lm_PlayersStore m' = lm_PlayersStore m \<and> lm_GroupsStore m' = lm_GroupsStore m"

lemma same_states_GetState: "same_states m m' \<Longrightarrow> LFGMgr_GetState g m' = LFGMgr_GetState g m"
  by (simp add: same_states_def LFGMgr_GetState_def)

definition search_safe :: "LfgWorld \<Rightarrow> LFGQueue \<times> LFGMgr \<Rightarrow> LFGQueue \<times> LFGMgr \<Rightarrow> bool" where
  "search_safe w = (\<lambda>(q, m) (q', m'). queue_ok q \<longrightarrow>
     queue_view q' = queue_view q \<and> same_states m m' \<and>
     (\<forall>p \<in> snd ` set (lm_ProposalsStore m'). p \<in> snd ` set (lm_ProposalsStore m) \<or> proposal_ok w q m p))"

definition final_roles :: "LfgWorld \<Rightarrow> LFGQueue \<Rightarrow> ObjectGuid list \<Rightarrow> LfgRolesMap \<Rightarrow> bool" where
  "final_roles w q check roles \<longleftrightarrow> om_ok roles \<and> length roles = MAX_GROUP_SIZE \<and>
     role_count PLAYER_ROLE_TANK roles = LFG_TANKS_NEEDED \<and> role_count PLAYER_ROLE_HEALER roles = LFG_HEALERS_NEEDED \<and>
     role_count PLAYER_ROLE_DAMAGE roles = LFG_DPS_NEEDED \<and>
     set (map fst roles) = (\<Union>h \<in> set check. set (map fst (entry_roles q h))) \<and>
     (\<forall>(g, r) \<in> set roles. \<exists>h \<in> set check. \<exists>r0. (g, r0) \<in> set (entry_roles q h) \<and> role_narrowed r0 r) \<and>
     (1 < length check \<longrightarrow> not_ignoring w roles)"

lemma final_roles_of_check:
  assumes "om_ok roles" "length roles = MAX_GROUP_SIZE" "CheckGroupRoles roles = (True, roles1)"
    and "set roles = (\<Union>h \<in> set check. set (entry_roles q h))" "1 < length check \<longrightarrow> not_ignoring w roles"
  shows "final_roles w q check roles1"
proof -
  have a: "roles_assigned roles roles1" using lfg_check.check_sound [of roles roles1] assms by (simp add: MAX_GROUP_SIZE_def)
  have guids: "map fst roles1 = map fst roles"
    using lfg_check.check_guids [of roles] assms by (simp add: MAX_GROUP_SIZE_def)
  then have keys: "fst ` set roles1 = fst ` set roles" by (metis list.set_map)
  have "\<exists>r0. (g, r0) \<in> set roles \<and> role_narrowed r0 r" if "(g, r) \<in> set roles1" for g r
  proof -
    from that obtain i where i: "i < length roles1" "roles1 ! i = (g, r)" by (metis in_set_conv_nth)
    have "list_all2 (\<lambda>(g, r) (g', s). g = g' \<and> role_narrowed r s) roles roles1" using a by (simp add: roles_assigned_def)
    with i have "i < length roles" "fst (roles ! i) = g \<and> role_narrowed (snd (roles ! i)) r"
      by (auto simp: list_all2_conv_all_nth case_prod_beta)
    then show ?thesis by (metis nth_mem surjective_pairing)
  qed
  moreover have "role_count PLAYER_ROLE_TANK roles1 = 1 \<and> role_count PLAYER_ROLE_HEALER roles1 = 1 \<and> role_count PLAYER_ROLE_DAMAGE roles1 = 3"
    using lfg_check.check_full_group [of roles roles1] assms by (simp add: MAX_GROUP_SIZE_def)
  moreover have "om_ok roles1" using assms(1) guids by (simp add: om_ok_def)
  moreover have "length roles1 = MAX_GROUP_SIZE" using assms(2) guids by (metis length_map)
  moreover have "set (map fst roles1) = (\<Union>h \<in> set check. set (map fst (entry_roles q h)))"
    using assms(4) guids by (auto simp: image_iff)
  moreover have "1 < length check \<longrightarrow> not_ignoring w roles1" using assms(5) by (simp add: not_ignoring_def keys)
  ultimately show ?thesis
    unfolding final_roles_def LFG_TANKS_NEEDED_def LFG_HEALERS_NEEDED_def LFG_DPS_NEEDED_def assms(4) by blast
qed

lemma set_om_put_sub: "set (om_put k v m) \<subseteq> insert (k, v) (set m)"
  by (induction k v m rule: om_put.induct) auto

lemma all_queued_states: "LFGMgr_AllQueued check m \<Longrightarrow> h \<in> set check \<Longrightarrow> LFGMgr_GetState h m = LFG_STATE_QUEUED"
proof -
  have "LFGMgr_all_queued check m \<Longrightarrow> h \<in> set check \<Longrightarrow> LFGMgr_GetState h m = LFG_STATE_QUEUED"
    by (induction check) auto
  then show "LFGMgr_AllQueued check m \<Longrightarrow> h \<in> set check \<Longrightarrow> LFGMgr_GetState h m = LFG_STATE_QUEUED"
    by (simp add: LFGMgr_AllQueued_def)
qed

lemma select_random_in: "xs \<noteq> [] \<Longrightarrow> SelectRandomContainerElement w xs m = (x, m1) \<Longrightarrow> x \<in> set xs \<and> only_draws m m1"
proof -
  assume ne: "xs \<noteq> []" and s: "SelectRandomContainerElement w xs m = (x, m1)"
  have "lw_draw w (lm_draws m) mod (length xs - 1 + 1) < length xs" using ne by (cases xs) simp_all
  then show ?thesis using s unfolding SelectRandomContainerElement_def urand_def only_draws_def by auto
qed

lemma final_proposal_ok:
  assumes f: "final_roles w q check roles" and P: "map (\<lambda>(g, d). (g, pp_role d)) P = roles"
    and p: "pr_players p = P" "pr_queues p = check" "pr_dungeonId p = d" "pr_leader p = l"
    and q: "LFGMgr_AllQueued check m" and d: "\<forall>h \<in> set check. d \<in> set (entry_dungeons q h)"
    and l: "l \<in> fst ` set roles" "(\<exists>g. wants_lead roles g) \<longrightarrow> wants_lead roles l"
  shows "proposal_ok w q m p"
proof -
  have r: "proposal_roles p = roles" by (simp add: proposal_roles_def p P)
  have "map fst P = map fst (map (\<lambda>(g, d). (g, pp_role d)) P)" by (simp add: comp_def case_prod_beta)
  then have k: "map fst P = map fst roles" by (simp add: P)
  have f1: "om_ok roles" "length roles = MAX_GROUP_SIZE" using f by (simp_all add: final_roles_def)
  have "length P = length roles" using P by (metis length_map)
  with f1 have "length P = MAX_GROUP_SIZE" "distinct (map fst roles)" by (simp_all add: om_ok_distinct)
  then show ?thesis
    using f [unfolded final_roles_def not_ignoring_def] all_queued_states [OF q] d l
    unfolding proposal_ok_def r p k set_map by blast
qed

lemma cc_finish_safe:
  assumes f: "np = of_nat MAX_GROUP_SIZE \<Longrightarrow> final_roles w q check roles"
    and ds: "ds \<noteq> []" "\<forall>h \<in> set check. \<forall>d \<in> set ds. d \<in> set (entry_dungeons q h)"
  shows "search_safe w (q, m) (snd (cc_finish w check np nl gs grp roles ds q m))"
proof (cases "np = of_nat MAX_GROUP_SIZE \<and> LFGMgr_AllQueued check m")
  case True
  define isNew where "isNew = (nl \<noteq> 1 \<or> LFGMgr_GetOldState (hd check) m \<noteq> LFG_STATE_DUNGEON)"
  obtain d m1 where d: "SelectRandomContainerElement w ds m = (d, m1)" by force
  obtain l P m2 where P: "cc_players w isNew grp gs roles False ObjectGuid_Empty [] m1 = (l, P, m2)" by (metis prod_cases3)
  define p where "p = (LfgProposal_init 0)\<lparr>pr_dungeonId := d, pr_state := LFG_PROPOSAL_INITIATING,
               pr_group := grp, pr_leader := l, pr_cancelTime := lw_time w + LFG_TIME_PROPOSAL,
               pr_isNew := isNew, pr_queues := check, pr_players := P\<rparr>"
  define i where "i = lm_lfgProposalId m2 + 1"
  have fin: "final_roles w q check roles" using f True by simp
  then have ok: "om_ok roles" and ne: "roles \<noteq> []" by (auto simp: final_roles_def MAX_GROUP_SIZE_def)
  have pl: "map (\<lambda>(g, d). (g, pp_role d)) P = roles" "only_draws m1 m2"
    using cc_players_ok [OF P ok] by simp_all
  have "l \<in> fst ` set roles"
    by (rule cc_players_leader_first [OF P _ ne]) (simp add: ObjectGuid_IsEmpty_def ObjectGuid_Empty_def)
  moreover have "(\<exists>g. wants_lead roles g) \<longrightarrow> wants_lead roles l"
    using cc_players_leader_wants [OF P, of "{g. wants_lead roles g}"] by simp
  moreover have dm: "d \<in> set ds" "only_draws m m1" using select_random_in [OF ds(1) d] by simp_all
  ultimately have good: "proposal_ok w q m (p\<lparr>pr_id := i\<rparr>)"
    using True ds(2) by (intro final_proposal_ok [OF fin pl(1), of _ d l]) (simp_all add: p_def, blast?)
  have "only_draws m m2" using dm(2) pl(2) by (rule only_draws_trans)
  then have m2: "same_states m m2" "lm_ProposalsStore m2 = lm_ProposalsStore m"
    by (auto simp: only_draws_def same_states_def)
  have fin_eq: "snd (cc_finish w check np nl gs grp roles ds q m) =
      (LFGQueue_SetCompatibles (ConcatenateGuids check) LFG_COMPATIBLES_MATCH
        (fold (\<lambda>guid q. LFGQueue_RemoveFromCurrentQueue guid (LFGQueue_RemoveFromNewQueue guid q)) check q), LFGMgr_AddProposal p m2)"
    using True d P by (simp add: cc_finish_def Let_def p_def isNew_def)
  have "same_states m (LFGMgr_AddProposal p m2)" using m2 by (simp add: same_states_def LFGMgr_AddProposal_def Let_def)
  moreover have "lm_ProposalsStore (LFGMgr_AddProposal p m2) = om_put i (p\<lparr>pr_id := i\<rparr>) (lm_ProposalsStore m)"
    by (simp add: LFGMgr_AddProposal_def Let_def i_def m2)
  then have "\<forall>x \<in> snd ` set (lm_ProposalsStore (LFGMgr_AddProposal p m2)). x \<in> snd ` set (lm_ProposalsStore m) \<or> proposal_ok w q m x"
    using set_om_put_sub [of i "p\<lparr>pr_id := i\<rparr>" "lm_ProposalsStore m"] good by auto
  ultimately show ?thesis unfolding fin_eq by (simp add: search_safe_def view_simps)
next
  case False
  then show ?thesis
    by (auto simp: cc_finish_def Let_def search_safe_def view_simps same_states_def)
qed

lemma cc_combination_safe:
  assumes "check \<noteq> []" "length check \<le> MAX_GROUP_SIZE"
  shows "search_safe w (q, m) (snd (cc_combination w check q m))"
proof (cases "queue_ok q")
  case q: True
  have cached: "search_safe w (q, m) (LFGQueue_SetCompatibles key c q, m)" for key c
    by (simp add: search_safe_def view_simps same_states_def)
  show ?thesis
  proof (cases "cc_count q m check 0 0 [] ObjectGuid_Empty")
    case (Inl g)
    have "cc_count q m check np nl gs grp = Inl g \<Longrightarrow> map_of (lq_QueueDataStore q) g = None" for np nl gs grp
      by (induction q m check np nl gs grp rule: cc_count.induct) (auto simp: Let_def split: if_splits option.splits)
    with Inl have "map_of (lq_QueueDataStore q) g = None" by blast
    with Inl show ?thesis
      by (simp add: cc_combination_def Let_def search_safe_def view_RemoveFromQueue_absent same_states_def)
  next
    case (Inr cnt)
    obtain np nl gs grp where cnt: "cnt = (np, nl, gs, grp)" by (metis prod_cases4)
    note def = cc_combination_def Let_def Inr cnt sum.case prod.case
    show ?thesis
    proof (cases "length check = 1 \<and> np \<noteq> of_nat MAX_GROUP_SIZE \<or> 1 < nl \<or> of_nat MAX_GROUP_SIZE < np")
      case True
      then show ?thesis
        using cached by (auto simp: def search_safe_def view_simps same_states_def)
    next
      case False
      then have "nl \<le> 1" "np \<le> of_nat MAX_GROUP_SIZE" by auto
      with q Inr have n: "unat np = length (concat (map (entry_roles q) check))"
        and in_store: "\<forall>h \<in> set check. map_of (lq_QueueDataStore q) h \<noteq> None"
        using cc_count_ok [of q 0 m check 0 "[]" ObjectGuid_Empty np nl gs grp] by (simp_all add: cnt)
      have le: "unat np \<le> 5" using \<open>np \<le> of_nat MAX_GROUP_SIZE\<close> by (simp add: word_le_nat_alt MAX_GROUP_SIZE_def)
      have full: "np = of_nat MAX_GROUP_SIZE \<Longrightarrow> length (concat (map (entry_roles q) check)) = MAX_GROUP_SIZE"
        using n by (simp add: MAX_GROUP_SIZE_def)
      have entry: "entry_ok (entry_roles q h) (entry_dungeons q h)" if "h \<in> set check" for h
        using in_store that queue_ok_entry [OF q] by (fastforce simp: LFGQueue_entry_def)
      show ?thesis
      proof (cases "1 < length check")
        case many: True
        define roles where "roles = cc_merge_roles w q check"
        define ds where "ds = cc_dungeons q check"
        obtain okay roles1 where cgr: "CheckGroupRoles roles = (okay, roles1)" by force
        note mr = cc_merge_roles_ok [where w = w and q = q and check = check, folded roles_def]
        have eq: "snd (cc_combination w check q m) =
          (if np - of_nat (length roles) \<noteq> 0 then (LFGQueue_SetCompatibles (ConcatenateGuids check) LFG_INCOMPATIBLES_HAS_IGNORES q, m)
           else if \<not> okay then (LFGQueue_SetCompatibles (ConcatenateGuids check) LFG_INCOMPATIBLES_NO_ROLES q, m)
           else if ds = [] then (LFGQueue_SetCompatibles (ConcatenateGuids check) LFG_INCOMPATIBLES_NO_DUNGEONS q, m)
           else snd (cc_finish w check np nl gs grp roles1 ds q m))"
          using False many by (auto simp: def cgr roles_def [symmetric] ds_def [symmetric])
        have "search_safe w (q, m) (snd (cc_finish w check np nl gs grp roles1 ds q m))"
          if "np - of_nat (length roles) = 0" "okay" "ds \<noteq> []"
        proof (rule cc_finish_safe)
          assume five: "np = of_nat MAX_GROUP_SIZE"
          have "length roles \<le> 5" using mr(3) n le by simp
          moreover have "of_nat (length roles) = np" using that(1) by simp
          moreover have "unat (of_nat (length roles) :: u8) = length roles"
            using calculation(1) by (simp add: unat_of_nat take_bit_nat_eq_self)
          ultimately have len: "length roles = unat np" by simp
          then have "set roles = (\<Union>h \<in> set check. set (entry_roles q h))"
            unfolding roles_def using n by (intro cc_merge_roles_full) (simp add: roles_def)
          moreover have "length roles = MAX_GROUP_SIZE" using len full [OF five] n by simp
          ultimately show "final_roles w q check roles1"
            using cgr that(2) mr(1,2) by (intro final_roles_of_check [of roles]) simp_all
        next
          show "ds \<noteq> []" by (rule that)
          show "\<forall>h \<in> set check. \<forall>d \<in> set ds. d \<in> set (entry_dungeons q h)" by (simp add: ds_def cc_dungeons_all)
        qed
        then show ?thesis unfolding eq using cached by auto
      next
        case one: False
        then obtain h where h: "check = [h]" using assms(1) by (cases check) auto
        obtain okay roles1 where cgr: "CheckGroupRoles (entry_roles q h) = (okay, roles1)" by force
        have eq: "snd (cc_combination w check q m) = snd (cc_finish w check np nl gs grp roles1 (entry_dungeons q h) q m)"
          unfolding def using False by (auto simp: h cgr)
        have e: "entry_ok (entry_roles q h) (entry_dungeons q h)" using entry by (simp add: h)
        show ?thesis unfolding eq
        proof (rule cc_finish_safe)
          assume "np = of_nat MAX_GROUP_SIZE"
          then have "length (entry_roles q h) = MAX_GROUP_SIZE" using full by (simp add: h)
          then show "final_roles w q check roles1"
            using cgr e by (intro final_roles_of_check [of "entry_roles q h"]) (simp_all add: entry_ok_def h)
        qed (use e in \<open>simp_all add: entry_ok_def h\<close>)
      qed
    qed
  qed
next
  case False
  then show ?thesis by (simp add: search_safe_def case_prod_beta)
qed

text \<open>The turns of \<open>FindGroups\<close> move guids between the lists as well.\<close>

locale queue_run = queue_search +
  assumes R_unqueue: "R w (q, m) (LFGQueue_RemoveFromNewQueue g q, m)"
    and R_enqueue: "R w (q, m) (LFGQueue_AddToCurrentQueue g q, m)"
begin

lemma R_find_groups: "R w (q, m) (snd (LFGQueue_FindGroups_from w n q m))"
proof (induction w n q m rule: LFGQueue_FindGroups_from.induct)
  case (1 w n q m)
  show ?case
  proof (cases "lq_newToQueueStore q")
    case Nil
    then show ?thesis by (simp add: find_groups_done R_refl)
  next
    case (Cons g gs)
    let ?q1 = "LFGQueue_RemoveFromNewQueue g q"
    obtain c cs q2 m1 where f: "LFGQueue_FindNewGroups w [g] (lq_currentQueueStore q) ?q1 m = (c, cs, q2, m1)"
      by (metis prod_cases4)
    have cur: "lq_currentQueueStore ?q1 = lq_currentQueueStore q" by (simp add: LFGQueue_RemoveFromNewQueue_def)
    have s: "R w (q, m) (q2, m1)"
      using R_trans [OF R_unqueue [of w q m g] R_find_new [of w ?q1 m "[g]" "lq_currentQueueStore q"]] f by simp
    show ?thesis
    proof (cases "c = LFG_COMPATIBLES_MATCH")
      case True
      then have "R w (q2, m1) (snd (LFGQueue_FindGroups_from w (n + 1) q2 m1))"
        using 1(1) [OF Cons refl f [folded cur, symmetric] refl refl] by simp
      with s True show ?thesis by (simp add: find_groups_turn [OF Cons f]) (blast intro: R_trans)
    next
      case False
      then have "R w (LFGQueue_AddToCurrentQueue g q2, m1) (snd (LFGQueue_FindGroups_from w n (LFGQueue_AddToCurrentQueue g q2) m1))"
        using 1(2) [OF Cons refl f [folded cur, symmetric] refl refl] by simp
      with s False R_enqueue [of w q2 m1 g] show ?thesis
        by (simp add: find_groups_turn [OF Cons f]) (blast intro: R_trans)
    qed
  qed
qed

end

interpretation safe: queue_run search_safe
proof unfold_locales
  fix w s t u
  assume a: "search_safe w s t" and b: "search_safe w t u"
  obtain q m q1 m1 q2 m2 where [simp]: "s = (q, m)" "t = (q1, m1)" "u = (q2, m2)" by (metis surj_pair)
  show "search_safe w s u"
  proof (cases "queue_ok q")
    case True
    with a have v: "queue_view q1 = queue_view q" "same_states m m1" by (simp_all add: search_safe_def)
    then have ok: "queue_ok q1" using True view_queue_ok by blast
    have same: "proposal_ok w q1 m1 p = proposal_ok w q m p" for p
      using v by (intro proposal_ok_cong same_states_GetState)
    have "\<forall>p \<in> snd ` set (lm_ProposalsStore m1). p \<in> snd ` set (lm_ProposalsStore m) \<or> proposal_ok w q m p"
      using a True by (simp add: search_safe_def)
    moreover have b': "queue_view q2 = queue_view q1" "same_states m1 m2"
      "\<forall>p \<in> snd ` set (lm_ProposalsStore m2). p \<in> snd ` set (lm_ProposalsStore m1) \<or> proposal_ok w q m p"
      using b ok same by (simp_all add: search_safe_def)
    ultimately have "\<forall>p \<in> snd ` set (lm_ProposalsStore m2). p \<in> snd ` set (lm_ProposalsStore m) \<or> proposal_ok w q m p"
      by blast
    with v b' show ?thesis by (simp add: search_safe_def same_states_def)
  qed (simp add: search_safe_def)
next
  show "search_safe w (q, m) (snd (cc_combination w check q m))" if "check \<noteq> []" "length check \<le> MAX_GROUP_SIZE" for w check q m
    using that by (rule cc_combination_safe)
qed (auto simp: search_safe_def view_simps same_states_def)

lemma find_groups_new_empty: "lq_newToQueueStore (fst (snd (LFGQueue_FindGroups_from w n q m))) = []"
proof (induction w n q m rule: LFGQueue_FindGroups_from.induct)
  case (1 w n q m)
  show ?case
  proof (cases "lq_newToQueueStore q")
    case Nil
    then show ?thesis by (simp add: find_groups_done)
  next
    case (Cons g gs)
    obtain c cs q2 m1 where f: "LFGQueue_FindNewGroups w [g] (lq_currentQueueStore q)
        (LFGQueue_RemoveFromNewQueue g q) m = (c, cs, q2, m1)" by (metis prod_cases4)
    have cur: "lq_currentQueueStore (LFGQueue_RemoveFromNewQueue g q) = lq_currentQueueStore q"
      by (simp add: LFGQueue_RemoveFromNewQueue_def)
    show ?thesis
      using 1(1) [OF Cons refl f [folded cur, symmetric] refl refl] 1(2) [OF Cons refl f [folded cur, symmetric] refl refl]
      by (simp add: find_groups_turn [OF Cons f])
  qed
qed

text \<open>C5: in a queue whose entries can all take part in a group (\<open>queue_ok\<close>), looking for groups leaves nobody unlooked
  at. Of the entries it changes only what they remember of their best combination: who is queued with which roles,
  dungeons and join time stays, and so does the state of every player and group. Every proposal it makes is a full group
  of five different players with one tank, one healer and three damage dealers, each in a role it queued with, for a
  dungeon all of them queued for, with a leader among those who want to lead, and, when it is put together from
  several entries, without players that ignore each other.\<close>

theorem FindGroups_proposals:
  assumes "queue_ok q" "LFGQueue_FindGroups w q m = (n, q', m')"
  shows "lq_newToQueueStore q' = [] \<and> queue_view q' = queue_view q \<and> same_states m m' \<and>
    (\<forall>p \<in> snd ` set (lm_ProposalsStore m'). p \<in> snd ` set (lm_ProposalsStore m) \<or> proposal_ok w q m p)"
  using safe.R_find_groups [of w q m 0] find_groups_new_empty [of w 0 q m] assms
  by (simp add: LFGQueue_FindGroups_def search_safe_def)

definition lfg_world :: LfgWorld where
  "lfg_world = \<lparr>lw_time = 1000, lw_draw = (\<lambda>n. n), lw_connected = (\<lambda>g. True), lw_ignores = (\<lambda>g h. False),
     lw_in_world = (\<lambda>g. True), lw_in_dungeon = (\<lambda>g. False), lw_group_exists = (\<lambda>g. True)\<rparr>"

definition demo_party :: ObjectGuid where
  "demo_party = ObjectGuid 7 0x6C00000000000000"

definition demo_queue :: LFGQueue where
  "demo_queue = LFGQueue_AddQueueData demo_party 900 [258, 261] (demo_roles [0x0A, 0x06, 0x0D, 0x0A, 0x08]) LFGQueue_init"

definition demo_mgr :: LFGMgr where
  "demo_mgr = LFGMgr_SetState demo_party LFG_STATE_QUEUED (LFGMgr_init 1)"

lemma cc_finish_makes_proposal:
  "np = of_nat MAX_GROUP_SIZE \<Longrightarrow> LFGMgr_AllQueued check m \<Longrightarrow>
     fst (cc_finish w check np nl gs grp roles ds q m) = LFG_COMPATIBLES_MATCH \<and>
     lq_newToQueueStore (fst (snd (cc_finish w check np nl gs grp roles ds q m))) =
       lq_newToQueueStore (fold (\<lambda>guid q. LFGQueue_RemoveFromCurrentQueue guid (LFGQueue_RemoveFromNewQueue guid q)) check q) \<and>
     lm_ProposalsStore (snd (snd (cc_finish w check np nl gs grp roles ds q m))) \<noteq> []"
  by (simp add: cc_finish_def Let_def LFGMgr_AddProposal_def split: prod.splits)

lemma demo_queue_facts:
  "map_of (lq_QueueDataStore demo_queue) demo_party =
     Some (LfgQueueData_init 900 [258, 261] (demo_roles [0x0A, 0x06, 0x0D, 0x0A, 0x08]))"
  "lq_newToQueueStore demo_queue = [demo_party]" "lq_currentQueueStore demo_queue = []"
  "lq_CompatibleMapStore demo_queue = []" "LFGMgr_AllQueued [demo_party] demo_mgr" "\<not> LFGMgr_IsLfgGroup demo_party demo_mgr"
  "length (demo_roles [0x0A, 0x06, 0x0D, 0x0A, 0x08]) = 5" "queue_ok demo_queue"
proof -
  have p: "ObjectGuid_IsParty demo_party" by code_simp
  show "map_of (lq_QueueDataStore demo_queue) demo_party =
     Some (LfgQueueData_init 900 [258, 261] (demo_roles [0x0A, 0x06, 0x0D, 0x0A, 0x08]))"
    "lq_newToQueueStore demo_queue = [demo_party]" "lq_currentQueueStore demo_queue = []"
    "lq_CompatibleMapStore demo_queue = []"
    by (simp_all add: demo_queue_def LFGQueue_AddQueueData_def LFGQueue_AddToQueue_def LFGQueue_init_def LFGQueue_AddToNewQueue_def)
  show "LFGMgr_AllQueued [demo_party] demo_mgr" "\<not> LFGMgr_IsLfgGroup demo_party demo_mgr"
    using p by (simp_all add: demo_mgr_def LFGMgr_AllQueued_def LFGMgr_GetState_def LFGMgr_SetState_def LFGMgr_group_def
        LfgGroupData_SetState_def LFGMgr_IsLfgGroup_def LfgGroupData_IsLfgGroup_def LFGMgr_init_def LfgGroupData_init_def)
  show len: "length (demo_roles [0x0A, 0x06, 0x0D, 0x0A, 0x08]) = 5" by (simp add: demo_roles_def)
  have ok: "om_ok (demo_roles [0x0A, 0x06, 0x0D, 0x0A, 0x08])"
    by (simp add: demo_roles_def upt_rec om_ok_def less_ObjectGuid_def)
  have "roles_assigned (demo_roles [0x0A, 0x06, 0x0D, 0x0A, 0x08]) (demo_roles [0x08, 0x02, 0x05, 0x08, 0x08])"
    by (simp add: roles_assigned_def demo_roles_def role_narrowed_def lfg_roles_def role_count_def upt_rec
        PLAYER_ROLE_TANK_def PLAYER_ROLE_HEALER_def PLAYER_ROLE_DAMAGE_def PLAYER_ROLE_LEADER_def
        LFG_TANKS_NEEDED_def LFG_HEALERS_NEEDED_def LFG_DPS_NEEDED_def)
  then have "fst (CheckGroupRoles (demo_roles [0x0A, 0x06, 0x0D, 0x0A, 0x08]))"
    using lfg_check.check_complete len by simp
  with ok len show "queue_ok demo_queue"
    by (simp add: queue_ok_def queue_view_def demo_queue_def LFGQueue_AddQueueData_def LFGQueue_AddToQueue_def LFGQueue_init_def
        LFGQueue_AddToNewQueue_def LfgQueueData_init_def entry_ok_def MAX_GROUP_SIZE_def) (auto simp: om_ok_def)
qed

lemma demo_search:
  "lm_ProposalsStore (snd (snd (LFGQueue_FindGroups lfg_world demo_queue demo_mgr))) \<noteq> []"
proof -
  let ?roles = "demo_roles [0x0A, 0x06, 0x0D, 0x0A, 0x08]"
  define q where "q = LFGQueue_RemoveFromNewQueue demo_party demo_queue"
  have q: "lq_QueueDataStore q = lq_QueueDataStore demo_queue" "lq_newToQueueStore q = []"
    "lq_CompatibleMapStore q = []" using demo_queue_facts by (simp_all add: q_def LFGQueue_RemoveFromNewQueue_def)
  note f = demo_queue_facts [folded q(1)]
  obtain gs where count: "cc_count q demo_mgr [demo_party] 0 0 [] ObjectGuid_Empty = Inr (5, 0, gs, ObjectGuid_Empty)"
    using f(1,6,7) by (simp add: LfgQueueData_init_def MAX_GROUP_SIZE_def)
  obtain c q2 m2 where fin: "cc_finish lfg_world [demo_party] 5 0 gs ObjectGuid_Empty (snd (CheckGroupRoles ?roles)) [258, 261] q demo_mgr = (c, q2, m2)"
    by (metis prod_cases3)
  have fin': "c = LFG_COMPATIBLES_MATCH" "lq_newToQueueStore q2 = []" "lm_ProposalsStore m2 \<noteq> []"
    using cc_finish_makes_proposal [of 5 "[demo_party]" demo_mgr lfg_world 0 gs ObjectGuid_Empty "snd (CheckGroupRoles ?roles)" "[258, 261]" q]
      fin f(5) q(2) by (simp_all add: MAX_GROUP_SIZE_def LFGQueue_RemoveFromCurrentQueue_def LFGQueue_RemoveFromNewQueue_def)
  have "LFGQueue_CheckCompatibility lfg_world [demo_party] q demo_mgr = (c, q2, m2)"
    using f(1) by (simp add: cc_combination_def count Let_def MAX_GROUP_SIZE_def LFGQueue_entry_def LfgQueueData_init_def fin del: cc_count.simps)
  then have "LFGQueue_FindNewGroups lfg_world [demo_party] [] q demo_mgr = (c, [], q2, m2)"
    using q(3) fin'(1) by (simp add: LFGQueue_FindNewGroups.simps fng_head_def LFGQueue_GetCompatibles_def Let_def)
  then have "LFGQueue_FindGroups_from lfg_world 0 demo_queue demo_mgr = LFGQueue_FindGroups_from lfg_world (0 + 1) q2 m2"
    using find_groups_turn [OF f(2), of lfg_world demo_mgr c "[]" q2 m2 0] f(3) fin'(1) by (simp add: q_def)
  with fin' show ?thesis by (simp add: LFGQueue_FindGroups_def find_groups_done)
qed

theorem FindGroups_proposals_witness:
  "lm_ProposalsStore (snd (snd (LFGQueue_FindGroups lfg_world demo_queue demo_mgr))) \<noteq> [] \<and>
   list_all (\<lambda>(i, p). proposal_ok lfg_world demo_queue demo_mgr p)
     (lm_ProposalsStore (snd (snd (LFGQueue_FindGroups lfg_world demo_queue demo_mgr))))"
proof -
  have "lm_ProposalsStore demo_mgr = []"
    by (simp add: demo_mgr_def LFGMgr_SetState_def LFGMgr_group_def LFGMgr_player_def LFGMgr_init_def)
  then show ?thesis
    using demo_search demo_queue_facts(8)
      FindGroups_proposals [of demo_queue lfg_world demo_mgr "fst (LFGQueue_FindGroups lfg_world demo_queue demo_mgr)"
        "fst (snd (LFGQueue_FindGroups lfg_world demo_queue demo_mgr))" "snd (snd (LFGQueue_FindGroups lfg_world demo_queue demo_mgr))"]
    by (auto simp: list_all_iff)
qed

subsection \<open>Leaving the queue\<close>

lemma bar_not_in_print: "CHR ''|'' \<notin> set (ObjectGuid_print g)"
proof -
  have "\<forall>d \<in> set [0..<16]. hex_char d \<noteq> CHR ''|''" by code_simp
  then show ?thesis using hex_digits_chars by (fastforce simp: ObjectGuid_print_def put_hex16_def)
qed

lemma sublist_around:
  assumes "c \<notin> set xs" "sublist xs (ys @ c # zs)"
  shows "sublist xs ys \<or> sublist xs zs"
proof -
  from assms(2) obtain ps ss where e: "ys @ c # zs = ps @ xs @ ss" by (auto simp: sublist_def)
  then consider us where "ys = ps @ us" "us @ c # zs = xs @ ss" | us where "ps = ys @ us" "c # zs = us @ xs @ ss"
    by (auto simp: append_eq_append_conv2)
  then show ?thesis
  proof cases
    case 1
    from 1(2) consider vs where "us = xs @ vs" | vs where "xs = us @ vs" "c # zs = vs @ ss"
      by (auto simp: append_eq_append_conv2)
    then show ?thesis
    proof cases
      case 1
      with \<open>ys = ps @ us\<close> show ?thesis by (auto simp: sublist_def)
    next
      case 2
      with assms(1) have "vs = []" by (cases vs) auto
      with 2 \<open>ys = ps @ us\<close> show ?thesis by (auto simp: sublist_def intro: exI [of _ ps])
    qed
  next
    case 2
    then show ?thesis
      using assms(1) by (cases us; cases xs) (auto simp: sublist_def)
  qed
qed

lemma sublist_same_length: "sublist xs ys \<Longrightarrow> length ys \<le> length xs \<Longrightarrow> xs = ys"
  by (auto simp: sublist_def)

lemma names_guid_bar_join: "names_guid g (bar_join gs) \<longleftrightarrow> g \<in> set gs"
proof
  have print: "sublist (ObjectGuid_print g) (ObjectGuid_print h) \<Longrightarrow> g = h" for h
    using sublist_same_length [of "ObjectGuid_print g" "ObjectGuid_print h"] by simp
  show "names_guid g (bar_join gs) \<Longrightarrow> g \<in> set gs"
  proof (induction gs rule: bar_join.induct)
    case 1
    have "ObjectGuid_print g \<noteq> []" by (metis length_ObjectGuid_print list.size(3) numeral_eq_iff zero_neq_numeral)
    with 1 show ?case by (simp add: names_guid_def)
  next
    case (2 h)
    then show ?case using print by (simp add: names_guid_def)
  next
    case (3 h k gs)
    then show ?case
      using print sublist_around [OF bar_not_in_print] by (fastforce simp: names_guid_def)
  qed
  show "g \<in> set gs \<Longrightarrow> names_guid g (bar_join gs)"
  proof (induction gs rule: bar_join.induct)
    case (3 h k gs)
    then consider "g = h" | "names_guid g (bar_join (k # gs))" by auto
    then show ?case
    proof cases
      case 1
      then show ?thesis unfolding names_guid_def bar_join.simps by (simp add: sublist_appendI)
    next
      case 2
      then obtain ps ss where "bar_join (k # gs) = ps @ ObjectGuid_print g @ ss" by (auto simp: names_guid_def sublist_def)
      then have "bar_join (h # k # gs) = (ObjectGuid_print h @ CHR ''|'' # ps) @ ObjectGuid_print g @ ss" by simp
      then show ?thesis unfolding names_guid_def sublist_def by blast
    qed
  qed (simp_all add: names_guid_def)
qed

lemma set_GuidSet_of: "set (GuidSet_of gs) = set gs"
proof -
  have "set (fold List.insort_insert gs acc) = set gs \<union> set acc" for acc :: "ObjectGuid list"
    by (induction gs arbitrary: acc) (auto simp: set_insort_insert)
  then show ?thesis by (simp add: GuidSet_of_def)
qed

lemma names_guid_key: "names_guid g (ConcatenateGuids gs) \<longleftrightarrow> g \<in> set gs"
  by (simp add: ConcatenateGuids_def names_guid_bar_join set_GuidSet_of)

text \<open>Every key, in the cache or noted as best combination, is a concatenation of guids.\<close>

definition key_ok :: "string \<Rightarrow> bool" where
  "key_ok key \<longleftrightarrow> (\<exists>gs. key = ConcatenateGuids gs)"

definition queue_keys_ok :: "LFGQueue \<Rightarrow> bool" where
  "queue_keys_ok q \<longleftrightarrow> (\<forall>key \<in> fst ` set (lq_CompatibleMapStore q). key_ok key) \<and>
     (\<forall>d \<in> snd ` set (lq_QueueDataStore q). key_ok (qd_bestCompatible d))"

lemma key_ok_Nil: "key_ok []"
  unfolding key_ok_def by (rule exI [of _ "[]"]) (simp add: ConcatenateGuids_def GuidSet_of_def)

lemma key_ok_ConcatenateGuids: "key_ok (ConcatenateGuids gs)"
  by (auto simp: key_ok_def)

lemma best_take_role: "qd_bestCompatible (fold (\<lambda>(g, r). take_role r) rs d) = qd_bestCompatible d"
  by (induction rs arbitrary: d) (auto simp: take_role_def)

lemma best_Update:
  "qd_bestCompatible (LFGQueue_UpdateBestCompatibleInQueue key roles d) \<in> {key, qd_bestCompatible d}"
  by (simp add: LFGQueue_UpdateBestCompatibleInQueue_def Let_def best_take_role)

lemma best_Find:
  "qd_bestCompatible (LFGQueue_FindBestCompatibleInQueue cs g d) \<in> insert (qd_bestCompatible d) (fst ` set cs)"
  unfolding LFGQueue_FindBestCompatibleInQueue_def
proof (induction cs arbitrary: d)
  case (Cons x cs)
  obtain key data where x: "x = (key, data)" by force
  show ?case
    using Cons.IH [of "if cd_compatibility data = LFG_COMPATIBLES_WITH_LESS_PLAYERS \<and> names_guid g key
        then LFGQueue_UpdateBestCompatibleInQueue key (cd_roles data) d else d"] best_Update [of key "cd_roles data" d]
    by (auto simp: x split: if_splits)
qed simp

lemma best_key_ok:
  "key_ok key \<Longrightarrow> key_ok (qd_bestCompatible d) \<Longrightarrow> key_ok (qd_bestCompatible (LFGQueue_UpdateBestCompatibleInQueue key roles d))"
  using best_Update [of key roles d] by auto

lemma keys_upd_entry:
  "queue_keys_ok q \<Longrightarrow> key_ok key \<Longrightarrow> queue_keys_ok (LFGQueue_upd_entry g (LFGQueue_UpdateBestCompatibleInQueue key roles) q)"
  using best_key_ok by (auto simp: queue_keys_ok_def LFGQueue_upd_entry_def set_om_upd)

lemma keys_upd_entries:
  "queue_keys_ok q \<Longrightarrow> key_ok key \<Longrightarrow> queue_keys_ok (fold (\<lambda>g. LFGQueue_upd_entry g (LFGQueue_UpdateBestCompatibleInQueue key roles)) gs q)"
  by (induction gs arbitrary: q) (simp_all add: keys_upd_entry)

lemma keys_lists:
  "queue_keys_ok (LFGQueue_RemoveFromNewQueue g q) = queue_keys_ok q"
  "queue_keys_ok (LFGQueue_RemoveFromCurrentQueue g q) = queue_keys_ok q"
  "queue_keys_ok (LFGQueue_AddToCurrentQueue g q) = queue_keys_ok q"
  by (simp_all add: queue_keys_ok_def LFGQueue_RemoveFromNewQueue_def LFGQueue_RemoveFromCurrentQueue_def
      LFGQueue_AddToCurrentQueue_def)

lemma keys_unqueue:
  "queue_keys_ok (fold (\<lambda>g q. LFGQueue_RemoveFromCurrentQueue g (LFGQueue_RemoveFromNewQueue g q)) gs q) = queue_keys_ok q"
  by (induction gs arbitrary: q) (simp_all add: keys_lists)

lemma keys_cache:
  "queue_keys_ok q \<Longrightarrow> key_ok key \<Longrightarrow> queue_keys_ok (LFGQueue_SetCompatibles key c q)"
  "queue_keys_ok q \<Longrightarrow> key_ok key \<Longrightarrow> queue_keys_ok (LFGQueue_SetCompatibilityData key cd q)"
  by (simp_all add: queue_keys_ok_def LFGQueue_SetCompatibles_def LFGQueue_SetCompatibilityData_def Let_def)

text \<open>Removing a guid: the cache keeps exactly the combinations without it, and what was noted as best
  combination with it is looked up anew.\<close>

lemma RemoveFromQueue_cache:
  "lq_CompatibleMapStore (LFGQueue_RemoveFromQueue g q) = filter (\<lambda>(key, data). \<not> names_guid g key) (lq_CompatibleMapStore q)"
  by (simp add: LFGQueue_RemoveFromQueue_def Let_def LFGQueue_RemoveFromCompatibles_def
      LFGQueue_RemoveFromNewQueue_def LFGQueue_RemoveFromCurrentQueue_def)

lemma RemoveFromQueue_entries:
  assumes "map_of (lq_QueueDataStore (LFGQueue_RemoveFromQueue g q)) h = Some d"
  shows "h \<noteq> g \<and> (\<exists>d0. map_of (lq_QueueDataStore q) h = Some d0 \<and>
    (d = d0 \<and> \<not> names_guid g (qd_bestCompatible d0) \<or>
     d = LFGQueue_FindBestCompatibleInQueue (filter (\<lambda>(key, data). \<not> names_guid g key) (lq_CompatibleMapStore q)) h
           (d0\<lparr>qd_bestCompatible := []\<rparr>)))"
proof -
  let ?cs = "filter (\<lambda>(key, data). \<not> names_guid g key) (lq_CompatibleMapStore q)"
  let ?f = "\<lambda>h d. if h \<noteq> g \<and> names_guid g (qd_bestCompatible d)
    then LFGQueue_FindBestCompatibleInQueue ?cs h (d\<lparr>qd_bestCompatible := []\<rparr>) else d"
  have "lq_QueueDataStore (LFGQueue_RemoveFromQueue g q) = om_del g (map (\<lambda>(h, d). (h, ?f h d)) (lq_QueueDataStore q))"
    by (simp add: LFGQueue_RemoveFromQueue_def Let_def LFGQueue_RemoveFromCompatibles_def
        LFGQueue_RemoveFromNewQueue_def LFGQueue_RemoveFromCurrentQueue_def cong: if_cong)
  moreover have "map_of (map (\<lambda>(h, d). (h, F h d)) xs) h = map_option (F h) (map_of xs h)" for F :: "ObjectGuid \<Rightarrow> LfgQueueData \<Rightarrow> LfgQueueData" and xs
    by (induction xs) auto
  ultimately show ?thesis using assms by (auto split: if_splits)
qed

lemma keys_RemoveFromQueue: "queue_keys_ok q \<Longrightarrow> queue_keys_ok (LFGQueue_RemoveFromQueue g q)"
proof -
  assume q: "queue_keys_ok q"
  have "key_ok (qd_bestCompatible d)" if "(h, d) \<in> set (lq_QueueDataStore (LFGQueue_RemoveFromQueue g q))" for h d
  proof -
    let ?cs = "filter (\<lambda>(key, data). \<not> names_guid g key) (lq_CompatibleMapStore q)"
    from that obtain d0 where "(h, d0) \<in> set (lq_QueueDataStore q)"
      "d = d0 \<or> d = LFGQueue_FindBestCompatibleInQueue ?cs h (d0\<lparr>qd_bestCompatible := []\<rparr>)"
      by (auto simp: LFGQueue_RemoveFromQueue_def Let_def LFGQueue_RemoveFromCompatibles_def
        LFGQueue_RemoveFromNewQueue_def LFGQueue_RemoveFromCurrentQueue_def cong: if_cong split: if_splits)
    then show ?thesis
      using q best_Find [of ?cs h "d0\<lparr>qd_bestCompatible := []\<rparr>"] key_ok_Nil by (force simp: queue_keys_ok_def)
  qed
  with q show ?thesis by (auto simp: queue_keys_ok_def RemoveFromQueue_cache)
qed

definition keys_kept :: "LfgWorld \<Rightarrow> LFGQueue \<times> LFGMgr \<Rightarrow> LFGQueue \<times> LFGMgr \<Rightarrow> bool" where
  "keys_kept w s t \<longleftrightarrow> (queue_keys_ok (fst s) \<longrightarrow> queue_keys_ok (fst t))"

lemma keys_finish:
  "queue_keys_ok q \<Longrightarrow> queue_keys_ok (fst (snd (cc_finish w check np nl gs grp roles ds q m)))"
  by (simp add: cc_finish_def Let_def keys_cache keys_upd_entries keys_unqueue key_ok_ConcatenateGuids split: prod.splits)

interpretation keys: queue_run keys_kept
proof unfold_locales
  fix w check q m
  show "keys_kept w (q, m) (snd (cc_combination w check q m))"
    by (auto simp: keys_kept_def cc_combination_def Let_def keys_finish keys_cache keys_upd_entry keys_RemoveFromQueue
        key_ok_ConcatenateGuids split: sum.splits prod.splits)
qed (auto simp: keys_kept_def keys_lists keys_cache key_ok_ConcatenateGuids)

lemma keys_FindGroups: "queue_keys_ok q \<Longrightarrow> queue_keys_ok (fst (snd (LFGQueue_FindGroups w q m)))"
  using keys.R_find_groups [of w q m 0] by (simp add: keys_kept_def LFGQueue_FindGroups_def)

text \<open>C35: whoever leaves the queue leaves no trace in it: its guid is in no list and has no entry, no remembered
  combination and no best combination names it, all combinations without it stay remembered, and the other
  entries keep their roles, dungeons and join times. The test for a guid in a key is a search for a substring; it is exact.\<close>

theorem RemoveFromQueue_forgets:
  fixes g q defines "q' \<equiv> LFGQueue_RemoveFromQueue g q"
  assumes "queue_keys_ok q"
  shows "g \<notin> set (lq_newToQueueStore q') \<union> set (lq_currentQueueStore q') \<and>
    map_of (lq_QueueDataStore q') g = None \<and> queue_view q' = om_del g (queue_view q) \<and>
    queue_keys_ok q' \<and>
    (\<forall>gs. LFGQueue_GetCompatibilityData (ConcatenateGuids gs) q' =
       (if g \<in> set gs then None else LFGQueue_GetCompatibilityData (ConcatenateGuids gs) q)) \<and>
    (\<forall>h d gs. map_of (lq_QueueDataStore q') h = Some d \<and> g \<in> set gs \<longrightarrow> qd_bestCompatible d \<noteq> ConcatenateGuids gs)"
proof -
  let ?cs = "filter (\<lambda>(key, data). \<not> names_guid g key) (lq_CompatibleMapStore q)"
  have lists: "g \<notin> set (lq_newToQueueStore q') \<union> set (lq_currentQueueStore q')" "map_of (lq_QueueDataStore q') g = None"
    by (simp_all add: q'_def LFGQueue_RemoveFromQueue_def Let_def LFGQueue_RemoveFromCompatibles_def
        LFGQueue_RemoveFromNewQueue_def LFGQueue_RemoveFromCurrentQueue_def)
  have filt: "map_of (filter (\<lambda>(k, v). P k) xs) j = (if P j then map_of xs j else None)"
    for P :: "string \<Rightarrow> bool" and xs :: "(string \<times> LfgCompatibilityData) list" and j
    by (induction xs) auto
  have cache: "LFGQueue_GetCompatibilityData (ConcatenateGuids gs) q' =
       (if g \<in> set gs then None else LFGQueue_GetCompatibilityData (ConcatenateGuids gs) q)" for gs
    by (simp add: LFGQueue_GetCompatibilityData_def q'_def RemoveFromQueue_cache filt names_guid_key)
  have best: "\<not> names_guid g (qd_bestCompatible d)" if d: "map_of (lq_QueueDataStore q') h = Some d" for h d
  proof -
    have nil: "\<not> names_guid g []" using names_guid_bar_join [of g "[]"] by simp
    from RemoveFromQueue_entries [OF d [unfolded q'_def]] obtain d0 where
      "\<not> names_guid g (qd_bestCompatible d) \<or> d = LFGQueue_FindBestCompatibleInQueue ?cs h (d0\<lparr>qd_bestCompatible := []\<rparr>)"
      by blast
    then show ?thesis using best_Find [of ?cs h "d0\<lparr>qd_bestCompatible := []\<rparr>"] nil by (elim disjE) auto
  qed
  have "qd_bestCompatible d \<noteq> ConcatenateGuids gs"
    if "map_of (lq_QueueDataStore q') h = Some d" "g \<in> set gs" for h d gs
    using best [OF that(1)] that(2) names_guid_key by metis
  then show ?thesis
    using lists cache keys_RemoveFromQueue [OF assms(2), of g] view_RemoveFromQueue [of g q] unfolding q'_def by blast
qed

theorem RemoveFromQueue_forgets_witness:
  "queue_keys_ok demo_queue \<and> map_of (lq_QueueDataStore demo_queue) demo_party \<noteq> None \<and>
   map_of (lq_QueueDataStore (LFGQueue_RemoveFromQueue demo_party demo_queue)) demo_party = None"
proof -
  have "queue_keys_ok demo_queue"
    using key_ok_Nil by (simp add: queue_keys_ok_def demo_queue_def LFGQueue_AddQueueData_def LFGQueue_AddToQueue_def
        LFGQueue_init_def LFGQueue_AddToNewQueue_def LfgQueueData_init_def)
  with RemoveFromQueue_forgets [OF this, of demo_party] demo_queue_facts(1) show ?thesis by simp
qed

text \<open>the stored average wait for a role never leaves the range of the waits measured for it (as long as their
  sum fits), and the number of them is right.\<close>

theorem wait_time_within_range:
  assumes "ts \<noteq> []" "\<forall>t \<in> set ts. lo \<le> t \<and> t \<le> hi" "0 < hi" "unat hi * length ts < 2 ^ 32"
  shows "\<forall>wt \<in> {lq_waitTimesAvgStore (fold (\<lambda>t. LFGQueue_UpdateWaitTimeAvg t d) ts LFGQueue_init) d,
      lq_waitTimesTankStore (fold (\<lambda>t. LFGQueue_UpdateWaitTimeTank t d) ts LFGQueue_init) d,
      lq_waitTimesHealerStore (fold (\<lambda>t. LFGQueue_UpdateWaitTimeHealer t d) ts LFGQueue_init) d,
      lq_waitTimesDpsStore (fold (\<lambda>t. LFGQueue_UpdateWaitTimeDps t d) ts LFGQueue_init) d}.
    lo \<le> wt_time wt \<and> wt_time wt \<le> hi \<and> unat (wt_number wt) = length ts"
proof -
  have "lq_waitTimesAvgStore (fold (\<lambda>t. LFGQueue_UpdateWaitTimeAvg t d) ts q) d = wait_times ts (lq_waitTimesAvgStore q d)"
    "lq_waitTimesTankStore (fold (\<lambda>t. LFGQueue_UpdateWaitTimeTank t d) ts q) d = wait_times ts (lq_waitTimesTankStore q d)"
    "lq_waitTimesHealerStore (fold (\<lambda>t. LFGQueue_UpdateWaitTimeHealer t d) ts q) d = wait_times ts (lq_waitTimesHealerStore q d)"
    "lq_waitTimesDpsStore (fold (\<lambda>t. LFGQueue_UpdateWaitTimeDps t d) ts q) d = wait_times ts (lq_waitTimesDpsStore q d)" for q
    by (induction ts arbitrary: q) (simp_all add: LFGQueue_UpdateWaitTimeAvg_def LFGQueue_UpdateWaitTimeTank_def
        LFGQueue_UpdateWaitTimeHealer_def LFGQueue_UpdateWaitTimeDps_def)
  then show ?thesis
    using wait_times_bounds [of LfgWaitTime_init 0 hi lo ts] assms by (simp add: LFGQueue_init_def LfgWaitTime_init_def)
qed

theorem wait_time_within_range_witness:
  "20 \<le> wt_time (lq_waitTimesDpsStore (fold (\<lambda>t. LFGQueue_UpdateWaitTimeDps t 258) [20, 35, 41] LFGQueue_init) 258) \<and>
   wt_time (lq_waitTimesDpsStore (fold (\<lambda>t. LFGQueue_UpdateWaitTimeDps t 258) [20, 35, 41] LFGQueue_init) 258) \<le> 41"
  using wait_time_within_range [of "[20, 35, 41]" 20 41 258] by simp

end
