(* ===== verification/LFGMgr.thy ===== *)
theory LFGMgr
  imports LFGQueue "HOL-Library.Signed_Division"
begin

section \<open>Dungeon finder: role checks, proposals and kick votes (game/DungeonFinding/LFGMgr.cpp)\<close>

text \<open>
  The operations of the manager after the access functions of \<open>LFGData\<close>: the answers to a role check
  (\<open>UpdateRoleCheck\<close>), to a proposal (\<open>UpdateProposal\<close>, \<open>RemoveProposal\<close>) and to a vote to kick (\<open>InitBoot\<close>,
  \<open>UpdateBoot\<close>), leaving (\<open>LeaveLfg\<close>) and the periodic \<open>Update\<close>. Forming the group of an accepted proposal and
  removing a kicked player are calls into the group, told as events. The assertions that a guid is one of a
  party are not repeated: the callers pass the guid of a group.
\<close>

definition LFGMgr_queue :: "u8 \<Rightarrow> LFGMgr \<Rightarrow> LFGQueue" where
  "LFGMgr_queue queueId m =
     (case map_of (lm_QueuesStore m) queueId of Some q \<Rightarrow> q | None \<Rightarrow> LFGQueue_init)"

text \<open>\<open>GetQueue (guid)\<close> is \<open>LFGMgr_queue (GetQueueId guid)\<close>, made when it is missing.\<close>

definition LFGMgr_on_queue :: "u8 \<Rightarrow> (LFGQueue \<Rightarrow> LFGQueue) \<Rightarrow> LFGMgr \<Rightarrow> LFGMgr" where
  "LFGMgr_on_queue queueId f m =
     m\<lparr>lm_QueuesStore := om_put queueId (f (LFGMgr_queue queueId m)) (lm_QueuesStore m)\<rparr>"

definition LFGMgr_GetQueueJoinTime :: "ObjectGuid \<Rightarrow> LFGMgr \<Rightarrow> int" where
  "LFGMgr_GetQueueJoinTime guid m =
     (case map_of (lm_QueuesStore m) (LFGMgr_GetQueueId guid m) of
        Some q \<Rightarrow> LFGQueue_GetJoinTime guid q | None \<Rightarrow> 0)"

subsection \<open>Role checks\<close>

definition rc_answer :: "ObjectGuid \<Rightarrow> u8 \<Rightarrow> LfgRoleCheck \<Rightarrow> LfgRoleCheck" where
  "rc_answer guid roles rc =
     (if ObjectGuid_IsEmpty guid then rc\<lparr>rc_state := LFG_ROLECHECK_ABORTED\<rparr>
      else if roles < PLAYER_ROLE_TANK then rc\<lparr>rc_state := LFG_ROLECHECK_NO_ROLE\<rparr>
      else (let rc1 = rc\<lparr>rc_roles := om_put guid roles (rc_roles rc)\<rparr> in
            if list_all (\<lambda>(g, r). r \<noteq> PLAYER_ROLE_NONE) (rc_roles rc1)
            then rc1\<lparr>rc_state := (if fst (CheckGroupRoles (rc_roles rc1)) then LFG_ROLECHECK_FINISHED
                                 else LFG_ROLECHECK_WRONG_ROLES)\<rparr>
            else rc1))"

definition rc_notify :: "LfgWorld \<Rightarrow> bool \<Rightarrow> ObjectGuid \<Rightarrow> u8 \<Rightarrow> LfgRoleCheck \<Rightarrow> ObjectGuid \<times> u8 \<Rightarrow> LFGMgr \<Rightarrow> LFGMgr" where
  "rc_notify w sendRoleChosen guid roles rc = (\<lambda>(pguid, role) m.
     let dungeons = (if rc_rDungeonId rc \<noteq> 0 then [rc_rDungeonId rc] else rc_dungeons rc);
         m1 = (if sendRoleChosen then SendLfgRoleChosen w pguid guid roles m else m);
         m2 = SendLfgRoleCheckUpdate w pguid rc m1
     in case rc_state rc of
          LFG_ROLECHECK_INITIALITING \<Rightarrow> m2
        | LFG_ROLECHECK_FINISHED \<Rightarrow>
            SendLfgUpdateStatus w pguid (LfgUpdateData_init LFG_UPDATETYPE_ADDED_TO_QUEUE dungeons) True
              (LFGMgr_SetRoles pguid role (LFGMgr_SetState pguid LFG_STATE_QUEUED m2))
        | _ \<Rightarrow>
            LFGMgr_RestoreState pguid
              (SendLfgUpdateStatus w pguid (LfgUpdateData_init LFG_UPDATETYPE_ROLECHECK_FAILED []) True
                (if rc_leader rc = pguid
                 then SendLfgJoinResult w pguid (LfgJoinResultData_init LFG_JOIN_ROLE_CHECK_FAILED (rc_state rc)) m2
                 else m2)))"

definition LFGMgr_UpdateRoleCheck :: "LfgWorld \<Rightarrow> ObjectGuid \<Rightarrow> ObjectGuid \<Rightarrow> u8 \<Rightarrow> LFGMgr \<Rightarrow> LFGMgr" where
  "LFGMgr_UpdateRoleCheck w gguid guid roles m =
     (if ObjectGuid_IsEmpty gguid then m
      else case map_of (lm_RoleChecksStore m) gguid of
        None \<Rightarrow> m
      | Some rc0 \<Rightarrow>
          (let sendRoleChosen = (rc_state rc0 \<noteq> LFG_ROLECHECK_DEFAULT \<and> \<not> ObjectGuid_IsEmpty guid);
               rc = rc_answer guid roles rc0;
               m1 = m\<lparr>lm_RoleChecksStore := om_put gguid rc (lm_RoleChecksStore m)\<rparr>;
               m2 = fold (rc_notify w sendRoleChosen guid roles rc) (rc_roles rc) m1;
               erased = (\<lambda>m. m\<lparr>lm_RoleChecksStore := om_del gguid (lm_RoleChecksStore m)\<rparr>)
           in if rc_state rc = LFG_ROLECHECK_FINISHED
              then (let m3 = LFGMgr_SetState gguid LFG_STATE_QUEUED m2
                    in erased (LFGMgr_on_queue (LFGMgr_GetQueueId gguid m3)
                         (LFGQueue_AddQueueData gguid (lw_time w) (rc_dungeons rc) (rc_roles rc)) m3))
              else if rc_state rc \<noteq> LFG_ROLECHECK_INITIALITING
              then erased (LFGMgr_RestoreState gguid m2)
              else m2))"

subsection \<open>Proposals\<close>

definition pp_entry :: "ObjectGuid \<Rightarrow> LfgProposalPlayer \<Rightarrow> ObjectGuid" where
  "pp_entry guid d = (if \<not> ObjectGuid_IsEmpty (pp_group d) then pp_group d else guid)"

definition rp_unanswered :: "LfgUpdateType \<Rightarrow> LfgProposalPlayer \<Rightarrow> LfgProposalPlayer" where
  "rp_unanswered t d = (if t = LFG_UPDATETYPE_PROPOSAL_FAILED \<and> pp_accept d = LFG_ANSWER_PENDING
     then d\<lparr>pp_accept := LFG_ANSWER_DENY\<rparr> else d)"

definition rp_refuses :: "LfgUpdateType \<Rightarrow> LfgProposalPlayer \<Rightarrow> bool" where
  "rp_refuses t d \<longleftrightarrow> pp_accept d \<noteq> LFG_ANSWER_AGREE \<and>
     (pp_accept d = LFG_ANSWER_DENY \<or> t = LFG_UPDATETYPE_PROPOSAL_FAILED)"

definition rp_marked :: "LfgUpdateType \<Rightarrow> LfgProposal \<Rightarrow> LfgProposal" where
  "rp_marked t p =
     p\<lparr>pr_state := LFG_PROPOSAL_FAILED,
       pr_players := map (\<lambda>(g, d). (g, let d1 = rp_unanswered t d in
         if rp_refuses t d1 then d1\<lparr>pp_accept := LFG_ANSWER_DENY\<rparr> else d1)) (pr_players p)\<rparr>"

definition rp_toRemove :: "LfgUpdateType \<Rightarrow> LfgProposal \<Rightarrow> ObjectGuid list" where
  "rp_toRemove t p =
     fold (\<lambda>(g, d). if rp_refuses t (rp_unanswered t d) then List.insort_insert (pp_entry g d) else id) (pr_players p) []"

definition rp_notify :: "LfgWorld \<Rightarrow> LfgUpdateType \<Rightarrow> LfgProposal \<Rightarrow> ObjectGuid list
    \<Rightarrow> ObjectGuid \<times> LfgProposalPlayer \<Rightarrow> LFGMgr \<Rightarrow> LFGMgr" where
  "rp_notify w t p toRemove = (\<lambda>(guid, d) m.
     let gguid = pp_entry guid d; m1 = SendLfgUpdateProposal w guid p m in
     if gguid \<in> set toRemove
     then (let ut = (if pp_accept d = LFG_ANSWER_DENY then t else LFG_UPDATETYPE_REMOVED_FROM_QUEUE);
               m2 = LFGMgr_RestoreState guid m1
           in if gguid \<noteq> guid
              then SendLfgUpdateStatus w guid (LfgUpdateData_init ut []) True (LFGMgr_RestoreState (pp_group d) m2)
              else SendLfgUpdateStatus w guid (LfgUpdateData_init ut []) False m2)
     else (let m2 = LFGMgr_SetState guid LFG_STATE_QUEUED m1;
               m3 = (if gguid \<noteq> guid then LFGMgr_SetState gguid LFG_STATE_QUEUED m2 else m2)
           in SendLfgUpdateStatus w guid
                (LfgUpdateData_init LFG_UPDATETYPE_ADDED_TO_QUEUE (LFGMgr_GetSelectedDungeons guid m3)) (gguid \<noteq> guid) m3))"

definition rp_queue :: "ObjectGuid list \<Rightarrow> ObjectGuid list \<Rightarrow> LFGQueue \<Rightarrow> LFGQueue" where
  "rp_queue toRemove queues q =
     fold (\<lambda>g. LFGQueue_AddToQueue g True) (filter (\<lambda>g. g \<notin> set toRemove) queues)
       (fold LFGQueue_RemoveFromQueue toRemove q)"

definition LFGMgr_RemoveProposal :: "LfgWorld \<Rightarrow> u32 \<Rightarrow> LfgUpdateType \<Rightarrow> LFGMgr \<Rightarrow> LFGMgr" where
  "LFGMgr_RemoveProposal w proposalId t m =
     (case map_of (lm_ProposalsStore m) proposalId of
        None \<Rightarrow> m
      | Some p0 \<Rightarrow>
          (let p = rp_marked t p0; toRemove = rp_toRemove t p0;
               m1 = fold (rp_notify w t p toRemove) (pr_players p) m;
               m2 = LFGMgr_on_queue (LFGMgr_GetQueueId (fst (hd (pr_players p))) m1) (rp_queue toRemove (pr_queues p)) m1
           in m2\<lparr>lm_ProposalsStore := om_del proposalId (lm_ProposalsStore m2)\<rparr>))"

text \<open>Everybody accepted: the players are told, and the wait times updated. The update type sent first is the
  one left by the player before.\<close>

definition up_wait :: "u8 \<Rightarrow> u32 \<Rightarrow> u32 \<Rightarrow> LFGQueue \<Rightarrow> LFGQueue" where
  "up_wait role waitTime dungeonId =
     (if role = PLAYER_ROLE_DAMAGE then LFGQueue_UpdateWaitTimeDps waitTime dungeonId
      else if role = PLAYER_ROLE_HEALER then LFGQueue_UpdateWaitTimeHealer waitTime dungeonId
      else if role = PLAYER_ROLE_TANK then LFGQueue_UpdateWaitTimeTank waitTime dungeonId
      else LFGQueue_UpdateWaitTimeAvg waitTime dungeonId)"

definition up_found :: "LfgWorld \<Rightarrow> bool \<Rightarrow> u8 \<Rightarrow> LfgProposal \<Rightarrow> ObjectGuid \<times> LfgProposalPlayer
    \<Rightarrow> LfgUpdateType \<times> LFGMgr \<Rightarrow> LfgUpdateType \<times> LFGMgr" where
  "up_found w sendUpdate queueId p = (\<lambda>(pguid, d) (ut, m).
     let dungeonId = hd (LFGMgr_GetSelectedDungeons pguid m);
         m1 = (if sendUpdate then SendLfgUpdateProposal w pguid p m else m);
         waitTime = word_of_int ((lw_time w - LFGQueue_GetJoinTime (pp_entry pguid d) (LFGMgr_queue queueId m1)) sdiv 1000);
         m2 = SendLfgUpdateStatus w pguid (LfgUpdateData_init ut []) False m1;
         gone = LfgUpdateData_init LFG_UPDATETYPE_REMOVED_FROM_QUEUE [];
         m3 = SendLfgUpdateStatus w pguid gone False (SendLfgUpdateStatus w pguid gone True m2);
         role = LFGMgr_GetRoles pguid m3 AND NOT PLAYER_ROLE_LEADER;
         m4 = LFGMgr_on_queue queueId (up_wait role waitTime dungeonId) m3
     in (LFG_UPDATETYPE_REMOVED_FROM_QUEUE, LFGMgr_SetState pguid LFG_STATE_DUNGEON m4))"

definition LFGMgr_UpdateProposal :: "LfgWorld \<Rightarrow> u32 \<Rightarrow> ObjectGuid \<Rightarrow> bool \<Rightarrow> LFGMgr \<Rightarrow> LFGMgr" where
  "LFGMgr_UpdateProposal w proposalId guid accept m =
     (case map_of (lm_ProposalsStore m) proposalId of
        None \<Rightarrow> m
      | Some p0 \<Rightarrow>
          if map_of (pr_players p0) guid = None then m
          else
            (let p = p0\<lparr>pr_players := om_upd guid (\<lambda>d. d\<lparr>pp_accept :=
                   (if accept then LFG_ANSWER_AGREE else LFG_ANSWER_DENY)\<rparr>) (pr_players p0)\<rparr>;
                 store = (\<lambda>p m. m\<lparr>lm_ProposalsStore := om_put proposalId p (lm_ProposalsStore m)\<rparr>);
                 m1 = store p m
             in if \<not> accept then LFGMgr_RemoveProposal w proposalId LFG_UPDATETYPE_PROPOSAL_DECLINED m1
                else if \<not> list_all (\<lambda>(g, d). pp_accept d = LFG_ANSWER_AGREE) (pr_players p)
                then fold (\<lambda>(g, d). SendLfgUpdateProposal w g p) (pr_players p) m1
                else
                  (let sendUpdate = (pr_state p \<noteq> LFG_PROPOSAL_SUCCESS);
                       p1 = p\<lparr>pr_state := LFG_PROPOSAL_SUCCESS\<rparr>;
                       m2 = store p1 m1;
                       queueId = LFGMgr_GetQueueId guid m2;
                       (ut, m3) = fold (up_found w sendUpdate queueId p1) (pr_players p1) (LFG_UPDATETYPE_GROUP_FOUND, m2);
                       m4 = LFGMgr_on_queue queueId (fold LFGQueue_RemoveFromQueue (pr_queues p1)) m3;
                       m5 = m4\<lparr>lm_sent := lm_sent m4 @ [MakeGroup p1]\<rparr>
                   in m5\<lparr>lm_ProposalsStore := om_del proposalId (lm_ProposalsStore m5)\<rparr>)))"

subsection \<open>Votes to kick\<close>

definition LfgPlayerBoot_init :: LfgPlayerBoot where
  "LfgPlayerBoot_init = \<lparr>bt_cancelTime = 0, bt_inProgress = False, bt_votes = [], bt_victim = ObjectGuid_Empty, bt_reason = []\<rparr>"

definition LFGMgr_InitBoot :: "LfgWorld \<Rightarrow> ObjectGuid \<Rightarrow> ObjectGuid \<Rightarrow> ObjectGuid \<Rightarrow> string \<Rightarrow> LFGMgr \<Rightarrow> LFGMgr" where
  "LFGMgr_InitBoot w gguid kicker victim reason m =
     (let m1 = LFGMgr_SetVoteKick gguid True m;
          old = (case map_of (lm_BootsStore m1) gguid of Some b \<Rightarrow> b | None \<Rightarrow> LfgPlayerBoot_init);
          players = LFGMgr_GetPlayers gguid m1;
          votes = fold (\<lambda>g. om_put g LFG_ANSWER_PENDING) players (bt_votes old);
          boot = old\<lparr>bt_inProgress := True, bt_cancelTime := lw_time w + LFG_TIME_BOOT, bt_reason := reason,
                     bt_victim := victim, bt_votes := om_put kicker LFG_ANSWER_AGREE (om_put victim LFG_ANSWER_DENY votes)\<rparr>
      in fold (\<lambda>g. SendLfgBootProposalUpdate w g boot) players
           (m1\<lparr>lm_BootsStore := om_put gguid boot (lm_BootsStore m1)\<rparr>))"

text \<open>\<open>boot.votes[guid]\<close> makes a vote for a player without one: the zero of the enumeration, a no.\<close>

definition boot_vote_of :: "ObjectGuid \<Rightarrow> LfgAnswerContainer \<Rightarrow> LfgAnswer \<times> LfgAnswerContainer" where
  "boot_vote_of guid votes =
     (case map_of votes guid of Some a \<Rightarrow> (a, votes)
      | None \<Rightarrow> (LFG_ANSWER_DENY, om_put guid LFG_ANSWER_DENY votes))"

definition boot_votesNum :: "LfgAnswerContainer \<Rightarrow> u8" where
  "boot_votesNum votes = fold (\<lambda>(g, a) n. if a \<noteq> LFG_ANSWER_PENDING then n + 1 else n) votes 0"

definition boot_agreeNum :: "LfgAnswerContainer \<Rightarrow> u8" where
  "boot_agreeNum votes = fold (\<lambda>(g, a) n. if a \<noteq> LFG_ANSWER_PENDING \<and> a = LFG_ANSWER_AGREE then n + 1 else n) votes 0"

text \<open>The players are told that the vote is over, except the victim.\<close>

definition boot_notify :: "LfgWorld \<Rightarrow> LfgPlayerBoot \<Rightarrow> LFGMgr \<Rightarrow> LFGMgr" where
  "boot_notify w boot = fold (\<lambda>(g, a). if g \<noteq> bt_victim boot then SendLfgBootProposalUpdate w g boot else id) (bt_votes boot)"

definition LFGMgr_UpdateBoot :: "LfgWorld \<Rightarrow> ObjectGuid \<Rightarrow> bool \<Rightarrow> LFGMgr \<Rightarrow> LFGMgr" where
  "LFGMgr_UpdateBoot w guid accept m =
     (let gguid = LFGMgr_GetGroup guid m in
      if ObjectGuid_IsEmpty gguid then m
      else case map_of (lm_BootsStore m) gguid of
        None \<Rightarrow> m
      | Some boot0 \<Rightarrow>
          (let store = (\<lambda>b m. m\<lparr>lm_BootsStore := om_put gguid b (lm_BootsStore m)\<rparr>);
               (a, votes0) = boot_vote_of guid (bt_votes boot0)
           in if a \<noteq> LFG_ANSWER_PENDING then store (boot0\<lparr>bt_votes := votes0\<rparr>) m
              else
                (let votes = om_put guid (if accept then LFG_ANSWER_AGREE else LFG_ANSWER_DENY) votes0;
                     votesNum = boot_votesNum votes; agreeNum = boot_agreeNum votes;
                     boot = boot0\<lparr>bt_votes := votes\<rparr>
                 in if unat agreeNum < LFG_GROUP_KICK_VOTES_NEEDED \<and>
                       int (unat votesNum) - int (unat agreeNum) < int LFG_GROUP_KICK_VOTES_NEEDED
                    then store boot m
                    else
                      (let m1 = LFGMgr_SetVoteKick gguid False (boot_notify w (boot\<lparr>bt_inProgress := False\<rparr>) m);
                           m2 = (if unat agreeNum = LFG_GROUP_KICK_VOTES_NEEDED
                                 then LFGMgr_DecreaseKicksLeft gguid
                                   (if lw_group_exists w gguid
                                    then m1\<lparr>lm_sent := lm_sent m1 @ [KickFromGroup gguid (bt_victim boot)]\<rparr> else m1)
                                 else m1)
                       in m2\<lparr>lm_BootsStore := om_del gguid (lm_BootsStore m2)\<rparr>))))"

subsection \<open>Leaving\<close>

text \<open>The proposal of a player: the first one that names it.\<close>

definition find_proposal :: "ObjectGuid \<Rightarrow> (u32 \<times> LfgProposal) list \<Rightarrow> (u32 \<times> LfgProposal) option" where
  "find_proposal guid proposals = find (\<lambda>(i, p). map_of (pr_players p) guid \<noteq> None) proposals"

definition LFGMgr_LeaveLfg :: "LfgWorld \<Rightarrow> ObjectGuid \<Rightarrow> bool \<Rightarrow> LFGMgr \<Rightarrow> LFGMgr" where
  "LFGMgr_LeaveLfg w guid disconnected m =
     (let gguid = (if ObjectGuid_IsParty guid then guid else LFGMgr_GetGroup guid m);
          removed = LfgUpdateData_init LFG_UPDATETYPE_REMOVED_FROM_QUEUE []
      in case LFGMgr_GetState guid m of
        LFG_STATE_QUEUED \<Rightarrow>
          if \<not> ObjectGuid_IsEmpty gguid
          then (let m1 = LFGMgr_SetState gguid LFG_STATE_NONE
                           (LFGMgr_on_queue (LFGMgr_GetQueueId gguid m) (LFGQueue_RemoveFromQueue gguid) m)
                in fold (\<lambda>g m. SendLfgUpdateStatus w g removed True (LFGMgr_SetState g LFG_STATE_NONE m))
                     (LFGMgr_GetPlayers gguid m1) m1)
          else LFGMgr_SetState guid LFG_STATE_NONE (SendLfgUpdateStatus w guid removed False
                 (LFGMgr_on_queue (LFGMgr_GetQueueId guid m) (LFGQueue_RemoveFromQueue guid) m))
      | LFG_STATE_ROLECHECK \<Rightarrow>
          if \<not> ObjectGuid_IsEmpty gguid then LFGMgr_UpdateRoleCheck w gguid ObjectGuid_Empty PLAYER_ROLE_NONE m else m
      | LFG_STATE_PROPOSAL \<Rightarrow>
          (let pguid = (if gguid = guid then LFGMgr_GetLeader gguid m else guid)
           in case find_proposal pguid (lm_ProposalsStore m) of
                None \<Rightarrow> m
              | Some (i, p) \<Rightarrow>
                  LFGMgr_RemoveProposal w i LFG_UPDATETYPE_PROPOSAL_DECLINED
                    (m\<lparr>lm_ProposalsStore := om_put i
                        (p\<lparr>pr_players := om_upd pguid (\<lambda>d. d\<lparr>pp_accept := LFG_ANSWER_DENY\<rparr>) (pr_players p)\<rparr>)
                        (lm_ProposalsStore m)\<rparr>))
      | LFG_STATE_NONE \<Rightarrow> m
      | LFG_STATE_RAIDBROWSER \<Rightarrow> m
      | _ \<Rightarrow> if guid \<noteq> gguid \<and> \<not> disconnected then LFGMgr_SetState guid LFG_STATE_NONE m else m)"

definition LFGMgr_RemoveGroupData :: "LfgWorld \<Rightarrow> ObjectGuid \<Rightarrow> LFGMgr \<Rightarrow> LFGMgr" where
  "LFGMgr_RemoveGroupData w guid m =
     (let state = LFGMgr_GetState guid m;
          m1 = fold (\<lambda>g m.
             let m1 = LFGMgr_SetGroup g ObjectGuid_Empty m in
             if state \<noteq> LFG_STATE_PROPOSAL
             then SendLfgUpdateStatus w g (LfgUpdateData_init LFG_UPDATETYPE_REMOVED_FROM_QUEUE []) True
                    (LFGMgr_SetState g LFG_STATE_NONE m1)
             else m1) (LFGMgr_GetPlayers guid m) m
      in LFGMgr_group guid (\<lambda>_. LfgGroupData_init) m1)"

subsection \<open>The periodic update\<close>

definition LFG_OPTION_ENABLE_DUNGEON_FINDER :: u32 where "LFG_OPTION_ENABLE_DUNGEON_FINDER = 1"
definition LFG_OPTION_ENABLE_RAID_BROWSER :: u32 where "LFG_OPTION_ENABLE_RAID_BROWSER = 2"

definition lfg_enabled :: "LFGMgr \<Rightarrow> bool" where
  "lfg_enabled m = LFGMgr_isOptionEnabled (LFG_OPTION_ENABLE_DUNGEON_FINDER OR LFG_OPTION_ENABLE_RAID_BROWSER) m"

definition upd_rolecheck :: "LfgWorld \<Rightarrow> ObjectGuid \<times> LfgRoleCheck \<Rightarrow> LFGMgr \<Rightarrow> LFGMgr" where
  "upd_rolecheck w = (\<lambda>(gguid, rc0) m.
     if lw_time w < rc_cancelTime rc0 then m
     else
       (let rc = rc0\<lparr>rc_state := LFG_ROLECHECK_MISSING_ROLE\<rparr>;
            m1 = fold (\<lambda>(g, r) m.
               let m1 = SendLfgRoleCheckUpdate w g rc (LFGMgr_RestoreState g m) in
               if g = rc_leader rc
               then SendLfgJoinResult w g (LfgJoinResultData_init LFG_JOIN_ROLE_CHECK_FAILED LFG_ROLECHECK_MISSING_ROLE) m1
               else m1) (rc_roles rc) m;
            m2 = LFGMgr_RestoreState gguid m1
        in m2\<lparr>lm_RoleChecksStore := om_del gguid (lm_RoleChecksStore m2)\<rparr>))"

definition upd_proposal :: "LfgWorld \<Rightarrow> u32 \<times> LfgProposal \<Rightarrow> LFGMgr \<Rightarrow> LFGMgr" where
  "upd_proposal w = (\<lambda>(i, p) m.
     if pr_cancelTime p < lw_time w then LFGMgr_RemoveProposal w i LFG_UPDATETYPE_PROPOSAL_FAILED m else m)"

definition upd_boot :: "LfgWorld \<Rightarrow> ObjectGuid \<times> LfgPlayerBoot \<Rightarrow> LFGMgr \<Rightarrow> LFGMgr" where
  "upd_boot w = (\<lambda>(gguid, boot) m.
     if bt_cancelTime boot < lw_time w
     then (let m1 = LFGMgr_SetVoteKick gguid False (boot_notify w (boot\<lparr>bt_inProgress := False\<rparr>) m)
           in m1\<lparr>lm_BootsStore := om_del gguid (lm_BootsStore m1)\<rparr>)
     else m)"

definition upd_find :: "LfgWorld \<Rightarrow> u8 \<Rightarrow> LFGMgr \<Rightarrow> LFGMgr" where
  "upd_find w queueId m =
     (case LFGQueue_FindGroups w (LFGMgr_queue queueId m) m of
        (n, q, m1) \<Rightarrow> LFGMgr_on_queue queueId (\<lambda>_. q) m1)"

definition announce_player :: "LfgWorld \<Rightarrow> LfgProposal \<Rightarrow> ObjectGuid \<Rightarrow> LFGMgr \<Rightarrow> LFGMgr" where
  "announce_player w p guid m =
     (let m1 = LFGMgr_SetState guid LFG_STATE_PROPOSAL m;
          gguid = LFGMgr_GetGroup guid m1;
          m2 = (if \<not> ObjectGuid_IsEmpty gguid then LFGMgr_SetState gguid LFG_STATE_PROPOSAL m1 else m1)
      in SendLfgUpdateProposal w guid p
           (SendLfgUpdateStatus w guid (LfgUpdateData_init LFG_UPDATETYPE_PROPOSAL_BEGIN (LFGMgr_GetSelectedDungeons guid m2))
              (\<not> ObjectGuid_IsEmpty gguid) m2))"

definition upd_announce :: "LfgWorld \<Rightarrow> u32 \<times> LfgProposal \<Rightarrow> LFGMgr \<Rightarrow> LFGMgr" where
  "upd_announce w = (\<lambda>(i, p) m.
     let guids = map fst (pr_players p); m1 = fold (announce_player w p) guids m in
     if pr_state p = LFG_PROPOSAL_SUCCESS
     then LFGMgr_UpdateProposal w i (if guids = [] then ObjectGuid_Empty else last guids) True m1 else m1)"

definition upd_timers :: "LfgWorld \<Rightarrow> u8 \<Rightarrow> LFGMgr \<Rightarrow> LFGMgr" where
  "upd_timers w queueId m =
     (case LFGQueue_UpdateQueueTimers w queueId (lw_time w) (LFGMgr_queue queueId m) m of
        (q, m1) \<Rightarrow> LFGMgr_on_queue queueId (\<lambda>_. q) m1)"

text \<open>The proposals from the newest on are announced. \<open>UpdateProposal\<close> can erase the one the loop of the code
  stands at; here the loop goes on with the list it started from.\<close>

definition LFGMgr_Update :: "LfgWorld \<Rightarrow> u32 \<Rightarrow> LFGMgr \<Rightarrow> LFGMgr" where
  "LFGMgr_Update w diff m =
     (if \<not> lfg_enabled m then m
      else
        (let m1 = fold (upd_rolecheck w) (lm_RoleChecksStore m) m;
             m2 = fold (upd_proposal w) (lm_ProposalsStore m1) m1;
             m3 = fold (upd_boot w) (lm_BootsStore m2) m2;
             lastProposalId = lm_lfgProposalId m3;
             m4 = fold (upd_find w) (map fst (lm_QueuesStore m3)) m3;
             m5 = (if lastProposalId \<noteq> lm_lfgProposalId m4
                   then fold (upd_announce w) (dropWhile (\<lambda>(i, p). i \<noteq> lm_lfgProposalId m4) (lm_ProposalsStore m4)) m4
                   else m4)
         in if lm_QueueTimer m5 > LFG_QUEUEUPDATE_INTERVAL
            then fold (upd_timers w) (map fst (lm_QueuesStore m5)) (m5\<lparr>lm_QueueTimer := 0\<rparr>)
            else m5\<lparr>lm_QueueTimer := lm_QueueTimer m5 + diff\<rparr>))"

end
