(* ===== verification/LFGJoin.thy ===== *)
theory LFGJoin
  imports LFGMgr
begin

section \<open>Dungeon finder: joining and rewards (game/DungeonFinding/LFGMgr.cpp)\<close>

text \<open>
  \<open>JoinLfg\<close> decides whether a player or group may queue for a set of dungeons: the restrictions of every
  member, the kinds of the dungeons, the dungeons nobody is locked out of. A group starts a role check, a
  single player goes into the queue. What the code reads of a \<open>Player\<close> and a \<open>Group\<close> is a record of its own;
  the tables of dungeons, rewards and access requirements are \<open>LFGStores\<close>. The name of a dungeon is not
  kept. Item levels and coordinates are floats in the code that are only copied and compared; they are their
  exact values, rational numbers. \<open>FinishDungeon\<close> is here with its rewards, which are told as events.
\<close>

subsection \<open>Dungeons, players and groups as the code reads them\<close>

definition LFG_TYPE_NONE :: u8 where "LFG_TYPE_NONE = 0"
definition LFG_TYPE_DUNGEON :: u8 where "LFG_TYPE_DUNGEON = 1"
definition LFG_TYPE_RAID :: u8 where "LFG_TYPE_RAID = 2"
definition LFG_TYPE_HEROIC :: u8 where "LFG_TYPE_HEROIC = 5"
definition LFG_TYPE_RANDOM :: u8 where "LFG_TYPE_RANDOM = 6"

lemmas lfg_types = LFG_TYPE_NONE_def LFG_TYPE_DUNGEON_def LFG_TYPE_RAID_def LFG_TYPE_HEROIC_def LFG_TYPE_RANDOM_def

definition LFG_LOCKSTATUS_INSUFFICIENT_EXPANSION :: u32 where "LFG_LOCKSTATUS_INSUFFICIENT_EXPANSION = 1"
definition LFG_LOCKSTATUS_TOO_LOW_LEVEL :: u32 where "LFG_LOCKSTATUS_TOO_LOW_LEVEL = 2"
definition LFG_LOCKSTATUS_TOO_HIGH_LEVEL :: u32 where "LFG_LOCKSTATUS_TOO_HIGH_LEVEL = 3"
definition LFG_LOCKSTATUS_TOO_LOW_GEAR_SCORE :: u32 where "LFG_LOCKSTATUS_TOO_LOW_GEAR_SCORE = 4"
definition LFG_LOCKSTATUS_RAID_LOCKED :: u32 where "LFG_LOCKSTATUS_RAID_LOCKED = 6"
definition LFG_LOCKSTATUS_QUEST_NOT_COMPLETED :: u32 where "LFG_LOCKSTATUS_QUEST_NOT_COMPLETED = 1022"
definition LFG_LOCKSTATUS_MISSING_ITEM :: u32 where "LFG_LOCKSTATUS_MISSING_ITEM = 1025"
definition LFG_LOCKSTATUS_NOT_IN_SEASON :: u32 where "LFG_LOCKSTATUS_NOT_IN_SEASON = 1031"
definition LFG_LOCKSTATUS_MISSING_ACHIEVEMENT :: u32 where "LFG_LOCKSTATUS_MISSING_ACHIEVEMENT = 1034"

definition LFG_SPELL_DUNGEON_COOLDOWN :: u32 where "LFG_SPELL_DUNGEON_COOLDOWN = 71328"
definition LFG_SPELL_DUNGEON_DESERTER :: u32 where "LFG_SPELL_DUNGEON_DESERTER = 71041"
definition LFG_SPELL_LUCK_OF_THE_DRAW :: u32 where "LFG_SPELL_LUCK_OF_THE_DRAW = 72221"

definition DIFFICULTY_NORMAL :: u8 where "DIFFICULTY_NORMAL = 1"
definition DIFFICULTY_HEROIC :: u8 where "DIFFICULTY_HEROIC = 2"

record LFGDungeonData =
  dd_id :: u32
  dd_map :: u32
  dd_type :: u8
  dd_expansion :: u8
  dd_group :: u8
  dd_minlevel :: u8
  dd_maxlevel :: u8
  dd_difficulty :: u8
  dd_seasonal :: bool
  dd_position :: "rat \<times> rat \<times> rat \<times> rat"
  dd_requiredItemLevel :: u16

definition LFGDungeonData_Entry :: "LFGDungeonData \<Rightarrow> u32" where
  "LFGDungeonData_Entry d = dd_id d + push_bit 24 (ucast (dd_type d))"

record AccessRequirement =
  ar_item :: u32
  ar_item2 :: u32
  ar_quest_A :: u32
  ar_quest_H :: u32
  ar_achievement :: u32

record LfgReward =
  rw_maxLevel :: u32
  rw_firstQuest :: u32
  rw_otherQuest :: u32

datatype Team = ALLIANCE | HORDE

text \<open>\<open>lp_bound\<close>: the bind of the player to an instance of a map at a difficulty, with the instance id when the
  bind has a save.\<close>

record LFGPlayerView =
  lp_guid :: ObjectGuid
  lp_session :: bool
  lp_join_permission :: bool
  lp_InBattleground :: bool
  lp_InArena :: bool
  lp_InBattlegroundQueue :: bool
  lp_HasAura :: "u32 \<Rightarrow> bool"
  lp_level :: u8
  lp_expansion :: u8
  lp_item_level :: rat
  lp_team :: Team
  lp_map :: u32
  lp_CanRewardQuest :: "u32 \<Rightarrow> bool"
  lp_disabled_map :: "u32 \<Rightarrow> bool"
  lp_disabled_lfg_map :: "u32 \<Rightarrow> bool"
  lp_bound :: "u32 \<Rightarrow> u8 \<Rightarrow> u32 option option"
  lp_HasAchieved :: "u32 \<Rightarrow> bool"
  lp_QuestRewarded :: "u32 \<Rightarrow> bool"
  lp_HasItem :: "u32 \<Rightarrow> bool"

record LFGGroupView =
  lg_guid :: ObjectGuid
  lg_isLFGGroup :: bool
  lg_MembersCount :: u32
  lg_members :: "LFGPlayerView list"

record LFGStores =
  ls_dungeons :: "(u32 \<times> LFGDungeonData) list"
  ls_cached :: "u8 \<Rightarrow> LfgDungeonSet"
  ls_rewards :: "(u32 \<times> LfgReward) list"
  ls_quest :: "u32 \<Rightarrow> bool"
  ls_holiday :: "u32 \<Rightarrow> bool"
  ls_access :: "u32 \<Rightarrow> u8 \<Rightarrow> AccessRequirement option"
  ls_player :: "ObjectGuid \<Rightarrow> LFGPlayerView option"

definition GetLFGDungeon :: "LFGStores \<Rightarrow> u32 \<Rightarrow> LFGDungeonData option" where
  "GetLFGDungeon s i = map_of (ls_dungeons s) i"

definition GetLFGDungeonEntry :: "LFGStores \<Rightarrow> u32 \<Rightarrow> u32" where
  "GetLFGDungeonEntry s i =
     (if i \<noteq> 0 then (case GetLFGDungeon s i of Some d \<Rightarrow> LFGDungeonData_Entry d | None \<Rightarrow> 0) else 0)"

definition GetDungeonType :: "LFGStores \<Rightarrow> u32 \<Rightarrow> u8" where
  "GetDungeonType s i = (case GetLFGDungeon s i of Some d \<Rightarrow> dd_type d | None \<Rightarrow> LFG_TYPE_NONE)"

definition GetDungeonsByRandom :: "LFGStores \<Rightarrow> u32 \<Rightarrow> LfgDungeonSet" where
  "GetDungeonsByRandom s randomdungeon =
     ls_cached s (case GetLFGDungeon s randomdungeon of Some d \<Rightarrow> dd_group d | None \<Rightarrow> 0)"

definition HOLIDAY_HALLOWS_END :: u32 where "HOLIDAY_HALLOWS_END = 324"
definition HOLIDAY_FIRE_FESTIVAL :: u32 where "HOLIDAY_FIRE_FESTIVAL = 341"
definition HOLIDAY_BREWFEST :: u32 where "HOLIDAY_BREWFEST = 372"
definition HOLIDAY_LOVE_IS_IN_THE_AIR :: u32 where "HOLIDAY_LOVE_IS_IN_THE_AIR = 423"

definition IsSeasonActive :: "LFGStores \<Rightarrow> u32 \<Rightarrow> bool" where
  "IsSeasonActive s dungeonId =
     (if dungeonId = 285 then ls_holiday s HOLIDAY_HALLOWS_END
      else if dungeonId = 286 then ls_holiday s HOLIDAY_FIRE_FESTIVAL
      else if dungeonId = 287 then ls_holiday s HOLIDAY_BREWFEST
      else if dungeonId = 288 then ls_holiday s HOLIDAY_LOVE_IS_IN_THE_AIR
      else False)"

definition GetRandomAndSeasonalDungeons :: "LFGStores \<Rightarrow> u8 \<Rightarrow> u8 \<Rightarrow> LfgDungeonSet" where
  "GetRandomAndSeasonalDungeons s level expansion =
     fold (\<lambda>(i, d). if (dd_type d = LFG_TYPE_RANDOM \<or> dd_seasonal d \<and> IsSeasonActive s (dd_id d)) \<and>
                       dd_expansion d \<le> expansion \<and> dd_minlevel d \<le> level \<and> level \<le> dd_maxlevel d
                    then List.insort_insert (LFGDungeonData_Entry d) else id) (ls_dungeons s) []"

text \<open>The rewards are a multimap; the last one looked at is the answer, also when no level fits.\<close>

fun reward_scan :: "u8 \<Rightarrow> LfgReward option \<Rightarrow> (u32 \<times> LfgReward) list \<Rightarrow> LfgReward option" where
  "reward_scan level rew [] = rew"
| "reward_scan level rew ((i, r) # rs) =
     (if ucast level \<le> rw_maxLevel r then Some r else reward_scan level (Some r) rs)"

definition GetRandomDungeonReward :: "LFGStores \<Rightarrow> u32 \<Rightarrow> u8 \<Rightarrow> LfgReward option" where
  "GetRandomDungeonReward s dungeon level =
     reward_scan level None (filter (\<lambda>(i, r). i = dungeon AND 0x00FFFFFF) (ls_rewards s))"

subsection \<open>Locked dungeons\<close>

definition access_status :: "AccessRequirement \<Rightarrow> LFGPlayerView \<Rightarrow> u32" where
  "access_status ar p =
     (if ar_achievement ar \<noteq> 0 \<and> \<not> lp_HasAchieved p (ar_achievement ar) then LFG_LOCKSTATUS_MISSING_ACHIEVEMENT
      else if lp_team p = ALLIANCE \<and> ar_quest_A ar \<noteq> 0 \<and> \<not> lp_QuestRewarded p (ar_quest_A ar)
      then LFG_LOCKSTATUS_QUEST_NOT_COMPLETED
      else if lp_team p = HORDE \<and> ar_quest_H ar \<noteq> 0 \<and> \<not> lp_QuestRewarded p (ar_quest_H ar)
      then LFG_LOCKSTATUS_QUEST_NOT_COMPLETED
      else if ar_item ar \<noteq> 0
      then (if \<not> lp_HasItem p (ar_item ar) \<and> (ar_item2 ar = 0 \<or> \<not> lp_HasItem p (ar_item2 ar))
            then LFG_LOCKSTATUS_MISSING_ITEM else 0)
      else if ar_item2 ar \<noteq> 0 \<and> \<not> lp_HasItem p (ar_item2 ar) then LFG_LOCKSTATUS_MISSING_ITEM
      else 0)"

definition lock_status :: "LFGStores \<Rightarrow> LFGPlayerView \<Rightarrow> LFGDungeonData \<Rightarrow> u32" where
  "lock_status s p d =
     (if \<not> lp_join_permission p then LFG_LOCKSTATUS_RAID_LOCKED
      else if dd_expansion d > lp_expansion p then LFG_LOCKSTATUS_INSUFFICIENT_EXPANSION
      else if lp_disabled_map p (dd_map d) then LFG_LOCKSTATUS_RAID_LOCKED
      else if lp_disabled_lfg_map p (dd_map d) then LFG_LOCKSTATUS_RAID_LOCKED
      else if dd_difficulty d > DIFFICULTY_NORMAL \<and> lp_bound p (dd_map d) (dd_difficulty d) \<noteq> None
      then LFG_LOCKSTATUS_RAID_LOCKED
      else if dd_minlevel d > lp_level p then LFG_LOCKSTATUS_TOO_LOW_LEVEL
      else if dd_maxlevel d < lp_level p then LFG_LOCKSTATUS_TOO_HIGH_LEVEL
      else if dd_seasonal d \<and> \<not> IsSeasonActive s (dd_id d) then LFG_LOCKSTATUS_NOT_IN_SEASON
      else if of_nat (unat (dd_requiredItemLevel d)) > lp_item_level p then LFG_LOCKSTATUS_TOO_LOW_GEAR_SCORE
      else case ls_access s (dd_map d) (dd_difficulty d) of Some ar \<Rightarrow> access_status ar p | None \<Rightarrow> 0)"

definition GetLockedDungeons :: "LFGStores \<Rightarrow> ObjectGuid \<Rightarrow> LfgLockMap" where
  "GetLockedDungeons s guid =
     (case ls_player s guid of
        None \<Rightarrow> []
      | Some p \<Rightarrow>
          fold (\<lambda>i lock. case GetLFGDungeon s i of
             None \<Rightarrow> lock
           | Some d \<Rightarrow>
               (let lockStatus = lock_status s p d in
                if lockStatus \<noteq> 0
                then om_put (LFGDungeonData_Entry d)
                       \<lparr>li_lockStatus = lockStatus, li_requiredItemLevel = dd_requiredItemLevel d,
                        li_currentItemLevel = lp_item_level p\<rparr> lock
                else lock)) (GetDungeonsByRandom s 0) [])"

text \<open>The dungeons left, the locks reported, and the instances a party may continue.\<close>

record CompatibleDungeons =
  cp_dungeons :: LfgDungeonSet
  cp_lockMap :: LfgLockPartyMap
  cp_locked :: "(u32 \<times> u32) list"

definition cp_lock :: "ObjectGuid \<Rightarrow> u32 \<Rightarrow> LfgLockInfoData \<Rightarrow> CompatibleDungeons \<Rightarrow> CompatibleDungeons" where
  "cp_lock guid dungeonId li c =
     c\<lparr>cp_lockMap := om_put guid
         (om_put dungeonId li (case map_of (cp_lockMap c) guid of Some l \<Rightarrow> l | None \<Rightarrow> [])) (cp_lockMap c)\<rparr>"

definition cp_instance :: "LFGStores \<Rightarrow> ObjectGuid \<Rightarrow> u32 \<Rightarrow> u32 option" where
  "cp_instance s guid dungeonId =
     (case (GetLFGDungeon s dungeonId, ls_player s guid) of
        (Some d, Some p) \<Rightarrow> (case lp_bound p (dd_map d) (dd_difficulty d) of Some save \<Rightarrow> save | None \<Rightarrow> None)
      | _ \<Rightarrow> None)"

definition cp_step :: "LFGStores \<Rightarrow> bool \<Rightarrow> ObjectGuid \<Rightarrow> u32 \<times> LfgLockInfoData \<Rightarrow> CompatibleDungeons \<Rightarrow> CompatibleDungeons" where
  "cp_step s isContinue guid = (\<lambda>(entry, li) c.
     let dungeonId = entry AND 0x00FFFFFF in
     if cp_dungeons c = [] \<or> dungeonId \<notin> set (cp_dungeons c) then c
     else
       (let instance_id = (if li_lockStatus li = LFG_LOCKSTATUS_RAID_LOCKED \<and> isContinue
                           then cp_instance s guid dungeonId else None);
            keep = (case instance_id of None \<Rightarrow> False
                    | Some i \<Rightarrow> map_of (cp_locked c) dungeonId = None \<or> map_of (cp_locked c) dungeonId = Some i);
            c1 = (case instance_id of None \<Rightarrow> c | Some i \<Rightarrow> c\<lparr>cp_locked := om_put dungeonId i (cp_locked c)\<rparr>);
            c2 = (if keep then c1 else c1\<lparr>cp_dungeons := filter (\<lambda>d. d \<noteq> dungeonId) (cp_dungeons c1)\<rparr>)
        in cp_lock guid dungeonId li c2))"

definition GetCompatibleDungeons :: "LFGStores \<Rightarrow> LfgDungeonSet \<Rightarrow> ObjectGuid list \<Rightarrow> bool \<Rightarrow> LfgDungeonSet \<times> LfgLockPartyMap" where
  "GetCompatibleDungeons s dungeons players isContinue =
     (let c = fold (\<lambda>guid c. if cp_dungeons c = [] then c
                             else fold (cp_step s isContinue guid) (GetLockedDungeons s guid) c) players
                \<lparr>cp_dungeons = dungeons, cp_lockMap = [], cp_locked = []\<rparr>
      in (cp_dungeons c, if cp_dungeons c \<noteq> [] then [] else cp_lockMap c))"

subsection \<open>Joining\<close>

text \<open>The restrictions of the members of the group, in the order of the group; the walk ends after the first
  member with one.\<close>

definition member_restriction :: "LFGPlayerView \<Rightarrow> LfgJoinResult" where
  "member_restriction p =
     (if lp_HasAura p LFG_SPELL_DUNGEON_DESERTER then LFG_JOIN_DESERTER_PARTY
      else if lp_HasAura p LFG_SPELL_DUNGEON_COOLDOWN then LFG_JOIN_RANDOM_COOLDOWN_PARTY
      else if lp_InBattleground p \<or> lp_InArena p \<or> lp_InBattlegroundQueue p then LFG_JOIN_CANT_USE_DUNGEONS
      else if lp_HasAura p 9454 then LFG_JOIN_PARTY_NOT_MEET_REQS
      else if \<not> lp_join_permission p then LFG_JOIN_NO_LFG_OBJECT
      else LFG_JOIN_OK)"

fun join_members :: "LFGPlayerView list \<Rightarrow> LfgJoinResult \<Rightarrow> u8 \<Rightarrow> ObjectGuid list \<Rightarrow> LfgJoinResult \<times> u8 \<times> ObjectGuid list" where
  "join_members [] r n players = (r, n, players)"
| "join_members (p # ps) r n players =
     (if r \<noteq> LFG_JOIN_OK then (r, n, players)
      else join_members ps (member_restriction p) (n + 1) (List.insort_insert (lp_guid p) players))"

definition join_restrictions :: "LFGPlayerView \<Rightarrow> LFGGroupView option \<Rightarrow> LfgDungeonSet \<Rightarrow> LfgJoinResult \<times> ObjectGuid list" where
  "join_restrictions player grp dungeons =
     (if \<not> lp_join_permission player then (LFG_JOIN_NO_SLOTS_PLAYER, [])
      else if lp_InBattleground player \<or> lp_InArena player \<or> lp_InBattlegroundQueue player then (LFG_JOIN_CANT_USE_DUNGEONS, [])
      else if lp_HasAura player LFG_SPELL_DUNGEON_DESERTER then (LFG_JOIN_DESERTER_PLAYER, [])
      else if lp_HasAura player LFG_SPELL_DUNGEON_COOLDOWN then (LFG_JOIN_RANDOM_COOLDOWN_PLAYER, [])
      else if dungeons = [] then (LFG_JOIN_NO_SLOTS_PLAYER, [])
      else if lp_HasAura player 9454 then (LFG_JOIN_NO_SLOTS_PLAYER, [])
      else case grp of
        None \<Rightarrow> (LFG_JOIN_OK, [lp_guid player])
      | Some g \<Rightarrow>
          if unat (lg_MembersCount g) > MAX_GROUP_SIZE then (LFG_JOIN_TOO_MANY_MEMBERS, [])
          else case join_members (lg_members g) LFG_JOIN_OK 0 [] of
            (r, n, players) \<Rightarrow>
              (if r = LFG_JOIN_OK \<and> ucast n \<noteq> lg_MembersCount g then LFG_JOIN_MEMBERS_NOT_PRESENT else r, players))"

text \<open>The kinds of the dungeons: one random dungeon alone, or no dungeons and raids together.\<close>

record JoinTypes =
  jt_result :: LfgJoinResult
  jt_isRaid :: bool
  jt_isDungeon :: bool
  jt_rDungeonId :: u32

definition jt_dungeon :: "JoinTypes \<Rightarrow> JoinTypes" where
  "jt_dungeon t = (if jt_isRaid t then t\<lparr>jt_result := LFG_JOIN_MISMATCHED_SLOTS\<rparr> else t)\<lparr>jt_isDungeon := True\<rparr>"

definition jt_step :: "LFGStores \<Rightarrow> LfgDungeonSet \<Rightarrow> u32 \<Rightarrow> JoinTypes \<Rightarrow> JoinTypes" where
  "jt_step s dungeons d t =
     (let type = GetDungeonType s d in
      if type = LFG_TYPE_RANDOM
      then jt_dungeon (if 1 < length dungeons then t\<lparr>jt_result := LFG_JOIN_INVALID_SLOT\<rparr>
                       else t\<lparr>jt_rDungeonId := hd dungeons\<rparr>)
      else if type = LFG_TYPE_HEROIC \<or> type = LFG_TYPE_DUNGEON then jt_dungeon t
      else if type = LFG_TYPE_RAID
      then (if jt_isDungeon t then t\<lparr>jt_result := LFG_JOIN_MISMATCHED_SLOTS\<rparr> else t)\<lparr>jt_isRaid := True\<rparr>
      else t\<lparr>jt_result := LFG_JOIN_INVALID_SLOT\<rparr>)"

fun jt_loop :: "LFGStores \<Rightarrow> LfgDungeonSet \<Rightarrow> u32 list \<Rightarrow> JoinTypes \<Rightarrow> JoinTypes" where
  "jt_loop s dungeons [] t = t"
| "jt_loop s dungeons (d # ds) t =
     (if jt_result t \<noteq> LFG_JOIN_OK then t else jt_loop s dungeons ds (jt_step s dungeons d t))"

definition jt_init :: JoinTypes where
  "jt_init = \<lparr>jt_result = LFG_JOIN_OK, jt_isRaid = False, jt_isDungeon = False, jt_rDungeonId = 0\<rparr>"

record JoinCheck =
  jc_data :: LfgJoinResultData
  jc_dungeons :: LfgDungeonSet
  jc_rDungeonId :: u32
  jc_isRaid :: bool

definition join_check :: "LFGStores \<Rightarrow> LFGPlayerView \<Rightarrow> LFGGroupView option \<Rightarrow> bool \<Rightarrow> LfgDungeonSet \<Rightarrow> JoinCheck" where
  "join_check s player grp isContinue dungeons =
     (let (r, players) = join_restrictions player grp dungeons in
      if r \<noteq> LFG_JOIN_OK
      then \<lparr>jc_data = LfgJoinResultData_init r LFG_ROLECHECK_DEFAULT, jc_dungeons = dungeons, jc_rDungeonId = 0, jc_isRaid = False\<rparr>
      else
        (let t = jt_loop s dungeons dungeons jt_init in
         if jt_result t \<noteq> LFG_JOIN_OK
         then \<lparr>jc_data = LfgJoinResultData_init (jt_result t) LFG_ROLECHECK_DEFAULT, jc_dungeons = dungeons,
               jc_rDungeonId = jt_rDungeonId t, jc_isRaid = jt_isRaid t\<rparr>
         else
           (let expanded = (if jt_rDungeonId t \<noteq> 0 then GetDungeonsByRandom s (jt_rDungeonId t) else dungeons);
                (left, lockmap) = GetCompatibleDungeons s expanded players isContinue;
                r = (if left = [] then (if grp \<noteq> None then LFG_JOIN_NO_LFG_OBJECT else LFG_JOIN_NO_SLOTS_PLAYER)
                     else LFG_JOIN_OK)
            in \<lparr>jc_data = (LfgJoinResultData_init r LFG_ROLECHECK_DEFAULT)\<lparr>jr_lockmap := lockmap\<rparr>,
                jc_dungeons = left, jc_rDungeonId = jt_rDungeonId t, jc_isRaid = jt_isRaid t\<rparr>)))"

definition lfg_tell :: "lfg_event \<Rightarrow> LFGMgr \<Rightarrow> LFGMgr" where
  "lfg_tell e m = m\<lparr>lm_sent := lm_sent m @ [e]\<rparr>"

definition join_ticket :: "LfgWorld \<Rightarrow> ObjectGuid \<Rightarrow> ObjectGuid \<Rightarrow> LFGMgr \<Rightarrow> RideTicket" where
  "join_ticket w guid gguid m =
     \<lparr>rt_RequesterGuid = guid, rt_Id = ucast (LFGMgr_GetQueueId gguid m), rt_Type = RideType_Lfg,
      rt_Time = word_of_int (lw_time w)\<rparr>"

definition join_group_member :: "bool \<Rightarrow> LfgDungeonSet \<Rightarrow> RideTicket \<Rightarrow> ObjectGuid \<Rightarrow> LFGMgr \<Rightarrow> LFGMgr" where
  "join_group_member isContinue dungeons ticket pguid m =
     (let m1 = lfg_tell (SendUpdateStatus pguid (LfgUpdateData_init LFG_UPDATETYPE_JOIN_QUEUE dungeons) True) m;
          m2 = LFGMgr_SetTicket pguid ticket (LFGMgr_SetState pguid LFG_STATE_ROLECHECK m1)
      in if isContinue then m2 else LFGMgr_SetSelectedDungeons pguid dungeons m2)"

definition join_group :: "LfgWorld \<Rightarrow> LFGGroupView \<Rightarrow> ObjectGuid \<Rightarrow> u8 \<Rightarrow> bool \<Rightarrow> LfgDungeonSet \<Rightarrow> u32 \<Rightarrow> LFGMgr \<Rightarrow> LFGMgr" where
  "join_group w grp guid roles isContinue dungeons rDungeonId m =
     (let gguid = lg_guid grp; ticket = join_ticket w guid gguid m;
          members = map lp_guid (lg_members grp);
          oldRoles = (case map_of (lm_RoleChecksStore m) gguid of Some rc \<Rightarrow> rc_roles rc | None \<Rightarrow> []);
          rc = \<lparr>rc_cancelTime = lw_time w + LFG_TIME_ROLECHECK, rc_roles = fold (\<lambda>g. om_put g 0) members oldRoles,
                rc_state = LFG_ROLECHECK_INITIALITING, rc_dungeons = dungeons, rc_rDungeonId = rDungeonId, rc_leader = guid\<rparr>;
          shown = (if rDungeonId \<noteq> 0 then [rDungeonId] else dungeons);
          m1 = LFGMgr_SetState gguid LFG_STATE_ROLECHECK (m\<lparr>lm_RoleChecksStore := om_put gguid rc (lm_RoleChecksStore m)\<rparr>);
          m2 = fold (join_group_member isContinue shown ticket) members m1
      in LFGMgr_UpdateRoleCheck w gguid guid roles m2)"

definition join_player :: "LfgWorld \<Rightarrow> ObjectGuid \<Rightarrow> u8 \<Rightarrow> bool \<Rightarrow> LfgJoinResultData \<Rightarrow> LfgDungeonSet \<Rightarrow> u32 \<Rightarrow> LFGMgr \<Rightarrow> LFGMgr" where
  "join_player w guid roles isContinue joinData dungeons rDungeonId m =
     (let ticket = join_ticket w guid guid m;
          m1 = LFGMgr_on_queue (LFGMgr_GetQueueId guid m) (LFGQueue_AddQueueData guid (lw_time w) dungeons [(guid, roles)]) m;
          shown = (if \<not> isContinue \<and> rDungeonId \<noteq> 0 then [rDungeonId] else dungeons);
          m2 = (if isContinue then m1 else LFGMgr_SetSelectedDungeons guid shown m1);
          m3 = LFGMgr_SetRoles guid roles (LFGMgr_SetTicket guid ticket m2);
          m4 = LFGMgr_SetState guid LFG_STATE_QUEUED
                 (lfg_tell (SendUpdateStatus guid (LfgUpdateData_init LFG_UPDATETYPE_JOIN_QUEUE_INITIAL shown) False) m3)
      in lfg_tell (SendJoinResult guid joinData)
           (lfg_tell (SendUpdateStatus guid (LfgUpdateData_init LFG_UPDATETYPE_ADDED_TO_QUEUE shown) False) m4))"

definition LFGMgr_JoinLfg :: "LfgWorld \<Rightarrow> LFGStores \<Rightarrow> LFGPlayerView \<Rightarrow> LFGGroupView option \<Rightarrow> u8 \<Rightarrow> LfgDungeonSet \<Rightarrow> LFGMgr \<Rightarrow> LFGMgr" where
  "LFGMgr_JoinLfg w s player grp roles dungeons0 m =
     (if \<not> lp_session player \<or> dungeons0 = [] then m
      else
        (let guid = lp_guid player;
             gguid = (case grp of Some g \<Rightarrow> lg_guid g | None \<Rightarrow> guid);
             isContinue = (case grp of Some g \<Rightarrow> lg_isLFGGroup g \<and> LFGMgr_GetState gguid m \<noteq> LFG_STATE_FINISHED_DUNGEON
                           | None \<Rightarrow> False);
             dungeons = (if isContinue then [LFGMgr_GetDungeon gguid True m] else dungeons0);
             m1 = (if LFGMgr_GetState gguid m = LFG_STATE_QUEUED
                   then LFGMgr_on_queue (LFGMgr_GetQueueId gguid m) (LFGQueue_RemoveFromQueue gguid) m else m);
             c = join_check s player grp isContinue dungeons
         in if jr_result (jc_data c) \<noteq> LFG_JOIN_OK
            then lfg_tell (SendJoinResult guid
                   (if jc_dungeons c \<noteq> [] then (jc_data c)\<lparr>jr_lockmap := []\<rparr> else jc_data c)) m1
            else if jc_isRaid c then m1
            else case grp of
              Some g \<Rightarrow> join_group w g guid roles isContinue (jc_dungeons c) (jc_rDungeonId c) m1
            | None \<Rightarrow> join_player w guid roles isContinue (jc_data c) (jc_dungeons c) (jc_rDungeonId c) m1))"

subsection \<open>Loading the tables\<close>

text \<open>A row of the client data base, with the columns the dungeon finder reads.\<close>

record LFGDungeonsEntry =
  le_ID :: u32
  le_Flags :: u32
  le_MaxLevel :: u16
  le_MapID :: "16 word"
  le_MinLevel :: u8
  le_DifficultyID :: u8
  le_TypeID :: u8
  le_ExpansionLevel :: u8
  le_GroupID :: u8

definition LFG_FLAG_SEASONAL :: u32 where "LFG_FLAG_SEASONAL = 4"

definition LFGDungeonData_of :: "LFGDungeonsEntry \<Rightarrow> LFGDungeonData" where
  "LFGDungeonData_of e =
     \<lparr>dd_id = le_ID e, dd_map = scast (le_MapID e), dd_type = le_TypeID e, dd_expansion = le_ExpansionLevel e,
      dd_group = le_GroupID e, dd_minlevel = le_MinLevel e, dd_maxlevel = ucast (le_MaxLevel e),
      dd_difficulty = le_DifficultyID e, dd_seasonal = (le_Flags e AND LFG_FLAG_SEASONAL \<noteq> 0),
      dd_position = (0, 0, 0, 0), dd_requiredItemLevel = 0\<rparr>"

definition load_dungeons :: "LFGDungeonsEntry list \<Rightarrow> (u32 \<times> LFGDungeonData) list" where
  "load_dungeons entries =
     fold (\<lambda>e. if le_TypeID e \<in> {LFG_TYPE_DUNGEON, LFG_TYPE_HEROIC, LFG_TYPE_RAID, LFG_TYPE_RANDOM}
               then om_put (le_ID e) (LFGDungeonData_of e) else id) entries []"

type_synonym dungeon_template_row = "u32 \<times> (rat \<times> rat \<times> rat \<times> rat) \<times> u16"

definition load_templates :: "dungeon_template_row list \<Rightarrow> (u32 \<times> LFGDungeonData) list \<Rightarrow> (u32 \<times> LFGDungeonData) list" where
  "load_templates rows store =
     fold (\<lambda>(i, pos, level). om_upd i (\<lambda>d. d\<lparr>dd_position := pos, dd_requiredItemLevel := level\<rparr>)) rows store"

text \<open>The coordinates of the entrance of a map; a dungeon without any is left as it is and not cached.\<close>

definition load_entrance :: "(u32 \<Rightarrow> (u32 \<times> (rat \<times> rat \<times> rat \<times> rat)) option) \<Rightarrow> LFGDungeonData \<Rightarrow> LFGDungeonData option" where
  "load_entrance entrance d =
     (case dd_position d of (x, y, z, orientation) \<Rightarrow>
        if dd_type d \<noteq> LFG_TYPE_RANDOM \<and> x = 0 \<and> y = 0 \<and> z = 0
        then (case entrance (dd_map d) of None \<Rightarrow> None
              | Some (target, pos) \<Rightarrow> Some (d\<lparr>dd_map := target, dd_position := pos\<rparr>))
        else Some d)"

definition cache_dungeon :: "LFGDungeonData \<Rightarrow> (u8 \<Rightarrow> LfgDungeonSet) \<Rightarrow> (u8 \<Rightarrow> LfgDungeonSet)" where
  "cache_dungeon d cache =
     (let add = (\<lambda>k c. c(k := List.insort_insert (dd_id d) (c k)))
      in add 0 (if dd_type d \<noteq> LFG_TYPE_RANDOM then add (dd_group d) cache else cache))"

definition LFGMgr_LoadLFGDungeons :: "LFGDungeonsEntry list \<Rightarrow> dungeon_template_row list
    \<Rightarrow> (u32 \<Rightarrow> (u32 \<times> (rat \<times> rat \<times> rat \<times> rat)) option) \<Rightarrow> bool \<Rightarrow> LFGStores \<Rightarrow> LFGStores" where
  "LFGMgr_LoadLFGDungeons entries rows entrance reload s =
     (let store = load_dungeons entries in
      if rows = [] then s\<lparr>ls_dungeons := store\<rparr>
      else
        (let filled = map (\<lambda>(i, d). (i, load_entrance entrance d, d)) (load_templates rows store);
             cache = fold (\<lambda>(i, od, d). case od of Some d1 \<Rightarrow> cache_dungeon d1 | None \<Rightarrow> id) filled (ls_cached s)
         in s\<lparr>ls_dungeons := map (\<lambda>(i, od, d). (i, case od of Some d1 \<Rightarrow> d1 | None \<Rightarrow> d)) filled,
              ls_cached := (if reload then \<lambda>k. [] else cache)\<rparr>))"

definition load_reward :: "u32 \<Rightarrow> LFGStores \<Rightarrow> u32 \<times> u8 \<times> u32 \<times> u32 \<Rightarrow> (u32 \<times> LfgReward) list \<Rightarrow> (u32 \<times> LfgReward) list" where
  "load_reward maxPlayerLevel s = (\<lambda>(dungeonId, maxLevel0, firstQuest, otherQuest) store.
     if GetLFGDungeonEntry s dungeonId = 0 then store
     else
       (let maxLevel1 = ucast maxLevel0;
            maxLevel = (if maxLevel1 = 0 \<or> maxLevel1 > maxPlayerLevel then maxPlayerLevel else maxLevel1)
        in if firstQuest = 0 \<or> \<not> ls_quest s firstQuest then store
           else mm_insert dungeonId
                  \<lparr>rw_maxLevel = maxLevel, rw_firstQuest = firstQuest,
                   rw_otherQuest = (if otherQuest \<noteq> 0 \<and> \<not> ls_quest s otherQuest then 0 else otherQuest)\<rparr> store))"

definition LFGMgr_LoadRewards :: "u32 \<Rightarrow> (u32 \<times> u8 \<times> u32 \<times> u32) list \<Rightarrow> LFGStores \<Rightarrow> LFGStores" where
  "LFGMgr_LoadRewards maxPlayerLevel rows s = s\<lparr>ls_rewards := fold (load_reward maxPlayerLevel s) rows []\<rparr>"

subsection \<open>Finishing a dungeon\<close>

definition finish_player :: "LfgWorld \<Rightarrow> LFGStores \<Rightarrow> ObjectGuid \<Rightarrow> u32 \<Rightarrow> ObjectGuid \<Rightarrow> LFGMgr \<Rightarrow> LFGMgr" where
  "finish_player w s gguid dungeonId guid m =
     (if LFGMgr_GetState guid m = LFG_STATE_FINISHED_DUNGEON then m
      else
        (let dungeons = LFGMgr_GetSelectedDungeons guid m;
             rDungeonId = (if dungeons \<noteq> [] then hd dungeons else 0);
             m1 = LFGMgr_SetState guid LFG_STATE_FINISHED_DUNGEON m
         in case GetLFGDungeon s rDungeonId of
              None \<Rightarrow> m1
            | Some d \<Rightarrow>
                if dd_type d \<noteq> LFG_TYPE_RANDOM \<and> \<not> dd_seasonal d then m1
                else case (if lw_in_world w guid then ls_player s guid else None) of
                  None \<Rightarrow> m1
                | Some p \<Rightarrow>
                    if lp_map p \<noteq> (case GetLFGDungeon s dungeonId of Some done \<Rightarrow> dd_map done | None \<Rightarrow> 0) then m1
                    else
                      (let m2 = (if dd_difficulty d = DIFFICULTY_HEROIC then lfg_tell (UpdateCriteria guid) m1 else m1)
                       in case GetRandomDungeonReward s rDungeonId (lp_level p) of
                            None \<Rightarrow> m2
                          | Some rw \<Rightarrow>
                              if \<not> ls_quest s (rw_firstQuest rw) then m2
                              else
                                (let again = \<not> lp_CanRewardQuest p (rw_firstQuest rw);
                                     quest = (if again then rw_otherQuest rw else rw_firstQuest rw)
                                 in if again \<and> \<not> ls_quest s quest then m2
                                    else lfg_tell (SendPlayerReward guid (LFGDungeonData_Entry d) (LFGMgr_GetDungeon gguid False m) again quest)
                                           (lfg_tell (RewardQuest guid quest) m2)))))"

definition LFGMgr_FinishDungeon :: "LfgWorld \<Rightarrow> LFGStores \<Rightarrow> ObjectGuid \<Rightarrow> u32 \<Rightarrow> LFGMgr \<Rightarrow> LFGMgr" where
  "LFGMgr_FinishDungeon w s gguid dungeonId m =
     (if LFGMgr_GetDungeon gguid True m \<noteq> dungeonId then m
      else if LFGMgr_GetState gguid m = LFG_STATE_FINISHED_DUNGEON then m
      else
        (let m1 = LFGMgr_SetState gguid LFG_STATE_FINISHED_DUNGEON m
         in fold (finish_player w s gguid dungeonId) (LFGMgr_GetPlayers gguid m1) m1))"

definition LFGMgr_GetDungeonMapId :: "LFGStores \<Rightarrow> ObjectGuid \<Rightarrow> LFGMgr \<Rightarrow> u32" where
  "LFGMgr_GetDungeonMapId s guid m =
     (let dungeonId = LFGMgr_GetDungeon guid True m
      in if dungeonId \<noteq> 0 then (case GetLFGDungeon s dungeonId of Some d \<Rightarrow> dd_map d | None \<Rightarrow> 0) else 0)"

definition LFGMgr_selectedRandomLfgDungeon :: "LFGStores \<Rightarrow> ObjectGuid \<Rightarrow> LFGMgr \<Rightarrow> bool" where
  "LFGMgr_selectedRandomLfgDungeon s guid m =
     (LFGMgr_GetState guid m \<noteq> LFG_STATE_NONE \<and>
      (case LFGMgr_GetSelectedDungeons guid m of [] \<Rightarrow> False
       | d # _ \<Rightarrow> (case GetLFGDungeon s d of None \<Rightarrow> False | Some dd \<Rightarrow> dd_type dd = LFG_TYPE_RANDOM \<or> dd_seasonal dd)))"

definition LFGMgr_inLfgDungeonMap :: "LFGStores \<Rightarrow> ObjectGuid \<Rightarrow> u32 \<Rightarrow> u8 \<Rightarrow> LFGMgr \<Rightarrow> bool" where
  "LFGMgr_inLfgDungeonMap s guid0 map_id difficulty m =
     (let guid = (if ObjectGuid_IsParty guid0 then guid0 else LFGMgr_GetGroup guid0 m);
          dungeonId = LFGMgr_GetDungeon guid True m
      in dungeonId \<noteq> 0 \<and> (case GetLFGDungeon s dungeonId of None \<Rightarrow> False
           | Some d \<Rightarrow> dd_map d = map_id \<and> dd_difficulty d = difficulty))"

text \<open>What a data base row says of a group that is loaded, and what is saved of it.\<close>

definition LFGMgr_LoadFromDB :: "ObjectGuid \<Rightarrow> u32 \<Rightarrow> u8 \<Rightarrow> ObjectGuid \<Rightarrow> LFGMgr \<Rightarrow> LFGMgr" where
  "LFGMgr_LoadFromDB leader dungeon state guid m =
     (if \<not> ObjectGuid_IsParty guid then m
      else
        (let m1 = LFGMgr_SetLeader guid leader m in
         if dungeon = 0 \<or> state = 0 then m1
         else
           (let m2 = LFGMgr_SetDungeon guid dungeon m1 in
            if state = 5 then LFGMgr_SetState guid LFG_STATE_DUNGEON m2
            else if state = 6 then LFGMgr_SetState guid LFG_STATE_FINISHED_DUNGEON m2
            else m2)))"

definition LFGMgr_SaveToDB :: "ObjectGuid \<Rightarrow> LFGMgr \<Rightarrow> LFGMgr" where
  "LFGMgr_SaveToDB guid m =
     (if \<not> ObjectGuid_IsParty guid then m
      else lfg_tell (SaveLfgData guid (LFGMgr_GetDungeon guid True m) (LFGMgr_GetState guid m)) m)"

end
