(* ===== verification/LFGScripts.thy ===== *)
theory LFGScripts
  imports LFGJoin
begin

section \<open>Dungeon finder: groups and packets (game/DungeonFinding/LFGScripts.cpp, game/Handlers/LFGHandler.cpp)\<close>

text \<open>
  What the dungeon finder does when players log in and out and groups change (\<open>LFGScripts\<close>), and the handlers of
  the packets of the client (\<open>LFGHandler\<close>), which call the manager. The group is given by its guid, its leader
  and whether it is a group of the finder. Teleports, spells and packets of other parts are events.
\<close>

subsection \<open>Teleports\<close>

datatype LfgTeleportResult = LFG_TELEPORT_RESULT_NONE | LFG_TELEPORT_RESULT_DEAD | LFG_TELEPORT_RESULT_FALLING
  | LFG_TELEPORT_RESULT_ON_TRANSPORT | LFG_TELEPORT_RESULT_EXHAUSTION | LFG_TELEPORT_RESULT_NO_RETURN_LOCATION
  | LFG_TELEPORT_RESULT_IMMUNE_TO_SUMMONS

record TeleportView =
  tv_alive :: bool
  tv_falling :: bool
  tv_jumping :: bool
  tv_fatigue :: bool
  tv_vehicle :: bool
  tv_charm :: ObjectGuid
  tv_frozen :: bool
  tv_map :: u32

datatype teleport_outcome = TeleportError LfgTeleportResult | TeleportToEntryPoint | TeleportNothing
  | TeleportTo u32 "rat \<times> rat \<times> rat \<times> rat"

text \<open>The outcome of \<open>TeleportPlayer\<close> up to the call of \<open>TeleportTo\<close>, which itself can fail. The search for
  somebody inside the dungeon runs only when the dungeon is on map 0; \<open>inside\<close> are the maps and positions of the
  other members of the group.\<close>

definition LFGMgr_TeleportPlayer :: "LFGStores \<Rightarrow> TeleportView \<Rightarrow> ObjectGuid option \<Rightarrow> bool
    \<Rightarrow> (u32 \<times> (rat \<times> rat \<times> rat \<times> rat)) list \<Rightarrow> bool \<Rightarrow> bool \<Rightarrow> LFGMgr \<Rightarrow> teleport_outcome" where
  "LFGMgr_TeleportPlayer s tv gguid isLFG inside out fromOpcode m =
     (case (case gguid of Some g \<Rightarrow> if isLFG then GetLFGDungeon s (LFGMgr_GetDungeon g True m) else None | None \<Rightarrow> None) of
        None \<Rightarrow> TeleportError LFG_TELEPORT_RESULT_NO_RETURN_LOCATION
      | Some d \<Rightarrow>
          if out then (if tv_map tv = dd_map d then TeleportToEntryPoint else TeleportNothing)
          else if \<not> tv_alive tv then TeleportError LFG_TELEPORT_RESULT_DEAD
          else if tv_falling tv \<or> tv_jumping tv then TeleportError LFG_TELEPORT_RESULT_FALLING
          else if tv_fatigue tv then TeleportError LFG_TELEPORT_RESULT_EXHAUSTION
          else if tv_vehicle tv then TeleportError LFG_TELEPORT_RESULT_ON_TRANSPORT
          else if \<not> ObjectGuid_IsEmpty (tv_charm tv) then TeleportError LFG_TELEPORT_RESULT_IMMUNE_TO_SUMMONS
          else if tv_frozen tv then TeleportError LFG_TELEPORT_RESULT_NO_RETURN_LOCATION
          else if tv_map tv \<noteq> dd_map d
          then (case (if \<not> fromOpcode \<and> dd_map d = 0 then find (\<lambda>(mp, pos). mp = dd_map d) inside else None) of
                  Some (mp, pos) \<Rightarrow> TeleportTo mp pos
                | None \<Rightarrow> TeleportTo (dd_map d) (dd_position d))
          else TeleportError LFG_TELEPORT_RESULT_NO_RETURN_LOCATION)"

subsection \<open>Players log in and out\<close>

definition LFGPlayerScript_OnLogout :: "LfgWorld \<Rightarrow> ObjectGuid \<Rightarrow> bool \<Rightarrow> bool \<Rightarrow> LFGMgr \<Rightarrow> LFGMgr" where
  "LFGPlayerScript_OnLogout w guid in_group disconnected m =
     (if \<not> lfg_enabled m then m
      else if \<not> in_group then LFGMgr_LeaveLfg w guid False m
      else if disconnected then LFGMgr_LeaveLfg w guid True m
      else m)"

definition LFGPlayerScript_OnLogin :: "bool \<Rightarrow> ObjectGuid \<Rightarrow> u8 \<Rightarrow> ObjectGuid option \<Rightarrow> LFGMgr \<Rightarrow> LFGMgr" where
  "LFGPlayerScript_OnLogin two_side guid team grp m =
     (if \<not> lfg_enabled m then m
      else LFGMgr_SetTeam two_side guid team
        (case grp of
           Some gguid2 \<Rightarrow> if LFGMgr_GetGroup guid m \<noteq> gguid2 then LFGMgr_SetupGroupMember guid gguid2 m else m
         | None \<Rightarrow> m))"

definition LFGPlayerScript_OnMapChanged :: "LfgWorld \<Rightarrow> LFGStores \<Rightarrow> ObjectGuid \<Rightarrow> u32 \<Rightarrow> u8 \<Rightarrow> (ObjectGuid \<times> ObjectGuid list) option
    \<Rightarrow> u32 \<Rightarrow> LFGMgr \<Rightarrow> LFGMgr" where
  "LFGPlayerScript_OnMapChanged w s guid map_id difficulty grp membersCount m =
     (if LFGMgr_inLfgDungeonMap s guid map_id difficulty m
      then (case grp of
          None \<Rightarrow> lfg_tell (TeleportHome guid) (lfg_tell (RemoveAuras guid LFG_SPELL_LUCK_OF_THE_DRAW) (LFGMgr_LeaveLfg w guid False m))
        | Some (gguid, members) \<Rightarrow>
            (let m1 = fold (\<lambda>g. lfg_tell (SendNameQuery guid g)) members m
             in if LFGMgr_selectedRandomLfgDungeon s guid m1 then lfg_tell (CastSpell guid LFG_SPELL_LUCK_OF_THE_DRAW) m1 else m1))
      else lfg_tell (RemoveAuras guid LFG_SPELL_LUCK_OF_THE_DRAW)
        (case grp of
           Some (gguid, members) \<Rightarrow>
             if membersCount = 1 then lfg_tell (DisbandGroup gguid) (LFGMgr_LeaveLfg w gguid False m) else m
         | None \<Rightarrow> m))"

subsection \<open>Groups change\<close>

datatype RemoveMethod = GROUP_REMOVEMETHOD_DEFAULT | GROUP_REMOVEMETHOD_KICK | GROUP_REMOVEMETHOD_LEAVE
  | GROUP_REMOVEMETHOD_KICK_LFG

definition LFGGroupScript_OnAddMember :: "LfgWorld \<Rightarrow> ObjectGuid \<Rightarrow> ObjectGuid \<Rightarrow> ObjectGuid \<Rightarrow> LFGMgr \<Rightarrow> LFGMgr" where
  "LFGGroupScript_OnAddMember w gguid leader guid m =
     (if \<not> lfg_enabled m then m
      else
        (let m1 = (if leader = guid then LFGMgr_SetLeader gguid guid m
                   else
                     (let gstate = LFGMgr_GetState gguid m; state = LFGMgr_GetState guid m;
                          m1 = (if state = LFG_STATE_QUEUED then LFGMgr_LeaveLfg w guid False m else m)
                      in if gstate = LFG_STATE_QUEUED then LFGMgr_LeaveLfg w gguid False m1 else m1))
         in LFGMgr_AddPlayerToGroup gguid guid (LFGMgr_SetGroup guid gguid m1)))"

definition LFGGroupScript_OnRemoveMember :: "LfgWorld \<Rightarrow> ObjectGuid \<Rightarrow> bool \<Rightarrow> ObjectGuid \<Rightarrow> RemoveMethod \<Rightarrow> ObjectGuid
    \<Rightarrow> string option \<Rightarrow> LFGMgr \<Rightarrow> LFGMgr" where
  "LFGGroupScript_OnRemoveMember w gguid isLFG guid method kicker reason m =
     (if \<not> lfg_enabled m then m
      else if isLFG \<and> method = GROUP_REMOVEMETHOD_KICK
      then LFGMgr_InitBoot w gguid kicker guid (case reason of Some r \<Rightarrow> r | None \<Rightarrow> []) m
      else
        (let state = LFGMgr_GetState gguid m in
         if state = LFG_STATE_PROPOSAL \<and> method = GROUP_REMOVEMETHOD_DEFAULT
         then snd (LFGMgr_RemovePlayerFromGroup gguid guid (LFGMgr_SetGroup guid ObjectGuid_Empty m))
         else
           (let (players, m1) = LFGMgr_RemovePlayerFromGroup gguid guid
                  (LFGMgr_SetGroup guid ObjectGuid_Empty (LFGMgr_LeaveLfg w guid False m));
                m2 = (if lw_in_world w guid
                      then (let m3 = (if method = GROUP_REMOVEMETHOD_LEAVE \<and> state = LFG_STATE_DUNGEON \<and>
                                         LFG_GROUP_KICK_VOTES_NEEDED \<le> unat players
                                      then lfg_tell (CastSpell guid LFG_SPELL_DUNGEON_DESERTER) m1 else m1);
                                m4 = lfg_tell (SendUpdateStatus guid (LfgUpdateData_init LFG_UPDATETYPE_LEADER_UNK1 []) True) m3
                            in if isLFG \<and> lw_in_dungeon w guid then lfg_tell (TeleportPlayer guid True) m4 else m4)
                      else m1);
                leader = LFGMgr_GetLeader gguid m2
            in if isLFG \<and> state \<noteq> LFG_STATE_FINISHED_DUNGEON \<and> lw_connected w leader
               then lfg_tell (SendOfferContinue leader (LFGMgr_GetDungeon gguid False m2)) m2 else m2)))"

definition LFGGroupScript_OnDisband :: "LfgWorld \<Rightarrow> ObjectGuid \<Rightarrow> LFGMgr \<Rightarrow> LFGMgr" where
  "LFGGroupScript_OnDisband w gguid m = (if \<not> lfg_enabled m then m else LFGMgr_RemoveGroupData w gguid m)"

definition LFGGroupScript_OnChangeLeader :: "ObjectGuid \<Rightarrow> ObjectGuid \<Rightarrow> LFGMgr \<Rightarrow> LFGMgr" where
  "LFGGroupScript_OnChangeLeader gguid newLeader m = (if \<not> lfg_enabled m then m else LFGMgr_SetLeader gguid newLeader m)"

definition LFGGroupScript_OnInviteMember :: "LfgWorld \<Rightarrow> ObjectGuid \<Rightarrow> ObjectGuid \<Rightarrow> LFGMgr \<Rightarrow> LFGMgr" where
  "LFGGroupScript_OnInviteMember w gguid leader m =
     (if \<not> lfg_enabled m then m
      else if \<not> ObjectGuid_IsEmpty leader \<and> ObjectGuid_IsEmpty gguid then LFGMgr_LeaveLfg w leader False m
      else m)"

subsection \<open>Packets of the client\<close>

text \<open>The group of the player as the handlers see it: the group of the finder's view, and its leader.\<close>

type_synonym lfg_party = "(LFGGroupView \<times> ObjectGuid) option"

definition HandleLfgJoinOpcode :: "LfgWorld \<Rightarrow> LFGStores \<Rightarrow> (u32 \<Rightarrow> bool) \<Rightarrow> LFGPlayerView \<Rightarrow> lfg_party \<Rightarrow> u32 list \<Rightarrow> u32 \<Rightarrow> LFGMgr \<Rightarrow> LFGMgr" where
  "HandleLfgJoinOpcode w s listed player party slots roles m =
     (if \<not> lfg_enabled m \<or>
         (case party of None \<Rightarrow> False
          | Some (g, leader) \<Rightarrow> leader \<noteq> lp_guid player \<and> (unat (lg_MembersCount g) = MAX_GROUP_SIZE \<or> \<not> lg_isLFGGroup g))
      then m
      else if slots = [] then m
      else LFGMgr_JoinLfg w s player (map_option fst party) (ucast roles)
        (fold (\<lambda>slot. let d = slot AND 0x00FFFFFF in if listed d then List.insort_insert d else id) slots []) m)"

definition HandleLfgLeaveOpcode :: "LfgWorld \<Rightarrow> lfg_party \<Rightarrow> ObjectGuid \<Rightarrow> LFGMgr \<Rightarrow> LFGMgr" where
  "HandleLfgLeaveOpcode w party requester m =
     (case party of
        None \<Rightarrow> LFGMgr_LeaveLfg w requester False m
      | Some (g, leader) \<Rightarrow> if leader = requester then LFGMgr_LeaveLfg w requester False m else m)"

definition HandleLfgProposalResultOpcode :: "LfgWorld \<Rightarrow> ObjectGuid \<Rightarrow> u32 \<Rightarrow> bool \<Rightarrow> LFGMgr \<Rightarrow> LFGMgr" where
  "HandleLfgProposalResultOpcode w guid proposalId accepted = LFGMgr_UpdateProposal w proposalId guid accepted"

definition HandleLfgSetRolesOpcode :: "LfgWorld \<Rightarrow> ObjectGuid \<Rightarrow> ObjectGuid option \<Rightarrow> u32 \<Rightarrow> LFGMgr \<Rightarrow> LFGMgr" where
  "HandleLfgSetRolesOpcode w guid grp roles m =
     (case grp of None \<Rightarrow> m | Some gguid \<Rightarrow> LFGMgr_UpdateRoleCheck w gguid guid (ucast roles) m)"

definition HandleLfgSetBootVoteOpcode :: "LfgWorld \<Rightarrow> ObjectGuid \<Rightarrow> bool \<Rightarrow> LFGMgr \<Rightarrow> LFGMgr" where
  "HandleLfgSetBootVoteOpcode w guid vote = LFGMgr_UpdateBoot w guid vote"

text \<open>The status a player is told when it asks: first for the kind of queue it is in.\<close>

definition Player_isUsingLfg :: "ObjectGuid \<Rightarrow> LFGMgr \<Rightarrow> bool" where
  "Player_isUsingLfg guid m = (LFGMgr_GetState guid m \<noteq> LFG_STATE_NONE)"

definition HandleDFGetJoinStatus :: "ObjectGuid \<Rightarrow> bool \<Rightarrow> LFGMgr \<Rightarrow> LFGMgr" where
  "HandleDFGetJoinStatus guid in_group m =
     (if \<not> Player_isUsingLfg guid m then m
      else (let data = LFGMgr_GetLfgStatus guid m
            in lfg_tell (SendUpdateStatus guid (data\<lparr>ud_dungeons := []\<rparr>) (\<not> in_group))
                 (lfg_tell (SendUpdateStatus guid data in_group) m)))"

end
