(* ===== verification/LFGVotes.thy ===== *)
theory LFGVotes
  imports LFGMgr
begin

section \<open>Dungeon finder: what votes and refused proposals come to\<close>

text \<open>
  Two specifications of the operations of \<open>LFGMgr\<close>. A vote to kick is a set of players for and one against
  (\<open>kick_vote\<close>): who voted cannot vote again, the third yes kicks and the third no ends the vote;
  \<open>InitBoot\<close> and \<open>UpdateBoot\<close> implement it. A proposal that somebody refuses sends the refusing entries out of
  the queue and everybody else back to its front.
\<close>

subsection \<open>The vote to kick\<close>

datatype kick_vote = KickOpen "ObjectGuid set" "ObjectGuid set" | KickPassed | KickFailed

fun kick_step :: "ObjectGuid \<times> bool \<Rightarrow> kick_vote \<Rightarrow> kick_vote" where
  "kick_step (g, accept) (KickOpen Y N) =
     (if g \<in> Y \<union> N then KickOpen Y N
      else if accept
      then (if LFG_GROUP_KICK_VOTES_NEEDED \<le> card (insert g Y) then KickPassed else KickOpen (insert g Y) N)
      else (if LFG_GROUP_KICK_VOTES_NEEDED \<le> card (insert g N) then KickFailed else KickOpen Y (insert g N)))"
| "kick_step v KickPassed = KickPassed"
| "kick_step v KickFailed = KickFailed"

definition kicked :: "LFGMgr \<Rightarrow> (ObjectGuid \<times> ObjectGuid) list" where
  "kicked m = concat (map (\<lambda>e. case e of KickFromGroup g h \<Rightarrow> [(g, h)] | _ \<Rightarrow> []) (lm_sent m))"

definition voted :: "LfgAnswer \<Rightarrow> LfgAnswerContainer \<Rightarrow> ObjectGuid set" where
  "voted a votes = {g. (g, a) \<in> set votes}"

lemma card_voted: "om_ok votes \<Longrightarrow> card (voted a votes) = length (filter (\<lambda>(g, b). b = a) votes)"
proof -
  assume "om_ok votes"
  then have "distinct (map fst (filter (\<lambda>(g, b). b = a) votes))" by (intro distinct_map_filter om_ok_distinct)
  moreover have "voted a votes = set (map fst (filter (\<lambda>(g, b). b = a) votes))" by (force simp: voted_def)
  ultimately show ?thesis by (metis distinct_card length_map)
qed

lemma voted_put:
  assumes "om_ok votes"
  shows "voted a (om_put g b votes) = (if a = b then insert g (voted a votes) else voted a votes - {g})"
  using assms by (auto simp: voted_def set_om_put)

lemma boot_agreeNum_filter: "boot_agreeNum votes = of_nat (length (filter (\<lambda>(g, a). a = LFG_ANSWER_AGREE) votes))"
proof -
  have "fold (\<lambda>(g, a) n. if a \<noteq> LFG_ANSWER_PENDING \<and> a = LFG_ANSWER_AGREE then n + 1 else n) votes k =
      k + of_nat (length (filter (\<lambda>(g, a). a = LFG_ANSWER_AGREE) votes))" for k :: u8
    by (induction votes arbitrary: k) auto
  then show ?thesis by (simp add: boot_agreeNum_def)
qed

lemma boot_votesNum_filter: "boot_votesNum votes = of_nat (length (filter (\<lambda>(g, a). a \<noteq> LFG_ANSWER_PENDING) votes))"
proof -
  have "fold (\<lambda>(g, a) n. if a \<noteq> LFG_ANSWER_PENDING then n + 1 else n) votes k =
      k + of_nat (length (filter (\<lambda>(g, a). a \<noteq> LFG_ANSWER_PENDING) votes))" for k :: u8
    by (induction votes arbitrary: k) auto
  then show ?thesis by (simp add: boot_votesNum_def)
qed

lemma boot_counts:
  assumes "om_ok votes" "length votes < 256"
  shows "unat (boot_agreeNum votes) = card (voted LFG_ANSWER_AGREE votes)"
    and "unat (boot_votesNum votes) = card (voted LFG_ANSWER_AGREE votes) + card (voted LFG_ANSWER_DENY votes)"
proof -
  have le: "length (filter P votes) < 256" for P using length_filter_le [of P votes] assms(2) by linarith
  show "unat (boot_agreeNum votes) = card (voted LFG_ANSWER_AGREE votes)"
    using le by (simp add: boot_agreeNum_filter card_voted [OF assms(1)] unat_of_nat take_bit_nat_eq_self)
  have "length (filter (\<lambda>(g, a). a \<noteq> LFG_ANSWER_PENDING) votes) =
      length (filter (\<lambda>(g, a). a = LFG_ANSWER_AGREE) votes) + length (filter (\<lambda>(g, a). a = LFG_ANSWER_DENY) votes)"
  proof (induction votes)
    case (Cons x votes)
    obtain g a where "x = (g, a)" by force
    with Cons show ?case by (cases a) simp_all
  qed simp
  moreover have "unat (boot_votesNum votes) = length (filter (\<lambda>(g, a). a \<noteq> LFG_ANSWER_PENDING) votes)"
    using le [of "\<lambda>(g, a). a \<noteq> LFG_ANSWER_PENDING"] by (simp only: boot_votesNum_filter) (simp add: unat_of_nat take_bit_nat_eq_self)
  ultimately show "unat (boot_votesNum votes) = card (voted LFG_ANSWER_AGREE votes) + card (voted LFG_ANSWER_DENY votes)"
    by (simp add: card_voted [OF assms(1)])
qed

text \<open>Telling the players, and closing a vote.\<close>

lemma kicked_simps [simp]:
  "kicked (SendLfgBootProposalUpdate w g b m) = kicked m"
  "kicked (m\<lparr>lm_BootsStore := bs\<rparr>) = kicked m"
  "kicked (LFGMgr_SetVoteKick g v m) = kicked m"
  "kicked (LFGMgr_DecreaseKicksLeft g m) = kicked m"
  "kicked (m\<lparr>lm_sent := lm_sent m @ [KickFromGroup g h]\<rparr>) = kicked m @ [(g, h)]"
  by (simp_all add: kicked_def SendLfgBootProposalUpdate_def LFGMgr_send_def LFGMgr_SetVoteKick_def
      LFGMgr_DecreaseKicksLeft_def LFGMgr_group_def)

lemma boot_update_simps [simp]:
  "lm_PlayersStore (SendLfgBootProposalUpdate w g b m) = lm_PlayersStore m"
  "lm_GroupsStore (SendLfgBootProposalUpdate w g b m) = lm_GroupsStore m"
  "lm_BootsStore (SendLfgBootProposalUpdate w g b m) = lm_BootsStore m"
  "lm_PlayersStore (LFGMgr_SetVoteKick g v m) = lm_PlayersStore m"
  "lm_BootsStore (LFGMgr_SetVoteKick g v m) = lm_BootsStore m"
  "lm_GroupsStore (LFGMgr_SetVoteKick g v m) = (lm_GroupsStore m)(g := LfgGroupData_SetVoteKick v (lm_GroupsStore m g))"
  "lm_PlayersStore (LFGMgr_DecreaseKicksLeft g m) = lm_PlayersStore m"
  "lm_BootsStore (LFGMgr_DecreaseKicksLeft g m) = lm_BootsStore m"
  "lm_GroupsStore (LFGMgr_DecreaseKicksLeft g m) = (lm_GroupsStore m)(g := LfgGroupData_DecreaseKicksLeft (lm_GroupsStore m g))"
  by (simp_all add: SendLfgBootProposalUpdate_def LFGMgr_send_def LFGMgr_SetVoteKick_def LFGMgr_DecreaseKicksLeft_def
      LFGMgr_group_def)

lemma fold_same: "(\<And>x m. h (f x m) = h m) \<Longrightarrow> h (fold f xs m) = h m"
  by (induction xs arbitrary: m) simp_all

lemma boot_notify_simps [simp]:
  "lm_PlayersStore (boot_notify w b m) = lm_PlayersStore m"
  "lm_GroupsStore (boot_notify w b m) = lm_GroupsStore m"
  "lm_BootsStore (boot_notify w b m) = lm_BootsStore m"
  "kicked (boot_notify w b m) = kicked m"
  unfolding boot_notify_def by (rule fold_same; simp split: prod.split)+

text \<open>How the manager represents a vote: an open one is in the store with a vote of every voter, a decided one is
  gone. \<open>k\<close> is the number of kicks the group had left, \<open>K\<close> what was kicked before.\<close>

fun kick_rel :: "ObjectGuid \<Rightarrow> ObjectGuid \<Rightarrow> ObjectGuid set \<Rightarrow> u8 \<Rightarrow> (ObjectGuid \<times> ObjectGuid) list \<Rightarrow> kick_vote \<Rightarrow> LFGMgr \<Rightarrow> bool" where
  "kick_rel gg victim voters k K (KickOpen Y N) m \<longleftrightarrow>
     (\<exists>b. map_of (lm_BootsStore m) gg = Some b \<and> bt_victim b = victim \<and> om_ok (bt_votes b) \<and> fst ` set (bt_votes b) = voters \<and>
        voted LFG_ANSWER_AGREE (bt_votes b) = Y \<and> voted LFG_ANSWER_DENY (bt_votes b) = N) \<and>
     card Y < LFG_GROUP_KICK_VOTES_NEEDED \<and> card N < LFG_GROUP_KICK_VOTES_NEEDED \<and>
     LFGMgr_IsVoteKickActive gg m \<and> LFGMgr_GetKicksLeft gg m = k \<and> kicked m = K"
| "kick_rel gg victim voters k K KickPassed m \<longleftrightarrow>
     map_of (lm_BootsStore m) gg = None \<and> \<not> LFGMgr_IsVoteKickActive gg m \<and>
     LFGMgr_GetKicksLeft gg m = (if k = 0 then 0 else k - 1) \<and> kicked m = K @ [(gg, victim)]"
| "kick_rel gg victim voters k K KickFailed m \<longleftrightarrow>
     map_of (lm_BootsStore m) gg = None \<and> \<not> LFGMgr_IsVoteKickActive gg m \<and> LFGMgr_GetKicksLeft gg m = k \<and> kicked m = K"

lemma UpdateBoot_players [simp]: "lm_PlayersStore (LFGMgr_UpdateBoot w g a m) = lm_PlayersStore m"
  by (simp add: LFGMgr_UpdateBoot_def Let_def split: option.split prod.split)

lemma UpdateBoot_refines:
  assumes r: "kick_rel gg victim voters k K v m" and g: "g \<in> voters" "LFGMgr_GetGroup g m = gg" "\<not> ObjectGuid_IsEmpty gg"
    and few: "card voters < 256" "lw_group_exists w gg"
  shows "kick_rel gg victim voters k K (kick_step (g, a) v) (LFGMgr_UpdateBoot w g a m)"
proof (cases v)
  case (KickOpen Y N)
  then obtain b where b: "map_of (lm_BootsStore m) gg = Some b" "bt_victim b = victim" "om_ok (bt_votes b)"
      "fst ` set (bt_votes b) = voters" "voted LFG_ANSWER_AGREE (bt_votes b) = Y" "voted LFG_ANSWER_DENY (bt_votes b) = N"
    and rest: "card Y < LFG_GROUP_KICK_VOTES_NEEDED" "card N < LFG_GROUP_KICK_VOTES_NEEDED" "LFGMgr_IsVoteKickActive gg m"
      "LFGMgr_GetKicksLeft gg m = k" "kicked m = K" using r by auto
  obtain c where c: "map_of (bt_votes b) g = Some c" using g(1) b(4) by (metis map_of_eq_None_iff option.exhaust)
  have c': "c = d \<longleftrightarrow> g \<in> voted d (bt_votes b)" for d using c b(3) by (auto simp: voted_def om_get_iff [symmetric])
  have YN: "g \<in> Y \<union> N \<longleftrightarrow> c \<noteq> LFG_ANSWER_PENDING" using c' [of LFG_ANSWER_AGREE] c' [of LFG_ANSWER_DENY] b(5,6) by (cases c) auto
  have vote: "boot_vote_of g (bt_votes b) = (c, bt_votes b)" by (simp add: boot_vote_of_def c)
  show ?thesis
  proof (cases "g \<in> Y \<union> N")
    case True
    then have "LFGMgr_UpdateBoot w g a m = m\<lparr>lm_BootsStore := om_put gg b (lm_BootsStore m)\<rparr>"
      using b(1) g(2,3) YN by (simp add: LFGMgr_UpdateBoot_def Let_def vote)
    with True b rest KickOpen show ?thesis by (auto simp: LFGMgr_IsVoteKickActive_def LFGMgr_GetKicksLeft_def)
  next
    case False
    define ans where "ans = (if a then LFG_ANSWER_AGREE else LFG_ANSWER_DENY)"
    define votes where "votes = om_put g ans (bt_votes b)"
    have fresh: "g \<notin> Y" "g \<notin> N" "c = LFG_ANSWER_PENDING" using False YN by auto
    have voters: "om_ok votes" "fst ` set votes = voters" using b(3,4) g(1) by (auto simp: votes_def)
    have len: "length votes < 256"
      using few(1) voters distinct_card [OF om_ok_distinct [OF voters(1)]] by simp
    have Y': "voted LFG_ANSWER_AGREE votes = (if a then insert g Y else Y)"
      and N': "voted LFG_ANSWER_DENY votes = (if a then N else insert g N)"
      using fresh by (simp_all add: votes_def voted_put [OF b(3)] b(5,6) ans_def)
    note counts = boot_counts [OF voters(1) len, unfolded Y' N']
    have nums: "unat (boot_agreeNum votes) < LFG_GROUP_KICK_VOTES_NEEDED \<and>
        int (unat (boot_votesNum votes)) - int (unat (boot_agreeNum votes)) < int LFG_GROUP_KICK_VOTES_NEEDED \<longleftrightarrow>
        (if a then card (insert g Y) else card (insert g N)) < LFG_GROUP_KICK_VOTES_NEEDED"
      using counts rest(1,2) by simp
    have fin: "finite Y" using b(5) unfolding voted_def by (auto intro!: finite_subset [OF _ finite_imageI [OF finite_set]] simp: image_iff)
    have three: "unat (boot_agreeNum votes) = LFG_GROUP_KICK_VOTES_NEEDED \<longleftrightarrow> a"
      if "LFG_GROUP_KICK_VOTES_NEEDED \<le> (if a then card (insert g Y) else card (insert g N))"
      using counts(1) that rest(1) fin fresh by (simp add: card_insert_if split: if_splits)
    show ?thesis
    proof (cases "(if a then card (insert g Y) else card (insert g N)) < LFG_GROUP_KICK_VOTES_NEEDED")
      case True
      then have "LFGMgr_UpdateBoot w g a m = m\<lparr>lm_BootsStore := om_put gg (b\<lparr>bt_votes := votes\<rparr>) (lm_BootsStore m)\<rparr>"
        using b(1) g(2,3) nums fresh(3) by (simp add: LFGMgr_UpdateBoot_def Let_def vote votes_def [symmetric] ans_def [symmetric])
      then show ?thesis
        using True KickOpen voters Y' N' b(2) rest fresh
        by (cases a) (auto simp: LFGMgr_IsVoteKickActive_def LFGMgr_GetKicksLeft_def)
    next
      case False
      have decided: "(unat (boot_agreeNum votes) < LFG_GROUP_KICK_VOTES_NEEDED \<and>
          uint (boot_votesNum votes) - uint (boot_agreeNum votes) < int LFG_GROUP_KICK_VOTES_NEEDED) = False"
        using nums False by simp
      define m1 where "m1 = LFGMgr_SetVoteKick gg False (boot_notify w (b\<lparr>bt_votes := votes, bt_inProgress := False\<rparr>) m)"
      have "LFGMgr_UpdateBoot w g a m = (let m2 = (if a then LFGMgr_DecreaseKicksLeft gg
          (m1\<lparr>lm_sent := lm_sent m1 @ [KickFromGroup gg victim]\<rparr>) else m1) in m2\<lparr>lm_BootsStore := om_del gg (lm_BootsStore m2)\<rparr>)"
        using b(1,2) g(2,3) fresh(3) three False few(2)
        by (simp add: LFGMgr_UpdateBoot_def Let_def vote votes_def [symmetric] ans_def [symmetric] m1_def decided)
      then show ?thesis
        using False KickOpen rest fresh
        by (cases a) (auto simp: LFGMgr_IsVoteKickActive_def LFGMgr_GetKicksLeft_def m1_def Let_def LfgGroupData_SetVoteKick_def
            LfgGroupData_DecreaseKicksLeft_def)
    qed
  qed
next
  case KickPassed
  with r g have "LFGMgr_UpdateBoot w g a m = m" by (simp add: LFGMgr_UpdateBoot_def Let_def)
  with r KickPassed show ?thesis by simp
next
  case KickFailed
  with r g have "LFGMgr_UpdateBoot w g a m = m" by (simp add: LFGMgr_UpdateBoot_def Let_def)
  with r KickFailed show ?thesis by simp
qed

lemma pending_votes: "om_ok V \<Longrightarrow> om_ok (fold (\<lambda>g. om_put g LFG_ANSWER_PENDING) gs V) \<and>
    fst ` set (fold (\<lambda>g. om_put g LFG_ANSWER_PENDING) gs V) = fst ` set V \<union> set gs"
  by (induction gs arbitrary: V) auto

lemma pending_voted: "om_ok V \<Longrightarrow> a \<noteq> LFG_ANSWER_PENDING \<Longrightarrow>
    voted a (fold (\<lambda>g. om_put g LFG_ANSWER_PENDING) gs V) \<subseteq> voted a V"
proof (induction gs arbitrary: V)
  case (Cons g gs)
  then show ?case using Cons.IH [of "om_put g LFG_ANSWER_PENDING V"] by (auto simp: voted_put split: if_splits)
qed simp

lemma InitBoot_opens:
  assumes m: "map_of (lm_BootsStore m) gg = None" "om_ok (lm_BootsStore m)"
    and v: "kicker \<in> set (LFGMgr_GetPlayers gg m)" "victim \<in> set (LFGMgr_GetPlayers gg m)" "kicker \<noteq> victim"
  shows "kick_rel gg victim (set (LFGMgr_GetPlayers gg m)) (LFGMgr_GetKicksLeft gg m) (kicked m)
      (KickOpen {kicker} {victim}) (LFGMgr_InitBoot w gg kicker victim reason m)"
    and "lm_PlayersStore (LFGMgr_InitBoot w gg kicker victim reason m) = lm_PlayersStore m"
proof -
  let ?ps = "LFGMgr_GetPlayers gg m"
  define votes where "votes = fold (\<lambda>g. om_put g LFG_ANSWER_PENDING) ?ps []"
  have votes: "om_ok votes" "fst ` set votes = set ?ps" "voted LFG_ANSWER_AGREE votes = {}" "voted LFG_ANSWER_DENY votes = {}"
    using pending_votes [of "[]" ?ps] pending_voted [of "[]" _ ?ps] unfolding votes_def by (auto simp: voted_def [of _ "[]"])
  define boot where "boot = LfgPlayerBoot_init\<lparr>bt_inProgress := True, bt_cancelTime := lw_time w + LFG_TIME_BOOT, bt_reason := reason,
    bt_victim := victim, bt_votes := om_put kicker LFG_ANSWER_AGREE (om_put victim LFG_ANSWER_DENY votes)\<rparr>"
  define m1 where "m1 = LFGMgr_SetVoteKick gg True m"
  have m1: "LFGMgr_GetPlayers gg m1 = ?ps" "lm_BootsStore m1 = lm_BootsStore m"
    by (simp_all add: m1_def LFGMgr_GetPlayers_def LfgGroupData_SetVoteKick_def)
  have init: "LFGMgr_InitBoot w gg kicker victim reason m =
      fold (\<lambda>g. SendLfgBootProposalUpdate w g boot) ?ps (m1\<lparr>lm_BootsStore := om_put gg boot (lm_BootsStore m)\<rparr>)"
    unfolding LFGMgr_InitBoot_def Let_def m1_def [symmetric] m1 m(1) option.case
    by (simp add: boot_def votes_def LfgPlayerBoot_init_def)
  have same: "h (fold (\<lambda>g. SendLfgBootProposalUpdate w g boot) gs s) = h s"
    if "\<And>g s. h (SendLfgBootProposalUpdate w g boot s) = h s" for h :: "LFGMgr \<Rightarrow> 'a" and gs s
    by (rule fold_same) (rule that)
  show "lm_PlayersStore (LFGMgr_InitBoot w gg kicker victim reason m) = lm_PlayersStore m"
    unfolding init by (simp add: fold_same [where h = lm_PlayersStore] m1_def)
  have b: "bt_victim boot = victim" "om_ok (bt_votes boot)" "fst ` set (bt_votes boot) = set ?ps"
      "voted LFG_ANSWER_AGREE (bt_votes boot) = {kicker}" "voted LFG_ANSWER_DENY (bt_votes boot) = {victim}"
    using votes v by (auto simp: boot_def voted_put)
  show "kick_rel gg victim (set ?ps) (LFGMgr_GetKicksLeft gg m) (kicked m) (KickOpen {kicker} {victim})
      (LFGMgr_InitBoot w gg kicker victim reason m)"
    unfolding init using b
    by (simp add: fold_same [where h = lm_BootsStore] fold_same [where h = lm_GroupsStore] fold_same [where h = kicked]
        LFGMgr_IsVoteKickActive_def LFGMgr_GetKicksLeft_def m1_def LfgGroupData_SetVoteKick_def LFG_GROUP_KICK_VOTES_NEEDED_def)
qed

lemma UpdateBoots_refine:
  assumes "kick_rel gg victim voters k K v m" "\<not> ObjectGuid_IsEmpty gg" "card voters < 256" "lw_group_exists w gg"
    and "\<forall>(g, a) \<in> set vs. g \<in> voters \<and> LFGMgr_GetGroup g m = gg"
  shows "kick_rel gg victim voters k K (fold kick_step vs v) (fold (\<lambda>(g, a). LFGMgr_UpdateBoot w g a) vs m)"
  using assms(1, 5)
proof (induction vs arbitrary: v m)
  case (Cons x vs)
  obtain g a where x: "x = (g, a)" by force
  have "kick_rel gg victim voters k K (kick_step (g, a) v) (LFGMgr_UpdateBoot w g a m)"
    using Cons.prems assms(2-4) by (intro UpdateBoot_refines) (auto simp: x)
  moreover have "\<forall>(h, b) \<in> set vs. h \<in> voters \<and> LFGMgr_GetGroup h (LFGMgr_UpdateBoot w g a m) = gg"
    using Cons.prems(2) by (simp add: LFGMgr_GetGroup_def)
  ultimately show ?case using Cons.IH [of "kick_step (g, a) v" "LFGMgr_UpdateBoot w g a m"] by (simp add: x)
qed simp

text \<open>C7: a vote to kick, once opened, comes to what the players' first votes come to: the kicker counts as a yes
  and the victim as a no, nobody votes twice; the third yes has the victim kicked, once, and takes one of the
  kicks the group has left; the third no ends the vote without that; until then the vote stays open.\<close>

theorem kick_vote_refines:
  assumes "map_of (lm_BootsStore m) gg = None" "om_ok (lm_BootsStore m)" "\<not> ObjectGuid_IsEmpty gg" "lw_group_exists w gg"
    and "kicker \<in> set (LFGMgr_GetPlayers gg m)" "victim \<in> set (LFGMgr_GetPlayers gg m)" "kicker \<noteq> victim"
    and "card (set (LFGMgr_GetPlayers gg m)) < 256"
    and "list_all (\<lambda>(g, a). g \<in> set (LFGMgr_GetPlayers gg m) \<and> LFGMgr_GetGroup g m = gg) vs"
  shows "kick_rel gg victim (set (LFGMgr_GetPlayers gg m)) (LFGMgr_GetKicksLeft gg m) (kicked m)
    (fold kick_step vs (KickOpen {kicker} {victim}))
    (fold (\<lambda>(g, a). LFGMgr_UpdateBoot w g a) vs (LFGMgr_InitBoot w gg kicker victim reason m))"
  using InitBoot_opens [of m gg kicker victim w reason] assms
  by (intro UpdateBoots_refine) (auto simp: list_all_iff LFGMgr_GetGroup_def)

definition vote_party :: ObjectGuid where "vote_party = ObjectGuid 9 0x6C00000000000000"

definition vote_mgr :: LFGMgr where
  "vote_mgr = (LFGMgr_init 1)\<lparr>
     lm_GroupsStore := (\<lambda>g. LfgGroupData_init\<lparr>gd_Players := map (\<lambda>n. ObjectGuid n 1) [1, 2, 3, 4]\<rparr>),
     lm_PlayersStore := (\<lambda>g. LfgPlayerData_init\<lparr>pd_Group := vote_party\<rparr>)\<rparr>"

definition vote_world :: LfgWorld where
  "vote_world = \<lparr>lw_time = 1000, lw_draw = (\<lambda>n. n), lw_connected = (\<lambda>g. False), lw_ignores = (\<lambda>g h. False),
     lw_in_world = (\<lambda>g. False), lw_in_dungeon = (\<lambda>g. False), lw_group_exists = (\<lambda>g. True)\<rparr>"

theorem kick_vote_refines_witness:
  "kick_rel vote_party (ObjectGuid 2 1) {ObjectGuid 1 1, ObjectGuid 2 1, ObjectGuid 3 1, ObjectGuid 4 1} 3 [] KickPassed
    (fold (\<lambda>(g, a). LFGMgr_UpdateBoot vote_world g a)
      [(ObjectGuid 3 1, True), (ObjectGuid 3 1, False), (ObjectGuid 1 1, False), (ObjectGuid 4 1, True)]
      (LFGMgr_InitBoot vote_world vote_party (ObjectGuid 1 1) (ObjectGuid 2 1) ''afk'' vote_mgr))"
proof -
  let ?vs = "[(ObjectGuid 3 1, True), (ObjectGuid 3 1, False), (ObjectGuid 1 1, False), (ObjectGuid 4 1, True)]"
  have v: "fold kick_step ?vs (KickOpen {ObjectGuid 1 1} {ObjectGuid 2 1}) = KickPassed"
    by (simp add: LFG_GROUP_KICK_VOTES_NEEDED_def)
  have p: "set (LFGMgr_GetPlayers vote_party vote_mgr) = {ObjectGuid 1 1, ObjectGuid 2 1, ObjectGuid 3 1, ObjectGuid 4 1}"
    and k: "LFGMgr_GetKicksLeft vote_party vote_mgr = 3" "kicked vote_mgr = []"
    by (simp_all add: vote_mgr_def LFGMgr_GetPlayers_def LFGMgr_GetKicksLeft_def LfgGroupData_init_def
        LFG_GROUP_MAX_KICKS_def kicked_def LFGMgr_init_def)
  have "list_all (\<lambda>(g, a). g \<in> set (LFGMgr_GetPlayers vote_party vote_mgr) \<and> LFGMgr_GetGroup g vote_mgr = vote_party) ?vs"
    by (simp add: p LFGMgr_GetGroup_def) (simp add: vote_mgr_def)
  then show ?thesis
    using kick_vote_refines [of vote_mgr vote_party vote_world "ObjectGuid 1 1" "ObjectGuid 2 1" ?vs "''afk''"] v
    unfolding p k by (simp add: vote_mgr_def LFGMgr_init_def vote_world_def vote_party_def ObjectGuid_IsEmpty_def)
qed

subsection \<open>A refused proposal\<close>

text \<open>The entries that go: those of a player who said no, or, when the time is up, has not said yes.\<close>

definition refused :: "LfgUpdateType \<Rightarrow> LfgProposal \<Rightarrow> ObjectGuid set" where
  "refused t p = {pp_entry g d | g d. (g, d) \<in> set (pr_players p) \<and>
     (pp_accept d = LFG_ANSWER_DENY \<or> t = LFG_UPDATETYPE_PROPOSAL_FAILED \<and> pp_accept d = LFG_ANSWER_PENDING)}"

lemma set_rp_toRemove: "set (rp_toRemove t p) = refused t p"
proof -
  have r: "rp_refuses t (rp_unanswered t d) \<longleftrightarrow> pp_accept d = LFG_ANSWER_DENY \<or>
      t = LFG_UPDATETYPE_PROPOSAL_FAILED \<and> pp_accept d = LFG_ANSWER_PENDING" for d
    by (cases "pp_accept d") (auto simp: rp_refuses_def rp_unanswered_def)
  have "set (fold (\<lambda>(g, d). if P d then List.insort_insert (pp_entry g d) else id) xs A) =
      set A \<union> {pp_entry g d | g d. (g, d) \<in> set xs \<and> P d}" for P xs and A :: "ObjectGuid list"
  proof (induction xs arbitrary: A)
    case (Cons x xs)
    obtain g d where "x = (g, d)" by force
    then show ?case by (cases "P d") (simp_all add: Cons.IH set_insort_insert, blast+)
  qed simp
  from this [of "\<lambda>d. rp_refuses t (rp_unanswered t d)" "pr_players p" "[]"] show ?thesis
    by (simp add: rp_toRemove_def refused_def r)
qed

lemma pp_entry_marked: "map (\<lambda>(g, d). (g, pp_group d)) (pr_players (rp_marked t p)) = map (\<lambda>(g, d). (g, pp_group d)) (pr_players p)"
  by (simp add: rp_marked_def rp_unanswered_def Let_def comp_def case_prod_beta)

text \<open>The states of the players and their groups, told in the order of the players.\<close>

definition player_entry_ok :: "ObjectGuid \<times> LfgProposalPlayer \<Rightarrow> bool" where
  "player_entry_ok = (\<lambda>(g, d). \<not> ObjectGuid_IsParty g \<and> (ObjectGuid_IsEmpty (pp_group d) \<or> ObjectGuid_IsParty (pp_group d)))"

definition touches :: "ObjectGuid \<times> LfgProposalPlayer \<Rightarrow> ObjectGuid set" where
  "touches = (\<lambda>(g, d). if ObjectGuid_IsEmpty (pp_group d) then {g} else {g, pp_group d})"

lemma state_simps [simp]:
  "LFGMgr_GetOldState h (LFGMgr_SetState g LFG_STATE_QUEUED m) = LFGMgr_GetOldState h m"
  "LFGMgr_GetOldState h (LFGMgr_RestoreState g m) = LFGMgr_GetOldState h m"
  "LFGMgr_GetState h (LFGMgr_SetState g st m) = (if h = g then st else LFGMgr_GetState h m)"
  "LFGMgr_GetState h (LFGMgr_RestoreState g m) = (if h = g then LFGMgr_GetOldState g m else LFGMgr_GetState h m)"
  by (auto simp: LFGMgr_GetOldState_def LFGMgr_GetState_def LFGMgr_SetState_def LFGMgr_RestoreState_def
      LFGMgr_group_def LFGMgr_player_def LfgGroupData_SetState_def LfgPlayerData_SetState_def Let_def
      LfgGroupData_RestoreState_def LfgPlayerData_RestoreState_def)

lemma sent_states [simp]:
  "LFGMgr_GetState h (SendLfgUpdateProposal w g p m) = LFGMgr_GetState h m"
  "LFGMgr_GetOldState h (SendLfgUpdateProposal w g p m) = LFGMgr_GetOldState h m"
  "LFGMgr_GetState h (SendLfgUpdateStatus w g ud b m) = LFGMgr_GetState h m"
  "LFGMgr_GetOldState h (SendLfgUpdateStatus w g ud b m) = LFGMgr_GetOldState h m"
  by (simp_all add: SendLfgUpdateProposal_def SendLfgUpdateStatus_def LFGMgr_send_def LFGMgr_GetState_def LFGMgr_GetOldState_def)

lemma rp_notify_states:
  assumes "player_entry_ok x"
  shows "LFGMgr_GetOldState h (rp_notify w t p R x m) = LFGMgr_GetOldState h m"
    and "LFGMgr_GetState h (rp_notify w t p R x m) =
      (if h \<in> touches x then (if pp_entry (fst x) (snd x) \<in> set R then LFGMgr_GetOldState h m else LFG_STATE_QUEUED)
       else LFGMgr_GetState h m)"
proof -
  obtain g d where [simp]: "x = (g, d)" by force
  have "pp_group d \<noteq> g" if "\<not> ObjectGuid_IsEmpty (pp_group d)" using assms that by (auto simp: player_entry_ok_def)
  then show "LFGMgr_GetOldState h (rp_notify w t p R x m) = LFGMgr_GetOldState h m"
    and "LFGMgr_GetState h (rp_notify w t p R x m) =
      (if h \<in> touches x then (if pp_entry (fst x) (snd x) \<in> set R then LFGMgr_GetOldState h m else LFG_STATE_QUEUED)
       else LFGMgr_GetState h m)"
    by (auto simp: rp_notify_def Let_def pp_entry_def touches_def)
qed

lemma rp_notifies_states:
  assumes "list_all player_entry_ok xs"
  shows "LFGMgr_GetOldState h (fold (rp_notify w t p R) xs m) = LFGMgr_GetOldState h m"
    and "\<forall>x \<in> set xs. h \<in> touches x \<longrightarrow> (pp_entry (fst x) (snd x) \<in> set R \<longleftrightarrow> b) \<Longrightarrow>
      LFGMgr_GetState h (fold (rp_notify w t p R) xs m) =
        (if \<exists>x \<in> set xs. h \<in> touches x then (if b then LFGMgr_GetOldState h m else LFG_STATE_QUEUED) else LFGMgr_GetState h m)"
  using assms
proof (induction xs arbitrary: m)
  case (Cons x xs)
  { case 1 then show ?case using Cons.IH(1) by (simp add: rp_notify_states) }
  { case 2 then show ?case using Cons.IH(2) [of "rp_notify w t p R x m"] by (auto simp: rp_notify_states) }
qed simp_all

text \<open>The queue: the refusing entries leave it, the others come to its front, the last first.\<close>

lemma rp_queue_parts:
  shows "queue_view (rp_queue R gs q) = filter (\<lambda>(h, e). h \<notin> set R) (queue_view q)"
    and "lq_currentQueueStore (rp_queue R gs q) =
      rev (filter (\<lambda>h. h \<notin> set R \<and> h \<in> fst ` set (queue_view q)) gs) @ filter (\<lambda>h. h \<notin> set R) (lq_currentQueueStore q)"
proof -
  have view: "queue_view (fold LFGQueue_RemoveFromQueue R q) = filter (\<lambda>(h, e). h \<notin> set R) (queue_view q)" for R q
    by (induction R arbitrary: q) (simp_all add: view_RemoveFromQueue om_del_def case_prod_unfold conj_commute)
  have cur1: "lq_currentQueueStore (LFGQueue_RemoveFromQueue g q) = filter (\<lambda>h. h \<noteq> g) (lq_currentQueueStore q)" for g q
    by (simp add: LFGQueue_RemoveFromQueue_def Let_def LFGQueue_RemoveFromCompatibles_def LFGQueue_RemoveFromCurrentQueue_def
        LFGQueue_RemoveFromNewQueue_def removeAll_filter_not_eq eq_commute)
  have cur: "lq_currentQueueStore (fold LFGQueue_RemoveFromQueue R q) = filter (\<lambda>h. h \<notin> set R) (lq_currentQueueStore q)" for R q
    by (induction R arbitrary: q) (simp_all add: cur1 conj_commute)
  have known: "map_of (lq_QueueDataStore q) h \<noteq> None \<longleftrightarrow> h \<in> fst ` set (queue_view q)" for h q
    using view_keys [of q] by (simp add: map_of_eq_None_iff) (metis list.set_map)
  have one: "lq_currentQueueStore (LFGQueue_AddToQueue g True q) =
      (if g \<in> fst ` set (queue_view q) then g # lq_currentQueueStore q else lq_currentQueueStore q)"
    "queue_view (LFGQueue_AddToQueue g True q) = queue_view q" for g q
    using known [of q g] view_lists(4) [of g q]
    by (auto simp: LFGQueue_AddToQueue_def LFGQueue_AddToFrontCurrentQueue_def)
  have add: "queue_view (fold (\<lambda>g. LFGQueue_AddToQueue g True) gs q) = queue_view q \<and>
      lq_currentQueueStore (fold (\<lambda>g. LFGQueue_AddToQueue g True) gs q) =
        rev (filter (\<lambda>h. h \<in> fst ` set (queue_view q)) gs) @ lq_currentQueueStore q" for gs q
    by (induction gs arbitrary: q) (simp_all add: one)
  show "queue_view (rp_queue R gs q) = filter (\<lambda>(h, e). h \<notin> set R) (queue_view q)"
    by (simp add: rp_queue_def add view)
  have "h \<in> fst ` set (filter (\<lambda>(h, e). h \<notin> set R) (queue_view q)) \<longleftrightarrow> h \<notin> set R \<and> h \<in> fst ` set (queue_view q)" for h
    by force
  then show "lq_currentQueueStore (rp_queue R gs q) =
      rev (filter (\<lambda>h. h \<notin> set R \<and> h \<in> fst ` set (queue_view q)) gs) @ filter (\<lambda>h. h \<notin> set R) (lq_currentQueueStore q)"
    by (simp add: rp_queue_def add view cur)
qed

lemma rp_notify_parts [simp]:
  "lm_QueuesStore (rp_notify w t p R x m) = lm_QueuesStore m"
  "lm_ProposalsStore (rp_notify w t p R x m) = lm_ProposalsStore m"
  "LFGMgr_GetTeam h (rp_notify w t p R x m) = LFGMgr_GetTeam h m"
  by (auto simp: rp_notify_def Let_def SendLfgUpdateProposal_def SendLfgUpdateStatus_def LFGMgr_send_def LFGMgr_GetTeam_def
      LFGMgr_SetState_def LFGMgr_RestoreState_def LFGMgr_group_def LFGMgr_player_def LfgPlayerData_SetState_def
      LfgPlayerData_RestoreState_def split: prod.split)

lemma on_queue_simps [simp]:
  "LFGMgr_queue i (LFGMgr_on_queue i f m) = f (LFGMgr_queue i m)"
  "LFGMgr_GetState h (LFGMgr_on_queue i f m) = LFGMgr_GetState h m"
  "lm_ProposalsStore (LFGMgr_on_queue i f m) = lm_ProposalsStore m"
  by (simp_all add: LFGMgr_queue_def LFGMgr_on_queue_def LFGMgr_GetState_def)

text \<open>A player has its own entry among the players; a group has one for all of its players.\<close>

lemma touches_same_entry:
  assumes "list_all player_entry_ok xs" "distinct (map fst xs)" "x \<in> set xs" "y \<in> set xs" "h \<in> touches x" "h \<in> touches y"
  shows "pp_entry (fst x) (snd x) = pp_entry (fst y) (snd y)"
proof -
  obtain g d g' d' where [simp]: "x = (g, d)" "y = (g', d')" by (metis surj_pair)
  have ok: "player_entry_ok (g, d)" "player_entry_ok (g', d')" using assms(1,3,4) by (auto simp: list_all_iff)
  have "d = d'" if "g = g'" using that assms(2-4) eq_key_imp_eq_value [of xs g d d'] by simp
  then show ?thesis
    using ok assms(5,6) by (auto simp: touches_def player_entry_ok_def pp_entry_def split: if_splits)
qed

lemma RemoveProposal_parts:
  fixes m :: LFGMgr
  assumes p: "map_of (lm_ProposalsStore m) i = Some p" "pr_players p \<noteq> []" "distinct (map fst (pr_players p))"
    and ok: "list_all player_entry_ok (pr_players p)"
    and qid: "qid = LFGMgr_GetTeam (fst (hd (pr_players p))) m"
    and m': "m' = LFGMgr_RemoveProposal w i t m"
  shows "lm_ProposalsStore m' = om_del i (lm_ProposalsStore m)"
    and "queue_view (LFGMgr_queue qid m') = filter (\<lambda>(h, e). h \<notin> refused t p) (queue_view (LFGMgr_queue qid m))"
    and "lq_currentQueueStore (LFGMgr_queue qid m') =
      rev (filter (\<lambda>h. h \<notin> refused t p \<and> h \<in> fst ` set (queue_view (LFGMgr_queue qid m))) (pr_queues p)) @
      filter (\<lambda>h. h \<notin> refused t p) (lq_currentQueueStore (LFGMgr_queue qid m))"
    and "(g, d) \<in> set (pr_players p) \<Longrightarrow> h \<in> touches (g, d) \<Longrightarrow>
      LFGMgr_GetState h m' = (if pp_entry g d \<in> refused t p then LFGMgr_GetOldState h m else LFG_STATE_QUEUED)"
proof -
  define P where "P = pr_players (rp_marked t p)"
  define R where "R = rp_toRemove t p"
  define m1 where "m1 = fold (rp_notify w t (rp_marked t p) R) P m"
  have P: "P = map (\<lambda>(g, d). (g, d\<lparr>pp_accept := pp_accept (let d1 = rp_unanswered t d in
      if rp_refuses t d1 then d1\<lparr>pp_accept := LFG_ANSWER_DENY\<rparr> else d1)\<rparr>)) (pr_players p)"
    by (auto simp: P_def rp_marked_def rp_unanswered_def Let_def)
  have hd: "fst (hd P) = fst (hd (pr_players p))" using p(2) by (cases "pr_players p") (auto simp: P)
  have okP: "list_all player_entry_ok P" using ok by (auto simp: P list_all_iff player_entry_ok_def)
  have dP: "distinct (map fst P)" using p(3) by (simp add: P comp_def case_prod_beta)
  have m1: "lm_QueuesStore m1 = lm_QueuesStore m" "lm_ProposalsStore m1 = lm_ProposalsStore m"
    "LFGMgr_GetTeam h m1 = LFGMgr_GetTeam h m" for h
    unfolding m1_def by (rule fold_same [where h = lm_QueuesStore] fold_same [where h = lm_ProposalsStore]
        fold_same [where h = "LFGMgr_GetTeam h"]; simp)+
  have "\<not> ObjectGuid_IsParty (fst (hd (pr_players p)))"
    using ok p(2) by (cases "pr_players p") (auto simp: player_entry_ok_def)
  then have id: "LFGMgr_GetQueueId (fst (hd P)) m1 = qid" by (simp add: LFGMgr_GetQueueId_def Let_def hd m1 qid)
  have q1: "LFGMgr_queue qid m1 = LFGMgr_queue qid m" by (simp add: LFGMgr_queue_def m1)
  have queues: "pr_queues (rp_marked t p) = pr_queues p" by (simp add: rp_marked_def)
  have step: "m' = (let m2 = LFGMgr_on_queue qid (rp_queue R (pr_queues p)) m1 in m2\<lparr>lm_ProposalsStore := om_del i (lm_ProposalsStore m2)\<rparr>)"
    unfolding m' LFGMgr_RemoveProposal_def p(1) option.case Let_def P_def [symmetric] R_def [symmetric] m1_def [symmetric] id queues ..
  have q': "LFGMgr_queue qid m' = rp_queue R (pr_queues p) (LFGMgr_queue qid m)"
    unfolding step Let_def using q1 by (simp add: LFGMgr_queue_def LFGMgr_on_queue_def)
  show "lm_ProposalsStore m' = om_del i (lm_ProposalsStore m)" by (simp add: step Let_def m1)
  show "queue_view (LFGMgr_queue qid m') = filter (\<lambda>(h, e). h \<notin> refused t p) (queue_view (LFGMgr_queue qid m))"
    unfolding q' rp_queue_parts R_def set_rp_toRemove ..
  show "lq_currentQueueStore (LFGMgr_queue qid m') =
      rev (filter (\<lambda>h. h \<notin> refused t p \<and> h \<in> fst ` set (queue_view (LFGMgr_queue qid m))) (pr_queues p)) @
      filter (\<lambda>h. h \<notin> refused t p) (lq_currentQueueStore (LFGMgr_queue qid m))"
    unfolding q' rp_queue_parts R_def set_rp_toRemove ..
  assume gd: "(g, d) \<in> set (pr_players p)" and h: "h \<in> touches (g, d)"
  then obtain d' where d': "(g, d') \<in> set P" "pp_group d' = pp_group d" by (force simp: P)
  then have t': "h \<in> touches (g, d')" "pp_entry g d' = pp_entry g d" using h d'(2) unfolding touches_def pp_entry_def by auto
  have "\<forall>x \<in> set P. h \<in> touches x \<longrightarrow> (pp_entry (fst x) (snd x) \<in> set R \<longleftrightarrow> pp_entry g d \<in> refused t p)"
    using touches_same_entry [OF okP dP d'(1) _ t'(1)] t'(2) by (auto simp: R_def set_rp_toRemove)
  from rp_notifies_states(2) [OF okP this, of w t "rp_marked t p" m] d'(1) t'(1)
  have "LFGMgr_GetState h m1 = (if pp_entry g d \<in> refused t p then LFGMgr_GetOldState h m else LFG_STATE_QUEUED)"
    unfolding m1_def by auto
  moreover have "LFGMgr_GetState h m' = LFGMgr_GetState h m1"
    by (simp add: step Let_def LFGMgr_GetState_def LFGMgr_on_queue_def)
  ultimately show "LFGMgr_GetState h m' = (if pp_entry g d \<in> refused t p then LFGMgr_GetOldState h m else LFG_STATE_QUEUED)"
    by simp
qed

text \<open>C11: when a proposal (of different players, each its own entry or with one of a party) is refused or runs out of
  time it is erased and no other proposal changes. The entries of those who said no (or, when the time is up, did not
  answer) leave the queue and its lists; all other entries stay with their roles, dungeons and join times, those of
  the proposal at the front of the current queue. The players and groups of the refusing entries are back in the state
  they were in before they queued, those of the others wait in the queue again.\<close>

theorem RemoveProposal_requeues:
  assumes "map_of (lm_ProposalsStore m) i = Some p" "pr_players p \<noteq> []" "distinct (map fst (pr_players p))"
    and "list_all player_entry_ok (pr_players p)"
    and "qid = LFGMgr_GetTeam (fst (hd (pr_players p))) m"
    and "m' = LFGMgr_RemoveProposal w i t m"
  shows "lm_ProposalsStore m' = om_del i (lm_ProposalsStore m) \<and>
    queue_view (LFGMgr_queue qid m') = filter (\<lambda>(h, e). h \<notin> refused t p) (queue_view (LFGMgr_queue qid m)) \<and>
    lq_currentQueueStore (LFGMgr_queue qid m') =
      rev (filter (\<lambda>h. h \<notin> refused t p \<and> h \<in> fst ` set (queue_view (LFGMgr_queue qid m))) (pr_queues p)) @
      filter (\<lambda>h. h \<notin> refused t p) (lq_currentQueueStore (LFGMgr_queue qid m)) \<and>
    (\<forall>(g, d) \<in> set (pr_players p). \<forall>h \<in> touches (g, d).
      LFGMgr_GetState h m' = (if pp_entry g d \<in> refused t p then LFGMgr_GetOldState h m else LFG_STATE_QUEUED))"
  using RemoveProposal_parts [OF assms] by blast

text \<open>A group of two whose second player said no, and a player who said yes.\<close>

definition vote_proposal :: LfgProposal where
  "vote_proposal = (LfgProposal_init 5)\<lparr>pr_id := 2, pr_queues := [vote_party, ObjectGuid 3 1],
     pr_players := [(ObjectGuid 1 1, \<lparr>pp_role = 2, pp_accept = LFG_ANSWER_PENDING, pp_group = vote_party\<rparr>),
       (ObjectGuid 2 1, \<lparr>pp_role = 8, pp_accept = LFG_ANSWER_DENY, pp_group = vote_party\<rparr>),
       (ObjectGuid 3 1, \<lparr>pp_role = 4, pp_accept = LFG_ANSWER_AGREE, pp_group = ObjectGuid_Empty\<rparr>)]\<rparr>"

definition proposal_mgr :: LFGMgr where
  "proposal_mgr = (LFGMgr_init 1)\<lparr>lm_ProposalsStore := [(2, vote_proposal)],
     lm_QueuesStore := [(0, LFGQueue_init\<lparr>lq_currentQueueStore := [ObjectGuid 8 1],
       lq_QueueDataStore := [(ObjectGuid 3 1, LfgQueueData_init 0 [5] [(ObjectGuid 3 1, 4)]),
         (ObjectGuid 8 1, LfgQueueData_init 0 [5] [(ObjectGuid 8 1, 8)]),
         (vote_party, LfgQueueData_init 0 [5] [(ObjectGuid 1 1, 2), (ObjectGuid 2 1, 8)])]\<rparr>)]\<rparr>"

lemma vote_proposal_refused: "refused LFG_UPDATETYPE_PROPOSAL_DECLINED vote_proposal = {vote_party}"
  unfolding set_rp_toRemove [symmetric] by code_simp

theorem RemoveProposal_requeues_witness:
  "lm_ProposalsStore (LFGMgr_RemoveProposal vote_world 2 LFG_UPDATETYPE_PROPOSAL_DECLINED proposal_mgr) = [] \<and>
   map fst (queue_view (LFGMgr_queue 0 (LFGMgr_RemoveProposal vote_world 2 LFG_UPDATETYPE_PROPOSAL_DECLINED proposal_mgr))) =
     [ObjectGuid 3 1, ObjectGuid 8 1] \<and>
   lq_currentQueueStore (LFGMgr_queue 0 (LFGMgr_RemoveProposal vote_world 2 LFG_UPDATETYPE_PROPOSAL_DECLINED proposal_mgr)) =
     [ObjectGuid 3 1, ObjectGuid 8 1] \<and>
   LFGMgr_GetState (ObjectGuid 3 1) (LFGMgr_RemoveProposal vote_world 2 LFG_UPDATETYPE_PROPOSAL_DECLINED proposal_mgr) = LFG_STATE_QUEUED"
proof -
  let ?m' = "LFGMgr_RemoveProposal vote_world 2 LFG_UPDATETYPE_PROPOSAL_DECLINED proposal_mgr"
  have P: "map_of (lm_ProposalsStore proposal_mgr) 2 = Some vote_proposal" "pr_players vote_proposal \<noteq> []"
    "distinct (map fst (pr_players vote_proposal))" "0 = LFGMgr_GetTeam (fst (hd (pr_players vote_proposal))) proposal_mgr"
    by (simp_all add: proposal_mgr_def vote_proposal_def LFGMgr_GetTeam_def LFGMgr_init_def
        LfgPlayerData_init_def ObjectGuid_IsEmpty_def ObjectGuid_Empty_def)
  have Q: "list_all player_entry_ok (pr_players vote_proposal)" by code_simp
  from RemoveProposal_requeues [OF P(1-3) Q P(4) refl, of vote_world LFG_UPDATETYPE_PROPOSAL_DECLINED]
  have r: "lm_ProposalsStore ?m' = om_del 2 (lm_ProposalsStore proposal_mgr)"
    "queue_view (LFGMgr_queue 0 ?m') = filter (\<lambda>(h, e). h \<notin> {vote_party}) (queue_view (LFGMgr_queue 0 proposal_mgr))"
    "lq_currentQueueStore (LFGMgr_queue 0 ?m') =
      rev (filter (\<lambda>h. h \<notin> {vote_party} \<and> h \<in> fst ` set (queue_view (LFGMgr_queue 0 proposal_mgr))) (pr_queues vote_proposal)) @
      filter (\<lambda>h. h \<notin> {vote_party}) (lq_currentQueueStore (LFGMgr_queue 0 proposal_mgr))"
    "\<forall>(g, d) \<in> set (pr_players vote_proposal). \<forall>h \<in> touches (g, d).
      LFGMgr_GetState h ?m' = (if pp_entry g d \<in> {vote_party} then LFGMgr_GetOldState h proposal_mgr else LFG_STATE_QUEUED)"
    unfolding vote_proposal_refused by blast+
  have "LFGMgr_GetState (ObjectGuid 3 1) ?m' = LFG_STATE_QUEUED"
    using r(4) by (simp add: vote_proposal_def touches_def pp_entry_def ObjectGuid_IsEmpty_def ObjectGuid_Empty_def vote_party_def)
  then show ?thesis
    using r(1-3) by (simp add: proposal_mgr_def LFGMgr_queue_def queue_view_def vote_proposal_def vote_party_def om_del_def LFGMgr_init_def)
qed

end
