(* ===== verification/LFGInvariant.thy ===== *)
theory LFGInvariant
  imports LFGScripts
begin

section \<open>Dungeon finder: groups are only made of five players who agreed\<close>

text \<open>
  The invariant of the whole finder. Every queue holds entries that can take part in a group (\<open>queue_ok\<close>), every
  role check is open and for some dungeon, every proposal names five different players with one tank, one healer
  and three damage dealers, and every group made had such a proposal that all its players agreed to. It is kept
  by every operation of the manager, every listener and every handler, the steps of \<open>lfg_step\<close>.
  It reads only the queues, role checks, proposals and the groups made, the \<open>lfg_core\<close> of the manager;
  most operations leave that as it is.
\<close>

definition made_groups :: "LFGMgr \<Rightarrow> LfgProposal list" where
  "made_groups m = concat (map (\<lambda>e. case e of MakeGroup p \<Rightarrow> [p] | _ \<Rightarrow> []) (lm_sent m))"

definition full_group :: "LfgProposal \<Rightarrow> bool" where
  "full_group p \<longleftrightarrow> length (pr_players p) = MAX_GROUP_SIZE \<and> distinct (map fst (pr_players p)) \<and>
     role_count PLAYER_ROLE_TANK (proposal_roles p) = LFG_TANKS_NEEDED \<and>
     role_count PLAYER_ROLE_HEALER (proposal_roles p) = LFG_HEALERS_NEEDED \<and>
     role_count PLAYER_ROLE_DAMAGE (proposal_roles p) = LFG_DPS_NEEDED"

definition all_agree :: "LfgProposal \<Rightarrow> bool" where
  "all_agree p \<longleftrightarrow> list_all (\<lambda>(g, d). pp_accept d = LFG_ANSWER_AGREE) (pr_players p)"

definition check_ok :: "LfgRoleCheck \<Rightarrow> bool" where
  "check_ok rc \<longleftrightarrow> rc_state rc = LFG_ROLECHECK_INITIALITING \<and> om_ok (rc_roles rc) \<and> rc_dungeons rc \<noteq> []"

definition lfg_core :: "LFGMgr \<Rightarrow> (u8 \<times> LFGQueue) list \<times> (ObjectGuid \<times> LfgRoleCheck) list
    \<times> (u32 \<times> LfgProposal) list \<times> LfgProposal list" where
  "lfg_core m = (lm_QueuesStore m, lm_RoleChecksStore m, lm_ProposalsStore m, made_groups m)"

text \<open>\<open>lfg_ok_but gs m\<close>: nothing is asked of the role checks of the groups \<open>gs\<close>, one of which is being decided.\<close>

definition lfg_ok_but :: "ObjectGuid set \<Rightarrow> LFGMgr \<Rightarrow> bool" where
  "lfg_ok_but gs m \<longleftrightarrow> (case lfg_core m of (Q, C, P, G) \<Rightarrow>
     (\<forall>q \<in> snd ` set Q. queue_ok q) \<and> (\<forall>(g, rc) \<in> set C. g \<notin> gs \<longrightarrow> check_ok rc) \<and>
     (\<forall>p \<in> snd ` set P. full_group p) \<and> (\<forall>p \<in> set G. full_group p \<and> all_agree p))"

abbreviation lfg_ok :: "LFGMgr \<Rightarrow> bool" where "lfg_ok \<equiv> lfg_ok_but {}"

subsection \<open>What leaves the core as it is\<close>

named_theorems core_simps

lemma core_eq: "lfg_core m' = lfg_core m \<longleftrightarrow> lm_QueuesStore m' = lm_QueuesStore m \<and>
    lm_RoleChecksStore m' = lm_RoleChecksStore m \<and> lm_ProposalsStore m' = lm_ProposalsStore m \<and> made_groups m' = made_groups m"
  by (simp add: lfg_core_def)

lemma ok_core: "lfg_core m' = lfg_core m \<Longrightarrow> lfg_ok_but gs m' = lfg_ok_but gs m"
  by (simp add: lfg_ok_but_def)

lemma core_fold: "(\<And>x m. lfg_core (f x m) = lfg_core m) \<Longrightarrow> lfg_core (fold f xs m) = lfg_core m"
  by (induction xs arbitrary: m) simp_all

lemma ok_fold: "(\<And>x m. P m \<Longrightarrow> P (f x m)) \<Longrightarrow> P m \<Longrightarrow> P (fold f xs m)"
  by (induction xs arbitrary: m) simp_all

lemma made_groups_fields [core_simps]:
  "made_groups (m\<lparr>lm_QueuesStore := a\<rparr>) = made_groups m"
  "made_groups (m\<lparr>lm_RoleChecksStore := b\<rparr>) = made_groups m"
  "made_groups (m\<lparr>lm_ProposalsStore := c\<rparr>) = made_groups m"
  "made_groups (m\<lparr>lm_BootsStore := d\<rparr>) = made_groups m"
  "made_groups (m\<lparr>lm_QueueTimer := t\<rparr>) = made_groups m"
  "made_groups (m\<lparr>lm_sent := lm_sent m @ [e]\<rparr>) = made_groups m @ (case e of MakeGroup p \<Rightarrow> [p] | _ \<Rightarrow> [])"
  by (simp_all add: made_groups_def)

lemma core_data [core_simps]:
  "lfg_core (LFGMgr_player g f m) = lfg_core m"
  "lfg_core (LFGMgr_group g h m) = lfg_core m"
  by (simp_all add: lfg_core_def made_groups_def LFGMgr_player_def LFGMgr_group_def)

lemma core_access [core_simps]:
  "lfg_core (LFGMgr_SetState g st m) = lfg_core m"
  "lfg_core (LFGMgr_RestoreState g m) = lfg_core m"
  "lfg_core (LFGMgr_SetVoteKick g b m) = lfg_core m"
  "lfg_core (LFGMgr_SetDungeon g d m) = lfg_core m"
  "lfg_core (LFGMgr_SetRoles g r m) = lfg_core m"
  "lfg_core (LFGMgr_SetSelectedDungeons g ds m) = lfg_core m"
  "lfg_core (LFGMgr_SetTicket g tk m) = lfg_core m"
  "lfg_core (LFGMgr_DecreaseKicksLeft g m) = lfg_core m"
  "lfg_core (LFGMgr_SetTeam ts g tm m) = lfg_core m"
  "lfg_core (LFGMgr_SetGroup g h m) = lfg_core m"
  "lfg_core (LFGMgr_SetLeader g h m) = lfg_core m"
  "lfg_core (LFGMgr_AddPlayerToGroup g h m) = lfg_core m"
  "lfg_core (snd (LFGMgr_RemovePlayerFromGroup g h m)) = lfg_core m"
  "lfg_core (LFGMgr_SetupGroupMember g h m) = lfg_core m"
  by (simp_all add: LFGMgr_SetState_def LFGMgr_RestoreState_def LFGMgr_SetVoteKick_def LFGMgr_SetDungeon_def
      LFGMgr_SetRoles_def LFGMgr_SetSelectedDungeons_def LFGMgr_SetTicket_def LFGMgr_DecreaseKicksLeft_def
      LFGMgr_SetTeam_def LFGMgr_SetGroup_def LFGMgr_SetLeader_def LFGMgr_AddPlayerToGroup_def
      LFGMgr_RemovePlayerFromGroup_def LFGMgr_SetupGroupMember_def Let_def core_data split: prod.splits)

lemma core_send [core_simps]:
  "lfg_core (SendLfgRoleChosen w g h r m) = lfg_core m"
  "lfg_core (SendLfgRoleCheckUpdate w g rc m) = lfg_core m"
  "lfg_core (SendLfgUpdateStatus w g ud b m) = lfg_core m"
  "lfg_core (SendLfgJoinResult w g jr m) = lfg_core m"
  "lfg_core (SendLfgBootProposalUpdate w g bt m) = lfg_core m"
  "lfg_core (SendLfgUpdateProposal w g p m) = lfg_core m"
  "lfg_core (SendLfgQueueStatus w g qs m) = lfg_core m"
  by (simp_all add: SendLfgRoleChosen_def SendLfgRoleCheckUpdate_def SendLfgUpdateStatus_def SendLfgJoinResult_def
      SendLfgBootProposalUpdate_def SendLfgUpdateProposal_def SendLfgQueueStatus_def LFGMgr_send_def lfg_core_def made_groups_def)

lemma core_tell [core_simps]: "(case e of MakeGroup p \<Rightarrow> False | _ \<Rightarrow> True) \<Longrightarrow> lfg_core (lfg_tell e m) = lfg_core m"
  by (simp add: lfg_tell_def lfg_core_def made_groups_def split: lfg_event.splits)

lemma core_boots [core_simps]: "lfg_core (m\<lparr>lm_BootsStore := b\<rparr>) = lfg_core m"
  "lfg_core (m\<lparr>lm_QueueTimer := t\<rparr>) = lfg_core m"
  by (simp_all add: lfg_core_def core_simps)

subsection \<open>Queues\<close>

lemma queue_ok_iff: "queue_ok q \<longleftrightarrow> om_ok (queue_view q) \<and> list_all (\<lambda>(g, roles, dungeons, t). entry_ok roles dungeons) (queue_view q)"
  by (simp add: queue_ok_def om_ok_def view_keys)

lemma queue_ok_init: "queue_ok LFGQueue_init"
  by (simp add: queue_ok_iff queue_view_def LFGQueue_init_def)

lemma queue_ok_RemoveFromQueue: "queue_ok q \<Longrightarrow> queue_ok (LFGQueue_RemoveFromQueue g q)"
  by (auto simp: queue_ok_iff view_RemoveFromQueue list_all_iff)

lemma view_AddToQueue: "queue_view (LFGQueue_AddToQueue g b q) = queue_view q"
  by (simp add: LFGQueue_AddToQueue_def view_simps)

lemma queue_ok_AddToQueue: "queue_ok q \<Longrightarrow> queue_ok (LFGQueue_AddToQueue g b q)"
  using view_queue_ok [OF view_AddToQueue] by blast

lemma queue_ok_AddQueueData: "queue_ok q \<Longrightarrow> entry_ok roles ds \<Longrightarrow> queue_ok (LFGQueue_AddQueueData g t ds roles q)"
  unfolding LFGQueue_AddQueueData_def
  by (rule queue_ok_AddToQueue) (auto simp: queue_ok_def queue_view_def list_all_iff set_om_put LfgQueueData_init_def)

lemma queue_ok_upd: "queue_view q' = queue_view q \<Longrightarrow> queue_ok q \<Longrightarrow> queue_ok q'"
  using view_queue_ok by blast

lemma queue_ok_rp_queue: "queue_ok q \<Longrightarrow> queue_ok (rp_queue toRemove queues q)"
  unfolding rp_queue_def
  by (rule ok_fold, erule queue_ok_AddToQueue) (rule ok_fold, erule queue_ok_RemoveFromQueue)

lemma queue_ok_removes: "queue_ok q \<Longrightarrow> queue_ok (fold LFGQueue_RemoveFromQueue gs q)"
  by (rule ok_fold) (simp_all add: queue_ok_RemoveFromQueue)

lemma ball_om_put: "\<forall>x \<in> set m. P x \<Longrightarrow> P (k, v) \<Longrightarrow> \<forall>x \<in> set (om_put k v m). P x"
  using set_om_put_sub [of k v m] by blast

lemma ok_queue: "lfg_ok_but gs m \<Longrightarrow> queue_ok (LFGMgr_queue i m)"
  by (auto simp: lfg_ok_but_def lfg_core_def LFGMgr_queue_def queue_ok_init split: option.splits dest!: map_of_SomeD)

lemma ok_on_queue: "lfg_ok_but gs m \<Longrightarrow> (\<And>q. queue_ok q \<Longrightarrow> queue_ok (f q)) \<Longrightarrow> lfg_ok_but gs (LFGMgr_on_queue i f m)"
proof -
  assume m: "lfg_ok_but gs m" and f: "\<And>q. queue_ok q \<Longrightarrow> queue_ok (f q)"
  let ?q = "f (LFGMgr_queue i m)"
  have "queue_ok ?q" by (rule f [OF ok_queue [OF m]])
  then have "\<forall>x \<in> set (om_put i ?q (lm_QueuesStore m)). queue_ok (snd x)"
    using m by (intro ball_om_put) (simp_all add: lfg_ok_but_def lfg_core_def)
  then show ?thesis
    using m by (simp add: lfg_ok_but_def lfg_core_def LFGMgr_on_queue_def core_simps)
qed

lemma on_queue_parts [core_simps]:
  "lm_RoleChecksStore (LFGMgr_on_queue i f m) = lm_RoleChecksStore m"
  "lm_ProposalsStore (LFGMgr_on_queue i f m) = lm_ProposalsStore m"
  "made_groups (LFGMgr_on_queue i f m) = made_groups m"
  by (simp_all add: LFGMgr_on_queue_def core_simps)

subsection \<open>Role checks\<close>

lemma ok_put_check:
  assumes "lfg_ok_but gs m" "check_ok rc \<or> g \<in> gs'" "gs \<subseteq> gs'"
  shows "lfg_ok_but gs' (m\<lparr>lm_RoleChecksStore := om_put g rc (lm_RoleChecksStore m)\<rparr>)"
proof -
  have "\<forall>x \<in> set (om_put g rc (lm_RoleChecksStore m)). case x of (h, c) \<Rightarrow> h \<notin> gs' \<longrightarrow> check_ok c"
    using assms by (intro ball_om_put) (auto simp: lfg_ok_but_def lfg_core_def)
  then show ?thesis using assms(1) by (simp add: lfg_ok_but_def lfg_core_def core_simps)
qed

lemma ok_del_check: "lfg_ok_but {g} m \<Longrightarrow> lfg_ok (m\<lparr>lm_RoleChecksStore := om_del g (lm_RoleChecksStore m)\<rparr>)"
  by (auto simp: lfg_ok_but_def lfg_core_def core_simps)

lemma ok_weaken: "lfg_ok_but gs m \<Longrightarrow> gs \<subseteq> gs' \<Longrightarrow> lfg_ok_but gs' m"
  unfolding lfg_ok_but_def by (force split: prod.splits)

lemma ok_check: "lfg_ok m \<Longrightarrow> map_of (lm_RoleChecksStore m) g = Some rc \<Longrightarrow> check_ok rc"
  by (auto simp: lfg_ok_but_def lfg_core_def dest!: map_of_SomeD)

text \<open>A check that succeeds leaves an entry the queue can take; the length is the one a byte can count.\<close>

lemma rc_answer_ok:
  assumes ok: "check_ok rc" and len: "length (rc_roles rc) < 255"
  shows "om_ok (rc_roles (rc_answer g r rc))" "rc_dungeons (rc_answer g r rc) = rc_dungeons rc"
    "rc_state (rc_answer g r rc) = LFG_ROLECHECK_FINISHED \<Longrightarrow> entry_ok (rc_roles (rc_answer g r rc)) (rc_dungeons rc)"
proof -
  let ?roles = "om_put g r (rc_roles rc)"
  have om: "om_ok ?roles" using ok by (simp add: check_ok_def)
  show "om_ok (rc_roles (rc_answer g r rc))" using ok om by (simp add: rc_answer_def Let_def check_ok_def)
  show d: "rc_dungeons (rc_answer g r rc) = rc_dungeons rc" by (simp add: rc_answer_def Let_def)
  assume fin: "rc_state (rc_answer g r rc) = LFG_ROLECHECK_FINISHED"
  then have f: "fst (CheckGroupRoles ?roles)" and r: "rc_roles (rc_answer g r rc) = ?roles"
    using ok by (auto simp: rc_answer_def Let_def check_ok_def split: if_splits)
  have "length ?roles < 256" using len ok by (simp add: check_ok_def length_om_put)
  then have "length ?roles \<le> 5" using lfg_check.check_at_most_five [of ?roles] f by (metis prod.collapse)
  then show "entry_ok (rc_roles (rc_answer g r rc)) (rc_dungeons rc)"
    using om f ok r by (simp add: entry_ok_def MAX_GROUP_SIZE_def check_ok_def)
qed

lemma core_rc_notify [core_simps]: "lfg_core (rc_notify w b g r rc x m) = lfg_core m"
  by (auto simp: rc_notify_def Let_def core_simps split: prod.splits LfgRoleCheckState.splits)

definition small_checks :: "LFGMgr \<Rightarrow> bool" where
  "small_checks m \<longleftrightarrow> (\<forall>rc \<in> snd ` set (lm_RoleChecksStore m). length (rc_roles rc) < 250)"

lemma UpdateRoleCheck_ok:
  assumes ok: "lfg_ok m" and small: "\<And>rc. map_of (lm_RoleChecksStore m) gg = Some rc \<Longrightarrow> length (rc_roles rc) < 255"
  shows "lfg_ok (LFGMgr_UpdateRoleCheck w gg g r m)"
proof (cases "ObjectGuid_IsEmpty gg \<or> map_of (lm_RoleChecksStore m) gg = None")
  case True
  then show ?thesis using ok by (auto simp: LFGMgr_UpdateRoleCheck_def)
next
  case False
  then obtain rc0 where ne: "\<not> ObjectGuid_IsEmpty gg" and rc0: "map_of (lm_RoleChecksStore m) gg = Some rc0" by auto
  define rc where "rc = rc_answer g r rc0"
  define m2 where "m2 = fold (rc_notify w (rc_state rc0 \<noteq> LFG_ROLECHECK_DEFAULT \<and> \<not> ObjectGuid_IsEmpty g) g r rc)
    (rc_roles rc) (m\<lparr>lm_RoleChecksStore := om_put gg rc (lm_RoleChecksStore m)\<rparr>)"
  note ans = rc_answer_ok [OF ok_check [OF ok rc0] small [OF rc0], of g r, folded rc_def]
  have core: "lfg_core m2 = lfg_core (m\<lparr>lm_RoleChecksStore := om_put gg rc (lm_RoleChecksStore m)\<rparr>)"
    unfolding m2_def by (rule core_fold) (rule core_simps)
  have but: "lfg_ok_but {gg} m2" unfolding ok_core [OF core] by (rule ok_put_check [OF ok]) simp_all
  have still: "lfg_ok m2" if "rc_state rc = LFG_ROLECHECK_INITIALITING"
    unfolding ok_core [OF core] using that ans ok_check [OF ok rc0]
    by (intro ok_put_check [OF ok]) (simp_all add: check_ok_def)
  define m3 where "m3 = LFGMgr_SetState gg LFG_STATE_QUEUED m2"
  have queued: "lfg_ok_but {gg} (LFGMgr_on_queue i (LFGQueue_AddQueueData gg t (rc_dungeons rc) (rc_roles rc)) m3)"
    if "rc_state rc = LFG_ROLECHECK_FINISHED" for i t
    using but ans(2, 3) that by (intro ok_on_queue queue_ok_AddQueueData) (simp_all add: m3_def ok_core [OF core_access(1)])
  have restored: "lfg_ok_but {gg} (LFGMgr_RestoreState gg m2)" using but by (simp add: ok_core [OF core_access(2)])
  have step: "LFGMgr_UpdateRoleCheck w gg g r m =
      (if rc_state rc = LFG_ROLECHECK_FINISHED
       then (let m4 = LFGMgr_on_queue (LFGMgr_GetQueueId gg m3) (LFGQueue_AddQueueData gg (lw_time w) (rc_dungeons rc) (rc_roles rc)) m3
             in m4\<lparr>lm_RoleChecksStore := om_del gg (lm_RoleChecksStore m4)\<rparr>)
       else if rc_state rc \<noteq> LFG_ROLECHECK_INITIALITING
       then (let m4 = LFGMgr_RestoreState gg m2 in m4\<lparr>lm_RoleChecksStore := om_del gg (lm_RoleChecksStore m4)\<rparr>)
       else m2)"
    using ne rc0 by (simp add: LFGMgr_UpdateRoleCheck_def Let_def rc_def m2_def m3_def)
  show ?thesis unfolding step Let_def
    using ok_del_check [OF queued] ok_del_check [OF restored] still by simp
qed

lemma upd_rolecheck_ok: "lfg_ok m \<Longrightarrow> lfg_ok (upd_rolecheck w x m)"
proof -
  assume ok: "lfg_ok m"
  obtain g rc0 where x: "x = (g, rc0)" by force
  have del: "lfg_ok (m1\<lparr>lm_RoleChecksStore := om_del g (lm_RoleChecksStore m1)\<rparr>)" if "lfg_core m1 = lfg_core m" for m1
    using ok by (intro ok_del_check ok_weaken [of "{}" _ "{g}"]) (simp_all add: ok_core [OF that])
  have core: "lfg_core (LFGMgr_RestoreState g (fold (\<lambda>(h, r) m.
      let m1 = SendLfgRoleCheckUpdate w h rc (LFGMgr_RestoreState h m) in
      if h = rc_leader rc then SendLfgJoinResult w h jr m1 else m1) roles m)) = lfg_core m" for rc jr roles
    unfolding core_simps by (rule core_fold) (simp add: Let_def core_simps split: prod.split)
  show ?thesis
    unfolding x upd_rolecheck_def prod.case Let_def
    by (cases "lw_time w < rc_cancelTime rc0") (simp_all only: if_True if_False ok del [OF core [unfolded Let_def]] simp_thms)
qed

subsection \<open>Proposals\<close>

lemma ok_put_proposal:
  assumes "lfg_ok_but gs m" "full_group p"
  shows "lfg_ok_but gs (m\<lparr>lm_ProposalsStore := om_put i p (lm_ProposalsStore m)\<rparr>)"
  using assms set_om_put_sub [of i p "lm_ProposalsStore m"]
  by (fastforce simp: lfg_ok_but_def lfg_core_def core_simps)

lemma ok_del_proposal: "lfg_ok_but gs m \<Longrightarrow> lfg_ok_but gs (m\<lparr>lm_ProposalsStore := om_del i (lm_ProposalsStore m)\<rparr>)"
  by (auto simp: lfg_ok_but_def lfg_core_def core_simps)

lemma ok_proposal: "lfg_ok_but gs m \<Longrightarrow> (i, p) \<in> set (lm_ProposalsStore m) \<Longrightarrow> full_group p"
  by (force simp: lfg_ok_but_def lfg_core_def)

lemma ok_make: "lfg_ok_but gs m \<Longrightarrow> full_group p \<Longrightarrow> all_agree p \<Longrightarrow> lfg_ok_but gs (m\<lparr>lm_sent := lm_sent m @ [MakeGroup p]\<rparr>)"
  by (auto simp: lfg_ok_but_def lfg_core_def core_simps)

lemma full_group_answer:
  assumes "\<And>d. pp_role (f d) = pp_role d"
  shows "full_group (p\<lparr>pr_players := om_upd g f (pr_players p)\<rparr>) = full_group p"
proof -
  have "proposal_roles (p\<lparr>pr_players := om_upd g f (pr_players p)\<rparr>) = proposal_roles p"
    using assms by (simp add: proposal_roles_def om_upd_def comp_def case_prod_beta)
  moreover have "length (om_upd g f (pr_players p)) = length (pr_players p)" by (simp add: om_upd_def)
  ultimately show ?thesis by (simp add: full_group_def)
qed

lemma full_group_state [simp]: "full_group (p\<lparr>pr_state := st\<rparr>) = full_group p"
  "all_agree (p\<lparr>pr_state := st\<rparr>) = all_agree p"
  by (simp_all add: full_group_def proposal_roles_def all_agree_def)

lemma core_rp_notify [core_simps]: "lfg_core (rp_notify w t p rm x m) = lfg_core m"
  by (auto simp: rp_notify_def Let_def core_simps split: prod.splits)

lemma RemoveProposal_ok: "lfg_ok m \<Longrightarrow> lfg_ok (LFGMgr_RemoveProposal w i t m)"
proof (cases "map_of (lm_ProposalsStore m) i")
  case (Some p)
  assume ok: "lfg_ok m"
  have "lfg_ok (fold (rp_notify w t (rp_marked t p) (rp_toRemove t p)) (pr_players (rp_marked t p)) m)"
    using ok by (subst ok_core [OF core_fold [OF core_rp_notify]])
  then show ?thesis
    unfolding LFGMgr_RemoveProposal_def Some option.case Let_def
    by (intro ok_del_proposal ok_on_queue queue_ok_rp_queue)
qed (simp add: LFGMgr_RemoveProposal_def)

lemma upd_proposal_ok: "lfg_ok m \<Longrightarrow> lfg_ok (upd_proposal w x m)"
  by (auto simp: upd_proposal_def RemoveProposal_ok split: prod.splits)

lemma view_up_wait: "queue_view (up_wait role t d q) = queue_view q"
  by (simp add: up_wait_def queue_view_def LFGQueue_UpdateWaitTimeDps_def LFGQueue_UpdateWaitTimeHealer_def
      LFGQueue_UpdateWaitTimeTank_def LFGQueue_UpdateWaitTimeAvg_def)

lemma up_found_ok: "lfg_ok (snd s) \<Longrightarrow> lfg_ok (snd (up_found w b i p x s))"
proof -
  assume ok: "lfg_ok (snd s)"
  obtain g d ut m where [simp]: "x = (g, d)" "s = (ut, m)" by (metis surj_pair)
  show ?thesis
    using ok by (auto simp: up_found_def Let_def core_simps intro!: iffD2 [OF ok_core [OF core_access(1)]] ok_on_queue
        queue_ok_upd [OF view_up_wait] simp: ok_core [OF core_send(3)] ok_core [OF core_send(6)])
qed

lemma UpdateProposal_ok:
  assumes ok: "lfg_ok m"
  shows "lfg_ok (LFGMgr_UpdateProposal w i g a m)"
proof (cases "map_of (lm_ProposalsStore m) i")
  case None
  then show ?thesis using ok by (simp add: LFGMgr_UpdateProposal_def)
next
  case (Some p0)
  define p where "p = p0\<lparr>pr_players := om_upd g (\<lambda>d. d\<lparr>pp_accept := if a then LFG_ANSWER_AGREE else LFG_ANSWER_DENY\<rparr>) (pr_players p0)\<rparr>"
  define m1 where "m1 = m\<lparr>lm_ProposalsStore := om_put i p (lm_ProposalsStore m)\<rparr>"
  have full: "full_group p"
    using ok_proposal [OF ok map_of_SomeD [OF Some]] unfolding p_def by (subst full_group_answer) simp_all
  then have ok1: "lfg_ok m1" unfolding m1_def by (intro ok_put_proposal ok)
  let ?p1 = "p\<lparr>pr_state := LFG_PROPOSAL_SUCCESS\<rparr>"
  define m2 where "m2 = m1\<lparr>lm_ProposalsStore := om_put i ?p1 (lm_ProposalsStore m1)\<rparr>"
  have ok2: "lfg_ok m2" unfolding m2_def using full by (intro ok_put_proposal ok1) simp
  define m3 where "m3 = snd (fold (up_found w (pr_state p \<noteq> LFG_PROPOSAL_SUCCESS) (LFGMgr_GetQueueId g m2) ?p1)
    (pr_players ?p1) (LFG_UPDATETYPE_GROUP_FOUND, m2))"
  have ok3: "lfg_ok m3" unfolding m3_def by (rule ok_fold [where P = "\<lambda>s. lfg_ok (snd s)"]) (simp_all add: up_found_ok ok2)
  define m4 where "m4 = LFGMgr_on_queue (LFGMgr_GetQueueId g m2) (fold LFGQueue_RemoveFromQueue (pr_queues ?p1)) m3"
  have ok4: "lfg_ok m4" unfolding m4_def by (intro ok_on_queue ok3 queue_ok_removes)
  define m5 where "m5 = m4\<lparr>lm_sent := lm_sent m4 @ [MakeGroup ?p1]\<rparr>"
  have ok5: "lfg_ok m5" if "all_agree p" unfolding m5_def using that full by (intro ok_make ok4) simp_all
  have step: "LFGMgr_UpdateProposal w i g a m =
      (if map_of (pr_players p0) g = None then m
       else if \<not> a then LFGMgr_RemoveProposal w i LFG_UPDATETYPE_PROPOSAL_DECLINED m1
       else if \<not> all_agree p then fold (\<lambda>(g, d). SendLfgUpdateProposal w g p) (pr_players p) m1
       else m5\<lparr>lm_ProposalsStore := om_del i (lm_ProposalsStore m5)\<rparr>)"
    unfolding LFGMgr_UpdateProposal_def Some option.case Let_def p_def [symmetric] m1_def [symmetric] all_agree_def [symmetric]
      m2_def [symmetric] m3_def m4_def m5_def by (simp split: prod.split)
  have sent: "lfg_ok (fold (\<lambda>(g, d). SendLfgUpdateProposal w g p) (pr_players p) m1)"
    using ok1 by (intro iffD2 [OF ok_core [OF core_fold]]) (auto simp: core_simps split: prod.splits)
  show ?thesis unfolding step using ok RemoveProposal_ok [OF ok1] sent ok_del_proposal [OF ok5] by simp
qed

subsection \<open>Leaving, votes and the data of groups\<close>

lemma ok_access [core_simps]:
  "lfg_ok_but gs (LFGMgr_SetState g st m) = lfg_ok_but gs m"
  "lfg_ok_but gs (LFGMgr_RestoreState g m) = lfg_ok_but gs m"
  "lfg_ok_but gs (SendLfgUpdateStatus w g ud b m) = lfg_ok_but gs m"
  "lfg_ok_but gs (m\<lparr>lm_BootsStore := bs\<rparr>) = lfg_ok_but gs m"
  "lfg_ok_but gs (m\<lparr>lm_QueueTimer := t\<rparr>) = lfg_ok_but gs m"
  by (simp_all only: ok_core [OF core_access(1)] ok_core [OF core_access(2)] ok_core [OF core_send(3)]
      ok_core [OF core_boots(1)] ok_core [OF core_boots(2)])

lemma find_proposal_Some: "find_proposal g ps = Some (i, p) \<Longrightarrow> (i, p) \<in> set ps"
  by (induction ps) (auto simp: find_proposal_def split: if_splits)

lemma LeaveLfg_ok:
  assumes ok: "lfg_ok m" and small: "small_checks m"
  shows "lfg_ok (LFGMgr_LeaveLfg w g dc m)"
proof -
  define gg where "gg = (if ObjectGuid_IsParty g then g else LFGMgr_GetGroup g m)"
  have removed: "lfg_ok (LFGMgr_on_queue i (LFGQueue_RemoveFromQueue h) m)" for i h
    by (intro ok_on_queue ok queue_ok_RemoveFromQueue)
  have told: "lfg_ok (fold (\<lambda>g m. SendLfgUpdateStatus w g ud True (LFGMgr_SetState g LFG_STATE_NONE m)) gs m1) = lfg_ok m1"
    for gs ud m1 by (rule ok_core, rule core_fold) (simp add: core_simps)
  have abort: "lfg_ok (LFGMgr_UpdateRoleCheck w gg ObjectGuid_Empty PLAYER_ROLE_NONE m)"
    using small by (intro UpdateRoleCheck_ok ok) (force simp: small_checks_def dest!: map_of_SomeD)
  have declined: "lfg_ok (LFGMgr_RemoveProposal w i t (m\<lparr>lm_ProposalsStore := om_put i
      (p\<lparr>pr_players := om_upd h (\<lambda>d. d\<lparr>pp_accept := LFG_ANSWER_DENY\<rparr>) (pr_players p)\<rparr>) (lm_ProposalsStore m)\<rparr>))"
    if "find_proposal h (lm_ProposalsStore m) = Some (i, p)" for i p h t
    using ok_proposal [OF ok find_proposal_Some [OF that]]
    by (intro RemoveProposal_ok ok_put_proposal ok) (simp add: full_group_answer)
  show ?thesis
    unfolding LFGMgr_LeaveLfg_def Let_def gg_def [symmetric]
    using ok abort declined
    by (auto simp: core_simps told removed split: LfgState.splits option.splits prod.splits)
qed

lemma core_InitBoot [core_simps]: "lfg_core (LFGMgr_InitBoot w gg k v r m) = lfg_core m"
proof -
  have "lfg_core (fold (\<lambda>g. SendLfgBootProposalUpdate w g b) gs m1) = lfg_core m1" for b gs m1
    by (rule core_fold) (rule core_simps)
  then show ?thesis by (simp add: LFGMgr_InitBoot_def Let_def core_simps)
qed

lemma core_boot_notify [core_simps]: "lfg_core (boot_notify w b m) = lfg_core m"
  unfolding boot_notify_def by (rule core_fold) (simp add: core_simps split: prod.split)

lemma core_kick [core_simps]: "lfg_core (m\<lparr>lm_sent := lm_sent m @ [KickFromGroup g h]\<rparr>) = lfg_core m"
  by (simp add: lfg_core_def core_simps)

lemma core_UpdateBoot [core_simps]: "lfg_core (LFGMgr_UpdateBoot w g a m) = lfg_core m"
  by (simp add: LFGMgr_UpdateBoot_def Let_def core_simps split: option.split prod.split)

lemma core_upd_boot [core_simps]: "lfg_core (upd_boot w x m) = lfg_core m"
  by (simp add: upd_boot_def Let_def core_simps split: prod.split)

lemma core_RemoveGroupData [core_simps]: "lfg_core (LFGMgr_RemoveGroupData w g m) = lfg_core m"
proof -
  have "lfg_core (fold (\<lambda>h m. if b then SendLfgUpdateStatus w h ud True (LFGMgr_SetState h LFG_STATE_NONE (LFGMgr_SetGroup h e m))
      else LFGMgr_SetGroup h e m) gs m) = lfg_core m" for b ud e gs
    by (rule core_fold) (simp add: core_simps)
  then show ?thesis by (simp add: LFGMgr_RemoveGroupData_def Let_def core_simps)
qed

subsection \<open>The periodic update\<close>

text \<open>A search changes nothing of the manager but the proposals, their numbering and the draws used up.\<close>

definition search_frame :: "LfgWorld \<Rightarrow> LFGQueue \<times> LFGMgr \<Rightarrow> LFGQueue \<times> LFGMgr \<Rightarrow> bool" where
  "search_frame w s t \<longleftrightarrow>
     (\<exists>n i ps. snd t = (snd s)\<lparr>lm_draws := n, lm_lfgProposalId := i, lm_ProposalsStore := ps\<rparr>)"

lemma search_frame_refl: "search_frame w s (q, snd s)"
  unfolding search_frame_def by (rule exI [of _ "lm_draws (snd s)"], rule exI [of _ "lm_lfgProposalId (snd s)"],
      rule exI [of _ "lm_ProposalsStore (snd s)"]) simp

lemma search_frame_draws: "only_draws (snd s) m \<Longrightarrow> search_frame w s (q, m)"
  unfolding search_frame_def only_draws_def
  by (elim exE, rule_tac x = n in exI, rule exI [of _ "lm_lfgProposalId (snd s)"], rule exI [of _ "lm_ProposalsStore (snd s)"]) simp

lemma search_frame_trans: "search_frame w s t \<Longrightarrow> search_frame w t u \<Longrightarrow> search_frame w s u"
  unfolding search_frame_def by (elim exE) (simp, blast)

lemma search_frame_add: "search_frame w (q, m) (q', LFGMgr_AddProposal p m)"
  unfolding search_frame_def LFGMgr_AddProposal_def Let_def by (rule exI [of _ "lm_draws m"]) (simp, blast)

lemma cc_players_draws: "cc_players w isNew grp gs roles leader l P m = (l', P', m') \<Longrightarrow> only_draws m m'"
proof (induction roles arbitrary: leader l P m)
  case (Cons x roles)
  obtain g r where x: "x = (g, r)" by force
  from Cons.prems [unfolded x] obtain takes d m1 where
    "cc_players w isNew grp gs roles (leader \<or> r AND PLAYER_ROLE_LEADER \<noteq> 0) (if takes then g else l) (om_put g d P) m1 = (l', P', m')"
    "only_draws m m1" by (rule cc_players_turn) blast
  with Cons.IH show ?case by (blast intro: only_draws_trans)
qed (simp add: only_draws_refl)

lemma select_draws: "only_draws m (snd (SelectRandomContainerElement w xs m))"
  unfolding SelectRandomContainerElement_def urand_def only_draws_def by auto

lemma frame_finish: "search_frame w (q, m) (snd (cc_finish w check np nl gs grp roles ds q m))"
proof -
  obtain d m1 where d: "SelectRandomContainerElement w ds m = (d, m1)" by force
  define isNew where "isNew = (nl \<noteq> 1 \<or> LFGMgr_GetOldState (hd check) m \<noteq> LFG_STATE_DUNGEON)"
  obtain l P m2 where P: "cc_players w isNew grp gs roles False ObjectGuid_Empty [] m1 = (l, P, m2)" by (metis prod_cases3)
  have "search_frame w (q, m) (q, m2)"
    using select_draws [of m w ds] cc_players_draws [OF P] d by (intro search_frame_draws) (simp add: only_draws_trans)
  then have add: "search_frame w (q, m) (q', LFGMgr_AddProposal p m2)" for p q'
    using search_frame_trans search_frame_add by blast
  show ?thesis
    unfolding cc_finish_def Let_def isNew_def [symmetric] d prod.case P
    using search_frame_refl [of w "(q, m)"] add by simp
qed

interpretation frame: queue_run search_frame
proof unfold_locales
  fix w s t u
  show "search_frame w s t \<Longrightarrow> search_frame w t u \<Longrightarrow> search_frame w s u" by (rule search_frame_trans)
next
  fix w check q m
  have r: "search_frame w (q, m) (q', m)" for q' using search_frame_refl [of w "(q, m)" q'] by simp
  show "search_frame w (q, m) (snd (cc_combination w check q m))"
    by (simp add: cc_combination_def Let_def frame_finish r split: sum.split prod.split)
next
  fix w s show "search_frame w s s" using search_frame_refl [of w s "fst s"] by simp
qed (use search_frame_refl [of _ "(_, _)"] in simp_all)

lemma proposal_ok_full: "proposal_ok w q m p \<Longrightarrow> full_group p"
  by (simp add: proposal_ok_def full_group_def)

lemma upd_find_ok:
  assumes ok: "lfg_ok m"
  shows "lfg_ok (upd_find w i m)"
proof -
  obtain n q m1 where f: "LFGQueue_FindGroups w (LFGMgr_queue i m) m = (n, q, m1)" by (metis prod_cases3)
  have q: "queue_ok (LFGMgr_queue i m)" by (rule ok_queue [OF ok])
  have safe: "search_safe w (LFGMgr_queue i m, m) (q, m1)"
    using safe.R_find_groups [of w "LFGMgr_queue i m" m 0] f by (simp add: LFGQueue_FindGroups_def)
  have "search_frame w (LFGMgr_queue i m, m) (q, m1)"
    using frame.R_find_groups [of w "LFGMgr_queue i m" m 0] f by (simp add: LFGQueue_FindGroups_def)
  then obtain k j ps where m1: "m1 = m\<lparr>lm_draws := k, lm_lfgProposalId := j, lm_ProposalsStore := ps\<rparr>"
    by (auto simp: search_frame_def)
  have "\<forall>p \<in> snd ` set ps. full_group p"
    using safe q ok proposal_ok_full by (fastforce simp: search_safe_def m1 lfg_ok_but_def lfg_core_def)
  then have "lfg_ok m1" using ok by (simp add: lfg_ok_but_def lfg_core_def m1 made_groups_def)
  moreover have "queue_ok q" using safe q queue_ok_upd by (simp add: search_safe_def)
  ultimately show ?thesis by (simp add: upd_find_def f ok_on_queue)
qed

lemma core_announce_player [core_simps]: "lfg_core (announce_player w p g m) = lfg_core m"
  by (simp add: announce_player_def Let_def core_simps)

lemma upd_announce_ok: "lfg_ok m \<Longrightarrow> lfg_ok (upd_announce w x m)"
proof -
  assume ok: "lfg_ok m"
  obtain i p where x: "x = (i, p)" by force
  have "lfg_ok (fold (announce_player w p) gs m)" for gs
    using ok by (subst ok_core [OF core_fold [OF core_announce_player]])
  then show ?thesis by (simp add: x upd_announce_def Let_def UpdateProposal_ok)
qed

lemma upd_timers_ok: "lfg_ok m \<Longrightarrow> lfg_ok (upd_timers w i m)"
proof -
  assume ok: "lfg_ok m"
  obtain q m1 where t: "LFGQueue_UpdateQueueTimers w i (lw_time w) (LFGMgr_queue i m) m = (q, m1)" by force
  have "lfg_core (fold (\<lambda>(g, d). fold (\<lambda>(p, r). SendLfgQueueStatus w p (qs d)) (qd_roles d)) es m) = lfg_core m" for qs es
  proof (rule core_fold)
    fix x m show "lfg_core ((case x of (g, d) \<Rightarrow> fold (\<lambda>(p, r). SendLfgQueueStatus w p (qs d)) (qd_roles d)) m) = lfg_core m"
      by (cases x) (simp, rule core_fold, simp add: core_simps split: prod.split)
  qed
  with t have "lfg_core m1 = lfg_core m" by (auto simp: LFGQueue_UpdateQueueTimers_def Let_def)
  then have "lfg_ok m1" using ok by (subst ok_core)
  moreover have "queue_view q = queue_view (LFGMgr_queue i m)"
    using t by (auto simp: LFGQueue_UpdateQueueTimers_def Let_def queue_view_def queue_timer_entry_def view_simps)
  ultimately show ?thesis
    using queue_ok_upd [OF _ ok_queue [OF ok]] by (simp add: upd_timers_def t ok_on_queue)
qed

lemma Update_ok: "lfg_ok m \<Longrightarrow> lfg_ok (LFGMgr_Update w diff m)"
proof -
  assume ok: "lfg_ok m"
  define m1 where "m1 = fold (upd_rolecheck w) (lm_RoleChecksStore m) m"
  define m2 where "m2 = fold (upd_proposal w) (lm_ProposalsStore m1) m1"
  define m3 where "m3 = fold (upd_boot w) (lm_BootsStore m2) m2"
  define m4 where "m4 = fold (upd_find w) (map fst (lm_QueuesStore m3)) m3"
  define m5 where "m5 = (if lm_lfgProposalId m3 \<noteq> lm_lfgProposalId m4
    then fold (upd_announce w) (dropWhile (\<lambda>(i, p). i \<noteq> lm_lfgProposalId m4) (lm_ProposalsStore m4)) m4 else m4)"
  have "lfg_ok m1" unfolding m1_def by (rule ok_fold) (simp_all add: upd_rolecheck_ok ok)
  then have "lfg_ok m2" unfolding m2_def by (rule ok_fold [rotated]) (simp add: upd_proposal_ok)
  then have "lfg_ok m3" unfolding m3_def by (subst ok_core [OF core_fold [OF core_upd_boot]])
  then have m4: "lfg_ok m4" unfolding m4_def by (rule ok_fold [rotated]) (simp add: upd_find_ok)
  have "lfg_ok (fold (upd_announce w) xs m4)" for xs by (rule ok_fold) (simp_all add: upd_announce_ok m4)
  then have m5: "lfg_ok m5" unfolding m5_def using m4 by simp
  have "lfg_ok (fold (upd_timers w) is (m5\<lparr>lm_QueueTimer := 0\<rparr>))" for "is"
    by (rule ok_fold) (simp_all add: upd_timers_ok core_simps m5)
  then show ?thesis
    unfolding LFGMgr_Update_def Let_def m1_def [symmetric] m2_def [symmetric] m3_def [symmetric] m4_def [symmetric]
      m5_def [symmetric]
    using ok m5 by (simp add: core_simps)
qed

subsection \<open>Joining\<close>

lemma join_members_count:
  "join_members ps r n players = (LFG_JOIN_OK, n', players') \<Longrightarrow> n' = n + of_nat (length ps)"
  by (induction ps r n players rule: join_members.induct) (auto split: if_splits)

text \<open>A group that may join has at most five members in the world; the count is the one of a byte.\<close>

lemma join_check_members:
  assumes "jr_result (jc_data (join_check s player (Some g) c ds)) = LFG_JOIN_OK" "length (lg_members g) < 256"
  shows "length (lg_members g) \<le> MAX_GROUP_SIZE"
proof -
  have r: "fst (join_restrictions player (Some g) ds) = LFG_JOIN_OK"
    using assms(1) by (auto simp: join_check_def Let_def LfgJoinResultData_init_def split: prod.splits if_splits)
  obtain r n players where j: "join_members (lg_members g) LFG_JOIN_OK 0 [] = (r, n, players)" by (metis prod_cases3)
  have ok: "unat (lg_MembersCount g) \<le> MAX_GROUP_SIZE" "r = LFG_JOIN_OK" "ucast n = lg_MembersCount g"
    using r by (auto simp: join_restrictions_def j split: if_splits)
  have "n = of_nat (length (lg_members g))" using join_members_count [of "lg_members g" LFG_JOIN_OK 0 "[]"] j ok(2) by simp
  then have "unat n = length (lg_members g)" using assms(2) by (simp add: unat_of_nat take_bit_nat_eq_self)
  moreover have "unat (ucast n :: u32) = unat n"
  proof -
    have "uint (ucast n :: u32) = uint n" by (rule uint_ucast_up) simp
    then show ?thesis by (simp only: unat_eq_nat_uint)
  qed
  ultimately show ?thesis using ok by metis
qed

lemma join_check_dungeons:
  "jr_result (jc_data (join_check s player grp c ds)) = LFG_JOIN_OK \<Longrightarrow> jc_dungeons (join_check s player grp c ds) \<noteq> []"
  by (auto simp: join_check_def Let_def LfgJoinResultData_init_def split: prod.splits if_splits)

lemma core_join_group_member [core_simps]: "lfg_core (join_group_member c ds tk g m) = lfg_core m"
  by (simp add: join_group_member_def Let_def core_simps)

lemma length_om_puts: "om_ok m \<Longrightarrow> om_ok (fold (\<lambda>g. om_put g v) gs m) \<and> length (fold (\<lambda>g. om_put g v) gs m) \<le> length m + length gs"
proof (induction gs arbitrary: m)
  case (Cons g gs)
  then show ?case using Cons.IH [of "om_put g v m"] by (auto simp: length_om_put split: if_splits)
qed simp

lemma join_group_ok:
  assumes ok: "lfg_ok m" and small: "small_checks m" and ds: "ds \<noteq> []" and len: "length (lg_members g) \<le> MAX_GROUP_SIZE"
  shows "lfg_ok (join_group w g guid roles c ds rd m)"
proof -
  define old where "old = (case map_of (lm_RoleChecksStore m) (lg_guid g) of Some rc \<Rightarrow> rc_roles rc | None \<Rightarrow> [])"
  define rc where "rc = \<lparr>rc_cancelTime = lw_time w + LFG_TIME_ROLECHECK, rc_roles = fold (\<lambda>g. om_put g 0) (map lp_guid (lg_members g)) old,
    rc_state = LFG_ROLECHECK_INITIALITING, rc_dungeons = ds, rc_rDungeonId = rd, rc_leader = guid\<rparr>"
  define m1 where "m1 = LFGMgr_SetState (lg_guid g) LFG_STATE_ROLECHECK (m\<lparr>lm_RoleChecksStore := om_put (lg_guid g) rc (lm_RoleChecksStore m)\<rparr>)"
  define m2 where "m2 = fold (join_group_member c (if rd \<noteq> 0 then [rd] else ds) (join_ticket w guid (lg_guid g) m)) (map lp_guid (lg_members g)) m1"
  have old: "om_ok old" "length old < 250"
    using ok_check [OF ok] small by (auto simp: old_def check_ok_def small_checks_def split: option.split dest!: map_of_SomeD)
  have rc: "check_ok rc" "length (rc_roles rc) < 255"
    using length_om_puts [OF old(1), of 0 "map lp_guid (lg_members g)"] old(2) len ds
    by (simp_all add: check_ok_def rc_def MAX_GROUP_SIZE_def)
  have core: "lfg_core m2 = lfg_core m1" unfolding m2_def by (rule core_fold) (rule core_simps)
  have "lfg_ok m1" unfolding m1_def core_simps using rc by (intro ok_put_check [OF ok]) simp_all
  then have "lfg_ok m2" by (subst ok_core [OF core])
  moreover have "lm_RoleChecksStore m2 = lm_RoleChecksStore m1" using core by (simp add: core_eq)
  moreover have "lm_RoleChecksStore m1 = om_put (lg_guid g) rc (lm_RoleChecksStore m)"
    using core_access(1) [of "lg_guid g" LFG_STATE_ROLECHECK "m\<lparr>lm_RoleChecksStore := om_put (lg_guid g) rc (lm_RoleChecksStore m)\<rparr>"]
    by (simp add: core_eq m1_def)
  ultimately have "lfg_ok (LFGMgr_UpdateRoleCheck w (lg_guid g) guid roles m2)"
    using rc(2) by (intro UpdateRoleCheck_ok) simp_all
  then show ?thesis
    by (simp add: join_group_def Let_def old_def [symmetric] rc_def [symmetric] m1_def [symmetric] m2_def [symmetric])
qed

lemma join_player_ok:
  assumes ok: "lfg_ok m" and ds: "ds \<noteq> []"
  shows "lfg_ok (join_player w guid roles c jr ds rd m)"
proof -
  have "entry_ok [(guid, roles)] ds" using ds by (simp add: entry_ok_def om_ok_Cons MAX_GROUP_SIZE_def)
  then have "lfg_ok (LFGMgr_on_queue i (LFGQueue_AddQueueData guid t ds [(guid, roles)]) m)" for i t
    by (intro ok_on_queue ok queue_ok_AddQueueData)
  then show ?thesis
    by (simp add: join_player_def Let_def ok_core [OF core_tell] ok_core [OF core_access(5)] ok_core [OF core_access(6)]
        ok_core [OF core_access(7)] core_simps)
qed

lemma JoinLfg_ok:
  assumes ok: "lfg_ok m" and small: "small_checks m" and len: "\<And>g. grp = Some g \<Longrightarrow> length (lg_members g) < 256"
  shows "lfg_ok (LFGMgr_JoinLfg w s player grp roles ds m)"
proof -
  define gguid where "gguid = (case grp of Some g \<Rightarrow> lg_guid g | None \<Rightarrow> lp_guid player)"
  define c where "c = (case grp of Some g \<Rightarrow> lg_isLFGGroup g \<and> LFGMgr_GetState gguid m \<noteq> LFG_STATE_FINISHED_DUNGEON | None \<Rightarrow> False)"
  define ds1 where "ds1 = (if c then [LFGMgr_GetDungeon gguid True m] else ds)"
  define m1 where "m1 = (if LFGMgr_GetState gguid m = LFG_STATE_QUEUED
    then LFGMgr_on_queue (LFGMgr_GetQueueId gguid m) (LFGQueue_RemoveFromQueue gguid) m else m)"
  define j where "j = join_check s player grp c ds1"
  have ok1: "lfg_ok m1" unfolding m1_def using ok by (simp add: ok_on_queue queue_ok_RemoveFromQueue)
  have small1: "small_checks m1" unfolding m1_def using small by (simp add: small_checks_def core_simps)
  have "jc_dungeons j \<noteq> []" if "jr_result (jc_data j) = LFG_JOIN_OK"
    using that join_check_dungeons unfolding j_def by blast
  moreover have "length (lg_members g) \<le> MAX_GROUP_SIZE" if "jr_result (jc_data j) = LFG_JOIN_OK" "grp = Some g" for g
    using that join_check_members len unfolding j_def by blast
  ultimately show ?thesis
    unfolding LFGMgr_JoinLfg_def Let_def gguid_def [symmetric] c_def [symmetric] ds1_def [symmetric] m1_def [symmetric] j_def [symmetric]
    using ok ok1 small1 by (auto simp: ok_core [OF core_tell] intro!: join_group_ok join_player_ok split: option.split)
qed

subsection \<open>Every step of the finder\<close>

text \<open>What can happen to the finder: a packet of a client, a change of a group, a login or logout, the end of a
  dungeon, the clock. The world is a different one at every step. \<open>small_checks\<close> asks that no role check holds
  250 players (a raid has at most 40), and a group has fewer than 256 members in the world.\<close>

inductive lfg_step :: "LFGMgr \<Rightarrow> LFGMgr \<Rightarrow> bool" where
  step_join: "small_checks m \<Longrightarrow> (\<forall>g leader. party = Some (g, leader) \<longrightarrow> length (lg_members g) < 256) \<Longrightarrow>
     lfg_step m (HandleLfgJoinOpcode w s listed player party slots roles m)"
| step_leave: "small_checks m \<Longrightarrow> lfg_step m (HandleLfgLeaveOpcode w party requester m)"
| step_answer: "lfg_step m (HandleLfgProposalResultOpcode w guid i accepted m)"
| step_roles: "small_checks m \<Longrightarrow> lfg_step m (HandleLfgSetRolesOpcode w guid grp role m)"
| step_vote: "lfg_step m (HandleLfgSetBootVoteOpcode w guid vote m)"
| step_status: "lfg_step m (HandleDFGetJoinStatus guid in_group m)"
| step_logout: "small_checks m \<Longrightarrow> lfg_step m (LFGPlayerScript_OnLogout w guid in_group disconnected m)"
| step_login: "lfg_step m (LFGPlayerScript_OnLogin two_side guid team grp m)"
| step_map: "small_checks m \<Longrightarrow> lfg_step m (LFGPlayerScript_OnMapChanged w s guid map_id difficulty members n m)"
| step_add_member: "small_checks m \<Longrightarrow> lfg_step m (LFGGroupScript_OnAddMember w gguid leader guid m)"
| step_remove_member: "small_checks m \<Longrightarrow> lfg_step m (LFGGroupScript_OnRemoveMember w gguid isLFG guid method kicker reason m)"
| step_disband: "lfg_step m (LFGGroupScript_OnDisband w gguid m)"
| step_leader: "lfg_step m (LFGGroupScript_OnChangeLeader gguid guid m)"
| step_invite: "small_checks m \<Longrightarrow> lfg_step m (LFGGroupScript_OnInviteMember w gguid leader m)"
| step_finish: "lfg_step m (LFGMgr_FinishDungeon w s gguid dungeonId m)"
| step_update: "lfg_step m (LFGMgr_Update w diff m)"
| step_load: "lfg_step m (LFGMgr_LoadFromDB leader dungeon state guid m)"
| step_save: "lfg_step m (LFGMgr_SaveToDB guid m)"
| step_options: "lfg_step m (LFGMgr_SetOptions options m)"
| step_clean: "lfg_step m (LFGMgr_Clean m)"

lemma ok_of_core: "lfg_core m' = lfg_core m \<Longrightarrow> lfg_ok m \<Longrightarrow> lfg_ok m'"
  using ok_core by blast

lemma core_options: "lfg_core (LFGMgr_SetOptions options m) = lfg_core m"
  by (simp add: LFGMgr_SetOptions_def lfg_core_def made_groups_def)

lemma core_handlers [core_simps]:
  "lfg_core (HandleLfgSetBootVoteOpcode w guid vote m) = lfg_core m"
  "lfg_core (HandleDFGetJoinStatus guid in_group m) = lfg_core m"
  "lfg_core (LFGPlayerScript_OnLogin two_side guid team grp m) = lfg_core m"
  "lfg_core (LFGGroupScript_OnDisband w gguid m) = lfg_core m"
  "lfg_core (LFGGroupScript_OnChangeLeader gguid guid m) = lfg_core m"
  "lfg_core (LFGMgr_LoadFromDB leader dungeon state guid m) = lfg_core m"
  "lfg_core (LFGMgr_SaveToDB guid m) = lfg_core m"
  by (simp_all add: HandleLfgSetBootVoteOpcode_def HandleDFGetJoinStatus_def LFGPlayerScript_OnLogin_def
      LFGGroupScript_OnDisband_def LFGGroupScript_OnChangeLeader_def LFGMgr_LoadFromDB_def LFGMgr_SaveToDB_def
      Let_def core_simps split: option.split)

lemma core_if: "(c \<Longrightarrow> lfg_core a = x) \<Longrightarrow> (\<not> c \<Longrightarrow> lfg_core b = x) \<Longrightarrow> lfg_core (if c then a else b) = x"
  by simp

lemma core_option: "lfg_core a = x \<Longrightarrow> (\<And>y. lfg_core (f y) = x) \<Longrightarrow> lfg_core (case opt of None \<Rightarrow> a | Some y \<Rightarrow> f y) = x"
  by (cases opt) simp_all

lemma core_finish_player [core_simps]: "lfg_core (finish_player w s gg d g m) = lfg_core m"
  unfolding finish_player_def Let_def by (intro core_if core_option) (simp_all add: core_simps)

lemma core_FinishDungeon [core_simps]: "lfg_core (LFGMgr_FinishDungeon w s gg d m) = lfg_core m"
  by (simp add: LFGMgr_FinishDungeon_def Let_def core_simps core_fold [OF core_finish_player])

lemma checks_of_core: "lfg_core m' = lfg_core m \<Longrightarrow> lm_RoleChecksStore m' = lm_RoleChecksStore m"
  by (simp add: core_eq)

text \<open>Leaving the queue touches no role check.\<close>

lemma LeaveLfg_queued_checks:
  assumes "LFGMgr_GetState g m = LFG_STATE_QUEUED"
  shows "lm_RoleChecksStore (LFGMgr_LeaveLfg w g dc m) = lm_RoleChecksStore m"
proof -
  have told: "lfg_core (fold (\<lambda>g m. SendLfgUpdateStatus w g ud True (LFGMgr_SetState g LFG_STATE_NONE m)) gs m1) = lfg_core m1"
    for gs ud m1 by (rule core_fold) (simp add: core_simps)
  show ?thesis
    by (simp add: LFGMgr_LeaveLfg_def Let_def assms checks_of_core [OF told] checks_of_core [OF core_access(1)]
        checks_of_core [OF core_send(3)] on_queue_parts(1))
qed

lemma OnAddMember_ok: "lfg_ok m \<Longrightarrow> small_checks m \<Longrightarrow> lfg_ok (LFGGroupScript_OnAddMember w gguid leader guid m)"
proof -
  assume ok: "lfg_ok m" and small: "small_checks m"
  define m1 where "m1 = (if LFGMgr_GetState guid m = LFG_STATE_QUEUED then LFGMgr_LeaveLfg w guid False m else m)"
  have m1: "lfg_ok m1" unfolding m1_def using LeaveLfg_ok [OF ok small] ok by simp
  have "small_checks m1" unfolding m1_def using small LeaveLfg_queued_checks by (simp add: small_checks_def)
  then have "lfg_ok (LFGMgr_LeaveLfg w gguid False m1)" by (rule LeaveLfg_ok [OF m1])
  then show ?thesis
    unfolding LFGGroupScript_OnAddMember_def Let_def m1_def [symmetric]
    using ok m1 by (simp add: ok_core [OF core_access(10)] ok_core [OF core_access(12)] ok_core [OF core_access(11)])
qed

lemma OnRemoveMember_ok:
  "lfg_ok m \<Longrightarrow> small_checks m \<Longrightarrow> lfg_ok (LFGGroupScript_OnRemoveMember w gguid isLFG guid method kicker reason m)"
proof -
  assume ok: "lfg_ok m" and small: "small_checks m"
  obtain n m1 where r: "LFGMgr_RemovePlayerFromGroup gguid guid
      (LFGMgr_SetGroup guid ObjectGuid_Empty (LFGMgr_LeaveLfg w guid False m)) = (n, m1)" by force
  have "lfg_core m1 = lfg_core (LFGMgr_LeaveLfg w guid False m)"
    using core_access(13) [of gguid guid] core_access(10) by (metis r snd_conv)
  then have "lfg_ok m1" using LeaveLfg_ok [OF ok small] by (rule ok_of_core)
  then show ?thesis
    using ok by (simp add: LFGGroupScript_OnRemoveMember_def Let_def r ok_core [OF core_tell] ok_core [OF core_InitBoot]
        ok_core [OF core_access(13)] ok_core [OF core_access(10)])
qed

lemma lfg_step_ok: "lfg_step m m' \<Longrightarrow> lfg_ok m \<Longrightarrow> lfg_ok m'"
proof (induction rule: lfg_step.induct)
  case (step_join m party w s listed player slots roles)
  then show ?case by (auto simp: HandleLfgJoinOpcode_def intro!: JoinLfg_ok)
next
  case (step_map m w s guid map_id difficulty members n)
  have "lfg_ok (fold (\<lambda>g. lfg_tell (SendNameQuery guid g)) gs m)" for gs
    using step_map(2) by (subst ok_core [OF core_fold]) (simp_all add: core_simps)
  with step_map show ?case
    by (auto simp: LFGPlayerScript_OnMapChanged_def Let_def ok_core [OF core_tell] LeaveLfg_ok split: option.split)
next
  case (step_clean m)
  then show ?case by (simp add: LFGMgr_Clean_def lfg_ok_but_def lfg_core_def core_simps)
next
  case (step_roles m w guid grp role)
  then show ?case
    by (auto simp: HandleLfgSetRolesOpcode_def small_checks_def intro!: UpdateRoleCheck_ok split: option.split dest!: map_of_SomeD)
qed (auto simp: HandleLfgLeaveOpcode_def HandleLfgProposalResultOpcode_def LFGPlayerScript_OnLogout_def
    LFGGroupScript_OnInviteMember_def LeaveLfg_ok UpdateProposal_ok OnAddMember_ok OnRemoveMember_ok Update_ok
    ok_core [OF core_options] ok_core [OF core_handlers(1)] ok_core [OF core_handlers(2)] ok_core [OF core_handlers(3)]
    ok_core [OF core_handlers(4)] ok_core [OF core_handlers(5)] ok_core [OF core_handlers(6)] ok_core [OF core_handlers(7)]
    ok_core [OF core_FinishDungeon] split: option.split)

lemma lfg_init_ok: "lfg_ok (LFGMgr_init options)"
  by (simp add: lfg_ok_but_def lfg_core_def LFGMgr_init_def made_groups_def)

lemma lfg_steps_ok: "lfg_step\<^sup>*\<^sup>* m m' \<Longrightarrow> lfg_ok m \<Longrightarrow> lfg_ok m'"
  by (induction rule: rtranclp_induct) (auto intro: lfg_step_ok)

text \<open>C1: whatever players and groups do and however the clock runs, the finder makes a group only of five
  different players with one tank, one healer and three damage dealers who have all agreed; every proposal it
  holds is for five such players, and every queue holds only entries that can take part.\<close>

theorem lfg_groups_full:
  assumes "lfg_step\<^sup>*\<^sup>* (LFGMgr_init options) m"
  shows "(\<forall>p \<in> set (made_groups m). full_group p \<and> all_agree p) \<and>
    (\<forall>p \<in> snd ` set (lm_ProposalsStore m). full_group p) \<and> (\<forall>q \<in> snd ` set (lm_QueuesStore m). queue_ok q)"
  using lfg_steps_ok [OF assms lfg_init_ok] by (simp add: lfg_ok_but_def lfg_core_def)

definition demo_dungeon :: LFGDungeonData where
  "demo_dungeon = \<lparr>dd_id = 1, dd_map = 389, dd_type = 1, dd_expansion = 0, dd_group = 1, dd_minlevel = 15, dd_maxlevel = 110,
     dd_difficulty = 1, dd_seasonal = False, dd_position = (0, 0, 0, 0), dd_requiredItemLevel = 0\<rparr>"

definition demo_player :: LFGPlayerView where
  "demo_player = \<lparr>lp_guid = ObjectGuid 7 0x0800000000000000, lp_session = True, lp_join_permission = True,
     lp_InBattleground = False, lp_InArena = False, lp_InBattlegroundQueue = False, lp_HasAura = (\<lambda>a. False),
     lp_level = 20, lp_expansion = 6, lp_item_level = 30, lp_team = HORDE, lp_map = 1, lp_CanRewardQuest = (\<lambda>q. True),
     lp_disabled_map = (\<lambda>m. False), lp_disabled_lfg_map = (\<lambda>m. False), lp_bound = (\<lambda>m d. None),
     lp_HasAchieved = (\<lambda>a. False), lp_QuestRewarded = (\<lambda>q. False), lp_HasItem = (\<lambda>i. False)\<rparr>"

definition demo_stores :: LFGStores where
  "demo_stores = \<lparr>ls_dungeons = [(1, demo_dungeon)], ls_cached = (\<lambda>k. [1]), ls_rewards = [], ls_quest = (\<lambda>q. True),
     ls_holiday = (\<lambda>h. False), ls_access = (\<lambda>m d. None), ls_player = (\<lambda>g. Some demo_player)\<rparr>"

definition demo_joined :: LFGMgr where
  "demo_joined = HandleLfgJoinOpcode lfg_world demo_stores (\<lambda>d. True) demo_player None [0x01000001] 8 (LFGMgr_init 1)"

lemma demo_joined_queue: "map fst (lq_QueueDataStore (LFGMgr_queue 0 demo_joined)) = [lp_guid demo_player]"
  by code_simp

theorem lfg_groups_full_witness:
  "lfg_step\<^sup>*\<^sup>* (LFGMgr_init 1) demo_joined \<and>
   map fst (lq_QueueDataStore (LFGMgr_queue 0 demo_joined)) = [lp_guid demo_player] \<and>
   list_all (\<lambda>p. full_group p \<and> all_agree p) (made_groups demo_joined) \<and>
   list_all queue_ok (map snd (lm_QueuesStore demo_joined))"
proof -
  have "lfg_step (LFGMgr_init 1) demo_joined"
    unfolding demo_joined_def by (rule step_join) (simp_all add: small_checks_def LFGMgr_init_def)
  then have r: "lfg_step\<^sup>*\<^sup>* (LFGMgr_init 1) demo_joined" by (rule r_into_rtranclp)
  with lfg_groups_full [OF r] demo_joined_queue show ?thesis by (simp add: list_all_iff)
qed

subsection \<open>A refused join\<close>

text \<open>C37: a player who waits in the queue and asks to join again for dungeons it may not enter is taken out of the
  queue, but its state still says that it is queued.\<close>

theorem JoinLfg_refused_stays_queued:
  assumes "lp_session player" "ds \<noteq> []" "LFGMgr_GetState (lp_guid player) m = LFG_STATE_QUEUED"
    and "jr_result (jc_data (join_check s player None False ds)) \<noteq> LFG_JOIN_OK"
    and "m' = LFGMgr_JoinLfg w s player None roles ds m"
  shows "LFGMgr_GetState (lp_guid player) m' = LFG_STATE_QUEUED \<and>
    map_of (lq_QueueDataStore (LFGMgr_queue (LFGMgr_GetQueueId (lp_guid player) m) m')) (lp_guid player) = None"
proof -
  let ?g = "lp_guid player"
  define i where "i = LFGMgr_GetQueueId ?g m"
  define r where "r = (let c = join_check s player None False ds in if jc_dungeons c \<noteq> [] then (jc_data c)\<lparr>jr_lockmap := []\<rparr> else jc_data c)"
  have "m' = lfg_tell (SendJoinResult ?g r) (LFGMgr_on_queue i (LFGQueue_RemoveFromQueue ?g) m)"
    using assms by (simp add: LFGMgr_JoinLfg_def Let_def i_def [symmetric] r_def)
  then have "LFGMgr_GetState ?g m' = LFGMgr_GetState ?g m"
    and q: "LFGMgr_queue i m' = LFGQueue_RemoveFromQueue ?g (LFGMgr_queue i m)"
    by (simp_all add: lfg_tell_def LFGMgr_on_queue_def LFGMgr_GetState_def LFGMgr_queue_def)
  moreover have "map_of (queue_view (LFGQueue_RemoveFromQueue ?g (LFGMgr_queue i m))) ?g = None"
    by (simp add: view_RemoveFromQueue)
  ultimately show ?thesis using assms(3) by (simp add: i_def [symmetric] q map_of_queue_view)
qed

theorem JoinLfg_refused_stays_queued_witness:
  "LFGMgr_GetState (lp_guid demo_player) (LFGMgr_JoinLfg lfg_world demo_stores demo_player None 8 [2] demo_joined) = LFG_STATE_QUEUED \<and>
   map_of (lq_QueueDataStore (LFGMgr_queue (LFGMgr_GetQueueId (lp_guid demo_player) demo_joined)
     (LFGMgr_JoinLfg lfg_world demo_stores demo_player None 8 [2] demo_joined))) (lp_guid demo_player) = None"
proof (rule JoinLfg_refused_stays_queued)
  show "LFGMgr_GetState (lp_guid demo_player) demo_joined = LFG_STATE_QUEUED" by code_simp
  show "jr_result (jc_data (join_check demo_stores demo_player None False [2])) \<noteq> LFG_JOIN_OK" by code_simp
qed (simp_all add: demo_player_def)

end
