(* ===== verification/GroupMgr.thy ===== *)
theory GroupMgr
  imports ObjectGuid
begin

section \<open>The registry of groups (game/Groups/GroupMgr.cpp)\<close>

text \<open>
  The groups by the counter of their guid and by the id they have in the data base, and the next of each to give
  away. A group is known by its address; \<open>gm_StopNow\<close> is the request to stop the server. \<open>GenerateNewGroupDbStoreId\<close> looks for the next id without a group;
  the test for an overflow that follows can never be true, since the next id has always changed by then.
\<close>

record GroupMgr =
  gm_NextGroupDbStoreId :: u32
  gm_NextGroupId :: u64
  gm_GroupStore :: "(u64 \<times> nat) list"
  gm_GroupDbStore :: "nat option list"
  gm_StopNow :: bool

definition GroupMgr_init :: GroupMgr where
  "GroupMgr_init = \<lparr>gm_NextGroupDbStoreId = 1, gm_NextGroupId = 1, gm_GroupStore = [], gm_GroupDbStore = [],
     gm_StopNow = False\<rparr>"

definition gm_unused :: "nat \<Rightarrow> nat option list \<Rightarrow> bool" where
  "gm_unused i store \<longleftrightarrow> i < length store \<and> store ! i = None \<or> i \<ge> length store"

function gm_search :: "nat option list \<Rightarrow> nat \<Rightarrow> nat option" where
  "gm_search store i = (if i < 0xFFFFFFFF then (if gm_unused i store then Some i else gm_search store (Suc i)) else None)"
  by pat_completeness auto
termination gm_search by (relation "measure (\<lambda>(store, i). 0xFFFFFFFF - i)") auto

declare gm_search.simps [simp del]

definition GroupMgr_GenerateNewGroupDbStoreId :: "GroupMgr \<Rightarrow> u32 \<times> GroupMgr" where
  "GroupMgr_GenerateNewGroupDbStoreId m =
     (let newStorageId = gm_NextGroupDbStoreId m; i = newStorageId + 1;
          found = (case gm_search (gm_GroupDbStore m) (unat i) of Some j \<Rightarrow> of_nat j | None \<Rightarrow> i)
      in (newStorageId, m\<lparr>gm_NextGroupDbStoreId := found, gm_StopNow := gm_StopNow m \<or> newStorageId = found\<rparr>))"

definition gm_put :: "nat \<Rightarrow> nat option \<Rightarrow> nat option list \<Rightarrow> nat option list" where
  "gm_put i v store = (store @ replicate (Suc i - length store) None)[i := v]"

definition GroupMgr_RegisterGroupDbStoreId :: "u32 \<Rightarrow> nat \<Rightarrow> GroupMgr \<Rightarrow> GroupMgr" where
  "GroupMgr_RegisterGroupDbStoreId storageId grp m =
     m\<lparr>gm_GroupDbStore := gm_put (unat storageId) (Some grp) (gm_GroupDbStore m)\<rparr>"

definition GroupMgr_FreeGroupDbStoreId :: "u32 \<Rightarrow> GroupMgr \<Rightarrow> GroupMgr" where
  "GroupMgr_FreeGroupDbStoreId storageId m =
     m\<lparr>gm_NextGroupDbStoreId := (if storageId < gm_NextGroupDbStoreId m then storageId else gm_NextGroupDbStoreId m),
       gm_GroupDbStore := (gm_GroupDbStore m)[unat storageId := None]\<rparr>"

definition GroupMgr_GetGroupByDbStoreId :: "u32 \<Rightarrow> GroupMgr \<Rightarrow> nat option" where
  "GroupMgr_GetGroupByDbStoreId storageId m =
     (if unat storageId < length (gm_GroupDbStore m) then gm_GroupDbStore m ! unat storageId else None)"

text \<open>When the guids run out the server is told to stop; the id is given all the same.\<close>

definition GroupMgr_GenerateGroupId :: "GroupMgr \<Rightarrow> u64 \<times> GroupMgr" where
  "GroupMgr_GenerateGroupId m =
     (gm_NextGroupId m, m\<lparr>gm_NextGroupId := gm_NextGroupId m + 1,
                           gm_StopNow := gm_StopNow m \<or> gm_NextGroupId m \<ge> 0xFFFFFFFE\<rparr>)"

definition GroupMgr_GetGroupByGUID :: "ObjectGuid \<Rightarrow> GroupMgr \<Rightarrow> nat option" where
  "GroupMgr_GetGroupByGUID guid m = map_of (gm_GroupStore m) (ObjectGuid_GetCounter guid)"

definition GroupMgr_AddGroup :: "ObjectGuid \<Rightarrow> nat \<Rightarrow> GroupMgr \<Rightarrow> GroupMgr" where
  "GroupMgr_AddGroup guid grp m = m\<lparr>gm_GroupStore := om_put (ObjectGuid_GetCounter guid) grp (gm_GroupStore m)\<rparr>"

definition GroupMgr_RemoveGroup :: "ObjectGuid \<Rightarrow> GroupMgr \<Rightarrow> GroupMgr" where
  "GroupMgr_RemoveGroup guid m = m\<lparr>gm_GroupStore := om_del (ObjectGuid_GetCounter guid) (gm_GroupStore m)\<rparr>"

text \<open>A row of the groups that are loaded at start: its id moves the next one only when they are equal.\<close>

definition gm_load :: "u32 \<times> nat \<Rightarrow> GroupMgr \<Rightarrow> GroupMgr" where
  "gm_load = (\<lambda>(storageId, grp) m.
     let m1 = GroupMgr_RegisterGroupDbStoreId storageId grp m
     in if storageId = gm_NextGroupDbStoreId m1 then m1\<lparr>gm_NextGroupDbStoreId := gm_NextGroupDbStoreId m1 + 1\<rparr> else m1)"

subsection \<open>The ids in use\<close>

text \<open>What the registry promises of data base ids: the next one is the least positive id without a group.\<close>

definition gm_ids :: "GroupMgr \<Rightarrow> nat set" where
  "gm_ids m = {i. i < length (gm_GroupDbStore m) \<and> gm_GroupDbStore m ! i \<noteq> None}"

definition gm_ok :: "GroupMgr \<Rightarrow> bool" where
  "gm_ok m \<longleftrightarrow> unat (gm_NextGroupDbStoreId m) \<notin> gm_ids m \<and> 0 < gm_NextGroupDbStoreId m \<and>
     (\<forall>i. 0 < i \<and> i < unat (gm_NextGroupDbStoreId m) \<longrightarrow> i \<in> gm_ids m)"

lemma gm_unused_iff: "gm_unused i (gm_GroupDbStore m) \<longleftrightarrow> i \<notin> gm_ids m"
  by (auto simp: gm_unused_def gm_ids_def)

lemma gm_ids_put:
  "gm_ids (m\<lparr>gm_GroupDbStore := gm_put i v (gm_GroupDbStore m)\<rparr>) = (if v = None then gm_ids m - {i} else insert i (gm_ids m))"
proof (rule set_eqI)
  fix j
  show "j \<in> gm_ids (m\<lparr>gm_GroupDbStore := gm_put i v (gm_GroupDbStore m)\<rparr>) \<longleftrightarrow>
      j \<in> (if v = None then gm_ids m - {i} else insert i (gm_ids m))"
    by (auto simp: gm_ids_def gm_put_def nth_list_update nth_append)
qed

lemma gm_ids_register: "gm_ids (GroupMgr_RegisterGroupDbStoreId i grp m) = insert (unat i) (gm_ids m)"
  by (simp add: GroupMgr_RegisterGroupDbStoreId_def gm_ids_put)

lemma gm_ids_free: "gm_ids (GroupMgr_FreeGroupDbStoreId i m) = gm_ids m - {unat i}"
proof (rule set_eqI)
  fix j
  show "j \<in> gm_ids (GroupMgr_FreeGroupDbStoreId i m) \<longleftrightarrow> j \<in> gm_ids m - {unat i}"
    by (cases "j = unat i") (auto simp: GroupMgr_FreeGroupDbStoreId_def gm_ids_def)
qed

lemma gm_search_SomeD:
  "gm_search store i = Some j \<Longrightarrow> i \<le> j \<and> j < 0xFFFFFFFF \<and> gm_unused j store \<and> (\<forall>k. i \<le> k \<and> k < j \<longrightarrow> \<not> gm_unused k store)"
proof (induction store i rule: gm_search.induct)
  case (1 store i)
  show ?case
  proof (cases "i < 0xFFFFFFFF \<and> \<not> gm_unused i store")
    case True
    with 1 have "Suc i \<le> j \<and> j < 0xFFFFFFFF \<and> gm_unused j store \<and> (\<forall>k. Suc i \<le> k \<and> k < j \<longrightarrow> \<not> gm_unused k store)"
      by (simp add: gm_search.simps [of store i])
    with True show ?thesis by (metis Suc_leD Suc_leI le_neq_implies_less)
  next
    case False
    with 1 (2) show ?thesis by (auto simp: gm_search.simps [of store i] split: if_splits)
  qed
qed

lemma gm_search_finds: "i \<le> j \<Longrightarrow> j < 0xFFFFFFFF \<Longrightarrow> gm_unused j store \<Longrightarrow> gm_search store i \<noteq> None"
proof (induction store i rule: gm_search.induct)
  case (1 store i)
  show ?case
  proof (cases "i < 0xFFFFFFFF \<and> \<not> gm_unused i store")
    case True
    with 1 (4) have "i \<noteq> j" by auto
    with True 1 have "gm_search store (Suc i) \<noteq> None" by simp
    with True show ?thesis by (simp add: gm_search.simps [of store i])
  next
    case False
    with 1 (2,3) show ?thesis by (simp add: gm_search.simps [of store i])
  qed
qed

text \<open>An id is generated and registered in one go.\<close>

definition gm_create :: "nat \<Rightarrow> GroupMgr \<Rightarrow> u32 \<times> GroupMgr" where
  "gm_create grp m = (let (i, m1) = GroupMgr_GenerateNewGroupDbStoreId m in (i, GroupMgr_RegisterGroupDbStoreId i grp m1))"

lemma gm_create_id: "fst (gm_create grp m) = gm_NextGroupDbStoreId m"
  by (simp add: gm_create_def GroupMgr_GenerateNewGroupDbStoreId_def Let_def)

lemma gm_create_ids: "gm_ids (snd (gm_create grp m)) = insert (unat (gm_NextGroupDbStoreId m)) (gm_ids m)"
  by (simp add: gm_create_def GroupMgr_GenerateNewGroupDbStoreId_def Let_def gm_ids_register) (simp add: gm_ids_def)

lemma gm_create_ok:
  assumes ok: "gm_ok m" and room: "length (gm_GroupDbStore m) < 0xFFFFFFFE" "unat (gm_NextGroupDbStoreId m) < 0xFFFFFFFE"
  shows "gm_ok (snd (gm_create grp m))"
proof -
  let ?n = "gm_NextGroupDbStoreId m" and ?s = "gm_GroupDbStore m"
  have n1: "unat (?n + 1) = Suc (unat ?n)" using room (2) by (simp add: unat_word_ariths)
  let ?j0 = "max (Suc (unat ?n)) (length ?s)"
  have "gm_search ?s (Suc (unat ?n)) \<noteq> None"
    by (rule gm_search_finds [of _ ?j0]) (use room in \<open>auto simp: gm_unused_def\<close>)
  then obtain j where j: "gm_search ?s (Suc (unat ?n)) = Some j" by auto
  from gm_search_SomeD [OF this]
  have props: "Suc (unat ?n) \<le> j" "j < 0xFFFFFFFF" "j \<notin> gm_ids m" "\<And>k. Suc (unat ?n) \<le> k \<Longrightarrow> k < j \<Longrightarrow> k \<in> gm_ids m"
    by (auto simp: gm_unused_iff)
  have j_word: "unat (of_nat j :: u32) = j" using props (2) by (simp add: unat_of_nat)
  have nxt: "gm_NextGroupDbStoreId (snd (gm_create grp m)) = of_nat j"
    by (simp add: gm_create_def GroupMgr_GenerateNewGroupDbStoreId_def GroupMgr_RegisterGroupDbStoreId_def Let_def n1 j)
  have "i \<in> insert (unat ?n) (gm_ids m)" if "0 < i" "i < j" for i
    using ok props (4) [of i] that by (cases "i < unat ?n"; cases "i = unat ?n") (auto simp: gm_ok_def)
  moreover have "j \<notin> insert (unat ?n) (gm_ids m)" "(0 :: u32) < of_nat j"
    using props j_word by (auto simp: word_less_nat_alt)
  ultimately show ?thesis unfolding gm_ok_def gm_create_ids nxt j_word by blast
qed

lemma gm_free_ok:
  assumes "gm_ok m" "unat i \<in> gm_ids m" "0 < i"
  shows "gm_ok (GroupMgr_FreeGroupDbStoreId i m)"
  using assms unfolding gm_ok_def gm_ids_free
  by (auto simp: GroupMgr_FreeGroupDbStoreId_def word_less_nat_alt)

subsection \<open>Ids are not given twice\<close>

datatype gm_op = GmCreate nat | GmDisband u32

fun gm_step :: "gm_op \<Rightarrow> u32 set \<times> GroupMgr \<Rightarrow> u32 set \<times> GroupMgr" where
  "gm_step (GmCreate grp) (live, m) = (let (i, m1) = gm_create grp m in (insert i live, m1))"
| "gm_step (GmDisband i) (live, m) = (if i \<in> live then (live - {i}, GroupMgr_FreeGroupDbStoreId i m) else (live, m))"

definition gm_size :: "GroupMgr \<Rightarrow> nat" where
  "gm_size m = max (unat (gm_NextGroupDbStoreId m)) (length (gm_GroupDbStore m))"

definition gm_inv :: "nat \<Rightarrow> u32 set \<times> GroupMgr \<Rightarrow> bool" where
  "gm_inv n = (\<lambda>(live, m). gm_ok m \<and> gm_ids m = unat ` live \<and> 0 \<notin> live \<and> gm_size m \<le> n)"

lemma gm_search_upto: "gm_search store i = Some j \<Longrightarrow> j \<le> max i (length store)"
  using gm_search_SomeD [of store i j] by (metis gm_unused_def le_max_iff_disj linorder_not_le max.coboundedI2 nat_le_linear)

lemma gm_create_size:
  assumes "gm_size m < 0xFFFFFFFE"
  shows "gm_size (snd (gm_create grp m)) \<le> Suc (gm_size m)"
proof -
  let ?n = "gm_NextGroupDbStoreId m" and ?s = "gm_GroupDbStore m"
  have n1: "unat (?n + 1) = Suc (unat ?n)" using assms by (simp add: unat_word_ariths gm_size_def)
  have len: "length (gm_put (unat ?n) (Some grp) ?s) \<le> Suc (gm_size m)" by (simp add: gm_put_def gm_size_def)
  show ?thesis
  proof (cases "gm_search ?s (Suc (unat ?n))")
    case None
    then show ?thesis using len assms
      by (simp add: gm_create_def GroupMgr_GenerateNewGroupDbStoreId_def GroupMgr_RegisterGroupDbStoreId_def Let_def n1 gm_size_def)
  next
    case (Some j)
    with gm_search_upto [OF Some] gm_search_SomeD [OF Some] have "j \<le> Suc (gm_size m)" "unat (of_nat j :: u32) = j"
      by (auto simp: gm_size_def unat_of_nat)
    with Some len show ?thesis
      by (simp add: gm_create_def GroupMgr_GenerateNewGroupDbStoreId_def GroupMgr_RegisterGroupDbStoreId_def Let_def n1 gm_size_def)
  qed
qed

lemma gm_step_inv:
  assumes "gm_inv n s" "n < 0xFFFFFFFE"
  shows "gm_inv (Suc n) (gm_step op s)"
proof (cases op)
  case (GmCreate grp)
  obtain live m where s: "s = (live, m)" by (cases s)
  have h: "gm_ok m" "gm_ids m = unat ` live" "0 \<notin> live" "gm_size m \<le> n" using assms (1) by (auto simp: s gm_inv_def)
  have "gm_ok (snd (gm_create grp m))" by (rule gm_create_ok) (use h assms (2) in \<open>auto simp: gm_size_def\<close>)
  moreover have "gm_size (snd (gm_create grp m)) \<le> Suc n" using gm_create_size [of m grp] h (4) assms (2) by simp
  moreover have "0 < gm_NextGroupDbStoreId m" using h (1) by (simp add: gm_ok_def)
  ultimately show ?thesis
    using h gm_create_ids [of grp m] gm_create_id [of grp m]
    by (cases "gm_create grp m") (auto simp: GmCreate s gm_inv_def)
next
  case (GmDisband i)
  obtain live m where s: "s = (live, m)" by (cases s)
  have h: "gm_ok m" "gm_ids m = unat ` live" "0 \<notin> live" "gm_size m \<le> n" using assms (1) by (auto simp: s gm_inv_def)
  show ?thesis
  proof (cases "i \<in> live")
    case True
    have "gm_size (GroupMgr_FreeGroupDbStoreId i m) \<le> gm_size m"
      by (auto simp: gm_size_def GroupMgr_FreeGroupDbStoreId_def word_less_nat_alt)
    moreover have "gm_ok (GroupMgr_FreeGroupDbStoreId i m)"
      by (rule gm_free_ok) (use h True in \<open>auto simp: word_gt_0\<close>)
    moreover have "gm_ids (GroupMgr_FreeGroupDbStoreId i m) = unat ` (live - {i})"
      unfolding gm_ids_free h (2) by (auto simp: word_unat_eq_iff)
    ultimately show ?thesis using True h by (simp add: GmDisband s gm_inv_def)
  next
    case False
    with h show ?thesis by (simp add: GmDisband s gm_inv_def)
  qed
qed

lemma gm_run_inv: "gm_inv n s \<Longrightarrow> n + length ops < 0xFFFFFFFE \<Longrightarrow> gm_inv (n + length ops) (fold gm_step ops s)"
proof (induction ops arbitrary: n s)
  case (Cons op ops)
  then have "gm_inv (Suc n) (gm_step op s)" by (intro gm_step_inv) auto
  from Cons.IH [OF this] Cons.prems (2) show ?case by simp
qed simp

lemma gm_load_fields:
  "gm_ids (gm_load (i, a) m) = insert (unat i) (gm_ids m)"
  "gm_NextGroupDbStoreId (gm_load (i, a) m) = (if i = gm_NextGroupDbStoreId m then i + 1 else gm_NextGroupDbStoreId m)"
  by (auto simp: gm_load_def Let_def GroupMgr_RegisterGroupDbStoreId_def gm_ids_put [simplified] intro: arg_cong [where f = "\<lambda>x. x"])
    (auto simp: gm_ids_def gm_put_def nth_list_update nth_append split: if_splits)

lemma gm_load_inv:
  assumes inv: "gm_inv n (live, m)" and "n < 0xFFFFFFFE" "unat i < n" "0 < i" "\<forall>j \<in> live. j < i"
  shows "gm_inv n (insert i live, gm_load (i, a) m)"
proof -
  let ?n = "gm_NextGroupDbStoreId m"
  have h: "gm_ok m" "gm_ids m = unat ` live" "0 \<notin> live" "gm_size m \<le> n" using inv by (auto simp: gm_inv_def)
  have below: "unat i \<notin> gm_ids m" using assms (5) by (auto simp: h (2) word_less_nat_alt)
  have le: "unat ?n \<le> unat i"
  proof (rule ccontr)
    assume "\<not> unat ?n \<le> unat i"
    moreover have "0 < unat i" using assms (4) by (simp add: word_less_nat_alt)
    ultimately show False using h (1) below by (auto simp: gm_ok_def)
  qed
  have suc: "unat (i + 1) = Suc (unat i)" using assms (2,3) by (simp add: unat_word_ariths)
  have above: "Suc (unat i) \<notin> gm_ids m" using assms (5) by (auto simp: h (2) word_less_nat_alt)
  have "gm_ok (gm_load (i, a) m)"
  proof (cases "i = ?n")
    case True
    have "k \<in> insert (unat i) (gm_ids m)" if "0 < k" "k < Suc (unat i)" for k
      using h (1) that True by (cases "k = unat i") (auto simp: gm_ok_def)
    moreover have "0 < i + 1" using suc by (simp add: word_less_nat_alt)
    ultimately show ?thesis using above suc unfolding gm_ok_def gm_load_fields
      by (simp add: True [symmetric])
  next
    case False
    then have "unat i \<noteq> unat ?n" by (simp add: word_unat_eq_iff)
    with h (1) False show ?thesis unfolding gm_ok_def gm_load_fields by auto
  qed
  moreover have "gm_size (gm_load (i, a) m) \<le> n"
    using h (4) assms (3) suc
    by (auto simp: gm_size_def gm_load_def Let_def GroupMgr_RegisterGroupDbStoreId_def gm_put_def)
  ultimately show ?thesis using h assms (4) by (auto simp: gm_inv_def gm_load_fields)
qed

lemma gm_loads_inv:
  "gm_inv n (live, m) \<Longrightarrow> n < 0xFFFFFFFE \<Longrightarrow> sorted_wrt (<) (map fst rows) \<Longrightarrow>
    list_all (\<lambda>(i, a). 0 < i \<and> unat i < n \<and> (\<forall>j \<in> live. j < i)) rows \<Longrightarrow>
    gm_inv n (live \<union> fst ` set rows, fold gm_load rows m)"
proof (induction rows arbitrary: live m)
  case (Cons r rows)
  obtain i a where r: "r = (i, a)" by (cases r)
  have "gm_inv n (insert i live, gm_load (i, a) m)" by (rule gm_load_inv) (use Cons.prems in \<open>auto simp: r\<close>)
  moreover have "list_all (\<lambda>(k, b). 0 < k \<and> unat k < n \<and> (\<forall>j \<in> insert i live. j < k)) rows"
    using Cons.prems (3,4) by (fastforce simp: r list_all_iff)
  ultimately have "gm_inv n (insert i live \<union> fst ` set rows, fold gm_load rows (gm_load (i, a) m))"
    using Cons.IH [of "insert i live" "gm_load (i, a) m"] Cons.prems (2,3) by simp
  then show ?case by (simp add: r)
qed simp

text \<open>C36: The registry of groups gives the data base ids of groups away as it should: after loading the rows of the
  groups in the order of their ids, and after any sequence of creations and disbandings, the ids in its table are
  those of the groups that exist, and the next one to be given is the least positive id that no group has.\<close>

theorem GroupMgr_least_id:
  assumes "sorted_wrt (<) (map fst rows)" "list_all (\<lambda>(i, a). 0 < i \<and> unat i < n) rows" "0 < n" "n + length ops < 0xFFFFFFFE"
    and "(live, m) = fold gm_step ops (fst ` set rows, fold gm_load rows GroupMgr_init)"
  shows "gm_ids m = unat ` live \<and> fst (gm_create grp m) \<notin> live \<and>
    unat (fst (gm_create grp m)) = (LEAST k. 0 < k \<and> k \<notin> unat ` live)"
proof -
  have "gm_inv n ({}, GroupMgr_init)"
    using assms (3) by (auto simp: gm_inv_def gm_ok_def gm_ids_def gm_size_def GroupMgr_init_def)
  from gm_loads_inv [OF this _ assms (1)] assms (2,4)
  have "gm_inv n (fst ` set rows, fold gm_load rows GroupMgr_init)" by (simp add: list_all_iff split_beta)
  from gm_run_inv [OF this assms (4)] have inv: "gm_ok m" "gm_ids m = unat ` live"
    unfolding assms (5) [symmetric] by (auto simp: gm_inv_def)
  let ?i = "gm_NextGroupDbStoreId m"
  have i: "unat ?i \<notin> unat ` live" "0 < unat ?i" "\<And>k. 0 < k \<Longrightarrow> k < unat ?i \<Longrightarrow> k \<in> unat ` live"
    using inv by (auto simp: gm_ok_def word_less_nat_alt)
  have "unat ?i = (LEAST k. 0 < k \<and> k \<notin> unat ` live)"
    by (rule sym, rule Least_equality) (use i in \<open>auto simp: linorder_not_less [symmetric]\<close>)
  moreover have "?i \<notin> live" using i (1) by blast
  ultimately show ?thesis using inv (2) by (simp add: gm_create_id)
qed

theorem GroupMgr_least_id_witness:
  "gm_ids (snd (fold gm_step [GmDisband 2, GmCreate 9, GmCreate 7] (fst ` set [(2, 4), (3, 5)], fold gm_load [(2, 4), (3, 5)] GroupMgr_init)))
    = {1, 2, 3}"
proof -
  have eq: "({2, 1, 3}, snd (fold gm_step [GmDisband 2, GmCreate 9, GmCreate 7]
      (fst ` set [(2, 4), (3, 5)], fold gm_load [(2, 4), (3, 5)] GroupMgr_init)))
    = fold gm_step [GmDisband 2, GmCreate 9, GmCreate 7] (fst ` set [(2, 4), (3, 5)], fold gm_load [(2, 4), (3, 5)] GroupMgr_init)"
    by (simp add: gm_load_def GroupMgr_init_def GroupMgr_RegisterGroupDbStoreId_def gm_put_def
        GroupMgr_FreeGroupDbStoreId_def gm_create_def GroupMgr_GenerateNewGroupDbStoreId_def gm_unused_def
        gm_search.simps [of _ 2] gm_search.simps [of _ 3] gm_search.simps [of _ 4])
  from GroupMgr_least_id [OF _ _ _ _ eq, of 4] show ?thesis by (simp add: insert_commute)
qed

end
