(* ===== verification/GroupData.thy ===== *)
theory GroupData
  imports LFGScripts GroupMgr
begin

section \<open>Groups: data, references and packets (game/Groups/Group.h, Group.cpp)\<close>

text \<open>
  A group of players: its members with their subgroups, flags and roles, the invitations, the loot rolls, the
  ready check, markers and instance binds. The references between players and groups (\<open>GroupReference\<close>) are kept
  on both sides, as in the code: the player knows its group and its original group, and the group the list of
  its references, the newest first. A group is known by its address, since it has no guid before it is created.
  What a group changes outside itself is the \<open>GroupWorld\<close>: the players, the references, the dungeon finder, the
  loots and the groups bound to each instance; packets, statements for the data base and calls into other parts
  are its list of events. Players that are connected have a session. What does not change is the \<open>GroupEnv\<close>.
\<close>

subsection \<open>Enumerations\<close>

definition MAX_RAID_SIZE :: nat where "MAX_RAID_SIZE = 40"
definition MAX_RAID_SUBGROUPS :: nat where "MAX_RAID_SUBGROUPS = MAX_RAID_SIZE div MAX_GROUP_SIZE"
definition TARGET_ICONS_COUNT :: nat where "TARGET_ICONS_COUNT = 8"
definition RAID_MARKERS_COUNT :: nat where "RAID_MARKERS_COUNT = 8"

lemmas group_sizes = MAX_RAID_SIZE_def MAX_RAID_SUBGROUPS_def MAX_GROUP_SIZE_def TARGET_ICONS_COUNT_def RAID_MARKERS_COUNT_def

datatype RollVote = PASS | NEED | GREED | DISENCHANT | NOT_EMITED_YET | NOT_VALID

datatype GroupCategory = GROUP_CATEGORY_HOME | GROUP_CATEGORY_INSTANCE

definition GroupCategory_value :: "GroupCategory \<Rightarrow> u8" where
  "GroupCategory_value c = (case c of GROUP_CATEGORY_HOME \<Rightarrow> 0 | GROUP_CATEGORY_INSTANCE \<Rightarrow> 1)"

definition GROUP_TYPE_NONE :: u8 where "GROUP_TYPE_NONE = 0"
definition GROUP_TYPE_NORMAL :: u8 where "GROUP_TYPE_NORMAL = 1"

definition GROUP_FLAG_NONE :: u32 where "GROUP_FLAG_NONE = 0"
definition GROUP_FLAG_FAKE_RAID :: u32 where "GROUP_FLAG_FAKE_RAID = 1"
definition GROUP_FLAG_RAID :: u32 where "GROUP_FLAG_RAID = 2"
definition GROUP_FLAG_LFG_RESTRICTED :: u32 where "GROUP_FLAG_LFG_RESTRICTED = 4"
definition GROUP_FLAG_LFG :: u32 where "GROUP_FLAG_LFG = 8"
definition GROUP_FLAG_DESTROYED :: u32 where "GROUP_FLAG_DESTROYED = 16"
definition GROUP_FLAG_EVERYONE_ASSISTANT :: u32 where "GROUP_FLAG_EVERYONE_ASSISTANT = 64"
definition GROUP_MASK_BGRAID :: u32 where "GROUP_MASK_BGRAID = GROUP_FLAG_FAKE_RAID OR GROUP_FLAG_RAID"

definition MEMBER_FLAG_ASSISTANT :: u8 where "MEMBER_FLAG_ASSISTANT = 1"
definition MEMBER_FLAG_MAINTANK :: u8 where "MEMBER_FLAG_MAINTANK = 2"
definition MEMBER_FLAG_MAINASSIST :: u8 where "MEMBER_FLAG_MAINASSIST = 4"

definition MEMBER_STATUS_OFFLINE :: u8 where "MEMBER_STATUS_OFFLINE = 0"
definition MEMBER_STATUS_ONLINE :: u8 where "MEMBER_STATUS_ONLINE = 1"
definition MEMBER_STATUS_PVP :: u8 where "MEMBER_STATUS_PVP = 2"

datatype LootMethod = FREE_FOR_ALL | MASTER_LOOT | GROUP_LOOT | PERSONAL_LOOT

definition LootMethod_value :: "LootMethod \<Rightarrow> u8" where
  "LootMethod_value l = (case l of FREE_FOR_ALL \<Rightarrow> 0 | MASTER_LOOT \<Rightarrow> 2 | GROUP_LOOT \<Rightarrow> 3 | PERSONAL_LOOT \<Rightarrow> 5)"

definition ITEM_QUALITY_UNCOMMON :: u8 where "ITEM_QUALITY_UNCOMMON = 2"
definition ITEM_QUALITY_ARTIFACT :: u8 where "ITEM_QUALITY_ARTIFACT = 6"

definition DIFFICULTY_10_N :: u8 where "DIFFICULTY_10_N = 3"
definition DIFFICULTY_NORMAL_RAID :: u8 where "DIFFICULTY_NORMAL_RAID = 14"

subsection \<open>Members, rolls and groups\<close>

record MemberSlot =
  ms_guid :: ObjectGuid
  ms_name :: string
  ms_class :: u8
  ms_group :: u8
  ms_flags :: u8
  ms_roles :: u8
  ms_readyChecked :: bool

text \<open>A roll names its loot by the guid of the loot; it is valid as long as that loot exists.\<close>

record Roll =
  rl_loot :: ObjectGuid
  rl_itemid :: u32
  rl_itemCount :: u8
  rl_playerVote :: "(ObjectGuid \<times> RollVote) list"
  rl_totalPlayersRolling :: u8
  rl_totalNeed :: u8
  rl_totalGreed :: u8
  rl_totalPass :: u8
  rl_itemSlot :: u8
  rl_rollVoteMask :: u8

record RaidMarker =
  rm_map :: u32
  rm_position :: "rat \<times> rat \<times> rat"
  rm_TransportGUID :: ObjectGuid

text \<open>An instance bind: the id of the instance and whether the bind is permanent.\<close>

record InstanceGroupBind =
  ib_save :: u32
  ib_perm :: bool

record Group =
  gr_this :: nat
  gr_memberSlots :: "MemberSlot list"
  gr_invitees :: "ObjectGuid list"
  gr_leaderGuid :: ObjectGuid
  gr_leaderName :: string
  gr_groupFlags :: u32
  gr_groupCategory :: GroupCategory
  gr_dungeonDifficulty :: u8
  gr_raidDifficulty :: u8
  gr_legacyRaidDifficulty :: u8
  gr_bgGroup :: bool
  gr_bfGroup :: bool
  gr_targetIcons :: "ObjectGuid list"
  gr_lootMethod :: LootMethod
  gr_lootThreshold :: u8
  gr_looterGuid :: ObjectGuid
  gr_masterLooterGuid :: ObjectGuid
  gr_RollId :: "Roll list"
  gr_boundInstances :: "((u8 \<times> u32) \<times> InstanceGroupBind) list"
  gr_subGroupsCounts :: "u8 list option"
  gr_guid :: ObjectGuid
  gr_maxEnchantingLevel :: u32
  gr_dbStoreId :: u32
  gr_readyCheckStarted :: bool
  gr_readyCheckTimer :: "32 word"
  gr_markers :: "RaidMarker option list"
  gr_activeMarkers :: u32

definition Group_init :: "nat \<Rightarrow> Group" where
  "Group_init address = \<lparr>gr_this = address, gr_memberSlots = [], gr_invitees = [], gr_leaderGuid = ObjectGuid_Empty,
     gr_leaderName = [], gr_groupFlags = GROUP_FLAG_NONE, gr_groupCategory = GROUP_CATEGORY_HOME,
     gr_dungeonDifficulty = DIFFICULTY_NORMAL, gr_raidDifficulty = DIFFICULTY_NORMAL_RAID,
     gr_legacyRaidDifficulty = DIFFICULTY_10_N, gr_bgGroup = False, gr_bfGroup = False,
     gr_targetIcons = replicate TARGET_ICONS_COUNT ObjectGuid_Empty, gr_lootMethod = FREE_FOR_ALL,
     gr_lootThreshold = ITEM_QUALITY_UNCOMMON, gr_looterGuid = ObjectGuid_Empty, gr_masterLooterGuid = ObjectGuid_Empty,
     gr_RollId = [], gr_boundInstances = [], gr_subGroupsCounts = None, gr_guid = ObjectGuid_Empty,
     gr_maxEnchantingLevel = 0, gr_dbStoreId = 0, gr_readyCheckStarted = False, gr_readyCheckTimer = 0,
     gr_markers = replicate RAID_MARKERS_COUNT None, gr_activeMarkers = 0\<rparr>"

subsection \<open>Properties of a group\<close>

definition Group_isLFGGroup :: "Group \<Rightarrow> bool" where "Group_isLFGGroup g \<longleftrightarrow> gr_groupFlags g AND GROUP_FLAG_LFG \<noteq> 0"
definition Group_isRaidGroup :: "Group \<Rightarrow> bool" where "Group_isRaidGroup g \<longleftrightarrow> gr_groupFlags g AND GROUP_FLAG_RAID \<noteq> 0"
definition Group_isBGGroup :: "Group \<Rightarrow> bool" where "Group_isBGGroup g \<longleftrightarrow> gr_bgGroup g"
definition Group_isBFGroup :: "Group \<Rightarrow> bool" where "Group_isBFGroup g \<longleftrightarrow> gr_bfGroup g"

definition Group_GetMembersCount :: "Group \<Rightarrow> u32" where "Group_GetMembersCount g = of_nat (length (gr_memberSlots g))"
definition Group_IsCreated :: "Group \<Rightarrow> bool" where "Group_IsCreated g \<longleftrightarrow> Group_GetMembersCount g > 0"

definition Group_IsFull :: "Group \<Rightarrow> bool" where
  "Group_IsFull g = (if Group_isRaidGroup g then length (gr_memberSlots g) \<ge> MAX_RAID_SIZE
     else length (gr_memberSlots g) \<ge> MAX_GROUP_SIZE)"

definition Group_getMemberSlot :: "ObjectGuid \<Rightarrow> Group \<Rightarrow> MemberSlot option" where
  "Group_getMemberSlot guid g = find (\<lambda>s. ms_guid s = guid) (gr_memberSlots g)"

text \<open>A change of the slot of a member goes to the first slot with its guid.\<close>

fun slot_upd :: "ObjectGuid \<Rightarrow> (MemberSlot \<Rightarrow> MemberSlot) \<Rightarrow> MemberSlot list \<Rightarrow> MemberSlot list" where
  "slot_upd guid f [] = []"
| "slot_upd guid f (s # ss) = (if ms_guid s = guid then f s # ss else s # slot_upd guid f ss)"

fun slot_erase :: "ObjectGuid \<Rightarrow> MemberSlot list \<Rightarrow> MemberSlot list" where
  "slot_erase guid [] = []"
| "slot_erase guid (s # ss) = (if ms_guid s = guid then ss else s # slot_erase guid ss)"

definition Group_upd_slot :: "ObjectGuid \<Rightarrow> (MemberSlot \<Rightarrow> MemberSlot) \<Rightarrow> Group \<Rightarrow> Group" where
  "Group_upd_slot guid f g = g\<lparr>gr_memberSlots := slot_upd guid f (gr_memberSlots g)\<rparr>"

definition Group_IsMember :: "ObjectGuid \<Rightarrow> Group \<Rightarrow> bool" where
  "Group_IsMember guid g \<longleftrightarrow> Group_getMemberSlot guid g \<noteq> None"

definition Group_IsLeader :: "ObjectGuid \<Rightarrow> Group \<Rightarrow> bool" where "Group_IsLeader guid g \<longleftrightarrow> gr_leaderGuid g = guid"

definition Group_GetMemberGUID :: "string \<Rightarrow> Group \<Rightarrow> ObjectGuid" where
  "Group_GetMemberGUID name g =
     (case find (\<lambda>s. ms_name s = name) (gr_memberSlots g) of Some s \<Rightarrow> ms_guid s | None \<Rightarrow> ObjectGuid_Empty)"

definition Group_IsAssistant :: "ObjectGuid \<Rightarrow> Group \<Rightarrow> bool" where
  "Group_IsAssistant guid g =
     (case Group_getMemberSlot guid g of None \<Rightarrow> False | Some s \<Rightarrow> ms_flags s AND MEMBER_FLAG_ASSISTANT \<noteq> 0)"

definition Group_SameSubGroup :: "ObjectGuid \<Rightarrow> ObjectGuid \<Rightarrow> Group \<Rightarrow> bool" where
  "Group_SameSubGroup guid1 guid2 g =
     (case (Group_getMemberSlot guid2 g, Group_getMemberSlot guid1 g) of
        (Some s2, Some s1) \<Rightarrow> ms_group s1 = ms_group s2 | _ \<Rightarrow> False)"

text \<open>The counters are an array of eight; an access outside is undefined in the code.\<close>

definition Group_HasFreeSlotSubGroup :: "u8 \<Rightarrow> Group \<Rightarrow> bool" where
  "Group_HasFreeSlotSubGroup subgroup g =
     (case gr_subGroupsCounts g of None \<Rightarrow> False | Some c \<Rightarrow> unat (c ! unat subgroup) < MAX_GROUP_SIZE)"

definition Group_GetMemberGroup :: "ObjectGuid \<Rightarrow> Group \<Rightarrow> u8" where
  "Group_GetMemberGroup guid g =
     (case Group_getMemberSlot guid g of None \<Rightarrow> of_nat (MAX_RAID_SUBGROUPS + 1) | Some s \<Rightarrow> ms_group s)"

definition Group_GetLfgRoles :: "ObjectGuid \<Rightarrow> Group \<Rightarrow> u8" where
  "Group_GetLfgRoles guid g = (case Group_getMemberSlot guid g of None \<Rightarrow> 0 | Some s \<Rightarrow> ms_roles s)"

definition Group_GetLooterGuid :: "Group \<Rightarrow> ObjectGuid" where
  "Group_GetLooterGuid g = (if gr_lootMethod g = FREE_FOR_ALL then ObjectGuid_Empty else gr_looterGuid g)"

definition Group_initRaidSubGroupsCounter :: "Group \<Rightarrow> Group" where
  "Group_initRaidSubGroupsCounter g =
     g\<lparr>gr_subGroupsCounts := Some (fold (\<lambda>s c. c[unat (ms_group s) := c ! unat (ms_group s) + 1])
         (gr_memberSlots g) (replicate MAX_RAID_SUBGROUPS 0))\<rparr>"

definition Group_SubGroupCounterIncrease :: "u8 \<Rightarrow> Group \<Rightarrow> Group" where
  "Group_SubGroupCounterIncrease subgroup g =
     g\<lparr>gr_subGroupsCounts := map_option (\<lambda>c. c[unat subgroup := c ! unat subgroup + 1]) (gr_subGroupsCounts g)\<rparr>"

definition Group_SubGroupCounterDecrease :: "u8 \<Rightarrow> Group \<Rightarrow> Group" where
  "Group_SubGroupCounterDecrease subgroup g =
     g\<lparr>gr_subGroupsCounts := map_option (\<lambda>c. c[unat subgroup := c ! unat subgroup - 1]) (gr_subGroupsCounts g)\<rparr>"

definition Group_RemoveUniqueGroupMemberFlag :: "u8 \<Rightarrow> Group \<Rightarrow> Group" where
  "Group_RemoveUniqueGroupMemberFlag flag g =
     g\<lparr>gr_memberSlots := map (\<lambda>s. if ms_flags s AND flag \<noteq> 0 then s\<lparr>ms_flags := ms_flags s AND NOT flag\<rparr> else s)
         (gr_memberSlots g)\<rparr>"

definition ToggleGroupMemberFlag :: "u8 \<Rightarrow> bool \<Rightarrow> MemberSlot \<Rightarrow> MemberSlot" where
  "ToggleGroupMemberFlag flag apply_flag s =
     s\<lparr>ms_flags := (if apply_flag then ms_flags s OR flag else ms_flags s AND NOT flag)\<rparr>"

subsection \<open>The players and the world\<close>

text \<open>What a player keeps of its groups: the group it is in and its original group (while in a battleground
  raid), each with its subgroup; the group that invited it; the byte with the type of its parties; and its
  instance binds, by difficulty and map.\<close>

datatype GroupRef = MainRef | OriginalRef

record InstancePlayerBind =
  pb_save :: u32
  pb_perm :: bool
  pb_extendState :: bool

record GroupPlayer =
  gp_group :: "(nat \<times> u8) option"
  gp_originalGroup :: "(nat \<times> u8) option"
  gp_groupInvite :: "nat option"
  gp_partyType :: u8
  gp_sequences :: "GroupCategory \<Rightarrow> ObjectGuid \<times> 32 word"
  gp_leaderFlag :: bool
  gp_dungeonDifficulty :: u8
  gp_raidDifficulty :: u8
  gp_legacyRaidDifficulty :: u8
  gp_InstanceValid :: bool
  gp_binds :: "((u8 \<times> u32) \<times> InstancePlayerBind) list"

text \<open>The items of a loot: its items and its quest items, with the flags the rolls change.\<close>

record LootItem =
  lo_itemid :: u32
  lo_count :: u32
  lo_freeforall :: bool
  lo_follow_loot_rules :: bool
  lo_is_looted :: bool
  lo_is_blocked :: bool
  lo_is_underthreshold :: bool

record Loot =
  lo_items :: "LootItem list"
  lo_quest_items :: "LootItem list"
  lo_unlootedCount :: u32

record PartyPlayerInfo =
  pi_GUID :: ObjectGuid
  pi_Name :: string
  pi_Class :: u8
  pi_Status :: u8
  pi_Subgroup :: u8
  pi_Flags :: u8
  pi_RolesAssigned :: u8

record PartyLFGInfo =
  li_MyFlags :: u8
  li_Slot :: u32
  li_MyRandomSlot :: u32

record PartyUpdate =
  pu_PartyFlags :: u16
  pu_PartyIndex :: u8
  pu_PartyType :: u8
  pu_PartyGUID :: ObjectGuid
  pu_LeaderGUID :: ObjectGuid
  pu_MyIndex :: int
  pu_SequenceNum :: "32 word"
  pu_PlayerList :: "PartyPlayerInfo list"
  pu_LfgInfos :: "PartyLFGInfo option"
  pu_LootSettings :: "(u8 \<times> u8 \<times> ObjectGuid) option"
  pu_DifficultySettings :: "(u32 \<times> u32 \<times> u32) option"

datatype group_packet =
    SMSG_PARTY_UPDATE PartyUpdate
  | SMSG_GROUP_NEW_LEADER string "8 word"
  | SMSG_GROUP_UNINVITE
  | SMSG_GROUP_DESTROYED
  | SMSG_GROUP_DECLINE string
  | SMSG_PARTY_INVITE ObjectGuid u32 bool
  | SMSG_PARTY_COMMAND_RESULT u8 string u8 u32
  | SMSG_ROLE_CHANGED_INFORM "8 word" ObjectGuid ObjectGuid u8 u8
  | SMSG_ROLE_POLL_INFORM "8 word" ObjectGuid
  | SMSG_MINIMAP_PING ObjectGuid "rat \<times> rat"
  | SMSG_READY_CHECK_STARTED ObjectGuid "8 word" ObjectGuid u32
  | SMSG_READY_CHECK_RESPONSE ObjectGuid ObjectGuid bool
  | SMSG_READY_CHECK_COMPLETED "8 word" ObjectGuid
  | SMSG_SEND_RAID_TARGET_UPDATE_SINGLE u8 ObjectGuid ObjectGuid u8
  | SMSG_SEND_RAID_TARGET_UPDATE_ALL "8 word" "(u8 \<times> ObjectGuid) list"
  | SMSG_RAID_MARKERS_CHANGED "8 word" u32 "RaidMarker list"
  | SMSG_LOOT_LIST ObjectGuid ObjectGuid "ObjectGuid option" "ObjectGuid option"
  | SMSG_MASTER_LOOT_CANDIDATE_LIST u8 "ObjectGuid list"
  | SMSG_LOOT_ROLL ObjectGuid u8 ObjectGuid int u8
  | SMSG_LOOT_START_ROLL ObjectGuid u8 u32 u32 u8 LootMethod
  | SMSG_LOOT_ROLL_WON ObjectGuid u8 ObjectGuid int u8
  | SMSG_LOOT_ALL_PASSED ObjectGuid u8
  | SMSG_LOOT_ROLLS_COMPLETE ObjectGuid u8

datatype group_sql =
    CHAR_INS_GROUP u32 u64 u8 u64 u8 "ObjectGuid list" u8 u32 u32 u32 u64
  | CHAR_UPD_GROUP_TYPE u8 u32
  | CHAR_UPD_GROUP_LEADER u64 u32
  | CHAR_DEL_GROUP u32
  | CHAR_INS_GROUP_MEMBER u32 u64 u8 u8 u8
  | CHAR_DEL_GROUP_MEMBER u64
  | CHAR_DEL_GROUP_MEMBER_ALL u32
  | CHAR_UPD_GROUP_MEMBER_SUBGROUP u8 u64
  | CHAR_UPD_GROUP_MEMBER_FLAG u8 u64
  | CHAR_UPD_GROUP_DIFFICULTY u8 u32
  | CHAR_UPD_GROUP_RAID_DIFFICULTY u8 u32
  | CHAR_UPD_GROUP_LEGACY_RAID_DIFFICULTY u8 u32
  | CHAR_REP_GROUP_INSTANCE u32 u32 bool
  | CHAR_DEL_GROUP_INSTANCE_PERM_BINDING u32 u32
  | CHAR_DEL_GROUP_INSTANCE_BY_GUID u32 u32
  | CHAR_DEL_GROUP_INSTANCE_BY_INSTANCE u32
  | CHAR_DEL_CHAR_INSTANCE_BY_INSTANCE_GUID u64 u32
  | CHAR_DEL_LFG_DATA u32

text \<open>What ends a call without a result: a failed assertion, which stops the server, and a walk over the list of rolls
  that steps on from its end.\<close>

datatype group_error = GroupAssertFailed | RollIteratorPastEnd

text \<open>Calls into other parts. Disenchanting tells whether what comes of the item is stored, or sent in a mail.\<close>

datatype group_event =
    GroupSend ObjectGuid group_packet
  | GroupSql group_sql
  | PlayerResetInstances ObjectGuid bool bool
  | SendDungeonDifficulty ObjectGuid
  | SendRaidDifficulty ObjectGuid bool
  | UpdateForQuestWorldObjects ObjectGuid
  | UpdateObjectVisibility ObjectGuid
  | SetGroupUpdateFlags ObjectGuid
  | UpdatePlayerOutOfRange ObjectGuid "ObjectGuid list"
  | ExchangePartyFields ObjectGuid "ObjectGuid list"
  | ForceGroupValuesUpdate ObjectGuid
  | RemoveAllGroupBuffsFromCaster ObjectGuid ObjectGuid
  | SendCalendarRaidLockoutRemoved ObjectGuid u32
  | InstanceSave_RemovePlayer u32 ObjectGuid
  | InstanceSave_DeleteFromDB u32
  | UpdateRollCriteria ObjectGuid u8 u32 u8
  | UpdateCastCriteria ObjectGuid u32
  | StoreNewItem ObjectGuid u32 u32
  | SendEquipError ObjectGuid u32
  | GiveDisenchantLoot ObjectGuid u32 bool
  | NotifyItemRemoved ObjectGuid u8
  | SetGroupLootTimer ObjectGuid ObjectGuid
  | SendResetInstance ObjectGuid bool u32
  | InstanceMap_Reset u32 u8
  | ClearBgRaid nat

record GroupWorld =
  gw_player :: "ObjectGuid \<Rightarrow> GroupPlayer"
  gw_links :: "nat \<Rightarrow> (ObjectGuid \<times> GroupRef) list"
  gw_lfg :: LFGMgr
  gw_loot :: "(ObjectGuid \<times> Loot) list"
  gw_saveGroups :: "u32 \<Rightarrow> nat list"
  gw_mgr :: GroupMgr
  gw_sent :: "group_event list"

text \<open>What the groups read of the rest of the server. \<open>ge_downscale\<close> is the difficulty a map has for a wanted
  one, \<open>ge_takeover\<close> the instance of the dungeon a player stands in when no player is saved to it,
  \<open>ge_random_dungeon\<close> whether the client data lists a dungeon as random, \<open>ge_map_reset\<close> whether an instance is empty after
  its map is reset by a method.\<close>

record GroupEnv =
  ge_lfg :: LfgWorld
  ge_stores :: LFGStores
  ge_name :: "ObjectGuid \<Rightarrow> string"
  ge_class :: "ObjectGuid \<Rightarrow> u8"
  ge_enchanting :: "ObjectGuid \<Rightarrow> u32"
  ge_alive :: "ObjectGuid \<Rightarrow> bool"
  ge_map :: "ObjectGuid \<Rightarrow> u32"
  ge_map_is_dungeon :: "ObjectGuid \<Rightarrow> bool"
  ge_game_master :: "ObjectGuid \<Rightarrow> bool"
  ge_logging_out :: "ObjectGuid \<Rightarrow> bool"
  ge_CheckInstanceValidity :: "ObjectGuid \<Rightarrow> bool"
  ge_random_dungeon :: "u32 \<Rightarrow> bool"
  ge_save_difficulty :: "u32 \<Rightarrow> u8"
  ge_save_map :: "u32 \<Rightarrow> u32"
  ge_save_CanReset :: "u32 \<Rightarrow> bool"
  ge_map_loaded :: "u32 \<Rightarrow> bool"
  ge_downscale :: "u32 \<Rightarrow> u8 \<Rightarrow> u8"
  ge_takeover :: "ObjectGuid \<Rightarrow> u32 option"
  ge_map_is_raid :: "u32 \<Rightarrow> bool option"
  ge_map_reset :: "u32 \<Rightarrow> u8 \<Rightarrow> bool"
  ge_map_players :: "u32 \<Rightarrow> bool"
  ge_reset_announce :: bool

definition ge_connected :: "GroupEnv \<Rightarrow> ObjectGuid \<Rightarrow> bool" where "ge_connected e guid = lw_connected (ge_lfg e) guid"
definition ge_in_world :: "GroupEnv \<Rightarrow> ObjectGuid \<Rightarrow> bool" where "ge_in_world e guid = lw_in_world (ge_lfg e) guid"

definition grp_tell :: "group_event \<Rightarrow> GroupWorld \<Rightarrow> GroupWorld" where
  "grp_tell ev w = w\<lparr>gw_sent := gw_sent w @ [ev]\<rparr>"

definition grp_sql :: "Group \<Rightarrow> group_sql \<Rightarrow> GroupWorld \<Rightarrow> GroupWorld" where
  "grp_sql g stmt w = (if \<not> Group_isBGGroup g \<and> \<not> Group_isBFGroup g then grp_tell (GroupSql stmt) w else w)"

definition gw_upd_player :: "ObjectGuid \<Rightarrow> (GroupPlayer \<Rightarrow> GroupPlayer) \<Rightarrow> GroupWorld \<Rightarrow> GroupWorld" where
  "gw_upd_player guid f w = w\<lparr>gw_player := (gw_player w)(guid := f (gw_player w guid))\<rparr>"

definition gw_on_lfg :: "(LFGMgr \<Rightarrow> LFGMgr) \<Rightarrow> GroupWorld \<Rightarrow> GroupWorld" where
  "gw_on_lfg f w = w\<lparr>gw_lfg := f (gw_lfg w)\<rparr>"

subsection \<open>References\<close>

definition gp_ref :: "GroupRef \<Rightarrow> GroupPlayer \<Rightarrow> (nat \<times> u8) option" where
  "gp_ref r p = (case r of MainRef \<Rightarrow> gp_group p | OriginalRef \<Rightarrow> gp_originalGroup p)"

definition gp_set_ref :: "GroupRef \<Rightarrow> (nat \<times> u8) option \<Rightarrow> GroupPlayer \<Rightarrow> GroupPlayer" where
  "gp_set_ref r v p = (case r of MainRef \<Rightarrow> p\<lparr>gp_group := v\<rparr> | OriginalRef \<Rightarrow> p\<lparr>gp_originalGroup := v\<rparr>)"

definition GroupReference_unlink :: "ObjectGuid \<Rightarrow> GroupRef \<Rightarrow> GroupWorld \<Rightarrow> GroupWorld" where
  "GroupReference_unlink guid r w =
     (case gp_ref r (gw_player w guid) of
        None \<Rightarrow> w
      | Some (a, sub) \<Rightarrow>
          (gw_upd_player guid (gp_set_ref r None) w)
            \<lparr>gw_links := (gw_links w)(a := filter (\<lambda>x. x \<noteq> (guid, r)) (gw_links w a))\<rparr>)"

definition GroupReference_link :: "ObjectGuid \<Rightarrow> GroupRef \<Rightarrow> nat \<Rightarrow> u8 \<Rightarrow> GroupWorld \<Rightarrow> GroupWorld" where
  "GroupReference_link guid r a sub w =
     (let w1 = GroupReference_unlink guid r w
      in (gw_upd_player guid (gp_set_ref r (Some (a, sub))) w1)
           \<lparr>gw_links := (gw_links w1)(a := (guid, r) # gw_links w1 a)\<rparr>)"

definition Group_DelinkMember :: "ObjectGuid \<Rightarrow> Group \<Rightarrow> GroupWorld \<Rightarrow> GroupWorld" where
  "Group_DelinkMember guid g w =
     (case find (\<lambda>(p, r). p = guid) (gw_links w (gr_this g)) of
        None \<Rightarrow> w | Some (p, r) \<Rightarrow> GroupReference_unlink p r w)"

definition Player_GetGroup :: "ObjectGuid \<Rightarrow> GroupWorld \<Rightarrow> nat option" where
  "Player_GetGroup guid w = map_option fst (gp_group (gw_player w guid))"

definition Player_GetOriginalGroup :: "ObjectGuid \<Rightarrow> GroupWorld \<Rightarrow> nat option" where
  "Player_GetOriginalGroup guid w = map_option fst (gp_originalGroup (gw_player w guid))"

definition Player_SetGroup :: "ObjectGuid \<Rightarrow> (nat \<times> u8) option \<Rightarrow> GroupWorld \<Rightarrow> GroupWorld" where
  "Player_SetGroup guid v w =
     grp_tell (UpdateObjectVisibility guid)
       (case v of None \<Rightarrow> GroupReference_unlink guid MainRef w | Some (a, sub) \<Rightarrow> GroupReference_link guid MainRef a sub w)"

definition Player_SetOriginalGroup :: "ObjectGuid \<Rightarrow> (nat \<times> u8) option \<Rightarrow> GroupWorld \<Rightarrow> GroupWorld" where
  "Player_SetOriginalGroup guid v w =
     (case v of None \<Rightarrow> GroupReference_unlink guid OriginalRef w | Some (a, sub) \<Rightarrow> GroupReference_link guid OriginalRef a sub w)"

definition Player_SetBattlegroundOrBattlefieldRaid :: "ObjectGuid \<Rightarrow> nat \<Rightarrow> u8 \<Rightarrow> GroupWorld \<Rightarrow> GroupWorld" where
  "Player_SetBattlegroundOrBattlefieldRaid guid a sub w =
     GroupReference_link guid MainRef a sub
       (GroupReference_unlink guid MainRef (Player_SetOriginalGroup guid (gp_group (gw_player w guid)) w))"

definition Player_RemoveFromBattlegroundOrBattlefieldRaid :: "ObjectGuid \<Rightarrow> GroupWorld \<Rightarrow> GroupWorld" where
  "Player_RemoveFromBattlegroundOrBattlefieldRaid guid w =
     (let w1 = GroupReference_unlink guid MainRef w;
          w2 = (case gp_originalGroup (gw_player w1 guid) of
                  None \<Rightarrow> w1 | Some (a, sub) \<Rightarrow> GroupReference_link guid MainRef a sub w1)
      in Player_SetOriginalGroup guid None w2)"

definition Player_SetGroupInvite :: "ObjectGuid \<Rightarrow> nat option \<Rightarrow> GroupWorld \<Rightarrow> GroupWorld" where
  "Player_SetGroupInvite guid v = gw_upd_player guid (\<lambda>p. p\<lparr>gp_groupInvite := v\<rparr>)"

text \<open>The mask \<open>0xFF\<close> covers both halves of the byte when the category is home.\<close>

definition Player_SetPartyType :: "ObjectGuid \<Rightarrow> GroupCategory \<Rightarrow> u8 \<Rightarrow> GroupWorld \<Rightarrow> GroupWorld" where
  "Player_SetPartyType guid category typ =
     gw_upd_player guid (\<lambda>p.
       (let shift = (case category of GROUP_CATEGORY_HOME \<Rightarrow> 0 | GROUP_CATEGORY_INSTANCE \<Rightarrow> 4)
        in p\<lparr>gp_partyType := (gp_partyType p AND NOT (push_bit shift 0xFF)) OR push_bit shift typ\<rparr>))"

definition Player_ResetGroupUpdateSequenceIfNeeded :: "ObjectGuid \<Rightarrow> Group \<Rightarrow> GroupWorld \<Rightarrow> GroupWorld" where
  "Player_ResetGroupUpdateSequenceIfNeeded guid g =
     gw_upd_player guid (\<lambda>p.
       if fst (gp_sequences p (gr_groupCategory g)) \<noteq> gr_guid g
       then p\<lparr>gp_sequences := (gp_sequences p)(gr_groupCategory g := (gr_guid g, 1))\<rparr> else p)"

definition Player_NextGroupUpdateSequenceNumber :: "ObjectGuid \<Rightarrow> GroupCategory \<Rightarrow> GroupWorld \<Rightarrow> 32 word \<times> GroupWorld" where
  "Player_NextGroupUpdateSequenceNumber guid category w =
     (case gp_sequences (gw_player w guid) category of
        (sg, n) \<Rightarrow> (n, gw_upd_player guid (\<lambda>p. p\<lparr>gp_sequences := (gp_sequences p)(category := (sg, n + 1))\<rparr>) w))"

subsection \<open>Packets\<close>

text \<open>The online references of a group, as \<open>BroadcastPacket\<close> selects them; \<open>sub\<close> is the subgroup, if only one.\<close>

definition Group_BroadcastPacket :: "group_packet \<Rightarrow> bool \<Rightarrow> u8 option \<Rightarrow> ObjectGuid \<Rightarrow> Group \<Rightarrow> GroupWorld \<Rightarrow> GroupWorld" where
  "Group_BroadcastPacket packet ignorePlayersInBGRaid sub ignored g w =
     fold (\<lambda>(guid, r). if \<not> ObjectGuid_IsEmpty ignored \<and> guid = ignored \<or>
                          ignorePlayersInBGRaid \<and> Player_GetGroup guid w \<noteq> Some (gr_this g) then id
                       else if sub = None \<or> map_option snd (gp_ref r (gw_player w guid)) = sub
                       then grp_tell (GroupSend guid packet) else id) (gw_links w (gr_this g)) w"

definition party_player_info :: "GroupEnv \<Rightarrow> Group \<Rightarrow> MemberSlot \<Rightarrow> PartyPlayerInfo" where
  "party_player_info e g s =
     \<lparr>pi_GUID = ms_guid s, pi_Name = ms_name s, pi_Class = ms_class s,
      pi_Status = (if ge_connected e (ms_guid s) \<and> \<not> ge_logging_out e (ms_guid s)
                   then MEMBER_STATUS_ONLINE OR (if Group_isBGGroup g \<or> Group_isBFGroup g then MEMBER_STATUS_PVP else 0)
                   else MEMBER_STATUS_OFFLINE),
      pi_Subgroup = ms_group s, pi_Flags = ms_flags s, pi_RolesAssigned = ms_roles s\<rparr>"

text \<open>The place of a player among the members: the last one with its guid, or -1.\<close>

definition party_index :: "ObjectGuid \<Rightarrow> MemberSlot list \<Rightarrow> int" where
  "party_index guid slots = fold (\<lambda>(i, s) r. if ms_guid s = guid then int (i mod 256) else r) (enumerate 0 slots) (- 1)"

definition party_random_slot :: "GroupEnv \<Rightarrow> ObjectGuid \<Rightarrow> LFGMgr \<Rightarrow> u32" where
  "party_random_slot e guid m =
     (case LFGMgr_GetSelectedDungeons guid m of [d] \<Rightarrow> if ge_random_dungeon e d then d else 0 | _ \<Rightarrow> 0)"

definition party_update :: "GroupEnv \<Rightarrow> Group \<Rightarrow> ObjectGuid \<Rightarrow> 32 word \<Rightarrow> LFGMgr \<Rightarrow> PartyUpdate" where
  "party_update e g guid sequence m =
     \<lparr>pu_PartyFlags = ucast (gr_groupFlags g), pu_PartyIndex = GroupCategory_value (gr_groupCategory g),
      pu_PartyType = (if Group_IsCreated g then GROUP_TYPE_NORMAL else GROUP_TYPE_NONE),
      pu_PartyGUID = gr_guid g, pu_LeaderGUID = gr_leaderGuid g, pu_MyIndex = party_index guid (gr_memberSlots g),
      pu_SequenceNum = sequence, pu_PlayerList = map (party_player_info e g) (gr_memberSlots g),
      pu_LfgInfos = (if Group_isLFGGroup g
        then Some \<lparr>li_MyFlags = (if LFGMgr_GetState (gr_guid g) m = LFG_STATE_FINISHED_DUNGEON then 2 else 0),
                   li_Slot = GetLFGDungeonEntry (ge_stores e) (LFGMgr_GetDungeon (gr_guid g) True m),
                   li_MyRandomSlot = party_random_slot e guid m\<rparr> else None),
      pu_LootSettings = (if Group_GetMembersCount g > 1
        then Some (LootMethod_value (gr_lootMethod g), gr_lootThreshold g,
                   if gr_lootMethod g = MASTER_LOOT then gr_masterLooterGuid g else ObjectGuid_Empty) else None),
      pu_DifficultySettings = (if Group_GetMembersCount g > 1
        then Some (ucast (gr_dungeonDifficulty g), ucast (gr_raidDifficulty g), ucast (gr_legacyRaidDifficulty g)) else None)\<rparr>"

text \<open>\<open>SendUpdateToPlayer\<close> with the slot of the player at hand.\<close>

definition Group_SendUpdateToPlayer :: "GroupEnv \<Rightarrow> Group \<Rightarrow> ObjectGuid \<Rightarrow> GroupWorld \<Rightarrow> GroupWorld" where
  "Group_SendUpdateToPlayer e g guid w =
     (if \<not> ge_connected e guid \<or> Player_GetGroup guid w \<noteq> Some (gr_this g) then w
      else if Group_getMemberSlot guid g = None then w
      else
        (let (n, w1) = Player_NextGroupUpdateSequenceNumber guid (gr_groupCategory g) w
         in grp_tell (GroupSend guid (SMSG_PARTY_UPDATE (party_update e g guid n (gw_lfg w1)))) w1))"

definition Group_SendUpdate :: "GroupEnv \<Rightarrow> Group \<Rightarrow> GroupWorld \<Rightarrow> GroupWorld" where
  "Group_SendUpdate e g = fold (\<lambda>s. Group_SendUpdateToPlayer e g (ms_guid s)) (gr_memberSlots g)"

definition Group_SendUpdateDestroyGroupToPlayer :: "Group \<Rightarrow> ObjectGuid \<Rightarrow> GroupWorld \<Rightarrow> GroupWorld" where
  "Group_SendUpdateDestroyGroupToPlayer g guid w =
     (let (n, w1) = Player_NextGroupUpdateSequenceNumber guid (gr_groupCategory g) w
      in grp_tell (GroupSend guid (SMSG_PARTY_UPDATE
           \<lparr>pu_PartyFlags = ucast GROUP_FLAG_DESTROYED, pu_PartyIndex = GroupCategory_value (gr_groupCategory g),
            pu_PartyType = GROUP_TYPE_NONE, pu_PartyGUID = gr_guid g, pu_LeaderGUID = ObjectGuid_Empty, pu_MyIndex = - 1,
            pu_SequenceNum = n, pu_PlayerList = [], pu_LfgInfos = None, pu_LootSettings = None,
            pu_DifficultySettings = None\<rparr>)) w1)"

definition Group_BroadcastGroupUpdate :: "GroupEnv \<Rightarrow> Group \<Rightarrow> GroupWorld \<Rightarrow> GroupWorld" where
  "Group_BroadcastGroupUpdate e g =
     fold (\<lambda>s. if ge_in_world e (ms_guid s) then grp_tell (ForceGroupValuesUpdate (ms_guid s)) else id) (gr_memberSlots g)"

end
