(* ===== verification/GroupSettings.thy ===== *)
theory GroupSettings
  imports GroupData
begin

section \<open>Groups: settings, subgroups and ready checks (game/Groups/Group.cpp)\<close>

text \<open>
  The operations that change a group but not who is in it: the flags and roles of members, the subgroups of a
  raid, the conversions between party, raid and dungeon finder group, loot settings and the turn to loot, target
  icons, raid markers, difficulties and the ready check. Each takes the group and the world and returns both.
\<close>

type_synonym group_state = "Group \<times> GroupWorld"

subsection \<open>Conversions\<close>

definition Group_upd_type :: "Group \<Rightarrow> GroupWorld \<Rightarrow> GroupWorld" where
  "Group_upd_type g = grp_sql g (CHAR_UPD_GROUP_TYPE (ucast (gr_groupFlags g)) (gr_dbStoreId g))"

definition Group_quest_objects :: "GroupEnv \<Rightarrow> Group \<Rightarrow> GroupWorld \<Rightarrow> GroupWorld" where
  "Group_quest_objects e g =
     fold (\<lambda>s. if ge_in_world e (ms_guid s) then grp_tell (UpdateForQuestWorldObjects (ms_guid s)) else id) (gr_memberSlots g)"

definition Group_ConvertToLFG :: "GroupEnv \<Rightarrow> group_state \<Rightarrow> group_state" where
  "Group_ConvertToLFG e = (\<lambda>(g, w).
     let g1 = g\<lparr>gr_groupFlags := gr_groupFlags g OR GROUP_FLAG_LFG OR GROUP_FLAG_LFG_RESTRICTED,
               gr_groupCategory := GROUP_CATEGORY_INSTANCE, gr_lootMethod := GROUP_LOOT\<rparr>
     in (g1, Group_SendUpdate e g1 (Group_upd_type g1 w)))"

definition Group_ConvertToRaid :: "GroupEnv \<Rightarrow> group_state \<Rightarrow> group_state" where
  "Group_ConvertToRaid e = (\<lambda>(g, w).
     let g1 = Group_initRaidSubGroupsCounter (g\<lparr>gr_groupFlags := gr_groupFlags g OR GROUP_FLAG_RAID\<rparr>)
     in (g1, Group_quest_objects e g1 (Group_SendUpdate e g1 (Group_upd_type g1 w))))"

definition Group_ConvertToGroup :: "GroupEnv \<Rightarrow> group_state \<Rightarrow> group_state" where
  "Group_ConvertToGroup e = (\<lambda>(g, w).
     if length (gr_memberSlots g) > 5 then (g, w)
     else
       (let g1 = g\<lparr>gr_groupFlags := GROUP_FLAG_NONE, gr_subGroupsCounts := None\<rparr>
        in (g1, Group_quest_objects e g1 (Group_SendUpdate e g1 (Group_upd_type g1 w)))))"

subsection \<open>Flags, roles and subgroups\<close>

definition Group_SetEveryoneIsAssistant :: "GroupEnv \<Rightarrow> bool \<Rightarrow> group_state \<Rightarrow> group_state" where
  "Group_SetEveryoneIsAssistant e apply_flag = (\<lambda>(g, w).
     let g1 = g\<lparr>gr_groupFlags := (if apply_flag then gr_groupFlags g OR GROUP_FLAG_EVERYONE_ASSISTANT
                                 else gr_groupFlags g AND NOT GROUP_FLAG_EVERYONE_ASSISTANT),
               gr_memberSlots := map (ToggleGroupMemberFlag MEMBER_FLAG_ASSISTANT apply_flag) (gr_memberSlots g)\<rparr>
     in (g1, Group_SendUpdate e g1 w))"

definition Group_SetGroupMemberFlag :: "GroupEnv \<Rightarrow> ObjectGuid \<Rightarrow> bool \<Rightarrow> u8 \<Rightarrow> group_state \<Rightarrow> group_state" where
  "Group_SetGroupMemberFlag e guid apply_flag flag = (\<lambda>(g, w).
     if \<not> Group_isRaidGroup g \<or> Group_getMemberSlot guid g = None \<or>
        flag \<notin> {MEMBER_FLAG_MAINASSIST, MEMBER_FLAG_MAINTANK, MEMBER_FLAG_ASSISTANT} then (g, w)
     else
       (let g1 = (if flag = MEMBER_FLAG_ASSISTANT then g else Group_RemoveUniqueGroupMemberFlag flag g);
            g2 = Group_upd_slot guid (ToggleGroupMemberFlag flag apply_flag) g1;
            w1 = grp_tell (GroupSql (CHAR_UPD_GROUP_MEMBER_FLAG
                   (case Group_getMemberSlot guid g2 of Some s \<Rightarrow> ms_flags s | None \<Rightarrow> 0) (ObjectGuid_GetCounter guid))) w
        in (g2, Group_SendUpdate e g2 w1)))"

definition Group_SetLfgRoles :: "GroupEnv \<Rightarrow> ObjectGuid \<Rightarrow> u8 \<Rightarrow> group_state \<Rightarrow> group_state" where
  "Group_SetLfgRoles e guid roles = (\<lambda>(g, w).
     if Group_getMemberSlot guid g = None then (g, w)
     else (let g1 = Group_upd_slot guid (\<lambda>s. s\<lparr>ms_roles := roles\<rparr>) g in (g1, Group_SendUpdate e g1 w)))"

text \<open>\<open>_setMembersGroup\<close> counts the new subgroup only; nothing calls it.\<close>

definition Group_setMembersGroup :: "ObjectGuid \<Rightarrow> u8 \<Rightarrow> group_state \<Rightarrow> bool \<times> group_state" where
  "Group_setMembersGroup guid sub = (\<lambda>(g, w).
     if Group_getMemberSlot guid g = None then (False, g, w)
     else
       (let g1 = Group_SubGroupCounterIncrease sub (Group_upd_slot guid (\<lambda>s. s\<lparr>ms_group := sub\<rparr>) g)
        in (True, g1, grp_sql g1 (CHAR_UPD_GROUP_MEMBER_SUBGROUP sub (ObjectGuid_GetCounter guid)) w)))"

text \<open>The reference of an online player is told its subgroup.\<close>

definition ref_set_subgroup :: "GroupEnv \<Rightarrow> Group \<Rightarrow> ObjectGuid \<Rightarrow> u8 \<Rightarrow> GroupWorld \<Rightarrow> GroupWorld" where
  "ref_set_subgroup e g guid sub w =
     (if ge_connected e guid
      then gw_upd_player guid
        (if Player_GetGroup guid w = Some (gr_this g)
         then (\<lambda>p. p\<lparr>gp_group := map_option (\<lambda>(a, s). (a, sub)) (gp_group p)\<rparr>)
         else (\<lambda>p. p\<lparr>gp_originalGroup := map_option (\<lambda>(a, s). (a, sub)) (gp_originalGroup p)\<rparr>)) w
      else w)"

definition Group_ChangeMembersGroup :: "GroupEnv \<Rightarrow> ObjectGuid \<Rightarrow> u8 \<Rightarrow> group_state \<Rightarrow> group_state" where
  "Group_ChangeMembersGroup e guid sub = (\<lambda>(g, w).
     if \<not> Group_isRaidGroup g then (g, w)
     else case Group_getMemberSlot guid g of
       None \<Rightarrow> (g, w)
     | Some s \<Rightarrow>
         if ms_group s = sub then (g, w)
         else
           (let g1 = Group_SubGroupCounterDecrease (ms_group s)
                  (Group_SubGroupCounterIncrease sub (Group_upd_slot guid (\<lambda>s. s\<lparr>ms_group := sub\<rparr>) g));
                w1 = grp_sql g1 (CHAR_UPD_GROUP_MEMBER_SUBGROUP sub (ObjectGuid_GetCounter guid)) w;
                w2 = ref_set_subgroup e g1 guid sub w1
            in (g1, Group_SendUpdate e g1 w2)))"

definition Group_SwapMembersGroups :: "GroupEnv \<Rightarrow> ObjectGuid \<Rightarrow> ObjectGuid \<Rightarrow> group_state \<Rightarrow> group_state" where
  "Group_SwapMembersGroups e first second = (\<lambda>(g, w).
     if \<not> Group_isRaidGroup g then (g, w)
     else case (Group_getMemberSlot first g, Group_getMemberSlot second g) of
       (Some s0, Some s1) \<Rightarrow>
         if ms_group s0 = ms_group s1 then (g, w)
         else
           (let g1 = Group_upd_slot second (\<lambda>s. s\<lparr>ms_group := ms_group s0\<rparr>)
                  (Group_upd_slot first (\<lambda>s. s\<lparr>ms_group := ms_group s1\<rparr>) g);
                one = (\<lambda>(guid, sub) w. ref_set_subgroup e g1 guid sub
                         (grp_sql g1 (CHAR_UPD_GROUP_MEMBER_SUBGROUP sub (ObjectGuid_GetCounter guid)) w));
                w1 = fold one [(first, ms_group s1), (second, ms_group s0)] w
            in (g1, Group_SendUpdate e g1 w1))
     | _ \<Rightarrow> (g, w))"

subsection \<open>Loot settings and the turn to loot\<close>

definition Group_SetLootMethod :: "LootMethod \<Rightarrow> Group \<Rightarrow> Group" where "Group_SetLootMethod lootMethod g = g\<lparr>gr_lootMethod := lootMethod\<rparr>"
definition Group_SetLooterGuid :: "ObjectGuid \<Rightarrow> Group \<Rightarrow> Group" where "Group_SetLooterGuid guid g = g\<lparr>gr_looterGuid := guid\<rparr>"
definition Group_SetMasterLooterGuid :: "ObjectGuid \<Rightarrow> Group \<Rightarrow> Group" where "Group_SetMasterLooterGuid guid g = g\<lparr>gr_masterLooterGuid := guid\<rparr>"
definition Group_SetLootThreshold :: "u8 \<Rightarrow> Group \<Rightarrow> Group" where "Group_SetLootThreshold threshold g = g\<lparr>gr_lootThreshold := threshold\<rparr>"

text \<open>The next looter: the first member after the current one who is in the world and near, then the first
  before it. \<open>near\<close> is \<open>IsAtGroupRewardDistance\<close> to the looted object.\<close>

definition looter_split :: "ObjectGuid \<Rightarrow> MemberSlot list \<Rightarrow> MemberSlot list \<times> MemberSlot list" where
  "looter_split guid slots = (takeWhile (\<lambda>s. ms_guid s \<noteq> guid) slots, dropWhile (\<lambda>s. ms_guid s \<noteq> guid) slots)"

definition next_looter :: "GroupEnv \<Rightarrow> (ObjectGuid \<Rightarrow> bool) \<Rightarrow> ObjectGuid \<Rightarrow> MemberSlot list \<Rightarrow> ObjectGuid option" where
  "next_looter e near guid slots =
     (let ready = (\<lambda>s. ge_in_world e (ms_guid s) \<and> near (ms_guid s)); (before, rest) = looter_split guid slots;
          after = (case rest of [] \<Rightarrow> [] | s # ss \<Rightarrow> ss);
          upto = (case rest of [] \<Rightarrow> before | s # ss \<Rightarrow> before @ [s])
      in case find ready after of
           Some s \<Rightarrow> Some (ms_guid s)
         | None \<Rightarrow> map_option ms_guid (find ready upto))"

definition Group_UpdateLooterGuid :: "GroupEnv \<Rightarrow> (ObjectGuid \<Rightarrow> bool) \<Rightarrow> bool \<Rightarrow> group_state \<Rightarrow> group_state" where
  "Group_UpdateLooterGuid e near ifneed = (\<lambda>(g, w).
     if gr_lootMethod g = FREE_FOR_ALL then (g, w)
     else
       (let old = Group_GetLooterGuid g in
        if ifneed \<and> Group_getMemberSlot old g \<noteq> None \<and> ge_in_world e old \<and> near old then (g, w)
        else case next_looter e near old (gr_memberSlots g) of
          Some guid \<Rightarrow>
            if guid \<noteq> old then (let g1 = Group_SetLooterGuid guid g in (g1, Group_SendUpdate e g1 w)) else (g, w)
        | None \<Rightarrow> (let g1 = Group_SetLooterGuid ObjectGuid_Empty g in (g1, Group_SendUpdate e g1 w))))"

definition Group_SendLooter :: "ObjectGuid \<Rightarrow> ObjectGuid \<Rightarrow> bool \<Rightarrow> ObjectGuid option \<Rightarrow> group_state \<Rightarrow> group_state" where
  "Group_SendLooter creature loot overThreshold looter = (\<lambda>(g, w).
     (g, Group_BroadcastPacket (SMSG_LOOT_LIST creature loot
           (if gr_lootMethod g = MASTER_LOOT \<and> overThreshold then Some (gr_masterLooterGuid g) else None) looter)
           False None ObjectGuid_Empty g w))"

definition Group_ResetMaxEnchantingLevel :: "GroupEnv \<Rightarrow> Group \<Rightarrow> Group" where
  "Group_ResetMaxEnchantingLevel e g =
     g\<lparr>gr_maxEnchantingLevel := fold (\<lambda>s lvl. if ge_in_world e (ms_guid s) \<and> lvl < ge_enchanting e (ms_guid s)
                                             then ge_enchanting e (ms_guid s) else lvl) (gr_memberSlots g) 0\<rparr>"

subsection \<open>Target icons and raid markers\<close>

text \<open>The target loses its other icons first; each of them is told to the group as a change of its own.\<close>

definition set_icon :: "u8 \<Rightarrow> ObjectGuid \<Rightarrow> ObjectGuid \<Rightarrow> u8 \<Rightarrow> group_state \<Rightarrow> group_state" where
  "set_icon symbol target changedBy partyIndex = (\<lambda>(g, w).
     let g1 = g\<lparr>gr_targetIcons := (gr_targetIcons g)[unat symbol := target]\<rparr>
     in (g1, Group_BroadcastPacket (SMSG_SEND_RAID_TARGET_UPDATE_SINGLE partyIndex target changedBy symbol)
               True None ObjectGuid_Empty g1 w))"

definition Group_SetTargetIcon :: "u8 \<Rightarrow> ObjectGuid \<Rightarrow> ObjectGuid \<Rightarrow> u8 \<Rightarrow> group_state \<Rightarrow> group_state" where
  "Group_SetTargetIcon symbol target changedBy partyIndex st =
     (if unat symbol \<ge> TARGET_ICONS_COUNT then st
      else
        set_icon symbol target changedBy partyIndex
          (if ObjectGuid_IsEmpty target then st
           else fold (\<lambda>i st. if gr_targetIcons (fst st) ! i = target
                             then set_icon (of_nat i) ObjectGuid_Empty changedBy partyIndex st else st)
                  [0..<TARGET_ICONS_COUNT] st))"

definition Group_SendTargetIconList :: "ObjectGuid \<Rightarrow> 8 word \<Rightarrow> group_state \<Rightarrow> group_state" where
  "Group_SendTargetIconList guid partyIndex = (\<lambda>(g, w).
     (g, grp_tell (GroupSend guid (SMSG_SEND_RAID_TARGET_UPDATE_ALL partyIndex
           (map (\<lambda>i. (of_nat i, gr_targetIcons g ! i)) [0..<TARGET_ICONS_COUNT]))) w))"

text \<open>The markers go to one session, or to the whole group.\<close>

definition Group_SendRaidMarkersChanged :: "ObjectGuid option \<Rightarrow> 8 word \<Rightarrow> group_state \<Rightarrow> group_state" where
  "Group_SendRaidMarkersChanged session partyIndex = (\<lambda>(g, w).
     let packet = SMSG_RAID_MARKERS_CHANGED partyIndex (gr_activeMarkers g)
           (concat (map (\<lambda>m. case m of Some r \<Rightarrow> [r] | None \<Rightarrow> []) (gr_markers g)))
     in (g, case session of Some guid \<Rightarrow> grp_tell (GroupSend guid packet) w
            | None \<Rightarrow> Group_BroadcastPacket packet False None ObjectGuid_Empty g w))"

definition Group_AddRaidMarker :: "u8 \<Rightarrow> RaidMarker \<Rightarrow> group_state \<Rightarrow> group_state" where
  "Group_AddRaidMarker markerId marker = (\<lambda>(g, w).
     if unat markerId \<ge> RAID_MARKERS_COUNT \<or> gr_markers g ! unat markerId \<noteq> None then (g, w)
     else Group_SendRaidMarkersChanged None 0
       (g\<lparr>gr_activeMarkers := gr_activeMarkers g OR push_bit (unat markerId) 1,
          gr_markers := (gr_markers g)[unat markerId := Some marker]\<rparr>, w))"

definition Group_DeleteRaidMarker :: "u8 \<Rightarrow> group_state \<Rightarrow> group_state" where
  "Group_DeleteRaidMarker markerId = (\<lambda>(g, w).
     if unat markerId > RAID_MARKERS_COUNT then (g, w)
     else Group_SendRaidMarkersChanged None 0
       (fold (\<lambda>i g. if gr_markers g ! i \<noteq> None \<and> (unat markerId = i \<or> unat markerId = RAID_MARKERS_COUNT)
                    then g\<lparr>gr_markers := (gr_markers g)[i := None],
                           gr_activeMarkers := gr_activeMarkers g AND NOT (push_bit i 1)\<rparr> else g)
          [0..<RAID_MARKERS_COUNT] g, w))"

subsection \<open>Difficulties\<close>

definition group_each_link :: "Group \<Rightarrow> (ObjectGuid \<Rightarrow> GroupWorld \<Rightarrow> GroupWorld) \<Rightarrow> GroupWorld \<Rightarrow> GroupWorld" where
  "group_each_link g f w = fold (\<lambda>(guid, r). f guid) (gw_links w (gr_this g)) w"

definition Group_SetDungeonDifficultyID :: "u8 \<Rightarrow> group_state \<Rightarrow> group_state" where
  "Group_SetDungeonDifficultyID difficulty = (\<lambda>(g, w).
     let g1 = g\<lparr>gr_dungeonDifficulty := difficulty\<rparr>
     in (g1, group_each_link g1 (\<lambda>guid w. grp_tell (SendDungeonDifficulty guid)
                (gw_upd_player guid (\<lambda>p. p\<lparr>gp_dungeonDifficulty := difficulty\<rparr>) w))
              (grp_sql g1 (CHAR_UPD_GROUP_DIFFICULTY difficulty (gr_dbStoreId g1)) w)))"

definition Group_SetRaidDifficultyID :: "u8 \<Rightarrow> group_state \<Rightarrow> group_state" where
  "Group_SetRaidDifficultyID difficulty = (\<lambda>(g, w).
     let g1 = g\<lparr>gr_raidDifficulty := difficulty\<rparr>
     in (g1, group_each_link g1 (\<lambda>guid w. grp_tell (SendRaidDifficulty guid False)
                (gw_upd_player guid (\<lambda>p. p\<lparr>gp_raidDifficulty := difficulty\<rparr>) w))
              (grp_sql g1 (CHAR_UPD_GROUP_RAID_DIFFICULTY difficulty (gr_dbStoreId g1)) w)))"

definition Group_SetLegacyRaidDifficultyID :: "u8 \<Rightarrow> group_state \<Rightarrow> group_state" where
  "Group_SetLegacyRaidDifficultyID difficulty = (\<lambda>(g, w).
     let g1 = g\<lparr>gr_legacyRaidDifficulty := difficulty\<rparr>
     in (g1, group_each_link g1 (\<lambda>guid w. grp_tell (SendRaidDifficulty guid True)
                (gw_upd_player guid (\<lambda>p. p\<lparr>gp_legacyRaidDifficulty := difficulty\<rparr>) w))
              (grp_sql g1 (CHAR_UPD_GROUP_LEGACY_RAID_DIFFICULTY difficulty (gr_dbStoreId g1)) w)))"

text \<open>\<open>usual\<close> is the flag for legacy raids of the default difficulty of the map, if it has one.\<close>

definition Group_GetDifficultyID :: "bool \<Rightarrow> bool option \<Rightarrow> Group \<Rightarrow> u8" where
  "Group_GetDifficultyID isRaid usual g =
     (if \<not> isRaid then gr_dungeonDifficulty g
      else case usual of None \<Rightarrow> gr_legacyRaidDifficulty g
           | Some legacy \<Rightarrow> if legacy then gr_legacyRaidDifficulty g else gr_raidDifficulty g)"

subsection \<open>The ready check\<close>

definition Group_IsReadyCheckCompleted :: "Group \<Rightarrow> bool" where
  "Group_IsReadyCheckCompleted g \<longleftrightarrow> list_all ms_readyChecked (gr_memberSlots g)"

definition Group_ResetMemberReadyChecked :: "Group \<Rightarrow> Group" where
  "Group_ResetMemberReadyChecked g = g\<lparr>gr_memberSlots := map (\<lambda>s. s\<lparr>ms_readyChecked := False\<rparr>) (gr_memberSlots g)\<rparr>"

definition Group_EndReadyCheck :: "group_state \<Rightarrow> group_state" where
  "Group_EndReadyCheck = (\<lambda>(g, w).
     if \<not> gr_readyCheckStarted g then (g, w)
     else
       (let g1 = Group_ResetMemberReadyChecked (g\<lparr>gr_readyCheckStarted := False, gr_readyCheckTimer := 0\<rparr>)
        in (g1, Group_BroadcastPacket (SMSG_READY_CHECK_COMPLETED 0 (gr_guid g1)) False None ObjectGuid_Empty g1 w)))"

definition Group_SetMemberReadyChecked :: "ObjectGuid \<Rightarrow> group_state \<Rightarrow> group_state" where
  "Group_SetMemberReadyChecked guid = (\<lambda>(g, w).
     let g1 = Group_upd_slot guid (\<lambda>s. s\<lparr>ms_readyChecked := True\<rparr>) g
     in if Group_IsReadyCheckCompleted g1 then Group_EndReadyCheck (g1, w) else (g1, w))"

text \<open>The answer of a member given by its slot, and by its guid.\<close>

definition Group_slot_ready :: "ObjectGuid \<Rightarrow> bool \<Rightarrow> group_state \<Rightarrow> group_state" where
  "Group_slot_ready guid ready = (\<lambda>(g, w).
     Group_SetMemberReadyChecked guid
       (g, Group_BroadcastPacket (SMSG_READY_CHECK_RESPONSE (gr_guid g) guid ready) False None ObjectGuid_Empty g w))"

definition Group_SetMemberReadyCheck :: "ObjectGuid \<Rightarrow> bool \<Rightarrow> group_state \<Rightarrow> group_state" where
  "Group_SetMemberReadyCheck guid ready st =
     (if \<not> gr_readyCheckStarted (fst st) \<or> Group_getMemberSlot guid (fst st) = None then st
      else Group_slot_ready guid ready st)"

definition Group_SetOfflineMembersReadyChecked :: "GroupEnv \<Rightarrow> group_state \<Rightarrow> group_state" where
  "Group_SetOfflineMembersReadyChecked e st =
     fold (\<lambda>s st. if \<not> ge_connected e (ms_guid s) then Group_slot_ready (ms_guid s) False st else st)
       (gr_memberSlots (fst st)) st"

definition Group_StartReadyCheck :: "GroupEnv \<Rightarrow> ObjectGuid \<Rightarrow> 8 word \<Rightarrow> u32 \<Rightarrow> group_state \<Rightarrow> group_state" where
  "Group_StartReadyCheck e starter partyIndex duration = (\<lambda>(g, w).
     if gr_readyCheckStarted g \<or> Group_getMemberSlot starter g = None then (g, w)
     else
       (let g1 = g\<lparr>gr_readyCheckStarted := True, gr_readyCheckTimer := duration\<rparr>;
            (g2, w2) = Group_SetMemberReadyChecked starter (Group_SetOfflineMembersReadyChecked e (g1, w))
        in (g2, Group_BroadcastPacket (SMSG_READY_CHECK_STARTED (gr_guid g2) partyIndex starter duration)
                  False None ObjectGuid_Empty g2 w2)))"

text \<open>The timer is a signed integer.\<close>

definition Group_UpdateReadyCheck :: "u32 \<Rightarrow> group_state \<Rightarrow> group_state" where
  "Group_UpdateReadyCheck diff = (\<lambda>(g, w).
     if \<not> gr_readyCheckStarted g then (g, w)
     else
       (let g1 = g\<lparr>gr_readyCheckTimer := gr_readyCheckTimer g - diff\<rparr>
        in if sint (gr_readyCheckTimer g1) \<le> 0 then Group_EndReadyCheck (g1, w) else (g1, w)))"

definition Group_Update :: "u32 \<Rightarrow> group_state \<Rightarrow> group_state" where
  "Group_Update diff = Group_UpdateReadyCheck diff"

end
