(* ===== verification/GroupRolls.thy ===== *)
theory GroupRolls
  imports GroupSettings
begin

section \<open>Groups: rolling for loot (game/Groups/Group.cpp)\<close>

text \<open>
  Need before greed: \<open>GroupLoot\<close> starts a roll for each item over the threshold, \<open>CountRollVote\<close> takes the choice
  of a player, and \<open>CountTheRoll\<close> ends a roll, when all have chosen or the time is up (\<open>EndRoll\<close>): it draws a number
  for each player with the best kind of choice and gives the item to the highest. A roll is known by its place in
  the list of rolls. What the code asks about items and players is the \<open>LootContext\<close>; of the item in a packet
  only its place in the loot is kept. A choice is whatever the client sends: a roll won by one to disenchant stops the
  server when the item has nothing to be disenchanted to, the failed assertion of \<open>CountTheRoll\<close>. The draws come from the same stream as those of the dungeon finder.
\<close>

definition ROLL_PASS :: u8 where "ROLL_PASS = 0"
definition ROLL_NEED :: u8 where "ROLL_NEED = 1"
definition ROLL_GREED :: u8 where "ROLL_GREED = 2"
definition ROLL_DISENCHANT :: u8 where "ROLL_DISENCHANT = 3"

definition ROLL_FLAG_TYPE_NEED :: u8 where "ROLL_FLAG_TYPE_NEED = 2"
definition ROLL_FLAG_TYPE_DISENCHANT :: u8 where "ROLL_FLAG_TYPE_DISENCHANT = 8"
definition ROLL_ALL_TYPE_NO_DISENCHANT :: u8 where "ROLL_ALL_TYPE_NO_DISENCHANT = 7"

definition RollVote_value :: "RollVote \<Rightarrow> u8" where
  "RollVote_value v = (case v of PASS \<Rightarrow> 0 | NEED \<Rightarrow> 1 | GREED \<Rightarrow> 2 | DISENCHANT \<Rightarrow> 3 | NOT_EMITED_YET \<Rightarrow> 4 | NOT_VALID \<Rightarrow> 5)"

record LootContext =
  lc_near :: "ObjectGuid \<Rightarrow> bool"
  lc_allowed :: "u8 \<Rightarrow> ObjectGuid \<Rightarrow> bool"
  lc_quality :: "u32 \<Rightarrow> u32"
  lc_only_greed :: "u32 \<Rightarrow> bool"
  lc_PassOnGroupLoot :: "ObjectGuid \<Rightarrow> bool"
  lc_CanRoll :: "ObjectGuid \<Rightarrow> u32 \<Rightarrow> bool"
  lc_disenchant_skill :: "u32 \<Rightarrow> ObjectGuid \<Rightarrow> u32 option"
  lc_CanStore :: "ObjectGuid \<Rightarrow> u32 \<Rightarrow> u32 \<Rightarrow> bool"
  lc_map :: u32
  lc_object :: ObjectGuid

definition Roll_init :: "LootItem \<Rightarrow> Roll" where
  "Roll_init li = \<lparr>rl_loot = ObjectGuid_Empty, rl_itemid = lo_itemid li, rl_itemCount = ucast (lo_count li), rl_playerVote = [],
     rl_totalPlayersRolling = 0, rl_totalNeed = 0, rl_totalGreed = 0, rl_totalPass = 0, rl_itemSlot = 0,
     rl_rollVoteMask = ROLL_ALL_TYPE_NO_DISENCHANT\<rparr>"

subsection \<open>Packets of a roll\<close>

text \<open>To everybody who takes part and is connected.\<close>

definition roll_send :: "GroupEnv \<Rightarrow> Roll \<Rightarrow> group_packet \<Rightarrow> GroupWorld \<Rightarrow> GroupWorld" where
  "roll_send e roll packet =
     fold (\<lambda>(guid, v). if ge_connected e guid \<and> v \<noteq> NOT_VALID then grp_tell (GroupSend guid packet) else id) (rl_playerVote roll)"

definition Group_SendLootRoll :: "GroupEnv \<Rightarrow> ObjectGuid \<Rightarrow> int \<Rightarrow> u8 \<Rightarrow> Roll \<Rightarrow> GroupWorld \<Rightarrow> GroupWorld" where
  "Group_SendLootRoll e player number typ roll =
     roll_send e roll (SMSG_LOOT_ROLL (rl_loot roll) (rl_itemSlot roll + 1) player number typ)"

definition Group_SendLootRollWon :: "GroupEnv \<Rightarrow> ObjectGuid \<Rightarrow> int \<Rightarrow> u8 \<Rightarrow> Roll \<Rightarrow> GroupWorld \<Rightarrow> GroupWorld" where
  "Group_SendLootRollWon e winner number typ roll =
     roll_send e roll (SMSG_LOOT_ROLL_WON (rl_loot roll) (rl_itemSlot roll + 1) winner number typ)"

definition Group_SendLootAllPassed :: "GroupEnv \<Rightarrow> Roll \<Rightarrow> GroupWorld \<Rightarrow> GroupWorld" where
  "Group_SendLootAllPassed e roll = roll_send e roll (SMSG_LOOT_ALL_PASSED (rl_loot roll) (rl_itemSlot roll + 1))"

definition Group_SendLootRollsComplete :: "GroupEnv \<Rightarrow> Roll \<Rightarrow> GroupWorld \<Rightarrow> GroupWorld" where
  "Group_SendLootRollsComplete e roll = roll_send e roll (SMSG_LOOT_ROLLS_COMPLETE (rl_loot roll) (rl_itemSlot roll + 1))"

definition Group_SendLootStartRollToPlayer :: "LootContext \<Rightarrow> Group \<Rightarrow> u32 \<Rightarrow> ObjectGuid \<Rightarrow> bool \<Rightarrow> Roll \<Rightarrow> GroupWorld \<Rightarrow> GroupWorld" where
  "Group_SendLootStartRollToPlayer c g countDown p canNeed r =
     (let valid = (if canNeed then rl_rollVoteMask r else rl_rollVoteMask r AND NOT ROLL_FLAG_TYPE_NEED);
          valid1 = (case lc_disenchant_skill c (rl_itemid r) p of
                      Some skill \<Rightarrow> if gr_maxEnchantingLevel g \<ge> skill then valid OR ROLL_FLAG_TYPE_DISENCHANT else valid
                    | None \<Rightarrow> valid)
      in grp_tell (GroupSend p (SMSG_LOOT_START_ROLL (rl_loot r) (rl_itemSlot r + 1) (lc_map c) countDown valid1 (gr_lootMethod g))))"

subsection \<open>Loots\<close>

definition gw_upd_loot :: "ObjectGuid \<Rightarrow> (Loot \<Rightarrow> Loot) \<Rightarrow> GroupWorld \<Rightarrow> GroupWorld" where
  "gw_upd_loot guid f w = w\<lparr>gw_loot := om_upd guid f (gw_loot w)\<rparr>"

definition loot_item :: "u8 \<Rightarrow> Loot \<Rightarrow> LootItem" where
  "loot_item slot l =
     (if unat slot \<ge> length (lo_items l) then lo_quest_items l ! (unat slot - length (lo_items l)) else lo_items l ! unat slot)"

definition loot_upd_item :: "u8 \<Rightarrow> (LootItem \<Rightarrow> LootItem) \<Rightarrow> Loot \<Rightarrow> Loot" where
  "loot_upd_item slot f l =
     (if unat slot \<ge> length (lo_items l)
      then l\<lparr>lo_quest_items := (lo_quest_items l)[unat slot - length (lo_items l) := f (loot_item slot l)]\<rparr>
      else l\<lparr>lo_items := (lo_items l)[unat slot := f (loot_item slot l)]\<rparr>)"

subsection \<open>Starting the rolls\<close>

definition roll_join :: "LootContext \<Rightarrow> bool \<Rightarrow> u8 \<Rightarrow> ObjectGuid \<times> GroupRef \<Rightarrow> Roll \<Rightarrow> Roll" where
  "roll_join c may_pass slot = (\<lambda>(guid, ref) r.
     if lc_allowed c slot guid \<and> lc_near c guid
     then (let passes = may_pass \<and> lc_PassOnGroupLoot c guid
           in r\<lparr>rl_totalPlayersRolling := rl_totalPlayersRolling r + 1,
               rl_playerVote := om_put guid (if passes then PASS else NOT_EMITED_YET) (rl_playerVote r),
               rl_totalPass := (if passes then rl_totalPass r + 1 else rl_totalPass r)\<rparr>)
     else r)"

definition roll_announce :: "GroupEnv \<Rightarrow> LootContext \<Rightarrow> Group \<Rightarrow> Roll \<Rightarrow> GroupWorld \<Rightarrow> GroupWorld" where
  "roll_announce e c g r =
     fold (\<lambda>(p, v). if \<not> ge_connected e p then id
                    else if v = PASS then Group_SendLootRoll e p (- 1) ROLL_PASS r
                    else Group_SendLootStartRollToPlayer c g 60000 p (lc_CanRoll c p (rl_itemid r)) r) (rl_playerVote r)"

definition roll_start :: "GroupEnv \<Rightarrow> LootContext \<Rightarrow> ObjectGuid \<Rightarrow> bool \<Rightarrow> u8 \<Rightarrow> LootItem \<Rightarrow> group_state \<Rightarrow> group_state" where
  "roll_start e c loot quest slot li = (\<lambda>(g, w).
     let r0 = fold (roll_join c (\<not> quest) slot) (filter (\<lambda>(p, r). ge_connected e p) (gw_links w (gr_this g))) (Roll_init li)
     in if rl_totalPlayersRolling r0 = 0 then (g, w)
        else
          (let r = r0\<lparr>rl_loot := loot, rl_itemSlot := slot,
                     rl_rollVoteMask := (if \<not> quest \<and> lc_only_greed c (lo_itemid li)
                       then rl_rollVoteMask r0 AND NOT ROLL_FLAG_TYPE_NEED else rl_rollVoteMask r0)\<rparr>;
               w1 = roll_announce e c g r (gw_upd_loot loot (loot_upd_item slot (\<lambda>i. i\<lparr>lo_is_blocked := True\<rparr>)) w)
           in (g\<lparr>gr_RollId := gr_RollId g @ [r]\<rparr>, grp_tell (SetGroupLootTimer (lc_object c) (gr_guid g)) w1)))"

definition loot_one :: "GroupEnv \<Rightarrow> LootContext \<Rightarrow> ObjectGuid \<Rightarrow> nat \<times> LootItem \<Rightarrow> group_state \<Rightarrow> group_state" where
  "loot_one e c loot = (\<lambda>(i, li) (g, w).
     if lo_freeforall li then (g, w)
     else if lc_quality c (lo_itemid li) \<ge> ucast (gr_lootThreshold g)
     then roll_start e c loot False (of_nat i) li (g, w)
     else (g, gw_upd_loot loot (loot_upd_item (of_nat i) (\<lambda>i. i\<lparr>lo_is_underthreshold := True\<rparr>)) w))"

definition loot_quest_one :: "GroupEnv \<Rightarrow> LootContext \<Rightarrow> ObjectGuid \<Rightarrow> nat \<times> LootItem \<Rightarrow> group_state \<Rightarrow> group_state" where
  "loot_quest_one e c loot = (\<lambda>(i, li) st.
     if \<not> lo_follow_loot_rules li then st else roll_start e c loot True (of_nat i) li st)"

definition Group_GroupLoot :: "GroupEnv \<Rightarrow> LootContext \<Rightarrow> ObjectGuid \<Rightarrow> group_state \<Rightarrow> group_state" where
  "Group_GroupLoot e c loot st =
     (case map_of (gw_loot (snd st)) loot of
        None \<Rightarrow> st
      | Some l \<Rightarrow>
          fold (loot_quest_one e c loot) (enumerate (length (lo_items l)) (lo_quest_items l))
            (fold (loot_one e c loot) (enumerate 0 (lo_items l)) st))"

subsection \<open>Ending a roll\<close>

definition roll_die :: "GroupEnv \<Rightarrow> GroupWorld \<Rightarrow> u8 \<times> GroupWorld" where
  "roll_die e w = (case urand (ge_lfg e) 1 100 (gw_lfg w) of (n, m) \<Rightarrow> (of_nat n, w\<lparr>gw_lfg := m\<rparr>))"

text \<open>One player draws, if its choice is among the wanted ones; the best so far is a number, a player and its choice.\<close>

definition roll_draw :: "GroupEnv \<Rightarrow> Roll \<Rightarrow> RollVote set \<Rightarrow> ObjectGuid \<times> RollVote
    \<Rightarrow> (u8 \<times> ObjectGuid \<times> RollVote) \<times> GroupWorld \<Rightarrow> (u8 \<times> ObjectGuid \<times> RollVote) \<times> GroupWorld" where
  "roll_draw e roll wanted = (\<lambda>(guid, v) (best, w).
     if v \<notin> wanted then (best, w)
     else
       (let (n, w1) = roll_die e w; w2 = Group_SendLootRoll e guid (uint n) (RollVote_value v) roll w1
        in (if fst best < n then (n, guid, v) else best, w2)))"

definition roll_contest :: "GroupEnv \<Rightarrow> Roll \<Rightarrow> RollVote set \<Rightarrow> GroupWorld \<Rightarrow> (u8 \<times> ObjectGuid \<times> RollVote) \<times> GroupWorld" where
  "roll_contest e roll wanted w =
     fold (roll_draw e roll wanted) (rl_playerVote roll) ((0, fst (hd (rl_playerVote roll)), NOT_VALID), w)"

definition roll_take :: "Roll \<Rightarrow> GroupWorld \<Rightarrow> GroupWorld" where
  "roll_take roll w =
     grp_tell (NotifyItemRemoved (rl_loot roll) (rl_itemSlot roll))
       (gw_upd_loot (rl_loot roll) (\<lambda>l. (loot_upd_item (rl_itemSlot roll) (\<lambda>i. i\<lparr>lo_is_looted := True\<rparr>) l)
          \<lparr>lo_unlootedCount := lo_unlootedCount l - 1\<rparr>) w)"

definition roll_unblock :: "Roll \<Rightarrow> GroupWorld \<Rightarrow> GroupWorld" where
  "roll_unblock roll = gw_upd_loot (rl_loot roll) (loot_upd_item (rl_itemSlot roll) (\<lambda>i. i\<lparr>lo_is_blocked := False\<rparr>))"

definition roll_give :: "LootContext \<Rightarrow> Roll \<Rightarrow> u32 \<Rightarrow> ObjectGuid \<Rightarrow> GroupWorld \<Rightarrow> GroupWorld" where
  "roll_give c roll amount winner w =
     (if lc_CanStore c winner (rl_itemid roll) amount
      then grp_tell (StoreNewItem winner (rl_itemid roll) amount) (roll_take roll w)
      else grp_tell (SendEquipError winner (rl_itemid roll)) (roll_unblock roll w))"

text \<open>The winner of a roll by need, and of one by greed. Only a connected winner gets the item.\<close>

definition roll_need :: "GroupEnv \<Rightarrow> LootContext \<Rightarrow> Roll \<Rightarrow> Loot \<Rightarrow> GroupWorld \<Rightarrow> GroupWorld" where
  "roll_need e c roll l w =
     (case roll_contest e roll {NEED} w of ((best, winner, v), w1) \<Rightarrow>
        (let w2 = Group_SendLootRollWon e winner (uint best) ROLL_NEED roll w1 in
         if \<not> ge_connected e winner then w2
         else roll_give c roll (lo_count (loot_item (rl_itemSlot roll) l)) winner
                (grp_tell (UpdateRollCriteria winner ROLL_NEED (rl_itemid roll) best) w2)))"

definition SPELL_DISENCHANT :: u32 where "SPELL_DISENCHANT = 13262"

definition roll_greed :: "GroupEnv \<Rightarrow> LootContext \<Rightarrow> Roll \<Rightarrow> Loot \<Rightarrow> GroupWorld \<Rightarrow> group_error + GroupWorld" where
  "roll_greed e c roll l w =
     (case roll_contest e roll {GREED, DISENCHANT} w of ((best, winner, v), w1) \<Rightarrow>
        (let w2 = Group_SendLootRollWon e winner (uint best) (RollVote_value v) roll w1;
             amount = lo_count (loot_item (rl_itemSlot roll) l) in
         if \<not> ge_connected e winner then Inr w2
         else
           (let w3 = grp_tell (UpdateRollCriteria winner ROLL_GREED (rl_itemid roll) best) w2
            in if v = GREED then Inr (roll_give c roll amount winner w3)
               else if v = DISENCHANT
               then (let w4 = grp_tell (UpdateCastCriteria winner SPELL_DISENCHANT) (roll_take roll w3)
                     in case lc_disenchant_skill c (rl_itemid roll) winner of
                          None \<Rightarrow> Inl GroupAssertFailed
                        | Some skill \<Rightarrow>
                            Inr (grp_tell (GiveDisenchantLoot winner (rl_itemid roll) (lc_CanStore c winner (rl_itemid roll) amount)) w4))
               else Inr w3)))"

definition erase_at :: "nat \<Rightarrow> 'a list \<Rightarrow> 'a list" where
  "erase_at i xs = take i xs @ drop (Suc i) xs"

definition Group_CountTheRoll :: "GroupEnv \<Rightarrow> LootContext \<Rightarrow> nat \<Rightarrow> group_state \<Rightarrow> group_error + group_state" where
  "Group_CountTheRoll e c i = (\<lambda>(g, w).
     let roll = gr_RollId g ! i; g1 = g\<lparr>gr_RollId := erase_at i (gr_RollId g)\<rparr>
     in case map_of (gw_loot w) (rl_loot roll) of
          None \<Rightarrow> Inr (g1, w)
        | Some l \<Rightarrow>
            (case (if rl_totalNeed roll > 0
                   then Inr (if rl_playerVote roll \<noteq> [] then roll_need e c roll l w else w)
                   else if rl_totalGreed roll > 0
                   then (if rl_playerVote roll \<noteq> [] then roll_greed e c roll l w else Inr w)
                   else Inr (roll_unblock roll (Group_SendLootAllPassed e roll w))) of
               Inl err \<Rightarrow> Inl err
             | Inr w1 \<Rightarrow> Inr (g1, Group_SendLootRollsComplete e roll w1)))"

definition roll_complete :: "Roll \<Rightarrow> bool" where
  "roll_complete r \<longleftrightarrow> unat (rl_totalPass r) + unat (rl_totalNeed r) + unat (rl_totalGreed r) \<ge> unat (rl_totalPlayersRolling r)"

definition roll_index :: "(Roll \<Rightarrow> bool) \<Rightarrow> Roll list \<Rightarrow> nat option" where
  "roll_index P rolls = (let i = length (takeWhile (\<lambda>r. \<not> P r) rolls) in if i < length rolls then Some i else None)"

definition Group_GetRoll :: "ObjectGuid \<Rightarrow> u8 \<Rightarrow> group_state \<Rightarrow> nat option" where
  "Group_GetRoll loot slot = (\<lambda>(g, w).
     roll_index (\<lambda>r. map_of (gw_loot w) (rl_loot r) \<noteq> None \<and> rl_loot r = loot \<and> rl_itemSlot r = slot) (gr_RollId g))"

text \<open>One choice: told to the others with the number that stands for it, counted, and remembered.\<close>

definition roll_choose :: "GroupEnv \<Rightarrow> ObjectGuid \<Rightarrow> u8 \<Rightarrow> Roll \<Rightarrow> GroupWorld \<Rightarrow> Roll \<times> GroupWorld" where
  "roll_choose e guid choice r w =
     (let vote = (\<lambda>v r. r\<lparr>rl_playerVote := om_upd guid (\<lambda>_. v) (rl_playerVote r)\<rparr>) in
      if choice = ROLL_PASS
      then (vote PASS (r\<lparr>rl_totalPass := rl_totalPass r + 1\<rparr>), Group_SendLootRoll e guid (- 1) ROLL_PASS r w)
      else if choice = ROLL_NEED
      then (vote NEED (r\<lparr>rl_totalNeed := rl_totalNeed r + 1\<rparr>), Group_SendLootRoll e guid 0 ROLL_NEED r w)
      else if choice = ROLL_GREED
      then (vote GREED (r\<lparr>rl_totalGreed := rl_totalGreed r + 1\<rparr>), Group_SendLootRoll e guid (- 7) ROLL_GREED r w)
      else if choice = ROLL_DISENCHANT
      then (vote DISENCHANT (r\<lparr>rl_totalGreed := rl_totalGreed r + 1\<rparr>), Group_SendLootRoll e guid (- 8) ROLL_DISENCHANT r w)
      else (r, w))"

definition Group_CountRollVote :: "GroupEnv \<Rightarrow> LootContext \<Rightarrow> ObjectGuid \<Rightarrow> ObjectGuid \<Rightarrow> u8 \<Rightarrow> u8 \<Rightarrow> group_state
    \<Rightarrow> group_error + group_state" where
  "Group_CountRollVote e c guid loot slot choice st =
     (case Group_GetRoll loot slot st of
        None \<Rightarrow> Inr st
      | Some i \<Rightarrow>
          (case st of (g, w) \<Rightarrow>
             (let r = gr_RollId g ! i in
              if map_of (rl_playerVote r) guid = None then Inr st
              else if (case map_of (gw_loot w) loot of Some l \<Rightarrow> lo_items l = [] | None \<Rightarrow> False) then Inr st
              else
                (let (r1, w1) = roll_choose e guid choice r w; g1 = g\<lparr>gr_RollId := (gr_RollId g)[i := r1]\<rparr>
                 in if roll_complete r1 then Group_CountTheRoll e c i (g1, w1) else Inr (g1, w1)))))"

text \<open>The time of a roll is up: all rolls for the items of a loot end, whatever the players have chosen.\<close>

lemma CountTheRoll_group:
  "Group_CountTheRoll e c i st = Inr st' \<Longrightarrow> fst st' = (fst st)\<lparr>gr_RollId := erase_at i (gr_RollId (fst st))\<rparr>"
  by (cases st) (auto simp: Group_CountTheRoll_def Let_def split: option.splits sum.splits)

lemma length_erase_at: "i < length xs \<Longrightarrow> length (erase_at i xs) = length xs - 1"
  by (simp add: erase_at_def)

lemma roll_index_less: "roll_index P rolls = Some i \<Longrightarrow> i < length rolls"
  by (simp add: roll_index_def Let_def split: if_splits)

definition rolls_for :: "ObjectGuid \<Rightarrow> group_state \<Rightarrow> nat option" where
  "rolls_for loot = (\<lambda>(g, w). roll_index (\<lambda>r. rl_loot r = loot \<and> map_of (gw_loot w) loot \<noteq> None) (gr_RollId g))"

lemma rolls_for_less: "rolls_for loot st = Some i \<Longrightarrow> i < length (gr_RollId (fst st))"
  by (cases st) (simp add: rolls_for_def roll_index_less)

function Group_EndRoll :: "GroupEnv \<Rightarrow> LootContext \<Rightarrow> ObjectGuid \<Rightarrow> group_state \<Rightarrow> group_error + group_state" where
  "Group_EndRoll e c loot st =
     (case rolls_for loot st of
        None \<Rightarrow> Inr st
      | Some i \<Rightarrow>
          (case Group_CountTheRoll e c i st of
             Inl err \<Rightarrow> Inl err
           | Inr st1 \<Rightarrow> Group_EndRoll e c loot st1))"
  by pat_completeness auto
termination Group_EndRoll
  by (relation "measure (\<lambda>(e, c, loot, st). length (gr_RollId (fst st)))")
    (auto simp: CountTheRoll_group length_erase_at dest: rolls_for_less)

declare Group_EndRoll.simps [simp del]

subsection \<open>Master loot\<close>

definition master_block :: "LootItem \<Rightarrow> LootItem" where
  "master_block i = i\<lparr>lo_is_blocked := \<not> lo_is_underthreshold i\<rparr>"

definition Group_MasterLoot :: "GroupEnv \<Rightarrow> LootContext \<Rightarrow> ObjectGuid \<Rightarrow> group_state \<Rightarrow> group_state" where
  "Group_MasterLoot e c loot = (\<lambda>(g, w).
     let w1 = gw_upd_loot loot (\<lambda>l. l
           \<lparr>lo_items := map (\<lambda>i. if lo_freeforall i then i else master_block i) (lo_items l),
            lo_quest_items := map (\<lambda>i. if lo_follow_loot_rules i then master_block i else i) (lo_quest_items l)\<rparr>) w;
         near = filter (lc_near c) (map fst (gw_links w (gr_this g)));
         looters = filter (ge_in_world e) near;
         packet = SMSG_MASTER_LOOT_CANDIDATE_LIST (of_nat (length looters)) looters
     in (g, fold (\<lambda>p. grp_tell (GroupSend p packet)) near w1))"

end
