(* ===== verification/GroupInstances.thy ===== *)
theory GroupInstances
  imports GroupRolls "HOL-Library.AList"
begin

section \<open>Groups: instance binds (game/Groups/Group.cpp)\<close>

text \<open>
  The instances a group is bound to, by difficulty and map: binding, unbinding, taking over the binds of a leader
  and resetting. A save is its instance id; the groups bound to it are kept on its side. The binds of one
  difficulty are unordered in the code; here they have the order in which they came.
\<close>

definition INSTANCE_RESET_ALL :: u8 where "INSTANCE_RESET_ALL = 0"
definition INSTANCE_RESET_CHANGE_DIFFICULTY :: u8 where "INSTANCE_RESET_CHANGE_DIFFICULTY = 1"
definition INSTANCE_RESET_GROUP_DISBAND :: u8 where "INSTANCE_RESET_GROUP_DISBAND = 3"

definition InstanceSave_AddGroup :: "u32 \<Rightarrow> nat \<Rightarrow> GroupWorld \<Rightarrow> GroupWorld" where
  "InstanceSave_AddGroup save grp w = w\<lparr>gw_saveGroups := (gw_saveGroups w)(save := gw_saveGroups w save @ [grp])\<rparr>"

definition InstanceSave_RemoveGroup :: "u32 \<Rightarrow> nat \<Rightarrow> GroupWorld \<Rightarrow> GroupWorld" where
  "InstanceSave_RemoveGroup save grp w = w\<lparr>gw_saveGroups := (gw_saveGroups w)(save := filter (\<lambda>a. a \<noteq> grp) (gw_saveGroups w save))\<rparr>"

definition Group_GetBoundInstance :: "GroupEnv \<Rightarrow> u8 \<Rightarrow> u32 \<Rightarrow> Group \<Rightarrow> InstanceGroupBind option" where
  "Group_GetBoundInstance e difficulty map_id g = map_of (gr_boundInstances g) (ge_downscale e map_id difficulty, map_id)"

definition Group_BindToInstance :: "GroupEnv \<Rightarrow> u32 \<Rightarrow> bool \<Rightarrow> bool \<Rightarrow> group_state \<Rightarrow> group_state" where
  "Group_BindToInstance e save permanent load = (\<lambda>(g, w).
     if Group_isBGGroup g \<or> Group_isBFGroup g then (g, w)
     else
       (let key = (ge_save_difficulty e save, ge_save_map e save); old = map_of (gr_boundInstances g) key;
            changed = (case old of None \<Rightarrow> True | Some b \<Rightarrow> permanent \<noteq> ib_perm b \<or> save \<noteq> ib_save b);
            w1 = (if \<not> load \<and> changed then grp_tell (GroupSql (CHAR_REP_GROUP_INSTANCE (gr_dbStoreId g) save permanent)) w else w);
            w2 = (if map_option ib_save old = Some save then w1
                  else InstanceSave_AddGroup save (gr_this g)
                    (case old of Some b \<Rightarrow> InstanceSave_RemoveGroup (ib_save b) (gr_this g) w1 | None \<Rightarrow> w1))
        in (g\<lparr>gr_boundInstances := AList.update key \<lparr>ib_save = save, ib_perm = permanent\<rparr> (gr_boundInstances g)\<rparr>, w2)))"

definition Group_UnbindInstance :: "u32 \<Rightarrow> u8 \<Rightarrow> bool \<Rightarrow> group_state \<Rightarrow> group_state" where
  "Group_UnbindInstance map_id difficulty unload = (\<lambda>(g, w).
     case map_of (gr_boundInstances g) (difficulty, map_id) of
       None \<Rightarrow> (g, w)
     | Some b \<Rightarrow>
         (g\<lparr>gr_boundInstances := AList.delete (difficulty, map_id) (gr_boundInstances g)\<rparr>,
          InstanceSave_RemoveGroup (ib_save b) (gr_this g)
            (if unload then w else grp_tell (GroupSql (CHAR_DEL_GROUP_INSTANCE_BY_GUID (gr_dbStoreId g) (ib_save b))) w)))"

subsection \<open>The binds of the leader\<close>

definition Player_UnbindInstance :: "ObjectGuid \<Rightarrow> u8 \<times> u32 \<Rightarrow> bool \<Rightarrow> GroupWorld \<Rightarrow> GroupWorld" where
  "Player_UnbindInstance guid key unload w =
     (case map_of (gp_binds (gw_player w guid)) key of
        None \<Rightarrow> w
      | Some b \<Rightarrow>
          (let w1 = (if unload then w
                     else grp_tell (GroupSql (CHAR_DEL_CHAR_INSTANCE_BY_INSTANCE_GUID (ObjectGuid_GetCounter guid) (pb_save b))) w);
               w2 = (if pb_perm b then grp_tell (SendCalendarRaidLockoutRemoved guid (pb_save b)) w1 else w1)
           in gw_upd_player guid (\<lambda>p. p\<lparr>gp_binds := AList.delete key (gp_binds p)\<rparr>)
                (grp_tell (InstanceSave_RemovePlayer (pb_save b) guid) w2)))"

definition leader_bind :: "GroupEnv \<Rightarrow> ObjectGuid \<Rightarrow> bool \<Rightarrow> (u8 \<times> u32) \<times> InstancePlayerBind \<Rightarrow> group_state \<Rightarrow> group_state" where
  "leader_bind e guid switchLeader = (\<lambda>(key, b) (g, w).
     let free = (\<not> switchLeader \<or> Group_GetBoundInstance e (ge_save_difficulty e (pb_save b)) (snd key) g = None);
         (g1, w1) = (if free \<and> pb_extendState b then Group_BindToInstance e (pb_save b) (pb_perm b) False (g, w) else (g, w))
     in (g1, if switchLeader \<and> \<not> pb_perm b then Player_UnbindInstance guid key False w1 else w1))"

definition Group_ConvertLeaderInstancesToGroup :: "GroupEnv \<Rightarrow> ObjectGuid \<Rightarrow> bool \<Rightarrow> group_state \<Rightarrow> group_state" where
  "Group_ConvertLeaderInstancesToGroup e guid switchLeader st =
     (let (g, w) = fold (leader_bind e guid switchLeader) (gp_binds (gw_player (snd st) guid)) st
      in if switchLeader then (g, w)
         else case ge_takeover e guid of
           Some save \<Rightarrow> if gw_saveGroups w save = [] then Group_BindToInstance e save False False (g, w) else (g, w)
         | None \<Rightarrow> (g, w))"

text \<open>The permanent binds go when the leader changes, unless their map is there.\<close>

definition drop_perm_bind :: "GroupEnv \<Rightarrow> (u8 \<times> u32) \<times> InstanceGroupBind \<Rightarrow> group_state \<Rightarrow> group_state" where
  "drop_perm_bind e = (\<lambda>(key, b) (g, w).
     if ib_perm b \<and> \<not> ge_map_loaded e (ib_save b)
     then (g\<lparr>gr_boundInstances := AList.delete key (gr_boundInstances g)\<rparr>,
           InstanceSave_RemoveGroup (ib_save b) (gr_this g)
             (grp_tell (GroupSql (CHAR_DEL_GROUP_INSTANCE_PERM_BINDING (gr_dbStoreId g) (ib_save b))) w))
     else (g, w))"

definition Group_drop_perm_binds :: "GroupEnv \<Rightarrow> group_state \<Rightarrow> group_state" where
  "Group_drop_perm_binds e st = fold (drop_perm_bind e) (gr_boundInstances (fst st)) st"

subsection \<open>Resetting\<close>

text \<open>What a reset does with one bind: nothing, or it tells a player whether the instance is empty and drops
  the bind or not.\<close>

definition reset_tell :: "GroupEnv \<Rightarrow> ObjectGuid option \<Rightarrow> bool \<Rightarrow> u32 \<Rightarrow> GroupWorld \<Rightarrow> GroupWorld" where
  "reset_tell e sendTo isEmpty map_id w =
     (case sendTo of
        None \<Rightarrow> w
      | Some guid \<Rightarrow>
          if \<not> isEmpty then grp_tell (SendResetInstance guid False map_id) w
          else case (if ge_reset_announce e then Player_GetGroup guid w else None) of
            Some a \<Rightarrow> fold (\<lambda>(p, r). grp_tell (SendResetInstance p True map_id)) (gw_links w a) w
          | None \<Rightarrow> grp_tell (SendResetInstance guid True map_id) w)"

definition reset_applies :: "GroupEnv \<Rightarrow> u8 \<Rightarrow> bool \<Rightarrow> u8 \<Rightarrow> u32 \<Rightarrow> u32 \<Rightarrow> bool" where
  "reset_applies e reset_method isRaid diff map_id save =
     (ge_map_is_raid e map_id = Some isRaid \<and>
      (ge_save_CanReset e save \<or> reset_method = INSTANCE_RESET_GROUP_DISBAND) \<and>
      \<not> (reset_method = INSTANCE_RESET_ALL \<and> (isRaid \<or> diff = DIFFICULTY_HEROIC)))"

definition reset_map :: "GroupEnv \<Rightarrow> u8 \<Rightarrow> u32 \<Rightarrow> GroupWorld \<Rightarrow> bool \<times> GroupWorld" where
  "reset_map e reset_method save w =
     (if ge_map_loaded e save \<and> \<not> (reset_method = INSTANCE_RESET_GROUP_DISBAND \<and> \<not> ge_save_CanReset e save)
      then (if ge_save_CanReset e save
            then (ge_map_reset e save reset_method, grp_tell (InstanceMap_Reset save reset_method) w)
            else (\<not> ge_map_players e save, w))
      else (True, w))"

definition reset_bind :: "GroupEnv \<Rightarrow> u8 \<Rightarrow> bool \<Rightarrow> u8 \<Rightarrow> ObjectGuid option \<Rightarrow> (u8 \<times> u32) \<times> InstanceGroupBind
    \<Rightarrow> group_state \<Rightarrow> bool \<times> group_state" where
  "reset_bind e reset_method isRaid diff sendTo = (\<lambda>(key, b) (g, w).
     let save = ib_save b; map_id = snd key in
     if \<not> reset_applies e reset_method isRaid diff map_id save then (False, g, w)
     else
       (let (isEmpty, w1) = reset_map e reset_method save w;
            w2 = reset_tell e sendTo isEmpty (ge_save_map e save) w1
        in if isEmpty \<or> reset_method = INSTANCE_RESET_GROUP_DISBAND \<or> reset_method = INSTANCE_RESET_CHANGE_DIFFICULTY
           then (True, g\<lparr>gr_boundInstances := AList.delete key (gr_boundInstances g)\<rparr>,
                 InstanceSave_RemoveGroup save (gr_this g)
                   (grp_tell (if isEmpty \<and> ge_save_CanReset e save then InstanceSave_DeleteFromDB save
                              else GroupSql (CHAR_DEL_GROUP_INSTANCE_BY_INSTANCE save)) w2))
           else (False, g, w2)))"

text \<open>The walk over the binds of a difficulty: after a bind is dropped it starts again. \<open>seen\<close> are the binds
  it has passed since.\<close>

function Group_reset_loop :: "GroupEnv \<Rightarrow> u8 \<Rightarrow> bool \<Rightarrow> u8 \<Rightarrow> ObjectGuid option \<Rightarrow> ((u8 \<times> u32) \<times> InstanceGroupBind) list
    \<Rightarrow> ((u8 \<times> u32) \<times> InstanceGroupBind) list \<Rightarrow> group_state \<Rightarrow> group_state" where
  "Group_reset_loop e k isRaid diff sendTo seen [] st = st"
| "Group_reset_loop e k isRaid diff sendTo seen (bind # binds) st =
     (let (dropped, st1) = reset_bind e k isRaid diff sendTo bind st
      in if dropped then Group_reset_loop e k isRaid diff sendTo [] (seen @ binds) st1
         else Group_reset_loop e k isRaid diff sendTo (seen @ [bind]) binds st1)"
  by pat_completeness auto
termination Group_reset_loop
  by (relation "measures [\<lambda>(e, k, isRaid, diff, sendTo, seen, todo, st). length seen + length todo,
                          \<lambda>(e, k, isRaid, diff, sendTo, seen, todo, st). length todo]") auto

definition Group_ResetInstances :: "GroupEnv \<Rightarrow> u8 \<Rightarrow> bool \<Rightarrow> bool \<Rightarrow> ObjectGuid option \<Rightarrow> group_state \<Rightarrow> group_state" where
  "Group_ResetInstances e reset_method isRaid isLegacy sendTo = (\<lambda>(g, w).
     if Group_isBGGroup g \<or> Group_isBFGroup g then (g, w)
     else
       (let diff = (if isRaid then (if isLegacy then gr_legacyRaidDifficulty g else gr_raidDifficulty g)
                    else gr_dungeonDifficulty g)
        in Group_reset_loop e reset_method isRaid diff sendTo []
             (filter (\<lambda>(key, b). fst key = diff) (gr_boundInstances g)) (g, w)))"

end
