(* ===== verification/GroupMembers.thy ===== *)
theory GroupMembers
  imports GroupInstances
begin

section \<open>Groups: members and invitations (game/Groups/Group.cpp)\<close>

text \<open>
  Who is in a group: creating it, invitations, adding and removing members, the change of the leader, disbanding and
  loading. The hooks of the dungeon finder are called where the scripts are. Disbanding deletes the group, so that
  removing a member returns whether the group is still there. Two things can go wrong: an assertion, and the walk
  over the loot rolls of a member that leaves, which steps past the end when the last roll ends.
\<close>

subsection \<open>Invitations\<close>

definition Group_RemoveInvite :: "ObjectGuid \<Rightarrow> group_state \<Rightarrow> group_state" where
  "Group_RemoveInvite guid = (\<lambda>(g, w).
     (g\<lparr>gr_invitees := filter (\<lambda>p. p \<noteq> guid) (gr_invitees g)\<rparr>, Player_SetGroupInvite guid None w))"

text \<open>\<open>is_bg\<close> tells which groups are those of a battleground or battlefield.\<close>

definition Group_AddInvite :: "GroupEnv \<Rightarrow> (nat \<Rightarrow> bool) \<Rightarrow> ObjectGuid \<Rightarrow> group_state \<Rightarrow> bool \<times> group_state" where
  "Group_AddInvite e is_bg guid = (\<lambda>(g, w).
     if gp_groupInvite (gw_player w guid) \<noteq> None then (False, g, w)
     else
       (let grp = (case Player_GetGroup guid w of None \<Rightarrow> None
                   | Some a \<Rightarrow> if is_bg a then Player_GetOriginalGroup guid w else Some a)
        in if grp \<noteq> None then (False, g, w)
           else
             (let (g1, w1) = Group_RemoveInvite guid (g, w); g2 = g1\<lparr>gr_invitees := List.insert guid (gr_invitees g1)\<rparr>
              in (True, g2, gw_on_lfg (LFGGroupScript_OnInviteMember (ge_lfg e) (gr_guid g2) (gr_leaderGuid g2))
                              (Player_SetGroupInvite guid (Some (gr_this g2)) w1)))))"

definition Group_AddLeaderInvite :: "GroupEnv \<Rightarrow> (nat \<Rightarrow> bool) \<Rightarrow> ObjectGuid \<Rightarrow> group_state \<Rightarrow> bool \<times> group_state" where
  "Group_AddLeaderInvite e is_bg guid st =
     (case Group_AddInvite e is_bg guid st of
        (False, st1) \<Rightarrow> (False, st1)
      | (True, g, w) \<Rightarrow> (True, g\<lparr>gr_leaderGuid := guid, gr_leaderName := ge_name e guid\<rparr>, w))"

definition Group_RemoveAllInvites :: "group_state \<Rightarrow> group_state" where
  "Group_RemoveAllInvites = (\<lambda>(g, w).
     (g\<lparr>gr_invitees := []\<rparr>, fold (\<lambda>p. Player_SetGroupInvite p None) (gr_invitees g) w))"

definition Group_GetInvited :: "ObjectGuid \<Rightarrow> Group \<Rightarrow> ObjectGuid option" where
  "Group_GetInvited guid g = find (\<lambda>p. p = guid) (gr_invitees g)"

definition Group_GetInvited_name :: "GroupEnv \<Rightarrow> string \<Rightarrow> Group \<Rightarrow> ObjectGuid option" where
  "Group_GetInvited_name e name g = find (\<lambda>p. ge_name e p = name) (gr_invitees g)"

subsection \<open>Adding a member\<close>

definition find_subgroup :: "Group \<Rightarrow> u8 option" where
  "find_subgroup g =
     (case gr_subGroupsCounts g of
        None \<Rightarrow> Some 0
      | Some c \<Rightarrow> map_option of_nat (find (\<lambda>i. unat (c ! i) < MAX_GROUP_SIZE) [0..<MAX_RAID_SUBGROUPS]))"

definition other_links :: "ObjectGuid \<Rightarrow> Group \<Rightarrow> GroupWorld \<Rightarrow> ObjectGuid list" where
  "other_links guid g w = filter (\<lambda>p. p \<noteq> guid) (map fst (gw_links w (gr_this g)))"

text \<open>The player takes the place of the group as its group, or as its original one.\<close>

definition member_link :: "ObjectGuid \<Rightarrow> Group \<Rightarrow> u8 \<Rightarrow> GroupWorld \<Rightarrow> GroupWorld" where
  "member_link guid g sub w =
     (if Player_GetGroup guid w \<noteq> None
      then (if Group_isBGGroup g \<or> Group_isBFGroup g
            then Player_SetBattlegroundOrBattlefieldRaid guid (gr_this g) sub w
            else Player_SetOriginalGroup guid (Some (gr_this g, sub)) w)
      else Player_SetGroup guid (Some (gr_this g, sub)) w)"

definition member_difficulties :: "ObjectGuid \<Rightarrow> Group \<Rightarrow> GroupWorld \<Rightarrow> GroupWorld" where
  "member_difficulties guid g w =
     (let w1 = fold (\<lambda>(raid, legacy). grp_tell (PlayerResetInstances guid raid legacy)) [(False, False), (True, False), (True, True)] w;
          p = gw_player w1 guid;
          w2 = (if gp_dungeonDifficulty p \<noteq> gr_dungeonDifficulty g
                then grp_tell (SendDungeonDifficulty guid) (gw_upd_player guid (\<lambda>p. p\<lparr>gp_dungeonDifficulty := gr_dungeonDifficulty g\<rparr>) w1)
                else w1);
          w3 = (if gp_raidDifficulty p \<noteq> gr_raidDifficulty g
                then grp_tell (SendRaidDifficulty guid False) (gw_upd_player guid (\<lambda>p. p\<lparr>gp_raidDifficulty := gr_raidDifficulty g\<rparr>) w2)
                else w2)
      in if gp_legacyRaidDifficulty p \<noteq> gr_legacyRaidDifficulty g
         then grp_tell (SendRaidDifficulty guid True) (gw_upd_player guid (\<lambda>p. p\<lparr>gp_legacyRaidDifficulty := gr_legacyRaidDifficulty g\<rparr>) w3)
         else w3)"

definition new_member :: "GroupEnv \<Rightarrow> ObjectGuid \<Rightarrow> u8 \<Rightarrow> MemberSlot" where
  "new_member e guid sub = \<lparr>ms_guid = guid, ms_name = ge_name e guid, ms_class = ge_class e guid, ms_group = sub,
     ms_flags = 0, ms_roles = 0, ms_readyChecked = False\<rparr>"

text \<open>The group after a member is added: with the new slot, without icons if it is no raid, and with the
  enchanting level of the member if it is higher.\<close>

definition add_slot :: "GroupEnv \<Rightarrow> ObjectGuid \<Rightarrow> u8 \<Rightarrow> Group \<Rightarrow> Group" where
  "add_slot e guid sub g =
     (let g1 = Group_SubGroupCounterIncrease sub (g\<lparr>gr_memberSlots := gr_memberSlots g @ [new_member e guid sub]\<rparr>)
      in if \<not> Group_isRaidGroup g1 then g1\<lparr>gr_targetIcons := replicate TARGET_ICONS_COUNT ObjectGuid_Empty\<rparr> else g1)"

definition Group_AddMember :: "GroupEnv \<Rightarrow> ObjectGuid \<Rightarrow> group_state \<Rightarrow> bool \<times> group_state" where
  "Group_AddMember e guid = (\<lambda>(g, w).
     case find_subgroup g of
       None \<Rightarrow> (False, g, w)
     | Some sub \<Rightarrow>
         (let g1 = add_slot e guid sub g;
              w1 = member_link guid g1 sub (Player_SetGroupInvite guid None w);
              w2 = Player_ResetGroupUpdateSequenceIfNeeded guid g1 (Player_SetPartyType guid (gr_groupCategory g1) GROUP_TYPE_NORMAL w1);
              w3 = gw_upd_player guid (\<lambda>p. p\<lparr>gp_InstanceValid := ge_CheckInstanceValidity e guid\<rparr>) w2;
              w4 = grp_sql g1 (CHAR_INS_GROUP_MEMBER (gr_dbStoreId g1) (ObjectGuid_GetCounter guid) 0 sub 0) w3;
              w5 = gw_on_lfg (LFGGroupScript_OnAddMember (ge_lfg e) (gr_guid g1) (gr_leaderGuid g1) guid) (Group_SendUpdate e g1 w4);
              w6 = (if \<not> Group_IsLeader guid g1 \<and> \<not> Group_isBGGroup g1 \<and> \<not> Group_isBFGroup g1
                    then member_difficulties guid g1 w5 else w5);
              w7 = grp_tell (SetGroupUpdateFlags guid) w6;
              w8 = (if ge_in_world e guid then grp_tell (UpdatePlayerOutOfRange guid (other_links guid g1 w7)) w7 else w7);
              w9 = (if Group_isRaidGroup g1 then grp_tell (UpdateForQuestWorldObjects guid) w8 else w8);
              w10 = grp_tell (ExchangePartyFields guid (other_links guid g1 w9)) w9
          in (True, g1\<lparr>gr_maxEnchantingLevel := max (gr_maxEnchantingLevel g1) (ge_enchanting e guid)\<rparr>, w10)))"

subsection \<open>The leader and disbanding\<close>

definition player_leader_flag :: "ObjectGuid \<Rightarrow> bool \<Rightarrow> GroupWorld \<Rightarrow> GroupWorld" where
  "player_leader_flag guid v = gw_upd_player guid (\<lambda>p. p\<lparr>gp_leaderFlag := v\<rparr>)"

definition Group_ChangeLeader :: "GroupEnv \<Rightarrow> ObjectGuid \<Rightarrow> 8 word \<Rightarrow> group_state \<Rightarrow> group_state" where
  "Group_ChangeLeader e newLeader partyIndex = (\<lambda>(g, w).
     if Group_getMemberSlot newLeader g = None \<or> \<not> ge_connected e newLeader then (g, w)
     else
       (let w1 = gw_on_lfg (LFGGroupScript_OnChangeLeader (gr_guid g) newLeader) w;
            (g2, w2) = (if Group_isBGGroup g \<or> Group_isBFGroup g then (g, w1)
              else
                (let (ga, wa) = Group_ConvertLeaderInstancesToGroup e newLeader True (Group_drop_perm_binds e (g, w1))
                 in (ga, grp_tell (GroupSql (CHAR_UPD_GROUP_LEADER (ObjectGuid_GetCounter newLeader) (gr_dbStoreId ga))) wa)));
            w3 = (if ge_connected e (gr_leaderGuid g2) then player_leader_flag (gr_leaderGuid g2) False w2 else w2);
            w4 = player_leader_flag newLeader True w3;
            g3 = Group_upd_slot newLeader (ToggleGroupMemberFlag MEMBER_FLAG_ASSISTANT False)
                   (g2\<lparr>gr_leaderGuid := newLeader, gr_leaderName := ge_name e newLeader\<rparr>)
        in (g3, Group_BroadcastPacket (SMSG_GROUP_NEW_LEADER (gr_leaderName g3) partyIndex) True None ObjectGuid_Empty g3 w4)))"

text \<open>An online member loses its reference to the group.\<close>

definition member_unlink :: "Group \<Rightarrow> ObjectGuid \<Rightarrow> GroupWorld \<Rightarrow> GroupWorld" where
  "member_unlink g guid w =
     (if Group_isBGGroup g \<or> Group_isBFGroup g then Player_RemoveFromBattlegroundOrBattlefieldRaid guid w
      else if Player_GetOriginalGroup guid w = Some (gr_this g) then Player_SetOriginalGroup guid None w
      else Player_SetGroup guid None w)"

definition Group_homebindIfInstance :: "GroupEnv \<Rightarrow> ObjectGuid \<Rightarrow> GroupWorld \<Rightarrow> GroupWorld" where
  "Group_homebindIfInstance e guid w =
     (if \<not> ge_game_master e guid \<and> ge_map_is_dungeon e guid
      then gw_upd_player guid (\<lambda>p. p\<lparr>gp_InstanceValid := False\<rparr>) w else w)"

definition disband_member :: "GroupEnv \<Rightarrow> Group \<Rightarrow> bool \<Rightarrow> ObjectGuid \<Rightarrow> GroupWorld \<Rightarrow> GroupWorld" where
  "disband_member e g hideDestroy guid w =
     (if \<not> ge_connected e guid then w
      else
        (let w1 = Player_SetPartyType guid (gr_groupCategory g) GROUP_TYPE_NONE (member_unlink g guid w);
             w2 = (if Group_isRaidGroup g then grp_tell (UpdateForQuestWorldObjects guid) w1 else w1);
             w3 = (if \<not> hideDestroy then grp_tell (GroupSend guid SMSG_GROUP_DESTROYED) w2 else w2)
         in Group_homebindIfInstance e guid (Group_SendUpdateDestroyGroupToPlayer g guid w3)))"

text \<open>The destructor: the saves forget the group, and the references that are left become invalid.\<close>

definition Group_destroy :: "Group \<Rightarrow> GroupWorld \<Rightarrow> GroupWorld" where
  "Group_destroy g w =
     (let w1 = (if Group_isBGGroup g then grp_tell (ClearBgRaid (gr_this g)) w else w);
          w2 = fold (\<lambda>(key, b). InstanceSave_RemoveGroup (ib_save b) (gr_this g)) (gr_boundInstances g) w1;
          w3 = fold (\<lambda>(p, r). gw_upd_player p (gp_set_ref r None)) (gw_links w2 (gr_this g)) w2
      in w3\<lparr>gw_links := (gw_links w3)(gr_this g := [])\<rparr>)"

definition gw_on_mgr :: "(GroupMgr \<Rightarrow> GroupMgr) \<Rightarrow> GroupWorld \<Rightarrow> GroupWorld" where
  "gw_on_mgr f w = w\<lparr>gw_mgr := f (gw_mgr w)\<rparr>"

definition Group_Disband :: "GroupEnv \<Rightarrow> bool \<Rightarrow> group_state \<Rightarrow> GroupWorld" where
  "Group_Disband e hideDestroy = (\<lambda>(g, w).
     let w1 = gw_on_lfg (LFGGroupScript_OnDisband (ge_lfg e) (gr_guid g)) w;
         w2 = fold (\<lambda>s. disband_member e g hideDestroy (ms_guid s)) (gr_memberSlots g) w1;
         (g3, w3) = Group_RemoveAllInvites (g\<lparr>gr_RollId := [], gr_memberSlots := []\<rparr>, w2);
         (g4, w4) = (if Group_isBGGroup g3 \<or> Group_isBFGroup g3 then (g3, w3)
           else
             (let wa = grp_tell (GroupSql (CHAR_DEL_GROUP_MEMBER_ALL (gr_dbStoreId g3)))
                         (grp_tell (GroupSql (CHAR_DEL_GROUP (gr_dbStoreId g3))) w3);
                  (gb, wb) = fold (\<lambda>(raid, legacy). Group_ResetInstances e INSTANCE_RESET_GROUP_DISBAND raid legacy None)
                               [(False, False), (True, False), (True, True)] (g3, wa)
              in (gb, gw_on_mgr (GroupMgr_FreeGroupDbStoreId (gr_dbStoreId gb))
                        (grp_tell (GroupSql (CHAR_DEL_LFG_DATA (gr_dbStoreId gb))) wb))))
     in Group_destroy g4 (gw_on_mgr (GroupMgr_RemoveGroup (gr_guid g4)) w4))"

subsection \<open>Removing a member\<close>

text \<open>The rolls a member takes part in lose its vote. After a roll that is complete by that the walk goes back to
  the first roll and steps on from it, so it skips that one, and has none to step on from when it was the last.\<close>

definition roll_drop_vote :: "ObjectGuid \<Rightarrow> RollVote \<Rightarrow> Roll \<Rightarrow> Roll" where
  "roll_drop_vote guid v r =
     r\<lparr>rl_totalGreed := (if v = GREED \<or> v = DISENCHANT then rl_totalGreed r - 1 else rl_totalGreed r),
       rl_totalNeed := (if v = NEED then rl_totalNeed r - 1 else rl_totalNeed r),
       rl_totalPass := (if v = PASS then rl_totalPass r - 1 else rl_totalPass r),
       rl_totalPlayersRolling := (if v \<noteq> NOT_VALID then rl_totalPlayersRolling r - 1 else rl_totalPlayersRolling r),
       rl_playerVote := om_del guid (rl_playerVote r)\<rparr>"

function roll_leave :: "GroupEnv \<Rightarrow> LootContext \<Rightarrow> ObjectGuid \<Rightarrow> nat \<Rightarrow> group_state \<Rightarrow> group_error + group_state" where
  "roll_leave e c guid i st =
     (if i \<ge> length (gr_RollId (fst st)) then Inr st
      else
        (let roll = gr_RollId (fst st) ! i in
         case map_of (rl_playerVote roll) guid of
           None \<Rightarrow> roll_leave e c guid (Suc i) st
         | Some v \<Rightarrow>
             (let roll1 = roll_drop_vote guid v roll;
                  st1 = ((fst st)\<lparr>gr_RollId := (gr_RollId (fst st))[i := roll1]\<rparr>, snd st)
              in if roll_complete roll1
                 then (case Group_CountTheRoll e c i st1 of
                         Inl err \<Rightarrow> Inl err
                       | Inr st2 \<Rightarrow>
                           if gr_RollId (fst st2) = [] then Inl RollIteratorPastEnd else roll_leave e c guid 1 st2)
                 else roll_leave e c guid (Suc i) st1)))"
  by pat_completeness auto
termination roll_leave
  by (relation "measures [\<lambda>(e, c, guid, i, st). length (gr_RollId (fst st)), \<lambda>(e, c, guid, i, st). length (gr_RollId (fst st)) - i]")
    (auto simp: CountTheRoll_group length_erase_at)

declare roll_leave.simps [simp del]

definition remove_slot :: "ObjectGuid \<Rightarrow> Group \<Rightarrow> Group" where
  "remove_slot guid g =
     (case Group_getMemberSlot guid g of
        None \<Rightarrow> g
      | Some s \<Rightarrow> (Group_SubGroupCounterDecrease (ms_group s) g)\<lparr>gr_memberSlots := slot_erase guid (gr_memberSlots g)\<rparr>)"

definition next_leader :: "GroupEnv \<Rightarrow> group_state \<Rightarrow> group_state" where
  "next_leader e = (\<lambda>(g, w).
     case find (\<lambda>s. ge_connected e (ms_guid s)) (gr_memberSlots g) of
       Some s \<Rightarrow> Group_ChangeLeader e (ms_guid s) 0 (g, w) | None \<Rightarrow> (g, w))"

text \<open>The player that leaves, if it is online.\<close>

definition remove_player :: "GroupEnv \<Rightarrow> Group \<Rightarrow> ObjectGuid \<Rightarrow> RemoveMethod \<Rightarrow> GroupWorld \<Rightarrow> GroupWorld" where
  "remove_player e g guid reason_method w =
     (if \<not> ge_connected e guid then w
      else
        (let w1 = member_unlink g guid w;
             w2 = (if Group_isBGGroup g \<or> Group_isBFGroup g then w1 else grp_tell (UpdateForQuestWorldObjects guid) w1);
             w3 = Player_SetPartyType guid (gr_groupCategory g) GROUP_TYPE_NONE w2;
             w4 = (if reason_method = GROUP_REMOVEMETHOD_KICK \<or> reason_method = GROUP_REMOVEMETHOD_KICK_LFG
                   then grp_tell (GroupSend guid SMSG_GROUP_UNINVITE) w3 else w3)
         in Group_homebindIfInstance e guid w4))"

definition remove_buffs :: "GroupEnv \<Rightarrow> Group \<Rightarrow> ObjectGuid \<Rightarrow> GroupWorld \<Rightarrow> GroupWorld" where
  "remove_buffs e g guid w =
     (if ge_connected e guid
      then fold (\<lambda>p w. grp_tell (RemoveAllGroupBuffsFromCaster guid p) (grp_tell (RemoveAllGroupBuffsFromCaster p guid) w))
             (other_links guid g w) w
      else w)"

text \<open>The dungeon finder's group of one goes, unless its last member is dead or in the dungeon.\<close>

definition lfg_group_over :: "GroupEnv \<Rightarrow> group_state \<Rightarrow> bool" where
  "lfg_group_over e = (\<lambda>(g, w).
     let map_id = LFGMgr_GetDungeonMapId (ge_stores e) (gr_guid g) (gw_lfg w); leader = gr_leaderGuid g
     in Group_isLFGGroup g \<and> Group_GetMembersCount g = 1 \<and>
        (map_id = 0 \<or> \<not> ge_connected e leader \<or> ge_alive e leader \<and> ge_map e leader \<noteq> map_id))"

definition remove_rest :: "GroupEnv \<Rightarrow> ObjectGuid \<Rightarrow> group_state \<Rightarrow> bool \<times> Group option \<times> GroupWorld" where
  "remove_rest e guid st =
     (let (g1, w1) = (if gr_leaderGuid (fst st) = guid then next_leader e (remove_slot guid (fst st), snd st)
                      else (remove_slot guid (fst st), snd st));
          w2 = Group_SendUpdate e g1 w1
      in if lfg_group_over e (g1, w2) then (False, None, Group_Disband e False (g1, w2))
         else if length (gw_links w2 (gr_this g1)) < (if Group_isLFGGroup g1 \<or> Group_isBGGroup g1 then 1 else 2)
         then (True, None, Group_Disband e False (g1, w2))
         else (True, Some g1, if ge_connected e guid then Group_SendUpdateDestroyGroupToPlayer g1 guid w2 else w2))"

definition Group_RemoveMember :: "GroupEnv \<Rightarrow> LootContext \<Rightarrow> ObjectGuid \<Rightarrow> RemoveMethod \<Rightarrow> ObjectGuid \<Rightarrow> string option
    \<Rightarrow> group_state \<Rightarrow> group_error + (bool \<times> Group option \<times> GroupWorld)" where
  "Group_RemoveMember e c guid reason_method kicker reason = (\<lambda>(g, w).
     let w1 = gw_on_lfg (LFGGroupScript_OnRemoveMember (ge_lfg e) (gr_guid g) (Group_isLFGGroup g) guid reason_method kicker reason)
                (Group_BroadcastGroupUpdate e g w);
         w2 = remove_buffs e g guid w1
     in if Group_isLFGGroup g \<and> reason_method = GROUP_REMOVEMETHOD_KICK then Inr (gr_memberSlots g \<noteq> [], Some g, w2)
        else if Group_GetMembersCount g > (if Group_isBGGroup g \<or> Group_isLFGGroup g \<or> Group_isBFGroup g then 1 else 2)
        then
          (let w3 = remove_player e g guid reason_method w2;
               w4 = (if Group_isBGGroup g \<or> Group_isBFGroup g then w3
                     else Group_DelinkMember guid g (grp_tell (GroupSql (CHAR_DEL_GROUP_MEMBER (ObjectGuid_GetCounter guid))) w3));
               g4 = (if \<not> ge_connected e guid \<or> ge_enchanting e guid \<noteq> 0 then Group_ResetMaxEnchantingLevel e g else g)
           in and_then (roll_leave e c guid 0 (g4, w4)) (\<lambda>st. Inr (remove_rest e guid st)))
        else Inr (False, None, Group_Disband e False (g, w2)))"

subsection \<open>Creating and loading\<close>

definition MAP_INSTANCE :: u8 where "MAP_INSTANCE = 1"
definition MAP_RAID :: u8 where "MAP_RAID = 2"
definition DIFFICULTY_FLAG_CAN_SELECT :: u8 where "DIFFICULTY_FLAG_CAN_SELECT = 4"
definition DIFFICULTY_FLAG_LEGACY :: u8 where "DIFFICULTY_FLAG_LEGACY = 32"

text \<open>A row of the client data on difficulties: the kind of instance and the flags.\<close>

type_synonym difficulty_rows = "u8 \<Rightarrow> (u8 \<times> u8) option"

definition Player_CheckLoadedDungeonDifficultyID :: "difficulty_rows \<Rightarrow> u8 \<Rightarrow> u8" where
  "Player_CheckLoadedDungeonDifficultyID rows d =
     (case rows d of None \<Rightarrow> DIFFICULTY_NORMAL
      | Some (kind, flags) \<Rightarrow>
          if kind \<noteq> MAP_INSTANCE then DIFFICULTY_NORMAL
          else if flags AND DIFFICULTY_FLAG_CAN_SELECT = 0 then DIFFICULTY_NORMAL else d)"

definition Player_CheckLoadedRaidDifficultyID :: "difficulty_rows \<Rightarrow> u8 \<Rightarrow> u8" where
  "Player_CheckLoadedRaidDifficultyID rows d =
     (case rows d of None \<Rightarrow> DIFFICULTY_NORMAL_RAID
      | Some (kind, flags) \<Rightarrow>
          if kind \<noteq> MAP_RAID then DIFFICULTY_NORMAL_RAID
          else if flags AND DIFFICULTY_FLAG_CAN_SELECT = 0 \<or> flags AND DIFFICULTY_FLAG_LEGACY \<noteq> 0 then DIFFICULTY_NORMAL_RAID else d)"

definition Player_CheckLoadedLegacyRaidDifficultyID :: "difficulty_rows \<Rightarrow> u8 \<Rightarrow> u8" where
  "Player_CheckLoadedLegacyRaidDifficultyID rows d =
     (case rows d of None \<Rightarrow> DIFFICULTY_10_N
      | Some (kind, flags) \<Rightarrow>
          if kind \<noteq> MAP_RAID then DIFFICULTY_10_N
          else if flags AND DIFFICULTY_FLAG_CAN_SELECT = 0 \<or> flags AND DIFFICULTY_FLAG_LEGACY = 0 then DIFFICULTY_10_N else d)"

definition create_settings :: "GroupEnv \<Rightarrow> ObjectGuid \<Rightarrow> u64 \<Rightarrow> Group \<Rightarrow> Group" where
  "create_settings e leader group_id g =
     (let g1 = g\<lparr>gr_guid := ObjectGuid_Global HighGuid_Party group_id, gr_leaderGuid := leader, gr_leaderName := ge_name e leader\<rparr>;
          g2 = (if Group_isBGGroup g1 \<or> Group_isBFGroup g1
                then g1\<lparr>gr_groupFlags := GROUP_MASK_BGRAID, gr_groupCategory := GROUP_CATEGORY_INSTANCE\<rparr> else g1);
          g3 = (if gr_groupFlags g2 AND GROUP_FLAG_RAID \<noteq> 0 then Group_initRaidSubGroupsCounter g2 else g2);
          g4 = (if \<not> Group_isLFGGroup g3 then g3\<lparr>gr_lootMethod := GROUP_LOOT\<rparr> else g3)
      in g4\<lparr>gr_lootThreshold := ITEM_QUALITY_UNCOMMON, gr_looterGuid := leader, gr_masterLooterGuid := ObjectGuid_Empty,
            gr_dungeonDifficulty := DIFFICULTY_NORMAL, gr_raidDifficulty := DIFFICULTY_NORMAL_RAID,
            gr_legacyRaidDifficulty := DIFFICULTY_10_N\<rparr>)"

definition create_row :: "Group \<Rightarrow> group_sql" where
  "create_row g = CHAR_INS_GROUP (gr_dbStoreId g) (ObjectGuid_GetCounter (gr_leaderGuid g)) (LootMethod_value (gr_lootMethod g))
     (ObjectGuid_GetCounter (gr_looterGuid g)) (gr_lootThreshold g) (gr_targetIcons g) (ucast (gr_groupFlags g))
     (ucast (gr_dungeonDifficulty g)) (ucast (gr_raidDifficulty g)) (ucast (gr_legacyRaidDifficulty g))
     (ObjectGuid_GetCounter (gr_masterLooterGuid g))"

definition Group_Create :: "GroupEnv \<Rightarrow> ObjectGuid \<Rightarrow> group_state \<Rightarrow> group_error + (bool \<times> group_state)" where
  "Group_Create e leader = (\<lambda>(g, w).
     let (group_id, mgr) = GroupMgr_GenerateGroupId (gw_mgr w);
         w1 = player_leader_flag leader True (w\<lparr>gw_mgr := mgr\<rparr>);
         g1 = create_settings e leader group_id g
     in if Group_isBGGroup g1 \<or> Group_isBFGroup g1 then Inr (Group_AddMember e leader (g1, w1))
        else
          (let p = gw_player w1 leader;
               (storeId, mgr1) = GroupMgr_GenerateNewGroupDbStoreId (gw_mgr w1);
               g2 = g1\<lparr>gr_dungeonDifficulty := gp_dungeonDifficulty p, gr_raidDifficulty := gp_raidDifficulty p,
                      gr_legacyRaidDifficulty := gp_legacyRaidDifficulty p, gr_dbStoreId := storeId\<rparr>;
               w2 = grp_tell (GroupSql (create_row g2))
                      (w1\<lparr>gw_mgr := GroupMgr_RegisterGroupDbStoreId storeId (gr_this g2) mgr1\<rparr>);
               (added, st) = Group_AddMember e leader (Group_ConvertLeaderInstancesToGroup e leader False (g2, w2))
           in if added then Inr (True, st) else Inl GroupAssertFailed))"

text \<open>A row of the data base; \<open>names\<close> gives name and class of the players that exist.\<close>

record GroupRow =
  gor_leader :: ObjectGuid
  gor_lootMethod :: LootMethod
  gor_looter :: ObjectGuid
  gor_threshold :: u8
  gor_icons :: "ObjectGuid list"
  gor_groupType :: u8
  gor_dungeonDifficulty :: u8
  gor_raidDifficulty :: u8
  gor_legacyRaidDifficulty :: u8
  gor_masterLooter :: ObjectGuid
  gor_storeId :: u32
  gor_lfg_dungeon :: u32
  gor_lfg_state :: u8

definition Group_LoadGroupFromDB :: "(ObjectGuid \<Rightarrow> (string \<times> u8) option) \<Rightarrow> difficulty_rows \<Rightarrow> GroupRow \<Rightarrow> group_state \<Rightarrow> group_state" where
  "Group_LoadGroupFromDB names rows row = (\<lambda>(g, w).
     let (group_id, mgr) = GroupMgr_GenerateGroupId (gw_mgr w); w1 = w\<lparr>gw_mgr := mgr\<rparr>;
         g1 = g\<lparr>gr_dbStoreId := gor_storeId row, gr_guid := ObjectGuid_Global HighGuid_Party group_id, gr_leaderGuid := gor_leader row\<rparr>
     in case names (gor_leader row) of
          None \<Rightarrow> (g1, w1)
        | Some (name, cls) \<Rightarrow>
            (let g2 = g1\<lparr>gr_leaderName := name, gr_lootMethod := gor_lootMethod row, gr_looterGuid := gor_looter row,
                        gr_lootThreshold := gor_threshold row, gr_targetIcons := gor_icons row,
                        gr_groupFlags := ucast (gor_groupType row)\<rparr>;
                 g3 = (if gr_groupFlags g2 AND GROUP_FLAG_RAID \<noteq> 0 then Group_initRaidSubGroupsCounter g2 else g2);
                 g4 = g3\<lparr>gr_dungeonDifficulty := Player_CheckLoadedDungeonDifficultyID rows (gor_dungeonDifficulty row),
                        gr_raidDifficulty := Player_CheckLoadedRaidDifficultyID rows (gor_raidDifficulty row),
                        gr_legacyRaidDifficulty := Player_CheckLoadedLegacyRaidDifficultyID rows (gor_legacyRaidDifficulty row),
                        gr_masterLooterGuid := gor_masterLooter row\<rparr>
             in (g4, if gr_groupFlags g4 AND GROUP_FLAG_LFG \<noteq> 0
                     then gw_on_lfg (LFGMgr_LoadFromDB (gor_leader row) (gor_lfg_dungeon row) (gor_lfg_state row) (gr_guid g4)) w1
                     else w1)))"

definition Group_LoadMemberFromDB :: "(ObjectGuid \<Rightarrow> (string \<times> u8) option) \<Rightarrow> ObjectGuid \<Rightarrow> u8 \<Rightarrow> u8 \<Rightarrow> u8 \<Rightarrow> group_state \<Rightarrow> group_state" where
  "Group_LoadMemberFromDB names guid memberFlags subgroup roles = (\<lambda>(g, w).
     case names guid of
       None \<Rightarrow> (g, grp_tell (GroupSql (CHAR_DEL_GROUP_MEMBER (ObjectGuid_GetCounter guid))) w)
     | Some (name, cls) \<Rightarrow>
         (Group_SubGroupCounterIncrease subgroup (g\<lparr>gr_memberSlots := gr_memberSlots g @
            [\<lparr>ms_guid = guid, ms_name = name, ms_class = cls, ms_group = subgroup, ms_flags = memberFlags,
              ms_roles = roles, ms_readyChecked = False\<rparr>]\<rparr>),
          gw_on_lfg (LFGMgr_SetupGroupMember guid (gr_guid g)) w))"

end
