(* ===== verification/GroupHandler.thy ===== *)
theory GroupHandler
  imports GroupMembers
begin

section \<open>Groups: packets of the client (game/Handlers/GroupHandler.cpp)\<close>

text \<open>
  The handlers of the packets about groups: inviting, answering, leaving, removing, settings, subgroups, ready
  checks and markers, with the checks of who may do what. The groups live at addresses of the \<open>GroupServer\<close>; a
  new one gets the next address. What the handlers ask about the players is the \<open>PartyView\<close>. An error of the
  removal of a member is the error of the handler.
\<close>

definition ERR_PARTY_RESULT_OK :: u8 where "ERR_PARTY_RESULT_OK = 0"
definition ERR_BAD_PLAYER_NAME_S :: u8 where "ERR_BAD_PLAYER_NAME_S = 1"
definition ERR_TARGET_NOT_IN_GROUP_S :: u8 where "ERR_TARGET_NOT_IN_GROUP_S = 2"
definition ERR_TARGET_NOT_IN_INSTANCE_S :: u8 where "ERR_TARGET_NOT_IN_INSTANCE_S = 3"
definition ERR_GROUP_FULL :: u8 where "ERR_GROUP_FULL = 4"
definition ERR_ALREADY_IN_GROUP_S :: u8 where "ERR_ALREADY_IN_GROUP_S = 5"
definition ERR_NOT_IN_GROUP :: u8 where "ERR_NOT_IN_GROUP = 6"
definition ERR_NOT_LEADER :: u8 where "ERR_NOT_LEADER = 7"
definition ERR_PLAYER_WRONG_FACTION :: u8 where "ERR_PLAYER_WRONG_FACTION = 8"
definition ERR_IGNORING_YOU_S :: u8 where "ERR_IGNORING_YOU_S = 9"
definition ERR_INVITE_RESTRICTED :: u8 where "ERR_INVITE_RESTRICTED = 13"
definition ERR_PARTY_LFG_BOOT_LIMIT :: u8 where "ERR_PARTY_LFG_BOOT_LIMIT = 20"
definition ERR_PARTY_LFG_BOOT_IN_PROGRESS :: u8 where "ERR_PARTY_LFG_BOOT_IN_PROGRESS = 22"
definition ERR_PARTY_LFG_BOOT_TOO_FEW_PLAYERS :: u8 where "ERR_PARTY_LFG_BOOT_TOO_FEW_PLAYERS = 23"
definition ERR_PARTY_LFG_BOOT_IN_COMBAT :: u8 where "ERR_PARTY_LFG_BOOT_IN_COMBAT = 26"
definition ERR_PARTY_LFG_BOOT_DUNGEON_COMPLETE :: u8 where "ERR_PARTY_LFG_BOOT_DUNGEON_COMPLETE = 28"
definition ERR_PARTY_LFG_BOOT_LOOT_ROLLS :: u8 where "ERR_PARTY_LFG_BOOT_LOOT_ROLLS = 29"

definition PARTY_OP_INVITE :: u8 where "PARTY_OP_INVITE = 0"
definition PARTY_OP_UNINVITE :: u8 where "PARTY_OP_UNINVITE = 1"
definition PARTY_OP_LEAVE :: u8 where "PARTY_OP_LEAVE = 2"

definition GROUP_ASSIGN_MAINTANK :: u8 where "GROUP_ASSIGN_MAINTANK = 0"
definition GROUP_ASSIGN_MAINASSIST :: u8 where "GROUP_ASSIGN_MAINASSIST = 1"

definition READYCHECK_DURATION :: u32 where "READYCHECK_DURATION = 35000"

record GroupServer =
  gs_groups :: "nat \<Rightarrow> Group option"
  gs_next :: nat
  gs_world :: GroupWorld

record PartyView =
  pv_find :: "string \<Rightarrow> ObjectGuid option"
  pv_allow_gm_group :: bool
  pv_two_side :: bool
  pv_level_req :: u32
  pv_team :: "ObjectGuid \<Rightarrow> Team"
  pv_instance :: "ObjectGuid \<Rightarrow> u32"
  pv_ignores :: "ObjectGuid \<Rightarrow> ObjectGuid \<Rightarrow> bool"
  pv_friend :: "ObjectGuid \<Rightarrow> ObjectGuid \<Rightarrow> bool"
  pv_level :: "ObjectGuid \<Rightarrow> u8"
  pv_InBattleground :: "ObjectGuid \<Rightarrow> bool"
  pv_InCombat :: "ObjectGuid \<Rightarrow> bool"
  pv_hostile :: "ObjectGuid \<Rightarrow> ObjectGuid \<Rightarrow> bool"

definition gs_tell :: "group_event \<Rightarrow> GroupServer \<Rightarrow> GroupServer" where
  "gs_tell ev s = s\<lparr>gs_world := grp_tell ev (gs_world s)\<rparr>"

definition gs_put :: "nat \<Rightarrow> Group option \<Rightarrow> GroupWorld \<Rightarrow> GroupServer \<Rightarrow> GroupServer" where
  "gs_put a g w s = s\<lparr>gs_groups := (gs_groups s)(a := g), gs_world := w\<rparr>"

text \<open>An operation on the group at an address.\<close>

definition gs_on :: "nat \<Rightarrow> (group_state \<Rightarrow> group_state) \<Rightarrow> GroupServer \<Rightarrow> GroupServer" where
  "gs_on a f s =
     (case gs_groups s a of None \<Rightarrow> s
      | Some g \<Rightarrow> (case f (g, gs_world s) of (g1, w1) \<Rightarrow> gs_put a (Some g1) w1 s))"

text \<open>The group of a player.\<close>

definition gs_group :: "ObjectGuid \<Rightarrow> GroupServer \<Rightarrow> Group option" where
  "gs_group guid s = (case Player_GetGroup guid (gs_world s) of None \<Rightarrow> None | Some a \<Rightarrow> gs_groups s a)"

definition gs_is_bg :: "GroupServer \<Rightarrow> nat \<Rightarrow> bool" where
  "gs_is_bg s a = (case gs_groups s a of None \<Rightarrow> False | Some g \<Rightarrow> Group_isBGGroup g \<or> Group_isBFGroup g)"

definition may_lead :: "ObjectGuid \<Rightarrow> Group \<Rightarrow> bool" where
  "may_lead guid g \<longleftrightarrow> Group_IsLeader guid g \<or> Group_IsAssistant guid g"

definition SendPartyResult :: "ObjectGuid \<Rightarrow> u8 \<Rightarrow> string \<Rightarrow> u8 \<Rightarrow> GroupServer \<Rightarrow> GroupServer" where
  "SendPartyResult guid operation member res = gs_tell (GroupSend guid (SMSG_PARTY_COMMAND_RESULT operation member res 0))"

subsection \<open>Inviting\<close>

text \<open>Why a player may not invite another one, before their groups are looked at.\<close>

definition invite_refused :: "GroupEnv \<Rightarrow> PartyView \<Rightarrow> GroupWorld \<Rightarrow> ObjectGuid \<Rightarrow> ObjectGuid \<Rightarrow> u8 option" where
  "invite_refused e v w me player =
     (if player = me then Some ERR_BAD_PLAYER_NAME_S
      else if \<not> pv_allow_gm_group v \<and> \<not> ge_game_master e me \<and> ge_game_master e player then Some ERR_BAD_PLAYER_NAME_S
      else if \<not> ge_game_master e me \<and> \<not> pv_two_side v \<and> pv_team v me \<noteq> pv_team v player then Some ERR_PLAYER_WRONG_FACTION
      else if pv_instance v me \<noteq> 0 \<and> pv_instance v player \<noteq> 0 \<and> pv_instance v me \<noteq> pv_instance v player \<and>
              ge_map e me = ge_map e player then Some ERR_TARGET_NOT_IN_INSTANCE_S
      else if pv_instance v player \<noteq> 0 \<and> gp_dungeonDifficulty (gw_player w player) \<noteq> gp_dungeonDifficulty (gw_player w me)
      then Some ERR_IGNORING_YOU_S
      else if pv_ignores v player me then Some ERR_IGNORING_YOU_S
      else if \<not> pv_friend v player me \<and> ucast (pv_level v me) < pv_level_req v then Some ERR_INVITE_RESTRICTED
      else None)"

text \<open>The group of a player that is not that of a battleground.\<close>

definition home_group :: "ObjectGuid \<Rightarrow> GroupServer \<Rightarrow> nat option" where
  "home_group guid s =
     (case Player_GetGroup guid (gs_world s) of
        None \<Rightarrow> None
      | Some a \<Rightarrow> (if (case gs_groups s a of Some g \<Rightarrow> Group_isBGGroup g | None \<Rightarrow> False)
                  then Player_GetOriginalGroup guid (gs_world s) else Some a))"

definition gs_delete :: "nat \<Rightarrow> GroupServer \<Rightarrow> GroupServer" where
  "gs_delete a s = (case gs_groups s a of None \<Rightarrow> s | Some g \<Rightarrow> gs_put a None (Group_destroy g (gs_world s)) s)"

text \<open>The invitation itself: to the group of the inviter, or to a new one which is deleted when it fails.\<close>

definition invite_to :: "GroupEnv \<Rightarrow> nat option \<Rightarrow> ObjectGuid \<Rightarrow> ObjectGuid \<Rightarrow> GroupServer \<Rightarrow> bool \<times> GroupServer" where
  "invite_to e home me player s =
     (case home of
        Some a \<Rightarrow>
          (case gs_groups s a of None \<Rightarrow> (False, s)
           | Some g \<Rightarrow>
               (case Group_AddInvite e (gs_is_bg s) player (g, gs_world s) of
                  (ok, g1, w1) \<Rightarrow> (ok, gs_put a (Some g1) w1 s)))
      | None \<Rightarrow>
          (let a = gs_next s; s1 = s\<lparr>gs_next := Suc a\<rparr> in
           case Group_AddLeaderInvite e (gs_is_bg s) me (Group_init a, gs_world s1) of
             (False, g1, w1) \<Rightarrow> (False, gs_delete a (gs_put a (Some g1) w1 s1))
           | (True, g1, w1) \<Rightarrow>
               (case Group_AddInvite e (gs_is_bg s) player (g1, w1) of
                  (True, g2, w2) \<Rightarrow> (True, gs_put a (Some g2) w2 s1)
                | (False, g2, w2) \<Rightarrow>
                    (case Group_RemoveAllInvites (g2, w2) of
                       (g3, w3) \<Rightarrow> (False, gs_delete a (gs_put a (Some g3) w3 s1))))))"

definition HandlePartyInviteOpcode :: "GroupEnv \<Rightarrow> PartyView \<Rightarrow> ObjectGuid \<Rightarrow> string \<Rightarrow> u32 \<Rightarrow> GroupServer \<Rightarrow> GroupServer" where
  "HandlePartyInviteOpcode e v me targetName roles s =
     (case pv_find v targetName of
        None \<Rightarrow> SendPartyResult me PARTY_OP_INVITE targetName ERR_BAD_PLAYER_NAME_S s
      | Some player \<Rightarrow>
          (case invite_refused e v (gs_world s) me player of
             Some res \<Rightarrow> SendPartyResult me PARTY_OP_INVITE (ge_name e player) res s
           | None \<Rightarrow>
               (let home = home_group me s; other = home_group player s in
                if other \<noteq> None \<or> gp_groupInvite (gw_player (gs_world s) player) \<noteq> None
                then (let s1 = SendPartyResult me PARTY_OP_INVITE (ge_name e player) ERR_ALREADY_IN_GROUP_S s
                      in if other \<noteq> None then gs_tell (GroupSend player (SMSG_PARTY_INVITE me roles False)) s1 else s1)
                else
                  (case (case home of None \<Rightarrow> None | Some a \<Rightarrow> gs_groups s a) of
                     Some g \<Rightarrow>
                       if \<not> may_lead me g then SendPartyResult me PARTY_OP_INVITE [] ERR_NOT_LEADER s
                       else if Group_IsFull g then SendPartyResult me PARTY_OP_INVITE [] ERR_GROUP_FULL s
                       else
                         (case invite_to e home me player s of
                            (False, s1) \<Rightarrow> s1
                          | (True, s1) \<Rightarrow> SendPartyResult me PARTY_OP_INVITE (ge_name e player) ERR_PARTY_RESULT_OK
                              (gs_tell (GroupSend player (SMSG_PARTY_INVITE me roles True)) s1))
                   | None \<Rightarrow>
                       (case invite_to e home me player s of
                          (False, s1) \<Rightarrow> s1
                        | (True, s1) \<Rightarrow> SendPartyResult me PARTY_OP_INVITE (ge_name e player) ERR_PARTY_RESULT_OK
                            (gs_tell (GroupSend player (SMSG_PARTY_INVITE me roles True)) s1))))))"

definition Player_UninviteFromGroup :: "GroupEnv \<Rightarrow> ObjectGuid \<Rightarrow> GroupServer \<Rightarrow> GroupServer" where
  "Player_UninviteFromGroup e guid s =
     (case gp_groupInvite (gw_player (gs_world s) guid) of
        None \<Rightarrow> s
      | Some a \<Rightarrow>
          (case gs_groups s a of
             None \<Rightarrow> s
           | Some g \<Rightarrow>
               (case Group_RemoveInvite guid (g, gs_world s) of
                  (g1, w1) \<Rightarrow>
                    if Group_GetMembersCount g1 \<le> 1
                    then (if Group_IsCreated g1 then gs_put a None (Group_Disband e True (g1, w1)) s
                          else (case Group_RemoveAllInvites (g1, w1) of (g2, w2) \<Rightarrow> gs_delete a (gs_put a (Some g2) w2 s)))
                    else gs_put a (Some g1) w1 s)))"

text \<open>A player accepts: a group that is not created yet is created with its leader first.\<close>

definition accept_create :: "GroupEnv \<Rightarrow> group_state \<Rightarrow> group_error + (bool \<times> group_state)" where
  "accept_create e = (\<lambda>(g, w).
     if Group_IsCreated g then Inr (True, g, w)
     else if \<not> ge_in_world e (gr_leaderGuid g) then Inr (False, Group_RemoveAllInvites (g, w))
     else
       and_then (Group_Create e (gr_leaderGuid g) (Group_RemoveInvite (gr_leaderGuid g) (g, w)))
         (\<lambda>(ok, g1, w1). Inr (True, g1, gw_on_mgr (GroupMgr_AddGroup (gr_guid g1) (gr_this g1)) w1)))"

definition HandlePartyInviteResponseOpcode :: "GroupEnv \<Rightarrow> ObjectGuid \<Rightarrow> bool \<Rightarrow> GroupServer \<Rightarrow> group_error + GroupServer" where
  "HandlePartyInviteResponseOpcode e me accepts s =
     (case gp_groupInvite (gw_player (gs_world s) me) of
        None \<Rightarrow> Inr s
      | Some a \<Rightarrow>
          (case gs_groups s a of
             None \<Rightarrow> Inr s
           | Some g \<Rightarrow>
               if accepts
               then
                 (case Group_RemoveInvite me (g, gs_world s) of
                    (g1, w1) \<Rightarrow>
                      if Group_IsLeader me g1 then Inr (gs_put a (Some g1) w1 s)
                      else if Group_IsFull g1
                      then Inr (SendPartyResult me PARTY_OP_INVITE [] ERR_GROUP_FULL (gs_put a (Some g1) w1 s))
                      else
                        and_then (accept_create e (g1, w1)) (\<lambda>(ready, st).
                          if \<not> ready then Inr (gs_put a (Some (fst st)) (snd st) s)
                          else (case Group_AddMember e me st of
                                  (added, g3, w3) \<Rightarrow>
                                    Inr (gs_put a (Some g3) (if added then Group_BroadcastGroupUpdate e g3 w3 else w3) s))))
               else
                 (let leader = gr_leaderGuid g; s1 = Player_UninviteFromGroup e me s
                  in if ge_connected e leader then Inr (gs_tell (GroupSend leader (SMSG_GROUP_DECLINE (ge_name e me))) s1)
                     else Inr s1)))"

subsection \<open>Leaving and removing\<close>

definition Player_CanUninviteFromGroup :: "PartyView \<Rightarrow> ObjectGuid \<Rightarrow> ObjectGuid \<Rightarrow> GroupServer \<Rightarrow> u8" where
  "Player_CanUninviteFromGroup v me guidMember s =
     (case gs_group me s of
        None \<Rightarrow> ERR_NOT_IN_GROUP
      | Some g \<Rightarrow>
          (let m = gw_lfg (gs_world s); gguid = gr_guid g in
           if Group_isLFGGroup g
           then (if LFGMgr_GetKicksLeft gguid m = 0 then ERR_PARTY_LFG_BOOT_LIMIT
                 else if LFGMgr_IsVoteKickActive gguid m then ERR_PARTY_LFG_BOOT_IN_PROGRESS
                 else if unat (Group_GetMembersCount g) \<le> LFG_GROUP_KICK_VOTES_NEEDED then ERR_PARTY_LFG_BOOT_TOO_FEW_PLAYERS
                 else if LFGMgr_GetState gguid m = LFG_STATE_FINISHED_DUNGEON then ERR_PARTY_LFG_BOOT_DUNGEON_COMPLETE
                 else if gr_RollId g \<noteq> [] then ERR_PARTY_LFG_BOOT_LOOT_ROLLS
                 else if list_ex (\<lambda>(p, r). pv_InCombat v p) (gw_links (gs_world s) (gr_this g)) then ERR_PARTY_LFG_BOOT_IN_COMBAT
                 else ERR_PARTY_RESULT_OK)
           else if \<not> may_lead me g then ERR_NOT_LEADER
           else if pv_InBattleground v me then ERR_INVITE_RESTRICTED
           else if Group_IsLeader guidMember g then ERR_NOT_LEADER
           else ERR_PARTY_RESULT_OK))"

definition gs_remove :: "GroupEnv \<Rightarrow> LootContext \<Rightarrow> nat \<Rightarrow> ObjectGuid \<Rightarrow> RemoveMethod \<Rightarrow> ObjectGuid \<Rightarrow> string option
    \<Rightarrow> GroupServer \<Rightarrow> group_error + GroupServer" where
  "gs_remove e c a guid reason_method kicker reason s =
     (case gs_groups s a of
        None \<Rightarrow> Inr s
      | Some g \<Rightarrow> and_then (Group_RemoveMember e c guid reason_method kicker reason (g, gs_world s))
                    (\<lambda>(r, og, w). Inr (gs_put a og w s)))"

definition HandlePartyUninviteOpcode :: "GroupEnv \<Rightarrow> PartyView \<Rightarrow> LootContext \<Rightarrow> ObjectGuid \<Rightarrow> ObjectGuid \<Rightarrow> string
    \<Rightarrow> GroupServer \<Rightarrow> group_error + GroupServer" where
  "HandlePartyUninviteOpcode e v c me target reason s =
     (if target = me then Inr s
      else
        (let res = Player_CanUninviteFromGroup v me target s in
         if res \<noteq> ERR_PARTY_RESULT_OK then Inr (SendPartyResult me PARTY_OP_UNINVITE [] res s)
         else case gs_group me s of
           None \<Rightarrow> Inl GroupAssertFailed
         | Some g \<Rightarrow>
             if Group_IsMember target g
             then gs_remove e c (gr_this g) target GROUP_REMOVEMETHOD_KICK me (Some reason) s
             else if Group_GetInvited target g \<noteq> None then Inr (Player_UninviteFromGroup e target s)
             else Inr (SendPartyResult me PARTY_OP_UNINVITE [] ERR_TARGET_NOT_IN_GROUP_S s)))"

definition HandleLeaveGroupOpcode :: "GroupEnv \<Rightarrow> PartyView \<Rightarrow> LootContext \<Rightarrow> ObjectGuid \<Rightarrow> GroupServer \<Rightarrow> group_error + GroupServer" where
  "HandleLeaveGroupOpcode e v c me s =
     (case gs_group me s of
        None \<Rightarrow> Inr s
      | Some g \<Rightarrow>
          if pv_InBattleground v me then Inr (SendPartyResult me PARTY_OP_INVITE [] ERR_INVITE_RESTRICTED s)
          else gs_remove e c (gr_this g) me GROUP_REMOVEMETHOD_LEAVE ObjectGuid_Empty None
                 (SendPartyResult me PARTY_OP_LEAVE (ge_name e me) ERR_PARTY_RESULT_OK s))"

subsection \<open>Settings\<close>

text \<open>An operation on the own group, under a condition on it.\<close>

definition own_group :: "ObjectGuid \<Rightarrow> (Group \<Rightarrow> bool) \<Rightarrow> (group_state \<Rightarrow> group_state) \<Rightarrow> GroupServer \<Rightarrow> GroupServer" where
  "own_group me may f s =
     (case gs_group me s of None \<Rightarrow> s | Some g \<Rightarrow> if may g then gs_on (gr_this g) f s else s)"

definition HandleSetPartyLeaderOpcode :: "GroupEnv \<Rightarrow> ObjectGuid \<Rightarrow> ObjectGuid \<Rightarrow> 8 word \<Rightarrow> GroupServer \<Rightarrow> GroupServer" where
  "HandleSetPartyLeaderOpcode e me target partyIndex s =
     (if \<not> ge_connected e target then s
      else own_group me (\<lambda>g. Group_IsLeader me g \<and> Player_GetGroup target (gs_world s) = Some (gr_this g))
             (\<lambda>st. case Group_ChangeLeader e target partyIndex st of (g1, w1) \<Rightarrow> (g1, Group_SendUpdate e g1 w1)) s)"

definition HandleSetRoleOpcode :: "GroupEnv \<Rightarrow> ObjectGuid \<Rightarrow> ObjectGuid \<Rightarrow> u8 \<Rightarrow> 8 word \<Rightarrow> GroupServer \<Rightarrow> GroupServer" where
  "HandleSetRoleOpcode e me target role partyIndex s =
     (let oldRole = (case gs_group me s of None \<Rightarrow> 0 | Some g \<Rightarrow> Group_GetLfgRoles target g);
          inform = SMSG_ROLE_CHANGED_INFORM partyIndex me target oldRole role in
      if oldRole = role then s
      else case gs_group me s of
        Some g \<Rightarrow> gs_on (gr_this g) (\<lambda>(g, w). Group_SetLfgRoles e target role
                    (g, Group_BroadcastPacket inform False None ObjectGuid_Empty g w)) s
      | None \<Rightarrow> gs_tell (GroupSend me inform) s)"

text \<open>The loot method of the packet, if it is one of the four.\<close>

definition HandleSetLootMethodOpcode :: "GroupEnv \<Rightarrow> ObjectGuid \<Rightarrow> LootMethod option \<Rightarrow> u32 \<Rightarrow> ObjectGuid \<Rightarrow> GroupServer \<Rightarrow> GroupServer" where
  "HandleSetLootMethodOpcode e me lootMethod threshold master s =
     (case lootMethod of
        None \<Rightarrow> s
      | Some lm \<Rightarrow>
          own_group me (\<lambda>g. Group_IsLeader me g \<and> ucast ITEM_QUALITY_UNCOMMON \<le> threshold \<and> threshold \<le> ucast ITEM_QUALITY_ARTIFACT \<and>
              (lm = MASTER_LOOT \<longrightarrow> Group_IsMember master g))
            (\<lambda>(g, w). let g1 = Group_SetLootThreshold (ucast threshold) (Group_SetMasterLooterGuid master (Group_SetLootMethod lm g))
                      in (g1, Group_SendUpdate e g1 w)) s)"

definition HandleLootRoll :: "GroupEnv \<Rightarrow> LootContext \<Rightarrow> ObjectGuid \<Rightarrow> ObjectGuid \<Rightarrow> u8 \<Rightarrow> u8 \<Rightarrow> GroupServer
    \<Rightarrow> group_error + GroupServer" where
  "HandleLootRoll e c me lootObj lootListId rollType s =
     (case gs_group me s of
        None \<Rightarrow> Inr s
      | Some g \<Rightarrow>
          (case Group_CountRollVote e c me lootObj (lootListId - 1) rollType (g, gs_world s) of
             Inl err \<Rightarrow> Inl err
           | Inr (g1, w1) \<Rightarrow>
               (let s1 = gs_put (gr_this g) (Some g1) w1 s
                in Inr (if rollType = ROLL_NEED then gs_tell (UpdateRollCriteria me ROLL_NEED 0 1) s1
                        else if rollType = ROLL_GREED then gs_tell (UpdateRollCriteria me ROLL_GREED 0 1) s1 else s1))))"

definition HandleMinimapPingOpcode :: "ObjectGuid \<Rightarrow> rat \<times> rat \<Rightarrow> GroupServer \<Rightarrow> GroupServer" where
  "HandleMinimapPingOpcode me position =
     own_group me (\<lambda>_. True) (\<lambda>(g, w). (g, Group_BroadcastPacket (SMSG_MINIMAP_PING me position) True None me g w))"

definition HandleUpdateRaidTargetOpcode :: "GroupEnv \<Rightarrow> PartyView \<Rightarrow> ObjectGuid \<Rightarrow> 8 word \<Rightarrow> ObjectGuid \<Rightarrow> 8 word \<Rightarrow> GroupServer \<Rightarrow> GroupServer" where
  "HandleUpdateRaidTargetOpcode e v me symbol target partyIndex =
     (if symbol = - 1 then own_group me (\<lambda>_. True) (Group_SendTargetIconList me partyIndex)
      else own_group me (\<lambda>g. \<not> (Group_isRaidGroup g \<and> \<not> may_lead me g) \<and>
               \<not> (ObjectGuid_GetHigh target = HighGuid_Player \<and> (\<not> ge_connected e target \<or> pv_hostile v target me)))
             (Group_SetTargetIcon symbol target me partyIndex))"

definition HandleConvertRaidOpcode :: "GroupEnv \<Rightarrow> PartyView \<Rightarrow> ObjectGuid \<Rightarrow> bool \<Rightarrow> GroupServer \<Rightarrow> GroupServer" where
  "HandleConvertRaidOpcode e v me raid =
     own_group me (\<lambda>g. \<not> pv_InBattleground v me \<and> Group_IsLeader me g \<and> 2 \<le> Group_GetMembersCount g)
       (\<lambda>(g, w). (if raid then Group_ConvertToRaid e else Group_ConvertToGroup e)
          (g, grp_tell (GroupSend me (SMSG_PARTY_COMMAND_RESULT PARTY_OP_INVITE [] ERR_PARTY_RESULT_OK 0)) w))"

definition HandleRequestPartyJoinUpdates :: "ObjectGuid \<Rightarrow> 8 word \<Rightarrow> GroupServer \<Rightarrow> GroupServer" where
  "HandleRequestPartyJoinUpdates me partyIndex =
     own_group me (\<lambda>_. True) (\<lambda>st. Group_SendRaidMarkersChanged (Some me) partyIndex (Group_SendTargetIconList me partyIndex st))"

definition HandleChangeSubGroupOpcode :: "GroupEnv \<Rightarrow> ObjectGuid \<Rightarrow> ObjectGuid \<Rightarrow> u8 \<Rightarrow> GroupServer \<Rightarrow> GroupServer" where
  "HandleChangeSubGroupOpcode e me target newSubGroup =
     own_group me (\<lambda>g. unat newSubGroup < MAX_RAID_SUBGROUPS \<and> may_lead me g \<and> Group_HasFreeSlotSubGroup newSubGroup g)
       (Group_ChangeMembersGroup e target newSubGroup)"

definition HandleSwapSubGroupsOpcode :: "GroupEnv \<Rightarrow> ObjectGuid \<Rightarrow> ObjectGuid \<Rightarrow> ObjectGuid \<Rightarrow> GroupServer \<Rightarrow> GroupServer" where
  "HandleSwapSubGroupsOpcode e me first second = own_group me (may_lead me) (Group_SwapMembersGroups e first second)"

definition HandleSetAssistantLeaderOpcode :: "GroupEnv \<Rightarrow> ObjectGuid \<Rightarrow> ObjectGuid \<Rightarrow> bool \<Rightarrow> GroupServer \<Rightarrow> GroupServer" where
  "HandleSetAssistantLeaderOpcode e me target apply_flag =
     own_group me (Group_IsLeader me) (Group_SetGroupMemberFlag e target apply_flag MEMBER_FLAG_ASSISTANT)"

definition HandleSetPartyAssignment :: "GroupEnv \<Rightarrow> ObjectGuid \<Rightarrow> ObjectGuid \<Rightarrow> u8 \<Rightarrow> bool \<Rightarrow> GroupServer \<Rightarrow> GroupServer" where
  "HandleSetPartyAssignment e me target assignment v =
     own_group me (may_lead me) (\<lambda>(g, w).
       let (g1, w1) =
         (if assignment = GROUP_ASSIGN_MAINASSIST
          then Group_SetGroupMemberFlag e target v MEMBER_FLAG_MAINASSIST (Group_RemoveUniqueGroupMemberFlag MEMBER_FLAG_MAINASSIST g, w)
          else if assignment = GROUP_ASSIGN_MAINTANK
          then Group_SetGroupMemberFlag e target v MEMBER_FLAG_MAINTANK (Group_RemoveUniqueGroupMemberFlag MEMBER_FLAG_MAINTANK g, w)
          else (g, w))
       in (g1, Group_SendUpdate e g1 w1))"

definition HandleDoReadyCheckOpcode :: "GroupEnv \<Rightarrow> ObjectGuid \<Rightarrow> 8 word \<Rightarrow> GroupServer \<Rightarrow> GroupServer" where
  "HandleDoReadyCheckOpcode e me partyIndex = own_group me (may_lead me) (Group_StartReadyCheck e me partyIndex READYCHECK_DURATION)"

definition HandleReadyCheckResponseOpcode :: "ObjectGuid \<Rightarrow> bool \<Rightarrow> GroupServer \<Rightarrow> GroupServer" where
  "HandleReadyCheckResponseOpcode me ready = own_group me (\<lambda>_. True) (Group_SetMemberReadyCheck me ready)"

definition HandleInitiateRolePoll :: "ObjectGuid \<Rightarrow> 8 word \<Rightarrow> GroupServer \<Rightarrow> GroupServer" where
  "HandleInitiateRolePoll me partyIndex =
     own_group me (may_lead me) (\<lambda>(g, w). (g, Group_BroadcastPacket (SMSG_ROLE_POLL_INFORM partyIndex me) True None ObjectGuid_Empty g w))"

definition HandleSetEveryoneIsAssistant :: "GroupEnv \<Rightarrow> ObjectGuid \<Rightarrow> bool \<Rightarrow> GroupServer \<Rightarrow> GroupServer" where
  "HandleSetEveryoneIsAssistant e me v = own_group me (Group_IsLeader me) (Group_SetEveryoneIsAssistant e v)"

definition HandleClearRaidMarker :: "ObjectGuid \<Rightarrow> u8 \<Rightarrow> GroupServer \<Rightarrow> GroupServer" where
  "HandleClearRaidMarker me markerId =
     own_group me (\<lambda>g. \<not> (Group_isRaidGroup g \<and> \<not> may_lead me g)) (Group_DeleteRaidMarker markerId)"

end
