(* ===== verification/GroupExample.thy ===== *)
theory GroupExample
  imports GroupHandler
begin

section \<open>Groups: a small server to evaluate on\<close>

text \<open>
  A server with one party of four, all online: the witnesses of the properties of groups run the handlers and the
  rolls on it. The first member leads; the second and third take part in a roll for one item.
\<close>

definition demo_member :: "nat \<Rightarrow> ObjectGuid" where
  "demo_member n = ObjectGuid (of_nat n) 0x0800000000000000"

definition demo_group_stores :: LFGStores where
  "demo_group_stores = \<lparr>ls_dungeons = [], ls_cached = (\<lambda>k. []), ls_rewards = [], ls_quest = (\<lambda>q. True),
     ls_holiday = (\<lambda>h. False), ls_access = (\<lambda>m d. None), ls_player = (\<lambda>g. None)\<rparr>"

definition demo_group_env :: GroupEnv where
  "demo_group_env = \<lparr>ge_lfg = lfg_world, ge_stores = demo_group_stores, ge_name = (\<lambda>p. ''x''), ge_class = (\<lambda>p. 1),
     ge_enchanting = (\<lambda>p. 0), ge_alive = (\<lambda>p. True), ge_map = (\<lambda>p. 1), ge_map_is_dungeon = (\<lambda>p. False),
     ge_game_master = (\<lambda>p. False), ge_logging_out = (\<lambda>p. False), ge_CheckInstanceValidity = (\<lambda>p. True),
     ge_random_dungeon = (\<lambda>d. False), ge_save_difficulty = (\<lambda>i. 1), ge_save_map = (\<lambda>i. 1), ge_save_CanReset = (\<lambda>i. True),
     ge_map_loaded = (\<lambda>i. False), ge_downscale = (\<lambda>m d. d), ge_takeover = (\<lambda>p. None), ge_map_is_raid = (\<lambda>m. Some False),
     ge_map_reset = (\<lambda>i k. True), ge_map_players = (\<lambda>i. False), ge_reset_announce = False\<rparr>"

definition demo_party_player :: GroupPlayer where
  "demo_party_player = \<lparr>gp_group = Some (0, 0), gp_originalGroup = None, gp_groupInvite = None, gp_partyType = 1,
     gp_sequences = (\<lambda>k. (ObjectGuid_Empty, 0)), gp_leaderFlag = False, gp_dungeonDifficulty = 1, gp_raidDifficulty = 14,
     gp_legacyRaidDifficulty = 3, gp_InstanceValid = True, gp_binds = []\<rparr>"

definition demo_roll :: Roll where
  "demo_roll = \<lparr>rl_loot = ObjectGuid 9 9, rl_itemid = 100, rl_itemCount = 1,
     rl_playerVote = [(demo_member 2, NOT_EMITED_YET), (demo_member 3, NOT_EMITED_YET)], rl_totalPlayersRolling = 2,
     rl_totalNeed = 0, rl_totalGreed = 0, rl_totalPass = 0, rl_itemSlot = 0, rl_rollVoteMask = 7\<rparr>"

definition demo_loot :: Loot where
  "demo_loot = \<lparr>lo_items = [\<lparr>lo_itemid = 100, lo_count = 1, lo_freeforall = False, lo_follow_loot_rules = False,
     lo_is_looted = False, lo_is_blocked = True, lo_is_underthreshold = False\<rparr>], lo_quest_items = [], lo_unlootedCount = 1\<rparr>"

definition demo_group :: Group where
  "demo_group = (Group_init 0)\<lparr>gr_memberSlots := map (\<lambda>n. new_member demo_group_env (demo_member n) 0) [1, 2, 3, 4],
     gr_leaderGuid := demo_member 1, gr_lootMethod := GROUP_LOOT, gr_guid := ObjectGuid 5 0x6C00000000000000, gr_dbStoreId := 1\<rparr>"

definition demo_group_world :: GroupWorld where
  "demo_group_world = \<lparr>gw_player = (\<lambda>p. demo_party_player), gw_links = (\<lambda>a. map (\<lambda>n. (demo_member n, MainRef)) [4, 3, 2, 1]),
     gw_lfg = LFGMgr_init 0, gw_loot = [(ObjectGuid 9 9, demo_loot)], gw_saveGroups = (\<lambda>i. []), gw_mgr = GroupMgr_init,
     gw_sent = []\<rparr>"

definition demo_server :: GroupServer where
  "demo_server = \<lparr>gs_groups = (\<lambda>a. if a = 0 then Some demo_group else None), gs_next = 1, gs_world = demo_group_world\<rparr>"

definition demo_view :: PartyView where
  "demo_view = \<lparr>pv_find = (\<lambda>name. None), pv_allow_gm_group = True, pv_two_side = True, pv_level_req = 1,
     pv_team = (\<lambda>p. HORDE), pv_instance = (\<lambda>p. 0), pv_ignores = (\<lambda>p q. False), pv_friend = (\<lambda>p q. True),
     pv_level = (\<lambda>p. 20), pv_InBattleground = (\<lambda>p. False), pv_InCombat = (\<lambda>p. False), pv_hostile = (\<lambda>p q. False)\<rparr>"

definition demo_context :: LootContext where
  "demo_context = \<lparr>lc_near = (\<lambda>p. True), lc_allowed = (\<lambda>slot p. True), lc_quality = (\<lambda>i. 3), lc_only_greed = (\<lambda>i. False),
     lc_PassOnGroupLoot = (\<lambda>p. False), lc_CanRoll = (\<lambda>p i. True), lc_disenchant_skill = (\<lambda>i p. None),
     lc_CanStore = (\<lambda>p i n. True), lc_map = 1, lc_object = ObjectGuid 9 9\<rparr>"

end
