(* ===== verification/GroupInvariant.thy ===== *)
theory GroupInvariant
  imports GroupExample
begin

section \<open>Groups: what every packet keeps\<close>

text \<open>
  The well-formedness of a group: each member is in one of the eight subgroups; a raid, and no other group, has its
  eight counters, each the number of members of the subgroup and at most five; a group that is no raid has at most five
  members; at most one member is main tank and at most one main assist; and the mask of the markers has the bit of
  exactly the markers that are set. The \<open>group_core\<close> is what this reads; most operations leave it as it is.
\<close>

definition in_subgroup :: "nat \<Rightarrow> MemberSlot list \<Rightarrow> nat" where
  "in_subgroup i slots = length (filter (\<lambda>s. unat (ms_group s) = i) slots)"

definition subgroups_ok :: "Group \<Rightarrow> bool" where
  "subgroups_ok g \<longleftrightarrow> list_all (\<lambda>s. unat (ms_group s) < MAX_RAID_SUBGROUPS) (gr_memberSlots g) \<and>
     (case gr_subGroupsCounts g of
        None \<Rightarrow> \<not> Group_isRaidGroup g \<and> length (gr_memberSlots g) \<le> MAX_GROUP_SIZE
      | Some c \<Rightarrow> Group_isRaidGroup g \<and> length c = MAX_RAID_SUBGROUPS \<and>
          list_all (\<lambda>i. unat (c ! i) = in_subgroup i (gr_memberSlots g) \<and> unat (c ! i) \<le> MAX_GROUP_SIZE)
            [0..<MAX_RAID_SUBGROUPS])"

definition unique_flag :: "u8 \<Rightarrow> MemberSlot list \<Rightarrow> bool" where
  "unique_flag flag slots \<longleftrightarrow> length (filter (\<lambda>s. ms_flags s AND flag \<noteq> 0) slots) \<le> 1"

definition marks_ok :: "Group \<Rightarrow> bool" where
  "marks_ok g \<longleftrightarrow> length (gr_targetIcons g) = TARGET_ICONS_COUNT \<and> length (gr_markers g) = RAID_MARKERS_COUNT \<and>
     list_all (\<lambda>i. bit (gr_activeMarkers g) i \<longleftrightarrow> gr_markers g ! i \<noteq> None) [0..<RAID_MARKERS_COUNT]"

definition group_ok :: "nat \<Rightarrow> Group \<Rightarrow> bool" where
  "group_ok a g \<longleftrightarrow> gr_this g = a \<and> subgroups_ok g \<and> unique_flag MEMBER_FLAG_MAINTANK (gr_memberSlots g) \<and>
     unique_flag MEMBER_FLAG_MAINASSIST (gr_memberSlots g) \<and> marks_ok g"

definition group_core :: "Group \<Rightarrow> nat \<times> (u8 \<times> u8 \<times> u8) list \<times> u8 list option \<times> bool \<times> nat \<times> RaidMarker option list \<times> u32" where
  "group_core g = (gr_this g, map (\<lambda>s. (ms_group s, ms_flags s AND MEMBER_FLAG_MAINTANK, ms_flags s AND MEMBER_FLAG_MAINASSIST))
     (gr_memberSlots g), gr_subGroupsCounts g, Group_isRaidGroup g, length (gr_targetIcons g), gr_markers g, gr_activeMarkers g)"

named_theorems group_keeps

lemmas sizes = group_sizes numeral_eq_Suc

text \<open>The same over the core alone.\<close>

definition core_ok :: "nat \<Rightarrow> nat \<times> (u8 \<times> u8 \<times> u8) list \<times> u8 list option \<times> bool \<times> nat \<times> RaidMarker option list \<times> u32 \<Rightarrow> bool" where
  "core_ok a = (\<lambda>(this, ms, counts, raid, icons, markers, active).
     this = a \<and> list_all (\<lambda>(k, _). unat k < MAX_RAID_SUBGROUPS) ms \<and>
     (case counts of
        None \<Rightarrow> \<not> raid \<and> length ms \<le> MAX_GROUP_SIZE
      | Some c \<Rightarrow> raid \<and> length c = MAX_RAID_SUBGROUPS \<and>
          list_all (\<lambda>i. unat (c ! i) = length (filter (\<lambda>(k, _). unat k = i) ms) \<and> unat (c ! i) \<le> MAX_GROUP_SIZE)
            [0..<MAX_RAID_SUBGROUPS]) \<and>
     length (filter (\<lambda>(_, t, _). t \<noteq> 0) ms) \<le> 1 \<and> length (filter (\<lambda>(_, _, u). u \<noteq> 0) ms) \<le> 1 \<and>
     icons = TARGET_ICONS_COUNT \<and> length markers = RAID_MARKERS_COUNT \<and>
     list_all (\<lambda>i. bit active i \<longleftrightarrow> markers ! i \<noteq> None) [0..<RAID_MARKERS_COUNT])"

lemma group_ok_core: "group_ok a g = core_ok a (group_core g)"
  by (simp add: group_ok_def core_ok_def group_core_def subgroups_ok_def marks_ok_def unique_flag_def in_subgroup_def
      filter_map comp_def list.pred_map split: option.split)

lemma keep_core: "group_core g' = group_core g \<Longrightarrow> group_ok a g \<Longrightarrow> group_ok a g'"
  by (simp add: group_ok_core)

lemma gcore_fold: "(\<And>x st. group_core (fst (f x st)) = group_core (fst st)) \<Longrightarrow> group_core (fst (fold f xs st)) = group_core (fst st)"
  by (induction xs arbitrary: st) simp_all

subsection \<open>Counters\<close>

lemma unat_inc: "unat (x :: u8) < 255 \<Longrightarrow> unat (x + 1) = Suc (unat x)"
  by (simp add: unat_word_ariths)

lemma unat_dec: "0 < unat (x :: u8) \<Longrightarrow> unat (x - 1) = unat x - 1"
  by (metis gr_implies_not0 unat_0 unat_minus_one)

lemma in_subgroup_simps [simp]:
  "in_subgroup i [] = 0"
  "in_subgroup i (s # ss) = (if unat (ms_group s) = i then Suc (in_subgroup i ss) else in_subgroup i ss)"
  "in_subgroup i (xs @ ys) = in_subgroup i xs + in_subgroup i ys"
  by (simp_all add: in_subgroup_def)

lemma in_subgroup_le: "in_subgroup i slots \<le> length slots"
  by (simp add: in_subgroup_def)

lemma in_subgroup_pos: "s \<in> set slots \<Longrightarrow> 0 < in_subgroup (unat (ms_group s)) slots"
  by (auto simp: in_subgroup_def length_greater_0_conv filter_empty_conv)

lemma find_in_set: "find P xs = Some x \<Longrightarrow> x \<in> set xs \<and> P x"
  by (auto simp: find_Some_iff)

lemma in_subgroup_upd:
  "find (\<lambda>s. ms_guid s = guid) slots = Some s \<Longrightarrow>
     in_subgroup i (slot_upd guid (\<lambda>s. s\<lparr>ms_group := v\<rparr>) slots) + (if unat (ms_group s) = i then 1 else 0) =
     in_subgroup i slots + (if unat v = i then 1 else 0)"
  by (induction slots) (auto split: if_splits)

lemma in_subgroup_erase:
  "find (\<lambda>s. ms_guid s = guid) slots = Some s \<Longrightarrow>
     in_subgroup i (slot_erase guid slots) + (if unat (ms_group s) = i then 1 else 0) = in_subgroup i slots"
  by (induction slots) (auto split: if_splits)

lemma map_slot_upd: "(\<And>s. f (h s) = f s) \<Longrightarrow> map f (slot_upd guid h slots) = map f slots"
  by (induction slots) auto

lemma set_slot_upd: "set (slot_upd guid f slots) \<subseteq> set slots \<union> f ` set slots"
  by (induction slots) auto

lemma set_slot_erase: "set (slot_erase guid slots) \<subseteq> set slots"
  by (induction slots) auto

lemma length_slot_upd [simp]: "length (slot_upd guid f slots) = length slots"
  by (induction slots) auto

lemma length_slot_erase: "length (slot_erase guid slots) \<le> length slots"
  by (induction slots) auto

lemma find_slot_upd: "(\<And>s. ms_guid (f s) = ms_guid s) \<Longrightarrow> guid \<noteq> other \<Longrightarrow>
    find (\<lambda>s. ms_guid s = guid) (slot_upd other f slots) = find (\<lambda>s. ms_guid s = guid) slots"
  by (induction slots) auto

subsection \<open>Operations that leave the core\<close>

lemmas core_unfold = group_core_def Group_isRaidGroup_def Group_upd_slot_def

lemma group_flag_bits:
  "(f OR GROUP_FLAG_LFG OR GROUP_FLAG_LFG_RESTRICTED) AND GROUP_FLAG_RAID = f AND GROUP_FLAG_RAID"
  "(f OR GROUP_FLAG_EVERYONE_ASSISTANT) AND GROUP_FLAG_RAID = f AND GROUP_FLAG_RAID"
  "(f AND NOT GROUP_FLAG_EVERYONE_ASSISTANT) AND GROUP_FLAG_RAID = f AND GROUP_FLAG_RAID"
  by (simp_all add: GROUP_FLAG_LFG_def GROUP_FLAG_LFG_RESTRICTED_def GROUP_FLAG_RAID_def GROUP_FLAG_EVERYONE_ASSISTANT_def
      bit.conj_disj_distrib2 and.assoc)

lemma member_bits:
  "(f OR MEMBER_FLAG_ASSISTANT) AND MEMBER_FLAG_MAINTANK = f AND MEMBER_FLAG_MAINTANK"
  "(f AND NOT MEMBER_FLAG_ASSISTANT) AND MEMBER_FLAG_MAINTANK = f AND MEMBER_FLAG_MAINTANK"
  "(f OR MEMBER_FLAG_ASSISTANT) AND MEMBER_FLAG_MAINASSIST = f AND MEMBER_FLAG_MAINASSIST"
  "(f AND NOT MEMBER_FLAG_ASSISTANT) AND MEMBER_FLAG_MAINASSIST = f AND MEMBER_FLAG_MAINASSIST"
  by (simp_all add: MEMBER_FLAG_ASSISTANT_def MEMBER_FLAG_MAINTANK_def MEMBER_FLAG_MAINASSIST_def
      bit.conj_disj_distrib2 and.assoc)

lemma core_ConvertToLFG [simp]: "group_core (fst (Group_ConvertToLFG e (g, w))) = group_core g"
  by (simp add: Group_ConvertToLFG_def Let_def core_unfold group_flag_bits)

lemma core_Everyone [simp]: "group_core (fst (Group_SetEveryoneIsAssistant e v (g, w))) = group_core g"
  by (simp add: Group_SetEveryoneIsAssistant_def Let_def core_unfold group_flag_bits ToggleGroupMemberFlag_def member_bits)

lemma core_upd_slot:
  "(\<And>s. (ms_group (f s), ms_flags (f s) AND MEMBER_FLAG_MAINTANK, ms_flags (f s) AND MEMBER_FLAG_MAINASSIST) =
          (ms_group s, ms_flags s AND MEMBER_FLAG_MAINTANK, ms_flags s AND MEMBER_FLAG_MAINASSIST)) \<Longrightarrow>
   group_core (Group_upd_slot guid f g) = group_core g"
  by (simp add: core_unfold map_slot_upd)

lemma core_SetLfgRoles [simp]: "group_core (fst (Group_SetLfgRoles e guid r (g, w))) = group_core g"
  by (simp add: Group_SetLfgRoles_def Let_def core_upd_slot)

lemma core_settings [simp]:
  "group_core (Group_SetLootMethod m g) = group_core g"
  "group_core (Group_SetMasterLooterGuid u g) = group_core g"
  "group_core (Group_SetLootThreshold t g) = group_core g"
  by (simp_all add: Group_SetLootMethod_def Group_SetMasterLooterGuid_def Group_SetLootThreshold_def core_unfold)

lemma core_EndReadyCheck [simp]: "group_core (fst (Group_EndReadyCheck (g, w))) = group_core g"
  by (simp add: Group_EndReadyCheck_def Let_def Group_ResetMemberReadyChecked_def core_unfold)

lemma core_SetMemberReadyChecked [simp]: "group_core (fst (Group_SetMemberReadyChecked guid st)) = group_core (fst st)"
  by (cases st) (simp add: Group_SetMemberReadyChecked_def Let_def core_upd_slot)

lemma core_slot_ready [simp]: "group_core (fst (Group_slot_ready guid v st)) = group_core (fst st)"
  by (cases st) (simp add: Group_slot_ready_def)

lemma core_SetMemberReadyCheck [simp]: "group_core (fst (Group_SetMemberReadyCheck guid v st)) = group_core (fst st)"
  by (simp add: Group_SetMemberReadyCheck_def)

lemma core_offline_ready [simp]: "group_core (fst (Group_SetOfflineMembersReadyChecked e st)) = group_core (fst st)"
  by (simp add: Group_SetOfflineMembersReadyChecked_def gcore_fold)

lemma core_StartReadyCheck [simp]: "group_core (fst (Group_StartReadyCheck e guid p d (g, w))) = group_core g"
  by (simp add: Group_StartReadyCheck_def Let_def case_prod_unfold) (simp add: core_unfold)

lemma core_rolls [simp]: "group_core (g\<lparr>gr_RollId := r\<rparr>) = group_core g" "group_core (g\<lparr>gr_boundInstances := b\<rparr>) = group_core g"
  "group_core (g\<lparr>gr_maxEnchantingLevel := n\<rparr>) = group_core g" "group_core (g\<lparr>gr_invitees := i\<rparr>) = group_core g"
  "group_core (g\<lparr>gr_leaderGuid := u, gr_leaderName := s\<rparr>) = group_core g"
  by (simp_all add: core_unfold)

lemma core_CountTheRoll: "Group_CountTheRoll e c i st = Inr st' \<Longrightarrow> group_core (fst st') = group_core (fst st)"
  by (simp add: CountTheRoll_group)

lemma core_CountRollVote: "Group_CountRollVote e c guid loot slot choice st = Inr st' \<Longrightarrow> group_core (fst st') = group_core (fst st)"
  by (cases st) (auto simp: Group_CountRollVote_def Let_def case_prod_unfold dest: core_CountTheRoll split: option.splits if_splits)

lemma core_icon_list [simp]: "group_core (fst (Group_SendTargetIconList guid p (g, w))) = group_core g"
  by (simp add: Group_SendTargetIconList_def)

lemma core_set_icon [simp]: "group_core (fst (set_icon symbol target u p st)) = group_core (fst st)"
  by (cases st) (simp add: set_icon_def Let_def core_unfold)

lemma core_SetTargetIcon [simp]: "group_core (fst (Group_SetTargetIcon symbol target u p st)) = group_core (fst st)"
  by (simp add: Group_SetTargetIcon_def gcore_fold)

lemma core_markers_changed [simp]: "group_core (fst (Group_SendRaidMarkersChanged p i st)) = group_core (fst st)"
  by (cases st) (simp add: Group_SendRaidMarkersChanged_def Let_def)

subsection \<open>Operations that change it\<close>

lemma group_okI: "gr_this g = a \<Longrightarrow> subgroups_ok g \<Longrightarrow> unique_flag MEMBER_FLAG_MAINTANK (gr_memberSlots g) \<Longrightarrow>
    unique_flag MEMBER_FLAG_MAINASSIST (gr_memberSlots g) \<Longrightarrow> marks_ok g \<Longrightarrow> group_ok a g"
  by (simp add: group_ok_def)

lemma unique_flag_map:
  assumes "map (\<lambda>s. ms_flags s AND flag) ys = map (\<lambda>s. ms_flags s AND flag) xs"
  shows "unique_flag flag ys = unique_flag flag xs"
proof -
  have *: "unique_flag flag zs \<longleftrightarrow> length (filter (\<lambda>f. f \<noteq> 0) (map (\<lambda>s. ms_flags s AND flag) zs)) \<le> 1" for zs
    by (simp add: unique_flag_def filter_map comp_def)
  show ?thesis unfolding * assms by (rule refl)
qed

lemma unique_flag_erase: "unique_flag flag xs \<Longrightarrow> unique_flag flag (slot_erase guid xs)"
proof -
  have "length (filter P (slot_erase guid xs)) \<le> length (filter P xs)" for P
    by (induction xs) auto
  then show "unique_flag flag xs \<Longrightarrow> unique_flag flag (slot_erase guid xs)"
    unfolding unique_flag_def using le_trans by blast
qed

lemma unique_flag_upd: "filter (\<lambda>s. ms_flags s AND flag \<noteq> 0) xs = [] \<Longrightarrow> unique_flag flag (slot_upd guid f xs)"
proof -
  have "length (filter P (slot_upd guid f xs)) \<le> Suc (length (filter P xs))" for P
    by (induction xs) auto
  then show "filter (\<lambda>s. ms_flags s AND flag \<noteq> 0) xs = [] \<Longrightarrow> unique_flag flag (slot_upd guid f xs)"
    unfolding unique_flag_def by (metis One_nat_def list.size(3))
qed

lemma in_subgroup_map: "(\<And>s. ms_group (h s) = ms_group s) \<Longrightarrow> in_subgroup i (map h xs) = in_subgroup i xs"
  by (induction xs) simp_all

lemma subgroups_ok_map:
  "(\<And>s. ms_group (h s) = ms_group s) \<Longrightarrow> subgroups_ok (g\<lparr>gr_memberSlots := map h (gr_memberSlots g)\<rparr>) = subgroups_ok g"
  by (simp add: subgroups_ok_def Group_isRaidGroup_def in_subgroup_map list.pred_map comp_def split: option.split)

lemma unique_flags_off:
  assumes "flag = MEMBER_FLAG_MAINTANK \<or> flag = MEMBER_FLAG_MAINASSIST" "group_ok a g"
  shows "group_ok a (Group_RemoveUniqueGroupMemberFlag flag g)"
    and "filter (\<lambda>s. ms_flags s AND flag \<noteq> 0) (gr_memberSlots (Group_RemoveUniqueGroupMemberFlag flag g)) = []"
proof -
  let ?h = "\<lambda>s. if ms_flags s AND flag \<noteq> 0 then s\<lparr>ms_flags := ms_flags s AND NOT flag\<rparr> else s"
  have none: "ms_flags (?h s) AND flag = 0" for s by (simp add: and.assoc and.left_commute)
  then show off: "filter (\<lambda>s. ms_flags s AND flag \<noteq> 0) (gr_memberSlots (Group_RemoveUniqueGroupMemberFlag flag g)) = []"
    by (auto simp: Group_RemoveUniqueGroupMemberFlag_def filter_empty_conv and.assoc and.left_commute)
  have other: "ms_flags (?h s) AND f = ms_flags s AND f" if "f \<noteq> flag" "f = MEMBER_FLAG_MAINTANK \<or> f = MEMBER_FLAG_MAINASSIST" for s f
    using that assms (1) by (auto simp: MEMBER_FLAG_MAINTANK_def MEMBER_FLAG_MAINASSIST_def and.assoc)
  have uniq: "unique_flag f (map ?h (gr_memberSlots g))" if "f = MEMBER_FLAG_MAINTANK \<or> f = MEMBER_FLAG_MAINASSIST" for f
  proof (cases "f = flag")
    case True
    with off show ?thesis by (simp add: unique_flag_def Group_RemoveUniqueGroupMemberFlag_def)
  next
    case False
    have eq: "map (\<lambda>s. ms_flags s AND f) (map ?h (gr_memberSlots g)) = map (\<lambda>s. ms_flags s AND f) (gr_memberSlots g)"
      unfolding map_map comp_def other [OF False that] by (rule refl)
    have "unique_flag f (gr_memberSlots g)" using assms(2) that by (auto simp: group_ok_def)
    then show ?thesis unfolding unique_flag_map [OF eq] .
  qed
  have sub: "ms_group (?h s) = ms_group s" for s by simp
  have "subgroups_ok (Group_RemoveUniqueGroupMemberFlag flag g)"
    using assms(2) subgroups_ok_map [OF sub] by (simp add: group_ok_def Group_RemoveUniqueGroupMemberFlag_def)
  with assms(2) uniq show "group_ok a (Group_RemoveUniqueGroupMemberFlag flag g)"
    by (simp add: group_ok_def marks_ok_def Group_RemoveUniqueGroupMemberFlag_def)
qed

lemma subgroups_ok_Some: "gr_subGroupsCounts g = Some cs \<Longrightarrow> subgroups_ok g \<longleftrightarrow>
    (\<forall>s \<in> set (gr_memberSlots g). unat (ms_group s) < MAX_RAID_SUBGROUPS) \<and> Group_isRaidGroup g \<and> length cs = MAX_RAID_SUBGROUPS \<and>
    (\<forall>i < MAX_RAID_SUBGROUPS. unat (cs ! i) = in_subgroup i (gr_memberSlots g) \<and> in_subgroup i (gr_memberSlots g) \<le> MAX_GROUP_SIZE)"
  by (simp add: subgroups_ok_def list_all_iff Ball_def cong: conj_cong)

lemma in_subgroup_upd_same: "(\<And>s. ms_group (f s) = ms_group s) \<Longrightarrow> in_subgroup i (slot_upd guid f xs) = in_subgroup i xs"
  by (induction xs) simp_all

lemma subgroups_ok_upd: "(\<And>s. ms_group (f s) = ms_group s) \<Longrightarrow> subgroups_ok (Group_upd_slot guid f g) = subgroups_ok g"
proof -
  assume f: "\<And>s. ms_group (f s) = ms_group s"
  have "list_all (\<lambda>s. unat (ms_group s) < n) (slot_upd guid f xs) = list_all (\<lambda>s. unat (ms_group s) < n) xs" for n xs
    by (induction xs) (simp_all add: f)
  then show ?thesis
    by (simp add: subgroups_ok_def Group_upd_slot_def Group_isRaidGroup_def in_subgroup_upd_same [OF f] split: option.split)
qed

lemma SetGroupMemberFlag_ok:
  assumes "group_ok a g"
  shows "group_ok a (fst (Group_SetGroupMemberFlag e guid v flag (g, w)))"
proof (cases "\<not> Group_isRaidGroup g \<or> Group_getMemberSlot guid g = None \<or>
        flag \<notin> {MEMBER_FLAG_MAINASSIST, MEMBER_FLAG_MAINTANK, MEMBER_FLAG_ASSISTANT}")
  case True
  then have "Group_SetGroupMemberFlag e guid v flag (g, w) = (g, w)"
    by (simp only: Group_SetGroupMemberFlag_def case_prod_conv if_True)
  with assms show ?thesis by simp
next
  case False
  let ?g = "if flag = MEMBER_FLAG_ASSISTANT then g else Group_RemoveUniqueGroupMemberFlag flag g"
  let ?r = "Group_upd_slot guid (ToggleGroupMemberFlag flag v) ?g"
  have r: "fst (Group_SetGroupMemberFlag e guid v flag (g, w)) = ?r"
    unfolding Group_SetGroupMemberFlag_def case_prod_conv if_not_P [OF False] Let_def by simp
  show ?thesis
  proof (cases "flag = MEMBER_FLAG_ASSISTANT")
    case True
    then have "group_core ?r = group_core g"
      by (auto intro!: core_upd_slot simp: ToggleGroupMemberFlag_def member_bits)
    with assms show ?thesis unfolding r by (simp add: keep_core)
  next
    case False': False
    with False have flag: "flag = MEMBER_FLAG_MAINTANK \<or> flag = MEMBER_FLAG_MAINASSIST" by auto
    note off = unique_flags_off [OF flag assms]
    let ?h = "Group_RemoveUniqueGroupMemberFlag flag g" and ?f = "ToggleGroupMemberFlag flag v"
    have m: "map (\<lambda>s. ms_flags s AND f) (slot_upd guid ?f xs) = map (\<lambda>s. ms_flags s AND f) xs"
      if "f \<noteq> flag" "f = MEMBER_FLAG_MAINTANK \<or> f = MEMBER_FLAG_MAINASSIST" for f xs
      by (rule map_slot_upd) (use flag that in \<open>auto simp: ToggleGroupMemberFlag_def MEMBER_FLAG_MAINTANK_def
          MEMBER_FLAG_MAINASSIST_def bit.conj_disj_distrib2 and.assoc\<close>)
    have u: "unique_flag f (slot_upd guid ?f (gr_memberSlots ?h))" if "f = MEMBER_FLAG_MAINTANK \<or> f = MEMBER_FLAG_MAINASSIST" for f
    proof (cases "f = flag")
      case True
      with off(2) show ?thesis by (simp add: unique_flag_upd)
    next
      case False
      from off(1) that have "unique_flag f (gr_memberSlots ?h)" by (auto simp: group_ok_def)
      then show ?thesis unfolding unique_flag_map [OF m [OF False that]] .
    qed
    have "subgroups_ok (Group_upd_slot guid ?f ?h) = subgroups_ok ?h"
      by (rule subgroups_ok_upd) (simp add: ToggleGroupMemberFlag_def)
    with off(1) u False' show ?thesis unfolding r
      by (simp add: group_ok_def marks_ok_def Group_upd_slot_def)
  qed
qed

lemma erase_subgroups:
  assumes ok: "subgroups_ok g" and s: "Group_getMemberSlot guid g = Some s"
  shows "subgroups_ok ((Group_SubGroupCounterDecrease (ms_group s) g)\<lparr>gr_memberSlots := slot_erase guid (gr_memberSlots g)\<rparr>)"
proof -
  let ?k = "unat (ms_group s)" and ?xs = "gr_memberSlots g"
  have f: "find (\<lambda>s. ms_guid s = guid) ?xs = Some s" using s by (simp add: Group_getMemberSlot_def)
  then have in_xs: "s \<in> set ?xs" by (simp add: find_in_set)
  with ok have k: "?k < MAX_RAID_SUBGROUPS" by (auto simp: subgroups_ok_def list_all_iff)
  have small: "list_all (\<lambda>s. unat (ms_group s) < MAX_RAID_SUBGROUPS) (slot_erase guid ?xs)"
    using ok set_slot_erase by (fastforce simp: subgroups_ok_def list_all_iff)
  have c: "in_subgroup i (slot_erase guid ?xs) + (if ?k = i then 1 else 0) = in_subgroup i ?xs" for i
    by (rule in_subgroup_erase [OF f])
  show ?thesis
  proof (cases "gr_subGroupsCounts g")
    case None
    with ok small show ?thesis
      using le_trans [OF length_slot_erase]
      by (auto simp: subgroups_ok_def Group_SubGroupCounterDecrease_def Group_isRaidGroup_def)
  next
    case (Some cs)
    with ok have cs: "length cs = MAX_RAID_SUBGROUPS" "Group_isRaidGroup g"
      "\<And>i. i < MAX_RAID_SUBGROUPS \<Longrightarrow> unat (cs ! i) = in_subgroup i ?xs \<and> in_subgroup i ?xs \<le> MAX_GROUP_SIZE"
      by (simp_all add: subgroups_ok_Some)
    have "0 < unat (cs ! ?k)" using cs(3) [OF k] in_subgroup_pos [OF in_xs] by simp
    then have d: "unat (cs ! ?k - 1) = unat (cs ! ?k) - 1" by (rule unat_dec)
    have "unat (cs[?k := cs ! ?k - 1] ! i) = in_subgroup i (slot_erase guid ?xs) \<and> in_subgroup i (slot_erase guid ?xs) \<le> MAX_GROUP_SIZE"
      if "i < MAX_RAID_SUBGROUPS" for i
      using cs(1) cs(3) [OF that] c [of i] d k by (cases "i = ?k") (auto simp: that)
    with Some cs small show ?thesis
      by (subst subgroups_ok_Some) (auto simp: Group_SubGroupCounterDecrease_def Group_isRaidGroup_def list_all_iff)
  qed
qed

lemma ChangeMembersGroup_ok:
  assumes ok: "group_ok a g" and free: "unat sub < MAX_RAID_SUBGROUPS" "Group_HasFreeSlotSubGroup sub g"
  shows "group_ok a (fst (Group_ChangeMembersGroup e guid sub (g, w)))"
proof -
  let ?xs = "gr_memberSlots g" and ?n = "unat sub"
  obtain cs where cs: "gr_subGroupsCounts g = Some cs" "unat (cs ! ?n) < MAX_GROUP_SIZE"
    using free(2) by (auto simp: Group_HasFreeSlotSubGroup_def split: option.splits)
  show ?thesis
  proof (cases "Group_getMemberSlot guid g")
    case None
    with ok show ?thesis by (simp add: Group_ChangeMembersGroup_def)
  next
    case (Some s)
    let ?k = "unat (ms_group s)"
    let ?up = "slot_upd guid (\<lambda>s. s\<lparr>ms_group := sub\<rparr>) ?xs"
    from ok cs(1) have sub_ok: "subgroups_ok g" by (simp add: group_ok_def)
    then have G: "\<forall>s \<in> set ?xs. unat (ms_group s) < MAX_RAID_SUBGROUPS" "Group_isRaidGroup g" "length cs = MAX_RAID_SUBGROUPS"
      "\<And>i. i < MAX_RAID_SUBGROUPS \<Longrightarrow> unat (cs ! i) = in_subgroup i ?xs \<and> in_subgroup i ?xs \<le> MAX_GROUP_SIZE"
      using cs(1) by (simp_all add: subgroups_ok_Some)
    have f: "find (\<lambda>s. ms_guid s = guid) ?xs = Some s" using Some by (simp add: Group_getMemberSlot_def)
    then have in_xs: "s \<in> set ?xs" by (simp add: find_in_set)
    with G(1) have k: "?k < MAX_RAID_SUBGROUPS" by simp
    note c = in_subgroup_upd [OF f, of _ sub]
    show ?thesis
    proof (cases "ms_group s = sub")
      case True
      with ok Some show ?thesis by (simp add: Group_ChangeMembersGroup_def)
    next
      case False
      then have ne: "?k \<noteq> ?n" by (simp add: word_unat_eq_iff)
      let ?c1 = "cs[?n := cs ! ?n + 1]"
      let ?c2 = "?c1[?k := ?c1 ! ?k - 1]"
      let ?g = "g\<lparr>gr_memberSlots := ?up, gr_subGroupsCounts := Some ?c2\<rparr>"
      have r: "fst (Group_ChangeMembersGroup e guid sub (g, w)) = ?g"
        using False Some G(2) cs(1) by (simp add: Group_ChangeMembersGroup_def Let_def Group_SubGroupCounterDecrease_def
            Group_SubGroupCounterIncrease_def Group_upd_slot_def)
      have inc: "unat (cs ! ?n + 1) = Suc (unat (cs ! ?n))" using cs(2) by (intro unat_inc) (simp add: group_sizes)
      have "0 < unat (cs ! ?k)" using G(4) [OF k] in_subgroup_pos [OF in_xs] by simp
      then have dec: "unat (cs ! ?k - 1) = unat (cs ! ?k) - 1" by (rule unat_dec)
      have up: "in_subgroup i ?up + (if ?k = i then 1 else 0) = in_subgroup i ?xs + (if ?n = i then 1 else 0)" for i
        by (rule c)
      have "unat (?c2 ! i) = in_subgroup i ?up \<and> in_subgroup i ?up \<le> MAX_GROUP_SIZE" if i: "i < MAX_RAID_SUBGROUPS" for i
      proof -
        consider "i = ?n" | "i = ?k" | "i \<noteq> ?n" "i \<noteq> ?k" by blast
        then show ?thesis
          by cases (use ne k free(1) G(3) G(4) [OF i] inc dec up [of i] cs(2) in \<open>simp_all add: nth_list_update\<close>)
      qed
      moreover have "\<forall>s \<in> set ?up. unat (ms_group s) < MAX_RAID_SUBGROUPS"
        using G(1) free(1) set_slot_upd by fastforce
      ultimately have "subgroups_ok ?g"
        using G(2,3) by (subst subgroups_ok_Some) (auto simp: Group_isRaidGroup_def)
      moreover have "unique_flag fl ?up = unique_flag fl ?xs" for fl
        by (rule unique_flag_map) (simp add: map_slot_upd)
      ultimately show ?thesis using ok unfolding r by (simp add: group_ok_def marks_ok_def)
    qed
  qed
qed

lemma SwapMembersGroups_ok:
  assumes ok: "group_ok a g"
  shows "group_ok a (fst (Group_SwapMembersGroups e first second (g, w)))"
proof (cases "Group_isRaidGroup g \<and> (\<exists>s0 s1. Group_getMemberSlot first g = Some s0 \<and> Group_getMemberSlot second g = Some s1 \<and> ms_group s0 \<noteq> ms_group s1)")
  case False
  then have "Group_SwapMembersGroups e first second (g, w) = (g, w)"
    by (auto simp: Group_SwapMembersGroups_def split: option.split)
  with ok show ?thesis by simp
next
  case True
  then obtain s0 s1 where s: "Group_getMemberSlot first g = Some s0" "Group_getMemberSlot second g = Some s1"
    "ms_group s0 \<noteq> ms_group s1" and raid: "Group_isRaidGroup g" by blast
  let ?xs = "gr_memberSlots g"
  let ?up1 = "slot_upd first (\<lambda>s. s\<lparr>ms_group := ms_group s1\<rparr>) ?xs"
  let ?up = "slot_upd second (\<lambda>s. s\<lparr>ms_group := ms_group s0\<rparr>) ?up1"
  let ?g = "g\<lparr>gr_memberSlots := ?up\<rparr>"
  have r: "fst (Group_SwapMembersGroups e first second (g, w)) = ?g"
    using s raid by (simp add: Group_SwapMembersGroups_def Let_def Group_upd_slot_def)
  from s have ne: "second \<noteq> first" by auto
  have f0: "find (\<lambda>s. ms_guid s = first) ?xs = Some s0" and f1: "find (\<lambda>s. ms_guid s = second) ?xs = Some s1"
    using s by (simp_all add: Group_getMemberSlot_def)
  have f1': "find (\<lambda>s. ms_guid s = second) ?up1 = Some s1" using f1 ne by (simp add: find_slot_upd)
  have same: "in_subgroup i ?up = in_subgroup i ?xs" for i
    using in_subgroup_upd [OF f0, of i "ms_group s1"] in_subgroup_upd [OF f1', of i "ms_group s0"] by simp
  from ok obtain cs where cs: "gr_subGroupsCounts g = Some cs"
    using raid by (cases "gr_subGroupsCounts g") (auto simp: group_ok_def subgroups_ok_def)
  with ok have S: "\<forall>s \<in> set ?xs. unat (ms_group s) < MAX_RAID_SUBGROUPS" "subgroups_ok g"
    by (auto simp: group_ok_def subgroups_ok_Some)
  have "unat (ms_group s0) < MAX_RAID_SUBGROUPS" "unat (ms_group s1) < MAX_RAID_SUBGROUPS"
    using S(1) f0 f1 by (simp_all add: find_in_set)
  then have "\<forall>s \<in> set ?up. unat (ms_group s) < MAX_RAID_SUBGROUPS"
    using S(1) set_slot_upd [of second _ ?up1] set_slot_upd [of first _ ?xs] by fastforce
  then have "subgroups_ok ?g"
    using S(2) cs by (simp add: subgroups_ok_Some Group_isRaidGroup_def same)
  moreover have "unique_flag fl ?up = unique_flag fl ?xs" for fl
    by (rule unique_flag_map) (simp add: map_slot_upd)
  ultimately show ?thesis using ok unfolding r by (simp add: group_ok_def marks_ok_def)
qed

text \<open>A raid's counters are counted anew; in a group that is no raid all members may be in one subgroup.\<close>

lemma init_counters:
  "\<forall>s \<in> set xs. unat (ms_group s) < length c \<Longrightarrow>
   length (fold (\<lambda>s c. c[unat (ms_group s) := c ! unat (ms_group s) + 1]) xs c) = length c \<and>
   (\<forall>i < length c. fold (\<lambda>s c. c[unat (ms_group s) := c ! unat (ms_group s) + 1]) xs c ! i = c ! i + of_nat (in_subgroup i xs))"
  for c :: "u8 list"
  by (induction xs arbitrary: c) (auto simp: nth_list_update)

lemma initRaid_subgroups:
  assumes g: "\<forall>s \<in> set (gr_memberSlots g). unat (ms_group s) < MAX_RAID_SUBGROUPS" "Group_isRaidGroup g"
    and five: "\<And>i. i < MAX_RAID_SUBGROUPS \<Longrightarrow> in_subgroup i (gr_memberSlots g) \<le> MAX_GROUP_SIZE"
  shows "subgroups_ok (Group_initRaidSubGroupsCounter g)"
proof -
  let ?xs = "gr_memberSlots g"
  let ?c = "fold (\<lambda>s c. c[unat (ms_group s) := c ! unat (ms_group s) + 1]) ?xs (replicate MAX_RAID_SUBGROUPS (0 :: u8))"
  have c: "length ?c = MAX_RAID_SUBGROUPS" "\<And>i. i < MAX_RAID_SUBGROUPS \<Longrightarrow> ?c ! i = of_nat (in_subgroup i ?xs)"
    using init_counters [of ?xs "replicate MAX_RAID_SUBGROUPS 0"] g(1) by simp_all
  have "unat (of_nat (in_subgroup i ?xs) :: u8) = in_subgroup i ?xs" if "i < MAX_RAID_SUBGROUPS" for i
    using five [OF that] by (simp add: unat_of_nat group_sizes)
  with g c five show ?thesis
    by (subst subgroups_ok_Some [of _ ?c]) (auto simp: Group_initRaidSubGroupsCounter_def Group_isRaidGroup_def)
qed

lemma subgroups_small: "subgroups_ok g \<Longrightarrow> i < MAX_RAID_SUBGROUPS \<Longrightarrow> in_subgroup i (gr_memberSlots g) \<le> MAX_GROUP_SIZE"
  using in_subgroup_le [of i "gr_memberSlots g"]
  by (cases "gr_subGroupsCounts g") (auto simp: subgroups_ok_Some, auto simp: subgroups_ok_def)

lemma subgroups_range: "subgroups_ok g \<Longrightarrow> \<forall>s \<in> set (gr_memberSlots g). unat (ms_group s) < MAX_RAID_SUBGROUPS"
  by (simp add: subgroups_ok_def list_all_iff)

lemma initRaid_ok:
  assumes ok: "group_ok a g"
  shows "group_ok a (Group_initRaidSubGroupsCounter (g\<lparr>gr_groupFlags := gr_groupFlags g OR GROUP_FLAG_RAID\<rparr>))"
proof -
  let ?g = "g\<lparr>gr_groupFlags := gr_groupFlags g OR GROUP_FLAG_RAID\<rparr>"
  have "(f OR GROUP_FLAG_RAID) AND GROUP_FLAG_RAID = GROUP_FLAG_RAID" for f
    by (rule bit_eqI) (auto simp: bit_simps)
  then have raid: "Group_isRaidGroup ?g" by (simp add: Group_isRaidGroup_def GROUP_FLAG_RAID_def)
  have "subgroups_ok g" using ok by (simp add: group_ok_def)
  then have "subgroups_ok (Group_initRaidSubGroupsCounter ?g)"
    using subgroups_small subgroups_range raid by (intro initRaid_subgroups) auto
  with ok show ?thesis by (simp add: group_ok_def marks_ok_def Group_initRaidSubGroupsCounter_def)
qed

lemma ConvertToRaid_ok: "group_ok a g \<Longrightarrow> group_ok a (fst (Group_ConvertToRaid e (g, w)))"
  by (simp add: Group_ConvertToRaid_def Let_def initRaid_ok)

lemma ConvertToGroup_ok:
  assumes ok: "group_ok a g"
  shows "group_ok a (fst (Group_ConvertToGroup e (g, w)))"
proof (cases "length (gr_memberSlots g) > 5")
  case True
  with ok show ?thesis by (simp add: Group_ConvertToGroup_def)
next
  case False
  with ok show ?thesis
    by (simp add: Group_ConvertToGroup_def Let_def group_ok_def marks_ok_def subgroups_ok_def Group_isRaidGroup_def
        GROUP_FLAG_NONE_def MAX_GROUP_SIZE_def)
qed

text \<open>A new member goes to a subgroup with room.\<close>

lemma new_member_flags: "unique_flag fl (xs @ [new_member e guid sub]) = unique_flag fl xs"
  by (simp add: unique_flag_def new_member_def)

lemma add_slot_ok:
  assumes ok: "group_ok a g" and sub: "find_subgroup g = Some sub"
    and room: "gr_subGroupsCounts g = None \<Longrightarrow> length (gr_memberSlots g) < MAX_GROUP_SIZE"
  shows "group_ok a (add_slot e guid sub g)"
proof -
  let ?xs = "gr_memberSlots g" and ?n = "unat sub"
  have S: "subgroups_ok g" using ok by (simp add: group_ok_def)
  have slots: "gr_memberSlots (add_slot e guid sub g) = ?xs @ [new_member e guid sub]" and
    addr: "gr_this (add_slot e guid sub g) = gr_this g" and
    raid: "Group_isRaidGroup (add_slot e guid sub g) = Group_isRaidGroup g" and
    counts: "gr_subGroupsCounts (add_slot e guid sub g) = map_option (\<lambda>c. c[?n := c ! ?n + 1]) (gr_subGroupsCounts g)"
    by (simp_all add: add_slot_def Let_def Group_SubGroupCounterIncrease_def Group_isRaidGroup_def)
  have marks: "marks_ok g \<Longrightarrow> marks_ok (add_slot e guid sub g)"
    by (simp add: add_slot_def Let_def Group_SubGroupCounterIncrease_def marks_ok_def)
  have "subgroups_ok (add_slot e guid sub g)"
  proof (cases "gr_subGroupsCounts g")
    case None
    with sub have "unat sub < MAX_RAID_SUBGROUPS" by (auto simp: find_subgroup_def group_sizes)
    with S None room show ?thesis
      by (simp add: subgroups_ok_def slots raid counts new_member_def)
  next
    case (Some cs)
    with sub obtain i where i: "find (\<lambda>i. unat (cs ! i) < MAX_GROUP_SIZE) [0..<MAX_RAID_SUBGROUPS] = Some i" "sub = of_nat i"
      by (auto simp: find_subgroup_def)
    then have i': "i < MAX_RAID_SUBGROUPS" "unat (cs ! i) < MAX_GROUP_SIZE" using find_in_set [OF i(1)] by simp_all
    then have n: "?n = i" using i(2) by (simp add: unat_of_nat group_sizes)
    have inc: "unat (cs ! i + 1) = Suc (unat (cs ! i))" using i'(2) by (intro unat_inc) (simp add: group_sizes)
    from Some S i' n show ?thesis
      by (simp add: subgroups_ok_Some slots raid counts new_member_def inc nth_list_update)
  qed
  with ok show ?thesis by (simp add: group_ok_def addr slots new_member_flags marks)
qed

lemma AddMember_ok:
  assumes "group_ok a g" "gr_subGroupsCounts g = None \<Longrightarrow> length (gr_memberSlots g) < MAX_GROUP_SIZE"
  shows "group_ok a (fst (snd (Group_AddMember e guid (g, w))))"
proof (cases "find_subgroup g")
  case None
  with assms show ?thesis by (simp add: Group_AddMember_def)
next
  case (Some sub)
  have "fst (snd (Group_AddMember e guid (g, w))) =
      add_slot e guid sub g\<lparr>gr_maxEnchantingLevel := max (gr_maxEnchantingLevel (add_slot e guid sub g)) (ge_enchanting e guid)\<rparr>"
    using Some by (simp add: Group_AddMember_def Let_def)
  then show ?thesis using add_slot_ok [OF assms(1) Some assms(2)] by (simp add: group_ok_core)
qed

lemma drop_marker_ok:
  assumes "group_ok a g" "i < RAID_MARKERS_COUNT"
  shows "group_ok a (g\<lparr>gr_markers := (gr_markers g)[i := None], gr_activeMarkers := gr_activeMarkers g AND NOT (push_bit i 1)\<rparr>)"
proof -
  have "bit (gr_activeMarkers g AND NOT (push_bit i 1)) j \<longleftrightarrow> bit (gr_activeMarkers g) j \<and> j \<noteq> i" if "j < RAID_MARKERS_COUNT" for j
    using that assms(2) by (auto simp: bit_simps group_sizes)
  with assms show ?thesis
    by (auto simp: group_ok_def marks_ok_def subgroups_ok_def Group_isRaidGroup_def list_all_iff nth_list_update split: option.splits)
qed

lemma DeleteRaidMarker_ok: "group_ok a g \<Longrightarrow> group_ok a (fst (Group_DeleteRaidMarker markerId (g, w)))"
proof -
  assume ok: "group_ok a g"
  let ?f = "\<lambda>i g. if gr_markers g ! i \<noteq> None \<and> (unat markerId = i \<or> unat markerId = RAID_MARKERS_COUNT)
                    then g\<lparr>gr_markers := (gr_markers g)[i := None],
                           gr_activeMarkers := gr_activeMarkers g AND NOT (push_bit i 1)\<rparr> else g"
  have "group_ok a (fold ?f xs g)" if "\<forall>i \<in> set xs. i < RAID_MARKERS_COUNT" "group_ok a g" for xs g
    using that by (induction xs arbitrary: g) (simp_all add: drop_marker_ok [simplified])
  from this [OF _ ok, of "[0..<RAID_MARKERS_COUNT]"] show ?thesis
    using ok by (simp add: Group_DeleteRaidMarker_def keep_core [OF core_markers_changed])
qed

text \<open>The leader, the rolls and the binds leave the core as it is.\<close>

lemma core_BindToInstance [simp]: "group_core (fst (Group_BindToInstance e save p l st)) = group_core (fst st)"
  by (cases st) (simp add: Group_BindToInstance_def Let_def)

lemma core_leader_bind [simp]: "group_core (fst (leader_bind e guid v x st)) = group_core (fst st)"
  by (cases st; cases x) (simp add: leader_bind_def Let_def case_prod_unfold)

lemma core_ConvertLeaderInstances [simp]:
  "group_core (fst (Group_ConvertLeaderInstancesToGroup e guid v st)) = group_core (fst st)"
  by (simp add: Group_ConvertLeaderInstancesToGroup_def Let_def case_prod_unfold gcore_fold split: option.split)

lemma core_drop_perm_bind [simp]: "group_core (fst (drop_perm_bind e x st)) = group_core (fst st)"
  by (cases st; cases x) (simp add: drop_perm_bind_def)

lemma core_drop_perm_binds [simp]: "group_core (fst (Group_drop_perm_binds e st)) = group_core (fst st)"
  by (simp add: Group_drop_perm_binds_def gcore_fold)

lemma core_assistant_off [simp]: "group_core (Group_upd_slot guid (ToggleGroupMemberFlag MEMBER_FLAG_ASSISTANT v) g) = group_core g"
  by (rule core_upd_slot) (simp add: ToggleGroupMemberFlag_def member_bits)

lemma core_ChangeLeader [simp]: "group_core (fst (Group_ChangeLeader e guid p (g, w))) = group_core g"
  by (simp add: Group_ChangeLeader_def Let_def case_prod_unfold)

lemma core_next_leader [simp]: "group_core (fst (next_leader e (g, w))) = group_core g"
  by (simp add: next_leader_def split: option.split)

lemma core_RemoveInvite [simp]: "group_core (fst (Group_RemoveInvite guid (g, w))) = group_core g"
  by (simp add: Group_RemoveInvite_def)

lemma core_RemoveAllInvites [simp]: "group_core (fst (Group_RemoveAllInvites (g, w))) = group_core g"
  by (simp add: Group_RemoveAllInvites_def)

lemma core_AddInvite [simp]: "group_core (fst (snd (Group_AddInvite e bg guid (g, w)))) = group_core g"
  by (simp add: Group_AddInvite_def Let_def case_prod_unfold)

lemma core_AddLeaderInvite [simp]: "group_core (fst (snd (Group_AddLeaderInvite e bg guid (g, w)))) = group_core g"
proof (cases "Group_AddInvite e bg guid (g, w)")
  case (fields ok g1 w1)
  then have "group_core g1 = group_core g" using core_AddInvite [of e bg guid g w] by simp
  with fields show ?thesis by (simp add: Group_AddLeaderInvite_def split: bool.split)
qed

lemma core_roll_leave: "roll_leave e c guid i st = Inr st' \<Longrightarrow> group_core (fst st') = group_core (fst st)"
proof (induction e c guid i st rule: roll_leave.induct)
  case (1 e c guid i st)
  show ?case
  proof (cases "i \<ge> length (gr_RollId (fst st))")
    case True
    with "1.prems" show ?thesis by (simp add: roll_leave.simps [of e c guid i st])
  next
    case False
    let ?r = "gr_RollId (fst st) ! i"
    show ?thesis
    proof (cases "map_of (rl_playerVote ?r) guid")
      case None
      with "1.prems" False show ?thesis
        using "1.IH"(1) [OF False refl None] by (simp add: roll_leave.simps [of e c guid i st])
    next
      case (Some v)
      let ?st1 = "((fst st)\<lparr>gr_RollId := (gr_RollId (fst st))[i := roll_drop_vote guid v ?r]\<rparr>, snd st)"
      show ?thesis
      proof (cases "roll_complete (roll_drop_vote guid v ?r)")
        case True
        with "1.prems" False Some obtain st2 where st2: "Group_CountTheRoll e c i ?st1 = Inr st2" "gr_RollId (fst st2) \<noteq> []"
          "roll_leave e c guid 1 st2 = Inr st'"
          by (auto simp: roll_leave.simps [of e c guid i st] Let_def split: if_splits sum.splits)
        with "1.IH"(2) [OF False refl Some refl refl True st2(1)] show ?thesis by (simp add: core_CountTheRoll [OF st2(1)])
      next
        case F: False
        with "1.prems" False Some have "roll_leave e c guid (Suc i) ?st1 = Inr st'"
          by (simp add: roll_leave.simps [of e c guid i st] Let_def)
        with "1.IH"(3) [OF False refl Some refl refl F] show ?thesis by simp
      qed
    qed
  qed
qed

lemma remove_slot_ok: "group_ok a g \<Longrightarrow> group_ok a (remove_slot guid g)"
proof -
  assume ok: "group_ok a g"
  then have "subgroups_ok (remove_slot guid g)"
    by (cases "Group_getMemberSlot guid g") (simp_all add: remove_slot_def group_ok_def erase_subgroups)
  moreover have "unique_flag fl (gr_memberSlots (remove_slot guid g))" if "unique_flag fl (gr_memberSlots g)" for fl
    using that by (cases "Group_getMemberSlot guid g")
      (simp_all add: remove_slot_def Group_SubGroupCounterDecrease_def unique_flag_erase)
  ultimately show ?thesis using ok
    by (cases "Group_getMemberSlot guid g")
      (simp_all add: group_ok_def marks_ok_def remove_slot_def Group_SubGroupCounterDecrease_def)
qed

lemma remove_rest_ok: "group_ok a (fst st) \<Longrightarrow> remove_rest e guid st = (r, Some g1, w1) \<Longrightarrow> group_ok a g1"
  using keep_core [OF core_next_leader remove_slot_ok]
  by (auto simp: remove_rest_def Let_def case_prod_unfold remove_slot_ok split: if_splits)

lemma core_ResetMaxEnchanting [simp]: "group_core (Group_ResetMaxEnchantingLevel e g) = group_core g"
  by (simp add: Group_ResetMaxEnchantingLevel_def)

lemma RemoveMember_rest:
  assumes r: "Group_RemoveMember e c guid k kicker reason (g, w) = Inr (res, Some g1, w1)"
  shows "g1 = g \<or> (\<exists>g4 w4 st5. g4 \<in> {g, Group_ResetMaxEnchantingLevel e g} \<and>
    roll_leave e c guid 0 (g4, w4) = Inr st5 \<and> remove_rest e guid st5 = (res, Some g1, w1))"
proof (cases "Group_isLFGGroup g \<and> k = GROUP_REMOVEMETHOD_KICK")
  case True
  with r show ?thesis unfolding Group_RemoveMember_def Let_def prod.case if_P [OF True] by simp
next
  case False
  show ?thesis
  proof (cases "Group_GetMembersCount g > (if Group_isBGGroup g \<or> Group_isLFGGroup g \<or> Group_isBFGroup g then 1 else 2)")
    case True
    from r obtain w4 where "and_then (roll_leave e c guid 0
        (if \<not> ge_connected e guid \<or> ge_enchanting e guid \<noteq> 0 then Group_ResetMaxEnchantingLevel e g else g, w4))
        (\<lambda>st. Inr (remove_rest e guid st)) = Inr (res, Some g1, w1)"
      unfolding Group_RemoveMember_def Let_def prod.case if_not_P [OF False] if_P [OF True] by blast
    moreover have "(if \<not> ge_connected e guid \<or> ge_enchanting e guid \<noteq> 0 then Group_ResetMaxEnchantingLevel e g else g)
        \<in> {g, Group_ResetMaxEnchantingLevel e g}" by simp
    ultimately show ?thesis unfolding and_then_Inr by blast
  next
    case F: False
    with r show ?thesis unfolding Group_RemoveMember_def Let_def prod.case if_not_P [OF False] if_not_P [OF F] by simp
  qed
qed

lemma RemoveMember_ok:
  assumes ok: "group_ok a g" and r: "Group_RemoveMember e c guid k kicker reason (g, w) = Inr (res, Some g1, w1)"
  shows "group_ok a g1"
  using RemoveMember_rest [OF r]
proof (elim disjE exE conjE)
  fix g4 w4 st5
  assume "g4 \<in> {g, Group_ResetMaxEnchantingLevel e g}" "roll_leave e c guid 0 (g4, w4) = Inr st5"
    and rest: "remove_rest e guid st5 = (res, Some g1, w1)"
  then have "group_core (fst st5) = group_core g" by (auto dest: core_roll_leave)
  with ok have "group_ok a (fst st5)" by (simp add: group_ok_core)
  then show ?thesis using rest by (rule remove_rest_ok)
qed (use ok in simp)

lemma create_settings_slots: "gr_memberSlots (create_settings e leader k g) = gr_memberSlots g"
  by (simp add: create_settings_def Let_def Group_initRaidSubGroupsCounter_def)

lemma create_settings_ok:
  assumes ok: "group_ok a g" and empty: "gr_memberSlots g = []"
  shows "group_ok a (create_settings e leader k g)"
proof -
  have raid: "GROUP_MASK_BGRAID AND GROUP_FLAG_RAID \<noteq> 0"
    by (simp add: GROUP_MASK_BGRAID_def GROUP_FLAG_FAKE_RAID_def GROUP_FLAG_RAID_def)
  let ?flags = "if Group_isBGGroup g \<or> Group_isBFGroup g then GROUP_MASK_BGRAID else gr_groupFlags g"
  have counts: "gr_subGroupsCounts (create_settings e leader k g) =
      (if ?flags AND GROUP_FLAG_RAID \<noteq> 0 then Some (replicate MAX_RAID_SUBGROUPS 0) else gr_subGroupsCounts g)"
    and flags: "Group_isRaidGroup (create_settings e leader k g) \<longleftrightarrow> ?flags AND GROUP_FLAG_RAID \<noteq> 0"
    by (simp_all add: create_settings_def Let_def Group_initRaidSubGroupsCounter_def Group_isRaidGroup_def
        Group_isBGGroup_def Group_isBFGroup_def Group_isLFGGroup_def empty raid)
  have "subgroups_ok (create_settings e leader k g)"
  proof (cases "?flags AND GROUP_FLAG_RAID \<noteq> 0")
    case True
    then have some: "gr_subGroupsCounts (create_settings e leader k g) = Some (replicate MAX_RAID_SUBGROUPS 0)"
      unfolding counts by simp
    show ?thesis unfolding subgroups_ok_Some [OF some] using True flags by (simp add: create_settings_slots empty)
  next
    case False
    then have "gr_subGroupsCounts g = None" using ok raid
      by (auto simp: group_ok_def subgroups_ok_def Group_isRaidGroup_def split: option.splits if_splits)
    with False counts flags show ?thesis by (simp add: subgroups_ok_def create_settings_slots empty)
  qed
  with ok show ?thesis
    by (simp add: group_ok_def marks_ok_def create_settings_def Let_def Group_initRaidSubGroupsCounter_def empty)
qed

lemma AddMember_slots:
  "length (gr_memberSlots (fst (snd (Group_AddMember e guid (g, w))))) \<le> Suc (length (gr_memberSlots g))"
  by (simp add: Group_AddMember_def Let_def add_slot_def Group_SubGroupCounterIncrease_def split: option.split)

lemma Create_ok:
  assumes ok: "group_ok a g" and empty: "gr_memberSlots g = []" and r: "Group_Create e leader (g, w) = Inr (res, g1, w1)"
  shows "group_ok a g1 \<and> length (gr_memberSlots g1) < MAX_GROUP_SIZE"
proof -
  have "\<exists>g2 w2. group_ok a g2 \<and> gr_memberSlots g2 = [] \<and> g1 = fst (snd (Group_AddMember e leader (g2, w2)))"
  proof (cases "Group_isBGGroup g \<or> Group_isBFGroup g")
    case True
    then have "Group_isBGGroup (create_settings e leader k g) \<or> Group_isBFGroup (create_settings e leader k g)" for k
      by (simp add: create_settings_def Let_def Group_initRaidSubGroupsCounter_def Group_isBGGroup_def Group_isBFGroup_def)
    then have "\<exists>k w2. Group_AddMember e leader (create_settings e leader k g, w2) = (res, g1, w1)"
      using r by (auto simp: Group_Create_def Let_def case_prod_unfold)
    with create_settings_ok [OF ok empty] show ?thesis
      by (metis create_settings_slots empty fst_conv snd_conv)
  next
    case False
    then have bg: "\<not> (Group_isBGGroup (create_settings e leader k g) \<or> Group_isBFGroup (create_settings e leader k g))" for k
      by (simp add: create_settings_def Let_def Group_initRaidSubGroupsCounter_def Group_isBGGroup_def Group_isBFGroup_def)
    let ?g2 = "\<lambda>k d r l s. create_settings e leader k g\<lparr>gr_dungeonDifficulty := d, gr_raidDifficulty := r,
        gr_legacyRaidDifficulty := l, gr_dbStoreId := s\<rparr>"
    from r have "\<exists>k d r l s w2 x. Group_AddMember e leader (Group_ConvertLeaderInstancesToGroup e leader False (?g2 k d r l s, w2)) = (x, g1, w1)"
      using bg by (auto simp: Group_Create_def Let_def case_prod_unfold split: if_splits) (metis prod.collapse)+
    then obtain k d r l s w2 x where
      add: "Group_AddMember e leader (Group_ConvertLeaderInstancesToGroup e leader False (?g2 k d r l s, w2)) = (x, g1, w1)" by blast
    let ?st = "Group_ConvertLeaderInstancesToGroup e leader False (?g2 k d r l s, w2)"
    have core: "group_core (fst ?st) = group_core (create_settings e leader k g)" by simp (simp add: core_unfold)
    have "gr_memberSlots (fst ?st) = []"
      using arg_cong [OF core, of "\<lambda>x. length (fst (snd x))"] by (simp add: group_core_def create_settings_slots empty)
    with create_settings_ok [OF ok empty] core add show ?thesis
      by (metis fst_conv snd_conv group_ok_core prod.collapse)
  qed
  then obtain g2 w2 where g2: "group_ok a g2" "gr_memberSlots g2 = []" "g1 = fst (snd (Group_AddMember e leader (g2, w2)))"
    by blast
  then show ?thesis
    using AddMember_ok [OF g2(1), of e leader w2] AddMember_slots [of e leader g2 w2] by (simp add: group_sizes)
qed

subsection \<open>The server\<close>

definition server_ok :: "GroupServer \<Rightarrow> bool" where
  "server_ok s \<longleftrightarrow> (\<forall>a g. gs_groups s a = Some g \<longrightarrow> group_ok a g)"

text \<open>The packets of the client about groups, each with who sends it.\<close>

datatype party_packet =
    PartyInviteClient string u32
  | PartyInviteResponse bool
  | PartyUninvite ObjectGuid string
  | LeaveGroup
  | SetPartyLeader ObjectGuid "8 word"
  | SetRole ObjectGuid u8 "8 word"
  | SetLootMethod "LootMethod option" u32 ObjectGuid
  | LootRoll ObjectGuid u8 u8
  | MinimapPing "rat \<times> rat"
  | UpdateRaidTarget "8 word" ObjectGuid "8 word"
  | ConvertRaid bool
  | RequestPartyJoinUpdates "8 word"
  | ChangeSubGroup ObjectGuid u8
  | SwapSubGroups ObjectGuid ObjectGuid
  | SetAssistantLeader ObjectGuid bool
  | SetPartyAssignment ObjectGuid u8 bool
  | DoReadyCheck "8 word"
  | ReadyCheckResponse bool
  | InitiateRolePoll "8 word"
  | SetEveryoneIsAssistant bool
  | ClearRaidMarker u8

fun party_handle :: "GroupEnv \<Rightarrow> PartyView \<Rightarrow> LootContext \<Rightarrow> ObjectGuid \<times> party_packet \<Rightarrow> GroupServer \<Rightarrow> group_error + GroupServer" where
  "party_handle e v c (me, PartyInviteClient name roles) s = Inr (HandlePartyInviteOpcode e v me name roles s)"
| "party_handle e v c (me, PartyInviteResponse accepts) s = HandlePartyInviteResponseOpcode e me accepts s"
| "party_handle e v c (me, PartyUninvite target reason) s = HandlePartyUninviteOpcode e v c me target reason s"
| "party_handle e v c (me, LeaveGroup) s = HandleLeaveGroupOpcode e v c me s"
| "party_handle e v c (me, SetPartyLeader target i) s = Inr (HandleSetPartyLeaderOpcode e me target i s)"
| "party_handle e v c (me, SetRole target r i) s = Inr (HandleSetRoleOpcode e me target r i s)"
| "party_handle e v c (me, SetLootMethod m t u) s = Inr (HandleSetLootMethodOpcode e me m t u s)"
| "party_handle e v c (me, LootRoll obj l r) s = HandleLootRoll e c me obj l r s"
| "party_handle e v c (me, MinimapPing p) s = Inr (HandleMinimapPingOpcode me p s)"
| "party_handle e v c (me, UpdateRaidTarget symbol target i) s = Inr (HandleUpdateRaidTargetOpcode e v me symbol target i s)"
| "party_handle e v c (me, ConvertRaid r) s = Inr (HandleConvertRaidOpcode e v me r s)"
| "party_handle e v c (me, RequestPartyJoinUpdates i) s = Inr (HandleRequestPartyJoinUpdates me i s)"
| "party_handle e v c (me, ChangeSubGroup target n) s = Inr (HandleChangeSubGroupOpcode e me target n s)"
| "party_handle e v c (me, SwapSubGroups p q) s = Inr (HandleSwapSubGroupsOpcode e me p q s)"
| "party_handle e v c (me, SetAssistantLeader target b) s = Inr (HandleSetAssistantLeaderOpcode e me target b s)"
| "party_handle e v c (me, SetPartyAssignment target k b) s = Inr (HandleSetPartyAssignment e me target k b s)"
| "party_handle e v c (me, DoReadyCheck i) s = Inr (HandleDoReadyCheckOpcode e me i s)"
| "party_handle e v c (me, ReadyCheckResponse b) s = Inr (HandleReadyCheckResponseOpcode me b s)"
| "party_handle e v c (me, InitiateRolePoll i) s = Inr (HandleInitiateRolePoll me i s)"
| "party_handle e v c (me, SetEveryoneIsAssistant b) s = Inr (HandleSetEveryoneIsAssistant e me b s)"
| "party_handle e v c (me, ClearRaidMarker m) s = Inr (HandleClearRaidMarker me m s)"

fun party_run :: "GroupEnv \<Rightarrow> PartyView \<Rightarrow> LootContext \<Rightarrow> (ObjectGuid \<times> party_packet) list \<Rightarrow> GroupServer \<Rightarrow> group_error + GroupServer" where
  "party_run e v c [] s = Inr s"
| "party_run e v c (p # ps) s = and_then (party_handle e v c p s) (party_run e v c ps)"

lemma server_put [simp]:
  "server_ok s \<Longrightarrow> group_ok a g \<Longrightarrow> server_ok (gs_put a (Some g) w s)"
  "server_ok s \<Longrightarrow> server_ok (gs_put a None w s)"
  by (auto simp: server_ok_def gs_put_def)

lemma server_tell [simp]: "server_ok (gs_tell ev s) = server_ok s"
  by (simp add: server_ok_def gs_tell_def)

lemma server_result [simp]: "server_ok (SendPartyResult me k m r s) = server_ok s"
  by (simp add: SendPartyResult_def)

lemma server_next [simp]: "server_ok (s\<lparr>gs_next := n\<rparr>) = server_ok s"
  by (simp add: server_ok_def)

lemma server_delete [simp]: "server_ok s \<Longrightarrow> server_ok (gs_delete a s)"
  by (simp add: gs_delete_def split: option.split)

lemma server_group: "server_ok s \<Longrightarrow> gs_groups s a = Some g \<Longrightarrow> group_ok a g"
  by (simp add: server_ok_def)

lemma own_group_ok:
  assumes "server_ok s" "\<And>a g w. group_ok a g \<Longrightarrow> may g \<Longrightarrow> group_ok a (fst (f (g, w)))"
  shows "server_ok (own_group me may f s)"
proof (cases "gs_group me s")
  case None
  with assms show ?thesis by (simp add: own_group_def)
next
  case (Some g)
  then obtain a where a: "gs_groups s a = Some g" by (auto simp: gs_group_def split: option.splits)
  with assms have ok: "group_ok a g" by (simp add: server_group)
  then have "gr_this g = a" by (simp add: group_ok_def)
  with Some a ok assms show ?thesis
    using assms(2) [OF ok, of "gs_world s"] by (auto simp: own_group_def gs_on_def case_prod_unfold)
qed

lemma group_ok_fst: "group_core g' = group_core g \<Longrightarrow> group_ok a g \<Longrightarrow> group_ok a g'"
  by (rule keep_core)

lemma invite_to_ok: "server_ok s \<Longrightarrow> server_ok (snd (invite_to e home me player s))"
proof (cases home)
  case (Some a)
  assume ok: "server_ok s"
  show ?thesis
  proof (cases "gs_groups s a")
    case None
    with Some ok show ?thesis by (simp add: invite_to_def)
  next
    case (Some g)
    obtain r g1 w1 where x: "Group_AddInvite e (gs_is_bg s) player (g, gs_world s) = (r, g1, w1)" by (cases rule: prod_cases3)
    then have "group_ok a g1"
      using core_AddInvite [of e "gs_is_bg s" player g "gs_world s"] server_group [OF ok Some] by (auto intro: keep_core)
    with x Some \<open>home = Some a\<close> ok show ?thesis by (simp add: invite_to_def)
  qed
next
  case None
  assume ok: "server_ok s"
  let ?a = "gs_next s" and ?s1 = "s\<lparr>gs_next := Suc (gs_next s)\<rparr>"
  have init: "group_ok ?a (Group_init ?a)"
    by (simp add: group_ok_def subgroups_ok_def marks_ok_def unique_flag_def Group_init_def Group_isRaidGroup_def
        GROUP_FLAG_NONE_def list_all_iff group_sizes)
  obtain r g1 w1 where x: "Group_AddLeaderInvite e (gs_is_bg s) me (Group_init ?a, gs_world ?s1) = (r, g1, w1)"
    by (cases rule: prod_cases3)
  then have g1: "group_ok ?a g1"
    using core_AddLeaderInvite [of e "gs_is_bg s" me "Group_init ?a" "gs_world ?s1"] init by (auto intro: keep_core)
  obtain r2 g2 w2 where y: "Group_AddInvite e (gs_is_bg s) player (g1, w1) = (r2, g2, w2)" by (cases rule: prod_cases3)
  then have g2: "group_ok ?a g2" using core_AddInvite [of e "gs_is_bg s" player g1 w1] g1 by (auto intro: keep_core)
  obtain g3 w3 where z: "Group_RemoveAllInvites (g2, w2) = (g3, w3)" by (cases rule: prod.exhaust)
  then have "group_ok ?a g3" using core_RemoveAllInvites [of g2 w2] g2 by (auto intro: keep_core)
  with None x y z g1 g2 ok show ?thesis by (cases r; cases r2) (simp_all add: invite_to_def Let_def)
qed

lemma PartyInvite_ok: "server_ok s \<Longrightarrow> server_ok (HandlePartyInviteOpcode e v me name roles s)"
proof -
  assume ok: "server_ok s"
  have "server_ok (case invite_to e home me p s of (False, s1) \<Rightarrow> s1 | (True, s1) \<Rightarrow> f s1)"
    if "\<And>s1. server_ok s1 \<Longrightarrow> server_ok (f s1)" for home p f
    using invite_to_ok [OF ok, of e home me p] that by (auto split: prod.split bool.split)
  then show ?thesis using ok by (auto simp: HandlePartyInviteOpcode_def Let_def split: option.split)
qed

lemma Uninvite_ok: "server_ok s \<Longrightarrow> server_ok (Player_UninviteFromGroup e guid s)"
proof -
  assume ok: "server_ok s"
  have "server_ok (case Group_RemoveInvite guid (g, gs_world s) of (g1, w1) \<Rightarrow>
      if Group_GetMembersCount g1 \<le> 1
      then (if Group_IsCreated g1 then gs_put a None (Group_Disband e True (g1, w1)) s
            else (case Group_RemoveAllInvites (g1, w1) of (g2, w2) \<Rightarrow> gs_delete a (gs_put a (Some g2) w2 s)))
      else gs_put a (Some g1) w1 s)" if g: "gs_groups s a = Some g" for a g
  proof -
    obtain g1 w1 where x: "Group_RemoveInvite guid (g, gs_world s) = (g1, w1)" by (cases rule: prod.exhaust)
    then have g1: "group_ok a g1"
      using core_RemoveInvite [of guid g "gs_world s"] server_group [OF ok g] by (auto intro: keep_core)
    obtain g2 w2 where y: "Group_RemoveAllInvites (g1, w1) = (g2, w2)" by (cases rule: prod.exhaust)
    then have "group_ok a g2" using core_RemoveAllInvites [of g1 w1] g1 by (auto intro: keep_core)
    with x y g1 ok show ?thesis by simp
  qed
  then show ?thesis using ok by (auto simp: Player_UninviteFromGroup_def split: option.split)
qed

text \<open>The counters bound the size: a group has at most forty members.\<close>

lemma sum_subgroups:
  "\<forall>s \<in> set xs. unat (ms_group s) < n \<Longrightarrow> (\<Sum>i<n. in_subgroup i xs) = length xs"
proof (induction xs)
  case (Cons s xs)
  have "in_subgroup i (s # xs) = (if unat (ms_group s) = i then 1 else 0) + in_subgroup i xs" for i by simp
  with Cons show ?case by (simp only: sum.distrib) (simp add: sum.delta)
qed simp

lemma group_size: "group_ok a g \<Longrightarrow> length (gr_memberSlots g) \<le> (if Group_isRaidGroup g then MAX_RAID_SIZE else MAX_GROUP_SIZE)"
proof -
  assume "group_ok a g"
  then have S: "subgroups_ok g" by (simp add: group_ok_def)
  then have "length (gr_memberSlots g) = (\<Sum>i<MAX_RAID_SUBGROUPS. in_subgroup i (gr_memberSlots g))"
    by (rule sum_subgroups [OF subgroups_range, symmetric])
  also have "\<dots> \<le> (\<Sum>i<MAX_RAID_SUBGROUPS. MAX_GROUP_SIZE)" by (rule sum_mono) (simp add: subgroups_small S)
  finally have "length (gr_memberSlots g) \<le> MAX_RAID_SIZE" by (simp add: group_sizes)
  with S show ?thesis by (cases "gr_subGroupsCounts g") (auto simp: subgroups_ok_Some, auto simp: subgroups_ok_def)
qed

lemma not_created: "group_ok a g \<Longrightarrow> \<not> Group_IsCreated g \<Longrightarrow> gr_memberSlots g = []"
proof -
  assume "group_ok a g" "\<not> Group_IsCreated g"
  then have "length (gr_memberSlots g) < 2 ^ 32" "of_nat (length (gr_memberSlots g)) = (0 :: u32)"
    using group_size [of a g] by (auto simp: group_sizes Group_IsCreated_def Group_GetMembersCount_def word_gt_0 split: if_splits)
  then have "length (gr_memberSlots g) = 0" using nat_dvd_not_less [of "length (gr_memberSlots g)" "2 ^ 32"] by (auto simp: word_of_nat_eq_0_iff)
  then show ?thesis by simp
qed

lemma not_full: "group_ok a g \<Longrightarrow> \<not> Group_IsFull g \<Longrightarrow> gr_subGroupsCounts g = None \<Longrightarrow> length (gr_memberSlots g) < MAX_GROUP_SIZE"
  by (auto simp: group_ok_def subgroups_ok_def Group_IsFull_def)

lemma accept_create_ok:
  assumes ok: "group_ok a g" "\<not> Group_IsFull g" and r: "accept_create e (g, w) = Inr (ready, g1, w1)"
  shows "group_ok a g1 \<and> (ready \<longrightarrow> gr_subGroupsCounts g1 = None \<longrightarrow> length (gr_memberSlots g1) < MAX_GROUP_SIZE)"
proof -
  consider "Group_IsCreated g" | "\<not> Group_IsCreated g" "\<not> ge_in_world e (gr_leaderGuid g)"
    | "\<not> Group_IsCreated g" "ge_in_world e (gr_leaderGuid g)" by blast
  then show ?thesis
  proof cases
    case 1
    with ok r show ?thesis by (auto simp: accept_create_def not_full)
  next
    case 2
    with r have "ready = False" "(g1, w1) = Group_RemoveAllInvites (g, w)" by (auto simp: accept_create_def)
    with core_RemoveAllInvites [of g w] ok show ?thesis by (metis fst_conv keep_core)
  next
    case 3
    obtain g2 w2 where x: "Group_RemoveInvite (gr_leaderGuid g) (g, w) = (g2, w2)" by (cases rule: prod.exhaust)
    then have g2: "group_ok a g2" "gr_memberSlots g2 = []"
      using core_RemoveInvite [of "gr_leaderGuid g" g w] ok(1) not_created [OF ok(1) 3(1)]
      by (auto intro: keep_core simp: Group_RemoveInvite_def)
    from r 3 x obtain res w3 where "Group_Create e (gr_leaderGuid g) (g2, w2) = Inr (res, g1, w3)"
      by (auto simp: accept_create_def std_simps)
    from Create_ok [OF g2 this] show ?thesis by simp
  qed
qed

lemma InviteResponse_ok:
  assumes ok: "server_ok s" and r: "HandlePartyInviteResponseOpcode e me accepts s = Inr s1"
  shows "server_ok s1"
proof (cases "gp_groupInvite (gw_player (gs_world s) me)")
  case None
  with ok r show ?thesis by (simp add: HandlePartyInviteResponseOpcode_def)
next
  case (Some a)
  show ?thesis
  proof (cases "gs_groups s a")
    case None
    with Some ok r show ?thesis by (simp add: HandlePartyInviteResponseOpcode_def)
  next
    case g: (Some g)
    show ?thesis
    proof (cases accepts)
      case False
      with Some g r have "s1 = Player_UninviteFromGroup e me s \<or> (\<exists>ev. s1 = gs_tell ev (Player_UninviteFromGroup e me s))"
        by (auto simp: HandlePartyInviteResponseOpcode_def Let_def split: if_splits)
      with Uninvite_ok [OF ok] show ?thesis by auto
    next
      case True
      obtain g1 w1 where x: "Group_RemoveInvite me (g, gs_world s) = (g1, w1)" by (cases rule: prod.exhaust)
      then have g1: "group_ok a g1" using core_RemoveInvite [of me g "gs_world s"] server_group [OF ok g] by (auto intro: keep_core)
      consider "s1 = gs_put a (Some g1) w1 s" | "s1 = SendPartyResult me PARTY_OP_INVITE [] ERR_GROUP_FULL (gs_put a (Some g1) w1 s)"
        | ready st where "\<not> Group_IsFull g1" "accept_create e (g1, w1) = Inr (ready, st)"
          "(if \<not> ready then Inr (gs_put a (Some (fst st)) (snd st) s)
            else (case Group_AddMember e me st of (added, g3, w3) \<Rightarrow>
              Inr (gs_put a (Some g3) (if added then Group_BroadcastGroupUpdate e g3 w3 else w3) s))) = (Inr s1 :: group_error + GroupServer)"
        using r Some g True x by (auto simp: HandlePartyInviteResponseOpcode_def std_simps split: if_splits)
      then show ?thesis
      proof cases
        case 3
        obtain g2 w2 where st: "st = (g2, w2)" by (cases st)
        from accept_create_ok [OF g1 3(1) 3(2) [unfolded st]]
        have "group_ok a g2" "ready \<Longrightarrow> gr_subGroupsCounts g2 = None \<Longrightarrow> length (gr_memberSlots g2) < MAX_GROUP_SIZE" by auto
        with 3(3) st ok AddMember_ok [of a g2 e me w2] show ?thesis
          by (auto simp: case_prod_unfold split: if_splits)
      qed (use g1 ok in simp_all)
    qed
  qed
qed

lemma gs_remove_ok:
  assumes ok: "server_ok s" and r: "gs_remove e c a guid k kicker reason s = Inr s1"
  shows "server_ok s1"
proof (cases "gs_groups s a")
  case None
  with ok r show ?thesis by (simp add: gs_remove_def)
next
  case (Some g)
  with r obtain res og w where m: "Group_RemoveMember e c guid k kicker reason (g, gs_world s) = Inr (res, og, w)"
    and s1: "s1 = gs_put a og w s" by (auto simp: gs_remove_def std_simps)
  show ?thesis
  proof (cases og)
    case (Some g1)
    then have "group_ok a g1" using RemoveMember_ok [OF server_group [OF ok \<open>gs_groups s a = Some g\<close>]] m by blast
    with ok s1 Some show ?thesis by simp
  qed (use ok s1 in simp)
qed

lemma PartyUninvite_ok:
  assumes ok: "server_ok s" and r: "HandlePartyUninviteOpcode e v c me target reason s = Inr s1"
  shows "server_ok s1"
  using r ok gs_remove_ok [OF ok] Uninvite_ok [OF ok]
  by (auto simp: HandlePartyUninviteOpcode_def Let_def split: if_splits option.splits)

lemma LeaveGroup_ok:
  assumes ok: "server_ok s" and r: "HandleLeaveGroupOpcode e v c me s = Inr s1"
  shows "server_ok s1"
  using r ok gs_remove_ok [of "SendPartyResult me PARTY_OP_LEAVE (ge_name e me) ERR_PARTY_RESULT_OK s"]
  by (auto simp: HandleLeaveGroupOpcode_def split: if_splits option.splits)

lemma gs_on_ok:
  assumes "server_ok s" "\<And>g w. group_ok a g \<Longrightarrow> group_ok a (fst (f (g, w)))"
  shows "server_ok (gs_on a f s)"
proof (cases "gs_groups s a")
  case (Some g)
  then have "group_ok a (fst (f (g, gs_world s)))" using assms by (simp add: server_group)
  with Some assms(1) show ?thesis by (simp add: gs_on_def case_prod_unfold)
qed (use assms in \<open>simp add: gs_on_def\<close>)

lemma Assignment_ok:
  assumes "group_ok a g"
  shows "group_ok a (fst (let (g1, w1) =
         (if assignment = GROUP_ASSIGN_MAINASSIST
          then Group_SetGroupMemberFlag e target v MEMBER_FLAG_MAINASSIST (Group_RemoveUniqueGroupMemberFlag MEMBER_FLAG_MAINASSIST g, w)
          else if assignment = GROUP_ASSIGN_MAINTANK
          then Group_SetGroupMemberFlag e target v MEMBER_FLAG_MAINTANK (Group_RemoveUniqueGroupMemberFlag MEMBER_FLAG_MAINTANK g, w)
          else (g, w))
       in (g1, Group_SendUpdate e g1 w1)))"
  using assms SetGroupMemberFlag_ok [OF unique_flags_off(1) [OF _ assms]] by (simp add: case_prod_unfold Let_def)

lemma party_handle_ok: "server_ok s \<Longrightarrow> party_handle e v c p s = Inr s1 \<Longrightarrow> server_ok s1"
proof (induction e v c p s rule: party_handle.induct)
  case (5 e v c me target i s)
  then show ?case
    by (auto simp: HandleSetPartyLeaderOpcode_def case_prod_unfold group_ok_core intro!: own_group_ok)
next
  case (6 e v c me target r i s)
  then show ?case
    by (auto simp: HandleSetRoleOpcode_def Let_def case_prod_unfold group_ok_core intro!: gs_on_ok
        split: option.splits if_splits)
next
  case (7 e v c me m t u s)
  then show ?case
    by (auto simp: HandleSetLootMethodOpcode_def Let_def case_prod_unfold group_ok_core intro!: own_group_ok split: option.splits)
next
  case (8 e v c me obj l r s)
  show ?case
  proof (cases "gs_group me s")
    case (Some g)
    then obtain a where "gs_groups s a = Some g" by (auto simp: gs_group_def split: option.splits)
    with 8(1) have ok: "group_ok (gr_this g) g" by (auto simp: server_ok_def group_ok_def)
    from 8(2) Some obtain g1 w1 where vote: "Group_CountRollVote e c me obj (l - 1) r (g, gs_world s) = Inr (g1, w1)"
      and s1: "s1 = (let s2 = gs_put (gr_this g) (Some g1) w1 s in
        if r = ROLL_NEED then gs_tell (UpdateRollCriteria me ROLL_NEED 0 1) s2
        else if r = ROLL_GREED then gs_tell (UpdateRollCriteria me ROLL_GREED 0 1) s2 else s2)"
      by (auto simp: HandleLootRoll_def Let_def split: sum.splits)
    have "group_ok (gr_this g) g1" using ok core_CountRollVote [OF vote] by (simp add: group_ok_core)
    with 8(1) show ?thesis by (simp add: s1 Let_def)
  qed (use 8 in \<open>simp add: HandleLootRoll_def\<close>)
next
  case (16 e v c me target k b s)
  then have s1: "s1 = HandleSetPartyAssignment e me target k b s" by simp
  show ?case unfolding s1 HandleSetPartyAssignment_def
    by (rule own_group_ok [OF 16(1)]) (simp only: prod.case, rule Assignment_ok)
next
  case (9 e v c me p s)
  then show ?case by (auto simp: HandleMinimapPingOpcode_def group_ok_core intro!: own_group_ok)
next
  case (10 e v c me symbol target i s)
  then show ?case by (auto simp: HandleUpdateRaidTargetOpcode_def group_ok_core intro!: own_group_ok)
next
  case (12 e v c me i s)
  then show ?case by (auto simp: HandleRequestPartyJoinUpdates_def group_ok_core intro!: own_group_ok)
next
  case (17 e v c me i s)
  then show ?case by (auto simp: HandleDoReadyCheckOpcode_def group_ok_core intro!: own_group_ok)
next
  case (18 e v c me b s)
  then show ?case by (auto simp: HandleReadyCheckResponseOpcode_def group_ok_core intro!: own_group_ok)
next
  case (19 e v c me i s)
  then show ?case by (auto simp: HandleInitiateRolePoll_def group_ok_core intro!: own_group_ok)
next
  case (20 e v c me b s)
  then show ?case by (auto simp: HandleSetEveryoneIsAssistant_def group_ok_core intro!: own_group_ok)
next
  case (11 e v c me r s)
  then show ?case by (auto simp: HandleConvertRaidOpcode_def intro!: own_group_ok ConvertToRaid_ok ConvertToGroup_ok)
next
  case (13 e v c me target n s)
  then show ?case by (auto simp: HandleChangeSubGroupOpcode_def intro!: own_group_ok ChangeMembersGroup_ok)
next
  case (14 e v c me p q s)
  then show ?case by (auto simp: HandleSwapSubGroupsOpcode_def intro!: own_group_ok SwapMembersGroups_ok)
next
  case (15 e v c me target b s)
  then show ?case by (auto simp: HandleSetAssistantLeaderOpcode_def intro!: own_group_ok SetGroupMemberFlag_ok)
next
  case (21 e v c me m s)
  then show ?case by (auto simp: HandleClearRaidMarker_def intro!: own_group_ok DeleteRaidMarker_ok)
qed (auto intro: PartyInvite_ok InviteResponse_ok PartyUninvite_ok LeaveGroup_ok)


text \<open>C4: Whatever packets about groups the players send, every group stays well-formed: each member is in one of the
  eight subgroups; a raid, and no other group, has its eight subgroup counters, each the number of members of its subgroup
  and at most five; a group that is no raid has at most five members; at most one member is main tank and one main
  assist; there are eight icons and eight markers, and the mask of the markers has the bit of exactly the markers set.\<close>

theorem party_packets_well_formed:
  assumes "server_ok s" "party_run e v c packets s = Inr s1" "gs_groups s1 a = Some g"
  shows "group_ok a g"
proof -
  have "party_run e v c ps s = Inr s1 \<Longrightarrow> server_ok s \<Longrightarrow> server_ok s1" for ps s
    by (induction ps arbitrary: s) (auto simp: std_simps dest: party_handle_ok)
  with assms show ?thesis by (auto dest: server_group)
qed

lemma demo_server_ok: "server_ok demo_server"
  by (simp add: server_ok_def demo_server_def group_ok_def subgroups_ok_def marks_ok_def unique_flag_def demo_group_def
      Group_init_def Group_isRaidGroup_def GROUP_FLAG_NONE_def list_all_iff group_sizes new_member_def)

theorem party_packets_well_formed_witness:
  "\<exists>s1 g. party_run demo_group_env demo_view demo_context [(demo_member 1, ConvertRaid True)] demo_server = Inr s1 \<and>
     gs_groups s1 0 = Some g \<and> group_ok 0 g \<and> gr_subGroupsCounts g = Some [4, 0, 0, 0, 0, 0, 0, 0]"
proof -
  define s1 where "s1 = HandleConvertRaidOpcode demo_group_env demo_view (demo_member 1) True demo_server"
  have run: "party_run demo_group_env demo_view demo_context [(demo_member 1, ConvertRaid True)] demo_server = Inr s1"
    by (simp add: s1_def)
  have own: "gs_group (demo_member 1) demo_server = Some demo_group" "gr_this demo_group = 0" "gs_groups demo_server 0 = Some demo_group"
    by (simp_all add: gs_group_def demo_server_def Player_GetGroup_def demo_group_world_def demo_party_player_def demo_group_def Group_init_def)
  have may: "\<not> pv_InBattleground demo_view (demo_member 1) \<and> Group_IsLeader (demo_member 1) demo_group \<and> 2 \<le> Group_GetMembersCount demo_group"
    by code_simp
  have "gs_groups s1 0 = Some (Group_initRaidSubGroupsCounter (demo_group\<lparr>gr_groupFlags := gr_groupFlags demo_group OR GROUP_FLAG_RAID\<rparr>))"
    using may own by (simp add: s1_def HandleConvertRaidOpcode_def own_group_def gs_on_def gs_put_def Group_ConvertToRaid_def Let_def)
  moreover have "gr_subGroupsCounts (Group_initRaidSubGroupsCounter (demo_group\<lparr>gr_groupFlags := gr_groupFlags demo_group OR GROUP_FLAG_RAID\<rparr>))
      = Some [4, 0, 0, 0, 0, 0, 0, 0]" by code_simp
  ultimately have "map_option gr_subGroupsCounts (gs_groups s1 0) = Some (Some [4, 0, 0, 0, 0, 0, 0, 0])" by simp
  then obtain g where g: "gs_groups s1 0 = Some g" "gr_subGroupsCounts g = Some [4, 0, 0, 0, 0, 0, 0, 0]" by auto
  from party_packets_well_formed [OF demo_server_ok run g(1)] run g show ?thesis by blast
qed

end
