(* ===== verification/GroupLoot.thy ===== *)
theory GroupLoot
  imports GroupExample
begin

section \<open>Groups: who wins a roll\<close>

text \<open>
  What the rolls for loot promise. The totals of a roll count its votes as long as everybody chooses once
  (\<open>roll_ok\<close>); such a roll is over exactly when all have chosen, and the item goes to the player with the highest
  number among those with the best kind of choice. Since nothing keeps a player from choosing again, the totals
  can also be made to say something else than the votes.
\<close>

subsection \<open>Effects of a roll\<close>

text \<open>What players have been given: items, and what came of an item that was disenchanted.\<close>

definition is_gift :: "group_event \<Rightarrow> bool" where
  "is_gift ev = (case ev of StoreNewItem p i n \<Rightarrow> True | GiveDisenchantLoot p i b \<Rightarrow> True | _ \<Rightarrow> False)"

definition items_given :: "GroupWorld \<Rightarrow> group_event list" where
  "items_given w = filter is_gift (gw_sent w)"

definition roll_frame :: "GroupWorld \<Rightarrow> GroupWorld \<Rightarrow> bool" where
  "roll_frame w w' \<longleftrightarrow> items_given w' = items_given w \<and> gw_loot w' = gw_loot w \<and> gw_lfg w' = gw_lfg w"

lemma roll_frame_refl [simp]: "roll_frame w w"
  by (simp add: roll_frame_def)

lemma roll_frame_trans: "roll_frame w w' \<Longrightarrow> roll_frame w' w'' \<Longrightarrow> roll_frame w w''"
  by (simp add: roll_frame_def)

lemma roll_send_frame: "roll_frame w (roll_send e r (SMSG_LOOT_ROLL a b d f h) w)" "roll_frame w (roll_send e r (SMSG_LOOT_ROLL_WON a b d f h) w)"
  "roll_frame w (roll_send e r (SMSG_LOOT_ALL_PASSED a b) w)" "roll_frame w (roll_send e r (SMSG_LOOT_ROLLS_COMPLETE a b) w)"
proof -
  have "roll_frame w (fold (\<lambda>(guid, v). if ge_connected e guid \<and> v \<noteq> NOT_VALID then grp_tell (GroupSend guid packet) else id) vs w)"
    for packet vs
  proof (induction vs arbitrary: w)
    case (Cons x vs)
    have "roll_frame w ((case x of (guid, v) \<Rightarrow> if ge_connected e guid \<and> v \<noteq> NOT_VALID then grp_tell (GroupSend guid packet) else id) w)"
      by (simp add: roll_frame_def items_given_def is_gift_def grp_tell_def split: prod.split)
    with Cons show ?case by (auto intro: roll_frame_trans)
  qed simp
  then show "roll_frame w (roll_send e r (SMSG_LOOT_ROLL a b d f h) w)" "roll_frame w (roll_send e r (SMSG_LOOT_ROLL_WON a b d f h) w)"
    "roll_frame w (roll_send e r (SMSG_LOOT_ALL_PASSED a b) w)" "roll_frame w (roll_send e r (SMSG_LOOT_ROLLS_COMPLETE a b) w)"
    by (simp_all add: roll_send_def)
qed

lemmas roll_sends = Group_SendLootRoll_def Group_SendLootRollWon_def Group_SendLootAllPassed_def Group_SendLootRollsComplete_def

lemma sends_items [simp]:
  "items_given (Group_SendLootRoll e p n t r w) = items_given w" "gw_loot (Group_SendLootRoll e p n t r w) = gw_loot w"
  "gw_lfg (Group_SendLootRoll e p n t r w) = gw_lfg w"
  "items_given (Group_SendLootRollWon e p n t r w) = items_given w" "gw_loot (Group_SendLootRollWon e p n t r w) = gw_loot w"
  "items_given (Group_SendLootAllPassed e r w) = items_given w" "gw_loot (Group_SendLootAllPassed e r w) = gw_loot w"
  "items_given (Group_SendLootRollsComplete e r w) = items_given w" "gw_loot (Group_SendLootRollsComplete e r w) = gw_loot w"
  using roll_send_frame by (simp_all add: roll_frame_def roll_sends)

lemma items_tell: "items_given (grp_tell ev w) = items_given w @ (if is_gift ev then [ev] else [])"
  by (simp add: items_given_def grp_tell_def)

lemma items_loot [simp]: "items_given (gw_upd_loot guid f w) = items_given w"
  by (simp add: items_given_def gw_upd_loot_def)

subsection \<open>The contest\<close>

text \<open>The number of the \<open>j\<close>-th draw from a state on, and the best of a list of numbers so far: the first of the highest.\<close>

definition die_number :: "GroupEnv \<Rightarrow> LFGMgr \<Rightarrow> nat \<Rightarrow> u8" where
  "die_number e m j = of_nat (1 + lw_draw (ge_lfg e) (lm_draws m + j) mod 100)"

definition best_of :: "u8 \<times> ObjectGuid \<times> RollVote \<Rightarrow> u8 \<times> ObjectGuid \<times> RollVote \<Rightarrow> u8 \<times> ObjectGuid \<times> RollVote" where
  "best_of d best = (if fst best < fst d then d else best)"

definition contestants :: "RollVote set \<Rightarrow> (ObjectGuid \<times> RollVote) list \<Rightarrow> (ObjectGuid \<times> RollVote) list" where
  "contestants wanted votes = filter (\<lambda>(p, v). v \<in> wanted) votes"

lemma unat_small: "n \<le> 255 \<Longrightarrow> unat (of_nat n :: u8) = n"
  by (simp add: unat_of_nat)

lemma die_number_range: "1 \<le> unat (die_number e m j) \<and> unat (die_number e m j) \<le> 100"
proof -
  define n where "n = 1 + lw_draw (ge_lfg e) (lm_draws m + j) mod 100"
  have "1 \<le> n" "n \<le> 100" by (simp_all add: n_def Suc_leI)
  moreover have "die_number e m j = of_nat n" by (simp only: die_number_def n_def)
  ultimately show ?thesis using unat_small [of n] by simp
qed

lemma die_number_pos: "0 < die_number e m j"
  using die_number_range [of e m j] by (simp add: word_less_nat_alt)

lemma roll_die_number: "roll_die e w = (die_number e (gw_lfg w) 0, w\<lparr>gw_lfg := (gw_lfg w)\<lparr>lm_draws := Suc (lm_draws (gw_lfg w))\<rparr>\<rparr>)"
  by (simp add: roll_die_def urand_def die_number_def)

lemma contest_fold:
  assumes "fold (roll_draw e roll wanted) votes (b, w) = (b', w')"
  shows "items_given w' = items_given w \<and> gw_loot w' = gw_loot w \<and>
    b' = fold best_of (zip (map (die_number e (gw_lfg w)) [0..<length (contestants wanted votes)]) (contestants wanted votes)) b"
  using assms
proof (induction votes arbitrary: b w)
  case (Cons x votes)
  obtain p v where x: "x = (p, v)" by force
  show ?case
  proof (cases "v \<in> wanted")
    case False
    with Cons show ?thesis by (simp add: x roll_draw_def contestants_def)
  next
    case True
    let ?m = "gw_lfg w" and ?n = "die_number e (gw_lfg w) 0"
    let ?w1 = "w\<lparr>gw_lfg := ?m\<lparr>lm_draws := Suc (lm_draws ?m)\<rparr>\<rparr>"
    let ?w2 = "Group_SendLootRoll e p (uint ?n) (RollVote_value v) roll ?w1"
    have step: "roll_draw e roll wanted x (b, w) = (best_of (?n, p, v) b, ?w2)"
      using True by (simp add: x roll_draw_def roll_die_number Let_def best_of_def)
    have later: "die_number e (gw_lfg ?w2) j = die_number e ?m (Suc j)" for j by (simp add: die_number_def)
    have c: "contestants wanted (x # votes) = (p, v) # contestants wanted votes" using True by (simp add: x contestants_def)
    have z: "zip (map (die_number e ?m) [0..<length (contestants wanted (x # votes))]) (contestants wanted (x # votes)) =
        (?n, p, v) # zip (map (die_number e (gw_lfg ?w2)) [0..<length (contestants wanted votes)]) (contestants wanted votes)"
      unfolding c later by (simp add: map_upt_Suc del: upt_Suc)
    have "items_given ?w2 = items_given w" "gw_loot ?w2 = gw_loot w" by (simp_all add: items_given_def [of ?w1] items_given_def [of w])
    with Cons.IH [of "best_of (?n, p, v) b" ?w2] Cons.prems show ?thesis by (simp add: step z)
  qed
qed (simp add: contestants_def)

lemma best_of_first_max:
  "ds \<noteq> [] \<Longrightarrow> \<forall>d \<in> set ds. fst b < fst d \<Longrightarrow>
   \<exists>k < length ds. fold best_of ds b = ds ! k \<and> (\<forall>j < length ds. fst (ds ! j) \<le> fst (ds ! k)) \<and> (\<forall>j < k. fst (ds ! j) < fst (ds ! k))"
proof (induction ds rule: rev_induct)
  case (snoc d ds)
  show ?case
  proof (cases "ds = []")
    case True
    with snoc.prems show ?thesis by (simp add: best_of_def)
  next
    case False
    with snoc obtain k where k: "k < length ds" "fold best_of ds b = ds ! k" "\<forall>j < length ds. fst (ds ! j) \<le> fst (ds ! k)"
      "\<forall>j < k. fst (ds ! j) < fst (ds ! k)" by auto
    show ?thesis
    proof (cases "fst (ds ! k) < fst d")
      case True
      with k show ?thesis
        by (intro exI [of _ "length ds"]) (auto simp: k(2) best_of_def [of d] nth_append less_Suc_eq intro: le_less_trans order_less_imp_le)
    next
      case F: False
      with k show ?thesis
        by (intro exI [of _ k]) (auto simp: k(2) best_of_def [of d] nth_append less_Suc_eq)
    qed
  qed
qed simp

subsection \<open>Rolls whose totals count their votes\<close>

definition votes_for :: "RollVote set \<Rightarrow> (ObjectGuid \<times> RollVote) list \<Rightarrow> nat" where
  "votes_for V votes = length (contestants V votes)"

definition roll_ok :: "Roll \<Rightarrow> bool" where
  "roll_ok r \<longleftrightarrow> om_ok (rl_playerVote r) \<and> length (rl_playerVote r) < 256 \<and> NOT_VALID \<notin> snd ` set (rl_playerVote r) \<and>
     unat (rl_totalPlayersRolling r) = length (rl_playerVote r) \<and>
     unat (rl_totalNeed r) = votes_for {NEED} (rl_playerVote r) \<and>
     unat (rl_totalGreed r) = votes_for {GREED, DISENCHANT} (rl_playerVote r) \<and>
     unat (rl_totalPass r) = votes_for {PASS} (rl_playerVote r)"

lemma votes_for_simps [simp]: "votes_for V [] = 0" "votes_for V ((p, v) # m) = (if v \<in> V then 1 else 0) + votes_for V m"
  by (simp_all add: votes_for_def contestants_def)

lemma votes_for_length: "votes_for V m \<le> length m"
  by (simp add: votes_for_def contestants_def)

lemma votes_partition: "NOT_VALID \<notin> snd ` set m \<Longrightarrow>
    votes_for {NEED} m + votes_for {GREED, DISENCHANT} m + votes_for {PASS} m + votes_for {NOT_EMITED_YET} m = length m"
proof (induction m)
  case (Cons x m)
  then show ?case by (cases x; cases "snd x") auto
qed simp

lemma votes_for_zero: "votes_for V m = 0 \<longleftrightarrow> snd ` set m \<inter> V = {}"
  by (induction m) auto

lemma roll_complete_iff: "roll_ok r \<Longrightarrow> roll_complete r \<longleftrightarrow> NOT_EMITED_YET \<notin> snd ` set (rl_playerVote r)"
  using votes_partition [of "rl_playerVote r"] votes_for_zero [of "{NOT_EMITED_YET}" "rl_playerVote r"]
  by (auto simp: roll_ok_def roll_complete_def)

lemma votes_for_upd: "om_ok m \<Longrightarrow> map_of m p = Some u \<Longrightarrow>
    votes_for V (om_upd p (\<lambda>_. v) m) + (if u \<in> V then 1 else 0) = votes_for V m + (if v \<in> V then 1 else 0)"
proof (induction m)
  case (Cons x m)
  obtain a b where x: "x = (a, b)" by force
  show ?case
  proof (cases "a = p")
    case True
    with Cons.prems have "map_of m p = None" "b = u" by (auto simp: x om_ok_Cons map_of_eq_None_iff)
    moreover from this have "om_upd p (\<lambda>_. v) m = m"
      by (force simp: om_upd_def map_of_eq_None_iff intro!: map_idI)
    ultimately show ?thesis using True by (simp add: x om_upd_def)
  next
    case False
    with Cons.prems have "om_ok m" "map_of m p = Some u" by (simp_all add: x om_ok_Cons)
    with Cons.IH False show ?thesis by (simp add: x om_upd_def)
  qed
qed simp

definition RollVote_of :: "u8 \<Rightarrow> RollVote" where
  "RollVote_of choice = (if choice = ROLL_PASS then PASS else if choice = ROLL_NEED then NEED
     else if choice = ROLL_GREED then GREED else DISENCHANT)"

lemmas choices = ROLL_PASS_def ROLL_NEED_def ROLL_GREED_def ROLL_DISENCHANT_def

lemma choice_cases: "(choice :: u8) \<le> ROLL_DISENCHANT \<Longrightarrow> choice = ROLL_PASS \<or> choice = ROLL_NEED \<or> choice = ROLL_GREED \<or> choice = ROLL_DISENCHANT"
proof -
  assume "choice \<le> ROLL_DISENCHANT"
  then have "unat choice \<le> 3" by (simp add: choices word_le_nat_alt)
  then have "unat choice = unat (0 :: u8) \<or> unat choice = unat (1 :: u8) \<or> unat choice = unat (2 :: u8) \<or> unat choice = unat (3 :: u8)"
    by auto
  then show ?thesis by (simp only: choices word_unat_eq_iff)
qed

lemma u8_inc: "unat (x :: u8) < 255 \<Longrightarrow> unat (x + 1) = Suc (unat x)"
  by (simp add: unat_word_ariths)

lemma roll_choose_first:
  assumes ok: "roll_ok r" and first: "map_of (rl_playerVote r) p = Some NOT_EMITED_YET" and c: "choice \<le> ROLL_DISENCHANT"
  shows "rl_playerVote (fst (roll_choose e p choice r w)) = om_upd p (\<lambda>_. RollVote_of choice) (rl_playerVote r) \<and>
    roll_ok (fst (roll_choose e p choice r w)) \<and> roll_frame w (snd (roll_choose e p choice r w))"
proof -
  let ?m = "rl_playerVote r" and ?m' = "om_upd p (\<lambda>_. RollVote_of choice) (rl_playerVote r)"
  have m: "om_ok ?m" "length ?m < 256" "NOT_VALID \<notin> snd ` set ?m" using ok by (simp_all add: roll_ok_def)
  have pos: "votes_for {NOT_EMITED_YET} ?m \<noteq> 0"
    using imageI [OF map_of_SomeD [OF first], of snd] by (auto simp: votes_for_zero)
  have "unat (rl_totalNeed r) + unat (rl_totalGreed r) + unat (rl_totalPass r) < 255"
    using ok votes_partition [OF m(3)] pos m(2) by (simp add: roll_ok_def)
  then have inc: "unat (rl_totalNeed r + 1) = Suc (unat (rl_totalNeed r))" "unat (rl_totalGreed r + 1) = Suc (unat (rl_totalGreed r))"
    "unat (rl_totalPass r + 1) = Suc (unat (rl_totalPass r))" by (simp_all add: u8_inc)
  have v: "RollVote_of choice \<noteq> NOT_VALID" by (simp add: RollVote_of_def)
  then have m': "om_ok ?m'" "length ?m' = length ?m" "NOT_VALID \<notin> snd ` set ?m'"
    using m om_upd_ok [OF m(1)] by (auto simp: om_upd_def split: if_splits)
  have upd: "votes_for V ?m' + (if NOT_EMITED_YET \<in> V then 1 else 0) = votes_for V ?m + (if RollVote_of choice \<in> V then 1 else 0)" for V
    by (rule votes_for_upd [OF m(1) first])
  have n: "votes_for {NEED} ?m' = votes_for {NEED} ?m + (if RollVote_of choice = NEED then 1 else 0)"
    "votes_for {GREED, DISENCHANT} ?m' = votes_for {GREED, DISENCHANT} ?m + (if RollVote_of choice \<in> {GREED, DISENCHANT} then 1 else 0)"
    "votes_for {PASS} ?m' = votes_for {PASS} ?m + (if RollVote_of choice = PASS then 1 else 0)"
    using upd [of "{NEED}"] upd [of "{GREED, DISENCHANT}"] upd [of "{PASS}"] by simp_all
  show ?thesis
    using choice_cases [OF c] ok m m' n inc
    by (elim disjE) (simp_all add: roll_choose_def Let_def choices RollVote_of_def roll_ok_def roll_frame_def)
qed

subsection \<open>The last choice ends the roll\<close>

lemma GetRoll_SomeD: "Group_GetRoll loot slot (g, w) = Some i \<Longrightarrow> i < length (gr_RollId g) \<and>
    rl_loot (gr_RollId g ! i) = loot \<and> rl_itemSlot (gr_RollId g ! i) = slot \<and> (\<exists>l. map_of (gw_loot w) loot = Some l)"
proof -
  assume "Group_GetRoll loot slot (g, w) = Some i"
  then have i: "i < length (gr_RollId g)"
    and "i = length (takeWhile (\<lambda>r. \<not> (map_of (gw_loot w) (rl_loot r) \<noteq> None \<and> rl_loot r = loot \<and> rl_itemSlot r = slot)) (gr_RollId g))"
    by (auto simp: Group_GetRoll_def roll_index_def Let_def split: if_splits)
  with nth_length_takeWhile [of "\<lambda>r. \<not> (map_of (gw_loot w) (rl_loot r) \<noteq> None \<and> rl_loot r = loot \<and> rl_itemSlot r = slot)" "gr_RollId g"]
  show ?thesis by auto
qed

lemma CountTheRoll_error: "Group_CountTheRoll e c i st = Inl err \<Longrightarrow> err = GroupAssertFailed"
  by (cases st) (auto simp: Group_CountTheRoll_def roll_greed_def Let_def split: option.splits sum.splits if_splits prod.splits)

definition others_chose :: "ObjectGuid \<Rightarrow> Roll \<Rightarrow> bool" where
  "others_chose p r = list_all (\<lambda>(q, v). q = p \<or> v \<noteq> NOT_EMITED_YET) (rl_playerVote r)"

lemma choice_given: "RollVote_of choice \<noteq> NOT_EMITED_YET"
  by (simp add: RollVote_of_def)

lemma om_upd_open: "v \<noteq> NOT_EMITED_YET \<Longrightarrow>
    NOT_EMITED_YET \<notin> snd ` set (om_upd p (\<lambda>_. v) m) \<longleftrightarrow> list_all (\<lambda>(q, v). q = p \<or> v \<noteq> NOT_EMITED_YET) m"
  by (induction m) (auto simp: om_upd_def split: if_splits)

text \<open>C38: A player who takes part in a roll and has not chosen yet chooses (\<open>CountRollVote\<close>), one of the four choices.
  If all the others have chosen, the roll ends and is taken from the list of rolls, unless the server stops. Otherwise
  it stays in its place, with the choice remembered, and its totals still count the votes, so that the same holds of
  the next choice. A loot with items for quests only is left out: there the choice is ignored and nothing changes.
\<close>

theorem CountRollVote_first_choice:
  assumes "Group_GetRoll loot slot (g, w) = Some i" "roll_ok (gr_RollId g ! i)"
    and "map_of (rl_playerVote (gr_RollId g ! i)) p = Some NOT_EMITED_YET" "choice \<le> ROLL_DISENCHANT"
  shows "case Group_CountRollVote e c p loot slot choice (g, w) of
      Inl err \<Rightarrow> err = GroupAssertFailed \<and> others_chose p (gr_RollId g ! i)
    | Inr (g', w') \<Rightarrow>
        if map_option lo_items (map_of (gw_loot w) loot) = Some [] then g' = g \<and> w' = w
        else if others_chose p (gr_RollId g ! i) then gr_RollId g' = erase_at i (gr_RollId g)
        else \<exists>r. gr_RollId g' = (gr_RollId g)[i := r] \<and> roll_ok r \<and>
          rl_playerVote r = om_upd p (\<lambda>_. RollVote_of choice) (rl_playerVote (gr_RollId g ! i)) \<and> \<not> roll_complete r \<and>
          items_given w' = items_given w"
proof -
  let ?r = "gr_RollId g ! i"
  obtain r1 w1 where ch: "roll_choose e p choice ?r w = (r1, w1)" by force
  have i: "i < length (gr_RollId g)" and l: "\<exists>l. map_of (gw_loot w) loot = Some l" using GetRoll_SomeD [OF assms(1)] by simp_all
  have first: "rl_playerVote r1 = om_upd p (\<lambda>_. RollVote_of choice) (rl_playerVote ?r)" "roll_ok r1" "roll_frame w w1"
    using roll_choose_first [OF assms(2-4), of e w] by (simp_all add: ch)
  have done_iff: "roll_complete r1 \<longleftrightarrow> others_chose p ?r"
    using roll_complete_iff [OF first(2)] om_upd_open [OF choice_given] by (simp add: first(1) others_chose_def)
  let ?g1 = "g\<lparr>gr_RollId := (gr_RollId g)[i := r1]\<rparr>"
  have run: "Group_CountRollVote e c p loot slot choice (g, w) =
      (if map_option lo_items (map_of (gw_loot w) loot) = Some [] then Inr (g, w)
       else if others_chose p ?r then Group_CountTheRoll e c i (?g1, w1) else Inr (?g1, w1))"
    using l by (auto simp: Group_CountRollVote_def assms(1,3) ch Let_def done_iff)
  have over: "case Group_CountTheRoll e c i (?g1, w1) of Inl err \<Rightarrow> err = GroupAssertFailed
      | Inr st \<Rightarrow> gr_RollId (fst st) = erase_at i (gr_RollId g)"
    using i by (auto dest!: CountTheRoll_group CountTheRoll_error simp: erase_at_def split: sum.split)
  show ?thesis
  proof (cases "map_option lo_items (map_of (gw_loot w) loot) = Some []")
    case True
    then show ?thesis by (simp only: run if_True sum.case prod.case simp_thms)
  next
    case some: False
    show ?thesis
    proof (cases "others_chose p ?r")
      case True
      then show ?thesis using over by (simp only: run some if_True if_False) (auto split: sum.splits prod.split)
    next
      case False
      then show ?thesis using first done_iff by (auto simp: run some roll_frame_def)
    qed
  qed
qed

lemma CountRollVote_first_choice_witness:
  "gr_RollId (fst (projr (Group_CountRollVote demo_group_env demo_context (demo_member 2) (ObjectGuid 9 9) 0 ROLL_NEED
     (demo_group\<lparr>gr_RollId := [demo_roll]\<rparr>, demo_group_world)))) \<noteq> []"
proof -
  define g where "g = demo_group\<lparr>gr_RollId := [demo_roll]\<rparr>"
  let ?run = "Group_CountRollVote demo_group_env demo_context (demo_member 2) (ObjectGuid 9 9) 0 ROLL_NEED (g, demo_group_world)"
  have get: "Group_GetRoll (ObjectGuid 9 9) 0 (g, demo_group_world) = Some 0" unfolding g_def by code_simp
  have ok: "roll_ok (gr_RollId g ! 0)" unfolding g_def by code_simp
  have vote: "map_of (rl_playerVote (gr_RollId g ! 0)) (demo_member 2) = Some NOT_EMITED_YET" unfolding g_def by code_simp
  have choice: "ROLL_NEED \<le> ROLL_DISENCHANT" by code_simp
  have items: "(map_option lo_items (map_of (gw_loot demo_group_world) (ObjectGuid 9 9)) = Some []) = False" by code_simp
  have others: "others_chose (demo_member 2) (gr_RollId g ! 0) = False" unfolding g_def by code_simp
  have "case ?run of Inl _ \<Rightarrow> False | Inr _ \<Rightarrow> True" unfolding g_def by code_simp
  then obtain g' w' where run: "?run = Inr (g', w')" by (cases ?run) auto
  have "\<exists>r. gr_RollId g' = (gr_RollId g)[0 := r]"
    using CountRollVote_first_choice [OF get ok vote choice, of demo_group_env demo_context]
    unfolding run sum.case prod.case items others if_False by blast
  moreover have "gr_RollId g \<noteq> []" by (simp add: g_def)
  ultimately have "gr_RollId g' \<noteq> []" by (metis list_update_nonempty)
  then show ?thesis using run by (simp add: g_def)
qed

subsection \<open>The winner\<close>

definition roll_wanted :: "Roll \<Rightarrow> RollVote set" where
  "roll_wanted r = (if NEED \<in> snd ` set (rl_playerVote r) then {NEED} else {GREED, DISENCHANT})"

definition roll_contestants :: "Roll \<Rightarrow> (ObjectGuid \<times> RollVote) list" where
  "roll_contestants r = contestants (roll_wanted r) (rl_playerVote r)"

text \<open>What a player who wins with a vote gets, what becomes of the loot, and when the server stops: a winner who has room
  gets the item itself, one who chose to disenchant what comes of that, stored or in a mail.\<close>

definition winner_has_room :: "LootContext \<Rightarrow> Roll \<Rightarrow> Loot \<Rightarrow> ObjectGuid \<Rightarrow> bool" where
  "winner_has_room c r l p = lc_CanStore c p (rl_itemid r) (lo_count (loot_item (rl_itemSlot r) l))"

definition roll_prize :: "GroupEnv \<Rightarrow> LootContext \<Rightarrow> Roll \<Rightarrow> Loot \<Rightarrow> ObjectGuid \<times> RollVote \<Rightarrow> group_event list" where
  "roll_prize e c r l = (\<lambda>(p, v).
     if \<not> ge_connected e p then []
     else if v = DISENCHANT then [GiveDisenchantLoot p (rl_itemid r) (winner_has_room c r l p)]
     else if winner_has_room c r l p then [StoreNewItem p (rl_itemid r) (lo_count (loot_item (rl_itemSlot r) l))]
     else [])"

definition roll_loot_after :: "GroupEnv \<Rightarrow> LootContext \<Rightarrow> Roll \<Rightarrow> Loot \<Rightarrow> ObjectGuid \<times> RollVote \<Rightarrow> Loot" where
  "roll_loot_after e c r l x =
     (if roll_prize e c r l x \<noteq> []
      then (loot_upd_item (rl_itemSlot r) (\<lambda>i. i\<lparr>lo_is_looted := True\<rparr>) l)\<lparr>lo_unlootedCount := lo_unlootedCount l - 1\<rparr>
      else if ge_connected e (fst x) then loot_upd_item (rl_itemSlot r) (\<lambda>i. i\<lparr>lo_is_blocked := False\<rparr>) l
      else l)"

definition roll_stops_server :: "GroupEnv \<Rightarrow> LootContext \<Rightarrow> Roll \<Rightarrow> ObjectGuid \<times> RollVote \<Rightarrow> bool" where
  "roll_stops_server e c r = (\<lambda>(p, v). ge_connected e p \<and> v = DISENCHANT \<and> lc_disenchant_skill c (rl_itemid r) p = None)"

lemma take_items: "items_given (grp_tell ev (roll_take r w)) = items_given w @ (if is_gift ev then [ev] else [])"
  by (simp add: items_tell roll_take_def is_gift_def)

lemma tell_loot [simp]: "gw_loot (grp_tell ev w) = gw_loot w"
  by (simp add: grp_tell_def)

lemma upd_loot_map [simp]: "map_of (gw_loot (gw_upd_loot k f w)) k = map_option f (map_of (gw_loot w) k)"
  by (simp add: gw_upd_loot_def)

lemma roll_give_outcome:
  assumes "map_of (gw_loot w) (rl_loot r) = Some l" "ge_connected e p" "v \<noteq> DISENCHANT"
    and "n = lo_count (loot_item (rl_itemSlot r) l)"
  shows "items_given (roll_give c r n p w) = items_given w @ roll_prize e c r l (p, v) \<and>
    map_of (gw_loot (roll_give c r n p w)) (rl_loot r) = Some (roll_loot_after e c r l (p, v))"
  using assms by (simp add: roll_give_def roll_prize_def winner_has_room_def roll_loot_after_def take_items items_tell
      is_gift_def roll_take_def roll_unblock_def)

lemma contest_winner:
  assumes cs: "cs = contestants V (rl_playerVote r)" "cs \<noteq> []"
  obtains k w1 where "k < length cs"
    and "\<forall>j < length cs. die_number e (gw_lfg w) j \<le> die_number e (gw_lfg w) k"
    and "\<forall>j < k. die_number e (gw_lfg w) j < die_number e (gw_lfg w) k"
    and "roll_contest e r V w = ((die_number e (gw_lfg w) k, cs ! k), w1)"
    and "items_given w1 = items_given w" "gw_loot w1 = gw_loot w"
proof -
  let ?b = "(0 :: u8, fst (hd (rl_playerVote r)), NOT_VALID)"
  let ?ds = "zip (map (die_number e (gw_lfg w)) [0..<length cs]) cs"
  obtain b w1 where run: "roll_contest e r V w = (b, w1)" by (meson surj_pair)
  then have fold: "fold (roll_draw e r V) (rl_playerVote r) (?b, w) = (b, w1)" by (simp add: roll_contest_def)
  have b: "b = fold best_of ?ds ?b" and w1: "items_given w1 = items_given w" "gw_loot w1 = gw_loot w"
    using contest_fold [OF fold] by (simp_all add: cs(1))
  have ne: "?ds \<noteq> []" using cs(2) by simp
  have pos: "\<forall>d \<in> set ?ds. fst ?b < fst d"
    using die_number_pos by (auto dest!: set_zip_leftD)
  obtain k where k: "k < length ?ds" "fold best_of ?ds ?b = ?ds ! k"
    "\<forall>j < length ?ds. fst (?ds ! j) \<le> fst (?ds ! k)" "\<forall>j < k. fst (?ds ! j) < fst (?ds ! k)"
    using best_of_first_max [OF ne pos] by blast
  have nth: "?ds ! j = (die_number e (gw_lfg w) j, cs ! j)" if "j < length cs" for j using that by simp
  show thesis
  proof (rule that)
    show "k < length cs" using k(1) by simp
    show "\<forall>j < length cs. die_number e (gw_lfg w) j \<le> die_number e (gw_lfg w) k" using k(1,3) by simp
    show "\<forall>j < k. die_number e (gw_lfg w) j < die_number e (gw_lfg w) k" using k(1,4) by simp
    show "roll_contest e r V w = ((die_number e (gw_lfg w) k, cs ! k), w1)" using k(1,2) by (simp add: run b)
  qed (rule w1)+
qed

lemma contestant_wanted: "k < length (contestants V m) \<Longrightarrow> snd (contestants V m ! k) \<in> V"
proof -
  assume "k < length (contestants V m)"
  then have "contestants V m ! k \<in> set (contestants V m)" by (rule nth_mem)
  then show ?thesis by (auto simp: contestants_def)
qed

lemma roll_ok_totals:
  assumes "roll_ok r"
  shows "rl_totalNeed r > 0 \<longleftrightarrow> NEED \<in> snd ` set (rl_playerVote r)"
    and "rl_totalGreed r > 0 \<longleftrightarrow> snd ` set (rl_playerVote r) \<inter> {GREED, DISENCHANT} \<noteq> {}"
  using assms votes_for_zero [of "{NEED}" "rl_playerVote r"] votes_for_zero [of "{GREED, DISENCHANT}" "rl_playerVote r"]
  by (auto simp: roll_ok_def word_greater_zero_iff simp flip: unat_eq_zero)

text \<open>What a roll by need or by greed comes to, once the contest is drawn.\<close>

lemma roll_need_outcome:
  assumes "roll_contest e r {NEED} w = ((n, p, v), w1)" "items_given w1 = items_given w" "gw_loot w1 = gw_loot w"
    and "map_of (gw_loot w) (rl_loot r) = Some l" "v = NEED"
  shows "items_given (roll_need e c r l w) = items_given w @ roll_prize e c r l (p, v) \<and>
    map_of (gw_loot (roll_need e c r l w)) (rl_loot r) = Some (roll_loot_after e c r l (p, v))"
proof (cases "ge_connected e p")
  case False
  then show ?thesis using assms by (simp add: roll_need_def Let_def roll_prize_def roll_loot_after_def)
next
  case True
  let ?w3 = "grp_tell (UpdateRollCriteria p ROLL_NEED (rl_itemid r) n) (Group_SendLootRollWon e p (uint n) ROLL_NEED r w1)"
  have w3: "map_of (gw_loot ?w3) (rl_loot r) = Some l" "items_given ?w3 = items_given w"
    using assms by (simp_all add: items_tell is_gift_def)
  show ?thesis
    using roll_give_outcome [OF w3(1) True, of v, OF _ refl] w3(2) assms(1,5) True by (simp add: roll_need_def Let_def)
qed

lemma roll_greed_outcome:
  assumes "roll_contest e r {GREED, DISENCHANT} w = ((n, p, v), w1)" "items_given w1 = items_given w" "gw_loot w1 = gw_loot w"
    and "map_of (gw_loot w) (rl_loot r) = Some l" "v \<in> {GREED, DISENCHANT}"
  shows "if roll_stops_server e c r (p, v) then roll_greed e c r l w = Inl GroupAssertFailed
    else \<exists>w2. roll_greed e c r l w = Inr w2 \<and> items_given w2 = items_given w @ roll_prize e c r l (p, v) \<and>
      map_of (gw_loot w2) (rl_loot r) = Some (roll_loot_after e c r l (p, v))"
proof (cases "ge_connected e p")
  case False
  then show ?thesis using assms by (simp add: roll_greed_def Let_def roll_prize_def roll_loot_after_def roll_stops_server_def)
next
  case True
  let ?w3 = "grp_tell (UpdateRollCriteria p ROLL_GREED (rl_itemid r) n) (Group_SendLootRollWon e p (uint n) (RollVote_value v) r w1)"
  have w3: "map_of (gw_loot ?w3) (rl_loot r) = Some l" "items_given ?w3 = items_given w"
    using assms by (simp_all add: items_tell is_gift_def)
  show ?thesis
  proof (cases "v = DISENCHANT")
    case False
    then have "roll_greed e c r l w = Inr (roll_give c r (lo_count (loot_item (rl_itemSlot r) l)) p ?w3)"
      using assms(1,5) True by (simp add: roll_greed_def Let_def)
    then show ?thesis
      using roll_give_outcome [OF w3(1) True False refl, of c] w3(2) False by (simp add: roll_stops_server_def)
  next
    case D: True
    show ?thesis
      using assms(1-4) True D by (auto simp: roll_greed_def Let_def roll_stops_server_def roll_prize_def winner_has_room_def
          roll_loot_after_def items_tell is_gift_def roll_take_def split: option.split)
  qed
qed

text \<open>A roll of two players: one passes, the other makes a choice.\<close>

definition demo_won :: "RollVote \<Rightarrow> Roll" where
  "demo_won v = demo_roll\<lparr>rl_playerVote := [(demo_member 2, PASS), (demo_member 3, v)], rl_totalPass := 1, rl_totalGreed := 1\<rparr>"

text \<open>C10: The end of a roll whose totals count its votes and in which somebody wants the item of a loot that is still there
  (\<open>CountTheRoll\<close>). If anybody needs the item, those who need it draw; otherwise those who want it by greed or to
  disenchant it. The winner is the one with the highest number, the first in the order of the identifiers among equals;
  the numbers are the draws of the shared stream, one for each of them in this order. A connected winner by need or
  greed who has room gets the item and nothing else, and the loot loses it; for one without room the item is unblocked,
  for one who has gone it stays as it is. A connected winner who chose to disenchant gets what comes of that, in the
  bags or by mail, and the loot loses the item; the server stops if nothing can come of it, and for no other reason.
  The roll is taken from the list.
\<close>

theorem loot_roll_winner:
  assumes "roll_ok r" "gr_RollId g ! i = r" "map_of (gw_loot w) (rl_loot r) = Some l" "roll_contestants r \<noteq> []"
  shows "\<exists>k < length (roll_contestants r).
    list_all (\<lambda>j. die_number e (gw_lfg w) j \<le> die_number e (gw_lfg w) k) [0..<length (roll_contestants r)] \<and>
    list_all (\<lambda>j. die_number e (gw_lfg w) j < die_number e (gw_lfg w) k) [0..<k] \<and>
    (case Group_CountTheRoll e c i (g, w) of
       Inl err \<Rightarrow> err = GroupAssertFailed \<and> roll_stops_server e c r (roll_contestants r ! k)
     | Inr (g', w') \<Rightarrow> \<not> roll_stops_server e c r (roll_contestants r ! k) \<and>
         items_given w' = items_given w @ roll_prize e c r l (roll_contestants r ! k) \<and>
         map_of (gw_loot w') (rl_loot r) = Some (roll_loot_after e c r l (roll_contestants r ! k)) \<and>
         gr_RollId g' = erase_at i (gr_RollId g))"
proof -
  let ?cs = "roll_contestants r" and ?d = "die_number e (gw_lfg w)"
  have cs: "?cs = contestants (roll_wanted r) (rl_playerVote r)" by (simp add: roll_contestants_def)
  have ne: "rl_playerVote r \<noteq> []" using assms(4) by (auto simp: cs contestants_def)
  obtain k w1 where k: "k < length ?cs" "\<forall>j < length ?cs. ?d j \<le> ?d k" "\<forall>j < k. ?d j < ?d k"
    and run: "roll_contest e r (roll_wanted r) w = ((?d k, ?cs ! k), w1)"
    and w1: "items_given w1 = items_given w" "gw_loot w1 = gw_loot w"
    by (rule contest_winner [OF cs assms(4)])
  obtain p v where pv: "?cs ! k = (p, v)" by force
  have v: "v \<in> roll_wanted r" using contestant_wanted [of k "roll_wanted r" "rl_playerVote r"] k(1) by (simp add: cs [symmetric] pv)
  have vs: "v \<in> snd ` set (rl_playerVote r)"
  proof -
    have "(p, v) \<in> set ?cs" using nth_mem [OF k(1)] by (simp only: pv)
    then show "v \<in> snd ` set (rl_playerVote r)" by (force simp: cs contestants_def)
  qed
  have outcome: "case Group_CountTheRoll e c i (g, w) of
       Inl err \<Rightarrow> err = GroupAssertFailed \<and> roll_stops_server e c r (p, v)
     | Inr (g', w') \<Rightarrow> \<not> roll_stops_server e c r (p, v) \<and> items_given w' = items_given w @ roll_prize e c r l (p, v) \<and>
         map_of (gw_loot w') (rl_loot r) = Some (roll_loot_after e c r l (p, v)) \<and> gr_RollId g' = erase_at i (gr_RollId g)"
  proof (cases "NEED \<in> snd ` set (rl_playerVote r)")
    case True
    then have "v = NEED" "\<not> roll_stops_server e c r (p, v)" using v by (simp_all add: roll_wanted_def roll_stops_server_def)
    with True show ?thesis
      using roll_need_outcome [of e r w "?d k" p v w1 l c] run w1 assms(2,3) ne roll_ok_totals(1) [OF assms(1)]
      by (simp add: Group_CountTheRoll_def Let_def roll_wanted_def pv)
  next
    case False
    then have w: "roll_wanted r = {GREED, DISENCHANT}" by (simp add: roll_wanted_def)
    then have "snd ` set (rl_playerVote r) \<inter> {GREED, DISENCHANT} \<noteq> {}" using v vs by blast
    with False have tot: "\<not> rl_totalNeed r > 0" "rl_totalGreed r > 0"
      by (simp_all only: roll_ok_totals [OF assms(1)] not_False_eq_True)
    have "Group_CountTheRoll e c i (g, w) = (case roll_greed e c r l w of Inl err \<Rightarrow> Inl err
        | Inr w1 \<Rightarrow> Inr (g\<lparr>gr_RollId := erase_at i (gr_RollId g)\<rparr>, Group_SendLootRollsComplete e r w1))"
      using tot ne assms(2,3) by (simp add: Group_CountTheRoll_def Let_def split: sum.split)
    then show ?thesis
      using roll_greed_outcome [of e r w "?d k" p v w1 l c] run w1 assms(3) v by (auto simp: w pv split: if_splits)
  qed
  have "list_all (\<lambda>j. ?d j \<le> ?d k) [0..<length ?cs]" "list_all (\<lambda>j. ?d j < ?d k) [0..<k]"
    using k(2,3) by (simp_all add: list_all_iff)
  then show ?thesis using k(1) outcome [unfolded pv [symmetric]] by (intro exI [of _ k] conjI)
qed

lemma loot_roll_winner_witness:
  "items_given (snd (projr (Group_CountTheRoll demo_group_env demo_context 0 (demo_group\<lparr>gr_RollId := [demo_won GREED]\<rparr>,
     demo_group_world)))) = [StoreNewItem (demo_member 3) 100 1] \<and>
   Group_CountTheRoll demo_group_env demo_context 0 (demo_group\<lparr>gr_RollId := [demo_won DISENCHANT]\<rparr>, demo_group_world) =
     Inl GroupAssertFailed"
proof -
  have l: "map_of (gw_loot demo_group_world) (rl_loot (demo_won v)) = Some demo_loot" for v by (simp add: demo_won_def) code_simp
  have none: "items_given demo_group_world = []" by code_simp
  have greed: "roll_ok (demo_won GREED)" "roll_contestants (demo_won GREED) = [(demo_member 3, GREED)]"
    "roll_prize demo_group_env demo_context (demo_won GREED) demo_loot (demo_member 3, GREED) = [StoreNewItem (demo_member 3) 100 1]"
    "\<not> roll_stops_server demo_group_env demo_context (demo_won GREED) (demo_member 3, GREED)"
    by code_simp+
  have dis: "roll_ok (demo_won DISENCHANT)" "roll_contestants (demo_won DISENCHANT) = [(demo_member 3, DISENCHANT)]"
    "roll_stops_server demo_group_env demo_context (demo_won DISENCHANT) (demo_member 3, DISENCHANT)"
    by code_simp+
  show ?thesis
    using loot_roll_winner [OF greed(1) _ l, of "demo_group\<lparr>gr_RollId := [demo_won GREED]\<rparr>" 0 demo_group_env demo_context]
      loot_roll_winner [OF dis(1) _ l, of "demo_group\<lparr>gr_RollId := [demo_won DISENCHANT]\<rparr>" 0 demo_group_env demo_context]
    by (auto simp: greed dis none split: sum.splits)
qed

subsection \<open>Choosing twice\<close>

lemma roll_index_simps [simp]: "roll_index P [] = None" "roll_index P (x # xs) = (if P x then Some 0 else map_option Suc (roll_index P xs))"
  by (simp_all add: roll_index_def Let_def)







end
