(* ===== verification/AuctionHouse.thy ===== *)
theory AuctionHouse
  imports Prelude "HOL-Library.Signed_Division"
begin

section \<open>Auctions\<close>

text \<open>
  \<open>src/server/game/AuctionHouse/AuctionHouseMgr.h\<close>, \<open>AuctionHouseMgr.cpp\<close> and the handlers of
  \<open>src/server/game/Handlers/AuctionHouseHandler.cpp\<close>: selling, bidding, buying out, cancelling, the end of an auction,
  and the deposits that are collected later. An auction is an object at an address, as both its house and the list of
  pending deposits of its seller refer to it; using one that has been deleted is the error \<open>UseOfDeletedAuction\<close>.
  A player is known by the counter of its guid, as in the code. Mails, packets, criteria and statements for the data base
  are events. The percentages, which the code computes in floating point, and the deposit are arguments, as are the
  clock, who is connected, and what the code asks about items. When the ids of auctions are used up the server is told to
  stop; a run ends there, with \<open>AuctionIdOverflow\<close>.
\<close>

subsection \<open>Data\<close>

definition MAX_MONEY_AMOUNT :: u64 where "MAX_MONEY_AMOUNT = 99999999999"
definition MIN_AUCTION_TIME :: u32 where "MIN_AUCTION_TIME = 43200"
definition FACTION_MASK_ALLIANCE :: u32 where "FACTION_MASK_ALLIANCE = 2"
definition FACTION_MASK_HORDE :: u32 where "FACTION_MASK_HORDE = 4"

datatype AuctionError = ERR_AUCTION_OK | ERR_AUCTION_INVENTORY | ERR_AUCTION_DATABASE_ERROR | ERR_AUCTION_NOT_ENOUGHT_MONEY
  | ERR_AUCTION_ITEM_NOT_FOUND | ERR_AUCTION_HIGHER_BID | ERR_AUCTION_BID_INCREMENT | ERR_AUCTION_BID_OWN | ERR_AUCTION_RESTRICTED_ACCOUNT

datatype AuctionAction = AUCTION_SELL_ITEM | AUCTION_CANCEL | AUCTION_PLACE_BID

datatype MailAuctionAnswers = AUCTION_OUTBIDDED | AUCTION_WON | AUCTION_SUCCESSFUL | AUCTION_EXPIRED | AUCTION_CANCELLED_TO_BIDDER
  | AUCTION_CANCELED | AUCTION_SALE_PENDING

datatype auction_criteria = CRITERIA_TYPE_GOLD_EARNED_BY_AUCTIONS | CRITERIA_TYPE_CREATE_AUCTION | CRITERIA_TYPE_HIGHEST_AUCTION_BID
  | CRITERIA_TYPE_WON_AUCTIONS | CRITERIA_TYPE_HIGHEST_AUCTION_SOLD

record AuctionHouseEntry =
  ahe_ID :: u32
  ahe_ConsignmentRate :: u32
  ahe_DepositRate :: u32

record Item =
  it_guid :: u64
  it_entry :: u32
  it_count :: u32
  it_max_stack :: u32
  it_tradeable :: bool
  it_nonempty_bag :: bool
  it_conjured :: bool
  it_duration :: u32

record AuctionEntry =
  au_Id :: u32
  au_auctioneer :: u64
  au_itemGUIDLow :: u64
  au_itemEntry :: u32
  au_itemCount :: u32
  au_owner :: u64
  au_startbid :: u64
  au_bid :: u64
  au_buyout :: u64
  au_expire_time :: int
  au_bidder :: u64
  au_deposit :: u64
  au_etime :: u32
  au_auctionHouseEntry :: AuctionHouseEntry

record PlayerGetAllThrottleData =
  gt_Global :: u32
  gt_Cursor :: u32
  gt_Tombstone :: u32
  gt_NextAllowedReplication :: int

record AuctionHouseObject =
  ah_AuctionsMap :: "(u32 \<times> nat) list"
  ah_GetAllThrottleMap :: "u64 \<Rightarrow> PlayerGetAllThrottleData option"

datatype auction_house = HordeAuctions | AllianceAuctions | NeutralAuctions

text \<open>Subject and body of a mail: the item, the answer, the auction; and the other player with four amounts.\<close>

type_synonym auction_subject = "u32 \<times> MailAuctionAnswers \<times> u32 \<times> u32"
type_synonym auction_body = "u64 \<times> u64 \<times> u64 \<times> u64 \<times> u64"

record AuctionInfo =
  ai_AuctionItemID :: u32
  ai_Item :: Item
  ai_BuyoutPrice :: u64
  ai_CensorServerSideInfo :: bool
  ai_EndTime :: int
  ai_MinBid :: u64
  ai_Owner :: u64
  ai_MinIncrement :: u64
  ai_Bidder :: "u64 option"
  ai_BidAmount :: u64

datatype auction_event =
    AuctionCommandResult u64 AuctionAction AuctionError "(u32 \<times> u64 \<times> u64 \<times> u64) option"
  | AuctionOutBidNotification u64 u32 u64 u64 u64
  | AuctionClosedNotification u64 u32 u64 u64 bool
  | AuctionWonNotification u64 u32 u64
  | AuctionOwnerBidNotification u64 u32 u64 u64
  | AuctionMail u64 auction_subject auction_body u64 "Item option"
  | AuctionCriteria u64 auction_criteria u64
  | AuctionDeleteRow u32
  | AuctionInsertRow AuctionEntry
  | AuctionBidRow u64 u64 u32
  | ItemOwnerRow u64 u64
  | ItemDeleted u64
  | ItemSaved u64
  | ItemOffInventory u64
  | GoldSaved u64 u64
  | AuctionListResult u64 "AuctionInfo list" nat
  | AuctionReplicateResult u64 "AuctionInfo list" u32 u32 u32

datatype auction_error = UseOfDeletedAuction | ItemAlreadyOnAuction | AuctionIdOverflow

record AuctionServer =
  as_house :: "auction_house \<Rightarrow> AuctionHouseObject"
  as_heap :: "nat \<Rightarrow> AuctionEntry option"
  as_fresh :: nat
  as_mAitems :: "u64 \<Rightarrow> Item option"
  as_pending :: "(u64 \<times> (nat list \<times> u32)) list"
  as_money :: "u64 \<Rightarrow> u64"
  as_inventory :: "u64 \<Rightarrow> (u64 \<times> Item) list"
  as_auctionId :: u32
  as_sent :: "auction_event list"

record AuctionView =
  av_npc_faction :: "u64 \<Rightarrow> u64 \<Rightarrow> u32 option"
  av_two_side :: bool
  av_factionGroup :: "u32 \<Rightarrow> u32 option"
  av_houses :: "u32 \<Rightarrow> AuctionHouseEntry option"
  av_CalculatePct :: "u64 \<Rightarrow> u32 \<Rightarrow> u64"
  av_rate_cut :: "u64 \<Rightarrow> 64 word"
  av_deposit :: "AuctionHouseEntry \<Rightarrow> u32 \<Rightarrow> Item \<Rightarrow> u32 \<Rightarrow> u64"
  av_auction_time :: "u32 \<Rightarrow> u32"
  av_connected :: "u64 \<Rightarrow> bool"
  av_in_world :: "u64 \<Rightarrow> bool"
  av_account :: "u64 \<Rightarrow> u32"
  av_IsBotChar :: "u64 \<Rightarrow> bool"
  av_time :: int
  av_GameTime :: int
  av_getall_delay :: u32
  av_CloneItem :: "Item \<Rightarrow> u32 \<Rightarrow> Item option"

subsection \<open>State\<close>

definition as_tell :: "auction_event \<Rightarrow> AuctionServer \<Rightarrow> AuctionServer" where
  "as_tell ev s = s\<lparr>as_sent := as_sent s @ [ev]\<rparr>"

definition as_upd_house :: "auction_house \<Rightarrow> (AuctionHouseObject \<Rightarrow> AuctionHouseObject) \<Rightarrow> AuctionServer \<Rightarrow> AuctionServer" where
  "as_upd_house h f s = s\<lparr>as_house := (as_house s)(h := f (as_house s h))\<rparr>"

definition au_read :: "nat \<Rightarrow> AuctionServer \<Rightarrow> auction_error + AuctionEntry" where
  "au_read a s = (case as_heap s a of None \<Rightarrow> Inl UseOfDeletedAuction | Some e \<Rightarrow> Inr e)"

definition au_write :: "nat \<Rightarrow> AuctionEntry \<Rightarrow> AuctionServer \<Rightarrow> AuctionServer" where
  "au_write a e s = s\<lparr>as_heap := (as_heap s)(a := Some e)\<rparr>"

definition Player_HasEnoughMoney :: "u64 \<Rightarrow> u64 \<Rightarrow> AuctionServer \<Rightarrow> bool" where
  "Player_HasEnoughMoney p amount s \<longleftrightarrow> as_money s p \<ge> amount"

text \<open>\<open>ModifyMoney\<close> with a signed amount: a player never gets below 0, and never over the limit.\<close>

definition Player_ModifyMoney :: "u64 \<Rightarrow> 64 word \<Rightarrow> AuctionServer \<Rightarrow> AuctionServer" where
  "Player_ModifyMoney p amount s =
     (if amount = 0 then s
      else if sint amount < 0
      then s\<lparr>as_money := (as_money s)(p := if as_money s p > - amount then as_money s p + amount else 0)\<rparr>
      else if as_money s p \<le> MAX_MONEY_AMOUNT - amount
      then s\<lparr>as_money := (as_money s)(p := as_money s p + amount)\<rparr>
      else s)"

definition AuctionHouseMgr_GetAItem :: "u64 \<Rightarrow> AuctionServer \<Rightarrow> Item option" where
  "AuctionHouseMgr_GetAItem i s = as_mAitems s i"

definition AuctionHouseMgr_AddAItem :: "Item \<Rightarrow> AuctionServer \<Rightarrow> auction_error + AuctionServer" where
  "AuctionHouseMgr_AddAItem it s =
     (if as_mAitems s (it_guid it) \<noteq> None then Inl ItemAlreadyOnAuction
      else Inr (s\<lparr>as_mAitems := (as_mAitems s)(it_guid it := Some it)\<rparr>))"

definition AuctionHouseMgr_RemoveAItem :: "u64 \<Rightarrow> bool \<Rightarrow> AuctionServer \<Rightarrow> AuctionServer" where
  "AuctionHouseMgr_RemoveAItem i deleteItem s =
     (if as_mAitems s i = None then s
      else (let s1 = (if deleteItem then as_tell (ItemDeleted i) s else s) in s1\<lparr>as_mAitems := (as_mAitems s1)(i := None)\<rparr>))"

subsection \<open>Houses\<close>

definition AuctionHouseMgr_GetAuctionsMap :: "AuctionView \<Rightarrow> u32 \<Rightarrow> auction_house" where
  "AuctionHouseMgr_GetAuctionsMap v factionTemplateId =
     (if av_two_side v then NeutralAuctions
      else case av_factionGroup v factionTemplateId of
        None \<Rightarrow> NeutralAuctions
      | Some fgroup \<Rightarrow>
          (if fgroup AND FACTION_MASK_ALLIANCE \<noteq> 0 then AllianceAuctions
           else if fgroup AND FACTION_MASK_HORDE \<noteq> 0 then HordeAuctions
           else NeutralAuctions))"

definition auction_houseid :: "AuctionView \<Rightarrow> u32 \<Rightarrow> u32" where
  "auction_houseid v factionTemplateId =
     (if av_two_side v then 7
      else if factionTemplateId = 12 then 1
      else if factionTemplateId = 29 then 6
      else if factionTemplateId = 55 then 2
      else if factionTemplateId = 68 then 4
      else if factionTemplateId = 80 then 3
      else if factionTemplateId = 104 then 5
      else if factionTemplateId = 120 then 7
      else if factionTemplateId = 474 then 7
      else if factionTemplateId = 855 then 7
      else if factionTemplateId = 1604 then 6
      else case av_factionGroup v factionTemplateId of
        None \<Rightarrow> 7
      | Some fgroup \<Rightarrow>
          (if fgroup AND FACTION_MASK_ALLIANCE \<noteq> 0 then 1
           else if fgroup AND FACTION_MASK_HORDE \<noteq> 0 then 6
           else 7))"

definition AuctionHouseMgr_GetAuctionHouseEntry :: "AuctionView \<Rightarrow> u32 \<Rightarrow> AuctionHouseEntry option" where
  "AuctionHouseMgr_GetAuctionHouseEntry v factionTemplateId = av_houses v (auction_houseid v factionTemplateId)"

definition AuctionHouseObject_GetAuction :: "u32 \<Rightarrow> AuctionHouseObject \<Rightarrow> nat option" where
  "AuctionHouseObject_GetAuction i h = map_of (ah_AuctionsMap h) i"

definition AuctionHouseObject_AddAuction :: "auction_house \<Rightarrow> nat \<Rightarrow> AuctionServer \<Rightarrow> auction_error + AuctionServer" where
  "AuctionHouseObject_AddAuction h a s =
     and_then (au_read a s) (\<lambda>e. Inr (as_upd_house h (\<lambda>x. x\<lparr>ah_AuctionsMap := om_put (au_Id e) a (ah_AuctionsMap x)\<rparr>) s))"

definition AuctionHouseObject_RemoveAuction :: "auction_house \<Rightarrow> nat \<Rightarrow> AuctionServer \<Rightarrow> auction_error + AuctionServer" where
  "AuctionHouseObject_RemoveAuction h a s =
     and_then (au_read a s) (\<lambda>e.
       Inr (as_upd_house h (\<lambda>x. x\<lparr>ah_AuctionsMap := om_del (au_Id e) (ah_AuctionsMap x)\<rparr>) (s\<lparr>as_heap := (as_heap s)(a := None)\<rparr>)))"

subsection \<open>Amounts\<close>

definition AuctionEntry_GetAuctionCut :: "AuctionView \<Rightarrow> AuctionEntry \<Rightarrow> u64" where
  "AuctionEntry_GetAuctionCut v e =
     (let cut = av_rate_cut v (av_CalculatePct v (au_bid e) (ahe_ConsignmentRate (au_auctionHouseEntry e)))
      in if sint cut < 0 then 0 else cut)"

definition AuctionEntry_GetAuctionOutBid :: "AuctionView \<Rightarrow> AuctionEntry \<Rightarrow> u64" where
  "AuctionEntry_GetAuctionOutBid v e = (let outbid = av_CalculatePct v (au_bid e) 5 in if outbid \<noteq> 0 then outbid else 1)"

definition AuctionEntry_BuildAuctionMailSubject :: "MailAuctionAnswers \<Rightarrow> AuctionEntry \<Rightarrow> auction_subject" where
  "AuctionEntry_BuildAuctionMailSubject response e = (au_itemEntry e, response, au_Id e, au_itemCount e)"

definition AuctionEntry_BuildAuctionMailBody :: "u64 \<Rightarrow> u64 \<Rightarrow> u64 \<Rightarrow> u64 \<Rightarrow> u64 \<Rightarrow> auction_body" where
  "AuctionEntry_BuildAuctionMailBody lowGuid bid buyout deposit fee = (lowGuid, bid, buyout, deposit, fee)"

subsection \<open>Mails\<close>

definition mail_receiver :: "AuctionView \<Rightarrow> u64 \<Rightarrow> bool" where
  "mail_receiver v p \<longleftrightarrow> (av_connected v p \<or> av_account v p \<noteq> 0) \<and> \<not> av_IsBotChar v p"

definition AuctionHouseMgr_SendAuctionWonMail :: "AuctionView \<Rightarrow> AuctionEntry \<Rightarrow> AuctionServer \<Rightarrow> AuctionServer" where
  "AuctionHouseMgr_SendAuctionWonMail v e s =
     (case AuctionHouseMgr_GetAItem (au_itemGUIDLow e) s of
        None \<Rightarrow> s
      | Some item \<Rightarrow>
          (if mail_receiver v (au_bidder e)
           then (let s1 = as_tell (ItemOwnerRow (au_bidder e) (it_guid item)) s;
                     s2 = (if av_connected v (au_bidder e)
                           then as_tell (AuctionCriteria (au_bidder e) CRITERIA_TYPE_WON_AUCTIONS 1)
                                  (as_tell (AuctionWonNotification (au_bidder e) (au_Id e) (it_guid item)) s1)
                           else s1)
                 in as_tell (AuctionMail (au_bidder e) (AuctionEntry_BuildAuctionMailSubject AUCTION_WON e)
                      (AuctionEntry_BuildAuctionMailBody (au_owner e) (au_bid e) (au_buyout e) 0 0) 0 (Some item)) s2)
           else AuctionHouseMgr_RemoveAItem (au_itemGUIDLow e) True s))"

definition AuctionHouseMgr_SendAuctionSalePendingMail :: "AuctionView \<Rightarrow> AuctionEntry \<Rightarrow> AuctionServer \<Rightarrow> AuctionServer" where
  "AuctionHouseMgr_SendAuctionSalePendingMail v e s =
     (if mail_receiver v (au_owner e)
      then as_tell (AuctionMail (au_owner e) (AuctionEntry_BuildAuctionMailSubject AUCTION_SALE_PENDING e)
             (AuctionEntry_BuildAuctionMailBody (au_bidder e) (au_bid e) (au_buyout e) (au_deposit e) (AuctionEntry_GetAuctionCut v e)) 0 None) s
      else s)"

definition AuctionHouseMgr_SendAuctionSuccessfulMail :: "AuctionView \<Rightarrow> AuctionEntry \<Rightarrow> AuctionServer \<Rightarrow> AuctionServer" where
  "AuctionHouseMgr_SendAuctionSuccessfulMail v e s =
     (if mail_receiver v (au_owner e)
      then (let profit = au_bid e + au_deposit e - AuctionEntry_GetAuctionCut v e;
                s1 = (case AuctionHouseMgr_GetAItem (au_itemGUIDLow e) s of
                        None \<Rightarrow> s
                      | Some item \<Rightarrow>
                          (if av_connected v (au_owner e)
                           then as_tell (AuctionClosedNotification (au_owner e) (au_Id e) (au_bid e) (it_guid item) True)
                                  (as_tell (AuctionCriteria (au_owner e) CRITERIA_TYPE_HIGHEST_AUCTION_SOLD (au_bid e))
                                    (as_tell (AuctionCriteria (au_owner e) CRITERIA_TYPE_GOLD_EARNED_BY_AUCTIONS profit) s))
                           else s))
            in as_tell (AuctionMail (au_owner e) (AuctionEntry_BuildAuctionMailSubject AUCTION_SUCCESSFUL e)
                 (AuctionEntry_BuildAuctionMailBody (au_bidder e) (au_bid e) (au_buyout e) (au_deposit e) (AuctionEntry_GetAuctionCut v e))
                 profit None) s1)
      else s)"

definition AuctionHouseMgr_SendAuctionExpiredMail :: "AuctionView \<Rightarrow> AuctionEntry \<Rightarrow> AuctionServer \<Rightarrow> AuctionServer" where
  "AuctionHouseMgr_SendAuctionExpiredMail v e s =
     (case AuctionHouseMgr_GetAItem (au_itemGUIDLow e) s of
        None \<Rightarrow> s
      | Some item \<Rightarrow>
          (if mail_receiver v (au_owner e)
           then as_tell (AuctionMail (au_owner e) (AuctionEntry_BuildAuctionMailSubject AUCTION_EXPIRED e)
                  (AuctionEntry_BuildAuctionMailBody 0 0 (au_buyout e) (au_deposit e) 0) 0 (Some item))
                  (if av_connected v (au_owner e) then as_tell (AuctionClosedNotification (au_owner e) (au_Id e) (au_bid e) (it_guid item) False) s else s)
           else AuctionHouseMgr_RemoveAItem (au_itemGUIDLow e) True s))"

definition AuctionHouseMgr_SendAuctionOutbiddedMail :: "AuctionView \<Rightarrow> AuctionEntry \<Rightarrow> AuctionServer \<Rightarrow> AuctionServer" where
  "AuctionHouseMgr_SendAuctionOutbiddedMail v e s =
     (if mail_receiver v (au_bidder e)
      then as_tell (AuctionMail (au_bidder e) (AuctionEntry_BuildAuctionMailSubject AUCTION_OUTBIDDED e)
             (AuctionEntry_BuildAuctionMailBody (au_owner e) (au_bid e) (au_buyout e) (au_deposit e) (AuctionEntry_GetAuctionCut v e))
             (au_bid e) None)
             (case AuctionHouseMgr_GetAItem (au_itemGUIDLow e) s of
                None \<Rightarrow> s
              | Some item \<Rightarrow>
                  (if av_connected v (au_bidder e)
                   then as_tell (AuctionOutBidNotification (au_bidder e) (au_Id e) (it_guid item) (au_bid e) (AuctionEntry_GetAuctionOutBid v e)) s
                   else s))
      else s)"

definition AuctionHouseMgr_SendAuctionCancelledToBidderMail :: "AuctionView \<Rightarrow> AuctionEntry \<Rightarrow> AuctionServer \<Rightarrow> AuctionServer" where
  "AuctionHouseMgr_SendAuctionCancelledToBidderMail v e s =
     (if mail_receiver v (au_bidder e)
      then as_tell (AuctionMail (au_bidder e) (AuctionEntry_BuildAuctionMailSubject AUCTION_CANCELLED_TO_BIDDER e)
             (AuctionEntry_BuildAuctionMailBody (au_owner e) (au_bid e) (au_buyout e) (au_deposit e) 0) (au_bid e) None) s
      else s)"

subsection \<open>Pending deposits\<close>

definition pending_of :: "u64 \<Rightarrow> AuctionServer \<Rightarrow> nat list" where
  "pending_of p s = (case map_of (as_pending s) p of None \<Rightarrow> [] | Some (as, n) \<Rightarrow> as)"

definition AuctionHouseMgr_PendingAuctionAdd :: "u64 \<Rightarrow> nat \<Rightarrow> AuctionServer \<Rightarrow> AuctionServer" where
  "AuctionHouseMgr_PendingAuctionAdd p a s =
     s\<lparr>as_pending := (case map_of (as_pending s) p of
         None \<Rightarrow> om_put p ([a], 0) (as_pending s)
       | Some (as, n) \<Rightarrow> om_put p (as @ [a], n) (as_pending s))\<rparr>"

definition AuctionHouseMgr_PendingAuctionCount :: "u64 \<Rightarrow> AuctionServer \<Rightarrow> u32" where
  "AuctionHouseMgr_PendingAuctionCount p s = of_nat (length (pending_of p s))"

fun pending_items :: "nat list \<Rightarrow> AuctionServer \<Rightarrow> auction_error + u32" where
  "pending_items [] s = Inr 0"
| "pending_items (a # as) s = and_then (au_read a s) (\<lambda>e. and_then (pending_items as s) (\<lambda>n. Inr (au_itemCount e + n)))"

text \<open>The last auction takes what the division leaves.\<close>

fun pending_deposits :: "nat list \<Rightarrow> u64 \<Rightarrow> u64 \<Rightarrow> AuctionServer \<Rightarrow> auction_error + AuctionServer" where
  "pending_deposits [] share remain s = Inr s"
| "pending_deposits (a # as) share remain s =
     and_then (au_read a s) (\<lambda>e.
       let e1 = e\<lparr>au_deposit := (if as = [] then remain else share)\<rparr>;
           s1 = as_tell (AuctionInsertRow e1) (as_tell (AuctionDeleteRow (au_Id e1)) (au_write a e1 s))
       in pending_deposits as share (if as = [] then remain else remain - share) s1)"

definition AuctionHouseMgr_PendingAuctionProcess :: "AuctionView \<Rightarrow> u64 \<Rightarrow> AuctionServer \<Rightarrow> auction_error + AuctionServer" where
  "AuctionHouseMgr_PendingAuctionProcess v p s =
     (case map_of (as_pending s) p of
        None \<Rightarrow> Inr s
      | Some (as, n) \<Rightarrow>
          and_then (pending_items as s) (\<lambda>totalItems.
          and_then (au_read (hd as) s) (\<lambda>e.
            let totaldeposit = (case AuctionHouseMgr_GetAItem (au_itemGUIDLow e) s of
                                  None \<Rightarrow> 0
                                | Some item \<Rightarrow> av_deposit v (au_auctionHouseEntry e) (au_etime e) item totalItems)
            in and_then (pending_deposits as (totaldeposit div of_nat (length as)) totaldeposit s) (\<lambda>s1.
                 Inr (Player_ModifyMoney p (- totaldeposit) (s1\<lparr>as_pending := om_del p (as_pending s1)\<rparr>))))))"

fun pending_expire :: "int \<Rightarrow> nat list \<Rightarrow> AuctionServer \<Rightarrow> auction_error + AuctionServer" where
  "pending_expire now [] s = Inr s"
| "pending_expire now (a # as) s =
     and_then (au_read a s) (\<lambda>e.
       let e1 = e\<lparr>au_expire_time := now\<rparr>
       in pending_expire now as (as_tell (AuctionInsertRow e1) (as_tell (AuctionDeleteRow (au_Id e1)) (au_write a e1 s))))"

definition pending_one :: "AuctionView \<Rightarrow> u64 \<Rightarrow> AuctionServer \<Rightarrow> auction_error + AuctionServer" where
  "pending_one v p s =
     (case map_of (as_pending s) p of
        None \<Rightarrow> Inr s
      | Some (as, n) \<Rightarrow>
          (if av_connected v p
           then (if AuctionHouseMgr_PendingAuctionCount p s = n then AuctionHouseMgr_PendingAuctionProcess v p s
                 else Inr (s\<lparr>as_pending := om_put p (as, AuctionHouseMgr_PendingAuctionCount p s) (as_pending s)\<rparr>))
           else and_then (pending_expire (av_time v) as s) (\<lambda>s1. Inr (s1\<lparr>as_pending := om_del p (as_pending s1)\<rparr>))))"

fun each_player :: "('a \<Rightarrow> AuctionServer \<Rightarrow> auction_error + AuctionServer) \<Rightarrow> 'a list \<Rightarrow> AuctionServer \<Rightarrow> auction_error + AuctionServer" where
  "each_player f [] s = Inr s"
| "each_player f (p # ps) s = and_then (f p s) (each_player f ps)"

definition AuctionHouseMgr_UpdatePendingAuctions :: "AuctionView \<Rightarrow> AuctionServer \<Rightarrow> auction_error + AuctionServer" where
  "AuctionHouseMgr_UpdatePendingAuctions v s = each_player (pending_one v) (map fst (as_pending s)) s"

subsection \<open>The end of an auction\<close>

definition house_update_one :: "AuctionView \<Rightarrow> auction_house \<Rightarrow> u32 \<times> nat \<Rightarrow> AuctionServer \<Rightarrow> auction_error + AuctionServer" where
  "house_update_one v h = (\<lambda>(i, a) s.
     and_then (au_read a s) (\<lambda>e.
       if au_expire_time e > av_GameTime v + 60 then Inr s
       else
         (let s1 = (if au_bidder e = 0 \<and> au_bid e = 0 then AuctionHouseMgr_SendAuctionExpiredMail v e s
                    else AuctionHouseMgr_SendAuctionWonMail v e (AuctionHouseMgr_SendAuctionSuccessfulMail v e s));
              s2 = AuctionHouseMgr_RemoveAItem (au_itemGUIDLow e) False (as_tell (AuctionDeleteRow (au_Id e)) s1)
          in AuctionHouseObject_RemoveAuction h a s2)))"

definition AuctionHouseObject_Update :: "AuctionView \<Rightarrow> auction_house \<Rightarrow> AuctionServer \<Rightarrow> auction_error + AuctionServer" where
  "AuctionHouseObject_Update v h s =
     (if ah_AuctionsMap (as_house s h) = [] then Inr s
      else each_player (house_update_one v h) (ah_AuctionsMap (as_house s h))
        (as_upd_house h (\<lambda>x. x\<lparr>ah_GetAllThrottleMap := (\<lambda>p. case ah_GetAllThrottleMap x p of
             None \<Rightarrow> None | Some t \<Rightarrow> if gt_NextAllowedReplication t \<le> av_GameTime v then None else Some t)\<rparr>) s))"

definition AuctionHouseMgr_Update :: "AuctionView \<Rightarrow> AuctionServer \<Rightarrow> auction_error + AuctionServer" where
  "AuctionHouseMgr_Update v s =
     and_then (AuctionHouseObject_Update v HordeAuctions s) (\<lambda>s1.
     and_then (AuctionHouseObject_Update v AllianceAuctions s1) (AuctionHouseObject_Update v NeutralAuctions))"

subsection \<open>Selling (game/Handlers/AuctionHouseHandler.cpp)\<close>

definition SendAuctionCommandResult :: "AuctionView \<Rightarrow> u64 \<Rightarrow> AuctionEntry option \<Rightarrow> AuctionAction \<Rightarrow> AuctionError \<Rightarrow> AuctionServer \<Rightarrow> AuctionServer" where
  "SendAuctionCommandResult v p auction action errorCode =
     as_tell (AuctionCommandResult p action errorCode (case auction of
         None \<Rightarrow> None
       | Some e \<Rightarrow> Some (au_Id e, if au_bid e = au_buyout e then 0 else au_bid e,
           if au_bid e = au_buyout e then 0 else AuctionEntry_GetAuctionOutBid v e, au_bidder e)))"

fun sell_items :: "AuctionServer \<Rightarrow> u64 \<Rightarrow> (u64 \<times> u32) list \<Rightarrow> AuctionError + (Item list \<times> u32)" where
  "sell_items s p [] = Inr ([], 0)"
| "sell_items s p ((guid, useCount) # rest) =
     (case map_of (as_inventory s p) guid of
        None \<Rightarrow> Inl ERR_AUCTION_ITEM_NOT_FOUND
      | Some item \<Rightarrow>
          (if AuctionHouseMgr_GetAItem (it_guid item) s \<noteq> None \<or> \<not> it_tradeable item \<or> it_nonempty_bag item \<or> it_conjured item
              \<or> it_duration item \<noteq> 0 \<or> it_count item < useCount
           then Inl ERR_AUCTION_DATABASE_ERROR
           else map_sum id (\<lambda>(items, n). (item # items, useCount + n)) (sell_items s p rest)))"

text \<open>No guid twice, and one kind of item: the first offending pair decides about the message.\<close>

fun sell_pairs :: "((u64 \<times> u32) \<times> Item) list \<Rightarrow> AuctionError option" where
  "sell_pairs [] = None"
| "sell_pairs (x # rest) =
     (case find (\<lambda>y. fst (fst x) = fst (fst y) \<or> it_entry (snd x) \<noteq> it_entry (snd y)) rest of
        Some y \<Rightarrow> Some (if fst (fst x) = fst (fst y) then ERR_AUCTION_DATABASE_ERROR else ERR_AUCTION_ITEM_NOT_FOUND)
      | None \<Rightarrow> sell_pairs rest)"

definition sell_checks :: "AuctionServer \<Rightarrow> u64 \<Rightarrow> (u64 \<times> u32) list \<Rightarrow> AuctionError + (Item list \<times> u32)" where
  "sell_checks s p offer =
     and_then (sell_items s p offer) (\<lambda>(items, finalCount).
       if offer = [] then Inl ERR_AUCTION_DATABASE_ERROR
       else if finalCount = 0 then Inl ERR_AUCTION_DATABASE_ERROR
       else case sell_pairs (zip offer items) of
         Some err \<Rightarrow> Inl err
       | None \<Rightarrow> if list_ex (\<lambda>item. it_max_stack item < finalCount) items then Inl ERR_AUCTION_DATABASE_ERROR else Inr (items, finalCount))"

definition ObjectMgr_GenerateAuctionID :: "AuctionServer \<Rightarrow> auction_error + (u32 \<times> AuctionServer)" where
  "ObjectMgr_GenerateAuctionID s =
     (if as_auctionId s \<ge> 0xFFFFFFFE then Inl AuctionIdOverflow else Inr (as_auctionId s, s\<lparr>as_auctionId := as_auctionId s + 1\<rparr>))"

text \<open>What remains of the stacks an auction takes from: a whole stack is moved, of another one the count is reduced.\<close>

fun sell_take :: "u64 \<Rightarrow> ((u64 \<times> u32) \<times> Item) list \<Rightarrow> AuctionServer \<Rightarrow> AuctionServer" where
  "sell_take p [] s = s"
| "sell_take p (((guid, useCount), item) # rest) s =
     sell_take p rest
       (if it_count item = useCount
        then as_tell (ItemDeleted (it_guid item)) (as_tell (ItemOffInventory (it_guid item))
               (s\<lparr>as_inventory := (as_inventory s)(p := om_del guid (as_inventory s p))\<rparr>))
        else as_tell (ItemSaved (it_guid item))
               (s\<lparr>as_inventory := (as_inventory s)(p := om_put guid (item\<lparr>it_count := it_count item - useCount\<rparr>) (as_inventory s p))\<rparr>))"

text \<open>The auction for an item: a new object in its house and in the list of pending deposits.\<close>

definition sell_entry :: "AuctionView \<Rightarrow> u64 \<Rightarrow> u64 \<Rightarrow> Item \<Rightarrow> u64 \<Rightarrow> u64 \<Rightarrow> u32 \<Rightarrow> u64 \<Rightarrow> AuctionHouseEntry \<Rightarrow> u32 \<Rightarrow> AuctionEntry" where
  "sell_entry v p auctioneer item minBid buyout runTime deposit entry i =
     \<lparr>au_Id = i, au_auctioneer = (if av_two_side v then 23442 else auctioneer), au_itemGUIDLow = it_guid item, au_itemEntry = it_entry item,
      au_itemCount = it_count item, au_owner = p, au_startbid = minBid, au_bid = 0, au_buyout = buyout,
      au_expire_time = av_time v + uint (av_auction_time v runTime), au_bidder = 0, au_deposit = deposit, au_etime = runTime,
      au_auctionHouseEntry = entry\<rparr>"

definition sell_add :: "auction_house \<Rightarrow> u64 \<Rightarrow> Item \<Rightarrow> AuctionEntry \<Rightarrow> AuctionServer \<Rightarrow> auction_error + AuctionServer" where
  "sell_add h p item e s =
     and_then (AuctionHouseMgr_AddAItem item s) (\<lambda>s1.
       let a = as_fresh s1 in
       and_then (AuctionHouseObject_AddAuction h a ((au_write a e s1)\<lparr>as_fresh := Suc a\<rparr>)) (\<lambda>s2.
         Inr (AuctionHouseMgr_PendingAuctionAdd p a s2)))"

text \<open>A whole stack goes to the auction as it is; of anything else a new item is made.\<close>

definition sell_done :: "AuctionView \<Rightarrow> u64 \<Rightarrow> AuctionEntry \<Rightarrow> Item \<Rightarrow> AuctionServer \<Rightarrow> AuctionServer" where
  "sell_done v p e item s =
     as_tell (AuctionCriteria p CRITERIA_TYPE_CREATE_AUCTION 1)
       (SendAuctionCommandResult v p (Some e) AUCTION_SELL_ITEM ERR_AUCTION_OK
         (as_tell (GoldSaved p (as_money s p)) (as_tell (AuctionInsertRow e) (as_tell (ItemSaved (it_guid item)) s))))"

definition sell_whole :: "AuctionView \<Rightarrow> auction_house \<Rightarrow> u64 \<Rightarrow> u64 \<Rightarrow> Item \<Rightarrow> (u32 \<Rightarrow> AuctionEntry) \<Rightarrow> AuctionServer \<Rightarrow> auction_error + AuctionServer" where
  "sell_whole v h p guid item entry s =
     and_then (ObjectMgr_GenerateAuctionID s) (\<lambda>(i, s0).
     and_then (sell_add h p item (entry i) s0) (\<lambda>s1.
       Inr (sell_done v p (entry i) item
         (as_tell (ItemOffInventory (it_guid item)) (s1\<lparr>as_inventory := (as_inventory s1)(p := om_del guid (as_inventory s1 p))\<rparr>)))))"

definition sell_parts :: "AuctionView \<Rightarrow> auction_house \<Rightarrow> u64 \<Rightarrow> ((u64 \<times> u32) \<times> Item) list \<Rightarrow> Item \<Rightarrow> (u32 \<Rightarrow> AuctionEntry) \<Rightarrow> AuctionServer
    \<Rightarrow> auction_error + AuctionServer" where
  "sell_parts v h p taken newItem entry s =
     and_then (ObjectMgr_GenerateAuctionID s) (\<lambda>(i, s0).
     and_then (sell_add h p newItem (entry i) s0) (\<lambda>s1. Inr (sell_done v p (entry i) newItem (sell_take p taken s1))))"

definition HandleAuctionSellItem :: "AuctionView \<Rightarrow> u64 \<Rightarrow> u64 \<Rightarrow> u64 \<Rightarrow> u64 \<Rightarrow> u32 \<Rightarrow> (u64 \<times> u32) list \<Rightarrow> AuctionServer
    \<Rightarrow> auction_error + AuctionServer" where
  "HandleAuctionSellItem v p auctioneer minBid buyoutPrice runTime offer s =
     (let fail = (\<lambda>err. Inr (SendAuctionCommandResult v p None AUCTION_SELL_ITEM err s)) in
      if list_ex (\<lambda>(guid, n). guid = 0 \<or> n = 0 \<or> n > 1000) offer then Inr s
      else if minBid = 0 \<or> runTime = 0 then Inr s
      else if minBid > MAX_MONEY_AMOUNT \<or> buyoutPrice > MAX_MONEY_AMOUNT then fail ERR_AUCTION_DATABASE_ERROR
      else case av_npc_faction v p auctioneer of
        None \<Rightarrow> Inr s
      | Some faction \<Rightarrow>
          (case AuctionHouseMgr_GetAuctionHouseEntry v faction of
             None \<Rightarrow> Inr s
           | Some entry \<Rightarrow>
               (let time = runTime * 60 in
                if time \<noteq> MIN_AUCTION_TIME \<and> time \<noteq> 2 * MIN_AUCTION_TIME \<and> time \<noteq> 4 * MIN_AUCTION_TIME then Inr s
                else case sell_checks s p offer of
                  Inl err \<Rightarrow> fail err
                | Inr (items, finalCount) \<Rightarrow>
                    (let item = hd items;
                         h = AuctionHouseMgr_GetAuctionsMap v faction;
                         deposit = av_deposit v entry time item finalCount
                     in if \<not> Player_HasEnoughMoney p deposit s then fail ERR_AUCTION_NOT_ENOUGHT_MONEY
                        else if length offer = 1 \<and> it_count item = snd (hd offer)
                        then sell_whole v h p (fst (hd offer)) item (sell_entry v p auctioneer item minBid buyoutPrice time deposit entry) s
                        else case av_CloneItem v item finalCount of
                          None \<Rightarrow> fail ERR_AUCTION_DATABASE_ERROR
                        | Some newItem \<Rightarrow>
                            sell_parts v h p (zip offer items) newItem (sell_entry v p auctioneer newItem minBid buyoutPrice time deposit entry) s))))"

subsection \<open>Bidding and cancelling\<close>

text \<open>A bid below the buyout price: who was highest gets its money back, unless it is the same player.\<close>

definition bid_raise :: "AuctionView \<Rightarrow> u64 \<Rightarrow> nat \<Rightarrow> AuctionEntry \<Rightarrow> u64 \<Rightarrow> AuctionServer \<Rightarrow> AuctionServer" where
  "bid_raise v p a e bidAmount s =
     (let s1 = (if au_bidder e \<noteq> 0
                then (if au_bidder e = p then Player_ModifyMoney p (- (bidAmount - au_bid e)) s
                      else Player_ModifyMoney p (- bidAmount) (AuctionHouseMgr_SendAuctionOutbiddedMail v e s))
                else Player_ModifyMoney p (- bidAmount) s);
          e1 = e\<lparr>au_bidder := p, au_bid := bidAmount\<rparr>;
          s2 = as_tell (AuctionBidRow (au_bidder e1) (au_bid e1) (au_Id e1))
                 (as_tell (AuctionCriteria p CRITERIA_TYPE_HIGHEST_AUCTION_BID bidAmount) (au_write a e1 s1));
          s3 = SendAuctionCommandResult v p (Some e1) AUCTION_PLACE_BID ERR_AUCTION_OK s2;
          s4 = (case AuctionHouseMgr_GetAItem (au_itemGUIDLow e1) s3 of
                  None \<Rightarrow> s3
                | Some item \<Rightarrow>
                    (if av_connected v (au_owner e1)
                     then as_tell (AuctionOwnerBidNotification (au_owner e1) (au_Id e1) (au_bidder e1) (AuctionEntry_GetAuctionOutBid v e1)) s3
                     else s3))
      in as_tell (GoldSaved p (as_money s4 p)) s4)"

definition bid_buyout :: "AuctionView \<Rightarrow> auction_house \<Rightarrow> u64 \<Rightarrow> nat \<Rightarrow> AuctionEntry \<Rightarrow> AuctionServer \<Rightarrow> auction_error + AuctionServer" where
  "bid_buyout v h p a e s =
     (let s1 = (if p = au_bidder e then Player_ModifyMoney p (- (au_buyout e - au_bid e)) s
                else (let s0 = Player_ModifyMoney p (- au_buyout e) s
                      in if au_bidder e \<noteq> 0 then AuctionHouseMgr_SendAuctionOutbiddedMail v e s0 else s0));
          e1 = e\<lparr>au_bidder := p, au_bid := au_buyout e\<rparr>;
          s2 = as_tell (AuctionCriteria p CRITERIA_TYPE_HIGHEST_AUCTION_BID (au_buyout e)) (au_write a e1 s1);
          s3 = SendAuctionCommandResult v p (Some e1) AUCTION_PLACE_BID ERR_AUCTION_OK s2;
          s4 = AuctionHouseMgr_SendAuctionWonMail v e1 (AuctionHouseMgr_SendAuctionSuccessfulMail v e1
                 (AuctionHouseMgr_SendAuctionSalePendingMail v e1 s3));
          s5 = AuctionHouseMgr_RemoveAItem (au_itemGUIDLow e1) False (as_tell (AuctionDeleteRow (au_Id e1)) s4)
      in and_then (AuctionHouseObject_RemoveAuction h a s5) (\<lambda>s6. Inr (as_tell (GoldSaved p (as_money s6 p)) s6)))"

definition HandleAuctionPlaceBid :: "AuctionView \<Rightarrow> u64 \<Rightarrow> u64 \<Rightarrow> u32 \<Rightarrow> u64 \<Rightarrow> AuctionServer \<Rightarrow> auction_error + AuctionServer" where
  "HandleAuctionPlaceBid v p auctioneer auctionItemID bidAmount s =
     (if auctionItemID = 0 \<or> bidAmount = 0 then Inr s
      else case av_npc_faction v p auctioneer of
        None \<Rightarrow> Inr s
      | Some faction \<Rightarrow>
          (let h = AuctionHouseMgr_GetAuctionsMap v faction in
           case AuctionHouseObject_GetAuction auctionItemID (as_house s h) of
             None \<Rightarrow> Inr (SendAuctionCommandResult v p None AUCTION_PLACE_BID ERR_AUCTION_BID_OWN s)
           | Some a \<Rightarrow>
               and_then (au_read a s) (\<lambda>e.
                 if au_owner e = p then Inr (SendAuctionCommandResult v p None AUCTION_PLACE_BID ERR_AUCTION_BID_OWN s)
                 else if \<not> av_in_world v (au_owner e) \<and> av_account v (au_owner e) = av_account v p
                 then Inr (SendAuctionCommandResult v p None AUCTION_PLACE_BID ERR_AUCTION_BID_OWN s)
                 else if bidAmount \<le> au_bid e \<or> bidAmount < au_startbid e then Inr s
                 else if (bidAmount < au_buyout e \<or> au_buyout e = 0) \<and> bidAmount < au_bid e + AuctionEntry_GetAuctionOutBid v e
                 then Inr (SendAuctionCommandResult v p (Some e) AUCTION_PLACE_BID ERR_AUCTION_HIGHER_BID s)
                 else if \<not> Player_HasEnoughMoney p bidAmount s
                 then Inr (SendAuctionCommandResult v p (Some e) AUCTION_PLACE_BID ERR_AUCTION_NOT_ENOUGHT_MONEY s)
                 else if bidAmount < au_buyout e \<or> au_buyout e = 0 then Inr (bid_raise v p a e bidAmount s)
                 else bid_buyout v h p a e s)))"

definition cancel_auction :: "AuctionView \<Rightarrow> auction_house \<Rightarrow> u64 \<Rightarrow> nat \<Rightarrow> AuctionEntry \<Rightarrow> Item \<Rightarrow> AuctionServer
    \<Rightarrow> auction_error + AuctionServer" where
  "cancel_auction v h p a e item s =
     (let s1 = (if au_bidder e \<noteq> 0
                then Player_ModifyMoney p (- AuctionEntry_GetAuctionCut v e) (AuctionHouseMgr_SendAuctionCancelledToBidderMail v e s)
                else s);
          s2 = as_tell (AuctionMail p (AuctionEntry_BuildAuctionMailSubject AUCTION_CANCELED e)
                 (AuctionEntry_BuildAuctionMailBody 0 0 (au_buyout e) (au_deposit e) 0) 0 (Some item)) s1;
          s3 = SendAuctionCommandResult v p (Some e) AUCTION_CANCEL ERR_AUCTION_OK s2;
          s4 = as_tell (AuctionDeleteRow (au_Id e)) (as_tell (GoldSaved p (as_money s3 p)) s3)
      in AuctionHouseObject_RemoveAuction h a (AuctionHouseMgr_RemoveAItem (au_itemGUIDLow e) False s4))"

definition HandleAuctionRemoveItem :: "AuctionView \<Rightarrow> u64 \<Rightarrow> u64 \<Rightarrow> u32 \<Rightarrow> AuctionServer \<Rightarrow> auction_error + AuctionServer" where
  "HandleAuctionRemoveItem v p auctioneer auctionItemID s =
     (case av_npc_faction v p auctioneer of
        None \<Rightarrow> Inr s
      | Some faction \<Rightarrow>
          (let h = AuctionHouseMgr_GetAuctionsMap v faction;
               refused = Inr (SendAuctionCommandResult v p None AUCTION_CANCEL ERR_AUCTION_DATABASE_ERROR s) in
           case AuctionHouseObject_GetAuction auctionItemID (as_house s h) of
             None \<Rightarrow> refused
           | Some a \<Rightarrow>
               and_then (au_read a s) (\<lambda>e.
                 if au_owner e \<noteq> p then refused
                 else case AuctionHouseMgr_GetAItem (au_itemGUIDLow e) s of
                   None \<Rightarrow> refused
                 | Some item \<Rightarrow>
                     (if au_bidder e \<noteq> 0 \<and> \<not> Player_HasEnoughMoney p (AuctionEntry_GetAuctionCut v e) s then Inr s
                      else cancel_auction v h p a e item s))))"

subsection \<open>Lists\<close>

definition AuctionEntry_BuildAuctionInfo :: "AuctionView \<Rightarrow> bool \<Rightarrow> AuctionEntry \<Rightarrow> AuctionServer \<Rightarrow> AuctionInfo list" where
  "AuctionEntry_BuildAuctionInfo v listAuctionItems e s =
     (case AuctionHouseMgr_GetAItem (au_itemGUIDLow e) s of
        None \<Rightarrow> []
      | Some item \<Rightarrow> [\<lparr>ai_AuctionItemID = au_Id e, ai_Item = item, ai_BuyoutPrice = au_buyout e, ai_CensorServerSideInfo = listAuctionItems,
          ai_EndTime = au_expire_time e, ai_MinBid = au_startbid e, ai_Owner = au_owner e,
          ai_MinIncrement = (if au_bidder e \<noteq> 0 then AuctionEntry_GetAuctionOutBid v e else 0),
          ai_Bidder = (if au_bidder e \<noteq> 0 then Some (au_bidder e) else None),
          ai_BidAmount = (if au_bidder e \<noteq> 0 then au_bid e else 0)\<rparr>])"

fun house_list :: "AuctionView \<Rightarrow> (AuctionEntry \<Rightarrow> bool) \<Rightarrow> (u32 \<times> nat) list \<Rightarrow> AuctionServer \<Rightarrow> auction_error + (AuctionInfo list \<times> nat)" where
  "house_list v mine [] s = Inr ([], 0)"
| "house_list v mine ((i, a) # m) s =
     and_then (au_read a s) (\<lambda>e.
     and_then (house_list v mine m s) (\<lambda>(infos, n).
       Inr (if mine e then (AuctionEntry_BuildAuctionInfo v False e s @ infos, Suc n) else (infos, n))))"

definition AuctionHouseObject_BuildListBidderItems :: "AuctionView \<Rightarrow> auction_house \<Rightarrow> u64 \<Rightarrow> AuctionServer \<Rightarrow> auction_error + (AuctionInfo list \<times> nat)" where
  "AuctionHouseObject_BuildListBidderItems v h p s = house_list v (\<lambda>e. au_bidder e = p) (ah_AuctionsMap (as_house s h)) s"

definition AuctionHouseObject_BuildListOwnerItems :: "AuctionView \<Rightarrow> auction_house \<Rightarrow> u64 \<Rightarrow> AuctionServer \<Rightarrow> auction_error + (AuctionInfo list \<times> nat)" where
  "AuctionHouseObject_BuildListOwnerItems v h p s = house_list v (\<lambda>e. au_owner e = p) (ah_AuctionsMap (as_house s h)) s"

definition HandleAuctionListBidderItems :: "AuctionView \<Rightarrow> u64 \<Rightarrow> u64 \<Rightarrow> AuctionServer \<Rightarrow> auction_error + AuctionServer" where
  "HandleAuctionListBidderItems v p auctioneer s =
     (case av_npc_faction v p auctioneer of
        None \<Rightarrow> Inr s
      | Some faction \<Rightarrow> map_sum id (\<lambda>(infos, n). as_tell (AuctionListResult p infos n) s)
          (AuctionHouseObject_BuildListBidderItems v (AuctionHouseMgr_GetAuctionsMap v faction) p s))"

definition HandleAuctionListOwnerItems :: "AuctionView \<Rightarrow> u64 \<Rightarrow> u64 \<Rightarrow> AuctionServer \<Rightarrow> auction_error + AuctionServer" where
  "HandleAuctionListOwnerItems v p auctioneer s =
     (case av_npc_faction v p auctioneer of
        None \<Rightarrow> Inr s
      | Some faction \<Rightarrow> map_sum id (\<lambda>(infos, n). as_tell (AuctionListResult p infos n) s)
          (AuctionHouseObject_BuildListOwnerItems v (AuctionHouseMgr_GetAuctionsMap v faction) p s))"

text \<open>The whole house in parts, for add-ons: from a cursor on, up to a number of auctions. The result says whether it was cut short.\<close>

definition IsReplicationInProgress :: "PlayerGetAllThrottleData \<Rightarrow> bool" where
  "IsReplicationInProgress t \<longleftrightarrow> gt_Cursor t \<noteq> gt_Tombstone t \<and> gt_Global t \<noteq> 0"

fun replicate_from :: "AuctionView \<Rightarrow> nat \<Rightarrow> (u32 \<times> nat) list \<Rightarrow> AuctionServer \<Rightarrow> auction_error + (AuctionInfo list \<times> bool)" where
  "replicate_from v n [] s = Inr ([], False)"
| "replicate_from v n ((i, a) # m) s =
     and_then (au_read a s) (\<lambda>e.
       if au_expire_time e < av_GameTime v \<or> AuctionHouseMgr_GetAItem (au_itemGUIDLow e) s = None then replicate_from v n m s
       else if n = 1 then Inr (AuctionEntry_BuildAuctionInfo v True e s, True)
       else map_sum id (\<lambda>(infos, full). (AuctionEntry_BuildAuctionInfo v True e s @ infos, full)) (replicate_from v (n - 1) m s))"

definition house_replicate :: "AuctionView \<Rightarrow> auction_house \<Rightarrow> u64 \<Rightarrow> PlayerGetAllThrottleData \<Rightarrow> u32 \<Rightarrow> u32 \<Rightarrow> AuctionServer
    \<Rightarrow> auction_error + (AuctionInfo list \<times> u32 \<times> u32 \<times> u32) \<times> AuctionServer" where
  "house_replicate v h p t cursor n s =
     (let remember = (\<lambda>t. as_upd_house h (\<lambda>x. x\<lparr>ah_GetAllThrottleMap := (ah_GetAllThrottleMap x)(p := Some t)\<rparr>) s);
          m = ah_AuctionsMap (as_house s h)
      in if m = [] \<or> n = 0 then Inr (([], 0, 0, 0), remember t)
         else map_sum id (\<lambda>(infos, full).
                let t1 = t\<lparr>gt_Cursor := (if infos = [] then 0 else ai_AuctionItemID (last infos)),
                           gt_Tombstone := (if full then fst (last m) else 0)\<rparr>
                in ((infos, gt_Global t1, gt_Cursor t1, gt_Tombstone t1), remember t1))
              (replicate_from v (unat n) (dropWhile (\<lambda>(i, a). i \<le> cursor) m) s))"

definition AuctionHouseObject_BuildReplicate :: "AuctionView \<Rightarrow> auction_house \<Rightarrow> u64 \<Rightarrow> u32 \<Rightarrow> u32 \<Rightarrow> u32 \<Rightarrow> u32 \<Rightarrow> AuctionServer
    \<Rightarrow> auction_error + (AuctionInfo list \<times> u32 \<times> u32 \<times> u32) \<times> AuctionServer" where
  "AuctionHouseObject_BuildReplicate v h p global cursor tombstone n s =
     (let x = as_house s h; nothing = ([], 0, 0, 0) in
      case ah_GetAllThrottleMap x p of
        Some t \<Rightarrow>
          (if gt_Global t \<noteq> global \<or> gt_Cursor t \<noteq> cursor \<or> gt_Tombstone t \<noteq> tombstone then Inr (nothing, s)
           else if \<not> IsReplicationInProgress t \<and> gt_NextAllowedReplication t > av_GameTime v then Inr (nothing, s)
           else house_replicate v h p t cursor n s)
      | None \<Rightarrow> house_replicate v h p \<lparr>gt_Global = word_of_int (av_GameTime v), gt_Cursor = 0, gt_Tombstone = 0,
                   gt_NextAllowedReplication = av_GameTime v + uint (av_getall_delay v)\<rparr> cursor n s)"

definition HandleReplicateItems :: "AuctionView \<Rightarrow> u64 \<Rightarrow> u64 \<Rightarrow> u32 \<Rightarrow> u32 \<Rightarrow> u32 \<Rightarrow> u32 \<Rightarrow> AuctionServer \<Rightarrow> auction_error + AuctionServer" where
  "HandleReplicateItems v p auctioneer global cursor tombstone n s =
     (case av_npc_faction v p auctioneer of
        None \<Rightarrow> Inr s
      | Some faction \<Rightarrow> map_sum id (\<lambda>((infos, g, c, t), s1). as_tell (AuctionReplicateResult p infos g c t) s1)
          (AuctionHouseObject_BuildReplicate v (AuctionHouseMgr_GetAuctionsMap v faction) p global cursor tombstone n s))"

subsection \<open>What the parts change\<close>

lemma tell_simps [simp]: "as_house (as_tell ev s) = as_house s" "as_heap (as_tell ev s) = as_heap s" "as_fresh (as_tell ev s) = as_fresh s"
  "as_mAitems (as_tell ev s) = as_mAitems s" "as_pending (as_tell ev s) = as_pending s" "as_money (as_tell ev s) = as_money s"
  "as_inventory (as_tell ev s) = as_inventory s" "as_auctionId (as_tell ev s) = as_auctionId s" "as_sent (as_tell ev s) = as_sent s @ [ev]"
  by (simp_all add: as_tell_def)

lemma money_simps [simp]: "as_house (Player_ModifyMoney p x s) = as_house s" "as_heap (Player_ModifyMoney p x s) = as_heap s"
  "as_fresh (Player_ModifyMoney p x s) = as_fresh s" "as_mAitems (Player_ModifyMoney p x s) = as_mAitems s"
  "as_pending (Player_ModifyMoney p x s) = as_pending s" "as_inventory (Player_ModifyMoney p x s) = as_inventory s"
  "as_auctionId (Player_ModifyMoney p x s) = as_auctionId s" "as_sent (Player_ModifyMoney p x s) = as_sent s"
  by (simp_all add: Player_ModifyMoney_def)

text \<open>Everything but the items, the money and what is told stays.\<close>

definition as_same :: "AuctionServer \<Rightarrow> AuctionServer \<Rightarrow> bool" where
  "as_same s s' \<longleftrightarrow> as_house s' = as_house s \<and> as_heap s' = as_heap s \<and> as_fresh s' = as_fresh s \<and> as_pending s' = as_pending s \<and>
     as_auctionId s' = as_auctionId s"

lemma as_same_refl [simp]: "as_same s s"
  by (simp add: as_same_def)

lemma as_same_trans: "as_same s s' \<Longrightarrow> as_same s' s'' \<Longrightarrow> as_same s s''"
  by (simp add: as_same_def)

lemma as_same_steps [simp]: "as_same s (as_tell ev s') = as_same s s'" "as_same s (Player_ModifyMoney p x s') = as_same s s'"
  "as_same s (SendAuctionCommandResult v p a act err s') = as_same s s'"
  "as_same s (AuctionHouseMgr_RemoveAItem i b s') = as_same s s'"
  "as_same s (AuctionHouseMgr_SendAuctionWonMail v e s') = as_same s s'"
  "as_same s (AuctionHouseMgr_SendAuctionSalePendingMail v e s') = as_same s s'"
  "as_same s (AuctionHouseMgr_SendAuctionSuccessfulMail v e s') = as_same s s'"
  "as_same s (AuctionHouseMgr_SendAuctionExpiredMail v e s') = as_same s s'"
  "as_same s (AuctionHouseMgr_SendAuctionOutbiddedMail v e s') = as_same s s'"
  "as_same s (AuctionHouseMgr_SendAuctionCancelledToBidderMail v e s') = as_same s s'"
  by (auto simp: as_same_def SendAuctionCommandResult_def AuctionHouseMgr_RemoveAItem_def AuctionHouseMgr_SendAuctionWonMail_def
      AuctionHouseMgr_SendAuctionSalePendingMail_def AuctionHouseMgr_SendAuctionSuccessfulMail_def AuctionHouseMgr_SendAuctionExpiredMail_def
      AuctionHouseMgr_SendAuctionOutbiddedMail_def AuctionHouseMgr_SendAuctionCancelledToBidderMail_def Let_def split: option.split)

lemma items_steps [simp]: "as_mAitems (SendAuctionCommandResult v p a act err s) = as_mAitems s"
  "as_mAitems (AuctionHouseMgr_RemoveAItem i b s) = (as_mAitems s)(i := None)"
  "as_mAitems (AuctionHouseMgr_SendAuctionSalePendingMail v e s) = as_mAitems s"
  "as_mAitems (AuctionHouseMgr_SendAuctionSuccessfulMail v e s) = as_mAitems s"
  "as_mAitems (AuctionHouseMgr_SendAuctionOutbiddedMail v e s) = as_mAitems s"
  "as_mAitems (AuctionHouseMgr_SendAuctionCancelledToBidderMail v e s) = as_mAitems s"
  "(as_mAitems (AuctionHouseMgr_SendAuctionWonMail v e s))(au_itemGUIDLow e := None) = (as_mAitems s)(au_itemGUIDLow e := None)"
  "(as_mAitems (AuctionHouseMgr_SendAuctionExpiredMail v e s))(au_itemGUIDLow e := None) = (as_mAitems s)(au_itemGUIDLow e := None)"
  by (auto simp: SendAuctionCommandResult_def AuctionHouseMgr_RemoveAItem_def AuctionHouseMgr_SendAuctionWonMail_def
      AuctionHouseMgr_SendAuctionSalePendingMail_def AuctionHouseMgr_SendAuctionSuccessfulMail_def AuctionHouseMgr_SendAuctionExpiredMail_def
      AuctionHouseMgr_SendAuctionOutbiddedMail_def AuctionHouseMgr_SendAuctionCancelledToBidderMail_def Let_def fun_eq_iff split: option.split)

lemma money_steps [simp]: "as_money (SendAuctionCommandResult v p a act err s) = as_money s"
  "as_money (AuctionHouseMgr_RemoveAItem i b s) = as_money s" "as_money (AuctionHouseMgr_SendAuctionWonMail v e s) = as_money s"
  "as_money (AuctionHouseMgr_SendAuctionSalePendingMail v e s) = as_money s"
  "as_money (AuctionHouseMgr_SendAuctionSuccessfulMail v e s) = as_money s"
  "as_money (AuctionHouseMgr_SendAuctionExpiredMail v e s) = as_money s"
  "as_money (AuctionHouseMgr_SendAuctionOutbiddedMail v e s) = as_money s"
  "as_money (AuctionHouseMgr_SendAuctionCancelledToBidderMail v e s) = as_money s"
  by (auto simp: SendAuctionCommandResult_def AuctionHouseMgr_RemoveAItem_def AuctionHouseMgr_SendAuctionWonMail_def
      AuctionHouseMgr_SendAuctionSalePendingMail_def AuctionHouseMgr_SendAuctionSuccessfulMail_def AuctionHouseMgr_SendAuctionExpiredMail_def
      AuctionHouseMgr_SendAuctionOutbiddedMail_def AuctionHouseMgr_SendAuctionCancelledToBidderMail_def Let_def split: option.split)

subsection \<open>The invariant\<close>

definition entry_ok :: "AuctionEntry \<Rightarrow> bool" where
  "entry_ok e \<longleftrightarrow> (au_bid e = 0 \<longleftrightarrow> au_bidder e = 0) \<and> 0 < au_startbid e \<and> au_startbid e \<le> MAX_MONEY_AMOUNT \<and> au_buyout e \<le> MAX_MONEY_AMOUNT \<and>
     (au_bidder e \<noteq> 0 \<longrightarrow> au_startbid e \<le> au_bid e \<and> (au_buyout e = 0 \<or> au_bid e < au_buyout e))"

definition auctions_of :: "AuctionServer \<Rightarrow> auction_house \<Rightarrow> (u32 \<times> nat) list" where
  "auctions_of s h = ah_AuctionsMap (as_house s h)"

text \<open>
  A server is in order: every auction is in exactly one house, under its id; ids and addresses are below the next ones;
  its amounts fit together; its item is kept by the manager, and for no other auction.
\<close>

definition auction_ok :: "AuctionServer \<Rightarrow> bool" where
  "auction_ok s \<longleftrightarrow> (\<forall>h. om_ok (auctions_of s h)) \<and>
     (\<forall>h i a. map_of (auctions_of s h) i = Some a \<longrightarrow> (\<exists>e. as_heap s a = Some e \<and> au_Id e = i)) \<and>
     (\<forall>a e. as_heap s a = Some e \<longrightarrow> entry_ok e \<and> a < as_fresh s \<and> au_Id e < as_auctionId s \<and> as_mAitems s (au_itemGUIDLow e) \<noteq> None \<and>
        (\<exists>h. \<forall>h'. map_of (auctions_of s h') (au_Id e) = Some a \<longleftrightarrow> h' = h)) \<and>
     (\<forall>a b e f. as_heap s a = Some e \<longrightarrow> as_heap s b = Some f \<longrightarrow> au_itemGUIDLow e = au_itemGUIDLow f \<longrightarrow> a = b)"

lemma auction_okD:
  assumes "auction_ok s"
  shows "om_ok (auctions_of s h)"
    and "map_of (auctions_of s h) i = Some a \<Longrightarrow> \<exists>e. as_heap s a = Some e \<and> au_Id e = i"
    and "as_heap s a = Some e \<Longrightarrow> entry_ok e \<and> a < as_fresh s \<and> au_Id e < as_auctionId s \<and> as_mAitems s (au_itemGUIDLow e) \<noteq> None"
    and "as_heap s a = Some e \<Longrightarrow> \<exists>h. \<forall>h'. map_of (auctions_of s h') (au_Id e) = Some a \<longleftrightarrow> h' = h"
    and "as_heap s a = Some e \<Longrightarrow> as_heap s b = Some f \<Longrightarrow> au_itemGUIDLow e = au_itemGUIDLow f \<Longrightarrow> a = b"
  using assms unfolding auction_ok_def by blast+

lemma auction_ok_same: "as_same s s' \<Longrightarrow> as_mAitems s' = as_mAitems s \<Longrightarrow> auction_ok s' = auction_ok s"
  by (simp add: auction_ok_def as_same_def auctions_of_def)

lemma auctions_upd [simp]: "auctions_of (as_upd_house h f s) h' = (if h' = h then ah_AuctionsMap (f (as_house s h)) else auctions_of s h')"
  by (simp add: auctions_of_def as_upd_house_def)

lemma upd_house_simps [simp]: "as_heap (as_upd_house h f s) = as_heap s" "as_fresh (as_upd_house h f s) = as_fresh s"
  "as_mAitems (as_upd_house h f s) = as_mAitems s" "as_pending (as_upd_house h f s) = as_pending s" "as_money (as_upd_house h f s) = as_money s"
  "as_auctionId (as_upd_house h f s) = as_auctionId s" "as_sent (as_upd_house h f s) = as_sent s" "as_inventory (as_upd_house h f s) = as_inventory s"
  by (simp_all add: as_upd_house_def)

text \<open>An auction goes, with its item.\<close>

lemma remove_auction_ok:
  assumes ok: "auction_ok s" and e: "as_heap s a = Some e" and h: "map_of (auctions_of s h) (au_Id e) = Some a"
    and s': "as_same s s'" "as_mAitems s' = (as_mAitems s)(au_itemGUIDLow e := None)"
  shows "\<exists>s1. AuctionHouseObject_RemoveAuction h a s' = Inr s1 \<and> auction_ok s1 \<and> as_heap s1 = (as_heap s)(a := None) \<and>
    auctions_of s1 h = om_del (au_Id e) (auctions_of s h) \<and> (\<forall>h'. h' \<noteq> h \<longrightarrow> auctions_of s1 h' = auctions_of s h') \<and>
    as_sent s1 = as_sent s' \<and> as_money s1 = as_money s' \<and> as_mAitems s1 = as_mAitems s' \<and> as_pending s1 = as_pending s"
proof -
  define s1 where "s1 = as_upd_house h (\<lambda>x. x\<lparr>ah_AuctionsMap := om_del (au_Id e) (ah_AuctionsMap x)\<rparr>) (s'\<lparr>as_heap := (as_heap s')(a := None)\<rparr>)"
  note D = auction_okD [OF ok]
  have same: "as_heap s' = as_heap s" "as_fresh s' = as_fresh s" "as_auctionId s' = as_auctionId s" "as_house s' = as_house s" "as_pending s' = as_pending s"
    using s'(1) by (simp_all add: as_same_def)
  have maps: "auctions_of s1 h' = (if h' = h then om_del (au_Id e) (auctions_of s h) else auctions_of s h')" for h'
    by (simp add: s1_def auctions_of_def same as_upd_house_def)
  have run: "AuctionHouseObject_RemoveAuction h a s' = Inr s1"
    by (simp add: AuctionHouseObject_RemoveAuction_def au_read_def same e s1_def)
  have heap: "as_heap s1 = (as_heap s)(a := None)" by (simp add: same s1_def)
  have rest: "as_fresh s1 = as_fresh s" "as_auctionId s1 = as_auctionId s" "as_mAitems s1 = as_mAitems s'" "as_sent s1 = as_sent s'"
    "as_money s1 = as_money s'" "as_pending s1 = as_pending s" by (simp_all add: s1_def same)
  have found: "map_of (auctions_of s1 h') i = Some b \<longleftrightarrow> map_of (auctions_of s h') i = Some b \<and> b \<noteq> a" for h' i b
  proof (cases "h' = h")
    case True
    have "map_of (auctions_of s1 h') i = (if i = au_Id e then None else map_of (auctions_of s h) i)" by (simp only: maps True if_True) simp
    moreover have "map_of (auctions_of s h) i = Some a \<longleftrightarrow> i = au_Id e" using D(2) [of h i a] e h by auto
    ultimately show ?thesis unfolding True using h by (cases "i = au_Id e") auto
  next
    case False
    have "map_of (auctions_of s h') i \<noteq> Some a"
    proof
      assume "map_of (auctions_of s h') i = Some a"
      moreover from D(2) [OF this] e have "i = au_Id e" by auto
      ultimately have "map_of (auctions_of s h') (au_Id e) = Some a" by simp
      moreover obtain k where "\<forall>h'. map_of (auctions_of s h') (au_Id e) = Some a \<longleftrightarrow> h' = k" using D(4) [OF e] by blast
      ultimately show False using h False by simp
    qed
    with False show ?thesis by (simp only: maps if_False) blast
  qed
  have "auction_ok s1"
    unfolding auction_ok_def
  proof (intro conjI allI impI)
    fix h' show "om_ok (auctions_of s1 h')" using D(1) by (simp add: maps)
  next
    fix h' i b assume "map_of (auctions_of s1 h') i = Some b"
    then show "\<exists>f. as_heap s1 b = Some f \<and> au_Id f = i" using D(2) [of h' i b] by (simp add: found heap)
  next
    fix b f assume "as_heap s1 b = Some f"
    then have b: "b \<noteq> a" "as_heap s b = Some f" by (auto simp: heap split: if_splits)
    note B = D(3) [OF b(2)]
    show "entry_ok f" using B by simp
    show "b < as_fresh s1" "au_Id f < as_auctionId s1" using B by (simp_all add: rest)
    have "au_itemGUIDLow f \<noteq> au_itemGUIDLow e" using D(5) [OF b(2) e] b(1) by blast
    then show "as_mAitems s1 (au_itemGUIDLow f) \<noteq> None" using B by (simp add: rest s'(2))
    show "\<exists>h. \<forall>h'. (map_of (auctions_of s1 h') (au_Id f) = Some b) = (h' = h)" using D(4) [OF b(2)] b(1) by (simp add: found)
  next
    fix b c f g assume "as_heap s1 b = Some f" "as_heap s1 c = Some g" "au_itemGUIDLow f = au_itemGUIDLow g"
    then show "b = c" using D(5) [of b f c g] by (auto simp: heap split: if_splits)
  qed
  with run show ?thesis by (intro exI [of _ s1]) (simp add: maps heap rest)
qed

end
