(* ===== verification/AuctionInvariant.thy ===== *)
theory AuctionInvariant
  imports AuctionHouse
begin

section \<open>Auctions stay in order\<close>

text \<open>
  The packets of players and the update of the houses keep the invariant \<open>auction_ok\<close> of the auctions and never use an
  auction that has been deleted. Only the list of pending deposits can: it keeps the addresses of auctions that are cancelled
  or bought out before their deposit is collected.
\<close>

subsection \<open>What the steps do to the invariant\<close>

lemma read_simps [simp]: "as_heap s a = Some e \<Longrightarrow> au_read a s = Inr e" "as_heap s a = None \<Longrightarrow> au_read a s = Inl UseOfDeletedAuction"
  by (simp_all add: au_read_def)

lemma read_iff: "au_read a s = Inr e \<longleftrightarrow> as_heap s a = Some e"
  by (simp add: au_read_def split: option.split)

lemma write_simps [simp]: "as_house (au_write a e s) = as_house s" "as_heap (au_write a e s) = (as_heap s)(a := Some e)"
  "as_fresh (au_write a e s) = as_fresh s" "as_mAitems (au_write a e s) = as_mAitems s" "as_pending (au_write a e s) = as_pending s"
  "as_money (au_write a e s) = as_money s" "as_inventory (au_write a e s) = as_inventory s" "as_auctionId (au_write a e s) = as_auctionId s"
  "as_sent (au_write a e s) = as_sent s"
  by (simp_all add: au_write_def)

lemma auctions_same: "as_house s' = as_house s \<Longrightarrow> auctions_of s' h = auctions_of s h"
  by (simp add: auctions_of_def)

lemma auctions_write [simp]: "auctions_of (au_write a e s) h = auctions_of s h"
  by (simp add: auctions_of_def)

lemma auction_ok_cong:
  "as_house s' = as_house s \<Longrightarrow> as_heap s' = as_heap s \<Longrightarrow> as_fresh s' = as_fresh s \<Longrightarrow> as_mAitems s' = as_mAitems s \<Longrightarrow>
   as_auctionId s' = as_auctionId s \<Longrightarrow> auction_ok s' = auction_ok s"
  by (simp add: auction_ok_def auctions_of_def)

lemma write_auction_ok:
  assumes ok: "auction_ok s" and e: "as_heap s a = Some e"
    and e1: "au_Id e1 = au_Id e" "au_itemGUIDLow e1 = au_itemGUIDLow e" "entry_ok e1"
  shows "auction_ok (au_write a e1 s)"
proof -
  note D = auction_okD [OF ok]
  have was: "\<exists>g. as_heap s b = Some g \<and> au_Id g = au_Id f \<and> au_itemGUIDLow g = au_itemGUIDLow f"
    if "as_heap (au_write a e1 s) b = Some f" for b f
    using that e e1 by (auto split: if_splits)
  show ?thesis
    unfolding auction_ok_def
  proof (intro conjI allI impI)
    fix h show "om_ok (auctions_of (au_write a e1 s) h)" using D(1) by simp
  next
    fix h i b assume "map_of (auctions_of (au_write a e1 s) h) i = Some b"
    then show "\<exists>f. as_heap (au_write a e1 s) b = Some f \<and> au_Id f = i" using D(2) [of h i b] e e1 by auto
  next
    fix b f assume f: "as_heap (au_write a e1 s) b = Some f"
    then obtain g where g: "as_heap s b = Some g" "au_Id g = au_Id f" "au_itemGUIDLow g = au_itemGUIDLow f" using was by blast
    show "entry_ok f" using f e1(3) D(3) [of b f] by (auto split: if_splits)
    show "b < as_fresh (au_write a e1 s)" "au_Id f < as_auctionId (au_write a e1 s)" "as_mAitems (au_write a e1 s) (au_itemGUIDLow f) \<noteq> None"
      using D(3) [OF g(1)] g by auto
    show "\<exists>h. \<forall>h'. (map_of (auctions_of (au_write a e1 s) h') (au_Id f) = Some b) = (h' = h)" using D(4) [OF g(1)] g by simp
  next
    fix b c f g assume "as_heap (au_write a e1 s) b = Some f" "as_heap (au_write a e1 s) c = Some g" "au_itemGUIDLow f = au_itemGUIDLow g"
    then show "b = c" using was [of b f] was [of c g] D(5) by metis
  qed
qed

lemma RemoveAuction_write:
  "as_heap s a = Some e' \<Longrightarrow> au_Id e' = au_Id e \<Longrightarrow>
   AuctionHouseObject_RemoveAuction h a (au_write a e s) = AuctionHouseObject_RemoveAuction h a s"
  by (simp add: AuctionHouseObject_RemoveAuction_def as_upd_house_def au_write_def au_read_def)

lemma pending_add_simps [simp]: "as_house (AuctionHouseMgr_PendingAuctionAdd p a s) = as_house s"
  "as_heap (AuctionHouseMgr_PendingAuctionAdd p a s) = as_heap s" "as_fresh (AuctionHouseMgr_PendingAuctionAdd p a s) = as_fresh s"
  "as_mAitems (AuctionHouseMgr_PendingAuctionAdd p a s) = as_mAitems s" "as_auctionId (AuctionHouseMgr_PendingAuctionAdd p a s) = as_auctionId s"
  "as_money (AuctionHouseMgr_PendingAuctionAdd p a s) = as_money s" "as_sent (AuctionHouseMgr_PendingAuctionAdd p a s) = as_sent s"
  "as_inventory (AuctionHouseMgr_PendingAuctionAdd p a s) = as_inventory s"
  by (simp_all add: AuctionHouseMgr_PendingAuctionAdd_def)

lemma sell_take_simps [simp]: "as_house (sell_take p xs s) = as_house s" "as_heap (sell_take p xs s) = as_heap s"
  "as_fresh (sell_take p xs s) = as_fresh s" "as_mAitems (sell_take p xs s) = as_mAitems s" "as_auctionId (sell_take p xs s) = as_auctionId s"
  "as_pending (sell_take p xs s) = as_pending s" "as_money (sell_take p xs s) = as_money s"
  by (induction p xs s rule: sell_take.induct) (simp_all del: fun_upd_apply)

text \<open>A new auction, for an item that is in none.\<close>

lemma sell_add_ok:
  assumes ok: "auction_ok s" and e: "entry_ok e" "au_Id e = as_auctionId s" "au_itemGUIDLow e = it_guid item"
    and new: "as_mAitems s (it_guid item) = None" "as_auctionId s < 0xFFFFFFFE"
  shows "\<exists>s1. sell_add h p item e (s\<lparr>as_auctionId := as_auctionId s + 1\<rparr>) = Inr s1 \<and> auction_ok s1 \<and>
    as_heap s1 = (as_heap s)(as_fresh s := Some e) \<and> as_money s1 = as_money s \<and> as_inventory s1 = as_inventory s \<and>
    as_pending s1 = as_pending (AuctionHouseMgr_PendingAuctionAdd p (as_fresh s) s)"
proof -
  define a where "a = as_fresh s"
  define t where "t = (au_write a e (s\<lparr>as_auctionId := as_auctionId s + 1, as_mAitems := (as_mAitems s)(it_guid item := Some item)\<rparr>))\<lparr>as_fresh := Suc a\<rparr>"
  define s1 where "s1 = AuctionHouseMgr_PendingAuctionAdd p a (as_upd_house h (\<lambda>x. x\<lparr>ah_AuctionsMap := om_put (au_Id e) a (ah_AuctionsMap x)\<rparr>) t)"
  note D = auction_okD [OF ok]
  have run: "sell_add h p item e (s\<lparr>as_auctionId := as_auctionId s + 1\<rparr>) = Inr s1"
    by (simp add: sell_add_def AuctionHouseMgr_AddAItem_def new AuctionHouseObject_AddAuction_def au_read_def au_write_def Let_def s1_def t_def a_def)
  have maps: "auctions_of s1 h' = (if h' = h then om_put (au_Id e) a (auctions_of s h) else auctions_of s h')" for h'
    by (simp add: s1_def auctions_of_def t_def as_upd_house_def)
  have heap: "as_heap s1 = (as_heap s)(a := Some e)" and items: "as_mAitems s1 = (as_mAitems s)(it_guid item := Some item)"
    and rest: "as_fresh s1 = Suc a" "as_auctionId s1 = as_auctionId s + 1" "as_money s1 = as_money s" "as_inventory s1 = as_inventory s"
    by (simp_all add: s1_def t_def)
  have up: "i < as_auctionId s \<Longrightarrow> i < as_auctionId s + 1" "as_auctionId s < as_auctionId s + 1" for i
  proof -
    have "as_auctionId s \<noteq> - 1" using new(2) by auto
    then show "as_auctionId s < as_auctionId s + 1" by (rule word_less_Suc)
    then show "i < as_auctionId s \<Longrightarrow> i < as_auctionId s + 1" by (rule order.strict_trans [rotated])
  qed
  have fresh: "as_heap s a = None" using D(3) [of a] by (cases "as_heap s a") (auto simp: a_def)
  have nokey: "map_of (auctions_of s h') (au_Id e) = None" for h'
  proof (rule ccontr)
    assume "map_of (auctions_of s h') (au_Id e) \<noteq> None"
    then obtain b where b: "map_of (auctions_of s h') (au_Id e) = Some b" by auto
    from D(2) [OF b] D(3) [of b] show False by (auto simp: e)
  qed
  have found: "map_of (auctions_of s1 h') i = (if h' = h \<and> i = au_Id e then Some a else map_of (auctions_of s h') i)" for h' i
    by (simp add: maps)
  have other: "au_itemGUIDLow f \<noteq> it_guid item" if "as_heap s b = Some f" for b f
    using D(3) [OF that] new(1) by auto
  have "auction_ok s1"
    unfolding auction_ok_def
  proof (intro conjI allI impI)
    fix h' show "om_ok (auctions_of s1 h')" using D(1) by (simp add: maps)
  next
    fix h' i b assume "map_of (auctions_of s1 h') i = Some b"
    then show "\<exists>f. as_heap s1 b = Some f \<and> au_Id f = i" using D(2) [of h' i b] fresh by (auto simp: found heap split: if_splits)
  next
    fix b f assume f: "as_heap s1 b = Some f"
    show "entry_ok f" using f e(1) D(3) [of b f] by (auto simp: heap split: if_splits)
    show "b < as_fresh s1" using f D(3) [of b f] by (auto simp: heap rest a_def split: if_splits)
    show "au_Id f < as_auctionId s1" using f D(3) [of b f] up e(2) by (auto simp: heap rest split: if_splits)
    show "as_mAitems s1 (au_itemGUIDLow f) \<noteq> None" using f D(3) [of b f] e by (auto simp: heap items split: if_splits)
    show "\<exists>h. \<forall>h'. (map_of (auctions_of s1 h') (au_Id f) = Some b) = (h' = h)"
    proof (cases "b = a")
      case True
      with f have "f = e" by (simp add: heap)
      with True have "\<forall>h'. (map_of (auctions_of s1 h') (au_Id f) = Some b) = (h' = h)" by (simp add: found nokey)
      then show ?thesis by (rule exI)
    next
      case False
      with f have b: "as_heap s b = Some f" by (simp add: heap)
      with D(3) [OF b] have "au_Id f \<noteq> au_Id e" by (auto simp: e)
      with D(4) [OF b] show ?thesis by (simp add: found)
    qed
  next
    fix b c f g assume "as_heap s1 b = Some f" "as_heap s1 c = Some g" "au_itemGUIDLow f = au_itemGUIDLow g"
    then show "b = c" using D(5) [of b f c g] other e(3) by (auto simp: heap split: if_splits)
  qed
  moreover have "as_pending s1 = as_pending (AuctionHouseMgr_PendingAuctionAdd p (as_fresh s) s)"
    by (simp add: s1_def a_def t_def AuctionHouseMgr_PendingAuctionAdd_def split: option.split)
  ultimately show ?thesis using run by (intro exI [of _ s1]) (simp add: heap rest a_def)
qed

subsection \<open>The packets\<close>

datatype auction_step =
    SellItem u64 u64 u64 u64 u32 "(u64 \<times> u32) list"
  | PlaceBid u64 u64 u32 u64
  | RemoveItem u64 u64 u32
  | ListBidderItems u64 u64
  | ListOwnerItems u64 u64
  | ReplicateItems u64 u64 u32 u32 u32 u32
  | UpdateHouses
  | UpdatePending

definition auction_do :: "AuctionView \<Rightarrow> auction_step \<Rightarrow> AuctionServer \<Rightarrow> auction_error + AuctionServer" where
  "auction_do v x s = (case x of
     SellItem p auctioneer minBid buyout runTime offer \<Rightarrow> HandleAuctionSellItem v p auctioneer minBid buyout runTime offer s
   | PlaceBid p auctioneer i amount \<Rightarrow> HandleAuctionPlaceBid v p auctioneer i amount s
   | RemoveItem p auctioneer i \<Rightarrow> HandleAuctionRemoveItem v p auctioneer i s
   | ListBidderItems p auctioneer \<Rightarrow> HandleAuctionListBidderItems v p auctioneer s
   | ListOwnerItems p auctioneer \<Rightarrow> HandleAuctionListOwnerItems v p auctioneer s
   | ReplicateItems p auctioneer global cursor tombstone n \<Rightarrow> HandleReplicateItems v p auctioneer global cursor tombstone n s
   | UpdateHouses \<Rightarrow> AuctionHouseMgr_Update v s
   | UpdatePending \<Rightarrow> AuctionHouseMgr_UpdatePendingAuctions v s)"

text \<open>Players have ids, and an item made from several stacks is a new one.\<close>

definition step_ok :: "AuctionView \<Rightarrow> auction_step \<Rightarrow> AuctionServer \<Rightarrow> bool" where
  "step_ok v x s \<longleftrightarrow>
     (case x of
        SellItem p auctioneer minBid buyout runTime offer \<Rightarrow> (\<forall>item n new. av_CloneItem v item n = Some new \<longrightarrow> as_mAitems s (it_guid new) = None)
      | PlaceBid p auctioneer i amount \<Rightarrow> p \<noteq> 0
      | _ \<Rightarrow> True)"

text \<open>The result is in order, or there are no ids left.\<close>

definition kept :: "auction_error + AuctionServer \<Rightarrow> bool" where
  "kept r \<longleftrightarrow> (case r of Inl err \<Rightarrow> err = AuctionIdOverflow | Inr s \<Rightarrow> auction_ok s)"

lemma kept_simps [simp]: "kept (Inl err) = (err = AuctionIdOverflow)" "kept (Inr s) = auction_ok s"
  by (simp_all add: kept_def)

lemma kept_then: "kept m \<Longrightarrow> (\<And>s. auction_ok s \<Longrightarrow> kept (f s)) \<Longrightarrow> kept (and_then m f)"
  by (cases m) auto

lemma ok_steps [simp]: "auction_ok (as_tell ev s) = auction_ok s" "auction_ok (Player_ModifyMoney p x s) = auction_ok s"
  "auction_ok (SendAuctionCommandResult v p eo act err s) = auction_ok s" "auction_ok (AuctionHouseMgr_SendAuctionOutbiddedMail v e s) = auction_ok s"
  "auction_ok (AuctionHouseMgr_SendAuctionCancelledToBidderMail v e s) = auction_ok s"
  "auction_ok (sell_take p xs s) = auction_ok s" "auction_ok (s\<lparr>as_inventory := bags\<rparr>) = auction_ok s"
  by (rule auction_ok_same; simp)+ (rule auction_ok_cong; simp)+

lemma sell_items_new:
  "sell_items s p offer = Inr (items, n) \<Longrightarrow> length items = length offer \<and> (\<forall>item \<in> set items. as_mAitems s (it_guid item) = None)"
proof (induction s p offer arbitrary: items n rule: sell_items.induct)
  case (2 s p guid useCount rest)
  then show ?case
    by (cases "sell_items s p rest") (auto simp: AuctionHouseMgr_GetAItem_def split: option.splits if_splits)
qed simp

lemma sell_checks_new:
  assumes "sell_checks s p offer = Inr (items, n)"
  shows "items \<noteq> []" "as_mAitems s (it_guid (hd items)) = None"
proof -
  from assms have "sell_items s p offer = Inr (items, n)" "offer \<noteq> []"
    by (auto simp: sell_checks_def and_then_Inr split: if_splits option.splits)
  with sell_items_new [of s p offer items n] show "items \<noteq> []" "as_mAitems s (it_guid (hd items)) = None"
    by (cases items; auto)+
qed

lemma sell_entry_ok:
  assumes "minBid \<noteq> 0" "minBid \<le> MAX_MONEY_AMOUNT" "buyout \<le> MAX_MONEY_AMOUNT"
  shows "entry_ok (sell_entry v p auctioneer item minBid buyout runTime deposit entry i)"
  using assms by (simp add: entry_ok_def sell_entry_def word_neq_0_conv)

lemma sell_new_ok:
  assumes ok: "auction_ok s" and e: "\<And>i. entry_ok (mk i) \<and> au_Id (mk i) = i \<and> au_itemGUIDLow (mk i) = it_guid item"
    and new: "as_mAitems s (it_guid item) = None"
  shows "kept (sell_whole v h p guid item mk s)" "kept (sell_parts v h p taken item mk s)"
proof -
  have "kept (sell_whole v h p guid item mk s) \<and> kept (sell_parts v h p taken item mk s)"
  proof (cases "as_auctionId s \<ge> 0xFFFFFFFE")
    case False
    then have "as_auctionId s < 0xFFFFFFFE" by simp
    from sell_add_ok [OF ok _ _ _ new this, of "mk (as_auctionId s)" h p] e [of "as_auctionId s"] obtain s1
      where "sell_add h p item (mk (as_auctionId s)) (s\<lparr>as_auctionId := as_auctionId s + 1\<rparr>) = Inr s1" "auction_ok s1" by blast
    with False show ?thesis by (simp add: ObjectMgr_GenerateAuctionID_def sell_whole_def sell_parts_def sell_done_def)
  qed (simp add: ObjectMgr_GenerateAuctionID_def sell_whole_def sell_parts_def)
  then show "kept (sell_whole v h p guid item mk s)" "kept (sell_parts v h p taken item mk s)" by simp_all
qed

lemma HandleAuctionSellItem_ok:
  assumes ok: "auction_ok s" and clone: "\<And>item n new. av_CloneItem v item n = Some new \<Longrightarrow> as_mAitems s (it_guid new) = None"
  shows "kept (HandleAuctionSellItem v p auctioneer minBid buyout runTime offer s)"
proof (cases "minBid = 0 \<or> minBid > MAX_MONEY_AMOUNT \<or> buyout > MAX_MONEY_AMOUNT")
  case True
  then show ?thesis using ok by (auto simp: HandleAuctionSellItem_def)
next
  case False
  then have mk: "entry_ok (sell_entry v p auctioneer item minBid buyout t d entry i) \<and>
      au_Id (sell_entry v p auctioneer item minBid buyout t d entry i) = i \<and>
      au_itemGUIDLow (sell_entry v p auctioneer item minBid buyout t d entry i) = it_guid item" for item t d entry i
    by (auto intro: sell_entry_ok) (simp_all add: sell_entry_def)
  note sold = sell_new_ok [OF ok, of "sell_entry v p auctioneer _ minBid buyout _ _ _", OF mk]
  show ?thesis
    unfolding HandleAuctionSellItem_def Let_def
    using ok by (auto split: option.split sum.split intro!: sold simp: sell_checks_new clone)
qed

lemma house_auction:
  assumes ok: "auction_ok s" and a: "AuctionHouseObject_GetAuction i (as_house s h) = Some a"
  obtains e where "as_heap s a = Some e" "au_Id e = i" "map_of (auctions_of s h) (au_Id e) = Some a" "entry_ok e"
proof -
  from a have m: "map_of (auctions_of s h) i = Some a" by (simp add: AuctionHouseObject_GetAuction_def auctions_of_def)
  with auction_okD(2) [OF ok m] auction_okD(3) [OF ok, of a] show ?thesis by (auto intro: that)
qed

text \<open>An auction that is bought out is written, then goes with its item.\<close>

lemma sold_ok:
  assumes ok: "auction_ok s" and e: "as_heap s a = Some e" and h: "map_of (auctions_of s h) (au_Id e) = Some a"
    and e1: "au_Id e1 = au_Id e" and s': "as_same (au_write a e1 s) s'" "as_mAitems s' = (as_mAitems s)(au_itemGUIDLow e := None)"
  shows "\<exists>s1. AuctionHouseObject_RemoveAuction h a s' = Inr s1 \<and> auction_ok s1 \<and> as_heap s1 = (as_heap s)(a := None) \<and>
    auctions_of s1 h = om_del (au_Id e) (auctions_of s h) \<and> (\<forall>h'. h' \<noteq> h \<longrightarrow> auctions_of s1 h' = auctions_of s h') \<and>
    as_sent s1 = as_sent s' \<and> as_money s1 = as_money s' \<and> as_mAitems s1 = as_mAitems s' \<and> as_pending s1 = as_pending s"
proof -
  have heap: "as_heap s' a = Some e1" using s'(1) by (simp add: as_same_def)
  have "as_same s (au_write a e s')" using s'(1) e by (auto simp: as_same_def)
  from remove_auction_ok [OF ok e h this] s'(2) show ?thesis by (simp add: RemoveAuction_write [OF heap e1])
qed

lemma won_items: "g = au_itemGUIDLow e \<Longrightarrow> (as_mAitems (AuctionHouseMgr_SendAuctionWonMail v e s))(g := None) = (as_mAitems s)(g := None)"
  using items_steps(7) by simp

lemma as_same_sym: "as_same s s' \<Longrightarrow> as_same s' s"
  by (simp add: as_same_def)

lemma raise_ok: "auction_ok (bid_raise v p a e amount s) = auction_ok (au_write a (e\<lparr>au_bidder := p, au_bid := amount\<rparr>) s)"
proof -
  define s1 where "s1 = (if au_bidder e \<noteq> 0
      then (if au_bidder e = p then Player_ModifyMoney p (- (amount - au_bid e)) s
            else Player_ModifyMoney p (- amount) (AuctionHouseMgr_SendAuctionOutbiddedMail v e s))
      else Player_ModifyMoney p (- amount) s)"
  have "as_same s s1" "as_mAitems s1 = as_mAitems s" by (simp_all add: s1_def)
  then have "auction_ok (au_write a (e\<lparr>au_bidder := p, au_bid := amount\<rparr>) s1) = auction_ok (au_write a (e\<lparr>au_bidder := p, au_bid := amount\<rparr>) s)"
    by (intro auction_ok_same) (simp_all add: as_same_def)
  then show ?thesis unfolding bid_raise_def Let_def s1_def [symmetric] by (simp split: option.split)
qed

lemma as_same_write: "as_same s s' \<Longrightarrow> as_same (au_write a e s) (au_write a e s')"
  by (simp add: as_same_def)

lemma HandleAuctionPlaceBid_ok:
  assumes ok: "auction_ok s" and p: "p \<noteq> 0"
  shows "kept (HandleAuctionPlaceBid v p auctioneer i amount s)"
proof (cases "\<exists>faction a. av_npc_faction v p auctioneer = Some faction \<and>
    AuctionHouseObject_GetAuction i (as_house s (AuctionHouseMgr_GetAuctionsMap v faction)) = Some a")
  case False
  then show ?thesis using ok unfolding HandleAuctionPlaceBid_def by (auto split: option.split simp: Let_def)
next
  case True
  then obtain faction a where f: "av_npc_faction v p auctioneer = Some faction"
    and a: "AuctionHouseObject_GetAuction i (as_house s (AuctionHouseMgr_GetAuctionsMap v faction)) = Some a" by blast
  from house_auction [OF ok a] obtain e where e: "as_heap s a = Some e" "au_Id e = i"
    "map_of (auctions_of s (AuctionHouseMgr_GetAuctionsMap v faction)) (au_Id e) = Some a" "entry_ok e" .
  have bid: "auction_ok (au_write a (e\<lparr>au_bidder := p, au_bid := amount\<rparr>) s)"
    if "\<not> (amount \<le> au_bid e \<or> amount < au_startbid e)" "amount < au_buyout e \<or> au_buyout e = 0"
    by (rule write_auction_ok [OF ok e(1)]) (use that e(4) p in \<open>auto simp: entry_ok_def\<close>)
  have gone: "kept (and_then (AuctionHouseObject_RemoveAuction (AuctionHouseMgr_GetAuctionsMap v faction) a s') (\<lambda>s6. Inr (as_tell (ev s6) s6)))"
    if "as_same (au_write a (e\<lparr>au_bidder := p, au_bid := au_buyout e\<rparr>) s) s'" "as_mAitems s' = (as_mAitems s)(au_itemGUIDLow e := None)" for s' ev
    using sold_ok [OF ok e(1,3) _ that(1)] that(2) by auto
  have raise: "auction_ok (bid_raise v p a e amount s)"
    if "\<not> (amount \<le> au_bid e \<or> amount < au_startbid e)" "amount < au_buyout e \<or> au_buyout e = 0"
    using bid [OF that] by (simp add: raise_ok)
  have buyout: "kept (bid_buyout v (AuctionHouseMgr_GetAuctionsMap v faction) p a e s)"
    unfolding bid_buyout_def Let_def by (rule gone) (simp_all add: as_same_write won_items)
  show ?thesis
    unfolding HandleAuctionPlaceBid_def f option.case Let_def a read_simps(1) [OF e(1)] and_then.simps
    using ok raise buyout by simp
qed

lemma HandleAuctionRemoveItem_ok:
  assumes ok: "auction_ok s"
  shows "kept (HandleAuctionRemoveItem v p auctioneer i s)"
proof (cases "\<exists>faction a. av_npc_faction v p auctioneer = Some faction \<and>
    AuctionHouseObject_GetAuction i (as_house s (AuctionHouseMgr_GetAuctionsMap v faction)) = Some a")
  case False
  then show ?thesis using ok unfolding HandleAuctionRemoveItem_def by (auto split: option.split simp: Let_def)
next
  case True
  then obtain faction a where f: "av_npc_faction v p auctioneer = Some faction"
    and a: "AuctionHouseObject_GetAuction i (as_house s (AuctionHouseMgr_GetAuctionsMap v faction)) = Some a" by blast
  from house_auction [OF ok a] obtain e where e: "as_heap s a = Some e" "au_Id e = i"
    "map_of (auctions_of s (AuctionHouseMgr_GetAuctionsMap v faction)) (au_Id e) = Some a" "entry_ok e" .
  have gone: "kept (AuctionHouseObject_RemoveAuction (AuctionHouseMgr_GetAuctionsMap v faction) a s')"
    if "as_same s s'" "as_mAitems s' = (as_mAitems s)(au_itemGUIDLow e := None)" for s'
    using remove_auction_ok [OF ok e(1,3) that] by auto
  have gone: "kept (cancel_auction v (AuctionHouseMgr_GetAuctionsMap v faction) p a e item s)" for item
    unfolding cancel_auction_def Let_def by (rule gone) simp_all
  show ?thesis
    unfolding HandleAuctionRemoveItem_def f option.case Let_def a read_simps(1) [OF e(1)] and_then.simps
    using ok gone by (simp split: option.split)
qed

subsection \<open>The end of auctions\<close>

definition ended :: "AuctionView \<Rightarrow> AuctionServer \<Rightarrow> nat \<Rightarrow> bool" where
  "ended v s a \<longleftrightarrow> (case as_heap s a of None \<Rightarrow> False | Some e \<Rightarrow> au_expire_time e \<le> av_GameTime v + 60)"

definition is_mail :: "auction_event \<Rightarrow> bool" where
  "is_mail ev = (case ev of AuctionMail p subject body money item \<Rightarrow> True | _ \<Rightarrow> False)"

definition mails :: "AuctionServer \<Rightarrow> auction_event list" where
  "mails s = filter is_mail (as_sent s)"

text \<open>
  The mails at the end of an auction: the item back to the owner when nobody bid; otherwise the money to the owner and the
  item to the bidder.
\<close>

definition end_mails :: "AuctionView \<Rightarrow> AuctionServer \<Rightarrow> nat \<Rightarrow> auction_event list" where
  "end_mails v s a = (case as_heap s a of None \<Rightarrow> [] | Some e \<Rightarrow>
     (if au_bidder e = 0
      then (if mail_receiver v (au_owner e)
            then [AuctionMail (au_owner e) (au_itemEntry e, AUCTION_EXPIRED, au_Id e, au_itemCount e)
                    (0, 0, au_buyout e, au_deposit e, 0) 0 (as_mAitems s (au_itemGUIDLow e))] else [])
      else (if mail_receiver v (au_owner e)
            then [AuctionMail (au_owner e) (au_itemEntry e, AUCTION_SUCCESSFUL, au_Id e, au_itemCount e)
                    (au_bidder e, au_bid e, au_buyout e, au_deposit e, AuctionEntry_GetAuctionCut v e)
                    (au_bid e + au_deposit e - AuctionEntry_GetAuctionCut v e) None] else []) @
           (if mail_receiver v (au_bidder e)
            then [AuctionMail (au_bidder e) (au_itemEntry e, AUCTION_WON, au_Id e, au_itemCount e)
                    (au_owner e, au_bid e, au_buyout e, 0, 0) 0 (as_mAitems s (au_itemGUIDLow e))] else [])))"

lemma mails_tell [simp]: "mails (as_tell ev s) = mails s @ (if is_mail ev then [ev] else [])"
  by (simp add: mails_def)

lemma is_mail_simps [simp]: "is_mail (AuctionMail p subject body money item)" "\<not> is_mail (AuctionClosedNotification p i b g x)"
  "\<not> is_mail (AuctionWonNotification p i g)" "\<not> is_mail (AuctionCriteria p c n)" "\<not> is_mail (AuctionDeleteRow i)"
  "\<not> is_mail (ItemOwnerRow p g)" "\<not> is_mail (ItemDeleted g)" "\<not> is_mail (AuctionOutBidNotification p i g b n)"
  "\<not> is_mail (AuctionCommandResult p act err y)" "\<not> is_mail (AuctionInsertRow e)" "\<not> is_mail (AuctionBidRow p b i)"
  "\<not> is_mail (GoldSaved p n)" "\<not> is_mail (AuctionOwnerBidNotification p i q n)"
  by (simp_all add: is_mail_def)

lemma mails_RemoveAItem [simp]: "mails (AuctionHouseMgr_RemoveAItem i b s) = mails s"
  by (simp add: AuctionHouseMgr_RemoveAItem_def Let_def mails_def is_mail_def as_tell_def)

lemma house_update_one_run:
  assumes ok: "auction_ok s" and e: "as_heap s a = Some e" and h: "map_of (auctions_of s h) (au_Id e) = Some a"
  shows "\<exists>s1. house_update_one v h (au_Id e, a) s = Inr s1 \<and> auction_ok s1 \<and>
    as_heap s1 = (if ended v s a then (as_heap s)(a := None) else as_heap s) \<and>
    auctions_of s1 h = (if ended v s a then om_del (au_Id e) (auctions_of s h) else auctions_of s h) \<and>
    (\<forall>h'. h' \<noteq> h \<longrightarrow> auctions_of s1 h' = auctions_of s h') \<and> as_money s1 = as_money s \<and> as_pending s1 = as_pending s \<and>
    as_mAitems s1 = (if ended v s a then (as_mAitems s)(au_itemGUIDLow e := None) else as_mAitems s) \<and>
    mails s1 = mails s @ (if ended v s a then end_mails v s a else [])"
proof (cases "ended v s a")
  case False
  then show ?thesis using ok e by (simp add: ended_def house_update_one_def)
next
  case True
  define s1 where "s1 = (if au_bidder e = 0 \<and> au_bid e = 0 then AuctionHouseMgr_SendAuctionExpiredMail v e s
    else AuctionHouseMgr_SendAuctionWonMail v e (AuctionHouseMgr_SendAuctionSuccessfulMail v e s))"
  define s2 where "s2 = AuctionHouseMgr_RemoveAItem (au_itemGUIDLow e) False (as_tell (AuctionDeleteRow (au_Id e)) s1)"
  have run: "house_update_one v h (au_Id e, a) s = AuctionHouseObject_RemoveAuction h a s2"
    using True e by (simp add: house_update_one_def ended_def s1_def s2_def)
  have same: "as_same s s2" "as_mAitems s2 = (as_mAitems s)(au_itemGUIDLow e := None)" "as_money s2 = as_money s"
    by (simp_all add: s2_def s1_def)
  obtain item where item: "as_mAitems s (au_itemGUIDLow e) = Some item" using auction_okD(3) [OF ok e] by auto
  have "au_bidder e = 0 \<longleftrightarrow> au_bid e = 0" using auction_okD(3) [OF ok e] by (auto simp: entry_ok_def)
  then have "mails s1 = mails s @ end_mails v s a"
    by (simp add: s1_def end_mails_def e item AuctionHouseMgr_SendAuctionExpiredMail_def AuctionHouseMgr_SendAuctionWonMail_def
        AuctionHouseMgr_SendAuctionSuccessfulMail_def AuctionHouseMgr_GetAItem_def Let_def
        AuctionEntry_BuildAuctionMailSubject_def AuctionEntry_BuildAuctionMailBody_def)
  then have "mails s2 = mails s @ end_mails v s a" by (simp add: s2_def)
  with remove_auction_ok [OF ok e h same(1,2)] True run same show ?thesis by (auto simp: mails_def)
qed

lemma map_of_house: "auction_ok s \<Longrightarrow> map_of (auctions_of s h) i = Some a \<Longrightarrow> \<exists>e. as_heap s a = Some e \<and> au_Id e = i"
  by (rule auction_okD(2))

lemma house_updates:
  assumes "auction_ok s" "\<And>i a. (i, a) \<in> set m \<Longrightarrow> map_of (auctions_of s h) i = Some a" "distinct (map fst m)"
  shows "\<exists>s1. each_player (house_update_one v h) m s = Inr s1 \<and> auction_ok s1 \<and>
    auctions_of s1 h = filter (\<lambda>(i, a). (i, a) \<notin> set m \<or> \<not> ended v s a) (auctions_of s h) \<and>
    (\<forall>h'. h' \<noteq> h \<longrightarrow> auctions_of s1 h' = auctions_of s h') \<and> as_money s1 = as_money s \<and> as_pending s1 = as_pending s \<and>
    (\<forall>b. b \<notin> snd ` set m \<longrightarrow> as_heap s1 b = as_heap s b) \<and>
    mails s1 = mails s @ concat (map (\<lambda>(i, a). end_mails v s a) (filter (\<lambda>(i, a). ended v s a) m))"
  using assms
proof (induction m arbitrary: s)
  case Nil
  then show ?case by (simp add: case_prod_unfold)
next
  case (Cons x m)
  obtain i a where x: "x = (i, a)" by force
  note ok = Cons.prems(1)
  have h: "map_of (auctions_of s h) i = Some a" using Cons.prems(2) by (simp add: x)
  then obtain e where e: "as_heap s a = Some e" and id: "au_Id e = i" using map_of_house [OF ok] by blast
  obtain s1 where s1: "house_update_one v h (i, a) s = Inr s1" "auction_ok s1"
    "as_heap s1 = (if ended v s a then (as_heap s)(a := None) else as_heap s)"
    "auctions_of s1 h = (if ended v s a then om_del i (auctions_of s h) else auctions_of s h)"
    "\<forall>h'. h' \<noteq> h \<longrightarrow> auctions_of s1 h' = auctions_of s h'" "as_money s1 = as_money s" "as_pending s1 = as_pending s"
    "as_mAitems s1 = (if ended v s a then (as_mAitems s)(au_itemGUIDLow e := None) else as_mAitems s)"
    "mails s1 = mails s @ (if ended v s a then end_mails v s a else [])"
    using house_update_one_run [OF ok e, of h v] h id by auto
  have other: "b \<noteq> a \<and> as_heap s1 b = as_heap s b \<and> ended v s1 b = ended v s b \<and> end_mails v s1 b = end_mails v s b \<and>
      map_of (auctions_of s1 h) j = Some b" if jb: "(j, b) \<in> set m" for j b
  proof -
    have j: "j \<noteq> i" using Cons.prems(3) jb by (force simp: x)
    have b: "map_of (auctions_of s h) j = Some b" using Cons.prems(2) jb by simp
    then obtain f where f: "as_heap s b = Some f" "au_Id f = j" using map_of_house [OF ok] by blast
    with e id j have "b \<noteq> a" by auto
    moreover have "au_itemGUIDLow f \<noteq> au_itemGUIDLow e" using auction_okD(5) [OF ok f(1) e] \<open>b \<noteq> a\<close> by blast
    ultimately show ?thesis using s1(3,4,8) j b f by (simp add: ended_def end_mails_def)
  qed
  have "map_of (auctions_of s1 h) j = Some b" if "(j, b) \<in> set m" for j b using other [OF that] by blast
  from Cons.IH [OF s1(2) this] Cons.prems(3) obtain s2 where s2: "each_player (house_update_one v h) m s1 = Inr s2" "auction_ok s2"
    "auctions_of s2 h = filter (\<lambda>(i, a). (i, a) \<notin> set m \<or> \<not> ended v s1 a) (auctions_of s1 h)"
    "\<forall>h'. h' \<noteq> h \<longrightarrow> auctions_of s2 h' = auctions_of s1 h'" "as_money s2 = as_money s1" "as_pending s2 = as_pending s1"
    "\<forall>b. b \<notin> snd ` set m \<longrightarrow> as_heap s2 b = as_heap s1 b"
    "mails s2 = mails s1 @ concat (map (\<lambda>(i, a). end_mails v s1 a) (filter (\<lambda>(i, a). ended v s1 a) m))"
    by (auto simp: x)
  have only: "b = a" if "(i, b) \<in> set (auctions_of s h)" for b
    using that om_get_iff [OF auction_okD(1) [OF ok], of h i b] h by simp
  have "auctions_of s2 h = filter (\<lambda>(j, b). (j, b) \<notin> set m \<or> \<not> ended v s b) (auctions_of s1 h)"
    unfolding s2(3) by (rule filter_cong) (use other in auto)
  also have "\<dots> = filter (\<lambda>(j, b). (j, b) \<notin> set (x # m) \<or> \<not> ended v s b) (auctions_of s h)"
  proof (cases "ended v s a")
    case True
    then show ?thesis
      unfolding s1(4) om_del_def filter_filter if_P [OF True] by (intro filter_cong) (use only in \<open>auto simp: x\<close>)
  next
    case False
    then show ?thesis unfolding s1(4) if_not_P [OF False] by (intro filter_cong) (auto simp: x)
  qed
  finally have house: "auctions_of s2 h = \<dots>" .
  have "map (\<lambda>(i, a). end_mails v s1 a) (filter (\<lambda>(i, a). ended v s1 a) m) = map (\<lambda>(i, a). end_mails v s a) (filter (\<lambda>(i, a). ended v s a) m)"
    using other by (auto intro!: map_cong filter_cong)
  with s2(8) s1(9) have "mails s2 = mails s @ concat (map (\<lambda>(i, a). end_mails v s a) (filter (\<lambda>(i, a). ended v s a) (x # m)))"
    by (simp add: x)
  with s1 s2 house show ?case by (intro exI [of _ s2]) (auto simp: x)
qed

lemma ok_throttle [simp]: "auction_ok (as_upd_house h (\<lambda>x. x\<lparr>ah_GetAllThrottleMap := f x\<rparr>) s) = auction_ok s"
proof -
  have "auctions_of (as_upd_house h (\<lambda>x. x\<lparr>ah_GetAllThrottleMap := f x\<rparr>) s) = auctions_of s"
    by (rule ext) (simp, simp add: auctions_of_def)
  then show ?thesis by (simp add: auction_ok_def)
qed

lemma AuctionHouseObject_Update_run:
  assumes ok: "auction_ok s"
  shows "\<exists>s1. AuctionHouseObject_Update v h s = Inr s1 \<and> auction_ok s1 \<and>
    auctions_of s1 h = filter (\<lambda>(i, a). \<not> ended v s a) (auctions_of s h) \<and>
    (\<forall>h'. h' \<noteq> h \<longrightarrow> auctions_of s1 h' = auctions_of s h') \<and> as_money s1 = as_money s \<and> as_pending s1 = as_pending s \<and>
    (\<forall>b. b \<notin> snd ` set (auctions_of s h) \<longrightarrow> as_heap s1 b = as_heap s b) \<and>
    mails s1 = mails s @ concat (map (\<lambda>(i, a). end_mails v s a) (filter (\<lambda>(i, a). ended v s a) (auctions_of s h)))"
proof (cases "auctions_of s h = []")
  case True
  then show ?thesis using ok by (simp add: AuctionHouseObject_Update_def auctions_of_def [symmetric])
next
  case False
  define s0 where "s0 = as_upd_house h (\<lambda>x. x\<lparr>ah_GetAllThrottleMap := (\<lambda>p. case ah_GetAllThrottleMap x p of
             None \<Rightarrow> None | Some t \<Rightarrow> if gt_NextAllowedReplication t \<le> av_GameTime v then None else Some t)\<rparr>) s"
  have run: "AuctionHouseObject_Update v h s = each_player (house_update_one v h) (auctions_of s h) s0"
    using False by (simp add: AuctionHouseObject_Update_def auctions_of_def [symmetric] s0_def)
  have ok0: "auction_ok s0" using ok by (simp add: s0_def)
  have maps: "auctions_of s0 h' = auctions_of s h'" for h' unfolding s0_def by (simp, simp add: auctions_of_def)
  have same: "ended v s0 = ended v s" "end_mails v s0 = end_mails v s" "mails s0 = mails s" "as_money s0 = as_money s" "as_pending s0 = as_pending s"
    "as_heap s0 = as_heap s"
    by (simp_all add: fun_eq_iff ended_def end_mails_def s0_def mails_def split: option.split)
  have "map_of (auctions_of s0 h) i = Some a" if "(i, a) \<in> set (auctions_of s h)" for i a
    using that om_get_iff [OF auction_okD(1) [OF ok], of h] by (simp add: maps)
  note updates = house_updates [OF ok0 this om_ok_distinct [OF auction_okD(1) [OF ok]], where v = v]
  from updates [unfolded maps same] obtain s1 where s1: "each_player (house_update_one v h) (auctions_of s h) s0 = Inr s1" "auction_ok s1"
    "auctions_of s1 h = filter (\<lambda>(i, a). (i, a) \<notin> set (auctions_of s h) \<or> \<not> ended v s a) (auctions_of s h)"
    "\<forall>h'. h' \<noteq> h \<longrightarrow> auctions_of s1 h' = auctions_of s h'" "as_money s1 = as_money s" "as_pending s1 = as_pending s"
    "\<forall>b. b \<notin> snd ` set (auctions_of s h) \<longrightarrow> as_heap s1 b = as_heap s b"
    "mails s1 = mails s @ concat (map (\<lambda>(i, a). end_mails v s a) (filter (\<lambda>(i, a). ended v s a) (auctions_of s h)))"
    by blast
  have "auctions_of s1 h = filter (\<lambda>(i, a). \<not> ended v s a) (auctions_of s h)"
    unfolding s1(3) by (rule filter_cong) auto
  with s1 run show ?thesis by (intro exI [of _ s1]) simp
qed

lemma AuctionHouseMgr_Update_ok:
  assumes "auction_ok s" shows "kept (AuctionHouseMgr_Update v s)"
proof -
  have "kept (AuctionHouseObject_Update v h t)" if "auction_ok t" for h t
    using AuctionHouseObject_Update_run [OF that, of v h] by auto
  with assms show ?thesis unfolding AuctionHouseMgr_Update_def by (intro kept_then)
qed

subsection \<open>Lists\<close>

lemma house_list_runs: "(\<And>i a. (i, a) \<in> set m \<Longrightarrow> as_heap s a \<noteq> None) \<Longrightarrow> \<exists>r. house_list v mine m s = Inr r"
proof (induction v mine m s rule: house_list.induct)
  case (2 v mine i a m s)
  from "2.prems" obtain e where e: "as_heap s a = Some e" by fastforce
  have "\<exists>r. house_list v mine m s = Inr r" by (rule "2.IH") (use "2.prems" in auto)
  then obtain r where "house_list v mine m s = Inr r" by blast
  with e show ?case by (cases r) simp
qed auto

lemma replicate_runs: "(\<And>i a. (i, a) \<in> set m \<Longrightarrow> as_heap s a \<noteq> None) \<Longrightarrow> \<exists>r. replicate_from v n m s = Inr r"
proof (induction m arbitrary: n)
  case (Cons x m)
  obtain i a where x: "x = (i, a)" by force
  from Cons.prems [of i a] obtain e where e: "as_heap s a = Some e" by (auto simp: x)
  have "\<exists>r. replicate_from v k m s = Inr r" for k by (rule Cons.IH) (use Cons.prems in auto)
  then obtain r q where "replicate_from v n m s = Inr r" "replicate_from v (n - 1) m s = Inr q" by metis
  with e show ?case by (auto simp: x)
qed auto

lemma listed_live: "auction_ok s \<Longrightarrow> (i, a) \<in> set (ah_AuctionsMap (as_house s h)) \<Longrightarrow> as_heap s a \<noteq> None"
  using om_get_iff [OF auction_okD(1)] auction_okD(2) by (fastforce simp: auctions_of_def)

lemma HandleAuctionList_ok:
  assumes "auction_ok s"
  shows "kept (HandleAuctionListBidderItems v p auctioneer s)" "kept (HandleAuctionListOwnerItems v p auctioneer s)"
proof -
  have list: "kept (map_sum id (\<lambda>(infos, n). as_tell (AuctionListResult p infos n) s) (house_list v mine (ah_AuctionsMap (as_house s h)) s))"
    for mine h
  proof -
    have "\<exists>r. house_list v mine (ah_AuctionsMap (as_house s h)) s = Inr r"
      by (rule house_list_runs) (rule listed_live [OF assms])
    with assms show ?thesis by auto
  qed
  show "kept (HandleAuctionListBidderItems v p auctioneer s)" "kept (HandleAuctionListOwnerItems v p auctioneer s)"
    using assms list unfolding HandleAuctionListBidderItems_def HandleAuctionListOwnerItems_def AuctionHouseObject_BuildListBidderItems_def
      AuctionHouseObject_BuildListOwnerItems_def
    by (auto split: option.split)
qed

lemma house_replicate_runs:
  assumes "auction_ok s"
  shows "\<exists>r s1. house_replicate v h p t cursor n s = Inr (r, s1) \<and> auction_ok s1"
proof -
  define m where "m = dropWhile (\<lambda>(i, a). i \<le> cursor) (ah_AuctionsMap (as_house s h))"
  have "set m \<subseteq> set (ah_AuctionsMap (as_house s h))" unfolding m_def by (auto dest: set_dropWhileD)
  then have "\<exists>r. replicate_from v (unat n) m s = Inr r" by (intro replicate_runs) (use listed_live [OF assms] in blast)
  then obtain infos full where "replicate_from v (unat n) m s = Inr (infos, full)" by auto
  then show ?thesis using assms unfolding house_replicate_def Let_def m_def [symmetric] by auto
qed

lemma HandleReplicateItems_ok:
  assumes ok: "auction_ok s"
  shows "kept (HandleReplicateItems v p auctioneer global cursor tombstone n s)"
proof -
  have "\<exists>infos g c t s1. AuctionHouseObject_BuildReplicate v h p global cursor tombstone n s = Inr ((infos, g, c, t), s1) \<and> auction_ok s1" for h
    using house_replicate_runs [OF ok] ok unfolding AuctionHouseObject_BuildReplicate_def Let_def
    by (auto split: option.split)
  then obtain infos g c t s1 where "AuctionHouseObject_BuildReplicate v (AuctionHouseMgr_GetAuctionsMap v (the (av_npc_faction v p auctioneer)))
      p global cursor tombstone n s = Inr ((infos, g, c, t), s1)" "auction_ok s1" by blast
  then show ?thesis using ok unfolding HandleReplicateItems_def
    by (auto split: option.split)
qed

subsection \<open>The list of pending deposits\<close>

text \<open>A walk over pending auctions writes to auctions that exist, or uses one that does not.\<close>

definition walked :: "AuctionServer \<Rightarrow> auction_error + AuctionServer \<Rightarrow> bool" where
  "walked s r \<longleftrightarrow> (case r of Inl err \<Rightarrow> err = UseOfDeletedAuction
     | Inr s1 \<Rightarrow> auction_ok s1 \<and> dom (as_heap s1) = dom (as_heap s) \<and> as_pending s1 = as_pending s)"

lemma walked_step:
  assumes "auction_ok s" "au_read a s = Inr e" "au_Id e1 = au_Id e" "au_itemGUIDLow e1 = au_itemGUIDLow e" "entry_ok e \<Longrightarrow> entry_ok e1"
    "auction_ok (as_tell x (as_tell y (au_write a e1 s))) \<Longrightarrow> walked (as_tell x (as_tell y (au_write a e1 s))) r"
  shows "walked s r"
proof -
  have e: "as_heap s a = Some e" using assms(2) by (simp add: read_iff)
  have "auction_ok (au_write a e1 s)"
    using write_auction_ok [OF assms(1) e assms(3,4)] assms(5) auction_okD(3) [OF assms(1) e] by blast
  with assms(6) have "walked (as_tell x (as_tell y (au_write a e1 s))) r" by simp
  moreover have "dom (as_heap (as_tell x (as_tell y (au_write a e1 s)))) = dom (as_heap s)" using e by auto
  ultimately show ?thesis by (simp add: walked_def split: sum.splits)
qed

lemma pending_deposits_walk: "auction_ok s \<Longrightarrow> walked s (pending_deposits as share remain s)"
proof (induction as arbitrary: s remain)
  case (Cons a as)
  show ?case
  proof (cases "au_read a s")
    case (Inr e)
    show ?thesis
      unfolding pending_deposits.simps Inr and_then.simps Let_def
      by (rule walked_step [OF Cons.prems Inr _ _ _ Cons.IH]) (simp_all add: entry_ok_def)
  qed (auto simp: walked_def au_read_def split: option.splits)
qed (simp add: walked_def)

lemma pending_expire_walk: "auction_ok s \<Longrightarrow> walked s (pending_expire now as s)"
proof (induction as arbitrary: s)
  case (Cons a as)
  show ?case
  proof (cases "au_read a s")
    case (Inr e)
    show ?thesis
      unfolding pending_expire.simps Inr and_then.simps Let_def
      by (rule walked_step [OF Cons.prems Inr _ _ _ Cons.IH]) (simp_all add: entry_ok_def)
  qed (auto simp: walked_def au_read_def split: option.splits)
qed (simp add: walked_def)

lemma read_err: "au_read a s = Inl err \<Longrightarrow> err = UseOfDeletedAuction"
  by (auto simp: au_read_def split: option.splits)

lemma pending_items_err: "pending_items as s = Inl err \<Longrightarrow> err = UseOfDeletedAuction"
proof (induction as)
  case (Cons a as)
  then show ?case by (cases "au_read a s"; cases "pending_items as s") (auto dest: read_err)
qed simp

lemma ok_pending [simp]: "auction_ok (s\<lparr>as_pending := x\<rparr>) = auction_ok s"
  by (rule auction_ok_cong) simp_all

text \<open>What a turn for one player does: the rest of the list stays, and no auction comes or goes.\<close>

definition turned :: "u64 \<Rightarrow> AuctionServer \<Rightarrow> auction_error + AuctionServer \<Rightarrow> bool" where
  "turned p s r \<longleftrightarrow> (case r of Inl err \<Rightarrow> err = UseOfDeletedAuction
     | Inr s1 \<Rightarrow> auction_ok s1 \<and> dom (as_heap s1) = dom (as_heap s) \<and> (\<forall>q. q \<noteq> p \<longrightarrow> map_of (as_pending s1) q = map_of (as_pending s) q))"

lemma PendingAuctionProcess_turn:
  assumes ok: "auction_ok s" and p: "map_of (as_pending s) p = Some (as, n)"
  shows "turned p s (AuctionHouseMgr_PendingAuctionProcess v p s)"
proof (cases "pending_items as s")
  case (Inl err)
  then show ?thesis using pending_items_err [OF Inl] by (simp add: AuctionHouseMgr_PendingAuctionProcess_def p turned_def)
next
  case items: (Inr total)
  show ?thesis
  proof (cases "au_read (hd as) s")
    case (Inl err)
    then show ?thesis using read_err [OF Inl] by (simp add: AuctionHouseMgr_PendingAuctionProcess_def p turned_def items)
  next
    case (Inr e)
    have "walked s (pending_deposits as d r s)" for d r using ok by (rule pending_deposits_walk)
    then show ?thesis
      by (fastforce simp: AuctionHouseMgr_PendingAuctionProcess_def p turned_def items Inr Let_def walked_def split: sum.splits elim!: and_then.elims)
  qed
qed

lemma pending_one_turn:
  assumes ok: "auction_ok s" shows "turned p s (pending_one v p s)"
proof (cases "map_of (as_pending s) p")
  case None
  then show ?thesis using ok by (simp add: pending_one_def turned_def)
next
  case (Some x)
  obtain as n where x: "x = (as, n)" by force
  note P = Some [unfolded x]
  show ?thesis
    using PendingAuctionProcess_turn [OF ok P, of v] pending_expire_walk [OF ok, of "av_time v" as] ok
    by (cases "pending_expire (av_time v) as s") (auto simp: pending_one_def P turned_def walked_def)
qed

lemma UpdatePendingAuctions_ok:
  assumes "auction_ok s"
  shows "case each_player (pending_one v) ps s of Inl err \<Rightarrow> err = UseOfDeletedAuction | Inr s1 \<Rightarrow> auction_ok s1"
  using assms
proof (induction ps arbitrary: s)
  case (Cons p ps)
  from pending_one_turn [OF Cons.prems, of p v] Cons.IH show ?case
    by (cases "pending_one v p s") (auto simp: turned_def)
qed simp

text \<open>A pending auction that is gone is used after at most two updates: the first one may only count.\<close>

definition gone_pending :: "u64 \<Rightarrow> nat list \<Rightarrow> nat \<Rightarrow> AuctionServer \<Rightarrow> u32 \<Rightarrow> bool" where
  "gone_pending p as a s n \<longleftrightarrow> auction_ok s \<and> a \<in> set as \<and> as_heap s a = None \<and> map_of (as_pending s) p = Some (as, n)"

lemma gone_items: "a \<in> set as \<Longrightarrow> as_heap s a = None \<Longrightarrow> pending_items as s = Inl UseOfDeletedAuction"
proof (induction as)
  case (Cons b as)
  then show ?case by (cases "as_heap s b"; cases "pending_items as s") (auto dest: pending_items_err)
qed simp

lemma gone_expire: "a \<in> set as \<Longrightarrow> as_heap s a = None \<Longrightarrow> pending_expire now as s = Inl UseOfDeletedAuction"
proof (induction as arbitrary: s)
  case (Cons b as)
  show ?case
  proof (cases "as_heap s b")
    case (Some e)
    with Cons.prems have "b \<noteq> a" "a \<in> set as" by auto
    with Cons.IH [of "as_tell _ (as_tell _ (au_write b (e\<lparr>au_expire_time := now\<rparr>) s))"] Cons.prems Some show ?thesis
      by (simp add: Let_def)
  qed simp
qed simp

lemma gone_turn:
  assumes "gone_pending p as a s n"
  shows "pending_one v q s = Inl UseOfDeletedAuction \<or>
    (\<exists>s1. pending_one v q s = Inr s1 \<and> gone_pending p as a s1 (if q = p then of_nat (length as) else n) \<and> (q = p \<longrightarrow> n \<noteq> of_nat (length as)))"
proof (cases "q = p")
  case False
  from assms have ok: "auction_ok s" by (simp add: gone_pending_def)
  show ?thesis
  proof (cases "pending_one v q s")
    case (Inr s1)
    with pending_one_turn [OF ok, of q v] False
    have s1: "auction_ok s1" "dom (as_heap s1) = dom (as_heap s)" "map_of (as_pending s1) p = map_of (as_pending s) p"
      by (simp_all add: turned_def)
    have "as_heap s1 a = None" using s1(2) assms by (metis domIff gone_pending_def)
    with s1 assms False Inr show ?thesis by (simp add: gone_pending_def)
  qed (use pending_one_turn [OF ok, of q v] in \<open>simp add: turned_def\<close>)
next
  case True
  from assms have g: "a \<in> set as" "as_heap s a = None" "map_of (as_pending s) p = Some (as, n)" "auction_ok s"
    by (simp_all add: gone_pending_def)
  have c: "AuctionHouseMgr_PendingAuctionCount p s = of_nat (length as)"
    by (simp add: AuctionHouseMgr_PendingAuctionCount_def pending_of_def g)
  have "AuctionHouseMgr_PendingAuctionProcess v p s = Inl UseOfDeletedAuction"
    by (simp add: AuctionHouseMgr_PendingAuctionProcess_def g gone_items [OF g(1,2)])
  with True g c gone_expire [OF g(1,2)] show ?thesis by (simp add: pending_one_def gone_pending_def)
qed

lemma gone_turns:
  "gone_pending p as a s n \<Longrightarrow> each_player (pending_one v) ps s = Inl UseOfDeletedAuction \<or>
    (\<exists>s1. each_player (pending_one v) ps s = Inr s1 \<and> gone_pending p as a s1 (if p \<in> set ps then of_nat (length as) else n) \<and>
      (p \<in> set ps \<longrightarrow> n \<noteq> of_nat (length as)))"
proof (induction ps arbitrary: s n)
  case (Cons q ps)
  show ?case
  proof (cases "pending_one v q s = Inl UseOfDeletedAuction")
    case False
    then obtain s1 where s1: "pending_one v q s = Inr s1" "gone_pending p as a s1 (if q = p then of_nat (length as) else n)"
      "q = p \<longrightarrow> n \<noteq> of_nat (length as)" using gone_turn [OF Cons.prems, of v q] by blast
    from Cons.IH [OF s1(2)] s1 show ?thesis by (auto split: if_splits)
  qed simp
qed simp

lemma gone_two_updates:
  assumes "gone_pending p as a s n"
  shows "and_then (AuctionHouseMgr_UpdatePendingAuctions v s) (AuctionHouseMgr_UpdatePendingAuctions v) = Inl UseOfDeletedAuction"
proof -
  have listed: "p \<in> set (map fst (as_pending t))" if "gone_pending p as a t k" for t k
    using that by (force simp: gone_pending_def dest: map_of_SomeD)
  from gone_turns [OF assms, of v "map fst (as_pending s)"] listed [OF assms] show ?thesis
  proof (elim disjE exE conjE)
    fix s1 assume s1: "each_player (pending_one v) (map fst (as_pending s)) s = Inr s1"
      "gone_pending p as a s1 (if p \<in> set (map fst (as_pending s)) then of_nat (length as) else n)"
    with listed [OF assms] have g: "gone_pending p as a s1 (of_nat (length as))" by simp
    from gone_turns [OF g, of v "map fst (as_pending s1)"] listed [OF g] s1 show ?thesis
      by (auto simp: AuctionHouseMgr_UpdatePendingAuctions_def)
  qed (simp add: AuctionHouseMgr_UpdatePendingAuctions_def)
qed

subsection \<open>Runs\<close>

lemma auction_do_ok:
  assumes "auction_ok s" "step_ok v x s"
  shows "case auction_do v x s of Inl err \<Rightarrow> err = AuctionIdOverflow \<or> err = UseOfDeletedAuction \<and> x = UpdatePending | Inr s1 \<Rightarrow> auction_ok s1"
proof -
  have from_kept: "kept r \<Longrightarrow> case r of Inl err \<Rightarrow> err = AuctionIdOverflow \<or> err = UseOfDeletedAuction \<and> x = UpdatePending | Inr s1 \<Rightarrow> auction_ok s1"
    for r by (simp add: kept_def split: sum.splits)
  show ?thesis
  proof (cases x)
    case (SellItem p auctioneer minBid buyout runTime offer)
    have "kept (auction_do v x s)"
      unfolding SellItem auction_do_def auction_step.case
      by (rule HandleAuctionSellItem_ok [OF assms(1)]) (use assms(2) in \<open>auto simp: SellItem step_ok_def\<close>)
    then show ?thesis by (rule from_kept)
  next
    case (PlaceBid p auctioneer i amount)
    with assms have "kept (auction_do v x s)" by (simp add: auction_do_def step_ok_def HandleAuctionPlaceBid_ok)
    then show ?thesis by (rule from_kept)
  next
    case UpdatePending
    from UpdatePendingAuctions_ok [OF assms(1), of v "map fst (as_pending s)"] show ?thesis
      unfolding UpdatePending auction_do_def auction_step.case AuctionHouseMgr_UpdatePendingAuctions_def by (simp split: sum.splits)
  qed (rule from_kept, simp add: auction_do_def HandleAuctionRemoveItem_ok HandleAuctionList_ok HandleReplicateItems_ok
      AuctionHouseMgr_Update_ok assms(1))+
qed

fun auction_run :: "(AuctionView \<times> auction_step) list \<Rightarrow> AuctionServer \<Rightarrow> auction_error + AuctionServer" where
  "auction_run [] s = Inr s"
| "auction_run ((v, x) # xs) s = and_then (auction_do v x s) (auction_run xs)"

fun steps_ok :: "(AuctionView \<times> auction_step) list \<Rightarrow> AuctionServer \<Rightarrow> bool" where
  "steps_ok [] s = True"
| "steps_ok ((v, x) # xs) s = (step_ok v x s \<and> (case auction_do v x s of Inl err \<Rightarrow> True | Inr s1 \<Rightarrow> steps_ok xs s1))"

definition AuctionServer_init :: "(u64 \<Rightarrow> u64) \<Rightarrow> (u64 \<Rightarrow> (u64 \<times> Item) list) \<Rightarrow> AuctionServer" where
  "AuctionServer_init money bags = \<lparr>as_house = (\<lambda>h. \<lparr>ah_AuctionsMap = [], ah_GetAllThrottleMap = (\<lambda>p. None)\<rparr>), as_heap = (\<lambda>a. None),
     as_fresh = 0, as_mAitems = (\<lambda>i. None), as_pending = [], as_money = money, as_inventory = bags, as_auctionId = 1, as_sent = []\<rparr>"

lemma init_auction_ok: "auction_ok (AuctionServer_init money bags)"
  by (simp add: auction_ok_def AuctionServer_init_def auctions_of_def om_ok_def)

lemma auction_run_ok:
  assumes "auction_ok s" "steps_ok steps s"
  shows "case auction_run steps s of
      Inl err \<Rightarrow> err = AuctionIdOverflow \<or> err = UseOfDeletedAuction \<and> UpdatePending \<in> snd ` set steps
    | Inr s1 \<Rightarrow> auction_ok s1"
  using assms
proof (induction steps s rule: auction_run.induct)
  case (2 v x xs s)
  from 2(2,3) auction_do_ok [of s v x] have x: "case auction_do v x s of
      Inl err \<Rightarrow> err = AuctionIdOverflow \<or> err = UseOfDeletedAuction \<and> x = UpdatePending | Inr s1 \<Rightarrow> auction_ok s1" by simp
  show ?case
  proof (cases "auction_do v x s")
    case (Inl err)
    with x show ?thesis by auto
  next
    case (Inr s1)
    with 2(3) x have "steps_ok xs s1" "auction_ok s1" by simp_all
    with 2(1) [of s1] Inr show ?thesis by (auto split: sum.splits)
  qed
qed simp

subsection \<open>A small house to evaluate on\<close>

definition demo_ah_view :: "int \<Rightarrow> AuctionView" where
  "demo_ah_view now = \<lparr>av_npc_faction = (\<lambda>p n. Some 12), av_two_side = False, av_factionGroup = (\<lambda>f. Some 2),
     av_houses = (\<lambda>i. Some \<lparr>ahe_ID = i, ahe_ConsignmentRate = 5, ahe_DepositRate = 15\<rparr>), av_CalculatePct = (\<lambda>n pct. n * ucast pct div 100),
     av_rate_cut = id, av_deposit = (\<lambda>entry time item n. 100), av_auction_time = id, av_connected = (\<lambda>p. True), av_in_world = (\<lambda>p. True),
     av_account = (\<lambda>p. ucast p), av_IsBotChar = (\<lambda>p. False), av_time = now, av_GameTime = now, av_getall_delay = 900,
     av_CloneItem = (\<lambda>item n. None)\<rparr>"

definition demo_ah_item :: Item where
  "demo_ah_item = \<lparr>it_guid = 7, it_entry = 25, it_count = 1, it_max_stack = 1, it_tradeable = True, it_nonempty_bag = False,
     it_conjured = False, it_duration = 0\<rparr>"

definition demo_ah_server :: AuctionServer where
  "demo_ah_server = AuctionServer_init (\<lambda>p. 1000) (\<lambda>p. if p = 1 then [(7, demo_ah_item)] else [])"

text \<open>Player 1 sells its item, player 2 bids on it.\<close>

definition demo_ah_steps :: "(AuctionView \<times> auction_step) list" where
  "demo_ah_steps = [(demo_ah_view 0, SellItem 1 50 10 0 720 [(7, 1)]), (demo_ah_view 60, PlaceBid 2 50 1 20)]"

definition bidder_named :: "auction_step \<Rightarrow> bool" where
  "bidder_named x = (case x of PlaceBid p auctioneer i amount \<Rightarrow> p \<noteq> 0 | _ \<Rightarrow> True)"

lemma no_clones_ok: "\<forall>(v, x) \<in> set steps. av_CloneItem v = (\<lambda>item n. None) \<and> bidder_named x \<Longrightarrow> steps_ok steps s"
proof (induction steps s rule: steps_ok.induct)
  case (2 v x xs s)
  then show ?case by (auto simp: step_ok_def bidder_named_def split: sum.split auction_step.splits)
qed simp

lemma demo_ah_allowed: "steps_ok demo_ah_steps demo_ah_server"
  by (rule no_clones_ok) (simp add: demo_ah_steps_def demo_ah_view_def bidder_named_def)

text \<open>C12: The auctions stay in order whatever players sell, bid on, buy out, cancel and list, and whenever the server updates the
  houses and the pending deposits. Every auction is in exactly one house, under its id, and in no house is one that has been
  deleted; the lowest bid and the buyout price are within the limit of money; there is a bid exactly if there is a bidder, it
  reaches the lowest bid, and is below the buyout price if there is one; its item is kept by the manager, for no other auction.
  A run can only go wrong when all ids have been used, or in an update of the pending deposits. Players have ids, and an item
  made from parts of stacks is a new one.\<close>

theorem auctions_stay_in_order:
  assumes "auction_ok s" "steps_ok steps s"
  shows "case auction_run steps s of
      Inl err \<Rightarrow> err = AuctionIdOverflow \<or> err = UseOfDeletedAuction \<and> UpdatePending \<in> snd ` set steps
    | Inr s1 \<Rightarrow> auction_ok s1"
  using assms by (rule auction_run_ok)

lemma auctions_stay_in_order_witness:
  "case auction_run demo_ah_steps demo_ah_server of Inl err \<Rightarrow> False
   | Inr s1 \<Rightarrow> auction_ok s1 \<and> map_option (\<lambda>e. (au_owner e, au_bidder e, au_bid e)) (as_heap s1 0) = Some (1, 2, 20) \<and> as_money s1 2 = 980"
proof -
  have "auction_ok demo_ah_server" by (simp add: demo_ah_server_def init_auction_ok)
  note ok = auctions_stay_in_order [OF this demo_ah_allowed]
  have "case auction_run demo_ah_steps demo_ah_server of Inl err \<Rightarrow> False
    | Inr s1 \<Rightarrow> map_option (\<lambda>e. (au_owner e, au_bidder e, au_bid e)) (as_heap s1 0) = Some (1, 2, 20) \<and> as_money s1 2 = 980" by code_simp
  with ok show ?thesis by (simp split: sum.splits)
qed



text \<open>The list of pending deposits keeps an auction that is cancelled: the second update after that, at the latest, uses it.\<close>

theorem cancelled_auction_is_used_again:
  assumes "auction_ok s" "av_npc_faction v p auctioneer = Some faction"
    and "AuctionHouseObject_GetAuction i (as_house s (AuctionHouseMgr_GetAuctionsMap v faction)) = Some a"
    and "as_heap s a = Some e" "au_owner e = p" "au_bidder e = 0" "a \<in> set (pending_of p s)"
  shows "and_then (HandleAuctionRemoveItem v p auctioneer i s) (\<lambda>s1.
    and_then (AuctionHouseMgr_UpdatePendingAuctions w s1) (AuctionHouseMgr_UpdatePendingAuctions w)) = Inl UseOfDeletedAuction"
proof -
  let ?h = "AuctionHouseMgr_GetAuctionsMap v faction"
  obtain item where item: "as_mAitems s (au_itemGUIDLow e) = Some item" using auction_okD(3) [OF assms(1,4)] by auto
  have h: "map_of (auctions_of s ?h) (au_Id e) = Some a"
    using house_auction [OF assms(1,3)] assms(4) by auto
  obtain as n where pending: "map_of (as_pending s) p = Some (as, n)" "a \<in> set as"
    using assms(7) by (cases "map_of (as_pending s) p") (auto simp: pending_of_def)
  have "HandleAuctionRemoveItem v p auctioneer i s = cancel_auction v ?h p a e item s"
    by (simp add: HandleAuctionRemoveItem_def Let_def assms(2-6) item AuctionHouseMgr_GetAItem_def)
  moreover obtain s1 where s1: "cancel_auction v ?h p a e item s = Inr s1" "gone_pending p as a s1 n"
  proof -
    have gone: "\<exists>s1. AuctionHouseObject_RemoveAuction ?h a s' = Inr s1 \<and> gone_pending p as a s1 n"
      if "as_same s s'" "as_mAitems s' = (as_mAitems s)(au_itemGUIDLow e := None)" for s'
      using remove_auction_ok [OF assms(1,4) h that] pending by (auto simp: gone_pending_def)
    have "\<exists>s1. cancel_auction v ?h p a e item s = Inr s1 \<and> gone_pending p as a s1 n"
      unfolding cancel_auction_def Let_def by (rule gone) simp_all
    with that show thesis by blast
  qed
  ultimately show ?thesis using gone_two_updates [OF s1(2)] by simp
qed

end
