(* ===== verification/Spec2Isabelle.thy ===== *)
theory Spec2Isabelle
  imports Prelude Timer EventMap EventProcessor MessageBuffer ByteBuffer ObjectGuid RBAC PhaseShift
    Util ChannelNotify Channel ChannelMgr Reputation LFGRoles LFGData LFGQueue LFGMgr LFGJoin LFGScripts LFGVotes LFGInvariant
    GroupMgr GroupData GroupSettings GroupRolls GroupInstances GroupMembers GroupHandler GroupExample GroupInvariant GroupLoot
    AuctionHouse AuctionInvariant
begin

text \<open>
  A verification development for AshamaneCore, a World of Warcraft server for client 7.3.5
  (TrinityCore; C++ under \<^verbatim>\<open>src/src\<close>). The server is a world loop that reads packets from
  sessions, lets handlers change the objects of the game, and updates maps and managers at each
  tick. The development models the parts that carry its own logic and can be stated without the
  client's data files, the data base server and the map geometry.

  Theories, in the order they build on each other (each opens with a description of its own):

  \<^item> \<open>Prelude\<close>: ordered association lists for \<^verbatim>\<open>std::map\<close>, \<^verbatim>\<open>std::multimap\<close> and \<^verbatim>\<open>std::set\<close>, failing
    computations as sums, machine integers, and the contracts \<open>keyed_store\<close> and \<open>guarded_run\<close>.
  \<^item> \<open>Timer\<close> (\<^verbatim>\<open>common/Utilities/Timer.h\<close>): the interval, countdown and periodic timers of the update
    loops, with time as a mathematical or a 32-bit integer as in the code.
  \<^item> \<open>EventMap\<close> (\<^verbatim>\<open>common/Utilities/EventMap\<close>): the scheduler of the boss scripts.
  \<^item> \<open>EventProcessor\<close> (\<^verbatim>\<open>common/Utilities/EventProcessor\<close>): the event queue of every unit, with virtual
    functions as callbacks and events as addresses in a heap, so that the use of a deleted event is
    an error. The loop of \<open>Update\<close> is a partial function; that it returns is a theorem.
  \<^item> \<open>MessageBuffer\<close>, \<open>ByteBuffer\<close>, \<open>ObjectGuid\<close>: from the bytes of a socket to packets and the
    128-bit identifiers of the objects.
  \<^item> \<open>RBAC\<close> (\<^verbatim>\<open>game/Accounts/RBAC\<close>, \<^verbatim>\<open>AccountMgr\<close>): permissions of accounts.
  \<^item> \<open>PhaseShift\<close> (\<^verbatim>\<open>game/Phasing\<close>): who sees whom.
  \<^item> \<open>Util\<close>, \<open>ChannelNotify\<close>, \<open>Channel\<close>, \<open>ChannelMgr\<close> (\<^verbatim>\<open>game/Chat/Channels\<close>, \<^verbatim>\<open>game/Handlers/ChannelHandler\<close>): chat
    channels, with the packets they send and what they store; their registries, the packets of the client, and the
    lists of channels of the players.

  \<^item> \<open>Reputation\<close> (\<^verbatim>\<open>game/Reputation\<close>): the standing of a player with the factions, its packets and its rows
    in the data base.
  \<^item> \<open>LFGRoles\<close>, \<open>LFGData\<close>, \<open>LFGQueue\<close>, \<open>LFGMgr\<close>, \<open>LFGJoin\<close>, \<open>LFGScripts\<close> (\<^verbatim>\<open>game/DungeonFinding\<close>,
    \<^verbatim>\<open>game/Handlers/LFGHandler\<close>): the dungeon finder: the role check, the state of players and groups, the
    search for full groups, role checks, proposals and kick votes, joining with its checks and rewards,
    and what log-ins, group changes and packets do. \<open>LFGVotes\<close> compares votes and failed proposals with
    their abstract specification, \<open>LFGInvariant\<close> states what holds over every run of the finder. The
    making of the group, teleports and spells are events; item levels and coordinates, which are only
    copied and compared, are rational numbers.

  \<^item> \<open>GroupMgr\<close>, \<open>GroupData\<close>, \<open>GroupSettings\<close>, \<open>GroupRolls\<close>, \<open>GroupInstances\<close>, \<open>GroupMembers\<close>, \<open>GroupHandler\<close>
    (\<^verbatim>\<open>game/Groups\<close>, \<^verbatim>\<open>game/Handlers/GroupHandler\<close>): parties and raids: the registry and its ids, the class
    with the references between players and groups, settings and ready checks, rolls for loot, instance binds, who is
    in a group, and the packets of the client. A group calls the dungeon finder where its scripts are hooked.
    \<open>GroupInvariant\<close> states what every packet keeps of a group, \<open>GroupLoot\<close> who wins a roll; \<open>GroupExample\<close> is a
    small server on which the witnesses run.

  \<^item> \<open>AuctionHouse\<close> (\<^verbatim>\<open>game/AuctionHouse\<close>, \<^verbatim>\<open>game/Handlers/AuctionHouseHandler\<close>): auctions as objects at addresses, which
    the houses and the list of pending deposits share: selling, bidding, cancelling, the end of an auction, mails and
    lists. \<open>AuctionInvariant\<close> states what every step keeps, how ended auctions are settled, and how the list of pending
    deposits comes to use an auction that is gone.

  Conventions. A class is a record whose fields carry a short prefix; a method of class \<open>C\<close> named \<open>m\<close>
  is the definition \<open>C_m\<close>, with the object as its last argument and the changed object in the result.
  A thrown exception, a failed assertion and undefined behaviour are \<open>Inl\<close> of an error; in the chat channels a
  failed assertion is an event, \<open>ChAssertFailed\<close>, where the code fails it. Effects on
  other parts (packets, statements for the data base, calls into other objects) are lists of events
  in the order the code has them. Code and data that are not in the repository's game logic (the
  data base rows, the client data, the player registry, random numbers) are arguments.

  Lemma groups. Each theory proves the laws of its operations (what they change and what they keep),
  an invariant that every operation preserves, and the properties named \<open>C1\<close>, \<open>C2\<close>, and so on, which
  state what the component promises: round trips of the encodings, the exact effect of an update,
  the equivalence of an optimised routine with its specification, safety over all sequences of
  operations, and the only ways an operation can go wrong. The contracts between components are
  locales (\<open>keyed_store\<close>, \<open>guarded_run\<close>, \<open>byte_queue\<close>, \<open>wire_type\<close> and the contracts of the event
  containers), each interpreted on the model of the code.

  Bounds. Only the role check runs on fuel, with a theorem that the sum of the roles is enough; all other loops are structural, or come with a termination proof
  (the permission closure, packing, string reading, the search for groups), or are partial functions with a theorem that
  they return (\<open>EventProcessor_Update\<close>).

  Not modelled: spell casting, units, maps and movement (they need the client data and floating point
  geometry), the data base layer, networking and cryptography (I/O and libraries), the loaders of
  client data, the content scripts, and the managers that are mostly data base records.
  Logging has no effect in the model.
\<close>

end
